(* ===== verification/I3_Prelude.thy ===== *)
theory I3_Prelude
  imports Complex_Main "HOL-Library.Word" "HOL-Library.Multiset"
begin

text \<open>
  What every component of the development shares: the collections its automation uses, the
  queue operations of \<^verbatim>\<open>include/queue.h\<close> on lists, and two walks (up a parent function, down a
  child function) with the laws that make them independent of their fuel.
\<close>

named_theorems tailq "set, distinctness and length of the queue operations"
named_theorems frame "what an operation on the state leaves unchanged"
named_theorems keeps "operations that keep the tree invariant"

subsection \<open>Tail queues\<close>

text \<open>
  The code keeps its children, focus stacks, marks and workspaces in BSD tail queues. A queue is
  read here as the list of its elements, head first. \<open>TAILQ_INSERT_HEAD\<close> is \<open>(#)\<close>,
  \<open>TAILQ_INSERT_TAIL\<close> appends, \<open>TAILQ_REMOVE\<close> is \<^const>\<open>remove1\<close> (an element is linked at most
  once), \<open>TAILQ_FIRST\<close> and \<open>TAILQ_LAST\<close> are NULL (here \<^const>\<open>None\<close>) on the empty queue.
\<close>

definition tailq_first :: "'a list \<Rightarrow> 'a option" where
  "tailq_first xs = (case xs of [] \<Rightarrow> None | x # _ \<Rightarrow> Some x)"

definition tailq_last :: "'a list \<Rightarrow> 'a option" where
  "tailq_last xs = (if xs = [] then None else Some (last xs))"

fun tailq_next :: "'a \<Rightarrow> 'a list \<Rightarrow> 'a option" where
  "tailq_next x [] = None"
| "tailq_next x (y # ys) = (if x = y then tailq_first ys else tailq_next x ys)"

fun tailq_prev :: "'a \<Rightarrow> 'a list \<Rightarrow> 'a option" where
  "tailq_prev x (y # z # zs) = (if x = y then None else if x = z then Some y else tailq_prev x (z # zs))"
| "tailq_prev x ys = None"

text \<open>\<open>tailq_insert_before l e xs\<close>: \<open>TAILQ_INSERT_BEFORE(l, e, field)\<close> in the queue that holds \<open>l\<close>.\<close>

fun tailq_insert_before :: "'a \<Rightarrow> 'a \<Rightarrow> 'a list \<Rightarrow> 'a list" where
  "tailq_insert_before l e [] = []"
| "tailq_insert_before l e (y # ys) = (if y = l then e # y # ys else y # tailq_insert_before l e ys)"

fun tailq_insert_after :: "'a \<Rightarrow> 'a \<Rightarrow> 'a list \<Rightarrow> 'a list" where
  "tailq_insert_after l e [] = []"
| "tailq_insert_after l e (y # ys) = (if y = l then y # e # ys else y # tailq_insert_after l e ys)"

definition tailq_replace :: "'a \<Rightarrow> 'a \<Rightarrow> 'a list \<Rightarrow> 'a list" where
  "tailq_replace a b xs = map (\<lambda>x. if x = a then b else x) xs"

text \<open>\<open>TAILQ_SWAP(first, second, head, field)\<close> of \<^verbatim>\<open>include/queue.h\<close>: \<open>first\<close> is directly before
  \<open>second\<close>; \<open>first\<close> is unlinked and inserted after \<open>second\<close>.\<close>

definition tailq_swap :: "'a \<Rightarrow> 'a \<Rightarrow> 'a list \<Rightarrow> 'a list" where
  "tailq_swap a b xs = tailq_insert_after b a (remove1 a xs)"

lemma tailq_first_simps [simp]:
  "tailq_first [] = None" "tailq_first (x # xs) = Some x"
  by (simp_all add: tailq_first_def)

lemma tailq_first_None_iff [simp]: "tailq_first xs = None \<longleftrightarrow> xs = []"
  by (cases xs) auto

lemma tailq_first_in: "tailq_first xs = Some x \<Longrightarrow> x \<in> set xs"
  by (cases xs) auto

lemma tailq_last_in: "tailq_last xs = Some x \<Longrightarrow> x \<in> set xs"
  by (auto simp: tailq_last_def split: if_splits)

lemma tailq_next_in: "tailq_next x xs = Some y \<Longrightarrow> y \<in> set xs"
  by (induction x xs rule: tailq_next.induct) (auto split: if_splits dest: tailq_first_in)

lemma tailq_prev_in: "tailq_prev x xs = Some y \<Longrightarrow> y \<in> set xs"
  by (induction x xs rule: tailq_prev.induct) (auto split: if_splits)

lemma tailq_next_neq: "distinct xs \<Longrightarrow> tailq_next x xs = Some y \<Longrightarrow> y \<noteq> x"
  by (induction x xs rule: tailq_next.induct) (auto split: if_splits dest: tailq_first_in)

lemma tailq_prev_neq: "distinct xs \<Longrightarrow> tailq_prev x xs = Some y \<Longrightarrow> y \<noteq> x"
  by (induction x xs rule: tailq_prev.induct) (auto split: if_splits)

lemma set_tailq_insert_before [tailq]:
  "set (tailq_insert_before l e xs) = (if l \<in> set xs then insert e (set xs) else set xs)"
  by (induction xs) auto

lemma set_tailq_insert_after [tailq]:
  "set (tailq_insert_after l e xs) = (if l \<in> set xs then insert e (set xs) else set xs)"
  by (induction xs) auto

lemma distinct_tailq_insert_before [tailq]:
  "e \<notin> set xs \<Longrightarrow> distinct (tailq_insert_before l e xs) = distinct xs"
  by (induction xs) (auto simp: set_tailq_insert_before)

lemma distinct_tailq_insert_after [tailq]:
  "e \<notin> set xs \<Longrightarrow> distinct (tailq_insert_after l e xs) = distinct xs"
  by (induction xs) (auto simp: set_tailq_insert_after)

lemma remove1_tailq_insert_before [simp]:
  "e \<notin> set xs \<Longrightarrow> remove1 e (tailq_insert_before l e xs) = xs"
  by (induction xs) auto

lemma remove1_tailq_insert_after [simp]:
  "e \<notin> set xs \<Longrightarrow> remove1 e (tailq_insert_after l e xs) = xs"
  by (induction xs) auto

lemma mset_tailq_insert_before [tailq]:
  "mset (tailq_insert_before l e xs) = (if l \<in> set xs then add_mset e (mset xs) else mset xs)"
  by (induction xs) auto

lemma mset_tailq_insert_after [tailq]:
  "mset (tailq_insert_after l e xs) = (if l \<in> set xs then add_mset e (mset xs) else mset xs)"
  by (induction xs) auto

lemma set_tailq_replace [tailq]:
  "set (tailq_replace a b xs) = (if a \<in> set xs then insert b (set xs - {a}) else set xs)"
  by (auto simp: tailq_replace_def)

lemma distinct_tailq_replace [tailq]:
  "distinct xs \<Longrightarrow> b \<notin> set xs \<Longrightarrow> distinct (tailq_replace a b xs)"
  by (auto simp: tailq_replace_def distinct_map inj_on_def)

lemma length_tailq_replace [simp]: "length (tailq_replace a b xs) = length xs"
  by (simp add: tailq_replace_def)

lemma set_tailq_swap [tailq]:
  "distinct xs \<Longrightarrow> a \<in> set xs \<Longrightarrow> b \<in> set xs \<Longrightarrow> a \<noteq> b \<Longrightarrow> set (tailq_swap a b xs) = set xs"
  by (auto simp: tailq_swap_def tailq)

lemma distinct_tailq_swap [tailq]: "distinct xs \<Longrightarrow> distinct (tailq_swap a b xs)"
  by (simp add: tailq_swap_def tailq)

text \<open>What \<open>TAILQ_SWAP\<close> is for: the two neighbours change places, nothing else moves.\<close>

lemma tailq_swap_neighbours:
  "distinct (us @ a # b # vs) \<Longrightarrow> tailq_swap a b (us @ a # b # vs) = us @ b # a # vs"
proof (induction us)
  case Nil
  then show ?case by (simp add: tailq_swap_def)
next
  case (Cons u us)
  then show ?case by (auto simp: tailq_swap_def)
qed

lemma tailq_prev_split:
  assumes "distinct xs" and "tailq_prev x xs = Some p"
  obtains us vs where "xs = us @ p # x # vs"
proof -
  from assms have "\<exists>us vs. xs = us @ p # x # vs"
  proof (induction x xs rule: tailq_prev.induct)
    case (1 x y z zs)
    show ?case
    proof (cases "x = z")
      case True
      with 1 have "y # z # zs = [] @ p # x # zs" by (auto split: if_splits)
      then show ?thesis by blast
    next
      case False
      with 1 obtain us vs where "z # zs = us @ p # x # vs" by (auto split: if_splits)
      then have "y # z # zs = (y # us) @ p # x # vs" by simp
      then show ?thesis by blast
    qed
  qed simp_all
  with that show thesis by blast
qed

lemma tailq_next_split:
  assumes "tailq_next x xs = Some n"
  obtains us vs where "xs = us @ x # n # vs"
proof -
  from assms have "\<exists>us vs. xs = us @ x # n # vs"
  proof (induction x xs rule: tailq_next.induct)
    case (2 x y ys)
    show ?case
    proof (cases "x = y")
      case True
      with 2 obtain zs where "ys = n # zs" by (cases ys) auto
      with True have "y # ys = [] @ x # n # zs" by simp
      then show ?thesis by blast
    next
      case False
      with 2 obtain us vs where "ys = us @ x # n # vs" by auto
      then have "y # ys = (y # us) @ x # n # vs" by simp
      then show ?thesis by blast
    qed
  qed simp
  with that show thesis by blast
qed

subsection \<open>Walks with fuel\<close>

text \<open>
  The code walks the container tree with loops and recursion that stop because the tree is finite
  and has no cycle. Here such a function \<open>F\<close> takes fuel, spends one unit per level and is called
  with the number of allocated containers. The two locales say when this is no restriction. A
  \<open>bounded_walk\<close> is a successor function on the allocated nodes that is closed and has a rank that
  decreases; a \<open>fuel_recursion\<close> is a function unrolled along it. Then one level of \<open>F\<close> at full fuel
  is the code's body with \<open>F\<close> at full fuel for the recursive calls: the fuel is invisible.
\<close>

locale bounded_walk =
  fixes succs :: "'s \<Rightarrow> 'i \<Rightarrow> 'i list"
    and ids :: "'s \<Rightarrow> 'i list"
    and ok :: "'s \<Rightarrow> bool"
  assumes closed: "ok s \<Longrightarrow> c \<in> set (ids s) \<Longrightarrow> d \<in> set (succs s c) \<Longrightarrow> d \<in> set (ids s)"
    and ranked: "ok s \<Longrightarrow> \<exists>r :: 'i \<Rightarrow> nat. \<forall>c \<in> set (ids s). \<forall>d \<in> set (succs s c). r d < r c"
begin

lemma short_rank:
  assumes "ok s"
  shows "\<exists>m :: 'i \<Rightarrow> nat. (\<forall>c \<in> set (ids s). m c < length (ids s)) \<and>
    (\<forall>c \<in> set (ids s). \<forall>d \<in> set (succs s c). m d < m c)"
proof -
  from ranked [OF assms] obtain r :: "'i \<Rightarrow> nat"
    where r: "\<forall>c \<in> set (ids s). \<forall>d \<in> set (succs s c). r d < r c" by blast
  define below where "below c = {e \<in> set (ids s). r e < r c}" for c
  have "card (below c) < length (ids s)" if "c \<in> set (ids s)" for c
  proof -
    have "below c \<subset> set (ids s)" using that by (auto simp: below_def)
    then have "card (below c) < card (set (ids s))" by (intro psubset_card_mono) auto
    then show ?thesis using card_length [of "ids s"] by linarith
  qed
  moreover have "card (below d) < card (below c)"
    if "c \<in> set (ids s)" "d \<in> set (succs s c)" for c d
  proof -
    have "d \<in> set (ids s)" using closed [OF assms] that by blast
    moreover have "r d < r c" using r that by blast
    ultimately have "below d \<subset> below c" by (auto simp: below_def)
    then show ?thesis by (intro psubset_card_mono) (auto simp: below_def)
  qed
  ultimately show ?thesis by (intro exI [of _ "\<lambda>c. card (below c)"]) blast
qed

lemma walk_induct:
  assumes "ok s" and "c \<in> set (ids s)"
    and "\<And>c. c \<in> set (ids s) \<Longrightarrow> (\<And>d. d \<in> set (succs s c) \<Longrightarrow> P d) \<Longrightarrow> P c"
  shows "P c"
proof -
  from ranked [OF assms(1)] obtain r :: "'i \<Rightarrow> nat"
    where r: "\<forall>c \<in> set (ids s). \<forall>d \<in> set (succs s c). r d < r c" by blast
  show ?thesis using assms(2)
  proof (induction "r c" arbitrary: c rule: less_induct)
    case less
    show ?case
    proof (rule assms(3) [OF less.prems])
      fix d assume d: "d \<in> set (succs s c)"
      show "P d"
        by (rule less.hyps) (use r closed [OF assms(1)] less.prems d in blast)+
    qed
  qed
qed

end

locale fuel_recursion = bounded_walk succs ids ok
  for succs :: "'s \<Rightarrow> 'i \<Rightarrow> 'i list" and ids :: "'s \<Rightarrow> 'i list" and ok :: "'s \<Rightarrow> bool" +
  fixes F :: "nat \<Rightarrow> 's \<Rightarrow> 'i \<Rightarrow> 'a"
    and body :: "'s \<Rightarrow> ('i \<Rightarrow> 'a) \<Rightarrow> 'i \<Rightarrow> 'a"
  assumes unroll: "F (Suc n) s c = body s (F n s) c"
    and local_calls: "(\<And>d. d \<in> set (succs s c) \<Longrightarrow> g d = h d) \<Longrightarrow> body s g c = body s h c"
begin

lemma enough_fuel:
  assumes "ok s" and "c \<in> set (ids s)" and "length (ids s) \<le> n" and "length (ids s) \<le> k"
  shows "F n s c = F k s c"
proof -
  from short_rank [OF assms(1)] obtain m :: "'i \<Rightarrow> nat"
    where bound: "\<forall>c \<in> set (ids s). m c < length (ids s)"
      and desc: "\<forall>c \<in> set (ids s). \<forall>d \<in> set (succs s c). m d < m c" by blast
  have "F n s c = F k s c" if "c \<in> set (ids s)" "m c < n" "m c < k" for c n k
    using that
  proof (induction "m c" arbitrary: c n k rule: less_induct)
    case less
    from less.prems obtain n' k' where n: "n = Suc n'" and k: "k = Suc k'"
      by (metis not_less_zero not0_implies_Suc)
    have "F n' s d = F k' s d" if "d \<in> set (succs s c)" for d
    proof -
      have "m d < m c" and "d \<in> set (ids s)"
        using desc closed [OF assms(1)] less.prems(1) that by auto
      then show ?thesis using less.hyps [of d n' k'] less.prems n k by simp
    qed
    then show ?case unfolding n k unroll by (rule local_calls)
  qed
  then show ?thesis using assms bound by (meson le_trans less_le_trans)
qed

lemma unfold:
  assumes "ok s" and "c \<in> set (ids s)"
  shows "F (length (ids s)) s c = body s (F (length (ids s)) s) c"
proof -
  have "F (length (ids s)) s c = F (Suc (length (ids s))) s c"
    using enough_fuel [OF assms] by simp
  then show ?thesis by (simp add: unroll)
qed

end

text \<open>Climbing a parent function: the node, its parent, and so on up to a node with no parent.\<close>

primrec climb :: "nat \<Rightarrow> ('s \<Rightarrow> 'i \<Rightarrow> 'i option) \<Rightarrow> 's \<Rightarrow> 'i \<Rightarrow> 'i list" where
  "climb 0 up s c = []"
| "climb (Suc n) up s c = c # (case up s c of None \<Rightarrow> [] | Some p \<Rightarrow> climb n up s p)"

end
