(* ===== verification/Con_Data.thy ===== *)
theory Con_Data
  imports I3_Prelude
begin

text \<open>
  The data of \<^verbatim>\<open>include/data.h\<close>: the enumerations, \<open>Rect\<close>, \<open>gaps_t\<close>, the window, match and
  container structures, and the global state of the window manager that the tree code reads and
  writes. A pointer to a container is a \<open>con_id\<close>, NULL is \<^const>\<open>None\<close>; the heap is the function
  \<open>store\<close>, the containers that are allocated are those of \<open>all_cons\<close>. A 32-bit unsigned field is a
  \<open>32 word\<close>; a C \<open>int\<close> whose overflow the code does not rely on is an \<^typ>\<open>int\<close>; a \<open>double\<close> is a
  \<^typ>\<open>real\<close>, so rounding is not modelled. Of every structure the fields that only X11, cairo or the
  logger read are left out.
\<close>

type_synonym con_id = nat
type_synonym u32 = "32 word"

subsection \<open>Enumerations\<close>

datatype direction_t = D_LEFT | D_RIGHT | D_UP | D_DOWN
datatype orientation_t = NO_ORIENTATION | HORIZ | VERT
datatype position_t = BEFORE | AFTER
datatype border_style_t = BS_NONE | BS_PIXEL | BS_NORMAL
datatype kill_window_t = DONT_KILL_WINDOW | KILL_WINDOW | KILL_CLIENT
datatype smart_gaps_t = SMART_GAPS_OFF | SMART_GAPS_ON | SMART_GAPS_INVERSE_OUTER
datatype mark_mode_t = MM_REPLACE | MM_ADD
datatype layout_t =
  L_DEFAULT | L_STACKED | L_TABBED | L_DOCKAREA | L_OUTPUT | L_SPLITV | L_SPLITH | L_SCROLLING
datatype focus_wrapping_t =
  FOCUS_WRAPPING_OFF | FOCUS_WRAPPING_ON | FOCUS_WRAPPING_FORCE | FOCUS_WRAPPING_WORKSPACE
datatype fullscreen_mode_t = CF_NONE | CF_OUTPUT | CF_GLOBAL
datatype con_type =
  CT_ROOT | CT_OUTPUT | CT_CON | CT_FLOATING_CON | CT_WORKSPACE | CT_DOCKAREA
datatype floating_t =
  FLOATING_AUTO_OFF | FLOATING_USER_OFF | FLOATING_AUTO_ON | FLOATING_USER_ON
datatype scratchpad_t = SCRATCHPAD_NONE | SCRATCHPAD_FRESH | SCRATCHPAD_CHANGED
datatype dock_t = W_NODOCK | W_DOCK_TOP | W_DOCK_BOTTOM
datatype match_urgent_t = U_DONTCHECK | U_LATEST | U_OLDEST
datatype match_dock_t = M_DONTCHECK | M_NODOCK | M_DOCK_ANY | M_DOCK_TOP | M_DOCK_BOTTOM
datatype window_mode_t =
  WM_ANY | WM_TILING_AUTO | WM_TILING_USER | WM_TILING
  | WM_FLOATING_AUTO | WM_FLOATING_USER | WM_FLOATING
datatype popup_during_fullscreen_t = PDF_SMART | PDF_LEAVE_FULLSCREEN | PDF_IGNORE | PDF_ALL
datatype insert_where_t = M_HERE | M_ASSIGN_WS | M_BELOW

text \<open>
  The code compares two enumerations with \<open><\<close> and \<open>>=\<close>: the floating state
  (\<open>con->floating >= FLOATING_AUTO_ON\<close>) and the border style (\<open>border_style >
  max_user_border_style\<close>). Their values in \<^verbatim>\<open>include/data.h\<close> give the order.
\<close>

fun floating_value :: "floating_t \<Rightarrow> nat" where
  "floating_value FLOATING_AUTO_OFF = 0"
| "floating_value FLOATING_USER_OFF = 1"
| "floating_value FLOATING_AUTO_ON = 2"
| "floating_value FLOATING_USER_ON = 3"

fun border_style_value :: "border_style_t \<Rightarrow> nat" where
  "border_style_value BS_NONE = 0"
| "border_style_value BS_PIXEL = 1"
| "border_style_value BS_NORMAL = 2"

lemma floating_value_inj [simp]: "floating_value a = floating_value b \<longleftrightarrow> a = b"
  by (cases a; cases b) simp_all

lemma border_style_value_inj [simp]: "border_style_value a = border_style_value b \<longleftrightarrow> a = b"
  by (cases a; cases b) simp_all

instantiation floating_t :: linorder
begin

definition less_eq_floating_t :: "floating_t \<Rightarrow> floating_t \<Rightarrow> bool" where
  "less_eq_floating_t a b \<longleftrightarrow> floating_value a \<le> floating_value b"

definition less_floating_t :: "floating_t \<Rightarrow> floating_t \<Rightarrow> bool" where
  "less_floating_t a b \<longleftrightarrow> floating_value a < floating_value b"

instance
  by standard (auto simp: less_eq_floating_t_def less_floating_t_def)

end

instantiation border_style_t :: linorder
begin

definition less_eq_border_style_t :: "border_style_t \<Rightarrow> border_style_t \<Rightarrow> bool" where
  "less_eq_border_style_t a b \<longleftrightarrow> border_style_value a \<le> border_style_value b"

definition less_border_style_t :: "border_style_t \<Rightarrow> border_style_t \<Rightarrow> bool" where
  "less_border_style_t a b \<longleftrightarrow> border_style_value a < border_style_value b"

instance
  by standard (auto simp: less_eq_border_style_t_def less_border_style_t_def)

end

text \<open>The type of an assignment. In the code the values are bits, so that a search can ask for several at
  once: a search takes the list of the types asked for, empty for \<open>A_ANY\<close>.\<close>

datatype assignment_t = A_COMMAND | A_TO_WORKSPACE | A_NO_FOCUS | A_TO_WORKSPACE_NUMBER | A_TO_OUTPUT

datatype bar_mode_t = M_DOCK | M_HIDE | M_INVISIBLE
datatype bar_hidden_state_t = S_HIDE | S_SHOW
datatype focus_on_window_activation_t = FOWA_SMART | FOWA_URGENT | FOWA_FOCUS | FOWA_NONE

datatype input_type_t = B_KEYBOARD | B_MOUSE
datatype binding_release_t = B_UPON_KEYPRESS | B_UPON_KEYRELEASE | B_UPON_KEYRELEASE_IGNORE_MODS
datatype bar_position_t = P_BOTTOM | P_TOP

text \<open>\<open>aiwr_curve_type_t\<close>.\<close>

datatype aiwr_curve_type_t = AIWR_CURVE_BEZIER | AIWR_CURVE_SPRING

subsection \<open>Structures\<close>

record Rect =
  rect_x :: u32
  rect_y :: u32
  rect_width :: u32
  rect_height :: u32

record gaps_t =
  g_inner :: int
  g_top :: int
  g_right :: int
  g_bottom :: int
  g_left :: int

text \<open>\<open>gaps_mask_t\<close> as the set of its bits, one field each.\<close>

record gaps_mask_t =
  m_inner :: bool
  m_top :: bool
  m_right :: bool
  m_bottom :: bool
  m_left :: bool

record workspace_assignment =
  wa_name :: string
  wa_output :: "string option"
  wa_gaps :: gaps_t
  wa_gaps_mask :: gaps_mask_t

text \<open>A regular expression keeps its pattern; the compiled PCRE2 code is not modelled, matching is a
  parameter of the functions that match.\<close>

record regex =
  pattern :: string

record timeval =
  tv_sec :: int
  tv_usec :: int

record reservedpx =
  res_left :: u32
  res_right :: u32
  res_top :: u32
  res_bottom :: u32

record i3Window =
  w_id :: u32
  w_transient_for :: u32
  w_leader :: u32
  w_nr_assignments :: nat
  w_ran_assignments :: "nat list"
  w_class_class :: "string option"
  w_class_instance :: "string option"
  w_name :: "string option"
  w_role :: "string option"
  w_machine :: "string option"
  w_name_x_changed :: bool
  w_uses_net_wm_name :: bool
  w_needs_take_focus :: bool
  w_doesnt_accept_focus :: bool
  w_window_type :: u32
  w_wm_desktop :: u32
  w_dock :: dock_t
  w_urgent :: timeval
  w_reserved :: reservedpx
  w_depth :: nat
  w_base_width :: int
  w_base_height :: int
  w_width_increment :: int
  w_height_increment :: int
  w_min_width :: int
  w_min_height :: int
  w_max_width :: int
  w_max_height :: int
  w_min_aspect_ratio :: real
  w_max_aspect_ratio :: real
  w_shaped :: bool
  w_input_shaped :: bool
  w_managed_since :: int
  w_swallowed :: bool

record Match =
  ma_error :: "string option"
  ma_title :: "regex option"
  ma_application :: "regex option"
  ma_class :: "regex option"
  ma_instance :: "regex option"
  ma_mark :: "regex option"
  ma_window_role :: "regex option"
  ma_workspace :: "regex option"
  ma_machine :: "regex option"
  ma_window_type :: u32
  ma_urgent :: match_urgent_t
  ma_dock :: match_dock_t
  ma_id :: u32
  ma_window_mode :: window_mode_t
  ma_con_id :: "con_id option"
  ma_match_all_windows :: bool
  ma_insert_where :: insert_where_t
  ma_restart_mode :: bool

text \<open>\<open>struct Con\<close>. \<open>urgency_timer\<close> says whether the timer pointer is set and \<open>deco_cached\<close> whether
  \<open>deco_render_params\<close> is.\<close>

record con =
  mapped :: bool
  urgent :: bool
  ctype :: con_type
  num :: int
  gaps :: gaps_t
  parent :: "con_id option"
  rect :: Rect
  window_rect :: Rect
  deco_rect :: Rect
  geometry :: Rect
  cname :: string
  title_format :: "string option"
  sticky_group :: "string option"
  marks_head :: "string list"
  mark_changed :: bool
  percent :: real
  scroll_offset :: real
  scroll_prev_percent :: real
  border_width :: int
  current_border_width :: int
  window_icon_padding :: int
  window :: "i3Window option"
  urgency_timer :: bool
  deco_cached :: bool
  floating_head :: "con_id list"
  nodes_head :: "con_id list"
  focus_head :: "con_id list"
  swallow_head :: "Match list"
  fullscreen_mode :: fullscreen_mode_t
  sticky :: bool
  layout :: layout_t
  last_split_layout :: layout_t
  workspace_layout :: layout_t
  border_style :: border_style_t
  max_user_border_style :: border_style_t
  floating :: floating_t
  scratchpad_state :: scratchpad_t

text \<open>\<open>struct Assignment\<close>; \<open>asg_id\<close> is the identity of the record, by which windows remember the
  assignments that ran for them. The three names of the destination are one string.\<close>

record Assignment =
  asg_id :: nat
  asg_type :: assignment_t
  asg_match :: Match
  asg_dest :: string

text \<open>\<open>struct Barconfig\<close>. The colors are a map from the names of the fields of \<open>bar_colors\<close>.\<close>

record Barbinding =
  bb_input_code :: int
  bb_command :: string
  bb_release :: bool

record barconfig =
  bc_id :: string
  bc_outputs :: "string list"
  bc_tray_outputs :: "string list"
  bc_tray_padding :: int
  bc_socket_path :: "string option"
  bc_mode :: bar_mode_t
  bc_hidden_state :: bar_hidden_state_t
  bc_modifier :: u32
  bc_bar_bindings :: "Barbinding list"
  bc_position :: bar_position_t
  bc_i3bar_command :: "string option"
  bc_status_command :: "string option"
  bc_workspace_command :: "string option"
  bc_font :: "string option"
  bc_separator_symbol :: "string option"
  bc_hide_workspace_buttons :: bool
  bc_workspace_min_width :: int
  bc_strip_workspace_numbers :: bool
  bc_strip_workspace_name :: bool
  bc_hide_binding_mode_indicator :: bool
  bc_verbose :: bool
  bc_bar_height :: u32
  bc_padding :: Rect
  bc_colors :: "string \<Rightarrow> string option"

text \<open>Bindings, and the modes that hold them.\<close>

record Binding_Keycode =
  bk_keycode :: "8 word"
  bk_modifiers :: u32

record Binding =
  bd_input_type :: input_type_t
  bd_release :: binding_release_t
  bd_border :: bool
  bd_whole_window :: bool
  bd_exclude_titlebar :: bool
  bd_keycode :: u32
  bd_event_state_mask :: u32
  bd_symbol :: "string option"
  bd_keycodes :: "Binding_Keycode list"
  bd_command :: string

record Mode =
  md_name :: string
  md_pango_markup :: bool
  md_bindings :: "Binding list"

text \<open>\<open>struct Startup_Sequence\<close> without the context of libstartup-notification.\<close>

record Startup_Sequence =
  ss_id :: string
  ss_workspace :: string
  ss_delete_at :: int

text \<open>\<open>struct xoutput\<close>: a physical output and the container that stands for it (if \<open>o_has_con\<close>, else the
  pointer is NULL); \<open>o_key\<close> is the identity of the structure.\<close>

record xoutput =
  o_key :: nat
  o_id :: u32
  o_active :: bool
  o_changed :: bool
  o_to_be_disabled :: bool
  o_primary :: bool
  o_names :: "string list"
  o_has_con :: bool
  o_con :: con_id
  o_rect :: Rect

subsection \<open>Configuration and state\<close>

text \<open>The options of \<open>struct Config\<close> that the modelled code reads; \<open>hide_edge_borders\<close> and the
  adjacency flags of \<open>adjacent_t\<close> are kept as the bit masks they are.\<close>

record config =
  cfg_default_layout :: layout_t
  cfg_default_border_width :: int
  cfg_default_floating_border_width :: int
  cfg_default_orientation :: orientation_t
  cfg_hide_edge_borders :: u32
  cfg_focus_wrapping :: focus_wrapping_t
  cfg_workspace_urgency_timer :: real
  cfg_default_border :: border_style_t
  cfg_default_floating_border :: border_style_t
  cfg_floating_maximum_width :: int
  cfg_floating_maximum_height :: int
  cfg_floating_minimum_width :: int
  cfg_floating_minimum_height :: int
  cfg_gaps :: gaps_t
  cfg_smart_gaps :: smart_gaps_t
  cfg_scroll_default_width :: int
  cfg_scroll_duration_ms :: int
  cfg_scroll_center_focus :: bool
  cfg_scroll_curve :: "string option"
  cfg_workspace_auto_back_and_forth :: bool
  cfg_focus_on_window_activation :: focus_on_window_activation_t
  cfg_disable_focus_follows_mouse :: bool
  cfg_popup_during_fullscreen :: popup_during_fullscreen_t
  cfg_font_height :: int

text \<open>IPC events the modelled code sends, in order of sending.\<close>

datatype ipc_event =
    Window_Event string con_id
  | Workspace_Event string con_id "con_id option"
  | Barconfig_Event string
  | Mode_Event string bool
  | Tick_Event string
  | Binding_Event string string

text \<open>The one scroll animation that may run (\<open>scroll_anim\<close> of \<^verbatim>\<open>src/scrolling.c\<close>).\<close>

record scroll_anim_t =
  sa_con :: "con_id option"
  sa_from :: real
  sa_to :: real
  sa_anim_id :: int

text \<open>\<open>aiwr_curve_t\<close>: an animation curve, with the fields of both kinds as in the C structure.\<close>

record aiwr_curve =
  cv_name :: string
  cv_type :: aiwr_curve_type_t
  cv_x1 :: real
  cv_y1 :: real
  cv_x2 :: real
  cv_y2 :: real
  cv_damping_ratio :: real
  cv_stiffness :: real
  cv_mass :: real
  cv_epsilon :: real
  cv_settle_ms :: real

text \<open>The animation clock of \<^verbatim>\<open>src/aiwr_anim.c\<close>: its running animations (the callbacks are
  told by the id of their slot) with the copy each has of its curve, the next id and its flags.\<close>

record anim_slot =
  as_id :: int
  as_active :: bool
  as_start_ms :: real
  as_duration_ms :: real
  as_curve :: "aiwr_curve option"

record anim_clock =
  an_initialized :: bool
  an_now_ms :: real
  an_slots :: "anim_slot list"
  an_next_id :: int
  an_fps :: int
  an_timer_running :: bool
  an_fence_wanted :: bool
  an_render_wanted :: bool

text \<open>Requests to the X server that the tree operations make and that are not drawing.\<close>

datatype x_request =
    Window_Kill u32 kill_window_t
  | Window_Withdraw u32
  | Con_Kill con_id

text \<open>\<open>wall_clock\<close> is what \<open>gettimeofday\<close> reads. \<open>aborted\<close> says that an \<open>assert\<close> has failed or NULL
  has been dereferenced: operations on the state set it and go on, and it is never reset, so a state
  with \<open>\<not> aborted\<close> is one the program reaches.\<close>

record wm =
  store :: "con_id \<Rightarrow> con"
  all_cons :: "con_id list"
  croot :: con_id
  focused :: "con_id option"
  next_id :: con_id
  cfg :: config
  ws_assignments :: "workspace_assignment list"
  outputs :: "xoutput list"
  previous_workspace_name :: "string option"
  scroll_anim :: scroll_anim_t
  ipc_log :: "ipc_event list"
  anim :: anim_clock
  curves :: "aiwr_curve list"
  assignments :: "Assignment list"
  barconfigs :: "barconfig list"
  modes :: "Mode list"
  current_binding_mode :: string
  startup_sequences :: "Startup_Sequence list"
  root_output :: "nat option"
  wall_clock :: timeval
  binding_workspace_names :: "string list"
  x_log :: "x_request list"
  aborted :: bool

end
