(* ===== verification/I3_Util.thy ===== *)
theory I3_Util
  imports Con_Data
begin

unbundle bit_operations_syntax

text \<open>
  \<^verbatim>\<open>src/util.c\<close> and the string helpers of \<^verbatim>\<open>libi3/\<close>: arithmetic of rectangles on 32-bit words, the
  C library's string comparison and number parsing as these files use it, the tables between names
  and enumerations, the argument vector of a restart and placeholder substitution.
\<close>

subsection \<open>Integers and rectangles\<close>

text \<open>\<open>min\<close> and \<open>max\<close> take and return \<open>int\<close>; the callers pass \<open>uint32_t\<close> sizes, which C converts to
  \<open>int\<close> and back, so the comparison is the signed one.\<close>

definition c_min :: "u32 \<Rightarrow> u32 \<Rightarrow> u32" where
  "c_min a b = (if sint a < sint b then a else b)"

definition c_max :: "u32 \<Rightarrow> u32 \<Rightarrow> u32" where
  "c_max a b = (if sint a > sint b then a else b)"

definition rect_contains :: "Rect \<Rightarrow> u32 \<Rightarrow> u32 \<Rightarrow> bool" where
  "rect_contains r x y \<longleftrightarrow>
     x \<ge> rect_x r \<and> x \<le> rect_x r + rect_width r \<and>
     y \<ge> rect_y r \<and> y \<le> rect_y r + rect_height r"

definition rect_add :: "Rect \<Rightarrow> Rect \<Rightarrow> Rect" where
  "rect_add a b = \<lparr>rect_x = rect_x a + rect_x b, rect_y = rect_y a + rect_y b,
     rect_width = rect_width a + rect_width b, rect_height = rect_height a + rect_height b\<rparr>"

definition rect_sub :: "Rect \<Rightarrow> Rect \<Rightarrow> Rect" where
  "rect_sub a b = \<lparr>rect_x = rect_x a - rect_x b, rect_y = rect_y a - rect_y b,
     rect_width = rect_width a - rect_width b, rect_height = rect_height a - rect_height b\<rparr>"

definition rect_sanitize_dimensions :: "Rect \<Rightarrow> Rect" where
  "rect_sanitize_dimensions r = r\<lparr>
     rect_width := (if sint (rect_width r) \<le> 0 then 1 else rect_width r),
     rect_height := (if sint (rect_height r) \<le> 0 then 1 else rect_height r)\<rparr>"

definition rect_equals :: "Rect \<Rightarrow> Rect \<Rightarrow> bool" where
  "rect_equals a b \<longleftrightarrow> rect_x a = rect_x b \<and> rect_y a = rect_y b \<and>
     rect_width a = rect_width b \<and> rect_height a = rect_height b"

definition zero_rect :: Rect where
  "zero_rect = \<lparr>rect_x = 0, rect_y = 0, rect_width = 0, rect_height = 0\<rparr>"

lemma sint_c_max [simp]: "sint (c_max a b) = max (sint a) (sint b)"
  by (simp add: c_max_def)

lemma sint_c_min [simp]: "sint (c_min a b) = min (sint a) (sint b)"
  by (simp add: c_min_def)

lemma rect_equals_iff: "rect_equals a b \<longleftrightarrow> a = b"
  by (auto simp: rect_equals_def)

lemma rect_sub_add [simp]: "rect_sub (rect_add a b) b = a"
  by (simp add: rect_add_def rect_sub_def)

lemma rect_add_sub [simp]: "rect_add (rect_sub a b) b = a"
  by (simp add: rect_add_def rect_sub_def)

lemma rect_sanitize_positive:
  "0 < sint (rect_width (rect_sanitize_dimensions r))"
  "0 < sint (rect_height (rect_sanitize_dimensions r))"
  by (simp_all add: rect_sanitize_dimensions_def)

lemma rect_sanitize_idem [simp]:
  "rect_sanitize_dimensions (rect_sanitize_dimensions r) = rect_sanitize_dimensions r"
  by (simp add: rect_sanitize_dimensions_def)

definition update_if_necessary :: "u32 \<Rightarrow> u32 \<Rightarrow> bool \<times> u32" where
  "update_if_necessary destination new_value = (new_value \<noteq> destination, new_value)"

subsection \<open>Characters and strings\<close>

text \<open>Bytes in the C locale.\<close>

definition c_tolower :: "char \<Rightarrow> char" where
  "c_tolower c = (let n = (of_char c :: nat) in if 65 \<le> n \<and> n \<le> 90 then char_of (n + 32) else c)"

definition c_isdigit :: "char \<Rightarrow> bool" where
  "c_isdigit c \<longleftrightarrow> (let n = (of_char c :: nat) in 48 \<le> n \<and> n \<le> 57)"

definition c_isspace :: "char \<Rightarrow> bool" where
  "c_isspace c \<longleftrightarrow> (let n = (of_char c :: nat) in n = 32 \<or> 9 \<le> n \<and> n \<le> 13)"

fun strcasecmp :: "string \<Rightarrow> string \<Rightarrow> int" where
  "strcasecmp [] [] = 0"
| "strcasecmp [] (b # bs) = - of_char (c_tolower b)"
| "strcasecmp (a # as) [] = of_char (c_tolower a)"
| "strcasecmp (a # as) (b # bs) =
     (if c_tolower a = c_tolower b then strcasecmp as bs
      else of_char (c_tolower a) - of_char (c_tolower b))"

definition strcasecmp_nullable :: "string option \<Rightarrow> string option \<Rightarrow> int" where
  "strcasecmp_nullable a b =
     (case (a, b) of
        (None, None) \<Rightarrow> 0
      | (None, Some _) \<Rightarrow> - 1
      | (Some _, None) \<Rightarrow> 1
      | (Some x, Some y) \<Rightarrow> strcasecmp x y)"

text \<open>\<open>strcasecmp(a, b) == 0\<close>, and \<open>strncasecmp(s, needle, strlen(needle)) == 0\<close>.\<close>

definition caseless_eq :: "string \<Rightarrow> string \<Rightarrow> bool" where
  "caseless_eq a b \<longleftrightarrow> map c_tolower a = map c_tolower b"

definition caseless_prefix :: "string \<Rightarrow> string \<Rightarrow> bool" where
  "caseless_prefix s needle \<longleftrightarrow>
     length needle \<le> length s \<and> caseless_eq (take (length needle) s) needle"

lemma caseless_eq_refl [simp]: "caseless_eq a a"
  by (simp add: caseless_eq_def)

lemma caseless_eq_sym: "caseless_eq a b \<Longrightarrow> caseless_eq b a"
  by (simp add: caseless_eq_def)

lemma caseless_eq_trans: "caseless_eq a b \<Longrightarrow> caseless_eq b c \<Longrightarrow> caseless_eq a c"
  by (simp add: caseless_eq_def)

text \<open>A lowered byte is never NUL, so \<open>strcasecmp\<close> is 0 only on equal lowered strings.\<close>

lemma of_char_tolower:
  "(of_char (c_tolower c) :: nat) =
     (let n = (of_char c :: nat) in if 65 \<le> n \<and> n \<le> 90 then n + 32 else n)"
  by (auto simp: c_tolower_def Let_def)

lemma of_char_eq_0: "of_char c = (0 :: nat) \<longleftrightarrow> c = CHR 0x00"
  using of_char_eq_iff [of c "CHR 0x00", where 'a = nat] by simp

lemma c_tolower_NUL [simp]: "of_char (c_tolower c) = (0 :: int) \<longleftrightarrow> c = CHR 0x00"
proof -
  have "(of_char (c_tolower c) :: int) = int (of_char (c_tolower c))"
    by (rule of_nat_of_char [symmetric])
  then have "of_char (c_tolower c) = (0 :: int) \<longleftrightarrow> of_char (c_tolower c) = (0 :: nat)"
    by (simp only: of_nat_eq_0_iff)
  also have "\<dots> \<longleftrightarrow> of_char c = (0 :: nat)" by (auto simp: of_char_tolower Let_def)
  finally show ?thesis by (simp add: of_char_eq_0)
qed

lemma strcasecmp_eq_0:
  "CHR 0x00 \<notin> set a \<Longrightarrow> CHR 0x00 \<notin> set b \<Longrightarrow> strcasecmp a b = 0 \<longleftrightarrow> caseless_eq a b"
  by (induction a b rule: strcasecmp.induct) (auto simp: caseless_eq_def)

subsection \<open>Numbers in names\<close>

definition name_is_digits :: "string \<Rightarrow> bool" where
  "name_is_digits name = list_all c_isdigit name"

definition digit_value :: "char \<Rightarrow> int" where
  "digit_value c = of_char c - 48"

fun digits_value :: "int \<Rightarrow> string \<Rightarrow> int" where
  "digits_value acc [] = acc"
| "digits_value acc (d # ds) = digits_value (10 * acc + digit_value d) ds"

text \<open>\<open>strtoll(name, &endptr, 10)\<close>: white space, an optional sign, the longest run of digits.
  \<^const>\<open>None\<close> when no digit was read (\<open>endptr == name\<close>); the flag is \<open>errno == ERANGE\<close>.\<close>

definition strtoll_10 :: "string \<Rightarrow> (int \<times> bool) option" where
  "strtoll_10 name =
     (let t = dropWhile c_isspace name;
          neg = (case t of c # _ \<Rightarrow> c = CHR ''-'' | [] \<Rightarrow> False);
          u = (case t of c # r \<Rightarrow> if c = CHR ''-'' \<or> c = CHR ''+'' then r else t | [] \<Rightarrow> []);
          ds = takeWhile c_isdigit u;
          v = (if neg then - digits_value 0 ds else digits_value 0 ds)
      in if ds = [] then None
         else if v > 2 ^ 63 - 1 then Some (2 ^ 63 - 1, True)
         else if v < - (2 ^ 63) then Some (- (2 ^ 63), True)
         else Some (v, False))"

definition ws_name_to_number :: "string \<Rightarrow> int" where
  "ws_name_to_number name =
     (case strtoll_10 name of
        None \<Rightarrow> - 1
      | Some (v, erange) \<Rightarrow> if erange \<or> v > 2 ^ 31 - 1 \<or> v < 0 then - 1 else v)"

lemma ws_name_to_number_range:
  "ws_name_to_number name = - 1 \<or> 0 \<le> ws_name_to_number name \<and> ws_name_to_number name < 2 ^ 31"
  by (auto simp: ws_name_to_number_def split: option.splits)

text \<open>\<open>sasprintf(&name, "%d", c)\<close> for \<open>c >= 0\<close>.\<close>

fun print_nat :: "nat \<Rightarrow> string" where
  "print_nat n = (if n < 10 then [char_of (48 + n)] else print_nat (n div 10) @ [char_of (48 + n mod 10)])"

declare print_nat.simps [simp del]

lemma c_isdigit_char_of [simp]: "k < 10 \<Longrightarrow> c_isdigit (char_of (48 + k))" for k :: nat
  by (simp add: c_isdigit_def)

lemma digit_value_char_of [simp]: "k < 10 \<Longrightarrow> digit_value (char_of (48 + k)) = int k" for k :: nat
proof -
  assume "k < 10"
  then have "(of_char (char_of (48 + k) :: char) :: nat) = 48 + k" by simp
  then have "(of_char (char_of (48 + k) :: char) :: int) = 48 + int k"
    by (metis of_nat_add of_nat_numeral of_nat_of_char)
  then show ?thesis by (simp add: digit_value_def)
qed

lemma print_nat_digits: "name_is_digits (print_nat n)" and print_nat_nonempty: "print_nat n \<noteq> []"
proof (induction n rule: print_nat.induct)
  case (1 n)
  {
    case 1
    show ?case using "1.IH" by (subst print_nat.simps) (auto simp: name_is_digits_def)
  next
    case 2
    show ?case by (subst print_nat.simps) simp
  }
qed

lemma digits_value_append: "digits_value acc (xs @ [d]) = 10 * digits_value acc xs + digit_value d"
  by (induction acc xs rule: digits_value.induct) auto

lemma digits_value_print_nat: "digits_value 0 (print_nat n) = int n"
proof (induction n rule: print_nat.induct)
  case (1 n)
  show ?case
  proof (cases "n < 10")
    case True
    then show ?thesis by (subst print_nat.simps) simp
  next
    case False
    have "10 * int (n div 10) + int (n mod 10) = int n"
      by (metis mult_div_mod_eq of_nat_add of_nat_mult of_nat_numeral)
    with False 1 show ?thesis
      by (subst print_nat.simps) (simp add: digits_value_append)
  qed
qed

lemma c_isdigit_not_space_sign:
  "c_isdigit c \<Longrightarrow> \<not> c_isspace c \<and> c \<noteq> CHR ''-'' \<and> c \<noteq> CHR ''+''"
  by (auto simp: c_isdigit_def c_isspace_def Let_def)

lemma ws_name_to_number_digits:
  assumes "name_is_digits name" and "name \<noteq> []" and "digits_value 0 name < 2 ^ 31"
    and "0 \<le> digits_value 0 name"
  shows "ws_name_to_number name = digits_value 0 name"
proof -
  from assms(2) obtain d ds where name: "name = d # ds" by (cases name) auto
  with assms(1) have d: "c_isdigit d" and ds: "list_all c_isdigit ds"
    by (auto simp: name_is_digits_def)
  have tw: "takeWhile c_isdigit ds = ds"
    using ds by (simp add: list_all_iff)
  show ?thesis using assms c_isdigit_not_space_sign [OF d]
    by (simp add: ws_name_to_number_def strtoll_10_def name Let_def d tw)
qed

text \<open>A workspace that is named after its number gets that number back from its name.\<close>

lemma ws_name_to_number_print_nat:
  assumes "n < 2 ^ 31"
  shows "ws_name_to_number (print_nat n) = int n"
proof -
  have "int n < 2 ^ 31" using assms by (simp flip: of_nat_less_iff)
  then show ?thesis
    using ws_name_to_number_digits [of "print_nat n"]
    by (simp add: print_nat_digits print_nat_nonempty digits_value_print_nat)
qed

text \<open>\<open>parse_long\<close> with base 10: \<open>strtol\<close> and the checks on its result. The flag is the return value;
  a string with no digits leaves \<open>end == str\<close>, so it is accepted only when it is empty.\<close>

definition strtol_end :: "string \<Rightarrow> string" where
  "strtol_end str =
     (let t = dropWhile c_isspace str;
          u = (case t of c # r \<Rightarrow> if c = CHR ''-'' \<or> c = CHR ''+'' then r else t | [] \<Rightarrow> [])
      in if takeWhile c_isdigit u = [] then str else dropWhile c_isdigit u)"

definition parse_long :: "string \<Rightarrow> bool \<times> int" where
  "parse_long str =
     (let result = (case strtoll_10 str of None \<Rightarrow> 0 | Some (v, _) \<Rightarrow> v)
      in if result = - (2 ^ 63) \<or> result = 2 ^ 63 - 1 \<or> result < 0 \<or> strtol_end str \<noteq> []
         then (False, result) else (True, result))"

lemma parse_long_nonneg: "parse_long str = (True, v) \<Longrightarrow> 0 \<le> v \<and> v < 2 ^ 63 - 1"
  by (auto simp: parse_long_def strtoll_10_def Let_def split: if_splits option.splits)

subsection \<open>Names of enumerations\<close>

definition layout_from_name :: "string \<Rightarrow> layout_t option" where
  "layout_from_name layout_str =
     (if layout_str = ''default'' then Some L_DEFAULT
      else if caseless_eq layout_str ''stacked'' \<or> caseless_eq layout_str ''stacking'' then Some L_STACKED
      else if caseless_eq layout_str ''tabbed'' then Some L_TABBED
      else if caseless_eq layout_str ''scrolling'' then Some L_SCROLLING
      else if caseless_eq layout_str ''splitv'' then Some L_SPLITV
      else if caseless_eq layout_str ''splith'' then Some L_SPLITH
      else None)"

definition orientation_from_direction :: "direction_t \<Rightarrow> orientation_t" where
  "orientation_from_direction d = (if d = D_LEFT \<or> d = D_RIGHT then HORIZ else VERT)"

definition position_from_direction :: "direction_t \<Rightarrow> position_t" where
  "position_from_direction d = (if d = D_LEFT \<or> d = D_UP then BEFORE else AFTER)"

definition direction_from_orientation_position :: "orientation_t \<Rightarrow> position_t \<Rightarrow> direction_t" where
  "direction_from_orientation_position ori pos =
     (if ori = HORIZ then (if pos = BEFORE then D_LEFT else D_RIGHT)
      else (if pos = BEFORE then D_UP else D_DOWN))"

fun direction_to_string :: "direction_t \<Rightarrow> string" where
  "direction_to_string D_LEFT = ''left''"
| "direction_to_string D_RIGHT = ''right''"
| "direction_to_string D_UP = ''up''"
| "direction_to_string D_DOWN = ''down''"

fun position_to_string :: "position_t \<Rightarrow> string" where
  "position_to_string BEFORE = ''before''"
| "position_to_string AFTER = ''after''"

lemma direction_of_orientation_position [simp]:
  "direction_from_orientation_position (orientation_from_direction d) (position_from_direction d) = d"
  by (cases d) (simp_all add: direction_from_orientation_position_def orientation_from_direction_def
      position_from_direction_def)

definition boolstr :: "string \<Rightarrow> bool" where
  "boolstr str \<longleftrightarrow> caseless_eq str ''1'' \<or> caseless_eq str ''yes'' \<or> caseless_eq str ''true'' \<or>
     caseless_eq str ''on'' \<or> caseless_eq str ''enable'' \<or> caseless_eq str ''active''"

subsection \<open>The argument vector of a restart\<close>

text \<open>
  \<open>add_argument(original, opt_char, opt_arg, opt_name)\<close>: copy the arguments but skip the option and,
  when the option takes an argument, the word after it; then append the option. The vector is the
  list of words before the terminating NULL; a NULL \<open>opt_arg\<close> ends it right after \<open>opt_char\<close>.
\<close>

fun copy_arguments :: "string \<Rightarrow> bool \<Rightarrow> string option \<Rightarrow> bool \<Rightarrow> string list \<Rightarrow> string list" where
  "copy_arguments opt_char has_arg opt_name skip_next [] = []"
| "copy_arguments opt_char has_arg opt_name skip_next (a # as) =
     (if skip_next then copy_arguments opt_char has_arg opt_name False as
      else if a = opt_char \<or> opt_name = Some a
        then copy_arguments opt_char has_arg opt_name has_arg as
        else a # copy_arguments opt_char has_arg opt_name False as)"

definition add_argument ::
  "string list \<Rightarrow> string \<Rightarrow> string option \<Rightarrow> string option \<Rightarrow> string list" where
  "add_argument original opt_char opt_arg opt_name =
     copy_arguments opt_char (opt_arg \<noteq> None) opt_name False original @ opt_char #
     (case opt_arg of None \<Rightarrow> [] | Some a \<Rightarrow> [a])"

definition mentions_option :: "string \<Rightarrow> string option \<Rightarrow> string \<Rightarrow> bool" where
  "mentions_option opt_char opt_name a \<longleftrightarrow> a = opt_char \<or> opt_name = Some a"

lemma copy_arguments_Cons:
  "copy_arguments opt_char has_arg opt_name skip (a # as) =
     (if skip then copy_arguments opt_char has_arg opt_name False as
      else if mentions_option opt_char opt_name a
        then copy_arguments opt_char has_arg opt_name has_arg as
        else a # copy_arguments opt_char has_arg opt_name False as)"
  by (simp add: mentions_option_def)

lemma copy_arguments_clean:
  "\<forall>a \<in> set as. \<not> mentions_option opt_char opt_name a \<Longrightarrow>
     copy_arguments opt_char has_arg opt_name False (as @ bs) =
     as @ copy_arguments opt_char has_arg opt_name False bs"
  by (induction as) (simp_all add: copy_arguments_Cons del: copy_arguments.simps(2))

lemma copy_arguments_result:
  "\<forall>a \<in> set (copy_arguments opt_char has_arg opt_name skip as). \<not> mentions_option opt_char opt_name a"
  by (induction as arbitrary: skip) (simp_all add: copy_arguments_Cons del: copy_arguments.simps(2))

lemma add_argument_idem:
  "add_argument (add_argument original opt_char opt_arg opt_name) opt_char opt_arg opt_name =
   add_argument original opt_char opt_arg opt_name"
  using copy_arguments_clean [OF copy_arguments_result]
  by (simp add: add_argument_def split: option.splits)

lemma add_argument_replaces:
  assumes "opt_arg = Some new" 
  shows "add_argument (add_argument original opt_char (Some old) opt_name) opt_char opt_arg opt_name =
    add_argument original opt_char opt_arg opt_name"
  using copy_arguments_clean [OF copy_arguments_result] assms
  by (simp add: add_argument_def)

end
