(* ===== verification/Con_Tree.thy ===== *)
theory Con_Tree
  imports I3_Util
begin

text \<open>
  The container tree: reading and writing one container, the tree invariant, the walks up and down
  the tree, and the primitive operations of \<^verbatim>\<open>src/con.c\<close> that link and unlink containers
  (\<open>con_new\<close>, \<open>con_attach\<close>, \<open>con_detach\<close>, \<open>con_free\<close>, \<open>set_focus_order\<close>) with
  \<open>con_fix_percent\<close>, which every caller runs after them.
\<close>

subsection \<open>Reading and writing one container\<close>

abbreviation nodes :: "wm \<Rightarrow> con_id \<Rightarrow> con_id list" where
  "nodes s c \<equiv> nodes_head (store s c)"

abbreviation floats :: "wm \<Rightarrow> con_id \<Rightarrow> con_id list" where
  "floats s c \<equiv> floating_head (store s c)"

abbreviation foci :: "wm \<Rightarrow> con_id \<Rightarrow> con_id list" where
  "foci s c \<equiv> focus_head (store s c)"

abbreviation kind :: "wm \<Rightarrow> con_id \<Rightarrow> con_type" where
  "kind s c \<equiv> ctype (store s c)"

abbreviation parent_of :: "wm \<Rightarrow> con_id \<Rightarrow> con_id option" where
  "parent_of s c \<equiv> parent (store s c)"

abbreviation children :: "wm \<Rightarrow> con_id \<Rightarrow> con_id list" where
  "children s c \<equiv> nodes s c @ floats s c"

abbreviation layout_of :: "wm \<Rightarrow> con_id \<Rightarrow> layout_t" where
  "layout_of s c \<equiv> layout (store s c)"

definition upd_con :: "con_id \<Rightarrow> (con \<Rightarrow> con) \<Rightarrow> wm \<Rightarrow> wm" where
  "upd_con c f s = s\<lparr>store := (store s)(c := f (store s c))\<rparr>"

lemma upd_con_simps [simp]:
  "store (upd_con c f s) = (store s)(c := f (store s c))"
  "all_cons (upd_con c f s) = all_cons s"
  "croot (upd_con c f s) = croot s"
  "focused (upd_con c f s) = focused s"
  "next_id (upd_con c f s) = next_id s"
  "cfg (upd_con c f s) = cfg s"
  "ws_assignments (upd_con c f s) = ws_assignments s"
  "outputs (upd_con c f s) = outputs s"
  "previous_workspace_name (upd_con c f s) = previous_workspace_name s"
  "scroll_anim (upd_con c f s) = scroll_anim s"
  "ipc_log (upd_con c f s) = ipc_log s"
  "anim (upd_con c f s) = anim s"
  "wall_clock (upd_con c f s) = wall_clock s"
  "binding_workspace_names (upd_con c f s) = binding_workspace_names s"
  "x_log (upd_con c f s) = x_log s"
  "aborted (upd_con c f s) = aborted s"
  by (simp_all add: upd_con_def)

definition ipc_send :: "ipc_event \<Rightarrow> wm \<Rightarrow> wm" where
  "ipc_send e s = s\<lparr>ipc_log := ipc_log s @ [e]\<rparr>"

lemma ipc_send_simps [simp]:
  "store (ipc_send e s) = store s"
  "all_cons (ipc_send e s) = all_cons s"
  "croot (ipc_send e s) = croot s"
  "focused (ipc_send e s) = focused s"
  "next_id (ipc_send e s) = next_id s"
  "cfg (ipc_send e s) = cfg s"
  "ws_assignments (ipc_send e s) = ws_assignments s"
  "outputs (ipc_send e s) = outputs s"
  "previous_workspace_name (ipc_send e s) = previous_workspace_name s"
  "scroll_anim (ipc_send e s) = scroll_anim s"
  "ipc_log (ipc_send e s) = ipc_log s @ [e]"
  "anim (ipc_send e s) = anim s"
  "wall_clock (ipc_send e s) = wall_clock s"
  "binding_workspace_names (ipc_send e s) = binding_workspace_names s"
  "x_log (ipc_send e s) = x_log s"
  "aborted (ipc_send e s) = aborted s"
  by (simp_all add: ipc_send_def)

definition abort :: "wm \<Rightarrow> wm" where
  "abort s = s\<lparr>aborted := True\<rparr>"

definition check :: "bool \<Rightarrow> wm \<Rightarrow> wm" where
  "check P s = (if P then s else abort s)"

lemma abort_simps [simp]:
  "store (abort s) = store s"
  "all_cons (abort s) = all_cons s"
  "croot (abort s) = croot s"
  "focused (abort s) = focused s"
  "next_id (abort s) = next_id s"
  "cfg (abort s) = cfg s"
  "outputs (abort s) = outputs s"
  "ipc_log (abort s) = ipc_log s"
  "aborted (abort s)"
  by (simp_all add: abort_def)

lemma check_simps [simp]:
  "store (check P s) = store s"
  "all_cons (check P s) = all_cons s"
  "croot (check P s) = croot s"
  "focused (check P s) = focused s"
  "next_id (check P s) = next_id s"
  "cfg (check P s) = cfg s"
  "outputs (check P s) = outputs s"
  "ipc_log (check P s) = ipc_log s"
  "aborted (check P s) \<longleftrightarrow> aborted s \<or> \<not> P"
  by (simp_all add: check_def)

subsection \<open>The tree invariant\<close>

text \<open>
  \<open>ids_ok\<close>: the allocated containers are distinct and older than the next allocation.
  \<open>links_ok\<close>: a container's children point back to it; the tiling children and the floating ones are
  told apart by their type, none is linked twice, and the focus stack is a permutation of both.
  \<open>parents_ok\<close>: parent pointers lead to allocated containers and have no cycle.
  A container that no list holds (between \<open>con_detach\<close> and \<open>con_attach\<close>, or fresh from
  \<open>con_new(NULL, NULL)\<close>) is allowed.
\<close>

definition ids_ok :: "wm \<Rightarrow> bool" where
  "ids_ok s \<longleftrightarrow> distinct (all_cons s) \<and> (\<forall>c \<in> set (all_cons s). c < next_id s)"

definition links_ok_at :: "wm \<Rightarrow> con_id \<Rightarrow> bool" where
  "links_ok_at s c \<longleftrightarrow>
     distinct (nodes s c) \<and> distinct (floats s c) \<and> distinct (foci s c) \<and>
     set (foci s c) = set (children s c) \<and>
     (\<forall>x \<in> set (children s c). x \<in> set (all_cons s) \<and> parent_of s x = Some c) \<and>
     (\<forall>x \<in> set (nodes s c). kind s x \<noteq> CT_FLOATING_CON) \<and>
     (\<forall>x \<in> set (floats s c). kind s x = CT_FLOATING_CON)"

definition links_ok :: "wm \<Rightarrow> bool" where
  "links_ok s \<longleftrightarrow> (\<forall>c \<in> set (all_cons s). links_ok_at s c)"

definition parents_ok :: "wm \<Rightarrow> bool" where
  "parents_ok s \<longleftrightarrow>
     (\<forall>c \<in> set (all_cons s). \<forall>p. parent_of s c = Some p \<longrightarrow> p \<in> set (all_cons s)) \<and>
     (\<exists>r :: con_id \<Rightarrow> nat.
        \<forall>c \<in> set (all_cons s). \<forall>p. parent_of s c = Some p \<longrightarrow> r p < r c)"

definition tree_ok :: "wm \<Rightarrow> bool" where
  "tree_ok s \<longleftrightarrow> ids_ok s \<and> links_ok s \<and> parents_ok s"

text \<open>A container that no container's lists hold.\<close>

definition unlinked :: "wm \<Rightarrow> con_id \<Rightarrow> bool" where
  "unlinked s c \<longleftrightarrow> (\<forall>p \<in> set (all_cons s). c \<notin> set (children s p))"

lemma tree_okD:
  assumes "tree_ok s" and "c \<in> set (all_cons s)"
  shows "distinct (nodes s c)" "distinct (floats s c)" "distinct (foci s c)"
    and "set (foci s c) = set (children s c)"
    and "x \<in> set (nodes s c) \<Longrightarrow> x \<in> set (all_cons s)"
    and "x \<in> set (floats s c) \<Longrightarrow> x \<in> set (all_cons s)"
    and "x \<in> set (nodes s c) \<Longrightarrow> parent_of s x = Some c"
    and "x \<in> set (floats s c) \<Longrightarrow> parent_of s x = Some c"
    and "x \<in> set (nodes s c) \<Longrightarrow> kind s x \<noteq> CT_FLOATING_CON"
    and "x \<in> set (floats s c) \<Longrightarrow> kind s x = CT_FLOATING_CON"
    and "parent_of s c = Some p \<Longrightarrow> p \<in> set (all_cons s)"
proof -
  have L: "links_ok_at s c" using assms by (simp add: tree_ok_def links_ok_def)
  then show "distinct (nodes s c)" "distinct (floats s c)" "distinct (foci s c)"
    and "set (foci s c) = set (children s c)"
    by (simp_all add: links_ok_at_def)
  from L have "\<forall>x \<in> set (children s c). x \<in> set (all_cons s) \<and> parent_of s x = Some c"
    unfolding links_ok_at_def by (elim conjE)
  then show "x \<in> set (nodes s c) \<Longrightarrow> x \<in> set (all_cons s)"
    and "x \<in> set (floats s c) \<Longrightarrow> x \<in> set (all_cons s)"
    and "x \<in> set (nodes s c) \<Longrightarrow> parent_of s x = Some c"
    and "x \<in> set (floats s c) \<Longrightarrow> parent_of s x = Some c"
    by simp_all
  from L show "x \<in> set (nodes s c) \<Longrightarrow> kind s x \<noteq> CT_FLOATING_CON"
    and "x \<in> set (floats s c) \<Longrightarrow> kind s x = CT_FLOATING_CON"
    by (simp_all add: links_ok_at_def)
  show "parent_of s c = Some p \<Longrightarrow> p \<in> set (all_cons s)"
    using assms by (simp add: tree_ok_def parents_ok_def)
qed

lemma tree_ok_foci:
  assumes "tree_ok s" and "c \<in> set (all_cons s)" and "x \<in> set (foci s c)"
  shows "x \<in> set (all_cons s)" "parent_of s x = Some c" "x \<in> set (children s c)"
proof -
  from assms(3) show "x \<in> set (children s c)" using tree_okD(4) [OF assms(1,2)] by simp
  then show "x \<in> set (all_cons s)" "parent_of s x = Some c"
    using tree_okD(5-8) [OF assms(1,2)] by auto
qed

lemma tree_ok_child_parent:
  assumes "tree_ok s" and "p \<in> set (all_cons s)" and "c \<in> set (children s p)"
  shows "c \<in> set (all_cons s)" "parent_of s c = Some p"
  using assms(3) tree_okD(5-8) [OF assms(1,2)] by auto

text \<open>Distinct containers never share a child.\<close>

lemma unlinked_iff:
  assumes "tree_ok s" and "c \<in> set (all_cons s)"
  shows "unlinked s c \<longleftrightarrow> (\<forall>p. parent_of s c = Some p \<longrightarrow> c \<notin> set (children s p))"
  unfolding unlinked_def
  using tree_ok_child_parent(2) [OF assms(1)] tree_okD(11) [OF assms] by blast

text \<open>States with the same links satisfy the same invariant.\<close>

definition same_links :: "wm \<Rightarrow> wm \<Rightarrow> bool" where
  "same_links s t \<longleftrightarrow>
     all_cons t = all_cons s \<and> next_id t = next_id s \<and> croot t = croot s \<and>
     (\<forall>c. parent_of t c = parent_of s c \<and> kind t c = kind s c \<and> nodes t c = nodes s c \<and>
          floats t c = floats s c \<and> foci t c = foci s c)"

lemma same_links_refl [simp]: "same_links s s"
  by (simp add: same_links_def)

lemma same_links_trans [trans]: "same_links s t \<Longrightarrow> same_links t u \<Longrightarrow> same_links s u"
  by (simp add: same_links_def)

lemma same_links_tree_ok: "same_links s t \<Longrightarrow> tree_ok t = tree_ok s"
  by (simp add: same_links_def tree_ok_def ids_ok_def links_ok_def links_ok_at_def parents_ok_def)

lemma same_links_unlinked: "same_links s t \<Longrightarrow> unlinked t c = unlinked s c"
  by (simp add: same_links_def unlinked_def)

lemma same_links_upd:
  "(\<And>k. parent (f k) = parent k \<and> ctype (f k) = ctype k \<and> nodes_head (f k) = nodes_head k \<and>
     floating_head (f k) = floating_head k \<and> focus_head (f k) = focus_head k) \<Longrightarrow>
   same_links s (upd_con c f s)"
  by (simp add: same_links_def)

lemma same_links_ipc [simp]: "same_links s (ipc_send e s)"
  by (simp add: same_links_def)

subsection \<open>Walking up and down\<close>

interpretation up: bounded_walk "\<lambda>s c. case parent_of s c of None \<Rightarrow> [] | Some p \<Rightarrow> [p]" all_cons tree_ok
proof
  fix s :: wm and c d
  assume "tree_ok s" "c \<in> set (all_cons s)"
    "d \<in> set (case parent_of s c of None \<Rightarrow> [] | Some p \<Rightarrow> [p])"
  then show "d \<in> set (all_cons s)" using tree_okD(11) by (auto split: option.splits)
next
  fix s :: wm
  assume "tree_ok s"
  then obtain r :: "con_id \<Rightarrow> nat" where
    "\<forall>c \<in> set (all_cons s). \<forall>p. parent_of s c = Some p \<longrightarrow> r p < r c"
    by (auto simp: tree_ok_def parents_ok_def)
  then show "\<exists>r :: con_id \<Rightarrow> nat. \<forall>c \<in> set (all_cons s).
      \<forall>d \<in> set (case parent_of s c of None \<Rightarrow> [] | Some p \<Rightarrow> [p]). r d < r c"
    by (intro exI [of _ r]) (auto split: option.splits)
qed

interpretation down: bounded_walk children all_cons tree_ok
proof
  fix s :: wm and c d
  assume "tree_ok s" "c \<in> set (all_cons s)" "d \<in> set (children s c)"
  then show "d \<in> set (all_cons s)" by (rule tree_ok_child_parent)
next
  fix s :: wm
  assume ok: "tree_ok s"
  then obtain r :: "con_id \<Rightarrow> nat" where
    r: "\<forall>c \<in> set (all_cons s). \<forall>p. parent_of s c = Some p \<longrightarrow> r p < r c"
    by (auto simp: tree_ok_def parents_ok_def)
  let ?S = "\<Sum>c \<in> set (all_cons s). r c"
  have "?S - r d < ?S - r c"
    if "c \<in> set (all_cons s)" "d \<in> set (children s c)" for c d
  proof -
    have d: "d \<in> set (all_cons s)" and "parent_of s d = Some c"
      using tree_ok_child_parent [OF ok that] by auto
    then have "r c < r d" using r by blast
    moreover have "r d \<le> ?S" using d by (simp add: member_le_sum)
    ultimately show ?thesis by linarith
  qed
  then show "\<exists>r :: con_id \<Rightarrow> nat. \<forall>c \<in> set (all_cons s). \<forall>d \<in> set (children s c). r d < r c"
    by (intro exI [of _ "\<lambda>c. ?S - r c"]) blast
qed

text \<open>\<open>c\<close>, its parent, its grandparent, \<dots>: the containers a loop \<open>con = con->parent\<close> visits.\<close>

definition ancestors :: "wm \<Rightarrow> con_id \<Rightarrow> con_id list" where
  "ancestors s c = climb (length (all_cons s)) parent_of s c"

interpretation anc: fuel_recursion
  "\<lambda>s c. case parent_of s c of None \<Rightarrow> [] | Some p \<Rightarrow> [p]" all_cons tree_ok
  "\<lambda>n. climb n parent_of"
  "\<lambda>s g c. c # (case parent_of s c of None \<Rightarrow> [] | Some p \<Rightarrow> g p)"
  by unfold_locales (auto split: option.splits)

lemma ancestors_unfold:
  assumes "tree_ok s" and "c \<in> set (all_cons s)"
  shows "ancestors s c = c # (case parent_of s c of None \<Rightarrow> [] | Some p \<Rightarrow> ancestors s p)"
  unfolding ancestors_def by (rule anc.unfold [OF assms])

lemma ancestors_alloc:
  assumes "tree_ok s" and "c \<in> set (all_cons s)"
  shows "set (ancestors s c) \<subseteq> set (all_cons s)"
proof (rule up.walk_induct [OF assms])
  fix c
  assume "c \<in> set (all_cons s)" and
    "\<And>d. d \<in> set (case parent_of s c of None \<Rightarrow> [] | Some p \<Rightarrow> [p]) \<Longrightarrow>
      set (ancestors s d) \<subseteq> set (all_cons s)"
  then show "set (ancestors s c) \<subseteq> set (all_cons s)"
    by (cases "parent_of s c") (simp_all add: ancestors_unfold [OF assms(1)])
qed

lemma same_links_ancestors: "same_links s t \<Longrightarrow> ancestors t c = ancestors s c"
proof -
  assume "same_links s t"
  then have "climb n parent_of t c = climb n parent_of s c" for n
    by (induction n arbitrary: c) (auto simp: same_links_def split: option.splits)
  with \<open>same_links s t\<close> show ?thesis by (simp add: ancestors_def same_links_def)
qed

subsection \<open>Linking and unlinking in general\<close>

text \<open>
  How every operation that moves a container changes the lists: one container enters, or leaves, one
  parent's focus stack and one of its two child lists. Multisets say it without the position.
\<close>

lemma mset_insert_facts:
  assumes "mset ys = add_mset c (mset xs)"
  shows "set ys = insert c (set xs)" and "distinct ys \<longleftrightarrow> distinct xs \<and> c \<notin> set xs"
proof -
  from assms have eq: "mset ys = mset (c # xs)" by simp
  show "set ys = insert c (set xs)" using mset_eq_setD [OF eq] by simp
  show "distinct ys \<longleftrightarrow> distinct xs \<and> c \<notin> set xs" using mset_eq_imp_distinct_iff [OF eq] by auto
qed

definition entered :: "wm \<Rightarrow> wm \<Rightarrow> con_id \<Rightarrow> con_id \<Rightarrow> bool" where
  "entered s t c p \<longleftrightarrow>
     all_cons t = all_cons s \<and> next_id t = next_id s \<and> croot t = croot s \<and>
     (\<forall>d. kind t d = kind s d) \<and>
     (\<forall>d. parent_of t d = (if d = c then Some p else parent_of s d)) \<and>
     (\<forall>d. d \<noteq> p \<longrightarrow> nodes t d = nodes s d \<and> floats t d = floats s d \<and> foci t d = foci s d) \<and>
     mset (foci t p) = add_mset c (mset (foci s p)) \<and>
     (if kind s c = CT_FLOATING_CON
      then mset (floats t p) = add_mset c (mset (floats s p)) \<and> nodes t p = nodes s p
      else mset (nodes t p) = add_mset c (mset (nodes s p)) \<and> floats t p = floats s p)"

definition left :: "wm \<Rightarrow> wm \<Rightarrow> con_id \<Rightarrow> con_id \<Rightarrow> bool" where
  "left s t c p \<longleftrightarrow>
     all_cons t = all_cons s \<and> next_id t = next_id s \<and> croot t = croot s \<and>
     (\<forall>d. kind t d = kind s d) \<and> (\<forall>d. parent_of t d = parent_of s d) \<and>
     (\<forall>d. d \<noteq> p \<longrightarrow> nodes t d = nodes s d \<and> floats t d = floats s d \<and> foci t d = foci s d) \<and>
     foci t p = remove1 c (foci s p) \<and>
     (if kind s c = CT_FLOATING_CON
      then floats t p = remove1 c (floats s p) \<and> nodes t p = nodes s p
      else nodes t p = remove1 c (nodes s p) \<and> floats t p = floats s p)"

lemma parents_ok_reparent:
  assumes ok: "tree_ok s" and c: "c \<in> set (all_cons s)" and p: "p \<in> set (all_cons s)"
    and above: "c \<notin> set (ancestors s p)"
    and t: "all_cons t = all_cons s" "\<And>d. parent_of t d = (if d = c then Some p else parent_of s d)"
  shows "parents_ok t"
proof -
  from ok obtain r :: "con_id \<Rightarrow> nat" where
    r: "\<forall>c \<in> set (all_cons s). \<forall>p. parent_of s c = Some p \<longrightarrow> r p < r c"
    by (auto simp: tree_ok_def parents_ok_def)
  define r' where "r' x = (if c \<in> set (ancestors s x) then r x + Suc (r p) else r x)" for x
  have "r' q < r' x" if x: "x \<in> set (all_cons s)" and q: "parent_of t x = Some q" for x q
  proof (cases "x = c")
    case True
    have "c \<in> set (ancestors s c)" by (subst ancestors_unfold [OF ok c]) simp
    with True q t(2) above show ?thesis by (simp add: r'_def)
  next
    case False
    with q t(2) have q': "parent_of s x = Some q" by simp
    with x r have "r q < r x" by blast
    moreover have "c \<in> set (ancestors s x) \<longleftrightarrow> c \<in> set (ancestors s q)"
      using False by (subst ancestors_unfold [OF ok x]) (simp add: q')
    ultimately show ?thesis by (simp add: r'_def)
  qed
  then have "\<exists>r' :: con_id \<Rightarrow> nat. \<forall>x \<in> set (all_cons s). \<forall>q. parent_of t x = Some q \<longrightarrow> r' q < r' x"
    by blast
  moreover have "q \<in> set (all_cons s)" if "x \<in> set (all_cons s)" "parent_of t x = Some q" for x q
    using that t(2) p tree_okD(11) [OF ok] by (auto split: if_splits)
  ultimately show ?thesis using t(1) by (auto simp: parents_ok_def)
qed

lemma entered_tree_ok:
  assumes ok: "tree_ok s" and c: "c \<in> set (all_cons s)" and p: "p \<in> set (all_cons s)"
    and free: "unlinked s c" and above: "c \<notin> set (ancestors s p)" and e: "entered s t c p"
  shows "tree_ok t"
proof -
  have all: "all_cons t = all_cons s" and kinds: "\<And>d. kind t d = kind s d"
    and par: "\<And>d. parent_of t d = (if d = c then Some p else parent_of s d)"
    and nid: "next_id t = next_id s"
    using e by (auto simp: entered_def)
  have notin: "c \<notin> set (children s d)" if "d \<in> set (all_cons s)" for d
    using free that by (simp add: unlinked_def)
  have "links_ok_at t d" if d: "d \<in> set (all_cons s)" for d
  proof (cases "d = p")
    case False
    then have same: "nodes t d = nodes s d" "floats t d = floats s d" "foci t d = foci s d"
      using e by (auto simp: entered_def)
    have "parent_of t x = Some d" if "x \<in> set (children s d)" for x
      using tree_ok_child_parent(2) [OF ok d that] notin [OF d] that par by auto
    then show ?thesis using tree_okD [OF ok d] tree_ok_child_parent(1) [OF ok d]
      by (simp add: links_ok_at_def same kinds all)
  next
    case True
    note P = tree_okD [OF ok p]
    have foc: "mset (foci t p) = add_mset c (mset (foci s p))" using e by (simp add: entered_def)
    have cf: "c \<notin> set (foci s p)" using notin [OF p] P(4) by simp
    have kids: "parent_of t x = Some p" "x \<in> set (all_cons s)" if "x = c \<or> x \<in> set (children s p)" for x
      using that c par tree_ok_child_parent [OF ok p] by auto
    show ?thesis
    proof (cases "kind s c = CT_FLOATING_CON")
      case True
      then have fl: "mset (floats t p) = add_mset c (mset (floats s p))" and nd: "nodes t p = nodes s p"
        using e by (auto simp: entered_def)
      show ?thesis unfolding \<open>d = p\<close> links_ok_at_def
        using notin [OF p] P(1-4,9,10) True mset_insert_facts [OF foc] mset_insert_facts [OF fl] cf kids
        by (simp add: nd kinds all)
    next
      case False
      then have nd: "mset (nodes t p) = add_mset c (mset (nodes s p))" and fl: "floats t p = floats s p"
        using e by (auto simp: entered_def)
      show ?thesis unfolding \<open>d = p\<close> links_ok_at_def
        using notin [OF p] P(1-4,9,10) False mset_insert_facts [OF foc] mset_insert_facts [OF nd] cf kids
        by (simp add: fl kinds all)
    qed
  qed
  moreover have "parents_ok t" by (rule parents_ok_reparent [OF ok c p above all par])
  ultimately show ?thesis using ok
    by (simp add: tree_ok_def links_ok_def ids_ok_def all nid)
qed

lemma left_tree_ok:
  assumes ok: "tree_ok s" and p: "p \<in> set (all_cons s)" and l: "left s t c p"
  shows "tree_ok t"
proof -
  have all: "all_cons t = all_cons s" and kinds: "\<And>d. kind t d = kind s d"
    and par: "\<And>d. parent_of t d = parent_of s d" and nid: "next_id t = next_id s"
    using l by (auto simp: left_def)
  have "links_ok_at t d" if d: "d \<in> set (all_cons s)" for d
  proof (cases "d = p")
    case False
    then have same: "nodes t d = nodes s d" "floats t d = floats s d" "foci t d = foci s d"
      using l by (auto simp: left_def)
    show ?thesis using tree_okD(1-4,9,10) [OF ok d] tree_ok_child_parent [OF ok d]
      by (simp add: links_ok_at_def same kinds all par)
  next
    case True
    note P = tree_okD [OF ok p]
    have foc: "foci t p = remove1 c (foci s p)" using l by (simp add: left_def)
    have kids: "parent_of s x = Some p" "x \<in> set (all_cons s)" if "x \<in> set (children s p)" for x
      using that tree_ok_child_parent [OF ok p] by auto
    show ?thesis
    proof (cases "kind s c = CT_FLOATING_CON")
      case True
      then have fl: "floats t p = remove1 c (floats s p)" and nd: "nodes t p = nodes s p"
        using l by (auto simp: left_def)
      have "c \<notin> set (nodes s p)" using P(9) True by blast
      then show ?thesis unfolding \<open>d = p\<close> links_ok_at_def
        using P(1-4,9,10) kids by (auto simp: nd fl foc kinds all par)
    next
      case False
      then have nd: "nodes t p = remove1 c (nodes s p)" and fl: "floats t p = floats s p"
        using l by (auto simp: left_def)
      have "c \<notin> set (floats s p)" using P(10) False by blast
      then show ?thesis unfolding \<open>d = p\<close> links_ok_at_def
        using P(1-4,9,10) kids by (auto simp: nd fl foc kinds all par)
    qed
  qed
  moreover have "parents_ok t" using ok by (simp add: tree_ok_def parents_ok_def all par)
  ultimately show ?thesis using ok
    by (simp add: tree_ok_def links_ok_def ids_ok_def all nid)
qed

lemma left_unlinked:
  assumes ok: "tree_ok s" and c: "c \<in> set (all_cons s)" and p: "parent_of s c = Some p"
    and l: "left s t c p"
  shows "unlinked t c"
proof -
  have pa: "p \<in> set (all_cons s)" using tree_okD(11) [OF ok c p] .
  note P = tree_okD [OF ok pa]
  have "c \<notin> set (children t p)"
    using l P(1,2,9,10) by (cases "kind s c = CT_FLOATING_CON") (auto simp: left_def)
  moreover have "c \<notin> set (children t d)" if "d \<in> set (all_cons s)" "d \<noteq> p" for d
    using l that(2) tree_ok_child_parent(2) [OF ok that(1), of c] p by (auto simp: left_def)
  moreover have "all_cons t = all_cons s" using l by (simp add: left_def)
  ultimately show ?thesis unfolding unlinked_def by metis
qed

subsection \<open>Small queries\<close>

definition con_is_leaf :: "wm \<Rightarrow> con_id \<Rightarrow> bool" where
  "con_is_leaf s c \<longleftrightarrow> nodes s c = []"

definition con_num_children :: "wm \<Rightarrow> con_id \<Rightarrow> nat" where
  "con_num_children s c = length (nodes s c)"

text \<open>\<open>con_inside_floating\<close> climbs until it meets a floating container, the child of one, or a
  workspace or output; the list is what is left of the way up.\<close>

fun inside_floating_path :: "wm \<Rightarrow> con_id list \<Rightarrow> con_id option" where
  "inside_floating_path s [] = None"
| "inside_floating_path s (c # cs) =
     (if kind s c = CT_FLOATING_CON then Some c
      else if floating (store s c) \<ge> FLOATING_AUTO_ON then parent_of s c
      else if kind s c = CT_WORKSPACE \<or> kind s c = CT_OUTPUT then None
      else inside_floating_path s cs)"

definition con_inside_floating :: "wm \<Rightarrow> con_id \<Rightarrow> con_id option" where
  "con_inside_floating s c = inside_floating_path s (ancestors s c)"

definition con_is_floating :: "wm \<Rightarrow> con_id \<Rightarrow> bool" where
  "con_is_floating s c \<longleftrightarrow> floating (store s c) \<ge> FLOATING_AUTO_ON"

text \<open>\<open>con_force_split_parents_redraw\<close> frees the cached decoration of every split container from \<open>c\<close>
  up to the workspace or dock area.\<close>

definition con_force_split_parents_redraw :: "con_id \<Rightarrow> wm \<Rightarrow> wm" where
  "con_force_split_parents_redraw c s =
     (let path = takeWhile (\<lambda>p. kind s p \<noteq> CT_WORKSPACE \<and> kind s p \<noteq> CT_DOCKAREA) (ancestors s c)
      in fold (\<lambda>p. if con_is_leaf s p then id else upd_con p (\<lambda>k. k\<lparr>deco_cached := False\<rparr>)) path s)"

lemma fold_upd_frame:
  assumes "\<And>p s. P s (f p s)" and "\<And>s. P s s" and "\<And>s t u. P s t \<Longrightarrow> P t u \<Longrightarrow> P s u"
  shows "P s (fold f ps s)"
  by (induction ps arbitrary: s) (auto intro: assms)

lemma fold_upd_eq:
  assumes "\<And>p s. g (f p s) = g s"
  shows "g (fold f ps s) = g s"
  by (induction ps arbitrary: s) (auto simp: assms)

text \<open>Only the caches change.\<close>

lemma redraw_frame [frame, simp]:
  "(store (con_force_split_parents_redraw c s) d)\<lparr>deco_cached := x\<rparr> = (store s d)\<lparr>deco_cached := x\<rparr>"
  "all_cons (con_force_split_parents_redraw c s) = all_cons s"
  "croot (con_force_split_parents_redraw c s) = croot s"
  "focused (con_force_split_parents_redraw c s) = focused s"
  "next_id (con_force_split_parents_redraw c s) = next_id s"
  "cfg (con_force_split_parents_redraw c s) = cfg s"
  "ws_assignments (con_force_split_parents_redraw c s) = ws_assignments s"
  "outputs (con_force_split_parents_redraw c s) = outputs s"
  "previous_workspace_name (con_force_split_parents_redraw c s) = previous_workspace_name s"
  "scroll_anim (con_force_split_parents_redraw c s) = scroll_anim s"
  "ipc_log (con_force_split_parents_redraw c s) = ipc_log s"
  unfolding con_force_split_parents_redraw_def Let_def
  by (rule fold_upd_eq, simp)+

lemma redraw_fields [simp]:
  fixes c s d defines "k \<equiv> store (con_force_split_parents_redraw c s) d"
  shows "parent k = parent_of s d" "ctype k = kind s d" "nodes_head k = nodes s d"
    "floating_head k = floats s d" "focus_head k = foci s d" "layout k = layout_of s d"
    "num k = num (store s d)" "percent k = percent (store s d)" "window k = window (store s d)"
    "urgent k = urgent (store s d)" "workspace_layout k = workspace_layout (store s d)"
    "fullscreen_mode k = fullscreen_mode (store s d)" "floating k = floating (store s d)"
    "cname k = cname (store s d)" "last_split_layout k = last_split_layout (store s d)"
    "rect k = rect (store s d)" "marks_head k = marks_head (store s d)"
    "geometry k = geometry (store s d)" "urgency_timer k = urgency_timer (store s d)"
proof -
  have eq: "k\<lparr>deco_cached := True\<rparr> = (store s d)\<lparr>deco_cached := True\<rparr>"
    unfolding k_def by (rule redraw_frame)
  note sel = arg_cong [OF eq]
  show "parent k = parent_of s d" "ctype k = kind s d" "nodes_head k = nodes s d"
    "floating_head k = floats s d" "focus_head k = foci s d" "layout k = layout_of s d"
    "num k = num (store s d)" "percent k = percent (store s d)" "window k = window (store s d)"
    "urgent k = urgent (store s d)" "workspace_layout k = workspace_layout (store s d)"
    "fullscreen_mode k = fullscreen_mode (store s d)" "floating k = floating (store s d)"
    "cname k = cname (store s d)" "last_split_layout k = last_split_layout (store s d)"
    "rect k = rect (store s d)" "marks_head k = marks_head (store s d)"
    "geometry k = geometry (store s d)" "urgency_timer k = urgency_timer (store s d)"
    using sel [of parent] sel [of ctype] sel [of nodes_head] sel [of floating_head]
      sel [of focus_head] sel [of layout] sel [of num] sel [of percent] sel [of window]
      sel [of urgent] sel [of workspace_layout] sel [of fullscreen_mode] sel [of floating]
      sel [of cname] sel [of last_split_layout] sel [of rect] sel [of marks_head]
      sel [of geometry] sel [of urgency_timer]
    by simp_all
qed

lemma same_links_redraw [simp]: "same_links s (con_force_split_parents_redraw c s)"
  by (simp add: same_links_def)

subsection \<open>\<open>con_fix_percent\<close>\<close>

text \<open>
  The three loops of \<open>con_fix_percent\<close> on the percentages of the children, in order. The second loop
  divides the running total, to which it adds every share it hands out, by the number of children
  that had a percentage before it started.
\<close>

fun fill_percents :: "nat \<Rightarrow> real \<Rightarrow> real list \<Rightarrow> real list \<times> real" where
  "fill_percents with_percent tot [] = ([], tot)"
| "fill_percents with_percent tot (p # ps) =
     (if p \<le> 0 then
        let q = (if with_percent = 0 then 1 else tot / real with_percent);
            (qs, t) = fill_percents with_percent (tot + q) ps
        in (q # qs, t)
      else let (qs, t) = fill_percents with_percent tot ps in (p # qs, t))"

definition fix_percents :: "real list \<Rightarrow> real list" where
  "fix_percents ps =
     (let given = filter (\<lambda>p. p > 0) ps;
          tot = sum_list given;
          (qs, tot) = (if length given \<noteq> length ps then fill_percents (length given) tot ps
                         else (ps, tot))
      in if tot = 0 then map (\<lambda>_. 1 / real (length ps)) qs
         else if tot \<noteq> 1 then map (\<lambda>q. q / tot) qs
         else qs)"

fun set_percents :: "con_id list \<Rightarrow> real list \<Rightarrow> wm \<Rightarrow> wm" where
  "set_percents (c # cs) (p # ps) s = set_percents cs ps (upd_con c (\<lambda>k. k\<lparr>percent := p\<rparr>) s)"
| "set_percents cs ps s = s"

definition con_fix_percent :: "con_id \<Rightarrow> wm \<Rightarrow> wm" where
  "con_fix_percent c s =
     (if layout_of s c = L_SCROLLING then s
      else set_percents (nodes s c) (fix_percents (map (\<lambda>d. percent (store s d)) (nodes s c))) s)"

lemma length_fill_percents [simp]: "length (fst (fill_percents k t ps)) = length ps"
  by (induction k t ps rule: fill_percents.induct) (auto simp: Let_def split: prod.splits)

lemma fill_percents_length: "fill_percents k t ps = (qs, u) \<Longrightarrow> length qs = length ps"
  by (metis fst_conv length_fill_percents)

lemma length_fix_percents [simp]: "length (fix_percents ps) = length ps"
  by (auto simp: fix_percents_def Let_def dest: fill_percents_length split: prod.splits)

lemma sum_list_pos: "xs \<noteq> [] \<Longrightarrow> \<forall>x \<in> set xs. x > 0 \<Longrightarrow> sum_list xs > 0" for xs :: "real list"
proof (induction xs)
  case (Cons x xs)
  then show ?case by (cases xs) (auto simp: add_pos_pos)
qed simp

lemma fill_percents_positive:
  assumes "0 \<le> tot" and "with_percent = 0 \<or> tot > 0"
  shows "\<forall>q \<in> set (fst (fill_percents with_percent tot ps)). q > 0"
  using assms
proof (induction with_percent tot ps rule: fill_percents.induct)
  case (2 k tot p ps)
  define q where "q = (if k = 0 then 1 else tot / real k)"
  have q: "q > 0" using 2(3,4) by (auto simp: q_def)
  show ?case
  proof (cases "p \<le> 0")
    case True
    have "\<forall>q \<in> set (fst (fill_percents k (tot + q) ps)). q > 0"
      by (rule 2(1) [OF True q_def]) (use q 2(3) in auto)
    with True q show ?thesis
      by (cases "fill_percents k (tot + q) ps") (simp add: Let_def flip: q_def)
  next
    case False
    with 2(2) [OF False 2(3,4)] show ?thesis by (cases "fill_percents k tot ps") simp
  qed
qed simp

text \<open>The running total: what was given plus every share handed out.\<close>

lemma fill_percents_total:
  "snd (fill_percents k tot ps) - sum_list (fst (fill_percents k tot ps)) =
   tot - sum_list (filter (\<lambda>p. p > 0) ps)"
proof (induction k tot ps rule: fill_percents.induct)
  case (2 k tot p ps)
  define q where "q = (if k = 0 then 1 else tot / real k)"
  show ?case
  proof (cases "p \<le> 0")
    case True
    with 2(1) [of q] show ?thesis
      by (cases "fill_percents k (tot + q) ps") (simp add: Let_def flip: q_def)
  next
    case False
    with 2(2) show ?thesis by (cases "fill_percents k tot ps") simp
  qed
qed simp

lemma fix_percents_correct:
  assumes "ps \<noteq> []"
  shows "sum_list (fix_percents ps) = 1" and "\<forall>q \<in> set (fix_percents ps). q > 0"
proof -
  define given where "given = filter (\<lambda>p. p > 0) ps"
  define qt where "qt = (if length given \<noteq> length ps
     then fill_percents (length given) (sum_list given) ps else (ps, sum_list given))"
  obtain qs tot where qt': "qt = (qs, tot)" by fastforce
  have given_pos: "\<forall>p \<in> set given. p > 0" by (simp add: given_def)
  have "sum_list given \<ge> 0" using given_pos by (simp add: sum_list_nonneg less_imp_le)
  moreover have "length given = 0 \<or> sum_list given > 0"
    using sum_list_pos [of given] given_pos by auto
  ultimately have fill: "\<forall>q \<in> set (fst (fill_percents (length given) (sum_list given) ps)). q > 0"
    by (intro fill_percents_positive) auto
  have filled: "snd (fill_percents (length given) (sum_list given) ps) =
      sum_list (fst (fill_percents (length given) (sum_list given) ps))"
    using fill_percents_total [of "length given" "sum_list given" ps] by (simp add: given_def)
  have "qs = fst qt" "tot = snd qt" by (simp_all add: qt')
  moreover have "given = ps" if "length given = length ps"
    using that by (metis filter_id_conv given_def length_filter_less less_irrefl)
  ultimately have pos: "\<forall>q \<in> set qs. q > 0" and sum: "sum_list qs = tot"
    using fill filled given_pos by (cases "length given = length ps", simp_all add: qt_def)+
  have len: "length qs = length ps"
    using qt' by (auto simp: qt_def dest: fill_percents_length split: if_splits)
  with assms have "qs \<noteq> []" by auto
  then have "tot > 0" using sum_list_pos pos sum by blast
  moreover have "fix_percents ps = (case qt of (qs, tot) \<Rightarrow>
      if tot = 0 then map (\<lambda>_. 1 / real (length ps)) qs
      else if tot \<noteq> 1 then map (\<lambda>q. q / tot) qs else qs)"
    unfolding fix_percents_def Let_def qt_def given_def by (rule refl)
  ultimately have scaled: "fix_percents ps = map (\<lambda>q. q / tot) qs" by (simp add: qt')
  show "sum_list (fix_percents ps) = 1"
    using \<open>tot > 0\<close> sum by (simp add: scaled divide_inverse sum_list_mult_const)
  show "\<forall>q \<in> set (fix_percents ps). q > 0" using pos \<open>tot > 0\<close> by (auto simp: scaled)
qed

lemma set_percents_frame [frame]:
  "(store (set_percents cs ps s) d)\<lparr>percent := x\<rparr> = (store s d)\<lparr>percent := x\<rparr>"
  "all_cons (set_percents cs ps s) = all_cons s"
  "croot (set_percents cs ps s) = croot s"
  "focused (set_percents cs ps s) = focused s"
  "next_id (set_percents cs ps s) = next_id s"
  "cfg (set_percents cs ps s) = cfg s"
  "ws_assignments (set_percents cs ps s) = ws_assignments s"
  "outputs (set_percents cs ps s) = outputs s"
  "previous_workspace_name (set_percents cs ps s) = previous_workspace_name s"
  "scroll_anim (set_percents cs ps s) = scroll_anim s"
  "ipc_log (set_percents cs ps s) = ipc_log s"
  by (induction cs ps s rule: set_percents.induct) auto

lemma fix_percent_frame [frame, simp]:
  "(store (con_fix_percent c s) d)\<lparr>percent := x\<rparr> = (store s d)\<lparr>percent := x\<rparr>"
  "all_cons (con_fix_percent c s) = all_cons s"
  "croot (con_fix_percent c s) = croot s"
  "focused (con_fix_percent c s) = focused s"
  "next_id (con_fix_percent c s) = next_id s"
  "cfg (con_fix_percent c s) = cfg s"
  "ws_assignments (con_fix_percent c s) = ws_assignments s"
  "outputs (con_fix_percent c s) = outputs s"
  "previous_workspace_name (con_fix_percent c s) = previous_workspace_name s"
  "scroll_anim (con_fix_percent c s) = scroll_anim s"
  "ipc_log (con_fix_percent c s) = ipc_log s"
  by (simp_all add: con_fix_percent_def set_percents_frame)

lemma fix_percent_fields [simp]:
  fixes c s d defines "k \<equiv> store (con_fix_percent c s) d"
  shows "parent k = parent_of s d" "ctype k = kind s d" "nodes_head k = nodes s d"
    "floating_head k = floats s d" "focus_head k = foci s d" "layout k = layout_of s d"
    "num k = num (store s d)" "window k = window (store s d)"
    "urgent k = urgent (store s d)" "workspace_layout k = workspace_layout (store s d)"
    "fullscreen_mode k = fullscreen_mode (store s d)" "floating k = floating (store s d)"
    "cname k = cname (store s d)" "last_split_layout k = last_split_layout (store s d)"
    "rect k = rect (store s d)" "marks_head k = marks_head (store s d)"
    "geometry k = geometry (store s d)" "urgency_timer k = urgency_timer (store s d)"
proof -
  have eq: "k\<lparr>percent := 0\<rparr> = (store s d)\<lparr>percent := 0\<rparr>"
    unfolding k_def by (rule fix_percent_frame)
  note sel = arg_cong [OF eq]
  show "parent k = parent_of s d" "ctype k = kind s d" "nodes_head k = nodes s d"
    "floating_head k = floats s d" "focus_head k = foci s d" "layout k = layout_of s d"
    "num k = num (store s d)" "window k = window (store s d)"
    "urgent k = urgent (store s d)" "workspace_layout k = workspace_layout (store s d)"
    "fullscreen_mode k = fullscreen_mode (store s d)" "floating k = floating (store s d)"
    "cname k = cname (store s d)" "last_split_layout k = last_split_layout (store s d)"
    "rect k = rect (store s d)" "marks_head k = marks_head (store s d)"
    "geometry k = geometry (store s d)" "urgency_timer k = urgency_timer (store s d)"
    using sel [of parent] sel [of ctype] sel [of nodes_head] sel [of floating_head]
      sel [of focus_head] sel [of layout] sel [of num] sel [of window]
      sel [of urgent] sel [of workspace_layout] sel [of fullscreen_mode] sel [of floating]
      sel [of cname] sel [of last_split_layout] sel [of rect] sel [of marks_head]
      sel [of geometry] sel [of urgency_timer]
    by simp_all
qed

lemma same_links_fix_percent [simp]: "same_links s (con_fix_percent c s)"
  by (simp add: same_links_def)

lemma percent_set_percents:
  "distinct cs \<Longrightarrow> length cs = length ps \<Longrightarrow>
     map (\<lambda>d. percent (store (set_percents cs ps s) d)) cs = ps"
proof (induction cs ps s rule: set_percents.induct)
  case (1 c cs p ps s)
  have "percent (store (set_percents cs ps t) c) = percent (store t c)" if "c \<notin> set cs" for t cs ps
    using that by (induction cs ps t rule: set_percents.induct) auto
  with 1 show ?case by simp
qed auto

lemma percents_of_children:
  assumes "distinct (nodes s c)" and "layout_of s c \<noteq> L_SCROLLING"
  shows "map (\<lambda>d. percent (store (con_fix_percent c s) d)) (nodes s c) =
    fix_percents (map (\<lambda>d. percent (store s d)) (nodes s c))"
  using percent_set_percents [OF assms(1)] assms(2) by (simp add: con_fix_percent_def)

lemma ancestors_cong:
  assumes s: "tree_ok s" and t: "tree_ok t" and sub: "set (all_cons s) \<subseteq> set (all_cons t)"
    and c: "c \<in> set (all_cons s)"
    and "\<forall>d \<in> set (ancestors s c). parent_of t d = parent_of s d"
  shows "ancestors t c = ancestors s c"
proof -
  have "(\<forall>d \<in> set (ancestors s c). parent_of t d = parent_of s d) \<longrightarrow> ancestors t c = ancestors s c"
  proof (rule up.walk_induct [OF s c])
    fix c
    assume c: "c \<in> set (all_cons s)"
      and IH: "\<And>d. d \<in> set (case parent_of s c of None \<Rightarrow> [] | Some p \<Rightarrow> [p]) \<Longrightarrow>
        (\<forall>e \<in> set (ancestors s d). parent_of t e = parent_of s e) \<longrightarrow> ancestors t d = ancestors s d"
    have ct: "c \<in> set (all_cons t)" using c sub by blast
    show "(\<forall>d \<in> set (ancestors s c). parent_of t d = parent_of s d) \<longrightarrow>
        ancestors t c = ancestors s c"
      using IH ancestors_unfold [OF s c] ancestors_unfold [OF t ct]
      by (cases "parent_of s c") simp_all
  qed
  with assms(5) show ?thesis by blast
qed

lemma self_in_ancestors: "tree_ok s \<Longrightarrow> c \<in> set (all_cons s) \<Longrightarrow> c \<in> set (ancestors s c)"
  by (subst ancestors_unfold) simp_all

text \<open>No container is its own ancestor's descendant: going up never returns.\<close>

lemma parent_not_below:
  assumes ok: "tree_ok s" and c: "c \<in> set (all_cons s)" and p: "parent_of s c = Some p"
  shows "c \<notin> set (ancestors s p)"
proof -
  from ok obtain r :: "con_id \<Rightarrow> nat" where
    r: "\<forall>c \<in> set (all_cons s). \<forall>p. parent_of s c = Some p \<longrightarrow> r p < r c"
    by (auto simp: tree_ok_def parents_ok_def)
  have pa: "p \<in> set (all_cons s)" using tree_okD(11) [OF ok c p] .
  have "\<forall>d \<in> set (ancestors s p). r d \<le> r p"
  proof (rule up.walk_induct [OF ok pa])
    fix q
    assume q: "q \<in> set (all_cons s)" and IH: "\<And>d. d \<in> set (case parent_of s q of None \<Rightarrow> []
      | Some p \<Rightarrow> [p]) \<Longrightarrow> \<forall>e \<in> set (ancestors s d). r e \<le> r d"
    show "\<forall>d \<in> set (ancestors s q). r d \<le> r q"
    proof (cases "parent_of s q")
      case None
      then show ?thesis by (subst ancestors_unfold [OF ok q]) simp
    next
      case (Some u)
      then have "r u < r q" using r q by blast
      with Some IH [of u] show ?thesis by (subst ancestors_unfold [OF ok q]) auto
    qed
  qed
  then show ?thesis using r c p by fastforce
qed

subsection \<open>Allocation\<close>

definition zero_gaps :: gaps_t where
  "zero_gaps = \<lparr>g_inner = 0, g_top = 0, g_right = 0, g_bottom = 0, g_left = 0\<rparr>"

text \<open>\<open>scalloc\<close> and the assignments of \<open>con_new_skeleton\<close>.\<close>

definition skeleton :: "config \<Rightarrow> i3Window option \<Rightarrow> con" where
  "skeleton cf w =
    \<lparr>mapped = False, urgent = False, ctype = CT_CON, num = 0, gaps = zero_gaps, parent = None,
     rect = zero_rect, window_rect = zero_rect, deco_rect = zero_rect, geometry = zero_rect,
     cname = [], title_format = None, sticky_group = None, marks_head = [], mark_changed = False,
     percent = 0, scroll_offset = 0, scroll_prev_percent = 0, border_width = 0,
     current_border_width = - 1, window_icon_padding = - 1, window = w, urgency_timer = False, deco_cached = False,
     floating_head = [], nodes_head = [], focus_head = [], swallow_head = [],
     fullscreen_mode = CF_NONE, sticky = False, layout = L_DEFAULT, last_split_layout = L_DEFAULT,
     workspace_layout = L_DEFAULT, border_style = cfg_default_border cf,
     max_user_border_style = cfg_default_border cf, floating = FLOATING_AUTO_OFF,
     scratchpad_state = SCRATCHPAD_NONE\<rparr>"

text \<open>\<open>con_new(NULL, window)\<close>: a fresh address, at the tail of \<open>all_cons\<close>, in no list.\<close>

definition con_new_detached :: "i3Window option \<Rightarrow> wm \<Rightarrow> con_id \<times> wm" where
  "con_new_detached w s =
     (let n = next_id s
      in (n, s\<lparr>store := (store s)(n := skeleton (cfg s) w), all_cons := all_cons s @ [n],
               next_id := Suc n\<rparr>))"

lemma fresh_not_alloc: "tree_ok s \<Longrightarrow> next_id s \<notin> set (all_cons s)"
  by (auto simp: tree_ok_def ids_ok_def)

lemma con_new_detached_ok:
  assumes ok: "tree_ok s" and new: "con_new_detached w s = (n, t)"
  shows "tree_ok t" and "unlinked t n" and "n \<notin> set (all_cons s)"
    and "all_cons t = all_cons s @ [n]" and "store t = (store s)(n := skeleton (cfg s) w)"
    and "cfg t = cfg s" and "croot t = croot s" and "focused t = focused s"
proof -
  from new have n: "n = next_id s" and t: "t = s\<lparr>store := (store s)(n := skeleton (cfg s) w),
      all_cons := all_cons s @ [n], next_id := Suc n\<rparr>"
    by (auto simp: con_new_detached_def Let_def)
  show fresh: "n \<notin> set (all_cons s)" using fresh_not_alloc [OF ok] n by simp
  show "all_cons t = all_cons s @ [n]" "store t = (store s)(n := skeleton (cfg s) w)"
    "cfg t = cfg s" "croot t = croot s" "focused t = focused s" by (simp_all add: t)
  have neq: "d \<noteq> n" if "d \<in> set (all_cons s)" for d using that fresh by blast
  have kid: "x \<noteq> n" if "d \<in> set (all_cons s)" "x \<in> set (children s d)" for d x
    using tree_ok_child_parent(1) [OF ok that] fresh by blast
  have "links_ok_at t d" if d: "d \<in> set (all_cons s)" for d
    using tree_okD(1-4,9,10) [OF ok d] tree_ok_child_parent [OF ok d] neq [OF d] kid [OF d]
    by (simp add: links_ok_at_def t)
  moreover have "links_ok_at t n" by (simp add: links_ok_at_def t skeleton_def)
  moreover have "ids_ok t" using ok n by (auto simp: tree_ok_def ids_ok_def t)
  moreover have "parents_ok t"
  proof -
    from ok obtain r :: "con_id \<Rightarrow> nat" where
      r: "\<forall>c \<in> set (all_cons s). \<forall>p. parent_of s c = Some p \<longrightarrow> r p < r c"
      by (auto simp: tree_ok_def parents_ok_def)
    have par: "parent_of t n = None" "\<And>d. d \<noteq> n \<Longrightarrow> parent_of t d = parent_of s d"
      by (simp_all add: t skeleton_def)
    have "r p < r d" "p \<in> set (all_cons t)" if "d \<in> set (all_cons t)" "parent_of t d = Some p" for d p
      using that r par tree_okD(11) [OF ok] by (cases "d = n"; auto simp: t skeleton_def)+
    then show ?thesis unfolding parents_ok_def by blast
  qed
  ultimately show "tree_ok t" by (auto simp: tree_ok_def links_ok_def t)
  show "unlinked t n" using kid neq by (fastforce simp: unlinked_def t skeleton_def)
qed

end
