(* ===== verification/Con_Attach.thy ===== *)
theory Con_Attach
  imports Con_Tree
begin

text \<open>
  \<open>_con_attach\<close>, \<open>con_detach\<close>, \<open>con_free\<close>, \<open>get_focus_order\<close> and \<open>set_focus_order\<close> of
  \<^verbatim>\<open>src/con.c\<close>, and \<open>workspace_attach_to\<close> of \<^verbatim>\<open>src/workspace.c\<close>, which \<open>_con_attach\<close> calls:
  where a container is inserted, and that linking and unlinking keep the tree invariant and are
  exactly the update of the abstract parent function.
\<close>

subsection \<open>Positions\<close>

text \<open>The position of a workspace among its siblings: the numbered ones ascend, the named ones
  (\<open>num == -1\<close>) follow in order of attachment.\<close>

fun ws_scan :: "(con_id \<Rightarrow> int) \<Rightarrow> con_id \<Rightarrow> con_id list \<Rightarrow> con_id list" where
  "ws_scan numf c [] = [c]"
| "ws_scan numf c (x # xs) =
     (if numf x \<noteq> - 1 \<and> numf c \<ge> numf x then x # ws_scan numf c xs else c # x # xs)"

definition ws_insert :: "(con_id \<Rightarrow> int) \<Rightarrow> con_id \<Rightarrow> con_id list \<Rightarrow> con_id list" where
  "ws_insert numf c xs =
     (if numf c = - 1 \<or> xs = [] then xs @ [c]
      else if numf c < numf (hd xs) then c # xs
      else ws_scan numf c xs)"

definition window_class :: "wm \<Rightarrow> con_id \<Rightarrow> string option" where
  "window_class s c = Option.bind (window (store s c)) w_class_class"

definition window_instance :: "wm \<Rightarrow> con_id \<Rightarrow> string option" where
  "window_instance s c = Option.bind (window (store s c)) w_class_instance"

text \<open>Dock clients are sorted by class and instance; \<open>c\<close> goes before the first sibling that compares
  greater.\<close>

definition dock_before :: "wm \<Rightarrow> con_id \<Rightarrow> con_id \<Rightarrow> bool" where
  "dock_before s c l \<longleftrightarrow>
     (let result = strcasecmp_nullable (window_class s c) (window_class s l);
          result = (if result = 0 then strcasecmp_nullable (window_instance s c) (window_instance s l)
                    else result)
      in result < 0)"

fun dock_insert :: "(con_id \<Rightarrow> bool) \<Rightarrow> con_id \<Rightarrow> con_id list \<Rightarrow> con_id list" where
  "dock_insert before c [] = [c]"
| "dock_insert before c (x # xs) = (if before x then c # x # xs else x # dock_insert before c xs)"

lemma mset_ws_insert [tailq]: "mset (ws_insert numf c xs) = add_mset c (mset xs)"
proof -
  have "mset (ws_scan numf c xs) = add_mset c (mset xs)" by (induction xs) auto
  then show ?thesis by (simp add: ws_insert_def)
qed

lemma mset_dock_insert [tailq]: "mset (dock_insert b c xs) = add_mset c (mset xs)"
  by (induction xs) auto

text \<open>The order of the workspaces of an output.\<close>

fun ws_ordered :: "(con_id \<Rightarrow> int) \<Rightarrow> con_id list \<Rightarrow> bool" where
  "ws_ordered numf [] = True"
| "ws_ordered numf (x # xs) =
     (if numf x = - 1 then (\<forall>y \<in> set xs. numf y = - 1)
      else (\<forall>y \<in> set xs. numf y = - 1 \<or> numf x \<le> numf y) \<and> ws_ordered numf xs)"

lemma set_ws_scan: "set (ws_scan numf c xs) = insert c (set xs)"
  by (induction xs) auto

lemma ws_ordered_append:
  "ws_ordered numf xs \<Longrightarrow> numf c = - 1 \<Longrightarrow> ws_ordered numf (xs @ [c])"
  by (induction xs) auto

lemma ws_ordered_scan:
  "ws_ordered numf xs \<Longrightarrow> numf c \<noteq> - 1 \<Longrightarrow> ws_ordered numf (ws_scan numf c xs)"
proof (induction xs)
  case (Cons a xs)
  then show ?case
    by (cases "numf a \<noteq> - 1 \<and> numf c \<ge> numf a") (fastforce simp: set_ws_scan split: if_splits)+
qed simp

lemma ws_ordered_insert:
  assumes "ws_ordered numf xs" and "numf c \<ge> - 1" and "\<forall>x \<in> set xs. numf x \<ge> - 1"
  shows "ws_ordered numf (ws_insert numf c xs)"
proof -
  have "ws_ordered numf (c # xs)" if "numf c \<noteq> - 1" "xs \<noteq> []" "numf c < numf (hd xs)"
  proof (cases xs)
    case (Cons x ys)
    with that assms show ?thesis by (auto split: if_splits)
  qed (use that in simp)
  then show ?thesis
    using ws_ordered_append [OF assms(1)] ws_ordered_scan [OF assms(1)]
    by (auto simp: ws_insert_def)
qed

subsection \<open>Attaching\<close>

definition append_focus :: "con_id \<Rightarrow> con_id \<Rightarrow> wm \<Rightarrow> wm" where
  "append_focus c p s =
     con_force_split_parents_redraw c (upd_con p (\<lambda>k. k\<lparr>focus_head := focus_head k @ [c]\<rparr>) s)"

definition append_node_after :: "con_id option \<Rightarrow> con_id \<Rightarrow> con_id \<Rightarrow> wm \<Rightarrow> wm" where
  "append_node_after current c p s =
     upd_con p (\<lambda>k. k\<lparr>nodes_head :=
       (case current of None \<Rightarrow> nodes_head k @ [c] | Some l \<Rightarrow> tailq_insert_after l c (nodes_head k))\<rparr>) s"

text \<open>
  The body of \<open>_con_attach\<close>, over the function it calls for a window that is attached to a workspace
  with a configured layout (\<open>workspace_attach_to\<close>, which calls \<open>con_attach\<close> itself, but for a new
  container without a window). \<open>previous\<close> is where the insertion point starts when the focus
  stack is ignored.
\<close>

definition con_attach_with ::
  "(con_id \<Rightarrow> wm \<Rightarrow> con_id \<times> wm) \<Rightarrow> con_id \<Rightarrow> con_id \<Rightarrow> con_id option \<Rightarrow> bool \<Rightarrow> wm \<Rightarrow> wm" where
  "con_attach_with attach_to c p previous ignore_focus s0 =
     (let s = upd_con c (\<lambda>k. k\<lparr>parent := Some p\<rparr>) s0 in
      if kind s c = CT_WORKSPACE then
        append_focus c p (upd_con p (\<lambda>k. k\<lparr>nodes_head :=
          ws_insert (\<lambda>x. num (store s x)) c (nodes_head k)\<rparr>) s)
      else if kind s p = CT_DOCKAREA then
        append_focus c p (upd_con p (\<lambda>k. k\<lparr>nodes_head :=
          dock_insert (dock_before s c) c (nodes_head k)\<rparr>) s)
      else if kind s c = CT_FLOATING_CON then
        append_focus c p (upd_con p (\<lambda>k. k\<lparr>floating_head := floating_head k @ [c]\<rparr>) s)
      else
        let current = (if ignore_focus then previous
              else case find (\<lambda>x. kind s x \<noteq> CT_FLOATING_CON) (foci s p) of
                  None \<Rightarrow> previous | Some x \<Rightarrow> Some x)
        in if window (store s c) \<noteq> None \<and> kind s p = CT_WORKSPACE \<and>
              workspace_layout (store s p) \<noteq> L_DEFAULT
           then (case attach_to p s of (target, s') \<Rightarrow>
             append_focus c target (append_node_after None c target
               (upd_con c (\<lambda>k. k\<lparr>parent := Some target\<rparr>) s')))
           else append_focus c p
             (append_node_after (if kind s p \<noteq> CT_OUTPUT then current else None) c p s))"

text \<open>
  \<open>workspace_attach_to\<close>: the workspace itself, or a new split container on it with the configured
  layout. The inner \<open>con_attach\<close> is of a container without a window.
\<close>

definition workspace_attach_to :: "con_id \<Rightarrow> wm \<Rightarrow> con_id \<times> wm" where
  "workspace_attach_to ws s =
     (if workspace_layout (store s ws) = L_DEFAULT then (ws, s)
      else case con_new_detached None s of (new, s) \<Rightarrow>
        let s = upd_con new (\<lambda>k. k\<lparr>parent := Some ws\<rparr>) s;
            s = upd_con new (\<lambda>k. k\<lparr>layout := workspace_layout (store s ws)\<rparr>) s;
            s = con_attach_with Pair new ws None False s
        in (new, con_fix_percent ws s))"

definition con_attach_at :: "con_id \<Rightarrow> con_id \<Rightarrow> con_id option \<Rightarrow> bool \<Rightarrow> wm \<Rightarrow> wm" where
  "con_attach_at c p previous ignore_focus s =
     con_attach_with workspace_attach_to c p previous ignore_focus s"

definition con_attach :: "con_id \<Rightarrow> con_id \<Rightarrow> bool \<Rightarrow> wm \<Rightarrow> wm" where
  "con_attach c p ignore_focus s = con_attach_at c p None ignore_focus s"

text \<open>The recursion stops after one level: without a window the callee does not matter.\<close>

lemma con_attach_with_no_window:
  "window (store s c) = None \<Longrightarrow>
     con_attach_with f c p previous ignore_focus s = con_attach_with g c p previous ignore_focus s"
  by (simp add: con_attach_with_def Let_def)

definition con_new_skeleton :: "con_id option \<Rightarrow> i3Window option \<Rightarrow> wm \<Rightarrow> con_id \<times> wm" where
  "con_new_skeleton par w s =
     (case con_new_detached w s of (new, s) \<Rightarrow>
        (new, case par of None \<Rightarrow> s | Some p \<Rightarrow> con_attach new p False s))"

subsection \<open>Detaching, freeing, focus order\<close>

text \<open>\<open>con_detach\<close> unlinks \<open>con\<close> from its parent's lists; \<open>con->parent\<close> keeps its value. A container
  without a parent is not detached by any caller (the C code would dereference NULL).\<close>

definition con_detach :: "con_id \<Rightarrow> wm \<Rightarrow> wm" where
  "con_detach c s0 =
     (let s = con_force_split_parents_redraw c s0 in
      case parent_of s c of
        None \<Rightarrow> s
      | Some p \<Rightarrow>
          if kind s c = CT_FLOATING_CON then
            upd_con p (\<lambda>k. k\<lparr>focus_head := remove1 c (focus_head k)\<rparr>)
              (upd_con p (\<lambda>k. k\<lparr>floating_head := remove1 c (floating_head k)\<rparr>) s)
          else
            upd_con p (\<lambda>k. k\<lparr>focus_head := remove1 c (focus_head k)\<rparr>)
              (upd_con p (\<lambda>k. k\<lparr>nodes_head := remove1 c (nodes_head k)\<rparr>) s))"

text \<open>\<open>con_free\<close>: the container leaves \<open>all_cons\<close>; a scroll animation of a workspace that is freed is
  forgotten (\<open>scrolling_forget\<close>). What the overview keeps of a workspace is not modelled.\<close>

definition scrolling_forget :: "con_id \<Rightarrow> wm \<Rightarrow> wm" where
  "scrolling_forget c s =
     (if sa_con (scroll_anim s) = Some c
      then s\<lparr>scroll_anim := (scroll_anim s)\<lparr>sa_con := None, sa_anim_id := 0\<rparr>\<rparr> else s)"

definition con_free :: "con_id \<Rightarrow> wm \<Rightarrow> wm" where
  "con_free c s =
     (let s = s\<lparr>all_cons := remove1 c (all_cons s)\<rparr>
      in if kind s c = CT_WORKSPACE then scrolling_forget c s else s)"

definition get_focus_order :: "wm \<Rightarrow> con_id \<Rightarrow> con_id list" where
  "get_focus_order s c = foci s c"

text \<open>
  \<open>set_focus_order\<close> empties the focus stack, counting its entries, and refills it from the array; an
  entry it skips (a floating one, when \<open>con\<close> is not a workspace) raises the count, so the loop reads
  as many entries as it needs. \<^const>\<open>None\<close> is a read past the end of the array.
\<close>

fun refill_focus :: "(con_id \<Rightarrow> bool) \<Rightarrow> nat \<Rightarrow> con_id list \<Rightarrow> con_id list option" where
  "refill_focus skip 0 order = Some []"
| "refill_focus skip (Suc n) [] = None"
| "refill_focus skip (Suc n) (x # xs) =
     (if skip x then refill_focus skip (Suc n) xs
      else map_option ((#) x) (refill_focus skip n xs))"

definition set_focus_order :: "con_id \<Rightarrow> con_id list \<Rightarrow> wm \<Rightarrow> wm option" where
  "set_focus_order c order s =
     map_option (\<lambda>fs. upd_con c (\<lambda>k. k\<lparr>focus_head := fs\<rparr>) s)
       (refill_focus (\<lambda>x. kind s c \<noteq> CT_WORKSPACE \<and> con_inside_floating s x \<noteq> None)
          (length (foci s c)) order)"

subsection \<open>Detaching keeps the invariant\<close>

lemma con_detach_left:
  "parent_of s c = Some p \<Longrightarrow> left s (con_detach c s) c p"
  by (simp add: left_def con_detach_def)

lemma con_detach_tree_ok [keeps]:
  assumes ok: "tree_ok s" and c: "c \<in> set (all_cons s)"
  shows "tree_ok (con_detach c s)"
proof (cases "parent_of s c")
  case None
  then have "con_detach c s = con_force_split_parents_redraw c s" by (simp add: con_detach_def)
  then show ?thesis using ok same_links_tree_ok [OF same_links_redraw] by simp
next
  case (Some p)
  then show ?thesis using left_tree_ok [OF ok tree_okD(11) [OF ok c Some] con_detach_left] by blast
qed

lemma con_detach_unlinked:
  assumes ok: "tree_ok s" and c: "c \<in> set (all_cons s)"
  shows "unlinked (con_detach c s) c"
proof (cases "parent_of s c")
  case None
  then have "con_detach c s = con_force_split_parents_redraw c s" by (simp add: con_detach_def)
  then show ?thesis
    using None unlinked_iff [OF ok c] same_links_unlinked [OF same_links_redraw] by simp
next
  case (Some p)
  then show ?thesis using left_unlinked [OF ok c _ con_detach_left] by blast
qed

lemma con_detach_frame [frame, simp]:
  "all_cons (con_detach c s) = all_cons s"
  "croot (con_detach c s) = croot s"
  "focused (con_detach c s) = focused s"
  "next_id (con_detach c s) = next_id s"
  "cfg (con_detach c s) = cfg s"
  "ws_assignments (con_detach c s) = ws_assignments s"
  "outputs (con_detach c s) = outputs s"
  "previous_workspace_name (con_detach c s) = previous_workspace_name s"
  "scroll_anim (con_detach c s) = scroll_anim s"
  "ipc_log (con_detach c s) = ipc_log s"
  by (auto simp: con_detach_def Let_def split: option.splits)

lemma con_detach_fields [simp]:
  "parent_of (con_detach c s) d = parent_of s d" "kind (con_detach c s) d = kind s d"
  "layout_of (con_detach c s) d = layout_of s d"
  "num (store (con_detach c s) d) = num (store s d)"
  "percent (store (con_detach c s) d) = percent (store s d)"
  "window (store (con_detach c s) d) = window (store s d)"
  "urgent (store (con_detach c s) d) = urgent (store s d)"
  "workspace_layout (store (con_detach c s) d) = workspace_layout (store s d)"
  "fullscreen_mode (store (con_detach c s) d) = fullscreen_mode (store s d)"
  "floating (store (con_detach c s) d) = floating (store s d)"
  "cname (store (con_detach c s) d) = cname (store s d)"
  "last_split_layout (store (con_detach c s) d) = last_split_layout (store s d)"
  by (auto simp: con_detach_def Let_def split: option.splits)

subsection \<open>Attaching keeps the invariant\<close>

text \<open>A caller's insertion point is a tiling child of the parent.\<close>

definition good_previous :: "wm \<Rightarrow> con_id \<Rightarrow> con_id option \<Rightarrow> bool" where
  "good_previous s p previous \<longleftrightarrow> (case previous of None \<Rightarrow> True | Some l \<Rightarrow> l \<in> set (nodes s p))"

text \<open>What a caller of \<open>con_attach\<close> has: two allocated containers, the first in no list and not above
  the second; floating containers are not put into dock areas.\<close>

definition can_attach :: "wm \<Rightarrow> con_id \<Rightarrow> con_id \<Rightarrow> bool" where
  "can_attach s c p \<longleftrightarrow>
     tree_ok s \<and> c \<in> set (all_cons s) \<and> p \<in> set (all_cons s) \<and> unlinked s c \<and>
     c \<notin> set (ancestors s p) \<and> \<not> (kind s c = CT_FLOATING_CON \<and> kind s p = CT_DOCKAREA)"

definition redirected :: "wm \<Rightarrow> con_id \<Rightarrow> con_id \<Rightarrow> bool" where
  "redirected s c p \<longleftrightarrow>
     kind s c \<noteq> CT_WORKSPACE \<and> kind s c \<noteq> CT_FLOATING_CON \<and> window (store s c) \<noteq> None \<and>
     kind s p = CT_WORKSPACE \<and> workspace_layout (store s p) \<noteq> L_DEFAULT"

lemma can_attach_neq: "can_attach s c p \<Longrightarrow> c \<noteq> p"
  unfolding can_attach_def using self_in_ancestors by blast

text \<open>Setting the parent pointer changes no other field.\<close>

lemma set_parent_fields [simp]:
  fixes c q s d defines "k \<equiv> store (upd_con c (\<lambda>k. k\<lparr>parent := q\<rparr>) s) d"
  shows "ctype k = kind s d" "nodes_head k = nodes s d" "floating_head k = floats s d"
    "focus_head k = foci s d" "num k = num (store s d)" "window k = window (store s d)"
    "workspace_layout k = workspace_layout (store s d)" "layout k = layout_of s d"
    "percent k = percent (store s d)" "parent k = (if d = c then q else parent_of s d)"
  by (simp_all add: k_def)

lemma entered_append_node:
  assumes "good_previous s p cu" and "c \<notin> set (nodes s p)" and "c \<noteq> p"
    and "kind s c \<noteq> CT_FLOATING_CON"
  shows "entered s (append_focus c p (append_node_after cu c p
    (upd_con c (\<lambda>k. k\<lparr>parent := Some p\<rparr>) s))) c p"
proof -
  have "mset (case cu of None \<Rightarrow> nodes s p @ [c] | Some l \<Rightarrow> tailq_insert_after l c (nodes s p)) =
      add_mset c (mset (nodes s p))"
    using assms(1,2) by (auto simp: good_previous_def tailq split: option.splits)
  then show ?thesis using assms(3,4)
    by (cases cu) (simp_all add: entered_def append_focus_def append_node_after_def)
qed

lemma find_tiling_in_nodes:
  assumes "tree_ok s" and "p \<in> set (all_cons s)"
    and "find (\<lambda>x. kind s x \<noteq> CT_FLOATING_CON) (foci s p) = Some l"
  shows "l \<in> set (nodes s p)"
proof -
  from assms(3) have "l \<in> set (foci s p)" "kind s l \<noteq> CT_FLOATING_CON"
    by (auto simp: find_Some_iff)
  then show ?thesis using tree_okD(4,10) [OF assms(1,2)] by auto
qed

lemma con_attach_with_entered:
  assumes can: "can_attach s c p" and prev: "good_previous s p previous"
    and direct: "\<not> redirected s c p"
  shows "entered s (con_attach_with f c p previous ignore_focus s) c p"
proof -
  from can have ok: "tree_ok s" and p: "p \<in> set (all_cons s)" and free: "unlinked s c"
    by (auto simp: can_attach_def)
  have cn: "c \<notin> set (nodes s p)" using free p by (simp add: unlinked_def)
  have neq: "c \<noteq> p" by (rule can_attach_neq [OF can])
  have cur: "good_previous s p (case find (\<lambda>x. kind s x \<noteq> CT_FLOATING_CON) (foci s p) of
      None \<Rightarrow> previous | Some x \<Rightarrow> Some x)"
    using prev find_tiling_in_nodes [OF ok p] by (auto simp: good_previous_def split: option.splits)
  show ?thesis
  proof (cases "kind s c = CT_WORKSPACE \<or> kind s p = CT_DOCKAREA \<or> kind s c = CT_FLOATING_CON")
    case True
    then show ?thesis using neq can
      by (auto simp: con_attach_with_def Let_def entered_def append_focus_def tailq can_attach_def)
  next
    case False
    define cu where "cu = (if kind s p \<noteq> CT_OUTPUT then (if ignore_focus then previous
      else case find (\<lambda>x. kind s x \<noteq> CT_FLOATING_CON) (foci s p) of
          None \<Rightarrow> previous | Some x \<Rightarrow> Some x) else None)"
    have "good_previous s p cu" using prev cur by (simp add: cu_def good_previous_def)
    moreover have "con_attach_with f c p previous ignore_focus s =
        append_focus c p (append_node_after cu c p (upd_con c (\<lambda>k. k\<lparr>parent := Some p\<rparr>) s))"
      using False direct unfolding con_attach_with_def Let_def cu_def redirected_def set_parent_fields
      by auto
    ultimately show ?thesis using entered_append_node [OF _ cn neq] False by simp
  qed
qed

lemma upd_con_upd_con [simp]: "upd_con c f (upd_con c g s) = upd_con c (\<lambda>k. f (g k)) s"
  by (simp add: upd_con_def)

text \<open>\<open>_con_attach\<close> sets the parent itself, so what it was before does not matter.\<close>

lemma con_attach_with_set_parent:
  "con_attach_with f c p previous ig (upd_con c (\<lambda>k. k\<lparr>parent := q\<rparr>) s) =
   con_attach_with f c p previous ig s"
  by (simp add: con_attach_with_def Let_def)

lemma set_parent_tree_ok:
  assumes ok: "tree_ok s" and c: "c \<in> set (all_cons s)" and p: "p \<in> set (all_cons s)"
    and free: "unlinked s c" and above: "c \<notin> set (ancestors s p)"
  shows "tree_ok (upd_con c (\<lambda>k. k\<lparr>parent := Some p\<rparr>) s)" (is "tree_ok ?t")
proof -
  have "links_ok_at ?t d" if d: "d \<in> set (all_cons s)" for d
  proof -
    have neq: "x \<noteq> c" if "x \<in> set (children s d)" for x using free d that by (auto simp: unlinked_def)
    show ?thesis
      using tree_okD(1-4,9,10) [OF ok d] tree_ok_child_parent [OF ok d] neq
      unfolding links_ok_at_def set_parent_fields upd_con_simps(2) by auto
  qed
  moreover have "parents_ok ?t"
    by (rule parents_ok_reparent [OF ok c p above]) (simp_all add: set_parent_fields)
  ultimately show ?thesis using ok by (simp add: tree_ok_def links_ok_def ids_ok_def)
qed

lemma set_parent_unlinked: "unlinked (upd_con c (\<lambda>k. k\<lparr>parent := q\<rparr>) s) x = unlinked s x"
  by (simp only: unlinked_def set_parent_fields upd_con_simps(2))

lemma con_attach_direct_tree_ok:
  assumes can: "can_attach s c p" and prev: "good_previous s p previous"
    and direct: "\<not> redirected s c p"
  shows "tree_ok (con_attach_with f c p previous ignore_focus s)"
  using entered_tree_ok [OF _ _ _ _ _ con_attach_with_entered [OF assms]] can
  by (simp add: can_attach_def)

lemma parent_layout_swap: "k\<lparr>parent := p, layout := l\<rparr> = (k\<lparr>layout := l, parent := p\<rparr> :: con)"
  by (cases k) simp

lemma entered_linked: "entered s t c p \<Longrightarrow> c \<in> set (children t p)"
proof -
  assume e: "entered s t c p"
  show ?thesis
  proof (cases "kind s c = CT_FLOATING_CON")
    case True
    with e have "mset (floats t p) = add_mset c (mset (floats s p))" by (simp add: entered_def)
    from mset_insert_facts(1) [OF this] show ?thesis by simp
  next
    case False
    with e have "mset (nodes t p) = add_mset c (mset (nodes s p))" by (simp add: entered_def)
    from mset_insert_facts(1) [OF this] show ?thesis by simp
  qed
qed

text \<open>The new split container of \<open>workspace_attach_to\<close> is a leaf child of the workspace.\<close>

lemma workspace_attach_to_new:
  assumes ok: "tree_ok s" and ws: "ws \<in> set (all_cons s)" and kws: "kind s ws = CT_WORKSPACE"
    and lay: "workspace_layout (store s ws) \<noteq> L_DEFAULT"
    and run: "workspace_attach_to ws s = (n, t)"
  shows "tree_ok t" and "n \<notin> set (all_cons s)" and "all_cons t = all_cons s @ [n]"
    and "n \<in> set (nodes t ws)" and "parent_of t n = Some ws" and "kind t n = CT_CON"
    and "children t n = []" and "foci t n = []"
    and "\<And>d. d \<in> set (all_cons s) \<Longrightarrow> parent_of t d = parent_of s d \<and> kind t d = kind s d"
    and "\<And>c. c \<in> set (all_cons s) \<Longrightarrow> unlinked s c \<Longrightarrow> unlinked t c"
proof -
  obtain s1 where new: "con_new_detached None s = (n, s1)"
    using run lay by (auto simp: workspace_attach_to_def split: prod.splits)
  note N = con_new_detached_ok [OF ok new]
  have nws: "n \<noteq> ws" using N(3) ws by blast
  define s2 where "s2 = upd_con n (\<lambda>k. k\<lparr>layout := workspace_layout (store s ws)\<rparr>) s1"
  define s3 where "s3 = con_attach_with Pair n ws None False s2"
  have same: "same_links s1 s2" unfolding s2_def by (rule same_links_upd) simp
  have "upd_con n (\<lambda>k. k\<lparr>layout := workspace_layout (store s ws)\<rparr>)
      (upd_con n (\<lambda>k. k\<lparr>parent := Some ws\<rparr>) s1) = upd_con n (\<lambda>k. k\<lparr>parent := Some ws\<rparr>) s2"
    by (simp add: s2_def upd_con_def parent_layout_swap)
  then have t: "t = con_fix_percent ws s3"
    using run lay new nws N(5) by (simp add: workspace_attach_to_def Let_def s3_def con_attach_with_set_parent)
  have ok2: "tree_ok s2" using same_links_tree_ok [OF same] N(1) by simp
  have st2: "kind s2 ws = CT_WORKSPACE" "kind s2 n = CT_CON" "window (store s2 n) = None"
      "nodes s2 n = []" "floats s2 n = []" "foci s2 n = []" "all_cons s2 = all_cons s @ [n]"
    using nws kws by (simp_all add: s2_def N(4,5) skeleton_def)
  have old: "parent_of s2 d = parent_of s d" "kind s2 d = kind s d" "nodes s2 d = nodes s d"
      "floats s2 d = floats s d" "foci s2 d = foci s d" if "d \<noteq> n" for d
    using that by (simp_all add: s2_def N(5))
  have "ancestors s2 ws = ancestors s ws"
    using ancestors_alloc [OF ok ws] N(3) by (intro ancestors_cong [OF ok ok2 _ ws])
      (auto simp: st2 old intro!: old(1))
  then have above: "n \<notin> set (ancestors s2 ws)" using ancestors_alloc [OF ok ws] N(3) by auto
  have can: "can_attach s2 n ws"
    using ok2 above N(2) same_links_unlinked [OF same] ws by (simp add: can_attach_def st2)
  have e: "entered s2 s3 n ws" unfolding s3_def
    by (rule con_attach_with_entered [OF can]) (simp_all add: good_previous_def redirected_def st2)
  have ok3: "tree_ok s3" unfolding s3_def
    by (rule con_attach_direct_tree_ok [OF can]) (simp_all add: good_previous_def redirected_def st2)
  show "tree_ok t" unfolding t using same_links_tree_ok [OF same_links_fix_percent] ok3 by simp
  show "n \<notin> set (all_cons s)" by (rule N(3))
  show all: "all_cons t = all_cons s @ [n]" using e by (simp add: t entered_def st2)
  have "mset (nodes s3 ws) = add_mset n (mset (nodes s2 ws))" using e by (simp add: entered_def st2)
  from mset_insert_facts(1) [OF this] show "n \<in> set (nodes t ws)" by (simp add: t)
  show "parent_of t n = Some ws" "kind t n = CT_CON" "foci t n = []"
    using e nws by (simp_all add: t entered_def st2)
  show kids: "children t n = []" using e nws by (simp add: t entered_def st2)
  show "parent_of t d = parent_of s d \<and> kind t d = kind s d" if "d \<in> set (all_cons s)" for d
  proof -
    have "d \<noteq> n" using that N(3) by blast
    then show ?thesis using e old by (simp add: t entered_def)
  qed
  show "unlinked t c" if c: "c \<in> set (all_cons s)" and u: "unlinked s c" for c
  proof -
    have cn: "c \<noteq> n" using c N(3) by blast
    have "c \<notin> set (children t d)" if d: "d \<in> set (all_cons s)" for d
    proof -
      have dn: "d \<noteq> n" using d N(3) by blast
      have fl: "floats s3 d = floats s d"
        using e old [OF dn] by (cases "d = ws") (simp_all add: entered_def st2)
      have nd: "set (nodes s3 d) \<subseteq> insert n (set (nodes s d))"
      proof (cases "d = ws")
        case True
        with e old(3) [OF dn] have "mset (nodes s3 d) = add_mset n (mset (nodes s d))"
          by (simp add: entered_def st2)
        from mset_insert_facts(1) [OF this] show ?thesis by simp
      next
        case False
        then show ?thesis using e old [OF dn] by (auto simp: entered_def)
      qed
      have "c \<notin> set (nodes s d)" "c \<notin> set (floats s d)" using u d by (auto simp: unlinked_def)
      with nd fl cn show ?thesis by (auto simp: t)
    qed
    then have "c \<notin> set (children t d)" if "d \<in> set (all_cons s @ [n])" for d
      using that kids by (cases "d = n") (simp_all only: set_append set_simps Un_iff singleton_iff simp_thms empty_iff insert_iff)
    then show ?thesis unfolding unlinked_def all by blast
  qed
qed

text \<open>\<open>con_attach\<close> on every branch: the invariant is kept and the container ends up in the lists of its
  parent, which is the requested one unless the workspace redirects windows to a new split.\<close>

lemma con_attach_at_ok:
  assumes can: "can_attach s c p" and prev: "good_previous s p previous"
    and t: "t = con_attach_at c p previous ignore_focus s"
  shows "tree_ok t" and "\<exists>q \<in> set (all_cons t). parent_of t c = Some q \<and> c \<in> set (children t q) \<and>
      (\<not> redirected s c p \<longrightarrow> q = p) \<and>
      (redirected s c p \<longrightarrow> q \<notin> set (all_cons s) \<and> parent_of t q = Some p)"
proof -
  have "tree_ok t \<and> (\<exists>q \<in> set (all_cons t). parent_of t c = Some q \<and> c \<in> set (children t q) \<and>
      (\<not> redirected s c p \<longrightarrow> q = p) \<and>
      (redirected s c p \<longrightarrow> q \<notin> set (all_cons s) \<and> parent_of t q = Some p))"
  proof (cases "redirected s c p")
    case False
    have e: "entered s t c p" unfolding t con_attach_at_def
      by (rule con_attach_with_entered [OF can prev False])
    have "tree_ok t" unfolding t con_attach_at_def
      by (rule con_attach_direct_tree_ok [OF can prev False])
    moreover have "c \<in> set (children t p)" by (rule entered_linked [OF e])
    moreover have "parent_of t c = Some p" "all_cons t = all_cons s" using e by (simp_all add: entered_def)
    ultimately show ?thesis using False can by (auto simp: can_attach_def)
  next
    case True
    from can have ok: "tree_ok s" and c: "c \<in> set (all_cons s)" and p: "p \<in> set (all_cons s)"
      and free: "unlinked s c" and above: "c \<notin> set (ancestors s p)" by (auto simp: can_attach_def)
    have neq: "c \<noteq> p" by (rule can_attach_neq [OF can])
    define s1 where "s1 = upd_con c (\<lambda>k. k\<lparr>parent := Some p\<rparr>) s"
    have ok1: "tree_ok s1" unfolding s1_def by (rule set_parent_tree_ok [OF ok c p free above])
    have st1: "kind s1 p = CT_WORKSPACE" "workspace_layout (store s1 p) \<noteq> L_DEFAULT"
      "all_cons s1 = all_cons s" "kind s1 c = kind s c" "unlinked s1 c"
      using True free neq by (simp_all add: s1_def redirected_def set_parent_unlinked)
    obtain w where w: "window (store s c) = Some w" using True by (auto simp: redirected_def)
    obtain n s2 where run: "workspace_attach_to p s1 = (n, s2)" by fastforce
    note W = workspace_attach_to_new [OF ok1 _ st1(1,2) run, unfolded st1(3), OF p]
    have cn: "c \<noteq> n" using W(2) c by blast
    have "kind s2 c \<noteq> CT_FLOATING_CON" using W(9) [OF c] True by (simp add: st1 redirected_def)
    then have e: "entered s2 (append_focus c n (append_node_after None c n
        (upd_con c (\<lambda>k. k\<lparr>parent := Some n\<rparr>) s2))) c n"
      using W(7) cn by (intro entered_append_node) (simp_all add: good_previous_def)
    moreover have tt: "t = append_focus c n (append_node_after None c n
        (upd_con c (\<lambda>k. k\<lparr>parent := Some n\<rparr>) s2))"
      using True run st1(1,2,4) neq w unfolding t con_attach_at_def con_attach_with_def Let_def redirected_def
      by (simp add: s1_def [symmetric]) (simp add: s1_def)
    ultimately have et: "entered s2 t c n" by simp
    have c2: "c \<in> set (all_cons s2)" "n \<in> set (all_cons s2)" "p \<in> set (all_cons s2)"
      using W(3) c p by auto
    have "ancestors s2 p = ancestors s p"
    proof -
      have "ancestors s1 p = ancestors s p"
        using above ok1 by (intro ancestors_cong [OF ok _ _ p]) (auto simp: s1_def)
      moreover have "ancestors s2 p = ancestors s1 p"
        using ancestors_alloc [OF ok1] W(1,3,9) p st1(3)
        by (intro ancestors_cong [OF ok1]) auto
      ultimately show ?thesis by simp
    qed
    then have ab2: "c \<notin> set (ancestors s2 n)"
      using above cn W(5) by (subst ancestors_unfold [OF W(1) c2(2)]) simp
    have "tree_ok t"
      by (rule entered_tree_ok [OF W(1) c2(1,2) W(10) [OF c st1(5)] ab2 et])
    moreover have "parent_of t c = Some n" "parent_of t n = Some p" "n \<in> set (all_cons t)"
      using et cn W(5) c2 by (simp_all add: entered_def)
    moreover have "c \<in> set (children t n)" by (rule entered_linked [OF et])
    ultimately show ?thesis using True W(2) by blast
  qed
  then show "tree_ok t" and "\<exists>q \<in> set (all_cons t). parent_of t c = Some q \<and> c \<in> set (children t q) \<and>
      (\<not> redirected s c p \<longrightarrow> q = p) \<and>
      (redirected s c p \<longrightarrow> q \<notin> set (all_cons s) \<and> parent_of t q = Some p)"
    by blast+
qed

end
