(* ===== verification/Con_Below.thy ===== *)
theory Con_Below
  imports Con_Attach
begin

text \<open>
  What is below a container: the preorder lists that the recursions over the children are measured
  against, how going down and going up agree, and that no container is met twice.
\<close>

subsection \<open>Subtrees\<close>

text \<open>The containers below \<open>c\<close>, itself included, in preorder: over tiling and floating children, and
  over the tiling ones alone.\<close>

primrec preorder :: "nat \<Rightarrow> (wm \<Rightarrow> con_id \<Rightarrow> con_id list) \<Rightarrow> wm \<Rightarrow> con_id \<Rightarrow> con_id list" where
  "preorder 0 kids s c = []"
| "preorder (Suc n) kids s c = c # concat (map (preorder n kids s) (kids s c))"

definition subtree :: "wm \<Rightarrow> con_id \<Rightarrow> con_id list" where
  "subtree s c = preorder (length (all_cons s)) children s c"

definition tiling_subtree :: "wm \<Rightarrow> con_id \<Rightarrow> con_id list" where
  "tiling_subtree s c = preorder (length (all_cons s)) nodes s c"

interpretation tiles: bounded_walk nodes all_cons tree_ok
proof
  fix s :: wm and c d
  assume "tree_ok s" "c \<in> set (all_cons s)" "d \<in> set (nodes s c)"
  then show "d \<in> set (all_cons s)" by (rule tree_okD(5))
next
  fix s :: wm
  assume "tree_ok s"
  from down.ranked [OF this] show "\<exists>r :: con_id \<Rightarrow> nat. \<forall>c \<in> set (all_cons s).
      \<forall>d \<in> set (nodes s c). r d < r c" by (auto simp: ball_Un)
qed

interpretation sub: fuel_recursion children all_cons tree_ok
  "\<lambda>n. preorder n children" "\<lambda>s g c. c # concat (map g (children s c))"
proof unfold_locales
  fix s :: wm and c and g h :: "con_id \<Rightarrow> con_id list"
  assume "\<And>d. d \<in> set (children s c) \<Longrightarrow> g d = h d"
  then have "map g (children s c) = map h (children s c)" by (intro map_cong) auto
  then show "c # concat (map g (children s c)) = c # concat (map h (children s c))" by (simp only:)
qed simp

interpretation tsub: fuel_recursion nodes all_cons tree_ok
  "\<lambda>n. preorder n nodes" "\<lambda>s g c. c # concat (map g (nodes s c))"
proof unfold_locales
  fix s :: wm and c and g h :: "con_id \<Rightarrow> con_id list"
  assume "\<And>d. d \<in> set (nodes s c) \<Longrightarrow> g d = h d"
  then have "map g (nodes s c) = map h (nodes s c)" by (intro map_cong) auto
  then show "c # concat (map g (nodes s c)) = c # concat (map h (nodes s c))" by (simp only:)
qed simp

lemma subtree_unfold:
  assumes "tree_ok s" and "c \<in> set (all_cons s)"
  shows "subtree s c = c # concat (map (subtree s) (children s c))"
  unfolding subtree_def by (subst sub.unfold [OF assms]) (rule refl)

lemma tiling_subtree_unfold:
  assumes "tree_ok s" and "c \<in> set (all_cons s)"
  shows "tiling_subtree s c = c # concat (map (tiling_subtree s) (nodes s c))"
  unfolding tiling_subtree_def by (subst tsub.unfold [OF assms]) (rule refl)

lemma set_subtree_unfold:
  assumes "tree_ok s" and "c \<in> set (all_cons s)"
  shows "set (subtree s c) = insert c (\<Union>d \<in> set (children s c). set (subtree s d))"
  by (subst subtree_unfold [OF assms]) simp

lemma set_tiling_subtree_unfold:
  assumes "tree_ok s" and "c \<in> set (all_cons s)"
  shows "set (tiling_subtree s c) = insert c (\<Union>d \<in> set (nodes s c). set (tiling_subtree s d))"
  by (subst tiling_subtree_unfold [OF assms]) simp

text \<open>Going down and going up agree.\<close>

lemma in_subtree_ancestor:
  assumes ok: "tree_ok s" and c: "c \<in> set (all_cons s)"
  shows "\<forall>x \<in> set (subtree s c). x \<in> set (all_cons s) \<and> c \<in> set (ancestors s x) \<and>
    (\<exists>us. ancestors s x = us @ ancestors s c)"
proof (rule down.walk_induct [OF ok c])
  fix c
  assume c: "c \<in> set (all_cons s)" and IH: "\<And>d. d \<in> set (children s c) \<Longrightarrow>
    \<forall>x \<in> set (subtree s d). x \<in> set (all_cons s) \<and> d \<in> set (ancestors s x) \<and>
      (\<exists>us. ancestors s x = us @ ancestors s d)"
  show "\<forall>x \<in> set (subtree s c). x \<in> set (all_cons s) \<and> c \<in> set (ancestors s x) \<and>
    (\<exists>us. ancestors s x = us @ ancestors s c)"
  proof
    fix x assume "x \<in> set (subtree s c)"
    then consider "x = c" | d where "d \<in> set (children s c)" "x \<in> set (subtree s d)"
      unfolding set_subtree_unfold [OF ok c] by blast
    then show "x \<in> set (all_cons s) \<and> c \<in> set (ancestors s x) \<and>
        (\<exists>us. ancestors s x = us @ ancestors s c)"
    proof cases
      case 1
      then show ?thesis using c self_in_ancestors [OF ok c] by auto
    next
      case 2
      obtain us where x: "x \<in> set (all_cons s)" and us: "ancestors s x = us @ ancestors s d"
        using IH [OF 2(1)] 2(2) by blast
      have "ancestors s d = d # ancestors s c"
        using ancestors_unfold [OF ok tree_ok_child_parent(1) [OF ok c 2(1)]]
          tree_ok_child_parent(2) [OF ok c 2(1)] by simp
      with us have "ancestors s x = (us @ [d]) @ ancestors s c" by simp
      then show ?thesis using x self_in_ancestors [OF ok c] by auto
    qed
  qed
qed

lemma subtree_alloc: "tree_ok s \<Longrightarrow> c \<in> set (all_cons s) \<Longrightarrow> set (subtree s c) \<subseteq> set (all_cons s)"
  using in_subtree_ancestor by blast

lemma ancestors_prefix:
  assumes ok: "tree_ok s" and c: "c \<in> set (all_cons s)" and d: "d \<in> set (ancestors s c)"
  shows "\<exists>us. ancestors s c = us @ ancestors s d"
proof -
  have "\<forall>d \<in> set (ancestors s c). \<exists>us. ancestors s c = us @ ancestors s d"
  proof (rule up.walk_induct [OF ok c])
    fix c
    assume c: "c \<in> set (all_cons s)" and IH: "\<And>d. d \<in> set (case parent_of s c of None \<Rightarrow> []
      | Some p \<Rightarrow> [p]) \<Longrightarrow> \<forall>e \<in> set (ancestors s d). \<exists>us. ancestors s d = us @ ancestors s e"
    show "\<forall>d \<in> set (ancestors s c). \<exists>us. ancestors s c = us @ ancestors s d"
    proof
      fix d assume d: "d \<in> set (ancestors s c)"
      show "\<exists>us. ancestors s c = us @ ancestors s d"
      proof (cases "d = c")
        case False
        with d obtain p where p: "parent_of s c = Some p" "d \<in> set (ancestors s p)"
          using ancestors_unfold [OF ok c] by (cases "parent_of s c") auto
        with IH obtain us where "ancestors s p = us @ ancestors s d" by fastforce
        then have "ancestors s c = (c # us) @ ancestors s d"
          using ancestors_unfold [OF ok c] p(1) by simp
        then show ?thesis by blast
      qed simp
    qed
  qed
  with d show ?thesis by blast
qed

text \<open>Two ways up from the same container: one of them continues the other.\<close>

lemma ancestors_linear:
  assumes ok: "tree_ok s" and x: "x \<in> set (all_cons s)"
    and a: "a \<in> set (ancestors s x)" and b: "b \<in> set (ancestors s x)"
  shows "a \<in> set (ancestors s b) \<or> b \<in> set (ancestors s a)"
proof -
  have al: "a \<in> set (all_cons s)" "b \<in> set (all_cons s)" using ancestors_alloc [OF ok x] a b by auto
  obtain us vs where "ancestors s x = us @ ancestors s a" "ancestors s x = vs @ ancestors s b"
    using ancestors_prefix [OF ok x] a b by blast
  then have "us @ ancestors s a = vs @ ancestors s b" by simp
  then have "(\<exists>zs. ancestors s a = zs @ ancestors s b) \<or> (\<exists>zs. ancestors s b = zs @ ancestors s a)"
    unfolding append_eq_append_conv2 by metis
  moreover have "a \<in> set (ancestors s a)" "b \<in> set (ancestors s b)"
    using self_in_ancestors [OF ok] al by auto
  ultimately show ?thesis by auto
qed

lemma siblings_disjoint:
  assumes ok: "tree_ok s" and c: "c \<in> set (all_cons s)"
    and d: "d \<in> set (children s c)" and e: "e \<in> set (children s c)" and neq: "d \<noteq> e"
  shows "set (subtree s d) \<inter> set (subtree s e) = {}"
proof (rule ccontr)
  note D = tree_ok_child_parent [OF ok c d] and E = tree_ok_child_parent [OF ok c e]
  assume "set (subtree s d) \<inter> set (subtree s e) \<noteq> {}"
  then obtain x where "x \<in> set (subtree s d)" "x \<in> set (subtree s e)" by blast
  then have x: "x \<in> set (all_cons s)" "d \<in> set (ancestors s x)" "e \<in> set (ancestors s x)"
    using in_subtree_ancestor [OF ok D(1)] in_subtree_ancestor [OF ok E(1)] by auto
  have "d \<notin> set (ancestors s e)"
    using neq parent_not_below [OF ok D(1,2)] E(2) by (subst ancestors_unfold [OF ok E(1)]) simp
  moreover have "e \<notin> set (ancestors s d)"
    using neq parent_not_below [OF ok E(1,2)] D(2) by (subst ancestors_unfold [OF ok D(1)]) simp
  ultimately show False using ancestors_linear [OF ok x] by blast
qed

lemma children_distinct:
  assumes "tree_ok s" and "c \<in> set (all_cons s)"
  shows "distinct (children s c)"
  using tree_okD(1,2,9,10) [OF assms] by (auto simp: disjoint_iff)

lemma distinct_concat_map:
  assumes "distinct xs" and "\<And>x. x \<in> set xs \<Longrightarrow> distinct (f x)"
    and "\<And>x y. x \<in> set xs \<Longrightarrow> y \<in> set xs \<Longrightarrow> x \<noteq> y \<Longrightarrow> set (f x) \<inter> set (f y) = {}"
  shows "distinct (concat (map f xs))"
  using assms
proof (induction xs)
  case (Cons a xs)
  have "distinct (concat (map f xs))" by (rule Cons.IH) (use Cons.prems in auto)
  moreover have "set (f a) \<inter> set (f y) = {}" if "y \<in> set xs" for y
    by (rule Cons.prems(3)) (use Cons.prems(1) that in auto)
  ultimately show ?case using Cons.prems(2) [of a] by fastforce
qed simp

lemma subtree_distinct:
  assumes ok: "tree_ok s" and c: "c \<in> set (all_cons s)"
  shows "distinct (subtree s c)"
proof (rule down.walk_induct [OF ok c])
  fix c
  assume c: "c \<in> set (all_cons s)" and IH: "\<And>d. d \<in> set (children s c) \<Longrightarrow> distinct (subtree s d)"
  have "distinct (concat (map (subtree s) (children s c)))"
    by (rule distinct_concat_map [OF children_distinct [OF ok c] IH siblings_disjoint [OF ok c]])
  moreover have "c \<notin> set (subtree s d)" if d: "d \<in> set (children s c)" for d
  proof
    note D = tree_ok_child_parent [OF ok c d]
    assume "c \<in> set (subtree s d)"
    then have "d \<in> set (ancestors s c)" using in_subtree_ancestor [OF ok D(1)] by blast
    then show False using parent_not_below [OF ok D] by blast
  qed
  ultimately show "distinct (subtree s c)" by (subst subtree_unfold [OF ok c]) simp
qed

lemma length_subtree:
  assumes "tree_ok s" and "c \<in> set (all_cons s)"
  shows "length (subtree s c) \<le> length (all_cons s)"
proof -
  have "length (subtree s c) = card (set (subtree s c))"
    using subtree_distinct [OF assms] by (simp add: distinct_card)
  also have "\<dots> \<le> card (set (all_cons s))" using subtree_alloc [OF assms] by (intro card_mono) auto
  also have "\<dots> \<le> length (all_cons s)" by (rule card_length)
  finally show ?thesis .
qed

end
