(* ===== verification/Con_Query.thy ===== *)
theory Con_Query
  imports Con_Below
begin

text \<open>
  The queries of \<^verbatim>\<open>src/con.c\<close> that only read the tree: the loops up to the workspace, the output or a
  fullscreen container, the recursions over the children, and the searches. A loop
  \<open>con = con->parent\<close> is read off the list \<open>ancestors\<close>; a recursion over the children takes fuel,
  one unit per level, and is called with as much as there are containers. In the result of a
  function that asserts, the outer \<^const>\<open>None\<close> is the failed assertion.
\<close>

subsection \<open>One container\<close>

definition con_has_children :: "wm \<Rightarrow> con_id \<Rightarrow> bool" where
  "con_has_children s c \<longleftrightarrow> \<not> con_is_leaf s c \<or> floats s c \<noteq> []"

definition con_is_split :: "wm \<Rightarrow> con_id \<Rightarrow> bool" where
  "con_is_split s c \<longleftrightarrow>
     (if con_is_leaf s c then False
      else case layout_of s c of L_DOCKAREA \<Rightarrow> False | L_OUTPUT \<Rightarrow> False | L_SCROLLING \<Rightarrow> False | _ \<Rightarrow> True)"

definition con_accepts_window :: "wm \<Rightarrow> con_id \<Rightarrow> bool" where
  "con_accepts_window s c \<longleftrightarrow>
     kind s c \<noteq> CT_WORKSPACE \<and> \<not> con_is_split s c \<and> window (store s c) = None"

definition con_is_internal :: "wm \<Rightarrow> con_id \<Rightarrow> bool" where
  "con_is_internal s c \<longleftrightarrow> take 2 (cname (store s c)) = ''__''"

fun con_orientation :: "wm \<Rightarrow> con_id \<Rightarrow> orientation_t option" where
  "con_orientation s c =
     (case layout_of s c of
        L_SPLITV \<Rightarrow> Some VERT
      | L_STACKED \<Rightarrow> Some VERT
      | L_SPLITH \<Rightarrow> Some HORIZ
      | L_TABBED \<Rightarrow> Some HORIZ
      | L_DEFAULT \<Rightarrow> None
      | L_DOCKAREA \<Rightarrow> None
      | L_OUTPUT \<Rightarrow> None
      | L_SCROLLING \<Rightarrow> Some HORIZ)"

definition con_rect_size_in_orientation :: "wm \<Rightarrow> con_id \<Rightarrow> u32 option" where
  "con_rect_size_in_orientation s c =
     map_option (\<lambda>ori. if ori = HORIZ then rect_width (rect (store s c)) else rect_height (rect (store s c)))
       (con_orientation s c)"

definition con_border_style :: "wm \<Rightarrow> con_id \<Rightarrow> border_style_t" where
  "con_border_style s c =
     (let own = border_style (store s c) in
      if fullscreen_mode (store s c) = CF_OUTPUT \<or> fullscreen_mode (store s c) = CF_GLOBAL then BS_NONE
      else case parent_of s c of
          None \<Rightarrow> own
        | Some p \<Rightarrow>
            if layout_of s p = L_STACKED then (if con_num_children s p = 1 then own else BS_NORMAL)
            else if layout_of s p = L_TABBED \<and> own \<noteq> BS_NORMAL then
              (if con_num_children s p = 1 then own else BS_NORMAL)
            else if kind s p = CT_DOCKAREA then BS_NONE
            else own)"

definition con_draw_decoration_into_frame :: "wm \<Rightarrow> con_id \<Rightarrow> bool" where
  "con_draw_decoration_into_frame s c \<longleftrightarrow>
     con_is_leaf s c \<and> con_border_style s c = BS_NORMAL \<and>
     (case parent_of s c of None \<Rightarrow> True
      | Some p \<Rightarrow> layout_of s p \<noteq> L_TABBED \<and> layout_of s p \<noteq> L_STACKED)"

subsection \<open>Up the tree\<close>

definition con_get_workspace :: "wm \<Rightarrow> con_id \<Rightarrow> con_id option" where
  "con_get_workspace s c = find (\<lambda>x. kind s x = CT_WORKSPACE) (ancestors s c)"

definition con_get_output :: "wm \<Rightarrow> con_id \<Rightarrow> con_id option" where
  "con_get_output s c = find (\<lambda>x. kind s x = CT_OUTPUT) (ancestors s c)"

definition con_has_managed_window :: "wm \<Rightarrow> con_id \<Rightarrow> bool" where
  "con_has_managed_window s c \<longleftrightarrow>
     (case window (store s c) of None \<Rightarrow> False | Some w \<Rightarrow> w_id w \<noteq> 0) \<and> con_get_workspace s c \<noteq> None"

fun hidden_path :: "wm \<Rightarrow> con_id list \<Rightarrow> bool" where
  "hidden_path s [] = False"
| "hidden_path s (c # cs) =
     (if kind s c = CT_WORKSPACE then False
      else (case parent_of s c of
          None \<Rightarrow> False
        | Some p \<Rightarrow> (layout_of s p = L_TABBED \<or> layout_of s p = L_STACKED) \<and>
            tailq_first (foci s p) \<noteq> Some c) \<or> hidden_path s cs)"

definition con_is_hidden :: "wm \<Rightarrow> con_id \<Rightarrow> bool" where
  "con_is_hidden s c \<longleftrightarrow> hidden_path s (ancestors s c)"

fun maximized_path :: "wm \<Rightarrow> layout_t \<Rightarrow> con_id list \<Rightarrow> bool" where
  "maximized_path s lay [] = True"
| "maximized_path s lay (c # cs) =
     (case parent_of s c of
        None \<Rightarrow> True
      | Some p \<Rightarrow>
          if kind s c = CT_WORKSPACE then True
          else if layout_of s p = lay \<and> con_num_children s p > 1 then False
          else if kind s p = CT_FLOATING_CON then False
          else maximized_path s lay cs)"

definition con_is_maximized :: "wm \<Rightarrow> con_id \<Rightarrow> orientation_t \<Rightarrow> bool option" where
  "con_is_maximized s c orientation =
     (if fullscreen_mode (store s c) \<noteq> CF_NONE then Some True
      else case orientation of
          HORIZ \<Rightarrow> Some (maximized_path s L_SPLITH (ancestors s c))
        | VERT \<Rightarrow> Some (maximized_path s L_SPLITV (ancestors s c))
        | NO_ORIENTATION \<Rightarrow> None)"

text \<open>The inner result is the pointer that is returned; \<^const>\<open>None\<close> is a NULL dereference or the failed
  assertion of \<open>con_orientation\<close>.\<close>

fun oriented_path :: "wm \<Rightarrow> orientation_t \<Rightarrow> con_id list \<Rightarrow> con_id option option" where
  "oriented_path s w [] = None"
| "oriented_path s w (p # ps) =
     (case con_orientation s p of
        None \<Rightarrow> None
      | Some x \<Rightarrow>
          if x = w then Some (Some p)
          else case ps of
              [] \<Rightarrow> Some None
            | q # _ \<Rightarrow>
                if kind s q = CT_FLOATING_CON \<or> kind s q = CT_OUTPUT \<or>
                   (case parent_of s q of None \<Rightarrow> False | Some g \<Rightarrow> kind s g = CT_OUTPUT)
                then Some None else oriented_path s w ps)"

definition con_parent_with_orientation :: "wm \<Rightarrow> con_id \<Rightarrow> orientation_t \<Rightarrow> con_id option option" where
  "con_parent_with_orientation s c orientation =
     (case parent_of s c of
        None \<Rightarrow> None
      | Some p \<Rightarrow> if kind s p = CT_FLOATING_CON then Some None
                  else oriented_path s orientation (ancestors s p))"

definition con_is_docked :: "wm \<Rightarrow> con_id \<Rightarrow> bool" where
  "con_is_docked s c \<longleftrightarrow> (\<exists>p \<in> set (tl (ancestors s c)). kind s p = CT_DOCKAREA)"

definition con_inside_focused :: "wm \<Rightarrow> con_id \<Rightarrow> bool" where
  "con_inside_focused s c \<longleftrightarrow> (\<exists>p \<in> set (ancestors s c). Some p = focused s)"

definition con_has_parent :: "wm \<Rightarrow> con_id \<Rightarrow> con_id \<Rightarrow> bool" where
  "con_has_parent s c p \<longleftrightarrow> p \<in> set (tl (ancestors s c))"

definition con_inside_stacked_or_tabbed :: "wm \<Rightarrow> con_id \<Rightarrow> bool" where
  "con_inside_stacked_or_tabbed s c \<longleftrightarrow>
     (\<exists>p \<in> set (tl (ancestors s c)). layout_of s p = L_STACKED \<or> layout_of s p = L_TABBED)"

definition con_fullscreen_permits_focusing :: "wm \<Rightarrow> con_id \<Rightarrow> bool option" where
  "con_fullscreen_permits_focusing s c =
     (case focused s of
        None \<Rightarrow> Some True
      | Some f \<Rightarrow>
          (case find (\<lambda>x. fullscreen_mode (store s x) \<noteq> CF_NONE) (ancestors s f) of
             None \<Rightarrow> None
           | Some fs \<Rightarrow>
               if kind s fs = CT_WORKSPACE then Some True
               else if c = fs then Some True
               else if fullscreen_mode (store s fs) = CF_OUTPUT \<and>
                       con_get_workspace s c \<noteq> con_get_workspace s fs then Some True
               else Some (con_has_parent s c fs)))"

subsection \<open>All containers\<close>

definition con_by_window_id :: "wm \<Rightarrow> u32 \<Rightarrow> con_id option" where
  "con_by_window_id s w =
     find (\<lambda>c. case window (store s c) of None \<Rightarrow> False | Some x \<Rightarrow> w_id x = w) (all_cons s)"

definition con_by_con_id :: "wm \<Rightarrow> con_id \<Rightarrow> con_id option" where
  "con_by_con_id s target = find (\<lambda>c. c = target) (all_cons s)"

definition con_exists :: "wm \<Rightarrow> con_id \<Rightarrow> bool" where
  "con_exists s c \<longleftrightarrow> con_by_con_id s c \<noteq> None"

subsection \<open>Down the tree\<close>

primrec sticky_below :: "nat \<Rightarrow> wm \<Rightarrow> con_id \<Rightarrow> bool" where
  "sticky_below 0 s c = False"
| "sticky_below (Suc n) s c = (sticky (store s c) \<or> (\<exists>d \<in> set (nodes s c). sticky_below n s d))"

definition con_is_sticky :: "wm \<Rightarrow> con_id \<Rightarrow> bool" where
  "con_is_sticky s c = sticky_below (length (all_cons s)) s c"

primrec urgent_below :: "nat \<Rightarrow> wm \<Rightarrow> con_id \<Rightarrow> bool" where
  "urgent_below 0 s c = False"
| "urgent_below (Suc n) s c =
     (if con_is_leaf s c then urgent (store s c) else \<exists>d \<in> set (nodes s c). urgent_below n s d)"

definition con_has_urgent_child :: "wm \<Rightarrow> con_id \<Rightarrow> bool" where
  "con_has_urgent_child s c = urgent_below (length (all_cons s)) s c"

definition windows_step :: "wm \<Rightarrow> (con_id \<Rightarrow> nat) \<Rightarrow> con_id \<Rightarrow> nat" where
  "windows_step s rec c =
     (if con_has_managed_window s c then 1
      else sum_list (map rec (nodes s c)) + sum_list (map rec (floats s c)))"

primrec windows_below :: "nat \<Rightarrow> wm \<Rightarrow> con_id \<Rightarrow> nat" where
  "windows_below 0 s c = 0"
| "windows_below (Suc n) s c = windows_step s (windows_below n s) c"

definition con_num_windows :: "wm \<Rightarrow> con_id option \<Rightarrow> nat" where
  "con_num_windows s con =
     (case con of None \<Rightarrow> 0 | Some c \<Rightarrow> windows_below (length (all_cons s)) s c)"

definition visible_step :: "wm \<Rightarrow> (con_id \<Rightarrow> nat) \<Rightarrow> con_id \<Rightarrow> nat" where
  "visible_step s rec c =
     sum_list (map (\<lambda>d. if \<not> con_is_hidden s d \<and> con_is_leaf s d then 1 else rec d) (nodes s c))"

primrec visible_below :: "nat \<Rightarrow> wm \<Rightarrow> con_id \<Rightarrow> nat" where
  "visible_below 0 s c = 0"
| "visible_below (Suc n) s c = visible_step s (visible_below n s) c"

definition con_num_visible_children :: "wm \<Rightarrow> con_id option \<Rightarrow> nat" where
  "con_num_visible_children s con =
     (case con of None \<Rightarrow> 0 | Some c \<Rightarrow> visible_below (length (all_cons s)) s c)"

text \<open>\<open>con_minimum_size\<close>, with the sums and maxima in the 32-bit arithmetic of the code. A
  scrolling container reaches the assertion.\<close>

definition stacked_minimum :: "(u32 \<times> Rect) list \<Rightarrow> Rect" where
  "stacked_minimum ms =
     (let deco = fold (\<lambda>(d, _) a. a + d) ms 0;
          w = fold (\<lambda>(_, r) a. c_max a (rect_width r)) ms 0;
          h = fold (\<lambda>(_, r) a. c_max a (rect_height r)) ms 0
      in \<lparr>rect_x = 0, rect_y = 0, rect_width = w, rect_height = h + deco\<rparr>)"

definition split_minimum :: "bool \<Rightarrow> Rect list \<Rightarrow> Rect" where
  "split_minimum horizontal ms =
     (let (w, h) = fold (\<lambda>r (w, h).
            if horizontal then (w + rect_width r, c_max h (rect_height r))
            else (c_max w (rect_width r), h + rect_height r)) ms (0, 0)
      in \<lparr>rect_x = 0, rect_y = 0, rect_width = w, rect_height = h\<rparr>)"

definition minimum_step :: "wm \<Rightarrow> (con_id \<Rightarrow> Rect option) \<Rightarrow> con_id \<Rightarrow> Rect option" where
  "minimum_step s rec c =
     (if con_is_leaf s c then Some \<lparr>rect_x = 0, rect_y = 0, rect_width = 75, rect_height = 50\<rparr>
      else if kind s c = CT_FLOATING_CON then rec (hd (nodes s c))
      else if layout_of s c = L_STACKED \<or> layout_of s c = L_TABBED then
        map_option (\<lambda>ms. stacked_minimum (zip (map (\<lambda>d. rect_height (deco_rect (store s d))) (nodes s c)) ms))
          (those (map rec (nodes s c)))
      else if con_is_split s c then
        map_option (split_minimum (layout_of s c = L_SPLITH)) (those (map rec (nodes s c)))
      else None)"

primrec minimum_below :: "nat \<Rightarrow> wm \<Rightarrow> con_id \<Rightarrow> Rect option" where
  "minimum_below 0 s c = None"
| "minimum_below (Suc n) s c = minimum_step s (minimum_below n s) c"

definition con_minimum_size :: "wm \<Rightarrow> con_id \<Rightarrow> Rect option" where
  "con_minimum_size s c = minimum_below (length (all_cons s)) s c"

fun layout_letter :: "layout_t \<Rightarrow> string option" where
  "layout_letter L_DEFAULT = Some ''D[''"
| "layout_letter L_SPLITV = Some ''V[''"
| "layout_letter L_SPLITH = Some ''H[''"
| "layout_letter L_TABBED = Some ''T[''"
| "layout_letter L_STACKED = Some ''S[''"
| "layout_letter l = None"

definition join_children :: "string \<Rightarrow> string list \<Rightarrow> string" where
  "join_children open_bracket txts =
     (case txts of [] \<Rightarrow> open_bracket | t # ts \<Rightarrow> fold (\<lambda>x buf. buf @ '' '' @ x) ts (open_bracket @ t)) @ '']''"

definition represent_step :: "wm \<Rightarrow> (con_id \<Rightarrow> string option) \<Rightarrow> con_id \<Rightarrow> string option" where
  "represent_step s rec c =
     (if con_is_leaf s c then
        (case window (store s c) of
           None \<Rightarrow> Some ''nowin''
         | Some w \<Rightarrow> (case w_class_instance w of None \<Rightarrow> Some ''noinstance'' | Some i \<Rightarrow> Some i))
      else Option.bind (layout_letter (layout_of s c)) (\<lambda>open_bracket.
        map_option (join_children open_bracket) (those (map rec (nodes s c)))))"

primrec represent_below :: "nat \<Rightarrow> wm \<Rightarrow> con_id \<Rightarrow> string option" where
  "represent_below 0 s c = None"
| "represent_below (Suc n) s c = represent_step s (represent_below n s) c"

definition con_get_tree_representation :: "wm \<Rightarrow> con_id \<Rightarrow> string option" where
  "con_get_tree_representation s c = represent_below (length (all_cons s)) s c"

text \<open>
  The breadth-first search of \<open>con_get_fullscreen_con\<close>, on the queue; \<^const>\<open>None\<close> is out of fuel.
\<close>

primrec fullscreen_search ::
  "nat \<Rightarrow> wm \<Rightarrow> con_id \<Rightarrow> fullscreen_mode_t \<Rightarrow> con_id list \<Rightarrow> con_id option option" where
  "fullscreen_search 0 s c m queue = None"
| "fullscreen_search (Suc n) s c m queue =
     (case queue of
        [] \<Rightarrow> Some None
      | x # rest \<Rightarrow>
          if x \<noteq> c \<and> fullscreen_mode (store s x) = m then Some (Some x)
          else fullscreen_search n s c m (rest @ nodes s x @ floats s x))"

definition con_get_fullscreen_con :: "wm \<Rightarrow> con_id \<Rightarrow> fullscreen_mode_t \<Rightarrow> con_id option" where
  "con_get_fullscreen_con s c m =
     (case fullscreen_search (Suc (length (all_cons s))) s c m [c] of None \<Rightarrow> None | Some r \<Rightarrow> r)"

definition con_get_fullscreen_covering_ws :: "wm \<Rightarrow> con_id option \<Rightarrow> con_id option" where
  "con_get_fullscreen_covering_ws s ws =
     (case ws of
        None \<Rightarrow> None
      | Some w \<Rightarrow>
          (case con_get_fullscreen_con s (croot s) CF_GLOBAL of
             None \<Rightarrow> con_get_fullscreen_con s w CF_OUTPUT
           | Some fs \<Rightarrow> Some fs))"

text \<open>The chain of \<open>WM_TRANSIENT_FOR\<close> hints; the counter is decremented after every step and stops
  the loop below zero.\<close>

primrec transient_loop :: "nat \<Rightarrow> wm \<Rightarrow> u32 \<Rightarrow> con_id \<Rightarrow> bool" where
  "transient_loop 0 s target c =
     (case window (store s c) of
        None \<Rightarrow> False | Some w \<Rightarrow> w_transient_for w \<noteq> 0 \<and> w_transient_for w = target)"
| "transient_loop (Suc n) s target c =
     (case window (store s c) of
        None \<Rightarrow> False
      | Some w \<Rightarrow>
          if w_transient_for w = 0 then False
          else if w_transient_for w = target then True
          else (case con_by_window_id s (w_transient_for w) of
              None \<Rightarrow> False
            | Some nxt \<Rightarrow> if nxt = c then False else transient_loop n s target nxt))"

definition con_find_transient_for_window :: "wm \<Rightarrow> con_id option \<Rightarrow> u32 \<Rightarrow> bool" where
  "con_find_transient_for_window s start target =
     (case start of None \<Rightarrow> False
      | Some c \<Rightarrow> transient_loop (con_num_windows s (Some (croot s))) s target c)"

subsection \<open>The fuel is invisible\<close>

lemma map_eq_of_local: "(\<And>d. d \<in> set xs \<Longrightarrow> g d = h d) \<Longrightarrow> map g xs = map h xs"
  by (intro map_cong) auto

interpretation sticky_rec: fuel_recursion nodes all_cons tree_ok sticky_below
  "\<lambda>s g c. sticky (store s c) \<or> (\<exists>d \<in> set (nodes s c). g d)"
  by unfold_locales auto

interpretation urgent_rec: fuel_recursion nodes all_cons tree_ok urgent_below
  "\<lambda>s g c. if con_is_leaf s c then urgent (store s c) else \<exists>d \<in> set (nodes s c). g d"
  by unfold_locales auto

interpretation windows_rec: fuel_recursion children all_cons tree_ok windows_below windows_step
proof unfold_locales
  fix s :: wm and c and g h :: "con_id \<Rightarrow> nat"
  assume "\<And>d. d \<in> set (children s c) \<Longrightarrow> g d = h d"
  then have "map g (nodes s c) = map h (nodes s c)" "map g (floats s c) = map h (floats s c)"
    by (intro map_eq_of_local; simp)+
  then show "windows_step s g c = windows_step s h c" by (simp only: windows_step_def)
qed simp

interpretation visible_rec: fuel_recursion nodes all_cons tree_ok visible_below visible_step
proof unfold_locales
  fix s :: wm and c and g h :: "con_id \<Rightarrow> nat"
  assume "\<And>d. d \<in> set (nodes s c) \<Longrightarrow> g d = h d"
  then show "visible_step s g c = visible_step s h c" unfolding visible_step_def
    by (intro arg_cong [of _ _ sum_list] map_eq_of_local) simp
qed simp

interpretation minimum_rec: fuel_recursion nodes all_cons tree_ok minimum_below minimum_step
proof unfold_locales
  fix s :: wm and c and g h :: "con_id \<Rightarrow> Rect option"
  assume local: "\<And>d. d \<in> set (nodes s c) \<Longrightarrow> g d = h d"
  then have m: "map g (nodes s c) = map h (nodes s c)" by (rule map_eq_of_local)
  have "g (hd (nodes s c)) = h (hd (nodes s c))" if "\<not> con_is_leaf s c"
    using that local by (simp add: con_is_leaf_def)
  then show "minimum_step s g c = minimum_step s h c"
    unfolding minimum_step_def m by (cases "con_is_leaf s c") simp_all
qed simp

interpretation represent_rec: fuel_recursion nodes all_cons tree_ok represent_below represent_step
proof unfold_locales
  fix s :: wm and c and g h :: "con_id \<Rightarrow> string option"
  assume "\<And>d. d \<in> set (nodes s c) \<Longrightarrow> g d = h d"
  then have "map g (nodes s c) = map h (nodes s c)" by (rule map_eq_of_local)
  then show "represent_step s g c = represent_step s h c" by (simp only: represent_step_def)
qed simp

lemmas con_is_sticky_unfold = sticky_rec.unfold [folded con_is_sticky_def]
lemmas con_has_urgent_child_unfold = urgent_rec.unfold [folded con_has_urgent_child_def]
lemmas con_minimum_size_unfold = minimum_rec.unfold
lemmas con_get_tree_representation_unfold = represent_rec.unfold

subsection \<open>What the queries find\<close>

lemma find_in: "find P xs = Some x \<Longrightarrow> x \<in> set xs \<and> P x"
  by (auto simp: find_Some_iff)

lemma con_get_workspace_unfold:
  assumes "tree_ok s" and "c \<in> set (all_cons s)"
  shows "con_get_workspace s c = (if kind s c = CT_WORKSPACE then Some c
     else case parent_of s c of None \<Rightarrow> None | Some p \<Rightarrow> con_get_workspace s p)"
  unfolding con_get_workspace_def by (subst ancestors_unfold [OF assms]) (simp split: option.splits)

lemma con_get_workspace_SomeD:
  assumes "con_get_workspace s c = Some w"
  shows "w \<in> set (ancestors s c)" and "kind s w = CT_WORKSPACE"
  using find_in [OF assms [unfolded con_get_workspace_def]] by auto

lemma con_get_workspace_alloc:
  assumes "tree_ok s" and "c \<in> set (all_cons s)" and "con_get_workspace s c = Some w"
  shows "w \<in> set (all_cons s)"
  using ancestors_alloc [OF assms(1,2)] con_get_workspace_SomeD(1) [OF assms(3)] by blast

text \<open>\<open>con_is_sticky\<close> and \<open>con_has_urgent_child\<close> look at the tiling subtree.\<close>

lemma con_is_sticky_iff:
  assumes ok: "tree_ok s" and c: "c \<in> set (all_cons s)"
  shows "con_is_sticky s c \<longleftrightarrow> (\<exists>x \<in> set (tiling_subtree s c). sticky (store s x))"
proof (rule tiles.walk_induct [OF ok c])
  fix c
  assume c: "c \<in> set (all_cons s)" and IH: "\<And>d. d \<in> set (nodes s c) \<Longrightarrow>
    con_is_sticky s d \<longleftrightarrow> (\<exists>x \<in> set (tiling_subtree s d). sticky (store s x))"
  then show "con_is_sticky s c \<longleftrightarrow> (\<exists>x \<in> set (tiling_subtree s c). sticky (store s x))"
    unfolding set_tiling_subtree_unfold [OF ok c]
    by (subst con_is_sticky_def, subst sticky_rec.unfold [OF ok c]) (auto simp: con_is_sticky_def)
qed

lemma con_has_urgent_child_iff:
  assumes ok: "tree_ok s" and c: "c \<in> set (all_cons s)"
  shows "con_has_urgent_child s c \<longleftrightarrow>
    (\<exists>x \<in> set (tiling_subtree s c). con_is_leaf s x \<and> urgent (store s x))"
proof (rule tiles.walk_induct [OF ok c])
  fix c
  assume c: "c \<in> set (all_cons s)" and IH: "\<And>d. d \<in> set (nodes s c) \<Longrightarrow>
    con_has_urgent_child s d \<longleftrightarrow> (\<exists>x \<in> set (tiling_subtree s d). con_is_leaf s x \<and> urgent (store s x))"
  then show "con_has_urgent_child s c \<longleftrightarrow>
      (\<exists>x \<in> set (tiling_subtree s c). con_is_leaf s x \<and> urgent (store s x))"
    unfolding set_tiling_subtree_unfold [OF ok c]
    by (subst con_has_urgent_child_def, subst urgent_rec.unfold [OF ok c])
      (auto simp: con_has_urgent_child_def con_is_leaf_def)
qed

text \<open>The search visits every container below the queue once, so one more unit of fuel than there are
  containers is enough.\<close>

lemma fullscreen_search_enough:
  assumes ok: "tree_ok s"
  shows "set q \<subseteq> set (all_cons s) \<Longrightarrow> sum_list (map (\<lambda>y. length (subtree s y)) q) < n \<Longrightarrow>
    \<exists>r. fullscreen_search n s c m q = Some r \<and>
      (case r of
         None \<Rightarrow> \<forall>x \<in> (\<Union>y \<in> set q. set (subtree s y)). x = c \<or> fullscreen_mode (store s x) \<noteq> m
       | Some x \<Rightarrow> x \<in> (\<Union>y \<in> set q. set (subtree s y)) \<and> x \<noteq> c \<and> fullscreen_mode (store s x) = m)"
proof (induction n arbitrary: q)
  case (Suc n)
  show ?case
  proof (cases q)
    case (Cons x rest)
    have x: "x \<in> set (all_cons s)" using Suc.prems(1) Cons by simp
    note U = set_subtree_unfold [OF ok x]
    show ?thesis
    proof (cases "x \<noteq> c \<and> fullscreen_mode (store s x) = m")
      case True
      then show ?thesis using U by (auto simp: Cons)
    next
      case False
      let ?q = "rest @ nodes s x @ floats s x"
      have len: "length (subtree s x) = Suc (sum_list (map (\<lambda>y. length (subtree s y)) (children s x)))"
        by (subst subtree_unfold [OF ok x]) (simp add: length_concat comp_def)
      have sub: "set ?q \<subseteq> set (all_cons s)"
        using Suc.prems(1) tree_ok_child_parent(1) [OF ok x] by (auto simp: Cons)
      have below: "sum_list (map (\<lambda>y. length (subtree s y)) ?q) < n"
        using Suc.prems(2) len by (simp add: Cons)
      obtain r where r: "fullscreen_search n s c m ?q = Some r"
        "case r of None \<Rightarrow> \<forall>x \<in> (\<Union>y \<in> set ?q. set (subtree s y)). x = c \<or> fullscreen_mode (store s x) \<noteq> m
          | Some x \<Rightarrow> x \<in> (\<Union>y \<in> set ?q. set (subtree s y)) \<and> x \<noteq> c \<and> fullscreen_mode (store s x) = m"
        using Suc.IH [OF sub below] by blast
      have all: "(\<Union>y \<in> set q. set (subtree s y)) = insert x (\<Union>y \<in> set ?q. set (subtree s y))"
        using U by (auto simp: Cons)
      have "fullscreen_search (Suc n) s c m q = Some r" using r(1) False by (auto simp: Cons)
      then show ?thesis using r(2) False unfolding all by (intro exI [of _ r]) (cases r; auto)
    qed
  qed simp
qed simp

lemma con_get_fullscreen_con_correct:
  assumes ok: "tree_ok s" and c: "c \<in> set (all_cons s)"
  shows "case con_get_fullscreen_con s c m of
      None \<Rightarrow> \<forall>x \<in> set (subtree s c). x = c \<or> fullscreen_mode (store s x) \<noteq> m
    | Some x \<Rightarrow> x \<in> set (subtree s c) \<and> x \<noteq> c \<and> fullscreen_mode (store s x) = m"
proof -
  have "sum_list (map (\<lambda>y. length (subtree s y)) [c]) < Suc (length (all_cons s))"
    using length_subtree [OF ok c] by simp
  moreover have "set [c] \<subseteq> set (all_cons s)" using c by simp
  ultimately obtain r where
    r: "fullscreen_search (Suc (length (all_cons s))) s c m [c] = Some r"
    and spec: "case r of None \<Rightarrow> \<forall>x \<in> (\<Union>y \<in> set [c]. set (subtree s y)). x = c \<or> fullscreen_mode (store s x) \<noteq> m
      | Some x \<Rightarrow> x \<in> (\<Union>y \<in> set [c]. set (subtree s y)) \<and> x \<noteq> c \<and> fullscreen_mode (store s x) = m"
    using fullscreen_search_enough [OF ok] by blast
  have "con_get_fullscreen_con s c m = r" unfolding con_get_fullscreen_con_def r by simp
  then show ?thesis using spec by (cases r) simp_all
qed

lemma con_get_fullscreen_con_SomeD:
  assumes "tree_ok s" and "c \<in> set (all_cons s)" and "con_get_fullscreen_con s c m = Some x"
  shows "x \<in> set (all_cons s)" "x \<in> set (subtree s c)" "x \<noteq> c" "fullscreen_mode (store s x) = m"
  using con_get_fullscreen_con_correct [OF assms(1,2), of m] subtree_alloc [OF assms(1,2)] assms(3)
  by auto

text \<open>Windows are counted at most once each.\<close>

lemma sum_list_le_concat:
  fixes f :: "con_id \<Rightarrow> nat"
  assumes "\<And>x. x \<in> set xs \<Longrightarrow> f x \<le> length (filter P (g x))"
  shows "sum_list (map f xs) \<le> length (filter P (concat (map g xs)))"
  using assms by (induction xs) (auto simp: add_mono)

lemma con_num_windows_le:
  assumes ok: "tree_ok s" and c: "c \<in> set (all_cons s)"
  shows "con_num_windows s (Some c) \<le> length (filter (con_has_managed_window s) (subtree s c))"
proof (rule down.walk_induct [OF ok c])
  fix c
  assume c: "c \<in> set (all_cons s)" and IH: "\<And>d. d \<in> set (children s c) \<Longrightarrow>
    con_num_windows s (Some d) \<le> length (filter (con_has_managed_window s) (subtree s d))"
  let ?w = "windows_below (length (all_cons s)) s"
  have "sum_list (map ?w (children s c)) \<le>
      length (filter (con_has_managed_window s) (concat (map (subtree s) (children s c))))"
    using IH by (intro sum_list_le_concat) (simp add: con_num_windows_def)
  then show "con_num_windows s (Some c) \<le> length (filter (con_has_managed_window s) (subtree s c))"
    unfolding subtree_unfold [OF ok c] con_num_windows_def option.case windows_rec.unfold [OF ok c]
      windows_step_def by simp
qed

text \<open>\<open>con_minimum_size\<close> fails only on a layout the code does not handle.\<close>

lemma those_Some: "\<forall>x \<in> set xs. f x \<noteq> None \<Longrightarrow> those (map f xs) \<noteq> None"
  by (induction xs) (auto split: option.splits)

lemma con_minimum_size_total:
  assumes ok: "tree_ok s" and c: "c \<in> set (all_cons s)"
    and lay: "\<forall>x \<in> set (tiling_subtree s c). layout_of s x \<notin> {L_DOCKAREA, L_OUTPUT, L_SCROLLING}"
  shows "con_minimum_size s c \<noteq> None"
proof -
  have "(\<forall>x \<in> set (tiling_subtree s c). layout_of s x \<notin> {L_DOCKAREA, L_OUTPUT, L_SCROLLING}) \<longrightarrow>
      con_minimum_size s c \<noteq> None"
  proof (rule tiles.walk_induct [OF ok c])
    fix c
    assume c: "c \<in> set (all_cons s)" and IH: "\<And>d. d \<in> set (nodes s c) \<Longrightarrow>
      (\<forall>x \<in> set (tiling_subtree s d). layout_of s x \<notin> {L_DOCKAREA, L_OUTPUT, L_SCROLLING}) \<longrightarrow>
        con_minimum_size s d \<noteq> None"
    let ?m = "minimum_below (length (all_cons s)) s"
    show "(\<forall>x \<in> set (tiling_subtree s c). layout_of s x \<notin> {L_DOCKAREA, L_OUTPUT, L_SCROLLING}) \<longrightarrow>
      con_minimum_size s c \<noteq> None"
    proof
      assume lay: "\<forall>x \<in> set (tiling_subtree s c). layout_of s x \<notin> {L_DOCKAREA, L_OUTPUT, L_SCROLLING}"
      note U = set_tiling_subtree_unfold [OF ok c]
      have own: "layout_of s c \<notin> {L_DOCKAREA, L_OUTPUT, L_SCROLLING}" using lay U by blast
      have kids: "\<forall>d \<in> set (nodes s c). ?m d \<noteq> None"
        using IH lay unfolding U con_minimum_size_def by blast
      have "those (map ?m (nodes s c)) \<noteq> None" by (rule those_Some [OF kids])
      moreover have "?m (hd (nodes s c)) \<noteq> None" if "\<not> con_is_leaf s c"
        using kids that by (simp add: con_is_leaf_def)
      moreover have "con_is_split s c" if "\<not> con_is_leaf s c"
        using own that by (cases "layout_of s c") (simp_all add: con_is_split_def)
      ultimately show "con_minimum_size s c \<noteq> None"
        unfolding con_minimum_size_def minimum_rec.unfold [OF ok c] minimum_step_def by auto
    qed
  qed
  with lay show ?thesis by blast
qed

text \<open>\<open>con_fullscreen_permits_focusing\<close>: with the focus inside a fullscreen container of an output,
  exactly that container, what is below it and the other workspaces may be focused.\<close>

lemma con_has_parent_iff:
  assumes ok: "tree_ok s" and c: "c \<in> set (all_cons s)"
  shows "con_has_parent s c p \<longleftrightarrow> p \<noteq> c \<and> p \<in> set (ancestors s c)"
proof (cases "parent_of s c")
  case None
  then show ?thesis
    unfolding con_has_parent_def by (subst (1 2) ancestors_unfold [OF ok c]) auto
next
  case (Some q)
  then show ?thesis using parent_not_below [OF ok c Some]
    unfolding con_has_parent_def by (subst (1 2) ancestors_unfold [OF ok c]) auto
qed

lemma con_fullscreen_permits_focusing_iff:
  assumes ok: "tree_ok s" and c: "c \<in> set (all_cons s)" and f: "focused s = Some f"
    and fs: "find (\<lambda>x. fullscreen_mode (store s x) \<noteq> CF_NONE) (ancestors s f) = Some fs"
    and nws: "kind s fs \<noteq> CT_WORKSPACE"
  shows "con_fullscreen_permits_focusing s c = Some True \<longleftrightarrow>
    fs \<in> set (ancestors s c) \<or>
    fullscreen_mode (store s fs) = CF_OUTPUT \<and> con_get_workspace s c \<noteq> con_get_workspace s fs"
  using self_in_ancestors [OF ok c] con_has_parent_iff [OF ok c]
  by (auto simp: con_fullscreen_permits_focusing_def f fs nws)

end
