(* ===== verification/Con_Marks.thy ===== *)
theory Con_Marks
  imports Con_Query
begin

text \<open>
  Marks (\<open>con_mark\<close>, \<open>con_unmark\<close>, \<open>con_mark_toggle\<close> and the searches by mark in
  \<^verbatim>\<open>src/con.c\<close>). The promise of the user guide is that a mark names at most one container: an
  invariant of the three operations, which \<open>con_unmark\<close> itself relies on when it removes a mark
  from the first container that holds it.
\<close>

abbreviation marks :: "wm \<Rightarrow> con_id \<Rightarrow> string list" where
  "marks s c \<equiv> marks_head (store s c)"

definition con_has_mark :: "wm \<Rightarrow> con_id \<Rightarrow> string \<Rightarrow> bool" where
  "con_has_mark s c mark \<longleftrightarrow> mark \<in> set (marks s c)"

definition con_by_mark :: "wm \<Rightarrow> string \<Rightarrow> con_id option" where
  "con_by_mark s mark = find (\<lambda>c. con_has_mark s c mark) (all_cons s)"

text \<open>The body of the loop over all containers of \<open>con_unmark(con, NULL)\<close>: one event per mark.\<close>

definition unmark_every :: "con_id option \<Rightarrow> con_id \<Rightarrow> wm \<Rightarrow> wm" where
  "unmark_every con current s =
     (if con \<noteq> None \<and> con \<noteq> Some current then s
      else if marks s current = [] then s
      else upd_con current (\<lambda>k. k\<lparr>mark_changed := True\<rparr>)
        (fold (\<lambda>_ s. ipc_send (Window_Event ''mark'' current)
                  (upd_con current (\<lambda>k. k\<lparr>marks_head := tl (marks_head k)\<rparr>) s))
          (marks s current) s))"

definition con_unmark :: "con_id option \<Rightarrow> string option \<Rightarrow> wm \<Rightarrow> wm" where
  "con_unmark con name s =
     (case name of
        None \<Rightarrow> fold (unmark_every con) (all_cons s) s
      | Some n \<Rightarrow>
          (case (case con of None \<Rightarrow> con_by_mark s n | Some c \<Rightarrow> Some c) of
             None \<Rightarrow> s
           | Some current \<Rightarrow>
               let s = upd_con current (\<lambda>k. k\<lparr>mark_changed := True\<rparr>) s in
               if n \<in> set (marks s current)
               then ipc_send (Window_Event ''mark'' current)
                 (upd_con current (\<lambda>k. k\<lparr>marks_head := remove1 n (marks_head k)\<rparr>) s)
               else s))"

text \<open>The loop of \<open>MM_REPLACE\<close> removes the first mark until none is left; it runs once per mark.\<close>

primrec unmark_first :: "nat \<Rightarrow> con_id \<Rightarrow> wm \<Rightarrow> wm" where
  "unmark_first 0 c s = s"
| "unmark_first (Suc n) c s =
     (if marks s c = [] then s
      else unmark_first n c (con_unmark (Some c) (Some (hd (marks s c))) s))"

definition con_mark :: "con_id \<Rightarrow> string \<Rightarrow> mark_mode_t \<Rightarrow> wm \<Rightarrow> wm" where
  "con_mark c mark mode s0 =
     (let s = con_unmark None (Some mark) s0;
          s = (if mode = MM_REPLACE then unmark_first (length (marks s c)) c s else s);
          s = upd_con c (\<lambda>k. k\<lparr>marks_head := marks_head k @ [mark]\<rparr>) s;
          s = ipc_send (Window_Event ''mark'' c) s
      in upd_con c (\<lambda>k. k\<lparr>mark_changed := True\<rparr>) s)"

definition con_mark_toggle :: "con_id \<Rightarrow> string \<Rightarrow> mark_mode_t \<Rightarrow> wm \<Rightarrow> wm" where
  "con_mark_toggle c mark mode s =
     (if con_has_mark s c mark then con_unmark (Some c) (Some mark) s else con_mark c mark mode s)"

subsection \<open>Frame\<close>

definition only_marks :: "wm \<Rightarrow> wm \<Rightarrow> bool" where
  "only_marks s t \<longleftrightarrow> same_links s t \<and> focused t = focused s \<and>
     (\<forall>c. (store t c)\<lparr>marks_head := [], mark_changed := False\<rparr> =
          (store s c)\<lparr>marks_head := [], mark_changed := False\<rparr>)"

lemma only_marks_refl [simp]: "only_marks s s" by (simp add: only_marks_def)

lemma only_marks_trans: "only_marks s t \<Longrightarrow> only_marks t u \<Longrightarrow> only_marks s u"
  unfolding only_marks_def by (auto intro: same_links_trans)

lemma only_marks_all: "only_marks s t \<Longrightarrow> all_cons t = all_cons s"
  by (simp add: only_marks_def same_links_def)

lemma only_marks_upd:
  assumes "\<And>k. \<exists>ms ch. f k = k\<lparr>marks_head := ms, mark_changed := ch\<rparr>"
  shows "only_marks s (upd_con c f s)"
proof -
  obtain ms ch where "f (store s c) = (store s c)\<lparr>marks_head := ms, mark_changed := ch\<rparr>"
    using assms by blast
  then show ?thesis by (auto simp: only_marks_def same_links_def)
qed

lemma upd_marks [simp]:
  "only_marks s (upd_con c (\<lambda>k. k\<lparr>mark_changed := b\<rparr>) s)"
  "only_marks s (upd_con c (\<lambda>k. k\<lparr>marks_head := g k\<rparr>) s)"
  by (auto simp: only_marks_def same_links_def)

lemma only_marks_ipc [simp]: "only_marks s (ipc_send e s)" by (simp add: only_marks_def)

lemma con_unmark_only_marks: "only_marks s (con_unmark con name s)"
proof -
  have every: "only_marks s (unmark_every con c s)" for c s
  proof -
    have "only_marks s (fold (\<lambda>_ s. ipc_send e (upd_con c (\<lambda>k. k\<lparr>marks_head := tl (marks_head k)\<rparr>) s)) ms s)"
      for e and ms :: "string list"
      by (rule fold_upd_frame [where P = only_marks])
        (auto intro: only_marks_trans [OF upd_marks(2) only_marks_ipc] only_marks_trans)
    then show ?thesis unfolding unmark_every_def by (auto intro: only_marks_trans [OF _ upd_marks(1)])
  qed
  have "only_marks s (fold (unmark_every con) cs s)" for cs
    by (rule fold_upd_frame [where P = only_marks]) (auto intro: every only_marks_trans)
  moreover have "only_marks s (ipc_send e (upd_con c (\<lambda>k. k\<lparr>marks_head := g k\<rparr>)
      (upd_con c (\<lambda>k. k\<lparr>mark_changed := True\<rparr>) s)))" for e c g
    by (rule only_marks_trans [OF only_marks_trans [OF upd_marks(1) upd_marks(2)] only_marks_ipc])
  ultimately show ?thesis
    unfolding con_unmark_def Let_def by (auto split: option.splits simp del: upd_con_simps upd_con_upd_con)
qed

lemma unmark_first_only_marks: "only_marks s (unmark_first n c s)"
  by (induction n arbitrary: s) (auto intro: only_marks_trans [OF con_unmark_only_marks])

lemma con_mark_only_marks: "only_marks s (con_mark c mark mode s)"
proof -
  let ?u = "con_unmark None (Some mark) s"
  let ?v = "if mode = MM_REPLACE then unmark_first (length (marks ?u c)) c ?u else ?u"
  have "only_marks s ?u" by (rule con_unmark_only_marks)
  also have "only_marks ?u ?v" by (simp add: unmark_first_only_marks)
  finally (only_marks_trans) have "only_marks s ?v" .
  then show ?thesis unfolding con_mark_def Let_def
    by (rule only_marks_trans [OF only_marks_trans [OF only_marks_trans [OF _ upd_marks(2)] only_marks_ipc] upd_marks(1)])
qed

lemma con_mark_toggle_only_marks: "only_marks s (con_mark_toggle c mark mode s)"
  by (simp add: con_mark_toggle_def con_mark_only_marks con_unmark_only_marks)

subsection \<open>A mark names at most one container\<close>

definition marks_ok :: "wm \<Rightarrow> bool" where
  "marks_ok s \<longleftrightarrow>
     (\<forall>c \<in> set (all_cons s). distinct (marks s c)) \<and>
     (\<forall>c \<in> set (all_cons s). \<forall>d \<in> set (all_cons s). c \<noteq> d \<longrightarrow> set (marks s c) \<inter> set (marks s d) = {})"

lemma marks_unmark_one:
  "marks (con_unmark (Some c) (Some m) s) d = (if d = c then remove1 m (marks s c) else marks s d)"
  by (simp add: con_unmark_def Let_def remove1_idem)

text \<open>\<open>con_unmark(NULL, name)\<close>: gone everywhere, because it was in one place only.\<close>

lemma marks_unmark_all_cons:
  assumes ok: "marks_ok s" and d: "d \<in> set (all_cons s)"
  shows "marks (con_unmark None (Some m) s) d = remove1 m (marks s d)"
proof (cases "con_by_mark s m")
  case None
  then have "m \<notin> set (marks s d)" using d by (auto simp: con_by_mark_def con_has_mark_def find_None_iff)
  then show ?thesis by (simp add: con_unmark_def None remove1_idem)
next
  case (Some c)
  then have c: "c \<in> set (all_cons s)" "m \<in> set (marks s c)"
    by (auto simp: con_by_mark_def con_has_mark_def find_Some_iff)
  have "m \<notin> set (marks s d)" if "d \<noteq> c" using ok c d that by (auto simp: marks_ok_def)
  then show ?thesis using Some c by (auto simp: con_unmark_def Let_def remove1_idem)
qed

lemma marks_unmark_first:
  "marks (unmark_first n c s) d = (if d = c then drop n (marks s c) else marks s d)"
proof (induction n arbitrary: s)
  case (Suc n)
  have "marks (con_unmark (Some c) (Some (hd (marks s c))) s) c = tl (marks s c)" if "marks s c \<noteq> []"
    using that by (cases "marks s c") (simp_all add: marks_unmark_one)
  then show ?case using Suc [of "con_unmark (Some c) (Some (hd (marks s c))) s"]
    by (auto simp: marks_unmark_one drop_Suc)
qed simp

lemma marks_con_mark:
  assumes "marks_ok s" and "c \<in> set (all_cons s)" and "d \<in> set (all_cons s)"
  shows "marks (con_mark c m mode s) d =
    (if d \<noteq> c then remove1 m (marks s d)
     else (if mode = MM_REPLACE then [] else remove1 m (marks s c)) @ [m])"
proof -
  note U = marks_unmark_all_cons [OF assms(1)]
  have len: "length (marks (con_unmark None (Some m) s) c) = length (remove1 m (marks s c))"
    by (simp add: U [OF assms(2)])
  show ?thesis unfolding con_mark_def Let_def len
    by (cases mode) (simp_all add: marks_unmark_first U [OF assms(2)] U [OF assms(3)])
qed

lemma con_mark_marks_ok:
  assumes ok: "marks_ok s" and c: "c \<in> set (all_cons s)"
  shows "marks_ok (con_mark c m mode s)"
proof -
  let ?t = "con_mark c m mode s"
  have all: "all_cons ?t = all_cons s" by (rule only_marks_all [OF con_mark_only_marks])
  note M = marks_con_mark [OF ok c, where m = m and mode = mode]
  have dist: "distinct (marks s d)" if "d \<in> set (all_cons s)" for d
    using ok that by (simp add: marks_ok_def)
  have sub: "set (marks ?t d) \<subseteq> set (marks s d) - {m}" if "d \<in> set (all_cons s)" "d \<noteq> c" for d
    using M [OF that(1)] that(2) dist [OF that(1)] by simp
  have subc: "set (marks ?t c) \<subseteq> insert m (set (marks s c))"
    using M [OF c] set_remove1_subset [of m "marks s c"] by auto
  have "distinct (marks ?t d)" if "d \<in> set (all_cons s)" for d
    using M [OF that] dist [OF that] by (cases "d = c") auto
  moreover have "set (marks ?t d) \<inter> set (marks ?t e) = {}"
    if d: "d \<in> set (all_cons s)" and e: "e \<in> set (all_cons s)" and ne: "d \<noteq> e" for d e
  proof -
    have "set (marks s d) \<inter> set (marks s e) = {}" using ok d e ne by (simp add: marks_ok_def)
    then show ?thesis using sub [OF d] sub [OF e] subc ne by (cases "d = c"; cases "e = c") blast+
  qed
  ultimately show ?thesis by (simp add: marks_ok_def all)
qed

lemma con_unmark_marks_ok:
  assumes ok: "marks_ok s"
  shows "marks_ok (con_unmark (Some c) (Some m) s)"
proof -
  have all: "all_cons (con_unmark (Some c) (Some m) s) = all_cons s"
    by (rule only_marks_all [OF con_unmark_only_marks])
  have sub: "set (marks (con_unmark (Some c) (Some m) s) d) \<subseteq> set (marks s d)" for d
    using set_remove1_subset [of m "marks s c"] by (simp add: marks_unmark_one)
  have "distinct (marks (con_unmark (Some c) (Some m) s) d)" if "d \<in> set (all_cons s)" for d
    using ok that by (cases "d = c") (simp_all add: marks_unmark_one marks_ok_def)
  moreover have "set (marks (con_unmark (Some c) (Some m) s) d) \<inter> set (marks (con_unmark (Some c) (Some m) s) e) = {}"
    if "d \<in> set (all_cons s)" "e \<in> set (all_cons s)" "d \<noteq> e" for d e
    using ok that sub [of d] sub [of e] unfolding marks_ok_def by blast
  ultimately show ?thesis by (simp add: marks_ok_def all)
qed

lemma con_mark_toggle_marks_ok:
  "marks_ok s \<Longrightarrow> c \<in> set (all_cons s) \<Longrightarrow> marks_ok (con_mark_toggle c m mode s)"
  by (simp add: con_mark_toggle_def con_mark_marks_ok con_unmark_marks_ok)

lemma con_by_mark_con_mark:
  assumes ok: "marks_ok s" and c: "c \<in> set (all_cons s)"
  shows "con_by_mark (con_mark c m mode s) m = Some c"
proof -
  let ?t = "con_mark c m mode s"
  have all: "all_cons ?t = all_cons s" by (rule only_marks_all [OF con_mark_only_marks])
  have has: "m \<in> set (marks ?t c)" using marks_con_mark [OF ok c c] by simp
  have only: "d = c" if "d \<in> set (all_cons s)" "m \<in> set (marks ?t d)" for d
    using marks_con_mark [OF ok c that(1), of m mode] that ok
    by (cases "d = c") (simp_all add: marks_ok_def)
  show ?thesis
  proof (cases "con_by_mark ?t m")
    case None
    then show ?thesis using has c by (auto simp: con_by_mark_def con_has_mark_def find_None_iff all)
  next
    case (Some d)
    then have "d \<in> set (all_cons s)" "m \<in> set (marks ?t d)"
      using find_in [OF Some [unfolded con_by_mark_def]] by (simp_all add: con_has_mark_def all)
    then show ?thesis using Some only by simp
  qed
qed

text \<open>The mark is removed everywhere by \<open>con_unmark(NULL, NULL)\<close>.\<close>

lemma marks_unmark_every:
  "marks (unmark_every con c s) d = (if d = c \<and> (con = None \<or> con = Some c) then [] else marks s d)"
proof -
  have F: "marks (fold (\<lambda>_ s. ipc_send e (upd_con c (\<lambda>k. k\<lparr>marks_head := tl (marks_head k)\<rparr>) s)) ms s) d =
      (if d = c then drop (length ms) (marks s c) else marks s d)" for ms :: "string list" and e s
    by (induction ms arbitrary: s) (auto simp: drop_Suc)
  show ?thesis
  proof (cases "d = c")
    case True
    then show ?thesis using F [unfolded True] by (simp add: unmark_every_def)
  qed (simp add: unmark_every_def F)
qed

lemma marks_unmark_everything:
  assumes "c \<in> set (all_cons s)"
  shows "marks (con_unmark None None s) c = []"
proof -
  have "marks (fold (unmark_every None) cs s) c = (if c \<in> set cs then [] else marks s c)" for cs s
    by (induction cs arbitrary: s) (auto simp: marks_unmark_every)
  then show ?thesis using assms by (simp add: con_unmark_def)
qed

end
