(* ===== verification/Geometry.thy ===== *)
theory Geometry
  imports Con_Marks
begin

text \<open>
  What the position and size of a container depend on besides its parent: the borders of
  \<^verbatim>\<open>src/con.c\<close>, the gaps of \<^verbatim>\<open>src/gaps.c\<close> and the neighbours of \<^verbatim>\<open>src/resize.c\<close>.
\<close>

unbundle bit_operations_syntax

subsection \<open>Down the focus stack\<close>

text \<open>The loops go down one level at a time, so as many steps as there are containers are enough.\<close>

primrec descend_focused :: "nat \<Rightarrow> wm \<Rightarrow> con_id \<Rightarrow> con_id" where
  "descend_focused 0 s c = c"
| "descend_focused (Suc n) s c =
     (if Some c = focused s then c
      else case foci s c of [] \<Rightarrow> c | x # _ \<Rightarrow> descend_focused n s x)"

definition con_descend_focused :: "wm \<Rightarrow> con_id \<Rightarrow> con_id" where
  "con_descend_focused s c = descend_focused (length (all_cons s)) s c"

primrec descend_tiling :: "nat \<Rightarrow> wm \<Rightarrow> con_id \<Rightarrow> con_id" where
  "descend_tiling 0 s c = c"
| "descend_tiling (Suc n) s c =
     (if Some c = focused s then c
      else case find (\<lambda>x. kind s x \<noteq> CT_FLOATING_CON) (foci s c) of
          None \<Rightarrow> c | Some x \<Rightarrow> descend_tiling n s x)"

definition con_descend_tiling_focused :: "wm \<Rightarrow> con_id \<Rightarrow> con_id" where
  "con_descend_tiling_focused s c = descend_tiling (length (all_cons s)) s c"

text \<open>\<open>con_descend_direction\<close>; \<^const>\<open>None\<close> is the failed assertion of \<open>con_orientation\<close>.\<close>

definition direction_step ::
  "direction_t \<Rightarrow> wm \<Rightarrow> (con_id \<Rightarrow> con_id option) \<Rightarrow> con_id \<Rightarrow> con_id option" where
  "direction_step d s rec c =
     (case con_orientation s c of
        None \<Rightarrow> None
      | Some ori \<Rightarrow>
          if ori = NO_ORIENTATION then Some c
          else
            (case (if (d = D_LEFT \<or> d = D_RIGHT) = (ori = HORIZ)
                   then (if d = D_RIGHT \<or> d = D_DOWN then tailq_first (nodes s c) else tailq_last (nodes s c))
                   else find (\<lambda>x. kind s x \<noteq> CT_FLOATING_CON) (foci s c)) of
               None \<Rightarrow> Some c
             | Some most \<Rightarrow> rec most))"

primrec descend_direction :: "nat \<Rightarrow> direction_t \<Rightarrow> wm \<Rightarrow> con_id \<Rightarrow> con_id option" where
  "descend_direction 0 d s c = None"
| "descend_direction (Suc n) d s c = direction_step d s (descend_direction n d s) c"

definition con_descend_direction :: "wm \<Rightarrow> con_id \<Rightarrow> direction_t \<Rightarrow> con_id option" where
  "con_descend_direction s c d = descend_direction (length (all_cons s)) d s c"

definition output_get_content :: "wm \<Rightarrow> con_id \<Rightarrow> con_id option" where
  "output_get_content s output_con = find (\<lambda>c. kind s c = CT_CON) (nodes s output_con)"

subsection \<open>Gaps\<close>

definition has_outer_gaps :: "gaps_t \<Rightarrow> bool" where
  "has_outer_gaps g \<longleftrightarrow> g_top g > 0 \<or> g_right g > 0 \<or> g_bottom g > 0 \<or> g_left g > 0"

definition calculate_effective_gaps :: "wm \<Rightarrow> con_id \<Rightarrow> gaps_t" where
  "calculate_effective_gaps s c =
     (case con_get_workspace s c of
        None \<Rightarrow> zero_gaps
      | Some ws \<Rightarrow>
          let one_child = con_num_visible_children s (Some ws) \<le> 1 \<or>
                (con_num_children s ws = 1 \<and> layout_of s (hd (nodes s ws)) \<in> {L_TABBED, L_STACKED});
              wg = gaps (store s ws); cg = cfg_gaps (cfg s)
          in if cfg_smart_gaps (cfg s) = SMART_GAPS_ON \<and> one_child then zero_gaps
             else
               let g = zero_gaps\<lparr>g_inner := g_inner wg + g_inner cg\<rparr>
               in if cfg_smart_gaps (cfg s) \<noteq> SMART_GAPS_INVERSE_OUTER \<or> one_child
                  then g\<lparr>g_top := g_top wg + g_top cg, g_right := g_right wg + g_right cg,
                         g_bottom := g_bottom wg + g_bottom cg, g_left := g_left wg + g_left cg\<rparr>
                  else g)"

definition gaps_should_inset_con :: "wm \<Rightarrow> con_id \<Rightarrow> bool" where
  "gaps_should_inset_con s c \<longleftrightarrow>
     (case parent_of s c of
        None \<Rightarrow> False
      | Some p \<Rightarrow>
          if con_inside_floating s c \<noteq> None then False
          else
            let leaf_or_stacked_tabbed =
                  con_is_leaf s c \<or> layout_of s c = L_STACKED \<or> layout_of s c = L_TABBED
            in if leaf_or_stacked_tabbed \<and> kind s p = CT_WORKSPACE then True
               else leaf_or_stacked_tabbed \<and> \<not> con_inside_stacked_or_tabbed s c \<and> kind s p = CT_CON \<and>
                    layout_of s p \<in> {L_SPLITH, L_SPLITV, L_SCROLLING})"

text \<open>\<open>gaps_for_workspace\<close>: the loop keeps the last assignment by number until one by name ends it.\<close>

fun assigned_gaps ::
  "string \<Rightarrow> int \<Rightarrow> workspace_assignment list \<Rightarrow> gaps_t \<times> gaps_mask_t \<Rightarrow> gaps_t \<times> gaps_mask_t" where
  "assigned_gaps name n [] found = found"
| "assigned_gaps name n (a # as) found =
     (if wa_name a = name then (wa_gaps a, wa_gaps_mask a)
      else if n \<noteq> - 1 \<and> name_is_digits (wa_name a) \<and> ws_name_to_number (wa_name a) = n
        then assigned_gaps name n as (wa_gaps a, wa_gaps_mask a)
      else assigned_gaps name n as found)"

definition empty_mask :: gaps_mask_t where
  "empty_mask = \<lparr>m_inner = False, m_top = False, m_right = False, m_bottom = False, m_left = False\<rparr>"

definition gaps_for_workspace :: "wm \<Rightarrow> con_id \<Rightarrow> gaps_t" where
  "gaps_for_workspace s ws =
     (let (g, mask) = assigned_gaps (cname (store s ws)) (num (store s ws)) (ws_assignments s)
                        (zero_gaps, empty_mask);
          cg = cfg_gaps (cfg s);
          minus = (\<lambda>b v w. if b then v - w else v)
      in if mask = empty_mask then g
         else \<lparr>g_inner = minus (m_inner mask) (g_inner g) (g_inner cg),
               g_top = minus (m_top mask) (g_top g) (g_top cg),
               g_right = minus (m_right mask) (g_right g) (g_right cg),
               g_bottom = minus (m_bottom mask) (g_bottom g) (g_bottom cg),
               g_left = minus (m_left mask) (g_left g) (g_left cg)\<rparr>)"

subsection \<open>Neighbours\<close>

text \<open>
  \<open>resize_find_tiling_participants\<close>: the loop goes up from \<open>first\<close>; its result is whether both were
  found, the container it stopped at and the neighbour. \<^const>\<open>None\<close> is NULL dereferenced or the failed
  assertion of \<open>con_orientation\<close>.
\<close>

fun participants_path ::
  "wm \<Rightarrow> orientation_t \<Rightarrow> bool \<Rightarrow> bool \<Rightarrow> con_id list \<Rightarrow> (con_id \<times> con_id option) option" where
  "participants_path s search dir_backwards both_sides [] = None"
| "participants_path s search dir_backwards both_sides (first # up) =
     (if kind s first = CT_WORKSPACE \<or> kind s first = CT_FLOATING_CON then Some (first, None)
      else case parent_of s first of
          None \<Rightarrow> None
        | Some p \<Rightarrow>
            (case con_orientation s p of
               None \<Rightarrow> None
             | Some ori \<Rightarrow>
                 if ori \<noteq> search \<or> layout_of s p = L_STACKED \<or> layout_of s p = L_TABBED
                 then participants_path s search dir_backwards both_sides up
                 else
                   let prv = tailq_prev first (nodes s p); nxt = tailq_next first (nodes s p);
                       second = (if dir_backwards
                         then (case prv of None \<Rightarrow> if both_sides then nxt else None | Some x \<Rightarrow> Some x)
                         else (case nxt of None \<Rightarrow> if both_sides then prv else None | Some x \<Rightarrow> Some x))
                   in (case second of
                         None \<Rightarrow> participants_path s search dir_backwards both_sides up
                       | Some x \<Rightarrow> Some (first, Some x))))"

definition resize_find_tiling_participants ::
  "wm \<Rightarrow> con_id option \<Rightarrow> direction_t \<Rightarrow> bool \<Rightarrow> (bool \<times> con_id option \<times> con_id option) option" where
  "resize_find_tiling_participants s current d both_sides =
     (case current of
        None \<Rightarrow> Some (False, None, None)
      | Some c \<Rightarrow>
          map_option (\<lambda>(first, second). (second \<noteq> None, Some first, second))
            (participants_path s (orientation_from_direction d) (d = D_UP \<or> d = D_LEFT) both_sides
              (ancestors s c)))"

definition gaps_has_adjacent_container :: "wm \<Rightarrow> con_id \<Rightarrow> direction_t \<Rightarrow> bool option" where
  "gaps_has_adjacent_container s c d =
     (case con_get_workspace s c of
        None \<Rightarrow> None
      | Some ws \<Rightarrow>
          let fullscreen = (case con_get_fullscreen_con s ws CF_GLOBAL of
                None \<Rightarrow> con_get_fullscreen_con s ws CF_OUTPUT | Some f \<Rightarrow> Some f)
          in if Some c = fullscreen then Some False
             else (case resize_find_tiling_participants s (Some c) d False of
                 None \<Rightarrow> None
               | Some (found, _, second) \<Rightarrow>
                   if \<not> found then Some False
                   else (case fullscreen of
                       None \<Rightarrow> Some True
                     | Some f \<Rightarrow> Some (con_has_parent s c f \<and>
                         (case second of None \<Rightarrow> False | Some x \<Rightarrow> con_has_parent s x f)))))"

text \<open>\<open>percent_for_1px\<close> and \<open>resize_neighboring_cons\<close>. A division by a parent size of 0 is an infinity
  in C, here 0; the parent of two tiling containers has a size.\<close>

definition percent_for_1px :: "wm \<Rightarrow> con_id \<Rightarrow> real option" where
  "percent_for_1px s c =
     Option.bind (parent_of s c) (\<lambda>p.
     Option.bind (con_rect_size_in_orientation s p) (\<lambda>parent_size.
     map_option (\<lambda>ori.
         let min_size = (if ori = HORIZ then 1 else sint (1 + rect_height (deco_rect (store s c))))
         in real_of_int min_size / real_of_int (sint parent_size))
       (con_orientation s p)))"

definition resize_neighboring_cons ::
  "con_id \<Rightarrow> con_id \<Rightarrow> int \<Rightarrow> int \<Rightarrow> wm \<Rightarrow> bool \<times> wm" where
  "resize_neighboring_cons first second px ppt s0 =
     (let s = check (px * ppt = 0) s0 in
      case (parent_of s first, percent_for_1px s first, percent_for_1px s second) of
        (Some p, Some min1, Some min2) \<Rightarrow>
          let change = (if ppt \<noteq> 0 then real_of_int ppt / 100
                else real_of_int px / real (unat (the (con_rect_size_in_orientation s p))));
              new_first = percent (store s first) + change;
              new_second = percent (store s second) - change
          in if new_first < min1 \<or> new_second < min2 then (False, s)
             else (True, con_fix_percent p
               (upd_con second (\<lambda>k. k\<lparr>percent := new_second\<rparr>)
                 (upd_con first (\<lambda>k. k\<lparr>percent := new_first\<rparr>) s)))
      | _ \<Rightarrow> (False, abort s))"

subsection \<open>Borders\<close>

definition ADJ_LEFT_SCREEN_EDGE :: u32 where "ADJ_LEFT_SCREEN_EDGE = 1"
definition ADJ_RIGHT_SCREEN_EDGE :: u32 where "ADJ_RIGHT_SCREEN_EDGE = 2"
definition ADJ_UPPER_SCREEN_EDGE :: u32 where "ADJ_UPPER_SCREEN_EDGE = 4"
definition ADJ_LOWER_SCREEN_EDGE :: u32 where "ADJ_LOWER_SCREEN_EDGE = 16"
definition HEBM_SMART :: u32 where "HEBM_SMART = 32"
definition HEBM_SMART_NO_GAPS :: u32 where "HEBM_SMART_NO_GAPS = 64"

text \<open>A tiling container without a workspace is a dock client, for which no caller asks (its border
  style is \<open>BS_NONE\<close>).\<close>

definition con_adjacent_borders :: "wm \<Rightarrow> con_id \<Rightarrow> u32" where
  "con_adjacent_borders s c =
     (if con_is_floating s c then 0
      else case con_get_workspace s c of
          None \<Rightarrow> 0
        | Some ws \<Rightarrow>
            let r = rect (store s c); w = rect (store s ws) in
              (if rect_x r = rect_x w then ADJ_LEFT_SCREEN_EDGE else 0) OR
              (if rect_x r + rect_width r = rect_x w + rect_width w then ADJ_RIGHT_SCREEN_EDGE else 0) OR
              (if rect_y r = rect_y w then ADJ_UPPER_SCREEN_EDGE else 0) OR
              (if rect_y r + rect_height r = rect_y w + rect_height w then ADJ_LOWER_SCREEN_EDGE else 0))"

definition con_border_style_rect_without_title :: "wm \<Rightarrow> con_id \<Rightarrow> Rect" where
  "con_border_style_rect_without_title s c =
     (let hide = cfg_hide_edge_borders (cfg s);
          few = con_num_visible_children s (con_get_workspace s c) \<le> 1 in
      if (hide = HEBM_SMART \<and> few \<or>
          hide = HEBM_SMART_NO_GAPS \<and> few \<and> \<not> has_outer_gaps (calculate_effective_gaps s c)) \<and>
         \<not> con_is_floating s c
      then zero_rect
      else
        let width = (if current_border_width (store s c) < 0 then
                (if con_is_floating s c then cfg_default_floating_border_width (cfg s)
                 else cfg_default_border_width (cfg s))
              else current_border_width (store s c));
            b = (word_of_int width :: u32);
            style = con_border_style s c
        in if style = BS_NONE then zero_rect
           else
             let r = (if style = BS_NORMAL
                   then \<lparr>rect_x = b, rect_y = 0, rect_width = - (2 * b), rect_height = - b\<rparr>
                   else \<lparr>rect_x = b, rect_y = b, rect_width = - (2 * b), rect_height = - (2 * b)\<rparr>);
                 hidden = (if hide = HEBM_SMART_NO_GAPS then 0 else con_adjacent_borders s c AND hide);
                 r = (if hidden AND ADJ_LEFT_SCREEN_EDGE \<noteq> 0
                      then r\<lparr>rect_x := rect_x r - b, rect_width := rect_width r + b\<rparr> else r);
                 r = (if hidden AND ADJ_RIGHT_SCREEN_EDGE \<noteq> 0
                      then r\<lparr>rect_width := rect_width r + b\<rparr> else r);
                 r = (if hidden AND ADJ_UPPER_SCREEN_EDGE \<noteq> 0 \<and> style \<noteq> BS_NORMAL
                      then r\<lparr>rect_y := rect_y r - b, rect_height := rect_height r + b\<rparr> else r)
             in if hidden AND ADJ_LOWER_SCREEN_EDGE \<noteq> 0
                then r\<lparr>rect_height := rect_height r + b\<rparr> else r)"

definition render_deco_height :: "wm \<Rightarrow> int" where
  "render_deco_height s =
     (let h = cfg_font_height (cfg s) in if odd h then h + 4 + 1 else h + 4)"

definition con_border_style_rect :: "wm \<Rightarrow> con_id \<Rightarrow> Rect" where
  "con_border_style_rect s c =
     (let r = con_border_style_rect_without_title s c;
          d = (word_of_int (render_deco_height s) :: u32)
      in if con_border_style s c = BS_NORMAL \<and> con_draw_decoration_into_frame s c
         then r\<lparr>rect_y := rect_y r + d, rect_height := rect_height r - d\<rparr> else r)"

definition con_set_border_style :: "con_id \<Rightarrow> border_style_t \<Rightarrow> int \<Rightarrow> wm \<Rightarrow> wm" where
  "con_set_border_style c style width s =
     (let style = (if style > max_user_border_style (store s c) then max_user_border_style (store s c)
                   else style);
          change = upd_con c (\<lambda>k. k\<lparr>border_style := style, current_border_width := width\<rparr>) in
      if \<not> con_is_floating s c then change s
      else case parent_of s c of
          None \<Rightarrow> abort s
        | Some p \<Rightarrow>
            let bsr = con_border_style_rect s c;
                s = upd_con c (\<lambda>k. k\<lparr>rect := rect_add (rect k) bsr\<rparr>) s;
                s = upd_con p (\<lambda>k. k\<lparr>rect := rect_add (rect k) bsr\<rparr>) s;
                s = change s;
                bsr = con_border_style_rect s c;
                s = upd_con c (\<lambda>k. k\<lparr>rect := rect_sub (rect k) bsr\<rparr>) s
            in upd_con p (\<lambda>k. k\<lparr>rect := rect_sub (rect k) bsr\<rparr>) s)"

subsection \<open>Where the descents end\<close>

interpretation foc: bounded_walk foci all_cons tree_ok
proof
  fix s :: wm and c d
  assume "tree_ok s" "c \<in> set (all_cons s)" "d \<in> set (foci s c)"
  then show "d \<in> set (all_cons s)" by (rule tree_ok_foci)
next
  fix s :: wm
  assume ok: "tree_ok s"
  from down.ranked [OF this] obtain r :: "con_id \<Rightarrow> nat" where
    r: "\<forall>c \<in> set (all_cons s). \<forall>d \<in> set (children s c). r d < r c" by blast
  have "r d < r c" if "c \<in> set (all_cons s)" "d \<in> set (foci s c)" for c d
    using r that tree_ok_foci(3) [OF ok that] by blast
  then show "\<exists>r :: con_id \<Rightarrow> nat. \<forall>c \<in> set (all_cons s). \<forall>d \<in> set (foci s c). r d < r c" by blast
qed

definition descend_step :: "wm \<Rightarrow> (con_id \<Rightarrow> con_id) \<Rightarrow> con_id \<Rightarrow> con_id" where
  "descend_step s rec c =
     (if Some c = focused s then c else case foci s c of [] \<Rightarrow> c | x # _ \<Rightarrow> rec x)"

interpretation descent: fuel_recursion foci all_cons tree_ok descend_focused descend_step
  by unfold_locales (auto simp: descend_step_def split: list.splits)

lemma con_descend_focused_correct:
  assumes ok: "tree_ok s" and c: "c \<in> set (all_cons s)"
  shows "con_descend_focused s c \<in> set (subtree s c)"
    and "foci s (con_descend_focused s c) = [] \<or> Some (con_descend_focused s c) = focused s"
proof -
  have "con_descend_focused s c \<in> set (subtree s c) \<and>
    (foci s (con_descend_focused s c) = [] \<or> Some (con_descend_focused s c) = focused s)"
  proof (rule foc.walk_induct [OF ok c])
    fix c
    assume c: "c \<in> set (all_cons s)" and IH: "\<And>d. d \<in> set (foci s c) \<Longrightarrow>
      con_descend_focused s d \<in> set (subtree s d) \<and>
      (foci s (con_descend_focused s d) = [] \<or> Some (con_descend_focused s d) = focused s)"
    have eq: "con_descend_focused s c = descend_step s (con_descend_focused s) c"
      unfolding con_descend_focused_def by (subst descent.unfold [OF ok c]) (rule refl)
    have self: "c \<in> set (subtree s c)" unfolding set_subtree_unfold [OF ok c] by blast
    show "con_descend_focused s c \<in> set (subtree s c) \<and>
      (foci s (con_descend_focused s c) = [] \<or> Some (con_descend_focused s c) = focused s)"
    proof (cases "Some c = focused s")
      case True
      then show ?thesis using self by (simp add: eq descend_step_def)
    next
      case False
      show ?thesis
      proof (cases "foci s c")
        case Nil
        then show ?thesis using False self by (simp add: eq descend_step_def)
      next
        case (Cons x xs)
        then have "x \<in> set (children s c)" using tree_ok_foci(3) [OF ok c, of x] by simp
        moreover have "con_descend_focused s c = con_descend_focused s x"
          using False Cons by (simp add: eq descend_step_def)
        ultimately show ?thesis using IH [of x] Cons unfolding set_subtree_unfold [OF ok c] by auto
      qed
    qed
  qed
  then show "con_descend_focused s c \<in> set (subtree s c)"
    and "foci s (con_descend_focused s c) = [] \<or> Some (con_descend_focused s c) = focused s"
    by blast+
qed

lemma con_descend_focused_alloc:
  "tree_ok s \<Longrightarrow> c \<in> set (all_cons s) \<Longrightarrow> con_descend_focused s c \<in> set (all_cons s)"
  using con_descend_focused_correct(1) subtree_alloc by blast

lemma output_get_content_in:
  assumes "output_get_content s out = Some c"
  shows "c \<in> set (nodes s out)" "kind s c = CT_CON"
  using find_in [OF assms [unfolded output_get_content_def]] by auto

subsection \<open>Gap assignments\<close>

text \<open>An assignment by name wins over those by number, the first of them; among those by number the
  last one is kept.\<close>

definition by_number :: "int \<Rightarrow> workspace_assignment \<Rightarrow> bool" where
  "by_number n a \<longleftrightarrow> n \<noteq> - 1 \<and> name_is_digits (wa_name a) \<and> ws_name_to_number (wa_name a) = n"

lemma assigned_gaps_spec:
  "assigned_gaps name n as found =
     (case find (\<lambda>a. wa_name a = name) as of
        Some a \<Rightarrow> (wa_gaps a, wa_gaps_mask a)
      | None \<Rightarrow> (case find (by_number n) (rev as) of
          Some a \<Rightarrow> (wa_gaps a, wa_gaps_mask a) | None \<Rightarrow> found))"
proof (induction "as" arbitrary: found)
  case (Cons a as)
  have F: "find P (xs @ [a]) = (case find P xs of Some x \<Rightarrow> Some x | None \<Rightarrow> if P a then Some a else None)"
    for P and xs :: "workspace_assignment list"
    by (induction xs) auto
  show ?case
  proof (cases "wa_name a = name")
    case False
    then have "assigned_gaps name n (a # as) found =
        assigned_gaps name n as (if by_number n a then (wa_gaps a, wa_gaps_mask a) else found)"
      by (simp add: by_number_def)
    then show ?thesis unfolding Cons.IH using False by (simp add: F split: option.splits)
  qed simp
qed simp

subsection \<open>Resizing neighbours\<close>

text \<open>The participants are neighbours in a split of the wanted orientation around the container.\<close>

lemma participants_path_sound:
  "participants_path s search bw both up = Some (first, Some second) \<Longrightarrow>
     first \<in> set up \<and> (\<exists>p. parent_of s first = Some p \<and> con_orientation s p = Some search \<and>
       layout_of s p \<noteq> L_STACKED \<and> layout_of s p \<noteq> L_TABBED \<and>
       (if bw then tailq_prev first (nodes s p) = Some second \<or>
            both \<and> tailq_prev first (nodes s p) = None \<and> tailq_next first (nodes s p) = Some second
        else tailq_next first (nodes s p) = Some second \<or>
            both \<and> tailq_next first (nodes s p) = None \<and> tailq_prev first (nodes s p) = Some second))"
proof (induction s search bw both up rule: participants_path.induct)
  case (2 s search bw both c up)
  show ?case
  proof (cases "kind s c = CT_WORKSPACE \<or> kind s c = CT_FLOATING_CON")
    case True
    then show ?thesis using 2(3) by auto
  next
    case False
    then obtain p ori where p: "parent_of s c = Some p" "con_orientation s p = Some ori"
      using 2(3) by (auto split: option.splits simp del: con_orientation.simps)
    show ?thesis
    proof (cases "ori \<noteq> search \<or> layout_of s p = L_STACKED \<or> layout_of s p = L_TABBED")
      case True
      then show ?thesis using 2(1) [OF False p True] 2(3) False p
        by (auto simp del: con_orientation.simps)
    next
      case F: False
      then show ?thesis using 2(2) [OF False p F refl refl refl] 2(3) False p
        by (auto simp del: con_orientation.simps simp: Let_def split: option.splits if_splits)
    qed
  qed
qed simp

lemma fix_percents_id:
  assumes "\<forall>p \<in> set ps. p > 0" and "sum_list ps = 1"
  shows "fix_percents ps = ps"
proof -
  have "filter (\<lambda>p. p > 0) ps = ps" using assms(1) by simp
  then show ?thesis using assms(2) by (simp add: fix_percents_def Let_def)
qed

lemma sum_list_shift:
  fixes f g :: "con_id \<Rightarrow> real"
  assumes d: "distinct xs" and a: "a \<in> set xs" and b: "b \<in> set xs" and ab: "a \<noteq> b"
    and g: "g a = f a + e" "g b = f b - e" "\<And>x. x \<noteq> a \<Longrightarrow> x \<noteq> b \<Longrightarrow> g x = f x"
  shows "sum_list (map g xs) = sum_list (map f xs)"
proof -
  have split: "sum h (set xs) = h a + (h b + sum h (set xs - {a} - {b}))" for h :: "con_id \<Rightarrow> real"
    using a b ab by (simp add: sum.remove [of "set xs" a] sum.remove [of "set xs - {a}" b])
  have "sum g (set xs - {a} - {b}) = sum f (set xs - {a} - {b})" by (intro sum.cong) (auto simp: g(3))
  then show ?thesis by (simp only: sum_list_distinct_conv_sum_set [OF d] split g(1,2))
qed

text \<open>
  A successful \<open>resize_neighboring_cons\<close> moves the share by exactly the amount asked for, from one
  sibling to the other, and leaves every container at least its one pixel.
\<close>

lemma resize_neighboring_cons_exact:
  assumes d: "distinct (nodes s p)" and first: "first \<in> set (nodes s p)"
    and second: "second \<in> set (nodes s p)" and neq: "first \<noteq> second"
    and par: "parent_of s first = Some p" and lay: "layout_of s p \<noteq> L_SCROLLING"
    and pos: "\<forall>c \<in> set (nodes s p). percent (store s c) > 0"
    and tot: "sum_list (map (\<lambda>c. percent (store s c)) (nodes s p)) = 1"
    and m: "percent_for_1px s first = Some m1" "percent_for_1px s second = Some m2" "m1 > 0" "m2 > 0"
    and prod: "px * ppt = 0"
    and run: "resize_neighboring_cons first second px ppt s = (True, t)"
  defines "e \<equiv> if ppt \<noteq> 0 then real_of_int ppt / 100
      else real_of_int px / real (unat (the (con_rect_size_in_orientation s p)))"
  shows "percent (store t first) = percent (store s first) + e"
    and "percent (store t second) = percent (store s second) - e"
    and "percent (store t first) \<ge> m1" and "percent (store t second) \<ge> m2"
    and "c \<in> set (nodes s p) \<Longrightarrow> c \<noteq> first \<Longrightarrow> c \<noteq> second \<Longrightarrow> percent (store t c) = percent (store s c)"
proof -
  define u where "u = upd_con second (\<lambda>k. k\<lparr>percent := percent (store s second) - e\<rparr>)
     (upd_con first (\<lambda>k. k\<lparr>percent := percent (store s first) + e\<rparr>) s)"
  have s': "check (px * ppt = 0) s = s" by (simp add: check_def prod)
  have "resize_neighboring_cons first second px ppt s =
      (if percent (store s first) + e < m1 \<or> percent (store s second) - e < m2 then (False, s)
       else (True, con_fix_percent p u))"
    unfolding resize_neighboring_cons_def Let_def s' par m(1,2) u_def e_def
    by (simp only: prod.case option.case)
  with run have bounds: "percent (store s first) + e \<ge> m1" "percent (store s second) - e \<ge> m2"
    and t: "t = con_fix_percent p u"
    by (simp_all split: if_splits)
  have U: "percent (store u first) = percent (store s first) + e"
    "percent (store u second) = percent (store s second) - e"
    "\<And>x. x \<noteq> first \<Longrightarrow> x \<noteq> second \<Longrightarrow> percent (store u x) = percent (store s x)"
    "nodes u p = nodes s p" "layout_of u p = layout_of s p"
    using neq by (auto simp: u_def)
  have "percent (store u c) > 0" if "c \<in> set (nodes s p)" for c
    using that pos U(1-3) bounds m(3,4) by (cases "c = first"; cases "c = second") auto
  moreover have "sum_list (map (\<lambda>c. percent (store u c)) (nodes s p)) = 1"
    using sum_list_shift [OF d first second neq, of "\<lambda>c. percent (store u c)" "\<lambda>c. percent (store s c)"] U(1-3) tot
    by simp
  ultimately have same: "fix_percents (map (\<lambda>c. percent (store u c)) (nodes u p)) =
      map (\<lambda>c. percent (store u c)) (nodes u p)"
    by (intro fix_percents_id) (auto simp: U(4))
  have "map (\<lambda>c. percent (store t c)) (nodes s p) = map (\<lambda>c. percent (store u c)) (nodes s p)"
    using percents_of_children [of u p] d lay unfolding t U(4,5) same [unfolded U(4)] by simp
  then have T: "percent (store t c) = percent (store u c)" if "c \<in> set (nodes s p)" for c
    using that by simp
  show "percent (store t first) = percent (store s first) + e"
    and "percent (store t second) = percent (store s second) - e"
    and "percent (store t first) \<ge> m1" and "percent (store t second) \<ge> m2"
    using T first second U bounds by simp_all
  show "percent (store t c) = percent (store s c)"
    if "c \<in> set (nodes s p)" "c \<noteq> first" "c \<noteq> second"
    using that T U(3) by simp
qed

text \<open>Changing the border style of a floating container keeps its window where it is.\<close>

lemma con_border_style_rect_floating:
  assumes "con_is_floating s c" and "con_is_floating t c" and "cfg t = cfg s"
    and "border_style (store t c) = border_style (store s c)"
    and "current_border_width (store t c) = current_border_width (store s c)"
    and "fullscreen_mode (store t c) = fullscreen_mode (store s c)"
    and "parent_of t c = parent_of s c" and "nodes t c = nodes s c"
    and "\<And>p. parent_of s c = Some p \<Longrightarrow>
      layout_of t p = layout_of s p \<and> kind t p = kind s p \<and> nodes t p = nodes s p"
  shows "con_border_style_rect t c = con_border_style_rect s c"
proof -
  have A: "con_border_style t c = con_border_style s c"
    using assms by (cases "parent_of s c") (simp_all add: con_border_style_def con_num_children_def Let_def)
  have "con_border_style_rect_without_title t c = con_border_style_rect_without_title s c"
    unfolding con_border_style_rect_without_title_def con_adjacent_borders_def A assms(3,5)
    using assms(1,2) by (simp only: Let_def simp_thms if_True if_False)
  moreover have "con_draw_decoration_into_frame t c = con_draw_decoration_into_frame s c"
    using assms A by (cases "parent_of s c")
      (simp_all add: con_draw_decoration_into_frame_def con_is_leaf_def)
  ultimately show ?thesis
    by (simp add: con_border_style_rect_def render_deco_height_def A assms(3))
qed

lemma con_set_border_style_keeps_window:
  assumes fl: "con_is_floating s c" and p: "parent_of s c = Some p" and cp: "c \<noteq> p"
    and t_def: "t = con_set_border_style c style width s"
  shows "rect_add (rect (store t c)) (con_border_style_rect t c) =
      rect_add (rect (store s c)) (con_border_style_rect s c)"
    and "rect_add (rect (store t p)) (con_border_style_rect t c) =
      rect_add (rect (store s p)) (con_border_style_rect s c)"
proof -
  define style' where "style' = (if style > max_user_border_style (store s c)
    then max_user_border_style (store s c) else style)"
  define b where "b = con_border_style_rect s c"
  define u where "u = upd_con c (\<lambda>k. k\<lparr>border_style := style', current_border_width := width\<rparr>)
    (upd_con p (\<lambda>k. k\<lparr>rect := rect_add (rect k) b\<rparr>) (upd_con c (\<lambda>k. k\<lparr>rect := rect_add (rect k) b\<rparr>) s))"
  have t: "t = upd_con p (\<lambda>k. k\<lparr>rect := rect_sub (rect k) (con_border_style_rect u c)\<rparr>)
      (upd_con c (\<lambda>k. k\<lparr>rect := rect_sub (rect k) (con_border_style_rect u c)\<rparr>) u)"
    using fl p unfolding t_def con_set_border_style_def Let_def style'_def [symmetric] b_def [symmetric] u_def
    by simp
  have same: "con_border_style_rect t c = con_border_style_rect u c"
    using fl cp by (intro con_border_style_rect_floating)
      (simp_all add: t u_def con_is_floating_def split: if_splits)
  show "rect_add (rect (store t c)) (con_border_style_rect t c) =
      rect_add (rect (store s c)) (con_border_style_rect s c)"
    unfolding same using cp by (simp add: t) (simp add: u_def b_def)
  show "rect_add (rect (store t p)) (con_border_style_rect t c) =
      rect_add (rect (store s p)) (con_border_style_rect s c)"
    unfolding same using cp by (simp add: t) (simp add: u_def b_def)
qed

end
