(* ===== verification/Curves.thy ===== *)
theory Curves
  imports I3_Util Complex_Main
begin

text \<open>
  The animation curves of \<^verbatim>\<open>src/aiwr_bezier.c\<close>: cubic beziers and damped springs, their table and
  the specifications that define them. A \<open>double\<close> is a real number. The table starts out with the
  built-in curves: every function that reads it calls \<open>aiwr_curves_init\<close> first.
\<close>

definition clamp01 :: "real \<Rightarrow> real" where
  "clamp01 v = (if v < 0 then 0 else if v > 1 then 1 else v)"

definition blank_curve :: "string \<Rightarrow> aiwr_curve" where
  "blank_curve name =
     \<lparr>cv_name = name, cv_type = AIWR_CURVE_BEZIER, cv_x1 = 0, cv_y1 = 0, cv_x2 = 0, cv_y2 = 0,
      cv_damping_ratio = 0, cv_stiffness = 0, cv_mass = 0, cv_epsilon = 0, cv_settle_ms = 0\<rparr>"

definition curve_find :: "aiwr_curve list \<Rightarrow> string \<Rightarrow> aiwr_curve option" where
  "curve_find cs name = find (\<lambda>c. caseless_eq (cv_name c) name) cs"

text \<open>\<open>curve_slot\<close> and what its callers fill in: the first curve of that name is replaced and keeps the
  spelling of its name, a new name goes to the end.\<close>

fun curve_put :: "string \<Rightarrow> (aiwr_curve \<Rightarrow> aiwr_curve) \<Rightarrow> aiwr_curve list \<Rightarrow> aiwr_curve list" where
  "curve_put name fill [] = [fill (blank_curve name)]"
| "curve_put name fill (c # cs) =
     (if caseless_eq (cv_name c) name then fill (blank_curve (cv_name c)) # cs else c # curve_put name fill cs)"

definition aiwr_curve_define ::
  "string \<Rightarrow> real \<Rightarrow> real \<Rightarrow> real \<Rightarrow> real \<Rightarrow> aiwr_curve list \<Rightarrow> bool \<times> aiwr_curve list" where
  "aiwr_curve_define name x1 y1 x2 y2 cs =
     (if name = [] then (False, cs)
      else (True, curve_put name (\<lambda>c. c\<lparr>cv_type := AIWR_CURVE_BEZIER, cv_x1 := clamp01 x1, cv_y1 := y1,
              cv_x2 := clamp01 x2, cv_y2 := y2\<rparr>) cs))"

subsection \<open>Evaluating a bezier\<close>

definition bez :: "real \<Rightarrow> real \<Rightarrow> real \<Rightarrow> real" where
  "bez a b t = (let u = 1 - t in 3 * u * u * t * a + 3 * u * t * t * b + t * t * t)"

definition bez_dx :: "real \<Rightarrow> real \<Rightarrow> real \<Rightarrow> real" where
  "bez_dx x1 x2 t = (let u = 1 - t in 3 * u * u * x1 + 6 * u * t * (x2 - x1) + 3 * t * t * (1 - x2))"

text \<open>Newton's iteration: the parameter found, or \<^const>\<open>None\<close> when it gives up.\<close>

primrec newton :: "nat \<Rightarrow> real \<Rightarrow> real \<Rightarrow> real \<Rightarrow> real \<Rightarrow> real option" where
  "newton 0 x1 x2 p t = None"
| "newton (Suc n) x1 x2 p t =
     (let x = bez x1 x2 t - p in
      if \<bar>x\<bar> < 1 / 10 ^ 6 then Some t
      else
        let d = bez_dx x1 x2 t in
        if \<bar>d\<bar> < 1 / 10 ^ 6 then None
        else
          let t = t - x / d;
              t = (if t < 0 then 0 else t)
          in newton n x1 x2 p (if t > 1 then 1 else t))"

primrec bisect :: "nat \<Rightarrow> real \<Rightarrow> real \<Rightarrow> real \<Rightarrow> real \<Rightarrow> real \<Rightarrow> real \<Rightarrow> real" where
  "bisect 0 x1 x2 p lo hi t = t"
| "bisect (Suc n) x1 x2 p lo hi t =
     (let x = bez x1 x2 t in
      if \<bar>x - p\<bar> < 1 / 10 ^ 6 then t
      else
        let lo' = (if x < p then t else lo);
            hi' = (if x < p then hi else t)
        in bisect n x1 x2 p lo' hi' ((lo' + hi') / 2))"

definition bezier_eval :: "aiwr_curve \<Rightarrow> real \<Rightarrow> real" where
  "bezier_eval c p =
     (case newton 8 (cv_x1 c) (cv_x2 c) p p of
        Some t \<Rightarrow> bez (cv_y1 c) (cv_y2 c) t
      | None \<Rightarrow> bez (cv_y1 c) (cv_y2 c) (bisect 24 (cv_x1 c) (cv_x2 c) p 0 1 p))"

subsection \<open>Springs\<close>

definition spring_at :: "aiwr_curve \<Rightarrow> real \<Rightarrow> real" where
  "spring_at c t =
     (let m = (if cv_mass c > 0 then cv_mass c else 1);
          k = cv_stiffness c;
          damping = cv_damping_ratio c * 2 * sqrt (m * k);
          b = damping / (2 * m);
          omega0 = sqrt (k / m);
          x0 = - 1;
          envelope = exp (- b * t)
      in if \<bar>cv_damping_ratio c - 1\<bar> < 1 / 10 ^ 9 then 1 + envelope * (x0 + b * x0 * t)
         else if cv_damping_ratio c > 1 then
           (let omega1 = sqrt (b * b - omega0 * omega0)
            in 1 + envelope * (x0 * cosh (omega1 * t) + (b * x0 / omega1) * sinh (omega1 * t)))
         else
           (let omega2 = sqrt (omega0 * omega0 - b * b)
            in 1 + envelope * (x0 * cos (omega2 * t) + (b * x0 / omega2) * sin (omega2 * t))))"

text \<open>The steps of 0.001 s below 10 s are the multiples; the \<open>double\<close> sum of the code drifts from them.\<close>

definition spring_settle_ms :: "aiwr_curve \<Rightarrow> real" where
  "spring_settle_ms c =
     (let eps = (if cv_epsilon c > 0 then cv_epsilon c else 1 / 10000);
          last_t = fold (\<lambda>i last_t. let t = real i / 1000 in if \<bar>spring_at c t - 1\<bar> > eps then t else last_t)
                   [0..<10000] 0
      in (last_t + 1 / 1000) * 1000)"

definition aiwr_curve_define_spring ::
  "string \<Rightarrow> real \<Rightarrow> real \<Rightarrow> real \<Rightarrow> real \<Rightarrow> real \<Rightarrow> aiwr_curve list \<Rightarrow> bool \<times> aiwr_curve list" where
  "aiwr_curve_define_spring name damping_ratio stiffness mass epsilon speed cs =
     (if name = [] \<or> stiffness \<le> 0 then (False, cs)
      else
        let damping_ratio = (if damping_ratio \<le> 0 then 1 else damping_ratio);
            mass = (if mass \<le> 0 then 1 else mass);
            epsilon = (if epsilon \<le> 0 then 1 / 10000 else epsilon)
        in (True, curve_put name (\<lambda>c.
             let c = c\<lparr>cv_type := AIWR_CURVE_SPRING, cv_damping_ratio := damping_ratio, cv_stiffness := stiffness,
                       cv_mass := mass, cv_epsilon := epsilon\<rparr>
             in c\<lparr>cv_settle_ms := spring_settle_ms c\<rparr>) cs))"

definition aiwr_curve_natural_duration_ms :: "aiwr_curve option \<Rightarrow> real" where
  "aiwr_curve_natural_duration_ms c =
     (case c of None \<Rightarrow> 0 | Some c \<Rightarrow> if cv_type c \<noteq> AIWR_CURVE_SPRING then 0 else cv_settle_ms c)"

definition aiwr_curve_eval :: "aiwr_curve option \<Rightarrow> real \<Rightarrow> real" where
  "aiwr_curve_eval c p =
     (let p = clamp01 p in
      case c of
        None \<Rightarrow> (let u = 1 - p in 1 - u * u * u)
      | Some c \<Rightarrow>
          if p \<le> 0 then 0
          else if p \<ge> 1 then 1
          else if cv_type c = AIWR_CURVE_SPRING then
            (let dur_s = cv_settle_ms c / 1000 in if dur_s \<le> 0 then 1 else spring_at c (p * dur_s))
          else bezier_eval c p)"

subsection \<open>The built-in curves\<close>

definition builtin_bezier :: "(string \<times> real \<times> real \<times> real \<times> real) list" where
  "builtin_bezier =
     [(''default'', 0.05, 0.7, 0.1, 1.0),
      (''linear'', 0.0, 0.0, 1.0, 1.0),
      (''md3_standard'', 0.2, 0.0, 0.0, 1.0),
      (''md3_decel'', 0.05, 0.7, 0.1, 1.0),
      (''md3_accel'', 0.3, 0.0, 0.8, 0.15),
      (''overshot'', 0.05, 0.9, 0.1, 1.1),
      (''crazyshot'', 0.1, 1.5, 0.76, 0.92),
      (''hyprnostretch'', 0.05, 0.9, 0.1, 1.0),
      (''menu_decel'', 0.1, 1.0, 0.0, 1.0),
      (''menu_accel'', 0.38, 0.04, 1.0, 0.07),
      (''easeInOutCirc'', 0.85, 0.0, 0.15, 1.0),
      (''easeOutCirc'', 0.0, 0.55, 0.45, 1.0),
      (''easeOutExpo'', 0.16, 1.0, 0.3, 1.0),
      (''softAcDecel'', 0.26, 0.26, 0.15, 1.0),
      (''md2'', 0.4, 0.0, 0.2, 1.0)]"

definition builtin_spring :: "(string \<times> real \<times> real \<times> real) list" where
  "builtin_spring =
     [(''spring'', 1.0, 1000.0, 0.0001),
      (''spring_snappy'', 1.0, 1600.0, 0.0001),
      (''spring_soft'', 1.0, 500.0, 0.0001),
      (''spring_bouncy'', 0.7, 1000.0, 0.0001),
      (''spring_wobbly'', 0.5, 800.0, 0.0001)]"

definition aiwr_curves_init :: "aiwr_curve list" where
  "aiwr_curves_init =
     (let cs = fold (\<lambda>(name, x1, y1, x2, y2) cs. snd (aiwr_curve_define name x1 y1 x2 y2 cs)) builtin_bezier []
      in fold (\<lambda>(name, ratio, stiffness, eps) cs. snd (aiwr_curve_define_spring name ratio stiffness 1 eps 1 cs))
           builtin_spring cs)"

definition aiwr_curve_count :: "aiwr_curve list \<Rightarrow> int" where
  "aiwr_curve_count cs = int (length cs)"

definition aiwr_curve_name_at :: "aiwr_curve list \<Rightarrow> int \<Rightarrow> string option" where
  "aiwr_curve_name_at cs i = (if 0 \<le> i \<and> i < int (length cs) then Some (cv_name (cs ! nat i)) else None)"

definition aiwr_curve_get :: "aiwr_curve list \<Rightarrow> string option \<Rightarrow> aiwr_curve option" where
  "aiwr_curve_get cs name = Option.bind name (curve_find cs)"

subsection \<open>Specifications\<close>

text \<open>\<open>strtod\<close> on decimal numbers: optional white space, a sign, digits with a decimal point, an exponent;
  the value and what is left. Hexadecimal numbers, infinities and NaN are not modelled.\<close>

definition fraction :: "string \<Rightarrow> real" where
  "fraction ds = real_of_int (digits_value 0 ds) / 10 ^ length ds"

definition exponent_of :: "string \<Rightarrow> int \<times> string" where
  "exponent_of str =
     (case str of
        [] \<Rightarrow> (0, str)
      | e # rest \<Rightarrow>
          let body = (case rest of c # cs \<Rightarrow> if c = CHR ''+'' \<or> c = CHR ''-'' then cs else rest | [] \<Rightarrow> rest);
              ds = takeWhile c_isdigit body
          in if (e = CHR ''e'' \<or> e = CHR ''E'') \<and> ds \<noteq> []
             then (let v = digits_value 0 ds in if rest \<noteq> body \<and> hd rest = CHR ''-'' then - v else v,
                   dropWhile c_isdigit body)
             else (0, str))"

definition scan_double :: "string \<Rightarrow> (real \<times> string) option" where
  "scan_double str =
     (let str = dropWhile c_isspace str;
          neg = (str \<noteq> [] \<and> hd str = CHR ''-'');
          str = (case str of c # cs \<Rightarrow> if c = CHR ''-'' \<or> c = CHR ''+'' then cs else str | [] \<Rightarrow> str);
          whole = takeWhile c_isdigit str;
          rest = dropWhile c_isdigit str;
          dot = (rest \<noteq> [] \<and> hd rest = CHR ''.'');
          frac = (if dot then takeWhile c_isdigit (tl rest) else []);
          rest = (if dot then dropWhile c_isdigit (tl rest) else rest)
      in if whole = [] \<and> frac = [] then None
         else
           let (ex, rest) = exponent_of rest;
               m = (real_of_int (digits_value 0 whole) + fraction frac) * (if ex \<ge> 0 then 10 ^ nat ex else 1 / 10 ^ nat (- ex))
           in Some (if neg then - m else m, rest))"

definition strtod :: "string \<Rightarrow> real" where
  "strtod str = (case scan_double str of None \<Rightarrow> 0 | Some (v, _) \<Rightarrow> v)"

definition spec_normalize :: "nat \<Rightarrow> string \<Rightarrow> string" where
  "spec_normalize cap str = map (\<lambda>c. if c = CHR '','' then CHR '' '' else c) (take (cap - 1) str)"

text \<open>\<open>sscanf\<close> with \<^verbatim>\<open>%63s %lf %lf %lf %lf\<close>, all five conversions done.\<close>

fun scan_doubles :: "nat \<Rightarrow> string \<Rightarrow> real list option" where
  "scan_doubles 0 str = Some []"
| "scan_doubles (Suc n) str =
     (case scan_double str of
        None \<Rightarrow> None
      | Some (v, rest) \<Rightarrow> map_option (Cons v) (scan_doubles n rest))"

definition scan_name :: "nat \<Rightarrow> string \<Rightarrow> (string \<times> string) option" where
  "scan_name width str =
     (let str = dropWhile c_isspace str; name = take width (takeWhile (\<lambda>c. \<not> c_isspace c) str)
      in if name = [] then None else Some (name, drop (length name) str))"

definition aiwr_curve_define_spec :: "string \<Rightarrow> aiwr_curve list \<Rightarrow> bool \<times> aiwr_curve list" where
  "aiwr_curve_define_spec spec cs =
     (case scan_name 63 (spec_normalize 256 spec) of
        None \<Rightarrow> (False, cs)
      | Some (name, rest) \<Rightarrow>
          (case scan_doubles 4 rest of
             Some [x1, y1, x2, y2] \<Rightarrow> aiwr_curve_define name x1 y1 x2 y2 cs
           | _ \<Rightarrow> (False, cs)))"

text \<open>The tokens \<open>strtok_r\<close> returns one after the other.\<close>

function strtok_all :: "(char \<Rightarrow> bool) \<Rightarrow> string \<Rightarrow> string list" where
  "strtok_all sep str =
     (let rest = dropWhile sep str in
      if rest = [] then [] else takeWhile (\<lambda>c. \<not> sep c) rest # strtok_all sep (dropWhile (\<lambda>c. \<not> sep c) rest))"
  by pat_completeness auto
termination
proof (relation "measure (\<lambda>(sep, str). length str)")
  fix sep :: "char \<Rightarrow> bool" and str rest
  assume "rest = dropWhile sep str" and ne: "rest \<noteq> []"
  have "\<not> sep (hd rest)" using hd_dropWhile [of sep str] ne \<open>rest = dropWhile sep str\<close> by simp
  then obtain c cs where r: "rest = c # cs" "\<not> sep c" using ne by (cases rest) simp_all
  have "length (dropWhile (\<lambda>c. \<not> sep c) rest) \<le> length cs" using r length_dropWhile_le [of "\<lambda>c. \<not> sep c" cs] by simp
  also have "\<dots> < length rest" using r by simp
  also have "\<dots> \<le> length str" using \<open>rest = dropWhile sep str\<close> length_dropWhile_le by simp
  finally show "((sep, dropWhile (\<lambda>c. \<not> sep c) rest), sep, str) \<in> measure (\<lambda>(sep, str). length str)" by simp
qed simp

declare strtok_all.simps [simp del]

record spring_spec =
  sp_damping_ratio :: real
  sp_stiffness :: real
  sp_mass :: real
  sp_epsilon :: real
  sp_speed :: real

definition spring_key :: "string \<Rightarrow> real \<Rightarrow> spring_spec \<Rightarrow> spring_spec option" where
  "spring_key key v sp =
     (if caseless_eq key ''damping-ratio'' \<or> caseless_eq key ''damping_ratio'' then Some (sp\<lparr>sp_damping_ratio := v\<rparr>)
      else if caseless_eq key ''stiffness'' then Some (sp\<lparr>sp_stiffness := v\<rparr>)
      else if caseless_eq key ''epsilon'' then Some (sp\<lparr>sp_epsilon := v\<rparr>)
      else if caseless_eq key ''mass'' then Some (sp\<lparr>sp_mass := v\<rparr>)
      else if caseless_eq key ''speed'' then Some (sp\<lparr>sp_speed := v\<rparr>)
      else None)"

fun spring_keys :: "string list \<Rightarrow> spring_spec \<Rightarrow> spring_spec option" where
  "spring_keys [] sp = Some sp"
| "spring_keys (tok # toks) sp =
     (if CHR ''='' \<notin> set tok then None
      else
        let key = takeWhile (\<lambda>c. c \<noteq> CHR ''='') tok
        in (case spring_key key (strtod (drop (Suc (length key)) tok)) sp of
              None \<Rightarrow> None
            | Some sp \<Rightarrow> spring_keys toks sp))"

definition aiwr_curve_define_spring_spec :: "string \<Rightarrow> aiwr_curve list \<Rightarrow> bool \<times> aiwr_curve list" where
  "aiwr_curve_define_spring_spec spec cs =
     (case strtok_all (\<lambda>c. c = CHR '' '' \<or> c = CHR 0x09) (spec_normalize 256 spec) of
        [] \<Rightarrow> (False, cs)
      | tok # toks \<Rightarrow>
          (case spring_keys toks \<lparr>sp_damping_ratio = 1, sp_stiffness = 1000, sp_mass = 1,
                  sp_epsilon = 1 / 10000, sp_speed = 1\<rparr> of
             None \<Rightarrow> (False, cs)
           | Some sp \<Rightarrow> aiwr_curve_define_spring (take 63 tok) (sp_damping_ratio sp) (sp_stiffness sp)
                         (sp_mass sp) (sp_epsilon sp) (sp_speed sp) cs))"

subsection \<open>The table\<close>

lemma curve_find_put:
  assumes "\<And>c. cv_name (fill c) = cv_name c"
  shows "curve_find (curve_put name fill cs) other =
    (if caseless_eq name other
     then Some (fill (blank_curve (case curve_find cs name of None \<Rightarrow> name | Some c \<Rightarrow> cv_name c)))
     else curve_find cs other)"
proof (induction cs)
  case (Cons c cs)
  have n: "cv_name (fill (blank_curve m)) = m" for m by (simp add: assms blank_curve_def)
  show ?case
  proof (cases "caseless_eq (cv_name c) name")
    case True
    then have "caseless_eq (cv_name c) other \<longleftrightarrow> caseless_eq name other"
      using caseless_eq_trans caseless_eq_sym by blast
    then show ?thesis using True by (simp add: curve_find_def n)
  next
    case False
    then have "\<not> caseless_eq name other" if "caseless_eq (cv_name c) other"
      using that caseless_eq_trans caseless_eq_sym by blast
    then show ?thesis using False Cons.IH by (simp add: curve_find_def)
  qed
qed (simp add: curve_find_def assms blank_curve_def)

subsection \<open>What the curves compute\<close>

lemma clamp01_range [simp]: "0 \<le> clamp01 v" "clamp01 v \<le> 1"
  by (simp_all add: clamp01_def)

lemma bez_ends [simp]: "bez a b 0 = 0" "bez a b 1 = 1"
  by (simp_all add: bez_def)

text \<open>A bezier stays in the hull of its control values.\<close>

lemma bez_hull:
  assumes t: "0 \<le> t" "t \<le> 1" and a: "lo \<le> a" "a \<le> hi" and b: "lo \<le> b" "b \<le> hi" and "lo \<le> 0" "1 \<le> hi"
  shows "lo \<le> bez a b t" and "bez a b t \<le> hi"
proof -
  define u where "u = 1 - t"
  have u: "0 \<le> u" using t by (simp add: u_def)
  have one: "u * u * u + 3 * u * u * t + 3 * u * t * t + t * t * t = 1" by (simp add: u_def algebra_simps)
  have B: "bez a b t = u * u * u * 0 + 3 * u * u * t * a + 3 * u * t * t * b + t * t * t * 1"
    by (simp add: bez_def u_def)
  have w: "0 \<le> u * u * u" "0 \<le> 3 * u * u * t" "0 \<le> 3 * u * t * t" "0 \<le> t * t * t" using t u by simp_all
  have "lo = u * u * u * lo + 3 * u * u * t * lo + 3 * u * t * t * lo + t * t * t * lo"
    using one by (simp add: distrib_right [symmetric])
  also have "\<dots> \<le> bez a b t"
    unfolding B using w a b assms(7,8) by (intro add_mono mult_left_mono) auto
  finally show "lo \<le> bez a b t" .
  have "bez a b t \<le> u * u * u * hi + 3 * u * u * t * hi + 3 * u * t * t * hi + t * t * t * hi"
    unfolding B using w a b assms(7,8) by (intro add_mono mult_left_mono) auto
  also have "\<dots> = hi" using one by (simp add: distrib_right [symmetric])
  finally show "bez a b t \<le> hi" .
qed

lemma bez_deriv: "(bez a b has_real_derivative bez_dx a b t) (at t)"
  unfolding bez_def [abs_def] bez_dx_def Let_def
  by (auto intro!: derivative_eq_intros simp: algebra_simps)

lemma bez_dx_bound:
  assumes "0 \<le> t" "t \<le> 1" "0 \<le> x1" "x1 \<le> 1" "0 \<le> x2" "x2 \<le> 1"
  shows "\<bar>bez_dx x1 x2 t\<bar> \<le> 3"
proof -
  define u where "u = 1 - t"
  have u: "0 \<le> u" using assms(2) by (simp add: u_def)
  have w: "0 \<le> 3 * u * u" "0 \<le> 6 * u * t" "0 \<le> 3 * t * t" using u assms(1) by simp_all
  have D: "bez_dx x1 x2 t = 3 * u * u * x1 + 6 * u * t * (x2 - x1) + 3 * t * t * (1 - x2)"
    by (simp add: bez_dx_def u_def)
  have one: "3 * u * u * 1 + 6 * u * t * 1 + 3 * t * t * 1 = 3" by (simp add: u_def algebra_simps)
  have "bez_dx x1 x2 t \<le> 3 * u * u * 1 + 6 * u * t * 1 + 3 * t * t * 1"
    unfolding D using w assms by (intro add_mono mult_left_mono) auto
  moreover have "3 * u * u * - 1 + 6 * u * t * - 1 + 3 * t * t * - 1 \<le> bez_dx x1 x2 t"
    unfolding D using w assms by (intro add_mono mult_left_mono) auto
  ultimately show ?thesis using one by simp
qed

lemma bez_lipschitz:
  assumes "0 \<le> s" "s < t" "t \<le> 1" "0 \<le> x1" "x1 \<le> 1" "0 \<le> x2" "x2 \<le> 1"
  shows "\<bar>bez x1 x2 t - bez x1 x2 s\<bar> \<le> 3 * (t - s)"
proof -
  obtain z where z: "s < z" "z < t" "bez x1 x2 t - bez x1 x2 s = (t - s) * bez_dx x1 x2 z"
    using MVT2 [OF assms(2), of "bez x1 x2" "bez_dx x1 x2"] bez_deriv by blast
  have "\<bar>bez_dx x1 x2 z\<bar> \<le> 3" using bez_dx_bound [of z x1 x2] z assms by simp
  then have "(t - s) * \<bar>bez_dx x1 x2 z\<bar> \<le> (t - s) * 3" using assms(2) by (intro mult_left_mono) auto
  then show ?thesis using z(3) assms(2) by (simp add: abs_mult)
qed

text \<open>Newton's result, when there is one, and the bisection both solve the equation to \<open>10\<^sup>-\<^sup>6\<close>.\<close>

lemma newton_solves:
  "newton n x1 x2 p t = Some r \<Longrightarrow> 0 \<le> t \<Longrightarrow> t \<le> 1 \<Longrightarrow> 0 \<le> r \<and> r \<le> 1 \<and> \<bar>bez x1 x2 r - p\<bar> < 1 / 10 ^ 6"
proof (induction n arbitrary: t)
  case (Suc n)
  let ?t = "t - (bez x1 x2 t - p) / bez_dx x1 x2 t"
  let ?c = "if (if ?t < 0 then 0 else ?t) > 1 then 1 else if ?t < 0 then 0 else ?t"
  have "0 \<le> ?c" "?c \<le> 1" by auto
  then show ?case using Suc.prems Suc.IH [of ?c] by (auto simp: Let_def split: if_splits)
qed simp

lemma bisect_range:
  assumes "0 \<le> lo" "lo \<le> t" "t \<le> hi" "hi \<le> 1"
  shows "0 \<le> bisect n x1 x2 p lo hi t \<and> bisect n x1 x2 p lo hi t \<le> 1"
  using assms
proof (induction n arbitrary: lo hi t)
  case (Suc n)
  define lo' hi' where "lo' = (if bez x1 x2 t < p then t else lo)" and "hi' = (if bez x1 x2 t < p then hi else t)"
  have "0 \<le> lo'" "lo' \<le> hi'" "hi' \<le> 1" using Suc.prems by (auto simp: lo'_def hi'_def)
  then have "0 \<le> bisect n x1 x2 p lo' hi' ((lo' + hi') / 2) \<and> bisect n x1 x2 p lo' hi' ((lo' + hi') / 2) \<le> 1"
    by (intro Suc.IH) auto
  then show ?case using Suc.prems by (simp add: Let_def lo'_def hi'_def)
qed simp

lemma bisect_bracket:
  assumes x: "0 \<le> x1" "x1 \<le> 1" "0 \<le> x2" "x2 \<le> 1"
    and "0 \<le> lo" "lo \<le> hi" "hi \<le> 1" "bez x1 x2 lo \<le> p" "p \<le> bez x1 x2 hi"
  shows "\<bar>bez x1 x2 (bisect n x1 x2 p lo hi ((lo + hi) / 2)) - p\<bar> < 1 / 10 ^ 6 \<or>
    \<bar>bez x1 x2 (bisect n x1 x2 p lo hi ((lo + hi) / 2)) - p\<bar> \<le> 3 * (hi - lo) / 2 ^ n"
  using assms(5-)
proof (induction n arbitrary: lo hi)
  case 0
  let ?m = "(lo + hi) / 2"
  show ?case
  proof (cases "lo = hi")
    case False
    then have "\<bar>bez x1 x2 ?m - bez x1 x2 lo\<bar> \<le> 3 * (?m - lo)" "\<bar>bez x1 x2 hi - bez x1 x2 ?m\<bar> \<le> 3 * (hi - ?m)"
      using 0 x by (intro bez_lipschitz; simp)+
    moreover have "3 * (?m - lo) \<le> 3 * (hi - lo)" "3 * (hi - ?m) \<le> 3 * (hi - lo)" using 0 by simp_all
    ultimately have "\<bar>bez x1 x2 ?m - p\<bar> \<le> 3 * (hi - lo)" using 0(4,5) by linarith
    then show ?thesis by simp
  qed (use 0 in simp)
next
  case (Suc n)
  let ?m = "(lo + hi) / 2"
  define lo' hi' where "lo' = (if bez x1 x2 ?m < p then ?m else lo)" and "hi' = (if bez x1 x2 ?m < p then hi else ?m)"
  have w: "hi' - lo' = (hi - lo) / 2" by (simp add: lo'_def hi'_def field_simps)
  have I: "\<bar>bez x1 x2 (bisect n x1 x2 p lo' hi' ((lo' + hi') / 2)) - p\<bar> < 1 / 10 ^ 6 \<or>
    \<bar>bez x1 x2 (bisect n x1 x2 p lo' hi' ((lo' + hi') / 2)) - p\<bar> \<le> 3 * (hi' - lo') / 2 ^ n"
    using Suc.prems by (intro Suc.IH) (auto simp: lo'_def hi'_def)
  have e: "3 * (hi' - lo') / 2 ^ n = 3 * (hi - lo) / 2 ^ Suc n" by (simp add: w)
  show ?case using I unfolding e by (simp add: Let_def lo'_def hi'_def del: power_Suc)
qed

lemma bisect_solves:
  assumes x: "0 \<le> x1" "x1 \<le> 1" "0 \<le> x2" "x2 \<le> 1" and p: "0 \<le> p" "p \<le> 1"
  shows "\<bar>bez x1 x2 (bisect 24 x1 x2 p 0 1 p) - p\<bar> < 1 / 10 ^ 6"
proof -
  define lo hi where "lo = (if bez x1 x2 p < p then p else 0)" and "hi = (if bez x1 x2 p < p then 1 else p)"
  let ?r = "bisect 23 x1 x2 p lo hi ((lo + hi) / 2)"
  have s: "bisect 24 x1 x2 p 0 1 p = (if \<bar>bez x1 x2 p - p\<bar> < 1 / 10 ^ 6 then p else ?r)"
    using bisect.simps(2) [of 23 x1 x2 p 0 1 p] by (simp add: Let_def lo_def hi_def del: bisect.simps)
  have b: "0 \<le> lo" "lo \<le> hi" "hi \<le> 1" "bez x1 x2 lo \<le> p" "p \<le> bez x1 x2 hi" "hi - lo \<le> 1"
    using p by (auto simp: lo_def hi_def)
  have "3 * (hi - lo) / 2 ^ 23 \<le> (3 * 1 :: real) / 2 ^ 23" using b(6) by (intro divide_right_mono) auto
  also have "\<dots> < 1 / 10 ^ 6" by simp
  finally have "\<bar>bez x1 x2 ?r - p\<bar> < 1 / 10 ^ 6" using bisect_bracket [OF x b(1-5), of 23] by linarith
  then show ?thesis by (simp add: s)
qed

lemma bezier_eval_solves:
  assumes "0 \<le> cv_x1 c" "cv_x1 c \<le> 1" "0 \<le> cv_x2 c" "cv_x2 c \<le> 1" and p: "0 \<le> p" "p \<le> 1"
  shows "\<exists>t. 0 \<le> t \<and> t \<le> 1 \<and> \<bar>bez (cv_x1 c) (cv_x2 c) t - p\<bar> < 1 / 10 ^ 6 \<and>
    bezier_eval c p = bez (cv_y1 c) (cv_y2 c) t"
proof (cases "newton 8 (cv_x1 c) (cv_x2 c) p p")
  case None
  let ?t = "bisect 24 (cv_x1 c) (cv_x2 c) p 0 1 p"
  have "0 \<le> ?t \<and> ?t \<le> 1" using p by (intro bisect_range) auto
  then show ?thesis using None bisect_solves [OF assms] by (intro exI [of _ ?t]) (simp add: bezier_eval_def)
next
  case (Some t)
  then show ?thesis using newton_solves [OF Some p] by (auto simp: bezier_eval_def)
qed

end
