(* ===== verification/Scrolling.thy ===== *)
theory Scrolling
  imports Geometry Curves
begin

text \<open>
  The scrolling layout of \<^verbatim>\<open>src/scrolling.c\<close> (columns of their own width on a strip longer than the
  screen, seen through a viewport at \<open>scroll_offset\<close>) and the animation clock of
  \<^verbatim>\<open>src/aiwr_anim.c\<close> that moves the viewport: what does not draw. A conversion of a \<open>double\<close> to
  \<open>int\<close> truncates.
\<close>

definition c_trunc :: "real \<Rightarrow> int" where
  "c_trunc x = (if x \<ge> 0 then \<lfloor>x\<rfloor> else \<lceil>x\<rceil>)"

definition default_share :: "wm \<Rightarrow> real" where
  "default_share s = real_of_int (cfg_scroll_default_width (cfg s)) / 100"

definition column_percent :: "wm \<Rightarrow> con_id \<Rightarrow> real" where
  "column_percent s column =
     (if percent (store s column) > 0 then percent (store s column) else default_share s)"

definition scrolling_column_width :: "wm \<Rightarrow> con_id \<Rightarrow> con_id \<Rightarrow> int" where
  "scrolling_column_width s c child =
     (let pct = (if percent (store s child) \<le> 0 then default_share s else percent (store s child));
          w = c_trunc (real (unat (rect_width (rect (store s c)))) * pct)
      in if w < 1 then 1 else w)"

definition scrolling_offset :: "wm \<Rightarrow> con_id option \<Rightarrow> real" where
  "scrolling_offset s con = (case con of None \<Rightarrow> 0 | Some c \<Rightarrow> scroll_offset (store s c))"

definition scrolling_total_width :: "wm \<Rightarrow> con_id \<Rightarrow> real" where
  "scrolling_total_width s c =
     fold (\<lambda>child t. t + real_of_int (scrolling_column_width s c child)) (nodes s c) 0"

text \<open>\<open>column_extent\<close>: position and width of \<open>column\<close> on the strip, if it is there, and the length of
  the strip.\<close>

fun extent_from :: "wm \<Rightarrow> con_id \<Rightarrow> con_id \<Rightarrow> con_id list \<Rightarrow> real \<Rightarrow> (real \<times> real) option \<Rightarrow>
    (real \<times> real) option \<times> real" where
  "extent_from s c column [] x found = (found, x)"
| "extent_from s c column (child # cs) x found =
     (let w = real_of_int (scrolling_column_width s c child)
      in extent_from s c column cs (x + w) (if child = column then Some (x, w) else found))"

definition column_extent :: "wm \<Rightarrow> con_id \<Rightarrow> con_id \<Rightarrow> (real \<times> real) option \<times> real" where
  "column_extent s c column = extent_from s c column (nodes s c) 0 None"

definition clamp_offset :: "wm \<Rightarrow> con_id \<Rightarrow> real \<Rightarrow> real \<Rightarrow> real" where
  "clamp_offset s c offset tot =
     (let view = real (unat (rect_width (rect (store s c)))) in
      if tot < view then - (view - tot) / 2
      else
        let mx = tot - view;
            mx = (if mx < 0 then 0 else mx);
            offset = (if offset < 0 then 0 else offset)
        in if offset > mx then mx else offset)"

definition scrolling_prepare :: "con_id \<Rightarrow> wm \<Rightarrow> wm" where
  "scrolling_prepare c s =
     (if layout_of s c \<noteq> L_SCROLLING then s
      else if sa_con (scroll_anim s) = Some c then s
      else upd_con c (\<lambda>k. k\<lparr>scroll_offset :=
        clamp_offset s c (scroll_offset k) (scrolling_total_width s c)\<rparr>) s)"

definition scrolling_animating :: "wm \<Rightarrow> con_id \<Rightarrow> bool" where
  "scrolling_animating s c \<longleftrightarrow>
     (case sa_con (scroll_anim s) of None \<Rightarrow> False | Some a \<Rightarrow> a \<in> set (ancestors s c))"

fun scrolling_path :: "wm \<Rightarrow> con_id list \<Rightarrow> con_id option" where
  "scrolling_path s [] = None"
| "scrolling_path s (c # cs) =
     (if layout_of s c = L_SCROLLING then Some c
      else if kind s c = CT_WORKSPACE then None
      else scrolling_path s cs)"

definition scrolling_container :: "wm \<Rightarrow> con_id option \<Rightarrow> con_id option" where
  "scrolling_container s con = (case con of None \<Rightarrow> None | Some c \<Rightarrow> scrolling_path s (ancestors s c))"

fun column_path :: "wm \<Rightarrow> con_id list \<Rightarrow> con_id option" where
  "column_path s [] = None"
| "column_path s (c # cs) =
     (case parent_of s c of
        None \<Rightarrow> None
      | Some p \<Rightarrow>
          if layout_of s p = L_SCROLLING then Some c
          else if kind s c = CT_WORKSPACE then None
          else column_path s cs)"

definition column_of :: "wm \<Rightarrow> con_id option \<Rightarrow> con_id option" where
  "column_of s con = (case con of None \<Rightarrow> None | Some c \<Rightarrow> column_path s (ancestors s c))"

text \<open>The offset \<open>scrolling_reveal\<close> wants before it is clamped.\<close>

definition wanted_offset :: "bool \<Rightarrow> real \<Rightarrow> real \<Rightarrow> real \<Rightarrow> real \<Rightarrow> real" where
  "wanted_offset center x w view offset =
     (if center then x + w / 2 - view / 2
      else if x < offset then x
      else if x + w > offset + view then x + w - view
      else offset)"

definition width_presets :: "real list" where
  "width_presets = [0.3333, 0.5, 0.6667, 1]"

fun preset_index :: "real \<Rightarrow> bool \<Rightarrow> int \<Rightarrow> int \<Rightarrow> real list \<Rightarrow> int" where
  "preset_index cur backwards i idx [] = idx"
| "preset_index cur backwards i idx (p # ps) =
     (if \<bar>p - cur\<bar> < 0.02 then i
      else if p > cur then (if backwards then i else i - 1)
      else preset_index cur backwards (i + 1) i ps)"

definition next_preset :: "real \<Rightarrow> bool \<Rightarrow> real" where
  "next_preset cur backwards =
     (let n = int (length width_presets);
          idx = preset_index cur backwards 0 0 width_presets + (if backwards then - 1 else 1);
          idx = (if idx < 0 then n - 1 else idx);
          idx = (if idx \<ge> n then 0 else idx)
      in width_presets ! nat idx)"

subsection \<open>The animation clock\<close>

definition slot_by_id :: "anim_clock \<Rightarrow> int \<Rightarrow> anim_slot option" where
  "slot_by_id a i = (if i \<le> 0 then None else find (\<lambda>x. as_id x = i \<and> as_active x) (an_slots a))"

definition anim_compact :: "anim_clock \<Rightarrow> anim_clock" where
  "anim_compact a = a\<lparr>an_slots := filter as_active (an_slots a)\<rparr>"

definition anim_stop_timer_if_idle :: "anim_clock \<Rightarrow> anim_clock" where
  "anim_stop_timer_if_idle a =
     (if an_slots a \<noteq> [] \<or> \<not> an_timer_running a then a else a\<lparr>an_timer_running := False\<rparr>)"

lemma anim_stop_timer_if_idle_slots [simp]:
  "an_slots (anim_stop_timer_if_idle a) = an_slots a" "an_next_id (anim_stop_timer_if_idle a) = an_next_id a"
  by (simp_all add: anim_stop_timer_if_idle_def)

definition aiwr_anim_fps :: "anim_clock \<Rightarrow> int" where
  "aiwr_anim_fps a = (if an_fps a > 0 then an_fps a else 60)"

text \<open>A running timer goes on with the new period.\<close>

definition aiwr_anim_set_fps :: "int \<Rightarrow> anim_clock \<Rightarrow> anim_clock" where
  "aiwr_anim_set_fps fps a =
     (let fps = (if fps < 15 then 15 else fps);
          fps = (if fps > 240 then 240 else fps)
      in if fps = an_fps a then a else a\<lparr>an_fps := fps\<rparr>)"

definition aiwr_anim_any :: "anim_clock \<Rightarrow> bool" where
  "aiwr_anim_any a \<longleftrightarrow> an_slots a \<noteq> []"

definition aiwr_anim_request_fence :: "anim_clock \<Rightarrow> anim_clock" where
  "aiwr_anim_request_fence a = a\<lparr>an_fence_wanted := True\<rparr>"

definition aiwr_anim_request_render :: "anim_clock \<Rightarrow> anim_clock" where
  "aiwr_anim_request_render a = a\<lparr>an_render_wanted := True\<rparr>"

text \<open>\<open>aiwr_anim_cancel\<close> outside a tick: the first active slot of that id is switched off and the
  inactive slots are dropped.\<close>

fun deactivate :: "int \<Rightarrow> anim_slot list \<Rightarrow> anim_slot list" where
  "deactivate i [] = []"
| "deactivate i (x # xs) =
     (if as_id x = i \<and> as_active x then x\<lparr>as_active := False\<rparr> # xs else x # deactivate i xs)"

definition aiwr_anim_cancel :: "int \<Rightarrow> anim_clock \<Rightarrow> anim_clock" where
  "aiwr_anim_cancel i a =
     (case slot_by_id a i of
        None \<Rightarrow> a
      | Some _ \<Rightarrow> anim_stop_timer_if_idle (anim_compact (a\<lparr>an_slots := deactivate i (an_slots a)\<rparr>)))"

text \<open>A new slot; the counter starts again at 1 when it overflows, and the timer runs.\<close>

definition anim_add_slot :: "aiwr_curve option \<Rightarrow> real \<Rightarrow> anim_clock \<Rightarrow> int \<times> anim_clock" where
  "anim_add_slot c duration_ms a =
     (let i = an_next_id a;
          nxt = (if i + 1 > 2147483647 then 1 else i + 1)
      in (i, a\<lparr>an_slots := an_slots a @ [\<lparr>as_id = i, as_active = True, as_start_ms = an_now_ms a,
                 as_duration_ms = duration_ms, as_curve = c\<rparr>], an_next_id := nxt, an_timer_running := True\<rparr>))"

text \<open>\<open>aiwr_anim_start\<close>: the id of the new animation; 0 when the clock is not running, which is as long as
  there is no connection to the X server, and when the duration is not positive, after the callbacks
  have run for the final state. The duration of a spring is its own.\<close>

definition aiwr_anim_start ::
  "real \<Rightarrow> string option \<Rightarrow> (real \<Rightarrow> real \<Rightarrow> wm \<Rightarrow> wm) \<Rightarrow> (wm \<Rightarrow> wm) \<Rightarrow> wm \<Rightarrow> int \<times> wm" where
  "aiwr_anim_start duration_ms curve step finish s =
     (if \<not> an_initialized (anim s) then (0, s)
      else
        let c = aiwr_curve_get (curves s) curve;
            natural = aiwr_curve_natural_duration_ms c;
            duration_ms = (if natural > 0 then natural else duration_ms)
        in if duration_ms \<le> 0 then (0, finish (step 1 1 s))
           else (case anim_add_slot c duration_ms (anim s) of (i, a) \<Rightarrow> (i, s\<lparr>anim := a\<rparr>)))"

definition aiwr_anim_alive :: "anim_clock \<Rightarrow> int \<Rightarrow> bool" where
  "aiwr_anim_alive a i \<longleftrightarrow> slot_by_id a i \<noteq> None"

subsection \<open>The strip and the viewport\<close>

lemma scrolling_column_width_pos: "1 \<le> scrolling_column_width s c child"
  by (simp add: scrolling_column_width_def Let_def)

lemma extent_from_spec:
  "distinct cs \<Longrightarrow>
   extent_from s c column cs x found =
     ((if column \<in> set cs
       then Some (x + (\<Sum>d\<leftarrow>takeWhile (\<lambda>d. d \<noteq> column) cs. real_of_int (scrolling_column_width s c d)),
                  real_of_int (scrolling_column_width s c column))
       else found),
      x + (\<Sum>d\<leftarrow>cs. real_of_int (scrolling_column_width s c d)))"
proof (induction cs arbitrary: x found)
  case (Cons d cs)
  show ?case
  proof (cases "d = column")
    case True
    then have "column \<notin> set cs" using Cons.prems by simp
    then show ?thesis using Cons True by (simp add: Let_def algebra_simps)
  next
    case False
    then show ?thesis using Cons by (simp add: Let_def algebra_simps)
  qed
qed simp

lemma scrolling_total_width_sum:
  "scrolling_total_width s c = (\<Sum>d\<leftarrow>nodes s c. real_of_int (scrolling_column_width s c d))"
proof -
  have "fold (\<lambda>d t. t + f d) cs a = a + (\<Sum>d\<leftarrow>cs. f d)" for f :: "con_id \<Rightarrow> real" and cs a
    by (induction cs arbitrary: a) (simp_all add: algebra_simps)
  then show ?thesis by (simp add: scrolling_total_width_def)
qed

text \<open>A column lies on the strip.\<close>

lemma column_extent_within:
  assumes "distinct (nodes s c)" and "column_extent s c column = (Some (x, w), tot)"
  shows "0 \<le> x" and "1 \<le> w" and "x + w \<le> tot" and "tot = scrolling_total_width s c"
proof -
  let ?f = "\<lambda>d. real_of_int (scrolling_column_width s c d)"
  have nonneg: "(\<Sum>d\<leftarrow>cs. ?f d) \<ge> 0" for cs
    using scrolling_column_width_pos [of s c] by (intro sum_list_nonneg) (auto intro: order_trans [of _ 1])
  have E: "column \<in> set (nodes s c)" "x = (\<Sum>d\<leftarrow>takeWhile (\<lambda>d. d \<noteq> column) (nodes s c). ?f d)"
    "w = ?f column" "tot = (\<Sum>d\<leftarrow>nodes s c. ?f d)"
    using assms(2) unfolding column_extent_def extent_from_spec [OF assms(1)]
    by (simp_all split: if_splits)
  show "0 \<le> x" unfolding E(2) by (rule nonneg)
  show "1 \<le> w" using scrolling_column_width_pos [of s c column] by (simp add: E(3))
  show "tot = scrolling_total_width s c" by (simp add: E(4) scrolling_total_width_sum)
  obtain us vs where "nodes s c = us @ column # vs" "column \<notin> set us" using E(1) by (meson split_list_first)
  moreover from this have "takeWhile (\<lambda>d. d \<noteq> column) (us @ column # vs) = us"
    by (subst takeWhile_append2) auto
  ultimately show "x + w \<le> tot" using nonneg [of vs] by (simp add: E)
qed

text \<open>The viewport stays on a strip that is longer, and shows a shorter one in its middle.\<close>

lemma clamp_offset_bounds:
  defines "view c s \<equiv> real (unat (rect_width (rect (store s c))))"
  shows "view c s \<le> tot \<Longrightarrow> 0 \<le> clamp_offset s c offset tot \<and> clamp_offset s c offset tot + view c s \<le> tot"
    and "tot < view c s \<Longrightarrow> - clamp_offset s c offset tot = view c s - (tot - clamp_offset s c offset tot)"
    and "view c s \<le> tot \<Longrightarrow> 0 \<le> offset \<Longrightarrow> offset + view c s \<le> tot \<Longrightarrow> clamp_offset s c offset tot = offset"
  by (auto simp: clamp_offset_def view_def Let_def field_simps)

lemma clamp_offset_idem: "clamp_offset s c (clamp_offset s c offset tot) tot = clamp_offset s c offset tot"
  by (simp add: clamp_offset_def Let_def)

text \<open>After \<open>scrolling_reveal\<close> a column that fits into the viewport is in it, and if it was, the
  viewport does not move.\<close>

lemma reveal_offset_shows:
  fixes x w tot offset :: real and center :: bool
  assumes "0 \<le> x" and "x + w \<le> tot" and "w \<le> real (unat (rect_width (rect (store s c))))"
    and "real (unat (rect_width (rect (store s c)))) \<le> tot"
  defines "view \<equiv> real (unat (rect_width (rect (store s c))))"
  defines "new \<equiv> clamp_offset s c (wanted_offset center x w view offset) tot"
  shows "new \<le> x" and "x + w \<le> new + view"
    and "\<not> center \<Longrightarrow> 0 \<le> offset \<Longrightarrow> offset + view \<le> tot \<Longrightarrow> offset \<le> x \<Longrightarrow> x + w \<le> offset + view \<Longrightarrow>
      new = offset"
  using assms(1-4) unfolding new_def clamp_offset_def wanted_offset_def Let_def view_def
  by (auto split: if_splits simp: field_simps)

text \<open>\<open>column_of\<close> is the container on the way up whose parent scrolls.\<close>

lemma column_path_sound:
  "column_path s up = Some c \<Longrightarrow> c \<in> set up \<and> (\<exists>p. parent_of s c = Some p \<and> layout_of s p = L_SCROLLING)"
  by (induction s up rule: column_path.induct) (auto split: option.splits if_splits)

text \<open>Cycling through the presets reaches a preset, and from a preset goes to its neighbour.\<close>

lemma next_preset_in: "next_preset cur backwards \<in> set width_presets"
proof -
  have "width_presets ! nat j \<in> set width_presets" if "0 \<le> j" "j < int (length width_presets)" for j
    using that by (intro nth_mem) linarith
  then show ?thesis unfolding next_preset_def Let_def by (auto simp: width_presets_def)
qed

subsection \<open>Starting and cancelling animations\<close>

text \<open>Ids are positive, below the counter and never shared, until the counter overflows.\<close>

definition clock_ok :: "anim_clock \<Rightarrow> bool" where
  "clock_ok a \<longleftrightarrow> 1 \<le> an_next_id a \<and> distinct (map as_id (an_slots a)) \<and>
     (\<forall>x \<in> set (an_slots a). 1 \<le> as_id x \<and> as_id x < an_next_id a)"

lemma aiwr_anim_alive_iff:
  "clock_ok a \<Longrightarrow> aiwr_anim_alive a i \<longleftrightarrow> (\<exists>x \<in> set (an_slots a). as_id x = i \<and> as_active x)"
  using find_None_iff [of "\<lambda>x. as_id x = i \<and> as_active x" "an_slots a"]
  unfolding aiwr_anim_alive_def slot_by_id_def clock_ok_def by force

lemma anim_add_slot_correct:
  assumes ok: "clock_ok a" and room: "an_next_id a < 2147483647"
    and run: "anim_add_slot c d a = (i, b)"
  shows "clock_ok b" and "i > 0" and "aiwr_anim_alive b j \<longleftrightarrow> j = i \<or> aiwr_anim_alive a j"
    and "\<not> aiwr_anim_alive a i"
proof -
  have b: "i = an_next_id a" "b = a\<lparr>an_slots := an_slots a @ [\<lparr>as_id = i, as_active = True,
      as_start_ms = an_now_ms a, as_duration_ms = d, as_curve = c\<rparr>], an_next_id := i + 1, an_timer_running := True\<rparr>"
    using run room by (auto simp: anim_add_slot_def Let_def)
  show "i > 0" using ok by (simp add: b clock_ok_def)
  show cb: "clock_ok b" using ok by (auto simp: clock_ok_def b)
  show "aiwr_anim_alive b j \<longleftrightarrow> j = i \<or> aiwr_anim_alive a j"
    unfolding aiwr_anim_alive_iff [OF cb] aiwr_anim_alive_iff [OF ok] by (auto simp: b(2))
  show "\<not> aiwr_anim_alive a i"
    unfolding aiwr_anim_alive_iff [OF ok] using ok by (auto simp: b(1) clock_ok_def)
qed

lemma filter_deactivate:
  "distinct (map as_id xs) \<Longrightarrow>
     filter as_active (deactivate i xs) = filter (\<lambda>x. as_active x \<and> as_id x \<noteq> i) xs"
proof (induction xs)
  case (Cons x xs)
  have "filter as_active xs = filter (\<lambda>y. as_active y \<and> as_id y \<noteq> i) xs" if "as_id x = i"
    using Cons.prems that by (intro filter_cong) (auto simp: image_iff)
  with Cons show ?case by auto
qed simp

lemma aiwr_anim_cancel_correct:
  assumes ok: "clock_ok a"
  shows "clock_ok (aiwr_anim_cancel i a)"
    and "aiwr_anim_alive (aiwr_anim_cancel i a) j \<longleftrightarrow> j \<noteq> i \<and> aiwr_anim_alive a j"
proof -
  have d: "distinct (map as_id (an_slots a))" using ok by (simp add: clock_ok_def)
  show c: "clock_ok (aiwr_anim_cancel i a)"
    using ok by (auto simp: aiwr_anim_cancel_def anim_compact_def filter_deactivate [OF d] clock_ok_def
        distinct_map_filter split: option.splits)
  show "aiwr_anim_alive (aiwr_anim_cancel i a) j \<longleftrightarrow> j \<noteq> i \<and> aiwr_anim_alive a j"
  proof (cases "slot_by_id a i")
    case None
    then have "\<not> aiwr_anim_alive a i" by (simp add: aiwr_anim_alive_def)
    then show ?thesis using None by (auto simp: aiwr_anim_cancel_def)
  next
    case (Some x)
    then show ?thesis unfolding aiwr_anim_alive_iff [OF c] aiwr_anim_alive_iff [OF ok]
      by (auto simp: aiwr_anim_cancel_def anim_compact_def filter_deactivate [OF d])
  qed
qed

end
