(* ===== verification/Render.thy ===== *)
theory Render
  imports Scrolling
begin

text \<open>
  \<^verbatim>\<open>src/render.c\<close>: the positions and sizes of all containers below a container, computed from its
  own rectangle, and \<open>tree_render\<close> of \<^verbatim>\<open>src/tree.c\<close>. What the code pushes to the X server (the
  stacking order, \<open>x_push_changes\<close>) is left out.
\<close>

record render_params =
  rp_x :: u32
  rp_y :: u32
  rp_deco_height :: u32
  rp_rect :: Rect
  rp_children :: nat
  rp_sizes :: "int list"

subsection \<open>Sizes of the children of a split\<close>

definition lround :: "real \<Rightarrow> int" where
  "lround x = (if x \<ge> 0 then \<lfloor>x + 1 / 2\<rfloor> else \<lceil>x - 1 / 2\<rceil>)"

text \<open>The correction loop adds \<open>signal\<close> to one size after the other, starting over at the end, until
  nothing is left to assign: \<open>n\<close> times.\<close>

primrec spread :: "nat \<Rightarrow> nat \<Rightarrow> int \<Rightarrow> int list \<Rightarrow> int list" where
  "spread 0 i signal sizes = sizes"
| "spread (Suc n) i signal sizes =
     spread n (if Suc i < length sizes then Suc i else 0) signal (sizes[i := sizes ! i + signal])"

definition rounded_sizes :: "real list \<Rightarrow> int \<Rightarrow> int list" where
  "rounded_sizes percents tot =
     map (\<lambda>p. lround ((if p > 0 then p else 1 / real (length percents)) * real_of_int tot)) percents"

definition sizes_assertion :: "int list \<Rightarrow> int \<Rightarrow> bool" where
  "sizes_assertion sizes tot \<longleftrightarrow>
     (let assigned = sum_list sizes; n = int (length sizes) in
        assigned = tot \<or> (assigned > tot \<and> assigned - tot \<le> n * 2) \<or>
        (assigned < tot \<and> tot - assigned \<le> n * 2))"

definition corrected_sizes :: "int list \<Rightarrow> int \<Rightarrow> int list" where
  "corrected_sizes sizes tot =
     (let assigned = sum_list sizes
      in spread (nat \<bar>tot - assigned\<bar>) 0 (if assigned < tot then 1 else - 1) sizes)"

definition precalculate_sizes :: "con_id \<Rightarrow> wm \<Rightarrow> int list \<times> wm" where
  "precalculate_sizes c s =
     (if (layout_of s c \<noteq> L_SPLITH \<and> layout_of s c \<noteq> L_SPLITV) \<or> con_num_children s c = 0 then ([], s)
      else
        case con_rect_size_in_orientation s c of
          None \<Rightarrow> ([], abort s)
        | Some len \<Rightarrow>
            let tot = sint len;
                sizes = rounded_sizes (map (\<lambda>d. percent (store s d)) (nodes s c)) tot
            in (corrected_sizes sizes tot, check (sizes_assertion sizes tot) s))"

subsection \<open>One child\<close>

definition set_rect :: "con_id \<Rightarrow> Rect \<Rightarrow> wm \<Rightarrow> wm" where
  "set_rect c r s = upd_con c (\<lambda>k. k\<lparr>rect := r\<rparr>) s"

definition set_deco_rect :: "con_id \<Rightarrow> Rect \<Rightarrow> wm \<Rightarrow> wm" where
  "set_deco_rect c r s = upd_con c (\<lambda>k. k\<lparr>deco_rect := r\<rparr>) s"

definition mk_rect :: "u32 \<Rightarrow> u32 \<Rightarrow> u32 \<Rightarrow> u32 \<Rightarrow> Rect" where
  "mk_rect x y w h = \<lparr>rect_x = x, rect_y = y, rect_width = w, rect_height = h\<rparr>"

definition leaf_decoration :: "con_id \<Rightarrow> u32 \<Rightarrow> wm \<Rightarrow> wm" where
  "leaf_decoration child deco_height s =
     (if con_is_leaf s child then
        (if border_style (store s child) = BS_NORMAL
         then set_deco_rect child (mk_rect 0 0 (rect_width (rect (store s child))) deco_height) s
         else set_deco_rect child zero_rect s)
      else s)"

definition render_con_split ::
  "con_id \<Rightarrow> con_id \<Rightarrow> nat \<Rightarrow> render_params \<times> wm \<Rightarrow> render_params \<times> wm" where
  "render_con_split c child i ps =
     (case ps of (p, s) \<Rightarrow>
        let len = (word_of_int (rp_sizes p ! i) :: u32) in
        if layout_of s c = L_SPLITH
        then (p\<lparr>rp_x := rp_x p + len\<rparr>,
              leaf_decoration child (rp_deco_height p)
                (set_rect child (mk_rect (rp_x p) (rp_y p) len (rect_height (rp_rect p))) s))
        else (p\<lparr>rp_y := rp_y p + len\<rparr>,
              leaf_decoration child (rp_deco_height p)
                (set_rect child (mk_rect (rp_x p) (rp_y p) (rect_width (rp_rect p)) len) s)))"

definition render_con_scrolling ::
  "con_id \<Rightarrow> con_id \<Rightarrow> render_params \<times> wm \<Rightarrow> render_params \<times> wm" where
  "render_con_scrolling c child ps =
     (case ps of (p, s) \<Rightarrow>
        let w = (word_of_int (scrolling_column_width s c child) :: u32);
            off = (word_of_int (c_trunc (scrolling_offset s (Some c))) :: u32)
        in (p\<lparr>rp_x := rp_x p + w\<rparr>,
            leaf_decoration child (rp_deco_height p)
              (set_rect child (mk_rect (rp_x p - off) (rp_y p) w (rect_height (rp_rect p))) s)))"

definition plain_border :: "wm \<Rightarrow> con_id \<Rightarrow> bool" where
  "plain_border s c \<longleftrightarrow> border_style (store s c) = BS_PIXEL \<or> border_style (store s c) = BS_NONE"

definition render_con_stacked ::
  "con_id \<Rightarrow> con_id \<Rightarrow> nat \<Rightarrow> render_params \<times> wm \<Rightarrow> render_params \<times> wm" where
  "render_con_stacked c child i ps =
     (case ps of (p, s) \<Rightarrow>
        let w = rect_width (rp_rect p); h = rect_height (rp_rect p); cr = rect (store s c);
            bar = rp_deco_height p * of_nat (rp_children p);
            s = set_deco_rect child (mk_rect (rp_x p - rect_x cr)
                  (rp_y p - rect_y cr + of_nat i * rp_deco_height p) w (rp_deco_height p)) s
        in if rp_children p > 1 \<or> \<not> plain_border s child
           then (p, set_rect child (mk_rect (rp_x p) (rp_y p + bar) w (h - bar)) s)
           else (p, set_rect child (mk_rect (rp_x p) (rp_y p) w h) s))"

definition render_con_tabbed ::
  "con_id \<Rightarrow> con_id \<Rightarrow> nat \<Rightarrow> render_params \<times> wm \<Rightarrow> render_params \<times> wm" where
  "render_con_tabbed c child i ps =
     (case ps of (p, s) \<Rightarrow>
        let w = rect_width (rp_rect p); h = rect_height (rp_rect p); cr = rect (store s c);
            d = rp_deco_height p;
            tab = (word_of_nat (unat w div rp_children p) :: u32);
            dx = rp_x p - rect_x cr + of_nat i * tab;
            dy = rp_y p - rect_y cr;
            dw = (if Suc i = rp_children p then w - dx else tab)
        in if rp_children p > 1 \<or> \<not> plain_border s child
           then (p, set_rect child (mk_rect (rp_x p) (rp_y p + d) w (h - d))
                      (set_deco_rect child (mk_rect dx dy dw d) s))
           else (p, set_rect child (mk_rect (rp_x p) (rp_y p) w h)
                      (set_deco_rect child (mk_rect dx dy dw
                        (if border_style (store s child) = BS_PIXEL then 1 else 0)) s)))"

definition render_con_dockarea :: "con_id \<Rightarrow> render_params \<times> wm \<Rightarrow> render_params \<times> wm" where
  "render_con_dockarea child ps =
     (case ps of (p, s) \<Rightarrow>
        let h = rect_height (geometry (store s child))
        in (p\<lparr>rp_y := rp_y p + h\<rparr>,
            set_deco_rect child zero_rect
              (set_rect child (mk_rect (rp_x p) (rp_y p) (rect_width (rp_rect p)) h) s)))"

subsection \<open>Floating windows and fullscreen\<close>

definition fullscreen_blocks_floating_render :: "wm \<Rightarrow> con_id option \<Rightarrow> con_id \<Rightarrow> bool" where
  "fullscreen_blocks_floating_render s fullscreen fl =
     (case fullscreen of
        None \<Rightarrow> False
      | Some fs \<Rightarrow>
          (case cfg_popup_during_fullscreen (cfg s) of
             PDF_LEAVE_FULLSCREEN \<Rightarrow> True
           | PDF_IGNORE \<Rightarrow> True
           | PDF_SMART \<Rightarrow>
               (case window (store s fs) of
                  None \<Rightarrow> True
                | Some w \<Rightarrow> \<not> con_find_transient_for_window s (Some (con_descend_focused s fl)) (w_id w))
           | PDF_ALL \<Rightarrow> con_has_parent s fs fl))"

subsection \<open>Outputs and the root\<close>

definition render_root :: "(con_id \<Rightarrow> wm \<Rightarrow> wm) \<Rightarrow> con_id \<Rightarrow> con_id option \<Rightarrow> wm \<Rightarrow> wm" where
  "render_root rec c fullscreen s0 =
     (let s = (if fullscreen = None then fold rec (nodes s0 c) s0 else s0) in
      fold (\<lambda>out s.
        if con_is_internal s out then s
        else case output_get_content s out of
            None \<Rightarrow> s
          | Some content \<Rightarrow>
              (case foci s content of
                 [] \<Rightarrow> s
               | ws # _ \<Rightarrow>
                   let fs = con_get_fullscreen_covering_ws s (Some ws)
                   in fold (\<lambda>child s. if fullscreen_blocks_floating_render s fs child then s else rec child s)
                        (floats s ws) s))
        (nodes s c) s)"

definition one_content :: "wm \<Rightarrow> con_id \<Rightarrow> bool" where
  "one_content s c \<longleftrightarrow>
     length (filter (\<lambda>d. kind s d = CT_CON) (nodes s c)) \<le> 1 \<and>
     (\<forall>d \<in> set (nodes s c). kind s d = CT_CON \<or> kind s d = CT_DOCKAREA)"

definition dock_height :: "wm \<Rightarrow> con_id \<Rightarrow> u32" where
  "dock_height s dockarea =
     fold (\<lambda>d h. h + rect_height (geometry (store s d))) (nodes s dockarea) 0"

definition render_output :: "(con_id \<Rightarrow> wm \<Rightarrow> wm) \<Rightarrow> con_id \<Rightarrow> wm \<Rightarrow> wm" where
  "render_output rec c s0 =
     (let s = check (one_content s0 c) s0; r = rect (store s c) in
      case find (\<lambda>d. kind s d = CT_CON) (nodes s c) of
        None \<Rightarrow> s
      | Some content \<Rightarrow>
          (case con_get_fullscreen_con s content CF_OUTPUT of
             None \<Rightarrow> s
           | Some ws \<Rightarrow>
               (case con_get_fullscreen_con s ws CF_OUTPUT of
                  Some fullscreen \<Rightarrow> rec fullscreen (set_rect fullscreen r s)
                | None \<Rightarrow>
                    let (s, height) = fold (\<lambda>d (s, height).
                          if kind s d \<noteq> CT_DOCKAREA then (s, height)
                          else let h = dock_height s d
                               in (upd_con d (\<lambda>k. k\<lparr>rect := (rect k)\<lparr>rect_height := h\<rparr>\<rparr>) s, height - h))
                        (nodes s c) (s, rect_height r)
                    in fst (fold (\<lambda>d (s, y).
                          let h = (if kind s d = CT_CON then height else rect_height (rect (store s d)));
                              s = set_deco_rect d zero_rect (set_rect d (mk_rect (rect_x r) y (rect_width r) h) s)
                          in (rec d s, y + h))
                        (nodes s c) (s, rect_y r)))))"

subsection \<open>\<open>render_con\<close>\<close>

definition workspace_inset :: "gaps_t \<Rightarrow> Rect" where
  "workspace_inset g = mk_rect (word_of_int (g_left g)) (word_of_int (g_top g))
     (word_of_int (- (g_left g + g_right g))) (word_of_int (- (g_top g + g_bottom g)))"

text \<open>C divides \<open>inner\<close> by 2 towards zero.\<close>

definition half_gap :: "int \<Rightarrow> int" where
  "half_gap g = (if g \<ge> 0 then g div 2 else - (- g div 2))"

definition inner_inset :: "int \<Rightarrow> bool \<Rightarrow> bool \<Rightarrow> bool \<Rightarrow> bool \<Rightarrow> Rect" where
  "inner_inset inner left_adj up_adj right_adj down_adj =
     (let x = (word_of_int (if left_adj then half_gap inner else inner) :: u32);
          y = (word_of_int (if up_adj then half_gap inner else inner) :: u32);
          w = (word_of_int (if right_adj then - half_gap inner else - inner) :: u32);
          h = (word_of_int (if down_adj then - half_gap inner else - inner) :: u32)
      in mk_rect x y (w - x) (h - y))"

definition adjacent :: "wm \<Rightarrow> con_id \<Rightarrow> direction_t \<Rightarrow> bool" where
  "adjacent s c d = (gaps_has_adjacent_container s c d = Some True)"

text \<open>The gaps of \<open>con\<close> and the parameters for its children.\<close>

definition apply_gaps :: "con_id \<Rightarrow> wm \<Rightarrow> render_params \<times> wm" where
  "apply_gaps c s =
     (let r = rect (store s c);
          p = \<lparr>rp_x = rect_x r, rp_y = rect_y r, rp_deco_height = 0, rp_rect = r,
               rp_children = con_num_children s c, rp_sizes = []\<rparr>;
          (p, s) = (if kind s c = CT_WORKSPACE then
              let g = calculate_effective_gaps s c; inset = workspace_inset g
              in (p\<lparr>rp_rect := rect_add r inset, rp_x := rp_x p + word_of_int (g_left g),
                    rp_y := rp_y p + word_of_int (g_top g)\<rparr>,
                  set_rect c (rect_add r inset) s)
            else (p, s))
      in if gaps_should_inset_con s c then
           let inner = g_inner (calculate_effective_gaps s c);
               s = check (\<forall>d \<in> {D_LEFT, D_UP, D_RIGHT, D_DOWN}. gaps_has_adjacent_container s c d \<noteq> None) s;
               inset = inner_inset inner (adjacent s c D_LEFT) (adjacent s c D_UP)
                         (adjacent s c D_RIGHT) (adjacent s c D_DOWN);
               (p, s) = (if fullscreen_mode (store s c) = CF_NONE
                 then (p\<lparr>rp_rect := rect_add (rp_rect p) inset\<rparr>, set_rect c (rect_add (rect (store s c)) inset) s)
                 else (p, s));
               r = rect (store s c)
           in (p\<lparr>rp_x := rect_x r, rp_y := rect_y r\<rparr>, s)
         else (p, s))"

definition place_window :: "con_id \<Rightarrow> wm \<Rightarrow> wm" where
  "place_window c s =
     (if window (store s c) = None then s
      else
        let r = rect (store s c);
            inset = mk_rect 0 0 (rect_width r) (rect_height r);
            inset = (if fullscreen_mode (store s c) = CF_NONE then rect_add inset (con_border_style_rect s c)
                     else inset);
            b = (word_of_int (border_width (store s c)) :: u32);
            inset = inset\<lparr>rect_width := rect_width inset - 2 * b, rect_height := rect_height inset - 2 * b\<rparr>
        in upd_con c (\<lambda>k. k\<lparr>window_rect := rect_sanitize_dimensions inset\<rparr>) s)"

definition place_child ::
  "con_id \<Rightarrow> con_id \<Rightarrow> nat \<Rightarrow> render_params \<times> wm \<Rightarrow> render_params \<times> wm" where
  "place_child c child i ps =
     (case layout_of (snd ps) c of
        L_SPLITH \<Rightarrow> render_con_split c child i ps
      | L_SPLITV \<Rightarrow> render_con_split c child i ps
      | L_SCROLLING \<Rightarrow> render_con_scrolling c child ps
      | L_STACKED \<Rightarrow> render_con_stacked c child i ps
      | L_TABBED \<Rightarrow> render_con_tabbed c child i ps
      | L_DOCKAREA \<Rightarrow> render_con_dockarea child ps
      | _ \<Rightarrow> ps)"

definition render_child ::
  "(con_id \<Rightarrow> wm \<Rightarrow> wm) \<Rightarrow> con_id \<Rightarrow> con_id \<times> nat \<Rightarrow> render_params \<times> wm \<Rightarrow> render_params \<times> wm" where
  "render_child rec c ci ps =
     (case ci of (child, i) \<Rightarrow>
        let (p, s) = place_child c child i ps;
            s = upd_con child (\<lambda>k. k\<lparr>rect := rect_sanitize_dimensions (rect k)\<rparr>) s;
            s = rec child s;
            s = (if layout_of s c \<in> {L_SPLITH, L_SPLITV, L_SCROLLING} \<and> con_is_leaf s child \<and>
                    border_style (store s child) = BS_NORMAL
                 then upd_con child (\<lambda>k. k\<lparr>deco_rect := (deco_rect k)\<lparr>rect_width := rect_width (rect k)\<rparr>\<rparr>) s
                 else s)
        in (p, s))"

definition render_children :: "(con_id \<Rightarrow> wm \<Rightarrow> wm) \<Rightarrow> con_id \<Rightarrow> render_params \<Rightarrow> wm \<Rightarrow> wm" where
  "render_children rec c p s0 =
     (let s = scrolling_prepare c s0;
          s = snd (fold (render_child rec c) (zip (nodes s c) [0 ..< length (nodes s c)]) (p, s))
      in if layout_of s c = L_STACKED \<or> layout_of s c = L_TABBED
         then (case foci s c of [] \<Rightarrow> s | x # _ \<Rightarrow> rec x s) else s)"

definition render_step :: "(con_id \<Rightarrow> wm \<Rightarrow> wm) \<Rightarrow> con_id \<Rightarrow> wm \<Rightarrow> wm" where
  "render_step rec c s0 =
     (let (p, s) = apply_gaps c s0;
          s = upd_con c (\<lambda>k. k\<lparr>mapped := True\<rparr>) s;
          s = place_window c s;
          fullscreen = (if kind s c \<noteq> CT_OUTPUT
            then con_get_fullscreen_con s c (if kind s c = CT_ROOT then CF_GLOBAL else CF_OUTPUT) else None);
          s = (case fullscreen of None \<Rightarrow> s | Some f \<Rightarrow> rec f (set_rect f (rp_rect p) s))
      in if fullscreen \<noteq> None \<and> kind s c \<noteq> CT_ROOT then s
         else
           let (sizes, s) = precalculate_sizes c s;
               p = p\<lparr>rp_deco_height := word_of_int (render_deco_height s), rp_sizes := sizes\<rparr>
           in if layout_of s c = L_OUTPUT
              then (if con_is_internal s c then s else render_output rec c s)
              else if kind s c = CT_ROOT then render_root rec c fullscreen s
              else render_children rec c p s)"

primrec render_below :: "nat \<Rightarrow> con_id \<Rightarrow> wm \<Rightarrow> wm" where
  "render_below 0 c s = s"
| "render_below (Suc n) c s = render_step (render_below n) c s"

definition render_con :: "con_id \<Rightarrow> wm \<Rightarrow> wm" where
  "render_con c s = render_below (length (all_cons s)) c s"

primrec unmap_below :: "nat \<Rightarrow> con_id \<Rightarrow> wm \<Rightarrow> wm" where
  "unmap_below 0 c s = s"
| "unmap_below (Suc n) c s0 =
     (let s = upd_con c (\<lambda>k. k\<lparr>mapped := False\<rparr>) s0;
          s = fold (unmap_below n) (nodes s c) s
      in if kind s c = CT_WORKSPACE then fold (unmap_below n) (floats s c) s else s)"

definition mark_unmapped :: "con_id \<Rightarrow> wm \<Rightarrow> wm" where
  "mark_unmapped c s = unmap_below (length (all_cons s)) c s"

definition tree_render :: "wm \<Rightarrow> wm" where
  "tree_render s =
     (let s = mark_unmapped (croot s) s;
          s = upd_con (croot s) (\<lambda>k. k\<lparr>mapped := True\<rparr>) s
      in render_con (croot s) s)"

subsection \<open>The sizes of a split add up\<close>

lemma sum_list_upd: "i < length xs \<Longrightarrow> sum_list (xs[i := xs ! i + e]) = sum_list xs + (e :: int)"
  by (induction xs arbitrary: i) (auto split: nat.splits)

lemma length_spread [simp]: "length (spread n i signal sizes) = length sizes"
  by (induction n arbitrary: i sizes) simp_all

lemma sum_list_spread:
  "i < length sizes \<Longrightarrow> sum_list (spread n i signal sizes) = sum_list sizes + int n * signal"
proof (induction n arbitrary: i sizes)
  case (Suc n)
  have "0 < length sizes" using Suc.prems by linarith
  then show ?case using Suc sum_list_upd [of i sizes signal] by (simp add: algebra_simps)
qed simp

text \<open>Without a second round every size is corrected at most once.\<close>

lemma spread_close:
  "i + n \<le> length sizes \<Longrightarrow> j < length sizes \<Longrightarrow>
     spread n i signal sizes ! j = sizes ! j + (if i \<le> j \<and> j < i + n then signal else 0)"
proof (induction n arbitrary: i sizes)
  case (Suc n)
  show ?case
  proof (cases "Suc i < length sizes")
    case True
    then show ?thesis using Suc by (auto simp: nth_list_update)
  next
    case False
    then have "n = 0" using Suc.prems by linarith
    then show ?thesis using Suc.prems by (auto simp: nth_list_update)
  qed
qed simp

lemma sum_corrected_sizes:
  assumes "sizes \<noteq> []"
  shows "sum_list (corrected_sizes sizes tot) = tot"
proof -
  have "0 < length sizes" using assms by simp
  from sum_list_spread [OF this] show ?thesis by (auto simp: corrected_sizes_def Let_def)
qed

lemma lround_close: "\<bar>real_of_int (lround x) - x\<bar> \<le> 1 / 2"
proof (cases "x \<ge> 0")
  case True
  have "real_of_int \<lfloor>x + 1 / 2\<rfloor> \<le> x + 1 / 2" "x + 1 / 2 < real_of_int \<lfloor>x + 1 / 2\<rfloor> + 1" by linarith+
  then have "real_of_int \<lfloor>x + 1 / 2\<rfloor> - x \<le> 1 / 2" "- (real_of_int \<lfloor>x + 1 / 2\<rfloor> - x) \<le> 1 / 2" by linarith+
  then show ?thesis using True unfolding lround_def abs_le_iff by simp
next
  case False
  have "x - 1 / 2 \<le> real_of_int \<lceil>x - 1 / 2\<rceil>" "real_of_int \<lceil>x - 1 / 2\<rceil> - 1 < x - 1 / 2" by linarith+
  then have "real_of_int \<lceil>x - 1 / 2\<rceil> - x \<le> 1 / 2" "- (real_of_int \<lceil>x - 1 / 2\<rceil> - x) \<le> 1 / 2" by linarith+
  then show ?thesis using False unfolding lround_def abs_le_iff by simp
qed

lemma sum_list_close:
  fixes f g :: "'a \<Rightarrow> real"
  assumes "\<And>x. x \<in> set xs \<Longrightarrow> \<bar>f x - g x\<bar> \<le> e"
  shows "\<bar>sum_list (map f xs) - sum_list (map g xs)\<bar> \<le> real (length xs) * e"
  using assms
proof (induction xs)
  case (Cons x xs)
  have "\<bar>f x - g x\<bar> \<le> e" "\<bar>sum_list (map f xs) - sum_list (map g xs)\<bar> \<le> real (length xs) * e"
    using Cons by simp_all
  then show ?case by (simp add: algebra_simps abs_le_iff)
qed simp

text \<open>
  With percentages that are positive and add up to 1 (what \<open>con_fix_percent\<close> establishes), rounding
  loses less than half a pixel per child: the assertion holds, one round of corrections is enough,
  the sizes add up to the parent's and each is within one and a half pixels of its share.
\<close>

lemma rounded_sizes_close:
  assumes pos: "\<forall>p \<in> set ps. p > 0" and one: "sum_list ps = 1"
  shows "2 * \<bar>sum_list (rounded_sizes ps tot) - tot\<bar> \<le> int (length ps)"
proof -
  have eq: "rounded_sizes ps tot = map (\<lambda>p. lround (p * real_of_int tot)) ps"
    using pos by (simp add: rounded_sizes_def)
  have R: "real_of_int (sum_list (map h ps)) = sum_list (map (\<lambda>p. real_of_int (h p)) ps)" for h
    by (induction ps) simp_all
  have "sum_list (map (\<lambda>p. p * real_of_int tot) ps) = real_of_int tot"
    using one by (simp add: sum_list_mult_const)
  moreover have "\<bar>sum_list (map (\<lambda>p. real_of_int (lround (p * real_of_int tot))) ps) -
      sum_list (map (\<lambda>p. p * real_of_int tot) ps)\<bar> \<le> real (length ps) * (1 / 2)"
    by (rule sum_list_close) (rule lround_close)
  ultimately have "\<bar>real_of_int (sum_list (rounded_sizes ps tot)) - real_of_int tot\<bar> \<le> real (length ps) * (1 / 2)"
    unfolding eq R by simp
  then have "2 * \<bar>real_of_int (sum_list (rounded_sizes ps tot) - tot)\<bar> \<le> real (length ps)" by simp
  then have "real_of_int (2 * \<bar>sum_list (rounded_sizes ps tot) - tot\<bar>) \<le> real_of_int (int (length ps))"
    by simp
  then show ?thesis by (simp only: of_int_le_iff)
qed

lemma length_rounded_sizes [simp]: "length (rounded_sizes ps tot) = length ps"
  by (simp add: rounded_sizes_def)

lemma sizes_of_a_split:
  fixes tot :: int
  assumes ne: "ps \<noteq> []" and pos: "\<forall>p \<in> set ps. p > 0" and one: "sum_list ps = 1"
  defines "sizes \<equiv> corrected_sizes (rounded_sizes ps tot) tot"
  shows "sizes_assertion (rounded_sizes ps tot) tot" and "sum_list sizes = tot"
    and "length sizes = length ps"
    and "j < length ps \<Longrightarrow> \<bar>real_of_int (sizes ! j) - ps ! j * real_of_int tot\<bar> \<le> 3 / 2"
proof -
  note close = rounded_sizes_close [OF pos one, of tot]
  show "sizes_assertion (rounded_sizes ps tot) tot"
  proof -
    define d where "d = sum_list (rounded_sizes ps tot) - tot"
    have "\<bar>d\<bar> \<le> int (length ps)" using close [folded d_def] by presburger
    then have "sum_list (rounded_sizes ps tot) - tot \<le> int (length ps)"
      "tot - sum_list (rounded_sizes ps tot) \<le> int (length ps)"
      unfolding d_def abs_le_iff by linarith+
    then show ?thesis unfolding sizes_assertion_def Let_def length_rounded_sizes by linarith
  qed
  have "rounded_sizes ps tot \<noteq> []" using ne by (simp add: rounded_sizes_def)
  from sum_corrected_sizes [OF this] show "sum_list sizes = tot" by (simp add: sizes_def)
  show "length sizes = length ps" by (simp add: sizes_def corrected_sizes_def Let_def)
  show "\<bar>real_of_int (sizes ! j) - ps ! j * real_of_int tot\<bar> \<le> 3 / 2" if j: "j < length ps"
  proof -
    define n where "n = nat \<bar>tot - sum_list (rounded_sizes ps tot)\<bar>"
    define e :: int where "e = (if sum_list (rounded_sizes ps tot) < tot then 1 else - 1)"
    define d where "d = sum_list (rounded_sizes ps tot) - tot"
    have "\<bar>d\<bar> \<le> int (length ps)" using close [folded d_def] by presburger
    then have n: "0 + n \<le> length (rounded_sizes ps tot)"
      by (simp add: n_def d_def nat_le_iff abs_minus_commute)
    have "sizes ! j = rounded_sizes ps tot ! j + (if 0 \<le> j \<and> j < 0 + n then e else 0)"
      using spread_close [OF n, of j e] j
      by (simp only: sizes_def corrected_sizes_def Let_def n_def e_def length_rounded_sizes)
    moreover have "rounded_sizes ps tot ! j = lround (ps ! j * real_of_int tot)"
      using j pos by (simp add: rounded_sizes_def)
    ultimately have "real_of_int (sizes ! j) - ps ! j * real_of_int tot =
        (real_of_int (lround (ps ! j * real_of_int tot)) - ps ! j * real_of_int tot) +
        real_of_int (if j < n then e else 0)" by simp
    moreover have "\<bar>real_of_int (if j < n then e else 0)\<bar> \<le> 1" by (simp add: e_def)
    ultimately show ?thesis
      using lround_close [of "ps ! j * real_of_int tot"]
        abs_triangle_ineq [of "real_of_int (lround (ps ! j * real_of_int tot)) - ps ! j * real_of_int tot"
          "real_of_int (if j < n then e else 0)"]
      by (simp only:)
  qed
qed

subsection \<open>Rendering changes the geometry only\<close>

text \<open>Everything of a container but what \<open>render_con\<close> computes, and all of the state but the containers
  and the failure flag, stay as they are.\<close>

definition shapeless :: "con \<Rightarrow> con" where
  "shapeless k = k\<lparr>rect := zero_rect, window_rect := zero_rect, deco_rect := zero_rect,
     mapped := False, scroll_offset := 0\<rparr>"

definition only_geometry :: "wm \<Rightarrow> wm \<Rightarrow> bool" where
  "only_geometry s t \<longleftrightarrow>
     (\<forall>c. shapeless (store t c) = shapeless (store s c)) \<and>
     t\<lparr>store := store s, aborted := aborted s\<rparr> = s"

lemma wm_same [simp]: "s\<lparr>store := store s, aborted := aborted s\<rparr> = (s :: wm)"
  by (cases s) simp

lemma wm_same_upd [simp]: "upd_con c f s\<lparr>store := store s, aborted := aborted s\<rparr> = s"
  by (simp add: upd_con_def)

named_theorems geo "steps of the renderer that change the geometry only"

lemma only_geometry_refl [geo]: "only_geometry s s"
  by (simp add: only_geometry_def)

lemma only_geometry_trans:
  assumes a: "only_geometry s t" and b: "only_geometry t u" shows "only_geometry s u"
proof -
  from b have t: "t = u\<lparr>store := store t, aborted := aborted t\<rparr>" by (simp add: only_geometry_def)
  have "u\<lparr>store := store s, aborted := aborted s\<rparr> = t\<lparr>store := store s, aborted := aborted s\<rparr>"
    by (subst t) simp
  then show ?thesis using a b by (simp add: only_geometry_def)
qed

lemma only_geometry_upd:
  "(\<And>k. shapeless (f k) = shapeless k) \<Longrightarrow> only_geometry s (upd_con c f s)"
  by (simp add: only_geometry_def upd_con_def)

lemma only_geometry_steps [geo]:
  "only_geometry s (set_rect c r s)" "only_geometry s (set_deco_rect c r s)"
  "only_geometry s (upd_con c (\<lambda>k. k\<lparr>rect := f k\<rparr>) s)"
  "only_geometry s (upd_con c (\<lambda>k. k\<lparr>deco_rect := f k\<rparr>) s)"
  "only_geometry s (upd_con c (\<lambda>k. k\<lparr>window_rect := f k\<rparr>) s)"
  "only_geometry s (upd_con c (\<lambda>k. k\<lparr>mapped := b\<rparr>) s)"
  "only_geometry s (upd_con c (\<lambda>k. k\<lparr>scroll_offset := g k\<rparr>) s)"
  "only_geometry s (check P s)" "only_geometry s (abort s)"
  by (auto simp: set_rect_def set_deco_rect_def shapeless_def check_def abort_def only_geometry_def
      intro!: only_geometry_upd)

lemma only_geometry_fold:
  "(\<And>x t. only_geometry t (f x t)) \<Longrightarrow> only_geometry s (fold f xs s)"
proof (induction xs arbitrary: s)
  case (Cons x xs)
  from only_geometry_trans [OF Cons.prems Cons.IH [OF Cons.prems]] show ?case by simp
qed (simp add: only_geometry_refl)

lemma only_geometry_fold_snd:
  "(\<And>x p t. only_geometry t (snd (f x (p, t)))) \<Longrightarrow> only_geometry s (snd (fold f xs (p, s)))"
proof (induction xs arbitrary: p s)
  case (Cons x xs)
  obtain q t where e: "f x (p, s) = (q, t)" by fastforce
  then have "only_geometry s t" using Cons.prems [of s x p] by simp
  from only_geometry_trans [OF this Cons.IH [OF Cons.prems]] show ?case by (simp add: e)
qed (simp add: only_geometry_refl)

lemma only_geometry_fold_fst:
  "(\<And>x p t. only_geometry t (fst (f x (t, p)))) \<Longrightarrow> only_geometry s (fst (fold f xs (s, p)))"
proof (induction xs arbitrary: p s)
  case (Cons x xs)
  obtain q t where e: "f x (s, p) = (t, q)" by fastforce
  then have "only_geometry s t" using Cons.prems [of s x p] by simp
  from only_geometry_trans [OF this Cons.IH [OF Cons.prems]] show ?case by (simp add: e)
qed (simp add: only_geometry_refl)

lemma leaf_decoration_geo [geo]: "only_geometry s (leaf_decoration c d s)"
  by (simp add: leaf_decoration_def geo)

lemma place_child_geo [geo]: "only_geometry s (snd (place_child c child i (p, s)))"
  by (cases "layout_of s c")
    (auto simp: place_child_def render_con_split_def render_con_scrolling_def render_con_stacked_def
      render_con_tabbed_def render_con_dockarea_def Let_def
      intro: geo only_geometry_trans [OF only_geometry_steps(1) leaf_decoration_geo]
        only_geometry_trans [OF only_geometry_steps(2) only_geometry_steps(1)]
        only_geometry_trans [OF only_geometry_steps(1) only_geometry_steps(2)])

lemma apply_gaps_geo [geo]: "only_geometry s (snd (apply_gaps c s))"
  by (auto simp: apply_gaps_def Let_def split: prod.splits if_splits
      intro!: geo only_geometry_trans [OF only_geometry_steps(1) only_geometry_steps(8)]
        only_geometry_trans [OF only_geometry_steps(8) only_geometry_steps(1)]
        only_geometry_trans [OF only_geometry_steps(1)
          only_geometry_trans [OF only_geometry_steps(8) only_geometry_steps(1)]])

lemma place_window_geo [geo]: "only_geometry s (place_window c s)"
  by (simp add: place_window_def Let_def geo)

lemma scrolling_prepare_geo [geo]: "only_geometry s (scrolling_prepare c s)"
  by (simp add: scrolling_prepare_def geo)

lemma precalculate_sizes_geo [geo]: "only_geometry s (snd (precalculate_sizes c s))"
  by (simp add: precalculate_sizes_def Let_def geo split: option.splits)

text \<open>The interface of the recursion: whatever renders the children changes geometry only. One level of
  \<open>render_con\<close> then does, and by induction all of them.\<close>

locale geometry_pass =
  fixes rec :: "con_id \<Rightarrow> wm \<Rightarrow> wm"
  assumes rec_geo: "only_geometry t (rec d t)"
begin

lemma render_child_geo: "only_geometry s (snd (render_child rec c ci (p, s)))"
proof (cases ci)
  case (Pair child i)
  obtain q t where e: "place_child c child i (p, s) = (q, t)" by fastforce
  then have "only_geometry s t" using place_child_geo [of s c child i p] by simp
  note only_geometry_trans [OF this only_geometry_steps(3)]
  note only_geometry_trans [OF this rec_geo]
  note this only_geometry_trans [OF this only_geometry_steps(4)]
  then show ?thesis by (simp add: Pair render_child_def Let_def e)
qed

lemma render_children_geo: "only_geometry s (render_children rec c p s)"
proof -
  let ?s = "scrolling_prepare c s"
  let ?t = "snd (fold (render_child rec c) (zip (nodes ?s c) [0 ..< length (nodes ?s c)]) (p, ?s))"
  have "only_geometry ?s ?t" by (rule only_geometry_fold_snd) (rule render_child_geo)
  from only_geometry_trans [OF scrolling_prepare_geo this] have t: "only_geometry s ?t" .
  then show ?thesis unfolding render_children_def Let_def
    by (auto intro: only_geometry_trans [OF t rec_geo] split: list.splits)
qed

lemma render_output_geo: "only_geometry s (render_output rec c s)"
proof -
  let ?u = "check (one_content s c) s"
  have u: "only_geometry s ?u" by (rule only_geometry_steps)
  have dock: "only_geometry t (fst (fold (\<lambda>d (s, height). if kind s d \<noteq> CT_DOCKAREA then (s, height)
      else let h = dock_height s d
        in (upd_con d (\<lambda>k. k\<lparr>rect := (rect k)\<lparr>rect_height := h\<rparr>\<rparr>) s, height - h)) ds (t, hh)))" for t ds hh
    by (rule only_geometry_fold_fst) (simp add: Let_def geo)
  have place: "only_geometry t (fst (fold (\<lambda>d (s, y).
      let h = (if kind s d = CT_CON then hh else rect_height (rect (store s d)));
          s = set_deco_rect d zero_rect (set_rect d (mk_rect (rect_x r) y (rect_width r) h) s)
      in (rec d s, y + h)) ds (t, y)))" for t ds hh y r
    by (rule only_geometry_fold_fst) (auto simp: Let_def
        intro: only_geometry_trans [OF only_geometry_trans [OF only_geometry_steps(1) only_geometry_steps(2)] rec_geo])
  have full: "only_geometry s (rec f (set_rect f r ?u))" for f r
    by (rule only_geometry_trans [OF only_geometry_trans [OF u only_geometry_steps(1)] rec_geo])
  have both: "only_geometry s (fst (fold (\<lambda>d (s, y).
      let h = (if kind s d = CT_CON then hh else rect_height (rect (store s d)));
          s = set_deco_rect d zero_rect (set_rect d (mk_rect (rect_x r) y (rect_width r) h) s)
      in (rec d s, y + h)) ds (t, y)))" if "only_geometry ?u t" for t ds hh y r
    by (rule only_geometry_trans [OF only_geometry_trans [OF u that] place])
  show ?thesis
  proof (cases "find (\<lambda>d. kind ?u d = CT_CON) (nodes ?u c)")
    case None
    then show ?thesis using u by (simp add: render_output_def Let_def)
  next
    case (Some content)
    note content = Some
    show ?thesis
    proof (cases "con_get_fullscreen_con ?u content CF_OUTPUT")
      case None
      then show ?thesis using u content by (simp add: render_output_def Let_def)
    next
      case (Some ws)
      show ?thesis
      proof (cases "con_get_fullscreen_con ?u ws CF_OUTPUT")
        case None
        obtain t hh where d: "fold (\<lambda>d (s, height). if kind s d \<noteq> CT_DOCKAREA then (s, height)
            else let h = dock_height s d
              in (upd_con d (\<lambda>k. k\<lparr>rect := (rect k)\<lparr>rect_height := h\<rparr>\<rparr>) s, height - h))
            (nodes ?u c) (?u, rect_height (rect (store ?u c))) = (t, hh)" by fastforce
        have "only_geometry ?u t"
          using dock [of ?u "nodes ?u c" "rect_height (rect (store ?u c))"] unfolding d by simp
        from both [OF this] show ?thesis
          unfolding render_output_def Let_def [of ?u] Let_def [of "rect (store ?u c)"] content option.case Some None d
            Let_def [of "(t, hh)"] prod.case .
      next
        case (Some f)
        then show ?thesis using full content \<open>con_get_fullscreen_con ?u content CF_OUTPUT = Some ws\<close>
          by (simp add: render_output_def Let_def)
      qed
    qed
  qed
qed

lemma render_root_geo: "only_geometry s (render_root rec c fs s)"
proof -
  have fl: "only_geometry t (fold (\<lambda>child s. if fullscreen_blocks_floating_render s f child then s
      else rec child s) ds t)" for t f ds
    by (rule only_geometry_fold) (simp add: rec_geo only_geometry_refl)
  have "only_geometry t (fold (\<lambda>out s.
        if con_is_internal s out then s
        else case output_get_content s out of None \<Rightarrow> s
          | Some content \<Rightarrow> (case foci s content of [] \<Rightarrow> s
               | ws # _ \<Rightarrow>
                   let fs = con_get_fullscreen_covering_ws s (Some ws)
                   in fold (\<lambda>child s. if fullscreen_blocks_floating_render s fs child then s else rec child s)
                        (floats s ws) s)) outs t)" for t outs
    by (rule only_geometry_fold) (auto simp: Let_def only_geometry_refl fl split: option.splits list.splits)
  moreover have "only_geometry s (if fs = None then fold rec (nodes s c) s else s)"
    by (simp add: only_geometry_refl only_geometry_fold rec_geo)
  ultimately show ?thesis unfolding render_root_def Let_def [of "if fs = None then fold rec (nodes s c) s else s"]
    by (rule only_geometry_trans [rotated])
qed

lemma render_step_geo: "only_geometry s (render_step rec c s)"
proof -
  obtain p t where e: "apply_gaps c s = (p, t)" by fastforce
  then have "only_geometry s t" using apply_gaps_geo [of s c] by simp
  note only_geometry_trans [OF this only_geometry_steps(6)]
  note only_geometry_trans [OF this place_window_geo]
  then have u: "only_geometry s (place_window c (upd_con c (\<lambda>k. k\<lparr>mapped := True\<rparr>) t))" (is "only_geometry s ?u") .
  define fs where "fs = (if kind ?u c \<noteq> CT_OUTPUT
    then con_get_fullscreen_con ?u c (if kind ?u c = CT_ROOT then CF_GLOBAL else CF_OUTPUT) else None)"
  define v where "v = (case fs of None \<Rightarrow> ?u | Some f \<Rightarrow> rec f (set_rect f (rp_rect p) ?u))"
  have v: "only_geometry s v" unfolding v_def
    using u only_geometry_trans [OF only_geometry_trans [OF u only_geometry_steps(1)] rec_geo]
    by (auto split: option.splits)
  obtain sizes w where w: "precalculate_sizes c v = (sizes, w)" by fastforce
  have w': "only_geometry s w"
    using only_geometry_trans [OF v, of w] precalculate_sizes_geo [of v c] unfolding w by simp
  define q where "q = p\<lparr>rp_deco_height := word_of_int (render_deco_height w), rp_sizes := sizes\<rparr>"
  have "render_step rec c s = (if fs \<noteq> None \<and> kind v c \<noteq> CT_ROOT then v
     else if layout_of w c = L_OUTPUT then (if con_is_internal w c then w else render_output rec c w)
     else if kind w c = CT_ROOT then render_root rec c fs w
     else render_children rec c q w)"
    unfolding render_step_def e prod.case Let_def fs_def [symmetric] v_def [symmetric] w q_def [symmetric]
    by (rule refl)
  then show ?thesis
    using v w' only_geometry_trans [OF w' render_output_geo] only_geometry_trans [OF w' render_root_geo]
      only_geometry_trans [OF w' render_children_geo] by simp
qed

end

lemma render_below_geo: "only_geometry s (render_below n c s)"
proof (induction n arbitrary: c s)
  case (Suc n)
  then have "geometry_pass (render_below n)" by unfold_locales
  then show ?case by (simp add: geometry_pass.render_step_geo)
qed (simp add: only_geometry_refl)

interpretation rendering: geometry_pass "render_below n" for n
  by unfold_locales (rule render_below_geo)

lemma render_con_geo [geo]: "only_geometry s (render_con c s)"
  by (simp add: render_con_def render_below_geo)

lemma unmap_below_geo: "only_geometry s (unmap_below n c s)"
proof (induction n arbitrary: c s)
  case (Suc n)
  let ?s = "upd_con c (\<lambda>k. k\<lparr>mapped := False\<rparr>) s"
  have f: "only_geometry t (fold (unmap_below n) cs t)" for t cs
    by (rule only_geometry_fold) (rule Suc)
  from only_geometry_trans [OF only_geometry_steps(6) f]
  have a: "only_geometry s (fold (unmap_below n) cs ?s)" for cs .
  show ?case by (simp add: Let_def a only_geometry_trans [OF a f])
qed (simp add: only_geometry_refl)

lemma tree_render_geo [geo]: "only_geometry s (tree_render s)"
  unfolding tree_render_def Let_def mark_unmapped_def
  by (rule only_geometry_trans [OF only_geometry_trans [OF unmap_below_geo only_geometry_steps(6)] render_con_geo])

lemma only_geometry_fields:
  assumes "only_geometry s t"
  shows "parent_of t c = parent_of s c" "kind t c = kind s c" "nodes t c = nodes s c"
    "floats t c = floats s c" "foci t c = foci s c" "layout_of t c = layout_of s c"
    "window (store t c) = window (store s c)" "percent (store t c) = percent (store s c)"
    "urgent (store t c) = urgent (store s c)" "fullscreen_mode (store t c) = fullscreen_mode (store s c)"
    "floating (store t c) = floating (store s c)" "marks_head (store t c) = marks_head (store s c)"
proof -
  have e: "shapeless (store t c) = shapeless (store s c)" using assms by (simp add: only_geometry_def)
  note a = arg_cong [OF e]
  show "parent_of t c = parent_of s c" "kind t c = kind s c" "nodes t c = nodes s c"
    "floats t c = floats s c" "foci t c = foci s c" "layout_of t c = layout_of s c"
    "window (store t c) = window (store s c)" "percent (store t c) = percent (store s c)"
    "urgent (store t c) = urgent (store s c)" "fullscreen_mode (store t c) = fullscreen_mode (store s c)"
    "floating (store t c) = floating (store s c)" "marks_head (store t c) = marks_head (store s c)"
    using a [of parent] a [of ctype] a [of nodes_head] a [of floating_head] a [of focus_head]
      a [of layout] a [of window] a [of percent] a [of urgent] a [of fullscreen_mode] a [of floating]
      a [of marks_head] by (simp_all add: shapeless_def)
qed

lemma only_geometry_state:
  assumes "only_geometry s t"
  shows "all_cons t = all_cons s" "croot t = croot s" "focused t = focused s" "next_id t = next_id s"
    "cfg t = cfg s" "outputs t = outputs s" "ipc_log t = ipc_log s" "x_log t = x_log s"
    "previous_workspace_name t = previous_workspace_name s" "ws_assignments t = ws_assignments s"
proof -
  have e: "t\<lparr>store := store s, aborted := aborted s\<rparr> = s" using assms by (simp add: only_geometry_def)
  note a = arg_cong [OF e]
  show "all_cons t = all_cons s" "croot t = croot s" "focused t = focused s" "next_id t = next_id s"
    "cfg t = cfg s" "outputs t = outputs s" "ipc_log t = ipc_log s" "x_log t = x_log s"
    "previous_workspace_name t = previous_workspace_name s" "ws_assignments t = ws_assignments s"
    using a [of all_cons] a [of croot] a [of focused] a [of next_id] a [of cfg] a [of outputs]
      a [of ipc_log] a [of x_log] a [of previous_workspace_name] a [of ws_assignments] by simp_all
qed

lemma only_geometry_same_links: "only_geometry s t \<Longrightarrow> same_links s t"
  by (simp add: same_links_def only_geometry_fields only_geometry_state)

subsection \<open>The children of a split tile it\<close>

definition place_children :: "con_id \<Rightarrow> render_params \<Rightarrow> wm \<Rightarrow> render_params \<times> wm" where
  "place_children c p s =
     fold (\<lambda>(child, i) ps. place_child c child i ps) (zip (nodes s c) [0 ..< length (nodes s c)]) (p, s)"

definition split_slot :: "layout_t \<Rightarrow> render_params \<Rightarrow> nat \<Rightarrow> Rect" where
  "split_slot lay p i =
     (let before = (word_of_int (sum_list (take i (rp_sizes p))) :: u32);
          own = (word_of_int (rp_sizes p ! i) :: u32)
      in if lay = L_SPLITH then mk_rect (rp_x p + before) (rp_y p) own (rect_height (rp_rect p))
         else mk_rect (rp_x p) (rp_y p + before) (rect_width (rp_rect p)) own)"

lemma leaf_decoration_fields:
  "rect (store (leaf_decoration c d s) x) = rect (store s x)"
  "layout_of (leaf_decoration c d s) x = layout_of s x"
  by (simp_all add: leaf_decoration_def set_deco_rect_def)

lemma render_con_split_effect:
  assumes "render_con_split c d i (p, s) = (q, t)" and "layout_of s c \<in> {L_SPLITH, L_SPLITV}"
  shows "rp_sizes q = rp_sizes p" "rp_rect q = rp_rect p" "layout_of t x = layout_of s x"
    "x \<noteq> d \<Longrightarrow> rect (store t x) = rect (store s x)"
    "rp_x q = (if layout_of s c = L_SPLITH then rp_x p + word_of_int (rp_sizes p ! i) else rp_x p)"
    "rp_y q = (if layout_of s c = L_SPLITH then rp_y p else rp_y p + word_of_int (rp_sizes p ! i))"
    "rect (store t d) = (if layout_of s c = L_SPLITH
       then mk_rect (rp_x p) (rp_y p) (word_of_int (rp_sizes p ! i)) (rect_height (rp_rect p))
       else mk_rect (rp_x p) (rp_y p) (rect_width (rp_rect p)) (word_of_int (rp_sizes p ! i)))"
  using assms
  by (auto simp: render_con_split_def Let_def leaf_decoration_fields set_rect_def split: if_splits)

lemma place_split_fold:
  assumes "distinct cs" and "layout_of s c \<in> {L_SPLITH, L_SPLITV}"
    and "fold (\<lambda>(child, i) ps. place_child c child i ps) (zip cs [k ..< k + length cs]) (p, s) = (q, t)"
    and "k + length cs \<le> length (rp_sizes p)"
    and "rp_x p = (if layout_of s c = L_SPLITH then x + word_of_int (sum_list (take k (rp_sizes p))) else x)"
    and "rp_y p = (if layout_of s c = L_SPLITH then y else y + word_of_int (sum_list (take k (rp_sizes p))))"
  shows "(\<forall>j < length cs. rect (store t (cs ! j)) =
      split_slot (layout_of s c) (p\<lparr>rp_x := x, rp_y := y\<rparr>) (k + j)) \<and>
    (\<forall>d. d \<notin> set cs \<longrightarrow> rect (store t d) = rect (store s d))"
  using assms
proof (induction cs arbitrary: k p s)
  case (Cons d cs)
  have lay: "layout_of s c \<in> {L_SPLITH, L_SPLITV}" by (rule Cons.prems(2))
  have upt: "[k ..< k + length (d # cs)] = k # [Suc k ..< Suc k + length cs]"
    by (subst upt_conv_Cons) simp_all
  have len: "k < length (rp_sizes p)" using Cons.prems(4) by simp
  obtain p1 s1 where one: "render_con_split c d k (p, s) = (p1, s1)" by fastforce
  have pc: "place_child c d k (p, s) = (p1, s1)" using lay one by (auto simp: place_child_def)
  note E = render_con_split_effect [OF one lay]
  have st: "sum_list (take (Suc k) (rp_sizes p)) = sum_list (take k (rp_sizes p)) + rp_sizes p ! k"
    using len by (simp add: take_Suc_conv_app_nth)
  have IH: "(\<forall>j < length cs. rect (store t (cs ! j)) =
      split_slot (layout_of s1 c) (p1\<lparr>rp_x := x, rp_y := y\<rparr>) (Suc k + j)) \<and>
    (\<forall>d. d \<notin> set cs \<longrightarrow> rect (store t d) = rect (store s1 d))"
  proof (rule Cons.IH)
    show "distinct cs" using Cons.prems(1) by simp
    show "layout_of s1 c \<in> {L_SPLITH, L_SPLITV}" using lay E(3) by simp
    show "fold (\<lambda>(child, i) ps. place_child c child i ps) (zip cs [Suc k ..< Suc k + length cs]) (p1, s1) = (q, t)"
      using Cons.prems(3) unfolding upt zip_Cons_Cons fold_Cons o_apply prod.case pc .
    show "Suc k + length cs \<le> length (rp_sizes p1)" using Cons.prems(4) E(1) by simp
    show "rp_x p1 = (if layout_of s1 c = L_SPLITH
        then x + word_of_int (sum_list (take (Suc k) (rp_sizes p1))) else x)"
      using Cons.prems(5) by (simp add: E(1,3,5) st)
    show "rp_y p1 = (if layout_of s1 c = L_SPLITH then y
        else y + word_of_int (sum_list (take (Suc k) (rp_sizes p1))))"
      using Cons.prems(6) by (simp add: E(1,3,6) st)
  qed
  have same: "split_slot (layout_of s1 c) (p1\<lparr>rp_x := x, rp_y := y\<rparr>) j =
      split_slot (layout_of s c) (p\<lparr>rp_x := x, rp_y := y\<rparr>) j" for j
    by (simp add: split_slot_def Let_def E(1,2,3))
  have first: "rect (store t d) = split_slot (layout_of s c) (p\<lparr>rp_x := x, rp_y := y\<rparr>) k"
    using IH E(7) Cons.prems(1,5,6) by (simp add: split_slot_def Let_def)
  show ?case
  proof (intro conjI allI impI)
    fix j assume "j < length (d # cs)"
    then show "rect (store t ((d # cs) ! j)) = split_slot (layout_of s c) (p\<lparr>rp_x := x, rp_y := y\<rparr>) (k + j)"
      using first IH same by (cases j) simp_all
  next
    fix e assume "e \<notin> set (d # cs)"
    then show "rect (store t e) = rect (store s e)" using IH E(4) by simp
  qed
qed simp

lemma place_children_tile:
  assumes "distinct (nodes s c)" and "layout_of s c \<in> {L_SPLITH, L_SPLITV}"
    and "length (nodes s c) \<le> length (rp_sizes p)" and "j < length (nodes s c)"
  shows "rect (store (snd (place_children c p s)) (nodes s c ! j)) = split_slot (layout_of s c) p j"
proof -
  obtain q t where e: "place_children c p s = (q, t)" by fastforce
  have "(\<forall>j < length (nodes s c). rect (store t (nodes s c ! j)) =
      split_slot (layout_of s c) (p\<lparr>rp_x := rp_x p, rp_y := rp_y p\<rparr>) (0 + j)) \<and>
    (\<forall>d. d \<notin> set (nodes s c) \<longrightarrow> rect (store t d) = rect (store s d))"
    by (rule place_split_fold [OF assms(1,2)]) (use e assms(3) in \<open>simp_all add: place_children_def\<close>)
  then show ?thesis using assms(4) by (simp add: e)
qed

end
