(* ===== verification/Con_Focus.thy ===== *)
theory Con_Focus
  imports Render
begin

text \<open>
  Focus and urgency: \<open>con_focus\<close>, \<open>con_activate\<close>, \<open>con_next_focused\<close> and the urgency flags of
  \<^verbatim>\<open>src/con.c\<close>, \<open>workspace_update_urgent_flag\<close> of \<^verbatim>\<open>src/workspace.c\<close>, \<open>floating_raise_con\<close> of
  \<^verbatim>\<open>src/floating.c\<close> and the part of \<^verbatim>\<open>src/scrolling.c\<close> that moves the viewport to the focused
  column, which \<open>con_focus\<close> calls.
\<close>

subsection \<open>States that differ in the order of siblings\<close>

definition same_tree :: "wm \<Rightarrow> wm \<Rightarrow> bool" where
  "same_tree s t \<longleftrightarrow>
     all_cons t = all_cons s \<and> next_id t = next_id s \<and> croot t = croot s \<and>
     (\<forall>c. parent_of t c = parent_of s c \<and> kind t c = kind s c \<and>
       mset (nodes t c) = mset (nodes s c) \<and> mset (floats t c) = mset (floats s c) \<and>
       mset (foci t c) = mset (foci s c))"

lemma same_tree_refl [simp]: "same_tree s s"
  by (simp add: same_tree_def)

lemma same_tree_trans [trans]: "same_tree s t \<Longrightarrow> same_tree t u \<Longrightarrow> same_tree s u"
  by (simp add: same_tree_def)

lemma same_links_same_tree: "same_links s t \<Longrightarrow> same_tree s t"
  by (simp add: same_links_def same_tree_def)

lemma same_treeD:
  assumes "same_tree s t"
  shows "set (nodes t c) = set (nodes s c)" "set (floats t c) = set (floats s c)"
    "set (foci t c) = set (foci s c)" "distinct (nodes t c) = distinct (nodes s c)"
    "distinct (floats t c) = distinct (floats s c)" "distinct (foci t c) = distinct (foci s c)"
    "parent_of t c = parent_of s c" "kind t c = kind s c" "all_cons t = all_cons s"
    "next_id t = next_id s" "croot t = croot s"
  using assms unfolding same_tree_def by (metis mset_eq_setD mset_eq_imp_distinct_iff)+

lemma same_tree_tree_ok:
  assumes "same_tree s t" shows "tree_ok t = tree_ok s"
  unfolding tree_ok_def ids_ok_def links_ok_def links_ok_at_def parents_ok_def set_append
    same_treeD [OF assms] by (rule refl)

lemma same_tree_ancestors:
  assumes "same_tree s t" shows "ancestors t c = ancestors s c"
proof -
  have "climb n parent_of t c = climb n parent_of s c" for n
    by (induction n arbitrary: c) (simp_all add: same_treeD [OF assms] split: option.splits)
  then show ?thesis by (simp add: ancestors_def same_treeD [OF assms])
qed

lemma same_tree_unlinked: "same_tree s t \<Longrightarrow> unlinked t c = unlinked s c"
  unfolding unlinked_def set_append by (simp add: same_treeD)

lemma same_tree_fold:
  "(\<And>x t. same_tree t (f x t)) \<Longrightarrow> same_tree s (fold f xs s)"
  by (rule fold_upd_frame [where P = same_tree]) (auto intro: same_tree_trans)

subsection \<open>Scrolling to a column\<close>

text \<open>\<open>scroll_step\<close> and \<open>scroll_done\<close>, the callbacks of the animation. \<open>scroll_render\<close> guards against being
  entered again, which \<^const>\<open>tree_render\<close> never does.\<close>

definition scroll_step :: "real \<Rightarrow> real \<Rightarrow> wm \<Rightarrow> wm" where
  "scroll_step p e s =
     (case sa_con (scroll_anim s) of
        None \<Rightarrow> s
      | Some c \<Rightarrow> tree_render (upd_con c (\<lambda>k. k\<lparr>scroll_offset :=
          sa_from (scroll_anim s) + (sa_to (scroll_anim s) - sa_from (scroll_anim s)) * e\<rparr>) s))"

definition scroll_done :: "wm \<Rightarrow> wm" where
  "scroll_done s =
     (let s = (case sa_con (scroll_anim s) of
                 None \<Rightarrow> s
               | Some c \<Rightarrow> upd_con c (\<lambda>k. k\<lparr>scroll_offset := sa_to (scroll_anim s)\<rparr>) s)
      in tree_render (s\<lparr>scroll_anim := (scroll_anim s)\<lparr>sa_con := None, sa_anim_id := 0\<rparr>\<rparr>))"

definition scroll_to_offset :: "con_id \<Rightarrow> real \<Rightarrow> wm \<Rightarrow> wm" where
  "scroll_to_offset c target s =
     (let off = scroll_offset (store s c) in
      if \<bar>target - off\<bar> < 0.5 then s
      else
        let s = (if sa_anim_id (scroll_anim s) > 0
              then s\<lparr>anim := aiwr_anim_cancel (sa_anim_id (scroll_anim s)) (anim s),
                     scroll_anim := (scroll_anim s)\<lparr>sa_anim_id := 0, sa_con := None\<rparr>\<rparr>
              else s)
        in if cfg_scroll_duration_ms (cfg s) \<le> 0
           then upd_con c (\<lambda>k. k\<lparr>scroll_offset := target\<rparr>) s
           else
             let s = s\<lparr>scroll_anim := \<lparr>sa_con = Some c, sa_from = off, sa_to = target,
                       sa_anim_id = sa_anim_id (scroll_anim s)\<rparr>\<rparr>;
                 (i, s) = aiwr_anim_start (real_of_int (cfg_scroll_duration_ms (cfg s))) (cfg_scroll_curve (cfg s))
                            scroll_step scroll_done s;
                 s = s\<lparr>scroll_anim := (scroll_anim s)\<lparr>sa_anim_id := i\<rparr>\<rparr>
             in if i = 0
                then tree_render (upd_con c (\<lambda>k. k\<lparr>scroll_offset := target\<rparr>)
                  (s\<lparr>scroll_anim := (scroll_anim s)\<lparr>sa_con := None\<rparr>\<rparr>))
                else s)"

definition scrolling_reveal :: "con_id option \<Rightarrow> wm \<Rightarrow> wm" where
  "scrolling_reveal column s =
     (case column of
        None \<Rightarrow> s
      | Some col \<Rightarrow>
          (case parent_of s col of
             None \<Rightarrow> s
           | Some c \<Rightarrow>
               if layout_of s c \<noteq> L_SCROLLING \<or> rect_width (rect (store s c)) = 0 then s
               else (case column_extent s c col of
                   (None, _) \<Rightarrow> s
                 | (Some (x, w), tot) \<Rightarrow>
                     let view = real (unat (rect_width (rect (store s c))));
                         offset = wanted_offset (cfg_scroll_center_focus (cfg s)) x w view
                                    (scroll_offset (store s c))
                     in scroll_to_offset c (clamp_offset s c offset tot) s)))"

definition scrolling_on_focus :: "con_id \<Rightarrow> wm \<Rightarrow> wm" where
  "scrolling_on_focus c s =
     (case column_of s (Some c) of None \<Rightarrow> s | Some column \<Rightarrow> scrolling_reveal (Some column) s)"

subsection \<open>Urgency\<close>

definition urgency_step :: "wm \<Rightarrow> (con_id \<Rightarrow> bool) \<Rightarrow> con_id \<Rightarrow> bool" where
  "urgency_step s rec c \<longleftrightarrow> (\<exists>d \<in> set (nodes s c). urgent (store s d) \<or> rec d) \<or>
     (\<exists>d \<in> set (floats s c). urgent (store s d) \<or> rec d)"

primrec urgency_below :: "nat \<Rightarrow> wm \<Rightarrow> con_id \<Rightarrow> bool" where
  "urgency_below 0 s c = False"
| "urgency_below (Suc n) s c = urgency_step s (urgency_below n s) c"

definition get_urgency_flag :: "wm \<Rightarrow> con_id \<Rightarrow> bool" where
  "get_urgency_flag s c = urgency_below (length (all_cons s)) s c"

definition workspace_update_urgent_flag :: "con_id \<Rightarrow> wm \<Rightarrow> wm" where
  "workspace_update_urgent_flag ws s =
     (let old_flag = urgent (store s ws); flag = get_urgency_flag s ws;
          s = upd_con ws (\<lambda>k. k\<lparr>urgent := flag\<rparr>) s
      in if old_flag \<noteq> flag then ipc_send (Workspace_Event ''urgent'' ws None) s else s)"

definition con_update_parents_urgency :: "con_id \<Rightarrow> wm \<Rightarrow> wm" where
  "con_update_parents_urgency c s =
     (if kind s c = CT_WORKSPACE then s
      else
        let new_urgency_value = urgent (store s c);
            path = takeWhile (\<lambda>p. kind s p \<noteq> CT_WORKSPACE \<and> kind s p \<noteq> CT_DOCKAREA) (tl (ancestors s c))
        in fold (\<lambda>p s.
             if new_urgency_value then upd_con p (\<lambda>k. k\<lparr>urgent := True\<rparr>) s
             else if \<not> con_has_urgent_child s p then upd_con p (\<lambda>k. k\<lparr>urgent := False\<rparr>) s
             else s) path s)"

definition window_urgent_time :: "bool \<Rightarrow> timeval \<Rightarrow> i3Window \<Rightarrow> i3Window" where
  "window_urgent_time u now w = w\<lparr>w_urgent := (if u then now else \<lparr>tv_sec = 0, tv_usec = 0\<rparr>)\<rparr>"

definition con_set_urgency :: "con_id \<Rightarrow> bool \<Rightarrow> wm \<Rightarrow> wm" where
  "con_set_urgency c u s =
     (if u \<and> focused s = Some c then s
      else
        let old_urgent = urgent (store s c);
            s = (if \<not> urgency_timer (store s c) then upd_con c (\<lambda>k. k\<lparr>urgent := u\<rparr>) s else s);
            s = upd_con c (\<lambda>k. k\<lparr>window := map_option (window_urgent_time (urgent k) (wall_clock s)) (window k)\<rparr>) s;
            s = con_update_parents_urgency c s;
            s = (case con_get_workspace s c of None \<Rightarrow> s | Some ws \<Rightarrow> workspace_update_urgent_flag ws s)
        in if urgent (store s c) \<noteq> old_urgent then ipc_send (Window_Event ''urgent'' c) s else s)"

subsection \<open>Focus\<close>

text \<open>What \<open>con_focus\<close> does once the ancestors are focused.\<close>

definition focus_finish :: "con_id \<Rightarrow> wm \<Rightarrow> wm" where
  "focus_finish c s =
     (let s = s\<lparr>focused := Some c\<rparr>;
          s = (if urgent (store s c) \<and> con_is_leaf s c then
                let s = con_set_urgency c False s;
                    s = con_update_parents_urgency c s;
                    s = (case con_get_workspace s c of
                           None \<Rightarrow> abort s | Some ws \<Rightarrow> workspace_update_urgent_flag ws s)
                in ipc_send (Window_Event ''urgent'' c) s
              else s)
      in scrolling_on_focus c s)"

definition focus_first :: "con_id \<Rightarrow> con_id \<Rightarrow> wm \<Rightarrow> wm" where
  "focus_first c p s = upd_con p (\<lambda>k. k\<lparr>focus_head := c # remove1 c (focus_head k)\<rparr>) s"

text \<open>The recursion of \<open>con_focus\<close> on the way up: the parent is focused if it has a parent.\<close>

fun focus_path :: "con_id list \<Rightarrow> wm \<Rightarrow> wm" where
  "focus_path [] s = s"
| "focus_path (c # cs) s =
     (case parent_of s c of
        None \<Rightarrow> abort s
      | Some p \<Rightarrow>
          let s = focus_first c p s;
              s = (if parent_of s p \<noteq> None then focus_path cs s else s)
          in focus_finish c s)"

definition con_focus :: "con_id \<Rightarrow> wm \<Rightarrow> wm" where
  "con_focus c s = focus_path (ancestors s c) s"

definition floating_raise_con :: "con_id \<Rightarrow> wm \<Rightarrow> wm" where
  "floating_raise_con c s =
     (case parent_of s c of
        None \<Rightarrow> abort s
      | Some p \<Rightarrow> upd_con p (\<lambda>k. k\<lparr>floating_head := remove1 c (floating_head k) @ [c]\<rparr>) s)"

definition con_raise :: "con_id \<Rightarrow> wm \<Rightarrow> wm" where
  "con_raise c s = (case con_inside_floating s c of None \<Rightarrow> s | Some f \<Rightarrow> floating_raise_con f s)"

definition con_activate :: "con_id \<Rightarrow> wm \<Rightarrow> wm" where
  "con_activate c s = con_raise c (con_focus c s)"

text \<open>\<open>con_next_focused\<close>: which container is focused when \<open>con\<close> goes away. \<^const>\<open>None\<close> is NULL
  dereferenced.\<close>

primrec descend_excluding :: "nat \<Rightarrow> wm \<Rightarrow> con_id \<Rightarrow> con_id \<Rightarrow> con_id" where
  "descend_excluding 0 s excl c = c"
| "descend_excluding (Suc n) s excl c =
     (case foci s c of [] \<Rightarrow> c | x # _ \<Rightarrow> if x = excl then c else descend_excluding n s excl x)"

definition con_next_focused :: "wm \<Rightarrow> con_id \<Rightarrow> con_id option" where
  "con_next_focused s con =
     Option.bind (parent_of s con) (\<lambda>p0.
       if kind s p0 = CT_DOCKAREA
       then map_option (con_descend_focused s) (Option.bind (parent_of s p0) (output_get_content s))
       else
         let c = (if con_is_floating s con then p0 else con) in
         Option.bind (parent_of s c) (\<lambda>p.
         map_option (\<lambda>nxt.
             let nxt = descend_excluding (length (all_cons s)) s c nxt
             in if kind s c = CT_FLOATING_CON \<and> nxt \<noteq> p then con_descend_focused s nxt else nxt)
           (case foci s p of
              [] \<Rightarrow> None
            | x # _ \<Rightarrow> Some (if x \<noteq> c then x else (case tailq_next c (foci s p) of None \<Rightarrow> p | Some y \<Rightarrow> y)))))"

subsection \<open>What urgency and scrolling leave alone\<close>

text \<open>Neither the links nor the focus change.\<close>

definition quiet :: "wm \<Rightarrow> wm \<Rightarrow> bool" where
  "quiet s t \<longleftrightarrow> same_links s t \<and> focused t = focused s \<and> cfg t = cfg s \<and>
     (\<forall>c. layout_of t c = layout_of s c \<and> percent (store t c) = percent (store s c) \<and>
        fullscreen_mode (store t c) = fullscreen_mode (store s c) \<and>
        floating (store t c) = floating (store s c) \<and> marks_head (store t c) = marks_head (store s c) \<and>
        num (store t c) = num (store s c) \<and> cname (store t c) = cname (store s c))"

lemma quiet_refl [simp]: "quiet s s"
  by (simp add: quiet_def)

lemma quiet_trans [trans]: "quiet s t \<Longrightarrow> quiet t u \<Longrightarrow> quiet s u"
  by (simp add: quiet_def same_links_def)

lemma quiet_upd:
  "(\<And>k. parent (f k) = parent k \<and> ctype (f k) = ctype k \<and> nodes_head (f k) = nodes_head k \<and>
     floating_head (f k) = floating_head k \<and> focus_head (f k) = focus_head k \<and> layout (f k) = layout k \<and>
     percent (f k) = percent k \<and> fullscreen_mode (f k) = fullscreen_mode k \<and> floating (f k) = floating k \<and>
     marks_head (f k) = marks_head k \<and> num (f k) = num k \<and> cname (f k) = cname k) \<Longrightarrow>
   quiet s (upd_con c f s)"
  by (auto simp: quiet_def same_links_def)

lemma quiet_urgent [simp]:
  "quiet s (upd_con c (\<lambda>k. k\<lparr>urgent := f k\<rparr>) s)"
  "quiet s (upd_con c (\<lambda>k. k\<lparr>window := g k\<rparr>) s)"
  "quiet s (upd_con c (\<lambda>k. k\<lparr>scroll_offset := h k\<rparr>) s)"
  "quiet s (ipc_send e s)" "quiet s (abort s)"
  "quiet s (s\<lparr>anim := x, scroll_anim := y\<rparr>)" "quiet s (s\<lparr>scroll_anim := y\<rparr>)" "quiet s (s\<lparr>anim := x\<rparr>)"
  by (auto intro!: quiet_upd simp: quiet_def same_links_def)

lemma only_geometry_more:
  assumes "only_geometry s t"
  shows "num (store t c) = num (store s c)" "cname (store t c) = cname (store s c)"
proof -
  have e: "shapeless (store t c) = shapeless (store s c)" using assms by (simp add: only_geometry_def)
  show "num (store t c) = num (store s c)" "cname (store t c) = cname (store s c)"
    using arg_cong [OF e, of num] arg_cong [OF e, of cname] by (simp_all add: shapeless_def)
qed

lemma only_geometry_quiet: "only_geometry s t \<Longrightarrow> quiet s t"
  by (simp add: quiet_def only_geometry_same_links only_geometry_fields only_geometry_state only_geometry_more)

lemma quiet_links: "quiet s t \<Longrightarrow> same_links s t" by (simp add: quiet_def)

lemma quiet_fields:
  "quiet s t \<Longrightarrow> layout_of t c = layout_of s c" "quiet s t \<Longrightarrow> focused t = focused s"
  "quiet s t \<Longrightarrow> parent_of t c = parent_of s c" "quiet s t \<Longrightarrow> kind t c = kind s c"
  "quiet s t \<Longrightarrow> nodes t c = nodes s c" "quiet s t \<Longrightarrow> floats t c = floats s c"
  "quiet s t \<Longrightarrow> foci t c = foci s c" "quiet s t \<Longrightarrow> all_cons t = all_cons s"
  by (simp_all add: quiet_def same_links_def)

lemma scroll_to_offset_quiet: "quiet s (scroll_to_offset c target s)"
proof -
  have R: "quiet s (tree_render t)" if "quiet s t" for t
    by (rule quiet_trans [OF that only_geometry_quiet [OF tree_render_geo]])
  have E: "quiet s (t\<lparr>scroll_anim := y\<rparr>)" "quiet s (t\<lparr>anim := x\<rparr>)"
    "quiet s (upd_con d (\<lambda>k. k\<lparr>scroll_offset := h k\<rparr>) t)" if "quiet s t" for t x y h d
    using quiet_trans [OF that] by simp_all
  have C: "quiet s (scroll_step p e t)" "quiet s (scroll_done t)" if "quiet s t" for p e t
    unfolding scroll_step_def scroll_done_def Let_def using that
    by (auto split: option.split intro!: R E)
  define s1 where "s1 = (if sa_anim_id (scroll_anim s) > 0
      then s\<lparr>anim := aiwr_anim_cancel (sa_anim_id (scroll_anim s)) (anim s),
             scroll_anim := (scroll_anim s)\<lparr>sa_anim_id := 0, sa_con := None\<rparr>\<rparr> else s)"
  have q1: "quiet s s1" by (simp add: s1_def)
  define s2 where "s2 = s1\<lparr>scroll_anim := \<lparr>sa_con = Some c, sa_from = scroll_offset (store s c), sa_to = target,
                       sa_anim_id = sa_anim_id (scroll_anim s1)\<rparr>\<rparr>"
  have q2: "quiet s s2" unfolding s2_def by (rule E(1) [OF q1])
  obtain i u where a: "aiwr_anim_start (real_of_int (cfg_scroll_duration_ms (cfg s2))) (cfg_scroll_curve (cfg s2))
      scroll_step scroll_done s2 = (i, u)"
    by fastforce
  then have qu: "quiet s u"
    using q2 E(2) [OF q2] C(2) [OF C(1) [OF q2]]
    by (auto simp: aiwr_anim_start_def Let_def split: if_splits prod.splits)
  show ?thesis unfolding scroll_to_offset_def Let_def s1_def [symmetric] s2_def [symmetric] a prod.case
    using E(3) [OF q1] E(1) [OF qu] by (auto intro!: R E(3) E(1) qu)
qed

lemma scrolling_on_focus_quiet: "quiet s (scrolling_on_focus c s)"
  by (auto simp: scrolling_on_focus_def scrolling_reveal_def Let_def scroll_to_offset_quiet split: option.splits prod.splits)

lemma workspace_update_urgent_flag_quiet: "quiet s (workspace_update_urgent_flag ws s)"
  by (auto simp: workspace_update_urgent_flag_def Let_def intro: quiet_trans [OF quiet_urgent(1) quiet_urgent(4)])

lemma con_update_parents_urgency_quiet: "quiet s (con_update_parents_urgency c s)"
proof -
  have "quiet s (fold (\<lambda>p s. if b then upd_con p (\<lambda>k. k\<lparr>urgent := True\<rparr>) s
      else if \<not> con_has_urgent_child s p then upd_con p (\<lambda>k. k\<lparr>urgent := False\<rparr>) s else s) ps s)" for b ps
    by (rule fold_upd_frame [where P = quiet]) (auto intro: quiet_trans)
  then show ?thesis by (simp add: con_update_parents_urgency_def Let_def)
qed

lemma con_set_urgency_quiet: "quiet s (con_set_urgency c u s)"
proof -
  define s1 where "s1 = (if \<not> urgency_timer (store s c) then upd_con c (\<lambda>k. k\<lparr>urgent := u\<rparr>) s else s)"
  define s2 where "s2 = con_update_parents_urgency c
    (upd_con c (\<lambda>k. k\<lparr>window := map_option (window_urgent_time (urgent k) (wall_clock s1)) (window k)\<rparr>) s1)"
  define s3 where "s3 = (case con_get_workspace s2 c of None \<Rightarrow> s2 | Some ws \<Rightarrow> workspace_update_urgent_flag ws s2)"
  have "quiet s s1" by (simp add: s1_def)
  also have "quiet s1 s2" unfolding s2_def by (rule quiet_trans [OF quiet_urgent(2) con_update_parents_urgency_quiet])
  also have "quiet s2 s3" by (simp add: s3_def workspace_update_urgent_flag_quiet split: option.split)
  finally have "quiet s s3" .
  then show ?thesis
    unfolding con_set_urgency_def Let_def s1_def [symmetric] s2_def [symmetric] s3_def [symmetric]
    using quiet_trans [OF _ quiet_urgent(4)] by auto
qed

lemma focus_finish_effect: "quiet (s\<lparr>focused := Some c\<rparr>) (focus_finish c s)"
proof -
  let ?s = "s\<lparr>focused := Some c\<rparr>"
  have "quiet ?s (con_update_parents_urgency c (con_set_urgency c False ?s))" (is "quiet ?s ?t")
    by (rule quiet_trans [OF con_set_urgency_quiet con_update_parents_urgency_quiet])
  moreover have "quiet ?t (ipc_send e (case con_get_workspace ?t c of None \<Rightarrow> abort ?t
      | Some ws \<Rightarrow> workspace_update_urgent_flag ws ?t))" for e
    by (cases "con_get_workspace ?t c")
      (auto intro: quiet_trans [OF quiet_urgent(5) quiet_urgent(4)]
        quiet_trans [OF workspace_update_urgent_flag_quiet quiet_urgent(4)])
  ultimately have "quiet ?s (ipc_send e (case con_get_workspace ?t c of None \<Rightarrow> abort ?t
      | Some ws \<Rightarrow> workspace_update_urgent_flag ws ?t))" for e by (rule quiet_trans)
  then show ?thesis unfolding focus_finish_def Let_def
    by (auto intro: scrolling_on_focus_quiet quiet_trans [OF _ scrolling_on_focus_quiet])
qed

subsection \<open>What \<open>con_focus\<close> does\<close>

fun is_chain :: "wm \<Rightarrow> con_id list \<Rightarrow> bool" where
  "is_chain s [] = True"
| "is_chain s (c # cs) =
     ((case parent_of s c of None \<Rightarrow> cs = [] | Some p \<Rightarrow> \<exists>ds. cs = p # ds) \<and> is_chain s cs)"

lemma ancestors_chain:
  assumes ok: "tree_ok s" and c: "c \<in> set (all_cons s)"
  shows "is_chain s (ancestors s c)" and "distinct (ancestors s c)"
proof -
  have "is_chain s (ancestors s c) \<and> distinct (ancestors s c)"
  proof (rule up.walk_induct [OF ok c])
    fix c
    assume c: "c \<in> set (all_cons s)" and IH: "\<And>d. d \<in> set (case parent_of s c of None \<Rightarrow> []
      | Some p \<Rightarrow> [p]) \<Longrightarrow> is_chain s (ancestors s d) \<and> distinct (ancestors s d)"
    show "is_chain s (ancestors s c) \<and> distinct (ancestors s c)"
    proof (cases "parent_of s c")
      case None
      then show ?thesis by (simp add: ancestors_unfold [OF ok c])
    next
      case (Some p)
      have p: "p \<in> set (all_cons s)" using tree_okD(11) [OF ok c Some] .
      have "\<exists>ds. ancestors s p = p # ds" using ancestors_unfold [OF ok p] by simp
      then show ?thesis using IH [of p] Some parent_not_below [OF ok c Some]
        by (simp add: ancestors_unfold [OF ok c])
    qed
  qed
  then show "is_chain s (ancestors s c)" and "distinct (ancestors s c)" by blast+
qed

lemma is_chain_cong: "(\<And>d. parent_of t d = parent_of s d) \<Longrightarrow> is_chain t cs = is_chain s cs"
  by (induction cs) (simp_all split: option.splits)

lemma focus_first_fields [simp]:
  "all_cons (focus_first c p s) = all_cons s" "next_id (focus_first c p s) = next_id s"
  "croot (focus_first c p s) = croot s"
  "parent_of (focus_first c p s) d = parent_of s d" "kind (focus_first c p s) d = kind s d"
  "nodes (focus_first c p s) d = nodes s d" "floats (focus_first c p s) d = floats s d"
  "layout_of (focus_first c p s) d = layout_of s d"
  "fullscreen_mode (store (focus_first c p s) d) = fullscreen_mode (store s d)"
  "percent (store (focus_first c p s) d) = percent (store s d)"
  "foci (focus_first c p s) d = (if d = p then c # remove1 c (foci s p) else foci s d)"
  by (simp_all add: focus_first_def)

lemma focus_finish_fields [simp]:
  "all_cons (focus_finish c s) = all_cons s" "next_id (focus_finish c s) = next_id s"
  "croot (focus_finish c s) = croot s" "focused (focus_finish c s) = Some c"
  "parent_of (focus_finish c s) d = parent_of s d" "kind (focus_finish c s) d = kind s d"
  "nodes (focus_finish c s) d = nodes s d" "floats (focus_finish c s) d = floats s d"
  "layout_of (focus_finish c s) d = layout_of s d"
  "fullscreen_mode (store (focus_finish c s) d) = fullscreen_mode (store s d)"
  "percent (store (focus_finish c s) d) = percent (store s d)"
  "foci (focus_finish c s) d = foci s d"
  using focus_finish_effect [of c s] by (simp_all add: quiet_def same_links_def)

lemma focus_path_frame:
  fixes cs s defines "t \<equiv> focus_path cs s"
  shows "all_cons t = all_cons s \<and> next_id t = next_id s \<and> croot t = croot s \<and>
    (\<forall>d. parent_of t d = parent_of s d \<and> kind t d = kind s d \<and> nodes t d = nodes s d \<and>
      floats t d = floats s d \<and> layout_of t d = layout_of s d \<and> percent (store t d) = percent (store s d) \<and>
      fullscreen_mode (store t d) = fullscreen_mode (store s d))"
  unfolding t_def
proof (induction cs arbitrary: s)
  case (Cons c cs)
  show ?case
  proof (cases "parent_of s c")
    case (Some p)
    show ?thesis using Cons.IH [of "focus_first c p s"] by (simp add: Some Let_def)
  qed simp
qed simp

lemma focus_path_foci:
  assumes "is_chain s (c # cs)" and "distinct (c # cs)"
  shows "(\<forall>x \<in> set (c # cs). \<forall>p. parent_of s x = Some p \<longrightarrow>
      foci (focus_path (c # cs) s) p = x # remove1 x (foci s p)) \<and>
    (\<forall>d. d \<notin> set cs \<longrightarrow> foci (focus_path (c # cs) s) d = foci s d)"
  using assms
proof (induction cs arbitrary: c s)
  case Nil
  then show ?case by (cases "parent_of s c") simp_all
next
  case (Cons p ds)
  then have p: "parent_of s c = Some p" by (cases "parent_of s c") auto
  let ?s = "focus_first c p s"
  have chain: "is_chain ?s (p # ds)" using Cons.prems(1) is_chain_cong [of ?s s] by simp
  have d: "distinct (p # ds)" using Cons.prems(2) by simp
  show ?case
  proof (cases "parent_of s p")
    case None
    then have "ds = []" using Cons.prems(1) by simp
    then show ?thesis using p None by (simp add: Let_def)
  next
    case (Some q)
    note IH = Cons.IH [OF chain d]
    have t: "foci (focus_path (c # p # ds) s) x = foci (focus_path (p # ds) ?s) x" for x
      using p Some by (simp add: Let_def)
    have up: "q \<in> set ds" if "x \<in> set (p # ds)" "parent_of s x = Some q" for x q
    proof -
      have "parent_of s x = Some q \<Longrightarrow> x \<in> set xs \<Longrightarrow> is_chain s xs \<Longrightarrow> q \<in> set (tl xs)" for xs
      proof (induction xs)
        case (Cons y ys)
        show ?case
        proof (cases "x = y")
          case True
          then show ?thesis using Cons.prems by auto
        next
          case False
          then have "q \<in> set (tl ys)" using Cons by simp
          then show ?thesis by (cases ys) auto
        qed
      qed simp
      from this [of "p # ds"] that Cons.prems(1) show ?thesis by simp
    qed
    have notp: "p \<notin> set ds" using d by simp
    show ?thesis
    proof (intro conjI ballI allI impI)
      fix x q assume x: "x \<in> set (c # p # ds)" and q: "parent_of s x = Some q"
      show "foci (focus_path (c # p # ds) s) q = x # remove1 x (foci s q)"
      proof (cases "x = c")
        case True
        then have "q = p" using p q by simp
        then show ?thesis using IH notp True unfolding t by (simp del: focus_path.simps)
      next
        case False
        then have x': "x \<in> set (p # ds)" using x by simp
        then have "q \<noteq> p" using up [OF x' q] notp by blast
        then show ?thesis using IH x' q unfolding t by (auto simp del: focus_path.simps)
      qed
    next
      fix e assume "e \<notin> set (p # ds)"
      then show "foci (focus_path (c # p # ds) s) e = foci s e" using IH unfolding t by (simp del: focus_path.simps)
    qed
  qed
qed

text \<open>A container linked in the focus stacks all the way up; for the others TAILQ_REMOVE is
  undefined.\<close>

definition focusable :: "wm \<Rightarrow> con_id \<Rightarrow> bool" where
  "focusable s c \<longleftrightarrow> parent_of s c \<noteq> None \<and>
     (\<forall>x \<in> set (ancestors s c). \<forall>p. parent_of s x = Some p \<longrightarrow> x \<in> set (children s p))"

lemma con_focus_foci:
  assumes ok: "tree_ok s" and c: "c \<in> set (all_cons s)"
  shows "x \<in> set (ancestors s c) \<Longrightarrow> parent_of s x = Some p \<Longrightarrow>
      foci (con_focus c s) p = x # remove1 x (foci s p)"
    and "d \<notin> set (tl (ancestors s c)) \<Longrightarrow> foci (con_focus c s) d = foci s d"
proof -
  obtain cs where a: "ancestors s c = c # cs" using ancestors_unfold [OF ok c] by simp
  note F = focus_path_foci [OF ancestors_chain [OF ok c, unfolded a]]
  show "x \<in> set (ancestors s c) \<Longrightarrow> parent_of s x = Some p \<Longrightarrow>
      foci (con_focus c s) p = x # remove1 x (foci s p)"
    using F unfolding con_focus_def a by blast
  show "d \<notin> set (tl (ancestors s c)) \<Longrightarrow> foci (con_focus c s) d = foci s d"
    using F unfolding con_focus_def a by simp
qed

lemma con_focus_focused:
  assumes ok: "tree_ok s" and c: "c \<in> set (all_cons s)" and p: "parent_of s c \<noteq> None"
  shows "focused (con_focus c s) = Some c"
proof -
  obtain cs where a: "ancestors s c = c # cs" using ancestors_unfold [OF ok c] by simp
  show ?thesis using p by (auto simp: con_focus_def a Let_def)
qed

lemma con_focus_frame:
  "all_cons (con_focus c s) = all_cons s" "croot (con_focus c s) = croot s"
  "parent_of (con_focus c s) d = parent_of s d" "kind (con_focus c s) d = kind s d"
  "nodes (con_focus c s) d = nodes s d" "floats (con_focus c s) d = floats s d"
  "layout_of (con_focus c s) d = layout_of s d" "next_id (con_focus c s) = next_id s"
  "fullscreen_mode (store (con_focus c s) d) = fullscreen_mode (store s d)"
  "percent (store (con_focus c s) d) = percent (store s d)"
  using focus_path_frame [of "ancestors s c" s] by (simp_all add: con_focus_def)

text \<open>A parent has one child on the way up.\<close>

lemma chain_parent_in_tl:
  "is_chain s xs \<Longrightarrow> x \<in> set xs \<Longrightarrow> parent_of s x = Some p \<Longrightarrow> p \<in> set (tl xs)"
proof (induction xs)
  case (Cons y ys)
  show ?case
  proof (cases "x = y")
    case False
    then have "p \<in> set (tl ys)" using Cons by simp
    then show ?thesis by (cases ys) auto
  qed (use Cons in auto)
qed simp

lemma chain_child: "is_chain s xs \<Longrightarrow> d \<in> set (tl xs) \<Longrightarrow> \<exists>x \<in> set xs. parent_of s x = Some d"
proof (induction xs)
  case (Cons y ys)
  then show ?case by (cases ys) (auto split: option.splits)
qed simp

lemma con_focus_same_tree:
  assumes ok: "tree_ok s" and c: "c \<in> set (all_cons s)" and f: "focusable s c"
  shows "same_tree s (con_focus c s)"
proof -
  have "mset (foci (con_focus c s) d) = mset (foci s d)" for d
  proof (cases "d \<in> set (tl (ancestors s c))")
    case True
    from chain_child [OF ancestors_chain(1) [OF ok c] True] obtain x where
      x: "x \<in> set (ancestors s c)" "parent_of s x = Some d" by blast
    have d: "d \<in> set (all_cons s)"
      using tree_okD(11) [OF ok _ x(2)] ancestors_alloc [OF ok c] x(1) by blast
    have "x \<in> set (foci s d)" using f x tree_okD(4) [OF ok d] by (simp add: focusable_def)
    then show ?thesis using con_focus_foci(1) [OF ok c x] by simp
  next
    case False
    then show ?thesis using con_focus_foci(2) [OF ok c] by simp
  qed
  then show ?thesis by (simp add: same_tree_def con_focus_frame)
qed

lemma floating_raise_same_tree:
  assumes "c \<in> set (floats s p)" and "parent_of s c = Some p"
  shows "same_tree s (floating_raise_con c s)"
  using assms by (simp add: same_tree_def floating_raise_con_def)

text \<open>Following the focus from any container above leads to the focused one.\<close>

lemma con_focus_descend:
  assumes ok: "tree_ok s" and c: "c \<in> set (all_cons s)" and f: "focusable s c"
    and a: "a \<in> set (ancestors s c)"
  shows "con_descend_focused (con_focus c s) a = c"
proof -
  let ?t = "con_focus c s"
  have st: "same_tree s ?t" by (rule con_focus_same_tree [OF ok c f])
  have okt: "tree_ok ?t" using ok same_tree_tree_ok [OF st] by simp
  have foc: "focused ?t = Some c" using f by (intro con_focus_focused [OF ok c]) (simp add: focusable_def)
  have step: "con_descend_focused ?t d = descend_step ?t (con_descend_focused ?t) d"
    if "d \<in> set (all_cons s)" for d
    unfolding con_descend_focused_def using that
    by (subst descent.unfold [OF okt]) (simp_all add: con_focus_frame)
  have "is_chain s xs \<Longrightarrow> set xs \<subseteq> set (ancestors s c) \<Longrightarrow> xs \<noteq> [] \<Longrightarrow> con_descend_focused ?t (hd xs) = c \<Longrightarrow>
      \<forall>a \<in> set xs. con_descend_focused ?t a = c" for xs
  proof (induction xs)
    case (Cons x xs)
    show ?case
    proof (cases xs)
      case (Cons p ys)
      then have p: "parent_of s x = Some p" using Cons.prems(1) by (auto split: option.splits)
      have x: "x \<in> set (ancestors s c)" and pin: "p \<in> set (ancestors s c)" using Cons.prems(2) Cons by auto
      have pa: "p \<in> set (all_cons s)" using pin ancestors_alloc [OF ok c] by blast
      have "foci ?t p = x # remove1 x (foci s p)" by (rule con_focus_foci(1) [OF ok c x p])
      then have "con_descend_focused ?t p = c"
        using step [OF pa] Cons.prems(4) foc by (simp add: descend_step_def)
      then show ?thesis using Cons.IH Cons.prems Cons by auto
    qed (use Cons.prems in simp)
  qed simp
  moreover have "ancestors s c \<noteq> []" "hd (ancestors s c) = c" using ancestors_unfold [OF ok c] by simp_all
  moreover have "con_descend_focused ?t c = c" using step [OF c] foc by (simp add: descend_step_def)
  ultimately show ?thesis using ancestors_chain(1) [OF ok c] a by auto
qed

subsection \<open>Urgency of the parents\<close>

definition urgency_path :: "wm \<Rightarrow> con_id \<Rightarrow> con_id list" where
  "urgency_path s c =
     takeWhile (\<lambda>p. kind s p \<noteq> CT_WORKSPACE \<and> kind s p \<noteq> CT_DOCKAREA) (tl (ancestors s c))"

lemma has_urgent_child_cong:
  assumes "same_links s t" and "\<And>x. nodes s x = [] \<Longrightarrow> urgent (store t x) = urgent (store s x)"
  shows "con_has_urgent_child t c = con_has_urgent_child s c"
proof -
  have "urgent_below n t c = urgent_below n s c" for n
    using assms by (induction n arbitrary: c) (simp_all add: same_links_def con_is_leaf_def)
  then show ?thesis using assms(1) by (simp add: con_has_urgent_child_def same_links_def)
qed

lemma urgency_fold:
  fixes v :: bool and ps :: "con_id list"
  assumes "\<forall>p \<in> set ps. nodes s p \<noteq> []"
  defines "t \<equiv> fold (\<lambda>p s. if v then upd_con p (\<lambda>k. k\<lparr>urgent := True\<rparr>) s
      else if \<not> con_has_urgent_child s p then upd_con p (\<lambda>k. k\<lparr>urgent := False\<rparr>) s else s) ps s"
  shows "urgent (store t d) = (if d \<notin> set ps then urgent (store s d)
      else v \<or> (con_has_urgent_child s d \<and> urgent (store s d))) \<and>
    con_has_urgent_child t d = con_has_urgent_child s d"
  using assms(1) unfolding t_def
proof (induction ps arbitrary: s)
  case (Cons p ps)
  let ?s = "if v then upd_con p (\<lambda>k. k\<lparr>urgent := True\<rparr>) s
      else if \<not> con_has_urgent_child s p then upd_con p (\<lambda>k. k\<lparr>urgent := False\<rparr>) s else s"
  have q: "same_links s ?s" by (rule quiet_links) auto
  have has: "con_has_urgent_child ?s x = con_has_urgent_child s x" for x
    by (rule has_urgent_child_cong [OF q]) (use Cons.prems in auto)
  have prems: "\<forall>p \<in> set ps. nodes ?s p \<noteq> []" using Cons.prems q by (simp add: same_links_def)
  have u: "urgent (store ?s d) = (if d \<noteq> p then urgent (store s d)
      else v \<or> (con_has_urgent_child s d \<and> urgent (store s d)))" for d by simp
  show ?case unfolding fold_Cons o_apply using Cons.IH [OF prems] has u by auto
qed simp

lemma con_update_parents_urgency_exact:
  assumes ok: "tree_ok s" and c: "c \<in> set (all_cons s)" and leaf: "con_is_leaf s c"
    and kc: "kind s c \<noteq> CT_WORKSPACE"
    and linked: "\<forall>x \<in> set (ancestors s c). \<forall>p \<in> set (urgency_path s c). parent_of s x = Some p \<longrightarrow> x \<in> set (nodes s p)"
    and old: "\<forall>p \<in> set (urgency_path s c). con_has_urgent_child s p \<longrightarrow> urgent (store s p)"
    and p: "p \<in> set (urgency_path s c)"
  defines "t \<equiv> con_update_parents_urgency c s"
  shows "urgent (store t p) \<longleftrightarrow> con_has_urgent_child t p"
proof -
  have inpath: "q \<in> set (tl (ancestors s c))" if "q \<in> set (urgency_path s c)" for q
    using that unfolding urgency_path_def by (rule set_takeWhileD [THEN conjunct1])
  have t: "t = fold (\<lambda>p s. if urgent (store s0 c) then upd_con p (\<lambda>k. k\<lparr>urgent := True\<rparr>) s
      else if \<not> con_has_urgent_child s p then upd_con p (\<lambda>k. k\<lparr>urgent := False\<rparr>) s else s)
      (urgency_path s0 c) s0" if "s0 = s" for s0
    using kc that by (simp add: t_def con_update_parents_urgency_def urgency_path_def Let_def)
  have kids: "\<exists>x \<in> set (ancestors s c). x \<in> set (nodes s q)" if "q \<in> set (urgency_path s c)" for q
    using chain_child [OF ancestors_chain(1) [OF ok c] inpath [OF that]] linked that by blast
  then have ne: "\<forall>q \<in> set (urgency_path s c). nodes s q \<noteq> []" by fastforce
  note F = urgency_fold [OF ne, of "urgent (store s c)" p, folded t [OF refl]]
  have "con_has_urgent_child s p" if "urgent (store s c)"
  proof -
    have below: "c \<in> set (tiling_subtree s q)" if "q \<in> set (ys @ [z])" "ancestors s c = c # ys @ z # zs"
      "set (ys @ [z]) \<subseteq> set (urgency_path s c)" for q ys z zs
      using that
    proof (induction ys arbitrary: q z zs rule: rev_induct)
      case Nil
      then have "parent_of s c = Some z" using ancestors_chain(1) [OF ok c] by (auto split: option.splits)
      then have "c \<in> set (nodes s z)" using linked Nil self_in_ancestors [OF ok c] by auto
      moreover have "z \<in> set (all_cons s)" using Nil(2) ancestors_alloc [OF ok c] by auto
      moreover have "c \<in> set (tiling_subtree s c)" unfolding set_tiling_subtree_unfold [OF ok c] by blast
      ultimately show ?case using Nil(1) set_tiling_subtree_unfold [OF ok, of z] by auto
    next
      case (snoc y ys)
      have eq: "ancestors s c = c # ys @ y # (z # zs)" using snoc.prems(2) by simp
      have sub: "set (ys @ [y]) \<subseteq> set (urgency_path s c)" using snoc.prems(3) by auto
      have IH: "c \<in> set (tiling_subtree s q)" if "q \<in> set (ys @ [y])" for q
        using snoc.IH [OF that eq sub] .
      have al: "z \<in> set (all_cons s)" using snoc.prems(2) ancestors_alloc [OF ok c] by auto
      have "is_chain s (us @ y # z # zs) \<Longrightarrow> parent_of s y = Some z" for us
        by (induction us) (auto split: option.splits)
      from this [of "c # ys"] have "parent_of s y = Some z"
        using ancestors_chain(1) [OF ok c] unfolding eq by simp
      then have "y \<in> set (nodes s z)" using linked snoc.prems by auto
      then have "c \<in> set (tiling_subtree s z)"
        using IH [of y] set_tiling_subtree_unfold [OF ok al] by auto
      then show ?case using IH snoc.prems(1) by auto
    qed
    obtain ps where a: "ancestors s c = c # ps" using ancestors_unfold [OF ok c] by simp
    obtain rest where ps: "ps = urgency_path s c @ rest"
      unfolding urgency_path_def a list.sel by (metis takeWhile_dropWhile_id)
    obtain us z where "urgency_path s c = us @ [z]" using p by (metis empty_iff list.set(1) rev_exhaust)
    then have "c \<in> set (tiling_subtree s p)" using below [of p us z rest] a ps p by simp
    moreover have "p \<in> set (all_cons s)"
      using inpath [OF p] ancestors_alloc [OF ok c] a by auto
    ultimately show ?thesis using con_has_urgent_child_iff [OF ok] leaf that by blast
  qed
  then show ?thesis using F p old by auto
qed

end
