(* ===== verification/Con_Forest.thy ===== *)
theory Con_Forest
  imports Con_Focus
begin

text \<open>
  The container tree seen from above: a partial map from a container to the one that holds it.
  \<open>con_detach\<close> and \<open>con_attach\<close> implement cutting and grafting on this map; what the operations that
  move several containers do to it follows once, in a locale. The second half states when a state
  is a tree of the program (\<open>rooted\<close>) and what it means that containers were removed (\<open>pruned\<close>).
\<close>

subsection \<open>The abstract forest\<close>

type_synonym forest = "con_id \<Rightarrow> con_id option"

definition hangs :: "wm \<Rightarrow> forest" where
  "hangs s c =
     (case parent_of s c of
        None \<Rightarrow> None
      | Some p \<Rightarrow> if p \<in> set (all_cons s) \<and> c \<in> set (children s p) then Some p else None)"

text \<open>A container can be moved below \<open>q\<close>: both are allocated, \<open>q\<close> is not inside it, and \<open>q\<close> takes every
  container as it is (no workspace with a layout of its own, no dock area).\<close>

definition fits :: "wm \<Rightarrow> con_id \<Rightarrow> con_id \<Rightarrow> bool" where
  "fits s c q \<longleftrightarrow> tree_ok s \<and> c \<in> set (all_cons s) \<and> q \<in> set (all_cons s) \<and>
     c \<notin> set (ancestors s q) \<and> kind s q \<noteq> CT_WORKSPACE \<and> kind s q \<noteq> CT_DOCKAREA"

locale forest_ops =
  fixes hang :: "'s \<Rightarrow> 'c \<Rightarrow> 'c option"
    and cut :: "'c \<Rightarrow> 's \<Rightarrow> 's"
    and graft :: "'c \<Rightarrow> 'c \<Rightarrow> 's \<Rightarrow> 's"
    and inv :: "'s \<Rightarrow> bool"
    and fit :: "'s \<Rightarrow> 'c \<Rightarrow> 'c \<Rightarrow> bool"
  assumes move_inv: "fit s c q \<Longrightarrow> inv (graft c q (cut c s))"
    and move_hang: "fit s c q \<Longrightarrow> hang (graft c q (cut c s)) = (hang s)(c \<mapsto> q)"
    and move_fit: "fit s c q \<Longrightarrow> fit s d q \<Longrightarrow> fit (graft c q (cut c s)) d q"
begin

definition move :: "'c \<Rightarrow> 'c \<Rightarrow> 's \<Rightarrow> 's" where
  "move q c s = graft c q (cut c s)"

definition adopt :: "'c \<Rightarrow> 'c list \<Rightarrow> 's \<Rightarrow> 's" where
  "adopt q cs s = fold (move q) cs s"

lemma adopt_fit:
  "\<forall>c \<in> set cs. fit s c q \<Longrightarrow> fit s d q \<Longrightarrow> fit (adopt q cs s) d q"
  by (induction cs arbitrary: s) (auto simp: adopt_def move_def move_fit)

lemma adopt_hang:
  "\<forall>c \<in> set cs. fit s c q \<Longrightarrow> hang (adopt q cs s) = (\<lambda>c. if c \<in> set cs then Some q else hang s c)"
proof (induction cs arbitrary: s)
  case (Cons c cs)
  have "\<forall>d \<in> set cs. fit (move q c s) d q" using Cons.prems by (auto simp: move_def move_fit)
  from Cons.IH [OF this] show ?case using Cons.prems by (auto simp: adopt_def move_def move_hang)
qed (simp add: adopt_def)

lemma adopt_inv:
  assumes "\<forall>c \<in> set cs. fit s c q" and "cs \<noteq> []"
  shows "inv (adopt q cs s)"
proof -
  from assms(2) obtain cs' c where cs: "cs = cs' @ [c]" by (metis rev_exhaust)
  have "fit (adopt q cs' s) c q" using assms(1) cs by (intro adopt_fit) auto
  then show ?thesis using move_inv by (simp add: adopt_def cs move_def)
qed

end

text \<open>Cutting and grafting in the concrete tree.\<close>

lemma hangs_detach:
  assumes ok: "tree_ok s" and c: "c \<in> set (all_cons s)"
  shows "hangs (con_detach c s) = (hangs s)(c := None)"
proof
  fix d
  show "hangs (con_detach c s) d = ((hangs s)(c := None)) d"
  proof (cases "d = c")
    case True
    have "unlinked (con_detach c s) c" by (rule con_detach_unlinked [OF ok c])
    then show ?thesis using True by (auto simp: hangs_def unlinked_def split: option.split)
  next
    case False
    have "d \<in> set (children (con_detach c s) p) \<longleftrightarrow> d \<in> set (children s p)" for p
    proof (cases "parent_of s c")
      case (Some q)
      from con_detach_left [OF this] show ?thesis using False
        by (cases "p = q"; cases "kind s c = CT_FLOATING_CON") (auto simp: left_def)
    qed (simp add: con_detach_def)
    then show ?thesis using False by (simp add: hangs_def del: set_append split: option.split)
  qed
qed

lemma entered_hangs:
  assumes e: "entered s t c p" and p: "p \<in> set (all_cons s)"
  shows "hangs t = (hangs s)(c \<mapsto> p)"
proof
  fix d
  show "hangs t d = ((hangs s)(c \<mapsto> p)) d"
  proof (cases "d = c")
    case True
    then show ?thesis using entered_linked [OF e] e p by (simp add: hangs_def entered_def)
  next
    case False
    have "set (nodes t p) \<subseteq> insert c (set (nodes s p)) \<and> set (nodes s p) \<subseteq> set (nodes t p) \<and>
        set (floats t p) \<subseteq> insert c (set (floats s p)) \<and> set (floats s p) \<subseteq> set (floats t p)"
      using e mset_insert_facts(1) [of "nodes t p" c "nodes s p"] mset_insert_facts(1) [of "floats t p" c "floats s p"]
      by (cases "kind s c = CT_FLOATING_CON") (auto simp: entered_def)
    then have "d \<in> set (children t q) \<longleftrightarrow> d \<in> set (children s q)" for q
      using e False by (cases "q = p") (auto simp: entered_def)
    then show ?thesis using False e by (simp add: hangs_def entered_def del: set_append split: option.split)
  qed
qed

lemma detach_ancestors:
  assumes "tree_ok s" and "c \<in> set (all_cons s)" and "d \<in> set (all_cons s)"
  shows "ancestors (con_detach c s) d = ancestors s d"
  using con_detach_tree_ok [OF assms(1,2)] assms by (intro ancestors_cong) auto

lemma entered_ancestors:
  assumes ok: "tree_ok s" and okt: "tree_ok t" and e: "entered s t c p" and d: "d \<in> set (all_cons s)"
    and c: "c \<notin> set (ancestors s d)"
  shows "ancestors t d = ancestors s d"
  using e c by (intro ancestors_cong [OF ok okt _ d]) (auto simp: entered_def)

lemma fits_can_attach:
  assumes "fits s c q"
  shows "can_attach (con_detach c s) c q" and "\<not> redirected (con_detach c s) c q"
    and "good_previous (con_detach c s) q None"
  using assms con_detach_tree_ok [of s c] con_detach_unlinked [of s c] detach_ancestors [of s c q]
  by (auto simp: fits_def can_attach_def redirected_def good_previous_def)

lemma fits_entered:
  assumes "fits s c q"
  shows "entered (con_detach c s) (con_attach c q ig (con_detach c s)) c q"
  unfolding con_attach_def con_attach_at_def
  using fits_can_attach [OF assms] by (intro con_attach_with_entered) auto

lemma fits_tree_ok:
  assumes "fits s c q"
  shows "tree_ok (con_attach c q ig (con_detach c s))"
  unfolding con_attach_def con_attach_at_def
  using fits_can_attach [OF assms] by (intro con_attach_direct_tree_ok) auto

interpretation moving: forest_ops hangs con_detach "\<lambda>c q. con_attach c q ig" tree_ok fits for ig
proof
  fix s c q
  assume f: "fits s c q"
  show "tree_ok (con_attach c q ig (con_detach c s))" by (rule fits_tree_ok [OF f])
  show "hangs (con_attach c q ig (con_detach c s)) = (hangs s)(c \<mapsto> q)"
    using entered_hangs [OF fits_entered [OF f]] hangs_detach [of s c] f
    by (auto simp: fits_def)
next
  fix s c q d
  assume f: "fits s c q" and g: "fits s d q"
  let ?s = "con_detach c s" and ?t = "con_attach c q ig (con_detach c s)"
  have e: "entered ?s ?t c q" by (rule fits_entered [OF f])
  have ok: "tree_ok ?s" using f con_detach_tree_ok by (auto simp: fits_def)
  have an: "ancestors ?s q = ancestors s q" using f by (intro detach_ancestors) (auto simp: fits_def)
  have "ancestors ?t q = ancestors s q"
    using entered_ancestors [OF ok fits_tree_ok [OF f] e, of q] f an by (simp add: fits_def)
  then show "fits ?t d q" using f g e fits_tree_ok [OF f] by (simp add: fits_def entered_def)
qed

end
