(* ===== verification/Tree_Prune.thy ===== *)
theory Tree_Prune
  imports Con_Forest
begin

text \<open>
  What closing containers relies on and what it leaves: \<open>rooted\<close> states that every allocated container
  hangs in the tree below the root, and \<open>pruned\<close> that a set of containers was removed with every
  pointer to them. The next focus that \<open>con_next_focused\<close> chooses survives the removal.
\<close>

subsection \<open>A tree of the program\<close>

definition rooted :: "wm \<Rightarrow> bool" where
  "rooted s \<longleftrightarrow> tree_ok s \<and> croot s \<in> set (all_cons s) \<and> parent_of s (croot s) = None \<and>
     kind s (croot s) = CT_ROOT \<and>
     (\<forall>c \<in> set (all_cons s). c \<noteq> croot s \<longrightarrow> (\<exists>p. parent_of s c = Some p \<and> c \<in> set (children s p))) \<and>
     (\<forall>c \<in> set (all_cons s). con_is_floating s c \<longrightarrow> kind s c = CT_CON \<and>
        (\<exists>p. parent_of s c = Some p \<and> kind s p = CT_FLOATING_CON)) \<and>
     (\<forall>c \<in> set (all_cons s). floats s c \<noteq> [] \<longrightarrow> kind s c = CT_WORKSPACE) \<and>
     (\<forall>c \<in> set (all_cons s). parent_of s c = Some (croot s) \<longrightarrow> kind s c = CT_OUTPUT) \<and>
     (\<forall>c \<in> set (all_cons s). \<forall>p. parent_of s c = Some p \<longrightarrow> kind s p = CT_DOCKAREA \<longrightarrow> children s c = [])"

lemma rootedD:
  assumes "rooted s"
  shows "tree_ok s" "croot s \<in> set (all_cons s)" "parent_of s (croot s) = None" "kind s (croot s) = CT_ROOT"
    and "c \<in> set (all_cons s) \<Longrightarrow> c \<noteq> croot s \<Longrightarrow> \<exists>p. parent_of s c = Some p \<and> c \<in> set (children s p)"
    and "c \<in> set (all_cons s) \<Longrightarrow> con_is_floating s c \<Longrightarrow> \<exists>p. parent_of s c = Some p \<and> kind s p = CT_FLOATING_CON"
    and "c \<in> set (all_cons s) \<Longrightarrow> floats s c \<noteq> [] \<Longrightarrow> kind s c = CT_WORKSPACE"
    and "c \<in> set (all_cons s) \<Longrightarrow> parent_of s c = Some (croot s) \<Longrightarrow> kind s c = CT_OUTPUT"
    and "c \<in> set (all_cons s) \<Longrightarrow> parent_of s c = Some p \<Longrightarrow> kind s p = CT_DOCKAREA \<Longrightarrow> children s c = []"
    and "c \<in> set (all_cons s) \<Longrightarrow> con_is_floating s c \<Longrightarrow> kind s c = CT_CON"
  using assms unfolding rooted_def by blast+

lemma rooted_linked:
  assumes "rooted s" and "c \<in> set (all_cons s)" and "parent_of s c = Some p"
  shows "c \<in> set (children s p)" and "p \<in> set (all_cons s)" and "c \<in> set (foci s p)"
proof -
  show p: "p \<in> set (all_cons s)" using tree_okD(11) [OF rootedD(1) [OF assms(1)] assms(2,3)] .
  have "c \<noteq> croot s" using rootedD(3) [OF assms(1)] assms(3) by auto
  then show "c \<in> set (children s p)" using rootedD(5) [OF assms(1,2)] assms(3) by auto
  then show "c \<in> set (foci s p)" using tree_okD(4) [OF rootedD(1) [OF assms(1)] p] by simp
qed

lemma rooted_floating_parent:
  assumes r: "rooted s" and c: "c \<in> set (all_cons s)" and k: "kind s c = CT_FLOATING_CON"
  shows "\<exists>p. parent_of s c = Some p \<and> c \<in> set (floats s p) \<and> kind s p = CT_WORKSPACE"
proof -
  have "c \<noteq> croot s" using rootedD(4) [OF r] k by auto
  then obtain p where p: "parent_of s c = Some p" using rootedD(5) [OF r c] by blast
  note L = rooted_linked [OF r c p]
  have "c \<in> set (floats s p)" using L(1) tree_okD(9) [OF rootedD(1) [OF r] L(2)] k by auto
  moreover from this have "kind s p = CT_WORKSPACE" using rootedD(7) [OF r L(2)] by (cases "floats s p") auto
  ultimately show ?thesis using p by blast
qed

lemma rooted_focusable:
  assumes r: "rooted s" and c: "c \<in> set (all_cons s)" and n: "c \<noteq> croot s"
  shows "focusable s c"
proof -
  have "x \<in> set (children s p)" if "x \<in> set (ancestors s c)" "parent_of s x = Some p" for x p
    using rooted_linked(1) [OF r _ that(2)] ancestors_alloc [OF rootedD(1) [OF r] c] that(1) by blast
  then show ?thesis using rootedD(5) [OF r c n] by (auto simp: focusable_def)
qed

subsection \<open>Removing containers\<close>

definition pruned :: "wm \<Rightarrow> wm \<Rightarrow> con_id set \<Rightarrow> bool" where
  "pruned s t X \<longleftrightarrow> all_cons t = filter (\<lambda>c. c \<notin> X) (all_cons s) \<and> next_id t = next_id s \<and> croot t = croot s \<and>
     (\<forall>d \<in> set (all_cons t). parent_of t d = parent_of s d \<and> kind t d = kind s d \<and>
        floating (store t d) = floating (store s d) \<and>
        mset (nodes t d) = filter_mset (\<lambda>c. c \<notin> X) (mset (nodes s d)) \<and>
        mset (floats t d) = filter_mset (\<lambda>c. c \<notin> X) (mset (floats s d)) \<and>
        mset (foci t d) = filter_mset (\<lambda>c. c \<notin> X) (mset (foci s d)))"

lemma prunedD:
  assumes "pruned s t X"
  shows "all_cons t = filter (\<lambda>c. c \<notin> X) (all_cons s)" "set (all_cons t) = set (all_cons s) - X"
    "next_id t = next_id s" "croot t = croot s"
    and "d \<in> set (all_cons t) \<Longrightarrow> parent_of t d = parent_of s d"
    and "d \<in> set (all_cons t) \<Longrightarrow> kind t d = kind s d"
    and "d \<in> set (all_cons t) \<Longrightarrow> floating (store t d) = floating (store s d)"
    and "d \<in> set (all_cons t) \<Longrightarrow> mset (nodes t d) = filter_mset (\<lambda>c. c \<notin> X) (mset (nodes s d))"
    and "d \<in> set (all_cons t) \<Longrightarrow> mset (floats t d) = filter_mset (\<lambda>c. c \<notin> X) (mset (floats s d))"
    and "d \<in> set (all_cons t) \<Longrightarrow> mset (foci t d) = filter_mset (\<lambda>c. c \<notin> X) (mset (foci s d))"
  using assms unfolding pruned_def by auto

lemma pruned_sets:
  assumes "pruned s t X" and "d \<in> set (all_cons t)"
  shows "set (nodes t d) = set (nodes s d) - X" "set (floats t d) = set (floats s d) - X"
    "set (foci t d) = set (foci s d) - X"
proof -
  have S: "set xs = set ys - X" if "mset xs = filter_mset (\<lambda>c. c \<notin> X) (mset ys)" for xs ys :: "con_id list"
    using arg_cong [OF that, of set_mset] by auto
  show "set (nodes t d) = set (nodes s d) - X" "set (floats t d) = set (floats s d) - X"
    "set (foci t d) = set (foci s d) - X"
    using prunedD(8-10) [OF assms(1) assms(2)] S by blast+
qed

lemma pruned_refl [simp]: "pruned s s {}"
  by (simp add: pruned_def)

lemma pruned_trans [trans]:
  assumes "pruned s t X" and "pruned t u Y"
  shows "pruned s u (X \<union> Y)"
proof -
  have sub: "set (all_cons u) \<subseteq> set (all_cons t)" using prunedD(2) [OF assms(2)] by auto
  have f: "filter_mset (\<lambda>c. c \<notin> Y) (filter_mset (\<lambda>c. c \<notin> X) M) = filter_mset (\<lambda>c. c \<notin> X \<union> Y) M" for M :: "con_id multiset"
    by (simp add: filter_filter_mset conj_commute)
  have "all_cons u = filter (\<lambda>c. c \<notin> X \<union> Y) (all_cons s)"
    by (simp add: prunedD(1) [OF assms(2)] prunedD(1) [OF assms(1)] conj_commute)
  moreover have "parent_of u d = parent_of s d \<and> kind u d = kind s d \<and> floating (store u d) = floating (store s d) \<and>
      mset (nodes u d) = filter_mset (\<lambda>c. c \<notin> X \<union> Y) (mset (nodes s d)) \<and>
      mset (floats u d) = filter_mset (\<lambda>c. c \<notin> X \<union> Y) (mset (floats s d)) \<and>
      mset (foci u d) = filter_mset (\<lambda>c. c \<notin> X \<union> Y) (mset (foci s d))" if d: "d \<in> set (all_cons u)" for d
  proof -
    have d': "d \<in> set (all_cons t)" using sub d by blast
    show ?thesis using prunedD(5-10) [OF assms(2) d] prunedD(5-10) [OF assms(1) d'] f by simp
  qed
  ultimately show ?thesis using prunedD(3,4) [OF assms(1)] prunedD(3,4) [OF assms(2)] by (simp add: pruned_def)
qed

text \<open>Steps that change no link, no focus and no floating state.\<close>

definition calm :: "wm \<Rightarrow> wm \<Rightarrow> bool" where
  "calm s t \<longleftrightarrow> same_links s t \<and> focused t = focused s \<and> (\<forall>d. floating (store t d) = floating (store s d))"

lemma calm_refl [simp]: "calm s s"
  by (simp add: calm_def)

lemma calm_trans [trans]: "calm s t \<Longrightarrow> calm t u \<Longrightarrow> calm s u"
  using same_links_trans by (auto simp: calm_def)

lemma quiet_calm: "quiet s t \<Longrightarrow> calm s t"
  by (simp add: calm_def quiet_def)

lemma calm_steps [simp]:
  "calm s (con_fix_percent p s)" "calm s (con_force_split_parents_redraw p s)" "calm s (abort s)"
  "calm s (ipc_send e s)" "calm s (s\<lparr>x_log := l\<rparr>)"
  "calm s (upd_con c (\<lambda>k. k\<lparr>urgency_timer := b\<rparr>) s)" "calm s (upd_con c (\<lambda>k. k\<lparr>window := w\<rparr>) s)"
  "calm s (upd_con c (\<lambda>k. k\<lparr>urgent := u\<rparr>) s)"
  by (simp_all add: calm_def) (simp_all add: same_links_def)

lemma calm_pruned: "calm s t \<Longrightarrow> pruned s t {}"
  by (simp add: pruned_def calm_def same_links_def)

text \<open>The removed containers take everything below them along.\<close>

definition downward :: "wm \<Rightarrow> con_id set \<Rightarrow> bool" where
  "downward s X \<longleftrightarrow> croot s \<notin> X \<and> (\<forall>d \<in> set (all_cons s). \<forall>p \<in> X. parent_of s d = Some p \<longrightarrow> d \<in> X)"

lemma pruned_tree_ok:
  assumes ok: "tree_ok s" and p: "pruned s t X" and dw: "downward s X"
  shows "tree_ok t"
proof -
  note D = prunedD [OF p] and S = pruned_sets [OF p]
  have dist: "distinct xs" if "mset xs = filter_mset P (mset ys)" "distinct ys" for xs ys :: "con_id list" and P
  proof -
    have "mset xs = mset (filter P ys)" using that by simp
    then show ?thesis using mset_eq_imp_distinct_iff that(2) by fastforce
  qed
  have "links_ok_at t c" if c: "c \<in> set (all_cons t)" for c
  proof -
    have cs: "c \<in> set (all_cons s)" using c D(2) by auto
    note K = tree_okD [OF ok cs]
    have kid: "x \<in> set (all_cons t)" "parent_of t x = Some c" if "x \<in> set (children t c)" for x
    proof -
      have x: "x \<in> set (children s c)" "x \<notin> X" using that S(1,2) [OF c] by auto
      note X = tree_ok_child_parent [OF ok cs x(1)]
      show "x \<in> set (all_cons t)" using X(1) x(2) D(2) by blast
      then show "parent_of t x = Some c" using D(5) X(2) by simp
    qed
    have kinds: "kind t x = kind s x" if "x \<in> set (children t c)" for x using kid(1) [OF that] D(6) by blast
    have "distinct (nodes t c)" "distinct (floats t c)" "distinct (foci t c)"
      using dist [OF D(8) [OF c] K(1)] dist [OF D(9) [OF c] K(2)] dist [OF D(10) [OF c] K(3)] by simp_all
    then show ?thesis using K(4,9,10) S [OF c] kid kinds by (auto simp: links_ok_at_def)
  qed
  moreover have "parents_ok t"
  proof -
    have "q \<in> set (all_cons t)" if "c \<in> set (all_cons t)" "parent_of t c = Some q" for c q
    proof -
      have c: "c \<in> set (all_cons s)" "c \<notin> X" "parent_of s c = Some q" using that D(2,5) by auto
      then have "q \<notin> X" using dw by (auto simp: downward_def)
      then show ?thesis using tree_okD(11) [OF ok c(1,3)] D(2) by blast
    qed
    moreover have "\<exists>r :: con_id \<Rightarrow> nat. \<forall>c \<in> set (all_cons t). \<forall>q. parent_of t c = Some q \<longrightarrow> r q < r c"
    proof -
      obtain r :: "con_id \<Rightarrow> nat" where "\<forall>c \<in> set (all_cons s). \<forall>p. parent_of s c = Some p \<longrightarrow> r p < r c"
        using ok by (auto simp: tree_ok_def parents_ok_def)
      then show ?thesis using D(2,5) by (intro exI [of _ r]) auto
    qed
    ultimately show ?thesis by (simp add: parents_ok_def)
  qed
  moreover have "ids_ok t" using ok D(1,3) by (simp add: tree_ok_def ids_ok_def)
  ultimately show ?thesis by (simp add: tree_ok_def links_ok_def)
qed

lemma pruned_rooted:
  assumes r: "rooted s" and p: "pruned s t X" and dw: "downward s X"
  shows "rooted t"
proof -
  note D = prunedD [OF p] and S = pruned_sets [OF p]
  have alloc: "c \<in> set (all_cons s)" "c \<notin> X" if "c \<in> set (all_cons t)" for c using that D(2) by auto
  have root: "croot t \<in> set (all_cons t)" using rootedD(2) [OF r] dw D(2,4) by (simp add: downward_def)
  have par: "q \<in> set (all_cons t)" if "c \<in> set (all_cons t)" "parent_of s c = Some q" for c q
    using tree_okD(11) [OF pruned_tree_ok [OF rootedD(1) [OF r] p dw] that(1)] D(5) [OF that(1)] that(2) by simp
  have link: "\<exists>q. parent_of t c = Some q \<and> c \<in> set (children t q)" if c: "c \<in> set (all_cons t)" "c \<noteq> croot t" for c
  proof -
    obtain q where q: "parent_of s c = Some q" "c \<in> set (children s q)"
      using rootedD(5) [OF r alloc(1) [OF c(1)]] c(2) D(4) by auto
    then show ?thesis using S(1,2) [OF par [OF c(1) q(1)]] alloc [OF c(1)] D(5) [OF c(1)] by auto
  qed
  have fl: "kind t c = CT_CON \<and> (\<exists>q. parent_of t c = Some q \<and> kind t q = CT_FLOATING_CON)" if c: "c \<in> set (all_cons t)" "con_is_floating t c" for c
  proof -
    have "con_is_floating s c" using c D(7) [OF c(1)] by (simp add: con_is_floating_def)
    then obtain q where "parent_of s c = Some q" "kind s q = CT_FLOATING_CON" "kind s c = CT_CON"
      using rootedD(6,10) [OF r alloc(1) [OF c(1)]] by blast
    then show ?thesis using D(6) [OF c(1)] D(5) [OF c(1)] D(6) par [OF c(1)] by auto
  qed
  have "kind t c = CT_WORKSPACE" if c: "c \<in> set (all_cons t)" "floats t c \<noteq> []" for c
  proof -
    have "set (floats s c) \<noteq> {}" using S(2) [OF c(1)] c(2) by auto
    then show ?thesis using rootedD(7) [OF r alloc(1) [OF c(1)]] D(6) [OF c(1)] by auto
  qed
  moreover have "kind t c = CT_OUTPUT" if "c \<in> set (all_cons t)" "parent_of t c = Some (croot t)" for c
    using rootedD(8) [OF r alloc(1) [OF that(1)]] that D(4-6) by auto
  moreover have "children t c = []" if "c \<in> set (all_cons t)" "parent_of t c = Some q" "kind t q = CT_DOCKAREA" for c q
  proof -
    have "parent_of s c = Some q" using that(1,2) D(5) by simp
    moreover from this have "kind s q = CT_DOCKAREA" using D(6) [OF par [OF that(1)]] that(3) by simp
    ultimately have "children s c = []" using rootedD(9) [OF r alloc(1) [OF that(1)]] by blast
    then show ?thesis using S(1,2) [OF that(1)] by auto
  qed
  ultimately show ?thesis
    using pruned_tree_ok [OF rootedD(1) [OF r] p dw] root D(5,6) [OF root] D(4) rootedD(3,4) [OF r] link fl
    by (simp add: rooted_def)
qed

subsection \<open>What is below a container\<close>

definition below :: "wm \<Rightarrow> con_id \<Rightarrow> con_id set" where
  "below s c = {x \<in> set (all_cons s). c \<in> set (ancestors s x)}"

lemma below_downward:
  assumes r: "rooted s" and c: "c \<in> set (all_cons s)" and n: "c \<noteq> croot s"
  shows "downward s (below s c)"
proof -
  note ok = rootedD(1) [OF r]
  have "ancestors s (croot s) = [croot s]"
    using ancestors_unfold [OF ok rootedD(2) [OF r]] rootedD(3) [OF r] by simp
  moreover have "d \<in> below s c" if "d \<in> set (all_cons s)" "p \<in> below s c" "parent_of s d = Some p" for d p
    using that ancestors_unfold [OF ok that(1)] by (simp add: below_def)
  ultimately show ?thesis using n by (auto simp: downward_def below_def)
qed

lemma below_self: "tree_ok s \<Longrightarrow> c \<in> set (all_cons s) \<Longrightarrow> c \<in> below s c"
  by (simp add: below_def self_in_ancestors)

lemma below_unfold:
  assumes r: "rooted s" and c: "c \<in> set (all_cons s)"
  shows "below s c = insert c (\<Union>d \<in> set (children s c). below s d)"
proof -
  note ok = rootedD(1) [OF r]
  have "x = c \<or> (\<exists>d \<in> set (children s c). d \<in> set (ancestors s x))"
    if "x \<in> set (all_cons s)" "c \<in> set (ancestors s x)" for x
  proof -
    have "c \<in> set (ancestors s x) \<longrightarrow> x = c \<or> (\<exists>d \<in> set (children s c). d \<in> set (ancestors s x))"
    proof (rule up.walk_induct [OF ok that(1)])
      fix x assume x: "x \<in> set (all_cons s)" and IH: "\<And>d. d \<in> set (case parent_of s x of None \<Rightarrow> []
        | Some p \<Rightarrow> [p]) \<Longrightarrow> c \<in> set (ancestors s d) \<longrightarrow> d = c \<or> (\<exists>e \<in> set (children s c). e \<in> set (ancestors s d))"
      show "c \<in> set (ancestors s x) \<longrightarrow> x = c \<or> (\<exists>d \<in> set (children s c). d \<in> set (ancestors s x))"
      proof (cases "parent_of s x")
        case None
        then show ?thesis using ancestors_unfold [OF ok x] by simp
      next
        case (Some p)
        have a: "ancestors s x = x # ancestors s p" using ancestors_unfold [OF ok x] Some by simp
        show ?thesis using IH [of p] Some rooted_linked(1) [OF r x Some] by (auto simp: a)
      qed
    qed
    then show ?thesis using that(2) by blast
  qed
  moreover have "c \<in> set (ancestors s x)" if "x \<in> set (all_cons s)" "d \<in> set (children s c)" "d \<in> set (ancestors s x)" for x d
  proof -
    note D = tree_ok_child_parent [OF ok c that(2)] and A = ancestors_prefix [OF ok that(1,3)]
    obtain us where "ancestors s x = us @ ancestors s d" using A by blast
    then show ?thesis using ancestors_unfold [OF ok D(1)] D(2) self_in_ancestors [OF ok c] by auto
  qed
  ultimately show ?thesis using below_self [OF ok c] unfolding below_def by (simp del: set_append) blast
qed

lemma below_disjoint:
  assumes ok: "tree_ok s" and c: "c \<in> set (all_cons s)"
    and d: "d \<in> set (children s c)" and e: "e \<in> set (children s c)" and neq: "d \<noteq> e"
  shows "below s d \<inter> below s e = {}"
proof -
  note D = tree_ok_child_parent [OF ok c d] and E = tree_ok_child_parent [OF ok c e]
  have "d \<notin> set (ancestors s e)"
    using neq parent_not_below [OF ok D(1,2)] E(2) by (subst ancestors_unfold [OF ok E(1)]) simp
  moreover have "e \<notin> set (ancestors s d)"
    using neq parent_not_below [OF ok E(1,2)] D(2) by (subst ancestors_unfold [OF ok D(1)]) simp
  ultimately show ?thesis using ancestors_linear [OF ok] by (auto simp: below_def)
qed

lemma below_child:
  assumes r: "rooted s" and c: "c \<in> set (all_cons s)" and d: "d \<in> set (children s c)"
  shows "below s d \<subset> below s c"
proof -
  note ok = rootedD(1) [OF r] and D = tree_ok_child_parent [OF rootedD(1) [OF r] c d]
  have "c \<notin> below s d" using parent_not_below [OF ok D] by (simp add: below_def)
  then show ?thesis using d below_self [OF ok c] unfolding below_unfold [OF r c] by auto
qed

lemma below_card:
  assumes r: "rooted s" and c: "c \<in> set (all_cons s)"
  shows "card (below s c) \<le> length (all_cons s)"
  using card_mono [of "set (all_cons s)" "below s c"] card_length [of "all_cons s"] by (auto simp: below_def)

lemma pruned_ancestors:
  assumes ok: "tree_ok s" and p: "pruned s t X" and dw: "downward s X" and x: "x \<in> set (all_cons t)"
  shows "ancestors t x = ancestors s x"
proof -
  have "ancestors s x = ancestors t x"
  proof (rule ancestors_cong [OF pruned_tree_ok [OF ok p dw] ok _ x])
    show "set (all_cons t) \<subseteq> set (all_cons s)" using prunedD(2) [OF p] by auto
    show "\<forall>d \<in> set (ancestors t x). parent_of s d = parent_of t d"
      using ancestors_alloc [OF pruned_tree_ok [OF ok p dw] x] prunedD(5) [OF p] by auto
  qed
  then show ?thesis ..
qed

lemma pruned_below:
  assumes ok: "tree_ok s" and p: "pruned s t X" and dw: "downward s X"
  shows "below t c = below s c - X"
  using pruned_ancestors [OF assms] prunedD(2) [OF p] by (auto simp: below_def)

lemma downward_trans:
  assumes p: "pruned s t X" and dw: "downward s X" and dt: "downward t Y"
  shows "downward s (X \<union> Y)"
proof -
  have "d \<in> X \<union> Y" if "d \<in> set (all_cons s)" "q \<in> X \<union> Y" "parent_of s d = Some q" for d q
  proof (cases "d \<in> X")
    case False
    then have d: "d \<in> set (all_cons t)" using that(1) prunedD(2) [OF p] by blast
    then have "parent_of t d = Some q" using prunedD(5) [OF p] that(3) by simp
    moreover have "q \<notin> X" using dw that False by (auto simp: downward_def)
    ultimately show ?thesis using dt d that(2) by (auto simp: downward_def)
  qed simp
  then show ?thesis using dw dt prunedD(4) [OF p] by (auto simp: downward_def)
qed

subsection \<open>Focusing and freeing\<close>

lemma upd_floating [simp]:
  "floating (store (focus_first c p s) d) = floating (store s d)" by (simp add: focus_first_def)

lemma focus_finish_floating [simp]: "floating (store (focus_finish c s) d) = floating (store s d)"
  using focus_finish_effect [of c s] by (simp add: quiet_def)

lemma con_focus_floating: "floating (store (con_focus c s) d) = floating (store s d)"
proof -
  have "floating (store (focus_path cs s) d) = floating (store s d)" for cs
  proof (induction cs arbitrary: s)
    case (Cons c cs)
    show ?case using Cons.IH [of "focus_first c p s" for p] by (cases "parent_of s c") (simp_all add: Let_def)
  qed simp
  then show ?thesis by (simp add: con_focus_def)
qed

lemma same_tree_pruned:
  "same_tree s t \<Longrightarrow> (\<And>d. floating (store t d) = floating (store s d)) \<Longrightarrow> pruned s t {}"
  by (simp add: pruned_def same_tree_def)

lemma inside_floating_linked:
  assumes r: "rooted s" and xs: "set xs \<subseteq> set (all_cons s)" and f: "inside_floating_path s xs = Some f"
  shows "f \<in> set (all_cons s) \<and> kind s f = CT_FLOATING_CON"
  using xs f
proof (induction xs)
  case (Cons c cs)
  show ?case
  proof (cases "kind s c = CT_FLOATING_CON")
    case False
    show ?thesis
    proof (cases "con_is_floating s c")
      case True
      then have "parent_of s c = Some f" using Cons.prems False by (simp add: con_is_floating_def)
      then show ?thesis using rootedD(6) [OF r _ True] rooted_linked(2) [OF r] Cons.prems(1) by auto
    next
      case False
      then show ?thesis using Cons \<open>kind s c \<noteq> CT_FLOATING_CON\<close>
        by (auto simp: con_is_floating_def split: if_splits)
    qed
  qed (use Cons.prems in simp)
qed simp

lemma con_activate_pruned:
  assumes r: "rooted s" and c: "c \<in> set (all_cons s)" and n: "c \<noteq> croot s"
  shows "pruned s (con_activate c s) {}" and "focused (con_activate c s) = Some c"
proof -
  note ok = rootedD(1) [OF r] and f = rooted_focusable [OF assms]
  let ?t = "con_focus c s"
  have p: "pruned s ?t {}"
    by (rule same_tree_pruned [OF con_focus_same_tree [OF ok c f] con_focus_floating])
  have rt: "rooted ?t" by (rule pruned_rooted [OF r p]) (simp add: downward_def)
  have foc: "focused ?t = Some c" using rootedD(5) [OF r c n] by (intro con_focus_focused [OF ok c]) auto
  have q: "pruned ?t (con_raise c ?t) {} \<and> focused (con_raise c ?t) = focused ?t"
  proof (cases "con_inside_floating ?t c")
    case (Some g)
    have "set (ancestors ?t c) \<subseteq> set (all_cons ?t)"
      using ancestors_alloc [OF rootedD(1) [OF rt]] c con_focus_frame(1) by simp
    from inside_floating_linked [OF rt this] Some
    have g: "g \<in> set (all_cons ?t)" "kind ?t g = CT_FLOATING_CON" by (auto simp: con_inside_floating_def)
    obtain q where q: "parent_of ?t g = Some q" "g \<in> set (floats ?t q)"
      using rooted_floating_parent [OF rt g] by blast
    have "same_tree ?t (floating_raise_con g ?t)" by (rule floating_raise_same_tree [OF q(2,1)])
    moreover have "floating (store (floating_raise_con g ?t) d) = floating (store ?t d)" for d
      by (simp add: floating_raise_con_def q)
    ultimately show ?thesis using Some same_tree_pruned by (simp add: con_raise_def floating_raise_con_def q)
  qed (simp add: con_raise_def)
  show "pruned s (con_activate c s) {}" using pruned_trans [OF p] q by (fastforce simp: con_activate_def)
  show "focused (con_activate c s) = Some c" using q foc by (simp add: con_activate_def)
qed

text \<open>A leaf is detached, some bookkeeping follows, and it is freed.\<close>

lemma con_free_fields [simp]:
  "store (con_free c s) = store s" "all_cons (con_free c s) = remove1 c (all_cons s)"
  "next_id (con_free c s) = next_id s" "croot (con_free c s) = croot s" "focused (con_free c s) = focused s"
  by (simp_all add: con_free_def scrolling_forget_def Let_def)

lemma mset_remove1_filter:
  "distinct xs \<Longrightarrow> mset (remove1 c xs) = filter_mset (\<lambda>d. d \<notin> {c}) (mset xs)" for xs :: "con_id list"
  using mset_filter [of "\<lambda>d. d \<noteq> c" xs] by (simp add: distinct_remove1_removeAll removeAll_filter_not_eq eq_commute [of c])

lemma mset_filter_notin: "c \<notin> set xs \<Longrightarrow> filter_mset (\<lambda>d. d \<notin> {c}) (mset xs) = mset xs" for xs :: "con_id list"
  by (simp add: filter_mset_eq_conv) auto

lemma detach_free_pruned:
  assumes r: "rooted s" and c: "c \<in> set (all_cons s)" and p: "parent_of s c = Some p"
    and q: "calm (con_detach c s) u"
  shows "pruned s (con_free c u) {c}"
proof -
  note ok = rootedD(1) [OF r] and l = con_detach_left [OF p] and al = rooted_linked(2) [OF r c p]
  note P = tree_okD [OF ok al]
  have fields: "store u d = store u d" "parent_of u d = parent_of s d" "kind u d = kind s d"
    "floating (store u d) = floating (store s d)" "next_id u = next_id s" "croot u = croot s"
    "all_cons u = all_cons s" for d
    using q l by (simp_all add: calm_def same_links_def left_def)
  have lists: "nodes u d = nodes (con_detach c s) d" "floats u d = floats (con_detach c s) d"
    "foci u d = foci (con_detach c s) d" for d
    using q by (simp_all add: calm_def same_links_def)
  have other: "c \<notin> set (nodes s d)" "c \<notin> set (floats s d)" "c \<notin> set (foci s d)"
    if "d \<in> set (all_cons s)" "d \<noteq> p" for d
    using tree_ok_child_parent(2) [OF ok that(1), of c] tree_okD(4) [OF ok that(1)] p that(2) by auto
  have here: "mset (nodes (con_detach c s) p) = filter_mset (\<lambda>d. d \<notin> {c}) (mset (nodes s p)) \<and>
    mset (floats (con_detach c s) p) = filter_mset (\<lambda>d. d \<notin> {c}) (mset (floats s p)) \<and>
    mset (foci (con_detach c s) p) = filter_mset (\<lambda>d. d \<notin> {c}) (mset (foci s p))"
  proof (cases "kind s c = CT_FLOATING_CON")
    case True
    then have "c \<notin> set (nodes s p)" using P(9) by blast
    then show ?thesis using l True mset_remove1_filter [OF P(2)] mset_remove1_filter [OF P(3)] mset_filter_notin
      by (simp add: left_def)
  next
    case False
    then have "c \<notin> set (floats s p)" using P(10) by blast
    then show ?thesis using l False mset_remove1_filter [OF P(1)] mset_remove1_filter [OF P(3)] mset_filter_notin
      by (simp add: left_def)
  qed
  have there: "mset (nodes (con_detach c s) d) = filter_mset (\<lambda>d. d \<notin> {c}) (mset (nodes s d)) \<and>
    mset (floats (con_detach c s) d) = filter_mset (\<lambda>d. d \<notin> {c}) (mset (floats s d)) \<and>
    mset (foci (con_detach c s) d) = filter_mset (\<lambda>d. d \<notin> {c}) (mset (foci s d))"
    if "d \<in> set (all_cons s)" for d
  proof (cases "d = p")
    case False
    then show ?thesis using l mset_filter_notin other [OF that False] by (simp add: left_def)
  qed (use here in simp)
  have "all_cons (con_free c u) = filter (\<lambda>d. d \<notin> {c}) (all_cons s)"
    using ok by (simp add: fields tree_ok_def ids_ok_def distinct_remove1_removeAll removeAll_filter_not_eq eq_commute [of c])
  then show ?thesis using there fields lists by (auto simp: pruned_def)
qed

subsection \<open>The next focus\<close>

text \<open>The walk down the focus stacks from \<open>x\<close> that avoids \<open>excl\<close> ends in a container that is not
  \<open>excl\<close>, not the root and, unless it starts there, no child of \<open>excl\<close>.\<close>

lemma descend_excluding_avoids:
  assumes ok: "tree_ok s" and root: "parent_of s (croot s) = None"
  shows "x \<in> set (all_cons s) \<Longrightarrow> x \<noteq> excl \<Longrightarrow> x \<noteq> croot s \<Longrightarrow> parent_of s x \<noteq> Some excl \<Longrightarrow>
    (let y = descend_excluding n s excl x
     in y \<in> set (all_cons s) \<and> y \<noteq> excl \<and> y \<noteq> croot s \<and> parent_of s y \<noteq> Some excl)"
proof (induction n arbitrary: x)
  case (Suc n)
  show ?case
  proof (cases "foci s x")
    case (Cons y ys)
    then have y: "y \<in> set (all_cons s)" "parent_of s y = Some x" using tree_ok_foci [OF ok Suc.prems(1), of y] by auto
    then have "y \<noteq> croot s" using root by auto
    then show ?thesis using Suc.IH [OF y(1)] y(2) Suc.prems Cons by (auto simp: Let_def)
  qed (use Suc.prems in simp)
qed (simp add: Let_def)

lemma descend_excluding_stops:
  assumes ok: "tree_ok s" and c: "c \<in> set (all_cons s)" and n: "card (below s c) \<le> n" and r: "rooted s"
  shows "foci s (descend_excluding n s excl c) = [] \<or>
    tailq_first (foci s (descend_excluding n s excl c)) = Some excl"
  using c n
proof (induction n arbitrary: c)
  case 0
  then show ?case using below_self [OF ok 0(1)] by (auto simp: below_def)
next
  case (Suc n)
  show ?case
  proof (cases "foci s c")
    case (Cons y ys)
    note Y = tree_ok_foci [OF ok Suc.prems(1), of y]
    have "card (below s y) < card (below s c)"
      using Y Cons below_child [OF r Suc.prems(1), of y] by (intro psubset_card_mono) (auto simp: below_def)
    then show ?thesis using Suc.IH [of y] Y Cons Suc.prems(2) by auto
  qed simp
qed

lemma con_descend_focused_stays: "foci s c = [] \<Longrightarrow> con_descend_focused s c = c"
  by (cases "length (all_cons s)") (simp_all add: con_descend_focused_def descend_step_def)

text \<open>What \<open>con_next_focused\<close> chooses for a container without children survives its removal.\<close>

lemma con_next_focused_survives:
  assumes r: "rooted s" and c: "c \<in> set (all_cons s)" and leaf: "children s c = []"
    and p: "parent_of s c = Some p" and root: "p \<noteq> croot s" and dock: "kind s p \<noteq> CT_DOCKAREA"
  shows "\<exists>n. con_next_focused s c = Some n \<and> n \<in> set (all_cons s) \<and> n \<noteq> c \<and> n \<noteq> croot s"
proof -
  note ok = rootedD(1) [OF r]
  define e where "e = (if con_is_floating s c then p else c)"
  have pf: "kind s p = CT_FLOATING_CON" if "con_is_floating s c" using rootedD(6) [OF r c that] p by auto
  have e: "e \<in> set (all_cons s)" using c rooted_linked(2) [OF r c p] by (simp add: e_def)
  have "\<exists>q. parent_of s e = Some q \<and> q \<noteq> croot s"
  proof (cases "con_is_floating s c")
    case True
    obtain q where "parent_of s p = Some q" "kind s q = CT_WORKSPACE"
      using rooted_floating_parent [OF r rooted_linked(2) [OF r c p] pf [OF True]] by blast
    then show ?thesis using rootedD(4) [OF r] True by (auto simp: e_def)
  qed (use p root in \<open>simp add: e_def\<close>)
  then obtain q where q: "parent_of s e = Some q" "q \<noteq> croot s" by blast
  note Q = rooted_linked [OF r e q(1)]
  obtain y ys where f: "foci s q = y # ys" using Q(3) by (cases "foci s q") auto
  define x where "x = (if y \<noteq> e then y else (case tailq_next e (foci s q) of None \<Rightarrow> q | Some z \<Rightarrow> z))"
  have fx: "z \<in> set (all_cons s) \<and> parent_of s z = Some q" if "z \<in> set (foci s q)" for z
    using tree_ok_foci [OF ok Q(2) that] by simp
  have ee: "q \<noteq> e" "parent_of s q \<noteq> Some e"
    using parent_not_below [OF ok e q(1)] self_in_ancestors [OF ok Q(2)] ancestors_unfold [OF ok Q(2)]
      ancestors_unfold [OF ok e] self_in_ancestors [OF ok e] by auto
  have x: "x \<in> set (all_cons s) \<and> x \<noteq> e \<and> x \<noteq> croot s \<and> parent_of s x \<noteq> Some e"
  proof (cases "y = e \<and> tailq_next e (foci s q) = None")
    case True
    then show ?thesis using Q(2) q(2) ee by (simp add: x_def)
  next
    case False
    then have "x \<in> set (foci s q)" "x \<noteq> e"
      using f tailq_next_in [of e "foci s q"] tailq_next_neq [OF tree_okD(3) [OF ok Q(2)], of e]
      by (auto simp: x_def split: option.splits)
    then show ?thesis using fx [of x] ee(1) rootedD(3) [OF r] by auto
  qed
  define n where "n = descend_excluding (length (all_cons s)) s e x"
  have n: "n \<in> set (all_cons s)" "n \<noteq> e" "n \<noteq> croot s" "parent_of s n \<noteq> Some e"
    using descend_excluding_avoids [OF ok rootedD(3) [OF r], of x e] x by (simp_all add: n_def Let_def)
  have "n \<noteq> c" using n(2,4) p by (auto simp: e_def split: if_splits)
  have stop: "foci s n = [] \<or> tailq_first (foci s n) = Some e"
    using descend_excluding_stops [OF ok _ below_card [OF r] r, of x e] x by (auto simp: n_def)
  have "con_descend_focused s n = n" if "n \<noteq> q"
  proof -
    have "tailq_first (foci s n) \<noteq> Some e"
      using tree_ok_foci(2) [OF ok n(1), of e] q(1) that tailq_first_in by force
    then show ?thesis using stop con_descend_focused_stays by simp
  qed
  then have "con_next_focused s c = Some n"
    using p dock q(1) f by (simp add: con_next_focused_def Let_def e_def [symmetric] x_def [symmetric] n_def [symmetric])
  then show ?thesis using n \<open>n \<noteq> c\<close> by blast
qed

end
