(* ===== verification/Outputs.thy ===== *)
theory Outputs
  imports Con_Focus
begin

text \<open>
  The outputs (\<^verbatim>\<open>src/randr.c\<close>, \<^verbatim>\<open>src/output.c\<close>): finding an output by name, by a point, by a
  rectangle, and in a direction. An \<open>Output *\<close> is the record itself; coordinates are the 32-bit words
  of the code, compared unsigned except in \<open>output_containing_rect\<close>, which converts to \<open>int\<close>.
\<close>

datatype output_close_far_t = CLOSEST_OUTPUT | FARTHEST_OUTPUT

definition get_output_by_name :: "wm \<Rightarrow> string \<Rightarrow> bool \<Rightarrow> xoutput option" where
  "get_output_by_name s name require_active =
     (let get_primary = caseless_eq ''primary'' name;
          get_non_primary = caseless_eq ''nonprimary'' name
      in find (\<lambda>out. (require_active \<longrightarrow> o_active out) \<and>
           (o_primary out \<and> get_primary \<or> \<not> o_primary out \<and> get_non_primary \<or>
            (\<exists>n \<in> set (o_names out). caseless_eq n name))) (outputs s))"

text \<open>\<^const>\<open>None\<close>: \<open>die\<close>.\<close>

definition get_first_output :: "wm \<Rightarrow> xoutput option" where
  "get_first_output s =
     (case find (\<lambda>out. o_active out \<and> o_primary out) (outputs s) of
        Some out \<Rightarrow> Some out
      | None \<Rightarrow> find o_active (outputs s))"

definition in_output :: "u32 \<Rightarrow> u32 \<Rightarrow> xoutput \<Rightarrow> bool" where
  "in_output x y out \<longleftrightarrow>
     x \<ge> rect_x (o_rect out) \<and> x < rect_x (o_rect out) + rect_width (o_rect out) \<and>
     y \<ge> rect_y (o_rect out) \<and> y < rect_y (o_rect out) + rect_height (o_rect out)"

definition get_output_containing :: "wm \<Rightarrow> u32 \<Rightarrow> u32 \<Rightarrow> xoutput option" where
  "get_output_containing s x y = find (\<lambda>out. o_active out \<and> in_output x y out) (outputs s)"

definition get_output_with_dimensions :: "wm \<Rightarrow> Rect \<Rightarrow> xoutput option" where
  "get_output_with_dimensions s r =
     find (\<lambda>out. o_active out \<and> rect_x r = rect_x (o_rect out) \<and> rect_width r = rect_width (o_rect out) \<and>
        rect_y r = rect_y (o_rect out) \<and> rect_height r = rect_height (o_rect out)) (outputs s)"

text \<open>The intersection of two rectangles as the code computes it: left, right, top, bottom.\<close>

definition intersection :: "Rect \<Rightarrow> Rect \<Rightarrow> int \<times> int \<times> int \<times> int" where
  "intersection a b =
     (max (sint (rect_x a)) (sint (rect_x b)),
      min (sint (rect_x a + rect_width a)) (sint (rect_x b + rect_width b)),
      max (sint (rect_y a)) (sint (rect_y b)),
      min (sint (rect_y a + rect_height a)) (sint (rect_y b + rect_height b)))"

definition intersection_area :: "Rect \<Rightarrow> Rect \<Rightarrow> int" where
  "intersection_area a b =
     (case intersection a b of (lf, rg, tp, bt) \<Rightarrow>
        if lf < rg \<and> bt > tp then (rg - lf) * (bt - tp) else 0)"

text \<open>The loop of \<open>output_containing_rect\<close>: \<open>max_area\<close> is a constant 0 that is declared anew in every
  round.\<close>

definition output_containing_rect :: "wm \<Rightarrow> Rect \<Rightarrow> xoutput option" where
  "output_containing_rect s r =
     fold (\<lambda>out result.
       if \<not> o_active out then result
       else case intersection r (o_rect out) of (lf, rg, tp, bt) \<Rightarrow>
         if lf < rg \<and> bt > tp then
           let max_area = 0; area = (rg - lf) * (bt - tp)
           in if area > max_area then Some out else result
         else result) (outputs s) None"

definition get_output_from_rect :: "wm \<Rightarrow> Rect \<Rightarrow> xoutput option" where
  "get_output_from_rect s r =
     (case get_output_containing s (rect_x r + rect_width r div 2) (rect_y r + rect_height r div 2) of
        Some out \<Rightarrow> Some out
      | None \<Rightarrow> output_containing_rect s r)"

text \<open>Whether an output is in the direction from a rectangle and overlaps it on the other axis.\<close>

definition in_direction :: "direction_t \<Rightarrow> Rect \<Rightarrow> Rect \<Rightarrow> bool" where
  "in_direction d cur other \<longleftrightarrow>
     (if d = D_RIGHT \<and> rect_x other > rect_x cur \<or> d = D_LEFT \<and> rect_x other < rect_x cur then
        \<not> (rect_y other + rect_height other \<le> rect_y cur \<or> rect_y cur + rect_height cur \<le> rect_y other)
      else if d = D_DOWN \<and> rect_y other > rect_y cur \<or> d = D_UP \<and> rect_y other < rect_y cur then
        \<not> (rect_x other + rect_width other \<le> rect_x cur \<or> rect_x cur + rect_width cur \<le> rect_x other)
      else False)"

definition better_output :: "direction_t \<Rightarrow> output_close_far_t \<Rightarrow> Rect \<Rightarrow> Rect \<Rightarrow> bool" where
  "better_output d close_far other best \<longleftrightarrow>
     (if close_far = CLOSEST_OUTPUT then
        d = D_RIGHT \<and> rect_x other < rect_x best \<or> d = D_LEFT \<and> rect_x other > rect_x best \<or>
        d = D_DOWN \<and> rect_y other < rect_y best \<or> d = D_UP \<and> rect_y other > rect_y best
      else
        d = D_RIGHT \<and> rect_x other > rect_x best \<or> d = D_LEFT \<and> rect_x other < rect_x best \<or>
        d = D_DOWN \<and> rect_y other > rect_y best \<or> d = D_UP \<and> rect_y other < rect_y best)"

definition get_output_next :: "wm \<Rightarrow> direction_t \<Rightarrow> xoutput \<Rightarrow> output_close_far_t \<Rightarrow> xoutput option" where
  "get_output_next s d current close_far =
     fold (\<lambda>out best.
       if \<not> o_active out \<or> \<not> in_direction d (o_rect current) (o_rect out) then best
       else case best of
           None \<Rightarrow> Some out
         | Some b \<Rightarrow> if better_output d close_far (o_rect out) (o_rect b) then Some out else Some b)
       (outputs s) None"

fun opposite_direction :: "direction_t \<Rightarrow> direction_t" where
  "opposite_direction D_RIGHT = D_LEFT"
| "opposite_direction D_LEFT = D_RIGHT"
| "opposite_direction D_DOWN = D_UP"
| "opposite_direction D_UP = D_DOWN"

definition get_output_next_wrap :: "wm \<Rightarrow> direction_t \<Rightarrow> xoutput \<Rightarrow> xoutput" where
  "get_output_next_wrap s d current =
     (case get_output_next s d current CLOSEST_OUTPUT of
        Some out \<Rightarrow> out
      | None \<Rightarrow>
          (case get_output_next s (opposite_direction d) current FARTHEST_OUTPUT of
             Some out \<Rightarrow> out | None \<Rightarrow> current))"

text \<open>\<open>get_output_for_con\<close>; \<^const>\<open>None\<close> is the failed assertion.\<close>

definition get_output_for_con :: "wm \<Rightarrow> con_id \<Rightarrow> xoutput option" where
  "get_output_for_con s c =
     Option.bind (con_get_output s c) (\<lambda>out. get_output_by_name s (cname (store s out)) True)"

text \<open>The inner result is the pointer \<open>get_output_from_string\<close> returns.\<close>

definition get_output_from_string :: "wm \<Rightarrow> xoutput \<Rightarrow> string \<Rightarrow> xoutput option option" where
  "get_output_from_string s current_output output_str =
     (if caseless_eq output_str ''current'' then
        map_option Some (Option.bind (focused s) (get_output_for_con s))
      else if caseless_eq output_str ''left'' then Some (Some (get_output_next_wrap s D_LEFT current_output))
      else if caseless_eq output_str ''right'' then Some (Some (get_output_next_wrap s D_RIGHT current_output))
      else if caseless_eq output_str ''up'' then Some (Some (get_output_next_wrap s D_UP current_output))
      else if caseless_eq output_str ''down'' then Some (Some (get_output_next_wrap s D_DOWN current_output))
      else Some (get_output_by_name s output_str True))"

subsection \<open>What is found\<close>

lemma get_output_containing_SomeD:
  assumes "get_output_containing s x y = Some out"
  shows "out \<in> set (outputs s)" "o_active out" "in_output x y out"
  using find_in [OF assms [unfolded get_output_containing_def]] by auto

lemma get_output_containing_None:
  "get_output_containing s x y = None \<longleftrightarrow> (\<forall>out \<in> set (outputs s). o_active out \<longrightarrow> \<not> in_output x y out)"
  by (auto simp: get_output_containing_def find_None_iff)

text \<open>The last active output that the rectangle intersects, however small the intersection is.\<close>

lemma fold_last_match:
  "fold (\<lambda>x r. if P x then Some x else r) xs a = (case find P (rev xs) of Some x \<Rightarrow> Some x | None \<Rightarrow> a)"
proof (induction xs arbitrary: a)
  case (Cons x xs)
  have F: "find P (ys @ [x]) = (case find P ys of Some y \<Rightarrow> Some y | None \<Rightarrow> if P x then Some x else None)" for ys
    by (induction ys) auto
  show ?case using Cons by (simp add: F split: option.splits)
qed simp

lemma output_containing_rect_last:
  "output_containing_rect s r =
     find (\<lambda>out. o_active out \<and> intersection_area r (o_rect out) > 0) (rev (outputs s))"
proof -
  have "(\<lambda>(out :: xoutput) result.
       if \<not> o_active out then result
       else case intersection r (o_rect out) of (lf, rg, tp, bt) \<Rightarrow>
         if lf < rg \<and> bt > tp then
           let max_area = 0; area = (rg - lf) * (bt - tp)
           in if area > max_area then Some out else result
         else result) =
     (\<lambda>(out :: xoutput) result. if o_active out \<and> intersection_area r (o_rect out) > 0 then Some out else result)"
    by (intro ext) (auto simp: intersection_area_def Let_def split: prod.splits)
  then show ?thesis
    unfolding output_containing_rect_def by (simp add: fold_last_match split: option.splits)
qed

text \<open>\<open>get_output_next\<close> as a fold over the candidates, and why its result is the best one.\<close>

lemma fold_filter_step:
  "fold (\<lambda>x r. if Q x then r else f x r) xs a = fold f (filter (\<lambda>x. \<not> Q x) xs) a"
  by (induction xs arbitrary: a) auto

lemma fold_best:
  assumes irrefl: "\<And>x. \<not> B x x" and trans: "\<And>x y z. \<not> B x y \<Longrightarrow> \<not> B y z \<Longrightarrow> \<not> B x z"
    and asym: "\<And>x y. B x y \<Longrightarrow> \<not> B y x"
  defines "step \<equiv> \<lambda>x best. case best of None \<Rightarrow> Some x | Some b \<Rightarrow> if B x b then Some x else Some b"
  shows "case fold step xs best of
      None \<Rightarrow> xs = [] \<and> best = None
    | Some b \<Rightarrow> b \<in> set xs \<union> set_option best \<and> (\<forall>x \<in> set xs \<union> set_option best. \<not> B x b)"
proof (induction xs arbitrary: best)
  case Nil
  then show ?case by (cases best) (simp_all add: irrefl)
next
  case (Cons x xs)
  define c where "c = step x best"
  have "\<exists>y. c = Some y \<and> (y = x \<or> best = Some y) \<and> \<not> B x y \<and> (\<forall>b. best = Some b \<longrightarrow> \<not> B b y)"
  proof (cases best)
    case (Some a)
    then show ?thesis using irrefl asym [of x a] by (cases "B x a") (auto simp: c_def step_def)
  qed (simp add: c_def step_def irrefl)
  then obtain y where y: "c = Some y" "y = x \<or> best = Some y" "\<not> B x y" "\<forall>b. best = Some b \<longrightarrow> \<not> B b y"
    by blast
  obtain b where b: "fold step xs c = Some b" "b \<in> set xs \<union> {y}" "\<forall>z \<in> set xs \<union> {y}. \<not> B z b"
    using Cons.IH [of c] y(1) by (cases "fold step xs c") auto
  have yb: "\<not> B y b" using b(3) by blast
  have "b \<in> set (x # xs) \<union> set_option best" using b(2) y(2) by auto
  moreover have "\<not> B z b" if "z \<in> set (x # xs) \<union> set_option best" for z
    using that b(3) trans [OF y(3) yb] y(4) trans [OF _ yb] by auto
  ultimately show ?case using b(1) by (simp add: c_def)
qed

lemma get_output_next_best:
  "case get_output_next s d current cf of
     None \<Rightarrow> \<forall>out \<in> set (outputs s). o_active out \<longrightarrow> \<not> in_direction d (o_rect current) (o_rect out)
   | Some b \<Rightarrow> b \<in> set (outputs s) \<and> o_active b \<and> in_direction d (o_rect current) (o_rect b) \<and>
       (\<forall>out \<in> set (outputs s). o_active out \<longrightarrow> in_direction d (o_rect current) (o_rect out) \<longrightarrow>
          \<not> better_output d cf (o_rect out) (o_rect b))"
proof -
  define B where "B x b = better_output d cf (o_rect x) (o_rect b)" for x b :: xoutput
  define cand where "cand = filter (\<lambda>out. \<not> (\<not> o_active out \<or> \<not> in_direction d (o_rect current) (o_rect out))) (outputs s)"
  have B: "\<not> B x x" "\<not> B x y \<Longrightarrow> \<not> B y z \<Longrightarrow> \<not> B x z" "B x y \<Longrightarrow> \<not> B y x" for x y z
    unfolding B_def better_output_def by (cases d; cases cf; auto)+
  note best = fold_best [of B cand None, OF B]
  have eq: "get_output_next s d current cf =
      fold (\<lambda>x best. case best of None \<Rightarrow> Some x | Some b \<Rightarrow> if B x b then Some x else Some b) cand None"
    unfolding get_output_next_def fold_filter_step cand_def B_def by (rule refl)
  show ?thesis
  proof (cases "get_output_next s d current cf")
    case None
    then have "cand = []" using best unfolding eq by simp
    then show ?thesis using None by (simp add: cand_def filter_empty_conv)
  next
    case (Some b)
    then have "b \<in> set cand" "\<forall>x \<in> set cand. \<not> B x b" using best unfolding eq by auto
    then show ?thesis using Some by (simp add: cand_def B_def)
  qed
qed

lemma get_output_next_wrap_in:
  "get_output_next_wrap s d current = current \<or>
     get_output_next_wrap s d current \<in> set (outputs s) \<and> o_active (get_output_next_wrap s d current)"
  using get_output_next_best [of s d current CLOSEST_OUTPUT]
    get_output_next_best [of s "opposite_direction d" current FARTHEST_OUTPUT]
  unfolding get_output_next_wrap_def by (auto split: option.splits)

end
