(* ===== verification/Workspaces.thy ===== *)
theory Workspaces
  imports Outputs
begin

text \<open>
  Finding workspaces (\<^verbatim>\<open>src/workspace.c\<close>): by name and by number, the output a workspace is assigned
  to, the visible ones, and the next and the previous one in the order of the outputs. The loops are
  written on the lists of workspaces of the outputs.
\<close>

subsection \<open>By name, by number, by assignment\<close>

definition output_workspaces :: "wm \<Rightarrow> con_id \<Rightarrow> con_id list" where
  "output_workspaces s out = (case output_get_content s out of None \<Rightarrow> [] | Some c \<Rightarrow> nodes s c)"

text \<open>The inner loop stops at the first match, the outer one goes on: the last output that has a match
  wins.\<close>

definition grep_workspace :: "wm \<Rightarrow> (con_id \<Rightarrow> bool) \<Rightarrow> con_id option" where
  "grep_workspace s P =
     fold (\<lambda>out ws. case find P (output_workspaces s out) of None \<Rightarrow> ws | Some w \<Rightarrow> Some w)
       (nodes s (croot s)) None"

definition get_existing_workspace_by_name :: "wm \<Rightarrow> string \<Rightarrow> con_id option" where
  "get_existing_workspace_by_name s name = grep_workspace s (\<lambda>c. caseless_eq (cname (store s c)) name)"

definition get_existing_workspace_by_num :: "wm \<Rightarrow> int \<Rightarrow> con_id option" where
  "get_existing_workspace_by_num s n = grep_workspace s (\<lambda>c. num (store s c) = n)"

fun assigned_output ::
  "wm \<Rightarrow> string option \<Rightarrow> int \<Rightarrow> workspace_assignment list \<Rightarrow> con_id option \<Rightarrow> con_id option" where
  "assigned_output s name parsed_num [] found = found"
| "assigned_output s name parsed_num (a # as) found =
     (case wa_output a of
        None \<Rightarrow> assigned_output s name parsed_num as found
      | Some out_name \<Rightarrow>
          if name = Some (wa_name a) then
            (case get_output_by_name s out_name True of
               Some out \<Rightarrow> Some (o_con out)
             | None \<Rightarrow> assigned_output s name parsed_num as found)
          else if found = None \<and> parsed_num \<noteq> - 1 \<and> name_is_digits (wa_name a) \<and>
              ws_name_to_number (wa_name a) = parsed_num then
            assigned_output s name parsed_num as
              (case get_output_by_name s out_name True of Some out \<Rightarrow> Some (o_con out) | None \<Rightarrow> found)
          else assigned_output s name parsed_num as found)"

definition get_assigned_output :: "wm \<Rightarrow> string option \<Rightarrow> int \<Rightarrow> con_id option" where
  "get_assigned_output s name parsed_num = assigned_output s name parsed_num (ws_assignments s) None"

definition output_triggers_assignment :: "wm \<Rightarrow> xoutput \<Rightarrow> workspace_assignment \<Rightarrow> bool" where
  "output_triggers_assignment s out a \<longleftrightarrow> get_assigned_output s (Some (wa_name a)) (- 1) = Some (o_con out)"

text \<open>\<^const>\<open>None\<close>: the assertion of \<open>con_get_output\<close>.\<close>

definition workspace_is_visible :: "wm \<Rightarrow> con_id \<Rightarrow> bool option" where
  "workspace_is_visible s ws =
     map_option (\<lambda>out. con_get_fullscreen_con s out CF_OUTPUT = Some ws) (con_get_output s ws)"

definition apply_default_orientation :: "con_id \<Rightarrow> wm \<Rightarrow> wm" where
  "apply_default_orientation ws s =
     (if cfg_default_orientation (cfg s) = NO_ORIENTATION then
        (case con_get_output s ws of
           None \<Rightarrow> abort s
         | Some out \<Rightarrow>
             let r = rect (store s out)
             in upd_con ws (\<lambda>k. k\<lparr>layout := (if rect_height r > rect_width r then L_SPLITV else L_SPLITH),
                  rect := r\<rparr>) s)
      else upd_con ws (\<lambda>k. k\<lparr>layout := (if cfg_default_orientation (cfg s) = HORIZ then L_SPLITH else L_SPLITV)\<rparr>) s)"

definition workspace_get :: "string \<Rightarrow> wm \<Rightarrow> con_id option \<times> wm" where
  "workspace_get name s0 =
     (case get_existing_workspace_by_name s0 name of
        Some ws \<Rightarrow> (Some ws, s0)
      | None \<Rightarrow>
          let parsed_num = ws_name_to_number name;
              out = (case get_assigned_output s0 (Some name) parsed_num of
                  Some x \<Rightarrow> Some x
                | None \<Rightarrow> Option.bind (focused s0) (con_get_output s0))
          in case Option.bind out (output_get_content s0) of
              None \<Rightarrow> (None, abort s0)
            | Some content \<Rightarrow>
                (case con_new_detached None s0 of (ws, s) \<Rightarrow>
                   let s = upd_con ws (\<lambda>k. k\<lparr>cname := name, workspace_layout := cfg_default_layout (cfg s),
                         num := parsed_num, ctype := CT_WORKSPACE\<rparr>) s;
                       s = upd_con ws (\<lambda>k. k\<lparr>gaps := gaps_for_workspace s ws\<rparr>) s;
                       s = con_attach ws content False s;
                       s = apply_default_orientation ws s
                   in (Some ws, ipc_send (Workspace_Event ''init'' ws None) s)))"

definition workspace_back_and_forth_get :: "wm \<Rightarrow> con_id option \<times> wm" where
  "workspace_back_and_forth_get s =
     (case previous_workspace_name s of None \<Rightarrow> (None, s) | Some n \<Rightarrow> workspace_get n s)"

subsection \<open>The next and the previous workspace\<close>

text \<open>The workspaces of the outputs that are not internal, in order.\<close>

definition workspace_lists :: "wm \<Rightarrow> con_id list list" where
  "workspace_lists s =
     map (\<lambda>out. filter (\<lambda>c. kind s c = CT_WORKSPACE) (output_workspaces s out))
       (filter (\<lambda>out. \<not> con_is_internal s out) (nodes s (croot s)))"

text \<open>The variables of the loops: \<open>first\<close> (or \<open>last\<close>), \<open>first_opposite\<close>, \<open>next\<close> (or \<open>prev\<close>) and
  \<open>found_current\<close>. A loop ends in \<^const>\<open>Inl\<close> when it returns.\<close>

record ws_search =
  se_first :: "con_id option"
  se_opposite :: "con_id option"
  se_next :: "con_id option"
  se_found :: bool

definition empty_search :: ws_search where
  "empty_search = \<lparr>se_first = None, se_opposite = None, se_next = None, se_found = False\<rparr>"

fun scan_lists ::
  "(con_id list \<Rightarrow> ws_search \<Rightarrow> con_id + ws_search) \<Rightarrow> con_id list list \<Rightarrow> ws_search \<Rightarrow> con_id + ws_search" where
  "scan_lists f [] v = Inr v"
| "scan_lists f (l # ls) v = (case f l v of Inl w \<Rightarrow> Inl w | Inr v \<Rightarrow> scan_lists f ls v)"

definition le_opt :: "(int \<Rightarrow> int \<Rightarrow> bool) \<Rightarrow> (con_id \<Rightarrow> int) \<Rightarrow> con_id \<Rightarrow> con_id option \<Rightarrow> bool" where
  "le_opt R n c o' \<longleftrightarrow> (case o' of None \<Rightarrow> True | Some x \<Rightarrow> R (n c) (n x))"

fun next_named :: "(con_id \<Rightarrow> int) \<Rightarrow> con_id \<Rightarrow> con_id list \<Rightarrow> ws_search \<Rightarrow> con_id + ws_search" where
  "next_named n cur [] v = Inr v"
| "next_named n cur (c # cs) v =
     (let v = (if se_first v = None then v\<lparr>se_first := Some c\<rparr> else v);
          v = (if se_opposite v = None \<or> n c \<noteq> - 1 \<and> le_opt (<) n c (se_opposite v)
               then v\<lparr>se_opposite := Some c\<rparr> else v)
      in if c = cur then next_named n cur cs (v\<lparr>se_found := True\<rparr>)
         else if n c = - 1 \<and> se_found v then Inl c
         else next_named n cur cs v)"

fun next_numbered :: "(con_id \<Rightarrow> int) \<Rightarrow> con_id \<Rightarrow> con_id list \<Rightarrow> ws_search \<Rightarrow> con_id + ws_search" where
  "next_numbered n cur [] v = Inr v"
| "next_numbered n cur (c # cs) v =
     (let v = (if se_first v = None \<or> n c \<noteq> - 1 \<and> le_opt (<) n c (se_first v)
               then v\<lparr>se_first := Some c\<rparr> else v);
          v = (if se_opposite v = None \<and> n c = - 1 then v\<lparr>se_opposite := Some c\<rparr> else v)
      in if n c = - 1 then Inr v
         else
           let v = (if n cur < n c \<and> le_opt (<) n c (se_next v) then v\<lparr>se_next := Some c\<rparr> else v)
           in if c = cur then next_numbered n cur cs (v\<lparr>se_found := True\<rparr>)
              else if se_found v \<and> n cur = n c then Inl c
              else next_numbered n cur cs v)"

definition search_result :: "con_id + ws_search \<Rightarrow> con_id option" where
  "search_result r =
     (case r of
        Inl w \<Rightarrow> Some w
      | Inr v \<Rightarrow>
          (case se_next v of
             Some w \<Rightarrow> Some w
           | None \<Rightarrow> (case se_opposite v of Some w \<Rightarrow> Some w | None \<Rightarrow> se_first v)))"

text \<open>The siblings of a workspace.\<close>

definition sibling_list :: "wm \<Rightarrow> con_id \<Rightarrow> con_id list" where
  "sibling_list s c = (case parent_of s c of None \<Rightarrow> [] | Some p \<Rightarrow> nodes s p)"

text \<open>\<^const>\<open>None\<close> as the outer result: the focus is on no workspace, whose number the code would read.\<close>

definition workspace_next :: "wm \<Rightarrow> con_id option option" where
  "workspace_next s =
     map_option (\<lambda>cur.
         let n = (\<lambda>c. num (store s c)) in
         if n cur = - 1 then
           (case tailq_next cur (sibling_list s cur) of
              Some w \<Rightarrow> Some w
            | None \<Rightarrow> search_result (scan_lists (next_named n cur) (workspace_lists s) empty_search))
         else search_result (scan_lists (next_numbered n cur) (workspace_lists s) empty_search))
       (Option.bind (focused s) (con_get_workspace s))"

fun prev_named :: "(con_id \<Rightarrow> int) \<Rightarrow> con_id \<Rightarrow> con_id list \<Rightarrow> ws_search \<Rightarrow> con_id + ws_search" where
  "prev_named n cur [] v = Inr v"
| "prev_named n cur (c # cs) v =
     (let v = (if se_first v = None then v\<lparr>se_first := Some c\<rparr> else v);
          v = (if se_opposite v = None \<or> n c \<noteq> - 1 \<and> le_opt (>) n c (se_opposite v)
               then v\<lparr>se_opposite := Some c\<rparr> else v)
      in if c = cur then prev_named n cur cs (v\<lparr>se_found := True\<rparr>)
         else if n c = - 1 \<and> se_found v then Inl c
         else prev_named n cur cs v)"

fun prev_numbered :: "(con_id \<Rightarrow> int) \<Rightarrow> con_id \<Rightarrow> con_id list \<Rightarrow> ws_search \<Rightarrow> con_id + ws_search" where
  "prev_numbered n cur [] v = Inr v"
| "prev_numbered n cur (c # cs) v =
     (let v = (if se_first v = None \<or> n c \<noteq> - 1 \<and> le_opt (>) n c (se_first v)
               then v\<lparr>se_first := Some c\<rparr> else v);
          v = (if se_opposite v = None \<and> n c = - 1 then v\<lparr>se_opposite := Some c\<rparr> else v)
      in if n c = - 1 then prev_numbered n cur cs v
         else
           let v = (if n cur > n c \<and> le_opt (>) n c (se_next v) then v\<lparr>se_next := Some c\<rparr> else v)
           in if c = cur then prev_numbered n cur cs (v\<lparr>se_found := True\<rparr>)
              else if se_found v \<and> n cur = n c then Inl c
              else prev_numbered n cur cs v)"

definition workspace_prev :: "wm \<Rightarrow> con_id option option" where
  "workspace_prev s =
     map_option (\<lambda>cur.
         let n = (\<lambda>c. num (store s c)); rlists = rev (map rev (workspace_lists s)) in
         if n cur = - 1 then
           (case tailq_prev cur (sibling_list s cur) of
              Some w \<Rightarrow> if n w \<noteq> - 1 then search_result (scan_lists (prev_named n cur) rlists empty_search)
                         else Some w
            | None \<Rightarrow> search_result (scan_lists (prev_named n cur) rlists empty_search))
         else search_result (scan_lists (prev_numbered n cur) rlists empty_search))
       (Option.bind (focused s) (con_get_workspace s))"

text \<open>On the same output.\<close>

fun next_on_numbered :: "(con_id \<Rightarrow> int) \<Rightarrow> con_id \<Rightarrow> con_id list \<Rightarrow> ws_search \<Rightarrow> con_id + ws_search" where
  "next_on_numbered n cur [] v = Inr v"
| "next_on_numbered n cur (c # cs) v =
     (if n c = - 1 then Inr v
      else
        let v = (if n cur < n c \<and> le_opt (<) n c (se_next v) then v\<lparr>se_next := Some c\<rparr> else v)
        in if c = cur then next_on_numbered n cur cs (v\<lparr>se_found := True\<rparr>)
           else if se_found v \<and> n cur = n c then Inl c
           else next_on_numbered n cur cs v)"

fun prev_on_numbered :: "(con_id \<Rightarrow> int) \<Rightarrow> con_id \<Rightarrow> con_id list \<Rightarrow> ws_search \<Rightarrow> con_id + ws_search" where
  "prev_on_numbered n cur [] v = Inr v"
| "prev_on_numbered n cur (c # cs) v =
     (if n c = - 1 then prev_on_numbered n cur cs v
      else
        let v = (if n cur > n c \<and> le_opt (>) n c (se_next v) then v\<lparr>se_next := Some c\<rparr> else v)
        in if c = cur then prev_on_numbered n cur cs (v\<lparr>se_found := True\<rparr>)
           else if se_found v \<and> n cur = n c then Inl c
           else prev_on_numbered n cur cs v)"

text \<open>The second loop: the first named workspace, behind the current one if that is named.\<close>

fun opposite_on :: "(con_id \<Rightarrow> int) \<Rightarrow> con_id \<Rightarrow> bool \<Rightarrow> con_id list \<Rightarrow> con_id option" where
  "opposite_on n cur found [] = None"
| "opposite_on n cur found (c # cs) =
     (if c = cur then opposite_on n cur True cs
      else if n c = - 1 \<and> (n cur \<noteq> - 1 \<or> found) then Some c
      else opposite_on n cur found cs)"

fun extreme_on :: "(con_id \<Rightarrow> con_id \<Rightarrow> bool) \<Rightarrow> con_id option \<Rightarrow> con_id list \<Rightarrow> con_id option" where
  "extreme_on better best [] = best"
| "extreme_on better best (c # cs) =
     extreme_on better (case best of None \<Rightarrow> Some c | Some b \<Rightarrow> if better c b then Some c else Some b) cs"

definition on_output ::
  "(con_id \<Rightarrow> int) \<Rightarrow> con_id \<Rightarrow> con_id option + con_id \<Rightarrow> con_id list \<Rightarrow> (con_id \<Rightarrow> con_id \<Rightarrow> bool) \<Rightarrow> con_id option" where
  "on_output n cur start wss better =
     (case start of
        Inr w \<Rightarrow> Some w
      | Inl (Some w) \<Rightarrow> Some w
      | Inl None \<Rightarrow>
          (case opposite_on n cur False wss of Some w \<Rightarrow> Some w | None \<Rightarrow> extreme_on better None wss))"

definition started :: "con_id + ws_search \<Rightarrow> con_id option + con_id" where
  "started r = (case r of Inl w \<Rightarrow> Inr w | Inr v \<Rightarrow> Inl (se_next v))"

definition current_and_output :: "wm \<Rightarrow> (con_id \<times> con_id list) option" where
  "current_and_output s =
     (case focused s of
        None \<Rightarrow> None
      | Some f \<Rightarrow>
          (case (con_get_workspace s f, con_get_output s f) of
             (Some cur, Some out) \<Rightarrow>
               Some (cur, filter (\<lambda>c. kind s c = CT_WORKSPACE) (output_workspaces s out))
           | _ \<Rightarrow> None))"

definition workspace_next_on_output :: "wm \<Rightarrow> con_id option option" where
  "workspace_next_on_output s =
     map_option (\<lambda>(cur, wss).
         let n = (\<lambda>c. num (store s c));
             start = (if n cur = - 1 then Inl (tailq_next cur (sibling_list s cur))
                      else started (next_on_numbered n cur wss empty_search))
         in on_output n cur start wss (\<lambda>c b. n c \<noteq> - 1 \<and> n c < n b))
       (current_and_output s)"

definition workspace_prev_on_output :: "wm \<Rightarrow> con_id option option" where
  "workspace_prev_on_output s =
     map_option (\<lambda>(cur, wss).
         let n = (\<lambda>c. num (store s c)); rws = rev wss;
             start = (if n cur = - 1
               then Inl (case tailq_prev cur (sibling_list s cur) of
                      None \<Rightarrow> None | Some w \<Rightarrow> if n w \<noteq> - 1 then None else Some w)
               else started (prev_on_numbered n cur rws empty_search))
         in on_output n cur start rws (\<lambda>c b. n c > n b))
       (current_and_output s)"

subsection \<open>What is found\<close>

lemma grep_workspace_spec:
  "case grep_workspace s P of
     None \<Rightarrow> \<forall>out \<in> set (nodes s (croot s)). \<forall>c \<in> set (output_workspaces s out). \<not> P c
   | Some w \<Rightarrow> P w \<and> (\<exists>out \<in> set (nodes s (croot s)). w \<in> set (output_workspaces s out))"
proof -
  define f where "f = (\<lambda>out ws. case find P (output_workspaces s out) of None \<Rightarrow> ws | Some w \<Rightarrow> Some w)"
  have f: "f out a = (if \<forall>c \<in> set (output_workspaces s out). \<not> P c then a else find P (output_workspaces s out))" for out a
    unfolding f_def using find_None_iff [of P "output_workspaces s out"]
    by (cases "find P (output_workspaces s out)") auto
  have none: "fold f outs a = None \<Longrightarrow>
      a = None \<and> (\<forall>out \<in> set outs. \<forall>c \<in> set (output_workspaces s out). \<not> P c)" for outs a
  proof (induction outs arbitrary: a)
    case (Cons out outs)
    then have "f out a = None" "\<forall>o' \<in> set outs. \<forall>c \<in> set (output_workspaces s o'). \<not> P c"
      using Cons.IH [of "f out a"] by simp_all
    then show ?case by (auto simp: f find_None_iff split: if_splits)
  qed simp
  have some: "fold f outs a = Some w \<Longrightarrow>
      a = Some w \<or> (P w \<and> (\<exists>out \<in> set outs. w \<in> set (output_workspaces s out)))" for outs a w
  proof (induction outs arbitrary: a)
    case (Cons out outs)
    then have "f out a = Some w \<or> (P w \<and> (\<exists>o' \<in> set outs. w \<in> set (output_workspaces s o')))"
      using Cons.IH [of "f out a"] by simp
    then show ?case by (auto simp: f split: if_splits dest: find_in)
  qed simp
  show ?thesis
    unfolding grep_workspace_def f_def [symmetric]
    using none [of "nodes s (croot s)" None] some [of "nodes s (croot s)" None] by (simp split: option.splits)
qed

text \<open>An assignment by the exact name to an active output wins, and the first of them.\<close>

lemma assigned_output_by_name:
  assumes "a \<in> set as" and "wa_name a = n" and "wa_output a = Some out_name"
    and "get_output_by_name s out_name True \<noteq> None"
  shows "\<exists>b \<in> set as. \<exists>on out. wa_name b = n \<and> wa_output b = Some on \<and>
    get_output_by_name s on True = Some out \<and>
    assigned_output s (Some n) k as found = Some (o_con out)"
  using assms
proof (induction "as" arbitrary: found)
  case (Cons b bs)
  show ?case
  proof (cases "wa_name b = n \<and> (\<exists>on out. wa_output b = Some on \<and> get_output_by_name s on True = Some out)")
    case True
    then show ?thesis by auto
  next
    case False
    then have "a \<in> set bs" using Cons.prems by auto
    note IH = Cons.IH [OF this Cons.prems(2-4)]
    have "\<exists>f. assigned_output s (Some n) k (b # bs) found = assigned_output s (Some n) k bs f"
      using False by (cases "wa_output b") (auto split: option.split)
    then obtain f where "assigned_output s (Some n) k (b # bs) found = assigned_output s (Some n) k bs f" by blast
    then show ?thesis using IH [of f] by auto
  qed
qed simp

subsection \<open>The order of workspaces\<close>

definition best_next :: "(con_id \<Rightarrow> int) \<Rightarrow> con_id \<Rightarrow> con_id set \<Rightarrow> con_id option \<Rightarrow> bool" where
  "best_next n cur S w \<longleftrightarrow>
     (case w of
        None \<Rightarrow> \<forall>c \<in> S. \<not> n c > n cur
      | Some x \<Rightarrow> x \<in> S \<and> n x > n cur \<and> (\<forall>c \<in> S. n c > n cur \<longrightarrow> n x \<le> n c))"

lemma best_next_insert:
  "best_next n cur S w \<Longrightarrow>
     best_next n cur (insert c S) (if n cur < n c \<and> le_opt (<) n c w then Some c else w)"
  by (cases w) (auto simp: best_next_def le_opt_def)

lemma best_next_named: "best_next n cur S w \<Longrightarrow> \<forall>c \<in> T. n c = - 1 \<Longrightarrow> - 1 \<le> n cur \<Longrightarrow>
    best_next n cur (S \<union> T) w"
  by (cases w) (auto simp: best_next_def)

lemma next_numbered_scan:
  assumes "ws_ordered n l" and "\<forall>c \<in> set l. n c = n cur \<longrightarrow> c = cur" and "n cur \<noteq> - 1" and "- 1 \<le> n cur"
    and "best_next n cur S (se_next v)"
  shows "\<exists>v'. next_numbered n cur l v = Inr v' \<and> best_next n cur (S \<union> set l) (se_next v') \<and>
    se_opposite v' = (case se_opposite v of None \<Rightarrow> find (\<lambda>c. n c = - 1) l | Some x \<Rightarrow> Some x)"
  using assms
proof (induction l arbitrary: v S)
  case Nil
  then show ?case by (cases "se_opposite v") auto
next
  case (Cons c cs)
  define v1 where "v1 = (if se_first v = None \<or> n c \<noteq> - 1 \<and> le_opt (<) n c (se_first v)
      then v\<lparr>se_first := Some c\<rparr> else v)"
  define v2 where "v2 = (if se_opposite v1 = None \<and> n c = - 1 then v1\<lparr>se_opposite := Some c\<rparr> else v1)"
  have v2: "se_next v2 = se_next v" "se_opposite v2 = (if se_opposite v = None \<and> n c = - 1 then Some c else se_opposite v)"
    by (simp_all add: v2_def v1_def)
  show ?case
  proof (cases "n c = - 1")
    case True
    then have "\<forall>d \<in> set (c # cs). n d = - 1" using Cons.prems(1) by simp
    then have "best_next n cur (S \<union> set (c # cs)) (se_next v2)"
      unfolding v2(1) by (rule best_next_named [OF Cons.prems(5) _ Cons.prems(4)])
    moreover have "next_numbered n cur (c # cs) v = Inr v2"
      using True unfolding next_numbered.simps Let_def v1_def [symmetric] v2_def [symmetric] by simp
    ultimately show ?thesis using v2(2) True by (auto split: option.split)
  next
    case False
    define v3 where "v3 = (if n cur < n c \<and> le_opt (<) n c (se_next v2) then v2\<lparr>se_next := Some c\<rparr> else v2)"
    define v4 where "v4 = (if c = cur then v3\<lparr>se_found := True\<rparr> else v3)"
    have step: "next_numbered n cur (c # cs) v = next_numbered n cur cs v4"
      using False Cons.prems(2)
      unfolding next_numbered.simps Let_def v1_def [symmetric] v2_def [symmetric] v3_def [symmetric] v4_def by simp
    have b: "best_next n cur (insert c S) (se_next v4)"
    proof -
      have "se_next v4 = (if n cur < n c \<and> le_opt (<) n c (se_next v) then Some c else se_next v)"
        using v2(1) by (simp add: v4_def v3_def)
      then show ?thesis using best_next_insert [OF Cons.prems(5), of c] by simp
    qed
    have o4: "se_opposite v4 = se_opposite v" using v2(2) False by (simp add: v4_def v3_def)
    obtain v' where "next_numbered n cur cs v4 = Inr v'" "best_next n cur (insert c S \<union> set cs) (se_next v')"
      "se_opposite v' = (case se_opposite v4 of None \<Rightarrow> find (\<lambda>c. n c = - 1) cs | Some x \<Rightarrow> Some x)"
      using Cons.IH [OF _ _ Cons.prems(3,4) b] Cons.prems(1,2) False by auto
    then show ?thesis unfolding step using False o4 by (cases "se_opposite v") auto
  qed
qed

lemma scan_next_numbered:
  assumes "\<forall>l \<in> set ls. ws_ordered n l \<and> (\<forall>c \<in> set l. n c = n cur \<longrightarrow> c = cur)"
    and "n cur \<noteq> - 1" and "- 1 \<le> n cur" and "best_next n cur S (se_next v)"
  shows "\<exists>v'. scan_lists (next_numbered n cur) ls v = Inr v' \<and>
    best_next n cur (S \<union> set (concat ls)) (se_next v') \<and>
    se_opposite v' = (case se_opposite v of None \<Rightarrow> find (\<lambda>c. n c = - 1) (concat ls) | Some x \<Rightarrow> Some x)"
  using assms
proof (induction ls arbitrary: v S)
  case Nil
  then show ?case by (cases "se_opposite v") auto
next
  case (Cons l ls)
  obtain v1 where v1: "next_numbered n cur l v = Inr v1" "best_next n cur (S \<union> set l) (se_next v1)"
    "se_opposite v1 = (case se_opposite v of None \<Rightarrow> find (\<lambda>c. n c = - 1) l | Some x \<Rightarrow> Some x)"
    using next_numbered_scan [of n l cur S v] Cons.prems by auto
  obtain v' where v': "scan_lists (next_numbered n cur) ls v1 = Inr v'"
    "best_next n cur (S \<union> set l \<union> set (concat ls)) (se_next v')"
    "se_opposite v' = (case se_opposite v1 of None \<Rightarrow> find (\<lambda>c. n c = - 1) (concat ls) | Some x \<Rightarrow> Some x)"
    using Cons.IH [OF _ Cons.prems(2,3) v1(2)] Cons.prems(1) by auto
  have F: "find P (xs @ ys) = (case find P xs of None \<Rightarrow> find P ys | Some x \<Rightarrow> Some x)" for P and xs ys :: "con_id list"
    by (induction xs) auto
  have "se_opposite v' = (case se_opposite v of None \<Rightarrow> find (\<lambda>c. n c = - 1) (concat (l # ls)) | Some x \<Rightarrow> Some x)"
    unfolding v'(3) v1(3) by (cases "se_opposite v") (simp_all add: F split: option.split)
  then show ?case using v1(1) v'(1,2) by (simp add: Un_assoc)
qed

text \<open>
  From a numbered workspace \<open>workspace next\<close> goes to the one with the next larger number on any output;
  when there is none, to the first named one.
\<close>

lemma workspace_next_numbered:
  assumes cur: "Option.bind (focused s) (con_get_workspace s) = Some cur"
    and num: "num (store s cur) \<noteq> - 1" "- 1 \<le> num (store s cur)"
    and ord: "\<forall>l \<in> set (workspace_lists s). ws_ordered (\<lambda>c. num (store s c)) l"
    and uniq: "\<forall>c \<in> set (concat (workspace_lists s)). num (store s c) = num (store s cur) \<longrightarrow> c = cur"
  shows "(\<exists>c \<in> set (concat (workspace_lists s)). num (store s c) > num (store s cur)) \<Longrightarrow>
      \<exists>w \<in> set (concat (workspace_lists s)). workspace_next s = Some (Some w) \<and>
        num (store s w) > num (store s cur) \<and>
        (\<forall>c \<in> set (concat (workspace_lists s)). num (store s c) > num (store s cur) \<longrightarrow>
          num (store s w) \<le> num (store s c))"
    and "\<not> (\<exists>c \<in> set (concat (workspace_lists s)). num (store s c) > num (store s cur)) \<Longrightarrow>
      find (\<lambda>c. num (store s c) = - 1) (concat (workspace_lists s)) = Some w \<Longrightarrow>
      workspace_next s = Some (Some w)"
proof -
  let ?n = "\<lambda>c. num (store s c)"
  have "best_next ?n cur {} (se_next empty_search)" by (simp add: best_next_def empty_search_def)
  from scan_next_numbered [OF _ num this, of "workspace_lists s"] ord uniq obtain v where
    v: "scan_lists (next_numbered ?n cur) (workspace_lists s) empty_search = Inr v"
      "best_next ?n cur (set (concat (workspace_lists s))) (se_next v)"
      "se_opposite v = find (\<lambda>c. ?n c = - 1) (concat (workspace_lists s))"
    by (auto simp: empty_search_def)
  have eq: "workspace_next s = Some (search_result (Inr v))"
    unfolding workspace_next_def cur using v(1) num(1) by simp
  show "(\<exists>c \<in> set (concat (workspace_lists s)). ?n c > ?n cur) \<Longrightarrow>
      \<exists>w \<in> set (concat (workspace_lists s)). workspace_next s = Some (Some w) \<and> ?n w > ?n cur \<and>
        (\<forall>c \<in> set (concat (workspace_lists s)). ?n c > ?n cur \<longrightarrow> ?n w \<le> ?n c)"
    using v(2) unfolding eq best_next_def search_result_def by (cases "se_next v") auto
  show "\<not> (\<exists>c \<in> set (concat (workspace_lists s)). ?n c > ?n cur) \<Longrightarrow>
      find (\<lambda>c. ?n c = - 1) (concat (workspace_lists s)) = Some w \<Longrightarrow> workspace_next s = Some (Some w)"
    using v(2,3) unfolding eq best_next_def search_result_def by (cases "se_next v") auto
qed

text \<open>From the last named workspace \<open>workspace next\<close> does not reach a numbered one on a later output,
  while \<open>workspace prev\<close> does.\<close>

lemma next_named_misses_numbers:
  assumes "n a = - 1" and "n b = 1" and "a \<noteq> b"
  shows "search_result (scan_lists (next_named n a) [[a], [b]] empty_search) = Some a"
    and "search_result (scan_lists (prev_named n a) (rev (map rev [[a], [b]])) empty_search) = Some b"
  using assms by (simp_all add: empty_search_def le_opt_def search_result_def)

end
