(* ===== verification/Tree_Close.thy ===== *)
theory Tree_Close
  imports Tree_Prune Workspaces
begin

text \<open>
  \<open>tree_close_internal\<close> of \<^verbatim>\<open>src/tree.c\<close> with \<open>con_on_remove_child\<close> and \<open>con_close\<close> of \<^verbatim>\<open>src/con.c\<close>: a
  container goes away with everything in it, the focus moves to what \<open>con_next_focused\<close> chose before,
  and the parents that are left empty go too. The calls to the X server are the entries of \<open>x_log\<close>.
\<close>

subsection \<open>Loops over a queue that changes\<close>

text \<open>A loop over a queue of containers whose body may reorder the queue or take entries off it, in the two
  forms the code has: the next entry is read before the body (a \<open>for\<close> that saves it) or after it
  (\<open>TAILQ_FOREACH\<close>). The first argument bounds the number of turns; a loop that would need more is
  marked as aborted.\<close>

primrec walk_saved :: "nat \<Rightarrow> (wm \<Rightarrow> con_id list) \<Rightarrow> (con_id \<Rightarrow> wm \<Rightarrow> wm) \<Rightarrow> con_id option \<Rightarrow> wm \<Rightarrow> wm" where
  "walk_saved 0 queue body cur s = (if cur = None then s else abort s)"
| "walk_saved (Suc n) queue body cur s =
     (case cur of
        None \<Rightarrow> s
      | Some c \<Rightarrow> walk_saved n queue body (tailq_next c (queue s)) (body c s))"

primrec walk_after :: "nat \<Rightarrow> (wm \<Rightarrow> con_id list) \<Rightarrow> (con_id \<Rightarrow> wm \<Rightarrow> wm) \<Rightarrow> con_id option \<Rightarrow> wm \<Rightarrow> wm" where
  "walk_after 0 queue body cur s = (if cur = None then s else abort s)"
| "walk_after (Suc n) queue body cur s =
     (case cur of
        None \<Rightarrow> s
      | Some c \<Rightarrow> let s = body c s in walk_after n queue body (tailq_next c (queue s)) s)"

subsection \<open>Closing\<close>

definition x_send :: "x_request \<Rightarrow> wm \<Rightarrow> wm" where
  "x_send r s = s\<lparr>x_log := x_log s @ [r]\<rparr>"

definition close_urgency :: "con_id \<Rightarrow> wm \<Rightarrow> wm" where
  "close_urgency c s =
     (if urgent (store s c)
      then let s = con_set_urgency c False s;
               s = con_update_parents_urgency c s
           in (case con_get_workspace s c of None \<Rightarrow> abort s | Some ws \<Rightarrow> workspace_update_urgent_flag ws s)
      else s)"

text \<open>The window is unmapped, reparented and forgotten.\<close>

definition close_window :: "con_id \<Rightarrow> i3Window \<Rightarrow> wm \<Rightarrow> wm" where
  "close_window c w s =
     upd_con c (\<lambda>k. k\<lparr>window := None\<rparr>) (ipc_send (Window_Event ''close'' c) (x_send (Window_Withdraw (w_id w)) s))"

text \<open>From the choice of the next focus to its activation.\<close>

definition close_self :: "con_id \<Rightarrow> con_id \<Rightarrow> bool \<Rightarrow> wm \<Rightarrow> wm" where
  "close_self c p dont_kill_parent s =
     (let ws = con_get_workspace s c;
          focus_moves = (focused s = Some c);
          nxt = con_next_focused s c;
          s = con_detach c s;
          s = (if urgency_timer (store s c)
               then upd_con c (\<lambda>k. k\<lparr>urgency_timer := False\<rparr>)
                      (case ws of None \<Rightarrow> abort s | Some w \<Rightarrow> workspace_update_urgent_flag w s)
               else s);
          s = (if kind s c \<noteq> CT_FLOATING_CON then con_fix_percent p s else s);
          s = (if dont_kill_parent then s else tree_render s);
          s = x_send (Con_Kill c) s;
          s = con_free c s
      in if focus_moves then (case nxt of None \<Rightarrow> abort s | Some n \<Rightarrow> con_activate n s) else s)"

text \<open>The loop over the children reads the next sibling before it closes one, and closing a child takes
  only that child off the list: it visits the children the list had at the start.\<close>

fun close_children :: "(con_id \<Rightarrow> wm \<Rightarrow> bool \<times> wm) \<Rightarrow> con_id list \<Rightarrow> wm \<Rightarrow> bool \<times> wm" where
  "close_children close [] s = (True, s)"
| "close_children close (d # ds) s =
     (case close d s of (killed, s) \<Rightarrow>
      case close_children close ds s of (rest, s) \<Rightarrow> (killed \<and> rest, s))"

definition close_body ::
  "(con_id \<Rightarrow> wm \<Rightarrow> bool \<times> wm) \<Rightarrow> con_id \<Rightarrow> kill_window_t \<Rightarrow> bool \<Rightarrow> wm \<Rightarrow> bool \<times> wm" where
  "close_body close c kill_window dont_kill_parent s =
     (case parent_of s c of
        None \<Rightarrow> (False, abort s)
      | Some p \<Rightarrow>
          let s = close_urgency c s in
          case close_children close (nodes s c) s of (killed, s) \<Rightarrow>
          if \<not> killed then (False, s)
          else (case window (store s c) of
              None \<Rightarrow> (True, close_self c p dont_kill_parent s)
            | Some w \<Rightarrow>
                if kill_window \<noteq> DONT_KILL_WINDOW then (False, x_send (Window_Kill (w_id w) kill_window) s)
                else (True, close_self c p dont_kill_parent (close_window c w s))))"

text \<open>With \<open>dont_kill_parent\<close> the recursion goes down only.\<close>

primrec close_below :: "nat \<Rightarrow> kill_window_t \<Rightarrow> con_id \<Rightarrow> wm \<Rightarrow> bool \<times> wm" where
  "close_below 0 kill_window c s = (False, abort s)"
| "close_below (Suc n) kill_window c s = close_body (close_below n kill_window) c kill_window True s"

definition on_remove_child_with :: "(con_id \<Rightarrow> wm \<Rightarrow> wm) \<Rightarrow> con_id \<Rightarrow> wm \<Rightarrow> wm" where
  "on_remove_child_with close c s =
     (if kind s c = CT_OUTPUT \<or> kind s c = CT_ROOT \<or> kind s c = CT_DOCKAREA \<or>
         (\<exists>p. parent_of s c = Some p \<and> kind s p = CT_OUTPUT) then s
      else if kind s c = CT_WORKSPACE then
        (if foci s c \<noteq> [] then s
         else (case workspace_is_visible s c of
             None \<Rightarrow> abort s
           | Some v \<Rightarrow> if v then s else ipc_send (Workspace_Event ''empty'' c None) (close c s)))
      else
        let s = con_force_split_parents_redraw c s;
            s = upd_con c (\<lambda>k. k\<lparr>urgent := con_has_urgent_child s c\<rparr>) s;
            s = con_update_parents_urgency c s
        in if con_num_children s c = 0 then close c s else s)"

text \<open>Without it the parent is closed next if it became empty, and so on upwards.\<close>

primrec close_chain :: "nat \<Rightarrow> kill_window_t \<Rightarrow> con_id \<Rightarrow> wm \<Rightarrow> bool \<times> wm" where
  "close_chain 0 kill_window c s = (False, abort s)"
| "close_chain (Suc n) kill_window c s =
     (case close_body (close_below (length (all_cons s)) kill_window) c kill_window False s of (killed, t) \<Rightarrow>
      if \<not> killed then (False, t)
      else (case parent_of s c of
          None \<Rightarrow> (True, abort t)
        | Some p \<Rightarrow> (True, on_remove_child_with (\<lambda>d u. snd (close_chain n DONT_KILL_WINDOW d u)) p t)))"

definition tree_close_internal :: "con_id \<Rightarrow> kill_window_t \<Rightarrow> bool \<Rightarrow> wm \<Rightarrow> bool \<times> wm" where
  "tree_close_internal c kill_window dont_kill_parent s =
     (if dont_kill_parent then close_below (length (all_cons s)) kill_window c s
      else close_chain (length (all_cons s)) kill_window c s)"

definition con_on_remove_child :: "con_id \<Rightarrow> wm \<Rightarrow> wm" where
  "con_on_remove_child c s =
     on_remove_child_with (\<lambda>d t. snd (tree_close_internal d DONT_KILL_WINDOW False t)) c s"

text \<open>\<open>con_close\<close>: a workspace is emptied, outputs and the root stay. The loop over the focus stack
  holds on to the entry after the one it closes; closing can move that entry to the front of the
  stack, and the loop then goes on from there. Every turn closes an entry or leaves the stack as it
  is, which bounds the number of turns.\<close>

definition con_close :: "con_id \<Rightarrow> kill_window_t \<Rightarrow> wm \<Rightarrow> wm" where
  "con_close c kill_window s =
     (if kind s c = CT_OUTPUT \<or> kind s c = CT_ROOT then s
      else if kind s c = CT_WORKSPACE
      then walk_saved (Suc (length (foci s c)) ^ 2) (\<lambda>s. foci s c)
             (\<lambda>d s. snd (tree_close_internal d kill_window False s)) (tailq_first (foci s c)) s
      else snd (tree_close_internal c kill_window False s))"

subsection \<open>What closing removes\<close>

lemma close_urgency_calm: "calm s (close_urgency c s)"
proof -
  let ?t = "con_update_parents_urgency c (con_set_urgency c False s)"
  have "quiet s ?t" by (rule quiet_trans [OF con_set_urgency_quiet con_update_parents_urgency_quiet])
  then have "quiet s (case con_get_workspace ?t c of None \<Rightarrow> abort ?t | Some ws \<Rightarrow> workspace_update_urgent_flag ws ?t)"
    by (auto intro: quiet_trans workspace_update_urgent_flag_quiet split: option.split)
  then show ?thesis using quiet_calm by (simp add: close_urgency_def Let_def)
qed

lemma close_window_calm: "calm s (close_window c w s)"
  unfolding close_window_def x_send_def
  by (rule calm_trans [OF calm_trans [OF calm_steps(5) calm_steps(4)] calm_steps(7)])

definition focus_alive :: "wm \<Rightarrow> bool" where
  "focus_alive s \<longleftrightarrow> (\<exists>f \<in> set (all_cons s). focused s = Some f)"

lemma calm_focus_alive: "calm s t \<Longrightarrow> focus_alive t = focus_alive s"
  by (simp add: focus_alive_def calm_def same_links_def)

lemma close_self_pruned:
  assumes r: "rooted s" and c: "c \<in> set (all_cons s)" and leaf: "children s c = []"
    and p: "parent_of s c = Some p" and root: "p \<noteq> croot s" and dock: "kind s p \<noteq> CT_DOCKAREA"
    and foc: "focus_alive s"
  shows "pruned s (close_self c p dkp s) {c}" and "focus_alive (close_self c p dkp s)"
proof -
  obtain n where n: "con_next_focused s c = Some n" "n \<in> set (all_cons s)" "n \<noteq> c" "n \<noteq> croot s"
    using con_next_focused_survives [OF r c leaf p root dock] by blast
  define s1 where "s1 = con_detach c s"
  define s2 where "s2 = (if urgency_timer (store s1 c)
     then upd_con c (\<lambda>k. k\<lparr>urgency_timer := False\<rparr>)
       (case con_get_workspace s c of None \<Rightarrow> abort s1 | Some w \<Rightarrow> workspace_update_urgent_flag w s1) else s1)"
  define s3 where "s3 = (if kind s2 c \<noteq> CT_FLOATING_CON then con_fix_percent p s2 else s2)"
  define s4 where "s4 = (if dkp then s3 else tree_render s3)"
  define s5 where "s5 = x_send (Con_Kill c) s4"
  have "calm s1 (case con_get_workspace s c of None \<Rightarrow> abort s1 | Some w \<Rightarrow> workspace_update_urgent_flag w s1)"
    by (auto intro: quiet_calm workspace_update_urgent_flag_quiet split: option.split)
  then have "calm s1 s2" unfolding s2_def using calm_trans calm_steps(6) by auto
  also have "calm s2 s3" by (simp add: s3_def)
  also have "calm s3 s4" by (simp add: s4_def quiet_calm only_geometry_quiet tree_render_geo)
  also have "calm s4 s5" by (simp add: s5_def x_send_def)
  finally have calm: "calm (con_detach c s) s5" by (simp add: s1_def)
  let ?t = "con_free c s5"
  have P: "pruned s ?t {c}" by (rule detach_free_pruned [OF r c p calm])
  have "\<not> (\<exists>d \<in> set (all_cons s). parent_of s d = Some c)"
    using rooted_linked(1) [OF r] leaf by fastforce
  moreover have "c \<noteq> croot s" using p rootedD(3) [OF r] by auto
  ultimately have dw: "downward s {c}" by (auto simp: downward_def)
  have rt: "rooted ?t" by (rule pruned_rooted [OF r P dw])
  have ft: "focused ?t = focused s" using calm by (simp add: calm_def)
  have nt: "n \<in> set (all_cons ?t)" "n \<noteq> croot ?t" using n prunedD(2,4) [OF P] by auto
  note A = con_activate_pruned [OF rt nt]
  have eq: "close_self c p dkp s = (if focused s = Some c then con_activate n ?t else ?t)"
    unfolding close_self_def Let_def s1_def [symmetric] s2_def [symmetric] s3_def [symmetric]
      s4_def [symmetric] s5_def [symmetric] by (simp add: n(1))
  show "pruned s (close_self c p dkp s) {c}" using pruned_trans [OF P A(1)] P eq by simp
  show "focus_alive (close_self c p dkp s)"
  proof (cases "focused s = Some c")
    case True
    then show ?thesis using A nt(1) prunedD(2) [OF A(1)] by (simp add: eq focus_alive_def)
  next
    case False
    then show ?thesis using foc ft prunedD(2) [OF P] by (auto simp: eq focus_alive_def)
  qed
qed

text \<open>What the recursion of the closing promises for one container: it removes a part of what is below
  it, all of it when it says so, and the focus is never left on a container that is gone.\<close>

definition closes :: "kill_window_t \<Rightarrow> wm \<Rightarrow> con_id \<Rightarrow> bool \<times> wm \<Rightarrow> bool" where
  "closes kw s c result \<longleftrightarrow> (\<exists>X. pruned s (snd result) X \<and> downward s X \<and> X \<subseteq> below s c \<and>
     (fst result \<longleftrightarrow> X = below s c) \<and> (kw = DONT_KILL_WINDOW \<longrightarrow> fst result)) \<and> focus_alive (snd result)"

text \<open>A container that \<open>tree_close_internal\<close> can close: not the root or an output, not a dock client,
  and no workspace with floating windows below it.\<close>

definition closable :: "wm \<Rightarrow> con_id \<Rightarrow> bool" where
  "closable s c \<longleftrightarrow> c \<in> set (all_cons s) \<and>
     (\<exists>p. parent_of s c = Some p \<and> p \<noteq> croot s \<and> kind s p \<noteq> CT_DOCKAREA) \<and>
     (\<forall>x \<in> below s c. floats s x = [] \<and> kind s x \<noteq> CT_DOCKAREA)"

lemma closable_pruned:
  assumes r: "rooted s" and c: "closable s c" and p: "pruned s t X" and dw: "downward s X"
    and disj: "below s c \<inter> X = {}"
  shows "closable t c" and "below t c = below s c"
proof -
  note ok = rootedD(1) [OF r] and D = prunedD [OF p] and S = pruned_sets [OF p]
  show b: "below t c = below s c" using pruned_below [OF ok p dw] disj by blast
  have cs: "c \<in> set (all_cons s)" using c by (simp add: closable_def)
  have ct: "c \<in> set (all_cons t)" using below_self [OF ok cs] disj cs D(2) by blast
  obtain q where q: "parent_of s c = Some q" "q \<noteq> croot s" "kind s q \<noteq> CT_DOCKAREA"
    using c by (auto simp: closable_def)
  have "parent_of t c = Some q" using D(5) [OF ct] q(1) by simp
  then have qt: "q \<in> set (all_cons t)" using tree_okD(11) [OF pruned_tree_ok [OF ok p dw] ct] by simp
  have "floats t x = [] \<and> kind t x \<noteq> CT_DOCKAREA" if "x \<in> below s c" for x
  proof -
    have x: "x \<in> set (all_cons t)" using that b by (auto simp: below_def)
    have "floats s x = []" "kind s x \<noteq> CT_DOCKAREA" using that c by (simp_all add: closable_def)
    then show ?thesis using S(2) [OF x] D(6) [OF x] by simp
  qed
  then show "closable t c" using q ct \<open>parent_of t c = Some q\<close> D(4) D(6) [OF qt] b by (auto simp: closable_def)
qed

lemma disjoint_union_eq: "A \<inter> B = {} \<Longrightarrow> X \<subseteq> A \<Longrightarrow> Y \<subseteq> B \<Longrightarrow> (X \<union> Y = A \<union> B) = (X = A \<and> Y = B)"
  by blast

lemma close_children_closes:
  fixes close kw n
  assumes IH: "\<And>s d. rooted s \<Longrightarrow> focus_alive s \<Longrightarrow> closable s d \<Longrightarrow> card (below s d) \<le> n \<Longrightarrow> closes kw s d (close d s)"
  shows "rooted s \<Longrightarrow> focus_alive s \<Longrightarrow> \<forall>d \<in> set ds. closable s d \<and> card (below s d) \<le> n \<Longrightarrow> distinct ds \<Longrightarrow>
    \<forall>d \<in> set ds. \<forall>e \<in> set ds. d \<noteq> e \<longrightarrow> below s d \<inter> below s e = {} \<Longrightarrow>
    (let (k, t) = close_children close ds s in
     (\<exists>X. pruned s t X \<and> downward s X \<and> X \<subseteq> (\<Union>d \<in> set ds. below s d) \<and>
       (k \<longleftrightarrow> X = (\<Union>d \<in> set ds. below s d)) \<and> (kw = DONT_KILL_WINDOW \<longrightarrow> k)) \<and> focus_alive t)"
proof (induction ds arbitrary: s)
  case Nil
  then show ?case using rootedD(1-4) by (auto intro!: exI [of _ "{}"] simp: downward_def)
next
  case (Cons d ds)
  obtain k1 t1 where 1: "close d s = (k1, t1)" by fastforce
  obtain k2 t2 where 2: "close_children close ds t1 = (k2, t2)" by fastforce
  have "closes kw s d (k1, t1)" using IH [of s d] Cons.prems 1 by simp
  then obtain X where X: "pruned s t1 X" "downward s X" "X \<subseteq> below s d" "k1 \<longleftrightarrow> X = below s d"
    "kw = DONT_KILL_WINDOW \<longrightarrow> k1" and f1: "focus_alive t1"
    by (auto simp: closes_def)
  note r1 = pruned_rooted [OF Cons.prems(1) X(1,2)]
  have disj: "below s e \<inter> below s d = {}" if "e \<in> set ds" for e using that Cons.prems(4,5) by auto
  have keep: "closable t1 e" "below t1 e = below s e" if "e \<in> set ds" for e
    using closable_pruned [OF Cons.prems(1) _ X(1,2), of e] that Cons.prems(3) disj X(3) by auto
  have "let (k, t) = close_children close ds t1 in
     (\<exists>X. pruned t1 t X \<and> downward t1 X \<and> X \<subseteq> (\<Union>d \<in> set ds. below t1 d) \<and>
       (k \<longleftrightarrow> X = (\<Union>d \<in> set ds. below t1 d)) \<and> (kw = DONT_KILL_WINDOW \<longrightarrow> k)) \<and> focus_alive t"
    by (rule Cons.IH [OF r1 f1]) (use Cons.prems keep in auto)
  then obtain Y where Y: "pruned t1 t2 Y" "downward t1 Y" "Y \<subseteq> (\<Union>d \<in> set ds. below s d)"
    "k2 \<longleftrightarrow> Y = (\<Union>d \<in> set ds. below s d)" "kw = DONT_KILL_WINDOW \<longrightarrow> k2" and f2: "focus_alive t2"
    using keep(2) by (auto simp: 2)
  have "k1 \<and> k2 \<longleftrightarrow> X \<union> Y = (\<Union>e \<in> set (d # ds). below s e)"
  proof -
    have "below s d \<inter> (\<Union>d \<in> set ds. below s d) = {}" using disj by blast
    from disjoint_union_eq [OF this X(3) Y(3)] show ?thesis using X(4) Y(4) by simp
  qed
  moreover have "X \<union> Y \<subseteq> (\<Union>e \<in> set (d # ds). below s e)" using X(3) Y(3) by auto
  ultimately show ?case using pruned_trans [OF X(1) Y(1)] downward_trans [OF X(1,2) Y(2)] X(5) Y(5) f2
    by (auto simp: 1 2 intro!: exI [of _ "X \<union> Y"])
qed

lemma close_body_closes:
  assumes IH: "\<And>s d. rooted s \<Longrightarrow> focus_alive s \<Longrightarrow> closable s d \<Longrightarrow> card (below s d) \<le> n \<Longrightarrow> closes kw s d (close d s)"
    and r: "rooted s" and f: "focus_alive s" and cl: "closable s c" and n: "card (below s c) \<le> Suc n"
  shows "closes kw s c (close_body close c kw dkp s)"
proof -
  note ok = rootedD(1) [OF r]
  have c: "c \<in> set (all_cons s)" using cl by (simp add: closable_def)
  obtain p where p: "parent_of s c = Some p" "p \<noteq> croot s" "kind s p \<noteq> CT_DOCKAREA" using cl by (auto simp: closable_def)
  define s1 where "s1 = close_urgency c s"
  have P1: "pruned s s1 {}" and f1: "focus_alive s1"
    using close_urgency_calm [of s c] calm_pruned calm_focus_alive f by (auto simp: s1_def)
  have d0: "downward s {}" by (simp add: downward_def)
  note r1 = pruned_rooted [OF r P1 d0]
  have cl1: "closable s1 c" "below s1 c = below s c" using closable_pruned [OF r cl P1 d0] by auto
  have c1: "c \<in> set (all_cons s1)" using cl1(1) by (simp add: closable_def)
  have kids: "children s1 c = nodes s1 c" using cl1 below_self [OF ok c] by (simp add: closable_def)
  have sub: "below s1 d \<subset> below s1 c" if "d \<in> set (nodes s1 c)" for d using below_child [OF r1 c1] kids that by simp
  have cd: "kind s1 c \<noteq> CT_DOCKAREA" "c \<noteq> croot s1"
    using cl1 below_self [OF ok c] p(1) rootedD(3) [OF r] prunedD(4) [OF P1] by (auto simp: closable_def)
  have "closable s1 d \<and> card (below s1 d) \<le> n" if d: "d \<in> set (nodes s1 c)" for d
  proof -
    have "card (below s1 d) < card (below s1 c)" using sub [OF d] by (intro psubset_card_mono) (auto simp: below_def)
    moreover have "closable s1 d"
      using sub [OF d] cl1(1) tree_ok_child_parent [OF rootedD(1) [OF r1] c1, of d] d cd by (auto simp: closable_def)
    ultimately show ?thesis using n cl1(2) by simp
  qed
  moreover have "\<forall>d \<in> set (nodes s1 c). \<forall>e \<in> set (nodes s1 c). d \<noteq> e \<longrightarrow> below s1 d \<inter> below s1 e = {}"
    using below_disjoint [OF rootedD(1) [OF r1] c1] by simp
  ultimately have kill: "let (k, t) = close_children close (nodes s1 c) s1 in
     (\<exists>X. pruned s1 t X \<and> downward s1 X \<and> X \<subseteq> (\<Union>d \<in> set (nodes s1 c). below s1 d) \<and>
       (k \<longleftrightarrow> X = (\<Union>d \<in> set (nodes s1 c). below s1 d)) \<and> (kw = DONT_KILL_WINDOW \<longrightarrow> k)) \<and> focus_alive t"
    using close_children_closes [OF IH r1 f1] tree_okD(1) [OF rootedD(1) [OF r1] c1] by simp
  obtain k t where kt: "close_children close (nodes s1 c) s1 = (k, t)" by fastforce
  obtain X where X: "pruned s1 t X" "downward s1 X" "X \<subseteq> (\<Union>d \<in> set (nodes s1 c). below s1 d)"
    "k \<longleftrightarrow> X = (\<Union>d \<in> set (nodes s1 c). below s1 d)" "kw = DONT_KILL_WINDOW \<longrightarrow> k" and f2: "focus_alive t"
    using kill by (auto simp: kt)
  have bu: "below s c = insert c (\<Union>d \<in> set (nodes s1 c). below s1 d)"
    using below_unfold [OF r1 c1] kids cl1(2) by simp
  have cX: "c \<notin> X"
  proof -
    have "c \<notin> below s1 d" if "d \<in> set (nodes s1 c)" for d
      using parent_not_below [OF rootedD(1) [OF r1]] tree_ok_child_parent [OF rootedD(1) [OF r1] c1, of d] that
      by (auto simp: below_def)
    then show ?thesis using X(3) by blast
  qed
  have PX: "pruned s t X" "downward s X" using pruned_trans [OF P1 X(1)] downward_trans [OF P1 d0 X(2)] by simp_all
  have sXb: "X \<subseteq> below s c" using X(3) bu by blast
  note r2 = pruned_rooted [OF r PX]
  have stay: "closes kw s c (False, u)" if "kw \<noteq> DONT_KILL_WINDOW" "calm t u" for u
  proof -
    have "pruned s u X" using pruned_trans [OF PX(1) calm_pruned [OF that(2)]] by simp
    then show ?thesis using that PX(2) sXb cX f2 calm_focus_alive [OF that(2)] below_self [OF ok c]
      by (auto simp: closes_def)
  qed
  have go: "closes kw s c (True, close_self c p dkp u)" if k and "calm t u" for u
  proof -
    have P2: "pruned s u X" using pruned_trans [OF PX(1) calm_pruned [OF that(2)]] by simp
    note r3 = pruned_rooted [OF r P2 PX(2)]
    have cu: "c \<in> set (all_cons u)" using c cX prunedD(2) [OF P2] by blast
    have pu: "parent_of u c = Some p" using prunedD(5) [OF P2 cu] p by simp
    have pa: "p \<in> set (all_cons u)" using tree_okD(11) [OF rootedD(1) [OF r3] cu pu] .
    have full: "X = (\<Union>d \<in> set (nodes s1 c). below s1 d)" using X(4) that(1) by blast
    have "d \<in> X" if "d \<in> set (children s1 c)" for d
      using that kids full below_self [OF rootedD(1) [OF r1]] tree_ok_child_parent(1) [OF rootedD(1) [OF r1] c1] by auto
    moreover have "pruned s1 u X" using pruned_trans [OF X(1) calm_pruned [OF that(2)]] by simp
    ultimately have "set (children u c) = {}" using pruned_sets(1,2) [of s1 u X c] cu by auto
    then have leaf: "children u c = []" by simp
    have fu: "focus_alive u" using f2 calm_focus_alive [OF that(2)] by simp
    note C = close_self_pruned [OF r3 cu leaf pu _ _ fu, of dkp]
    have pq: "p \<noteq> croot u" "kind u p \<noteq> CT_DOCKAREA" using p(2,3) prunedD(4,6) [OF P2] pa by auto
    have "downward u {c}"
    proof -
      have "\<not> (\<exists>d \<in> set (all_cons u). parent_of u d = Some c)" using rooted_linked(1) [OF r3] leaf by fastforce
      moreover have "c \<noteq> croot u" using pu rootedD(3) [OF r3] by auto
      ultimately show ?thesis by (auto simp: downward_def)
    qed
    from downward_trans [OF P2 PX(2) this] pruned_trans [OF P2 C(1) [OF pq]]
    have "pruned s (close_self c p dkp u) (below s c)" "downward s (below s c)" using bu full by simp_all
    then show ?thesis using C(2) [OF pq] by (auto simp: closes_def)
  qed
  show ?thesis
  proof (cases k)
    case False
    then show ?thesis using stay [OF _ calm_refl] X(5) p(1) by (auto simp: close_body_def Let_def s1_def [symmetric] kt)
  next
    case True
    have xs: "calm t (x_send q t)" for q by (simp add: x_send_def)
    show ?thesis using True go [OF True calm_refl] go [OF True close_window_calm] stay [OF _ xs] p(1)
      by (auto simp: close_body_def Let_def s1_def [symmetric] kt split: option.splits)
  qed
qed

lemma close_below_closes:
  "rooted s \<Longrightarrow> focus_alive s \<Longrightarrow> closable s c \<Longrightarrow> card (below s c) \<le> n \<Longrightarrow> closes kw s c (close_below n kw c s)"
proof (induction n arbitrary: s c)
  case 0
  then have "c \<in> below s c" using below_self [OF rootedD(1)] by (simp add: closable_def)
  then show ?case using 0(4) by (auto simp: below_def)
next
  case (Suc n)
  show ?case unfolding close_below.simps by (rule close_body_closes [OF Suc.IH Suc.prems])
qed

subsection \<open>The parents that are left empty\<close>

text \<open>The same for a closing that goes on upwards: ancestors may go, but only with everything below.\<close>

definition closes_up :: "kill_window_t \<Rightarrow> wm \<Rightarrow> con_id \<Rightarrow> bool \<times> wm \<Rightarrow> bool" where
  "closes_up kw s c result \<longleftrightarrow> (\<exists>X. pruned s (snd result) X \<and> downward s X \<and>
     X \<subseteq> below s c \<union> set (ancestors s c) \<and>
     (fst result \<longleftrightarrow> below s c \<subseteq> X) \<and> (kw = DONT_KILL_WINDOW \<longrightarrow> fst result)) \<and> focus_alive (snd result)"

lemma on_remove_child_closes:
  assumes r: "rooted s" and f: "focus_alive s" and p: "p \<in> set (all_cons s)"
    and up: "\<And>q. parent_of s p = Some q \<Longrightarrow> kind s q \<noteq> CT_DOCKAREA"
    and IH: "\<And>t. pruned s t {} \<Longrightarrow> focus_alive t \<Longrightarrow> closable t p \<Longrightarrow> closes_up DONT_KILL_WINDOW t p (close p t)"
  shows "\<exists>X. pruned s (on_remove_child_with (\<lambda>d u. snd (close d u)) p s) X \<and> downward s X \<and>
    X \<subseteq> set (ancestors s p) \<and> focus_alive (on_remove_child_with (\<lambda>d u. snd (close d u)) p s)"
proof -
  have d0: "downward s {}" by (simp add: downward_def)
  have same: "\<exists>X. pruned s t X \<and> downward s X \<and> X \<subseteq> set (ancestors s p) \<and> focus_alive t" if "calm s t" for t
    using calm_pruned [OF that] calm_focus_alive [OF that] f d0 by auto
  have gone: "\<exists>X. pruned s u X \<and> downward s X \<and> X \<subseteq> set (ancestors s p) \<and> focus_alive u"
    if t: "calm s t" and e: "children t p = []"
      and k: "kind s p \<noteq> CT_OUTPUT" "kind s p \<noteq> CT_ROOT" "kind s p \<noteq> CT_DOCKAREA"
      and u: "calm (snd (close p t)) u" for t u
  proof -
    have P: "pruned s t {}" by (rule calm_pruned [OF t])
    note rt = pruned_rooted [OF r P d0]
    have pt: "p \<in> set (all_cons t)" using p prunedD(2) [OF P] by simp
    have b: "below t p = {p}" using below_unfold [OF rt pt] e by simp
    have n: "p \<noteq> croot s" using k rootedD(4) [OF r] by auto
    then obtain q where q: "parent_of s p = Some q" using rootedD(5) [OF r p] by blast
    have "q \<noteq> croot s" using rootedD(8) [OF r p] q k by auto
    moreover have "q \<in> set (all_cons s)" by (rule rooted_linked(2) [OF r p q])
    ultimately have "closable t p"
      using q b e k up [OF q] pt prunedD(2,4,5,6) [OF P] by (auto simp: closable_def)
    then obtain X where X: "pruned t (snd (close p t)) X" "downward t X" "X \<subseteq> below t p \<union> set (ancestors t p)"
      and fa: "focus_alive (snd (close p t))"
      using IH [OF P] calm_focus_alive [OF t] f by (auto simp: closes_up_def)
    have "ancestors t p = ancestors s p" by (rule pruned_ancestors [OF rootedD(1) [OF r] P d0 pt])
    then have "X \<subseteq> set (ancestors s p)" using X(3) b self_in_ancestors [OF rootedD(1) [OF r] p] by auto
    moreover have "pruned s u X" using pruned_trans [OF pruned_trans [OF P X(1)] calm_pruned [OF u]] by simp
    moreover have "downward s X" using downward_trans [OF P d0 X(2)] by simp
    ultimately show ?thesis using fa calm_focus_alive [OF u] by auto
  qed
  define t where "t = con_update_parents_urgency p
    (upd_con p (\<lambda>k. k\<lparr>urgent := con_has_urgent_child (con_force_split_parents_redraw p s) p\<rparr>)
      (con_force_split_parents_redraw p s))"
  have t: "calm s t" unfolding t_def
    by (rule calm_trans [OF calm_trans [OF calm_steps(2) calm_steps(8)] quiet_calm [OF con_update_parents_urgency_quiet]])
  show ?thesis
  proof (cases "kind s p = CT_OUTPUT \<or> kind s p = CT_ROOT \<or> kind s p = CT_DOCKAREA \<or>
      (\<exists>q. parent_of s p = Some q \<and> kind s q = CT_OUTPUT)")
    case True
    then have "on_remove_child_with (\<lambda>d u. snd (close d u)) p s = s" by (auto simp: on_remove_child_with_def)
    then show ?thesis using same [OF calm_refl] by simp
  next
    case False
    then have k: "kind s p \<noteq> CT_OUTPUT" "kind s p \<noteq> CT_ROOT" "kind s p \<noteq> CT_DOCKAREA" by auto
    show ?thesis
    proof (cases "kind s p = CT_WORKSPACE")
      case True
      have "children s p = []" if "foci s p = []" using tree_okD(4) [OF rootedD(1) [OF r] p] that by simp
      then show ?thesis using False True same [OF calm_refl] same [OF calm_steps(3)] gone [OF calm_refl _ k calm_steps(4)]
        by (auto simp: on_remove_child_with_def split: option.split)
    next
      case nows: False
      have eq: "on_remove_child_with (\<lambda>d u. snd (close d u)) p s =
          (if con_num_children t p = 0 then snd (close p t) else t)"
        unfolding on_remove_child_with_def Let_def t_def [symmetric] using False nows by auto
      have "children t p = []" if "con_num_children t p = 0"
        using that rootedD(7) [OF r p] nows t by (auto simp: con_num_children_def calm_def same_links_def)
      then show ?thesis using eq same [OF t] gone [OF t _ k calm_refl] by simp
    qed
  qed
qed

lemma close_chain_closes:
  "rooted s \<Longrightarrow> focus_alive s \<Longrightarrow> closable s c \<Longrightarrow> length (ancestors s c) \<le> n \<Longrightarrow>
     closes_up kw s c (close_chain n kw c s)"
proof (induction n arbitrary: kw s c)
  case 0
  then show ?case using self_in_ancestors [OF rootedD(1) [OF 0(1)], of c] by (auto simp: closable_def)
next
  case (Suc n)
  note r = Suc.prems(1) and f = Suc.prems(2) and cl = Suc.prems(3) and ok = rootedD(1) [OF Suc.prems(1)]
  have c: "c \<in> set (all_cons s)" using cl by (simp add: closable_def)
  obtain p where p: "parent_of s c = Some p" using cl by (auto simp: closable_def)
  obtain k t where kt: "close_body (close_below (length (all_cons s)) kw) c kw False s = (k, t)" by fastforce
  have "closes kw s c (k, t)" unfolding kt [symmetric]
    by (rule close_body_closes [OF close_below_closes r f cl le_SucI [OF below_card [OF r c]]])
  then obtain X where X: "pruned s t X" "downward s X" "X \<subseteq> below s c" "k \<longleftrightarrow> X = below s c"
    "kw = DONT_KILL_WINDOW \<longrightarrow> k" and ft: "focus_alive t"
    by (auto simp: closes_def)
  show ?case
  proof (cases k)
    case False
    then have "\<not> below s c \<subseteq> X" using X(3,4) by blast
    then show ?thesis using False X ft by (auto simp: closes_up_def kt intro!: exI [of _ X])
  next
    case True
    then have Xb: "X = below s c" using X(4) by blast
    note rt = pruned_rooted [OF r X(1,2)]
    have a: "ancestors s c = c # ancestors s p" using ancestors_unfold [OF ok c] p by simp
    note P = rooted_linked [OF r c p]
    have pX: "p \<notin> X" using Xb parent_not_below [OF ok c p] by (simp add: below_def)
    then have pt: "p \<in> set (all_cons t)" using P(2) prunedD(2) [OF X(1)] by blast
    have at: "ancestors t p = ancestors s p" by (rule pruned_ancestors [OF ok X(1,2) pt])
    have up: "kind t q \<noteq> CT_DOCKAREA" if q: "parent_of t p = Some q" for q
    proof -
      have qs: "parent_of s p = Some q" using q prunedD(5) [OF X(1) pt] by simp
      have "children s p \<noteq> []" using P(1) by auto
      then have "kind s q \<noteq> CT_DOCKAREA" using rootedD(9) [OF r P(2) qs] by blast
      then show ?thesis using prunedD(6) [OF X(1) rooted_linked(2) [OF rt pt q]] by simp
    qed
    have IH: "closes_up DONT_KILL_WINDOW u p (close_chain n DONT_KILL_WINDOW p u)"
      if "pruned t u {}" "focus_alive u" "closable u p" for u
    proof (rule Suc.IH [OF _ that(2,3)])
      have d0: "downward t {}" by (simp add: downward_def)
      show "rooted u" by (rule pruned_rooted [OF rt that(1) d0])
      have "p \<in> set (all_cons u)" using that(3) by (simp add: closable_def)
      then have "ancestors u p = ancestors t p" by (rule pruned_ancestors [OF rootedD(1) [OF rt] that(1) d0])
      then show "length (ancestors u p) \<le> n" using Suc.prems(4) at a by simp
    qed
    let ?u = "on_remove_child_with (\<lambda>d u. snd (close_chain n DONT_KILL_WINDOW d u)) p t"
    obtain Y where Y: "pruned t ?u Y" "downward t Y" "Y \<subseteq> set (ancestors s p)" "focus_alive ?u"
      using on_remove_child_closes [where close = "close_chain n DONT_KILL_WINDOW", OF rt ft pt up IH] at by auto
    have eq: "close_chain (Suc n) kw c s = (True, ?u)" using True p by (simp add: kt)
    show ?thesis
      using pruned_trans [OF X(1) Y(1)] downward_trans [OF X(1,2) Y(2)] Y(3,4) Xb a
      unfolding eq by (auto simp: closes_up_def intro!: exI [of _ "X \<union> Y"])
  qed
qed

lemma tree_close_internal_closes:
  assumes r: "rooted s" and f: "focus_alive s" and cl: "closable s c"
  shows "closes_up kw s c (tree_close_internal c kw False s)"
proof -
  have c: "c \<in> set (all_cons s)" using cl by (simp add: closable_def)
  have "length (ancestors s c) = card (set (ancestors s c))"
    using ancestors_chain(2) [OF rootedD(1) [OF r] c] by (simp add: distinct_card)
  also have "\<dots> \<le> card (set (all_cons s))" using ancestors_alloc [OF rootedD(1) [OF r] c] by (intro card_mono) auto
  also have "\<dots> \<le> length (all_cons s)" by (rule card_length)
  finally show ?thesis using close_chain_closes [OF r f cl] by (simp add: tree_close_internal_def)
qed

end
