(* ===== verification/Encapsulate.thy ===== *)
theory Encapsulate
  imports Tree_Prune Workspaces
begin

text \<open>
  The operations that put all tiling children of a workspace below a new split container:
  \<open>workspace_encapsulate\<close> and \<open>ws_force_orientation\<close> of \<^verbatim>\<open>src/workspace.c\<close> and the part of
  \<open>con_set_layout\<close> of \<^verbatim>\<open>src/con.c\<close> that does the same. The children keep their order and their focus
  order, floating containers stay.
\<close>

subsection \<open>Moving all children\<close>

text \<open>The loop takes the first tiling child until none is left; each turn removes exactly that child, so
  it moves the children the list has at the start, in order.\<close>

definition move_children :: "con_id \<Rightarrow> con_id \<Rightarrow> wm \<Rightarrow> wm" where
  "move_children p q s =
     (let focus_order = get_focus_order s p;
          s = fold (\<lambda>c s. con_attach c q True (con_detach c s)) (nodes s p) s
      in (case set_focus_order q focus_order s of None \<Rightarrow> abort s | Some t \<Rightarrow> t))"

definition new_split :: "con_id \<Rightarrow> layout_t \<Rightarrow> wm \<Rightarrow> con_id \<times> wm" where
  "new_split p l s =
     (case con_new_detached None s of (new, s) \<Rightarrow>
        (new, upd_con new (\<lambda>k. k\<lparr>layout := l\<rparr>) (upd_con new (\<lambda>k. k\<lparr>parent := Some p\<rparr>) s)))"

definition workspace_encapsulate :: "con_id \<Rightarrow> wm \<Rightarrow> con_id option \<times> wm" where
  "workspace_encapsulate ws s =
     (if nodes s ws = [] then (None, s)
      else case new_split ws (layout_of s ws) s of (new, s) \<Rightarrow>
        (Some new, con_attach new ws True (move_children ws new s)))"

definition split_layout :: "orientation_t \<Rightarrow> layout_t" where
  "split_layout ori = (if ori = HORIZ then L_SPLITH else L_SPLITV)"

definition ws_force_orientation :: "con_id \<Rightarrow> orientation_t \<Rightarrow> wm \<Rightarrow> wm" where
  "ws_force_orientation ws ori s =
     (case new_split ws (layout_of s ws) s of (split, s) \<Rightarrow>
        let s = move_children ws split s;
            s = upd_con ws (\<lambda>k. k\<lparr>layout := split_layout ori\<rparr>) s;
            s = con_attach split ws False s
        in con_fix_percent ws s)"

subsection \<open>One child\<close>

lemma redraw_aborted [simp]: "aborted (con_force_split_parents_redraw c s) = aborted s"
  unfolding con_force_split_parents_redraw_def Let_def by (rule fold_upd_eq) simp

lemma con_detach_aborted [simp]: "aborted (con_detach c s) = aborted s"
  by (auto simp: con_detach_def Let_def split: option.splits)

text \<open>What moving containers from one list to another leaves alone.\<close>

definition same_but_links :: "wm \<Rightarrow> wm \<Rightarrow> bool" where
  "same_but_links s t \<longleftrightarrow> all_cons t = all_cons s \<and> next_id t = next_id s \<and> croot t = croot s \<and>
     focused t = focused s \<and> aborted t = aborted s \<and> cfg t = cfg s \<and>
     (\<forall>d. kind t d = kind s d \<and> floating (store t d) = floating (store s d) \<and> layout_of t d = layout_of s d \<and>
        window (store t d) = window (store s d) \<and> workspace_layout (store t d) = workspace_layout (store s d) \<and>
        last_split_layout (store t d) = last_split_layout (store s d) \<and> percent (store t d) = percent (store s d))"

lemma same_but_links_refl [simp]: "same_but_links s s"
  by (simp add: same_but_links_def)

lemma same_but_links_trans [trans]: "same_but_links s t \<Longrightarrow> same_but_links t u \<Longrightarrow> same_but_links s u"
  by (simp add: same_but_links_def)

lemma con_detach_lists:
  assumes "parent_of s c = Some p" and "kind s c \<noteq> CT_FLOATING_CON"
  shows "nodes (con_detach c s) d = (if d = p then remove1 c (nodes s d) else nodes s d)"
    and "floats (con_detach c s) d = floats s d"
    and "foci (con_detach c s) d = (if d = p then remove1 c (foci s d) else foci s d)"
    and "same_but_links s (con_detach c s)"
  using con_detach_left [OF assms(1)] assms(2) by (auto simp: left_def same_but_links_def)

lemma con_attach_lists:
  assumes k: "kind s c \<noteq> CT_WORKSPACE" "kind s c \<noteq> CT_FLOATING_CON" "kind s q \<noteq> CT_DOCKAREA"
    and w: "window (store s c) = None \<or> kind s q \<noteq> CT_WORKSPACE" and neq: "c \<noteq> q"
    and at: "ig \<or> find (\<lambda>x. kind s x \<noteq> CT_FLOATING_CON) (foci s q) = None"
  defines "t \<equiv> con_attach c q ig s"
  shows "nodes t d = (if d = q then nodes s q @ [c] else nodes s d)" and "floats t d = floats s d"
    and "foci t d = (if d = q then foci s q @ [c] else foci s d)"
    and "parent_of t d = (if d = c then Some q else parent_of s d)" and "same_but_links s t"
proof -
  have t: "t = append_focus c q (append_node_after None c q (upd_con c (\<lambda>k. k\<lparr>parent := Some q\<rparr>) s))"
    using k w at unfolding t_def con_attach_def con_attach_at_def con_attach_with_def Let_def set_parent_fields
    by (auto cong: if_cong)
  show "nodes t d = (if d = q then nodes s q @ [c] else nodes s d)" "floats t d = floats s d"
    "foci t d = (if d = q then foci s q @ [c] else foci s d)"
    "parent_of t d = (if d = c then Some q else parent_of s d)" "same_but_links s t"
    using neq by (simp_all add: t append_focus_def append_node_after_def same_but_links_def)
qed

subsection \<open>All children\<close>

lemma move_all:
  assumes "distinct cs" and "p \<noteq> q" and "q \<notin> set cs" and "kind s q \<noteq> CT_DOCKAREA" and "kind s q \<noteq> CT_WORKSPACE"
    and "\<forall>c \<in> set cs. parent_of s c = Some p \<and> kind s c \<noteq> CT_FLOATING_CON \<and> kind s c \<noteq> CT_WORKSPACE"
  defines "t \<equiv> fold (\<lambda>c s. con_attach c q True (con_detach c s)) cs s"
  shows "nodes t q = nodes s q @ cs \<and> foci t q = foci s q @ cs \<and>
    nodes t p = fold remove1 cs (nodes s p) \<and> foci t p = fold remove1 cs (foci s p) \<and>
    (\<forall>d. d \<noteq> p \<longrightarrow> d \<noteq> q \<longrightarrow> nodes t d = nodes s d \<and> foci t d = foci s d) \<and>
    (\<forall>d. floats t d = floats s d) \<and>
    (\<forall>d. parent_of t d = (if d \<in> set cs then Some q else parent_of s d)) \<and> same_but_links s t"
  using assms(1,3-6) unfolding t_def
proof (induction cs arbitrary: s)
  case (Cons c cs)
  have P: "parent_of s c = Some p" "kind s c \<noteq> CT_FLOATING_CON" "kind s c \<noteq> CT_WORKSPACE" using Cons.prems(5) by auto
  note D = con_detach_lists [OF P(1,2)]
  let ?s = "con_detach c s" and ?t = "con_attach c q True (con_detach c s)"
  have A: "nodes ?t d = (if d = q then nodes ?s q @ [c] else nodes ?s d)" "floats ?t d = floats ?s d"
    "foci ?t d = (if d = q then foci ?s q @ [c] else foci ?s d)"
    "parent_of ?t d = (if d = c then Some q else parent_of ?s d)" "same_but_links ?s ?t" for d
    using con_attach_lists [of ?s c q True] Cons.prems P by auto
  have sb: "same_but_links s ?t" using same_but_links_trans [OF D(4) A(5)] .
  have sbk: "kind ?t d = kind s d" for d using sb by (simp add: same_but_links_def)
  have IH: "\<forall>c \<in> set cs. parent_of ?t c = Some p \<and> kind ?t c \<noteq> CT_FLOATING_CON \<and> kind ?t c \<noteq> CT_WORKSPACE"
    using Cons.prems(1,5) sbk A(4) by auto
  from Cons.IH [OF _ _ _ _ IH] show ?case
    using Cons.prems A D assms(2) sb same_but_links_trans [OF sb] unfolding fold_Cons o_apply
    by (auto simp: sbk)
qed simp

lemma fold_remove1_all: "distinct xs \<Longrightarrow> fold remove1 cs xs = filter (\<lambda>x. x \<notin> set cs) xs"
proof (induction cs arbitrary: xs)
  case (Cons c cs)
  then show ?case by (simp add: distinct_remove1_removeAll removeAll_filter_not_eq) (rule filter_cong, auto)
qed simp

lemma refill_focus_filter:
  "length (filter (\<lambda>x. \<not> skip x) xs) = n \<Longrightarrow> refill_focus skip n xs = Some (filter (\<lambda>x. \<not> skip x) xs)"
proof (induction skip n xs rule: refill_focus.induct)
  case (3 skip n x xs)
  then show ?case by (auto split: if_splits)
qed auto

subsection \<open>The whole move\<close>

lemma new_split_ok:
  assumes ok: "tree_ok s" and ws: "ws \<in> set (all_cons s)" and n: "new_split ws l s = (n, t)"
  shows "tree_ok t" "unlinked t n" "n \<notin> set (all_cons s)" "all_cons t = all_cons s @ [n]"
    "store t = (store s)(n := (skeleton (cfg s) None)\<lparr>parent := Some ws, layout := l\<rparr>)"
    "cfg t = cfg s" "croot t = croot s" "focused t = focused s" "aborted t = aborted s"
    "ancestors t ws = ancestors s ws"
proof -
  obtain u where u: "con_new_detached None s = (n, u)"
    and t: "t = upd_con n (\<lambda>k. k\<lparr>layout := l\<rparr>) (upd_con n (\<lambda>k. k\<lparr>parent := Some ws\<rparr>) u)"
    using n by (auto simp: new_split_def split: prod.splits)
  note U = con_new_detached_ok [OF ok u]
  have ab: "aborted u = aborted s" using u by (auto simp: con_new_detached_def Let_def)
  have neq: "n \<noteq> ws" using ws U(3) by auto
  have kids: "d \<in> set (all_cons s)" if "d \<in> set (ancestors s ws)" for d using ancestors_alloc [OF ok ws] that by blast
  have an: "ancestors u ws = ancestors s ws"
    using U(3) kids by (intro ancestors_cong [OF ok U(1) _ ws]) (auto simp: U(4,5))
  have wsu: "ws \<in> set (all_cons u)" "n \<in> set (all_cons u)" using ws U(4) by auto
  have free: "n \<notin> set (ancestors u ws)" using an kids U(3) by auto
  have okp: "tree_ok (upd_con n (\<lambda>k. k\<lparr>parent := Some ws\<rparr>) u)" (is "tree_ok ?p")
    by (rule set_parent_tree_ok [OF U(1) wsu(2,1) U(2) free])
  have sl: "same_links ?p t" unfolding t by (rule same_links_upd) simp
  show okt: "tree_ok t" using okp same_links_tree_ok [OF sl] by simp
  show "unlinked t n" using same_links_unlinked [OF sl] set_parent_unlinked U(2) by simp
  show "n \<notin> set (all_cons s)" by (rule U(3))
  show "all_cons t = all_cons s @ [n]" "cfg t = cfg s" "croot t = croot s" "focused t = focused s"
    "aborted t = aborted s" using U(4,6-8) ab by (simp_all add: t)
  have "all_cons t = all_cons s @ [n]" by (simp add: t U(4))
  show st: "store t = (store s)(n := (skeleton (cfg s) None)\<lparr>parent := Some ws, layout := l\<rparr>)"
    by (simp add: t U(5))
  show "ancestors t ws = ancestors s ws"
    using U(3) \<open>all_cons t = all_cons s @ [n]\<close> kids by (intro ancestors_cong [OF ok okt _ ws]) (auto simp: st)
qed

text \<open>All tiling children of \<open>ws\<close> are below \<open>n\<close>, which is in no list yet.\<close>

definition gathered :: "wm \<Rightarrow> wm \<Rightarrow> con_id \<Rightarrow> con_id \<Rightarrow> bool" where
  "gathered s t ws n \<longleftrightarrow>
     nodes t n = nodes s ws \<and> floats t n = [] \<and> foci t n = filter (\<lambda>x. x \<in> set (nodes s ws)) (foci s ws) \<and>
     nodes t ws = [] \<and> floats t ws = floats s ws \<and> foci t ws = filter (\<lambda>x. x \<notin> set (nodes s ws)) (foci s ws) \<and>
     (\<forall>d. d \<noteq> ws \<longrightarrow> d \<noteq> n \<longrightarrow> nodes t d = nodes s d \<and> floats t d = floats s d \<and> foci t d = foci s d) \<and>
     (\<forall>d. d \<noteq> n \<longrightarrow> parent_of t d = (if d \<in> set (nodes s ws) then Some n else parent_of s d)) \<and>
     parent_of t n = Some ws"

definition workspace_of_tiles :: "wm \<Rightarrow> con_id \<Rightarrow> bool" where
  "workspace_of_tiles s ws \<longleftrightarrow> ws \<in> set (all_cons s) \<and> kind s ws = CT_WORKSPACE \<and>
     (\<forall>c \<in> set (nodes s ws). kind s c = CT_CON)"

lemma move_children_gathers:
  assumes r: "rooted s" and w: "workspace_of_tiles s ws" and new: "new_split ws l s = (n, s0)"
  defines "t \<equiv> move_children ws n s0"
  shows "gathered s t ws n" and "same_but_links s0 t" and "tree_ok t" and "unlinked t n"
    and "ancestors t ws = ancestors s ws" and "n \<notin> set (ancestors t ws)"
proof -
  note ok = rootedD(1) [OF r]
  have ws: "ws \<in> set (all_cons s)" and kw: "kind s ws = CT_WORKSPACE"
    and kc: "\<forall>c \<in> set (nodes s ws). kind s c = CT_CON" using w by (auto simp: workspace_of_tiles_def)
  note N = new_split_ok [OF ok ws new]
  note T = tree_okD [OF ok ws]
  have neq: "ws \<noteq> n" using ws N(3) by auto
  have old: "store s0 d = store s d" if "d \<noteq> n" for d using that by (simp add: N(5))
  have child: "c \<in> set (all_cons s) \<and> c \<noteq> n \<and> parent_of s c = Some ws" if "c \<in> set (nodes s ws)" for c
    using that T(5,7) N(3) by auto
  have nn: "nodes s0 n = []" "floats s0 n = []" "foci s0 n = []" "kind s0 n = CT_CON" "parent_of s0 n = Some ws"
    "\<not> floating (store s0 n) \<ge> FLOATING_AUTO_ON"
    by (simp_all add: N(5) skeleton_def less_eq_floating_t_def)
  define f where "f = fold (\<lambda>c s. con_attach c n True (con_detach c s)) (nodes s0 ws) s0"
  have cs: "nodes s0 ws = nodes s ws" using old neq by simp
  have pc: "\<forall>c \<in> set (nodes s ws). parent_of s0 c = Some ws \<and> kind s0 c \<noteq> CT_FLOATING_CON \<and> kind s0 c \<noteq> CT_WORKSPACE"
    using child kc old by auto
  have "n \<notin> set (nodes s ws)" using child by blast
  note A = move_all [OF T(1) neq this _ _ pc, unfolded nn append_Nil fold_remove1_all [OF T(1)]
    fold_remove1_all [OF T(3)]]
  have M: "nodes f n = nodes s ws" "foci f n = nodes s ws" "nodes f ws = []"
    "foci f ws = filter (\<lambda>x. x \<notin> set (nodes s ws)) (foci s ws)"
    "\<And>d. d \<noteq> ws \<Longrightarrow> d \<noteq> n \<Longrightarrow> nodes f d = nodes s d \<and> foci f d = foci s d"
    "\<And>d. floats f d = floats s0 d"
    "\<And>d. parent_of f d = (if d \<in> set (nodes s ws) then Some n else parent_of s0 d)" "same_but_links s0 f"
    using A old neq by (simp_all add: f_def cs fold_remove1_all [OF T(1)] fold_remove1_all [OF T(3)])
  have sk: "kind f d = kind s0 d" "floating (store f d) = floating (store s0 d)" "all_cons f = all_cons s0" for d
    using M(8) by (simp_all add: same_but_links_def)
  have fits: "\<forall>c \<in> set (nodes s0 ws). fits s0 c n"
  proof
    fix c assume "c \<in> set (nodes s0 ws)"
    then have c: "c \<in> set (nodes s ws)" using old neq by simp
    have "c \<notin> set (ancestors s ws)" using parent_not_below [OF ok] child [OF c] by blast
    moreover have "ancestors s0 n = n # ancestors s ws" using ancestors_unfold [OF N(1), of n] N(4,10) nn(5) by simp
    ultimately show "fits s0 c n" using child [OF c] N(1,4) nn(4) by (simp add: fits_def)
  qed
  have okf: "tree_ok f"
  proof (cases "nodes s0 ws")
    case (Cons c cs)
    then show ?thesis using moving.adopt_inv [OF fits, of True] by (simp add: f_def moving.adopt_def moving.move_def [abs_def])
  qed (simp add: N(1) f_def)
  have anws: "ancestors f ws = ancestors s ws"
  proof -
    have "d \<notin> set (nodes s ws)" "d \<noteq> n" if d: "d \<in> set (ancestors s ws)" for d
      using parent_not_below [OF ok] child d ancestors_alloc [OF ok ws] N(3) by blast+
    then show ?thesis using M(7) old N(4) by (intro ancestors_cong [OF ok okf _ ws]) (auto simp: sk)
  qed
  have ann: "ancestors f n = n # ancestors s ws"
  proof -
    have "n \<in> set (all_cons f)" by (simp add: sk N(4))
    moreover have "parent_of f n = Some ws" using M(7) [of n] nn(5) \<open>n \<notin> set (nodes s ws)\<close> by simp
    ultimately show ?thesis using ancestors_unfold [OF okf] anws by simp
  qed
  have wsn: "\<not> floating (store s ws) \<ge> FLOATING_AUTO_ON"
    using rootedD(10) [OF r ws] kw by (auto simp: con_is_floating_def)
  have in1: "con_inside_floating f x = None" if x: "x \<in> set (nodes s ws)" for x
  proof -
    have an: "ancestors f x = x # n # ancestors s ws"
    proof -
      have "x \<in> set (all_cons f)" using child [OF x] by (simp add: sk N(4))
      moreover have "parent_of f x = Some n" using M(7) [of x] x by simp
      ultimately show ?thesis using ancestors_unfold [OF okf] ann by simp
    qed
    have "\<not> floating (store s x) \<ge> FLOATING_AUTO_ON"
      using rootedD(6) [OF r, of x] child [OF x] kw by (auto simp: con_is_floating_def)
    moreover have "\<exists>vs. ancestors s ws = ws # vs" using ancestors_unfold [OF ok ws] by simp
    ultimately show ?thesis using nn(4,6) child [OF x] old [of x] old [of ws] neq kw wsn kc x
      by (auto simp: con_inside_floating_def an sk)
  qed
  have in2: "con_inside_floating f x \<noteq> None" if x: "x \<in> set (floats s ws)" for x
  proof -
    have xa: "x \<in> set (all_cons s)" "kind s x = CT_FLOATING_CON" "x \<noteq> n" using x T(6,10) N(3) by auto
    have "\<exists>vs. ancestors f x = x # vs" using ancestors_unfold [OF okf, of x] xa N(4) by (simp add: sk)
    then show ?thesis using xa old [of x] by (auto simp: con_inside_floating_def sk)
  qed
  let ?order = "foci s ws"
  have skip: "filter (\<lambda>x. \<not> (kind f n \<noteq> CT_WORKSPACE \<and> con_inside_floating f x \<noteq> None)) ?order =
      filter (\<lambda>x. x \<in> set (nodes s ws)) ?order"
  proof (intro filter_cong refl)
    fix x assume "x \<in> set ?order"
    then consider "x \<in> set (nodes s ws)" | "x \<in> set (floats s ws)" "x \<notin> set (nodes s ws)" using T(4) by auto
    then show "\<not> (kind f n \<noteq> CT_WORKSPACE \<and> con_inside_floating f x \<noteq> None) \<longleftrightarrow> x \<in> set (nodes s ws)"
      by cases (use in1 [of x] in2 [of x] nn(4) in \<open>simp_all add: sk\<close>)
  qed
  have len: "length (filter (\<lambda>x. x \<in> set (nodes s ws)) ?order) = length (foci f n)"
  proof -
    have "set (filter (\<lambda>x. x \<in> set (nodes s ws)) ?order) = set (nodes s ws)" using T(4) by auto
    then show ?thesis using distinct_card [of "filter (\<lambda>x. x \<in> set (nodes s ws)) ?order"] T(1,3) distinct_card [OF T(1)] M(2)
      by simp
  qed
  have t: "t = upd_con n (\<lambda>k. k\<lparr>focus_head := filter (\<lambda>x. x \<in> set (nodes s ws)) ?order\<rparr>) f"
  proof -
    have "get_focus_order s0 ws = ?order" using old neq by (simp add: get_focus_order_def)
    moreover have "set_focus_order n ?order f = Some (upd_con n (\<lambda>k. k\<lparr>focus_head := filter (\<lambda>x. x \<in> set (nodes s ws)) ?order\<rparr>) f)"
      using refill_focus_filter [of "\<lambda>x. kind f n \<noteq> CT_WORKSPACE \<and> con_inside_floating f x \<noteq> None" ?order]
      unfolding set_focus_order_def skip len by simp
    ultimately show ?thesis by (simp add: t_def move_children_def Let_def f_def)
  qed
  show g: "gathered s t ws n" using M(1-7) neq nn old \<open>n \<notin> set (nodes s ws)\<close> by (simp add: gathered_def t)
  have st: "same_tree f t"
  proof -
    have "distinct (filter (\<lambda>x. x \<in> set (nodes s ws)) ?order)" using T(3) by simp
    moreover have "set (filter (\<lambda>x. x \<in> set (nodes s ws)) ?order) = set (nodes s ws)" using T(4) by auto
    ultimately have "mset (filter (\<lambda>x. x \<in> set (nodes s ws)) ?order) = mset (nodes s ws)"
      using T(1) by (metis set_eq_iff_mset_eq_distinct)
    then show ?thesis using M(2) by (simp add: same_tree_def t)
  qed
  show okt: "tree_ok t" using same_tree_tree_ok [OF st] okf by simp
  show "same_but_links s0 t" using M(8) by (simp add: same_but_links_def t)
  show an: "ancestors t ws = ancestors s ws" using same_tree_ancestors [OF st] anws by simp
  show "n \<notin> set (ancestors t ws)" using an ancestors_alloc [OF ok ws] N(3) by auto
  have "n \<notin> set (children t d)" if "d \<in> set (all_cons t)" for d
  proof -
    have "d \<in> set (all_cons s) \<or> d = n" using that N(4) by (auto simp: t sk)
    then show ?thesis using g child tree_ok_child_parent(1) [OF ok, of d n] N(3) T(6)
      by (cases "d = ws"; cases "d = n") (auto simp: gathered_def)
  qed
  then show "unlinked t n" by (simp add: unlinked_def)
qed

subsection \<open>The result\<close>

text \<open>The workspace has one tiling child, which holds the old ones in their order and focus order.\<close>

definition encapsulated :: "wm \<Rightarrow> wm \<Rightarrow> con_id \<Rightarrow> con_id \<Rightarrow> bool" where
  "encapsulated s t ws n \<longleftrightarrow> tree_ok t \<and> n \<notin> set (all_cons s) \<and> all_cons t = all_cons s @ [n] \<and>
     aborted t = aborted s \<and> focused t = focused s \<and>
     nodes t ws = [n] \<and> floats t ws = floats s ws \<and>
     foci t ws = filter (\<lambda>x. x \<notin> set (nodes s ws)) (foci s ws) @ [n] \<and>
     nodes t n = nodes s ws \<and> floats t n = [] \<and> foci t n = filter (\<lambda>x. x \<in> set (nodes s ws)) (foci s ws) \<and>
     hangs t = (\<lambda>c. if c \<in> set (nodes s ws) then Some n else if c = n then Some ws else hangs s c)"

lemma same_links_hangs: "same_links s t \<Longrightarrow> hangs t = hangs s"
  by (simp add: hangs_def same_links_def fun_eq_iff split: option.split)

lemma encapsulated_calm: "encapsulated s t ws n \<Longrightarrow> same_links t u \<Longrightarrow> aborted u = aborted t \<Longrightarrow> focused u = focused t \<Longrightarrow>
    encapsulated s u ws n"
  using same_links_tree_ok [of t u] same_links_hangs [of t u] by (simp add: encapsulated_def same_links_def)

lemma attach_gathered:
  assumes r: "rooted s" and w: "workspace_of_tiles s ws" and new: "new_split ws l s = (n, s0)"
    and m: "same_links (move_children ws n s0) u" "same_but_links s0 (move_children ws n s0)"
    and u: "aborted u = aborted s" "focused u = focused s" "window (store u n) = None"
  shows "encapsulated s (con_attach n ws ig u) ws n"
proof -
  note ok = rootedD(1) [OF r]
  have ws: "ws \<in> set (all_cons s)" and kw: "kind s ws = CT_WORKSPACE" using w by (auto simp: workspace_of_tiles_def)
  note N = new_split_ok [OF ok ws new] and G = move_children_gathers [OF r w new] and T = tree_okD [OF ok ws]
  have neq: "ws \<noteq> n" using ws N(3) by auto
  have g: "gathered s u ws n" using G(1) m(1) by (simp add: gathered_def same_links_def)
  have all: "all_cons u = all_cons s @ [n]" using m N(4) by (simp add: same_links_def same_but_links_def)
  have k: "kind u d = kind s0 d" for d using m by (simp add: same_links_def same_but_links_def)
  have kn: "kind u n = CT_CON" "kind u ws = CT_WORKSPACE" using N(5) kw neq by (simp_all add: k skeleton_def)
  have fl: "find (\<lambda>x. kind u x \<noteq> CT_FLOATING_CON) (foci u ws) = None"
  proof -
    have "kind u x = CT_FLOATING_CON" if "x \<in> set (foci u ws)" for x
    proof -
      have x: "x \<in> set (floats s ws)" using that g T(4) by (auto simp: gathered_def)
      then have "x \<noteq> n" using T(6) N(3) by blast
      then show ?thesis using T(10) [OF x] N(5) by (simp add: k)
    qed
    then show ?thesis by (auto simp: find_None_iff)
  qed
  let ?t = "con_attach n ws ig u"
  have L: "nodes ?t d = (if d = ws then nodes u ws @ [n] else nodes u d)" "floats ?t d = floats u d"
    "foci ?t d = (if d = ws then foci u ws @ [n] else foci u d)"
    "parent_of ?t d = (if d = n then Some ws else parent_of u d)" "same_but_links u ?t" for d
    using con_attach_lists [of u n ws ig] kn fl u(3) neq by auto
  have okt: "tree_ok ?t"
    unfolding con_attach_def con_attach_at_def
  proof (rule con_attach_direct_tree_ok)
    have "ancestors u ws = ancestors s ws" using same_links_ancestors [OF m(1)] G(5) by simp
    then have "n \<notin> set (ancestors u ws)" using G(5,6) by simp
    then show "can_attach u n ws"
      using same_links_tree_ok [OF m(1)] G(3,4) same_links_unlinked [OF m(1)] all ws kn by (simp add: can_attach_def)
    show "\<not> redirected u n ws" using u(3) by (simp add: redirected_def)
  qed (simp add: good_previous_def)
  have "hangs ?t c = (if c \<in> set (nodes s ws) then Some n else if c = n then Some ws else hangs s c)" for c
  proof -
    have nn: "n \<notin> set (nodes s ws)" using T(5) N(3) by blast
    have alt: "all_cons ?t = all_cons s @ [n]" using L(5) all by (simp add: same_but_links_def)
    show ?thesis
    proof (cases "c = n \<or> c \<in> set (nodes s ws)")
      case True
      then show ?thesis using L(1-4) g nn neq ws by (auto simp: hangs_def gathered_def alt)
    next
      case False
      then have p: "parent_of ?t c = parent_of s c" using L(4) g by (simp add: gathered_def)
      have "c \<in> set (children ?t p) \<longleftrightarrow> c \<in> set (children s p)" if "p \<noteq> n" for p
        using False L(1,2) [of p] g that neq by (cases "p = ws") (auto simp: gathered_def)
      moreover have "c \<notin> set (children ?t n)" using False L(1,2) g neq by (simp add: gathered_def)
      ultimately have "q \<in> set (all_cons ?t) \<and> c \<in> set (children ?t q) \<longleftrightarrow> q \<in> set (all_cons s) \<and> c \<in> set (children s q)" for q
        using N(3) alt by (cases "q = n") auto
      then show ?thesis using False p by (simp add: hangs_def del: set_append split: option.split)
    qed
  qed
  then show ?thesis using okt N(3) all L(1-3,5) g neq u(1,2)
    by (auto simp: encapsulated_def same_but_links_def gathered_def fun_eq_iff)
qed

lemma workspace_encapsulate_exact:
  assumes r: "rooted s" and w: "workspace_of_tiles s ws" and ne: "nodes s ws \<noteq> []"
  shows "\<exists>n t. workspace_encapsulate ws s = (Some n, t) \<and> encapsulated s t ws n"
proof -
  obtain n s0 where new: "new_split ws (layout_of s ws) s = (n, s0)" by fastforce
  have ws: "ws \<in> set (all_cons s)" using w by (simp add: workspace_of_tiles_def)
  note N = new_split_ok [OF rootedD(1) [OF r] ws new] and G = move_children_gathers [OF r w new]
  have "window (store (move_children ws n s0) n) = None" "aborted (move_children ws n s0) = aborted s"
    "focused (move_children ws n s0) = focused s"
    using G(2) N(5,8,9) by (simp_all add: same_but_links_def skeleton_def)
  then have "encapsulated s (con_attach n ws True (move_children ws n s0)) ws n"
    by (intro attach_gathered [OF r w new same_links_refl G(2)])
  then show ?thesis using ne new by (simp add: workspace_encapsulate_def)
qed

lemma fix_percent_aborted [simp]: "aborted (con_fix_percent c s) = aborted s"
proof -
  have "aborted (set_percents cs ps s) = aborted s" for cs ps s
    by (induction cs ps s rule: set_percents.induct) auto
  then show ?thesis by (simp add: con_fix_percent_def)
qed

lemma ws_force_orientation_exact:
  assumes r: "rooted s" and w: "workspace_of_tiles s ws"
  shows "\<exists>n. encapsulated s (ws_force_orientation ws ori s) ws n \<and>
    layout_of (ws_force_orientation ws ori s) ws = split_layout ori"
proof -
  obtain n s0 where new: "new_split ws (layout_of s ws) s = (n, s0)" by fastforce
  have ws: "ws \<in> set (all_cons s)" and kw: "kind s ws = CT_WORKSPACE" using w by (simp_all add: workspace_of_tiles_def)
  note N = new_split_ok [OF rootedD(1) [OF r] ws new] and G = move_children_gathers [OF r w new]
  let ?m = "move_children ws n s0"
  let ?u = "upd_con ws (\<lambda>k. k\<lparr>layout := split_layout ori\<rparr>) ?m"
  have neq: "n \<noteq> ws" using ws N(3) by auto
  have sl: "same_links ?m ?u" by (rule same_links_upd) simp
  have u: "aborted ?u = aborted s" "focused ?u = focused s" "window (store ?u n) = None"
    using G(2) N(5,8,9) neq by (simp_all add: same_but_links_def skeleton_def)
  have e: "encapsulated s (con_attach n ws False ?u) ws n" by (rule attach_gathered [OF r w new sl G(2) u])
  have "encapsulated s (con_fix_percent ws (con_attach n ws False ?u)) ws n"
    by (rule encapsulated_calm [OF e]) simp_all
  moreover have "layout_of (con_attach n ws False ?u) ws = split_layout ori"
  proof -
    have "kind ?u n = CT_CON" "kind ?u ws = CT_WORKSPACE"
      using G(2) N(5) kw neq by (simp_all add: same_but_links_def skeleton_def)
    then show ?thesis using u(3) neq
      by (simp add: con_attach_def con_attach_at_def con_attach_with_def Let_def append_focus_def append_node_after_def)
  qed
  ultimately show ?thesis using new by (auto simp: ws_force_orientation_def Let_def)
qed

end
