(* ===== verification/Tree_Ops.thy ===== *)
theory Tree_Ops
  imports Tree_Close Encapsulate Geometry Outputs
begin

text \<open>
  Operations on the shape of the tree: opening and splitting containers, moving the focus up and down,
  finding the next container in a direction and flattening redundant splits (\<^verbatim>\<open>src/tree.c\<close>), and
  the layout commands \<open>con_set_layout\<close> and \<open>con_toggle_layout\<close> of \<^verbatim>\<open>src/con.c\<close>.
\<close>

subsection \<open>Opening and splitting\<close>

text \<open>Where \<open>tree_open_con\<close> opens a container when none is given; \<^const>\<open>None\<close> is NULL dereferenced.\<close>

definition open_parent :: "wm \<Rightarrow> con_id option" where
  "open_parent s =
     Option.bind (focused s) (\<lambda>f. Option.bind (parent_of s f) (\<lambda>p. Option.bind (parent_of s p) (\<lambda>g.
       let c = (if kind s g = CT_OUTPUT \<and> kind s p \<noteq> CT_DOCKAREA then f else p) in
       if kind s c = CT_FLOATING_CON then
         Option.bind (parent_of s c) (\<lambda>q.
           let d = con_descend_tiling_focused s q in
           if kind s d \<noteq> CT_WORKSPACE then parent_of s d else Some d)
       else Some c)))"

definition tree_open_con :: "con_id option \<Rightarrow> i3Window option \<Rightarrow> wm \<Rightarrow> con_id option \<times> wm" where
  "tree_open_con con w s =
     (case (case con of None \<Rightarrow> open_parent s | Some c \<Rightarrow> Some c) of
        None \<Rightarrow> (None, abort s)
      | Some c \<Rightarrow>
          (case con_new_skeleton (Some c) w s of (new, s) \<Rightarrow>
             (Some new, con_fix_percent c (upd_con new (\<lambda>k. k\<lparr>layout := L_SPLITH\<rparr>) s))))"

text \<open>The second half of \<open>tree_split\<close>: \<open>c\<close> is replaced by a new container in its parent and becomes the
  child of it.\<close>

definition split_con :: "con_id \<Rightarrow> con_id \<Rightarrow> orientation_t \<Rightarrow> wm \<Rightarrow> wm" where
  "split_con c p ori s0 =
     (case con_new_detached None s0 of (new, s) \<Rightarrow>
        let s = upd_con p (\<lambda>k. k\<lparr>nodes_head := tailq_replace c new (nodes_head k)\<rparr>) s;
            s = upd_con p (\<lambda>k. k\<lparr>focus_head := tailq_replace c new (focus_head k)\<rparr>) s;
            s = upd_con new (\<lambda>k. k\<lparr>parent := Some p, layout := split_layout ori,
                  percent := percent (store s c)\<rparr>) s;
            s = upd_con c (\<lambda>k. k\<lparr>percent := 0\<rparr>) s
        in con_attach c new False s)"

definition tree_split :: "con_id \<Rightarrow> orientation_t \<Rightarrow> wm \<Rightarrow> wm" where
  "tree_split con ori s =
     (if con_is_floating s con then s
      else if kind s con = CT_WORKSPACE \<and> con_num_children s con < 2 then
        upd_con con (\<lambda>k. k\<lparr>layout := split_layout ori\<rparr>)
          (if con_num_children s con = 0 then upd_con con (\<lambda>k. k\<lparr>workspace_layout := L_DEFAULT\<rparr>) s else s)
      else case (if kind s con = CT_WORKSPACE then workspace_encapsulate con s else (Some con, s)) of
          (None, s) \<Rightarrow> abort s
        | (Some c, s) \<Rightarrow>
            (case parent_of s c of
               None \<Rightarrow> abort s
             | Some p \<Rightarrow>
                 let s = con_force_split_parents_redraw c s in
                 if con_num_children s p = 1 \<and> (layout_of s p = L_SPLITH \<or> layout_of s p = L_SPLITV)
                 then upd_con p (\<lambda>k. k\<lparr>layout := split_layout ori\<rparr>) s
                 else split_con c p ori s))"

subsection \<open>Focus up and down\<close>

definition level_up :: "wm \<Rightarrow> bool \<times> wm" where
  "level_up s =
     (case focused s of
        None \<Rightarrow> (False, abort s)
      | Some f \<Rightarrow>
          (case parent_of s f of
             None \<Rightarrow> (False, abort s)
           | Some p \<Rightarrow>
               if kind s p = CT_FLOATING_CON then
                 (case parent_of s p of None \<Rightarrow> (False, abort s) | Some g \<Rightarrow> (True, con_activate g s))
               else if kind s p \<noteq> CT_CON \<and> kind s p \<noteq> CT_WORKSPACE \<or> kind s f = CT_WORKSPACE then (False, s)
               else (True, con_activate p s)))"

definition level_down :: "wm \<Rightarrow> bool \<times> wm" where
  "level_down s =
     (case focused s of
        None \<Rightarrow> (False, abort s)
      | Some f \<Rightarrow>
          (case tailq_first (foci s f) of
             None \<Rightarrow> (False, s)
           | Some x \<Rightarrow>
               if kind s x = CT_FLOATING_CON then
                 (case tailq_first (foci s x) of None \<Rightarrow> (False, s) | Some y \<Rightarrow> (True, con_activate y s))
               else (True, con_activate x s)))"

subsection \<open>The next container in a direction\<close>

text \<open>The first child of a container that a fallible test accepts; the outer \<^const>\<open>None\<close> is the failure
  of the test (an assertion).\<close>

fun grep_first :: "('a \<Rightarrow> bool option) \<Rightarrow> 'a list \<Rightarrow> 'a option option" where
  "grep_first test [] = Some None"
| "grep_first test (x # xs) =
     (case test x of None \<Rightarrow> None | Some b \<Rightarrow> if b then Some (Some x) else grep_first test xs)"

definition get_tree_next_workspace :: "wm \<Rightarrow> con_id \<Rightarrow> direction_t \<Rightarrow> con_id option option" where
  "get_tree_next_workspace s c d =
     (if con_get_fullscreen_con s c CF_GLOBAL \<noteq> None then Some None
      else
        let r = rect (store s c);
            x = rect_x r + rect_width r div 2;
            y = rect_y r + rect_height r div 2
        in case get_output_containing s x y of
            None \<Rightarrow> Some None
          | Some current_output \<Rightarrow>
              (case get_output_next s d current_output CLOSEST_OUTPUT of
                 None \<Rightarrow> Some None
               | Some next_output \<Rightarrow>
                   (case output_get_content s (o_con next_output) of
                      None \<Rightarrow> None
                    | Some content \<Rightarrow> grep_first (workspace_is_visible s) (nodes s content))))"

text \<open>The loop on the way up, with the container to wrap to that it has found so far. It leaves with an
  answer or goes on to the workspace.\<close>

datatype tree_next = Answer "con_id option" | At_Workspace con_id "con_id option"

text \<open>What the loop does in a parent with several children in the orientation of the direction:
  \<^const>\<open>Inl\<close> is the answer, \<^const>\<open>Inr\<close> the container to wrap to further up.\<close>

definition next_in_parent ::
  "wm \<Rightarrow> bool \<Rightarrow> con_id \<Rightarrow> con_id \<Rightarrow> con_id option \<Rightarrow> (con_id option + con_id option) option" where
  "next_in_parent s previous c p first_wrap =
     (let nxt = (if previous then tailq_prev c (nodes s p) else tailq_next c (nodes s p));
          wrap = (if previous then tailq_last (nodes s p) else tailq_first (nodes s p));
          permits = (\<lambda>x. case x of None \<Rightarrow> None | Some y \<Rightarrow> con_fullscreen_permits_focusing s y)
      in case (if nxt = None then Some False else permits nxt) of
          None \<Rightarrow> None
        | Some True \<Rightarrow> Some (Inl nxt)
        | Some False \<Rightarrow>
            (case cfg_focus_wrapping (cfg s) of
               FOCUS_WRAPPING_OFF \<Rightarrow> Some (Inr first_wrap)
             | FOCUS_WRAPPING_FORCE \<Rightarrow>
                 if nxt \<noteq> None then Some (Inl None)
                 else map_option (\<lambda>b. Inl (if b then wrap else None)) (permits wrap)
             | _ \<Rightarrow>
                 if first_wrap \<noteq> None then Some (Inr first_wrap)
                 else map_option (\<lambda>b. Inr (if b then wrap else None)) (permits wrap)))"

fun next_path :: "wm \<Rightarrow> direction_t \<Rightarrow> con_id list \<Rightarrow> con_id option \<Rightarrow> tree_next option" where
  "next_path s d [] first_wrap = None"
| "next_path s d (c # cs) first_wrap =
     (let previous = (position_from_direction d = BEFORE); ori = orientation_from_direction d in
      if kind s c = CT_WORKSPACE then Some (At_Workspace c first_wrap)
      else if fullscreen_mode (store s c) = CF_OUTPUT then
        map_option (\<lambda>ws. At_Workspace ws first_wrap) (con_get_workspace s c)
      else if fullscreen_mode (store s c) = CF_GLOBAL then Some (Answer first_wrap)
      else case parent_of s c of
          None \<Rightarrow> None
        | Some p \<Rightarrow>
            if kind s c = CT_FLOATING_CON then
              (if ori \<noteq> HORIZ then Some (Answer None)
               else case (if previous then tailq_prev c (floats s p) else tailq_next c (floats s p)) of
                   Some x \<Rightarrow> Some (Answer (Some x))
                 | None \<Rightarrow>
                     (case (if previous then tailq_last (floats s p) else tailq_first (floats s p)) of
                        None \<Rightarrow> None | Some x \<Rightarrow> Some (Answer (Some x))))
            else if con_num_children s p > 1 then
              (case con_orientation s p of
                 None \<Rightarrow> None
               | Some po \<Rightarrow>
                   if po = ori then
                     (case next_in_parent s previous c p first_wrap of
                        None \<Rightarrow> None
                      | Some (Inl a) \<Rightarrow> Some (Answer a)
                      | Some (Inr w) \<Rightarrow> next_path s d cs w)
                   else next_path s d cs first_wrap)
            else next_path s d cs first_wrap)"

definition get_tree_next :: "wm \<Rightarrow> con_id \<Rightarrow> direction_t \<Rightarrow> con_id option option" where
  "get_tree_next s c d =
     (let to_workspace = (\<lambda>ws first_wrap.
          map_option (\<lambda>w. case w of None \<Rightarrow> first_wrap | Some x \<Rightarrow> Some x) (get_tree_next_workspace s ws d))
      in if kind s c = CT_WORKSPACE then to_workspace c None
         else case next_path s d (ancestors s c) None of
             None \<Rightarrow> None
           | Some (Answer a) \<Rightarrow> Some a
           | Some (At_Workspace ws first_wrap) \<Rightarrow>
               if cfg_focus_wrapping (cfg s) = FOCUS_WRAPPING_WORKSPACE then Some first_wrap
               else to_workspace ws first_wrap)"

definition get_tree_next_sibling :: "wm \<Rightarrow> con_id \<Rightarrow> position_t \<Rightarrow> con_id option option" where
  "get_tree_next_sibling s c pos =
     (case parent_of s c of
        None \<Rightarrow> Some None
      | Some p \<Rightarrow>
          (case (if pos = BEFORE then tailq_prev c (nodes s p) else tailq_next c (nodes s p)) of
             None \<Rightarrow> Some None
           | Some x \<Rightarrow> map_option (\<lambda>b. if b then Some x else None) (con_fullscreen_permits_focusing s x)))"

subsection \<open>Flattening\<close>

text \<open>When \<open>tree_flatten\<close> flattens \<open>con\<close>: it is a split with one child, which is a split of the other
  orientation, the one of the parent. The tests are in the order of the code; \<^const>\<open>None\<close> is the
  assertion of \<open>con_orientation\<close>.\<close>

definition redundant_child :: "wm \<Rightarrow> con_id \<Rightarrow> con_id \<Rightarrow> con_id option option" where
  "redundant_child s con p =
     (if kind s con \<noteq> CT_CON \<or> layout_of s p = L_OUTPUT \<or> window (store s con) \<noteq> None then Some None
      else case nodes s con of
          [child] \<Rightarrow>
            if \<not> con_is_split s con \<or> \<not> con_is_split s child \<or>
               layout_of s con \<noteq> L_SPLITH \<and> layout_of s con \<noteq> L_SPLITV \<or>
               layout_of s child \<noteq> L_SPLITH \<and> layout_of s child \<noteq> L_SPLITV \<or>
               con_orientation s con = con_orientation s child
            then Some None
            else map_option (\<lambda>po. if con_orientation s child = Some po then Some child else None)
                   (con_orientation s p)
        | _ \<Rightarrow> Some None)"

text \<open>One turn of the loop that re-attaches the grandchildren before \<open>con\<close>.\<close>

definition hoist :: "con_id \<Rightarrow> con_id \<Rightarrow> con_id \<Rightarrow> wm \<Rightarrow> wm" where
  "hoist con p current s =
     (let s = con_detach current s;
          s = upd_con current (\<lambda>k. k\<lparr>parent := Some p\<rparr>) s;
          s = upd_con p (\<lambda>k. k\<lparr>nodes_head := tailq_insert_before con current (nodes_head k)\<rparr>) s;
          s = upd_con p (\<lambda>k. k\<lparr>focus_head := focus_head k @ [current]\<rparr>) s
      in upd_con current (\<lambda>k. k\<lparr>percent := percent (store s con)\<rparr>) s)"

definition flatten_pair :: "con_id \<Rightarrow> con_id \<Rightarrow> con_id \<Rightarrow> wm \<Rightarrow> wm" where
  "flatten_pair con child p s =
     (let focus_next = tailq_first (foci s child);
          s = fold (hoist con p) (nodes s child) s;
          s = (case focus_next of
                 Some f \<Rightarrow> if tailq_first (foci s p) = Some con
                   then upd_con p (\<lambda>k. k\<lparr>focus_head := f # remove1 f (focus_head k)\<rparr>) s else s
               | None \<Rightarrow> s)
      in snd (tree_close_internal con DONT_KILL_WINDOW True s))"

text \<open>The two loops over the children read the next entry before they descend. Flattening a container
  that has the focus can raise the floating container it is in to the end of the list, where the loop
  meets it again; it closes two containers then, so the sum of the rest of the list and the number of
  containers bounds the turns.\<close>

primrec flatten :: "nat \<Rightarrow> con_id \<Rightarrow> wm \<Rightarrow> wm" where
  "flatten 0 con s = abort s"
| "flatten (Suc n) con s =
     (let recurse = (\<lambda>s.
            let s = walk_saved (length (nodes s con) + length (all_cons s)) (\<lambda>s. nodes s con)
                      (flatten n) (tailq_first (nodes s con)) s
            in walk_saved (length (floats s con) + length (all_cons s)) (\<lambda>s. floats s con)
                 (flatten n) (tailq_first (floats s con)) s)
      in case parent_of s con of
          None \<Rightarrow> if kind s con = CT_CON then abort s else recurse s
        | Some p \<Rightarrow>
            (case redundant_child s con p of
               None \<Rightarrow> abort s
             | Some None \<Rightarrow> recurse s
             | Some (Some child) \<Rightarrow> flatten_pair con child p s))"

definition tree_flatten :: "con_id \<Rightarrow> wm \<Rightarrow> wm" where
  "tree_flatten con s = flatten (length (all_cons s)) con s"

subsection \<open>Layouts\<close>

text \<open>\<open>con_set_layout\<close> on a workspace with children: the condition
  \<^verbatim>\<open>layout == L_STACKED || ... || L_SCROLLING\<close> is true for every layout, because the constant is not
  zero.\<close>

definition set_workspace_layout :: "con_id \<Rightarrow> layout_t \<Rightarrow> wm \<Rightarrow> wm" where
  "set_workspace_layout ws l s0 =
     (case new_split ws l s0 of (new, s) \<Rightarrow>
        let s = upd_con new (\<lambda>k. k\<lparr>last_split_layout := last_split_layout (store s ws)\<rparr>) s;
            s = move_children ws new s;
            s = con_attach new ws False s;
            s = tree_flatten (croot s) s
        in con_force_split_parents_redraw ws s)"

text \<open>The special case that avoids a second container with a single child; the first component is the
  container to go on with.\<close>

definition merge_single :: "con_id \<Rightarrow> wm \<Rightarrow> con_id \<times> wm" where
  "merge_single c s =
     (case parent_of s c of
        None \<Rightarrow> (c, if kind s c = CT_WORKSPACE then s else abort s)
      | Some p \<Rightarrow>
          if kind s c \<noteq> CT_WORKSPACE \<and> kind s p \<noteq> CT_WORKSPACE \<and>
             con_num_children s c = 1 \<and> con_num_children s p = 1
          then
            let child = hd (nodes s c);
                s = con_detach child s;
                s = con_attach child p True s;
                s = upd_con p (\<lambda>k. k\<lparr>last_split_layout := last_split_layout (store s c)\<rparr>) s
            in (p, snd (tree_close_internal c DONT_KILL_WINDOW True s))
          else (c, s))"

definition effective_layout :: "layout_t \<Rightarrow> layout_t \<Rightarrow> layout_t" where
  "effective_layout l last_split =
     (if l = L_DEFAULT then (if last_split = L_DEFAULT then L_SPLITH else last_split) else l)"

definition con_set_layout :: "con_id \<Rightarrow> layout_t \<Rightarrow> wm \<Rightarrow> wm" where
  "con_set_layout con l s =
     (case (if kind s con \<noteq> CT_WORKSPACE then parent_of s con else Some con) of
        None \<Rightarrow> abort s
      | Some c \<Rightarrow>
          let s = (if layout_of s c = L_SPLITH \<or> layout_of s c = L_SPLITV
                   then upd_con c (\<lambda>k. k\<lparr>last_split_layout := layout k\<rparr>) s else s)
          in if kind s c = CT_WORKSPACE \<and> con_num_children s c > 0 then set_workspace_layout c l s
             else
               let s = (if kind s c = CT_WORKSPACE
                     then upd_con c (\<lambda>k. k\<lparr>workspace_layout :=
                            (if l = L_STACKED \<or> l = L_TABBED \<or> l = L_SCROLLING then l else L_DEFAULT),
                            layout := l\<rparr>) s
                     else s)
               in (case merge_single c s of (c, s) \<Rightarrow>
                     con_force_split_parents_redraw c
                       (upd_con c (\<lambda>k. k\<lparr>layout := effective_layout l (last_split_layout k)\<rparr>) s)))"

text \<open>\<open>strtok\<close> with a single space as the delimiter.\<close>

fun tokens :: "string \<Rightarrow> string \<Rightarrow> string list" where
  "tokens acc [] = (if acc = [] then [] else [acc])"
| "tokens acc (c # cs) =
     (if c = CHR '' '' then (if acc = [] then tokens [] cs else acc # tokens [] cs)
      else tokens (acc @ [c]) cs)"

definition token_layout :: "layout_t \<Rightarrow> layout_t \<Rightarrow> string \<Rightarrow> layout_t option" where
  "token_layout current last_split tok =
     (if caseless_eq tok ''split'' then
        Some (if current \<noteq> L_SPLITH \<and> current \<noteq> L_SPLITV then effective_layout L_DEFAULT last_split
              else if current = L_SPLITH then L_SPLITV else L_SPLITH)
      else case layout_from_name tok of
          None \<Rightarrow> None | Some l \<Rightarrow> if l = L_DEFAULT then None else Some l)"

text \<open>The loop over the tokens: the layout after the current one, or else the first.\<close>

fun toggle_scan :: "(string \<Rightarrow> layout_t option) \<Rightarrow> layout_t \<Rightarrow> string list \<Rightarrow> layout_t \<Rightarrow> bool \<Rightarrow> layout_t" where
  "toggle_scan f current [] new_layout found = new_layout"
| "toggle_scan f current (tok # toks) new_layout found =
     (case f tok of
        None \<Rightarrow> toggle_scan f current toks new_layout found
      | Some l \<Rightarrow>
          if found then l
          else toggle_scan f current toks (if new_layout = L_DEFAULT then l else new_layout) (current = l))"

definition con_toggle_layout :: "con_id \<Rightarrow> string \<Rightarrow> wm \<Rightarrow> wm" where
  "con_toggle_layout con toggle_mode s =
     (case (if kind s con \<noteq> CT_WORKSPACE then parent_of s con else Some con) of
        None \<Rightarrow> abort s
      | Some p \<Rightarrow>
          let cur = layout_of s p; last_split = last_split_layout (store s p) in
          if caseless_eq toggle_mode ''split'' \<or> CHR '' '' \<in> set toggle_mode then
            let l = toggle_scan (token_layout cur last_split) cur (tokens [] toggle_mode) L_DEFAULT False
            in if l \<noteq> L_DEFAULT then con_set_layout con l s else s
          else if caseless_eq toggle_mode ''all'' \<or> caseless_eq toggle_mode ''default'' then
            let every = caseless_eq toggle_mode ''all'' in
            if cur = L_STACKED then con_set_layout con L_TABBED s
            else if cur = L_TABBED then con_set_layout con (if every then L_SPLITH else last_split) s
            else if cur = L_SPLITH \<or> cur = L_SPLITV then
              con_set_layout con (if every \<and> cur = L_SPLITH then L_SPLITV else L_STACKED) s
            else s
          else s)"

text \<open>The same choice without the loop: of the recognised layouts, the one after the first occurrence of
  the current one, or else the first.\<close>

definition next_layout :: "layout_t \<Rightarrow> layout_t list \<Rightarrow> layout_t option" where
  "next_layout current ls =
     (case dropWhile (\<lambda>l. l \<noteq> current) ls of x # y # _ \<Rightarrow> Some y | _ \<Rightarrow> tailq_first ls)"

lemma toggle_scan_found: "toggle_scan f current toks l True =
    (case List.map_filter f toks of [] \<Rightarrow> l | x # _ \<Rightarrow> x)"
  by (induction toks) (auto simp: map_filter_simps split: option.split)

lemma toggle_scan_later:
  assumes "l \<noteq> L_DEFAULT"
  shows "toggle_scan f current toks l False =
    (case dropWhile (\<lambda>l. l \<noteq> current) (List.map_filter f toks) of x # y # _ \<Rightarrow> y | _ \<Rightarrow> l)"
  using assms
proof (induction toks)
  case (Cons tok toks)
  then show ?case by (cases "f tok") (simp_all add: map_filter_simps toggle_scan_found)
qed (simp add: map_filter_simps)

lemma toggle_scan_next:
  assumes "\<forall>tok \<in> set toks. f tok \<noteq> Some L_DEFAULT"
  shows "toggle_scan f current toks L_DEFAULT False =
    (case next_layout current (List.map_filter f toks) of None \<Rightarrow> L_DEFAULT | Some l \<Rightarrow> l)"
  using assms
proof (induction toks)
  case (Cons tok toks)
  show ?case
  proof (cases "f tok")
    case (Some l)
    then have "l \<noteq> L_DEFAULT" using Cons.prems by auto
    then show ?thesis using Some
      by (cases "current = l") (auto simp: next_layout_def map_filter_simps toggle_scan_found
          toggle_scan_later list.case_eq_if)
  qed (use Cons in \<open>simp add: map_filter_simps\<close>)
qed (simp add: next_layout_def map_filter_simps)

lemma token_layout_not_default: "token_layout current last_split tok \<noteq> Some L_DEFAULT"
  by (auto simp: token_layout_def effective_layout_def split: option.splits)

lemma in_map_filter: "y \<in> set (List.map_filter f xs) \<longleftrightarrow> (\<exists>x \<in> set xs. f x = Some y)"
  by (induction xs) (auto simp: map_filter_simps split: option.split)

lemma next_layout_in: "next_layout current ls = Some l \<Longrightarrow> l \<in> set ls"
  by (auto simp: next_layout_def tailq_first_in dest: set_dropWhileD split: list.splits)
    (metis list.set_intros(1,2) set_dropWhileD)

end
