(* ===== verification/Floating_Geometry.thy ===== *)
theory Floating_Geometry
  imports Outputs
begin

text \<open>
  The sizes and positions of floating containers (\<^verbatim>\<open>src/floating.c\<close>): \<open>floating_check_size\<close>,
  \<open>floating_center\<close>, \<open>floating_fix_coordinates\<close> and \<open>floating_resize\<close>. Sizes are 32-bit words;
  \<open>min\<close> and \<open>max\<close> compare them signed, the other comparisons and the remainder are unsigned. The
  aspect ratio is computed in \<open>double\<close>.
\<close>

definition total_outputs_dimensions :: "wm \<Rightarrow> Rect \<Rightarrow> Rect" where
  "total_outputs_dimensions s root_screen =
     (if outputs s = [] then root_screen
      else fold (\<lambda>out r. r\<lparr>rect_width := rect_width r + rect_width (o_rect out),
                          rect_height := rect_height r + rect_height (o_rect out)\<rparr>) (outputs s) zero_rect)"

definition or_else :: "int \<Rightarrow> int \<Rightarrow> int" where
  "or_else a b = (if a \<noteq> 0 then a else b)"

definition c_word :: "int \<Rightarrow> u32" where
  "c_word i = word_of_int i"

text \<open>\<open>round\<close> of the C library: halves away from zero.\<close>

definition c_round :: "real \<Rightarrow> real" where
  "c_round x = real_of_int (lround x)"

text \<open>One dimension between the hints of the window: \<open>border\<close> is taken off for the comparison.\<close>

definition at_least :: "u32 \<Rightarrow> int \<Rightarrow> u32 \<Rightarrow> u32" where
  "at_least border m v = c_max (v - border) (c_word m) + border"

definition at_most :: "u32 \<Rightarrow> int \<Rightarrow> u32 \<Rightarrow> u32" where
  "at_most border m v = c_min (v - border) (c_word m) + border"

definition hint_range :: "u32 \<Rightarrow> int \<Rightarrow> int \<Rightarrow> u32 \<Rightarrow> u32" where
  "hint_range border mn mx v =
     (let v = (if mn \<noteq> 0 then at_least border mn v else v)
      in if mx \<noteq> 0 then at_most border mx v else v)"

text \<open>The size that obeys the aspect ratio, if one is violated.\<close>

definition aspect_size ::
  "i3Window \<Rightarrow> bool \<Rightarrow> u32 \<times> u32 \<Rightarrow> u32 \<times> u32 \<Rightarrow> u32 \<times> u32" where
  "aspect_size w prefer_height border dims =
     (case (border, dims) of ((bw, bh), (dw, dh)) \<Rightarrow>
        let width = real (unat (dw - c_word (w_base_width w) - bw));
            height = real (unat (dh - c_word (w_base_height w) - bh));
            ar = width / height;
            mn = w_min_aspect_ratio w; mx = w_max_aspect_ratio w;
            new_ar = (if mn > 0 \<and> ar < mn then mn else if mx > 0 \<and> ar > mx then mx else - 1)
        in if new_ar > 0 then
             let (width, height) = (if prefer_height
                 then (let width = c_round (height * new_ar) in (width, c_round (width / new_ar)))
                 else (let height = c_round (width / new_ar) in (c_round (height * new_ar), height)))
             in (c_word (c_trunc (width + real_of_int (w_base_width w) + real (unat bw))),
                 c_word (c_trunc (height + real_of_int (w_base_height w) + real (unat bh))))
           else dims)"

definition increment_size :: "int \<Rightarrow> int \<Rightarrow> u32 \<Rightarrow> u32 \<Rightarrow> u32" where
  "increment_size increment base border v =
     (let off = c_word base + border in
      if increment \<noteq> 0 \<and> v \<ge> off
      then (let v = v - off in v - v mod c_word increment + off) else v)"

definition window_size :: "i3Window \<Rightarrow> bool \<Rightarrow> bool \<Rightarrow> u32 \<times> u32 \<Rightarrow> u32 \<times> u32 \<Rightarrow> u32 \<times> u32" where
  "window_size w is_fullscreen prefer_height border dims =
     (case (border, dims) of ((bw, bh), (dw, dh)) \<Rightarrow>
        let min_width = or_else (w_min_width w) (w_base_width w);
            min_height = or_else (w_min_height w) (w_base_height w);
            base_width = or_else (w_base_width w) (w_min_width w);
            base_height = or_else (w_base_height w) (w_min_height w);
            dims = (hint_range bw min_width (w_max_width w) dw, hint_range bh min_height (w_max_height w) dh);
            (dw, dh) = (if \<not> is_fullscreen \<and> (w_min_aspect_ratio w > 0 \<or> w_max_aspect_ratio w > 0)
              then aspect_size w prefer_height border dims else dims)
        in (increment_size (w_width_increment w) base_width bw dw,
            increment_size (w_height_increment w) base_height bh dh))"

definition configured_range :: "u32 \<Rightarrow> int \<Rightarrow> int \<Rightarrow> int \<Rightarrow> int \<Rightarrow> u32 \<Rightarrow> u32" where
  "configured_range border cmin sane_min cmax sane_max v =
     (let v = (if cmin \<noteq> - 1 then at_least border (if cmin = 0 then sane_min else cmin) v else v)
      in if cmax \<noteq> - 1 then at_most border (if cmax = 0 then sane_max else cmax) v else v)"

definition border_extra :: "wm \<Rightarrow> con_id \<Rightarrow> u32 \<times> u32" where
  "border_extra s c =
     (let r = con_border_style_rect s c; x = c_word (border_width (store s c))
      in (- rect_width r + 2 * x, - rect_height r + 2 * x))"

text \<open>\<open>root_screen\<close> is the size of the X11 screen, used when there is no output.\<close>

definition floating_check_size :: "Rect \<Rightarrow> con_id \<Rightarrow> bool \<Rightarrow> wm \<Rightarrow> wm" where
  "floating_check_size root_screen c prefer_height s =
     (let f = con_descend_focused s c;
          (bw, bh) = border_extra s f;
          r = rect (store s c);
          dims = (rect_width r, rect_height r);
          (dw, dh) = (case window (store s f) of
              None \<Rightarrow> dims
            | Some w \<Rightarrow> window_size w (fullscreen_mode (store s c) \<noteq> CF_NONE) prefer_height (bw, bh) dims);
          sane = total_outputs_dimensions s root_screen;
          dh = configured_range bh (cfg_floating_minimum_height (cfg s)) 50
                 (cfg_floating_maximum_height (cfg s)) (sint (rect_height sane)) dh;
          dw = configured_range bw (cfg_floating_minimum_width (cfg s)) 75
                 (cfg_floating_maximum_width (cfg s)) (sint (rect_width sane)) dw
      in upd_con c (\<lambda>k. k\<lparr>rect := (rect k)\<lparr>rect_width := dw, rect_height := dh\<rparr>\<rparr>) s)"

definition floating_center :: "con_id \<Rightarrow> Rect \<Rightarrow> wm \<Rightarrow> wm" where
  "floating_center c r s =
     upd_con c (\<lambda>k. k\<lparr>rect := (rect k)\<lparr>
       rect_x := rect_x r + rect_width r div 2 - rect_width (rect k) div 2,
       rect_y := rect_y r + rect_height r div 2 - rect_height (rect k) div 2\<rparr>\<rparr>) s"

text \<open>One coordinate of \<open>floating_fix_coordinates\<close>.\<close>

definition fixed_coordinate :: "u32 \<Rightarrow> u32 \<Rightarrow> u32 \<Rightarrow> u32 \<Rightarrow> u32 \<Rightarrow> u32 \<Rightarrow> u32" where
  "fixed_coordinate pos len old_pos old_size new_pos new_size =
     (let rel = sint (pos - old_pos + len div 2)
      in c_word (c_trunc (real_of_int (sint new_pos) +
           real_of_int (rel * sint new_size) / real_of_int (sint old_size) -
           real_of_int (sint (len div 2)))))"

definition floating_fix_coordinates :: "con_id \<Rightarrow> Rect \<Rightarrow> Rect \<Rightarrow> wm \<Rightarrow> wm" where
  "floating_fix_coordinates c old new s =
     upd_con c (\<lambda>k. k\<lparr>rect := (rect k)\<lparr>
       rect_x := fixed_coordinate (rect_x (rect k)) (rect_width (rect k)) (rect_x old) (rect_width old)
         (rect_x new) (rect_width new),
       rect_y := fixed_coordinate (rect_y (rect k)) (rect_height (rect k)) (rect_y old) (rect_height old)
         (rect_y new) (rect_height new)\<rparr>\<rparr>) s"

text \<open>\<open>rect->width += (wi - 1 - rect->width) % wi\<close>, in 32-bit unsigned arithmetic.\<close>

definition round_up :: "int \<Rightarrow> u32 \<Rightarrow> u32" where
  "round_up wi v = (if wi \<noteq> 0 then v + (c_word wi - 1 - v) mod c_word wi else v)"

definition floating_resize :: "Rect \<Rightarrow> con_id \<Rightarrow> u32 \<Rightarrow> u32 \<Rightarrow> wm \<Rightarrow> wm" where
  "floating_resize root_screen c x y s =
     (case window (store s (con_descend_focused s c)) of
        None \<Rightarrow> s
      | Some w \<Rightarrow>
          let prefer_height = (rect_width (rect (store s c)) = x);
              s = upd_con c (\<lambda>k. k\<lparr>rect := (rect k)\<lparr>
                    rect_width := round_up (w_width_increment w) x,
                    rect_height := round_up (w_height_increment w) y\<rparr>\<rparr>) s;
              s = floating_check_size root_screen c prefer_height s
          in if scratchpad_state (store s c) = SCRATCHPAD_FRESH
             then upd_con c (\<lambda>k. k\<lparr>scratchpad_state := SCRATCHPAD_CHANGED\<rparr>) s else s)"

subsection \<open>Sizes stay in range\<close>

lemma at_least_bound: "sint (c_word m) \<le> sint (at_least b m v - b)"
  by (simp add: at_least_def)

lemma at_most_bound: "sint (at_most b m v - b) \<le> sint (c_word m)"
  by (simp add: at_most_def)

lemma at_most_keeps_min:
  "sint (c_word mn) \<le> sint (v - b) \<Longrightarrow> sint (c_word mn) \<le> sint (c_word m) \<Longrightarrow>
     sint (c_word mn) \<le> sint (at_most b m v - b)"
  by (simp add: at_most_def)

lemma configured_range_bounds:
  defines "lo cmin sane_min \<equiv> c_word (if cmin = 0 then sane_min else cmin)"
  shows "cmax \<noteq> - 1 \<Longrightarrow>
      sint (configured_range b cmin sane_min cmax sane_max v - b) \<le> sint (lo cmax sane_max)"
    and "cmin \<noteq> - 1 \<Longrightarrow> cmax = - 1 \<or> sint (lo cmin sane_min) \<le> sint (lo cmax sane_max) \<Longrightarrow>
      sint (lo cmin sane_min) \<le> sint (configured_range b cmin sane_min cmax sane_max v - b)"
  unfolding configured_range_def Let_def lo_def
  by (auto simp: at_most_bound at_least_bound intro: at_most_keeps_min)

lemma floating_check_size_rect:
  "rect_x (rect (store (floating_check_size rs c ph s) c)) = rect_x (rect (store s c))"
  "rect_y (rect (store (floating_check_size rs c ph s) c)) = rect_y (rect (store s c))"
  "\<exists>v. rect_width (rect (store (floating_check_size rs c ph s) c)) =
     configured_range (fst (border_extra s (con_descend_focused s c))) (cfg_floating_minimum_width (cfg s)) 75
       (cfg_floating_maximum_width (cfg s)) (sint (rect_width (total_outputs_dimensions s rs))) v"
  "\<exists>v. rect_height (rect (store (floating_check_size rs c ph s) c)) =
     configured_range (snd (border_extra s (con_descend_focused s c))) (cfg_floating_minimum_height (cfg s)) 50
       (cfg_floating_maximum_height (cfg s)) (sint (rect_height (total_outputs_dimensions s rs))) v"
  unfolding floating_check_size_def Let_def by (auto split: prod.splits)

lemma word_sub_mod_mod: "(a - a mod b) mod b = (0 :: u32)"
proof -
  have le: "a mod b \<le> a" by (simp add: word_le_nat_alt unat_mod_distrib)
  have "unat ((a - a mod b) mod b) = (unat a - unat a mod unat b) mod unat b"
    using le by (simp add: unat_mod_distrib unat_sub)
  also have "\<dots> = 0" by (simp add: minus_mod_eq_mult_div)
  finally show ?thesis by (simp add: unat_eq_zero)
qed

text \<open>Size increments: what is above the base is a multiple of the increment, and at most one
  increment is lost.\<close>

lemma increment_size_correct:
  assumes "increment \<noteq> 0" and "c_word base + border \<le> v"
  defines "off \<equiv> c_word base + border"
  shows "(increment_size increment base border v - off) mod c_word increment = 0"
    and "increment_size increment base border v - off \<le> v - off"
    and "c_word increment \<noteq> 0 \<Longrightarrow>
      (v - off) - (increment_size increment base border v - off) < c_word increment"
proof -
  have eq: "increment_size increment base border v - off = (v - off) - (v - off) mod c_word increment"
    using assms by (simp add: increment_size_def Let_def)
  show "(increment_size increment base border v - off) mod c_word increment = 0"
    unfolding eq by (rule word_sub_mod_mod)
  show "increment_size increment base border v - off \<le> v - off"
  proof -
    have "(v - off) mod c_word increment \<le> v - off" by (simp add: word_le_nat_alt unat_mod_distrib)
    then show ?thesis unfolding eq by (rule word_sub_le)
  qed
  show "(v - off) - (increment_size increment base border v - off) < c_word increment"
    if "c_word increment \<noteq> 0"
    unfolding eq using that by (simp add: word_less_nat_alt unat_mod_distrib unat_gt_0)
qed

subsection \<open>Positions\<close>

text \<open>Centring leaves the same margin on both sides, up to the pixel an odd size costs.\<close>

lemma floating_center_margins:
  fixes x w rw rx :: nat
  assumes "w \<le> rw" and "rx + rw < 2 ^ 32" and "rect_width (rect (store s c)) = of_nat w"
    and "rect_x r = of_nat rx" and "rect_width r = of_nat rw"
  shows "unat (rect_x (rect (store (floating_center c r s) c))) = rx + rw div 2 - w div 2"
proof -
  have small: "rw < 2 ^ 32" "rx < 2 ^ 32" "w < 2 ^ 32" using assms(1,2) by linarith+
  have U: "unat (of_nat n :: u32) = n" if "n < 2 ^ 32" for n
    using that by (simp add: unat_of_nat take_bit_eq_mod)
  have D: "(of_nat n div 2 :: u32) = of_nat (n div 2)" if "n < 2 ^ 32" for n
  proof -
    have "unat (of_nat n div 2 :: u32) = n div 2" using U [OF that] by (simp add: unat_div_distrib)
    then have "unat (of_nat n div 2 :: u32) = unat (of_nat (n div 2) :: u32)"
      using U [of "n div 2"] that by simp
    then show ?thesis by (rule unsigned_word_eqI)
  qed
  have le: "w div 2 \<le> rx + rw div 2" using assms(1) by (meson div_le_mono le_add2 le_trans)
  have "rect_x (rect (store (floating_center c r s) c)) = of_nat rx + of_nat rw div 2 - of_nat w div 2"
    by (simp add: floating_center_def assms(3-5))
  also have "\<dots> = of_nat (rx + rw div 2 - w div 2)"
    using le small by (simp add: D of_nat_diff)
  finally show ?thesis using U [of "rx + rw div 2 - w div 2"] assms(2) by (simp add: div_le_dividend)
qed

text \<open>Moving to an output of the same size keeps the position relative to the output.\<close>

lemma fixed_coordinate_same_size:
  assumes old: "sint old_size > 0" and rel: "rel = sint (pos - old_pos + len div 2)"
  shows "fixed_coordinate pos len old_pos old_size new_pos old_size =
    new_pos + (pos - old_pos)"
proof -
  have frac: "real_of_int (rel * sint old_size) / real_of_int (sint old_size) = real_of_int rel"
  proof -
    have "real_of_int (rel * k) / real_of_int k = real_of_int rel" if "k > 0" for k using that by simp
    then show ?thesis using old by blast
  qed
  have "fixed_coordinate pos len old_pos old_size new_pos old_size =
      c_word (c_trunc (real_of_int (sint new_pos + rel - sint (len div 2))))"
    unfolding fixed_coordinate_def Let_def rel [symmetric] frac by simp
  also have "c_trunc (real_of_int i) = i" for i by (simp add: c_trunc_def)
  finally have "fixed_coordinate pos len old_pos old_size new_pos old_size =
      c_word (sint new_pos + rel - sint (len div 2))" .
  also have "\<dots> = word_of_int (sint new_pos) + word_of_int rel - word_of_int (sint (len div 2))"
    by (simp add: c_word_def)
  also have "\<dots> = new_pos + (pos - old_pos)" by (simp add: rel)
  finally show ?thesis .
qed

text \<open>The size hint is missed: with an increment of 10 a width of 100 becomes 105.\<close>

lemma round_up_misses: "round_up 10 100 = 105" "round_up 10 100 mod 10 \<noteq> 0" "round_up 10 5 = 9"
  by (simp_all add: round_up_def c_word_def)

end
