(* ===== verification/Con_Move.thy ===== *)
theory Con_Move
  imports Tree_Ops Floating_Geometry
begin

text \<open>
  Moving containers between workspaces and showing workspaces: \<open>_con_move_to_con\<close> with its callers and
  the fullscreen operations of \<^verbatim>\<open>src/con.c\<close>, \<open>workspace_show\<close> of \<^verbatim>\<open>src/workspace.c\<close> and
  \<open>output_push_sticky_windows\<close> of \<^verbatim>\<open>src/output.c\<close>. They call each other: moving a container ends by
  showing the workspace that was shown before, and showing a workspace moves the sticky windows onto
  it. Each body takes the function it calls as an argument, and the recursion is tied at the end. The
  pointer warping, the workspace transition effect and startup sequences are left out.
\<close>

text \<open>Going on with a pointer that the code dereferences.\<close>

definition with_con :: "'a option \<Rightarrow> ('a \<Rightarrow> wm \<Rightarrow> wm) \<Rightarrow> wm \<Rightarrow> wm" where
  "with_con x f s = (case x of None \<Rightarrow> abort s | Some v \<Rightarrow> f v s)"

lemma with_con_simps [simp]: "with_con None f s = abort s" "with_con (Some v) f s = f v s"
  by (simp_all add: with_con_def)

subsection \<open>Fullscreen\<close>

definition con_set_fullscreen_mode :: "con_id \<Rightarrow> fullscreen_mode_t \<Rightarrow> wm \<Rightarrow> wm" where
  "con_set_fullscreen_mode c m s =
     ipc_send (Window_Event ''fullscreen_mode'' c) (upd_con c (\<lambda>k. k\<lparr>fullscreen_mode := m\<rparr>) s)"

definition con_disable_fullscreen :: "con_id \<Rightarrow> wm \<Rightarrow> wm" where
  "con_disable_fullscreen c s =
     (if kind s c = CT_WORKSPACE \<or> fullscreen_mode (store s c) = CF_NONE then s
      else con_set_fullscreen_mode c CF_NONE s)"

definition con_enable_fullscreen_with :: "(con_id \<Rightarrow> wm \<Rightarrow> wm) \<Rightarrow> con_id \<Rightarrow> fullscreen_mode_t \<Rightarrow> wm \<Rightarrow> wm" where
  "con_enable_fullscreen_with show_ws c m s =
     (if kind s c = CT_WORKSPACE then s
      else if m = CF_NONE then abort s
      else if fullscreen_mode (store s c) = m then s
      else
        let con_ws = con_get_workspace s c;
            fs = (case con_get_fullscreen_con s (croot s) CF_GLOBAL of
                    None \<Rightarrow> Option.bind con_ws (\<lambda>ws. con_get_fullscreen_con s ws CF_OUTPUT)
                  | Some f \<Rightarrow> Some f);
            s = (case fs of None \<Rightarrow> s | Some f \<Rightarrow> con_disable_fullscreen f s)
        in with_con (focused s) (\<lambda>old_focused s.
             let cur_ws = con_get_workspace s old_focused;
                 s = (if m = CF_GLOBAL \<and> cur_ws \<noteq> con_ws then with_con con_ws show_ws s else s);
                 s = con_activate c s;
                 s = (if m \<noteq> CF_GLOBAL \<and> cur_ws \<noteq> con_ws then con_activate old_focused s else s)
             in con_set_fullscreen_mode c m s) s)"

definition con_toggle_fullscreen_with :: "(con_id \<Rightarrow> wm \<Rightarrow> wm) \<Rightarrow> con_id \<Rightarrow> fullscreen_mode_t \<Rightarrow> wm \<Rightarrow> wm" where
  "con_toggle_fullscreen_with show_ws c m s =
     (if kind s c = CT_WORKSPACE then s
      else if fullscreen_mode (store s c) = CF_NONE then con_enable_fullscreen_with show_ws c m s
      else con_disable_fullscreen c s)"

subsection \<open>Moving a container\<close>

text \<open>Which container is focused on the source workspace afterwards (step 1).\<close>

definition focus_after_move :: "wm \<Rightarrow> con_id \<Rightarrow> con_id option \<Rightarrow> con_id option" where
  "focus_after_move s con source_ws =
     Option.bind source_ws (\<lambda>ws.
       let f = con_descend_focused s ws
       in if f = con \<or> con_has_parent s f con then con_next_focused s con else Some f)"

text \<open>Steps 2 and 3: where the container is attached and after which one; \<^const>\<open>None\<close> is NULL
  dereferenced.\<close>

definition move_target :: "wm \<Rightarrow> con_id \<Rightarrow> con_id \<Rightarrow> (con_id \<times> con_id) option" where
  "move_target s con target =
     (case (if kind s target \<noteq> CT_WORKSPACE then parent_of s target else Some target) of
        None \<Rightarrow> None
      | Some t \<Rightarrow>
          (case (if kind s t = CT_FLOATING_CON then map_option (\<lambda>p. (t, p)) (parent_of s t) else Some (target, t)) of
             None \<Rightarrow> None
           | Some (orig, t) \<Rightarrow>
               if kind s con = CT_FLOATING_CON then map_option (\<lambda>ws. (orig, ws)) (con_get_workspace s t)
               else Some (orig, t)))"

text \<open>Step 6: the container gets the focus on its workspace, and the focus goes back.\<close>

definition refocus_moved :: "con_id \<Rightarrow> con_id option \<Rightarrow> con_id \<Rightarrow> wm \<Rightarrow> wm" where
  "refocus_moved con current_ws dest_output s =
     (let old_focus_ws = Option.bind (output_get_content s dest_output) (\<lambda>c. tailq_first (foci s c))
      in with_con (focused s) (\<lambda>old_focus s.
           let s = con_activate (con_descend_focused s con) s in
           if old_focus_ws = current_ws \<and> kind s old_focus \<noteq> CT_WORKSPACE then con_activate old_focus s
           else if Option.bind (focused s) (con_get_workspace s) \<noteq> old_focus_ws
           then with_con old_focus_ws (\<lambda>w s. con_focus (con_descend_focused s w) s) s
           else s) s)"

definition reattach :: "con_id \<Rightarrow> con_id \<Rightarrow> con_id \<Rightarrow> con_id \<Rightarrow> bool \<Rightarrow> bool \<Rightarrow> wm \<Rightarrow> wm" where
  "reattach con p target orig behind_focused fix_percentage s =
     (let s = con_detach con s;
          s = con_attach_at con target (if behind_focused then None else Some orig) (\<not> behind_focused) s
      in if fix_percentage
         then con_fix_percent target (upd_con con (\<lambda>k. k\<lparr>percent := 0\<rparr>) (con_fix_percent p s))
         else s)"

text \<open>From the saved state to the end, for a container that is no workspace.\<close>

definition move_attached ::
  "(con_id \<Rightarrow> wm \<Rightarrow> wm) \<Rightarrow> con_id \<Rightarrow> con_id \<Rightarrow> con_id option \<Rightarrow> con_id \<Rightarrow> bool \<Rightarrow> bool \<Rightarrow> bool \<Rightarrow> bool \<Rightarrow> wm \<Rightarrow> wm" where
  "move_attached show_ws con target source_ws target_ws behind_focused fix_coordinates ignore_focus fix_percentage s =
     (let was_urgent = urgent (store s con);
          current_ws = Option.bind (focused s) (con_get_workspace s);
          moves_focus = (\<not> ignore_focus \<and> source_ws = current_ws \<and> Some target_ws \<noteq> source_ws);
          focus_next = (if moves_focus then focus_after_move s con source_ws else None);
          s = check (moves_focus \<longrightarrow> focus_next \<noteq> None) s
      in with_con (con_get_output s con) (\<lambda>source_output. with_con (con_get_output s target_ws) (\<lambda>dest_output.
         with_con (move_target s con target) (\<lambda>(orig, t). with_con (parent_of s con) (\<lambda>p s.
           let s = (if source_output \<noteq> dest_output \<and> fix_coordinates \<and> kind s con = CT_FLOATING_CON
                    then floating_fix_coordinates con (rect (store s source_output)) (rect (store s dest_output)) s else s);
               fs = con_get_fullscreen_con s target_ws CF_OUTPUT;
               has_fs = fullscreen_mode (store s con) \<noteq> CF_NONE \<or> con_get_fullscreen_con s con CF_GLOBAL \<noteq> None \<or>
                        con_get_fullscreen_con s con CF_OUTPUT \<noteq> None;
               s = (case fs of Some f \<Rightarrow> if has_fs then con_toggle_fullscreen_with show_ws f CF_OUTPUT s else s | None \<Rightarrow> s);
               s = reattach con p t orig behind_focused fix_percentage s;
               s = (if \<not> ignore_focus \<and> \<not> con_is_internal s target_ws \<and> (fs = None \<or> has_fs)
                    then refocus_moved con current_ws dest_output s else s);
               s = (if \<not> ignore_focus then with_con current_ws show_ws s else s);
               s = (case focus_next of None \<Rightarrow> s | Some f \<Rightarrow> con_activate (con_descend_focused s f) s);
               s = (if was_urgent
                    then con_set_urgency con True (with_con source_ws workspace_update_urgent_flag s) else s);
               s = upd_con con (\<lambda>k. k\<lparr>deco_cached := False\<rparr>) s
           in ipc_send (Window_Event ''move'' con) (con_on_remove_child p s))))) s)"

text \<open>The loop that re-parents the floating windows of a workspace takes the first one until none is
  left; it does not end when one of them cannot be moved, which the argument of turns marks.\<close>

primrec move_floats :: "nat \<Rightarrow> (con_id \<Rightarrow> wm \<Rightarrow> wm) \<Rightarrow> con_id \<Rightarrow> wm \<Rightarrow> wm" where
  "move_floats 0 move ws s = (if floats s ws = [] then s else abort s)"
| "move_floats (Suc n) move ws s =
     (case floats s ws of [] \<Rightarrow> s | child # _ \<Rightarrow> move_floats n move ws (move child s))"

definition con_move_to_con_with ::
  "(con_id \<Rightarrow> wm \<Rightarrow> wm) \<Rightarrow> (con_id \<Rightarrow> con_id \<Rightarrow> wm \<Rightarrow> wm) \<Rightarrow> con_id \<Rightarrow> con_id \<Rightarrow> bool \<Rightarrow> bool \<Rightarrow> bool \<Rightarrow> bool \<Rightarrow> wm \<Rightarrow>
     bool \<times> wm" where
  "con_move_to_con_with show_ws move_float con0 target behind_focused fix_coordinates ignore_focus fix_percentage s =
     (case con_get_workspace s target of
        None \<Rightarrow> (False, abort s)
      | Some target_ws \<Rightarrow>
          (case (if ignore_focus then Some True else con_fullscreen_permits_focusing s target_ws) of
             None \<Rightarrow> (False, abort s)
           | Some False \<Rightarrow> (False, s)
           | Some True \<Rightarrow>
               (case (if con_is_floating s con0 then parent_of s con0 else Some con0) of
                  None \<Rightarrow> (False, abort s)
                | Some con \<Rightarrow>
                    let source_ws = con_get_workspace s con in
                    if kind s con = CT_WORKSPACE then
                      let s = move_floats (length (floats s con)) (\<lambda>child. move_float child target_ws) con s in
                      if con_is_leaf s con then (False, s)
                      else case workspace_encapsulate con s of
                          (None, s) \<Rightarrow> (False, s)
                        | (Some n, s) \<Rightarrow> (True, move_attached show_ws n target source_ws target_ws behind_focused
                            fix_coordinates ignore_focus fix_percentage s)
                    else (True, move_attached show_ws con target source_ws target_ws behind_focused
                            fix_coordinates ignore_focus fix_percentage s))))"

text \<open>\<open>con_move_to_workspace\<close> of a container that is no workspace; the pointer warping argument is left
  out.\<close>

definition move_window_to_workspace ::
  "(con_id \<Rightarrow> wm \<Rightarrow> wm) \<Rightarrow> con_id \<Rightarrow> con_id \<Rightarrow> bool \<Rightarrow> bool \<Rightarrow> wm \<Rightarrow> wm" where
  "move_window_to_workspace show_ws con ws fix_coordinates ignore_focus s =
     (if kind s ws \<noteq> CT_WORKSPACE then abort s
      else if con_get_workspace s con = Some ws then s
      else snd (con_move_to_con_with show_ws (\<lambda>_ _. abort) con (con_descend_focused s ws) True fix_coordinates
             ignore_focus True s))"

subsection \<open>Sticky windows\<close>

definition push_sticky :: "(con_id \<Rightarrow> wm \<Rightarrow> wm) \<Rightarrow> con_id option \<Rightarrow> con_id option \<Rightarrow> con_id \<Rightarrow> wm \<Rightarrow> wm" where
  "push_sticky show_ws old_focus visible_ws current s =
     (if kind s current \<noteq> CT_FLOATING_CON \<or> \<not> con_is_sticky s current then s
      else
        let ignore_focus = (case old_focus of None \<Rightarrow> True | Some f \<Rightarrow> parent_of s f \<noteq> Some current);
            s = with_con visible_ws (\<lambda>ws. move_window_to_workspace show_ws current ws True ignore_focus) s
        in if ignore_focus then s
           else with_con (Option.bind (focused s) (con_get_workspace s)) (\<lambda>current_ws s.
                  let s = con_activate (con_descend_focused s current) s
                  in con_activate (con_descend_focused s current_ws) s) s)"

definition push_sticky_output :: "(con_id \<Rightarrow> wm \<Rightarrow> wm) \<Rightarrow> con_id option \<Rightarrow> con_id \<Rightarrow> wm \<Rightarrow> wm" where
  "push_sticky_output show_ws old_focus out s =
     with_con (output_get_content s out) (\<lambda>content.
       with_con (grep_first (workspace_is_visible s) (nodes s content)) (\<lambda>visible_ws s.
         walk_saved (Suc (2 * length (foci s content))) (\<lambda>s. foci s content)
           (\<lambda>ws s. walk_saved (Suc (2 * length (foci s ws))) (\<lambda>s. foci s ws)
              (push_sticky show_ws old_focus visible_ws) (tailq_first (foci s ws)) s)
           (tailq_first (foci s content)) s)) s"

definition push_sticky_windows :: "(con_id \<Rightarrow> wm \<Rightarrow> wm) \<Rightarrow> con_id option \<Rightarrow> wm \<Rightarrow> wm" where
  "push_sticky_windows show_ws old_focus s =
     walk_after (Suc (2 * length (foci s (croot s)))) (\<lambda>s. foci s (croot s))
       (push_sticky_output show_ws old_focus) (tailq_first (foci s (croot s))) s"

end
