(* ===== verification/Workspace_Show.thy ===== *)
theory Workspace_Show
  imports Con_Move
begin

text \<open>
  \<open>workspace_show\<close>, the sticky groups, \<open>create_workspace_on_output\<close> and \<open>workspace_move_to_output\<close> of
  \<^verbatim>\<open>src/workspace.c\<close>; the recursion with the moving of containers is tied here, and the
  operations of \<^verbatim>\<open>src/con.c\<close> and \<^verbatim>\<open>src/tree.c\<close> that end in it follow.
\<close>

subsection \<open>Sticky groups\<close>

fun first_some :: "('a \<Rightarrow> 'b option) \<Rightarrow> 'a list \<Rightarrow> 'b option" where
  "first_some f [] = None"
| "first_some f (x # xs) = (case f x of None \<Rightarrow> first_some f xs | Some y \<Rightarrow> Some y)"

primrec sticky_search :: "nat \<Rightarrow> wm \<Rightarrow> string \<Rightarrow> con_id \<Rightarrow> con_id \<Rightarrow> con_id option" where
  "sticky_search 0 s grp exclude c = None"
| "sticky_search (Suc n) s grp exclude c =
     (let visit = (\<lambda>d. if d \<noteq> exclude \<and> window (store s d) \<noteq> None \<and> sticky_group (store s d) = Some grp
            then Some d else sticky_search n s grp exclude d)
      in case first_some visit (nodes s c) of Some d \<Rightarrow> Some d | None \<Rightarrow> first_some visit (floats s c))"

definition get_sticky :: "wm \<Rightarrow> con_id \<Rightarrow> string \<Rightarrow> con_id \<Rightarrow> con_id option" where
  "get_sticky s c grp exclude = sticky_search (length (all_cons s)) s grp exclude c"

text \<open>The window of \<open>src\<close> goes to \<open>current\<close>.\<close>

definition take_window :: "con_id \<Rightarrow> con_id \<Rightarrow> wm \<Rightarrow> wm" where
  "take_window src current s =
     upd_con src (\<lambda>k. k\<lparr>window := None, mapped := False\<rparr>)
       (upd_con current (\<lambda>k. k\<lparr>window := window (store s src), mapped := True\<rparr>) s)"

primrec reassign_sticky :: "nat \<Rightarrow> con_id \<Rightarrow> wm \<Rightarrow> wm" where
  "reassign_sticky 0 c s = s"
| "reassign_sticky (Suc n) c s =
     (let s = fold (\<lambda>current s.
            case sticky_group (store s current) of
              None \<Rightarrow> reassign_sticky n current s
            | Some grp \<Rightarrow>
                with_con (con_get_output s current) (\<lambda>out s.
                  case get_sticky s out grp current of
                    None \<Rightarrow> reassign_sticky n current s
                  | Some src \<Rightarrow> take_window src current s) s) (nodes s c) s
      in fold (reassign_sticky n) (floats s c) s)"

definition workspace_reassign_sticky :: "con_id \<Rightarrow> wm \<Rightarrow> wm" where
  "workspace_reassign_sticky c s = reassign_sticky (length (all_cons s)) c s"

subsection \<open>Showing a workspace\<close>

text \<open>Only the target workspace of the output is in fullscreen mode; \<open>old\<close> is the last of the list that
  was.\<close>

definition old_workspace :: "wm \<Rightarrow> con_id \<Rightarrow> con_id option" where
  "old_workspace s content = tailq_last (filter (\<lambda>c. fullscreen_mode (store s c) = CF_OUTPUT) (nodes s content))"

definition only_fullscreen :: "con_id \<Rightarrow> con_id \<Rightarrow> wm \<Rightarrow> wm" where
  "only_fullscreen content ws s =
     upd_con ws (\<lambda>k. k\<lparr>fullscreen_mode := CF_OUTPUT\<rparr>)
       (fold (\<lambda>c. upd_con c (\<lambda>k. k\<lparr>fullscreen_mode := CF_NONE\<rparr>)) (nodes s content) s)"

definition focus_shown :: "con_id \<Rightarrow> con_id \<Rightarrow> wm \<Rightarrow> wm" where
  "focus_shown ws nxt s =
     (if urgent (store s nxt) \<and> c_trunc (cfg_workspace_urgency_timer (cfg s) * 1000) > 0
      then
        let s = con_focus nxt (upd_con nxt (\<lambda>k. k\<lparr>urgent := False\<rparr>) s)
        in with_con (focused s) (\<lambda>f s.
             let s = upd_con f (\<lambda>k. k\<lparr>urgent := True\<rparr>) s;
                 s = upd_con ws (\<lambda>k. k\<lparr>urgent := True\<rparr>) s
             in upd_con f (\<lambda>k. k\<lparr>urgency_timer := True\<rparr>) s) s
      else con_focus nxt s)"

text \<open>The old workspace is closed if it is empty and no longer visible; the result tells whether it
  was.\<close>

definition close_old :: "con_id \<Rightarrow> wm \<Rightarrow> bool \<times> wm" where
  "close_old old s =
     (if nodes s old = [] \<and> floats s old = [] then
        (case workspace_is_visible s old of
           None \<Rightarrow> (False, abort s)
         | Some True \<Rightarrow> (False, s)
         | Some False \<Rightarrow>
             (True, ipc_send (Workspace_Event ''empty'' old None)
                      (snd (tree_close_internal old DONT_KILL_WINDOW False s))))
      else (False, s))"

definition workspace_show_with :: "(con_id option \<Rightarrow> wm \<Rightarrow> wm) \<Rightarrow> con_id \<Rightarrow> wm \<Rightarrow> wm" where
  "workspace_show_with push ws s =
     (if con_is_internal s ws then s
      else with_con (parent_of s ws) (\<lambda>content s.
        let old = old_workspace s content;
            s = only_fullscreen content ws s
        in with_con (focused s) (\<lambda>f s.
             let current = con_get_workspace s f in
             if current = Some ws then s
             else
               let old_focus = map_option (con_descend_focused s) old;
                   s = (case current of
                          None \<Rightarrow> s
                        | Some c \<Rightarrow> if con_is_internal s c then s
                            else s\<lparr>previous_workspace_name := Some (cname (store s c))\<rparr>);
                   s = workspace_reassign_sticky ws s;
                   s = focus_shown ws (con_descend_focused s ws) s;
                   s = ipc_send (Workspace_Event ''focus'' ws current) s;
                   (closed, s) = (case old of None \<Rightarrow> (False, s) | Some o' \<Rightarrow> close_old o' s);
                   old_focus = (if closed \<and> old_focus = old then None else old_focus);
                   s = upd_con ws (\<lambda>k. k\<lparr>fullscreen_mode := CF_OUTPUT\<rparr>) s
               in push old_focus s) s) s)"

text \<open>The sticky window that had the focus is moved with its focus, which shows the current workspace
  again; the argument bounds how often showing and moving nest.\<close>

primrec show_nested :: "nat \<Rightarrow> con_id \<Rightarrow> wm \<Rightarrow> wm" where
  "show_nested 0 ws s = abort s"
| "show_nested (Suc n) ws s = workspace_show_with (push_sticky_windows (show_nested n)) ws s"

definition workspace_show :: "con_id \<Rightarrow> wm \<Rightarrow> wm" where
  "workspace_show ws s = show_nested (length (all_cons s)) ws s"

definition output_push_sticky_windows :: "con_id option \<Rightarrow> wm \<Rightarrow> wm" where
  "output_push_sticky_windows old_focus s = push_sticky_windows workspace_show old_focus s"

definition workspace_show_by_name :: "string \<Rightarrow> wm \<Rightarrow> wm" where
  "workspace_show_by_name name s = (case workspace_get name s of (ws, s) \<Rightarrow> with_con ws workspace_show s)"

subsection \<open>Operations that end in showing a workspace\<close>

definition con_enable_fullscreen :: "con_id \<Rightarrow> fullscreen_mode_t \<Rightarrow> wm \<Rightarrow> wm" where
  "con_enable_fullscreen c m s = con_enable_fullscreen_with workspace_show c m s"

definition con_toggle_fullscreen :: "con_id \<Rightarrow> fullscreen_mode_t \<Rightarrow> wm \<Rightarrow> wm" where
  "con_toggle_fullscreen c m s = con_toggle_fullscreen_with workspace_show c m s"

definition con_move_to_con ::
  "con_id \<Rightarrow> con_id \<Rightarrow> bool \<Rightarrow> bool \<Rightarrow> bool \<Rightarrow> bool \<Rightarrow> wm \<Rightarrow> bool \<times> wm" where
  "con_move_to_con con target behind_focused fix_coordinates ignore_focus fix_percentage s =
     con_move_to_con_with workspace_show (\<lambda>child ws. move_window_to_workspace workspace_show child ws True False)
       con target behind_focused fix_coordinates ignore_focus fix_percentage s"

definition con_move_to_workspace :: "con_id \<Rightarrow> con_id \<Rightarrow> bool \<Rightarrow> bool \<Rightarrow> wm \<Rightarrow> wm" where
  "con_move_to_workspace con ws fix_coordinates ignore_focus s =
     (if kind s ws \<noteq> CT_WORKSPACE then abort s
      else if con_get_workspace s con = Some ws then s
      else snd (con_move_to_con con (con_descend_focused s ws) True fix_coordinates ignore_focus True s))"

definition con_move_to_output :: "con_id \<Rightarrow> xoutput \<Rightarrow> bool \<Rightarrow> wm \<Rightarrow> wm" where
  "con_move_to_output con out fix_coordinates s =
     with_con (output_get_content s (o_con out)) (\<lambda>content s.
       with_con (Option.bind (grep_first (workspace_is_visible s) (nodes s content)) (\<lambda>w. w))
         (\<lambda>ws. con_move_to_workspace con ws fix_coordinates False) s) s"

definition con_move_to_output_name :: "con_id \<Rightarrow> string \<Rightarrow> bool \<Rightarrow> wm \<Rightarrow> bool \<times> wm" where
  "con_move_to_output_name con name fix_coordinates s =
     (case Option.bind (get_output_for_con s con) (\<lambda>cur. get_output_from_string s cur name) of
        None \<Rightarrow> (False, abort s)
      | Some None \<Rightarrow> (False, s)
      | Some (Some out) \<Rightarrow> (True, con_move_to_output con out fix_coordinates s))"

text \<open>\<open>tree_next\<close>: the floating containers are rotated until the one to focus is the last.\<close>

primrec rotate_to_last :: "nat \<Rightarrow> con_id \<Rightarrow> con_id list \<Rightarrow> con_id list" where
  "rotate_to_last 0 c xs = xs"
| "rotate_to_last (Suc n) c xs = (if xs = [] \<or> last xs = c then xs else rotate_to_last n c (last xs # butlast xs))"

definition tree_next_workspace_focus :: "wm \<Rightarrow> con_id \<Rightarrow> con_id" where
  "tree_next_workspace_focus s nxt =
     (let f = con_descend_focused s nxt in
      if fullscreen_mode (store s f) = CF_NONE
      then let t = con_descend_tiling_focused s nxt in if t \<noteq> nxt then t else f
      else f)"

definition tree_next :: "con_id \<Rightarrow> direction_t \<Rightarrow> wm \<Rightarrow> wm" where
  "tree_next con d s =
     (case get_tree_next s con d of
        None \<Rightarrow> abort s
      | Some None \<Rightarrow> s
      | Some (Some nxt) \<Rightarrow>
          if kind s nxt = CT_WORKSPACE then
            con_activate (tree_next_workspace_focus s nxt) (workspace_show nxt s)
          else
            let s = (if kind s nxt = CT_FLOATING_CON
                  then with_con (parent_of s nxt) (\<lambda>p. upd_con p (\<lambda>k. k\<lparr>floating_head :=
                         rotate_to_last (length (floating_head k)) nxt (floating_head k)\<rparr>)) s
                  else s);
                s = with_con (con_get_workspace s nxt) workspace_show s
            in con_activate (con_descend_focused s nxt) s)"

end
