(* ===== verification/Moving.thy ===== *)
theory Moving
  imports Workspace_Show
begin

text \<open>
  Moving a container into a direction (\<^verbatim>\<open>src/move.c\<close>), making containers floating and tiling again
  (\<^verbatim>\<open>src/floating.c\<close>). The commands that assignments run on a window (\<open>run_assignments\<close>) are a parameter:
  they go through the command parser back into these operations.
\<close>

subsection \<open>Insertion next to a container\<close>

text \<open>\<^const>\<open>None\<close>: the failed assertion.\<close>

definition lowest_common_ancestor :: "wm \<Rightarrow> con_id \<Rightarrow> con_id \<Rightarrow> con_id option" where
  "lowest_common_ancestor s a b = find (\<lambda>p. p \<in> set (ancestors s b)) (ancestors s a)"

definition child_containing_con_recursively :: "wm \<Rightarrow> con_id \<Rightarrow> con_id \<Rightarrow> con_id option" where
  "child_containing_con_recursively s anc c = find (\<lambda>x. parent_of s x = Some anc) (ancestors s c)"

definition is_focused_descendant :: "wm \<Rightarrow> con_id \<Rightarrow> con_id \<Rightarrow> bool" where
  "is_focused_descendant s c anc \<longleftrightarrow>
     (\<forall>x \<in> set (takeWhile (\<lambda>x. x \<noteq> anc) (ancestors s c)).
        \<exists>p. parent_of s x = Some p \<and> tailq_first (foci s p) = Some x)"

definition comes_first :: "con_id \<Rightarrow> con_id \<Rightarrow> con_id list \<Rightarrow> bool" where
  "comes_first a b xs \<longleftrightarrow> find (\<lambda>x. x = a \<or> x = b) xs = Some a"

text \<open>The ancestor of the target is put before the one of the container in the focus stack of their
  parent.\<close>

definition promote_target :: "con_id \<Rightarrow> con_id \<Rightarrow> con_id list \<Rightarrow> con_id list" where
  "promote_target con_ancestor target_ancestor xs =
     (let place = tailq_prev con_ancestor xs; ys = remove1 target_ancestor xs
      in case place of None \<Rightarrow> target_ancestor # ys | Some q \<Rightarrow> tailq_insert_after q target_ancestor ys)"

text \<open>Where the moved container enters the focus stack of its new parent.\<close>

definition enter_focus :: "bool \<Rightarrow> bool \<Rightarrow> con_id \<Rightarrow> con_id \<Rightarrow> con_id list \<Rightarrow> con_id list" where
  "enter_focus at_lca focus_before target c xs =
     (if at_lca then (if focus_before then tailq_insert_before target c xs else tailq_insert_after target c xs)
      else if focus_before then c # xs else xs @ [c])"

text \<open>A container moved to a workspace with a layout of its own goes into a new split container, which is
  what is inserted then.\<close>

definition split_for_workspace :: "con_id \<Rightarrow> con_id \<Rightarrow> wm \<Rightarrow> con_id \<times> wm" where
  "split_for_workspace con p s =
     (if kind s p = CT_WORKSPACE then
        (case workspace_attach_to p s of (split, s) \<Rightarrow>
           if split \<noteq> p then
             let s = upd_con con (\<lambda>k. k\<lparr>parent := Some split\<rparr>) s;
                 s = con_attach con split False s;
                 s = upd_con con (\<lambda>k. k\<lparr>percent := 0\<rparr>) s;
                 s = con_fix_percent split s
             in (split, con_detach split s)
           else (con, s))
      else (con, s))"

definition insert_con_into :: "con_id \<Rightarrow> con_id \<Rightarrow> position_t \<Rightarrow> wm \<Rightarrow> wm" where
  "insert_con_into con target pos s0 =
     with_con (parent_of s0 target) (\<lambda>p. with_con (parent_of s0 con) (\<lambda>old_parent.
     with_con (lowest_common_ancestor s0 con p) (\<lambda>lca s.
       if lca = con then s
       else with_con (child_containing_con_recursively s lca con) (\<lambda>con_ancestor.
         with_con (child_containing_con_recursively s lca target) (\<lambda>target_ancestor s.
           let from_ancestor = is_focused_descendant s con con_ancestor;
               focus_before = (if con_ancestor = target_ancestor then from_ancestor
                               else comes_first con_ancestor target_ancestor (foci s lca));
               s = (if from_ancestor \<and> focus_before
                    then upd_con lca (\<lambda>k. k\<lparr>focus_head := promote_target con_ancestor target_ancestor (focus_head k)\<rparr>) s
                    else s);
               s = con_fix_percent old_parent (con_detach con s);
               (c, s) = split_for_workspace con p s;
               s = upd_con c (\<lambda>k. k\<lparr>parent := Some p\<rparr>) s;
               s = upd_con p (\<lambda>k. k\<lparr>focus_head := enter_focus (p = lca) focus_before target c (focus_head k)\<rparr>) s;
               s = upd_con p (\<lambda>k. k\<lparr>nodes_head := (if pos = BEFORE then tailq_insert_before target c (nodes_head k)
                                      else tailq_insert_after target c (nodes_head k))\<rparr>) s;
               s = upd_con c (\<lambda>k. k\<lparr>percent := 0\<rparr>) s;
               s = con_fix_percent p s
           in con_on_remove_child old_parent s)) s))) s0"

definition attach_to_workspace :: "con_id \<Rightarrow> con_id \<Rightarrow> direction_t \<Rightarrow> wm \<Rightarrow> wm" where
  "attach_to_workspace con ws d s =
     (let s = con_detach con s in
      with_con (parent_of s con) (\<lambda>old_parent s.
        let s = upd_con con (\<lambda>k. k\<lparr>parent := Some ws\<rparr>) s;
            s = upd_con ws (\<lambda>k. k\<lparr>nodes_head := (if d = D_RIGHT \<or> d = D_DOWN then con # nodes_head k
                                    else nodes_head k @ [con])\<rparr>) s;
            s = upd_con ws (\<lambda>k. k\<lparr>focus_head := focus_head k @ [con]\<rparr>) s;
            s = upd_con con (\<lambda>k. k\<lparr>percent := 0\<rparr>) s;
            s = con_fix_percent old_parent (con_fix_percent ws s)
        in con_on_remove_child old_parent s) s)"

text \<open>The end of a move.\<close>

definition finish_move :: "con_id \<Rightarrow> wm \<Rightarrow> wm" where
  "finish_move con s =
     (let s = ipc_send (Window_Event ''move'' con) (upd_con con (\<lambda>k. k\<lparr>deco_cached := False\<rparr>) s)
      in tree_flatten (croot s) s)"

definition move_to_output_directed :: "con_id \<Rightarrow> direction_t \<Rightarrow> wm \<Rightarrow> wm" where
  "move_to_output_directed con d s =
     with_con (get_output_for_con s con) (\<lambda>current_output s.
       case get_output_next s d current_output CLOSEST_OUTPUT of
         None \<Rightarrow> s
       | Some out \<Rightarrow>
           with_con (output_get_content s (o_con out)) (\<lambda>content s.
             with_con (grep_first (workspace_is_visible s) (nodes s content)) (\<lambda>visible s.
               case visible of
                 None \<Rightarrow> s
               | Some ws \<Rightarrow>
                   let old_ws = con_get_workspace s con;
                       moves_focus = (focused s = Some con);
                       s = attach_to_workspace con ws d s;
                       s = (if moves_focus
                            then con_focus con (workspace_show ws ((con_focus con s)\<lparr>focused := old_ws\<rparr>))
                            else s)
                   in finish_move con s) s) s) s"

subsection \<open>Floating\<close>

text \<open>Where the new floating container enters the focus stack of its workspace: the neighbour of the
  container's ancestor on the workspace, and on which side; \<^const>\<open>None\<close> is a NULL dereference.\<close>

definition floating_place :: "wm \<Rightarrow> con_id \<Rightarrow> (con_id option \<times> bool) option" where
  "floating_place s con =
     (let path = takeWhile (\<lambda>x. case parent_of s x of None \<Rightarrow> True | Some p \<Rightarrow> kind s p \<noteq> CT_WORKSPACE) (ancestors s con);
          rest = drop (length path) (ancestors s con);
          before = (\<forall>x \<in> set path. \<exists>p. parent_of s x = Some p \<and> tailq_first (foci s p) = Some x)
      in case rest of
          [] \<Rightarrow> None
        | ancestor # _ \<Rightarrow>
            map_option (\<lambda>ws. (if before then tailq_prev ancestor (foci s ws) else tailq_next ancestor (foci s ws), before))
              (parent_of s ancestor))"

definition place_focus :: "con_id option \<Rightarrow> bool \<Rightarrow> con_id \<Rightarrow> con_id list \<Rightarrow> con_id list" where
  "place_focus placeholder before nc xs =
     (case placeholder of
        Some q \<Rightarrow> if before then tailq_insert_after q nc xs else tailq_insert_before q nc xs
      | None \<Rightarrow> if before then nc # xs else xs @ [nc])"

text \<open>The size of the floating container before its borders: the geometry of the window, or the
  geometries of the children combined.\<close>

definition floating_geometry :: "wm \<Rightarrow> con_id \<Rightarrow> Rect" where
  "floating_geometry s con =
     (let r = geometry (store s con) in
      if r \<noteq> zero_rect then r
      else fold (\<lambda>child r. r\<lparr>rect_width := rect_width r + rect_width (geometry (store s child)),
                    rect_height := max (rect_height r) (rect_height (geometry (store s child)))\<rparr>)
             (nodes s con) r)"

definition center_initially :: "con_id \<Rightarrow> con_id \<Rightarrow> con_id \<Rightarrow> wm \<Rightarrow> wm" where
  "center_initially nc con ws s =
     (if rect_x (rect (store s nc)) = 0 \<and> rect_y (rect (store s nc)) = 0 then
        (let over = (case window (store s con) of
               None \<Rightarrow> None
             | Some w \<Rightarrow> if w_leader w \<noteq> 0 \<and> w_id w \<noteq> w_leader w then con_by_window_id s (w_leader w) else None)
         in floating_center nc (rect (store s (case over of None \<Rightarrow> ws | Some x \<Rightarrow> x))) s)
      else s)"

definition onto_output :: "con_id \<Rightarrow> con_id \<Rightarrow> wm \<Rightarrow> wm" where
  "onto_output nc ws s =
     with_con (con_get_output s ws) (\<lambda>correct s.
       let current = get_output_from_rect s (rect (store s nc)) in
       if (case current of None \<Rightarrow> False | Some out \<Rightarrow> o_con out = correct) then s
       else
         let s = (case current of
                    None \<Rightarrow> s
                  | Some out \<Rightarrow> floating_fix_coordinates nc (rect (store s (o_con out))) (rect (store s correct)) s);
             current = (if current = None then None else get_output_from_rect s (rect (store s nc)))
         in if (case current of None \<Rightarrow> False | Some out \<Rightarrow> o_con out = correct) then s
            else floating_center nc (rect (store s ws)) s) s"

definition float_in :: "Rect \<Rightarrow> con_id \<Rightarrow> con_id \<Rightarrow> con_id \<Rightarrow> bool \<Rightarrow> wm \<Rightarrow> wm" where
  "float_in root_screen nc con ws automatic s =
     (let s = upd_con nc (\<lambda>k. k\<lparr>rect := floating_geometry s con\<rparr>) s;
          s = upd_con nc (\<lambda>k. k\<lparr>nodes_head := nodes_head k @ [con], focus_head := focus_head k @ [con]\<rparr>) s;
          s = upd_con con (\<lambda>k. k\<lparr>parent := Some nc, percent := 1, floating := FLOATING_USER_ON\<rparr>) s;
          s = (if automatic then upd_con con (\<lambda>k. k\<lparr>border_style := cfg_default_floating_border (cfg s),
                 max_user_border_style := cfg_default_floating_border (cfg s)\<rparr>) s else s);
          bsr = con_border_style_rect s con;
          bw = c_word (border_width (store s con) * 2);
          s = upd_con nc (\<lambda>k. k\<lparr>rect := (rect k)\<lparr>rect_height := rect_height (rect k) - rect_height bsr + bw,
                rect_width := rect_width (rect k) - rect_width bsr + bw\<rparr>\<rparr>) s;
          s = floating_check_size root_screen nc False s;
          s = center_initially nc con ws s
      in render_con nc (onto_output nc ws s))"

definition floating_enable :: "Rect \<Rightarrow> con_id \<Rightarrow> bool \<Rightarrow> wm \<Rightarrow> bool \<times> wm" where
  "floating_enable root_screen con automatic s =
     (let set_focus = (Some con = focused s) in
      if con_is_docked s con \<or> con_is_floating s con \<or> kind s con = CT_WORKSPACE then (False, s)
      else case (if set_focus then Some (None, True) else floating_place s con) of
          None \<Rightarrow> (False, abort s)
        | Some (placeholder, before) \<Rightarrow>
            (case (parent_of s con, con_get_workspace s con) of
               (Some p, Some ws) \<Rightarrow>
                 (case con_new_detached None (con_fix_percent p (con_detach con s)) of (nc, s) \<Rightarrow>
                    let s = upd_con nc (\<lambda>k. k\<lparr>parent := Some ws, ctype := CT_FLOATING_CON, layout := L_SPLITH\<rparr>) s;
                        s = upd_con ws (\<lambda>k. k\<lparr>floating_head := nc # floating_head k,
                              focus_head := place_focus placeholder before nc (focus_head k)\<rparr>) s;
                        s = (if (kind s p = CT_CON \<or> kind s p = CT_FLOATING_CON) \<and> con_num_children s p = 0
                             then snd (tree_close_internal p DONT_KILL_WINDOW False
                                    (upd_con con (\<lambda>k. k\<lparr>parent := None\<rparr>) s))
                             else s);
                        s = float_in root_screen nc con ws automatic s;
                        s = (if set_focus then con_activate con s else s)
                    in (True, ipc_send (Window_Event ''floating'' con) s))
             | _ \<Rightarrow> (False, abort s)))"

definition floating_disable :: "con_id \<Rightarrow> wm \<Rightarrow> wm" where
  "floating_disable con s =
     (if \<not> con_is_floating s con then s
      else with_con (con_get_workspace s con) (\<lambda>ws s.
        if con_is_internal s ws then s
        else
          let tiling_focused = con_descend_tiling_focused s ws;
              s = (if kind s tiling_focused = CT_WORKSPACE then
                     with_con (parent_of s con) (\<lambda>p s.
                       let s = upd_con con (\<lambda>k. k\<lparr>parent := None\<rparr>) (con_detach con s);
                           s = snd (tree_close_internal p DONT_KILL_WINDOW True s);
                           s = con_attach con tiling_focused False s;
                           s = upd_con con (\<lambda>k. k\<lparr>percent := 0\<rparr>) s
                       in with_con (parent_of s con) con_fix_percent s) s
                   else insert_con_into con tiling_focused AFTER s);
              s = upd_con con (\<lambda>k. k\<lparr>floating := FLOATING_USER_OFF\<rparr>) s
          in ipc_send (Window_Event ''floating'' con) s) s)"

definition toggle_floating_mode :: "Rect \<Rightarrow> con_id \<Rightarrow> bool \<Rightarrow> wm \<Rightarrow> wm" where
  "toggle_floating_mode root_screen con automatic s =
     (if kind s con = CT_FLOATING_CON then s
      else if con_is_floating s con then floating_disable con s
      else snd (floating_enable root_screen con automatic s))"

subsection \<open>\<open>tree_move\<close>\<close>

text \<open>The loop that looks for the container with the orientation of the direction: it ends the function
  (\<open>Moved\<close> is a \<open>return\<close>, \<open>Move_End\<close> the jump to the label) or leaves with the container.\<close>

datatype move_step = Moved wm | Move_End wm | Move_Above con_id wm

definition branch_position :: "wm \<Rightarrow> con_id \<Rightarrow> direction_t \<Rightarrow> position_t option" where
  "branch_position s target d =
     Option.bind (parent_of s target) (\<lambda>p. map_option (\<lambda>ori.
       if ori \<noteq> orientation_from_direction d \<or> d = D_UP \<or> d = D_LEFT then AFTER else BEFORE) (con_orientation s p))"

text \<open>Moving into the branch \<open>b\<close> beside the container.\<close>

definition insert_into_branch :: "con_id \<Rightarrow> con_id \<Rightarrow> direction_t \<Rightarrow> wm \<Rightarrow> wm" where
  "insert_into_branch con b d s =
     with_con (con_descend_direction s b d) (\<lambda>target s.
       with_con (branch_position s target d) (insert_con_into con target) s) s"

definition neighbour :: "wm \<Rightarrow> con_id \<Rightarrow> con_id \<Rightarrow> direction_t \<Rightarrow> con_id option" where
  "neighbour s c p d = (if d = D_LEFT \<or> d = D_UP then tailq_prev c (nodes s p) else tailq_next c (nodes s p))"

definition swap_siblings :: "con_id \<Rightarrow> con_id \<Rightarrow> con_id \<Rightarrow> direction_t \<Rightarrow> wm \<Rightarrow> wm" where
  "swap_siblings con other p d s =
     (let s = upd_con p (\<lambda>k. k\<lparr>nodes_head := (if d = D_LEFT \<or> d = D_UP then tailq_swap other con (nodes_head k)
                             else tailq_swap con other (nodes_head k))\<rparr>) s
      in ipc_send (Window_Event ''move'' con) (con_force_split_parents_redraw con s))"

text \<open>One turn after the container is known: inside the parent itself, or one level higher.\<close>

definition move_within ::
  "(con_id option \<Rightarrow> wm \<Rightarrow> move_step) \<Rightarrow> con_id \<Rightarrow> direction_t \<Rightarrow> con_id \<Rightarrow> wm \<Rightarrow> move_step" where
  "move_within again con d same s =
     (case parent_of s con of
        None \<Rightarrow> Moved (abort s)
      | Some p \<Rightarrow>
          if same \<noteq> p then Move_Above same s
          else (case neighbour s con p d of
              Some other \<Rightarrow>
                if \<not> con_is_leaf s other then Move_End (insert_into_branch con other d s)
                else Moved (swap_siblings con other p d s)
            | None \<Rightarrow>
                if Some p = con_get_workspace s con then Moved (move_to_output_directed con d s)
                else (case con_parent_with_orientation s p (orientation_from_direction d) of
                    None \<Rightarrow> Moved (abort s)
                  | Some None \<Rightarrow> again None s
                  | Some (Some q) \<Rightarrow> Move_Above q s)))"

text \<open>\<open>run\<close> is \<open>run_assignments\<close> on the window. Forcing the orientation gives the workspace a matching
  layout, so the loop does not come back to it; the argument bounds the turns.\<close>

primrec move_search ::
  "nat \<Rightarrow> (i3Window option \<Rightarrow> wm \<Rightarrow> wm) \<Rightarrow> con_id \<Rightarrow> direction_t \<Rightarrow> con_id option \<Rightarrow> wm \<Rightarrow> move_step" where
  "move_search 0 run con d same s = Moved (abort s)"
| "move_search (Suc n) run con d same s =
     (case same of
        Some q \<Rightarrow> move_within (move_search n run con d) con d q s
      | None \<Rightarrow>
          if con_is_floating s con then Moved (let s = floating_disable con s in run (window (store s con)) s)
          else if con_inside_floating s con \<noteq> None then
            Move_End (with_con (con_get_workspace s con) (\<lambda>ws. attach_to_workspace con ws d) s)
          else
            let o' = orientation_from_direction d;
                s = with_con (con_get_workspace s con) (\<lambda>ws. ws_force_orientation ws o') s
            in case con_parent_with_orientation s con o' of
                None \<Rightarrow> Moved (abort s)
              | Some None \<Rightarrow> move_search n run con d None s
              | Some (Some q) \<Rightarrow> move_within (move_search n run con d) con d q s)"

text \<open>After the loop: \<open>upper\<close> is the ancestor of the container that is a child of the one found.\<close>

definition move_out :: "con_id \<Rightarrow> direction_t \<Rightarrow> con_id \<Rightarrow> wm \<Rightarrow> move_step" where
  "move_out con d same s =
     (case child_containing_con_recursively s same con of
        None \<Rightarrow> Moved (abort s)
      | Some upper \<Rightarrow>
          (case con_fullscreen_permits_focusing s same of
             None \<Rightarrow> Moved (abort s)
           | Some False \<Rightarrow> Moved s
           | Some True \<Rightarrow>
               let nxt = neighbour s upper same d;
                   edge = Option.bind (parent_of s con) (\<lambda>p. map_option (\<lambda>g.
                     kind s g = CT_WORKSPACE \<and> layout_of s p \<noteq> L_DEFAULT \<and> con_num_children s p = 1) (parent_of s p))
               in (case nxt of
                     Some b \<Rightarrow>
                       if \<not> con_is_leaf s b then Move_End (insert_into_branch con b d s)
                       else Move_End (insert_con_into con upper (if d = D_UP \<or> d = D_LEFT then BEFORE else AFTER) s)
                   | None \<Rightarrow>
                       (case edge of
                          None \<Rightarrow> Moved (abort s)
                        | Some True \<Rightarrow> Moved (move_to_output_directed con d s)
                        | Some False \<Rightarrow>
                            Move_End (insert_con_into con upper (if d = D_UP \<or> d = D_LEFT then BEFORE else AFTER) s)))))"

definition tree_move :: "(i3Window option \<Rightarrow> wm \<Rightarrow> wm) \<Rightarrow> con_id \<Rightarrow> direction_t \<Rightarrow> wm \<Rightarrow> wm" where
  "tree_move run con d s =
     (if kind s con = CT_WORKSPACE \<or> fullscreen_mode (store s con) = CF_GLOBAL then s
      else case parent_of s con of
          None \<Rightarrow> abort s
        | Some p \<Rightarrow>
            if fullscreen_mode (store s con) = CF_OUTPUT \<or> kind s p = CT_WORKSPACE \<and> con_num_children s p = 1
            then move_to_output_directed con d s
            else (case con_parent_with_orientation s con (orientation_from_direction d) of
                None \<Rightarrow> abort s
              | Some same \<Rightarrow>
                  (case (case move_search 4 run con d same s of
                           Move_Above q s \<Rightarrow> move_out con d q s | r \<Rightarrow> r) of
                     Moved s \<Rightarrow> s
                   | Move_End s \<Rightarrow> finish_move con s
                   | Move_Above q s \<Rightarrow> s)))"

end
