(* ===== verification/Workspace_Ops.thy ===== *)
theory Workspace_Ops
  imports Moving "HOL-Library.Signed_Division"
begin

text \<open>
  \<open>create_workspace_on_output\<close> and \<open>workspace_move_to_output\<close> of \<^verbatim>\<open>src/workspace.c\<close>,
  \<open>floating_maybe_reassign_ws\<close> and \<open>floating_reposition\<close> of \<^verbatim>\<open>src/floating.c\<close>, the scratchpad
  (\<^verbatim>\<open>src/scratchpad.c\<close>), and \<open>con_swap\<close>, \<open>con_merge_into\<close> and \<open>con_move_to_target\<close> of
  \<^verbatim>\<open>src/con.c\<close>.
\<close>

subsection \<open>A new workspace on an output\<close>

definition free_for :: "con_id option \<Rightarrow> xoutput \<Rightarrow> bool" where
  "free_for assigned out \<longleftrightarrow> (case assigned of None \<Rightarrow> True | Some a \<Rightarrow> a = o_con out)"

definition free_name :: "wm \<Rightarrow> xoutput \<Rightarrow> string \<Rightarrow> bool" where
  "free_name s out name \<longleftrightarrow> free_for (get_assigned_output s (Some name) (- 1)) out \<and>
     (let n = ws_name_to_number name in
      (if n = - 1 then get_existing_workspace_by_name s name else get_existing_workspace_by_num s n) = None)"

definition free_number :: "wm \<Rightarrow> xoutput \<Rightarrow> nat \<Rightarrow> bool" where
  "free_number s out c \<longleftrightarrow>
     get_existing_workspace_by_num s (int c) = None \<and> free_for (get_assigned_output s None (int c)) out"

text \<open>The loop over the numbers 1, 2, \<dots>; every workspace and every assignment takes at most one number,
  so it ends within as many turns and one more.\<close>

definition number_bound :: "wm \<Rightarrow> nat" where
  "number_bound s = length (concat (map (output_workspaces s) (nodes s (croot s)))) + length (ws_assignments s) + 1"

definition next_free_number :: "wm \<Rightarrow> xoutput \<Rightarrow> nat option" where
  "next_free_number s out = find (free_number s out) [1..<Suc (number_bound s)]"

definition create_workspace_on_output :: "xoutput \<Rightarrow> con_id \<Rightarrow> wm \<Rightarrow> con_id \<times> wm" where
  "create_workspace_on_output out content s =
     (case con_new_detached None s of (ws, s) \<Rightarrow>
        let s = upd_con ws (\<lambda>k. k\<lparr>ctype := CT_WORKSPACE\<rparr>) s;
            s = (case find (free_name s out) (binding_workspace_names s) of
                   Some name \<Rightarrow> upd_con ws (\<lambda>k. k\<lparr>cname := name, num := ws_name_to_number name\<rparr>) s
                 | None \<Rightarrow>
                     with_con (next_free_number s out) (\<lambda>c. upd_con ws (\<lambda>k. k\<lparr>cname := print_nat c, num := int c\<rparr>)) s);
            s = con_attach ws content False s;
            s = upd_con ws (\<lambda>k. k\<lparr>gaps := gaps_for_workspace s ws\<rparr>) s;
            s = upd_con ws (\<lambda>k. k\<lparr>fullscreen_mode := CF_OUTPUT, workspace_layout := cfg_default_layout (cfg s)\<rparr>) s;
            s = apply_default_orientation ws s
        in (ws, ipc_send (Workspace_Event ''init'' ws None) s))"

subsection \<open>Moving a workspace to another output\<close>

text \<open>The first assignment to the output whose workspace is not there yet.\<close>

definition pending_assignment :: "wm \<Rightarrow> xoutput \<Rightarrow> workspace_assignment \<Rightarrow> bool" where
  "pending_assignment s out a \<longleftrightarrow> output_triggers_assignment s out a \<and>
     (let n = ws_name_to_number (wa_name a) in
      (if n = - 1 then get_existing_workspace_by_name s (wa_name a) else get_existing_workspace_by_num s n) = None)"

definition replace_workspace :: "xoutput \<Rightarrow> con_id \<Rightarrow> wm \<Rightarrow> wm" where
  "replace_workspace out content s =
     (case find (pending_assignment s out) (ws_assignments s) of
        Some a \<Rightarrow> snd (workspace_get (wa_name a) s)
      | None \<Rightarrow> snd (create_workspace_on_output out content s))"

definition workspace_move_to_output :: "con_id \<Rightarrow> xoutput \<Rightarrow> wm \<Rightarrow> wm" where
  "workspace_move_to_output ws out s =
     with_con (get_output_for_con s ws) (\<lambda>current_output. with_con (output_get_content s (o_con out)) (\<lambda>content.
     with_con (parent_of s ws) (\<lambda>old_content s.
       if old_content = content then s
       else with_con (workspace_is_visible s ws) (\<lambda>visible s.
         let previous = tailq_first (foci s content);
             s = (if con_num_children s old_content = 1 then replace_workspace current_output old_content s else s);
             s = con_detach ws s;
             s = (if visible then with_con (tailq_first (foci s old_content)) workspace_show s else s);
             s = con_attach ws content False s;
             s = fold (\<lambda>f. floating_fix_coordinates f (rect (store s old_content)) (rect (store s content))) (floats s ws) s;
             s = ipc_send (Workspace_Event ''move'' ws None) s;
             s = (if visible then workspace_show ws s else s)
         in (case previous of
               None \<Rightarrow> s
             | Some w \<Rightarrow> if w \<in> set (nodes s content) then con_on_remove_child w s else s)) s))) s"

subsection \<open>Floating windows that cross outputs\<close>

definition floating_maybe_reassign_ws :: "con_id \<Rightarrow> wm \<Rightarrow> bool \<times> wm" where
  "floating_maybe_reassign_ws con s =
     (case con_get_workspace s con of
        None \<Rightarrow> (False, abort s)
      | Some cur_ws \<Rightarrow>
          if con_is_internal s cur_ws then (False, s)
          else case get_output_from_rect s (rect (store s con)) of
              None \<Rightarrow> (False, s)
            | Some out \<Rightarrow>
                if con_get_output s con = Some (o_con out) then (False, s)
                else case Option.bind (output_get_content s (o_con out)) (\<lambda>c. tailq_first (foci s c)) of
                    None \<Rightarrow> (False, abort s)
                  | Some ws \<Rightarrow>
                      let inner = con_descend_focused s con;
                          needs_focus = con_inside_focused s inner;
                          s = con_move_to_workspace con ws False False s
                      in (True, if needs_focus then con_activate inner (workspace_show ws s) else s))"

text \<open>A scratchpad window that the user has moved or resized is not centered any more.\<close>

definition scratchpad_changed :: "con_id \<Rightarrow> wm \<Rightarrow> wm" where
  "scratchpad_changed con s =
     (if scratchpad_state (store s con) = SCRATCHPAD_FRESH
      then upd_con con (\<lambda>k. k\<lparr>scratchpad_state := SCRATCHPAD_CHANGED\<rparr>) s else s)"

definition floating_reposition :: "con_id \<Rightarrow> Rect \<Rightarrow> wm \<Rightarrow> bool \<times> wm" where
  "floating_reposition con newrect s =
     (if output_containing_rect s newrect = None then (False, s)
      else (True, tree_render (scratchpad_changed con
              (snd (floating_maybe_reassign_ws con (upd_con con (\<lambda>k. k\<lparr>rect := newrect\<rparr>) s))))))"

text \<open>Moving to the pointer: the pointer's position is a parameter; the comparisons of the code are
  between 32-bit words.\<close>

definition clamp_to_output :: "u32 \<Rightarrow> u32 \<Rightarrow> u32 \<Rightarrow> u32 \<Rightarrow> u32" where
  "clamp_to_output pointer len out_pos out_size =
     (let v = (word_of_int (max (sint (pointer - len div 2)) (sint out_pos)) :: u32)
      in if v + len > out_pos + out_size then out_pos + out_size - len else v)"

definition floating_move_to_pointer :: "(u32 \<times> u32) option \<Rightarrow> con_id \<Rightarrow> wm \<Rightarrow> wm" where
  "floating_move_to_pointer pointer con s =
     (if kind s con \<noteq> CT_FLOATING_CON then abort s
      else case pointer of
          None \<Rightarrow> s
        | Some (px, py) \<Rightarrow>
            (case get_output_containing s px py of
               None \<Rightarrow> s
             | Some out \<Rightarrow>
                 let r = rect (store s con); q = o_rect out
                 in snd (floating_reposition con
                      (r\<lparr>rect_x := clamp_to_output px (rect_width r) (rect_x q) (rect_width q),
                         rect_y := clamp_to_output py (rect_height r) (rect_y q) (rect_height q)\<rparr>) s)))"

subsection \<open>The scratchpad\<close>

text \<open>\<open>scratchpad_move\<close> on a workspace calls itself on the entries of its focus stack, which are no
  workspaces.\<close>

definition scratchpad_move_window :: "Rect \<Rightarrow> con_id \<Rightarrow> wm \<Rightarrow> wm" where
  "scratchpad_move_window root_screen con s =
     (case workspace_get ''__i3_scratch'' s of (scratch, s) \<Rightarrow>
       with_con scratch (\<lambda>scratch s.
         if con_get_workspace s con = Some scratch then s
         else
           let s = con_disable_fullscreen con s;
               maybe_floating_con = con_inside_floating s con;
               s = (if maybe_floating_con = None then snd (floating_enable root_screen con False s) else s)
           in with_con (case maybe_floating_con of None \<Rightarrow> parent_of s con | Some f \<Rightarrow> Some f) (\<lambda>f s.
                let s = con_move_to_workspace f scratch True False s
                in if scratchpad_state (store s f) = SCRATCHPAD_NONE
                   then upd_con f (\<lambda>k. k\<lparr>scratchpad_state :=
                          (if maybe_floating_con = Some f then SCRATCHPAD_CHANGED else SCRATCHPAD_FRESH)\<rparr>) s
                   else s) s) s)"

definition scratchpad_move :: "Rect \<Rightarrow> con_id \<Rightarrow> wm \<Rightarrow> wm" where
  "scratchpad_move root_screen con s =
     (if kind s con = CT_WORKSPACE
      then walk_saved (Suc (length (foci s con)) ^ 2) (\<lambda>s. foci s con) (scratchpad_move_window root_screen)
             (tailq_first (foci s con)) s
      else scratchpad_move_window root_screen con s)"

text \<open>\<open>scratchpad_show\<close>, the parts that only apply without criteria: a scratchpad window on the current
  workspace is focused, one on another workspace is brought here.\<close>

definition in_scratchpad_use :: "wm \<Rightarrow> con_id option \<Rightarrow> bool" where
  "in_scratchpad_use s fl \<longleftrightarrow> (case fl of None \<Rightarrow> False | Some f \<Rightarrow> scratchpad_state (store s f) \<noteq> SCRATCHPAD_NONE)"

definition unfocused_scratchpad :: "wm \<Rightarrow> con_id \<Rightarrow> con_id option" where
  "unfocused_scratchpad s ws =
     find (\<lambda>w. in_scratchpad_use s (con_inside_floating s w) \<and>
        con_inside_floating s w \<noteq> Option.bind (focused s) (con_inside_floating s)) (floats s ws)"

definition scratchpad_elsewhere :: "wm \<Rightarrow> con_id option \<Rightarrow> con_id option" where
  "scratchpad_elsewhere s focused_ws =
     find (\<lambda>w. case con_get_workspace s w of
        None \<Rightarrow> False
      | Some walk_ws \<Rightarrow> \<not> con_is_internal s walk_ws \<and> focused_ws \<noteq> Some walk_ws \<and>
          in_scratchpad_use s (con_inside_floating s w)) (all_cons s)"

text \<open>The end: the window comes to the active workspace, a fresh one is sized and centered.\<close>

definition scratchpad_bring :: "Rect \<Rightarrow> con_id \<Rightarrow> con_id option \<Rightarrow> con_id \<Rightarrow> wm \<Rightarrow> wm" where
  "scratchpad_bring root_screen con current active s =
     (let s = con_move_to_workspace con active True False s;
          s = (if scratchpad_state (store s con) = SCRATCHPAD_FRESH then
                 with_con (con_get_output s con) (\<lambda>out s.
                   let r = rect (store s out);
                       s = upd_con con (\<lambda>k. k\<lparr>rect := (rect k)\<lparr>
                             rect_width := c_word (c_trunc (real (unat (rect_width r)) * 0.5)),
                             rect_height := c_word (c_trunc (real (unat (rect_height r)) * 0.75))\<rparr>\<rparr>) s;
                       s = floating_check_size root_screen con False s
                   in with_con (con_get_workspace s con) (\<lambda>ws s. floating_center con (rect (store s ws)) s) s) s
               else s);
          s = (if current \<noteq> Some active then workspace_show active s else s)
      in con_activate (con_descend_focused s con) s)"

definition scratchpad_show :: "Rect \<Rightarrow> con_id option \<Rightarrow> wm \<Rightarrow> bool \<times> wm" where
  "scratchpad_show root_screen con s =
     (case workspace_get ''__i3_scratch'' s of (scratch, s) \<Rightarrow>
      case focused s of
        None \<Rightarrow> (False, abort s)
      | Some f \<Rightarrow>
          if con = None \<and> in_scratchpad_use s (con_inside_floating s f) then (True, scratchpad_move root_screen f s)
          else
            let s = (case find (\<lambda>x. fullscreen_mode (store s x) \<noteq> CF_NONE) (ancestors s f) of
                       Some fs \<Rightarrow> if kind s fs \<noteq> CT_WORKSPACE then con_toggle_fullscreen fs CF_OUTPUT s else s
                     | None \<Rightarrow> s)
            in case con_get_workspace s f of
                None \<Rightarrow> (False, abort s)
              | Some active \<Rightarrow>
                  (case (if con = None then unfocused_scratchpad s active else None) of
                     Some w \<Rightarrow> (True, con_activate (con_descend_tiling_focused s w) s)
                   | None \<Rightarrow>
                       (case (if con = None then scratchpad_elsewhere s (Some active) else None) of
                          Some w \<Rightarrow>
                            let s = with_con (con_inside_floating s w) (\<lambda>fl. con_move_to_workspace fl active True False) s
                            in (True, con_activate (con_descend_focused s w) s)
                        | None \<Rightarrow>
                            (case con of
                               None \<Rightarrow>
                                 (case Option.bind scratch (\<lambda>ws. tailq_first (floats s ws)) of
                                    None \<Rightarrow> (False, s)
                                  | Some w \<Rightarrow> (True, scratchpad_bring root_screen w None active s))
                             | Some c \<Rightarrow>
                                 (case parent_of s c of
                                    None \<Rightarrow> (False, abort s)
                                  | Some p \<Rightarrow>
                                      if scratchpad_state (store s p) = SCRATCHPAD_NONE then (False, s)
                                      else
                                        let current = con_get_workspace s c in
                                        if in_scratchpad_use s (con_inside_floating s c) \<and> current \<noteq> scratch \<and>
                                           current = Some active
                                        then (True, scratchpad_move root_screen c s)
                                        else (case con_inside_floating s c of
                                            None \<Rightarrow> (False, abort s)
                                          | Some fl \<Rightarrow> (True, scratchpad_bring root_screen fl current active s)))))))"

text \<open>The least common multiple of the resolutions, in the \<open>int\<close> arithmetic of the code: overflow is
  undefined there and not modelled. \<open>%\<close> and \<open>/\<close> round towards zero.\<close>

function c_gcd :: "int \<Rightarrow> int \<Rightarrow> int" where
  "c_gcd m n = (if n = 0 then m else c_gcd n (m smod n))"
  by pat_completeness auto
termination
proof (relation "measure (\<lambda>(m, n). nat \<bar>n\<bar>)")
  fix m n :: int
  assume "n \<noteq> 0"
  then have "\<bar>m smod n\<bar> < \<bar>n\<bar>" by (simp add: signed_modulo_int_def abs_mult)
  then show "((n, m smod n), (m, n)) \<in> measure (\<lambda>(m, n). nat \<bar>n\<bar>)" by simp
qed simp

declare c_gcd.simps [simp del]

definition c_lcm :: "int \<Rightarrow> int \<Rightarrow> int" where
  "c_lcm m n = (m * n) sdiv c_gcd m n"

definition resolution_step :: "wm \<Rightarrow> con_id \<Rightarrow> int \<times> int \<Rightarrow> int \<times> int" where
  "resolution_step s out wh =
     (let w = sint (rect_width (rect (store s out))); h = sint (rect_height (rect (store s out)))
      in if fst wh = - 1 then (w, h) else (c_lcm (fst wh) w, c_lcm (snd wh) h))"

definition scratchpad_fix_resolution :: "wm \<Rightarrow> wm" where
  "scratchpad_fix_resolution s =
     (case workspace_get ''__i3_scratch'' s of (scratch, s) \<Rightarrow>
       with_con scratch (\<lambda>scratch. with_con (con_get_output s scratch) (\<lambda>i3_output s.
         let (w, h) = fold (resolution_step s) (filter (\<lambda>out. out \<noteq> i3_output) (nodes s (croot s))) (- 1, - 1);
             old_rect = rect (store s i3_output);
             new_rect = old_rect\<lparr>rect_width := c_word w, rect_height := c_word h\<rparr>;
             s = upd_con i3_output (\<lambda>k. k\<lparr>rect := new_rect\<rparr>) s
         in if new_rect = old_rect then s
            else fold (\<lambda>c. floating_fix_coordinates c old_rect new_rect) (floats s scratch) s)) s)"

subsection \<open>A free number exists\<close>

lemma grep_workspace_in:
  assumes "grep_workspace s P = Some w"
  shows "w \<in> set (concat (map (output_workspaces s) (nodes s (croot s)))) \<and> P w"
proof -
  have "fold (\<lambda>out ws. case find P (output_workspaces s out) of None \<Rightarrow> ws | Some w \<Rightarrow> Some w) outs acc = Some w \<Longrightarrow>
      acc = Some w \<or> w \<in> set (concat (map (output_workspaces s) outs)) \<and> P w" for outs acc
    by (induction outs arbitrary: acc) (fastforce split: option.splits dest: find_in)+
  then show ?thesis using assms unfolding grep_workspace_def by blast
qed

lemma assigned_by_number:
  assumes "get_assigned_output s None n = Some out"
  shows "\<exists>a \<in> set (ws_assignments s). ws_name_to_number (wa_name a) = n"
proof -
  have "assigned_output s None n as found = Some out \<Longrightarrow> found = Some out \<or>
      (\<exists>a \<in> set as. ws_name_to_number (wa_name a) = n)" for as found
    by (induction as arbitrary: found) (auto split: option.splits if_splits)
  then show ?thesis using assms unfolding get_assigned_output_def by blast
qed

lemma next_free_number_found: "\<exists>c. next_free_number s out = Some c \<and> free_number s out c"
proof -
  let ?W = "concat (map (output_workspaces s) (nodes s (croot s)))"
  let ?U = "(\<lambda>w. num (store s w)) ` set ?W \<union> (\<lambda>a. ws_name_to_number (wa_name a)) ` set (ws_assignments s)"
  have "card ?U \<le> card (set ?W) + card (set (ws_assignments s))"
    by (rule order_trans [OF card_Un_le]) (intro add_mono card_image_le finite_set)
  also have "\<dots> \<le> length ?W + length (ws_assignments s)" by (intro add_mono card_length)
  finally have card: "card ?U < number_bound s" by (simp add: number_bound_def)
  let ?C = "int ` set [1..<Suc (number_bound s)]"
  have "card ?C = card (set [1..<Suc (number_bound s)])" by (rule card_image) (simp add: inj_on_def)
  also have "\<dots> = number_bound s" using distinct_card [OF distinct_upt [of 1 "Suc (number_bound s)"]] by (simp del: upt_Suc)
  finally have "card ?C = number_bound s" .
  then have "\<not> ?C \<subseteq> ?U" using card card_mono [of ?U ?C] by auto
  then obtain c where c: "c \<in> set [1..<Suc (number_bound s)]" "int c \<notin> ?U" by blast
  have "get_existing_workspace_by_num s (int c) = None"
  proof (cases "get_existing_workspace_by_num s (int c)")
    case (Some w)
    then have "w \<in> set ?W" and n: "num (store s w) = int c"
      using grep_workspace_in [of s "\<lambda>w. num (store s w) = int c"]
      by (auto simp: get_existing_workspace_by_num_def)
    then have "num (store s w) \<in> ?U" by blast
    then show ?thesis using c(2) n by simp
  qed
  moreover have "get_assigned_output s None (int c) = None"
  proof (cases "get_assigned_output s None (int c)")
    case (Some w)
    then obtain a where "a \<in> set (ws_assignments s)" and n: "ws_name_to_number (wa_name a) = int c"
      using assigned_by_number [of s "int c"] by blast
    then have "ws_name_to_number (wa_name a) \<in> ?U" by blast
    then show ?thesis using c(2) n by simp
  qed
  ultimately have "free_number s out c" by (simp add: free_number_def free_for_def)
  then have "next_free_number s out \<noteq> None" using c(1) unfolding next_free_number_def find_None_iff by blast
  then show ?thesis unfolding next_free_number_def using find_in by fastforce
qed

subsection \<open>The resolution of the scratchpad\<close>

lemma c_gcd_gcd: "m \<ge> 0 \<Longrightarrow> n \<ge> 0 \<Longrightarrow> c_gcd m n = gcd m n"
proof (induction m n rule: c_gcd.induct)
  case (1 m n)
  show ?case
  proof (cases "n = 0")
    case False
    have "m smod n = m mod n" using 1(2,3) False by (simp add: signed_modulo_int_def sgn_if)
    then have "c_gcd m n = c_gcd n (m mod n)" using False by (subst c_gcd.simps) simp
    also have "\<dots> = gcd n (m mod n)" using 1(1) [OF False] \<open>m smod n = m mod n\<close> 1(3) False by simp
    finally show ?thesis using gcd_red_int [of m n] by simp
  qed (use 1(2) in \<open>simp add: c_gcd.simps\<close>)
qed

lemma c_lcm_lcm: "m > 0 \<Longrightarrow> n > 0 \<Longrightarrow> c_lcm m n = lcm m n"
  by (simp add: c_lcm_def c_gcd_gcd signed_divide_int_def sgn_if lcm_altdef_int abs_mult)

definition resolution_of :: "wm \<Rightarrow> con_id \<Rightarrow> int \<times> int" where
  "resolution_of s out = (sint (rect_width (rect (store s out))), sint (rect_height (rect (store s out))))"

lemma resolution_fold:
  assumes "\<forall>out \<in> set outs. fst (resolution_of s out) > 0 \<and> snd (resolution_of s out) > 0"
    and "fst wh > 0" and "snd wh > 0"
  shows "fold (resolution_step s) outs wh =
    (Lcm (insert (fst wh) (fst ` resolution_of s ` set outs)), Lcm (insert (snd wh) (snd ` resolution_of s ` set outs)))"
  using assms
proof (induction outs arbitrary: wh)
  case (Cons out outs)
  have st: "resolution_step s out wh = (lcm (fst wh) (fst (resolution_of s out)), lcm (snd wh) (snd (resolution_of s out)))"
    using Cons.prems by (simp add: resolution_step_def resolution_of_def Let_def c_lcm_lcm)
  have pos: "fst (resolution_step s out wh) > 0" "snd (resolution_step s out wh) > 0"
    using Cons.prems by (simp_all add: st lcm_pos_int)
  show ?case using Cons.IH [OF _ pos] Cons.prems(1) by (simp add: st lcm.assoc insert_commute)
qed (simp add: prod_eq_iff)

lemma resolution_fold_start:
  assumes "\<forall>out \<in> set outs. fst (resolution_of s out) > 0 \<and> snd (resolution_of s out) > 0" and "outs \<noteq> []"
  shows "fold (resolution_step s) outs (- 1, - 1) =
    (Lcm (fst ` resolution_of s ` set outs), Lcm (snd ` resolution_of s ` set outs))"
proof -
  obtain out rest where outs: "outs = out # rest" using assms(2) by (cases outs) auto
  have "resolution_step s out (- 1, - 1) = resolution_of s out"
    by (simp add: resolution_step_def resolution_of_def Let_def)
  then show ?thesis using resolution_fold [of rest s "resolution_of s out"] assms(1) outs by simp
qed

end
