(* ===== verification/Con_Swap.thy ===== *)
theory Con_Swap
  imports Workspace_Ops
begin

text \<open>
  \<open>con_swap\<close>, \<open>con_merge_into\<close>, \<open>con_move_to_target\<close> and \<open>con_move_to_mark\<close> of \<^verbatim>\<open>src/con.c\<close>.
\<close>

subsection \<open>Swapping\<close>

text \<open>\<open>SWAP_CONS_IN_TREE\<close> for one kind of list: \<open>queue\<close> reads it and \<open>put\<close> writes it. When the two are
  neighbours in one list \<open>TAILQ_SWAP\<close> does it; otherwise both are removed and inserted after the
  other's old predecessor.\<close>

definition insert_after_or_head :: "con_id option \<Rightarrow> con_id \<Rightarrow> con_id list \<Rightarrow> con_id list" where
  "insert_after_or_head prv c xs = (case prv of None \<Rightarrow> c # xs | Some q \<Rightarrow> tailq_insert_after q c xs)"

definition swap_in_lists ::
  "(wm \<Rightarrow> con_id \<Rightarrow> con_id list) \<Rightarrow> (con_id \<Rightarrow> (con_id list \<Rightarrow> con_id list) \<Rightarrow> wm \<Rightarrow> wm) \<Rightarrow>
     con_id \<Rightarrow> con_id \<Rightarrow> con_id \<Rightarrow> con_id \<Rightarrow> wm \<Rightarrow> wm" where
  "swap_in_lists queue put first second p1 p2 s =
     (let first_prev = tailq_prev first (queue s p1);
          second_prev = tailq_prev second (queue s p2)
      in if second_prev = Some first then put p1 (tailq_swap first second) s
         else if first_prev = Some second then put p1 (tailq_swap second first) s
         else
           let s = put p1 (remove1 first) s;
               s = put p2 (remove1 second) s;
               s = put p2 (insert_after_or_head second_prev first) s
           in put p1 (insert_after_or_head first_prev second) s)"

definition put_nodes :: "con_id \<Rightarrow> (con_id list \<Rightarrow> con_id list) \<Rightarrow> wm \<Rightarrow> wm" where
  "put_nodes p f = upd_con p (\<lambda>k. k\<lparr>nodes_head := f (nodes_head k)\<rparr>)"

definition put_foci :: "con_id \<Rightarrow> (con_id list \<Rightarrow> con_id list) \<Rightarrow> wm \<Rightarrow> wm" where
  "put_foci p f = upd_con p (\<lambda>k. k\<lparr>focus_head := f (focus_head k)\<rparr>)"

definition swap_fields :: "con_id \<Rightarrow> con_id \<Rightarrow> wm \<Rightarrow> wm" where
  "swap_fields a b s =
     (let ka = store s a; kb = store s b in
      upd_con b (\<lambda>k. k\<lparr>parent := parent ka, floating := floating ka, rect := rect ka,
          window_rect := window_rect ka, percent := percent ka\<rparr>)
        (upd_con a (\<lambda>k. k\<lparr>parent := parent kb, floating := floating kb, rect := rect kb,
          window_rect := window_rect kb, percent := percent kb\<rparr>) s))"

text \<open>The containers trade places: lists, parents and the fields that belong to the place.\<close>

definition swap_places :: "con_id \<Rightarrow> con_id \<Rightarrow> con_id \<Rightarrow> con_id \<Rightarrow> wm \<Rightarrow> wm" where
  "swap_places first second p1 p2 s =
     swap_fields first second
       (swap_in_lists (\<lambda>s. foci s) put_foci first second p1 p2
         (swap_in_lists (\<lambda>s. nodes s) put_nodes first second p1 p2 s))"

definition swap_restore :: "wm \<Rightarrow> con_id \<Rightarrow> con_id \<Rightarrow> con_id option" where
  "swap_restore s first second =
     (case focused s of
        None \<Rightarrow> None
      | Some f \<Rightarrow>
          if con_get_workspace s first = con_get_workspace s second \<and>
             con_get_workspace s first = con_get_workspace s f then Some f
          else if first = f \<or> con_has_parent s f first then Some second
          else if second = f \<or> con_has_parent s f second then Some first
          else None)"

definition exchange_fullscreen :: "con_id \<Rightarrow> fullscreen_mode_t \<Rightarrow> wm \<Rightarrow> wm" where
  "exchange_fullscreen c m s =
     (if m = CF_NONE then con_disable_fullscreen c s else con_enable_fullscreen c m s)"

definition con_swap :: "con_id \<Rightarrow> con_id \<Rightarrow> wm \<Rightarrow> bool \<times> wm" where
  "con_swap first second s =
     (if kind s first \<noteq> CT_CON \<or> kind s second \<noteq> CT_CON \<or> first = second \<or>
         con_has_parent s first second \<or> con_has_parent s second first
      then (False, s)
      else case (parent_of s first, parent_of s second) of
          (Some p1, Some p2) \<Rightarrow>
            let restore_focus = swap_restore s first second;
                s = swap_places first second p1 p2 s;
                s = (case restore_focus of None \<Rightarrow> s | Some f \<Rightarrow> con_focus f s);
                s = con_set_urgency first (urgent (store s first)) s;
                s = con_set_urgency second (urgent (store s second)) s;
                second_fullscreen_mode = fullscreen_mode (store s second);
                s = exchange_fullscreen second (fullscreen_mode (store s first)) s;
                s = exchange_fullscreen first second_fullscreen_mode s;
                s = with_con (parent_of s first) con_fix_percent s;
                s = with_con (parent_of s second) con_fix_percent s;
                s = upd_con first (\<lambda>k. k\<lparr>deco_cached := False\<rparr>) s;
                s = upd_con second (\<lambda>k. k\<lparr>deco_cached := False\<rparr>) s
            in (True, con_force_split_parents_redraw second (con_force_split_parents_redraw first s))
        | _ \<Rightarrow> (False, abort s))"

subsection \<open>Merging\<close>

text \<open>\<open>con_merge_into\<close>: the loop over the marks inserts each at the end of the other queue, which clears its
  link to the next one, so only the first mark moves; \<open>TAILQ_INIT\<close> drops the others.\<close>

definition con_merge_into :: "con_id \<Rightarrow> con_id \<Rightarrow> wm \<Rightarrow> wm" where
  "con_merge_into old new s =
     (let s = upd_con new (\<lambda>k. k\<lparr>window := window (store s old)\<rparr>) s;
          s = upd_con old (\<lambda>k. k\<lparr>window := None\<rparr>) s;
          s = (if title_format (store s old) \<noteq> None
               then upd_con old (\<lambda>k. k\<lparr>title_format := None\<rparr>)
                      (upd_con new (\<lambda>k. k\<lparr>title_format := title_format (store s old)\<rparr>) s) else s);
          s = (if sticky_group (store s old) \<noteq> None
               then upd_con old (\<lambda>k. k\<lparr>sticky_group := None\<rparr>)
                      (upd_con new (\<lambda>k. k\<lparr>sticky_group := sticky_group (store s old)\<rparr>) s) else s);
          s = upd_con new (\<lambda>k. k\<lparr>sticky := sticky (store s old)\<rparr>) s;
          s = con_set_urgency new (urgent (store s old)) s;
          s = (case marks_head (store s old) of
                 [] \<Rightarrow> s
               | m # _ \<Rightarrow> ipc_send (Window_Event ''mark'' new)
                   (upd_con new (\<lambda>k. k\<lparr>marks_head := marks_head k @ [m]\<rparr>) s));
          s = upd_con new (\<lambda>k. k\<lparr>mark_changed := (marks_head (store s old) \<noteq> [])\<rparr>) s;
          s = upd_con old (\<lambda>k. k\<lparr>marks_head := []\<rparr>) s
      in snd (tree_close_internal old DONT_KILL_WINDOW False s))"

subsection \<open>Moving to a target\<close>

definition con_move_to_target :: "Rect \<Rightarrow> con_id \<Rightarrow> con_id \<Rightarrow> wm \<Rightarrow> bool \<times> wm" where
  "con_move_to_target root_screen con target s =
     (case workspace_get ''__i3_scratch'' s of (scratch, s) \<Rightarrow>
      if con_get_workspace s target = scratch then (True, scratchpad_move root_screen con s)
      else if con_is_floating s target \<or> kind s target = CT_WORKSPACE \<and> con_is_leaf s target then
        (True, with_con (if con_is_floating s target then con_get_workspace s target else Some target)
                 (\<lambda>ws. con_move_to_workspace con ws True False) s)
      else case (if con_is_split s target then tailq_first (foci s target) else Some target) of
          None \<Rightarrow> (False, abort s)
        | Some t \<Rightarrow>
            if con = t \<or> con_has_parent s t con then (False, s)
            else con_move_to_con con t False True False True s)"

definition con_move_to_mark :: "Rect \<Rightarrow> con_id \<Rightarrow> string \<Rightarrow> wm \<Rightarrow> bool \<times> wm" where
  "con_move_to_mark root_screen con mark s =
     (case con_by_mark s mark of None \<Rightarrow> (False, s) | Some target \<Rightarrow> con_move_to_target root_screen con target s)"

subsection \<open>What swapping does\<close>

definition exchange :: "'a \<Rightarrow> 'a \<Rightarrow> 'a \<Rightarrow> 'a" where
  "exchange a b x = (if x = a then b else if x = b then a else x)"

lemma exchange_simps [simp]:
  "exchange a b a = b" "exchange a b b = a" "x \<noteq> a \<Longrightarrow> x \<noteq> b \<Longrightarrow> exchange a b x = x"
  "exchange a b (exchange a b x) = x"
  by (simp_all add: exchange_def)

lemma exchange_inj: "exchange a b x = exchange a b y \<longleftrightarrow> x = y"
  by (auto simp: exchange_def)

lemma exchange_map_id: "a \<notin> set xs \<Longrightarrow> b \<notin> set xs \<Longrightarrow> map (exchange a b) xs = xs"
  by (induction xs) (auto simp: exchange_def)

lemma exchange_commute: "exchange b a = exchange a b"
  by (auto simp: exchange_def fun_eq_iff)

lemma tailq_prev_append: "x \<notin> set us \<Longrightarrow> tailq_prev x (us @ x # vs) = tailq_last us"
proof (induction us)
  case Nil
  then show ?case by (cases vs) (simp_all add: tailq_last_def)
next
  case (Cons u us)
  then show ?case by (cases us) (auto simp: tailq_last_def)
qed

lemma insert_after_or_head_append:
  assumes "distinct us"
  shows "insert_after_or_head (tailq_last us) e (us @ vs) = us @ e # vs"
proof (cases us rule: rev_cases)
  case (snoc ys y)
  have "y \<notin> set zs \<Longrightarrow> tailq_insert_after y e (zs @ y # vs) = zs @ y # e # vs" for zs
    by (induction zs) auto
  then show ?thesis using assms snoc by (simp add: insert_after_or_head_def tailq_last_def)
qed (simp add: insert_after_or_head_def tailq_last_def)

text \<open>Replacing one entry of a list by another.\<close>

lemma replace_in_list:
  assumes "distinct ys" and "b \<in> set ys" and "a \<notin> set ys"
  shows "insert_after_or_head (tailq_prev b ys) a (remove1 b ys) = map (exchange a b) ys"
proof -
  obtain us vs where ys: "ys = us @ b # vs" using assms(2) by (meson split_list)
  have "b \<notin> set us" "b \<notin> set vs" "a \<notin> set us" "a \<notin> set vs" "distinct us" using assms ys by auto
  then show ?thesis by (simp add: ys tailq_prev_append remove1_append insert_after_or_head_append exchange_map_id)
qed

lemma swap_adjacent:
  assumes "distinct xs" and "tailq_prev b xs = Some a" and "b \<in> set xs"
  shows "tailq_swap a b xs = map (exchange a b) xs"
proof -
  obtain us vs where xs: "xs = us @ b # vs" using assms(3) by (meson split_list)
  have "b \<notin> set us" using assms(1) xs by simp
  then have "tailq_last us = Some a" using assms(2) by (simp add: xs tailq_prev_append)
  then obtain ys where us: "us = ys @ [a]" by (cases us rule: rev_cases) (auto simp: tailq_last_def)
  have d: "a \<notin> set ys" "b \<notin> set ys" "a \<noteq> b" "a \<notin> set vs" "b \<notin> set vs" using assms(1) xs us by auto
  have "tailq_insert_after b a (zs @ b # vs) = zs @ b # a # vs" if "b \<notin> set zs" for zs
    using that by (induction zs) auto
  then show ?thesis using d by (simp add: tailq_swap_def xs us remove1_append exchange_map_id)
qed

lemma swap_apart:
  assumes d: "distinct xs" and ab: "a \<in> set xs" "b \<in> set xs" "a \<noteq> b"
    and na: "tailq_prev b xs \<noteq> Some a" "tailq_prev a xs \<noteq> Some b"
  shows "insert_after_or_head (tailq_prev a xs) b
    (insert_after_or_head (tailq_prev b xs) a (remove1 b (remove1 a xs))) = map (exchange a b) xs"
proof -
  obtain us zs where xs: "xs = us @ a # zs" using ab(1) by (meson split_list)
  show ?thesis
  proof (cases "b \<in> set zs")
    case True
    then obtain ws vs where zs: "zs = ws @ b # vs" by (meson split_list)
    have D: "a \<notin> set us" "b \<notin> set us" "a \<notin> set ws" "b \<notin> set ws" "a \<notin> set vs" "b \<notin> set vs" "distinct (us @ ws)"
      "distinct us" using d xs zs by auto
    have pb: "tailq_prev b xs = tailq_last (us @ a # ws)"
      using tailq_prev_append [of b "us @ a # ws" vs] D ab(3) by (simp add: xs zs)
    have "ws \<noteq> []" using na(1) by (auto simp: pb tailq_last_def)
    then have pb': "tailq_prev b xs = tailq_last (us @ ws)" by (simp add: pb tailq_last_def)
    have pa: "tailq_prev a xs = tailq_last us" using tailq_prev_append [of a us zs] D by (simp add: xs)
    show ?thesis unfolding pa pb'
      using D ab(3) insert_after_or_head_append [OF D(7), of a vs] insert_after_or_head_append [OF D(8), of b "ws @ a # vs"]
      by (simp add: xs zs remove1_append exchange_map_id)
  next
    case False
    then have "b \<in> set us" using ab xs by auto
    then obtain vs ws where us: "us = vs @ b # ws" by (meson split_list)
    have D: "a \<notin> set vs" "b \<notin> set vs" "a \<notin> set ws" "b \<notin> set ws" "a \<notin> set zs" "b \<notin> set zs" "distinct vs"
      "distinct (vs @ a # ws)" using d xs us by auto
    have pb: "tailq_prev b xs = tailq_last vs" using tailq_prev_append [of b vs "ws @ a # zs"] D by (simp add: xs us)
    have pa: "tailq_prev a xs = tailq_last (vs @ b # ws)" using tailq_prev_append [of a us zs] D ab(3) by (simp add: xs us)
    have "ws \<noteq> []" using na(2) by (auto simp: pa tailq_last_def)
    then have pa': "tailq_prev a xs = tailq_last (vs @ a # ws)" by (simp add: pa tailq_last_def)
    show ?thesis unfolding pa' pb
      using D ab(3) insert_after_or_head_append [OF D(7), of a "ws @ zs"] insert_after_or_head_append [OF D(8), of b zs]
      by (simp add: xs us remove1_append exchange_map_id)
  qed
qed

text \<open>All four branches at once, for the two lists of the two parents.\<close>

lemma swap_in_lists_exact:
  fixes queue :: "wm \<Rightarrow> con_id \<Rightarrow> con_id list"
  assumes put: "\<And>p f s d. queue (put p f s) d = (if d = p then f (queue s p) else queue s d)"
    and d: "distinct (queue s p1)" "distinct (queue s p2)"
    and mem: "a \<in> set (queue s p1)" "b \<in> set (queue s p2)" "a \<noteq> b"
    and apart: "p1 \<noteq> p2 \<Longrightarrow> a \<notin> set (queue s p2) \<and> b \<notin> set (queue s p1)"
    and others: "q \<noteq> p1 \<Longrightarrow> q \<noteq> p2 \<Longrightarrow> a \<notin> set (queue s q) \<and> b \<notin> set (queue s q)"
  shows "queue (swap_in_lists queue put a b p1 p2 s) q = map (exchange a b) (queue s q)"
proof (cases "p1 = p2")
  case True
  show ?thesis
  proof (cases "q = p1")
    case q: True
    show ?thesis
      using swap_adjacent [OF d(1), of b a] swap_adjacent [OF d(1), of a b] mem True q
        swap_apart [OF d(1) mem(1) _ mem(3)]
      by (auto simp: swap_in_lists_def Let_def put exchange_commute)
  next
    case False
    then have "a \<notin> set (queue s q)" "b \<notin> set (queue s q)" using others True by auto
    then show ?thesis using False True by (simp add: swap_in_lists_def Let_def put exchange_map_id)
  qed
next
  case False
  then have ap: "a \<notin> set (queue s p2)" "b \<notin> set (queue s p1)" using apart by auto
  have na: "tailq_prev b (queue s p2) \<noteq> Some a" "tailq_prev a (queue s p1) \<noteq> Some b"
    using ap tailq_prev_in by fastforce+
  have "map (exchange a b) (queue s q) = queue s q" if "q \<noteq> p1" "q \<noteq> p2"
    using others that by (simp add: exchange_map_id)
  then show ?thesis
    using False na replace_in_list [OF d(2) mem(2) ap(1)] replace_in_list [OF d(1) mem(1) ap(2)]
    by (auto simp: swap_in_lists_def Let_def put exchange_commute)
qed

text \<open>Two containers that can be swapped.\<close>

definition swappable :: "wm \<Rightarrow> con_id \<Rightarrow> con_id \<Rightarrow> con_id \<Rightarrow> con_id \<Rightarrow> bool" where
  "swappable s a b p1 p2 \<longleftrightarrow> a \<in> set (all_cons s) \<and> b \<in> set (all_cons s) \<and> a \<noteq> b \<and>
     kind s a = CT_CON \<and> kind s b = CT_CON \<and> parent_of s a = Some p1 \<and> parent_of s b = Some p2 \<and>
     a \<notin> set (ancestors s b) \<and> b \<notin> set (ancestors s a) \<and>
     kind s p1 \<noteq> CT_DOCKAREA \<and> kind s p2 \<noteq> CT_DOCKAREA"

lemma swap_places_exact:
  assumes r: "rooted s" and w: "swappable s a b p1 p2"
  defines "t \<equiv> swap_places a b p1 p2 s"
  shows "q \<in> set (all_cons s) \<Longrightarrow> nodes t q = map (exchange a b) (nodes s q)"
    and "q \<in> set (all_cons s) \<Longrightarrow> foci t q = map (exchange a b) (foci s q)"
    and "floats t q = floats s q" and "kind t q = kind s q"
    and "parent_of t x = parent_of s (exchange a b x)"
    and "floating (store t x) = floating (store s (exchange a b x))"
    and "all_cons t = all_cons s" "croot t = croot s" "next_id t = next_id s" "focused t = focused s"
    and "urgent (store t x) = urgent (store s x)" "fullscreen_mode (store t x) = fullscreen_mode (store s x)"
proof -
  note ok = rootedD(1) [OF r]
  have W: "a \<in> set (all_cons s)" "b \<in> set (all_cons s)" "a \<noteq> b" "kind s a = CT_CON" "kind s b = CT_CON"
    "parent_of s a = Some p1" "parent_of s b = Some p2" using w by (auto simp: swappable_def)
  note L1 = rooted_linked [OF r W(1,6)] and L2 = rooted_linked [OF r W(2,7)]
  have m: "a \<in> set (nodes s p1)" "b \<in> set (nodes s p2)"
    using L1(1) L2(1) tree_okD(10) [OF ok L1(2), of a] tree_okD(10) [OF ok L2(2), of b] W(4,5) by auto
  have pa: "c \<notin> set (nodes s q) \<and> c \<notin> set (foci s q)"
    if "q \<in> set (all_cons s)" "parent_of s c = Some p" "q \<noteq> p" for q c p
    using tree_ok_child_parent(2) [OF ok that(1), of c] tree_ok_foci(2) [OF ok that(1), of c] that(2,3) by auto
  let ?n = "swap_in_lists (\<lambda>s. nodes s) put_nodes a b p1 p2 s"
  have frame: "foci ?n d = foci s d" "floats ?n d = floats s d" "kind ?n d = kind s d" "parent_of ?n d = parent_of s d"
    "floating (store ?n d) = floating (store s d)" "all_cons ?n = all_cons s" "croot ?n = croot s"
    "next_id ?n = next_id s" "focused ?n = focused s" "urgent (store ?n d) = urgent (store s d)"
    "fullscreen_mode (store ?n d) = fullscreen_mode (store s d)" for d
    by (simp_all add: swap_in_lists_def put_nodes_def Let_def)
  let ?f = "swap_in_lists (\<lambda>s. foci s) put_foci a b p1 p2 ?n"
  have frame2: "nodes ?f d = nodes ?n d" "floats ?f d = floats ?n d" "kind ?f d = kind ?n d" "parent_of ?f d = parent_of ?n d"
    "floating (store ?f d) = floating (store ?n d)" "all_cons ?f = all_cons ?n" "croot ?f = croot ?n"
    "next_id ?f = next_id ?n" "focused ?f = focused ?n" "urgent (store ?f d) = urgent (store ?n d)"
    "fullscreen_mode (store ?f d) = fullscreen_mode (store ?n d)" for d
    by (simp_all add: swap_in_lists_def [of _ put_foci] put_foci_def Let_def)
  have t: "nodes t d = nodes ?f d" "foci t d = foci ?f d" "floats t d = floats ?f d" "kind t d = kind ?f d"
    "parent_of t d = parent_of ?f (exchange a b d)" "floating (store t d) = floating (store ?f (exchange a b d))"
    "all_cons t = all_cons ?f" "croot t = croot ?f" "next_id t = next_id ?f" "focused t = focused ?f"
    "urgent (store t d) = urgent (store ?f d)" "fullscreen_mode (store t d) = fullscreen_mode (store ?f d)" for d
    using W(3) by (simp_all add: t_def swap_places_def swap_fields_def Let_def exchange_def)
  show "floats t q = floats s q" "kind t q = kind s q" "parent_of t x = parent_of s (exchange a b x)"
    "floating (store t x) = floating (store s (exchange a b x))"
    "all_cons t = all_cons s" "croot t = croot s" "next_id t = next_id s" "focused t = focused s"
    "urgent (store t x) = urgent (store s x)" "fullscreen_mode (store t x) = fullscreen_mode (store s x)"
    by (simp_all add: t frame frame2)
  assume q: "q \<in> set (all_cons s)"
  have "nodes ?n q = map (exchange a b) (nodes s q)"
    by (rule swap_in_lists_exact [where queue = "\<lambda>s. nodes s" and put = put_nodes])
      (use m W(3) tree_okD(1) [OF ok L1(2)] tree_okD(1) [OF ok L2(2)] pa [OF L2(2) W(6)] pa [OF L1(2) W(7)]
        pa [OF q W(6)] pa [OF q W(7)] in \<open>auto simp: put_nodes_def\<close>)
  then show "nodes t q = map (exchange a b) (nodes s q)" by (simp add: t frame2)
  have "foci ?f q = map (exchange a b) (foci ?n q)"
    by (rule swap_in_lists_exact [where queue = "\<lambda>s. foci s" and put = put_foci])
      (use L1(3) L2(3) W(3) tree_okD(3) [OF ok L1(2)] tree_okD(3) [OF ok L2(2)] pa [OF L2(2) W(6)] pa [OF L1(2) W(7)]
        pa [OF q W(6)] pa [OF q W(7)] in \<open>auto simp: put_foci_def frame\<close>)
  then show "foci t q = map (exchange a b) (foci s q)" by (simp add: t frame)
qed

lemma swap_places_rooted:
  assumes r: "rooted s" and w: "swappable s a b p1 p2"
  shows "rooted (swap_places a b p1 p2 s)"
proof -
  note ok = rootedD(1) [OF r]
  define t where "t = swap_places a b p1 p2 s"
  note E = swap_places_exact [OF r w, folded t_def]
  have W: "a \<in> set (all_cons s)" "b \<in> set (all_cons s)" "a \<noteq> b" "kind s a = CT_CON" "kind s b = CT_CON"
    "parent_of s a = Some p1" "parent_of s b = Some p2" "a \<notin> set (ancestors s b)" "b \<notin> set (ancestors s a)"
    "kind s p1 \<noteq> CT_DOCKAREA" "kind s p2 \<noteq> CT_DOCKAREA" using w by (auto simp: swappable_def)
  have ex: "exchange a b x \<in> set (all_cons s) \<longleftrightarrow> x \<in> set (all_cons s)" for x using W(1,2) by (simp add: exchange_def)
  have kx: "kind s (exchange a b x) = kind s x" for x using W(4,5) by (simp add: exchange_def)
  have nofl: "exchange a b x = x" if "kind s x \<noteq> CT_CON" for x using that W(4,5) by (auto simp: exchange_def)
  have inm: "x \<in> exchange a b ` X \<longleftrightarrow> exchange a b x \<in> X" for x X
    by (metis (no_types, lifting) exchange_simps(4) image_iff)
  have fl: "x \<in> set (floats s q) \<longleftrightarrow> exchange a b x \<in> set (floats s q)" if "q \<in> set (all_cons s)" for x q
  proof (cases "kind s x = CT_CON")
    case True
    then have "x \<notin> set (floats s q)" "exchange a b x \<notin> set (floats s q)"
      using tree_okD(10) [OF ok that, of x] tree_okD(10) [OF ok that, of "exchange a b x"] kx [of x] by auto
    then show ?thesis by simp
  qed (simp add: nofl)
  have kids: "x \<in> set (children t q) \<longleftrightarrow> exchange a b x \<in> set (children s q)" if "q \<in> set (all_cons s)" for x q
    using E(1) [OF that] E(3) fl [OF that] by (simp add: inm)
  have "links_ok_at t q" if q: "q \<in> set (all_cons s)" for q
  proof -
    note Q = tree_okD [OF ok q]
    have "x \<in> set (foci t q) \<longleftrightarrow> x \<in> set (children t q)" for x
      using E(2) [OF q] Q(4) kids [OF q, of x] by (simp add: inm del: set_append)
    then have "set (foci t q) = set (children t q)" by blast
    moreover have "distinct (nodes t q)" "distinct (foci t q)"
      using E(1,2) [OF q] Q(1,3) by (simp_all add: distinct_map inj_on_def exchange_inj)
    moreover have "x \<in> set (all_cons s) \<and> parent_of t x = Some q" if "x \<in> set (children t q)" for x
      using tree_ok_child_parent [OF ok q, of "exchange a b x"] that kids [OF q] ex E(5) by auto
    moreover have "kind t x \<noteq> CT_FLOATING_CON" if "x \<in> set (nodes t q)" for x
      using Q(9) [of "exchange a b x"] that E(1) [OF q] E(4) kx by (auto simp: inm)
    ultimately show ?thesis using Q(2,10) E(3,4,7) unfolding links_ok_at_def by auto
  qed
  moreover have "parents_ok t"
  proof -
    obtain r :: "con_id \<Rightarrow> nat" where rk: "\<forall>c \<in> set (all_cons s). \<forall>p. parent_of s c = Some p \<longrightarrow> r p < r c"
      using ok by (auto simp: tree_ok_def parents_ok_def)
    define m where "m x = r x + (if a \<in> set (ancestors s x) then Suc (r p2) else 0) +
      (if b \<in> set (ancestors s x) then Suc (r p1) else 0)" for x
    have anc: "set (ancestors s x) = insert x (set (ancestors s p))" if "x \<in> set (all_cons s)" "parent_of s x = Some p" for x p
      using ancestors_unfold [OF ok that(1)] that(2) by simp
    have "m q < m x" if x: "x \<in> set (all_cons s)" and q: "parent_of t x = Some q" for x q
    proof -
      consider "x = a" | "x = b" | "x \<noteq> a" "x \<noteq> b" by blast
      then show ?thesis
      proof cases
        case 1
        then have "q = p2" using q E(5) W(7) by simp
        then show ?thesis using 1 anc [OF W(2,7)] W(8,9) parent_not_below [OF ok W(2,7)] self_in_ancestors [OF ok W(1)]
          by (auto simp: m_def)
      next
        case 2
        then have "q = p1" using q E(5) W(6) by simp
        then show ?thesis using 2 anc [OF W(1,6)] W(8,9) parent_not_below [OF ok W(1,6)] self_in_ancestors [OF ok W(2)]
          by (auto simp: m_def)
      next
        case 3
        then have p: "parent_of s x = Some q" using q E(5) by simp
        then have "r q < r x" using rk x by blast
        then show ?thesis using 3 anc [OF x p] by (auto simp: m_def)
      qed
    qed
    moreover have "q \<in> set (all_cons s)" if "x \<in> set (all_cons s)" "parent_of t x = Some q" for x q
      using tree_okD(11) [OF ok, of "exchange a b x"] that ex E(5) by auto
    ultimately show ?thesis using E(7) by (auto simp: parents_ok_def intro!: exI [of _ m])
  qed
  ultimately have okt: "tree_ok t" using ok E(7,9) by (simp add: tree_ok_def links_ok_def ids_ok_def)
  have cr: "exchange a b (croot s) = croot s" using nofl rootedD(4) [OF r] by simp
  have link: "\<exists>p. parent_of t c = Some p \<and> c \<in> set (children t p)" if c: "c \<in> set (all_cons s)" "c \<noteq> croot s" for c
  proof -
    have "exchange a b c \<in> set (all_cons s)" "exchange a b c \<noteq> croot s" using c ex cr exchange_inj by metis+
    then obtain p where p: "parent_of s (exchange a b c) = Some p" "exchange a b c \<in> set (children s p)"
      using rootedD(5) [OF r] by blast
    then show ?thesis using E(5) kids rooted_linked(2) [OF r _ p(1)] ex c(1) by auto
  qed
  have flo: "kind t c = CT_CON \<and> (\<exists>p. parent_of t c = Some p \<and> kind t p = CT_FLOATING_CON)"
    if "c \<in> set (all_cons s)" "con_is_floating t c" for c
    using rootedD(6,10) [OF r, of "exchange a b c"] that ex E(4,5,6) kx by (simp add: con_is_floating_def)
  have dock: "children t c = []" if c: "c \<in> set (all_cons s)" "parent_of t c = Some p" "kind t p = CT_DOCKAREA" for c p
  proof -
    have "c \<noteq> a" "c \<noteq> b" using c(2,3) E(4,5) W(6,7,10,11) by auto
    then have "children s c = []" using rootedD(9) [OF r c(1), of p] c E(4,5) by simp
    then show ?thesis using E(1) [OF c(1)] E(3) by simp
  qed
  have "kind t c = CT_OUTPUT" if "c \<in> set (all_cons s)" "parent_of t c = Some (croot s)" for c
    using rootedD(8) [OF r, of "exchange a b c"] that ex E(4,5) kx by simp
  then show ?thesis
    using okt link flo dock rootedD(2,3,4,7) [OF r] cr E(3,4,5,7,8) unfolding t_def [symmetric] rooted_def by simp
qed

lemma con_disable_noop: "fullscreen_mode (store s c) = CF_NONE \<Longrightarrow> con_disable_fullscreen c s = s"
  by (simp add: con_disable_fullscreen_def)

lemma swap_restore_alive:
  assumes "swap_restore s a b = Some f" and "focus_alive s" and "swappable s a b p1 p2"
  shows "f \<in> set (all_cons s)" and "kind s f \<noteq> CT_ROOT \<or> focused s = Some f"
  using assms by (auto simp: swap_restore_def focus_alive_def swappable_def split: option.splits if_splits)

lemma con_swap_exchanges:
  assumes r: "rooted s" and fa: "focus_alive s" and w: "swappable s a b p1 p2"
    and root: "focused s \<noteq> Some (croot s)"
    and fs: "fullscreen_mode (store s a) = CF_NONE" "fullscreen_mode (store s b) = CF_NONE"
  shows "\<exists>t. con_swap a b s = (True, t) \<and> same_tree (swap_places a b p1 p2 s) t \<and> focus_alive t \<and>
    focused t = (case swap_restore s a b of None \<Rightarrow> focused s | Some f \<Rightarrow> Some f) \<and>
    (\<forall>q. nodes t q = nodes (swap_places a b p1 p2 s) q \<and> floats t q = floats s q)"
proof -
  note ok = rootedD(1) [OF r]
  define u where "u = swap_places a b p1 p2 s"
  note E = swap_places_exact [OF r w, folded u_def] and ru = swap_places_rooted [OF r w, folded u_def]
  have W: "a \<in> set (all_cons s)" "b \<in> set (all_cons s)" "a \<noteq> b" "kind s a = CT_CON" "kind s b = CT_CON"
    "parent_of s a = Some p1" "parent_of s b = Some p2" "a \<notin> set (ancestors s b)" "b \<notin> set (ancestors s a)"
    using w by (auto simp: swappable_def)
  have tl: "set (tl (ancestors s x)) \<subseteq> set (ancestors s x)" for x by (cases "ancestors s x") auto
  have guard: "\<not> (kind s a \<noteq> CT_CON \<or> kind s b \<noteq> CT_CON \<or> a = b \<or> con_has_parent s a b \<or> con_has_parent s b a)"
    using W tl by (auto simp: con_has_parent_def)
  define v where "v = (case swap_restore s a b of None \<Rightarrow> u | Some f \<Rightarrow> con_focus f u)"
  have v: "same_tree u v \<and> (\<forall>q. nodes v q = nodes u q \<and> floats v q = floats u q \<and>
      fullscreen_mode (store v q) = fullscreen_mode (store u q)) \<and>
      focused v = (case swap_restore s a b of None \<Rightarrow> focused s | Some f \<Rightarrow> Some f)"
  proof (cases "swap_restore s a b")
    case (Some f)
    have fal: "f \<in> set (all_cons u)" using swap_restore_alive(1) [OF Some fa w] E(7) by simp
    have nr: "f \<noteq> croot u"
      using swap_restore_alive(2) [OF Some fa w] root rootedD(4) [OF r] E(8) by auto
    have f: "focusable u f" by (rule rooted_focusable [OF ru fal nr])
    then have "parent_of u f \<noteq> None" by (simp add: focusable_def)
    then show ?thesis
      using con_focus_same_tree [OF rootedD(1) [OF ru] fal f] con_focus_focused [OF rootedD(1) [OF ru] fal] Some
      by (simp add: v_def con_focus_frame)
  qed (simp add: v_def E(10))
  define s1 where "s1 = con_set_urgency a (urgent (store v a)) v"
  define s2 where "s2 = con_set_urgency b (urgent (store s1 b)) s1"
  have q12: "quiet v s2" unfolding s2_def s1_def by (rule quiet_trans [OF con_set_urgency_quiet con_set_urgency_quiet])
  have none: "fullscreen_mode (store s2 a) = CF_NONE" "fullscreen_mode (store s2 b) = CF_NONE"
    using q12 v E(12) fs by (simp_all add: quiet_def)
  define s3 where "s3 = con_fix_percent p1 (con_fix_percent p2 s2)"
  have par: "parent_of s2 a = Some p2" "parent_of s2 b = Some p1"
    using q12 v E(5) W(6,7) by (simp_all add: quiet_def same_links_def same_tree_def)
  define t where "t = con_force_split_parents_redraw b (con_force_split_parents_redraw a
    (upd_con b (\<lambda>k. k\<lparr>deco_cached := False\<rparr>) (upd_con a (\<lambda>k. k\<lparr>deco_cached := False\<rparr>) s3)))"
  have eq: "con_swap a b s = (True, t)"
    unfolding con_swap_def if_not_P [OF guard] W(6,7) prod.case option.case Let_def u_def [symmetric] v_def [symmetric]
      s1_def [symmetric] s2_def [symmetric]
    by (simp add: exchange_fullscreen_def none con_disable_noop par t_def s3_def)
  have "same_links s2 t" and ft: "focused t = focused s2" by (simp_all add: t_def s3_def same_links_def)
  then have sl: "same_links v t" using same_links_trans [OF quiet_links [OF q12]] by blast
  have st: "same_tree u t" using same_tree_trans [OF _ same_links_same_tree [OF sl]] v by blast
  have foc: "focused t = (case swap_restore s a b of None \<Rightarrow> focused s | Some f \<Rightarrow> Some f)"
    using ft q12 v by (simp add: quiet_def)
  have "focus_alive t"
    using foc fa swap_restore_alive(1) [OF _ fa w] same_treeD(9) [OF st] E(7)
    by (auto simp: focus_alive_def split: option.splits)
  moreover have "nodes t q = nodes u q \<and> floats t q = floats s q" for q
    using sl v E(3) by (simp add: same_links_def)
  ultimately show ?thesis using eq st foc by (auto simp: u_def)
qed

end
