(* ===== verification/Scroll_Commands.thy ===== *)
theory Scroll_Commands
  imports Tree_Ops
begin

text \<open>
  The tick of the animation clock (\<^verbatim>\<open>src/aiwr_anim.c\<close>) and the commands of the scrolling layout
  (\<^verbatim>\<open>src/scrolling.c\<close>). The callbacks of an animation are parameters, told by the id of its slot;
  flushing and waiting for the X server is left out.
\<close>

subsection \<open>The tick\<close>

definition slot_progress :: "real \<Rightarrow> anim_slot \<Rightarrow> real" where
  "slot_progress now x =
     (let p = (if as_duration_ms x \<le> 0 then 1 else (now - as_start_ms x) / as_duration_ms x);
          p = (if p < 0 then 0 else p)
      in if p \<ge> 1 then 1 else p)"

text \<open>One turn of the loop. The slot is read again after the step: its owner may have cancelled it.\<close>

definition tick_slot ::
  "(int \<Rightarrow> real \<Rightarrow> real \<Rightarrow> wm \<Rightarrow> wm) \<Rightarrow> (int \<Rightarrow> wm \<Rightarrow> wm) \<Rightarrow> real \<Rightarrow> nat \<Rightarrow> wm \<Rightarrow> wm" where
  "tick_slot step finish now i s =
     (let x = an_slots (anim s) ! i in
      if \<not> as_active x then s
      else
        let p = slot_progress now x;
            s = step (as_id x) p (aiwr_curve_eval (as_curve x) p) s;
            y = an_slots (anim s) ! i
        in if p < 1 \<or> \<not> as_active y then s
           else finish (as_id x)
             (s\<lparr>anim := (anim s)\<lparr>an_slots := (an_slots (anim s))[i := y\<lparr>as_active := False\<rparr>]\<rparr>\<rparr>))"

definition anim_tick :: "(int \<Rightarrow> real \<Rightarrow> real \<Rightarrow> wm \<Rightarrow> wm) \<Rightarrow> (int \<Rightarrow> wm \<Rightarrow> wm) \<Rightarrow> wm \<Rightarrow> wm" where
  "anim_tick step finish s =
     (let now = an_now_ms (anim s);
          s = s\<lparr>anim := (anim s)\<lparr>an_fence_wanted := False\<rparr>\<rparr>;
          s = fold (tick_slot step finish now) [0..<length (an_slots (anim s))] s;
          s = s\<lparr>anim := anim_compact (anim s)\<rparr>;
          s = (if an_render_wanted (anim s)
               then tree_render (s\<lparr>anim := (anim s)\<lparr>an_render_wanted := False\<rparr>\<rparr>) else s)
      in s\<lparr>anim := anim_stop_timer_if_idle (anim s)\<rparr>)"

text \<open>\<open>aiwr_anim_finish\<close>: the animation jumps to its end.\<close>

definition aiwr_anim_finish ::
  "(int \<Rightarrow> real \<Rightarrow> real \<Rightarrow> wm \<Rightarrow> wm) \<Rightarrow> (int \<Rightarrow> wm \<Rightarrow> wm) \<Rightarrow> int \<Rightarrow> wm \<Rightarrow> wm" where
  "aiwr_anim_finish step finish i s =
     (case slot_by_id (anim s) i of
        None \<Rightarrow> s
      | Some x \<Rightarrow>
          let s = s\<lparr>anim := (anim s)\<lparr>an_slots := deactivate i (an_slots (anim s))\<rparr>\<rparr>;
              s = finish i (step i 1 1 s)
          in s\<lparr>anim := anim_stop_timer_if_idle (anim_compact (anim s))\<rparr>)"

subsection \<open>Commands of the scrolling layout\<close>

text \<open>The first container with the scrolling layout in the tiling tree below one, in preorder; the
  argument bounds the depth.\<close>

primrec find_scrolling :: "nat \<Rightarrow> wm \<Rightarrow> con_id \<Rightarrow> con_id option" where
  "find_scrolling 0 s c = None"
| "find_scrolling (Suc n) s c =
     (if layout_of s c = L_SCROLLING then Some c
      else fold (\<lambda>d r. if r \<noteq> None then r else find_scrolling n s d) (nodes s c) None)"

definition ws_find_scrolling :: "wm \<Rightarrow> con_id \<Rightarrow> con_id option" where
  "ws_find_scrolling s ws = find_scrolling (length (all_cons s)) s ws"

definition ws_has_scrolling :: "wm \<Rightarrow> con_id \<Rightarrow> bool" where
  "ws_has_scrolling s c \<longleftrightarrow> ws_find_scrolling s c \<noteq> None"

definition aiwr_count_scrolling_workspaces :: "wm \<Rightarrow> nat" where
  "aiwr_count_scrolling_workspaces s =
     length (filter (ws_has_scrolling s)
       (concat (map (\<lambda>out. case output_get_content s out of None \<Rightarrow> [] | Some content \<Rightarrow> nodes s content)
          (filter (\<lambda>out. \<not> con_is_internal s out) (nodes s (croot s))))))"

definition scrolling_toggle_layout :: "con_id \<Rightarrow> wm \<Rightarrow> wm" where
  "scrolling_toggle_layout con s =
     (case con_get_workspace s con of
        None \<Rightarrow> s
      | Some ws \<Rightarrow>
          tree_render
            (case ws_find_scrolling s ws of
               Some sc \<Rightarrow>
                 let s = upd_con sc (\<lambda>k. k\<lparr>layout := L_SPLITH, scroll_offset := 0\<rparr>) s;
                     s = upd_con ws (\<lambda>k. k\<lparr>workspace_layout := L_DEFAULT\<rparr>) s
                 in con_fix_percent sc s
             | None \<Rightarrow> con_set_layout ws L_SCROLLING s))"

definition clamp_percent :: "real \<Rightarrow> real" where
  "clamp_percent pct = (let pct = (if pct < 0.05 then 0.05 else pct) in if pct > 4 then 4 else pct)"

text \<open>\<open>in_column\<close>: the column has a parent with the scrolling layout.\<close>

definition scrolling_parent :: "wm \<Rightarrow> con_id \<Rightarrow> con_id option" where
  "scrolling_parent s column =
     (case parent_of s column of None \<Rightarrow> None | Some p \<Rightarrow> if layout_of s p = L_SCROLLING then Some p else None)"

definition scrolling_resize_column_px :: "con_id option \<Rightarrow> int \<Rightarrow> wm \<Rightarrow> wm" where
  "scrolling_resize_column_px column px s =
     (case column of
        None \<Rightarrow> s
      | Some c \<Rightarrow>
          (case scrolling_parent s c of
             None \<Rightarrow> s
           | Some p \<Rightarrow>
               let view = real (unat (rect_width (rect (store s p)))) in
               if view \<le> 0 then s
               else tree_render (upd_con c (\<lambda>k. k\<lparr>percent :=
                      clamp_percent (column_percent s c + real_of_int px / view)\<rparr>) s)))"

definition scrolling_resize_column :: "con_id option \<Rightarrow> int \<Rightarrow> wm \<Rightarrow> wm" where
  "scrolling_resize_column column delta_ppt s =
     (case column of
        None \<Rightarrow> s
      | Some c \<Rightarrow>
          (case scrolling_parent s c of
             None \<Rightarrow> s
           | Some p \<Rightarrow>
               scrolling_reveal column (tree_render (upd_con c (\<lambda>k. k\<lparr>percent :=
                 clamp_percent (column_percent s c + real_of_int delta_ppt / 100)\<rparr>) s))))"

text \<open>\<open>scrolling_resize_handled\<close>: whether a resize command is one for a column. The width is read as an
  \<open>int\<close>, \<open>/\<close> rounds towards zero.\<close>

definition column_delta :: "int \<Rightarrow> int \<Rightarrow> int \<Rightarrow> int option" where
  "column_delta view px ppt =
     (if ppt = 0 \<and> px \<noteq> 0 then
        (if view \<le> 0 then None
         else
           let d = c_trunc (real_of_int (px * 100) / real_of_int view)
           in if d = 0 then (if px > 0 then Some 1 else Some (- 1)) else Some d)
      else if ppt = 0 then None else Some ppt)"

definition scrolling_resize_handled :: "con_id \<Rightarrow> string \<Rightarrow> int \<Rightarrow> int \<Rightarrow> wm \<Rightarrow> bool \<times> wm" where
  "scrolling_resize_handled con d px ppt s =
     (case column_of s (Some con) of
        None \<Rightarrow> (False, s)
      | Some c \<Rightarrow>
          if d = ''height'' \<or> d = ''up'' \<or> d = ''down'' then (False, s)
          else (case parent_of s c of
              None \<Rightarrow> (False, s)
            | Some p \<Rightarrow>
                (case column_delta (sint (rect_width (rect (store s p)))) px ppt of
                   None \<Rightarrow> (False, s)
                 | Some delta \<Rightarrow> (True, scrolling_resize_column (Some c) delta s))))"

definition scrolling_scroll_by :: "con_id \<Rightarrow> int \<Rightarrow> wm \<Rightarrow> wm" where
  "scrolling_scroll_by con d s =
     (case scrolling_container s (Some con) of
        None \<Rightarrow> s
      | Some sc \<Rightarrow>
          if rect_width (rect (store s sc)) = 0 then s
          else
            let step = default_share s * real (unat (rect_width (rect (store s sc))))
            in scroll_to_offset sc (clamp_offset s sc (scroll_offset (store s sc) + real_of_int d * step)
                 (scrolling_total_width s sc)) s)"

definition scrolling_toggle_maximize :: "con_id \<Rightarrow> wm \<Rightarrow> wm" where
  "scrolling_toggle_maximize con s =
     (case column_of s (Some con) of
        None \<Rightarrow> s
      | Some c \<Rightarrow>
          let s = (if column_percent s c \<ge> 0.999 then
                     let prev = scroll_prev_percent (store s c);
                         prev = (if prev \<le> 0 \<or> prev \<ge> 0.999 then default_share s else prev)
                     in upd_con c (\<lambda>k. k\<lparr>percent := prev, scroll_prev_percent := 0\<rparr>) s
                   else upd_con c (\<lambda>k. k\<lparr>scroll_prev_percent := column_percent s c, percent := 1\<rparr>) s)
          in scrolling_reveal (Some c) (tree_render s))"

definition scrolling_cycle_width :: "con_id \<Rightarrow> bool \<Rightarrow> wm \<Rightarrow> wm" where
  "scrolling_cycle_width con backwards s =
     (case column_of s (Some con) of
        None \<Rightarrow> s
      | Some c \<Rightarrow>
          scrolling_reveal (Some c) (tree_render
            (upd_con c (\<lambda>k. k\<lparr>percent := next_preset (column_percent s c) backwards, scroll_prev_percent := 0\<rparr>) s)))"

subsection \<open>What a tick does\<close>

lemma slot_progress_range: "0 \<le> slot_progress now x \<and> slot_progress now x \<le> 1"
  by (simp add: slot_progress_def Let_def)

text \<open>An animation is due when its time is over.\<close>

definition due :: "real \<Rightarrow> anim_slot \<Rightarrow> bool" where
  "due now x \<longleftrightarrow> as_duration_ms x \<le> 0 \<or> as_start_ms x + as_duration_ms x \<le> now"

lemma due_progress: "due now x \<longleftrightarrow> \<not> slot_progress now x < 1"
  by (auto simp: due_def slot_progress_def Let_def field_simps)

lemma due_progress_1: "due now x \<Longrightarrow> slot_progress now x = 1"
  using due_progress slot_progress_range by (metis less_eq_real_def)

lemma aiwr_curve_eval_end [simp]: "aiwr_curve_eval c 1 = 1"
  by (simp add: aiwr_curve_eval_def clamp01_def split: option.split)

lemma aiwr_curve_eval_start [simp]: "aiwr_curve_eval c 0 = 0"
  by (simp add: aiwr_curve_eval_def clamp01_def split: option.split)

text \<open>Callbacks that do not start or cancel animations.\<close>

definition leaves_clock :: "(wm \<Rightarrow> wm) \<Rightarrow> bool" where
  "leaves_clock f \<longleftrightarrow> (\<forall>s. anim (f s) = anim s) \<and> (\<forall>s a. f (s\<lparr>anim := a\<rparr>) = (f s)\<lparr>anim := a\<rparr>)"

text \<open>What a tick does to one running animation.\<close>

definition run_slot ::
  "(int \<Rightarrow> real \<Rightarrow> real \<Rightarrow> wm \<Rightarrow> wm) \<Rightarrow> (int \<Rightarrow> wm \<Rightarrow> wm) \<Rightarrow> real \<Rightarrow> anim_slot \<Rightarrow> wm \<Rightarrow> wm" where
  "run_slot step finish now x s =
     (if due now x then finish (as_id x) (step (as_id x) 1 1 s)
      else step (as_id x) (slot_progress now x) (aiwr_curve_eval (as_curve x) (slot_progress now x)) s)"

definition ended :: "real \<Rightarrow> anim_slot \<Rightarrow> anim_slot" where
  "ended now x = (if as_active x \<and> due now x then x\<lparr>as_active := False\<rparr> else x)"

lemma tick_slot_calm:
  assumes c: "\<And>i p e. leaves_clock (step i p e)" "\<And>i. leaves_clock (finish i)"
    and i: "i < length xs" and s: "an_slots (anim s) = xs"
  shows "tick_slot step finish now i s =
    (if as_active (xs ! i) then run_slot step finish now (xs ! i) s else s)
      \<lparr>anim := (anim s)\<lparr>an_slots := xs[i := ended now (xs ! i)]\<rparr>\<rparr>"
proof -
  have a: "anim (step i p e u) = anim u" "anim (finish i u) = anim u"
    "finish i (u\<lparr>anim := b\<rparr>) = (finish i u)\<lparr>anim := b\<rparr>" for i p e u b
    using c by (simp_all add: leaves_clock_def)
  show ?thesis
  proof (cases "as_active (xs ! i)")
    case False
    have e: "xs[i := ended now (xs ! i)] = xs" using False by (simp add: ended_def)
    have "tick_slot step finish now i s = s" using False by (simp add: tick_slot_def s)
    moreover have "s = s\<lparr>anim := (anim s)\<lparr>an_slots := xs\<rparr>\<rparr>" by (simp flip: s)
    ultimately show ?thesis using False unfolding e by simp
  next
    case True
    show ?thesis
    proof (cases "due now (xs ! i)")
      case d: True
      then show ?thesis using True due_progress_1 [OF d]
        by (simp add: tick_slot_def s Let_def a run_slot_def ended_def)
    next
      case d: False
      have e: "xs[i := ended now (xs ! i)] = xs" using d by (simp add: ended_def)
      let ?u = "run_slot step finish now (xs ! i) s"
      have "tick_slot step finish now i s = ?u"
        using True d due_progress [of now "xs ! i"] by (simp add: tick_slot_def s Let_def a run_slot_def)
      moreover have "?u = ?u\<lparr>anim := (anim s)\<lparr>an_slots := xs\<rparr>\<rparr>"
        using d by (simp add: run_slot_def a flip: s)
      ultimately show ?thesis using True unfolding e by simp
    qed
  qed
qed

lemma run_slot_clock:
  assumes c: "\<And>i p e. leaves_clock (step i p e)" "\<And>i. leaves_clock (finish i)"
  shows "leaves_clock (run_slot step finish now x)"
  using c by (auto simp: leaves_clock_def run_slot_def)

lemma leaves_clock_fold: "(\<And>x. leaves_clock (f x)) \<Longrightarrow> leaves_clock (fold f xs)"
  by (induction xs) (auto simp: leaves_clock_def)

lemma tick_loop:
  assumes c: "\<And>i p e. leaves_clock (step i p e)" "\<And>i. leaves_clock (finish i)" and n: "n \<le> length xs"
    and s: "an_slots (anim s) = xs"
  shows "fold (tick_slot step finish now) [0..<n] s =
    (fold (run_slot step finish now) (filter as_active (take n xs)) s)
      \<lparr>anim := (anim s)\<lparr>an_slots := map (ended now) (take n xs) @ drop n xs\<rparr>\<rparr>"
  using n
proof (induction n)
  case 0
  have "s = s\<lparr>anim := (anim s)\<lparr>an_slots := xs\<rparr>\<rparr>" by (simp flip: s)
  then show ?case by simp
next
  case (Suc n)
  define ys where "ys = map (ended now) (take n xs) @ drop n xs"
  define u where "u = fold (run_slot step finish now) (filter as_active (take n xs)) s"
  have n: "n < length ys" "n < length xs" "ys ! n = xs ! n" using Suc.prems by (simp_all add: ys_def nth_append)
  have up: "take (Suc n) xs = take n xs @ [xs ! n]" using n(2) by (rule take_Suc_conv_app_nth)
  have y: "ys[n := ended now (xs ! n)] = map (ended now) (take (Suc n) xs) @ drop (Suc n) xs"
    using n(2) by (simp add: ys_def up list_update_append Cons_nth_drop_Suc [OF n(2), symmetric])
  have IH: "fold (tick_slot step finish now) [0..<n] s = u\<lparr>anim := (anim s)\<lparr>an_slots := ys\<rparr>\<rparr>"
    using Suc.IH Suc.prems by (simp add: ys_def u_def)
  have lc: "leaves_clock (run_slot step finish now x)" for x by (rule run_slot_clock [OF c])
  have "tick_slot step finish now n (u\<lparr>anim := (anim s)\<lparr>an_slots := ys\<rparr>\<rparr>) =
     (if as_active (xs ! n) then run_slot step finish now (xs ! n) u else u)
       \<lparr>anim := (anim s)\<lparr>an_slots := ys[n := ended now (xs ! n)]\<rparr>\<rparr>"
    using tick_slot_calm [where s = "u\<lparr>anim := (anim s)\<lparr>an_slots := ys\<rparr>\<rparr>" and now = now, OF c n(1)] lc
    by (simp add: n(3) leaves_clock_def)
  then show ?case by (simp add: IH y) (simp add: up u_def)
qed

lemma filter_ended: "filter as_active (map (ended now) xs) = filter (\<lambda>x. as_active x \<and> \<not> due now x) xs"
  by (induction xs) (simp_all add: ended_def)

text \<open>One tick without a pending rendering: every running animation gets one step, those that are due get
  their last one, at the end of the curve, and are finished and gone; the others stay.\<close>

lemma anim_tick_exact:
  assumes c: "\<And>i p e. leaves_clock (step i p e)" "\<And>i. leaves_clock (finish i)"
    and r: "\<not> an_render_wanted (anim s)"
  shows "\<exists>a. anim_tick step finish s =
      (fold (run_slot step finish (an_now_ms (anim s))) (filter as_active (an_slots (anim s))) s)\<lparr>anim := a\<rparr> \<and>
    an_slots a = filter (\<lambda>x. as_active x \<and> \<not> due (an_now_ms (anim s)) x) (an_slots (anim s)) \<and>
    (an_timer_running a \<longrightarrow> an_slots a \<noteq> [])"
proof -
  define s1 where "s1 = s\<lparr>anim := (anim s)\<lparr>an_fence_wanted := False\<rparr>\<rparr>"
  let ?now = "an_now_ms (anim s)" and ?xs = "an_slots (anim s)"
  have xs: "an_slots (anim s1) = ?xs" by (simp add: s1_def)
  have lc: "leaves_clock (run_slot step finish ?now x)" for x by (rule run_slot_clock [OF c])
  have "fold (tick_slot step finish ?now) [0..<length ?xs] s1 =
    (fold (run_slot step finish ?now) (filter as_active ?xs) s1)
      \<lparr>anim := (anim s1)\<lparr>an_slots := map (ended ?now) ?xs\<rparr>\<rparr>"
    using tick_loop [where now = ?now, OF c le_refl xs] by simp
  also have "\<dots> = (fold (run_slot step finish ?now) (filter as_active ?xs) s)
      \<lparr>anim := (anim s1)\<lparr>an_slots := map (ended ?now) ?xs\<rparr>\<rparr>"
    using leaves_clock_fold [where f = "run_slot step finish ?now", OF lc] by (simp add: s1_def leaves_clock_def)
  finally have loop: "fold (tick_slot step finish ?now) [0..<length ?xs] s1 = \<dots>" .
  have w: "\<not> an_render_wanted (anim s1)" using r by (simp add: s1_def)
  define a where "a = anim_stop_timer_if_idle (anim_compact ((anim s1)\<lparr>an_slots := map (ended ?now) ?xs\<rparr>))"
  have "anim_tick step finish s = (fold (run_slot step finish ?now) (filter as_active ?xs) s)\<lparr>anim := a\<rparr>"
    using w by (simp add: anim_tick_def Let_def s1_def [symmetric] xs loop a_def anim_compact_def)
  moreover have "an_slots a = filter (\<lambda>x. as_active x \<and> \<not> due ?now x) ?xs"
    by (simp add: a_def anim_compact_def filter_ended)
  moreover have "an_timer_running a \<longrightarrow> an_slots a \<noteq> []"
    by (auto simp: a_def anim_stop_timer_if_idle_def split: if_splits)
  ultimately show ?thesis by blast
qed

lemma due_gone:
  assumes ok: "clock_ok a" and b: "an_slots b = filter (\<lambda>x. as_active x \<and> \<not> due now x) (an_slots a)"
    and x: "x \<in> set (an_slots a)" "as_active x"
  shows "aiwr_anim_alive b (as_id x) \<longleftrightarrow> \<not> due now x"
proof -
  have inj: "y = x" if "y \<in> set (an_slots a)" "as_id y = as_id x" for y
    using ok that x(1) unfolding clock_ok_def by (metis distinct_map inj_onD)
  have pos: "\<not> as_id x \<le> 0" using ok x(1) by (force simp: clock_ok_def)
  have "aiwr_anim_alive b (as_id x) \<longleftrightarrow> (\<exists>y \<in> set (an_slots b). as_id y = as_id x \<and> as_active y)"
    using pos by (auto simp: aiwr_anim_alive_def slot_by_id_def find_None_iff)
  then show ?thesis using inj x by (auto simp: b)
qed

end
