(* ===== verification/Sample_Session.thy ===== *)
theory Sample_Session
  imports Con_Swap Scroll_Commands
begin

text \<open>
  One concrete session, on which the properties of the development are instantiated: two outputs
  side by side, each with its content container; the workspaces 1 and \<open>3:mail\<close> on the first and 2 and
  \<open>web\<close> on the second; on workspace 1 a window beside a vertical split of two windows and one
  floating window, on workspace 2 a single window. Container 12, the upper window of the split, has
  the focus.
\<close>

definition sample_cfg :: config where
  "sample_cfg =
    \<lparr>cfg_default_layout = L_DEFAULT, cfg_default_border_width = 2,
     cfg_default_floating_border_width = 2, cfg_default_orientation = NO_ORIENTATION,
     cfg_hide_edge_borders = 0, cfg_focus_wrapping = FOCUS_WRAPPING_ON,
     cfg_workspace_urgency_timer = 0, cfg_default_border = BS_NORMAL,
     cfg_default_floating_border = BS_NORMAL, cfg_floating_maximum_width = 0,
     cfg_floating_maximum_height = 0, cfg_floating_minimum_width = 0,
     cfg_floating_minimum_height = 0, cfg_gaps = zero_gaps, cfg_smart_gaps = SMART_GAPS_OFF,
     cfg_scroll_default_width = 50, cfg_scroll_duration_ms = 150, cfg_scroll_center_focus = False,
     cfg_scroll_curve = None, cfg_workspace_auto_back_and_forth = False,
     cfg_focus_on_window_activation = FOWA_SMART, cfg_disable_focus_follows_mouse = False,
     cfg_popup_during_fullscreen = PDF_SMART, cfg_font_height = 13\<rparr>"

definition sample_window :: "nat \<Rightarrow> string \<Rightarrow> i3Window" where
  "sample_window i title =
    \<lparr>w_id = of_nat i, w_transient_for = 0, w_leader = 0, w_nr_assignments = 0, w_ran_assignments = [],
     w_class_class = Some ''XTerm'', w_class_instance = Some ''xterm'', w_name = Some title,
     w_role = None, w_machine = None, w_name_x_changed = False, w_uses_net_wm_name = False,
     w_needs_take_focus = False, w_doesnt_accept_focus = False, w_window_type = 0,
     w_wm_desktop = - 1, w_dock = W_NODOCK,
     w_urgent = \<lparr>tv_sec = 0, tv_usec = 0\<rparr>, w_reserved = \<lparr>res_left = 0, res_right = 0, res_top = 0, res_bottom = 0\<rparr>, w_depth = 24,
     w_base_width = 0, w_base_height = 0,
     w_width_increment = 0, w_height_increment = 0, w_min_width = 0, w_min_height = 0,
     w_max_width = 0, w_max_height = 0, w_min_aspect_ratio = 0, w_max_aspect_ratio = 0,
     w_shaped = False, w_input_shaped = False, w_managed_since = 0, w_swallowed = False\<rparr>"

definition blank :: con where
  "blank = skeleton sample_cfg None"

definition inner :: "con_type \<Rightarrow> string \<Rightarrow> con_id option \<Rightarrow> layout_t \<Rightarrow> con_id list \<Rightarrow> Rect \<Rightarrow> con" where
  "inner k n p l cs r = blank\<lparr>ctype := k, cname := n, parent := p, layout := l, nodes_head := cs,
     focus_head := cs, rect := r\<rparr>"

definition leaf :: "nat \<Rightarrow> string \<Rightarrow> con_id \<Rightarrow> real \<Rightarrow> Rect \<Rightarrow> con" where
  "leaf i n p pct r = blank\<lparr>window := Some (sample_window i n), cname := n, parent := Some p,
     percent := pct, rect := r, border_width := 0, current_border_width := 2\<rparr>"

definition sample_cons :: "con list" where
  "sample_cons =
    [inner CT_ROOT ''root'' None L_SPLITH [1, 2] (mk_rect 0 0 3200 1080),
     inner CT_OUTPUT ''eDP-1'' (Some 0) L_OUTPUT [3] (mk_rect 0 0 1920 1080),
     inner CT_OUTPUT ''HDMI-1'' (Some 0) L_OUTPUT [4] (mk_rect 1920 0 1280 1024),
     inner CT_CON ''content'' (Some 1) L_SPLITH [5, 6] (mk_rect 0 0 1920 1080),
     inner CT_CON ''content'' (Some 2) L_SPLITH [7, 8] (mk_rect 1920 0 1280 1024),
     (inner CT_WORKSPACE ''1'' (Some 3) L_SPLITH [9, 10] (mk_rect 0 0 1920 1080))
        \<lparr>num := 1, floating_head := [11], focus_head := [10, 9, 11]\<rparr>,
     (inner CT_WORKSPACE ''3:mail'' (Some 3) L_SPLITH [] (mk_rect 0 0 1920 1080))\<lparr>num := 3\<rparr>,
     (inner CT_WORKSPACE ''2'' (Some 4) L_SPLITH [15] (mk_rect 1920 0 1280 1024))
        \<lparr>num := 2, fullscreen_mode := CF_OUTPUT\<rparr>,
     (inner CT_WORKSPACE ''web'' (Some 4) L_SPLITH [] (mk_rect 1920 0 1280 1024))\<lparr>num := - 1\<rparr>,
     leaf 101 ''editor'' 5 (1 / 2) (mk_rect 0 0 960 1080),
     (inner CT_CON ''split'' (Some 5) L_SPLITV [12, 13] (mk_rect 960 0 960 1080))\<lparr>percent := 1 / 2\<rparr>,
     (inner CT_FLOATING_CON ''float'' (Some 5) L_SPLITH [14] (mk_rect 200 100 640 480)),
     (leaf 102 ''shell'' 10 (1 / 4) (mk_rect 960 0 960 270))\<lparr>marks_head := [''a'', ''b'']\<rparr>,
     (leaf 103 ''log'' 10 (3 / 4) (mk_rect 960 270 960 810))\<lparr>marks_head := [''c'']\<rparr>,
     (leaf 104 ''dialog'' 11 1 (mk_rect 200 100 640 480))\<lparr>floating := FLOATING_USER_ON\<rparr>,
     leaf 105 ''browser'' 7 1 (mk_rect 1920 0 1280 1024)]"

definition sample :: wm where
  "sample =
    \<lparr>store = (\<lambda>c. if c < 16 then sample_cons ! c else blank),
     all_cons = [0, 1, 2, 3, 4, 5, 6, 7, 8, 9, 10, 11, 12, 13, 14, 15], croot = 0,
     focused = Some 12, next_id = 16, cfg = sample_cfg,
     ws_assignments =
       [\<lparr>wa_name = ''3:mail'', wa_output = Some ''eDP-1'', wa_gaps = zero_gaps,
         wa_gaps_mask = \<lparr>m_inner = False, m_top = False, m_right = False, m_bottom = False, m_left = False\<rparr>\<rparr>],
     outputs =
       [\<lparr>o_key = 0, o_id = 0, o_active = True, o_changed = False, o_to_be_disabled = False,
         o_primary = True, o_names = [''eDP-1''], o_has_con = True, o_con = 1,
         o_rect = mk_rect 0 0 1920 1080\<rparr>,
        \<lparr>o_key = 1, o_id = 0, o_active = True, o_changed = False, o_to_be_disabled = False,
         o_primary = False, o_names = [''HDMI-1''], o_has_con = True, o_con = 2,
         o_rect = mk_rect 1920 0 1280 1024\<rparr>],
     previous_workspace_name = Some ''2'',
     scroll_anim = \<lparr>sa_con = None, sa_from = 0, sa_to = 0, sa_anim_id = 0\<rparr>, ipc_log = [],
     anim = \<lparr>an_initialized = True, an_now_ms = 0, an_slots = [], an_next_id = 1,
       an_fps = 60, an_timer_running = False, an_fence_wanted = False, an_render_wanted = False\<rparr>,
     curves = [], assignments = [], barconfigs = [], modes = [], current_binding_mode = ''default'',
     startup_sequences = [], root_output = None,
     wall_clock = \<lparr>tv_sec = 0, tv_usec = 0\<rparr>, binding_workspace_names = [''1'', ''2''], x_log = [],
     aborted = False\<rparr>"

lemma tree_okI:
  assumes "distinct (all_cons s)" and "\<forall>c \<in> set (all_cons s). c < next_id s"
    and "\<forall>c \<in> set (all_cons s). links_ok_at s c"
    and "\<forall>c \<in> set (all_cons s). \<forall>p. parent_of s c = Some p \<longrightarrow> p \<in> set (all_cons s) \<and> p < c"
  shows "tree_ok s"
proof -
  have "\<exists>r :: con_id \<Rightarrow> nat. \<forall>c \<in> set (all_cons s). \<forall>p. parent_of s c = Some p \<longrightarrow> r p < r c"
    using assms(4) by (intro exI [of _ "\<lambda>c. c"]) blast
  with assms show ?thesis by (simp add: tree_ok_def ids_ok_def links_ok_def parents_ok_def)
qed

lemmas sample_defs = sample_def sample_cons_def inner_def leaf_def blank_def skeleton_def sample_cfg_def

lemma sample_simps [simp]:
  "all_cons sample = [0, 1, 2, 3, 4, 5, 6, 7, 8, 9, 10, 11, 12, 13, 14, 15]"
  "croot sample = 0" "focused sample = Some 12" "next_id sample = 16" "cfg sample = sample_cfg"
  by (simp_all add: sample_def)

lemma sample_store:
  "store sample c = (if c < 16 then sample_cons ! c else blank)"
  by (simp add: sample_def)

lemma sample_con:
  assumes "c < 16"
  shows "store sample c = sample_cons ! c"
  using assms by (simp add: sample_def)

lemmas sample_eval = sample_con sample_cons_def inner_def leaf_def blank_def skeleton_def

lemma sample_tree_ok: "tree_ok sample"
proof (rule tree_okI)
  show "\<forall>c \<in> set (all_cons sample). links_ok_at sample c"
    by (simp add: links_ok_at_def sample_eval insert_commute)
  show "\<forall>c \<in> set (all_cons sample). \<forall>p. parent_of sample c = Some p \<longrightarrow> p \<in> set (all_cons sample) \<and> p < c"
    by (simp add: sample_eval)
qed simp_all

lemma sample_rooted: "rooted sample"
  unfolding rooted_def by (intro conjI sample_tree_ok) (simp_all add: sample_eval con_is_floating_def less_eq_floating_t_def)

lemma sample_focus_alive: "focus_alive sample"
  by (simp add: focus_alive_def)

end
