(* ===== verification/Commands_Parser.thy ===== *)
theory Commands_Parser
  imports Con_Marks
begin

text \<open>
  The command parser (\<^verbatim>\<open>src/commands_parser.c\<close>, \<^verbatim>\<open>src/parser_util.c\<close>) and the workspace names
  \<open>extract_workspace_names_from_bindings\<close> of \<^verbatim>\<open>src/workspace.c\<close> reads with its \<open>parse_string\<close>. The tables of tokens
  and the functions a token calls are generated from \<^verbatim>\<open>parser-specs\<close> at build time: they are
  parameters, and so is the state \<open>'cx\<close> the called functions work on. A string stands for the rest of
  the input from the current position, the empty string for its terminating NUL.
\<close>

subsection \<open>The stack of identified tokens\<close>

datatype stack_val = STACK_STR string | STACK_LONG int

type_synonym stack = "(string \<times> stack_val) list"

text \<open>The first entry with that identifier is extended, a new one goes to the end; \<^const>\<open>None\<close> is the
  exit of a full stack (or a number read as a string).\<close>

fun push_at :: "nat \<Rightarrow> string \<Rightarrow> string \<Rightarrow> stack \<Rightarrow> stack option" where
  "push_at 0 i str st = None"
| "push_at (Suc n) i str [] = Some [(i, STACK_STR str)]"
| "push_at (Suc n) i str ((j, v) # st) =
     (if j = i then
        (case v of STACK_STR prev \<Rightarrow> Some ((j, STACK_STR (prev @ CHR '','' # str)) # st) | STACK_LONG _ \<Rightarrow> None)
      else map_option (Cons (j, v)) (push_at n i str st))"

definition parser_push_string :: "string \<Rightarrow> string \<Rightarrow> stack \<Rightarrow> stack option" where
  "parser_push_string i str st = push_at 10 i str st"

definition parser_push_long :: "string \<Rightarrow> int \<Rightarrow> stack \<Rightarrow> stack option" where
  "parser_push_long i n st = (if length st < 10 then Some (st @ [(i, STACK_LONG n)]) else None)"

definition parser_get_string :: "stack \<Rightarrow> string \<Rightarrow> string option" where
  "parser_get_string st i =
     (case map_of st i of Some (STACK_STR str) \<Rightarrow> Some str | _ \<Rightarrow> None)"

definition parser_get_long :: "stack \<Rightarrow> string \<Rightarrow> int" where
  "parser_get_long st i = (case map_of st i of Some (STACK_LONG n) \<Rightarrow> n | _ \<Rightarrow> 0)"

subsection \<open>Strings\<close>

text \<open>Inside double quotes: what is skipped up to the closing quote or the end; a backslash takes the
  next character with it.\<close>

fun scan_quoted :: "string \<Rightarrow> string \<times> string" where
  "scan_quoted [] = ([], [])"
| "scan_quoted (c # cs) =
     (if c = CHR 0x22 then ([], c # cs)
      else if c = CHR 0x5C then
        (case cs of
           [] \<Rightarrow> ([c], [])
         | d # ds \<Rightarrow> (case scan_quoted ds of (raw, rest) \<Rightarrow> (c # d # raw, rest)))
      else (case scan_quoted cs of (raw, rest) \<Rightarrow> (c # raw, rest)))"

definition delimiter :: "bool \<Rightarrow> char \<Rightarrow> bool" where
  "delimiter as_word c \<longleftrightarrow>
     (if as_word then c \<in> {CHR '' '', CHR 0x09, CHR '']'', CHR '','', CHR '';'', CHR 0x0D, CHR 0x0A}
      else c \<in> {CHR '';'', CHR '','', CHR 0x0D, CHR 0x0A})"

text \<open>Copying with \<^verbatim>\<open>\"\<close> and \<^verbatim>\<open>\\\<close> unescaped.\<close>

fun unescape :: "string \<Rightarrow> string" where
  "unescape (c # d # cs) =
     (if c = CHR 0x5C \<and> (d = CHR 0x22 \<or> d = CHR 0x5C) then d # unescape cs else c # unescape (d # cs))"
| "unescape cs = cs"

text \<open>The string, if there is one, and the position after it. An empty quoted string is none, but the
  position has moved past its opening quote.\<close>

definition parse_string :: "bool \<Rightarrow> string \<Rightarrow> string option \<times> string" where
  "parse_string as_word walk =
     (case (if walk \<noteq> [] \<and> hd walk = CHR 0x22 then scan_quoted (tl walk)
            else (takeWhile (\<lambda>c. \<not> delimiter as_word c) walk, dropWhile (\<lambda>c. \<not> delimiter as_word c) walk)) of
        (raw, rest) \<Rightarrow> (if raw = [] then None else Some (unescape raw), rest))"

subsection \<open>The parser\<close>

datatype next_state = Goto nat | Call nat

record parse_token =
  tk_name :: string
  tk_identifier :: "string option"
  tk_next :: next_state

text \<open>\<open>call\<close> runs a command function on the stack and gives the next state (0 is \<open>INITIAL\<close>), whether
  the tree has to be rendered and the new state; \<open>criteria_init\<close> starts a new command.\<close>

record 'cx parser_tables =
  pt_tokens :: "nat \<Rightarrow> parse_token list"
  pt_call :: "nat \<Rightarrow> stack \<Rightarrow> 'cx \<Rightarrow> nat \<times> bool \<times> 'cx"
  pt_criteria_init :: "'cx \<Rightarrow> 'cx"

record 'cx parser_state =
  ps_state :: nat
  ps_stack :: stack
  ps_render :: bool
  ps_cx :: 'cx

definition next_state_of :: "'cx parser_tables \<Rightarrow> parse_token \<Rightarrow> 'cx parser_state \<Rightarrow> 'cx parser_state" where
  "next_state_of pt tok ps =
     (case tk_next tok of
        Call n \<Rightarrow>
          (case pt_call pt n (ps_stack ps) (ps_cx ps) of (st, render, cx) \<Rightarrow>
             ps\<lparr>ps_state := st, ps_stack := [], ps_render := ps_render ps \<or> render, ps_cx := cx\<rparr>)
      | Goto st \<Rightarrow> (if st = 0 then ps\<lparr>ps_state := st, ps_stack := []\<rparr> else ps\<lparr>ps_state := st\<rparr>))"

text \<open>What one token does at a position: it is handled (with the new position, \<^const>\<open>None\<close> behind the end
  of the input), not handled (the position may have moved), or the stack is full.\<close>

datatype 'cx token_result = Handled "string option" "'cx parser_state" | Skipped string | Stack_Full

definition pushed :: "'cx parser_tables \<Rightarrow> parse_token \<Rightarrow> string \<Rightarrow> 'cx parser_state \<Rightarrow> stack option \<Rightarrow> 'cx token_result" where
  "pushed pt tok walk ps st =
     (case st of None \<Rightarrow> Stack_Full | Some st \<Rightarrow> Handled (Some walk) (next_state_of pt tok (ps\<lparr>ps_stack := st\<rparr>)))"

definition push_named :: "(string \<Rightarrow> stack \<Rightarrow> stack option) \<Rightarrow> parse_token \<Rightarrow> stack \<Rightarrow> stack option" where
  "push_named push tok st = (case tk_identifier tok of None \<Rightarrow> Some st | Some i \<Rightarrow> push i st)"

definition try_token :: "'cx parser_tables \<Rightarrow> parse_token \<Rightarrow> string \<Rightarrow> 'cx parser_state \<Rightarrow> 'cx token_result" where
  "try_token pt tok walk ps =
     (let name = tk_name tok in
      if name \<noteq> [] \<and> hd name = CHR 0x27 then
        (if caseless_prefix walk (tl name)
         then pushed pt tok (drop (length (tl name)) walk) ps
                (push_named (\<lambda>i. parser_push_string i (tl name)) tok (ps_stack ps))
         else Skipped walk)
      else if name = ''number'' then
        (case strtoll_10 walk of
           None \<Rightarrow> Skipped walk
         | Some (n, erange) \<Rightarrow>
             if erange then Skipped walk
             else pushed pt tok (strtol_end walk) ps (push_named (\<lambda>i. parser_push_long i n) tok (ps_stack ps)))
      else if name = ''string'' \<or> name = ''word'' then
        (case parse_string (name \<noteq> ''string'') walk of
           (None, walk) \<Rightarrow> Skipped walk
         | (Some str, walk) \<Rightarrow>
             pushed pt tok (if walk \<noteq> [] \<and> hd walk = CHR 0x22 then tl walk else walk) ps
               (push_named (\<lambda>i. parser_push_string i str) tok (ps_stack ps)))
      else if name = ''end'' \<and> (walk = [] \<or> hd walk = CHR '','' \<or> hd walk = CHR '';'') then
        (let ps = next_state_of pt tok ps;
             ps = (if walk = [] \<or> hd walk = CHR '';'' then ps\<lparr>ps_cx := pt_criteria_init pt (ps_cx ps)\<rparr> else ps)
         in Handled (if walk = [] then None else Some (tl walk)) ps)
      else Skipped walk)"

fun try_tokens :: "'cx parser_tables \<Rightarrow> parse_token list \<Rightarrow> string \<Rightarrow> 'cx parser_state \<Rightarrow> 'cx token_result" where
  "try_tokens pt [] walk ps = Skipped walk"
| "try_tokens pt (tok # toks) walk ps =
     (case try_token pt tok walk ps of Skipped walk \<Rightarrow> try_tokens pt toks walk ps | r \<Rightarrow> r)"

definition token_text :: "parse_token \<Rightarrow> string" where
  "token_text tok =
     (if tk_name tok \<noteq> [] \<and> hd (tk_name tok) = CHR 0x27 then CHR 0x27 # tl (tk_name tok) @ [CHR 0x27]
      else CHR ''<'' # tk_name tok @ ''>'')"

fun join_comma :: "string list \<Rightarrow> string" where
  "join_comma [] = []"
| "join_comma [x] = x"
| "join_comma (x # xs) = x @ '', '' @ join_comma xs"

definition possible_tokens :: "parse_token list \<Rightarrow> string" where
  "possible_tokens toks = ''Expected one of these tokens: '' @ join_comma (map token_text toks)"

definition error_position :: "string \<Rightarrow> string \<Rightarrow> string" where
  "error_position input walk =
     (let n = length input - length walk in replicate n (CHR '' '') @ replicate (length walk) (CHR ''^''))"

datatype 'cx parse_result =
    Parsed "'cx parser_state"
  | Parse_Error string string "'cx parser_state"
  | Exit_Failure

definition c_blank :: "char \<Rightarrow> bool" where
  "c_blank c \<longleftrightarrow> c \<in> {CHR '' '', CHR 0x09, CHR 0x0D, CHR 0x0A}"

text \<open>The main loop; the first argument bounds its turns.\<close>

primrec parse_loop ::
  "nat \<Rightarrow> 'cx parser_tables \<Rightarrow> string \<Rightarrow> string option \<Rightarrow> 'cx parser_state \<Rightarrow> 'cx parse_result option" where
  "parse_loop 0 pt input pos ps = None"
| "parse_loop (Suc n) pt input pos ps =
     (case pos of
        None \<Rightarrow> Some (Parsed ps)
      | Some walk \<Rightarrow>
          let walk = dropWhile c_blank walk;
              toks = pt_tokens pt (ps_state ps)
          in (case try_tokens pt toks walk ps of
                Handled pos ps \<Rightarrow> parse_loop n pt input pos ps
              | Skipped walk \<Rightarrow> Some (Parse_Error (possible_tokens toks) (error_position input walk) ps)
              | Stack_Full \<Rightarrow> Some Exit_Failure))"

definition parse_command :: "'cx parser_tables \<Rightarrow> string \<Rightarrow> 'cx \<Rightarrow> 'cx parse_result option" where
  "parse_command pt input cx =
     parse_loop (length input + 2) pt input (Some input)
       \<lparr>ps_state = 0, ps_stack = [], ps_render = False, ps_cx = pt_criteria_init pt cx\<rparr>"

subsection \<open>The workspace names of the bindings\<close>

definition skip_blanks :: "string \<Rightarrow> string" where
  "skip_blanks = dropWhile (\<lambda>c. c = CHR '' '' \<or> c = CHR 0x09)"

definition skip_word :: "string \<Rightarrow> string \<Rightarrow> string" where
  "skip_word w target = (if caseless_prefix target w then skip_blanks (drop (length w) target) else target)"

definition workspace_name_of :: "string \<Rightarrow> string option" where
  "workspace_name_of cmd =
     (if length cmd < length ''workspace '' \<or> \<not> caseless_prefix cmd ''workspace'' then None
      else
        let target = skip_blanks (drop (length ''workspace '') cmd) in
        if \<exists>w \<in> set [''next'', ''prev'', ''next_on_output'', ''prev_on_output'', ''back_and_forth'', ''current''].
             caseless_prefix target w then None
        else
          (case fst (parse_string False (skip_word ''number'' (skip_word ''--no-auto-back-and-forth'' target))) of
             None \<Rightarrow> None
           | Some name \<Rightarrow> if caseless_prefix name ''__'' then None else Some name))"

definition extract_workspace_names_from_bindings :: "string list \<Rightarrow> string list" where
  "extract_workspace_names_from_bindings commands = List.map_filter workspace_name_of commands"

subsection \<open>Quoting is undone\<close>

definition escape :: "string \<Rightarrow> string" where
  "escape str = concat (map (\<lambda>c. if c = CHR 0x22 \<or> c = CHR 0x5C then [CHR 0x5C, c] else [c]) str)"

lemma escape_simps [simp]:
  "escape [] = []"
  "escape (c # cs) = (if c = CHR 0x22 \<or> c = CHR 0x5C then [CHR 0x5C, c] else [c]) @ escape cs"
  by (simp_all add: escape_def)

lemma scan_escaped: "scan_quoted (escape str @ CHR 0x22 # rest) = (escape str, CHR 0x22 # rest)"
  by (induction str) simp_all

lemma unescape_plain: "c \<noteq> CHR 0x5C \<Longrightarrow> unescape (c # cs) = c # unescape cs"
  by (cases cs) simp_all

lemma unescape_escape: "unescape (escape str) = str"
  by (induction str) (simp_all add: unescape_plain)

lemma parse_string_quoted:
  assumes "str \<noteq> []"
  shows "parse_string as_word (CHR 0x22 # escape str @ CHR 0x22 # rest) = (Some str, CHR 0x22 # rest)"
proof -
  have "escape str \<noteq> []" using assms by (cases str) auto
  then show ?thesis by (simp add: parse_string_def scan_escaped unescape_escape)
qed

subsection \<open>The parser ends\<close>

text \<open>Every handled token shortens the rest of the input when the literals of the tables are not empty.\<close>

definition literals_nonempty :: "'cx parser_tables \<Rightarrow> bool" where
  "literals_nonempty pt \<longleftrightarrow> (\<forall>n. \<forall>tok \<in> set (pt_tokens pt n). tk_name tok \<noteq> [CHR 0x27])"

definition rest_length :: "string option \<Rightarrow> nat" where
  "rest_length pos = (case pos of None \<Rightarrow> 0 | Some walk \<Rightarrow> Suc (length walk))"

lemma scan_quoted_length: "scan_quoted cs = (raw, rest) \<Longrightarrow> length raw + length rest = length cs"
  by (induction cs arbitrary: raw rest rule: scan_quoted.induct)
    (auto split: if_splits list.splits prod.splits)

lemma parse_string_length:
  assumes "parse_string w walk = (str, rest)"
  shows "length rest \<le> length walk" and "str \<noteq> None \<Longrightarrow> length rest < length walk"
proof -
  have "length rest \<le> length walk \<and> (str \<noteq> None \<longrightarrow> length rest < length walk)"
  proof (cases "walk \<noteq> [] \<and> hd walk = CHR 0x22")
    case True
    obtain raw r where s: "scan_quoted (tl walk) = (raw, r)" by fastforce
    then show ?thesis using assms True scan_quoted_length [OF s] by (cases walk) (auto simp: parse_string_def split: if_splits)
  next
    case False
    have "length (takeWhile P walk) + length (dropWhile P walk) = length walk" for P :: "char \<Rightarrow> bool"
      using takeWhile_dropWhile_id [of P walk] by (metis length_append)
    then show ?thesis using assms False
      by (auto simp: parse_string_def length_dropWhile_le split: if_splits)
        (metis length_greater_0_conv less_add_same_cancel2)
  qed
  then show "length rest \<le> length walk" "str \<noteq> None \<Longrightarrow> length rest < length walk" by blast+
qed

lemma strtol_end_length: "strtoll_10 walk = Some r \<Longrightarrow> length (strtol_end walk) < length walk"
proof -
  assume r: "strtoll_10 walk = Some r"
  let ?t = "dropWhile c_isspace walk"
  let ?u = "case ?t of c # r \<Rightarrow> if c = CHR ''-'' \<or> c = CHR ''+'' then r else ?t | [] \<Rightarrow> []"
  have ne: "takeWhile c_isdigit ?u \<noteq> []" using r by (auto simp: strtoll_10_def Let_def split: if_splits)
  have "length ?u \<le> length walk"
    using length_dropWhile_le [of c_isspace walk] by (auto split: list.splits)
  moreover have "length (takeWhile c_isdigit ?u) + length (dropWhile c_isdigit ?u) = length ?u"
    using takeWhile_dropWhile_id [of c_isdigit ?u] by (metis length_append)
  moreover have "strtol_end walk = dropWhile c_isdigit ?u" using ne by (simp add: strtol_end_def Let_def)
  ultimately show ?thesis using ne by (simp add: length_greater_0_conv [symmetric] del: length_greater_0_conv)
qed

lemma try_token_progress:
  assumes "tk_name tok \<noteq> [CHR 0x27]"
  shows "try_token pt tok walk ps = Handled pos ps' \<Longrightarrow> rest_length pos < Suc (length walk)"
    and "try_token pt tok walk ps = Skipped walk' \<Longrightarrow> length walk' \<le> length walk"
proof -
  have lit: "length (drop (length lit) walk) < length walk" if "caseless_prefix walk lit" "lit \<noteq> []" for lit
    using that by (cases lit) (auto simp: caseless_prefix_def)
  note L = parse_string_length strtol_end_length
  have tl: "tl (tk_name tok) \<noteq> []" if "tk_name tok \<noteq> []" "hd (tk_name tok) = CHR 0x27"
    using assms that by (cases "tk_name tok") auto
  show "rest_length pos < Suc (length walk)" if h: "try_token pt tok walk ps = Handled pos ps'"
    using h lit tl L(2) [of "tk_name tok \<noteq> ''string''" walk] L(3) [of walk]
    by (auto simp: try_token_def pushed_def rest_length_def Let_def split: if_splits option.splits prod.splits)
      (fastforce)+
  show "length walk' \<le> length walk" if h: "try_token pt tok walk ps = Skipped walk'"
    using h L(1) [of "tk_name tok \<noteq> ''string''" walk]
    by (auto simp: try_token_def pushed_def Let_def split: if_splits option.splits prod.splits)
qed

lemma try_tokens_progress:
  assumes "\<forall>tok \<in> set toks. tk_name tok \<noteq> [CHR 0x27]"
  shows "(try_tokens pt toks walk ps = Handled pos ps' \<longrightarrow> rest_length pos < Suc (length walk)) \<and>
    (try_tokens pt toks walk ps = Skipped walk' \<longrightarrow> length walk' \<le> length walk)"
  using assms
proof (induction toks arbitrary: walk)
  case (Cons tok toks)
  have t: "tk_name tok \<noteq> [CHR 0x27]" using Cons.prems by simp
  show ?case
  proof (cases "try_token pt tok walk ps")
    case (Skipped w)
    have "length w \<le> length walk" by (rule try_token_progress(2) [OF t Skipped])
    then show ?thesis using Cons.IH [of w] Cons.prems Skipped by force
  qed (use try_token_progress(1) [OF t] in auto)
qed simp

lemma parse_loop_ends:
  assumes "literals_nonempty pt" and "rest_length pos < n"
  shows "\<exists>r. parse_loop n pt input pos ps = Some r"
  using assms(2)
proof (induction n arbitrary: pos ps)
  case (Suc n)
  show ?case
  proof (cases pos)
    case (Some walk)
    let ?walk = "dropWhile c_blank walk" and ?toks = "pt_tokens pt (ps_state ps)"
    have toks: "\<forall>tok \<in> set ?toks. tk_name tok \<noteq> [CHR 0x27]" using assms(1) by (auto simp: literals_nonempty_def)
    show ?thesis
    proof (cases "try_tokens pt ?toks ?walk ps")
      case (Handled pos' ps')
      have "rest_length pos' < Suc (length ?walk)" using try_tokens_progress [OF toks] Handled by blast
      also have "\<dots> \<le> rest_length pos" by (simp add: Some rest_length_def length_dropWhile_le)
      finally show ?thesis using Suc.IH [of pos' ps'] Suc.prems Some Handled by simp
    qed (simp_all add: Some)
  qed simp
qed simp

text \<open>What a parse error reports.\<close>

lemma parse_loop_error:
  assumes "literals_nonempty pt" and "rest_length pos \<le> Suc (length input)"
    and "parse_loop n pt input pos ps = Some (Parse_Error msg carets ps')"
  shows "\<exists>walk. length walk \<le> length input \<and> carets = error_position input walk \<and>
    msg = possible_tokens (pt_tokens pt (ps_state ps')) \<and>
    (\<exists>start. try_tokens pt (pt_tokens pt (ps_state ps')) start ps' = Skipped walk)"
  using assms(2,3)
proof (induction n arbitrary: pos ps)
  case (Suc n)
  obtain walk where pos: "pos = Some walk" using Suc.prems(2) by (cases pos) auto
  let ?walk = "dropWhile c_blank walk" and ?toks = "pt_tokens pt (ps_state ps)"
  have toks: "\<forall>tok \<in> set ?toks. tk_name tok \<noteq> [CHR 0x27]" using assms(1) by (auto simp: literals_nonempty_def)
  have len: "length ?walk \<le> length input"
    using Suc.prems(1) length_dropWhile_le [of c_blank walk] by (simp add: pos rest_length_def)
  show ?case
  proof (cases "try_tokens pt ?toks ?walk ps")
    case (Handled pos' ps1)
    have "rest_length pos' \<le> Suc (length input)" using try_tokens_progress [OF toks] Handled len by fastforce
    then show ?thesis using Suc.IH Suc.prems(2) Handled by (simp add: pos)
  next
    case (Skipped w)
    have "length w \<le> length input" using try_tokens_progress [OF toks] Skipped len by fastforce
    then show ?thesis using Suc.prems(2) Skipped by (auto simp: pos)
  qed (use Suc.prems(2) in \<open>simp add: pos\<close>)
qed simp

end
