(* ===== verification/Matching.thy ===== *)
theory Matching
  imports Workspaces
begin

text \<open>
  Criteria and assignments: \<^verbatim>\<open>src/match.c\<close>, \<^verbatim>\<open>src/assignments.c\<close> and the interface of
  \<^verbatim>\<open>src/regex.c\<close>. The PCRE2 library is a parameter: which patterns compile and what they match; the
  numbers the X server gives to the atoms are another.
\<close>

record regex_lib =
  rx_compiles :: "string \<Rightarrow> bool"
  rx_matches :: "string \<Rightarrow> string \<Rightarrow> bool"

definition regex_new :: "regex_lib \<Rightarrow> string \<Rightarrow> regex option" where
  "regex_new rx pat = (if rx_compiles rx pat then Some \<lparr>pattern = pat\<rparr> else None)"

definition regex_matches :: "regex_lib \<Rightarrow> regex \<Rightarrow> string \<Rightarrow> bool" where
  "regex_matches rx re str \<longleftrightarrow> rx_matches rx (pattern re) str"

subsection \<open>Numbers with a base prefix\<close>

text \<open>\<open>parse_long\<close> with base 0: \<open>0x\<close> is hexadecimal, a leading \<open>0\<close> octal.\<close>

definition digit_in :: "int \<Rightarrow> char \<Rightarrow> int option" where
  "digit_in base c =
     (let n = of_char c :: int;
          v = (if 48 \<le> n \<and> n \<le> 57 then n - 48
               else if 97 \<le> n \<and> n \<le> 122 then n - 87
               else if 65 \<le> n \<and> n \<le> 90 then n - 55 else 36)
      in if v < base then Some v else None)"

fun value_in :: "int \<Rightarrow> int \<Rightarrow> string \<Rightarrow> int" where
  "value_in base acc [] = acc"
| "value_in base acc (c # cs) =
     (case digit_in base c of None \<Rightarrow> acc | Some v \<Rightarrow> value_in base (base * acc + v) cs)"

definition number_base :: "string \<Rightarrow> int \<times> string" where
  "number_base u =
     (case u of
        z # rest \<Rightarrow>
          if z \<noteq> CHR ''0'' then (10, u)
          else (case rest of
              x # d # _ \<Rightarrow> if (x = CHR ''x'' \<or> x = CHR ''X'') \<and> digit_in 16 d \<noteq> None then (16, tl rest) else (8, u)
            | _ \<Rightarrow> (8, u))
      | [] \<Rightarrow> (10, u))"

definition strtol_0 :: "string \<Rightarrow> int \<times> string" where
  "strtol_0 str =
     (let t = dropWhile c_isspace str;
          neg = (case t of c # _ \<Rightarrow> c = CHR ''-'' | [] \<Rightarrow> False);
          u = (case t of c # r \<Rightarrow> if c = CHR ''-'' \<or> c = CHR ''+'' then r else t | [] \<Rightarrow> []);
          (base, body) = number_base u;
          ds = takeWhile (\<lambda>c. digit_in base c \<noteq> None) body;
          v = (if neg then - value_in base 0 ds else value_in base 0 ds)
      in if ds = [] then (0, str)
         else (if v > 2 ^ 63 - 1 then 2 ^ 63 - 1 else if v < - (2 ^ 63) then - (2 ^ 63) else v,
               drop (length ds) body))"

definition parse_long_0 :: "string \<Rightarrow> int option" where
  "parse_long_0 str =
     (case strtol_0 str of (v, rest) \<Rightarrow>
        if v = - (2 ^ 63) \<or> v = 2 ^ 63 - 1 \<or> v < 0 \<or> rest \<noteq> [] then None else Some v)"

subsection \<open>Matches\<close>

text \<open>\<open>memset\<close> leaves \<open>M_NODOCK\<close>, the value 0, in the dock field.\<close>

definition match_init :: Match where
  "match_init =
     \<lparr>ma_error = None, ma_title = None, ma_application = None, ma_class = None, ma_instance = None,
      ma_mark = None, ma_window_role = None, ma_workspace = None, ma_machine = None,
      ma_window_type = - 1, ma_urgent = U_DONTCHECK, ma_dock = M_NODOCK, ma_id = 0,
      ma_window_mode = WM_ANY, ma_con_id = None, ma_match_all_windows = False, ma_insert_where = M_HERE,
      ma_restart_mode = False\<rparr>"

definition match_is_empty :: "Match \<Rightarrow> bool" where
  "match_is_empty m \<longleftrightarrow> ma_title m = None \<and> ma_mark m = None \<and> ma_application m = None \<and> ma_class m = None \<and>
     ma_instance m = None \<and> ma_window_role m = None \<and> ma_workspace m = None \<and> ma_machine m = None \<and>
     ma_urgent m = U_DONTCHECK \<and> ma_id m = 0 \<and> ma_window_type m = - 1 \<and> ma_con_id m = None \<and>
     ma_dock m = M_NODOCK \<and> ma_window_mode m = WM_ANY \<and> \<not> ma_match_all_windows m"

text \<open>\<open>match_copy\<close> compiles each pattern again.\<close>

definition match_copy :: "regex_lib \<Rightarrow> Match \<Rightarrow> Match" where
  "match_copy rx m =
     (let dup = (\<lambda>re. Option.bind re (\<lambda>r. regex_new rx (pattern r)))
      in m\<lparr>ma_title := dup (ma_title m), ma_mark := dup (ma_mark m), ma_application := dup (ma_application m),
           ma_class := dup (ma_class m), ma_instance := dup (ma_instance m),
           ma_window_role := dup (ma_window_role m), ma_workspace := dup (ma_workspace m),
           ma_machine := dup (ma_machine m)\<rparr>)"

definition window_type_of :: "(string \<Rightarrow> u32) \<Rightarrow> string \<Rightarrow> u32 option" where
  "window_type_of atom v =
     map_option (\<lambda>(_, name). atom name)
       (find (\<lambda>(k, _). caseless_eq v k)
         [(''normal'', ''_NET_WM_WINDOW_TYPE_NORMAL''), (''dialog'', ''_NET_WM_WINDOW_TYPE_DIALOG''),
          (''utility'', ''_NET_WM_WINDOW_TYPE_UTILITY''), (''toolbar'', ''_NET_WM_WINDOW_TYPE_TOOLBAR''),
          (''splash'', ''_NET_WM_WINDOW_TYPE_SPLASH''), (''menu'', ''_NET_WM_WINDOW_TYPE_MENU''),
          (''dropdown_menu'', ''_NET_WM_WINDOW_TYPE_DROPDOWN_MENU''),
          (''popup_menu'', ''_NET_WM_WINDOW_TYPE_POPUP_MENU''), (''tooltip'', ''_NET_WM_WINDOW_TYPE_TOOLTIP''),
          (''notification'', ''_NET_WM_WINDOW_TYPE_NOTIFICATION'')])"

text \<open>A criterion and its value. A value of \<open>NULL\<close> comes with the criteria that have none; the grammar
  gives the others one, so it is the empty string here. Container ids are pointers: numbers modulo
  \<open>2 ^ 64\<close>, 0 is NULL.\<close>

definition match_parse_property :: "regex_lib \<Rightarrow> (string \<Rightarrow> u32) \<Rightarrow> wm \<Rightarrow> string \<Rightarrow> string \<Rightarrow> Match \<Rightarrow> Match" where
  "match_parse_property rx atom s ctyp v m =
     (if ctyp = ''class'' then m\<lparr>ma_class := regex_new rx v\<rparr>
      else if ctyp = ''instance'' then m\<lparr>ma_instance := regex_new rx v\<rparr>
      else if ctyp = ''window_role'' then m\<lparr>ma_window_role := regex_new rx v\<rparr>
      else if ctyp = ''con_id'' then
        (if v = ''__focused__'' then m\<lparr>ma_con_id := focused s\<rparr>
         else (case parse_long_0 v of
             None \<Rightarrow> m\<lparr>ma_error := Some ''invalid con_id''\<rparr>
           | Some n \<Rightarrow> m\<lparr>ma_con_id := (if n = 0 then None else Some (nat n))\<rparr>))
      else if ctyp = ''id'' then
        (case parse_long_0 v of
           None \<Rightarrow> m\<lparr>ma_error := Some ''invalid id''\<rparr>
         | Some n \<Rightarrow> m\<lparr>ma_id := word_of_int n\<rparr>)
      else if ctyp = ''window_type'' then
        (case window_type_of atom v of
           None \<Rightarrow> m\<lparr>ma_error := Some ''unknown window_type value''\<rparr>
         | Some t \<Rightarrow> m\<lparr>ma_window_type := t\<rparr>)
      else if ctyp = ''con_mark'' then m\<lparr>ma_mark := regex_new rx v\<rparr>
      else if ctyp = ''title'' then m\<lparr>ma_title := regex_new rx v\<rparr>
      else if ctyp = ''urgent'' then
        (if caseless_eq v ''latest'' \<or> caseless_eq v ''newest'' \<or> caseless_eq v ''recent'' \<or> caseless_eq v ''last''
         then m\<lparr>ma_urgent := U_LATEST\<rparr>
         else if caseless_eq v ''oldest'' \<or> caseless_eq v ''first'' then m\<lparr>ma_urgent := U_OLDEST\<rparr>
         else m)
      else if ctyp = ''workspace'' then m\<lparr>ma_workspace := regex_new rx v\<rparr>
      else if ctyp = ''machine'' then m\<lparr>ma_machine := regex_new rx v\<rparr>
      else if ctyp = ''tiling'' then m\<lparr>ma_window_mode := WM_TILING\<rparr>
      else if ctyp = ''tiling_from'' \<and> v = ''auto'' then m\<lparr>ma_window_mode := WM_TILING_AUTO\<rparr>
      else if ctyp = ''tiling_from'' \<and> v = ''user'' then m\<lparr>ma_window_mode := WM_TILING_USER\<rparr>
      else if ctyp = ''floating'' then m\<lparr>ma_window_mode := WM_FLOATING\<rparr>
      else if ctyp = ''floating_from'' \<and> v = ''auto'' then m\<lparr>ma_window_mode := WM_FLOATING_AUTO\<rparr>
      else if ctyp = ''floating_from'' \<and> v = ''user'' then m\<lparr>ma_window_mode := WM_FLOATING_USER\<rparr>
      else if ctyp = ''all'' then m\<lparr>ma_match_all_windows := True\<rparr>
      else m)"

subsection \<open>Matching a window\<close>

definition field_text :: "string option \<Rightarrow> string" where
  "field_text f = (case f of None \<Rightarrow> [] | Some str \<Rightarrow> str)"

definition check_field :: "regex_lib \<Rightarrow> wm \<Rightarrow> regex option \<Rightarrow> (i3Window \<Rightarrow> string option) \<Rightarrow> i3Window \<Rightarrow> bool" where
  "check_field rx s criterion get w \<longleftrightarrow>
     (case criterion of
        None \<Rightarrow> True
      | Some re \<Rightarrow>
          pattern re = ''__focused__'' \<and>
            Option.bind (Option.bind (focused s) (\<lambda>f. window (store s f))) get = Some (field_text (get w)) \<or>
          regex_matches rx re (field_text (get w)))"

definition newer :: "timeval \<Rightarrow> timeval \<Rightarrow> bool" where
  "newer a b \<longleftrightarrow> (if tv_sec a = tv_sec b then tv_usec a > tv_usec b else tv_sec a > tv_sec b)"

definition urgent_matches :: "wm \<Rightarrow> Match \<Rightarrow> i3Window \<Rightarrow> bool" where
  "urgent_matches s m w \<longleftrightarrow>
     (case ma_urgent m of
        U_LATEST \<Rightarrow> tv_sec (w_urgent w) \<noteq> 0 \<and>
          (\<forall>c \<in> set (all_cons s). case window (store s c) of None \<Rightarrow> True | Some v \<Rightarrow> \<not> newer (w_urgent v) (w_urgent w))
      | U_OLDEST \<Rightarrow> tv_sec (w_urgent w) \<noteq> 0 \<and>
          (\<forall>c \<in> set (all_cons s). case window (store s c) of
             None \<Rightarrow> True | Some v \<Rightarrow> tv_sec (w_urgent v) = 0 \<or> \<not> newer (w_urgent w) (w_urgent v))
      | _ \<Rightarrow> True)"

text \<open>\<^const>\<open>None\<close>: the workspace of the focus is NULL and its name read.\<close>

definition workspace_matches :: "regex_lib \<Rightarrow> wm \<Rightarrow> Match \<Rightarrow> i3Window \<Rightarrow> bool option" where
  "workspace_matches rx s m w =
     (case ma_workspace m of
        None \<Rightarrow> Some True
      | Some re \<Rightarrow>
          (case Option.bind (con_by_window_id s (w_id w)) (con_get_workspace s) of
             None \<Rightarrow> Some False
           | Some ws \<Rightarrow>
               if pattern re = ''__focused__'' then
                 map_option (\<lambda>fws. cname (store s ws) = cname (store s fws) \<or> regex_matches rx re (cname (store s ws)))
                   (Option.bind (focused s) (con_get_workspace s))
               else Some (regex_matches rx re (cname (store s ws)))))"

definition dock_matches :: "Match \<Rightarrow> i3Window \<Rightarrow> bool" where
  "dock_matches m w \<longleftrightarrow>
     (case ma_dock m of
        M_DONTCHECK \<Rightarrow> True
      | M_DOCK_TOP \<Rightarrow> w_dock w = W_DOCK_TOP
      | M_DOCK_BOTTOM \<Rightarrow> w_dock w = W_DOCK_BOTTOM
      | M_DOCK_ANY \<Rightarrow> w_dock w = W_DOCK_TOP \<or> w_dock w = W_DOCK_BOTTOM
      | M_NODOCK \<Rightarrow> w_dock w = W_NODOCK)"

definition mark_matches :: "regex_lib \<Rightarrow> wm \<Rightarrow> Match \<Rightarrow> i3Window \<Rightarrow> bool" where
  "mark_matches rx s m w \<longleftrightarrow>
     (case ma_mark m of
        None \<Rightarrow> True
      | Some re \<Rightarrow>
          (case con_by_window_id s (w_id w) of
             None \<Rightarrow> False
           | Some c \<Rightarrow> list_ex (regex_matches rx re) (marks_head (store s c))))"

definition mode_matches :: "wm \<Rightarrow> Match \<Rightarrow> i3Window \<Rightarrow> bool" where
  "mode_matches s m w \<longleftrightarrow>
     ma_window_mode m = WM_ANY \<or>
     (case con_by_window_id s (w_id w) of
        None \<Rightarrow> False
      | Some c \<Rightarrow>
          (case ma_window_mode m of
             WM_TILING_AUTO \<Rightarrow> floating (store s c) = FLOATING_AUTO_OFF
           | WM_TILING_USER \<Rightarrow> floating (store s c) = FLOATING_USER_OFF
           | WM_TILING \<Rightarrow> con_inside_floating s c = None
           | WM_FLOATING_AUTO \<Rightarrow> floating (store s c) = FLOATING_AUTO_ON
           | WM_FLOATING_USER \<Rightarrow> floating (store s c) = FLOATING_USER_ON
           | WM_FLOATING \<Rightarrow> con_inside_floating s c \<noteq> None
           | WM_ANY \<Rightarrow> True))"

definition match_matches_window :: "regex_lib \<Rightarrow> wm \<Rightarrow> Match \<Rightarrow> i3Window \<Rightarrow> bool option" where
  "match_matches_window rx s m w =
     (if \<not> check_field rx s (ma_class m) w_class_class w then Some False
      else if \<not> check_field rx s (ma_instance m) w_class_instance w then Some False
      else if ma_id m \<noteq> 0 \<and> w_id w \<noteq> ma_id m then Some False
      else if \<not> check_field rx s (ma_title m) w_name w then Some False
      else if \<not> check_field rx s (ma_window_role m) w_role w then Some False
      else if ma_window_type m \<noteq> - 1 \<and> w_window_type w \<noteq> ma_window_type m then Some False
      else if \<not> check_field rx s (ma_machine m) w_machine w then Some False
      else if \<not> urgent_matches s m w then Some False
      else (case workspace_matches rx s m w of
          None \<Rightarrow> None
        | Some ok \<Rightarrow> Some (ok \<and> dock_matches m w \<and> mark_matches rx s m w \<and> mode_matches s m w)))"

subsection \<open>Assignments\<close>

definition assignment_for ::
  "regex_lib \<Rightarrow> wm \<Rightarrow> i3Window \<Rightarrow> assignment_t list \<Rightarrow> Assignment option option" where
  "assignment_for rx s w types =
     fold (\<lambda>a found. case found of
         None \<Rightarrow> None
       | Some (Some f) \<Rightarrow> Some (Some f)
       | Some None \<Rightarrow>
           if types \<noteq> [] \<and> asg_type a \<notin> set types then Some None
           else map_option (\<lambda>ok. if ok then Some a else None) (match_matches_window rx s (asg_match a) w))
       (assignments s) (Some None)"

text \<open>The window record is shared by pointer: an update reaches the container that has the window.\<close>

definition upd_window :: "u32 \<Rightarrow> (i3Window \<Rightarrow> i3Window) \<Rightarrow> wm \<Rightarrow> wm" where
  "upd_window wid f s =
     (case con_by_window_id s wid of
        None \<Rightarrow> s
      | Some c \<Rightarrow> upd_con c (\<lambda>k. k\<lparr>window := map_option f (window k)\<rparr>) s)"

definition current_window :: "wm \<Rightarrow> i3Window \<Rightarrow> i3Window" where
  "current_window s w =
     (case Option.bind (con_by_window_id s (w_id w)) (\<lambda>c. window (store s c)) of None \<Rightarrow> w | Some v \<Rightarrow> v)"

definition print_int :: "int \<Rightarrow> string" where
  "print_int n = (if n < 0 then CHR ''-'' # print_nat (nat (- n)) else print_nat (nat n))"

text \<open>The loop of \<open>run_assignments\<close>. \<open>parse_command\<close> is a parameter: it says whether the tree has to be
  rendered. The loop stops when a command has replaced the assignments.\<close>

definition first_assignment :: "wm \<Rightarrow> nat option" where
  "first_assignment s = map_option asg_id (case assignments s of [] \<Rightarrow> None | a # _ \<Rightarrow> Some a)"

fun run_matching ::
  "regex_lib \<Rightarrow> (string \<Rightarrow> wm \<Rightarrow> bool \<times> wm) \<Rightarrow> nat option \<Rightarrow> i3Window \<Rightarrow> Assignment list \<Rightarrow> bool \<times> wm \<Rightarrow> bool \<times> wm" where
  "run_matching rx parse_command old_first w [] (render, s) = (render, s)"
| "run_matching rx parse_command old_first w (a # as) (render, s) =
     (let v = current_window s w in
      if asg_type a \<noteq> A_COMMAND then run_matching rx parse_command old_first w as (render, s)
      else (case match_matches_window rx s (asg_match a) v of
          None \<Rightarrow> (render, abort s)
        | Some False \<Rightarrow> run_matching rx parse_command old_first w as (render, s)
        | Some True \<Rightarrow>
            if asg_id a \<in> set (w_ran_assignments v) then run_matching rx parse_command old_first w as (render, s)
            else
              let s = upd_window (w_id w) (\<lambda>x. x\<lparr>w_nr_assignments := w_nr_assignments x + 1,
                        w_ran_assignments := w_ran_assignments x @ [asg_id a]\<rparr>) s
              in (case parse_command (''[id='' @ [CHR 0x22] @ print_int (sint (w_id w)) @ [CHR 0x22] @ ''] '' @ asg_dest a) s of
                    (r, s) \<Rightarrow>
                      if first_assignment s \<noteq> old_first then (render \<or> r, s)
                      else run_matching rx parse_command old_first w as (render \<or> r, s))))"

definition run_assignments :: "regex_lib \<Rightarrow> (string \<Rightarrow> wm \<Rightarrow> bool \<times> wm) \<Rightarrow> i3Window option \<Rightarrow> wm \<Rightarrow> wm" where
  "run_assignments rx parse_command win s =
     (case win of
        None \<Rightarrow> s
      | Some w \<Rightarrow>
          (case run_matching rx parse_command (first_assignment s) w (assignments s) (False, s) of
             (render, s) \<Rightarrow> if render then tree_render s else s))"

end
