(* ===== verification/Bindings.thy ===== *)
theory Bindings
  imports Con_Marks
begin

unbundle bit_operations_syntax

text \<open>
  Key and mouse bindings (\<^verbatim>\<open>src/bindings.c\<close>, \<open>event_state_from_str\<close> of \<^verbatim>\<open>src/config_directives.c\<close>): adding
  bindings, ordering them, translating symbols to keycodes, finding the binding of an event, binding
  modes. libxkbcommon is the parameter \<open>xkb_lib\<close>; \<open>numlock\<close> is \<open>xcb_numlock_mask\<close>. Grabbing the keys
  at the X server is left out, the list of what is grabbed is modelled.
\<close>

subsection \<open>Modifiers\<close>

definition MOD_SHIFT :: u32 where "MOD_SHIFT = 1"
definition MOD_LOCK :: u32 where "MOD_LOCK = 2"
definition MOD_CONTROL :: u32 where "MOD_CONTROL = 4"
definition MOD_1 :: u32 where "MOD_1 = 8"
definition MOD_2 :: u32 where "MOD_2 = 16"
definition MOD_3 :: u32 where "MOD_3 = 32"
definition MOD_4 :: u32 where "MOD_4 = 64"
definition MOD_5 :: u32 where "MOD_5 = 128"

text \<open>\<open>I3_XKB_GROUP_MASK_1\<close> and so on, already in the upper half of an event state.\<close>

definition group_mask :: "nat \<Rightarrow> u32" where
  "group_mask n = push_bit (16 + n) 1"

fun str_contains :: "string \<Rightarrow> string \<Rightarrow> bool" where
  "str_contains [] needle \<longleftrightarrow> needle = []"
| "str_contains (c # cs) needle \<longleftrightarrow> take (length needle) (c # cs) = needle \<or> str_contains cs needle"

definition modifier_names :: "(string \<times> u32) list" where
  "modifier_names =
     [(''Mod1'', MOD_1), (''Mod2'', MOD_2), (''Mod3'', MOD_3), (''Mod4'', MOD_4), (''Mod5'', MOD_5),
      (''Control'', MOD_CONTROL), (''Ctrl'', MOD_CONTROL), (''Shift'', MOD_SHIFT),
      (''Group1'', group_mask 0), (''Group2'', group_mask 1), (''Mode_switch'', group_mask 1),
      (''Group3'', group_mask 2), (''Group4'', group_mask 3)]"

definition event_state_from_str :: "string option \<Rightarrow> u32" where
  "event_state_from_str str =
     (case str of
        None \<Rightarrow> 0
      | Some t \<Rightarrow> fold (\<lambda>(name, bits) r. if str_contains t name then r OR bits else r) modifier_names 0)"

definition low_half :: "u32 \<Rightarrow> u32" where
  "low_half m = m AND 0xFFFF"

definition high_half :: "u32 \<Rightarrow> u32" where
  "high_half m = m AND 0xFFFF0000"

subsection \<open>Adding bindings\<close>

text \<open>\<open>mode_from_name\<close> puts a new mode at the head of the list; adding a binding changes the first mode of
  that name.\<close>

fun upd_mode :: "string \<Rightarrow> (Mode \<Rightarrow> Mode) \<Rightarrow> Mode list \<Rightarrow> Mode list" where
  "upd_mode name f [] = []"
| "upd_mode name f (m # ms) = (if md_name m = name then f m # ms else m # upd_mode name f ms)"

definition mode_from_name :: "string \<Rightarrow> bool \<Rightarrow> Mode list \<Rightarrow> Mode list" where
  "mode_from_name name pango ms =
     (if list_ex (\<lambda>m. md_name m = name) ms then ms
      else \<lparr>md_name = name, md_pango_markup = pango, md_bindings = []\<rparr> # ms)"

record binding_spec =
  bs_type :: string
  bs_modifiers :: "string option"
  bs_input_code :: string
  bs_release :: bool
  bs_border :: bool
  bs_whole_window :: bool
  bs_exclude_titlebar :: bool
  bs_command :: string

text \<open>The binding of a line of the configuration, \<^const>\<open>None\<close> for an input code that is no number.\<close>

definition binding_from_spec :: "binding_spec \<Rightarrow> Binding option" where
  "binding_from_spec b =
     (let new = \<lparr>bd_input_type = B_KEYBOARD,
                 bd_release = (if bs_release b then B_UPON_KEYRELEASE else B_UPON_KEYPRESS),
                 bd_border = bs_border b, bd_whole_window = bs_whole_window b,
                 bd_exclude_titlebar = bs_exclude_titlebar b, bd_keycode = 0,
                 bd_event_state_mask = event_state_from_str (bs_modifiers b), bd_symbol = None,
                 bd_keycodes = [], bd_command = bs_command b\<rparr>
      in if bs_type b = ''bindsym'' then
           Some (new\<lparr>bd_input_type := (if caseless_prefix (bs_input_code b) ''button'' then B_MOUSE else B_KEYBOARD),
                     bd_symbol := Some (bs_input_code b)\<rparr>)
         else (case parse_long (bs_input_code b) of
             (True, n) \<Rightarrow> Some (new\<lparr>bd_keycode := word_of_int n\<rparr>)
           | (False, _) \<Rightarrow> None))"

definition configure_binding :: "binding_spec \<Rightarrow> string \<Rightarrow> bool \<Rightarrow> wm \<Rightarrow> wm" where
  "configure_binding b modename pango s =
     (case binding_from_spec b of
        None \<Rightarrow> s
      | Some new \<Rightarrow> s\<lparr>modes := upd_mode modename (\<lambda>m. m\<lparr>md_bindings := md_bindings m @ [new]\<rparr>)
                              (mode_from_name modename pango (modes s))\<rparr>)"

text \<open>\<open>bindings\<close> points to the list of the current mode.\<close>

definition current_bindings :: "wm \<Rightarrow> Binding list" where
  "current_bindings s =
     (case find (\<lambda>m. md_name m = current_binding_mode s) (modes s) of None \<Rightarrow> [] | Some m \<Rightarrow> md_bindings m)"

definition set_bindings :: "Binding list \<Rightarrow> wm \<Rightarrow> wm" where
  "set_bindings bs s = s\<lparr>modes := upd_mode (current_binding_mode s) (\<lambda>m. m\<lparr>md_bindings := bs\<rparr>) (modes s)\<rparr>"

subsection \<open>What to grab\<close>

definition binding_in_current_group :: "nat \<Rightarrow> Binding \<Rightarrow> bool" where
  "binding_in_current_group grp b \<longleftrightarrow>
     high_half (bd_event_state_mask b) = 0 \<or> grp < 4 \<and> bd_event_state_mask b AND group_mask grp \<noteq> 0"

definition grab_keycode_for_binding :: "u32 \<Rightarrow> Binding \<Rightarrow> u32 \<Rightarrow> (u32 \<times> u32) list" where
  "grab_keycode_for_binding numlock b keycode =
     (let mods = low_half (bd_event_state_mask b)
      in map (\<lambda>m. (keycode, m)) [mods, mods OR numlock, mods OR MOD_LOCK, mods OR numlock OR MOD_LOCK])"

definition grab_all_keys :: "u32 \<Rightarrow> nat \<Rightarrow> Binding list \<Rightarrow> (u32 \<times> u32) list" where
  "grab_all_keys numlock grp bs =
     concat (map (\<lambda>b.
       if bd_input_type b \<noteq> B_KEYBOARD \<or> \<not> binding_in_current_group grp b then []
       else if bd_keycode b > 0 then grab_keycode_for_binding numlock b (bd_keycode b)
       else map (\<lambda>k. (ucast (bk_keycode k), low_half (bk_modifiers k))) (bd_keycodes b)) bs)"

text \<open>The buttons: at most 24, then a terminating 0.\<close>

definition button_of :: "Binding \<Rightarrow> bool \<times> int" where
  "button_of b = parse_long (drop (length ''button'') (case bd_symbol b of None \<Rightarrow> [] | Some t \<Rightarrow> t))"

fun collect_buttons :: "Binding list \<Rightarrow> int list \<Rightarrow> int list" where
  "collect_buttons [] buf = buf"
| "collect_buttons (b # bs) buf =
     (if length buf + 1 = 25 then buf
      else if bd_input_type b \<noteq> B_MOUSE \<or> \<not> bd_whole_window b then collect_buttons bs buf
      else (case button_of b of
          (False, _) \<Rightarrow> collect_buttons bs buf
        | (True, n) \<Rightarrow> collect_buttons bs (if n \<in> set buf then buf else buf @ [n])))"

definition bindings_get_buttons_to_grab :: "Binding list \<Rightarrow> int list" where
  "bindings_get_buttons_to_grab bs = collect_buttons bs [1, 2, 3] @ [0]"

subsection \<open>Finding the binding of an event\<close>

definition reset_release :: "Binding \<Rightarrow> Binding" where
  "reset_release b =
     (if bd_release b = B_UPON_KEYRELEASE_IGNORE_MODS then b\<lparr>bd_release := B_UPON_KEYRELEASE\<rparr> else b)"

definition mods_accepted :: "u32 \<Rightarrow> bool \<Rightarrow> Binding \<Rightarrow> Binding_Keycode \<Rightarrow> bool" where
  "mods_accepted state is_release b k \<longleftrightarrow>
     low_half (bk_modifiers k) = low_half state \<or>
     bd_release b = B_UPON_KEYRELEASE_IGNORE_MODS \<and> is_release"

definition binding_applies :: "u32 \<Rightarrow> bool \<Rightarrow> 16 word \<Rightarrow> input_type_t \<Rightarrow> Binding \<Rightarrow> bool" where
  "binding_applies state is_release code input_type b \<longleftrightarrow>
     bd_input_type b = input_type \<and>
     high_half state AND high_half (bd_event_state_mask b) = high_half (bd_event_state_mask b) \<and>
     (if input_type = B_KEYBOARD \<and> bd_symbol b \<noteq> None
      then list_ex (\<lambda>k. bk_keycode k = ucast code \<and> mods_accepted state is_release b k) (bd_keycodes b)
      else bd_keycode b = ucast code \<and> list_ex (mods_accepted state is_release b) (bd_keycodes b))"

text \<open>The loop: the bindings with their marks for the release of the key, and the result.\<close>

fun find_binding ::
  "u32 \<Rightarrow> bool \<Rightarrow> 16 word \<Rightarrow> input_type_t \<Rightarrow> Binding option \<Rightarrow> Binding list \<Rightarrow> Binding list \<times> Binding option" where
  "find_binding state rel code it result [] = ([], result)"
| "find_binding state rel code it result (b # bs) =
     (if \<not> binding_applies state rel code it b then
        (case find_binding state rel code it result bs of (bs, r) \<Rightarrow> (b # bs, r))
      else if bd_release b = B_UPON_KEYRELEASE \<and> \<not> rel then
        (let b = b\<lparr>bd_release := B_UPON_KEYRELEASE_IGNORE_MODS\<rparr> in
         if result \<noteq> None then (b # bs, result)
         else (case find_binding state rel code it result bs of (bs, r) \<Rightarrow> (b # bs, r)))
      else if bd_release b = B_UPON_KEYPRESS \<and> rel then
        (case find_binding state rel code it result bs of (bs, r) \<Rightarrow> (b # bs, r))
      else if rel then (b # bs, Some b)
      else (case find_binding state rel code it (if result = None then Some b else result) bs of
          (bs, r) \<Rightarrow> (b # bs, r)))"

definition get_binding ::
  "u32 \<Rightarrow> bool \<Rightarrow> 16 word \<Rightarrow> input_type_t \<Rightarrow> Binding list \<Rightarrow> Binding list \<times> Binding option" where
  "get_binding state is_release code input_type bs =
     (let bs = (if is_release then bs
                else map (\<lambda>b. if bd_input_type b = input_type then reset_release b else b) bs)
      in find_binding state is_release code input_type None bs)"

text \<open>The state of an event: without CapsLock, the keyboard group of bits 13 and 14 as a group mask.\<close>

definition filtered_state :: "16 word \<Rightarrow> u32" where
  "filtered_state event_state =
     (let st = ucast event_state AND NOT MOD_LOCK :: u32;
          st = st OR group_mask (unat (drop_bit 13 (event_state AND 0x6000)))
      in st AND NOT 0x6000)"

datatype x_button_event = KEY_PRESS | KEY_RELEASE | BUTTON_PRESS | BUTTON_RELEASE

definition get_binding_from_xcb_event :: "x_button_event \<Rightarrow> 16 word \<Rightarrow> 16 word \<Rightarrow> wm \<Rightarrow> Binding option \<times> wm" where
  "get_binding_from_xcb_event ev state detail s =
     (case get_binding (filtered_state state) (ev = KEY_RELEASE \<or> ev = BUTTON_RELEASE) detail
             (if ev = BUTTON_RELEASE \<or> ev = BUTTON_PRESS then B_MOUSE else B_KEYBOARD) (current_bindings s) of
        (bs, r) \<Rightarrow> (r, set_bindings bs s))"

subsection \<open>Translating symbols\<close>

text \<open>A state of libxkbcommon is determined by its modifiers and its group; a level is \<^const>\<open>None\<close> where
  the key has no layout.\<close>

record xkb_lib =
  xkb_one_sym :: "u32 \<Rightarrow> nat \<Rightarrow> u32 \<Rightarrow> u32"
  xkb_level :: "u32 \<Rightarrow> nat \<Rightarrow> u32 \<Rightarrow> nat option"
  xkb_keysym_from_name :: "string \<Rightarrow> u32 option"
  xkb_keys :: "u32 list"

definition translated :: "u32 \<Rightarrow> u32 \<Rightarrow> bool \<Rightarrow> u32 \<Rightarrow> Binding_Keycode list" where
  "translated msk numlock same_with_numlock key =
     map (\<lambda>m. \<lparr>bk_keycode = ucast key, bk_modifiers = m\<rparr>)
       ([msk, msk OR MOD_LOCK] @
        (if msk AND numlock \<noteq> numlock \<and> same_with_numlock
         then [msk OR numlock, msk OR numlock OR MOD_LOCK] else []))"

definition binding_group :: "Binding \<Rightarrow> nat" where
  "binding_group b =
     (if bd_event_state_mask b AND group_mask 1 \<noteq> 0 then 1
      else if bd_event_state_mask b AND group_mask 2 \<noteq> 0 then 2
      else if bd_event_state_mask b AND group_mask 3 \<noteq> 0 then 3
      else 0)"

definition add_keycode_if_matches :: "xkb_lib \<Rightarrow> u32 \<Rightarrow> Binding \<Rightarrow> u32 \<Rightarrow> u32 \<Rightarrow> Binding_Keycode list" where
  "add_keycode_if_matches xkb numlock b keysym key =
     (let g = binding_group b; mods = bd_event_state_mask b AND 0x1FFF;
          add = (\<lambda>numlock_mods. translated (bd_event_state_mask b) numlock
                   (xkb_one_sym xkb numlock_mods g key = keysym) key);
          sym = xkb_one_sym xkb mods g key
      in if sym = keysym then add (mods OR numlock)
         else (case xkb_level xkb mods g key of
             None \<Rightarrow> []
           | Some level \<Rightarrow>
               if level > 1 \<or> 0xff80 \<le> sym \<and> sym \<le> 0xffbd then []
               else if xkb_one_sym xkb (mods XOR MOD_SHIFT) g key = keysym
               then add ((mods OR numlock) XOR MOD_SHIFT) else []))"

text \<open>\<^const>\<open>None\<close>: a binding without keycode and symbol, whose missing symbol is read.\<close>

definition translate_binding :: "xkb_lib \<Rightarrow> u32 \<Rightarrow> Binding \<Rightarrow> Binding option" where
  "translate_binding xkb numlock b0 =
     (let b = (if bd_input_type b0 = B_MOUSE
               then b0\<lparr>bd_keycode := ucast (word_of_int (snd (button_of b0)) :: 8 word)\<rparr> else b0);
          g = binding_group b; mods = bd_event_state_mask b AND 0x1FFF; key = bd_keycode b
      in if key > 0 then
           Some (b\<lparr>bd_keycodes := translated (bd_event_state_mask b) numlock
             (xkb_one_sym xkb mods g key = xkb_one_sym xkb (mods OR numlock) g key) key\<rparr>)
         else (case bd_symbol b of
             None \<Rightarrow> None
           | Some t \<Rightarrow>
               (case xkb_keysym_from_name xkb t of
                  None \<Rightarrow> Some b
                | Some keysym \<Rightarrow>
                    Some (b\<lparr>bd_keycodes :=
                      concat (map (add_keycode_if_matches xkb numlock b keysym) (xkb_keys xkb))\<rparr>))))"

text \<open>Whether a binding with a symbol has the same keycode, modifiers and release as one that was given
  as a keycode: the error of the configuration that \<open>translate_keysyms\<close> reports.\<close>

definition duplicates :: "xkb_lib \<Rightarrow> Binding list \<Rightarrow> Binding \<Rightarrow> bool" where
  "duplicates xkb bs b \<longleftrightarrow>
     bd_keycode b = 0 \<and> Option.bind (bd_symbol b) (xkb_keysym_from_name xkb) \<noteq> None \<and>
     (\<exists>k \<in> set (bd_keycodes b). \<exists>x \<in> set bs. bd_symbol x = None \<and> bd_keycode x = ucast (bk_keycode k) \<and>
        bd_event_state_mask x = bk_modifiers k \<and> bd_release x = bd_release b)"

definition translate_keysyms :: "xkb_lib \<Rightarrow> u32 \<Rightarrow> wm \<Rightarrow> bool \<times> wm" where
  "translate_keysyms xkb numlock s =
     (let bs = map (translate_binding xkb numlock) (current_bindings s)
      in if None \<in> set bs then (False, abort s)
         else (list_ex (duplicates xkb (map the bs)) (map the bs), set_bindings (map the bs) s))"

subsection \<open>Modes\<close>

definition switch_mode :: "xkb_lib \<Rightarrow> u32 \<Rightarrow> string \<Rightarrow> wm \<Rightarrow> wm" where
  "switch_mode xkb numlock new_mode s =
     (case find (\<lambda>m. md_name m = new_mode) (modes s) of
        None \<Rightarrow> s
      | Some m \<Rightarrow>
          let s = snd (translate_keysyms xkb numlock (s\<lparr>current_binding_mode := md_name m\<rparr>));
              s = set_bindings (map reset_release (current_bindings s)) s
          in ipc_send (Mode_Event (md_name m) (md_pango_markup m)) s)"

subsection \<open>Ordering\<close>

text \<open>\<open>reorder_binding_cmp\<close>; \<open>qsort\<close> leaves the order of equal bindings open, the C library's is a merge
  sort, which keeps it.\<close>

definition reorder_binding_cmp :: "Binding \<Rightarrow> Binding \<Rightarrow> int" where
  "reorder_binding_cmp a b =
     (if bd_event_state_mask a < bd_event_state_mask b then 1
      else if bd_event_state_mask a = bd_event_state_mask b then 0 else - 1)"

fun insert_binding :: "Binding \<Rightarrow> Binding list \<Rightarrow> Binding list" where
  "insert_binding b [] = [b]"
| "insert_binding b (x # xs) = (if reorder_binding_cmp b x \<le> 0 then b # x # xs else x # insert_binding b xs)"

definition reorder_bindings_of_mode :: "Mode \<Rightarrow> Mode" where
  "reorder_bindings_of_mode m = m\<lparr>md_bindings := foldr insert_binding (md_bindings m) []\<rparr>"

definition reorder_bindings :: "wm \<Rightarrow> wm" where
  "reorder_bindings s = s\<lparr>modes := map reorder_bindings_of_mode (modes s)\<rparr>"

definition binding_same_key :: "Binding \<Rightarrow> Binding \<Rightarrow> bool" where
  "binding_same_key a b \<longleftrightarrow>
     bd_input_type a = bd_input_type b \<and>
     (case (bd_symbol a, bd_symbol b) of
        (None, None) \<Rightarrow> True
      | (Some x, Some y) \<Rightarrow> caseless_eq x y
      | _ \<Rightarrow> False) \<and>
     bd_keycode a = bd_keycode b \<and> bd_event_state_mask a = bd_event_state_mask b \<and> bd_release a = bd_release b"

fun check_bindings :: "Binding list \<Rightarrow> Binding list \<Rightarrow> bool" where
  "check_bindings before [] = False"
| "check_bindings before (b # bs) \<longleftrightarrow> list_ex (\<lambda>x. binding_same_key x b) before \<or> check_bindings (before @ [b]) bs"

definition check_for_duplicate_bindings :: "wm \<Rightarrow> bool" where
  "check_for_duplicate_bindings s = check_bindings [] (current_bindings s)"

subsection \<open>More specific bindings come first\<close>

lemma insert_binding_mset [simp]: "mset (insert_binding b xs) = add_mset b (mset xs)"
  by (induction xs) auto

lemma insert_binding_set [simp]: "set (insert_binding b xs) = insert b (set xs)"
  using insert_binding_mset [of b xs] by (metis set_mset_mset set_mset_add_mset_insert)

definition by_specificity :: "Binding list \<Rightarrow> bool" where
  "by_specificity bs \<longleftrightarrow> sorted_wrt (\<lambda>a b. bd_event_state_mask b \<le> bd_event_state_mask a) bs"

lemma cmp_le: "reorder_binding_cmp a b \<le> 0 \<longleftrightarrow> bd_event_state_mask b \<le> bd_event_state_mask a"
  by (auto simp: reorder_binding_cmp_def)

lemma insert_binding_sorted: "by_specificity xs \<Longrightarrow> by_specificity (insert_binding b xs)"
proof (induction xs)
  case (Cons a xs)
  have "by_specificity (insert_binding b xs)" using Cons by (simp add: by_specificity_def)
  moreover have "bd_event_state_mask x \<le> bd_event_state_mask b"
    if "bd_event_state_mask a \<le> bd_event_state_mask b" "x \<in> set (a # xs)" for x
    using that Cons.prems by (auto simp: by_specificity_def)
  ultimately show ?case using Cons.prems by (auto simp: by_specificity_def cmp_le)
qed (simp add: by_specificity_def)

lemma reorder_sorted: "by_specificity (md_bindings (reorder_bindings_of_mode m))"
proof -
  have "by_specificity (foldr insert_binding bs [])" for bs
    by (induction bs) (simp_all add: insert_binding_sorted, simp add: by_specificity_def)
  then show ?thesis by (simp add: reorder_bindings_of_mode_def)
qed

lemma reorder_mset: "mset (md_bindings (reorder_bindings_of_mode m)) = mset (md_bindings m)"
proof -
  have "mset (foldr insert_binding bs []) = mset bs" for bs by (induction bs) simp_all
  then show ?thesis by (simp add: reorder_bindings_of_mode_def)
qed

lemma find_most_specific:
  assumes "by_specificity bs" and "find P bs = Some r" and "x \<in> set bs" and "P x"
  shows "bd_event_state_mask x \<le> bd_event_state_mask r"
  using assms unfolding by_specificity_def by (induction bs) (auto split: if_splits)

subsection \<open>What an event finds\<close>

text \<open>On a press the result is the first binding for presses that applies.\<close>

definition press_binding :: "u32 \<Rightarrow> 16 word \<Rightarrow> input_type_t \<Rightarrow> Binding \<Rightarrow> bool" where
  "press_binding state code it b \<longleftrightarrow> binding_applies state False code it b \<and> bd_release b = B_UPON_KEYPRESS"

definition no_ignoring :: "input_type_t \<Rightarrow> Binding list \<Rightarrow> bool" where
  "no_ignoring it bs \<longleftrightarrow> (\<forall>b \<in> set bs. bd_input_type b = it \<longrightarrow> bd_release b \<noteq> B_UPON_KEYRELEASE_IGNORE_MODS)"

lemma snd_cons_first [simp]: "snd (case x of (bs, r) \<Rightarrow> (b # bs, r)) = snd x"
  by (cases x) simp

lemma find_binding_press:
  assumes "no_ignoring it bs"
  shows "snd (find_binding state False code it result bs) =
    (if result = None then find (press_binding state code it) bs else result)"
  using assms
proof (induction bs arbitrary: result)
  case (Cons b bs)
  have "no_ignoring it bs" using Cons.prems by (simp add: no_ignoring_def)
  note IH = Cons.IH [OF this]
  consider "\<not> binding_applies state False code it b"
    | "binding_applies state False code it b" "bd_release b = B_UPON_KEYPRESS"
    | "binding_applies state False code it b" "bd_release b = B_UPON_KEYRELEASE"
    using Cons.prems by (cases "bd_release b") (auto simp: no_ignoring_def binding_applies_def)
  then show ?case
  proof cases
    case 1
    then have "\<not> press_binding state code it b" by (simp add: press_binding_def)
    with 1 show ?thesis by (simp add: IH)
  next
    case 2
    then have "press_binding state code it b" by (simp add: press_binding_def)
    with 2 show ?thesis by (simp add: IH)
  next
    case 3
    then have "\<not> press_binding state code it b" by (simp add: press_binding_def)
    with 3 show ?thesis by (simp add: IH Let_def)
  qed
qed simp

lemma reset_no_ignoring:
  "no_ignoring it (map (\<lambda>b. if bd_input_type b = it then reset_release b else b) bs)"
proof -
  have "bd_release (reset_release b) \<noteq> B_UPON_KEYRELEASE_IGNORE_MODS" for b
    by (cases "bd_release b") (simp_all add: reset_release_def)
  then show ?thesis by (fastforce simp: no_ignoring_def)
qed

lemma mods_on_press [simp]: "mods_accepted state False b = (\<lambda>k. low_half (bk_modifiers k) = low_half state)"
  by (simp add: mods_accepted_def fun_eq_iff)

lemma reset_simps [simp]:
  "bd_input_type (reset_release b) = bd_input_type b" "bd_symbol (reset_release b) = bd_symbol b"
  "bd_keycode (reset_release b) = bd_keycode b" "bd_keycodes (reset_release b) = bd_keycodes b"
  "bd_event_state_mask (reset_release b) = bd_event_state_mask b"
  "bd_release (reset_release b) = B_UPON_KEYPRESS \<longleftrightarrow> bd_release b = B_UPON_KEYPRESS"
  by (auto simp: reset_release_def)

lemma press_reset [simp]: "press_binding state code it (reset_release b) = press_binding state code it b"
proof -
  have "binding_applies state False code it (reset_release b) = binding_applies state False code it b"
    unfolding binding_applies_def mods_on_press reset_simps ..
  then show ?thesis unfolding press_binding_def reset_simps by simp
qed

lemma find_reset:
  "find (press_binding state code it) (map (\<lambda>b. if bd_input_type b = it then reset_release b else b) bs) =
    find (press_binding state code it) bs"
proof -
  have "reset_release b = b" if "press_binding state code it b" for b
    using that by (simp add: press_binding_def reset_release_def)
  moreover have "\<not> press_binding state code it (reset_release b)" if "\<not> press_binding state code it b" for b
    using that by simp
  ultimately show ?thesis by (induction bs) auto
qed

lemma get_binding_press:
  "snd (get_binding state False code it bs) = find (press_binding state code it) bs"
  by (simp add: get_binding_def find_binding_press [OF reset_no_ignoring] find_reset)

end
