(* ===== verification/Commands.thy ===== *)
theory Commands
  imports Con_Swap Scroll_Commands Matching Bindings
begin

text \<open>
  The command functions of \<^verbatim>\<open>src/commands.c\<close>: criteria, workspaces, moving containers and focus. The
  state of a command is the record \<open>session\<close>: the tree, the current match, the matched containers
  (\<open>owindows\<close>), whether the tree has to be rendered, the replies. What the commands use and do not
  change is the record \<open>environment\<close>; in it are the functions that lead out of the model (starting
  programs) and \<open>run_assignments\<close>, which goes through the parser back into the commands.
\<close>

subsection \<open>State and replies\<close>

text \<open>A reply of \<open>ysuccess\<close>, of \<open>yerror\<close>, or of \<open>open\<close>. Pointers and numbers in messages are left out.\<close>

datatype reply = Y_Success bool | Y_Error string | Y_Open con_id

record environment =
  ce_rx :: regex_lib
  ce_atom :: "string \<Rightarrow> u32"
  ce_root_screen :: Rect
  ce_dpi :: real
  ce_pointer :: "(u32 \<times> u32) option"
  ce_run_assignments :: "i3Window option \<Rightarrow> wm \<Rightarrow> wm"
  ce_start_application :: "string \<Rightarrow> bool \<Rightarrow> u32 \<Rightarrow> wm \<Rightarrow> wm"
  ce_xkb :: xkb_lib
  ce_numlock :: u32

record session =
  cx_wm :: wm
  cx_match :: Match
  cx_owindows :: "con_id list"
  cx_render :: bool
  cx_replies :: "reply list"
  cx_move_outputs :: "string list"
  cx_focus_outputs :: "string list"
  cx_shmlog_size :: int
  cx_default_shmlog_size :: int
  cx_debug_logging :: bool

definition reply :: "reply \<Rightarrow> session \<Rightarrow> session" where
  "reply r cx = cx\<lparr>cx_replies := cx_replies cx @ [r]\<rparr>"

definition ysuccess :: "bool \<Rightarrow> session \<Rightarrow> session" where
  "ysuccess b cx = reply (Y_Success b) cx"

definition yerror :: "string \<Rightarrow> session \<Rightarrow> session" where
  "yerror msg cx = reply (Y_Error msg) cx"

definition on_wm :: "(wm \<Rightarrow> wm) \<Rightarrow> session \<Rightarrow> session" where
  "on_wm f cx = cx\<lparr>cx_wm := f (cx_wm cx)\<rparr>"

definition run_wm :: "(wm \<Rightarrow> 'a \<times> wm) \<Rightarrow> ('a \<Rightarrow> session \<Rightarrow> session) \<Rightarrow> session \<Rightarrow> session" where
  "run_wm f k cx = (case f (cx_wm cx) of (x, s) \<Rightarrow> k x (cx\<lparr>cx_wm := s\<rparr>))"

text \<open>Going on with a pointer that the code dereferences.\<close>

definition with_some :: "'a option \<Rightarrow> ('a \<Rightarrow> session \<Rightarrow> session) \<Rightarrow> session \<Rightarrow> session" where
  "with_some x k cx = (case x of None \<Rightarrow> on_wm abort cx | Some v \<Rightarrow> k v cx)"

definition wants_render :: "bool \<Rightarrow> session \<Rightarrow> session" where
  "wants_render b cx = cx\<lparr>cx_render := b\<rparr>"

definition done_ok :: "session \<Rightarrow> session" where
  "done_ok cx = ysuccess True (wants_render True cx)"

definition each_match :: "(con_id \<Rightarrow> wm \<Rightarrow> wm) \<Rightarrow> session \<Rightarrow> session" where
  "each_match f cx = on_wm (fold f (cx_owindows cx)) cx"

text \<open>The macros \<open>HANDLE_EMPTY_MATCH\<close> and \<open>CHECK_MOVE_CON_TO_WORKSPACE\<close> with the rest of the function.\<close>

definition handle_empty_match :: "(session \<Rightarrow> session) \<Rightarrow> session \<Rightarrow> session" where
  "handle_empty_match body cx =
     (case ma_error (cx_match cx) of
        Some e \<Rightarrow> yerror (''Invalid match: '' @ e) cx
      | None \<Rightarrow>
          if match_is_empty (cx_match cx)
          then with_some (focused (cx_wm cx)) (\<lambda>f cx. body (cx\<lparr>cx_owindows := [f]\<rparr>)) cx
          else body cx)"

definition check_move :: "(session \<Rightarrow> session) \<Rightarrow> session \<Rightarrow> session" where
  "check_move body =
     handle_empty_match (\<lambda>cx.
       if cx_owindows cx = [] then yerror ''Nothing to move: specified criteria don't match any window'' cx
       else
         let s = cx_wm cx;
             ows = filter (\<lambda>c. \<not> (kind s c = CT_WORKSPACE \<and> \<not> con_has_children s c)) (cx_owindows cx)
         in if ows = [] then yerror ''Nothing to move: workspace empty'' (cx\<lparr>cx_owindows := []\<rparr>)
            else body (cx\<lparr>cx_owindows := ows\<rparr>))"

subsection \<open>Back and forth\<close>

definition workspace_back_and_forth :: "wm \<Rightarrow> wm" where
  "workspace_back_and_forth s =
     (case previous_workspace_name s of None \<Rightarrow> s | Some name \<Rightarrow> workspace_show_by_name name s)"

definition focused_workspace :: "wm \<Rightarrow> con_id option" where
  "focused_workspace s = Option.bind (focused s) (con_get_workspace s)"

text \<open>\<open>maybe_back_and_forth\<close>: whether the named workspace is the focused one, and the switch back.\<close>

definition maybe_back_and_forth :: "string \<Rightarrow> (bool \<Rightarrow> session \<Rightarrow> session) \<Rightarrow> session \<Rightarrow> session" where
  "maybe_back_and_forth name k =
     (\<lambda>cx. with_some (focused_workspace (cx_wm cx)) (\<lambda>ws cx.
        if cname (store (cx_wm cx) ws) \<noteq> name then k False cx
        else if cfg_workspace_auto_back_and_forth (cfg (cx_wm cx))
        then k True (wants_render True (on_wm workspace_back_and_forth cx))
        else k True cx) cx)"

definition maybe_auto_back_and_forth_workspace :: "con_id option \<Rightarrow> wm \<Rightarrow> con_id option \<times> wm" where
  "maybe_auto_back_and_forth_workspace ws s =
     (if \<not> cfg_workspace_auto_back_and_forth (cfg s) \<or> focused_workspace s \<noteq> ws then (ws, s)
      else (case workspace_back_and_forth_get s of
          (None, s) \<Rightarrow> (ws, s)
        | (Some baf, s) \<Rightarrow> (Some baf, s)))"

subsection \<open>Criteria\<close>

definition cmd_criteria_init :: "session \<Rightarrow> session" where
  "cmd_criteria_init cx = cx\<lparr>cx_match := match_init\<rparr>"

text \<open>Whether a container matches; \<^const>\<open>None\<close> is the NULL dereference in \<open>match_matches_window\<close>.\<close>

definition criteria_accept :: "regex_lib \<Rightarrow> wm \<Rightarrow> Match \<Rightarrow> con_id \<Rightarrow> bool option" where
  "criteria_accept rx s m c =
     (let by_id = (ma_con_id m \<noteq> None);
          marked = (ma_mark m \<noteq> None \<and> marks_head (store s c) \<noteq> [])
      in if by_id \<and> ma_con_id m \<noteq> Some c then Some False
         else if marked \<and> \<not> list_ex (regex_matches rx (the (ma_mark m))) (marks_head (store s c)) then Some False
         else (case window (store s c) of
             None \<Rightarrow> Some (by_id \<or> marked)
           | Some w \<Rightarrow> match_matches_window rx s m w))"

definition cmd_criteria_match_windows :: "environment \<Rightarrow> session \<Rightarrow> session" where
  "cmd_criteria_match_windows ev cx =
     (let s = cx_wm cx; test = criteria_accept (ce_rx ev) s (cx_match cx);
          cx = cx\<lparr>cx_owindows := filter (\<lambda>c. test c = Some True) (all_cons s)\<rparr>
      in if \<exists>c \<in> set (all_cons s). test c = None then on_wm abort cx else cx)"

definition cmd_criteria_add :: "environment \<Rightarrow> string \<Rightarrow> string \<Rightarrow> session \<Rightarrow> session" where
  "cmd_criteria_add ev ctyp cvalue cx =
     cx\<lparr>cx_match := match_parse_property (ce_rx ev) (ce_atom ev) (cx_wm cx) ctyp cvalue (cx_match cx)\<rparr>"

subsection \<open>Moving to workspaces\<close>

definition move_matches_to_workspace :: "con_id option \<Rightarrow> session \<Rightarrow> session" where
  "move_matches_to_workspace ws cx =
     (if cx_owindows cx = [] then cx
      else with_some ws (\<lambda>ws. each_match (\<lambda>c. con_move_to_workspace c ws True False)) cx)"

text \<open>The workspace a relative name stands for; the inner \<^const>\<open>None\<close> is NULL.\<close>

definition relative_workspace :: "wm \<Rightarrow> string \<Rightarrow> con_id option option option" where
  "relative_workspace s which =
     (if which = ''next'' then Some (workspace_next s)
      else if which = ''prev'' then Some (workspace_prev s)
      else if which = ''next_on_output'' then Some (workspace_next_on_output s)
      else if which = ''prev_on_output'' then Some (workspace_prev_on_output s)
      else None)"

definition cmd_move_con_to_workspace :: "string \<Rightarrow> session \<Rightarrow> session" where
  "cmd_move_con_to_workspace which =
     check_move (\<lambda>cx.
       let s = cx_wm cx in
       case (if which = ''current'' then Some (Some (focused_workspace s)) else relative_workspace s which) of
         None \<Rightarrow> yerror (''BUG: called with which='' @ which) cx
       | Some r \<Rightarrow> with_some r (\<lambda>ws cx. done_ok (move_matches_to_workspace ws cx)) cx)"

definition cmd_move_con_to_workspace_back_and_forth :: "session \<Rightarrow> session" where
  "cmd_move_con_to_workspace_back_and_forth =
     run_wm workspace_back_and_forth_get (\<lambda>ws cx.
       case ws of
         None \<Rightarrow> yerror ''No workspace was previously active.'' cx
       | Some ws \<Rightarrow> handle_empty_match (\<lambda>cx. done_ok (move_matches_to_workspace (Some ws) cx)) cx)"

definition internal_name :: "string \<Rightarrow> bool" where
  "internal_name name \<longleftrightarrow> caseless_prefix name ''__''"

definition move_maybe_back :: "bool \<Rightarrow> con_id option \<Rightarrow> session \<Rightarrow> session" where
  "move_maybe_back no_auto ws cx =
     (if no_auto then done_ok (move_matches_to_workspace ws cx)
      else run_wm (maybe_auto_back_and_forth_workspace ws) (\<lambda>ws cx. done_ok (move_matches_to_workspace ws cx)) cx)"

definition quoted :: "string \<Rightarrow> string" where
  "quoted str = CHR 0x22 # str @ [CHR 0x22]"

definition cmd_move_con_to_workspace_name :: "string \<Rightarrow> bool \<Rightarrow> session \<Rightarrow> session" where
  "cmd_move_con_to_workspace_name name no_auto cx =
     (if internal_name name
      then yerror (''You cannot move containers to i3-internal workspaces ('' @ quoted name @ '').'') cx
      else check_move (run_wm (workspace_get name) (move_maybe_back no_auto)) cx)"

definition cmd_move_con_to_workspace_number :: "string \<Rightarrow> bool \<Rightarrow> session \<Rightarrow> session" where
  "cmd_move_con_to_workspace_number which no_auto =
     check_move (\<lambda>cx.
       let n = ws_name_to_number which in
       if n = - 1 then yerror (''Could not parse number '' @ quoted which) cx
       else (case get_existing_workspace_by_num (cx_wm cx) n of
           Some ws \<Rightarrow> move_maybe_back no_auto (Some ws) cx
         | None \<Rightarrow> run_wm (workspace_get which) (move_maybe_back no_auto) cx))"

subsection \<open>Switching workspaces\<close>

definition disable_global_fullscreen :: "wm \<Rightarrow> wm" where
  "disable_global_fullscreen s =
     (case con_get_fullscreen_con s (croot s) CF_GLOBAL of None \<Rightarrow> s | Some f \<Rightarrow> con_disable_fullscreen f s)"

definition show_ws :: "con_id option \<Rightarrow> session \<Rightarrow> session" where
  "show_ws ws = with_some ws (\<lambda>ws. on_wm (workspace_show ws))"

definition cmd_workspace :: "string \<Rightarrow> session \<Rightarrow> session" where
  "cmd_workspace which cx =
     (let cx = on_wm disable_global_fullscreen cx in
      case relative_workspace (cx_wm cx) which of
        None \<Rightarrow> yerror (''BUG: called with which='' @ which) cx
      | Some r \<Rightarrow> with_some r (\<lambda>ws cx. done_ok (show_ws ws cx)) cx)"

definition cmd_workspace_number :: "string \<Rightarrow> bool \<Rightarrow> session \<Rightarrow> session" where
  "cmd_workspace_number which no_auto cx =
     (let cx = on_wm disable_global_fullscreen cx; n = ws_name_to_number which in
      if n = - 1 then yerror (''Could not parse initial part of '' @ quoted which @ '' as a number.'') cx
      else (case get_existing_workspace_by_num (cx_wm cx) n of
          None \<Rightarrow> wants_render True (on_wm (workspace_show_by_name which) (ysuccess True cx))
        | Some ws \<Rightarrow>
            if no_auto then done_ok (show_ws (Some ws) cx)
            else maybe_back_and_forth (cname (store (cx_wm cx) ws)) (\<lambda>was_there cx.
                   if was_there then ysuccess True cx else done_ok (show_ws (Some ws) cx)) cx))"

definition cmd_workspace_back_and_forth :: "session \<Rightarrow> session" where
  "cmd_workspace_back_and_forth cx =
     done_ok (on_wm workspace_back_and_forth (on_wm disable_global_fullscreen cx))"

definition cmd_workspace_name :: "string \<Rightarrow> bool \<Rightarrow> session \<Rightarrow> session" where
  "cmd_workspace_name name no_auto cx =
     (if internal_name name
      then yerror (''You cannot switch to the i3-internal workspaces ('' @ quoted name @ '').'') cx
      else
        let cx = on_wm disable_global_fullscreen cx;
            go = (\<lambda>cx. done_ok (on_wm (workspace_show_by_name name) cx))
        in if no_auto then go cx
           else maybe_back_and_forth name (\<lambda>was_there cx. if was_there then ysuccess True cx else go cx) cx)"

subsection \<open>Marks and modes\<close>

definition cmd_mark :: "string \<Rightarrow> string option \<Rightarrow> bool \<Rightarrow> session \<Rightarrow> session" where
  "cmd_mark mark mode toggle =
     handle_empty_match (\<lambda>cx.
       case cx_owindows cx of
         [] \<Rightarrow> yerror ''Given criteria don't match a window'' cx
       | [c] \<Rightarrow>
           let m = (if mode = None \<or> mode = Some ''--replace'' then MM_REPLACE else MM_ADD)
           in done_ok (on_wm (if toggle then con_mark_toggle c mark m else con_mark c mark m) cx)
       | _ \<Rightarrow> yerror ''A mark must not be put onto more than one window'' cx)"

definition cmd_unmark :: "string option \<Rightarrow> session \<Rightarrow> session" where
  "cmd_unmark mark cx =
     done_ok (if match_is_empty (cx_match cx) then on_wm (con_unmark None mark) cx
              else each_match (\<lambda>c. con_unmark (Some c) mark) cx)"

definition cmd_mode :: "environment \<Rightarrow> string \<Rightarrow> session \<Rightarrow> session" where
  "cmd_mode ev mode cx = ysuccess True (on_wm (switch_mode (ce_xkb ev) (ce_numlock ev) mode) cx)"

definition cmd_scrolling :: "string \<Rightarrow> session \<Rightarrow> session" where
  "cmd_scrolling action =
     (\<lambda>cx. with_some (focused (cx_wm cx)) (\<lambda>con cx.
        case (if action = ''maximize'' then Some (scrolling_toggle_maximize con)
              else if action = ''wider'' then Some (scrolling_cycle_width con False)
              else if action = ''narrower'' then Some (scrolling_cycle_width con True)
              else if action = ''left'' then Some (scrolling_scroll_by con (- 1))
              else if action = ''right'' then Some (scrolling_scroll_by con 1)
              else if action = ''toggle'' then Some (scrolling_toggle_layout con)
              else None) of
          None \<Rightarrow> yerror (''Unknown scrolling action '' @ quoted action) cx
        | Some f \<Rightarrow> ysuccess True (wants_render False (on_wm f cx))) cx)"

subsection \<open>Outputs\<close>

definition output_primary_name :: "xoutput \<Rightarrow> string" where
  "output_primary_name out = (case o_names out of [] \<Rightarrow> [] | n # _ \<Rightarrow> n)"

definition user_output_names_add :: "wm \<Rightarrow> string \<Rightarrow> string list \<Rightarrow> string list" where
  "user_output_names_add s name names =
     (let non_primary = caseless_eq ''nonprimary'' name in
      if non_primary \<or> name = ''next''
      then names @ map output_primary_name (filter (\<lambda>out. \<not> (non_primary \<and> o_primary out)) (outputs s))
      else names @ [name])"

text \<open>The first output found after the current one in the list, or the first found before it, or, when the
  current one is not in the list, the first found. The outer \<^const>\<open>None\<close> is a NULL dereference.\<close>

fun find_listed :: "wm \<Rightarrow> xoutput \<Rightarrow> string list \<Rightarrow> xoutput option \<Rightarrow> xoutput option option" where
  "find_listed s cur [] dflt = Some dflt"
| "find_listed s cur (n # names) dflt =
     (case get_output_from_string s cur n of
        None \<Rightarrow> None
      | Some None \<Rightarrow> find_listed s cur names dflt
      | Some (Some out) \<Rightarrow> Some (Some out))"

fun find_next_listed :: "wm \<Rightarrow> xoutput \<Rightarrow> string list \<Rightarrow> xoutput option \<Rightarrow> xoutput option option" where
  "find_next_listed s cur [] target = Some target"
| "find_next_listed s cur (n # names) target =
     (case (if target = None then get_output_from_string s cur n else Some target) of
        None \<Rightarrow> None
      | Some target \<Rightarrow>
          if caseless_eq (output_primary_name cur) n then find_listed s cur names target
          else find_next_listed s cur names target)"

definition user_output_names_find_next :: "wm \<Rightarrow> string list \<Rightarrow> xoutput \<Rightarrow> xoutput option option" where
  "user_output_names_find_next s names cur = find_next_listed s cur names None"

definition move_one_to_output :: "string list \<Rightarrow> bool \<Rightarrow> con_id \<Rightarrow> bool \<times> session \<Rightarrow> bool \<times> session" where
  "move_one_to_output names move_workspace c bcx =
     (case bcx of (success, cx) \<Rightarrow>
        let s = cx_wm cx in
        case con_get_workspace s c of
          None \<Rightarrow> (success, on_wm abort cx)
        | Some ws \<Rightarrow>
            if con_is_internal s ws then (success, cx)
            else (case Option.bind (get_output_for_con s ws) (user_output_names_find_next s names) of
                None \<Rightarrow> (success, on_wm abort cx)
              | Some None \<Rightarrow> (success, cx)
              | Some (Some out) \<Rightarrow>
                  (True, on_wm (if move_workspace then workspace_move_to_output ws out
                                else con_move_to_output c out True) cx)))"

text \<open>The names are collected in a static list over several calls of the function, the last one without
  a name; the list is only emptied when the move is carried out.\<close>

definition cmd_move_con_to_output :: "string option \<Rightarrow> bool \<Rightarrow> session \<Rightarrow> session" where
  "cmd_move_con_to_output name move_workspace cx =
     (case name of
        Some n \<Rightarrow> cx\<lparr>cx_move_outputs := user_output_names_add (cx_wm cx) n (cx_move_outputs cx)\<rparr>
      | None \<Rightarrow> handle_empty_match (\<lambda>cx.
          if cx_move_outputs cx = [] then yerror ''At least one output must be specified'' cx
          else (case fold (move_one_to_output (cx_move_outputs cx) move_workspace) (cx_owindows cx) (False, cx) of
              (success, cx) \<Rightarrow>
                let cx = wants_render success (cx\<lparr>cx_move_outputs := []\<rparr>)
                in if success then ysuccess True cx else yerror ''No output matched'' cx)) cx)"

definition cmd_focus_output :: "string option \<Rightarrow> session \<Rightarrow> session" where
  "cmd_focus_output name cx =
     (case name of
        Some n \<Rightarrow> cx\<lparr>cx_focus_outputs := user_output_names_add (cx_wm cx) n (cx_focus_outputs cx)\<rparr>
      | None \<Rightarrow>
          if cx_focus_outputs cx = [] then yerror ''At least one output must be specified'' cx
          else handle_empty_match (\<lambda>cx.
            if cx_owindows cx = [] then ysuccess True cx
            else
              let s = cx_wm cx;
                  external = (\<lambda>c. case con_get_workspace s c of None \<Rightarrow> False | Some ws \<Rightarrow> \<not> con_is_internal s ws);
                  con = (case find external (cx_owindows cx) of None \<Rightarrow> focused s | Some c \<Rightarrow> Some c)
              in if \<exists>c \<in> set (takeWhile (\<lambda>c. \<not> external c) (cx_owindows cx)). con_get_workspace s c = None
                 then on_wm abort cx
                 else with_some (Option.bind (Option.bind con (get_output_for_con s))
                          (user_output_names_find_next s (cx_focus_outputs cx))) (\<lambda>target cx.
                   let cx = cx\<lparr>cx_focus_outputs := []\<rparr> in
                   case target of
                     None \<Rightarrow> yerror ''No output matched'' (wants_render False cx)
                   | Some out \<Rightarrow>
                       with_some (Option.bind (output_get_content s (o_con out))
                           (\<lambda>content. grep_first (workspace_is_visible s) (nodes s content))) (\<lambda>ws cx.
                         case ws of
                           None \<Rightarrow> yerror ''BUG: No workspace found on output.'' cx
                         | Some w \<Rightarrow> done_ok (show_ws (Some w) cx)) cx) cx) cx)"

definition cmd_move_con_to_mark :: "environment \<Rightarrow> string \<Rightarrow> session \<Rightarrow> session" where
  "cmd_move_con_to_mark ev mark =
     handle_empty_match (\<lambda>cx.
       run_wm (fold (\<lambda>c (ok, s). case con_move_to_mark (ce_root_screen ev) c mark s of (r, s) \<Rightarrow> (ok \<and> r, s))
           (cx_owindows cx) \<circ> Pair True)
         (\<lambda>result cx. ysuccess result (wants_render True cx)) cx)"

subsection \<open>Focus\<close>

definition parse_direction :: "string \<Rightarrow> direction_t option" where
  "parse_direction str =
     (if str = ''left'' then Some D_LEFT
      else if str = ''right'' then Some D_RIGHT
      else if str = ''up'' then Some D_UP
      else if str = ''down'' then Some D_DOWN
      else None)"

text \<open>The matched containers that are on a workspace which is not internal.\<close>

definition each_external :: "(con_id \<Rightarrow> wm \<Rightarrow> wm) \<Rightarrow> session \<Rightarrow> session" where
  "each_external f =
     each_match (\<lambda>c s. case con_get_workspace s c of
         None \<Rightarrow> s
       | Some ws \<Rightarrow> if con_is_internal s ws then s else f c s)"

definition focus_beside :: "position_t \<Rightarrow> con_id \<Rightarrow> wm \<Rightarrow> wm" where
  "focus_beside pos c s =
     with_con (Option.bind (parent_of s c) (con_orientation s))
       (\<lambda>ori. tree_next c (direction_from_orientation_position ori pos)) s"

definition cmd_focus_direction :: "string \<Rightarrow> session \<Rightarrow> session" where
  "cmd_focus_direction direction_str =
     handle_empty_match (\<lambda>cx.
       if direction_str = ''prev'' then done_ok (each_external (focus_beside BEFORE) cx)
       else if direction_str = ''next'' then done_ok (each_external (focus_beside AFTER) cx)
       else with_some (parse_direction direction_str) (\<lambda>d cx. done_ok (each_external (\<lambda>c. tree_next c d) cx)) cx)"

definition cmd_focus_sibling :: "string \<Rightarrow> session \<Rightarrow> session" where
  "cmd_focus_sibling direction_str =
     handle_empty_match (\<lambda>cx.
       let pos = (if take 4 direction_str = ''prev'' then BEFORE else AFTER)
       in done_ok (each_external (\<lambda>c s.
            with_con (get_tree_next_sibling s c pos) (\<lambda>nxt s.
              case nxt of
                None \<Rightarrow> s
              | Some n \<Rightarrow> if kind s n = CT_WORKSPACE then con_focus n (workspace_show n s) else con_activate n s) s) cx))"

definition con_activate_unblock :: "con_id \<Rightarrow> wm \<Rightarrow> wm" where
  "con_activate_unblock con s =
     (let ws = con_get_workspace s con; previous_focus = focused s;
          s = (case con_get_fullscreen_covering_ws s ws of
                 None \<Rightarrow> s
               | Some f \<Rightarrow> if f \<noteq> con \<and> \<not> con_has_parent s con f then con_disable_fullscreen f s else s);
          s = con_activate con s
      in with_con previous_focus (\<lambda>prev s.
           if ws \<noteq> con_get_workspace s prev
           then con_activate con (with_con ws workspace_show (con_activate prev s))
           else s) s)"

definition cmd_focus_window_mode :: "string \<Rightarrow> session \<Rightarrow> session" where
  "cmd_focus_window_mode window_mode =
     (\<lambda>cx. with_some (focused (cx_wm cx)) (\<lambda>f cx.
        let s = cx_wm cx;
            to_floating = (if window_mode = ''mode_toggle'' then con_inside_floating s f = None
                           else window_mode = ''floating'')
        in with_some (con_get_workspace s f) (\<lambda>ws cx.
             case find (\<lambda>c. to_floating = (kind s c = CT_FLOATING_CON)) (foci s ws) of
               Some c \<Rightarrow> done_ok (on_wm (con_activate_unblock (con_descend_focused s c)) cx)
             | None \<Rightarrow> yerror (''Failed to find a '' @ (if to_floating then ''floating'' else ''tiling'') @
                         '' container in workspace.'') cx) cx) cx)"

definition cmd_focus_level :: "string \<Rightarrow> session \<Rightarrow> session" where
  "cmd_focus_level level cx =
     (let finish = (\<lambda>success cx. ysuccess success (wants_render success cx)); s = cx_wm cx in
      if level = ''parent'' then
        (case Option.bind (focused s) (parent_of s) of
           None \<Rightarrow> finish False cx
         | Some p \<Rightarrow>
             with_some (con_fullscreen_permits_focusing s p) (\<lambda>ok cx.
               if ok then run_wm level_up finish cx else finish False cx) cx)
      else run_wm level_down finish cx)"

text \<open>\<open>focus\<close> with criteria: a scratchpad window is shown and ends the loop.\<close>

fun focus_each :: "environment \<Rightarrow> bool \<Rightarrow> con_id option \<Rightarrow> con_id list \<Rightarrow> wm \<Rightarrow> wm" where
  "focus_each ev focus_workspace scratch [] s = s"
| "focus_each ev focus_workspace scratch (c # cs) s =
     (case con_get_workspace s c of
        None \<Rightarrow> focus_each ev focus_workspace scratch cs s
      | Some ws \<Rightarrow>
          if Some ws = scratch \<and> \<not> focus_workspace then snd (scratchpad_show (ce_root_screen ev) (Some c) s)
          else if focus_workspace then
            (case maybe_auto_back_and_forth_workspace (Some ws) s of (w, s) \<Rightarrow>
               focus_each ev focus_workspace scratch cs (with_con w workspace_show s))
          else focus_each ev focus_workspace scratch cs (con_activate_unblock c s))"

definition cmd_focus :: "environment \<Rightarrow> bool \<Rightarrow> session \<Rightarrow> session" where
  "cmd_focus ev focus_workspace cx =
     (if match_is_empty (cx_match cx)
      then yerror ''You have to specify which window/container should be focused'' cx
      else if cx_owindows cx = [] then yerror ''No window matches given criteria'' cx
      else run_wm (workspace_get ''__i3_scratch'') (\<lambda>scratch cx.
             done_ok (on_wm (focus_each ev focus_workspace scratch (cx_owindows cx)) cx)) cx)"

end
