(* ===== verification/Startup.thy ===== *)
theory Startup
  imports Con_Query
begin

text \<open>
  Startup notification: \<^verbatim>\<open>src/startup.c\<close>. The ids of the launcher contexts come from the library
  libstartup-notification and are arguments; so are the startup ids that windows carry in their
  properties. The time is the \<open>wall_clock\<close> of the state. Starting a process is the value \<open>launch\<close>: what
  the shell is given to run, with the two variables of its environment that depend on the arguments.
\<close>

record launch =
  la_command :: string
  la_startup_id :: "string option"
  la_window_id :: u32

definition time_now :: "wm \<Rightarrow> int" where
  "time_now s = tv_sec (wall_clock s)"

definition sequence_by_id :: "wm \<Rightarrow> string \<Rightarrow> Startup_Sequence option" where
  "sequence_by_id s i = find (\<lambda>q. ss_id q = i) (startup_sequences s)"

definition startup_sequence_delete :: "Startup_Sequence \<Rightarrow> wm \<Rightarrow> wm" where
  "startup_sequence_delete q s = s\<lparr>startup_sequences := remove1 q (startup_sequences s)\<rparr>"

text \<open>The timeout completes the sequence if it is still there: the result is whether it does.\<close>

definition startup_timeout :: "wm \<Rightarrow> string \<Rightarrow> bool" where
  "startup_timeout s i \<longleftrightarrow> sequence_by_id s i \<noteq> None"

definition prune_step :: "Startup_Sequence \<Rightarrow> nat \<times> wm \<Rightarrow> nat \<times> wm" where
  "prune_step q = (\<lambda>(active, s).
     if ss_delete_at q = 0 then (active + 1, s)
     else if time_now s \<le> ss_delete_at q then (active, s)
     else (active, startup_sequence_delete q s))"

definition prune_startup_sequences :: "wm \<Rightarrow> nat \<times> wm" where
  "prune_startup_sequences s = fold prune_step (startup_sequences s) (0, s)"

text \<open>\<open>sn_id\<close> is the id of the context the library creates.\<close>

definition start_application :: "string \<Rightarrow> string \<Rightarrow> bool \<Rightarrow> u32 \<Rightarrow> wm \<Rightarrow> launch \<times> wm" where
  "start_application sn_id command no_startup_id window_id s =
     (\<lparr>la_command = command, la_startup_id = (if no_startup_id then None else Some sn_id), la_window_id = window_id\<rparr>,
      if no_startup_id then s
      else (case Option.bind (focused s) (con_get_workspace s) of
          None \<Rightarrow> abort s
        | Some ws \<Rightarrow> s\<lparr>startup_sequences := startup_sequences s @
              [\<lparr>ss_id = sn_id, ss_workspace = cname (store s ws), ss_delete_at = 0\<rparr>]\<rparr>))"

text \<open>An event of the library. The result is whether the root window gets the default pointer back. The
  sequence is marked in place.\<close>

primrec mark_first :: "(Startup_Sequence \<Rightarrow> bool) \<Rightarrow> (Startup_Sequence \<Rightarrow> Startup_Sequence) \<Rightarrow>
    Startup_Sequence list \<Rightarrow> Startup_Sequence list" where
  "mark_first p f [] = []"
| "mark_first p f (q # qs) = (if p q then f q # qs else q # mark_first p f qs)"

definition startup_monitor_event :: "string \<Rightarrow> bool \<Rightarrow> wm \<Rightarrow> bool \<times> wm" where
  "startup_monitor_event i completed s =
     (if sequence_by_id s i = None \<or> \<not> completed then (False, s)
      else
        let s = s\<lparr>startup_sequences := mark_first (\<lambda>q. ss_id q = i) (\<lambda>q. q\<lparr>ss_delete_at := time_now s + 30\<rparr>)
                   (startup_sequences s)\<rparr>
        in (case prune_startup_sequences s of (active, s) \<Rightarrow> (active = 0, s)))"

definition startup_sequence_rename_workspace :: "string \<Rightarrow> string \<Rightarrow> wm \<Rightarrow> wm" where
  "startup_sequence_rename_workspace old_name new_name s =
     s\<lparr>startup_sequences := map (\<lambda>q. if ss_workspace q = old_name then q\<lparr>ss_workspace := new_name\<rparr> else q)
         (startup_sequences s)\<rparr>"

text \<open>\<open>prop\<close> is the reply for the property of the window, empty or missing when it is not set, and
  \<open>leader_prop\<close> that of its leader. The id ends at its first zero byte.\<close>

definition startup_id_text :: "string option \<Rightarrow> string option" where
  "startup_id_text prop =
     (case prop of None \<Rightarrow> None | Some str \<Rightarrow> if str = [] then None else Some (takeWhile (\<lambda>c. c \<noteq> CHR 0x00) str))"

definition startup_sequence_get ::
  "wm \<Rightarrow> i3Window \<Rightarrow> string option \<Rightarrow> (u32 \<Rightarrow> string option) \<Rightarrow> bool \<Rightarrow> Startup_Sequence option" where
  "startup_sequence_get s w prop leader_prop ignore_mapped_leader =
     (case startup_id_text prop of
        Some i \<Rightarrow> sequence_by_id s i
      | None \<Rightarrow>
          if w_leader w = 0 then None
          else if ignore_mapped_leader \<and> con_by_window_id s (w_leader w) \<noteq> None then None
          else Option.bind (startup_id_text (leader_prop (w_leader w))) (sequence_by_id s))"

definition startup_workspace_for_window ::
  "i3Window \<Rightarrow> string option \<Rightarrow> (u32 \<Rightarrow> string option) \<Rightarrow> wm \<Rightarrow> string option \<times> wm" where
  "startup_workspace_for_window w prop leader_prop s =
     (case startup_sequence_get s w prop leader_prop False of
        None \<Rightarrow> (None, s)
      | Some q \<Rightarrow>
          if ss_delete_at q > 0 \<and> time_now s > ss_delete_at q then (None, startup_sequence_delete q s)
          else (Some (ss_workspace q), s))"

definition startup_sequence_delete_by_window :: "i3Window \<Rightarrow> (u32 \<Rightarrow> string option) \<Rightarrow> wm \<Rightarrow> wm" where
  "startup_sequence_delete_by_window w startup_prop s =
     (case startup_sequence_get s w (startup_prop (w_id w)) startup_prop True of
        None \<Rightarrow> s
      | Some q \<Rightarrow> startup_sequence_delete q s)"

subsection \<open>Pruning removes what has expired\<close>

definition expired :: "int \<Rightarrow> Startup_Sequence \<Rightarrow> bool" where
  "expired now q \<longleftrightarrow> ss_delete_at q \<noteq> 0 \<and> ss_delete_at q < now"

lemma prune_fold:
  "fold prune_step qs (n, s) =
     (n + length (filter (\<lambda>q. ss_delete_at q = 0) qs),
      s\<lparr>startup_sequences := fold remove1 (filter (expired (time_now s)) qs) (startup_sequences s)\<rparr>)"
proof (induction qs arbitrary: n s)
  case (Cons q qs)
  have now: "time_now (startup_sequence_delete q s) = time_now s"
    by (simp add: time_now_def startup_sequence_delete_def)
  consider "ss_delete_at q = 0" | "ss_delete_at q \<noteq> 0" "time_now s \<le> ss_delete_at q" | "expired (time_now s) q"
    by (fastforce simp: expired_def)
  then show ?case
  proof cases
    case 1
    then have "prune_step q (n, s) = (Suc n, s)" and "\<not> expired (time_now s) q"
      by (simp_all add: prune_step_def expired_def)
    with 1 show ?thesis by (simp add: Cons.IH)
  next
    case 2
    then have "prune_step q (n, s) = (n, s)" and "\<not> expired (time_now s) q"
      by (simp_all add: prune_step_def expired_def)
    with 2 show ?thesis by (simp add: Cons.IH)
  next
    case 3
    then have "prune_step q (n, s) = (n, startup_sequence_delete q s)"
      by (simp add: prune_step_def expired_def)
    with 3 show ?thesis by (simp add: Cons.IH now) (simp add: startup_sequence_delete_def expired_def)
  qed
qed simp

lemma fold_remove1_filter: "fold remove1 (filter p qs) (xs @ qs) = xs @ filter (\<lambda>q. \<not> p q) qs"
  if "\<forall>x \<in> set xs. \<not> p x"
  using that
proof (induction qs arbitrary: xs)
  case (Cons q qs)
  show ?case
  proof (cases "p q")
    case True
    then have "q \<notin> set xs" using Cons.prems by blast
    then show ?thesis using Cons.IH [OF Cons.prems] True by (simp add: remove1_append)
  next
    case False
    then show ?thesis using Cons.IH [of "xs @ [q]"] Cons.prems by simp
  qed
qed simp

lemma prune_startup_sequences_exact:
  "prune_startup_sequences s =
     (length (filter (\<lambda>q. ss_delete_at q = 0) (startup_sequences s)),
      s\<lparr>startup_sequences := filter (\<lambda>q. \<not> expired (time_now s) q) (startup_sequences s)\<rparr>)"
  using fold_remove1_filter [of "[]" "expired (time_now s)" "startup_sequences s"]
  by (simp add: prune_startup_sequences_def prune_fold)

end
