(* ===== verification/Commands_Layout.thy ===== *)
theory Commands_Layout
  imports Commands Startup
begin

text \<open>
  The other half of \<^verbatim>\<open>src/commands.c\<close>: resizing, borders, layouts, floating and sticky windows, positions,
  the scratchpad, swapping, titles, renaming, the bars, logging and gaps. The commands that only start,
  stop or reload the program, read files or open the switcher and the overview are not modelled; nor
  are the EWMH properties that \<open>sticky\<close>, \<open>title_format\<close> and \<open>rename\<close> publish.
\<close>

subsection \<open>Conversions\<close>

text \<open>\<open>(int)\<close> of a \<open>long\<close>; a \<open>double\<close> stored into a 32-bit unsigned field (undefined in C for negative
  values, the conversion through a 64-bit integer here).\<close>

definition c_int :: "int \<Rightarrow> int" where
  "c_int i = sint (word_of_int i :: u32)"

definition c_atoi :: "string \<Rightarrow> int" where
  "c_atoi str = (case strtoll_10 str of None \<Rightarrow> 0 | Some (v, _) \<Rightarrow> c_int v)"

definition store_double :: "real \<Rightarrow> u32" where
  "store_double x = c_word (c_trunc x)"

definition logical_px :: "real \<Rightarrow> int \<Rightarrow> int" where
  "logical_px dpi logical =
     (if dpi / 96 < 1.25 then logical else \<lceil>dpi / 96 * real_of_int logical\<rceil>)"

definition is_ppt :: "string option \<Rightarrow> bool" where
  "is_ppt mode \<longleftrightarrow> mode = Some ''ppt''"

subsection \<open>Resizing\<close>

text \<open>At least one increment of the window.\<close>

definition at_least_increment :: "int \<Rightarrow> int \<Rightarrow> int" where
  "at_least_increment inc px =
     (if px < 0 then (if - px < inc then - inc else px) else (if px < inc then inc else px))"

definition resize_direction :: "string \<Rightarrow> direction_t option" where
  "resize_direction str =
     (if str = ''height'' then Some D_DOWN else if str = ''width'' then Some D_RIGHT else parse_direction str)"

definition cmd_resize_floating :: "environment \<Rightarrow> string \<Rightarrow> con_id \<Rightarrow> int \<Rightarrow> wm \<Rightarrow> wm" where
  "cmd_resize_floating ev direction_str c px =
     with_con (resize_direction direction_str) (\<lambda>d s.
       let old = rect (store s c);
           vert = (orientation_from_direction d = VERT);
           px = (case window (store s (con_descend_focused s c)) of
               None \<Rightarrow> px
             | Some w \<Rightarrow> at_least_increment (if vert then w_height_increment w else w_width_increment w) px);
           s = upd_con c (\<lambda>k. k\<lparr>rect := (if vert
                 then (rect k)\<lparr>rect_height := rect_height (rect k) + c_word px\<rparr>
                 else (rect k)\<lparr>rect_width := rect_width (rect k) + c_word px\<rparr>)\<rparr>) s;
           s = floating_check_size (ce_root_screen ev) c vert s;
           new = rect (store s c)
       in if rect_equals old new then s
          else scratchpad_changed c
            (if d = D_UP then
               upd_con c (\<lambda>k. k\<lparr>rect := (rect k)\<lparr>rect_y := rect_y (rect k) - (rect_height new - rect_height old)\<rparr>\<rparr>) s
             else if d = D_LEFT then
               upd_con c (\<lambda>k. k\<lparr>rect := (rect k)\<lparr>rect_x := rect_x (rect k) - (rect_width new - rect_width old)\<rparr>\<rparr>) s
             else s))"

text \<open>The functions for tiling containers give whether they resized, \<^const>\<open>None\<close> after a crash, and the
  state with their replies.\<close>

definition crash :: "session \<Rightarrow> bool \<times> session" where
  "crash cx = (False, on_wm abort cx)"

definition refuse :: "string \<Rightarrow> session \<Rightarrow> bool \<times> session" where
  "refuse msg cx = (False, yerror msg cx)"

definition cmd_resize_tiling_direction :: "con_id \<Rightarrow> string \<Rightarrow> int \<Rightarrow> int \<Rightarrow> session \<Rightarrow> bool \<times> session" where
  "cmd_resize_tiling_direction current direction px ppt cx =
     (case parse_direction direction of
        None \<Rightarrow> crash cx
      | Some d \<Rightarrow>
          (case resize_find_tiling_participants (cx_wm cx) (Some current) d False of
             None \<Rightarrow> crash cx
           | Some (True, Some first, Some second) \<Rightarrow>
               (case resize_neighboring_cons first second (if ppt \<noteq> 0 then 0 else px) ppt (cx_wm cx) of
                  (r, s) \<Rightarrow> (r, cx\<lparr>cx_wm := s\<rparr>))
           | Some _ \<Rightarrow> refuse ''No second container found in this direction.'' cx))"

definition default_percents :: "con_id \<Rightarrow> wm \<Rightarrow> wm" where
  "default_percents p s =
     fold (\<lambda>c s. if percent (store s c) = 0
         then upd_con c (\<lambda>k. k\<lparr>percent := 1 / real (con_num_children s p)\<rparr>) s else s) (nodes s p) s"

definition below_minimum :: "wm \<Rightarrow> con_id \<Rightarrow> real \<Rightarrow> bool" where
  "below_minimum s c pct \<longleftrightarrow> (case percent_for_1px s c of None \<Rightarrow> False | Some m \<Rightarrow> pct < m)"

definition resize_share :: "con_id \<Rightarrow> con_id \<Rightarrow> real \<Rightarrow> session \<Rightarrow> bool \<times> session" where
  "resize_share c p ppt cx =
     (let s = cx_wm cx; siblings = filter (\<lambda>x. x \<noteq> c) (nodes s p);
          subtract = ppt / (real (con_num_children s p) - 1);
          new = percent (store s c) + ppt
      in if ppt < 0 \<and> below_minimum s c new
         then refuse ''Not resizing, container would end with less than 1px'' cx
         else if subtract \<ge> 0 \<and> list_ex (\<lambda>x. below_minimum s x (percent (store s x) - subtract)) siblings
         then refuse ''Not resizing, already at minimum size'' cx
         else (True, on_wm (\<lambda>s. fold (\<lambda>x. upd_con x (\<lambda>k. k\<lparr>percent := percent k - subtract\<rparr>)) siblings
                (upd_con c (\<lambda>k. k\<lparr>percent := new\<rparr>) s)) cx))"

definition cmd_resize_tiling_width_height :: "con_id \<Rightarrow> string \<Rightarrow> int \<Rightarrow> real \<Rightarrow> session \<Rightarrow> bool \<times> session" where
  "cmd_resize_tiling_width_height current direction px ppt cx =
     (case resize_find_tiling_participants (cx_wm cx) (Some current)
             (if direction = ''width'' then D_LEFT else D_DOWN) True of
        None \<Rightarrow> crash cx
      | Some (True, Some c, _) \<Rightarrow>
          (case parent_of (cx_wm cx) c of
             None \<Rightarrow> crash cx
           | Some p \<Rightarrow>
               let cx = on_wm (default_percents p) cx in
               if ppt \<noteq> 0 then resize_share c p ppt cx
               else (case con_rect_size_in_orientation (cx_wm cx) p of
                   None \<Rightarrow> crash cx
                 | Some extent \<Rightarrow> resize_share c p (real_of_int px / real (unat extent)) cx))
      | Some _ \<Rightarrow> refuse ''Failed to find appropriate tiling containers for resize operation'' cx)"

text \<open>\<open>win->dock\<close>: a dock client is skipped.\<close>

definition is_dock_client :: "wm \<Rightarrow> con_id \<Rightarrow> bool" where
  "is_dock_client s c \<longleftrightarrow> (case window (store s c) of None \<Rightarrow> False | Some w \<Rightarrow> w_dock w \<noteq> W_NODOCK)"

definition resize_one :: "environment \<Rightarrow> string \<Rightarrow> int \<Rightarrow> int \<Rightarrow> con_id \<Rightarrow> session \<Rightarrow> bool \<times> session" where
  "resize_one ev direction px ppt c cx =
     (let s = cx_wm cx in
      if is_dock_client s c then (True, cx)
      else case con_inside_floating s c of
        Some f \<Rightarrow> (True, on_wm (cmd_resize_floating ev direction f (c_int px)) cx)
      | None \<Rightarrow>
          (case scrolling_resize_handled c direction px ppt s of
             (True, s) \<Rightarrow> (True, cx\<lparr>cx_wm := s\<rparr>)
           | (False, s) \<Rightarrow>
               let cx = cx\<lparr>cx_wm := s\<rparr> in
               if direction = ''width'' \<or> direction = ''height''
               then cmd_resize_tiling_width_height c direction (c_int px) (real_of_int ppt / 100) cx
               else cmd_resize_tiling_direction c direction (c_int px) (c_int ppt) cx))"

fun resize_each :: "environment \<Rightarrow> string \<Rightarrow> int \<Rightarrow> int \<Rightarrow> con_id list \<Rightarrow> session \<Rightarrow> session" where
  "resize_each ev direction px ppt [] cx = done_ok cx"
| "resize_each ev direction px ppt (c # cs) cx =
     (case resize_one ev direction px ppt c cx of
        (True, cx) \<Rightarrow> resize_each ev direction px ppt cs cx
      | (False, cx) \<Rightarrow> yerror ''Cannot resize.'' cx)"

definition cmd_resize :: "environment \<Rightarrow> string \<Rightarrow> string \<Rightarrow> int \<Rightarrow> int \<Rightarrow> session \<Rightarrow> session" where
  "cmd_resize ev way direction px ppt =
     (let sign = (if way = ''shrink'' then - 1 else 1)
      in handle_empty_match (\<lambda>cx. resize_each ev direction (sign * px) (sign * ppt) (cx_owindows cx) cx))"

definition resize_set_tiling :: "con_id \<Rightarrow> orientation_t \<Rightarrow> bool \<Rightarrow> int \<Rightarrow> session \<Rightarrow> bool \<times> session" where
  "resize_set_tiling target ori ppt_mode wanted cx =
     (let s = cx_wm cx in
      case resize_find_tiling_participants s (Some target) (if ori = HORIZ then D_LEFT else D_DOWN) True of
        Some (_, Some t, _) \<Rightarrow>
          let r = rect (store s t);
              ppt = (if ppt_mode then real_of_int wanted / 100 - percent (store s t) else 0);
              px = (if ppt_mode then 0
                    else c_int (wanted - int (unat (if ori = HORIZ then rect_width r else rect_height r))))
          in cmd_resize_tiling_width_height t (if ori = HORIZ then ''width'' else ''height'') px ppt cx
      | _ \<Rightarrow> crash cx)"

text \<open>The sizes are variables outside the loop: what the loop computes for one floating window from a
  percentage or from 0 is the size in pixels for the windows after it.\<close>

definition set_size :: "wm \<Rightarrow> con_id \<Rightarrow> int \<Rightarrow> string option \<Rightarrow> u32 \<Rightarrow> (Rect \<Rightarrow> u32) \<Rightarrow> int option" where
  "set_size s f wanted mode own get =
     (if wanted = 0 then Some (int (unat own))
      else if is_ppt mode then
        map_option (\<lambda>out. c_trunc (real (unat (get (rect (store s out)))) * (real_of_int wanted / 100))) (con_get_output s f)
      else Some wanted)"

definition resize_set_one ::
  "environment \<Rightarrow> string option \<Rightarrow> string option \<Rightarrow> con_id \<Rightarrow> bool \<times> int \<times> int \<times> session \<Rightarrow> bool \<times> int \<times> int \<times> session" where
  "resize_set_one ev mode_width mode_height c st =
     (case st of (success, w, h, cx) \<Rightarrow>
        let s = cx_wm cx in
        case con_inside_floating s c of
          Some f \<Rightarrow>
            let r = rect (store s f) in
            (case (set_size s f w mode_width (rect_width r) rect_width,
                   set_size s f h mode_height (rect_height r) rect_height) of
               (Some w, Some h) \<Rightarrow>
                 (success, w, h, on_wm (floating_resize (ce_root_screen ev) f (word_of_int w) (word_of_int h)) cx)
             | _ \<Rightarrow> (success, w, h, on_wm abort cx))
        | None \<Rightarrow>
            if is_dock_client s c then (success, w, h, cx)
            else
              (case (if w > 0 then resize_set_tiling c HORIZ (is_ppt mode_width) w cx else (True, cx)) of
                 (ok_w, cx) \<Rightarrow>
                   (case (if h > 0 then resize_set_tiling c VERT (is_ppt mode_height) h cx else (True, cx)) of
                      (ok_h, cx) \<Rightarrow> (success \<and> ok_w \<and> ok_h, w, h, cx))))"

definition cmd_resize_set ::
  "environment \<Rightarrow> int \<Rightarrow> string option \<Rightarrow> int \<Rightarrow> string option \<Rightarrow> session \<Rightarrow> session" where
  "cmd_resize_set ev cwidth mode_width cheight mode_height cx =
     (if cwidth < 0 \<or> cheight < 0 then yerror ''Dimensions cannot be negative.'' cx
      else handle_empty_match (\<lambda>cx.
        case fold (resize_set_one ev mode_width mode_height) (cx_owindows cx) (True, cwidth, cheight, cx) of
          (success, _, _, cx) \<Rightarrow> ysuccess success (wants_render True cx)) cx)"

subsection \<open>Borders\<close>

definition border_width_from_style :: "environment \<Rightarrow> wm \<Rightarrow> border_style_t \<Rightarrow> int \<Rightarrow> con_id \<Rightarrow> int" where
  "border_width_from_style ev s style width c =
     (let is_floating = (con_inside_floating s c \<noteq> None) in
      if style = BS_NONE then 0
      else if width \<ge> 0 then logical_px (ce_dpi ev) (c_int width)
      else if is_floating \<and> style = cfg_default_floating_border (cfg s) then cfg_default_floating_border_width (cfg s)
      else if \<not> is_floating \<and> style = cfg_default_border (cfg s) then cfg_default_border_width (cfg s)
      else logical_px (ce_dpi ev) (if style = BS_NORMAL then 2 else 1))"

fun next_border_style :: "border_style_t \<Rightarrow> border_style_t" where
  "next_border_style BS_NONE = BS_PIXEL"
| "next_border_style BS_PIXEL = BS_NORMAL"
| "next_border_style BS_NORMAL = BS_NONE"

definition wanted_border :: "string \<Rightarrow> border_style_t \<Rightarrow> border_style_t option" where
  "wanted_border str current =
     (if str = ''toggle'' then Some (next_border_style current)
      else if str = ''normal'' then Some BS_NORMAL
      else if str = ''pixel'' then Some BS_PIXEL
      else if str = ''none'' then Some BS_NONE
      else None)"

fun border_each :: "environment \<Rightarrow> string \<Rightarrow> int \<Rightarrow> con_id list \<Rightarrow> session \<Rightarrow> session" where
  "border_each ev str width [] cx = done_ok cx"
| "border_each ev str width (c # cs) cx =
     (case wanted_border str (border_style (store (cx_wm cx) c)) of
        None \<Rightarrow> yerror (''BUG: called with border_style='' @ str) cx
      | Some style \<Rightarrow> border_each ev str width cs (on_wm (\<lambda>s.
          let s = upd_con c (\<lambda>k. k\<lparr>max_user_border_style := style\<rparr>) s
          in con_set_border_style c style (border_width_from_style ev s style width c) s) cx))"

definition cmd_border :: "environment \<Rightarrow> string \<Rightarrow> int \<Rightarrow> session \<Rightarrow> session" where
  "cmd_border ev str width = handle_empty_match (\<lambda>cx. border_each ev str width (cx_owindows cx) cx)"

definition cmd_nop :: "string \<Rightarrow> session \<Rightarrow> session" where
  "cmd_nop comment cx = ysuccess True cx"


subsection \<open>Layouts, floating, sticky\<close>

definition cmd_floating :: "environment \<Rightarrow> string \<Rightarrow> session \<Rightarrow> session" where
  "cmd_floating ev floating_mode =
     handle_empty_match (\<lambda>cx. done_ok (each_match (\<lambda>c s.
       let s = (if floating_mode = ''toggle'' then toggle_floating_mode (ce_root_screen ev) c False s
                else if floating_mode = ''enable'' then snd (floating_enable (ce_root_screen ev) c False s)
                else floating_disable c s)
       in ce_run_assignments ev (window (store s c)) s) cx))"

text \<open>\<open>direction[0]\<close>; the grammar never gives an empty direction.\<close>

definition split_orientation :: "string \<Rightarrow> wm \<Rightarrow> con_id \<Rightarrow> orientation_t option" where
  "split_orientation direction s c =
     (case direction of
        CHR ''t'' # _ \<Rightarrow>
          map_option (\<lambda>l. if l = L_SPLITH then VERT else HORIZ)
            (if kind s c = CT_WORKSPACE then Some (layout_of s c) else map_option (layout_of s) (parent_of s c))
      | CHR ''v'' # _ \<Rightarrow> Some VERT
      | _ \<Rightarrow> Some HORIZ)"

definition cmd_split :: "string \<Rightarrow> session \<Rightarrow> session" where
  "cmd_split direction =
     handle_empty_match (\<lambda>cx. done_ok (each_match (\<lambda>c s.
       if con_is_docked s c then s else with_con (split_orientation direction s c) (tree_split c) s) cx))"

definition cmd_kill :: "string option \<Rightarrow> session \<Rightarrow> session" where
  "cmd_kill kill_mode_str cx =
     (let mode = (case kill_mode_str of None \<Rightarrow> ''window'' | Some m \<Rightarrow> m);
          close = (\<lambda>k. handle_empty_match (\<lambda>cx. done_ok (each_match (\<lambda>c. con_close c k) cx)) cx)
      in if mode = ''window'' then close KILL_WINDOW
         else if mode = ''client'' then close KILL_CLIENT
         else yerror (''BUG: called with kill_mode='' @ mode) cx)"

definition cmd_exec :: "environment \<Rightarrow> bool \<Rightarrow> string \<Rightarrow> session \<Rightarrow> session" where
  "cmd_exec ev no_startup_id command =
     handle_empty_match (\<lambda>cx. ysuccess True (each_match (\<lambda>c s.
       ce_start_application ev command no_startup_id
         (case window (store s c) of None \<Rightarrow> 0 | Some w \<Rightarrow> w_id w) s) cx))"

definition cmd_fullscreen :: "string \<Rightarrow> string \<Rightarrow> session \<Rightarrow> session" where
  "cmd_fullscreen action fs_mode =
     (let mode = (if fs_mode = ''global'' then CF_GLOBAL else CF_OUTPUT)
      in handle_empty_match (\<lambda>cx. done_ok (each_match (\<lambda>c s.
           if action = ''toggle'' then con_toggle_fullscreen c mode s
           else if action = ''enable'' then con_enable_fullscreen c mode s
           else if action = ''disable'' then con_disable_fullscreen c s
           else s) cx)))"

definition set_sticky :: "string \<Rightarrow> con_id \<Rightarrow> wm \<Rightarrow> wm" where
  "set_sticky action c s =
     (if window (store s c) = None then s
      else upd_con c (\<lambda>k. k\<lparr>sticky :=
             (action = ''enable'' \<or> action = ''toggle'' \<and> \<not> sticky k)\<rparr>) s)"

definition cmd_sticky :: "string \<Rightarrow> session \<Rightarrow> session" where
  "cmd_sticky action =
     handle_empty_match (\<lambda>cx. done_ok (on_wm (\<lambda>s. output_push_sticky_windows (focused s) s)
       (each_match (set_sticky action) cx)))"

definition cmd_layout :: "string \<Rightarrow> session \<Rightarrow> session" where
  "cmd_layout layout_str =
     handle_empty_match (\<lambda>cx.
       case layout_from_name layout_str of
         None \<Rightarrow> yerror (''Unknown layout '' @ quoted layout_str @
                   '', this is a mismatch between code and parser spec.'') cx
       | Some l \<Rightarrow> done_ok (each_match (\<lambda>c s. if con_is_docked s c then s else con_set_layout c l s) cx))"

definition cmd_layout_toggle :: "string option \<Rightarrow> session \<Rightarrow> session" where
  "cmd_layout_toggle toggle_mode cx =
     (let mode = (case toggle_mode of None \<Rightarrow> ''default'' | Some m \<Rightarrow> m)
      in done_ok (if match_is_empty (cx_match cx)
           then with_some (focused (cx_wm cx)) (\<lambda>f. on_wm (con_toggle_layout f mode)) cx
           else each_match (\<lambda>c. con_toggle_layout c mode) cx))"

definition cmd_open :: "session \<Rightarrow> session" where
  "cmd_open =
     run_wm (tree_open_con None None) (\<lambda>new. with_some new (\<lambda>c cx.
       wants_render True (reply (Y_Open c)
         (on_wm (\<lambda>s. con_activate c (upd_con c (\<lambda>k. k\<lparr>layout := L_SPLITH\<rparr>) s)) cx))))"

subsection \<open>Positions\<close>

text \<open>A distance in percent of the output; \<^const>\<open>None\<close> is a container without an output.\<close>

definition distance :: "wm \<Rightarrow> con_id \<Rightarrow> bool \<Rightarrow> (Rect \<Rightarrow> u32) \<Rightarrow> int \<Rightarrow> real option" where
  "distance s c ppt_mode get amount =
     (if ppt_mode
      then map_option (\<lambda>out. real (unat (get (rect (store s out)))) * (real_of_int amount / 100)) (con_get_output s c)
      else Some (real_of_int amount))"

definition shifted :: "direction_t \<Rightarrow> real \<Rightarrow> Rect \<Rightarrow> Rect" where
  "shifted d v r =
     (case d of
        D_LEFT \<Rightarrow> r\<lparr>rect_x := store_double (real (unat (rect_x r)) - v)\<rparr>
      | D_RIGHT \<Rightarrow> r\<lparr>rect_x := store_double (real (unat (rect_x r)) + v)\<rparr>
      | D_UP \<Rightarrow> r\<lparr>rect_y := store_double (real (unat (rect_y r)) - v)\<rparr>
      | D_DOWN \<Rightarrow> r\<lparr>rect_y := store_double (real (unat (rect_y r)) + v)\<rparr>)"

definition move_floating_by :: "direction_t \<Rightarrow> bool \<Rightarrow> int \<Rightarrow> con_id \<Rightarrow> session \<Rightarrow> session" where
  "move_floating_by d ppt_mode amount c cx =
     (let s = cx_wm cx in
      case (parent_of s c, distance s c ppt_mode (if d = D_LEFT \<or> d = D_RIGHT then rect_width else rect_height) amount) of
        (Some p, Some v) \<Rightarrow> run_wm (floating_reposition p (shifted d v (rect (store s p)))) wants_render cx
      | _ \<Rightarrow> on_wm abort cx)"

text \<open>The flag to render is overwritten for every container.\<close>

definition cmd_move_direction :: "environment \<Rightarrow> string \<Rightarrow> int \<Rightarrow> string option \<Rightarrow> session \<Rightarrow> session" where
  "cmd_move_direction ev direction_str amount mode =
     handle_empty_match (\<lambda>cx. with_some (parse_direction direction_str) (\<lambda>d cx.
       ysuccess True (fold (\<lambda>c cx.
         if con_is_floating (cx_wm cx) c then move_floating_by d (is_ppt mode) amount c cx
         else wants_render True (on_wm (tree_move (ce_run_assignments ev) c d) cx)) (cx_owindows cx) cx)) cx)"

definition not_floating_error :: string where
  "not_floating_error = ''Cannot change position of a window/container because it is not floating.''"

definition first_error :: "string \<Rightarrow> bool \<Rightarrow> session \<Rightarrow> bool \<times> session" where
  "first_error msg has_error cx = (True, if has_error then cx else yerror msg cx)"

definition position_one ::
  "int \<Rightarrow> string option \<Rightarrow> int \<Rightarrow> string option \<Rightarrow> con_id \<Rightarrow> bool \<times> session \<Rightarrow> bool \<times> session" where
  "position_one x mode_x y mode_y c st =
     (case st of (has_error, cx) \<Rightarrow>
        let s = cx_wm cx in
        if \<not> con_is_floating s c then first_error not_floating_error has_error cx
        else (case (parent_of s c, distance s c (is_ppt mode_x) rect_width x, distance s c (is_ppt mode_y) rect_height y) of
            (Some p, Some vx, Some vy) \<Rightarrow>
              (case floating_reposition p ((rect (store s p))\<lparr>rect_x := store_double vx, rect_y := store_double vy\<rparr>) s of
                 (True, s) \<Rightarrow> (has_error, cx\<lparr>cx_wm := s\<rparr>)
               | (False, s) \<Rightarrow> (True, yerror ''Cannot move window/container out of bounds.'' (cx\<lparr>cx_wm := s\<rparr>)))
          | _ \<Rightarrow> (has_error, on_wm abort cx)))"

definition unless_error :: "bool \<times> session \<Rightarrow> session" where
  "unless_error st = (case st of (has_error, cx) \<Rightarrow> if has_error then cx else ysuccess True cx)"

definition cmd_move_window_to_position ::
  "int \<Rightarrow> string option \<Rightarrow> int \<Rightarrow> string option \<Rightarrow> session \<Rightarrow> session" where
  "cmd_move_window_to_position x mode_x y mode_y =
     handle_empty_match (\<lambda>cx. unless_error (fold (position_one x mode_x y mode_y) (cx_owindows cx) (False, cx)))"

definition center_one :: "string \<Rightarrow> con_id \<Rightarrow> bool \<times> session \<Rightarrow> bool \<times> session" where
  "center_one method c st =
     (case st of (has_error, cx) \<Rightarrow>
        case con_inside_floating (cx_wm cx) c of
          None \<Rightarrow> first_error not_floating_error has_error cx
        | Some f \<Rightarrow>
            let cx = (if method = ''absolute'' then wants_render True (on_wm (\<lambda>s.
                        snd (floating_maybe_reassign_ws f (floating_center f (rect (store s (croot s))) s))) cx)
                      else cx);
                cx = (if method = ''position'' then wants_render True (on_wm (\<lambda>s.
                        with_con (con_get_workspace s f) (\<lambda>ws. floating_center f (rect (store s ws))) s) cx)
                      else cx)
            in (has_error, cx))"

definition cmd_move_window_to_center :: "string \<Rightarrow> session \<Rightarrow> session" where
  "cmd_move_window_to_center method =
     handle_empty_match (\<lambda>cx. unless_error (fold (center_one method) (cx_owindows cx) (False, cx)))"

definition cmd_move_window_to_mouse :: "environment \<Rightarrow> session \<Rightarrow> session" where
  "cmd_move_window_to_mouse ev =
     handle_empty_match (\<lambda>cx. done_ok (each_match (\<lambda>c s.
       case con_inside_floating s c of None \<Rightarrow> s | Some f \<Rightarrow> floating_move_to_pointer (ce_pointer ev) f s) cx))"

subsection \<open>Scratchpad and swapping\<close>

definition cmd_move_scratchpad :: "environment \<Rightarrow> session \<Rightarrow> session" where
  "cmd_move_scratchpad ev =
     handle_empty_match (\<lambda>cx. done_ok (each_match (scratchpad_move (ce_root_screen ev)) cx))"

definition cmd_scratchpad_show :: "environment \<Rightarrow> session \<Rightarrow> session" where
  "cmd_scratchpad_show ev cx =
     run_wm (if match_is_empty (cx_match cx) then scratchpad_show (ce_root_screen ev) None
             else fold (\<lambda>c (r, s). case scratchpad_show (ce_root_screen ev) (Some c) s of (r', s) \<Rightarrow> (r \<or> r', s))
                    (cx_owindows cx) \<circ> Pair False)
       (\<lambda>result cx. ysuccess result (wants_render True cx)) cx"

text \<open>The container a swap is with, or the error.\<close>

definition swap_partner :: "wm \<Rightarrow> string \<Rightarrow> string \<Rightarrow> string + con_id option" where
  "swap_partner s mode arg =
     (if mode = ''id'' then
        (case parse_long_0 arg of
           None \<Rightarrow> Inl (''Failed to parse '' @ arg @ '' into a window id.'')
         | Some n \<Rightarrow> Inr (con_by_window_id s (word_of_int n)))
      else if mode = ''con_id'' then
        (case parse_long_0 arg of
           None \<Rightarrow> Inl (''Failed to parse '' @ arg @ '' into a container id.'')
         | Some n \<Rightarrow> Inr (con_by_con_id s (nat n)))
      else if mode = ''mark'' then Inr (con_by_mark s arg)
      else Inl (''Unhandled swap mode '' @ quoted mode @ ''. This is a bug.''))"

definition cmd_swap :: "string \<Rightarrow> string \<Rightarrow> session \<Rightarrow> session" where
  "cmd_swap mode arg =
     handle_empty_match (\<lambda>cx.
       case cx_owindows cx of
         [] \<Rightarrow> yerror ''No match found for swapping.'' cx
       | m # _ \<Rightarrow>
           (case swap_partner (cx_wm cx) mode arg of
              Inl e \<Rightarrow> yerror e cx
            | Inr None \<Rightarrow> yerror (''Could not find container for '' @ mode @ '' = '' @ arg) cx
            | Inr (Some c) \<Rightarrow> run_wm (con_swap m c) (\<lambda>result cx. ysuccess result (wants_render True cx)) cx))"


subsection \<open>Titles\<close>

text \<open>A window's title is redrawn through a flag of the X11 side; the cached decoration of a container
  without one is dropped.\<close>

definition redraw_title :: "con_id \<Rightarrow> wm \<Rightarrow> wm" where
  "redraw_title c = upd_con c (\<lambda>k. if window k = None then k\<lparr>deco_cached := False\<rparr> else k)"

definition cmd_title_format :: "string \<Rightarrow> session \<Rightarrow> session" where
  "cmd_title_format format =
     handle_empty_match (\<lambda>cx. done_ok (each_match (\<lambda>c s.
       redraw_title c (upd_con c (\<lambda>k. k\<lparr>title_format :=
         (if caseless_eq format ''%title'' then None else Some format)\<rparr>) s)) cx))"

text \<open>The padding of the icon; negative for no icon.\<close>

definition icon_padding :: "string option \<Rightarrow> int \<Rightarrow> int \<Rightarrow> int" where
  "icon_padding enable padding current =
     (if enable = Some ''toggle'' then
        (if padding > 0 then (if current < 0 then padding else - (padding + 1)) else - (current + 1))
      else if enable \<noteq> None \<and> \<not> boolstr (the enable) then - 1
      else padding)"

definition cmd_title_window_icon :: "string option \<Rightarrow> int \<Rightarrow> session \<Rightarrow> session" where
  "cmd_title_window_icon enable padding =
     handle_empty_match (\<lambda>cx. done_ok (each_match (\<lambda>c s.
       redraw_title c (upd_con c (\<lambda>k. k\<lparr>window_icon_padding :=
         icon_padding enable padding (window_icon_padding k)\<rparr>) s)) cx))"

subsection \<open>Renaming a workspace\<close>

text \<open>Giving a workspace its new name and its place in the order of the workspaces.\<close>

definition rename_attached :: "con_id \<Rightarrow> string \<Rightarrow> wm \<Rightarrow> wm" where
  "rename_attached ws new_name s =
     (let s = upd_con ws (\<lambda>k. k\<lparr>cname := new_name, num := ws_name_to_number new_name\<rparr>) s
      in with_con (parent_of s ws) (\<lambda>p s.
           let s = ipc_send (Workspace_Event ''rename'' ws None) (con_attach ws p False (con_detach ws s))
           in (case get_assigned_output s (Some (cname (store s ws))) (num (store s ws)) of
                 None \<Rightarrow> s
               | Some out \<Rightarrow> with_con (get_output_for_con s out) (workspace_move_to_output ws) s)) s)"

text \<open>The focus goes back; a workspace that had it may be gone.\<close>

definition rename_restore :: "con_id \<Rightarrow> con_id option \<Rightarrow> wm \<Rightarrow> wm" where
  "rename_restore prev content s =
     (if (case content of None \<Rightarrow> True | Some q \<Rightarrow> prev \<in> set (nodes s q))
      then con_focus prev (with_con (con_get_workspace s prev) workspace_show s)
      else s)"

definition rename_previous :: "string \<Rightarrow> string \<Rightarrow> wm \<Rightarrow> wm" where
  "rename_previous old_name new_name s =
     (if previous_workspace_name s = Some old_name then s\<lparr>previous_workspace_name := Some new_name\<rparr> else s)"

definition rename_workspace :: "con_id \<Rightarrow> string \<Rightarrow> string \<Rightarrow> wm \<Rightarrow> wm" where
  "rename_workspace ws old_name new_name s =
     with_con (focused s) (\<lambda>prev s.
       let content = (if kind s prev = CT_WORKSPACE then parent_of s prev else None)
       in startup_sequence_rename_workspace old_name new_name
            (rename_previous old_name new_name (rename_restore prev content (rename_attached ws new_name s)))) s"

definition cmd_rename_workspace :: "string option \<Rightarrow> string \<Rightarrow> session \<Rightarrow> session" where
  "cmd_rename_workspace old_name new_name cx =
     (if internal_name new_name
      then yerror (''Cannot rename workspace to '' @ quoted new_name @ '': names starting with __ are i3-internal.'') cx
      else
        let s = cx_wm cx;
            go = (\<lambda>old ws cx.
              case get_existing_workspace_by_name (cx_wm cx) new_name of
                Some w \<Rightarrow>
                  if w \<noteq> ws then yerror (''New workspace '' @ quoted new_name @ '' already exists'') cx
                  else done_ok (on_wm (rename_workspace ws old new_name) cx)
              | None \<Rightarrow> done_ok (on_wm (rename_workspace ws old new_name) cx))
        in (case old_name of
              None \<Rightarrow> with_some (focused_workspace s) (\<lambda>ws. go (cname (store s ws)) ws) cx
            | Some old \<Rightarrow>
                (case get_existing_workspace_by_name s old of
                   None \<Rightarrow> yerror (''Old workspace '' @ quoted old @ '' not found'') cx
                 | Some ws \<Rightarrow> go old ws cx)))"

subsection \<open>Bars\<close>

text \<open>One value for the bars: a mode or a hidden state. A toggle keeps the last computed value in the
  variable of the function.\<close>

fun bar_loop ::
  "(barconfig \<Rightarrow> 'v) \<Rightarrow> ('v \<Rightarrow> barconfig \<Rightarrow> barconfig) \<Rightarrow> ('v \<Rightarrow> 'v) \<Rightarrow> bool \<Rightarrow> string option \<Rightarrow> 'v \<Rightarrow>
     barconfig list \<Rightarrow> bool \<times> string list \<times> barconfig list" where
  "bar_loop get put flip toggle bar_id v [] = (False, [], [])"
| "bar_loop get put flip toggle bar_id v (b # bs) =
     (if bar_id \<noteq> None \<and> bar_id \<noteq> Some (bc_id b) then
        (case bar_loop get put flip toggle bar_id v bs of (found, sent, bs) \<Rightarrow> (found, sent, b # bs))
      else
        let v = (if toggle then flip (get b) else v);
            sent = (if get b \<noteq> v then [bc_id b] else [])
        in if bar_id \<noteq> None then (True, sent, put v b # bs)
           else (case bar_loop get put flip toggle bar_id v bs of
               (found, sent', bs) \<Rightarrow> (found, sent @ sent', put v b # bs)))"

definition bar_command ::
  "(barconfig \<Rightarrow> 'v) \<Rightarrow> ('v \<Rightarrow> barconfig \<Rightarrow> barconfig) \<Rightarrow> ('v \<Rightarrow> 'v) \<Rightarrow> bool \<Rightarrow> string option \<Rightarrow> 'v \<Rightarrow> string \<Rightarrow>
     session \<Rightarrow> session" where
  "bar_command get put flip toggle bar_id v what cx =
     (if barconfigs (cx_wm cx) = [] then yerror (''No bars found'' @ [CHR 0x0A]) cx
      else (case bar_loop get put flip toggle bar_id v (barconfigs (cx_wm cx)) of
          (found, sent, bars) \<Rightarrow>
            let cx = on_wm (\<lambda>s. fold (\<lambda>i. ipc_send (Barconfig_Event i)) sent (s\<lparr>barconfigs := bars\<rparr>)) cx
            in (case bar_id of
                  None \<Rightarrow> ysuccess True cx
                | Some i \<Rightarrow> if found then ysuccess True cx
                    else yerror (''Changing bar '' @ what @ '' of bar_id '' @ i @ '' failed, bar_id not found.'' @ [CHR 0x0A]) cx)))"

fun flip_mode :: "bar_mode_t \<Rightarrow> bar_mode_t" where
  "flip_mode M_DOCK = M_HIDE"
| "flip_mode M_HIDE = M_DOCK"
| "flip_mode M_INVISIBLE = M_HIDE"

definition cmd_bar_mode :: "string \<Rightarrow> string option \<Rightarrow> session \<Rightarrow> session" where
  "cmd_bar_mode bar_mode bar_id =
     (let run = (\<lambda>toggle v. bar_command bc_mode (\<lambda>v b. b\<lparr>bc_mode := v\<rparr>) flip_mode toggle bar_id v ''mode'')
      in if bar_mode = ''dock'' then run False M_DOCK
         else if bar_mode = ''hide'' then run False M_HIDE
         else if bar_mode = ''invisible'' then run False M_INVISIBLE
         else if bar_mode = ''toggle'' then run True M_DOCK
         else on_wm abort)"

definition cmd_bar_hidden_state :: "string \<Rightarrow> string option \<Rightarrow> session \<Rightarrow> session" where
  "cmd_bar_hidden_state bar_hidden_state bar_id =
     (let run = (\<lambda>toggle v. bar_command bc_hidden_state (\<lambda>v b. b\<lparr>bc_hidden_state := v\<rparr>)
                   (\<lambda>v. if v = S_HIDE then S_SHOW else S_HIDE) toggle bar_id v ''hidden_state'')
      in if bar_hidden_state = ''hide'' then run False S_HIDE
         else if bar_hidden_state = ''show'' then run False S_SHOW
         else if bar_hidden_state = ''toggle'' then run True S_SHOW
         else on_wm abort)"

subsection \<open>Logging\<close>

definition cmd_shmlog :: "string \<Rightarrow> session \<Rightarrow> session" where
  "cmd_shmlog argument cx =
     (if argument = ''toggle'' then
        ysuccess True (cx\<lparr>cx_shmlog_size :=
          (if cx_shmlog_size cx \<noteq> 0 then - cx_shmlog_size cx else cx_default_shmlog_size cx)\<rparr>)
      else if argument = ''on'' then ysuccess True (cx\<lparr>cx_shmlog_size := cx_default_shmlog_size cx\<rparr>)
      else if argument = ''off'' then ysuccess True (cx\<lparr>cx_shmlog_size := 0\<rparr>)
      else (case parse_long_0 argument of
          None \<Rightarrow> yerror (''Failed to parse '' @ argument @ '' into a shmlog size.'') cx
        | Some n \<Rightarrow> ysuccess True (cx\<lparr>cx_shmlog_size := c_int n\<rparr>)))"

definition cmd_debuglog :: "string \<Rightarrow> session \<Rightarrow> session" where
  "cmd_debuglog argument cx =
     ysuccess True
       (if argument = ''toggle'' then cx\<lparr>cx_debug_logging := \<not> cx_debug_logging cx\<rparr>
        else if argument = ''on'' then cx\<lparr>cx_debug_logging := True\<rparr>
        else if argument = ''off'' then cx\<lparr>cx_debug_logging := False\<rparr>
        else cx)"

subsection \<open>Gaps\<close>

text \<open>The accessors of the fields of \<open>gaps_t\<close>.\<close>

datatype gap_accessor = Gaps_Inner | Gaps_Top | Gaps_Left | Gaps_Bottom | Gaps_Right

fun gap_get :: "gap_accessor \<Rightarrow> gaps_t \<Rightarrow> int" where
  "gap_get Gaps_Inner g = g_inner g"
| "gap_get Gaps_Top g = g_top g"
| "gap_get Gaps_Left g = g_left g"
| "gap_get Gaps_Bottom g = g_bottom g"
| "gap_get Gaps_Right g = g_right g"

fun gap_set :: "gap_accessor \<Rightarrow> int \<Rightarrow> gaps_t \<Rightarrow> gaps_t" where
  "gap_set Gaps_Inner v g = g\<lparr>g_inner := v\<rparr>"
| "gap_set Gaps_Top v g = g\<lparr>g_top := v\<rparr>"
| "gap_set Gaps_Left v g = g\<lparr>g_left := v\<rparr>"
| "gap_set Gaps_Bottom v g = g\<lparr>g_bottom := v\<rparr>"
| "gap_set Gaps_Right v g = g\<lparr>g_right := v\<rparr>"

text \<open>The value a mode computes from the current one and whether the workspaces are reset.\<close>

definition gap_value :: "string \<Rightarrow> int \<Rightarrow> int \<Rightarrow> (int \<times> bool) option" where
  "gap_value mode current pixels =
     (if mode = ''plus'' then Some (current + pixels, False)
      else if mode = ''minus'' then Some (current - pixels, False)
      else if mode = ''set'' then Some (pixels, True)
      else if mode = ''toggle'' then Some (if current = 0 then pixels else 0, True)
      else None)"

definition workspace_gap :: "bool \<Rightarrow> int \<Rightarrow> int \<Rightarrow> int \<Rightarrow> int" where
  "workspace_gap reset current_value max_compensate v =
     (if reset then 0
      else if v + current_value + max_compensate < 0 then - current_value - max_compensate
      else v)"

definition all_workspaces :: "wm \<Rightarrow> con_id list option" where
  "all_workspaces s =
     (let contents = map (output_get_content s) (nodes s (croot s))
      in if None \<in> set contents then None else Some (concat (map (\<lambda>c. nodes s (the c)) contents)))"

definition gaps_update_all :: "gap_accessor \<Rightarrow> bool \<Rightarrow> int \<Rightarrow> wm \<Rightarrow> wm" where
  "gaps_update_all a reset v s =
     with_con (all_workspaces s) (\<lambda>wss s.
       let inner = (if a \<noteq> Gaps_Inner then g_inner (cfg_gaps (cfg s)) else 0);
           s = fold (\<lambda>ws. upd_con ws (\<lambda>k. k\<lparr>gaps :=
                 gap_set a (workspace_gap reset v inner (gap_get a (gaps k))) (gaps k)\<rparr>)) wss s
       in s\<lparr>cfg := (cfg s)\<lparr>cfg_gaps := gap_set a v (cfg_gaps (cfg s))\<rparr>\<rparr>) s"

definition update_gaps :: "gap_accessor \<Rightarrow> string \<Rightarrow> string \<Rightarrow> int \<Rightarrow> wm \<Rightarrow> bool \<times> wm" where
  "update_gaps a scope mode pixels s =
     (let global = cfg_gaps (cfg s); ws = focused_workspace s;
          own = (case ws of None \<Rightarrow> global | Some w \<Rightarrow> gaps (store s w));
          current = gap_get a global + (if scope = ''current'' then gap_get a own else 0)
      in if ws = None \<and> scope \<noteq> ''all'' then (False, abort s)
         else case gap_value mode current pixels of
           None \<Rightarrow> (False, s)
         | Some (v, reset) \<Rightarrow>
             let least = (if a = Gaps_Inner then 0
                          else if scope = ''all'' then - g_inner global
                          else - g_inner global - g_inner own);
                 v = max v least
             in (True, if scope = ''all'' then gaps_update_all a reset v s
                       else upd_con (the ws) (\<lambda>k. k\<lparr>gaps := gap_set a (v - gap_get a global) (gaps k)\<rparr>) s))"

type_synonym gap_step = "gap_accessor \<times> string \<times> string \<times> int"

fun gaps_updates :: "gap_step list \<Rightarrow> wm \<Rightarrow> bool \<times> wm" where
  "gaps_updates [] s = (True, s)"
| "gaps_updates ((a, scope, mode, pixels) # us) s =
     (case update_gaps a scope mode pixels s of
        (True, s) \<Rightarrow> gaps_updates us s
      | (False, s) \<Rightarrow> (False, s))"

definition gap_steps :: "string \<Rightarrow> string \<Rightarrow> string \<Rightarrow> int \<Rightarrow> gap_step list option" where
  "gap_steps gap_type scope mode pixels =
     (let given = (\<lambda>as. Some (map (\<lambda>a. (a, scope, mode, pixels)) as)) in
      if gap_type = ''inner'' then
        Some ((Gaps_Inner, scope, mode, pixels) #
          map (\<lambda>a. (a, ''all'', ''plus'', 0)) [Gaps_Top, Gaps_Bottom, Gaps_Right, Gaps_Left])
      else if gap_type = ''outer'' then given [Gaps_Top, Gaps_Bottom, Gaps_Right, Gaps_Left]
      else if gap_type = ''vertical'' then given [Gaps_Top, Gaps_Bottom]
      else if gap_type = ''horizontal'' then given [Gaps_Right, Gaps_Left]
      else if gap_type = ''top'' then given [Gaps_Top]
      else if gap_type = ''bottom'' then given [Gaps_Bottom]
      else if gap_type = ''right'' then given [Gaps_Right]
      else if gap_type = ''left'' then given [Gaps_Left]
      else None)"

definition cmd_gaps :: "environment \<Rightarrow> string \<Rightarrow> string \<Rightarrow> string \<Rightarrow> string \<Rightarrow> session \<Rightarrow> session" where
  "cmd_gaps ev gap_type scope mode v cx =
     (case gap_steps gap_type scope mode (logical_px (ce_dpi ev) (c_atoi v)) of
        None \<Rightarrow> ysuccess False cx
      | Some us \<Rightarrow> run_wm (gaps_updates us) (\<lambda>ok cx. if ok then done_ok cx else ysuccess False cx) cx)"


subsection \<open>Gaps do not overlap the windows\<close>

text \<open>The gap at which a side of a workspace is drawn, with what the inner gap adds to an outer one.\<close>

definition effective_gap :: "gap_accessor \<Rightarrow> wm \<Rightarrow> con_id \<Rightarrow> int" where
  "effective_gap a s ws =
     gap_get a (gaps (store s ws)) + gap_get a (cfg_gaps (cfg s)) +
     (if a = Gaps_Inner then 0 else g_inner (cfg_gaps (cfg s)))"

lemma gap_get_set [simp]: "gap_get a (gap_set a v g) = v"
  by (cases a) simp_all

lemma gap_set_inner [simp]: "a \<noteq> Gaps_Inner \<Longrightarrow> g_inner (gap_set a v g) = g_inner g"
  by (cases a) simp_all

lemma fold_upd_each:
  assumes "\<And>x. f (f x) = f x"
  shows "store (fold (\<lambda>c. upd_con c f) cs s) c = (if c \<in> set cs then f (store s c) else store s c)"
  by (induction cs arbitrary: s) (auto simp: upd_con_def assms)

lemma fold_upd_cfg [simp]: "cfg (fold (\<lambda>c. upd_con c f) cs s) = cfg s"
  by (induction cs arbitrary: s) simp_all

lemma workspace_gap_enough:
  "0 \<le> v + inner \<Longrightarrow> 0 \<le> workspace_gap reset v inner x + v + inner"
  by (simp add: workspace_gap_def)

lemma workspace_gap_again:
  "0 \<le> v + inner \<Longrightarrow> workspace_gap reset v inner (workspace_gap reset v inner x) = workspace_gap reset v inner x"
  by (simp add: workspace_gap_def)

lemma gap_set_set [simp]: "gap_set a v (gap_set a w g) = gap_set a v g"
  by (cases a) simp_all

lemma gaps_update_all_effective:
  assumes "all_workspaces s = Some wss" and "ws \<in> set wss"
    and "0 \<le> v + (if a = Gaps_Inner then 0 else g_inner (cfg_gaps (cfg s)))"
  shows "0 \<le> effective_gap a (gaps_update_all a reset v s) ws"
proof -
  define inner where "inner = (if a \<noteq> Gaps_Inner then g_inner (cfg_gaps (cfg s)) else 0)"
  let ?f = "\<lambda>k. k\<lparr>gaps := gap_set a (workspace_gap reset v inner (gap_get a (gaps k))) (gaps k)\<rparr>"
  let ?s = "fold (\<lambda>ws. upd_con ws ?f) wss s"
  have v: "0 \<le> v + inner" using assms(3) by (simp add: inner_def split: if_splits)
  have idem: "?f (?f k) = ?f k" for k :: con by (simp add: workspace_gap_again [OF v])
  have "gap_get a (gaps (store ?s ws)) = workspace_gap reset v inner (gap_get a (gaps (store s ws)))"
    using fold_upd_each [of ?f wss s ws, OF idem] assms(2) by simp
  then have "0 \<le> gap_get a (gaps (store ?s ws)) + v + inner" using workspace_gap_enough [OF v] by simp
  then show ?thesis
    using assms(1) by (simp add: gaps_update_all_def effective_gap_def Let_def inner_def split: if_splits)
qed

lemma gaps_update_effective:
  assumes "update_gaps a ''all'' mode px s = (True, t)" and "all_workspaces s = Some wss" and "ws \<in> set wss"
  shows "0 \<le> effective_gap a t ws"
proof -
  let ?least = "if a = Gaps_Inner then 0 else - g_inner (cfg_gaps (cfg s))"
  obtain v reset where "t = gaps_update_all a reset (max v ?least) s"
    using assms(1) by (auto simp: update_gaps_def Let_def split: if_splits option.splits)
  then show ?thesis using gaps_update_all_effective [OF assms(2,3), of "max v ?least" a reset] by (cases a) simp_all
qed

lemma gaps_update_current:
  assumes "update_gaps a ''current'' mode px s = (True, t)"
  shows "\<exists>ws. focused_workspace s = Some ws \<and>
    - (if a = Gaps_Inner then 0 else g_inner (gaps (store s ws))) \<le> effective_gap a t ws \<and>
    cfg t = cfg s \<and> (\<forall>c. c \<noteq> ws \<longrightarrow> store t c = store s c)"
proof -
  obtain ws where ws: "focused_workspace s = Some ws"
    using assms by (auto simp: update_gaps_def Let_def split: if_splits)
  let ?least = "if a = Gaps_Inner then 0 else - g_inner (cfg_gaps (cfg s)) - g_inner (gaps (store s ws))"
  obtain v where t: "t = upd_con ws (\<lambda>k. k\<lparr>gaps :=
      gap_set a (max v ?least - gap_get a (cfg_gaps (cfg s))) (gaps k)\<rparr>) s"
    using assms ws by (auto simp: update_gaps_def Let_def split: if_splits option.splits)
  then show ?thesis by (intro exI [of _ ws]) (auto simp: ws effective_gap_def upd_con_def)
qed

end
