(* ===== verification/Config_Directives.thy ===== *)
theory Config_Directives
  imports Commands_Layout
begin

text \<open>
  The directives of the configuration file (\<^verbatim>\<open>src/config_directives.c\<close>), with the colors of
  \<^verbatim>\<open>libi3/draw_util.c\<close> and \<^verbatim>\<open>libi3/get_colorpixel.c\<close>. The function \<open>cfg_x\<close> of the source is \<open>cfgfun_x\<close>
  here. The state of the directives is the record \<open>cfg_session\<close>; the options that only drawing, input and
  the animations read are its \<open>options\<close>. \<open>include\<close> is in \<^verbatim>\<open>Config_Parser\<close>, with the reading of files.
\<close>

subsection \<open>Colors\<close>

record color_t =
  co_red :: real
  co_green :: real
  co_blue :: real
  co_alpha :: real
  colorpixel :: u32

text \<open>\<open>strtol\<close> with base 16 on the two characters of a group.\<close>

definition hex_group :: "string \<Rightarrow> int" where
  "hex_group g =
     (let t = dropWhile c_isspace g;
          neg = (t \<noteq> [] \<and> hd t = CHR ''-'');
          u = (if t \<noteq> [] \<and> (hd t = CHR ''-'' \<or> hd t = CHR ''+'') then tl t else t);
          v = value_in 16 0 (takeWhile (\<lambda>c. digit_in 16 c \<noteq> None) u)
      in if neg then - v else v)"

definition color_groups :: "string \<Rightarrow> string list" where
  "color_groups hex =
     [take 2 (drop 1 hex), take 2 (drop 3 hex), take 2 (drop 5 hex),
      if length hex = length ''#rrggbbaa'' then take 2 (drop 7 hex) else ''FF'']"

definition get_colorpixel :: "(string \<Rightarrow> u32) option \<Rightarrow> string \<Rightarrow> u32" where
  "get_colorpixel alloc_color hex =
     (case alloc_color of
        Some pixel_of \<Rightarrow> pixel_of hex
      | None \<Rightarrow>
          let byte = (\<lambda>n. ucast (word_of_int (hex_group (color_groups hex ! n)) :: 8 word) :: u32)
          in or (push_bit 24 (byte 3)) (or (push_bit 16 (byte 0)) (or (push_bit 8 (byte 1)) (byte 2))))"

definition color_of_hex :: "(string \<Rightarrow> u32) option \<Rightarrow> string \<Rightarrow> color_t" where
  "color_of_hex alloc_color color =
     (let part = (\<lambda>n. real_of_int (hex_group (color_groups color ! n)) / 255)
      in \<lparr>co_red = part 0, co_green = part 1, co_blue = part 2, co_alpha = part 3,
          colorpixel = get_colorpixel alloc_color color\<rparr>)"

definition draw_util_hex_to_color :: "(string \<Rightarrow> u32) option \<Rightarrow> string \<Rightarrow> color_t" where
  "draw_util_hex_to_color alloc_color color =
     (if length color < 6 \<or> hd color \<noteq> CHR ''#''
      then color_of_hex alloc_color ''#A9A9A9'' else color_of_hex alloc_color color)"

subsection \<open>Options\<close>

record Colortriple =
  ct_border :: color_t
  ct_background :: color_t
  ct_text :: color_t
  ct_indicator :: color_t
  ct_child_border :: color_t

text \<open>\<open>struct config_client\<close>; the classes are a map from their names.\<close>

record config_client =
  cl_background :: color_t
  cl_classes :: "string \<Rightarrow> Colortriple"
  cl_got_focused_tab_title :: bool

record rounded_corners_config =
  rc_enabled :: bool
  rc_radius :: int
  rc_apply_to_floating :: bool
  rc_apply_to_tiling :: bool

record aiwr_gradient_t =
  gr_enabled :: bool
  gr_active_start :: color_t
  gr_active_end :: color_t
  gr_inactive_start :: color_t
  gr_inactive_end :: color_t
  gr_inactive_set :: bool
  gr_angle :: int
  gr_speed :: int
  gr_fps :: int
  gr_animate_inactive :: bool

record overview_config =
  ov_enabled :: bool
  ov_thumbnail_scale :: int
  ov_spacing :: int
  ov_animation_duration_ms :: int
  ov_show_workspace_names :: bool
  ov_background_opacity :: int
  ov_live_previews :: bool
  ov_particles :: int
  ov_fps :: int
  ov_border_start :: color_t
  ov_border_end :: color_t
  ov_border_inactive :: color_t
  ov_border_width :: int
  ov_border_speed :: int
  ov_wallpaper_path :: "string option"
  ov_background_blur :: int
  ov_dynamic_workspaces :: bool
  ov_thumbnail_blur :: int

datatype wt_type = WT_SLIDE | WT_FADE | WT_ZOOM
datatype wt_direction = WT_HORIZONTAL | WT_VERTICAL

record workspace_transition_config =
  wt_enabled :: bool
  wt_duration_ms :: int
  wt_dir :: wt_direction
  wt_fps :: int
  wt_kind :: wt_type
  wt_curve :: "string option"

record window_animation_config =
  wn_enabled :: bool
  wn_duration_ms :: int
  wn_start_scale :: int
  wn_fps :: int
  wn_curve :: "string option"
  wn_close_enabled :: bool
  wn_close_duration_ms :: int
  wn_close_scale :: int
  wn_close_curve :: "string option"
  wn_opacity :: bool
  wn_start_opacity :: int
  wn_close_opacity :: int

record live_resize_config =
  lr_enabled :: bool
  lr_fps :: int

record switcher_config =
  sw_enabled :: bool
  sw_max_items :: int
  sw_cell_width :: int
  sw_cell_height :: int
  sw_show_preview :: bool

datatype warping_t = POINTER_WARPING_OUTPUT | POINTER_WARPING_NONE
datatype title_align_t = ALIGN_LEFT | ALIGN_CENTER | ALIGN_RIGHT
datatype tiling_drag_t =
  TILING_DRAG_OFF | TILING_DRAG_MODIFIER | TILING_DRAG_TITLEBAR | TILING_DRAG_MODIFIER_OR_TITLEBAR

record options =
  op_font :: "string option"
  op_ipc_socket_path :: "string option"
  op_restart_state_path :: "string option"
  op_fake_outputs :: "string option"
  op_mouse_warping :: warping_t
  op_force_xinerama :: bool
  op_disable_randr15 :: bool
  op_floating_modifier :: u32
  op_swap_modifier :: u32
  op_show_marks :: bool
  op_title_align :: title_align_t
  op_tiling_drag :: tiling_drag_t
  op_kill_timeout :: real
  op_client :: config_client
  op_rounded_corners :: rounded_corners_config
  op_gradient :: aiwr_gradient_t
  op_overview :: overview_config
  op_transition :: workspace_transition_config
  op_window_animation :: window_animation_config
  op_live_resize :: live_resize_config
  op_switcher :: switcher_config

subsection \<open>The state of the directives\<close>

text \<open>What the directives use and do not change: the regular expressions, the atoms, the resolution of
  the screen, the allocation of colors (\<^const>\<open>None\<close> on a true color screen), \<open>resolve_tilde\<close>, the heights of fonts.\<close>

record config_env =
  ge_rx :: regex_lib
  ge_atom :: "string \<Rightarrow> u32"
  ge_dpi :: real
  ge_alloc_color :: "(string \<Rightarrow> u32) option"
  ge_resolve_tilde :: "string \<Rightarrow> string"
  ge_font_height :: "string \<Rightarrow> int"

record Autostart =
  au_command :: string
  au_no_startup_id :: bool

text \<open>The static variables of the file, the match and the result of the parser context, and the lists the
  directives fill. \<open>cd_bar_id\<close> is the id of the bar that is being read, \<^const>\<open>None\<close> while it is NULL.
  \<open>cd_variables\<close> and \<open>cd_included\<close> belong to the parser.\<close>

record cfg_session =
  cd_wm :: wm
  cd_options :: options
  cd_match :: Match
  cd_criteria_next_state :: nat
  cd_current_mode :: "string option"
  cd_current_mode_pango :: bool
  cd_current_workspace :: "string option"
  cd_current_bar :: "barconfig option"
  cd_bar_id :: "string option"
  cd_number_barconfigs :: int
  cd_autostarts :: "Autostart list"
  cd_autostarts_always :: "Autostart list"
  cd_variables :: "(string \<times> string) list"
  cd_included :: "string list"

definition on_cd_wm :: "(wm \<Rightarrow> wm) \<Rightarrow> cfg_session \<Rightarrow> cfg_session" where
  "on_cd_wm f cd = cd\<lparr>cd_wm := f (cd_wm cd)\<rparr>"

definition on_cfg :: "(config \<Rightarrow> config) \<Rightarrow> cfg_session \<Rightarrow> cfg_session" where
  "on_cfg f = on_cd_wm (\<lambda>s. s\<lparr>cfg := f (cfg s)\<rparr>)"

definition on_options :: "(options \<Rightarrow> options) \<Rightarrow> cfg_session \<Rightarrow> cfg_session" where
  "on_options f cd = cd\<lparr>cd_options := f (cd_options cd)\<rparr>"

subsection \<open>Criteria\<close>

definition cfgfun_criteria_init :: "nat \<Rightarrow> cfg_session \<Rightarrow> cfg_session" where
  "cfgfun_criteria_init st cd = cd\<lparr>cd_criteria_next_state := st, cd_match := match_init\<rparr>"

definition cfgfun_criteria_pop_state :: "cfg_session \<Rightarrow> nat" where
  "cfgfun_criteria_pop_state cd = cd_criteria_next_state cd"

definition cfgfun_criteria_add :: "config_env \<Rightarrow> string \<Rightarrow> string \<Rightarrow> cfg_session \<Rightarrow> cfg_session" where
  "cfgfun_criteria_add ge typ cvalue cd =
     cd\<lparr>cd_match := match_parse_property (ge_rx ge) (ge_atom ge) (cd_wm cd) typ cvalue (cd_match cd)\<rparr>"

subsection \<open>Bindings and modes\<close>

text \<open>\<open>load_font\<close> is a library's; \<open>height\<close> gives the height of the font it finds.\<close>

definition cfgfun_font :: "(string \<Rightarrow> int) \<Rightarrow> string \<Rightarrow> cfg_session \<Rightarrow> cfg_session" where
  "cfgfun_font height font cd =
     on_options (\<lambda>op. op\<lparr>op_font := Some font\<rparr>) (on_cfg (\<lambda>c. c\<lparr>cfg_font_height := height font\<rparr>) cd)"

definition cfgfun_binding :: "binding_spec \<Rightarrow> cfg_session \<Rightarrow> cfg_session" where
  "cfgfun_binding b = on_cd_wm (configure_binding b ''default'' False)"

definition cfgfun_mode_binding :: "binding_spec \<Rightarrow> cfg_session \<Rightarrow> cfg_session" where
  "cfgfun_mode_binding b cd =
     (case cd_current_mode cd of
        None \<Rightarrow> cd
      | Some m \<Rightarrow> on_cd_wm (configure_binding b m (cd_current_mode_pango cd)) cd)"

definition cfgfun_enter_mode :: "bool \<Rightarrow> string \<Rightarrow> cfg_session \<Rightarrow> cfg_session" where
  "cfgfun_enter_mode pango_markup modename cd =
     (if modename = ''default'' then cd
      else cd\<lparr>cd_current_mode := Some modename, cd_current_mode_pango := pango_markup\<rparr>)"

definition cfgfun_exec :: "string \<Rightarrow> bool \<Rightarrow> string \<Rightarrow> cfg_session \<Rightarrow> cfg_session" where
  "cfgfun_exec exectype no_startup_id command cd =
     (let new = \<lparr>au_command = command, au_no_startup_id = no_startup_id\<rparr>
      in if exectype = ''exec'' then cd\<lparr>cd_autostarts := cd_autostarts cd @ [new]\<rparr>
         else cd\<lparr>cd_autostarts_always := cd_autostarts_always cd @ [new]\<rparr>)"

subsection \<open>Assignments\<close>

definition new_assignment_id :: "wm \<Rightarrow> nat" where
  "new_assignment_id s = Suc (fold max (map asg_id (assignments s)) 0)"

definition add_assignment :: "config_env \<Rightarrow> assignment_t \<Rightarrow> string \<Rightarrow> cfg_session \<Rightarrow> cfg_session" where
  "add_assignment ge t dest cd =
     on_cd_wm (\<lambda>s. s\<lparr>assignments := assignments s @
       [\<lparr>asg_id = new_assignment_id s, asg_type = t, asg_match = match_copy (ge_rx ge) (cd_match cd),
         asg_dest = dest\<rparr>]\<rparr>) cd"

definition usable_match :: "Match \<Rightarrow> bool" where
  "usable_match m \<longleftrightarrow> ma_error m = None \<and> \<not> match_is_empty m"

definition cfgfun_for_window :: "config_env \<Rightarrow> string \<Rightarrow> cfg_session \<Rightarrow> cfg_session" where
  "cfgfun_for_window ge command cd =
     (if \<not> usable_match (cd_match cd) then cd else add_assignment ge A_COMMAND command cd)"

definition cfgfun_assign_output :: "config_env \<Rightarrow> string \<Rightarrow> cfg_session \<Rightarrow> cfg_session" where
  "cfgfun_assign_output ge out cd =
     (if \<not> usable_match (cd_match cd) \<or> ma_window_mode (cd_match cd) \<noteq> WM_ANY then cd
      else add_assignment ge A_TO_OUTPUT out cd)"

definition cfgfun_assign :: "config_env \<Rightarrow> string \<Rightarrow> bool \<Rightarrow> cfg_session \<Rightarrow> cfg_session" where
  "cfgfun_assign ge ws is_number cd =
     (if \<not> usable_match (cd_match cd) \<or> ma_window_mode (cd_match cd) \<noteq> WM_ANY then cd
      else if is_number \<and> ws_name_to_number ws = - 1 then cd
      else add_assignment ge (if is_number then A_TO_WORKSPACE_NUMBER else A_TO_WORKSPACE) ws cd)"

definition cfgfun_no_focus :: "config_env \<Rightarrow> cfg_session \<Rightarrow> cfg_session" where
  "cfgfun_no_focus ge cd = (if \<not> usable_match (cd_match cd) then cd else add_assignment ge A_NO_FOCUS [] cd)"

subsection \<open>Gaps\<close>

definition apply_gaps_value :: "gaps_mask_t \<Rightarrow> int \<Rightarrow> gaps_t \<Rightarrow> gaps_t" where
  "apply_gaps_value m value g =
     \<lparr>g_inner = (if m_inner m then value else g_inner g), g_top = (if m_top m then value else g_top g),
      g_right = (if m_right m then value else g_right g), g_bottom = (if m_bottom m then value else g_bottom g),
      g_left = (if m_left m then value else g_left g)\<rparr>"

definition mask_union :: "gaps_mask_t \<Rightarrow> gaps_mask_t \<Rightarrow> gaps_mask_t" where
  "mask_union a b =
     \<lparr>m_inner = (m_inner a \<or> m_inner b), m_top = (m_top a \<or> m_top b), m_right = (m_right a \<or> m_right b),
      m_bottom = (m_bottom a \<or> m_bottom b), m_left = (m_left a \<or> m_left b)\<rparr>"

definition gaps_scope_to_mask :: "string \<Rightarrow> gaps_mask_t" where
  "gaps_scope_to_mask scope =
     (if scope = ''inner'' then empty_mask\<lparr>m_inner := True\<rparr>
      else if scope = ''outer'' then \<lparr>m_inner = False, m_top = True, m_right = True, m_bottom = True, m_left = True\<rparr>
      else if scope = ''vertical'' then empty_mask\<lparr>m_top := True, m_bottom := True\<rparr>
      else if scope = ''horizontal'' then empty_mask\<lparr>m_right := True, m_left := True\<rparr>
      else if scope = ''top'' then empty_mask\<lparr>m_top := True\<rparr>
      else if scope = ''right'' then empty_mask\<lparr>m_right := True\<rparr>
      else if scope = ''bottom'' then empty_mask\<lparr>m_bottom := True\<rparr>
      else if scope = ''left'' then empty_mask\<lparr>m_left := True\<rparr>
      else empty_mask)"

text \<open>The first assignment of that name is changed; without one, a new one without an output is added.\<close>

fun upd_assignment ::
  "string \<Rightarrow> (workspace_assignment \<Rightarrow> workspace_assignment) \<Rightarrow> workspace_assignment list \<Rightarrow> workspace_assignment list" where
  "upd_assignment name f [] = [f \<lparr>wa_name = name, wa_output = None, wa_gaps = zero_gaps, wa_gaps_mask = empty_mask\<rparr>]"
| "upd_assignment name f (a # as) =
     (if caseless_eq (wa_name a) name then f a # as else a # upd_assignment name f as)"

definition create_gaps_assignment :: "string \<Rightarrow> gaps_mask_t \<Rightarrow> int \<Rightarrow> cfg_session \<Rightarrow> cfg_session" where
  "create_gaps_assignment ws m pixels =
     (if m = empty_mask then id
      else on_cd_wm (\<lambda>s. s\<lparr>ws_assignments := upd_assignment ws
             (\<lambda>a. a\<lparr>wa_gaps_mask := mask_union (wa_gaps_mask a) m, wa_gaps := apply_gaps_value m pixels (wa_gaps a)\<rparr>)
             (ws_assignments s)\<rparr>))"

definition cfgfun_gaps :: "config_env \<Rightarrow> string option \<Rightarrow> string \<Rightarrow> int \<Rightarrow> cfg_session \<Rightarrow> cfg_session" where
  "cfgfun_gaps ge ws scope value =
     (let pixels = logical_px (ge_dpi ge) (c_int value); m = gaps_scope_to_mask scope
      in case ws of
           None \<Rightarrow> on_cfg (\<lambda>c. c\<lparr>cfg_gaps := apply_gaps_value m pixels (cfg_gaps c)\<rparr>)
         | Some ws \<Rightarrow> create_gaps_assignment ws m pixels)"

subsection \<open>Borders, sizes and layouts\<close>

definition HEBM_NONE :: u32 where "HEBM_NONE = 0"
definition HEBM_VERTICAL :: u32 where "HEBM_VERTICAL = ADJ_LEFT_SCREEN_EDGE OR ADJ_RIGHT_SCREEN_EDGE"
definition HEBM_HORIZONTAL :: u32 where "HEBM_HORIZONTAL = ADJ_UPPER_SCREEN_EDGE OR ADJ_LOWER_SCREEN_EDGE"
definition HEBM_BOTH :: u32 where "HEBM_BOTH = HEBM_VERTICAL OR HEBM_HORIZONTAL"

definition cfgfun_smart_borders :: "string \<Rightarrow> cfg_session \<Rightarrow> cfg_session" where
  "cfgfun_smart_borders enable =
     on_cfg (\<lambda>c. if enable = ''no_gaps'' then c\<lparr>cfg_hide_edge_borders := HEBM_SMART_NO_GAPS\<rparr>
                 else if boolstr enable \<and> cfg_hide_edge_borders c = HEBM_NONE
                 then c\<lparr>cfg_hide_edge_borders := HEBM_SMART\<rparr> else c)"

definition cfgfun_smart_gaps :: "string \<Rightarrow> cfg_session \<Rightarrow> cfg_session" where
  "cfgfun_smart_gaps enable =
     on_cfg (\<lambda>c. c\<lparr>cfg_smart_gaps := (if enable = ''inverse_outer'' then SMART_GAPS_INVERSE_OUTER
                                       else if boolstr enable then SMART_GAPS_ON else SMART_GAPS_OFF)\<rparr>)"

definition cfgfun_floating_minimum_size :: "int \<Rightarrow> int \<Rightarrow> cfg_session \<Rightarrow> cfg_session" where
  "cfgfun_floating_minimum_size width height =
     on_cfg (\<lambda>c. c\<lparr>cfg_floating_minimum_width := c_int width, cfg_floating_minimum_height := c_int height\<rparr>)"

definition cfgfun_floating_maximum_size :: "int \<Rightarrow> int \<Rightarrow> cfg_session \<Rightarrow> cfg_session" where
  "cfgfun_floating_maximum_size width height =
     on_cfg (\<lambda>c. c\<lparr>cfg_floating_maximum_width := c_int width, cfg_floating_maximum_height := c_int height\<rparr>)"

definition cfgfun_floating_modifier :: "string \<Rightarrow> cfg_session \<Rightarrow> cfg_session" where
  "cfgfun_floating_modifier modifiers =
     on_options (\<lambda>op. op\<lparr>op_floating_modifier := event_state_from_str (Some modifiers)\<rparr>)"

definition cfgfun_tiling_drag_swap_modifier :: "string \<Rightarrow> cfg_session \<Rightarrow> cfg_session" where
  "cfgfun_tiling_drag_swap_modifier modifiers =
     on_options (\<lambda>op. op\<lparr>op_swap_modifier := event_state_from_str (Some modifiers)\<rparr>)"

definition cfgfun_default_orientation :: "string \<Rightarrow> cfg_session \<Rightarrow> cfg_session" where
  "cfgfun_default_orientation orientation =
     on_cfg (\<lambda>c. c\<lparr>cfg_default_orientation :=
       (if orientation = ''horizontal'' then HORIZ else if orientation = ''vertical'' then VERT else NO_ORIENTATION)\<rparr>)"

definition cfgfun_workspace_layout :: "string \<Rightarrow> cfg_session \<Rightarrow> cfg_session" where
  "cfgfun_workspace_layout lay =
     on_cfg (\<lambda>c. c\<lparr>cfg_default_layout :=
       (if lay = ''default'' then L_DEFAULT
        else if lay = ''stacking'' \<or> lay = ''stacked'' then L_STACKED
        else if lay = ''scrolling'' then L_SCROLLING else L_TABBED)\<rparr>)"

definition cfgfun_default_border :: "config_env \<Rightarrow> string \<Rightarrow> string \<Rightarrow> int \<Rightarrow> cfg_session \<Rightarrow> cfg_session" where
  "cfgfun_default_border ge windowtype border width =
     (let (style, w) = (if border = ''1pixel'' then (BS_PIXEL, 1)
                        else if border = ''none'' then (BS_NONE, 0)
                        else if border = ''pixel'' then (BS_PIXEL, c_int width)
                        else (BS_NORMAL, c_int width));
          w = logical_px (ge_dpi ge) w
      in on_cfg (\<lambda>c. if windowtype = ''default_border'' \<or> windowtype = ''new_window''
                     then c\<lparr>cfg_default_border := style, cfg_default_border_width := w\<rparr>
                     else c\<lparr>cfg_default_floating_border := style, cfg_default_floating_border_width := w\<rparr>))"

definition cfgfun_hide_edge_borders :: "string \<Rightarrow> cfg_session \<Rightarrow> cfg_session" where
  "cfgfun_hide_edge_borders borders =
     on_cfg (\<lambda>c. c\<lparr>cfg_hide_edge_borders :=
       (if borders = ''smart_no_gaps'' then HEBM_SMART_NO_GAPS
        else if borders = ''smart'' then HEBM_SMART
        else if borders = ''vertical'' then HEBM_VERTICAL
        else if borders = ''horizontal'' then HEBM_HORIZONTAL
        else if borders = ''both'' then HEBM_BOTH
        else if borders = ''none'' then HEBM_NONE
        else if boolstr borders then HEBM_VERTICAL else HEBM_NONE)\<rparr>)"

subsection \<open>Focus and outputs\<close>

definition cfgfun_focus_follows_mouse :: "string \<Rightarrow> cfg_session \<Rightarrow> cfg_session" where
  "cfgfun_focus_follows_mouse v = on_cfg (\<lambda>c. c\<lparr>cfg_disable_focus_follows_mouse := \<not> boolstr v\<rparr>)"

definition cfgfun_mouse_warping :: "string \<Rightarrow> cfg_session \<Rightarrow> cfg_session" where
  "cfgfun_mouse_warping v =
     on_options (\<lambda>op. if v = ''none'' then op\<lparr>op_mouse_warping := POINTER_WARPING_NONE\<rparr>
                      else if v = ''output'' then op\<lparr>op_mouse_warping := POINTER_WARPING_OUTPUT\<rparr> else op)"

definition cfgfun_force_xinerama :: "string \<Rightarrow> cfg_session \<Rightarrow> cfg_session" where
  "cfgfun_force_xinerama v = on_options (\<lambda>op. op\<lparr>op_force_xinerama := boolstr v\<rparr>)"

definition cfgfun_disable_randr15 :: "string \<Rightarrow> cfg_session \<Rightarrow> cfg_session" where
  "cfgfun_disable_randr15 v = on_options (\<lambda>op. op\<lparr>op_disable_randr15 := boolstr v\<rparr>)"

definition cfgfun_focus_wrapping :: "string \<Rightarrow> cfg_session \<Rightarrow> cfg_session" where
  "cfgfun_focus_wrapping v =
     on_cfg (\<lambda>c. c\<lparr>cfg_focus_wrapping :=
       (if v = ''force'' then FOCUS_WRAPPING_FORCE
        else if v = ''workspace'' then FOCUS_WRAPPING_WORKSPACE
        else if boolstr v then FOCUS_WRAPPING_ON else FOCUS_WRAPPING_OFF)\<rparr>)"

definition cfgfun_force_focus_wrapping :: "string \<Rightarrow> cfg_session \<Rightarrow> cfg_session" where
  "cfgfun_force_focus_wrapping v =
     on_cfg (\<lambda>c. if boolstr v then c\<lparr>cfg_focus_wrapping := FOCUS_WRAPPING_FORCE\<rparr>
                 else if cfg_focus_wrapping c = FOCUS_WRAPPING_FORCE
                 then c\<lparr>cfg_focus_wrapping := FOCUS_WRAPPING_ON\<rparr> else c)"

definition cfgfun_workspace_back_and_forth :: "string \<Rightarrow> cfg_session \<Rightarrow> cfg_session" where
  "cfgfun_workspace_back_and_forth v = on_cfg (\<lambda>c. c\<lparr>cfg_workspace_auto_back_and_forth := boolstr v\<rparr>)"

definition cfgfun_fake_outputs :: "string \<Rightarrow> cfg_session \<Rightarrow> cfg_session" where
  "cfgfun_fake_outputs v = on_options (\<lambda>op. op\<lparr>op_fake_outputs := Some v\<rparr>)"

definition cfgfun_force_display_urgency_hint :: "int \<Rightarrow> cfg_session \<Rightarrow> cfg_session" where
  "cfgfun_force_display_urgency_hint duration_ms =
     on_cfg (\<lambda>c. c\<lparr>cfg_workspace_urgency_timer := real_of_int duration_ms / 1000\<rparr>)"

definition cfgfun_focus_on_window_activation :: "string \<Rightarrow> cfg_session \<Rightarrow> cfg_session" where
  "cfgfun_focus_on_window_activation mode =
     on_cfg (\<lambda>c. case map_of [(''smart'', FOWA_SMART), (''urgent'', FOWA_URGENT), (''focus'', FOWA_FOCUS),
                              (''none'', FOWA_NONE)] mode of
                   None \<Rightarrow> c | Some m \<Rightarrow> c\<lparr>cfg_focus_on_window_activation := m\<rparr>)"

definition cfgfun_title_align :: "string \<Rightarrow> cfg_session \<Rightarrow> cfg_session" where
  "cfgfun_title_align alignment =
     (case map_of [(''left'', ALIGN_LEFT), (''center'', ALIGN_CENTER), (''right'', ALIGN_RIGHT)] alignment of
        None \<Rightarrow> on_cd_wm abort
      | Some a \<Rightarrow> on_options (\<lambda>op. op\<lparr>op_title_align := a\<rparr>))"

definition cfgfun_show_marks :: "string \<Rightarrow> cfg_session \<Rightarrow> cfg_session" where
  "cfgfun_show_marks v = on_options (\<lambda>op. op\<lparr>op_show_marks := boolstr v\<rparr>)"

text \<open>\<open>cfg_workspace\<close>: the first output of a line comes with the name of the workspace.\<close>

definition add_output_assignment :: "string \<Rightarrow> string \<Rightarrow> cfg_session \<Rightarrow> cfg_session" where
  "add_output_assignment ws out =
     on_cd_wm (\<lambda>s. s\<lparr>ws_assignments := ws_assignments s @
       [\<lparr>wa_name = ws, wa_output = Some out, wa_gaps = zero_gaps, wa_gaps_mask = empty_mask\<rparr>]\<rparr>)"

definition cfgfun_workspace :: "string option \<Rightarrow> string \<Rightarrow> cfg_session \<Rightarrow> cfg_session" where
  "cfgfun_workspace ws out cd =
     (case ws of
        Some ws \<Rightarrow>
          let cd = cd\<lparr>cd_current_workspace := None\<rparr> in
          if list_ex (\<lambda>a. caseless_eq (wa_name a) ws \<and> wa_output a \<noteq> None) (ws_assignments (cd_wm cd)) then cd
          else add_output_assignment ws out (cd\<lparr>cd_current_workspace := Some ws\<rparr>)
      | None \<Rightarrow>
          (case cd_current_workspace cd of
             None \<Rightarrow> cd
           | Some ws \<Rightarrow> add_output_assignment ws out cd))"

definition cfgfun_ipc_socket :: "string \<Rightarrow> cfg_session \<Rightarrow> cfg_session" where
  "cfgfun_ipc_socket path = on_options (\<lambda>op. op\<lparr>op_ipc_socket_path := Some path\<rparr>)"

definition cfgfun_restart_state :: "string \<Rightarrow> cfg_session \<Rightarrow> cfg_session" where
  "cfgfun_restart_state path = on_options (\<lambda>op. op\<lparr>op_restart_state_path := Some path\<rparr>)"

definition cfgfun_popup_during_fullscreen :: "string \<Rightarrow> cfg_session \<Rightarrow> cfg_session" where
  "cfgfun_popup_during_fullscreen v =
     on_cfg (\<lambda>c. c\<lparr>cfg_popup_during_fullscreen :=
       (if v = ''ignore'' then PDF_IGNORE else if v = ''leave_fullscreen'' then PDF_LEAVE_FULLSCREEN
        else if v = ''all'' then PDF_ALL else PDF_SMART)\<rparr>)"

definition cfgfun_ipc_kill_timeout :: "int \<Rightarrow> cfg_session \<Rightarrow> cfg_session" where
  "cfgfun_ipc_kill_timeout timeout_ms = on_options (\<lambda>op. op\<lparr>op_kill_timeout := real_of_int timeout_ms / 1000\<rparr>)"

definition cfgfun_tiling_drag :: "string \<Rightarrow> cfg_session \<Rightarrow> cfg_session" where
  "cfgfun_tiling_drag v =
     on_options (\<lambda>op. op\<lparr>op_tiling_drag :=
       (if v = ''modifier'' then TILING_DRAG_MODIFIER
        else if v = ''titlebar'' then TILING_DRAG_TITLEBAR
        else if v = ''modifier,titlebar'' \<or> v = ''titlebar,modifier'' then TILING_DRAG_MODIFIER_OR_TITLEBAR
        else TILING_DRAG_OFF)\<rparr>)"

subsection \<open>Window colors\<close>

definition on_client :: "(config_client \<Rightarrow> config_client) \<Rightarrow> cfg_session \<Rightarrow> cfg_session" where
  "on_client f = on_options (\<lambda>op. op\<lparr>op_client := f (op_client op)\<rparr>)"

definition cfgfun_color_single :: "config_env \<Rightarrow> string \<Rightarrow> cfg_session \<Rightarrow> cfg_session" where
  "cfgfun_color_single ge color =
     on_client (\<lambda>cl. cl\<lparr>cl_background := draw_util_hex_to_color (ge_alloc_color ge) color\<rparr>)"

definition color_classes :: "string list" where
  "color_classes = [''focused_inactive'', ''focused_tab_title'', ''focused'', ''unfocused'', ''urgent'', ''placeholder'']"

definition apply_colors ::
  "(string \<Rightarrow> u32) option \<Rightarrow> string \<Rightarrow> string \<Rightarrow> string \<Rightarrow> string option \<Rightarrow> string option \<Rightarrow> Colortriple \<Rightarrow> Colortriple" where
  "apply_colors alloc_color border background text indicator child_border t =
     (let color = draw_util_hex_to_color alloc_color in
      \<lparr>ct_border = color border, ct_background = color background, ct_text = color text,
       ct_indicator = (case indicator of None \<Rightarrow> ct_indicator t | Some i \<Rightarrow> color i),
       ct_child_border = (case child_border of None \<Rightarrow> color background | Some b \<Rightarrow> color b)\<rparr>)"

definition cfgfun_color ::
  "config_env \<Rightarrow> string \<Rightarrow> string \<Rightarrow> string \<Rightarrow> string \<Rightarrow> string option \<Rightarrow> string option \<Rightarrow> cfg_session \<Rightarrow> cfg_session" where
  "cfgfun_color ge colorclass border background text indicator child_border =
     on_client (\<lambda>cl.
       case find (\<lambda>n. colorclass = ''client.'' @ n) color_classes of
         None \<Rightarrow> cl
       | Some n \<Rightarrow>
           cl\<lparr>cl_classes := (cl_classes cl)(n :=
                apply_colors (ge_alloc_color ge) border background text indicator child_border (cl_classes cl n)),
              cl_got_focused_tab_title := (cl_got_focused_tab_title cl \<or> n = ''focused_tab_title'')\<rparr>)"

subsection \<open>Bars\<close>

text \<open>The directives of a bar dereference \<open>current_bar\<close>.\<close>

definition on_bar :: "(barconfig \<Rightarrow> barconfig) \<Rightarrow> cfg_session \<Rightarrow> cfg_session" where
  "on_bar f cd =
     (case cd_current_bar cd of
        None \<Rightarrow> on_cd_wm abort cd
      | Some b \<Rightarrow> cd\<lparr>cd_current_bar := Some (f b)\<rparr>)"

definition cfgfun_bar_font :: "string \<Rightarrow> cfg_session \<Rightarrow> cfg_session" where
  "cfgfun_bar_font font = on_bar (\<lambda>b. b\<lparr>bc_font := Some font\<rparr>)"

definition cfgfun_bar_separator_symbol :: "string \<Rightarrow> cfg_session \<Rightarrow> cfg_session" where
  "cfgfun_bar_separator_symbol sep = on_bar (\<lambda>b. b\<lparr>bc_separator_symbol := Some sep\<rparr>)"

definition cfgfun_bar_mode :: "string \<Rightarrow> cfg_session \<Rightarrow> cfg_session" where
  "cfgfun_bar_mode mode =
     on_bar (\<lambda>b. b\<lparr>bc_mode := (if mode = ''dock'' then M_DOCK else if mode = ''hide'' then M_HIDE else M_INVISIBLE)\<rparr>)"

definition cfgfun_bar_hidden_state :: "string \<Rightarrow> cfg_session \<Rightarrow> cfg_session" where
  "cfgfun_bar_hidden_state st =
     on_bar (\<lambda>b. b\<lparr>bc_hidden_state := (if st = ''hide'' then S_HIDE else S_SHOW)\<rparr>)"

definition cfgfun_bar_id :: "string \<Rightarrow> cfg_session \<Rightarrow> cfg_session" where
  "cfgfun_bar_id i cd = on_bar id (cd\<lparr>cd_bar_id := Some i\<rparr>)"

definition cfgfun_bar_output :: "string \<Rightarrow> cfg_session \<Rightarrow> cfg_session" where
  "cfgfun_bar_output out = on_bar (\<lambda>b. b\<lparr>bc_outputs := bc_outputs b @ [out]\<rparr>)"

definition cfgfun_bar_verbose :: "string \<Rightarrow> cfg_session \<Rightarrow> cfg_session" where
  "cfgfun_bar_verbose v = on_bar (\<lambda>b. b\<lparr>bc_verbose := boolstr v\<rparr>)"

definition cfgfun_bar_height :: "int \<Rightarrow> cfg_session \<Rightarrow> cfg_session" where
  "cfgfun_bar_height height = on_bar (\<lambda>b. b\<lparr>bc_bar_height := word_of_int height\<rparr>)"

definition bar_padding :: "int \<Rightarrow> int \<Rightarrow> int \<Rightarrow> int \<Rightarrow> cfg_session \<Rightarrow> cfg_session" where
  "bar_padding x y width height =
     on_bar (\<lambda>b. b\<lparr>bc_padding := \<lparr>rect_x = word_of_int x, rect_y = word_of_int y,
                                   rect_width = word_of_int width, rect_height = word_of_int height\<rparr>\<rparr>)"

definition cfgfun_bar_padding_one :: "int \<Rightarrow> cfg_session \<Rightarrow> cfg_session" where
  "cfgfun_bar_padding_one all = bar_padding all all all all"

definition cfgfun_bar_padding_two :: "int \<Rightarrow> int \<Rightarrow> cfg_session \<Rightarrow> cfg_session" where
  "cfgfun_bar_padding_two top_and_bottom right_and_left =
     bar_padding right_and_left top_and_bottom right_and_left top_and_bottom"

definition cfgfun_bar_padding_three :: "int \<Rightarrow> int \<Rightarrow> int \<Rightarrow> cfg_session \<Rightarrow> cfg_session" where
  "cfgfun_bar_padding_three top_px right_and_left bottom = bar_padding right_and_left top_px right_and_left bottom"

definition cfgfun_bar_padding_four :: "int \<Rightarrow> int \<Rightarrow> int \<Rightarrow> int \<Rightarrow> cfg_session \<Rightarrow> cfg_session" where
  "cfgfun_bar_padding_four top_px right_px bottom left_px = bar_padding left_px top_px right_px bottom"

definition cfgfun_bar_modifier :: "string option \<Rightarrow> cfg_session \<Rightarrow> cfg_session" where
  "cfgfun_bar_modifier modifiers = on_bar (\<lambda>b. b\<lparr>bc_modifier := event_state_from_str modifiers\<rparr>)"

definition bar_configure_binding :: "string \<Rightarrow> bool \<Rightarrow> string \<Rightarrow> cfg_session \<Rightarrow> cfg_session" where
  "bar_configure_binding button release command cd =
     (if \<not> caseless_prefix button ''button'' then cd
      else
        let input_code = c_atoi (drop (length ''button'') button) in
        if input_code < 1 then cd
        else on_bar (\<lambda>b.
          if list_ex (\<lambda>x. bb_input_code x = input_code \<and> bb_release x = release) (bc_bar_bindings b) then b
          else b\<lparr>bc_bar_bindings := bc_bar_bindings b @
                   [\<lparr>bb_input_code = input_code, bb_command = command, bb_release = release\<rparr>]\<rparr>) cd)"

definition cfgfun_bar_wheel_up_cmd :: "string \<Rightarrow> cfg_session \<Rightarrow> cfg_session" where
  "cfgfun_bar_wheel_up_cmd command = bar_configure_binding ''button4'' False command"

definition cfgfun_bar_wheel_down_cmd :: "string \<Rightarrow> cfg_session \<Rightarrow> cfg_session" where
  "cfgfun_bar_wheel_down_cmd command = bar_configure_binding ''button5'' False command"

definition cfgfun_bar_bindsym :: "string \<Rightarrow> bool \<Rightarrow> string \<Rightarrow> cfg_session \<Rightarrow> cfg_session" where
  "cfgfun_bar_bindsym button release command = bar_configure_binding button release command"

definition cfgfun_bar_position :: "string \<Rightarrow> cfg_session \<Rightarrow> cfg_session" where
  "cfgfun_bar_position position =
     on_bar (\<lambda>b. b\<lparr>bc_position := (if position = ''top'' then P_TOP else P_BOTTOM)\<rparr>)"

definition cfgfun_bar_i3bar_command :: "string \<Rightarrow> cfg_session \<Rightarrow> cfg_session" where
  "cfgfun_bar_i3bar_command command = on_bar (\<lambda>b. b\<lparr>bc_i3bar_command := Some command\<rparr>)"

definition bar_color_classes :: "string list" where
  "bar_color_classes =
     [''focused_workspace'', ''active_workspace'', ''inactive_workspace'', ''urgent_workspace'', ''binding_mode'']"

text \<open>With three colors they are border, background and text; with two, text and background.\<close>

definition cfgfun_bar_color :: "string \<Rightarrow> string \<Rightarrow> string \<Rightarrow> string option \<Rightarrow> cfg_session \<Rightarrow> cfg_session" where
  "cfgfun_bar_color colorclass border background text_color =
     (if colorclass \<notin> set bar_color_classes then id
      else on_bar (\<lambda>b. b\<lparr>bc_colors :=
        (case text_color of
           Some t \<Rightarrow> (bc_colors b)(colorclass @ ''_border'' \<mapsto> border, colorclass @ ''_bg'' \<mapsto> background,
                                  colorclass @ ''_text'' \<mapsto> t)
         | None \<Rightarrow> (bc_colors b)(colorclass @ ''_bg'' \<mapsto> background, colorclass @ ''_text'' \<mapsto> border))\<rparr>))"

definition cfgfun_bar_socket_path :: "string \<Rightarrow> cfg_session \<Rightarrow> cfg_session" where
  "cfgfun_bar_socket_path path = on_bar (\<lambda>b. b\<lparr>bc_socket_path := Some path\<rparr>)"

definition cfgfun_bar_tray_output :: "string \<Rightarrow> cfg_session \<Rightarrow> cfg_session" where
  "cfgfun_bar_tray_output out = on_bar (\<lambda>b. b\<lparr>bc_tray_outputs := bc_tray_outputs b @ [out]\<rparr>)"

definition cfgfun_bar_tray_padding :: "int \<Rightarrow> cfg_session \<Rightarrow> cfg_session" where
  "cfgfun_bar_tray_padding px = on_bar (\<lambda>b. b\<lparr>bc_tray_padding := c_int px\<rparr>)"

definition cfgfun_bar_color_single :: "string \<Rightarrow> string \<Rightarrow> cfg_session \<Rightarrow> cfg_session" where
  "cfgfun_bar_color_single colorclass color =
     (let field = (if colorclass \<in> set [''background'', ''separator'', ''statusline'', ''focused_background'',
                                       ''focused_separator''] then colorclass else ''focused_statusline'')
      in on_bar (\<lambda>b. b\<lparr>bc_colors := (bc_colors b)(field \<mapsto> color)\<rparr>))"

definition cfgfun_bar_status_command :: "string \<Rightarrow> cfg_session \<Rightarrow> cfg_session" where
  "cfgfun_bar_status_command command = on_bar (\<lambda>b. b\<lparr>bc_status_command := Some command\<rparr>)"

definition cfgfun_bar_workspace_command :: "string \<Rightarrow> cfg_session \<Rightarrow> cfg_session" where
  "cfgfun_bar_workspace_command command = on_bar (\<lambda>b. b\<lparr>bc_workspace_command := Some command\<rparr>)"

definition cfgfun_bar_binding_mode_indicator :: "string \<Rightarrow> cfg_session \<Rightarrow> cfg_session" where
  "cfgfun_bar_binding_mode_indicator v = on_bar (\<lambda>b. b\<lparr>bc_hide_binding_mode_indicator := \<not> boolstr v\<rparr>)"

definition cfgfun_bar_workspace_buttons :: "string \<Rightarrow> cfg_session \<Rightarrow> cfg_session" where
  "cfgfun_bar_workspace_buttons v = on_bar (\<lambda>b. b\<lparr>bc_hide_workspace_buttons := \<not> boolstr v\<rparr>)"

definition cfgfun_bar_workspace_min_width :: "int \<Rightarrow> cfg_session \<Rightarrow> cfg_session" where
  "cfgfun_bar_workspace_min_width width = on_bar (\<lambda>b. b\<lparr>bc_workspace_min_width := c_int width\<rparr>)"

definition cfgfun_bar_strip_workspace_numbers :: "string \<Rightarrow> cfg_session \<Rightarrow> cfg_session" where
  "cfgfun_bar_strip_workspace_numbers v = on_bar (\<lambda>b. b\<lparr>bc_strip_workspace_numbers := boolstr v\<rparr>)"

definition cfgfun_bar_strip_workspace_name :: "string \<Rightarrow> cfg_session \<Rightarrow> cfg_session" where
  "cfgfun_bar_strip_workspace_name v = on_bar (\<lambda>b. b\<lparr>bc_strip_workspace_name := boolstr v\<rparr>)"

definition cfgfun_bar_start :: "cfg_session \<Rightarrow> cfg_session" where
  "cfgfun_bar_start cd =
     cd\<lparr>cd_bar_id := None,
        cd_current_bar := Some
          \<lparr>bc_id = [], bc_outputs = [], bc_tray_outputs = [], bc_tray_padding = 2, bc_socket_path = None,
           bc_mode = M_DOCK, bc_hidden_state = S_HIDE, bc_modifier = MOD_4, bc_bar_bindings = [],
           bc_position = P_BOTTOM, bc_i3bar_command = None, bc_status_command = None,
           bc_workspace_command = None, bc_font = None, bc_separator_symbol = None,
           bc_hide_workspace_buttons = False, bc_workspace_min_width = 0, bc_strip_workspace_numbers = False,
           bc_strip_workspace_name = False, bc_hide_binding_mode_indicator = False, bc_verbose = False,
           bc_bar_height = 0, bc_padding = zero_rect, bc_colors = Map.empty\<rparr>\<rparr>"

definition cfgfun_bar_finish :: "cfg_session \<Rightarrow> cfg_session" where
  "cfgfun_bar_finish cd =
     (case cd_current_bar cd of
        None \<Rightarrow> on_cd_wm abort cd
      | Some b \<Rightarrow>
          let i = (case cd_bar_id cd of Some i \<Rightarrow> i | None \<Rightarrow> ''bar-'' @ print_int (cd_number_barconfigs cd))
          in on_cd_wm (\<lambda>s. s\<lparr>barconfigs := barconfigs s @ [b\<lparr>bc_id := i\<rparr>]\<rparr>)
               (cd\<lparr>cd_number_barconfigs := cd_number_barconfigs cd + 1, cd_current_bar := None\<rparr>))"

subsection \<open>The options of i3-aiwr\<close>

definition aiwr_bool :: "string \<Rightarrow> bool" where
  "aiwr_bool v \<longleftrightarrow> v \<in> set [''enabled'', ''yes'', ''true'', ''on'', ''1'']"

definition aiwr_clamp :: "int \<Rightarrow> int \<Rightarrow> int \<Rightarrow> int" where
  "aiwr_clamp v lo hi = (if v < lo then lo else if v > hi then hi else v)"

definition c_strtol :: "string \<Rightarrow> int" where
  "c_strtol str = (case strtoll_10 str of None \<Rightarrow> 0 | Some (v, _) \<Rightarrow> v)"

definition on_corners :: "(rounded_corners_config \<Rightarrow> rounded_corners_config) \<Rightarrow> cfg_session \<Rightarrow> cfg_session" where
  "on_corners f = on_options (\<lambda>op. op\<lparr>op_rounded_corners := f (op_rounded_corners op)\<rparr>)"

definition cfgfun_rounded_corners_toggle :: "string \<Rightarrow> cfg_session \<Rightarrow> cfg_session" where
  "cfgfun_rounded_corners_toggle v = on_corners (\<lambda>c. c\<lparr>rc_enabled := aiwr_bool v\<rparr>)"

definition cfgfun_rounded_corners_radius :: "int \<Rightarrow> cfg_session \<Rightarrow> cfg_session" where
  "cfgfun_rounded_corners_radius radius =
     (if radius < 0 then id else on_corners (\<lambda>c. c\<lparr>rc_radius := c_int radius\<rparr>))"

definition cfgfun_rounded_corners_floating :: "string \<Rightarrow> cfg_session \<Rightarrow> cfg_session" where
  "cfgfun_rounded_corners_floating v = on_corners (\<lambda>c. c\<lparr>rc_apply_to_floating := aiwr_bool v\<rparr>)"

definition cfgfun_rounded_corners_tiling :: "string \<Rightarrow> cfg_session \<Rightarrow> cfg_session" where
  "cfgfun_rounded_corners_tiling v = on_corners (\<lambda>c. c\<lparr>rc_apply_to_tiling := aiwr_bool v\<rparr>)"

definition on_gradient :: "(aiwr_gradient_t \<Rightarrow> aiwr_gradient_t) \<Rightarrow> cfg_session \<Rightarrow> cfg_session" where
  "on_gradient f = on_options (\<lambda>op. op\<lparr>op_gradient := f (op_gradient op)\<rparr>)"

definition cfgfun_gradient_border_toggle :: "string \<Rightarrow> cfg_session \<Rightarrow> cfg_session" where
  "cfgfun_gradient_border_toggle v = on_gradient (\<lambda>g. g\<lparr>gr_enabled := aiwr_bool v\<rparr>)"

definition cfgfun_gradient_border_color_start :: "config_env \<Rightarrow> string \<Rightarrow> cfg_session \<Rightarrow> cfg_session" where
  "cfgfun_gradient_border_color_start ge color =
     on_gradient (\<lambda>g. g\<lparr>gr_active_start := draw_util_hex_to_color (ge_alloc_color ge) color\<rparr>)"

definition cfgfun_gradient_border_color_end :: "config_env \<Rightarrow> string \<Rightarrow> cfg_session \<Rightarrow> cfg_session" where
  "cfgfun_gradient_border_color_end ge color =
     on_gradient (\<lambda>g. g\<lparr>gr_active_end := draw_util_hex_to_color (ge_alloc_color ge) color\<rparr>)"

definition cfgfun_gradient_border_inactive_start :: "config_env \<Rightarrow> string \<Rightarrow> cfg_session \<Rightarrow> cfg_session" where
  "cfgfun_gradient_border_inactive_start ge color =
     on_gradient (\<lambda>g. g\<lparr>gr_inactive_start := draw_util_hex_to_color (ge_alloc_color ge) color,
                        gr_inactive_set := True\<rparr>)"

definition cfgfun_gradient_border_inactive_end :: "config_env \<Rightarrow> string \<Rightarrow> cfg_session \<Rightarrow> cfg_session" where
  "cfgfun_gradient_border_inactive_end ge color =
     on_gradient (\<lambda>g. g\<lparr>gr_inactive_end := draw_util_hex_to_color (ge_alloc_color ge) color,
                        gr_inactive_set := True\<rparr>)"

definition cfgfun_gradient_border_direction :: "string \<Rightarrow> cfg_session \<Rightarrow> cfg_session" where
  "cfgfun_gradient_border_direction v =
     on_gradient (\<lambda>g. g\<lparr>gr_angle := (if v = ''horizontal'' then 0 else if v = ''vertical'' then 90 else 45)\<rparr>)"

text \<open>C's \<open>%\<close> on a \<open>long\<close> truncates; adding 360 and taking the remainder again gives the modulus.\<close>

definition c_rem :: "int \<Rightarrow> int \<Rightarrow> int" where
  "c_rem a b = (if a < 0 then - ((- a) mod b) else a mod b)"

definition cfgfun_gradient_border_angle :: "int \<Rightarrow> cfg_session \<Rightarrow> cfg_session" where
  "cfgfun_gradient_border_angle angle = on_gradient (\<lambda>g. g\<lparr>gr_angle := c_rem (c_rem angle 360 + 360) 360\<rparr>)"

definition cfgfun_gradient_border_speed :: "int \<Rightarrow> cfg_session \<Rightarrow> cfg_session" where
  "cfgfun_gradient_border_speed speed =
     on_gradient (\<lambda>g. g\<lparr>gr_speed := c_int (if speed < 0 then 0 else speed)\<rparr>)"

definition cfgfun_gradient_border_fps :: "int \<Rightarrow> cfg_session \<Rightarrow> cfg_session" where
  "cfgfun_gradient_border_fps fps = on_gradient (\<lambda>g. g\<lparr>gr_fps := aiwr_clamp fps 1 120\<rparr>)"

definition on_overview :: "(overview_config \<Rightarrow> overview_config) \<Rightarrow> cfg_session \<Rightarrow> cfg_session" where
  "on_overview f = on_options (\<lambda>op. op\<lparr>op_overview := f (op_overview op)\<rparr>)"

definition cfgfun_overview_toggle_config :: "string \<Rightarrow> cfg_session \<Rightarrow> cfg_session" where
  "cfgfun_overview_toggle_config v = on_overview (\<lambda>o'. o'\<lparr>ov_enabled := aiwr_bool v\<rparr>)"

definition cfgfun_overview_thumbnail_scale :: "string \<Rightarrow> cfg_session \<Rightarrow> cfg_session" where
  "cfgfun_overview_thumbnail_scale v =
     on_overview (\<lambda>o'. o'\<lparr>ov_thumbnail_scale := aiwr_clamp (c_strtol v) 10 100\<rparr>)"

definition cfgfun_overview_thumbnail_blur :: "int \<Rightarrow> cfg_session \<Rightarrow> cfg_session" where
  "cfgfun_overview_thumbnail_blur blur = on_overview (\<lambda>o'. o'\<lparr>ov_thumbnail_blur := aiwr_clamp blur 0 100\<rparr>)"

definition cfgfun_overview_spacing :: "string \<Rightarrow> cfg_session \<Rightarrow> cfg_session" where
  "cfgfun_overview_spacing v = on_overview (\<lambda>o'. o'\<lparr>ov_spacing := aiwr_clamp (c_strtol v) 0 500\<rparr>)"

definition cfgfun_overview_animation_duration :: "string \<Rightarrow> cfg_session \<Rightarrow> cfg_session" where
  "cfgfun_overview_animation_duration v =
     on_overview (\<lambda>o'. o'\<lparr>ov_animation_duration_ms := aiwr_clamp (c_strtol v) 0 2000\<rparr>)"

definition cfgfun_overview_background_opacity :: "string \<Rightarrow> cfg_session \<Rightarrow> cfg_session" where
  "cfgfun_overview_background_opacity v =
     on_overview (\<lambda>o'. o'\<lparr>ov_background_opacity := aiwr_clamp (c_strtol v) 0 100\<rparr>)"

definition cfgfun_overview_background_blur :: "string \<Rightarrow> cfg_session \<Rightarrow> cfg_session" where
  "cfgfun_overview_background_blur v =
     on_overview (\<lambda>o'. o'\<lparr>ov_background_blur := aiwr_clamp (c_strtol v) 0 100\<rparr>)"

definition cfgfun_overview_wallpaper_path :: "config_env \<Rightarrow> string \<Rightarrow> cfg_session \<Rightarrow> cfg_session" where
  "cfgfun_overview_wallpaper_path ge path =
     on_overview (\<lambda>o'. o'\<lparr>ov_wallpaper_path := Some (ge_resolve_tilde ge path)\<rparr>)"

definition cfgfun_overview_live_previews :: "string \<Rightarrow> cfg_session \<Rightarrow> cfg_session" where
  "cfgfun_overview_live_previews v = on_overview (\<lambda>o'. o'\<lparr>ov_live_previews := aiwr_bool v\<rparr>)"

definition cfgfun_overview_particles :: "int \<Rightarrow> cfg_session \<Rightarrow> cfg_session" where
  "cfgfun_overview_particles n = on_overview (\<lambda>o'. o'\<lparr>ov_particles := aiwr_clamp n 0 256\<rparr>)"

definition cfgfun_overview_fps :: "int \<Rightarrow> cfg_session \<Rightarrow> cfg_session" where
  "cfgfun_overview_fps fps = on_overview (\<lambda>o'. o'\<lparr>ov_fps := aiwr_clamp fps 15 240\<rparr>)"

definition cfgfun_overview_border_color :: "config_env \<Rightarrow> string \<Rightarrow> cfg_session \<Rightarrow> cfg_session" where
  "cfgfun_overview_border_color ge color =
     on_overview (\<lambda>o'. o'\<lparr>ov_border_start := draw_util_hex_to_color (ge_alloc_color ge) color\<rparr>)"

definition cfgfun_overview_border_color_end :: "config_env \<Rightarrow> string \<Rightarrow> cfg_session \<Rightarrow> cfg_session" where
  "cfgfun_overview_border_color_end ge color =
     on_overview (\<lambda>o'. o'\<lparr>ov_border_end := draw_util_hex_to_color (ge_alloc_color ge) color\<rparr>)"

definition cfgfun_overview_border_inactive :: "config_env \<Rightarrow> string \<Rightarrow> cfg_session \<Rightarrow> cfg_session" where
  "cfgfun_overview_border_inactive ge color =
     on_overview (\<lambda>o'. o'\<lparr>ov_border_inactive := draw_util_hex_to_color (ge_alloc_color ge) color\<rparr>)"

definition cfgfun_overview_border_width :: "int \<Rightarrow> cfg_session \<Rightarrow> cfg_session" where
  "cfgfun_overview_border_width width = on_overview (\<lambda>o'. o'\<lparr>ov_border_width := aiwr_clamp width 1 12\<rparr>)"

definition cfgfun_overview_border_speed :: "int \<Rightarrow> cfg_session \<Rightarrow> cfg_session" where
  "cfgfun_overview_border_speed speed =
     on_overview (\<lambda>o'. o'\<lparr>ov_border_speed := c_int (if speed < 0 then 0 else speed)\<rparr>)"

definition cfgfun_dynamic_workspaces :: "string \<Rightarrow> cfg_session \<Rightarrow> cfg_session" where
  "cfgfun_dynamic_workspaces v = on_overview (\<lambda>o'. o'\<lparr>ov_dynamic_workspaces := aiwr_bool v\<rparr>)"

definition on_transition ::
  "(workspace_transition_config \<Rightarrow> workspace_transition_config) \<Rightarrow> cfg_session \<Rightarrow> cfg_session" where
  "on_transition f = on_options (\<lambda>op. op\<lparr>op_transition := f (op_transition op)\<rparr>)"

definition cfgfun_workspace_transition :: "string \<Rightarrow> cfg_session \<Rightarrow> cfg_session" where
  "cfgfun_workspace_transition v = on_transition (\<lambda>t. t\<lparr>wt_enabled := aiwr_bool v\<rparr>)"

definition cfgfun_workspace_transition_duration :: "int \<Rightarrow> cfg_session \<Rightarrow> cfg_session" where
  "cfgfun_workspace_transition_duration ms = on_transition (\<lambda>t. t\<lparr>wt_duration_ms := aiwr_clamp ms 0 2000\<rparr>)"

definition cfgfun_workspace_transition_direction :: "string \<Rightarrow> cfg_session \<Rightarrow> cfg_session" where
  "cfgfun_workspace_transition_direction v =
     on_transition (\<lambda>t. t\<lparr>wt_dir := (if v = ''vertical'' then WT_VERTICAL else WT_HORIZONTAL)\<rparr>)"

definition cfgfun_workspace_transition_type :: "string \<Rightarrow> cfg_session \<Rightarrow> cfg_session" where
  "cfgfun_workspace_transition_type v =
     on_transition (\<lambda>t. t\<lparr>wt_kind := (if v = ''fade'' then WT_FADE else if v = ''zoom'' then WT_ZOOM else WT_SLIDE)\<rparr>)"

definition cfgfun_workspace_transition_curve :: "string \<Rightarrow> cfg_session \<Rightarrow> cfg_session" where
  "cfgfun_workspace_transition_curve name = on_transition (\<lambda>t. t\<lparr>wt_curve := Some name\<rparr>)"

definition cfgfun_workspace_transition_fps :: "int \<Rightarrow> cfg_session \<Rightarrow> cfg_session" where
  "cfgfun_workspace_transition_fps fps = on_transition (\<lambda>t. t\<lparr>wt_fps := aiwr_clamp fps 15 240\<rparr>)"

definition on_window_animation ::
  "(window_animation_config \<Rightarrow> window_animation_config) \<Rightarrow> cfg_session \<Rightarrow> cfg_session" where
  "on_window_animation f = on_options (\<lambda>op. op\<lparr>op_window_animation := f (op_window_animation op)\<rparr>)"

definition cfgfun_window_animation :: "string \<Rightarrow> cfg_session \<Rightarrow> cfg_session" where
  "cfgfun_window_animation v = on_window_animation (\<lambda>w. w\<lparr>wn_enabled := aiwr_bool v\<rparr>)"

definition cfgfun_window_animation_duration :: "int \<Rightarrow> cfg_session \<Rightarrow> cfg_session" where
  "cfgfun_window_animation_duration ms = on_window_animation (\<lambda>w. w\<lparr>wn_duration_ms := aiwr_clamp ms 0 2000\<rparr>)"

definition cfgfun_window_animation_scale :: "int \<Rightarrow> cfg_session \<Rightarrow> cfg_session" where
  "cfgfun_window_animation_scale scale = on_window_animation (\<lambda>w. w\<lparr>wn_start_scale := aiwr_clamp scale 10 100\<rparr>)"

definition cfgfun_window_animation_curve :: "string \<Rightarrow> cfg_session \<Rightarrow> cfg_session" where
  "cfgfun_window_animation_curve name = on_window_animation (\<lambda>w. w\<lparr>wn_curve := Some name\<rparr>)"

definition cfgfun_window_animation_fps :: "int \<Rightarrow> cfg_session \<Rightarrow> cfg_session" where
  "cfgfun_window_animation_fps fps = on_window_animation (\<lambda>w. w\<lparr>wn_fps := aiwr_clamp fps 15 240\<rparr>)"

definition cfgfun_window_animation_opacity :: "string \<Rightarrow> cfg_session \<Rightarrow> cfg_session" where
  "cfgfun_window_animation_opacity v = on_window_animation (\<lambda>w. w\<lparr>wn_opacity := aiwr_bool v\<rparr>)"

definition cfgfun_window_animation_start_opacity :: "int \<Rightarrow> cfg_session \<Rightarrow> cfg_session" where
  "cfgfun_window_animation_start_opacity pct =
     on_window_animation (\<lambda>w. w\<lparr>wn_start_opacity := aiwr_clamp pct 0 100\<rparr>)"

definition cfgfun_window_animation_close :: "string \<Rightarrow> cfg_session \<Rightarrow> cfg_session" where
  "cfgfun_window_animation_close v = on_window_animation (\<lambda>w. w\<lparr>wn_close_enabled := aiwr_bool v\<rparr>)"

definition cfgfun_window_animation_close_duration :: "int \<Rightarrow> cfg_session \<Rightarrow> cfg_session" where
  "cfgfun_window_animation_close_duration ms =
     on_window_animation (\<lambda>w. w\<lparr>wn_close_duration_ms := aiwr_clamp ms 0 2000\<rparr>)"

definition cfgfun_window_animation_close_scale :: "int \<Rightarrow> cfg_session \<Rightarrow> cfg_session" where
  "cfgfun_window_animation_close_scale scale =
     on_window_animation (\<lambda>w. w\<lparr>wn_close_scale := aiwr_clamp scale 10 100\<rparr>)"

definition cfgfun_window_animation_close_curve :: "string \<Rightarrow> cfg_session \<Rightarrow> cfg_session" where
  "cfgfun_window_animation_close_curve name = on_window_animation (\<lambda>w. w\<lparr>wn_close_curve := Some name\<rparr>)"

definition cfgfun_window_animation_close_opacity :: "int \<Rightarrow> cfg_session \<Rightarrow> cfg_session" where
  "cfgfun_window_animation_close_opacity pct =
     on_window_animation (\<lambda>w. w\<lparr>wn_close_opacity := aiwr_clamp pct 0 100\<rparr>)"

definition cfgfun_bezier :: "string \<Rightarrow> cfg_session \<Rightarrow> cfg_session" where
  "cfgfun_bezier spec = on_cd_wm (\<lambda>s. s\<lparr>curves := snd (aiwr_curve_define_spec spec (curves s))\<rparr>)"

definition cfgfun_spring :: "string \<Rightarrow> cfg_session \<Rightarrow> cfg_session" where
  "cfgfun_spring spec = on_cd_wm (\<lambda>s. s\<lparr>curves := snd (aiwr_curve_define_spring_spec spec (curves s))\<rparr>)"

definition on_live_resize :: "(live_resize_config \<Rightarrow> live_resize_config) \<Rightarrow> cfg_session \<Rightarrow> cfg_session" where
  "on_live_resize f = on_options (\<lambda>op. op\<lparr>op_live_resize := f (op_live_resize op)\<rparr>)"

definition cfgfun_resize_live :: "string \<Rightarrow> cfg_session \<Rightarrow> cfg_session" where
  "cfgfun_resize_live v = on_live_resize (\<lambda>l. l\<lparr>lr_enabled := aiwr_bool v\<rparr>)"

definition cfgfun_resize_live_fps :: "int \<Rightarrow> cfg_session \<Rightarrow> cfg_session" where
  "cfgfun_resize_live_fps fps = on_live_resize (\<lambda>l. l\<lparr>lr_fps := aiwr_clamp fps 15 240\<rparr>)"

definition cfgfun_scrolling_default_width :: "int \<Rightarrow> cfg_session \<Rightarrow> cfg_session" where
  "cfgfun_scrolling_default_width pct = on_cfg (\<lambda>c. c\<lparr>cfg_scroll_default_width := aiwr_clamp pct 5 400\<rparr>)"

definition cfgfun_scrolling_duration :: "int \<Rightarrow> cfg_session \<Rightarrow> cfg_session" where
  "cfgfun_scrolling_duration ms = on_cfg (\<lambda>c. c\<lparr>cfg_scroll_duration_ms := aiwr_clamp ms 0 2000\<rparr>)"

definition cfgfun_scrolling_curve :: "string \<Rightarrow> cfg_session \<Rightarrow> cfg_session" where
  "cfgfun_scrolling_curve name = on_cfg (\<lambda>c. c\<lparr>cfg_scroll_curve := Some name\<rparr>)"

definition cfgfun_scrolling_center_focus :: "string \<Rightarrow> cfg_session \<Rightarrow> cfg_session" where
  "cfgfun_scrolling_center_focus v = on_cfg (\<lambda>c. c\<lparr>cfg_scroll_center_focus := aiwr_bool v\<rparr>)"

definition on_switcher :: "(switcher_config \<Rightarrow> switcher_config) \<Rightarrow> cfg_session \<Rightarrow> cfg_session" where
  "on_switcher f = on_options (\<lambda>op. op\<lparr>op_switcher := f (op_switcher op)\<rparr>)"

definition cfgfun_switcher :: "string \<Rightarrow> cfg_session \<Rightarrow> cfg_session" where
  "cfgfun_switcher v = on_switcher (\<lambda>w. w\<lparr>sw_enabled := aiwr_bool v\<rparr>)"

definition cfgfun_switcher_max_items :: "int \<Rightarrow> cfg_session \<Rightarrow> cfg_session" where
  "cfgfun_switcher_max_items n = on_switcher (\<lambda>w. w\<lparr>sw_max_items := aiwr_clamp n 2 32\<rparr>)"

definition cfgfun_switcher_preview :: "string \<Rightarrow> cfg_session \<Rightarrow> cfg_session" where
  "cfgfun_switcher_preview v = on_switcher (\<lambda>w. w\<lparr>sw_show_preview := aiwr_bool v\<rparr>)"

end
