(* ===== verification/Config_Parser.thy ===== *)
theory Config_Parser
  imports Commands_Parser Config_Directives
begin

text \<open>
  Reading a configuration file (\<^verbatim>\<open>src/config_parser.c\<close>, \<open>include\<close> of \<^verbatim>\<open>src/config_directives.c\<close>): the
  parser, the variables, the lines of a file, included files. As for the commands, the tables of
  tokens and the calls are generated from \<^verbatim>\<open>parser-specs/config.spec\<close> and parameters here; files, the
  resource database and \<open>wordexp\<close> are parameters too.
\<close>

subsection \<open>The parser\<close>

text \<open>\<open>cp_statelist\<close> is the used part of \<open>statelist\<close>, an array of 10. \<open>call\<close> gives the next state and
  whether there were errors.\<close>

record 'cx config_tables =
  gt_tokens :: "nat \<Rightarrow> parse_token list"
  gt_call :: "nat \<Rightarrow> stack \<Rightarrow> 'cx \<Rightarrow> nat \<times> bool \<times> 'cx"
  gt_criteria_init :: "'cx \<Rightarrow> 'cx"

text \<open>What is logged for an input the parser does not understand: the message, the numbered lines around
  it and the markers under the line of the error.\<close>

record config_error =
  er_message :: string
  er_before :: "(nat \<times> string) list"
  er_line :: "nat \<times> string"
  er_position :: string
  er_after :: "(nat \<times> string) list"

record 'cx config_parser =
  cp_state :: nat
  cp_statelist :: "nat list"
  cp_stack :: stack
  cp_linecnt :: nat
  cp_ctx_errors :: bool
  cp_has_errors :: bool
  cp_errors :: "config_error list"
  cp_cx :: 'cx

text \<open>Back to a state of the list, or on to a new one, for which there may be no room.\<close>

definition enter_state :: "nat \<Rightarrow> nat list \<Rightarrow> nat list option" where
  "enter_state st sl =
     (if st \<in> set sl then Some (takeWhile (\<lambda>x. x \<noteq> st) sl @ [st])
      else if length sl < 10 then Some (sl @ [st]) else None)"

definition config_next_state ::
  "'cx config_tables \<Rightarrow> parse_token \<Rightarrow> 'cx config_parser \<Rightarrow> 'cx config_parser option" where
  "config_next_state gt tok cp =
     (let (st, cp) =
        (case tk_next tok of
           Call n \<Rightarrow>
             (case gt_call gt n (cp_stack cp) (cp_cx cp) of (st, err, cx) \<Rightarrow>
                (st, cp\<lparr>cp_stack := [], cp_ctx_errors := cp_ctx_errors cp \<or> err, cp_cx := cx\<rparr>))
         | Goto st \<Rightarrow> (st, if st = 0 then cp\<lparr>cp_stack := []\<rparr> else cp))
      in map_option (\<lambda>sl. cp\<lparr>cp_state := st, cp_statelist := sl\<rparr>) (enter_state st (cp_statelist cp)))"

subsection \<open>Strings\<close>

text \<open>In double quotes a quote after a backslash does not end the string; the first argument is the
  character before.\<close>

fun config_scan_quoted :: "char \<Rightarrow> string \<Rightarrow> string \<times> string" where
  "config_scan_quoted prev [] = ([], [])"
| "config_scan_quoted prev (c # cs) =
     (if c = CHR 0x22 \<and> prev \<noteq> CHR 0x5C then ([], c # cs)
      else (case config_scan_quoted c cs of (raw, rest) \<Rightarrow> (c # raw, rest)))"

definition line_end :: "char \<Rightarrow> bool" where
  "line_end c \<longleftrightarrow> c = CHR 0x0D \<or> c = CHR 0x0A"

definition config_delimiter :: "bool \<Rightarrow> char \<Rightarrow> bool" where
  "config_delimiter as_word c \<longleftrightarrow>
     line_end c \<or> as_word \<and> c \<in> {CHR '' '', CHR 0x09, CHR '']'', CHR '','', CHR '';''}"

fun config_unescape :: "string \<Rightarrow> string" where
  "config_unescape (c # d # cs) =
     (if c = CHR 0x5C \<and> d = CHR 0x22 then d # config_unescape cs else c # config_unescape (d # cs))"
| "config_unescape cs = cs"

definition config_parse_string :: "bool \<Rightarrow> string \<Rightarrow> string option \<times> string" where
  "config_parse_string as_word walk =
     (case (if walk \<noteq> [] \<and> hd walk = CHR 0x22 then config_scan_quoted (CHR 0x22) (tl walk)
            else (takeWhile (\<lambda>c. \<not> config_delimiter as_word c) walk,
                  dropWhile (\<lambda>c. \<not> config_delimiter as_word c) walk)) of
        (raw, rest) \<Rightarrow> (if raw = [] then None else Some (config_unescape raw), rest))"

subsection \<open>One token\<close>

text \<open>The position after a handled token is \<^const>\<open>None\<close> behind the terminating NUL. \<open>Overflow\<close> is a full stack
  (which exits) or a full list of states (which is written past its end).\<close>

datatype 'cx config_result = Done "string option" "'cx config_parser" | Next string | Overflow

definition finish_token ::
  "'cx config_tables \<Rightarrow> parse_token \<Rightarrow> string option \<Rightarrow> ('cx config_parser \<Rightarrow> 'cx config_parser) \<Rightarrow>
   'cx config_parser \<Rightarrow> stack option \<Rightarrow> 'cx config_result" where
  "finish_token gt tok pos after cp st =
     (case st of
        None \<Rightarrow> Overflow
      | Some st \<Rightarrow>
          (case config_next_state gt tok (cp\<lparr>cp_stack := st\<rparr>) of
             None \<Rightarrow> Overflow
           | Some cp \<Rightarrow> Done pos (after cp)))"

definition behind :: "string \<Rightarrow> string option" where
  "behind walk = (case walk of [] \<Rightarrow> None | _ # rest \<Rightarrow> Some rest)"

definition count_line :: "'cx config_parser \<Rightarrow> 'cx config_parser" where
  "count_line cp = cp\<lparr>cp_linecnt := cp_linecnt cp + 1\<rparr>"

definition reset_criteria :: "'cx config_tables \<Rightarrow> 'cx config_parser \<Rightarrow> 'cx config_parser" where
  "reset_criteria gt cp = cp\<lparr>cp_cx := gt_criteria_init gt (cp_cx cp)\<rparr>"

definition config_token ::
  "'cx config_tables \<Rightarrow> parse_token \<Rightarrow> string \<Rightarrow> 'cx config_parser \<Rightarrow> 'cx config_result" where
  "config_token gt tok walk cp =
     (let name = tk_name tok in
      if name \<noteq> [] \<and> hd name = CHR 0x27 then
        (if caseless_prefix walk (tl name)
         then finish_token gt tok (Some (drop (length (tl name)) walk)) id cp
                (push_named (\<lambda>i. parser_push_string i (tl name)) tok (cp_stack cp))
         else Next walk)
      else if name = ''number'' then
        (case strtoll_10 walk of
           None \<Rightarrow> Next walk
         | Some (n, erange) \<Rightarrow>
             if erange then Next walk
             else finish_token gt tok (Some (strtol_end walk)) id cp
                    (push_named (\<lambda>i. parser_push_long i n) tok (cp_stack cp)))
      else if name = ''string'' \<or> name = ''word'' then
        (case config_parse_string (name = ''word'') walk of
           (None, walk) \<Rightarrow> Next walk
         | (Some str, walk) \<Rightarrow>
             finish_token gt tok (Some (if walk \<noteq> [] \<and> hd walk = CHR 0x22 then tl walk else walk)) id cp
               (push_named (\<lambda>i. parser_push_string i str) tok (cp_stack cp)))
      else if name = ''line'' then
        finish_token gt tok (behind (dropWhile (\<lambda>c. \<not> line_end c) walk)) count_line cp (Some (cp_stack cp))
      else if name = ''end'' \<and> (walk = [] \<or> line_end (hd walk)) then
        finish_token gt tok (behind walk) (count_line \<circ> reset_criteria gt) cp (Some (cp_stack cp))
      else Next walk)"

fun config_tokens ::
  "'cx config_tables \<Rightarrow> parse_token list \<Rightarrow> string \<Rightarrow> 'cx config_parser \<Rightarrow> 'cx config_result" where
  "config_tokens gt [] walk cp = Next walk"
| "config_tokens gt (tok # toks) walk cp =
     (case config_token gt tok walk cp of Next walk \<Rightarrow> config_tokens gt toks walk cp | r \<Rightarrow> r)"

subsection \<open>Errors\<close>

text \<open>The names of the tokens, a comma after each that is not the last of the state and not an error token.\<close>

fun expected_tokens :: "parse_token list \<Rightarrow> string" where
  "expected_tokens [] = []"
| "expected_tokens (tok # toks) =
     (if tk_name tok = ''error'' then [] else token_text tok @ (if toks = [] then [] else '', '')) @ expected_tokens toks"

text \<open>\<open>start_of_line\<close> of a pointer into the input, as an index: one behind the last line end at or before it.\<close>

definition start_of_line :: "string \<Rightarrow> int \<Rightarrow> int" where
  "start_of_line input walk =
     (if walk < 0 then walk + 1
      else int (length (dropWhile (\<lambda>c. \<not> line_end c) (rev (take (Suc (nat walk)) input)))))"

definition single_line :: "string \<Rightarrow> string" where
  "single_line start = takeWhile (\<lambda>c. c \<noteq> CHR 0x0A) start"

definition line_at :: "string \<Rightarrow> int \<Rightarrow> string" where
  "line_at input i = single_line (drop (nat i) input)"

definition position_markers :: "nat \<Rightarrow> string \<Rightarrow> string" where
  "position_markers good line =
     map (\<lambda>(k, c). if good \<le> k then CHR ''^'' else if c = CHR 0x09 then CHR 0x09 else CHR '' '')
       (zip [0..<length line] line)"

primrec lines_after :: "nat \<Rightarrow> nat \<Rightarrow> string \<Rightarrow> (nat \<times> string) list" where
  "lines_after 0 number rest = []"
| "lines_after (Suc n) number rest =
     (let following = drop 1 (dropWhile (\<lambda>c. c \<noteq> CHR 0x0A) rest)
      in if following \<noteq> [] then (number, single_line following) # lines_after n (number + 1) following
         else lines_after n (number + 1) rest)"

definition error_report :: "parse_token list \<Rightarrow> string \<Rightarrow> string \<Rightarrow> nat \<Rightarrow> config_error" where
  "error_report toks input walk linecnt =
     (let w = int (length input) - int (length walk);
          error_line = start_of_line input w;
          line = drop (nat error_line) input;
          p1 = start_of_line input (error_line - 2);
          p2 = start_of_line input (p1 - 2)
      in \<lparr>er_message = ''Expected one of these tokens: '' @ expected_tokens toks,
          er_before = (if linecnt > 2 then [(linecnt - 2, line_at input p2)] else []) @
                      (if linecnt > 1 then [(linecnt - 1, line_at input p1)] else []),
          er_line = (linecnt, single_line line),
          er_position = position_markers (nat (w - error_line)) (takeWhile (\<lambda>c. \<not> line_end c) line),
          er_after = lines_after 2 (linecnt + 1) line\<rparr>)"

text \<open>The nearest state with an error token, from the end of the list; \<open>assert(error_token_found)\<close>.\<close>

definition error_token :: "'cx config_tables \<Rightarrow> nat \<Rightarrow> parse_token option" where
  "error_token gt st = find (\<lambda>tok. tk_name tok = ''error'') (gt_tokens gt st)"

definition nearest_error :: "'cx config_tables \<Rightarrow> nat list \<Rightarrow> parse_token option" where
  "nearest_error gt sl =
     (case find (\<lambda>st. error_token gt st \<noteq> None) (rev sl) of None \<Rightarrow> None | Some st \<Rightarrow> error_token gt st)"

definition recover :: "'cx config_tables \<Rightarrow> string \<Rightarrow> string \<Rightarrow> 'cx config_parser \<Rightarrow> 'cx config_parser option" where
  "recover gt input walk cp =
     (case nearest_error gt (cp_statelist cp) of
        None \<Rightarrow> None
      | Some tok \<Rightarrow>
          config_next_state gt tok
            (cp\<lparr>cp_has_errors := True, cp_stack := [],
                cp_errors := cp_errors cp @
                  [error_report (gt_tokens gt (cp_state cp)) input walk (cp_linecnt cp)]\<rparr>))"

text \<open>Skipping to the line feed, or past the end of the input.\<close>

definition skip_line :: "string \<Rightarrow> string option" where
  "skip_line walk = (case dropWhile (\<lambda>c. c \<noteq> CHR 0x0A) walk of [] \<Rightarrow> None | rest \<Rightarrow> Some rest)"

subsection \<open>The main loop\<close>

datatype 'cx config_outcome = Config_Read "'cx config_parser" | Config_Crash

primrec config_loop ::
  "nat \<Rightarrow> 'cx config_tables \<Rightarrow> string \<Rightarrow> string option \<Rightarrow> 'cx config_parser \<Rightarrow> 'cx config_outcome option" where
  "config_loop 0 gt input pos cp = None"
| "config_loop (Suc n) gt input pos cp =
     (case pos of
        None \<Rightarrow> Some (Config_Read cp)
      | Some walk \<Rightarrow>
          (case config_tokens gt (gt_tokens gt (cp_state cp)) (skip_blanks walk) cp of
             Done pos cp \<Rightarrow> config_loop n gt input pos cp
           | Overflow \<Rightarrow> Some Config_Crash
           | Next walk \<Rightarrow>
               (case recover gt input walk cp of
                  None \<Rightarrow> Some Config_Crash
                | Some cp \<Rightarrow> config_loop n gt input (skip_line walk) cp)))"

definition start_parser :: "'cx config_tables \<Rightarrow> 'cx \<Rightarrow> 'cx config_parser" where
  "start_parser gt cx =
     \<lparr>cp_state = 0, cp_statelist = [0], cp_stack = [], cp_linecnt = 1, cp_ctx_errors = False,
      cp_has_errors = False, cp_errors = [], cp_cx = gt_criteria_init gt cx\<rparr>"

definition parse_config :: "'cx config_tables \<Rightarrow> string \<Rightarrow> 'cx \<Rightarrow> 'cx config_outcome option" where
  "parse_config gt input cx =
     config_loop (2 * length input + 4) gt input (Some input) (start_parser gt cx)"

subsection \<open>The parser ends\<close>

text \<open>What the tables have to provide: literals that are not empty, and error tokens that lead to a state
  in which the end of a line is a token.\<close>

definition handles_end :: "'cx config_tables \<Rightarrow> nat \<Rightarrow> bool" where
  "handles_end gt st \<longleftrightarrow> (\<exists>tok \<in> set (gt_tokens gt st). tk_name tok = ''end'')"

definition config_tables_ok :: "'cx config_tables \<Rightarrow> bool" where
  "config_tables_ok gt \<longleftrightarrow>
     (\<forall>st. \<forall>tok \<in> set (gt_tokens gt st). tk_name tok \<noteq> [CHR 0x27] \<and>
        (tk_name tok = ''error'' \<longrightarrow> (\<exists>e. tk_next tok = Goto e \<and> handles_end gt e)))"

lemma config_scan_quoted_length:
  "config_scan_quoted prev cs = (raw, rest) \<Longrightarrow> length raw + length rest = length cs"
  by (induction cs arbitrary: prev raw rest) (auto split: if_splits prod.splits)

lemma config_parse_string_length:
  assumes "config_parse_string w walk = (str, rest)"
  shows "length rest \<le> length walk \<and> (str \<noteq> None \<longrightarrow> length rest < length walk)"
proof (cases "walk \<noteq> [] \<and> hd walk = CHR 0x22")
  case True
  obtain raw r where s: "config_scan_quoted (CHR 0x22) (tl walk) = (raw, r)" by fastforce
  then show ?thesis using assms True config_scan_quoted_length [OF s]
    by (cases walk) (auto simp: config_parse_string_def split: if_splits)
next
  case False
  have "length (takeWhile P walk) + length (dropWhile P walk) = length walk" for P :: "char \<Rightarrow> bool"
    using takeWhile_dropWhile_id [of P walk] by (metis length_append)
  then show ?thesis using assms False
    by (auto simp: config_parse_string_def length_dropWhile_le split: if_splits)
      (metis length_greater_0_conv less_add_same_cancel2)
qed

lemma rest_length_behind: "length walk' \<le> length walk \<Longrightarrow> rest_length (behind walk') < Suc (length walk)"
  by (cases walk') (auto simp: behind_def rest_length_def)

lemma finish_token_Done: "finish_token gt tok pos after cp st = Done pos' cp' \<Longrightarrow> pos' = pos"
  by (auto simp: finish_token_def split: option.splits)

lemma finish_token_not_Next [simp]: "finish_token gt tok pos after cp st \<noteq> Next walk"
  by (auto simp: finish_token_def split: option.splits)

lemma config_token_Done:
  assumes "tk_name tok \<noteq> [CHR 0x27]" and d: "config_token gt tok walk cp = Done pos cp'"
  shows "rest_length pos < Suc (length walk)"
proof -
  have lit: "length walk - length lit < length walk" if "caseless_prefix walk lit" "lit \<noteq> []" for lit
    using that by (cases lit) (auto simp: caseless_prefix_def)
  have tl: "tl (tk_name tok) \<noteq> []" if "tk_name tok \<noteq> []" "hd (tk_name tok) = CHR 0x27"
    using assms that by (cases "tk_name tok") auto
  note e = length_dropWhile_le [of "\<lambda>c. \<not> line_end c" walk]
  show ?thesis
    using d lit tl config_parse_string_length [of "tk_name tok = ''word''" walk] strtol_end_length [of walk]
      rest_length_behind [OF e] rest_length_behind [of walk walk]
    by (auto simp: config_token_def rest_length_def Let_def dest!: finish_token_Done
        split: if_splits option.splits prod.splits) fastforce+
qed

lemma config_token_Next:
  assumes "config_token gt tok walk cp = Next walk'"
  shows "length walk' \<le> length walk \<and> (walk \<noteq> [] \<and> hd walk = CHR 0x0A \<longrightarrow> walk' = walk \<and> tk_name tok \<noteq> ''end'')"
proof -
  have "walk' = walk" if "config_parse_string w walk = (None, walk')" "walk \<noteq> []" "hd walk = CHR 0x0A" for w
    using that by (cases walk) (auto simp: config_parse_string_def config_delimiter_def line_end_def)
  then show ?thesis
    using assms config_parse_string_length [of "tk_name tok = ''word''" walk]
    by (auto simp: config_token_def Let_def line_end_def split: if_splits option.splits prod.splits)
qed

lemma config_tokens_progress:
  assumes "\<forall>tok \<in> set toks. tk_name tok \<noteq> [CHR 0x27]"
  shows "(config_tokens gt toks walk cp = Done pos cp' \<longrightarrow> rest_length pos < Suc (length walk)) \<and>
    (config_tokens gt toks walk cp = Next walk' \<longrightarrow> length walk' \<le> length walk \<and>
       (walk \<noteq> [] \<and> hd walk = CHR 0x0A \<longrightarrow> (\<forall>tok \<in> set toks. tk_name tok \<noteq> ''end'')))"
  using assms
proof (induction toks arbitrary: walk)
  case (Cons tok toks)
  have t: "tk_name tok \<noteq> [CHR 0x27]" using Cons.prems by simp
  show ?case
  proof (cases "config_token gt tok walk cp")
    case (Next w)
    note N = config_token_Next [OF this]
    have I: "(config_tokens gt toks w cp = Done pos cp' \<longrightarrow> rest_length pos < Suc (length w)) \<and>
      (config_tokens gt toks w cp = Next walk' \<longrightarrow> length walk' \<le> length w \<and>
       (w \<noteq> [] \<and> hd w = CHR 0x0A \<longrightarrow> (\<forall>tok \<in> set toks. tk_name tok \<noteq> ''end'')))"
      by (rule Cons.IH) (use Cons.prems in simp)
    have eq: "config_tokens gt (tok # toks) walk cp = config_tokens gt toks w cp" using Next by simp
    show ?thesis unfolding eq using I N by force
  qed (use config_token_Done [OF t] in auto)
qed simp

lemma recover_state:
  assumes "config_tables_ok gt" and "recover gt input walk cp = Some cp'"
  shows "handles_end gt (cp_state cp')"
proof -
  from assms(2) obtain tok where tok: "nearest_error gt (cp_statelist cp) = Some tok"
    by (auto simp: recover_def split: option.splits)
  then obtain st where "error_token gt st = Some tok"
    by (auto simp: nearest_error_def find_Some_iff split: option.splits)
  then have "tok \<in> set (gt_tokens gt st)" "tk_name tok = ''error''"
    by (auto simp: error_token_def find_Some_iff)
  then obtain e where "tk_next tok = Goto e" "handles_end gt e"
    using assms(1) unfolding config_tables_ok_def by blast
  then show ?thesis using assms(2) tok by (auto simp: recover_def config_next_state_def)
qed

definition at_line_end :: "'cx config_tables \<Rightarrow> string option \<Rightarrow> 'cx config_parser \<Rightarrow> bool" where
  "at_line_end gt pos cp \<longleftrightarrow>
     (case pos of None \<Rightarrow> False | Some walk \<Rightarrow> walk \<noteq> [] \<and> hd walk = CHR 0x0A \<and> handles_end gt (cp_state cp))"

lemma skip_line_rest:
  assumes "length walk' \<le> length walk"
  shows "rest_length (skip_line walk') \<le> Suc (length walk)"
  using assms length_dropWhile_le [of "\<lambda>c. c \<noteq> CHR 0x0A" walk']
  by (auto simp: skip_line_def rest_length_def split: list.splits)

lemma skip_line_at_end:
  assumes "handles_end gt (cp_state cp)"
  shows "skip_line walk = None \<or> at_line_end gt (skip_line walk) cp"
  using assms dropWhile_eq_Cons_conv [of "\<lambda>c. c \<noteq> CHR 0x0A" walk]
  by (auto simp: skip_line_def at_line_end_def split: list.splits)

lemma config_loop_returns:
  assumes ok: "config_tables_ok gt"
    and "2 * rest_length pos + (if at_line_end gt pos cp then 0 else 1) < n"
  shows "config_loop n gt input pos cp \<noteq> None"
  using assms(2)
proof (induction n arbitrary: pos cp)
  case (Suc n)
  show ?case
  proof (cases pos)
    case (Some walk)
    define toks where "toks = gt_tokens gt (cp_state cp)"
    define w where "w = skip_blanks walk"
    have lits: "\<forall>tok \<in> set toks. tk_name tok \<noteq> [CHR 0x27]"
      using ok by (auto simp: config_tables_ok_def toks_def)
    note prog = config_tokens_progress [OF lits, of gt w cp]
    have w: "length w \<le> length walk" by (simp add: w_def skip_blanks_def length_dropWhile_le)
    have bound: "2 * Suc (length walk) + (if at_line_end gt pos cp then 0 else 1) < Suc n"
      using Suc.prems Some by (simp add: rest_length_def)
    show ?thesis
    proof (cases "config_tokens gt toks w cp")
      case (Done pos' cp')
      have "rest_length pos' < Suc (length w)" using prog Done by blast
      then have "2 * rest_length pos' + (if at_line_end gt pos' cp' then 0 else 1) < n"
        using w bound by (auto split: if_splits)
      from Suc.IH [OF this] show ?thesis using Done Some by (simp add: toks_def w_def)
    next
      case (Next walk')
      have le: "length walk' \<le> length walk" using prog Next w by fastforce
      have "w = walk" if "walk \<noteq> []" "hd walk = CHR 0x0A"
        using that by (cases walk) (simp_all add: w_def skip_blanks_def)
      then have no: "\<not> at_line_end gt pos cp"
        using prog Next Some by (auto simp: at_line_end_def handles_end_def toks_def)
      show ?thesis
      proof (cases "recover gt input walk' cp")
        case None
        then show ?thesis using Next Some by (simp add: toks_def w_def)
      next
        case (Some cp')
        have "skip_line walk' = None \<or> at_line_end gt (skip_line walk') cp'"
          by (rule skip_line_at_end [OF recover_state [OF ok Some]])
        then have "2 * rest_length (skip_line walk') + (if at_line_end gt (skip_line walk') cp' then 0 else 1) < n"
          using skip_line_rest [OF le] bound no by (auto simp: rest_length_def [of None])
        from Suc.IH [OF this] show ?thesis using Next Some \<open>pos = Some walk\<close> by (simp add: toks_def w_def)
      qed
    next
      case Overflow
      then show ?thesis using Some by (simp add: toks_def w_def)
    qed
  qed simp
qed simp

end
