(* ===== verification/Config_File.thy ===== *)
theory Config_File
  imports Config_Parser
begin

text \<open>
  Configuration files: the variables and the lines of a file (\<^verbatim>\<open>src/config_parser.c\<close>), \<open>include\<close>
  (\<^verbatim>\<open>src/config_directives.c\<close>), loading and reloading the configuration (\<^verbatim>\<open>src/config.c\<close>), the search for
  its path (\<^verbatim>\<open>libi3/get_config_path.c\<close>). The file system, \<open>wordexp\<close>, the resource database and the
  environment variables are parameters.
\<close>

subsection \<open>Variables\<close>

text \<open>A new variable goes before the first one whose name is not longer.\<close>

fun insert_variable :: "string \<Rightarrow> string \<Rightarrow> (string \<times> string) list \<Rightarrow> (string \<times> string) list" where
  "insert_variable k v [] = [(k, v)]"
| "insert_variable k v ((k', v') # vars) =
     (if length k' \<le> length k then (k, v) # (k', v') # vars else (k', v') # insert_variable k v vars)"

fun set_variable :: "string \<Rightarrow> string \<Rightarrow> (string \<times> string) list \<Rightarrow> (string \<times> string) list option" where
  "set_variable k v [] = None"
| "set_variable k v ((k', v') # vars) =
     (if k' = k then Some ((k, v) # vars) else map_option (Cons (k', v')) (set_variable k v vars))"

definition upsert_variable :: "string \<Rightarrow> string \<Rightarrow> (string \<times> string) list \<Rightarrow> (string \<times> string) list" where
  "upsert_variable k v vars = (case set_variable k v vars of Some vars \<Rightarrow> vars | None \<Rightarrow> insert_variable k v vars)"

fun strcasestr :: "string \<Rightarrow> string \<Rightarrow> nat option" where
  "strcasestr [] needle = (if needle = [] then Some 0 else None)"
| "strcasestr (c # cs) needle =
     (if caseless_prefix (c # cs) needle then Some 0 else map_option Suc (strcasestr cs needle))"

text \<open>The variable whose next occurrence is nearest, the first one of the list among several.\<close>

fun nearest_variable ::
  "string \<Rightarrow> (string \<times> string) list \<Rightarrow> (nat \<times> string \<times> string) option \<Rightarrow> (nat \<times> string \<times> string) option" where
  "nearest_variable walk [] best = best"
| "nearest_variable walk ((k, v) # vars) best =
     nearest_variable walk vars
       (case strcasestr walk k of
          None \<Rightarrow> best
        | Some d \<Rightarrow> (case best of None \<Rightarrow> Some (d, k, v) | Some (d', _) \<Rightarrow> if d < d' then Some (d, k, v) else best))"

text \<open>The loop that copies the file; names are not empty, so every turn shortens the rest.\<close>

primrec replace_loop :: "nat \<Rightarrow> (string \<times> string) list \<Rightarrow> string \<Rightarrow> string" where
  "replace_loop 0 vars walk = []"
| "replace_loop (Suc n) vars walk =
     (case nearest_variable walk vars None of
        None \<Rightarrow> walk
      | Some (d, k, v) \<Rightarrow> take d walk @ v @ replace_loop n vars (drop (d + length k) walk))"

definition replace_variables :: "(string \<times> string) list \<Rightarrow> string \<Rightarrow> string" where
  "replace_variables vars buf = replace_loop (Suc (length buf)) vars buf"

text \<open>The size of the new buffer: every occurrence of a name is counted and blanked out, one name after
  the other.\<close>

primrec blank_out :: "nat \<Rightarrow> string \<Rightarrow> string \<Rightarrow> nat \<times> string" where
  "blank_out 0 k text = (0, text)"
| "blank_out (Suc n) k text =
     (case strcasestr text k of
        None \<Rightarrow> (0, text)
      | Some d \<Rightarrow>
          (case blank_out n k (drop (d + length k) text) of
             (cnt, rest) \<Rightarrow> (Suc cnt, take d text @ replicate (length k) (CHR '' '') @ rest)))"

fun count_extra :: "(string \<times> string) list \<Rightarrow> string \<Rightarrow> int" where
  "count_extra [] text = 0"
| "count_extra ((k, v) # vars) text =
     (case blank_out (Suc (length text)) k text of
        (cnt, text) \<Rightarrow> int cnt * (int (length v) - int (length k)) + count_extra vars text)"

definition new_buffer_size :: "nat \<Rightarrow> (string \<times> string) list \<Rightarrow> string \<Rightarrow> int" where
  "new_buffer_size st_size vars buf = int st_size + count_extra vars buf + 1"

subsection \<open>The lines of a file\<close>

definition fgets :: "nat \<Rightarrow> string \<Rightarrow> string \<times> string" where
  "fgets n rest =
     (let line = takeWhile (\<lambda>c. c \<noteq> CHR 0x0A) rest @ take 1 (dropWhile (\<lambda>c. c \<noteq> CHR 0x0A) rest);
          chunk = take (n - 1) line
      in (chunk, drop (length chunk) rest))"

text \<open>\<open>sscanf\<close> with \<open>%511s %4095[^\n]\<close>: the first word and the rest of the line, \<^const>\<open>None\<close> without a word.\<close>

definition word_and_rest :: "string \<Rightarrow> (string \<times> string) option" where
  "word_and_rest str =
     (case scan_name 511 str of
        None \<Rightarrow> None
      | Some (word, rest) \<Rightarrow>
          Some (word, take 4095 (takeWhile (\<lambda>c. c \<noteq> CHR 0x0A) (dropWhile c_isspace rest))))"

record file_lines =
  fl_variables :: "(string \<times> string) list"
  fl_buf :: string
  fl_invalid_sets :: bool

definition define_variable :: "string \<Rightarrow> string \<Rightarrow> file_lines \<Rightarrow> file_lines" where
  "define_variable k v fl =
     (if k = [] \<or> hd k \<noteq> CHR ''$'' then fl\<lparr>fl_invalid_sets := True\<rparr>
      else fl\<lparr>fl_variables := upsert_variable k v (fl_variables fl)\<rparr>)"

definition set_line :: "(string \<Rightarrow> string option) \<Rightarrow> string \<Rightarrow> string \<Rightarrow> file_lines \<Rightarrow> file_lines" where
  "set_line resource key v fl =
     (if caseless_eq key ''set'' \<and> v \<noteq> [] then
        (case word_and_rest v of
           None \<Rightarrow> fl\<lparr>fl_invalid_sets := True\<rparr>
         | Some (k, v) \<Rightarrow> define_variable k v fl)
      else if caseless_eq key ''set_from_resource'' then
        (case word_and_rest v of
           None \<Rightarrow> fl\<lparr>fl_invalid_sets := True\<rparr>
         | Some (k, rest) \<Rightarrow>
             (case word_and_rest rest of
                None \<Rightarrow> define_variable k (case resource [] of None \<Rightarrow> [] | Some r \<Rightarrow> r) fl
              | Some (res_name, fallback) \<Rightarrow>
                  define_variable k (case resource res_name of None \<Rightarrow> fallback | Some r \<Rightarrow> r) fl))
      else fl)"

definition process_line :: "(string \<Rightarrow> string option) \<Rightarrow> string \<Rightarrow> file_lines \<Rightarrow> file_lines" where
  "process_line resource buffer fl =
     (let fl = fl\<lparr>fl_buf := fl_buf fl @ buffer\<rparr> in
      case word_and_rest buffer of
        None \<Rightarrow> fl
      | Some (key, v) \<Rightarrow> if length key < 3 \<or> hd key = CHR ''#'' then fl else set_line resource key v fl)"

definition continues :: "string \<Rightarrow> bool" where
  "continues buffer \<longleftrightarrow>
     length buffer \<ge> 2 \<and> drop (length buffer - 2) buffer = [CHR 0x5C, CHR 0x0A] \<and>
     (case word_and_rest buffer of None \<Rightarrow> True | Some (key, _) \<Rightarrow> hd key \<noteq> CHR ''#'')"

text \<open>\<open>start\<close> is what the buffer holds of the lines that are continued; what it holds at the end of the
  file is dropped.\<close>

lemma fgets_shrinks: "fgets n rest = (chunk, rest') \<Longrightarrow> chunk \<noteq> [] \<Longrightarrow> length rest' < length rest"
  by (cases rest) (auto simp: fgets_def Let_def)

function read_lines ::
  "(string \<Rightarrow> string option) \<Rightarrow> string \<Rightarrow> string \<Rightarrow> file_lines \<Rightarrow> file_lines" where
  "read_lines resource start rest fl =
     (case fgets (4096 - length start) rest of
        (chunk, rest) \<Rightarrow>
          if chunk = [] then fl
          else let buffer = start @ chunk in
            if continues buffer then read_lines resource (take (length buffer - 2) buffer) rest fl
            else read_lines resource [] rest (process_line resource buffer fl))"
  by pat_completeness auto
termination
  by (relation "measure (\<lambda>(_, _, rest, _). length rest)") (auto dest: fgets_shrinks [OF sym])

declare read_lines.simps [simp del]

subsection \<open>Parsing a file\<close>

text \<open>The files by their resolved path (\<^const>\<open>None\<close>: it cannot be read), and \<open>wordexp\<close> and \<open>realpath\<close> in the directory
  of a file. Returning to the old working directory is assumed to succeed.\<close>

record file_env =
  fi_files :: "(string \<times> string) list"
  fi_wordexp :: "string \<Rightarrow> string \<Rightarrow> string list option"
  fi_realpath :: "string \<Rightarrow> string \<Rightarrow> string option"
  fi_resource :: "string \<Rightarrow> string option"

datatype parse_file_result = PARSE_FILE_FAILED | PARSE_FILE_SUCCESS | PARSE_FILE_CONFIG_ERRORS

definition parse_file_inner ::
  "file_env \<Rightarrow> cfg_session config_tables \<Rightarrow> string \<Rightarrow> cfg_session \<Rightarrow> parse_file_result \<times> cfg_session" where
  "parse_file_inner fe gt f cd =
     (case map_of (fi_files fe) f of
        None \<Rightarrow> (PARSE_FILE_FAILED, cd)
      | Some contents \<Rightarrow>
          let fl = read_lines (fi_resource fe) [] contents
                     \<lparr>fl_variables = cd_variables cd, fl_buf = [], fl_invalid_sets = False\<rparr>;
              cd = cd\<lparr>cd_variables := fl_variables fl\<rparr>
          in (case parse_config gt (replace_variables (fl_variables fl) (fl_buf fl)) cd of
                Some (Config_Read cp) \<Rightarrow>
                  (if cp_has_errors cp \<or> cp_ctx_errors cp \<or> check_for_duplicate_bindings (cd_wm (cp_cx cp))
                   then PARSE_FILE_CONFIG_ERRORS else PARSE_FILE_SUCCESS, cp_cx cp)
              | _ \<Rightarrow> (PARSE_FILE_CONFIG_ERRORS, on_cd_wm abort cd)))"

text \<open>\<open>include\<close>: the words of the pattern in turn. The parser context of the included file has its own match.\<close>

definition include_file ::
  "(string \<Rightarrow> cfg_session \<Rightarrow> parse_file_result \<times> cfg_session) \<Rightarrow> string \<Rightarrow> bool \<times> cfg_session \<Rightarrow> bool \<times> cfg_session" where
  "include_file parse_file path =
     (\<lambda>(has_errors, cd).
        if path \<in> set (cd_included cd) then (has_errors, cd)
        else (case parse_file path (cd\<lparr>cd_included := cd_included cd @ [path]\<rparr>) of
            (r, cd') \<Rightarrow>
              let cd' = cd'\<lparr>cd_match := cd_match cd\<rparr>
              in if r = PARSE_FILE_SUCCESS then (has_errors, cd')
                 else (True, cd'\<lparr>cd_included := remove1 path (cd_included cd')\<rparr>)))"

definition cfgfun_include ::
  "file_env \<Rightarrow> (string \<Rightarrow> cfg_session \<Rightarrow> parse_file_result \<times> cfg_session) \<Rightarrow> string \<Rightarrow> string \<Rightarrow> cfg_session \<Rightarrow>
   bool \<times> cfg_session" where
  "cfgfun_include fe parse_file f pat cd =
     (case fi_wordexp fe f pat of
        None \<Rightarrow> (True, cd)
      | Some ws \<Rightarrow> fold (include_file parse_file) (List.map_filter (fi_realpath fe f) ws) (False, cd))"

text \<open>The generated tables call \<open>include\<close>, so they are given it. A file that is being read is not
  included again: the nesting is bounded by the number of files.\<close>

type_synonym generated_tables = "(string \<Rightarrow> cfg_session \<Rightarrow> bool \<times> cfg_session) \<Rightarrow> cfg_session config_tables"

primrec parse_file ::
  "nat \<Rightarrow> file_env \<Rightarrow> generated_tables \<Rightarrow> string \<Rightarrow> cfg_session \<Rightarrow> parse_file_result \<times> cfg_session" where
  "parse_file 0 fe gen f cd = (PARSE_FILE_FAILED, on_cd_wm abort cd)"
| "parse_file (Suc n) fe gen f cd =
     parse_file_inner fe (gen (cfgfun_include fe (parse_file n fe gen) f)) f cd"

subsection \<open>The path of the configuration\<close>

text \<open>\<open>saved\<close> is the static \<open>saved_configpath\<close>, with its new value in the result.\<close>

record path_env =
  pe_getenv :: "string \<Rightarrow> string option"
  pe_resolve_tilde :: "string \<Rightarrow> string"
  pe_path_exists :: "string \<Rightarrow> bool"
  pe_readable :: "string \<Rightarrow> bool"
  pe_sysconfdir :: string

definition split_colons :: "string \<Rightarrow> string list" where
  "split_colons str = filter (\<lambda>w. w \<noteq> []) (foldr (\<lambda>c ws. if c = CHR '':'' then [] # ws else (c # hd ws) # tl ws) str [[]])"

definition get_config_path ::
  "path_env \<Rightarrow> string option \<Rightarrow> bool \<Rightarrow> string option \<Rightarrow> string option \<times> string option" where
  "get_config_path pe override use_system_paths saved =
     (case override of
        Some p \<Rightarrow> (Some p, Some p)
      | None \<Rightarrow>
          (case saved of
             Some p \<Rightarrow> (Some p, saved)
           | None \<Rightarrow>
               let xdg_home = (case pe_getenv pe ''XDG_CONFIG_HOME'' of None \<Rightarrow> ''~/.config'' | Some d \<Rightarrow> d);
                   user = [pe_resolve_tilde pe xdg_home @ ''/i3/config'', pe_resolve_tilde pe ''~/.i3/config''];
                   xdg_dirs = (case pe_getenv pe ''XDG_CONFIG_DIRS'' of None \<Rightarrow> pe_sysconfdir pe @ ''/xdg'' | Some d \<Rightarrow> d);
                   sys = map (\<lambda>d. pe_resolve_tilde pe d @ ''/i3/config'') (split_colons xdg_dirs) @
                         [pe_sysconfdir pe @ ''/i3/config'']
               in (find (pe_path_exists pe) (user @ (if use_system_paths then sys else [])), saved)))"

definition aiwr_config_path :: "path_env \<Rightarrow> string option \<Rightarrow> string option \<Rightarrow> string option \<times> string option" where
  "aiwr_config_path pe override saved =
     (if override \<noteq> None then get_config_path pe override True saved
      else
        let home = pe_getenv pe ''HOME'';
            first = (case pe_getenv pe ''XDG_CONFIG_HOME'' of
                       Some d \<Rightarrow> if d \<noteq> [] then Some (d @ ''/i3-aiwr/config'')
                                 else map_option (\<lambda>h. h @ ''/.config/i3-aiwr/config'') home
                     | None \<Rightarrow> map_option (\<lambda>h. h @ ''/.config/i3-aiwr/config'') home);
            second = map_option (\<lambda>h. h @ ''/.i3-aiwr/config'') home
        in (case find (pe_readable pe) (List.map_filter id [first, second]) of
              Some p \<Rightarrow> (Some p, saved)
            | None \<Rightarrow> get_config_path pe None True saved))"

subsection \<open>Defaults\<close>

definition no_color :: color_t where
  "no_color = \<lparr>co_red = 0, co_green = 0, co_blue = 0, co_alpha = 0, colorpixel = 0\<rparr>"

definition init_color :: "config_env \<Rightarrow> string \<Rightarrow> string \<Rightarrow> string \<Rightarrow> string \<Rightarrow> Colortriple" where
  "init_color ge border background text_color indicator =
     (let color = draw_util_hex_to_color (ge_alloc_color ge) in
      \<lparr>ct_border = color border, ct_background = color background, ct_text = color text_color,
       ct_indicator = color indicator, ct_child_border = color background\<rparr>)"

definition default_client :: "config_env \<Rightarrow> config_client" where
  "default_client ge =
     \<lparr>cl_background = draw_util_hex_to_color (ge_alloc_color ge) ''#000000'',
      cl_classes = (\<lambda>_. \<lparr>ct_border = no_color, ct_background = no_color, ct_text = no_color,
                        ct_indicator = no_color, ct_child_border = no_color\<rparr>)
        (''focused'' := init_color ge ''#4c7899'' ''#285577'' ''#ffffff'' ''#2e9ef4'',
         ''focused_inactive'' := init_color ge ''#333333'' ''#5f676a'' ''#ffffff'' ''#484e50'',
         ''unfocused'' := init_color ge ''#333333'' ''#222222'' ''#888888'' ''#292d2e'',
         ''urgent'' := init_color ge ''#2f343a'' ''#900000'' ''#ffffff'' ''#900000'',
         ''placeholder'' := init_color ge ''#000000'' ''#0c0c0c'' ''#ffffff'' ''#000000''),
      cl_got_focused_tab_title = False\<rparr>"

definition rgba :: "real \<Rightarrow> real \<Rightarrow> real \<Rightarrow> real \<Rightarrow> color_t" where
  "rgba r g b a = \<lparr>co_red = r, co_green = g, co_blue = b, co_alpha = a, colorpixel = 0\<rparr>"

definition default_config :: "config_env \<Rightarrow> config" where
  "default_config ge =
     \<lparr>cfg_default_layout = L_DEFAULT, cfg_default_border_width = logical_px (ge_dpi ge) 2,
      cfg_default_floating_border_width = logical_px (ge_dpi ge) 2, cfg_default_orientation = NO_ORIENTATION,
      cfg_hide_edge_borders = HEBM_NONE, cfg_focus_wrapping = FOCUS_WRAPPING_ON,
      cfg_workspace_urgency_timer = 1/2, cfg_default_border = BS_NORMAL,
      cfg_default_floating_border = BS_NORMAL, cfg_floating_maximum_width = 0,
      cfg_floating_maximum_height = 0, cfg_floating_minimum_width = 0, cfg_floating_minimum_height = 0,
      cfg_gaps = zero_gaps, cfg_smart_gaps = SMART_GAPS_OFF, cfg_scroll_default_width = 50,
      cfg_scroll_duration_ms = 200, cfg_scroll_center_focus = False, cfg_scroll_curve = None,
      cfg_workspace_auto_back_and_forth = False, cfg_focus_on_window_activation = FOWA_SMART,
      cfg_disable_focus_follows_mouse = False, cfg_popup_during_fullscreen = PDF_SMART,
      cfg_font_height = 0\<rparr>"

text \<open>The options after \<open>load_configuration\<close> has reset them. The gradient keeps its values, and so does the
  timeout of \<open>ipc_kill_timeout\<close>.\<close>

definition default_options :: "config_env \<Rightarrow> options \<Rightarrow> options" where
  "default_options ge old =
     \<lparr>op_font = None, op_ipc_socket_path = None, op_restart_state_path = None, op_fake_outputs = None,
      op_mouse_warping = POINTER_WARPING_OUTPUT, op_force_xinerama = False, op_disable_randr15 = False,
      op_floating_modifier = 0, op_swap_modifier = MOD_SHIFT, op_show_marks = True,
      op_title_align = ALIGN_LEFT, op_tiling_drag = TILING_DRAG_MODIFIER,
      op_kill_timeout = op_kill_timeout old, op_client = default_client ge,
      op_rounded_corners = \<lparr>rc_enabled = False, rc_radius = 8, rc_apply_to_floating = True,
                            rc_apply_to_tiling = True\<rparr>,
      op_gradient = op_gradient old,
      op_overview =
        \<lparr>ov_enabled = False, ov_thumbnail_scale = 45, ov_spacing = 28, ov_animation_duration_ms = 240,
         ov_show_workspace_names = True, ov_background_opacity = 55, ov_live_previews = True,
         ov_particles = 0, ov_fps = 60, ov_border_start = rgba 0.298 0.471 0.600 1,
         ov_border_end = rgba 0.157 0.333 0.467 1, ov_border_inactive = rgba 1 1 1 0.18,
         ov_border_width = 3, ov_border_speed = 45, ov_wallpaper_path = None, ov_background_blur = 0,
         ov_dynamic_workspaces = False, ov_thumbnail_blur = 0\<rparr>,
      op_transition = \<lparr>wt_enabled = False, wt_duration_ms = 220, wt_dir = WT_HORIZONTAL, wt_fps = 60,
                       wt_kind = WT_SLIDE, wt_curve = None\<rparr>,
      op_window_animation =
        \<lparr>wn_enabled = False, wn_duration_ms = 160, wn_start_scale = 88, wn_fps = 60, wn_curve = None,
         wn_close_enabled = False, wn_close_duration_ms = 140, wn_close_scale = 60, wn_close_curve = None,
         wn_opacity = True, wn_start_opacity = 0, wn_close_opacity = 0\<rparr>,
      op_live_resize = \<lparr>lr_enabled = False, lr_fps = 60\<rparr>,
      op_switcher = \<lparr>sw_enabled = False, sw_max_items = 8, sw_cell_width = 220, sw_cell_height = 140,
                     sw_show_preview = True\<rparr>\<rparr>"

subsection \<open>Loading\<close>

datatype config_load_t = C_VALIDATE | C_LOAD | C_RELOAD

definition forget_assignments :: "con \<Rightarrow> con" where
  "forget_assignments k =
     k\<lparr>window := map_option (\<lambda>w. w\<lparr>w_nr_assignments := 0, w_ran_assignments := []\<rparr>) (window k),
       deco_cached := False\<rparr>"

definition free_configuration :: "xkb_lib \<Rightarrow> u32 \<Rightarrow> wm \<Rightarrow> wm" where
  "free_configuration xkb numlock s =
     (let s = switch_mode xkb numlock ''default'' s;
          s = s\<lparr>modes := [], assignments := [], ws_assignments := [], barconfigs := []\<rparr>
      in fold (\<lambda>c. upd_con c forget_assignments) (all_cons s) s)"

definition reset_configuration :: "config_env \<Rightarrow> cfg_session \<Rightarrow> cfg_session" where
  "reset_configuration ge cd =
     on_options (default_options ge)
       (on_cd_wm (\<lambda>s. s\<lparr>modes := [\<lparr>md_name = ''default'', md_pango_markup = False, md_bindings = []\<rparr>],
                        current_binding_mode := ''default'', cfg := default_config ge\<rparr>)
         (cd\<lparr>cd_number_barconfigs := 0, cd_variables := [], cd_included := []\<rparr>))"

definition gaps_reapply_workspace_assignments :: "wm \<Rightarrow> wm" where
  "gaps_reapply_workspace_assignments s =
     fold (\<lambda>c s. upd_con c (\<lambda>k. k\<lparr>gaps := gaps_for_workspace s c\<rparr>) s)
       (concat (map (\<lambda>out. case output_get_content s out of None \<Rightarrow> [] | Some d \<Rightarrow> nodes_head (store s d))
                    (nodes_head (store s (croot s))))) s"

definition name_workspaces_of_bindings :: "wm \<Rightarrow> wm" where
  "name_workspaces_of_bindings s =
     s\<lparr>binding_workspace_names := extract_workspace_names_from_bindings (map bd_command (current_bindings s))\<rparr>"

definition use_default_fonts :: "(string \<Rightarrow> int) \<Rightarrow> cfg_session \<Rightarrow> cfg_session" where
  "use_default_fonts height cd =
     (let cd = (if op_font (cd_options cd) = None then cfgfun_font height ''fixed'' cd else cd);
          font = op_font (cd_options cd)
      in on_cd_wm (\<lambda>s. s\<lparr>barconfigs := map (\<lambda>b. if bc_font b = None then b\<lparr>bc_font := font\<rparr> else b)
                                         (barconfigs s)\<rparr>) cd)"

definition after_reload :: "xkb_lib \<Rightarrow> u32 \<Rightarrow> wm \<Rightarrow> wm" where
  "after_reload xkb numlock s =
     tree_render (gaps_reapply_workspace_assignments (snd (translate_keysyms xkb numlock s)))"

text \<open>\<^const>\<open>None\<close>: \<open>die\<close>. The result is whether the file had no errors, with the path that was saved and the
  state. Grabbing keys and buttons is left out.\<close>

record load_env =
  le_config :: config_env
  le_files :: file_env
  le_tables :: generated_tables
  le_path :: path_env
  le_xkb :: xkb_lib
  le_numlock :: u32

definition load_configuration ::
  "load_env \<Rightarrow> string option \<Rightarrow> config_load_t \<Rightarrow> string option \<Rightarrow> cfg_session \<Rightarrow>
   (bool \<times> string option \<times> cfg_session) option" where
  "load_configuration le override load_type saved cd =
     (let xkb = le_xkb le; numlock = le_numlock le; fe = le_files le; ge = le_config le;
          cd = (if load_type = C_RELOAD then on_cd_wm (free_configuration xkb numlock) cd else cd);
          cd = reset_configuration ge cd
      in case aiwr_config_path (le_path le) override saved of
           (None, saved) \<Rightarrow> None
         | (Some path, saved) \<Rightarrow>
             (case fi_realpath fe [] path of
                None \<Rightarrow> None
              | Some f \<Rightarrow>
                  (case parse_file (length (fi_files fe) + 2) fe (le_tables le) f (cd\<lparr>cd_included := [f]\<rparr>) of
                     (r, cd) \<Rightarrow>
                       if r = PARSE_FILE_FAILED then None
                       else
                         let cd = on_cd_wm (reorder_bindings \<circ> name_workspaces_of_bindings) (cd\<lparr>cd_variables := []\<rparr>);
                             cd = (if load_type = C_VALIDATE then cd else use_default_fonts (ge_font_height ge) cd);
                             cd = (if load_type = C_RELOAD then on_cd_wm (after_reload xkb numlock) cd else cd)
                         in Some (r = PARSE_FILE_SUCCESS, saved, cd))))"

subsection \<open>Variables are looked up and replaced\<close>

definition longest_first :: "(string \<times> string) list \<Rightarrow> bool" where
  "longest_first vars \<longleftrightarrow> sorted_wrt (\<lambda>a b. length (fst b) \<le> length (fst a)) vars"

lemma set_variable_None: "set_variable k v vars = None \<longleftrightarrow> k \<notin> fst ` set vars"
  by (induction vars) (auto split: if_splits)

lemma set_variable_Some:
  "set_variable k v vars = Some vars' \<Longrightarrow>
    map fst vars' = map fst vars \<and> map_of vars' = (map_of vars)(k \<mapsto> v)"
  by (induction vars arbitrary: vars') (auto simp: fun_eq_iff split: if_splits)

lemma insert_variable_lookup:
  "k \<notin> fst ` set vars \<Longrightarrow> map_of (insert_variable k v vars) = (map_of vars)(k \<mapsto> v)"
  by (induction k v vars rule: insert_variable.induct) (auto simp: fun_eq_iff)

lemma insert_variable_set [simp]: "set (insert_variable k v vars) = insert (k, v) (set vars)"
  by (induction k v vars rule: insert_variable.induct) auto

lemma insert_variable_sorted: "longest_first vars \<Longrightarrow> longest_first (insert_variable k v vars)"
  unfolding longest_first_def by (induction k v vars rule: insert_variable.induct) fastforce+

lemma longest_first_keys: "longest_first vars \<longleftrightarrow> sorted_wrt (\<lambda>a b. length b \<le> length a) (map fst vars)"
  by (simp add: longest_first_def sorted_wrt_map)

lemma upsert_variable_lookup: "map_of (upsert_variable k v vars) = (map_of vars)(k \<mapsto> v)"
  using set_variable_None [of k v vars] set_variable_Some [of k v vars] insert_variable_lookup [of k vars v]
  by (auto simp: upsert_variable_def split: option.splits)

lemma upsert_variable_sorted: "longest_first vars \<Longrightarrow> longest_first (upsert_variable k v vars)"
  using set_variable_Some [of k v vars] insert_variable_sorted [of vars k v]
  by (auto simp: upsert_variable_def longest_first_keys split: option.splits)

text \<open>\<open>nearest_variable\<close> finds the nearest occurrence, of the longest name that occurs there.\<close>

definition best_so_far :: "string \<Rightarrow> (string \<times> string) list \<Rightarrow> nat \<times> string \<times> string \<Rightarrow> bool" where
  "best_so_far walk vars b \<longleftrightarrow>
     (case b of (d, k, v) \<Rightarrow> (k, v) \<in> set vars \<and> strcasestr walk k = Some d \<and>
        (\<forall>(k', v') \<in> set vars. \<forall>d'. strcasestr walk k' = Some d' \<longrightarrow>
           d \<le> d' \<and> (d' = d \<longrightarrow> length k' \<le> length k)))"

lemma nearest_variable_loop:
  assumes "longest_first (seen @ vars)"
    and "case best of None \<Rightarrow> \<forall>(k, v) \<in> set seen. strcasestr walk k = None | Some b \<Rightarrow> best_so_far walk seen b"
  shows "case nearest_variable walk vars best of
      None \<Rightarrow> \<forall>(k, v) \<in> set (seen @ vars). strcasestr walk k = None
    | Some b \<Rightarrow> best_so_far walk (seen @ vars) b"
  using assms
proof (induction vars arbitrary: seen best)
  case (Cons kv vars)
  obtain k v where kv: "kv = (k, v)" by force
  define best' where "best' =
    (case strcasestr walk k of
       None \<Rightarrow> best
     | Some d \<Rightarrow> (case best of None \<Rightarrow> Some (d, k, v) | Some (d', _) \<Rightarrow> if d < d' then Some (d, k, v) else best))"
  have longer: "\<forall>(k', v') \<in> set seen. length k \<le> length k'"
    using Cons.prems(1) by (auto simp: longest_first_def sorted_wrt_append kv)
  have "case best' of None \<Rightarrow> \<forall>(k, v) \<in> set (seen @ [kv]). strcasestr walk k = None
      | Some b \<Rightarrow> best_so_far walk (seen @ [kv]) b"
    using Cons.prems(2) longer
    by (fastforce simp: best'_def best_so_far_def kv split: option.splits)
  moreover have eq: "(seen @ [kv]) @ vars = seen @ kv # vars" by simp
  ultimately have "case nearest_variable walk vars best' of
      None \<Rightarrow> \<forall>(k, v) \<in> set (seen @ kv # vars). strcasestr walk k = None
    | Some b \<Rightarrow> best_so_far walk (seen @ kv # vars) b"
    using Cons.IH [where seen = "seen @ [kv]" and best = best'] Cons.prems(1) unfolding eq by blast
  moreover have "nearest_variable walk (kv # vars) best = nearest_variable walk vars best'"
    by (simp add: kv best'_def)
  ultimately show ?case by (simp only:)
qed (simp only: append_Nil2 nearest_variable.simps)

lemma nearest_variable_longest:
  assumes "longest_first vars" and "nearest_variable walk vars None = Some b"
  shows "best_so_far walk vars b"
  using nearest_variable_loop [where seen = "[]" and vars = vars and best = None and walk = walk] assms by simp

lemma nearest_variable_None:
  assumes "longest_first vars" and "nearest_variable walk vars None = None"
  shows "\<forall>(k, v) \<in> set vars. strcasestr walk k = None"
  using nearest_variable_loop [where seen = "[]" and vars = vars and best = None and walk = walk] assms by simp

text \<open>
  The sizes do not add up when an occurrence of one name contains the start of another: counting blanks
  out the longer name first, copying takes the nearer one. Here 13 characters and a NUL go into
  a buffer of 3.
\<close>

definition overlapping_variables :: "(string \<times> string) list" where
  "overlapping_variables = upsert_variable ''$x$y'' ''AAAAAAAAAA'' (upsert_variable ''$yzzz'' [] [])"

lemma replacement_overflows:
  "new_buffer_size 7 overlapping_variables ''$x$yzzz'' = 3 \<and>
   replace_variables overlapping_variables ''$x$yzzz'' = ''AAAAAAAAAAzzz''"
  by code_simp

end
