(* ===== verification/Randr.thy ===== *)
theory Randr
  imports Con_Swap Matching
begin

text \<open>
  Outputs that come, go and change (\<^verbatim>\<open>src/randr.c\<close>, \<^verbatim>\<open>src/fake_outputs.c\<close>, \<^verbatim>\<open>src/xinerama.c\<close>), with
  \<open>con_for_window\<close> of \<^verbatim>\<open>src/con.c\<close>. The replies of the X server are parameters: the monitors of RandR 1.5,
  the resources of RandR 1.4, the screens of Xinerama. An output is known by its \<open>o_key\<close>. Publishing the
  desktops (\<open>ewmh_update_desktop_properties\<close>) is left out.
\<close>

subsection \<open>The container that swallows a window\<close>

text \<open>The outer \<^const>\<open>None\<close> is the NULL that a match on the workspace can dereference.\<close>

fun first_hit :: "('a \<Rightarrow> 'b option option) \<Rightarrow> 'a list \<Rightarrow> 'b option option" where
  "first_hit f [] = Some None"
| "first_hit f (x # xs) = (case f x of None \<Rightarrow> None | Some None \<Rightarrow> first_hit f xs | Some (Some y) \<Rightarrow> Some (Some y))"

definition swallowing :: "regex_lib \<Rightarrow> wm \<Rightarrow> i3Window \<Rightarrow> Match list \<Rightarrow> Match option option" where
  "swallowing rx s w =
     first_hit (\<lambda>m. map_option (\<lambda>ok. if ok then Some m else None) (match_matches_window rx s m w))"

primrec for_window :: "nat \<Rightarrow> regex_lib \<Rightarrow> wm \<Rightarrow> i3Window \<Rightarrow> con_id \<Rightarrow> (con_id \<times> Match) option option" where
  "for_window 0 rx s w c = None"
| "for_window (Suc n) rx s w c =
     first_hit (\<lambda>d. case swallowing rx s w (swallow_head (store s d)) of
         None \<Rightarrow> None
       | Some (Some m) \<Rightarrow> Some (Some (d, m))
       | Some None \<Rightarrow> for_window n rx s w d) (nodes s c @ floats s c)"

definition con_for_window :: "regex_lib \<Rightarrow> wm \<Rightarrow> con_id \<Rightarrow> i3Window \<Rightarrow> (con_id \<times> Match) option option" where
  "con_for_window rx s c w = for_window (length (all_cons s)) rx s w c"

subsection \<open>The list of outputs\<close>

definition upd_output :: "nat \<Rightarrow> (xoutput \<Rightarrow> xoutput) \<Rightarrow> wm \<Rightarrow> wm" where
  "upd_output k f s = s\<lparr>outputs := map (\<lambda>out. if o_key out = k then f out else out) (outputs s)\<rparr>"

definition output_at :: "wm \<Rightarrow> nat \<Rightarrow> xoutput option" where
  "output_at s k = find (\<lambda>out. o_key out = k) (outputs s)"

definition output_keys :: "wm \<Rightarrow> nat list" where
  "output_keys s = map o_key (outputs s)"

definition with_output :: "nat \<Rightarrow> (xoutput \<Rightarrow> wm \<Rightarrow> wm) \<Rightarrow> wm \<Rightarrow> wm" where
  "with_output k f s = (case output_at s k of None \<Rightarrow> abort s | Some out \<Rightarrow> f out s)"

text \<open>\<open>TAILQ_FOREACH (output, &outputs, outputs)\<close> with a body that keeps the list.\<close>

definition each_output :: "(xoutput \<Rightarrow> wm \<Rightarrow> wm) \<Rightarrow> wm \<Rightarrow> wm" where
  "each_output f s = fold (\<lambda>k. with_output k f) (output_keys s) s"

definition new_output_key :: "wm \<Rightarrow> nat" where
  "new_output_key s = Suc (fold max (output_keys s) 0)"

text \<open>\<open>scalloc(1, sizeof(Output))\<close>.\<close>

definition blank_output :: "wm \<Rightarrow> xoutput" where
  "blank_output s =
     \<lparr>o_key = new_output_key s, o_id = 0, o_active = False, o_changed = False, o_to_be_disabled = False,
      o_primary = False, o_names = [], o_has_con = False, o_con = 0, o_rect = zero_rect\<rparr>"

definition insert_output :: "bool \<Rightarrow> xoutput \<Rightarrow> wm \<Rightarrow> wm" where
  "insert_output at_head out s = s\<lparr>outputs := (if at_head then out # outputs s else outputs s @ [out])\<rparr>"

definition get_output_by_id :: "wm \<Rightarrow> u32 \<Rightarrow> xoutput option" where
  "get_output_by_id s i = find (\<lambda>out. o_id out = i) (outputs s)"

text \<open>An active output that is not the root output.\<close>

definition any_randr_output_active :: "wm \<Rightarrow> bool" where
  "any_randr_output_active s \<longleftrightarrow>
     list_ex (\<lambda>out. root_output s \<noteq> Some (o_key out) \<and> \<not> o_to_be_disabled out \<and> o_active out) (outputs s)"

definition output_name_of :: "xoutput \<Rightarrow> string" where
  "output_name_of out = (case o_names out of [] \<Rightarrow> [] | n # _ \<Rightarrow> n)"

definition create_root_output :: "Rect \<Rightarrow> wm \<Rightarrow> xoutput" where
  "create_root_output screen s = (blank_output s)\<lparr>o_names := [''xroot-0''], o_rect := screen\<rparr>"

subsection \<open>Containers of outputs\<close>

definition dock_match :: "match_dock_t \<Rightarrow> Match" where
  "dock_match d = match_init\<lparr>ma_dock := d, ma_insert_where := M_BELOW\<rparr>"

definition add_dockarea :: "con_id \<Rightarrow> string \<Rightarrow> match_dock_t \<Rightarrow> wm \<Rightarrow> wm" where
  "add_dockarea con name d s =
     (case con_new_skeleton None None s of (dock, s) \<Rightarrow>
        con_attach dock con False
          (upd_con dock (\<lambda>k. k\<lparr>ctype := CT_DOCKAREA, layout := L_DOCKAREA, cname := name,
                               swallow_head := swallow_head k @ [dock_match d]\<rparr>) s))"

definition output_init_con :: "nat \<Rightarrow> wm \<Rightarrow> wm" where
  "output_init_con key =
     with_output key (\<lambda>out s.
       let use = (\<lambda>con s. upd_output key (\<lambda>x. x\<lparr>o_con := con, o_has_con := True\<rparr>)
                            (upd_con con (\<lambda>k. k\<lparr>rect := o_rect out\<rparr>) s))
       in case find (\<lambda>c. cname (store s c) = output_name_of out) (nodes s (croot s)) of
            Some con \<Rightarrow> use con s
          | None \<Rightarrow>
              (case con_new_skeleton (Some (croot s)) None s of (con, s) \<Rightarrow>
                 let s = upd_con con (\<lambda>k. k\<lparr>cname := output_name_of out, ctype := CT_OUTPUT, layout := L_OUTPUT\<rparr>) s;
                     s = use con (con_fix_percent (croot s) s);
                     s = add_dockarea con ''topdock'' M_DOCK_TOP s
                 in (case con_new_skeleton None None s of (content, s) \<Rightarrow>
                       let s = upd_con content (\<lambda>k. k\<lparr>ctype := CT_CON, layout := L_SPLITH, cname := ''content''\<rparr>) s;
                           s = con_attach content con False s;
                           s = add_dockarea con ''bottomdock'' M_DOCK_BOTTOM s
                       in upd_con con (\<lambda>k. k\<lparr>focus_head := content # remove1 content (focus_head k)\<rparr>) s)))"

text \<open>\<open>init_ws_for_output\<close>: the workspaces assigned to the output are moved there while the list of all
  containers is walked.\<close>

definition claim_workspace :: "nat \<Rightarrow> con_id \<Rightarrow> con_id \<Rightarrow> wm \<Rightarrow> wm" where
  "claim_workspace key content ws s =
     (if kind s ws \<noteq> CT_WORKSPACE \<or> con_is_internal s ws then s
      else with_output key (\<lambda>out s.
        if get_assigned_output s (Some (cname (store s ws))) (num (store s ws)) \<noteq> Some (o_con out) then s
        else workspace_move_to_output ws out
               (upd_con content (\<lambda>k. k\<lparr>rect := rect (store s (o_con out))\<rparr>) s)) s)"

definition first_workspace_for :: "xoutput \<Rightarrow> con_id \<Rightarrow> wm \<Rightarrow> wm" where
  "first_workspace_for out content s =
     (if nodes s content \<noteq> [] then
        (case find (\<lambda>c. fullscreen_mode (store s c) = CF_OUTPUT) (nodes s content) of
           Some _ \<Rightarrow> s
         | None \<Rightarrow> with_con (tailq_first (nodes s content)) workspace_show s)
      else (case find (output_triggers_assignment s out) (ws_assignments s) of
          Some a \<Rightarrow> workspace_show_by_name (wa_name a) s
        | None \<Rightarrow> (case create_workspace_on_output out content s of (ws, s) \<Rightarrow> workspace_show ws s)))"

definition init_ws_for_output :: "nat \<Rightarrow> wm \<Rightarrow> wm" where
  "init_ws_for_output key =
     with_output key (\<lambda>out s. with_con (output_get_content s (o_con out)) (\<lambda>content s.
       let previous_focus = Option.bind (focused s) (con_get_workspace s);
           s = walk_after (2 * length (all_cons s)) all_cons (claim_workspace key content)
                 (tailq_first (all_cons s)) s;
           s = first_workspace_for out content (s\<lparr>focused := Some content\<rparr>)
       in case previous_focus of None \<Rightarrow> s | Some ws \<Rightarrow> workspace_show ws s) s)"

subsection \<open>A new mode\<close>

definition reorient_workspace :: "layout_t \<Rightarrow> con_id \<Rightarrow> wm \<Rightarrow> wm" where
  "reorient_workspace lay ws s =
     (if con_num_children s ws > 1 then s
      else
        let s = upd_con ws (\<lambda>k. k\<lparr>layout := lay\<rparr>) s
        in case tailq_first (nodes s ws) of
             None \<Rightarrow> s
           | Some child \<Rightarrow>
               if layout (store s child) = L_SPLITV \<or> layout (store s child) = L_SPLITH
               then upd_con child (\<lambda>k. k\<lparr>layout := lay\<rparr>) s else s)"

definition output_change_mode :: "xoutput \<Rightarrow> wm \<Rightarrow> wm" where
  "output_change_mode out s =
     (if \<not> o_has_con out then abort s
      else
        let s = upd_con (o_con out) (\<lambda>k. k\<lparr>rect := o_rect out\<rparr>) s
        in with_con (output_get_content s (o_con out)) (\<lambda>content s.
             let wss = nodes s content;
                 s = fold (\<lambda>ws s. fold (\<lambda>f s. floating_fix_coordinates f (rect (store s ws)) (rect (store s (o_con out))) s)
                                    (floats s ws) s) wss s;
                 lay = (if rect_height (o_rect out) > rect_width (o_rect out) then L_SPLITV else L_SPLITH)
             in if cfg_default_orientation (cfg s) = NO_ORIENTATION
                then fold (reorient_workspace lay) wss s else s) s)"

subsection \<open>Outputs that disappear\<close>

text \<open>The first \<open>while\<close> of \<open>move_content\<close>: each turn takes a workspace off the old content.\<close>

primrec move_workspaces :: "nat \<Rightarrow> con_id \<Rightarrow> con_id \<Rightarrow> con_id \<Rightarrow> con_id \<Rightarrow> con_id option \<Rightarrow> wm \<Rightarrow> wm" where
  "move_workspaces 0 con first old_content first_content next s =
     (if nodes s old_content = [] then s else abort s)"
| "move_workspaces (Suc n) con first old_content first_content next s =
     (case nodes s old_content of
        [] \<Rightarrow> s
      | current # _ \<Rightarrow>
          move_workspaces n con first old_content first_content next
            (if Some current \<noteq> next \<and> foci s current = []
             then snd (tree_close_internal current DONT_KILL_WINDOW False s)
             else
               let s = con_attach current first_content False (con_detach current s)
               in fold (\<lambda>f s. floating_fix_coordinates f (rect (store s con)) (rect (store s first)) s)
                    (floats s current) s))"

text \<open>The docks of one dock area go to the dock areas of the first output.\<close>

primrec move_docks :: "nat \<Rightarrow> regex_lib \<Rightarrow> con_id \<Rightarrow> con_id \<Rightarrow> wm \<Rightarrow> wm" where
  "move_docks 0 rx first area s = (if nodes s area = [] then s else abort s)"
| "move_docks (Suc n) rx first area s =
     (case nodes s area of
        [] \<Rightarrow> s
      | dock # _ \<Rightarrow>
          (case Option.bind (window (store s dock)) (\<lambda>w. Option.bind (con_for_window rx s first w) id) of
             None \<Rightarrow> abort s
           | Some (nc, _) \<Rightarrow> move_docks n rx first area (con_attach dock nc False (con_detach dock s))))"

definition move_content :: "regex_lib \<Rightarrow> con_id \<Rightarrow> wm \<Rightarrow> wm" where
  "move_content rx con s =
     with_con (get_first_output s) (\<lambda>out. let first = o_con out in
     with_con (output_get_content s first) (\<lambda>first_content. with_con (output_get_content s con) (\<lambda>old_content s.
       let next = focused s; n = length (all_cons s);
           s = move_workspaces n con first old_content first_content next s;
           s = (case next of
                  None \<Rightarrow> s
                | Some c \<Rightarrow> let s = con_focus c s in with_con (con_get_workspace s c) workspace_show s);
           s = fold (\<lambda>area s. if kind s area = CT_DOCKAREA then move_docks n rx first area s else s) (nodes s con) s
       in snd (tree_close_internal con DONT_KILL_WINDOW True s)))) s"

definition randr_disable_output :: "regex_lib \<Rightarrow> nat \<Rightarrow> wm \<Rightarrow> wm" where
  "randr_disable_output rx key =
     with_output key (\<lambda>out s.
       let s = check (o_to_be_disabled out) s;
           s = upd_output key (\<lambda>x. x\<lparr>o_active := False\<rparr>) s;
           s = (if o_has_con out
                then move_content rx (o_con out) (upd_output key (\<lambda>x. x\<lparr>o_has_con := False\<rparr>) s) else s)
       in upd_output key (\<lambda>x. x\<lparr>o_to_be_disabled := False, o_changed := False\<rparr>) s)"

subsection \<open>Querying RandR 1.5\<close>

text \<open>A monitor: its name (\<^const>\<open>None\<close>: the request for it failed), the names of its outputs that have a
  CRTC, the rectangle.\<close>

record randr_monitor =
  mo_name :: "string option"
  mo_outputs :: "string list"
  mo_primary :: bool
  mo_rect :: Rect

definition query_monitor :: "randr_monitor \<Rightarrow> wm \<Rightarrow> wm" where
  "query_monitor mo s =
     (case mo_name mo of
        None \<Rightarrow> s
      | Some name \<Rightarrow>
          let (key, s) =
            (case get_output_by_name s name False of
               Some out \<Rightarrow> (o_key out, s)
             | None \<Rightarrow>
                 let new = (blank_output s)\<lparr>o_names := name # rev (filter (\<lambda>n. n \<noteq> name) (mo_outputs mo))\<rparr>
                 in (o_key new, insert_output (mo_primary mo) new s))
          in upd_output key (\<lambda>x. x\<lparr>o_active := True, o_to_be_disabled := False, o_primary := mo_primary mo,
                                   o_rect := mo_rect mo, o_changed := (o_rect x \<noteq> mo_rect mo)\<rparr>) s)"

definition randr_query_outputs_15 :: "randr_monitor list \<Rightarrow> wm \<Rightarrow> wm" where
  "randr_query_outputs_15 monitors s =
     fold query_monitor monitors
       (s\<lparr>outputs := map (\<lambda>x. if root_output s = Some (o_key x) then x else x\<lparr>o_to_be_disabled := True\<rparr>) (outputs s)\<rparr>)"

subsection \<open>Querying RandR 1.4\<close>

text \<open>\<open>oi_crtc\<close> is \<^const>\<open>None\<close> for \<open>XCB_NONE\<close>, and \<open>Some None\<close> when the CRTC could not be queried.\<close>

record randr_output_info =
  oi_id :: u32
  oi_name :: string
  oi_crtc :: "Rect option option"

definition handle_output :: "u32 option \<Rightarrow> randr_output_info \<Rightarrow> wm \<Rightarrow> wm" where
  "handle_output primary info s =
     (let old = get_output_by_id s (oi_id info);
          new = (case old of Some out \<Rightarrow> out | None \<Rightarrow> blank_output s)
                  \<lparr>o_id := oi_id info, o_primary := (primary = Some (oi_id info)), o_names := [oi_name info]\<rparr>;
          put = (\<lambda>x s. if old = None then insert_output (o_primary x) x s else upd_output (o_key x) (\<lambda>_. x) s);
          keep = (\<lambda>x s. if old = None then s else upd_output (o_key x) (\<lambda>_. x) s)
      in case oi_crtc info of
           None \<Rightarrow> put (if old \<noteq> None \<and> o_active new then new\<lparr>o_to_be_disabled := True\<rparr> else new) s
         | Some None \<Rightarrow> keep new s
         | Some (Some r) \<Rightarrow>
             let updated = (o_rect new \<noteq> r);
                 new = new\<lparr>o_rect := r, o_active := (rect_width r \<noteq> 0 \<and> rect_height r \<noteq> 0)\<rparr>
             in if \<not> o_active new then keep new s
                else if \<not> updated \<or> old = None then put new s
                else keep (new\<lparr>o_changed := True\<rparr>) s)"

definition randr_query_outputs_14 :: "u32 option \<Rightarrow> randr_output_info list option \<Rightarrow> wm \<Rightarrow> wm" where
  "randr_query_outputs_14 primary resources s =
     (case resources of None \<Rightarrow> s | Some infos \<Rightarrow> fold (handle_output primary) infos s)"

subsection \<open>Querying the outputs\<close>

text \<open>The replies: the monitors of RandR 1.5 (\<^const>\<open>None\<close>: not available), the primary output and the
  resources of RandR 1.4 without the outputs whose request failed.\<close>

record randr_replies =
  rr_monitors :: "randr_monitor list option"
  rr_primary :: "u32 option"
  rr_resources :: "randr_output_info list option"

text \<open>One pair of outputs of the search for clones.\<close>

definition check_clone :: "nat \<Rightarrow> nat \<Rightarrow> wm \<Rightarrow> wm" where
  "check_clone key other_key s =
     (case (output_at s key, output_at s other_key) of
        (Some out, Some other) \<Rightarrow>
          if other_key = key \<or> \<not> o_active other \<or> o_to_be_disabled other \<or>
             rect_x (o_rect other) \<noteq> rect_x (o_rect out) \<or> rect_y (o_rect other) \<noteq> rect_y (o_rect out) then s
          else
            let w = c_min (rect_width (o_rect other)) (rect_width (o_rect out));
                h = c_min (rect_height (o_rect other)) (rect_height (o_rect out));
                shrink = (\<lambda>x. x\<lparr>o_rect := (o_rect x)\<lparr>rect_width := w, rect_height := h\<rparr>\<rparr>);
                s = upd_output key (\<lambda>x. (shrink x)\<lparr>o_changed := (o_changed x \<or> rect_width (o_rect x) \<noteq> w \<or>
                                                                  rect_height (o_rect x) \<noteq> h)\<rparr>) s
            in upd_output other_key (\<lambda>x. (shrink x)\<lparr>o_to_be_disabled := True\<rparr>) s
      | _ \<Rightarrow> abort s)"

definition disable_clones :: "wm \<Rightarrow> wm" where
  "disable_clones =
     each_output (\<lambda>out s.
       if \<not> o_active out \<or> o_to_be_disabled out then s
       else fold (check_clone (o_key out)) (dropWhile (\<lambda>k. k \<noteq> o_key out) (output_keys s)) s)"

definition use_root_if_needed :: "wm \<Rightarrow> wm" where
  "use_root_if_needed s =
     (if any_randr_output_active s then
        (case root_output s of
           None \<Rightarrow> s
         | Some k \<Rightarrow> upd_output k (\<lambda>x. if o_active x then x\<lparr>o_to_be_disabled := True\<rparr> else x) s)
      else (case root_output s of
          None \<Rightarrow> abort s
        | Some k \<Rightarrow> upd_output k (\<lambda>x. x\<lparr>o_active := True\<rparr>) s))"

definition init_missing_cons :: "wm \<Rightarrow> wm" where
  "init_missing_cons =
     each_output (\<lambda>out s.
       if o_active out \<and> \<not> o_has_con out
       then upd_output (o_key out) (\<lambda>x. x\<lparr>o_changed := False\<rparr>) (output_init_con (o_key out) s) else s)"

definition move_orphans :: "regex_lib \<Rightarrow> wm \<Rightarrow> wm" where
  "move_orphans rx s =
     walk_saved (length (all_cons s)) (\<lambda>s. nodes s (croot s))
       (\<lambda>con s. if \<not> con_is_internal s con \<and> get_output_by_name s (cname (store s con)) True = None
                then move_content rx con s else s)
       (tailq_first (nodes s (croot s))) s"

definition apply_changes :: "regex_lib \<Rightarrow> wm \<Rightarrow> wm" where
  "apply_changes rx =
     each_output (\<lambda>out s.
       let s = (if o_to_be_disabled out then randr_disable_output rx (o_key out) s else s)
       in with_output (o_key out) (\<lambda>out s.
            if o_changed out
            then upd_output (o_key out) (\<lambda>x. x\<lparr>o_changed := False\<rparr>) (output_change_mode out s) else s) s)"

definition fill_outputs :: "wm \<Rightarrow> wm" where
  "fill_outputs =
     each_output (\<lambda>out s.
       if \<not> o_active out then s
       else with_con (output_get_content s (o_con out)) (\<lambda>content s.
              if nodes s content \<noteq> [] then s else init_ws_for_output (o_key out) s) s)"

definition focus_primary :: "wm \<Rightarrow> wm" where
  "focus_primary =
     each_output (\<lambda>out s.
       if \<not> o_primary out \<or> \<not> o_has_con out then s
       else with_con (output_get_content s (o_con out)) (\<lambda>content.
              with_con (tailq_first (foci s content)) workspace_show) s)"

definition randr_query_outputs :: "regex_lib \<Rightarrow> randr_replies \<Rightarrow> wm \<Rightarrow> wm" where
  "randr_query_outputs rx rr s =
     (let s = (case rr_monitors rr of
                 Some monitors \<Rightarrow> randr_query_outputs_15 monitors s
               | None \<Rightarrow> randr_query_outputs_14 (rr_primary rr) (rr_resources rr) s);
          s = disable_clones (use_root_if_needed s);
          s = apply_changes rx (move_orphans rx (init_missing_cons s))
      in tree_render (focus_primary (fill_outputs s)))"

subsection \<open>Initialization\<close>

definition fallback_to_root_output :: "wm \<Rightarrow> wm" where
  "fallback_to_root_output s =
     (case root_output s of
        None \<Rightarrow> abort s
      | Some k \<Rightarrow> init_ws_for_output k (output_init_con k (upd_output k (\<lambda>x. x\<lparr>o_active := True\<rparr>) s)))"

text \<open>\<^const>\<open>None\<close> instead of replies: the extension is not present, or its version could not be queried.\<close>

definition randr_init :: "regex_lib \<Rightarrow> Rect \<Rightarrow> randr_replies option \<Rightarrow> wm \<Rightarrow> wm" where
  "randr_init rx screen replies s =
     (let root = create_root_output screen s;
          s = (insert_output False root s)\<lparr>root_output := Some (o_key root)\<rparr>
      in case replies of None \<Rightarrow> fallback_to_root_output s | Some rr \<Rightarrow> randr_query_outputs rx rr s)"

text \<open>Screens of Xinerama and fake outputs: a screen at the position of a known one shrinks it.\<close>

definition get_screen_at :: "wm \<Rightarrow> u32 \<Rightarrow> u32 \<Rightarrow> xoutput option" where
  "get_screen_at s x y = find (\<lambda>out. rect_x (o_rect out) = x \<and> rect_y (o_rect out) = y) (outputs s)"

definition add_screen :: "string \<Rightarrow> Rect \<Rightarrow> nat \<times> wm \<Rightarrow> nat \<times> nat \<times> wm" where
  "add_screen prefix r = (\<lambda>(num_screens, s).
     case get_screen_at s (rect_x r) (rect_y r) of
       Some out \<Rightarrow>
         (o_key out, num_screens,
          upd_output (o_key out) (\<lambda>x. x\<lparr>o_rect := (o_rect x)\<lparr>rect_width := c_min (rect_width (o_rect x)) (rect_width r),
                                                        rect_height := c_min (rect_height (o_rect x)) (rect_height r)\<rparr>\<rparr>) s)
     | None \<Rightarrow>
         let new = (blank_output s)\<lparr>o_names := [prefix @ print_nat num_screens], o_active := True, o_rect := r\<rparr>;
             s = insert_output (rect_x r = 0 \<and> rect_y r = 0) new s
         in (o_key new, num_screens + 1, init_ws_for_output (o_key new) (output_init_con (o_key new) s)))"

text \<open>\<^const>\<open>None\<close>: there is no screen, and the program exits.\<close>

definition query_screens :: "Rect list option \<Rightarrow> nat \<Rightarrow> wm \<Rightarrow> (nat \<times> wm) option" where
  "query_screens reply num_screens s =
     (case reply of
        None \<Rightarrow> Some (num_screens, s)
      | Some screens \<Rightarrow>
          let r = fold (\<lambda>scr st. snd (add_screen ''xinerama-'' scr st)) screens (num_screens, s)
          in if fst r = 0 then None else Some r)"

definition use_root_output :: "Rect \<Rightarrow> wm \<Rightarrow> wm" where
  "use_root_output screen s =
     (let new = (create_root_output screen s)\<lparr>o_active := True\<rparr>
      in init_ws_for_output (o_key new) (output_init_con (o_key new) (insert_output False new s)))"

text \<open>\<open>%ux%u+%u+%u\<close> of \<open>sscanf\<close>: a number, wrapped to 32 bits, and the rest of the input.\<close>

definition scan_unsigned :: "string \<Rightarrow> (u32 \<times> string) option" where
  "scan_unsigned str = map_option (\<lambda>(v, _). (word_of_int v, strtol_end str)) (strtoll_10 str)"

definition scan_after :: "char option \<Rightarrow> string \<Rightarrow> (u32 \<times> string) option" where
  "scan_after sep str =
     (case sep of
        None \<Rightarrow> scan_unsigned str
      | Some c \<Rightarrow> (case str of d # rest \<Rightarrow> if d = c then scan_unsigned rest else None | [] \<Rightarrow> None))"

definition scan_output :: "string \<Rightarrow> (Rect \<times> bool \<times> string) option" where
  "scan_output walk =
     Option.bind (scan_after None walk) (\<lambda>(w, walk).
     Option.bind (scan_after (Some (CHR ''x'')) walk) (\<lambda>(h, walk).
     Option.bind (scan_after (Some (CHR ''+'')) walk) (\<lambda>(x, walk).
     map_option (\<lambda>(y, walk).
       let prim = (walk \<noteq> [] \<and> hd walk = CHR ''P'');
           walk = (if prim then tl walk else walk);
           walk = (if walk \<noteq> [] \<and> hd walk = CHR '','' then tl walk else walk)
       in (\<lparr>rect_x = x, rect_y = y, rect_width = w, rect_height = h\<rparr>, prim, walk))
     (scan_after (Some (CHR ''+'')) walk))))"

primrec fake_outputs_loop :: "nat \<Rightarrow> string \<Rightarrow> nat \<times> wm \<Rightarrow> nat \<times> wm" where
  "fake_outputs_loop 0 walk st = st"
| "fake_outputs_loop (Suc n) walk st =
     (case scan_output walk of
        None \<Rightarrow> st
      | Some (r, prim, walk) \<Rightarrow>
          (case add_screen ''fake-'' r st of
             (key, num_screens, s) \<Rightarrow>
               fake_outputs_loop n walk (num_screens, upd_output key (\<lambda>x. x\<lparr>o_primary := prim\<rparr>) s)))"

definition fake_outputs_init :: "string \<Rightarrow> nat \<Rightarrow> wm \<Rightarrow> (nat \<times> wm) option" where
  "fake_outputs_init output_spec num_screens s =
     (let r = fake_outputs_loop (Suc (length output_spec)) output_spec (num_screens, s)
      in if fst r = 0 then None else Some r)"

subsection \<open>Clones are disabled\<close>

text \<open>What the search for clones leaves: the outputs, their positions, whether they are active; outputs
  that are to be disabled stay so.\<close>

definition enabled :: "xoutput \<Rightarrow> bool" where
  "enabled out \<longleftrightarrow> o_active out \<and> \<not> o_to_be_disabled out"

definition same_place :: "xoutput \<Rightarrow> xoutput \<Rightarrow> bool" where
  "same_place a b \<longleftrightarrow> rect_x (o_rect a) = rect_x (o_rect b) \<and> rect_y (o_rect a) = rect_y (o_rect b)"

definition only_disabled :: "wm \<Rightarrow> wm \<Rightarrow> bool" where
  "only_disabled s t \<longleftrightarrow> output_keys t = output_keys s \<and>
     (\<forall>k out. output_at t k = Some out \<longrightarrow>
        (\<exists>old. output_at s k = Some old \<and> same_place old out \<and> (enabled out \<longrightarrow> enabled old)))"

lemma upd_output_keys [simp]:
  "(\<And>x. o_key (f x) = o_key x) \<Longrightarrow> output_keys (upd_output k f s) = output_keys s"
  by (auto simp: output_keys_def upd_output_def)

lemma find_map_key:
  assumes "\<And>x. o_key (f x) = o_key x"
  shows "find (\<lambda>out. o_key out = j) (map (\<lambda>out. if o_key out = k then f out else out) outs) =
    map_option (\<lambda>out. if j = k then f out else out) (find (\<lambda>out. o_key out = j) outs)"
  by (induction outs) (auto simp: assms)

lemma output_at_upd:
  "(\<And>x. o_key (f x) = o_key x) \<Longrightarrow>
    output_at (upd_output k f s) j = map_option (\<lambda>out. if j = k then f out else out) (output_at s j)"
  by (simp add: output_at_def upd_output_def find_map_key)

lemma output_at_abort [simp]: "output_at (abort s) k = output_at s k" "output_keys (abort s) = output_keys s"
  by (simp_all add: output_at_def output_keys_def abort_def)

lemma only_disabled_refl: "only_disabled s s"
  by (auto simp: only_disabled_def same_place_def)

lemma only_disabled_trans: "only_disabled s t \<Longrightarrow> only_disabled t u \<Longrightarrow> only_disabled s u"
  unfolding only_disabled_def same_place_def by fastforce

lemma fold_only_disabled:
  assumes "\<And>x s. only_disabled s (f x s)"
  shows "only_disabled s (fold f xs s)"
  by (induction xs arbitrary: s) (auto intro: only_disabled_refl only_disabled_trans assms)

lemma upd_only_disabled:
  assumes "\<And>x. o_key (f x) = o_key x" and "\<And>x. same_place x (f x)" and "\<And>x. enabled (f x) \<Longrightarrow> enabled x"
  shows "only_disabled s (upd_output k f s)"
  using assms by (auto simp: only_disabled_def output_at_upd same_place_def split: if_splits)

lemma abort_only_disabled: "only_disabled s (abort s)"
  by (simp add: only_disabled_def same_place_def)

lemma check_clone_only_disabled: "only_disabled s (check_clone k j s)"
  unfolding check_clone_def Let_def
  by (auto split: option.splits intro!: only_disabled_refl abort_only_disabled
      only_disabled_trans [OF upd_only_disabled upd_only_disabled] simp: same_place_def enabled_def)

text \<open>After the pair has been checked, at most one of the two is enabled if they are at the same place.\<close>

lemma check_clone_disables:
  assumes "j \<noteq> k" and "output_at (check_clone k j s) k = Some a" and "output_at (check_clone k j s) j = Some b"
    and "same_place a b"
  shows "\<not> enabled b"
  using assms by (auto simp: check_clone_def output_at_upd Let_def same_place_def enabled_def
      split: option.splits if_splits)

lemma only_disabled_pair:
  assumes le: "only_disabled s t" and "output_at t k = Some a" and "output_at t j = Some b"
    and "same_place a b" and "enabled a" and "enabled b"
  obtains a0 b0 where "output_at s k = Some a0" "output_at s j = Some b0" "same_place a0 b0"
    "enabled a0" "enabled b0"
proof -
  from le assms(2,5) obtain a0 where a0: "output_at s k = Some a0" "same_place a0 a" "enabled a0"
    unfolding only_disabled_def by blast
  from le assms(3,6) obtain b0 where b0: "output_at s j = Some b0" "same_place b0 b" "enabled b0"
    unfolding only_disabled_def by blast
  have "same_place a0 b0" using a0(2) b0(2) assms(4) by (simp add: same_place_def)
  with a0 b0 that show thesis by blast
qed

lemma check_clones_pair:
  assumes "j \<in> set js" and "j \<noteq> k" and "output_at (fold (check_clone k) js s) k = Some a"
    and "output_at (fold (check_clone k) js s) j = Some b" and "same_place a b" and "enabled a"
  shows "\<not> enabled b"
proof
  assume e: "enabled b"
  from \<open>j \<in> set js\<close> obtain us vs where js: "js = us @ j # vs" by (meson split_list)
  let ?m = "check_clone k j (fold (check_clone k) us s)"
  have le: "only_disabled ?m (fold (check_clone k) vs ?m)"
    by (rule fold_only_disabled) (rule check_clone_only_disabled)
  have eq: "fold (check_clone k) js s = fold (check_clone k) vs ?m" by (simp add: js)
  from only_disabled_pair [OF le, of k a j b] assms e eq obtain a0 b0 where
    "output_at ?m k = Some a0" "output_at ?m j = Some b0" "same_place a0 b0" "enabled b0" by metis
  with check_clone_disables [OF \<open>j \<noteq> k\<close>] show False by blast
qed

definition clone_step :: "nat \<Rightarrow> wm \<Rightarrow> wm" where
  "clone_step k = with_output k (\<lambda>out s.
     if \<not> o_active out \<or> o_to_be_disabled out then s
     else fold (check_clone (o_key out)) (dropWhile (\<lambda>k. k \<noteq> o_key out) (output_keys s)) s)"

lemma disable_clones_fold: "disable_clones s = fold clone_step (output_keys s) s"
  by (simp add: disable_clones_def each_output_def clone_step_def [abs_def])

lemma output_at_key: "output_at s k = Some out \<Longrightarrow> o_key out = k"
  by (auto simp: output_at_def find_Some_iff)

lemma clone_step_only_disabled: "only_disabled s (clone_step k s)"
  unfolding clone_step_def with_output_def
  by (auto split: option.splits intro!: fold_only_disabled check_clone_only_disabled only_disabled_refl)
    (auto simp: only_disabled_def same_place_def)

lemma clone_step_pair:
  assumes "output_keys s = us @ k # vs" and "k \<notin> set us" and "j \<in> set vs" and "j \<noteq> k"
    and "output_at (clone_step k s) k = Some a" and "output_at (clone_step k s) j = Some b"
    and "same_place a b" and "enabled a"
  shows "\<not> enabled b"
proof
  assume e: "enabled b"
  have "only_disabled s (clone_step k s)" by (rule clone_step_only_disabled)
  from only_disabled_pair [OF this assms(5-8) e] obtain a0 where
    a0: "output_at s k = Some a0" "enabled a0" by blast
  have "dropWhile (\<lambda>x. x \<noteq> k) (us @ k # vs) = k # vs" using assms(2) by (induction us) auto
  then have "dropWhile (\<lambda>x. x \<noteq> k) (output_keys s) = k # vs" by (simp add: assms(1))
  then have eq: "clone_step k s = fold (check_clone k) (k # vs) s"
    using a0 output_at_key [OF a0(1)] by (simp add: clone_step_def with_output_def enabled_def)
  have "j \<in> set (k # vs)" using assms(3) by simp
  from check_clones_pair [OF this assms(4)] assms(5-8) e show False unfolding eq by blast
qed

lemma clones_apart:
  assumes d: "distinct (output_keys s)" and keys: "output_keys s = us @ k # vs" and "j \<in> set vs"
    and "output_at (disable_clones s) k = Some a" and "output_at (disable_clones s) j = Some b"
    and "enabled a" and "enabled b"
  shows "\<not> same_place a b"
proof
  assume same: "same_place a b"
  let ?s1 = "fold clone_step us s" and ?s2 = "fold clone_step vs (clone_step k (fold clone_step us s))"
  have t: "disable_clones s = ?s2" by (simp add: disable_clones_fold keys)
  have keys1: "output_keys ?s1 = us @ k # vs"
    using fold_only_disabled [of clone_step s us] clone_step_only_disabled keys by (simp add: only_disabled_def)
  have "only_disabled (clone_step k ?s1) ?s2"
    by (rule fold_only_disabled) (rule clone_step_only_disabled)
  from only_disabled_pair [OF this, of k a j b] assms(4-7) same t obtain a0 b0 where
    "output_at (clone_step k ?s1) k = Some a0" "output_at (clone_step k ?s1) j = Some b0"
    "same_place a0 b0" "enabled a0" "enabled b0" by metis
  moreover have "k \<notin> set us" "j \<noteq> k" using d keys \<open>j \<in> set vs\<close> by auto
  ultimately show False using clone_step_pair [OF keys1 _ \<open>j \<in> set vs\<close>] by blast
qed

lemma find_by_key:
  "distinct (map o_key outs) \<Longrightarrow> out \<in> set outs \<Longrightarrow> find (\<lambda>x. o_key x = o_key out) outs = Some out"
  by (induction outs) (auto simp: rev_image_eqI)

lemma output_at_member:
  "distinct (output_keys s) \<Longrightarrow> out \<in> set (outputs s) \<Longrightarrow> output_at s (o_key out) = Some out"
  by (simp add: output_keys_def output_at_def find_by_key)

end
