(* ===== verification/EWMH.thy ===== *)
theory EWMH
  imports Con_Move
begin

text \<open>
  The hints for pagers and task bars: \<^verbatim>\<open>src/ewmh.c\<close> and the property helpers of \<^verbatim>\<open>src/xcb.c\<close> it uses.
  What is sent to the X server is a list of values of \<open>x_property\<close>; the static variables that keep the
  last published values are fields of \<open>ewmh_state\<close>, together with the root window and the window that
  \<open>ewmh_setup_hints\<close> creates. Atoms are written by their names.
\<close>

datatype x_property =
    Change_Cardinals u32 string "u32 list"
  | Change_Windows u32 string "u32 list"
  | Change_Text u32 string string
  | Change_Atoms u32 string "string list"
  | Append_Atom u32 string string
  | Remove_Atom u32 string string
  | Delete_Property u32 string
  | Create_Offscreen u32
  | Map_Below u32

definition NET_WM_DESKTOP_NONE :: u32 where
  "NET_WM_DESKTOP_NONE = 0xFFFFFFF0"

definition NET_WM_DESKTOP_ALL :: u32 where
  "NET_WM_DESKTOP_ALL = 0xFFFFFFFF"

record ewmh_state =
  eh_wm :: wm
  eh_root :: u32
  eh_window :: u32
  eh_current :: u32
  eh_number :: u32
  eh_sent :: "x_property list"

definition eh_send :: "x_property \<Rightarrow> ewmh_state \<Rightarrow> ewmh_state" where
  "eh_send p e = e\<lparr>eh_sent := eh_sent e @ [p]\<rparr>"

subsection \<open>Desktops\<close>

text \<open>The workspaces of an output; \<^const>\<open>None\<close>: it has no content container, and the pointer is read.\<close>

definition output_desktops :: "wm \<Rightarrow> con_id \<Rightarrow> (con_id \<times> con_id) list option" where
  "output_desktops s out =
     map_option (\<lambda>content. map (Pair out) (filter (\<lambda>ws. \<not> con_is_internal s ws) (nodes s content)))
       (output_get_content s out)"

text \<open>\<open>FOREACH_NONINTERNAL\<close>: the desktops, each with its output.\<close>

definition desktops :: "wm \<Rightarrow> (con_id \<times> con_id) list option" where
  "desktops s = map_option concat (those (map (output_desktops s) (nodes s (croot s))))"

text \<open>The counter of the loop is a 32-bit number.\<close>

fun desktop_index :: "u32 \<Rightarrow> ('a \<Rightarrow> bool) \<Rightarrow> 'a list \<Rightarrow> u32 option" where
  "desktop_index i p [] = None"
| "desktop_index i p (d # ds) = (if p d then Some i else desktop_index (i + 1) p ds)"

fun desktop_at :: "u32 \<Rightarrow> u32 \<Rightarrow> 'a list \<Rightarrow> 'a option" where
  "desktop_at i idx [] = None"
| "desktop_at i idx (d # ds) = (if i = idx then Some d else desktop_at (i + 1) idx ds)"

definition ewmh_get_workspace_by_index :: "wm \<Rightarrow> u32 \<Rightarrow> con_id option option" where
  "ewmh_get_workspace_by_index s idx =
     (if idx = NET_WM_DESKTOP_NONE then Some None
      else map_option (\<lambda>ds. map_option snd (desktop_at 0 idx ds)) (desktops s))"

definition ewmh_get_workspace_index :: "wm \<Rightarrow> con_id option \<Rightarrow> u32 option" where
  "ewmh_get_workspace_index s con =
     map_option (\<lambda>ds.
         case desktop_index 0 (\<lambda>d. Some (snd d) = Option.bind con (con_get_workspace s)) ds of
           None \<Rightarrow> NET_WM_DESKTOP_NONE
         | Some i \<Rightarrow> i)
       (desktops s)"

subsection \<open>Publishing\<close>

definition on_desktops :: "((con_id \<times> con_id) list \<Rightarrow> ewmh_state \<Rightarrow> ewmh_state) \<Rightarrow> ewmh_state \<Rightarrow> ewmh_state" where
  "on_desktops f e = (case desktops (eh_wm e) of None \<Rightarrow> e\<lparr>eh_wm := abort (eh_wm e)\<rparr> | Some ds \<Rightarrow> f ds e)"

definition ewmh_update_current_desktop :: "ewmh_state \<Rightarrow> ewmh_state" where
  "ewmh_update_current_desktop e =
     (case ewmh_get_workspace_index (eh_wm e) (focused (eh_wm e)) of
        None \<Rightarrow> e\<lparr>eh_wm := abort (eh_wm e)\<rparr>
      | Some idx \<Rightarrow>
          if idx = eh_current e \<or> idx = NET_WM_DESKTOP_NONE then e
          else eh_send (Change_Cardinals (eh_root e) ''_NET_CURRENT_DESKTOP'' [idx]) (e\<lparr>eh_current := idx\<rparr>))"

definition ewmh_update_number_of_desktops :: "ewmh_state \<Rightarrow> ewmh_state" where
  "ewmh_update_number_of_desktops =
     on_desktops (\<lambda>ds e.
       let idx = of_nat (length ds)
       in if idx = eh_number e then e
          else eh_send (Change_Cardinals (eh_root e) ''_NET_NUMBER_OF_DESKTOPS'' [idx]) (e\<lparr>eh_number := idx\<rparr>))"

text \<open>Every name with its final zero byte.\<close>

definition ewmh_update_desktop_names :: "ewmh_state \<Rightarrow> ewmh_state" where
  "ewmh_update_desktop_names =
     on_desktops (\<lambda>ds e.
       eh_send (Change_Text (eh_root e) ''_NET_DESKTOP_NAMES''
                  (concat (map (\<lambda>(_, ws). cname (store (eh_wm e) ws) @ [CHR 0x00]) ds))) e)"

definition ewmh_update_desktop_viewport :: "ewmh_state \<Rightarrow> ewmh_state" where
  "ewmh_update_desktop_viewport =
     on_desktops (\<lambda>ds e.
       eh_send (Change_Cardinals (eh_root e) ''_NET_DESKTOP_VIEWPORT''
                  (concat (map (\<lambda>(out, _). [rect_x (rect (store (eh_wm e) out)), rect_y (rect (store (eh_wm e) out))]) ds))) e)"

definition publish_wm_desktop :: "con_id \<Rightarrow> u32 \<Rightarrow> ewmh_state \<Rightarrow> ewmh_state" where
  "publish_wm_desktop con desktop e =
     (let s = eh_wm e in
      case window (store s con) of
        None \<Rightarrow> e
      | Some w \<Rightarrow>
          if \<not> con_has_managed_window s con then e
          else
            let d = (if con_is_sticky s con \<and> con_is_floating s con then NET_WM_DESKTOP_ALL else desktop);
                d = (case con_get_workspace s con of
                       None \<Rightarrow> d | Some ws \<Rightarrow> if con_is_internal s ws then NET_WM_DESKTOP_ALL else d)
            in if w_wm_desktop w = d then e
               else
                 let e = e\<lparr>eh_wm := upd_con con (\<lambda>k. k\<lparr>window := Some (w\<lparr>w_wm_desktop := d\<rparr>)\<rparr>) s\<rparr>
                 in if d \<noteq> NET_WM_DESKTOP_NONE
                    then eh_send (Change_Cardinals (w_id w) ''_NET_WM_DESKTOP'' [d]) e
                    else eh_send (Delete_Property (w_id w) ''_NET_WM_DESKTOP'') e)"

primrec update_desktop_below :: "nat \<Rightarrow> u32 \<Rightarrow> con_id \<Rightarrow> ewmh_state \<Rightarrow> ewmh_state" where
  "update_desktop_below 0 desktop con e = e"
| "update_desktop_below (Suc n) desktop con e =
     (let e = fold (update_desktop_below n desktop) (nodes (eh_wm e) con) e;
          e = (if kind (eh_wm e) con = CT_WORKSPACE
               then fold (update_desktop_below n desktop) (floats (eh_wm e) con) e else e)
      in publish_wm_desktop con desktop e)"

definition ewmh_update_wm_desktop_recursively :: "con_id \<Rightarrow> u32 \<Rightarrow> ewmh_state \<Rightarrow> ewmh_state" where
  "ewmh_update_wm_desktop_recursively con desktop e =
     update_desktop_below (length (all_cons (eh_wm e))) desktop con e"

definition update_output_desktops :: "con_id \<Rightarrow> u32 \<times> ewmh_state \<Rightarrow> u32 \<times> ewmh_state" where
  "update_output_desktops out = (\<lambda>(desktop, e).
     case output_get_content (eh_wm e) out of
       None \<Rightarrow> (desktop, e\<lparr>eh_wm := abort (eh_wm e)\<rparr>)
     | Some content \<Rightarrow>
         fold (\<lambda>ws (desktop, e).
             (if con_is_internal (eh_wm e) ws then desktop else desktop + 1,
              ewmh_update_wm_desktop_recursively ws desktop e))
           (nodes (eh_wm e) content) (desktop, e))"

definition ewmh_update_wm_desktop :: "ewmh_state \<Rightarrow> ewmh_state" where
  "ewmh_update_wm_desktop e = snd (fold update_output_desktops (nodes (eh_wm e) (croot (eh_wm e))) (0, e))"

definition ewmh_update_desktop_properties :: "ewmh_state \<Rightarrow> ewmh_state" where
  "ewmh_update_desktop_properties e =
     ewmh_update_wm_desktop (ewmh_update_desktop_names (ewmh_update_current_desktop
       (ewmh_update_desktop_viewport (ewmh_update_number_of_desktops e))))"

definition ewmh_update_active_window :: "u32 \<Rightarrow> ewmh_state \<Rightarrow> ewmh_state" where
  "ewmh_update_active_window w e = eh_send (Change_Windows (eh_root e) ''_NET_ACTIVE_WINDOW'' [w]) e"

definition ewmh_update_visible_name :: "u32 \<Rightarrow> string option \<Rightarrow> ewmh_state \<Rightarrow> ewmh_state" where
  "ewmh_update_visible_name w name =
     eh_send (case name of Some n \<Rightarrow> Change_Text w ''_NET_WM_VISIBLE_NAME'' n
                         | None \<Rightarrow> Delete_Property w ''_NET_WM_VISIBLE_NAME'')"

definition ewmh_update_workarea :: "ewmh_state \<Rightarrow> ewmh_state" where
  "ewmh_update_workarea e = eh_send (Delete_Property (eh_root e) ''_NET_WORKAREA'') e"

definition ewmh_update_client_list :: "u32 list \<Rightarrow> ewmh_state \<Rightarrow> ewmh_state" where
  "ewmh_update_client_list ws e = eh_send (Change_Windows (eh_root e) ''_NET_CLIENT_LIST'' ws) e"

definition ewmh_update_client_list_stacking :: "u32 list \<Rightarrow> ewmh_state \<Rightarrow> ewmh_state" where
  "ewmh_update_client_list_stacking ws e = eh_send (Change_Windows (eh_root e) ''_NET_CLIENT_LIST_STACKING'' ws) e"

definition ewmh_update_sticky :: "u32 \<Rightarrow> bool \<Rightarrow> ewmh_state \<Rightarrow> ewmh_state" where
  "ewmh_update_sticky w on_all =
     eh_send (if on_all then Append_Atom w ''_NET_WM_STATE'' ''_NET_WM_STATE_STICKY''
              else Remove_Atom w ''_NET_WM_STATE'' ''_NET_WM_STATE_STICKY'')"

definition ewmh_update_focused :: "u32 \<Rightarrow> bool \<Rightarrow> ewmh_state \<Rightarrow> ewmh_state" where
  "ewmh_update_focused w is_focused =
     eh_send (if is_focused then Append_Atom w ''_NET_WM_STATE'' ''_NET_WM_STATE_FOCUSED''
              else Remove_Atom w ''_NET_WM_STATE'' ''_NET_WM_STATE_FOCUSED'')"

text \<open>\<open>new_window\<close> is the id the X server gives; \<open>supported\<close> the atoms of
  \<^verbatim>\<open>include/i3-atoms_NET_SUPPORTED.xmacro.h\<close>.\<close>

definition ewmh_setup_hints :: "u32 \<Rightarrow> string list \<Rightarrow> ewmh_state \<Rightarrow> ewmh_state" where
  "ewmh_setup_hints new_window supported e =
     (let e = eh_send (Create_Offscreen new_window) (e\<lparr>eh_window := new_window\<rparr>);
          e = eh_send (Change_Windows new_window ''_NET_SUPPORTING_WM_CHECK'' [new_window]) e;
          e = eh_send (Change_Text new_window ''_NET_WM_NAME'' ''i3'') e;
          e = eh_send (Change_Windows (eh_root e) ''_NET_SUPPORTING_WM_CHECK'' [new_window]) e;
          e = eh_send (Change_Text (eh_root e) ''_NET_WM_NAME'' ''i3'') e;
          e = eh_send (Change_Atoms (eh_root e) ''_NET_SUPPORTED'' supported) e
      in eh_send (Map_Below new_window) e)"

subsection \<open>Atoms in properties\<close>

text \<open>A reply is \<^const>\<open>None\<close> for NULL and else the list of its atoms. Removing an atom replaces the
  property, unless it is empty or missing.\<close>

definition xcb_reply_contains_atom :: "u32 list option \<Rightarrow> u32 \<Rightarrow> bool" where
  "xcb_reply_contains_atom prop a \<longleftrightarrow> (case prop of None \<Rightarrow> False | Some atoms \<Rightarrow> a \<in> set atoms)"

definition xcb_get_preferred_window_type :: "(string \<Rightarrow> u32) \<Rightarrow> u32 list option \<Rightarrow> u32" where
  "xcb_get_preferred_window_type atom reply =
     (case reply of
        None \<Rightarrow> 0
      | Some atoms \<Rightarrow>
          (case find (\<lambda>a. a \<in> set (map atom [''_NET_WM_WINDOW_TYPE_NORMAL'', ''_NET_WM_WINDOW_TYPE_DIALOG'',
               ''_NET_WM_WINDOW_TYPE_UTILITY'', ''_NET_WM_WINDOW_TYPE_TOOLBAR'', ''_NET_WM_WINDOW_TYPE_SPLASH'',
               ''_NET_WM_WINDOW_TYPE_MENU'', ''_NET_WM_WINDOW_TYPE_DROPDOWN_MENU'',
               ''_NET_WM_WINDOW_TYPE_POPUP_MENU'', ''_NET_WM_WINDOW_TYPE_TOOLTIP'',
               ''_NET_WM_WINDOW_TYPE_NOTIFICATION''])) atoms of
             None \<Rightarrow> 0
           | Some a \<Rightarrow> a))"

definition xcb_remove_property_atom :: "u32 list option \<Rightarrow> u32 \<Rightarrow> u32 list option" where
  "xcb_remove_property_atom reply a =
     (case reply of None \<Rightarrow> None | Some atoms \<Rightarrow> if atoms = [] then Some [] else Some (filter (\<lambda>x. x \<noteq> a) atoms))"

definition xcb_add_property_atom :: "u32 list option \<Rightarrow> u32 \<Rightarrow> u32 list option" where
  "xcb_add_property_atom value a = Some ((case value of None \<Rightarrow> [] | Some atoms \<Rightarrow> atoms) @ [a])"

subsection \<open>The index of a desktop and the desktop at an index\<close>

lemma desktop_at_nth:
  assumes "k < length ds" and "length ds \<le> 2 ^ 32"
  shows "desktop_at i (i + of_nat k) ds = Some (ds ! k)"
  using assms
proof (induction ds arbitrary: i k)
  case (Cons d ds)
  show ?case
  proof (cases k)
    case 0
    then show ?thesis by simp
  next
    case (Suc m)
    have "k < 2 ^ 32" using Cons.prems by simp
    then have "unat (of_nat k :: u32) = k" by (simp only: unat_of_nat) simp
    then have "(of_nat k :: u32) \<noteq> 0" using Suc by (metis nat.distinct(1) unat_0)
    then have "i \<noteq> i + of_nat k" by simp
    moreover have "i + of_nat k = (i + 1) + of_nat m" by (simp add: Suc)
    ultimately show ?thesis using Cons.IH [of m "i + 1"] Cons.prems Suc by (simp add: add.assoc)
  qed
qed simp

lemma desktop_index_Some:
  "desktop_index i p ds = Some j \<Longrightarrow>
     \<exists>k < length ds. j = i + of_nat k \<and> p (ds ! k) \<and> (\<forall>m < k. \<not> p (ds ! m))"
proof (induction ds arbitrary: i)
  case (Cons d ds)
  show ?case
  proof (cases "p d")
    case False
    with Cons.prems obtain k where k: "k < length ds" "j = (i + 1) + of_nat k" "p (ds ! k)" "\<forall>m < k. \<not> p (ds ! m)"
      using Cons.IH [of "i + 1"] by auto
    have "\<not> p ((d # ds) ! m)" if "m < Suc k" for m using that k(4) False by (cases m) auto
    with k show ?thesis by (intro exI [of _ "Suc k"]) (simp add: ac_simps)
  qed (use Cons.prems in auto)
qed simp

lemma desktop_index_nth:
  "k < length ds \<Longrightarrow> p (ds ! k) \<Longrightarrow> \<forall>m < k. \<not> p (ds ! m) \<Longrightarrow> desktop_index i p ds = Some (i + of_nat k)"
proof (induction ds arbitrary: i k)
  case (Cons d ds)
  then show ?case
  proof (cases k)
    case (Suc m)
    have "\<not> p d" using Cons.prems(3) Suc by force
    moreover have "\<forall>j < m. \<not> p (ds ! j)" using Cons.prems(3) Suc by force
    ultimately show ?thesis using Cons.IH [of m "i + 1"] Cons.prems Suc by (simp add: ac_simps)
  qed simp
qed simp

lemma desktop_at_Some:
  "desktop_at i idx ds = Some d \<Longrightarrow> \<exists>k < length ds. idx = i + of_nat k \<and> d = ds ! k"
proof (induction ds arbitrary: i)
  case (Cons c ds)
  then show ?case
  proof (cases "i = idx")
    case False
    with Cons.prems obtain k where "k < length ds" "idx = (i + 1) + of_nat k" "d = ds ! k"
      using Cons.IH [of "i + 1"] by auto
    then show ?thesis by (intro exI [of _ "Suc k"]) (simp add: ac_simps)
  qed (use Cons.prems in force)
qed simp

lemma workspace_by_index_of_index:
  assumes "desktops s = Some ds" and "length ds \<le> 2 ^ 32"
    and "ewmh_get_workspace_index s (Some c) = Some idx" and "idx \<noteq> NET_WM_DESKTOP_NONE"
  shows "ewmh_get_workspace_by_index s idx = Some (con_get_workspace s c)"
proof -
  from assms obtain j where "desktop_index 0 (\<lambda>d. Some (snd d) = con_get_workspace s c) ds = Some j" "j = idx"
    by (auto simp: ewmh_get_workspace_index_def split: option.splits)
  then obtain k where k: "k < length ds" "idx = of_nat k" "Some (snd (ds ! k)) = con_get_workspace s c"
    using desktop_index_Some [of 0 "\<lambda>d. Some (snd d) = con_get_workspace s c" ds j] by auto
  then have "desktop_at 0 idx ds = Some (ds ! k)"
    using desktop_at_nth [of k ds 0] assms(2) by simp
  with k assms(1,4) show ?thesis by (simp add: ewmh_get_workspace_by_index_def)
qed

end
