(* ===== verification/Windows.thy ===== *)
theory Windows
  imports Matching EWMH
begin

text \<open>
  What a window manager remembers of a window: \<^verbatim>\<open>src/window.c\<close>, \<open>con_parse_title_format\<close> of \<^verbatim>\<open>src/con.c\<close>
  and \<^verbatim>\<open>libi3/format_placeholders.c\<close>. The reply to a property request is \<^const>\<open>None\<close> for NULL and else
  its value: a string of bytes, or a list of 32-bit numbers. Reading behind the end of a value is
  \<^const>\<open>None\<close> in the result.
\<close>

subsection \<open>Title formats\<close>

text \<open>\<open>CS_STARTS_WITH\<close> of the first placeholder that fits; names are not empty. The argument counts the
  characters of a placeholder that are still to be skipped.\<close>

definition starts_with :: "string \<Rightarrow> string \<Rightarrow> bool" where
  "starts_with str needle \<longleftrightarrow> take (length needle) str = needle"

primrec format_from :: "(string \<times> string) list \<Rightarrow> nat \<Rightarrow> string \<Rightarrow> string" where
  "format_from ps skip [] = []"
| "format_from ps skip (c # cs) =
     (case skip of
        Suc k \<Rightarrow> format_from ps k cs
      | 0 \<Rightarrow>
          if c \<noteq> CHR ''%'' then c # format_from ps 0 cs
          else (case find (\<lambda>(name, _). starts_with (c # cs) name) ps of
              None \<Rightarrow> c # format_from ps 0 cs
            | Some (name, val) \<Rightarrow> val @ format_from ps (length name - 1) cs))"

definition format_placeholders :: "string \<Rightarrow> (string \<times> string) list \<Rightarrow> string" where
  "format_placeholders fmt ps = format_from ps 0 fmt"

text \<open>The size of the buffer, from the first pass over the string.\<close>

primrec buffer_from :: "(string \<times> string) list \<Rightarrow> nat \<Rightarrow> string \<Rightarrow> int" where
  "buffer_from ps skip [] = 0"
| "buffer_from ps skip (c # cs) =
     (case skip of
        Suc k \<Rightarrow> buffer_from ps k cs
      | 0 \<Rightarrow>
          (case find (\<lambda>(name, _). starts_with (c # cs) name) ps of
             None \<Rightarrow> buffer_from ps 0 cs
           | Some (name, val) \<Rightarrow> int (length val) - int (length name) + buffer_from ps (length name - 1) cs))"

definition placeholder_buffer_len :: "string \<Rightarrow> (string \<times> string) list \<Rightarrow> int" where
  "placeholder_buffer_len fmt ps = int (length fmt) + 1 + buffer_from ps 0 fmt"

text \<open>The result and its final zero byte fill the buffer exactly.\<close>

lemma format_from_fits:
  assumes "\<forall>(name, val) \<in> set ps. name \<noteq> [] \<and> hd name = CHR ''%''" and "skip \<le> length cs"
  shows "int (length (format_from ps skip cs)) = int (length cs) - int skip + buffer_from ps skip cs"
  using assms(2)
proof (induction cs arbitrary: skip)
  case (Cons c cs)
  show ?case
  proof (cases skip)
    case (Suc k)
    then show ?thesis using Cons by simp
  next
    case 0
    show ?thesis
    proof (cases "find (\<lambda>(name, _). starts_with (c # cs) name) ps")
      case None
      then show ?thesis using 0 Cons.IH [of 0] by (cases "c = CHR ''%''") simp_all
    next
      case (Some p)
      obtain name val where p: "p = (name, val)" by (cases p)
      have "(name, val) \<in> set ps" and here: "starts_with (c # cs) name"
        using Some by (auto simp: find_Some_iff p dest: nth_mem)
      then have name: "name \<noteq> []" "hd name = CHR ''%''" using assms(1) by auto
      then have "c = CHR ''%''" using here by (cases name) (simp_all add: starts_with_def)
      moreover have "length name \<le> Suc (length cs)"
        using arg_cong [OF here [unfolded starts_with_def], of length] by simp
      ultimately show ?thesis using 0 Some p name Cons.IH [of "length name - 1"] by (cases name) simp_all
    qed
  qed
qed simp

lemma format_fills_buffer:
  assumes "\<forall>(name, val) \<in> set ps. name \<noteq> [] \<and> hd name = CHR ''%''"
  shows "int (length (format_placeholders fmt ps)) + 1 = placeholder_buffer_len fmt ps"
  using format_from_fits [OF assms, of 0 fmt] by (simp add: format_placeholders_def placeholder_buffer_len_def)

text \<open>\<open>escape\<close> is \<open>pango_escape_markup\<close>: the identity, or the escaping of the GLib library when a Pango
  font is used.\<close>

definition con_parse_title_format :: "(string \<Rightarrow> string) \<Rightarrow> wm \<Rightarrow> con_id \<Rightarrow> string option" where
  "con_parse_title_format escape s con =
     (case title_format (store s con) of
        None \<Rightarrow> None
      | Some fmt \<Rightarrow>
          (case window (store s con) of
             None \<Rightarrow>
               map_option (\<lambda>repr. format_placeholders fmt
                   [(''%title'', escape repr), (''%class'', ''i3-frame''), (''%instance'', ''i3-frame''), (''%machine'', [])])
                 (con_get_tree_representation s con)
           | Some w \<Rightarrow>
               Some (format_placeholders fmt
                 [(''%title'', escape (field_text (w_name w))), (''%class'', escape (field_text (w_class_class w))),
                  (''%instance'', escape (field_text (w_class_instance w))),
                  (''%machine'', escape (field_text (w_machine w)))])))"

subsection \<open>Strings\<close>

definition until_nul :: "string \<Rightarrow> string" where
  "until_nul str = takeWhile (\<lambda>c. c \<noteq> CHR 0x00) str"

definition window_update_class :: "string option \<Rightarrow> i3Window \<Rightarrow> i3Window" where
  "window_update_class prop w =
     (case prop of
        None \<Rightarrow> w
      | Some val \<Rightarrow>
          if val = [] then w
          else
            let class_index = length (until_nul val) + 1
            in w\<lparr>w_class_instance := Some (until_nul val),
                 w_class_class := (if class_index < length val then Some (until_nul (drop class_index val)) else None)\<rparr>)"

text \<open>The second result is the title to publish as \<open>_NET_WM_VISIBLE_NAME\<close>, if the container of the
  window has a title format.\<close>

definition published_title :: "(string \<Rightarrow> string) \<Rightarrow> wm \<Rightarrow> i3Window \<Rightarrow> string option" where
  "published_title escape s w =
     Option.bind (con_by_window_id s (w_id w)) (\<lambda>con.
       con_parse_title_format escape (upd_con con (\<lambda>k. k\<lparr>window := Some w\<rparr>) s) con)"

definition window_update_name :: "(string \<Rightarrow> string) \<Rightarrow> wm \<Rightarrow> string option \<Rightarrow> i3Window \<Rightarrow> string option \<times> i3Window" where
  "window_update_name escape s prop w =
     (case prop of
        None \<Rightarrow> (None, w)
      | Some val \<Rightarrow>
          if val = [] then (None, w)
          else
            let w = w\<lparr>w_name := Some (until_nul val)\<rparr>
            in (published_title escape s w, w\<lparr>w_name_x_changed := True, w_uses_net_wm_name := True\<rparr>))"

definition window_update_name_legacy :: "(string \<Rightarrow> string) \<Rightarrow> wm \<Rightarrow> string option \<Rightarrow> i3Window \<Rightarrow> string option \<times> i3Window" where
  "window_update_name_legacy escape s prop w =
     (case prop of
        None \<Rightarrow> (None, w)
      | Some val \<Rightarrow>
          if val = [] \<or> w_uses_net_wm_name w then (None, w)
          else
            let w = w\<lparr>w_name := Some (until_nul val)\<rparr>
            in (published_title escape s w, w\<lparr>w_name_x_changed := True\<rparr>))"

definition window_update_role :: "string option \<Rightarrow> i3Window \<Rightarrow> i3Window" where
  "window_update_role prop w =
     (case prop of None \<Rightarrow> w | Some val \<Rightarrow> if val = [] then w else w\<lparr>w_role := Some (until_nul val)\<rparr>)"

definition window_update_machine :: "string option \<Rightarrow> i3Window \<Rightarrow> i3Window" where
  "window_update_machine prop w =
     (case prop of None \<Rightarrow> w | Some val \<Rightarrow> if val = [] then w else w\<lparr>w_machine := Some (until_nul val)\<rparr>)"

subsection \<open>Numbers\<close>

definition window_update_leader :: "u32 list option \<Rightarrow> i3Window \<Rightarrow> i3Window" where
  "window_update_leader prop w =
     w\<lparr>w_leader := (case prop of None \<Rightarrow> 0 | Some [] \<Rightarrow> 0 | Some (v # _) \<Rightarrow> v)\<rparr>"

text \<open>A value that the library does not accept as the property is a list of another length.\<close>

definition window_update_transient_for :: "u32 list option \<Rightarrow> i3Window \<Rightarrow> i3Window" where
  "window_update_transient_for prop w =
     (case prop of
        None \<Rightarrow> w\<lparr>w_transient_for := 0\<rparr>
      | Some [] \<Rightarrow> w\<lparr>w_transient_for := 0\<rparr>
      | Some [v] \<Rightarrow> w\<lparr>w_transient_for := v\<rparr>
      | Some _ \<Rightarrow> w)"

definition window_update_strut_partial :: "u32 list option \<Rightarrow> i3Window \<Rightarrow> i3Window option" where
  "window_update_strut_partial prop w =
     (case prop of
        None \<Rightarrow> Some w
      | Some [] \<Rightarrow> Some w
      | Some (l # r # t # b # _) \<Rightarrow>
          Some (w\<lparr>w_reserved := \<lparr>res_left = l, res_right = r, res_top = t, res_bottom = b\<rparr>\<rparr>)
      | Some _ \<Rightarrow> None)"

definition window_update_type ::
  "regex_lib \<Rightarrow> (string \<Rightarrow> wm \<Rightarrow> bool \<times> wm) \<Rightarrow> (string \<Rightarrow> u32) \<Rightarrow> u32 list option \<Rightarrow> i3Window \<Rightarrow> wm \<Rightarrow> wm" where
  "window_update_type rx parse_command atom reply w s =
     (let new_type = xcb_get_preferred_window_type atom reply
      in if new_type = 0 then s
         else run_assignments rx parse_command (Some (w\<lparr>w_window_type := new_type\<rparr>))
                (upd_window (w_id w) (\<lambda>x. x\<lparr>w_window_type := new_type\<rparr>) s))"

subsection \<open>Hints\<close>

text \<open>\<open>xcb_size_hints_t\<close>, its flags one field each, and the geometry reply.\<close>

record size_hints =
  sh_us_position :: bool
  sh_us_size :: bool
  sh_p_position :: bool
  sh_p_size :: bool
  sh_p_min_size :: bool
  sh_p_max_size :: bool
  sh_p_resize_inc :: bool
  sh_p_aspect :: bool
  sh_base_size :: bool
  sh_x :: int
  sh_y :: int
  sh_width :: int
  sh_height :: int
  sh_min_width :: int
  sh_min_height :: int
  sh_max_width :: int
  sh_max_height :: int
  sh_width_inc :: int
  sh_height_inc :: int
  sh_min_aspect_num :: int
  sh_min_aspect_den :: int
  sh_max_aspect_num :: int
  sh_max_aspect_den :: int
  sh_base_width :: int
  sh_base_height :: int

record geometry_reply =
  ge_x :: "16 word"
  ge_y :: "16 word"
  ge_width :: "16 word"
  ge_height :: "16 word"
  ge_border_width :: "16 word"

definition DBL_EPSILON :: real where
  "DBL_EPSILON = 1 / 2 ^ 52"

definition usable_increment :: "int \<Rightarrow> int" where
  "usable_increment inc = (if inc > 0 \<and> inc < 0xFFFF then inc else 0)"

definition close_or :: "real \<Rightarrow> real \<Rightarrow> real" where
  "close_or old new = (if \<bar>old - new\<bar> > DBL_EPSILON then new else old)"

definition sizes_from_hints :: "size_hints \<Rightarrow> i3Window \<Rightarrow> i3Window" where
  "sizes_from_hints h w =
     (let w = (if sh_p_min_size h then w\<lparr>w_min_width := sh_min_width h, w_min_height := sh_min_height h\<rparr> else w);
          w = (if sh_p_max_size h
               then w\<lparr>w_max_width := max 0 (sh_max_width h), w_max_height := max 0 (sh_max_height h)\<rparr>
               else w\<lparr>w_max_width := 0, w_max_height := 0\<rparr>);
          w = (if sh_p_resize_inc h
               then w\<lparr>w_width_increment := usable_increment (sh_width_inc h),
                      w_height_increment := usable_increment (sh_height_inc h)\<rparr>
               else w\<lparr>w_width_increment := 0, w_height_increment := 0\<rparr>)
      in if sh_base_size h \<and> w_base_width w \<ge> 0 \<and> w_base_height w \<ge> 0
         then w\<lparr>w_base_width := sh_base_width h, w_base_height := sh_base_height h\<rparr>
         else w\<lparr>w_base_width := 0, w_base_height := 0\<rparr>)"

definition aspect_from_hints :: "size_hints \<Rightarrow> i3Window \<Rightarrow> i3Window" where
  "aspect_from_hints h w =
     (if sh_p_aspect h \<and> sh_min_aspect_num h \<ge> 0 \<and> sh_min_aspect_den h > 0 \<and>
         sh_max_aspect_num h \<ge> 0 \<and> sh_max_aspect_den h > 0
      then w\<lparr>w_min_aspect_ratio := close_or (w_min_aspect_ratio w) (sh_min_aspect_num h / sh_min_aspect_den h),
             w_max_aspect_ratio := close_or (w_max_aspect_ratio w) (sh_max_aspect_num h / sh_max_aspect_den h)\<rparr>
      else w\<lparr>w_min_aspect_ratio := 0, w_max_aspect_ratio := 0\<rparr>)"

definition geometry_from_hints :: "size_hints \<Rightarrow> geometry_reply \<Rightarrow> geometry_reply" where
  "geometry_from_hints h g =
     (if (sh_us_position h \<or> sh_p_position h) \<and> (sh_us_size h \<or> sh_p_size h)
      then g\<lparr>ge_x := word_of_int (sh_x h), ge_y := word_of_int (sh_y h),
             ge_width := word_of_int (sh_width h), ge_height := word_of_int (sh_height h)\<rparr>
      else g)"

text \<open>Every field is assigned once, when it differs, and that is when \<open>changed\<close> is set.\<close>

definition window_update_normal_hints ::
  "size_hints option \<Rightarrow> geometry_reply option \<Rightarrow> i3Window \<Rightarrow> bool \<times> geometry_reply option \<times> i3Window" where
  "window_update_normal_hints hints geom w =
     (case hints of
        None \<Rightarrow> (False, geom, w)
      | Some h \<Rightarrow>
          let w' = aspect_from_hints h (sizes_from_hints h w)
          in (w' \<noteq> w, map_option (geometry_from_hints h) geom, w'))"

text \<open>\<open>WM_HINTS\<close>: the input field, when its flag is set, and the urgency flag. The first result is the
  urgency.\<close>

record wm_hints =
  hi_input :: "bool option"
  hi_urgent :: bool

definition window_update_hints :: "wm_hints option \<Rightarrow> i3Window \<Rightarrow> bool \<times> i3Window" where
  "window_update_hints hints w =
     (case hints of
        None \<Rightarrow> (False, w)
      | Some h \<Rightarrow> (hi_urgent h, case hi_input h of None \<Rightarrow> w | Some i \<Rightarrow> w\<lparr>w_doesnt_accept_focus := \<not> i\<rparr>))"

definition border_style_from_motif_value :: "u32 \<Rightarrow> border_style_t" where
  "border_style_from_motif_value v =
     (if bit v 0 then
        if bit v 3 then if bit v 1 then BS_NONE else BS_PIXEL
        else BS_NORMAL
      else if bit v 3 then BS_NORMAL
      else if bit v 1 then BS_PIXEL
      else BS_NONE)"

definition window_update_motif_hints :: "u32 list option \<Rightarrow> border_style_t option option" where
  "window_update_motif_hints prop =
     (case prop of
        None \<Rightarrow> Some None
      | Some [] \<Rightarrow> Some None
      | Some (flags # vs) \<Rightarrow>
          if \<not> bit flags 1 then Some None
          else (case vs of _ # v # _ \<Rightarrow> Some (Some (border_style_from_motif_value v)) | _ \<Rightarrow> None))"

end
