(* ===== verification/Restore_Layout.thy ===== *)
theory Restore_Layout
  imports Windows Randr
begin

text \<open>
  Placeholder windows of restored layouts: \<^verbatim>\<open>src/restore_layout.c\<close>, without the separate connection to
  the X server and the drawing; what is drawn is a list of lines. The windows that the X server gives
  out are the values of \<open>rs_ids\<close>, in order.
\<close>

record placeholder_state =
  pl_window :: u32
  pl_con :: con_id
  pl_rect :: Rect

record restore_state =
  rs_wm :: wm
  rs_placeholders :: "placeholder_state list"
  rs_ids :: "nat \<Rightarrow> u32"
  rs_count :: nat

definition on_rs :: "(wm \<Rightarrow> wm) \<Rightarrow> restore_state \<Rightarrow> restore_state" where
  "on_rs f r = r\<lparr>rs_wm := f (rs_wm r)\<rparr>"

text \<open>A reconnect forgets the placeholders.\<close>

definition restore_reconnect :: "restore_state \<Rightarrow> restore_state" where
  "restore_reconnect r = r\<lparr>rs_placeholders := []\<rparr>"

definition serialized_criterion :: "string \<Rightarrow> regex option \<Rightarrow> string \<Rightarrow> string" where
  "serialized_criterion name re acc =
     (case re of
        None \<Rightarrow> acc
      | Some r \<Rightarrow> (if acc = [] then ''['' else acc @ '' '') @ name @ ''='' @ [CHR 0x22] @ pattern r @ [CHR 0x22])"

definition serialized_match :: "Match \<Rightarrow> string" where
  "serialized_match m =
     serialized_criterion ''machine'' (ma_machine m) (serialized_criterion ''title'' (ma_title m)
       (serialized_criterion ''window_role'' (ma_window_role m) (serialized_criterion ''instance'' (ma_instance m)
         (serialized_criterion ''class'' (ma_class m) []))))"

definition update_placeholder_contents :: "wm \<Rightarrow> placeholder_state \<Rightarrow> string list" where
  "update_placeholder_contents s p =
     map (\<lambda>l. l @ '']'') (filter (\<lambda>l. l \<noteq> []) (map serialized_match (swallow_head (store s (pl_con p)))))"

text \<open>The temporary criterion that matches the placeholder itself.\<close>

definition placeholder_match :: "u32 \<Rightarrow> Match" where
  "placeholder_match w = match_init\<lparr>ma_dock := M_DONTCHECK, ma_id := w\<rparr>"

definition wants_placeholder :: "wm \<Rightarrow> con_id \<Rightarrow> bool" where
  "wants_placeholder s con \<longleftrightarrow>
     con_is_leaf s con \<and> (case window (store s con) of None \<Rightarrow> True | Some w \<Rightarrow> w_id w = 0) \<and>
     swallow_head (store s con) \<noteq> [] \<and> kind s con = CT_CON"

definition add_placeholder :: "con_id \<Rightarrow> restore_state \<Rightarrow> restore_state" where
  "add_placeholder con r =
     (if \<not> wants_placeholder (rs_wm r) con then r
      else
        let w = rs_ids r (rs_count r)
        in r\<lparr>rs_placeholders := rs_placeholders r @ [\<lparr>pl_window = w, pl_con = con, pl_rect = rect (store (rs_wm r) con)\<rparr>],
             rs_count := rs_count r + 1,
             rs_wm := upd_con con (\<lambda>k. k\<lparr>swallow_head := placeholder_match w # swallow_head k\<rparr>) (rs_wm r)\<rparr>)"

primrec open_placeholder_window :: "nat \<Rightarrow> con_id \<Rightarrow> restore_state \<Rightarrow> restore_state" where
  "open_placeholder_window 0 con r = r"
| "open_placeholder_window (Suc n) con r =
     (let r = add_placeholder con r;
          r = fold (open_placeholder_window n) (nodes (rs_wm r) con) r
      in fold (open_placeholder_window n) (floats (rs_wm r) con) r)"

definition restore_open_placeholder_windows :: "con_id \<Rightarrow> restore_state \<Rightarrow> restore_state" where
  "restore_open_placeholder_windows p r =
     (let open_window = open_placeholder_window (length (all_cons (rs_wm r)));
          r = fold open_window (nodes (rs_wm r) p) r
      in fold open_window (floats (rs_wm r) p) r)"

definition is_placeholder :: "restore_state \<Rightarrow> u32 \<Rightarrow> bool" where
  "is_placeholder r w \<longleftrightarrow> w \<in> set (map pl_window (rs_placeholders r))"

definition restore_kill_placeholder :: "u32 \<Rightarrow> restore_state \<Rightarrow> bool \<times> restore_state" where
  "restore_kill_placeholder w r =
     (case find (\<lambda>p. pl_window p = w) (rs_placeholders r) of
        None \<Rightarrow> (False, r)
      | Some p \<Rightarrow> (True, r\<lparr>rs_placeholders := remove1 p (rs_placeholders r)\<rparr>))"

text \<open>What is drawn when the placeholder is exposed or resized.\<close>

definition placeholder_expose :: "u32 \<Rightarrow> restore_state \<Rightarrow> string list option" where
  "placeholder_expose w r =
     map_option (update_placeholder_contents (rs_wm r)) (find (\<lambda>p. pl_window p = w) (rs_placeholders r))"

primrec upd_first :: "('a \<Rightarrow> bool) \<Rightarrow> ('a \<Rightarrow> 'a) \<Rightarrow> 'a list \<Rightarrow> 'a list" where
  "upd_first p f [] = []"
| "upd_first p f (x # xs) = (if p x then f x # xs else x # upd_first p f xs)"

definition placeholder_configure_notify :: "u32 \<Rightarrow> u32 \<Rightarrow> u32 \<Rightarrow> restore_state \<Rightarrow> restore_state" where
  "placeholder_configure_notify w width height r =
     r\<lparr>rs_placeholders := upd_first (\<lambda>p. pl_window p = w)
         (\<lambda>p. p\<lparr>pl_rect := (pl_rect p)\<lparr>rect_width := width, rect_height := height\<rparr>\<rparr>) (rs_placeholders r)\<rparr>"

end
