(* ===== verification/Window_Icon.thy ===== *)
theory Window_Icon
  imports Windows Commands_Layout
begin

text \<open>
  The choice of an icon: \<open>window_update_icon\<close> of \<^verbatim>\<open>src/window.c\<close>. The property is a sequence of icons,
  each a width, a height and the pixels; the sizes are numbers the client sends, and the lengths are
  computed in 64 bits as in the code, so they wrap. The loop is a partial function: \<^const>\<open>None\<close> is the
  loop that does not end.
\<close>

record icon_choice =
  ic_len :: "64 word"
  ic_width :: u32
  ic_height :: u32
  ic_data :: "u32 list option"

definition icon_expected_len :: "u32 \<Rightarrow> u32 \<Rightarrow> 64 word" where
  "icon_expected_len w h = (ucast w * ucast h + 2) * 4"

definition better_icon :: "u32 \<Rightarrow> u32 \<Rightarrow> u32 \<Rightarrow> icon_choice \<Rightarrow> bool" where
  "better_icon pref w h best \<longleftrightarrow>
     (let at_least_preferred_size = (w \<ge> pref \<and> h \<ge> pref);
          smaller_than_current = (w < ic_width best \<or> h < ic_height best);
          larger_than_current = (w > ic_width best \<or> h > ic_height best);
          not_yet_at_preferred = (ic_width best < pref \<or> ic_height best < pref)
      in ic_len best = 0 \<or> at_least_preferred_size \<and> (smaller_than_current \<or> not_yet_at_preferred) \<or>
         \<not> at_least_preferred_size \<and> not_yet_at_preferred \<and> larger_than_current)"

definition choose_icon :: "u32 \<Rightarrow> u32 \<Rightarrow> u32 \<Rightarrow> u32 list \<Rightarrow> icon_choice \<Rightarrow> icon_choice" where
  "choose_icon pref w h data best =
     (if better_icon pref w h best
      then \<lparr>ic_len = ucast w * ucast h, ic_width = w, ic_height = h, ic_data = Some data\<rparr> else best)"

partial_function (option) icon_loop :: "u32 \<Rightarrow> u32 \<Rightarrow> u32 list \<Rightarrow> icon_choice \<Rightarrow> icon_choice option" where
  "icon_loop pref remaining data best =
     (case data of
        w # h # _ \<Rightarrow>
          if \<not> (remaining > 8 \<and> w \<noteq> 0 \<and> h \<noteq> 0) \<or> icon_expected_len w h > ucast remaining then Some best
          else if ic_width (choose_icon pref w h data best) = pref \<and> ic_height (choose_icon pref w h data best) = pref
          then Some (choose_icon pref w h data best)
          else icon_loop pref (remaining - ucast (icon_expected_len w h)) (drop (unat (icon_expected_len w h) div 4) data)
                 (choose_icon pref w h data best)
      | _ \<Rightarrow> Some best)"

text \<open>A pixel with its alpha premultiplied, in 8-bit channels.\<close>

definition premultiplied :: "u32 \<Rightarrow> u32" where
  "premultiplied pixel =
     (let a = (uint pixel div 2 ^ 24) mod 256;
          r = (uint pixel div 2 ^ 16) mod 256;
          g = (uint pixel div 2 ^ 8) mod 256;
          b = uint pixel mod 256
      in word_of_int (a * 2 ^ 24 + (r * a div 255) * 2 ^ 16 + (g * a div 255) * 2 ^ 8 + b * a div 255))"

datatype icon_result = No_Icon | Icon u32 u32 "u32 list" | Reads_Outside

text \<open>\<open>prop\<close> is \<^const>\<open>None\<close> for a reply that is missing or of another type or format.\<close>

definition window_update_icon :: "u32 \<Rightarrow> u32 list option \<Rightarrow> i3Window \<Rightarrow> (icon_result \<times> i3Window) option" where
  "window_update_icon pref prop w =
     (case prop of
        None \<Rightarrow> Some (No_Icon, w)
      | Some data \<Rightarrow>
          map_option (\<lambda>best.
              case ic_data best of
                None \<Rightarrow> (No_Icon, w)
              | Some d \<Rightarrow>
                  (if unat (ic_len best) + 2 > length d then Reads_Outside
                   else Icon (ic_width best) (ic_height best) (map premultiplied (take (unat (ic_len best)) (drop 2 d))),
                   w\<lparr>w_name_x_changed := True\<rparr>))
            (icon_loop pref (of_nat (4 * length data)) data \<lparr>ic_len = 0, ic_width = 0, ic_height = 0, ic_data = None\<rparr>))"

definition preferred_icon_size :: "real \<Rightarrow> wm \<Rightarrow> u32" where
  "preferred_icon_size dpi s = word_of_int (render_deco_height s - logical_px dpi 2)"

subsection \<open>Sizes that wrap\<close>

text \<open>Twelve bytes with a width and a height of \<open>2 ^ 31\<close>: the expected length wraps to 8 bytes, the icon is
  accepted, and copying its pixels reads outside the property. With \<open>2 ^ 32 - 2\<close> and \<open>2 ^ 31 + 1\<close> it wraps
  to 0: the loop never moves on.\<close>

lemma icon_reads_outside:
  "window_update_icon 18 (Some [0x80000000, 0x80000000, 0]) w =
     Some (Reads_Outside, w\<lparr>w_name_x_changed := True\<rparr>)"
proof -
  have len: "icon_expected_len 0x80000000 0x80000000 = 8"
    by (simp add: icon_expected_len_def)
  have "icon_loop 18 12 [0x80000000, 0x80000000, 0] \<lparr>ic_len = 0, ic_width = 0, ic_height = 0, ic_data = None\<rparr> =
      Some \<lparr>ic_len = 0x4000000000000000, ic_width = 0x80000000, ic_height = 0x80000000,
        ic_data = Some [0x80000000, 0x80000000, 0]\<rparr>"
    by (simp add: icon_loop.simps len choose_icon_def better_icon_def Let_def)
  then show ?thesis by (simp add: window_update_icon_def)
qed

lemma icon_loop_hangs:
  assumes "\<not> (ic_width best = 18 \<and> ic_height best = 18)"
  shows "icon_loop 18 12 [0xFFFFFFFE, 0x80000001, 0] best = None"
proof -
  have zero: "icon_expected_len 0xFFFFFFFE 0x80000001 = 0"
    by (simp add: icon_expected_len_def)
  define stuck where "stuck pref remaining data best \<longleftrightarrow> pref = 18 \<and> remaining = 12 \<and>
      data = [0xFFFFFFFE, 0x80000001, 0] \<and> \<not> (ic_width best = 18 \<and> ic_height best = 18)"
    for pref remaining :: u32 and data :: "u32 list" and best :: icon_choice
  have never: "\<not> stuck pref remaining data best"
    if "icon_loop pref remaining data best = Some r" for pref remaining data best r
  proof (rule icon_loop.raw_induct [where P = "\<lambda>pref remaining data best r. \<not> stuck pref remaining data best", OF _ that],
         rule notI)
    fix loop pref remaining data best r
    assume IH: "\<And>remaining data best b y. loop remaining data best b = Some y \<Longrightarrow> \<not> stuck remaining data best b"
      and step: "(case data of
          w # h # _ \<Rightarrow>
            if \<not> (remaining > 8 \<and> w \<noteq> 0 \<and> h \<noteq> 0) \<or> icon_expected_len w h > ucast remaining then Some best
            else if ic_width (choose_icon pref w h data best) = pref \<and> ic_height (choose_icon pref w h data best) = pref
            then Some (choose_icon pref w h data best)
            else loop pref (remaining - ucast (icon_expected_len w h)) (drop (unat (icon_expected_len w h) div 4) data)
                   (choose_icon pref w h data best)
        | _ \<Rightarrow> Some best) = Some r"
      and a: "stuck pref remaining data best"
    let ?next = "choose_icon 18 0xFFFFFFFE 0x80000001 [0xFFFFFFFE, 0x80000001, 0] best"
    have other: "stuck 18 12 [0xFFFFFFFE, 0x80000001, 0] ?next"
      using a by (simp add: choose_icon_def stuck_def)
    with step a have "loop 18 12 [0xFFFFFFFE, 0x80000001, 0] ?next = Some r"
      by (simp add: zero stuck_def split: if_splits)
    then show False using IH other by blast
  qed
  have "stuck 18 12 [0xFFFFFFFE, 0x80000001, 0] best" using assms by (simp add: stuck_def)
  then show ?thesis
    using never by (cases "icon_loop 18 12 [0xFFFFFFFE, 0x80000001, 0] best") blast+
qed

subsection \<open>The icon that is chosen\<close>

text \<open>A property that is a list of icons, and the choice on that list.\<close>

record icon =
  im_width :: u32
  im_height :: u32
  im_pixels :: "u32 list"

definition icon_words :: "icon \<Rightarrow> u32 list" where
  "icon_words i = im_width i # im_height i # im_pixels i"

definition icon_ok :: "icon \<Rightarrow> bool" where
  "icon_ok i \<longleftrightarrow> im_width i \<noteq> 0 \<and> im_height i \<noteq> 0 \<and> length (im_pixels i) = unat (im_width i) * unat (im_height i)"

definition exact_icon :: "u32 \<Rightarrow> icon \<Rightarrow> bool" where
  "exact_icon pref i \<longleftrightarrow> im_width i = pref \<and> im_height i = pref"

definition large_icon :: "u32 \<Rightarrow> icon \<Rightarrow> bool" where
  "large_icon pref i \<longleftrightarrow> im_width i \<ge> pref \<and> im_height i \<ge> pref"

definition icon_beats :: "u32 \<Rightarrow> icon \<Rightarrow> icon \<Rightarrow> bool" where
  "icon_beats pref i b \<longleftrightarrow>
     (if large_icon pref i then im_width i < im_width b \<or> im_height i < im_height b \<or> \<not> large_icon pref b
      else \<not> large_icon pref b \<and> (im_width i > im_width b \<or> im_height i > im_height b))"

definition take_icon :: "u32 \<Rightarrow> icon \<Rightarrow> icon option \<Rightarrow> icon" where
  "take_icon pref i cur = (case cur of None \<Rightarrow> i | Some b \<Rightarrow> if icon_beats pref i b then i else b)"

fun pick_icon :: "u32 \<Rightarrow> icon option \<Rightarrow> icon list \<Rightarrow> icon option" where
  "pick_icon pref cur [] = cur"
| "pick_icon pref cur (i # is) =
     (if exact_icon pref (take_icon pref i cur) then Some (take_icon pref i cur)
      else pick_icon pref (Some (take_icon pref i cur)) is)"

lemma take_icon_in: "take_icon pref i cur = i \<or> cur = Some (take_icon pref i cur)"
  by (simp add: take_icon_def split: option.splits)

lemma take_icon_exact: "exact_icon pref j \<Longrightarrow> j \<in> insert i (set_option cur) \<Longrightarrow> exact_icon pref (take_icon pref i cur)"
  by (auto simp: take_icon_def icon_beats_def exact_icon_def large_icon_def split: option.splits if_splits)

lemma take_icon_large: "large_icon pref j \<Longrightarrow> j \<in> insert i (set_option cur) \<Longrightarrow> large_icon pref (take_icon pref i cur)"
  by (auto simp: take_icon_def icon_beats_def split: option.splits if_splits)

lemma exact_large: "exact_icon pref i \<Longrightarrow> large_icon pref i"
  by (simp add: exact_icon_def large_icon_def)

lemma pick_icon_in: "pick_icon pref cur is = Some r \<Longrightarrow> cur = Some r \<or> r \<in> set is"
proof (induction "is" arbitrary: cur)
  case (Cons i "is")
  then show ?case using take_icon_in [of pref i cur] by (fastforce split: if_splits)
qed simp

lemma pick_icon_found: "cur \<noteq> None \<or> is \<noteq> [] \<Longrightarrow> \<exists>r. pick_icon pref cur is = Some r"
  by (induction "is" arbitrary: cur) auto

lemma pick_icon_best:
  assumes "pick_icon pref cur is = Some r" and "j \<in> set_option cur \<union> set is"
  shows "(exact_icon pref j \<longrightarrow> exact_icon pref r) \<and> (large_icon pref j \<longrightarrow> large_icon pref r)"
  using assms
proof (induction "is" arbitrary: cur j)
  case (Cons i "is")
  let ?t = "take_icon pref i cur"
  show ?case
  proof (cases "exact_icon pref ?t")
    case True
    then show ?thesis using Cons.prems exact_large by auto
  next
    case False
    then have rest: "pick_icon pref (Some ?t) is = Some r" using Cons.prems by simp
    show ?thesis
    proof (cases "j \<in> set is")
      case True
      then show ?thesis using Cons.IH [OF rest] by blast
    next
      case j: False
      then have "j \<in> insert i (set_option cur)" using Cons.prems by auto
      then have "(exact_icon pref j \<longrightarrow> exact_icon pref ?t) \<and> (large_icon pref j \<longrightarrow> large_icon pref ?t)"
        using take_icon_exact take_icon_large by blast
      then show ?thesis using Cons.IH [OF rest, of ?t] by auto
    qed
  qed
qed simp

subsection \<open>The loop computes that choice\<close>

definition represents :: "icon option \<Rightarrow> icon_choice \<Rightarrow> bool" where
  "represents cur best \<longleftrightarrow>
     (case cur of
        None \<Rightarrow> best = \<lparr>ic_len = 0, ic_width = 0, ic_height = 0, ic_data = None\<rparr>
      | Some i \<Rightarrow> icon_ok i \<and> ic_len best = of_nat (length (im_pixels i)) \<and> unat (ic_len best) = length (im_pixels i) \<and>
          ic_width best = im_width i \<and> ic_height best = im_height i \<and>
          (\<exists>rest. ic_data best = Some (icon_words i @ rest)))"

lemma unat_of_nat_small: "k < 2 ^ LENGTH('a) \<Longrightarrow> unat (of_nat k :: 'a::len word) = k"
  by (simp only: unat_of_nat) simp

lemma icon_length:
  assumes "icon_ok i" and "4 * (length (im_pixels i) + 2) < 2 ^ 32"
  shows "icon_expected_len (im_width i) (im_height i) = of_nat (4 * (length (im_pixels i) + 2))"
    and "unat (icon_expected_len (im_width i) (im_height i)) = 4 * (length (im_pixels i) + 2)"
    and "(ucast (im_width i) * ucast (im_height i) :: 64 word) = of_nat (length (im_pixels i))"
    and "length (im_pixels i) > 0"
proof -
  have cast: "(ucast v :: 64 word) = of_nat (unat v)" for v :: u32 by simp
  show prod: "(ucast (im_width i) * ucast (im_height i) :: 64 word) = of_nat (length (im_pixels i))"
    using assms(1) by (simp only: cast icon_ok_def of_nat_mult)
  show eq: "icon_expected_len (im_width i) (im_height i) = of_nat (4 * (length (im_pixels i) + 2))"
    by (simp add: icon_expected_len_def prod)
  show "unat (icon_expected_len (im_width i) (im_height i)) = 4 * (length (im_pixels i) + 2)"
    unfolding eq by (rule unat_of_nat_small) (use assms(2) in simp)
  show "length (im_pixels i) > 0"
    using assms(1) by (simp add: icon_ok_def unat_gt_0)
qed

lemma choose_represents:
  assumes "represents cur best" and "icon_ok i" and "4 * (length (im_pixels i) + 2) < 2 ^ 32"
  shows "represents (Some (take_icon pref i cur))
           (choose_icon pref (im_width i) (im_height i) (icon_words i @ rest) best)"
proof -
  have small: "unat (of_nat (length (im_pixels i)) :: 64 word) = length (im_pixels i)"
    by (rule unat_of_nat_small) (use assms(3) in simp)
  have new: "represents (Some i)
      \<lparr>ic_len = ucast (im_width i) * ucast (im_height i), ic_width = im_width i, ic_height = im_height i,
       ic_data = Some (icon_words i @ rest)\<rparr>"
    using assms(2) icon_length(3) [OF assms(2,3)] small by (simp add: represents_def)
  show ?thesis
  proof (cases cur)
    case None
    then have "better_icon pref (im_width i) (im_height i) best" using assms(1) by (simp add: represents_def better_icon_def)
    then show ?thesis using new None by (simp add: choose_icon_def take_icon_def)
  next
    case (Some b)
    then have b: "icon_ok b" "unat (ic_len best) = length (im_pixels b)" "ic_width best = im_width b" "ic_height best = im_height b"
      using assms(1) by (auto simp: represents_def)
    then have "length (im_pixels b) > 0" by (simp add: icon_ok_def unat_gt_0)
    then have "ic_len best \<noteq> 0" using b(2) by auto
    then have "better_icon pref (im_width i) (im_height i) best \<longleftrightarrow> icon_beats pref i b"
      using b by (auto simp: better_icon_def icon_beats_def large_icon_def not_le Let_def)
    then show ?thesis using new Some assms(1) by (simp add: choose_icon_def take_icon_def)
  qed
qed

lemma icon_loop_step:
  assumes "remaining > 8" and "im_width i \<noteq> 0" and "im_height i \<noteq> 0"
    and "\<not> icon_expected_len (im_width i) (im_height i) > ucast remaining"
  shows "icon_loop pref remaining (icon_words i @ rest) best =
     (let next = choose_icon pref (im_width i) (im_height i) (icon_words i @ rest) best
      in if ic_width next = pref \<and> ic_height next = pref then Some next
         else icon_loop pref (remaining - ucast (icon_expected_len (im_width i) (im_height i)))
                (drop (unat (icon_expected_len (im_width i) (im_height i)) div 4) (icon_words i @ rest)) next)"
  using assms by (subst icon_loop.simps) (simp add: icon_words_def Let_def)

lemma icon_loop_picks:
  assumes "\<forall>i \<in> set is. icon_ok i" and "4 * length (concat (map icon_words is)) < 2 ^ 32"
    and "represents cur best"
  shows "\<exists>best'. icon_loop pref (of_nat (4 * length (concat (map icon_words is)))) (concat (map icon_words is)) best = Some best' \<and>
           represents (pick_icon pref cur is) best'"
  using assms
proof (induction "is" arbitrary: cur best)
  case Nil
  then show ?case by (simp add: icon_loop.simps)
next
  case (Cons i "is")
  let ?rest = "concat (map icon_words is)"
  let ?t = "take_icon pref i cur"
  let ?next = "choose_icon pref (im_width i) (im_height i) (icon_words i @ ?rest) best"
  have head: "length (icon_words i) = length (im_pixels i) + 2" by (simp add: icon_words_def)
  have ok: "icon_ok i" and fits: "4 * (length (im_pixels i) + 2) + 4 * length ?rest < 2 ^ 32"
    using Cons.prems(1,2) by (simp_all add: head)
  then have small: "4 * (length (im_pixels i) + 2) < 2 ^ 32" by simp
  note len = icon_length [OF ok small]
  let ?total = "4 * (length (im_pixels i) + 2) + 4 * length ?rest"
  have remaining: "unat (of_nat ?total :: u32) = ?total"
    by (rule unat_of_nat_small) (use fits in simp)
  have more: "(of_nat ?total :: u32) > 8"
    unfolding word_less_nat_alt remaining using len(4) by simp
  have within: "\<not> icon_expected_len (im_width i) (im_height i) > ucast (of_nat ?total :: u32)"
  proof -
    have "unat (ucast (of_nat ?total :: u32) :: 64 word) = ?total"
      using fits by (simp only: unsigned_ucast_eq remaining) (simp add: take_bit_nat_eq_self)
    then show ?thesis by (simp add: word_less_nat_alt len(2))
  qed
  have minus: "of_nat ?total - ucast (icon_expected_len (im_width i) (im_height i)) = (of_nat (4 * length ?rest) :: u32)"
  proof -
    have "(ucast (of_nat (4 * (length (im_pixels i) + 2)) :: 64 word) :: u32) = of_nat (4 * (length (im_pixels i) + 2))"
      by (metis len(1,2) of_nat_unat)
    then show ?thesis by (simp only: len(1) of_nat_add) simp
  qed
  have drop: "drop (unat (icon_expected_len (im_width i) (im_height i)) div 4) (icon_words i @ ?rest) = ?rest"
    by (simp add: len(2) icon_words_def)
  have next_ok: "represents (Some ?t) ?next" by (rule choose_represents [OF Cons.prems(3) ok small])
  then have exact: "ic_width ?next = pref \<and> ic_height ?next = pref \<longleftrightarrow> exact_icon pref ?t"
    by (simp add: represents_def exact_icon_def)
  have nz: "im_width i \<noteq> 0" "im_height i \<noteq> 0" using ok by (simp_all add: icon_ok_def)
  have total: "4 * length (concat (map icon_words (i # is))) = ?total" by (simp add: head)
  have step: "icon_loop pref (of_nat ?total) (icon_words i @ ?rest) best =
      (if exact_icon pref ?t then Some ?next else icon_loop pref (of_nat (4 * length ?rest)) ?rest ?next)"
    by (simp only: icon_loop_step [OF more nz within] minus drop exact Let_def)
  have "\<exists>best'. icon_loop pref (of_nat (4 * length ?rest)) ?rest ?next = Some best' \<and>
      represents (pick_icon pref (Some ?t) is) best'"
    by (rule Cons.IH [OF _ _ next_ok]) (use Cons.prems(1) fits in simp_all)
  then have "\<exists>best'. icon_loop pref (of_nat ?total) (icon_words i @ ?rest) best = Some best' \<and>
      represents (pick_icon pref cur (i # is)) best'"
    unfolding step using next_ok by (cases "exact_icon pref ?t") simp_all
  then show ?case unfolding total by simp
qed

lemma window_icon_chosen:
  assumes "is \<noteq> []" and "\<forall>i \<in> set is. icon_ok i" and "4 * length (concat (map icon_words is)) < 2 ^ 32"
  shows "\<exists>i \<in> set is.
     window_update_icon pref (Some (concat (map icon_words is))) w =
       Some (Icon (im_width i) (im_height i) (map premultiplied (im_pixels i)), w\<lparr>w_name_x_changed := True\<rparr>) \<and>
     (\<forall>j \<in> set is. (exact_icon pref j \<longrightarrow> exact_icon pref i) \<and> (large_icon pref j \<longrightarrow> large_icon pref i))"
proof -
  obtain i where i: "pick_icon pref None is = Some i" using pick_icon_found [of None "is" pref] assms(1) by blast
  have "represents None \<lparr>ic_len = 0, ic_width = 0, ic_height = 0, ic_data = None\<rparr>" by (simp add: represents_def)
  from icon_loop_picks [OF assms(2,3) this, of pref] obtain best where
    best: "icon_loop pref (of_nat (4 * length (concat (map icon_words is)))) (concat (map icon_words is))
             \<lparr>ic_len = 0, ic_width = 0, ic_height = 0, ic_data = None\<rparr> = Some best"
    and "represents (Some i) best"
    using i by auto
  then obtain rest where r: "unat (ic_len best) = length (im_pixels i)" "ic_width best = im_width i"
      "ic_height best = im_height i" "ic_data best = Some (icon_words i @ rest)"
    by (auto simp: represents_def)
  have "i \<in> set is" using pick_icon_in [OF i] by simp
  moreover have "window_update_icon pref (Some (concat (map icon_words is))) w =
      Some (Icon (im_width i) (im_height i) (map premultiplied (im_pixels i)), w\<lparr>w_name_x_changed := True\<rparr>)"
    unfolding window_update_icon_def option.case best by (simp add: r icon_words_def)
  ultimately show ?thesis using pick_icon_best [OF i] by auto
qed

end
