(* ===== verification/Manage.thy ===== *)
theory Manage
  imports Restore_Layout Window_Icon Startup
begin

text \<open>
  Managing windows: \<^verbatim>\<open>src/manage.c\<close>. The replies of the X server about a window are the record
  \<open>manage_replies\<close>; requests that only concern the server (event masks, grabs, the save set, frames) are
  left out. The parameters of the modelled functions are collected in \<open>manage_env\<close>. Where a pointer that
  is NULL is dereferenced, the steps have the value \<^const>\<open>None\<close>, and the whole is an aborted state.
\<close>

record window_attributes =
  at_viewable :: bool
  at_override_redirect :: bool
  at_depth :: nat

record manage_replies =
  mr_attributes :: "window_attributes option"
  mr_geometry :: "geometry_reply option"
  mr_event_mask_ok :: bool
  mr_class :: "string option"
  mr_title :: "string option"
  mr_utf8_title :: "string option"
  mr_role :: "string option"
  mr_startup_id :: "string option"
  mr_machine :: "string option"
  mr_icon :: "u32 list option"
  mr_leader :: "u32 list option"
  mr_transient :: "u32 list option"
  mr_strut :: "u32 list option"
  mr_motif :: "u32 list option"
  mr_type :: "u32 list option"
  mr_state :: "u32 list option"
  mr_wm_desktop :: "u32 list option"
  mr_user_time :: "u32 list option"
  mr_hints :: "wm_hints option"
  mr_normal_hints :: "size_hints option"
  mr_take_focus :: bool
  mr_reparent_ok :: bool
  mr_shaped :: bool

text \<open>\<open>mv_leader_id\<close> is the startup id in the properties of other windows, \<open>mv_escape\<close> the escaping of Pango
  markup, \<open>mv_icon_size\<close> the preferred size of icons.\<close>

record manage_env =
  mv_regex :: regex_lib
  mv_parse_command :: "string \<Rightarrow> wm \<Rightarrow> bool \<times> wm"
  mv_atom :: "string \<Rightarrow> u32"
  mv_root_screen :: Rect
  mv_leader_id :: "u32 \<Rightarrow> string option"
  mv_escape :: "string \<Rightarrow> string"
  mv_icon_size :: u32

definition blank_window :: i3Window where
  "blank_window =
     \<lparr>w_id = 0, w_transient_for = 0, w_leader = 0, w_nr_assignments = 0, w_ran_assignments = [],
      w_class_class = None, w_class_instance = None, w_name = None, w_role = None, w_machine = None,
      w_name_x_changed = False, w_uses_net_wm_name = False, w_needs_take_focus = False,
      w_doesnt_accept_focus = False, w_window_type = 0, w_wm_desktop = 0, w_dock = W_NODOCK,
      w_urgent = \<lparr>tv_sec = 0, tv_usec = 0\<rparr>,
      w_reserved = \<lparr>res_left = 0, res_right = 0, res_top = 0, res_bottom = 0\<rparr>, w_depth = 0,
      w_base_width = 0, w_base_height = 0, w_width_increment = 0, w_height_increment = 0,
      w_min_width = 0, w_min_height = 0, w_max_width = 0, w_max_height = 0,
      w_min_aspect_ratio = 0, w_max_aspect_ratio = 0, w_shaped = False, w_input_shaped = False,
      w_managed_since = 0, w_swallowed = False\<rparr>"

subsection \<open>Reading the properties\<close>

record window_info =
  wi_window :: i3Window
  wi_urgency :: bool
  wi_border :: "border_style_t option"
  wi_geometry :: geometry_reply

definition read_strings :: "manage_env \<Rightarrow> wm \<Rightarrow> manage_replies \<Rightarrow> i3Window \<Rightarrow> i3Window" where
  "read_strings ev s r w =
     (let w = window_update_class (mr_class r) w;
          w = snd (window_update_name_legacy (mv_escape ev) s (mr_title r) w)
      in snd (window_update_name (mv_escape ev) s (mr_utf8_title r) w))"

definition read_desktop :: "u32 list option \<Rightarrow> u32" where
  "read_desktop prop = (case prop of None \<Rightarrow> NET_WM_DESKTOP_NONE | Some [] \<Rightarrow> NET_WM_DESKTOP_NONE | Some (d # _) \<Rightarrow> d)"

definition read_hints :: "manage_env \<Rightarrow> manage_replies \<Rightarrow> geometry_reply \<Rightarrow> i3Window \<Rightarrow> window_info option" where
  "read_hints ev r geom w =
     (let w = window_update_transient_for (mr_transient r) (window_update_leader (mr_leader r) w)
      in case window_update_strut_partial (mr_strut r) w of
           None \<Rightarrow> None
         | Some w \<Rightarrow>
             (case (window_update_hints (mr_hints r) (window_update_role (mr_role r) w), window_update_motif_hints (mr_motif r)) of
                (_, None) \<Rightarrow> None
              | ((urgency, w), Some border) \<Rightarrow>
                  (case window_update_normal_hints (mr_normal_hints r) (Some geom) w of
                     (_, g, w) \<Rightarrow>
                       Some \<lparr>wi_window = (window_update_machine (mr_machine r) w)
                               \<lparr>w_wm_desktop := read_desktop (mr_wm_desktop r), w_needs_take_focus := mr_take_focus r,
                                w_window_type := xcb_get_preferred_window_type (mv_atom ev) (mr_type r)\<rparr>,
                             wi_urgency = urgency, wi_border = border,
                             wi_geometry = (case g of None \<Rightarrow> geom | Some g \<Rightarrow> g)\<rparr>)))"

text \<open>The outer \<^const>\<open>None\<close>: the loop over the icons does not end.\<close>

definition read_window :: "manage_env \<Rightarrow> wm \<Rightarrow> u32 \<Rightarrow> nat \<Rightarrow> manage_replies \<Rightarrow> geometry_reply \<Rightarrow> window_info option option" where
  "read_window ev s wid depth r geom =
     map_option (\<lambda>(icon, w). if icon = Reads_Outside then None else read_hints ev r geom w)
       (window_update_icon (mv_icon_size ev) (mr_icon r)
          (read_strings ev s r (blank_window\<lparr>w_id := wid, w_depth := depth\<rparr>)))"

definition has_type :: "manage_env \<Rightarrow> manage_replies \<Rightarrow> string \<Rightarrow> bool" where
  "has_type ev r name \<longleftrightarrow> xcb_reply_contains_atom (mr_type r) (mv_atom ev (''_NET_WM_WINDOW_TYPE_'' @ name))"

definition has_state :: "manage_env \<Rightarrow> manage_replies \<Rightarrow> string \<Rightarrow> bool" where
  "has_state ev r name \<longleftrightarrow> xcb_reply_contains_atom (mr_state r) (mv_atom ev (''_NET_WM_STATE_'' @ name))"

text \<open>Where the search for a container starts, and the position of a dock window.\<close>

definition dock_position :: "wm \<Rightarrow> con_id \<Rightarrow> geometry_reply \<Rightarrow> i3Window \<Rightarrow> dock_t" where
  "dock_position s search_at geom w =
     (let top_px = res_top (w_reserved w); bottom_px = res_bottom (w_reserved w)
      in if top_px > 0 \<and> bottom_px = 0 then W_DOCK_TOP
         else if top_px = 0 \<and> bottom_px > 0 then W_DOCK_BOTTOM
         else if sint (ge_y geom) < sint (ucast (rect_height (rect (store s search_at)) div 2) :: 16 word)
         then W_DOCK_TOP else W_DOCK_BOTTOM)"

definition search_start :: "manage_env \<Rightarrow> wm \<Rightarrow> manage_replies \<Rightarrow> geometry_reply \<Rightarrow> i3Window \<Rightarrow> con_id \<times> i3Window" where
  "search_start ev s r geom w =
     (if \<not> has_type ev r ''DOCK'' then (croot s, w)
      else
        let search_at = (case get_output_containing s (scast (ge_x geom)) (scast (ge_y geom)) of
                           None \<Rightarrow> croot s | Some out \<Rightarrow> o_con out)
        in (search_at, w\<lparr>w_dock := dock_position s search_at geom w\<rparr>))"

subsection \<open>Choosing a container\<close>

text \<open>A new container at the focus of a workspace.\<close>

definition open_on_workspace :: "con_id \<Rightarrow> i3Window \<Rightarrow> wm \<Rightarrow> con_id option \<times> wm" where
  "open_on_workspace ws w s =
     (let d = con_descend_tiling_focused s ws
      in if kind s d = CT_WORKSPACE then tree_open_con (Some d) (Some w) s
         else tree_open_con (parent_of s d) (Some w) s)"

definition assigned_workspace :: "manage_env \<Rightarrow> i3Window \<Rightarrow> wm \<Rightarrow> Assignment option option" where
  "assigned_workspace ev w s =
     (case assignment_for (mv_regex ev) s w [A_TO_WORKSPACE] of
        Some None \<Rightarrow> assignment_for (mv_regex ev) s w [A_TO_WORKSPACE_NUMBER]
      | found \<Rightarrow> found)"

definition open_assigned :: "Assignment \<Rightarrow> i3Window \<Rightarrow> bool \<Rightarrow> wm \<Rightarrow> (con_id \<times> bool \<times> wm) option" where
  "open_assigned a w urgency s =
     (let by_num = (if asg_type a = A_TO_WORKSPACE_NUMBER
                    then get_existing_workspace_by_num s (ws_name_to_number (asg_dest a)) else None)
      in case (case by_num of Some ws \<Rightarrow> (Some ws, s) | None \<Rightarrow> workspace_get (asg_dest a) s) of
           (None, s) \<Rightarrow> None
         | (Some ws, s) \<Rightarrow>
             (case open_on_workspace ws w s of
                (Some nc, s) \<Rightarrow>
                  map_option (\<lambda>visible. (nc, urgency \<or> \<not> visible, s)) (workspace_is_visible s ws)
              | (None, s) \<Rightarrow> None))"

definition open_default :: "i3Window \<Rightarrow> wm \<Rightarrow> (con_id \<times> wm) option" where
  "open_default w s =
     (case focused s of
        None \<Rightarrow> None
      | Some f \<Rightarrow>
          if kind s f = CT_CON \<and> con_accepts_window s f then Some (f, s)
          else (case tree_open_con None (Some w) s of (Some nc, s) \<Rightarrow> Some (nc, s) | (None, s) \<Rightarrow> None))"

definition opened :: "con_id option \<times> wm \<Rightarrow> (con_id \<times> wm) option" where
  "opened r = map_option (\<lambda>nc. (nc, snd r)) (fst r)"

definition open_unassigned :: "i3Window \<Rightarrow> string option \<Rightarrow> wm \<Rightarrow> (con_id \<times> wm) option" where
  "open_unassigned w startup_ws s =
     (case (if w_wm_desktop w \<noteq> NET_WM_DESKTOP_NONE \<and> w_wm_desktop w \<noteq> NET_WM_DESKTOP_ALL
            then ewmh_get_workspace_by_index s (w_wm_desktop w) else Some None) of
        None \<Rightarrow> None
      | Some (Some ws) \<Rightarrow> opened (open_on_workspace ws w s)
      | Some None \<Rightarrow>
          (case startup_ws of
             None \<Rightarrow> open_default w s
           | Some name \<Rightarrow>
               (case workspace_get name s of
                  (Some ws, s) \<Rightarrow> opened (open_on_workspace ws w s)
                | (None, s) \<Rightarrow> None)))"

definition open_new :: "manage_env \<Rightarrow> i3Window \<Rightarrow> string option \<Rightarrow> bool \<Rightarrow> wm \<Rightarrow> (con_id \<times> bool \<times> wm) option" where
  "open_new ev w startup_ws urgency s =
     Option.bind (assigned_workspace ev w s) (\<lambda>a.
     Option.bind (case a of
           Some a \<Rightarrow> open_assigned a w urgency s
         | None \<Rightarrow> map_option (\<lambda>(nc, s). (nc, urgency, s)) (open_unassigned w startup_ws s)) (\<lambda>(nc, urgency, s).
     map_option (\<lambda>a. (nc, urgency, case a of None \<Rightarrow> s | Some a \<Rightarrow> snd (con_move_to_output_name nc (asg_dest a) True s)))
       (assignment_for (mv_regex ev) s w [A_TO_OUTPUT])))"

text \<open>A container that swallows the window: \<open>M_BELOW\<close> opens a child, else the criterion is used up.\<close>

definition swallow_into :: "con_id \<Rightarrow> Match \<Rightarrow> i3Window \<Rightarrow> wm \<Rightarrow> (con_id \<times> wm) option" where
  "swallow_into nc m w s =
     (if ma_insert_where m = M_BELOW then opened (tree_open_con (Some nc) (Some w) s)
      else Some (nc, upd_con nc (\<lambda>k. k\<lparr>swallow_head := remove1 m (swallow_head k)\<rparr>) s))"

record placement =
  pm_con :: con_id
  pm_window :: i3Window
  pm_urgency :: bool
  pm_restart_mode :: bool
  pm_wm :: wm

definition choose_con :: "manage_env \<Rightarrow> con_id \<Rightarrow> i3Window \<Rightarrow> string option \<Rightarrow> bool \<Rightarrow> wm \<Rightarrow> placement option" where
  "choose_con ev search_at w startup_ws urgency s =
     (case con_for_window (mv_regex ev) s search_at w of
        None \<Rightarrow> None
      | Some None \<Rightarrow>
          map_option (\<lambda>(nc, urgency, s).
              \<lparr>pm_con = nc, pm_window = w, pm_urgency = urgency, pm_restart_mode = False, pm_wm = s\<rparr>)
            (open_new ev w startup_ws urgency s)
      | Some (Some (nc, m)) \<Rightarrow>
          map_option (\<lambda>(nc, s).
              \<lparr>pm_con = nc, pm_window = w\<lparr>w_swallowed := True\<rparr>, pm_urgency = urgency,
               pm_restart_mode = ma_restart_mode m, pm_wm = s\<rparr>)
            (swallow_into nc m w s))"

text \<open>A container that had a placeholder gives it up, with the rest of its criteria.\<close>

definition take_over :: "con_id \<Rightarrow> i3Window \<Rightarrow> geometry_reply \<Rightarrow> restore_state \<Rightarrow> restore_state" where
  "take_over nc w geom r =
     (let r = (case window (store (rs_wm r) nc) of
            None \<Rightarrow> r
          | Some old \<Rightarrow>
              if w_id old = w_id w then r
              else (case restore_kill_placeholder (w_id old) r of
                  (killed, r) \<Rightarrow>
                    if killed then on_rs (upd_con nc (\<lambda>k. k\<lparr>swallow_head := []\<rparr>)) r else r))
      in on_rs (upd_con nc (\<lambda>k. k\<lparr>window := Some w, border_width := uint (ge_border_width geom)\<rparr>)) r)"

subsection \<open>Fullscreen and focus\<close>

text \<open>The fullscreen container that covers the workspace of the new one, and a fullscreen window going
  to the output it spans.\<close>

definition geometry_rect :: "geometry_reply \<Rightarrow> Rect" where
  "geometry_rect g = \<lparr>rect_x = scast (ge_x g), rect_y = scast (ge_y g),
                      rect_width = ucast (ge_width g), rect_height = ucast (ge_height g)\<rparr>"

definition enter_fullscreen :: "con_id \<Rightarrow> con_id option \<Rightarrow> geometry_reply \<Rightarrow> wm \<Rightarrow> wm" where
  "enter_fullscreen nc fs geom s =
     (if fs = Some nc then s
      else
        let s = (case get_output_with_dimensions s (geometry_rect geom) of
                   None \<Rightarrow> s | Some out \<Rightarrow> con_move_to_output nc out False s)
        in con_toggle_fullscreen nc CF_OUTPUT s)"

text \<open>\<^const>\<open>None\<close>: the output of the focus or the workspace is NULL where it is read.\<close>

definition may_focus :: "con_id option \<Rightarrow> bool \<Rightarrow> i3Window \<Rightarrow> wm \<Rightarrow> bool option" where
  "may_focus ws restart_mode w s =
     (if w_dock w \<noteq> W_NODOCK then Some False
      else Option.bind ws (\<lambda>ws. Option.bind (Option.bind (focused s) (con_get_output s)) (\<lambda>current.
             Option.bind (con_get_output s ws) (\<lambda>target.
               map_option (\<lambda>visible. visible \<and> current = target \<and> \<not> restart_mode) (workspace_is_visible s ws)))))"

text \<open>Behind a fullscreen container the new one becomes the second of its focus stack.\<close>

definition behind_fullscreen :: "con_id \<Rightarrow> wm \<Rightarrow> wm" where
  "behind_fullscreen nc s =
     with_con (parent_of s nc) (\<lambda>p s.
       case foci s p of
         [] \<Rightarrow> s
       | first # _ \<Rightarrow>
           if first = nc then s
           else upd_con p (\<lambda>k. k\<lparr>focus_head := tailq_insert_after first nc (remove1 nc (focus_head k))\<rparr>) s) s"

subsection \<open>Floating\<close>

definition is_dialog :: "manage_env \<Rightarrow> manage_replies \<Rightarrow> i3Window \<Rightarrow> bool" where
  "is_dialog ev r w \<longleftrightarrow>
     has_type ev r ''DIALOG'' \<or> has_type ev r ''UTILITY'' \<or> has_type ev r ''TOOLBAR'' \<or>
     has_type ev r ''NOTIFICATION'' \<or> has_type ev r ''SPLASH'' \<or> has_state ev r ''MODAL'' \<or>
     (w_max_width w > 0 \<and> w_max_height w > 0 \<and> w_min_height w = w_max_height w \<and> w_min_width w = w_max_width w)"

definition is_transient :: "wm \<Rightarrow> i3Window \<Rightarrow> bool" where
  "is_transient s w \<longleftrightarrow>
     w_transient_for w \<noteq> 0 \<or>
     (w_leader w \<noteq> 0 \<and> w_leader w \<noteq> w_id w \<and> con_by_window_id s (w_leader w) \<noteq> None)"

definition on_all_desktops :: "wm \<Rightarrow> con_id option \<Rightarrow> i3Window \<Rightarrow> bool" where
  "on_all_desktops s ws w \<longleftrightarrow>
     w_wm_desktop w = NET_WM_DESKTOP_ALL \<and> (case ws of None \<Rightarrow> True | Some ws \<Rightarrow> \<not> con_is_internal s ws)"

text \<open>A transient window and the fullscreen container: whether to focus, and the state.\<close>

definition popup_rule :: "con_id \<Rightarrow> con_id option \<Rightarrow> bool \<Rightarrow> wm \<Rightarrow> bool \<times> wm" where
  "popup_rule nc fs set_focus s =
     (case fs of
        None \<Rightarrow> (set_focus, s)
      | Some f \<Rightarrow>
          if cfg_popup_during_fullscreen (cfg s) = PDF_LEAVE_FULLSCREEN then (set_focus, con_disable_fullscreen f s)
          else if cfg_popup_during_fullscreen (cfg s) = PDF_SMART then
            (case window (store s f) of
               None \<Rightarrow> (set_focus, s)
             | Some fw \<Rightarrow> (con_find_transient_for_window s (Some nc) (w_id fw), s))
          else (set_focus, s))"

record floating_choice =
  fc_want :: bool
  fc_focus :: bool
  fc_wm :: wm

definition choose_floating ::
  "manage_env \<Rightarrow> manage_replies \<Rightarrow> con_id \<Rightarrow> con_id option \<Rightarrow> con_id option \<Rightarrow> i3Window \<Rightarrow> bool \<Rightarrow> wm \<Rightarrow> floating_choice" where
  "choose_floating ev r nc ws fs w set_focus s =
     (let s = (if has_state ev r ''STICKY'' then upd_con nc (\<lambda>k. k\<lparr>sticky := True\<rparr>) s else s);
          everywhere = on_all_desktops s ws w;
          s = (if everywhere then upd_con nc (\<lambda>k. k\<lparr>sticky := True\<rparr>) s else s);
          transient = is_transient s w
      in case (if transient then popup_rule nc fs set_focus s else (set_focus, s)) of
           (set_focus, s) \<Rightarrow>
             let want = ((is_dialog ev r w \<or> everywhere \<or> transient) \<and> w_dock w = W_NODOCK)
             in \<lparr>fc_want = want,
                 fc_focus = (set_focus \<or> cfg_popup_during_fullscreen (cfg s) = PDF_ALL \<and> want \<and> fs \<noteq> None),
                 fc_wm = s\<rparr>)"

definition apply_floating :: "manage_env \<Rightarrow> con_id \<Rightarrow> bool \<Rightarrow> border_style_t option \<Rightarrow> geometry_reply \<Rightarrow> wm \<Rightarrow> wm" where
  "apply_floating ev nc want border geom s =
     (let s = (if rect_width (geometry (store s nc)) = 0
               then upd_con nc (\<lambda>k. k\<lparr>geometry := geometry_rect geom\<rparr>) s else s);
          s = (if want then (case floating_enable (mv_root_screen ev) nc True s of
                 (ok, s) \<Rightarrow> if ok then upd_con nc (\<lambda>k. k\<lparr>floating := FLOATING_AUTO_ON\<rparr>) s else s) else s);
          default_width = (if want then cfg_default_floating_border_width (cfg s) else cfg_default_border_width (cfg s));
          s = (case border of None \<Rightarrow> s | Some style \<Rightarrow> con_set_border_style nc style default_width s)
      in if current_border_width (store s nc) = - 1
         then upd_con nc (\<lambda>k. k\<lparr>current_border_width := default_width\<rparr>) s else s)"

subsection \<open>Finishing\<close>

text \<open>An invisible workspace is rendered with the size of its parent.\<close>

definition render_invisible :: "con_id option \<Rightarrow> bool \<Rightarrow> wm \<Rightarrow> (bool \<times> wm) option" where
  "render_invisible ws set_focus s =
     (case ws of
        None \<Rightarrow> Some (set_focus, s)
      | Some ws \<Rightarrow>
          (case workspace_is_visible s ws of
             None \<Rightarrow> None
           | Some True \<Rightarrow> Some (set_focus, s)
           | Some False \<Rightarrow>
               map_option (\<lambda>p. (False, render_con ws (upd_con ws (\<lambda>k. k\<lparr>rect := rect (store s p)\<rparr>) s)))
                 (parent_of s ws)))"

definition no_focus_rule :: "manage_env \<Rightarrow> con_id option \<Rightarrow> i3Window \<Rightarrow> bool \<Rightarrow> wm \<Rightarrow> bool option" where
  "no_focus_rule ev ws w set_focus s =
     (if \<not> set_focus then Some False
      else map_option (\<lambda>a. a = None \<or> con_num_windows s ws = 1) (assignment_for (mv_regex ev) s w [A_NO_FOCUS]))"

definition user_time_forbids :: "u32 list option \<Rightarrow> bool" where
  "user_time_forbids prop \<longleftrightarrow> (case prop of Some (t # _) \<Rightarrow> t = 0 | _ \<Rightarrow> False)"

definition forget_wm_desktop :: "con_id \<Rightarrow> wm \<Rightarrow> wm" where
  "forget_wm_desktop nc =
     upd_con nc (\<lambda>k. k\<lparr>window := map_option (\<lambda>w. w\<lparr>w_wm_desktop := NET_WM_DESKTOP_NONE\<rparr>) (window k)\<rparr>)"

text \<open>\<open>ewmh_update_wm_desktop\<close> without the requests it makes.\<close>

definition update_wm_desktop :: "wm \<Rightarrow> wm" where
  "update_wm_desktop s =
     eh_wm (ewmh_update_wm_desktop
       \<lparr>eh_wm = s, eh_root = 0, eh_window = 0, eh_current = NET_WM_DESKTOP_NONE, eh_number = 0, eh_sent = []\<rparr>)"

definition finish_managing ::
  "manage_env \<Rightarrow> manage_replies \<Rightarrow> con_id \<Rightarrow> u32 \<Rightarrow> bool \<Rightarrow> bool \<Rightarrow> wm \<Rightarrow> wm option" where
  "finish_managing ev r nc wid set_focus urgency s =
     (let s = upd_con nc (\<lambda>k. k\<lparr>window := map_option (\<lambda>w. w\<lparr>w_shaped := mr_shaped r\<rparr>) (window k)\<rparr>) s;
          s = run_assignments (mv_regex ev) (mv_parse_command ev) (window (store s nc)) s;
          ws = con_get_workspace s nc
      in Option.bind (render_invisible ws set_focus s) (\<lambda>(set_focus, s).
         let s = render_con (croot s) s;
             s = upd_con nc (\<lambda>k. k\<lparr>window := map_option (\<lambda>w. w\<lparr>w_managed_since := time_now s\<rparr>) (window k)\<rparr>) s;
             s = ipc_send (Window_Event ''new'' nc) s
         in Option.bind (window (store s nc)) (\<lambda>w.
            map_option (\<lambda>set_focus.
                let set_focus = (set_focus \<and> \<not> user_time_forbids (mr_user_time r) \<and>
                                 \<not> (w_doesnt_accept_focus w \<and> \<not> w_needs_take_focus w));
                    s = (if set_focus \<and> mapped (store s nc) then con_activate nc s else s);
                    s = con_set_urgency nc urgency (tree_render s);
                    s = update_wm_desktop (forget_wm_desktop nc s)
                in output_push_sticky_windows (focused s) s)
              (no_focus_rule ev ws w set_focus s))))"

text \<open>Everything after the container has been chosen.\<close>

definition settle :: "manage_env \<Rightarrow> manage_replies \<Rightarrow> window_info \<Rightarrow> con_id \<Rightarrow> bool \<Rightarrow> bool \<Rightarrow> wm \<Rightarrow> wm option" where
  "settle ev r info nc restart_mode urgency s =
     (let geom = wi_geometry info;
          ws = con_get_workspace s nc;
          fs0 = con_get_fullscreen_covering_ws s ws;
          full = has_state ev r ''FULLSCREEN'';
          s = (if full then enter_fullscreen nc fs0 geom s else s);
          fs = (if full then None else fs0)
      in case window (store s nc) of
           None \<Rightarrow> None
         | Some w \<Rightarrow>
             (case (if fs = None then map_option (\<lambda>f. (f, s)) (may_focus ws restart_mode w s)
                    else Some (False, behind_fullscreen nc s)) of
                None \<Rightarrow> None
              | Some (set_focus, s) \<Rightarrow>
                  let fc = choose_floating ev r nc ws fs w set_focus s;
                      s = apply_floating ev nc (fc_want fc) (wi_border info) geom (fc_wm fc)
                  in if \<not> mr_reparent_ok r then Some s
                     else finish_managing ev r nc (w_id w) (fc_focus fc) urgency s))"

definition crash_rs :: "restore_state \<Rightarrow> restore_state" where
  "crash_rs = on_rs abort"

definition on_rs_option :: "(wm \<Rightarrow> wm option) \<Rightarrow> restore_state \<Rightarrow> restore_state" where
  "on_rs_option f r = (case f (rs_wm r) of None \<Rightarrow> crash_rs r | Some s \<Rightarrow> r\<lparr>rs_wm := s\<rparr>)"

definition manage_read :: "manage_env \<Rightarrow> manage_replies \<Rightarrow> window_info \<Rightarrow> restore_state \<Rightarrow> restore_state" where
  "manage_read ev r info rs =
     (case startup_workspace_for_window (wi_window info) (mr_startup_id r) (mv_leader_id ev) (rs_wm rs) of
        (startup_ws, s) \<Rightarrow>
          (case search_start ev s r (wi_geometry info) (wi_window info) of
             (search_at, w) \<Rightarrow>
               (case choose_con ev search_at w startup_ws (wi_urgency info) s of
                  None \<Rightarrow> crash_rs rs
                | Some pm \<Rightarrow>
                    on_rs_option (settle ev r info (pm_con pm) (pm_restart_mode pm) (pm_urgency pm))
                      (take_over (pm_con pm) (pm_window pm) (wi_geometry info) (rs\<lparr>rs_wm := pm_wm pm\<rparr>)))))"

text \<open>\<open>manage_window\<close>; \<^const>\<open>None\<close>: it does not return.\<close>

definition manage_window ::
  "manage_env \<Rightarrow> u32 \<Rightarrow> manage_replies \<Rightarrow> bool \<Rightarrow> restore_state \<Rightarrow> restore_state option" where
  "manage_window ev wid r needs_to_be_mapped rs =
     (case (mr_attributes r, mr_geometry r) of
        (Some attr, Some geom) \<Rightarrow>
          if needs_to_be_mapped \<and> \<not> at_viewable attr \<or> at_override_redirect attr \<or>
             con_by_window_id (rs_wm rs) wid \<noteq> None \<or> \<not> mr_event_mask_ok r
          then Some rs
          else map_option (\<lambda>info. case info of None \<Rightarrow> crash_rs rs | Some info \<Rightarrow> manage_read ev r info rs)
                 (read_window ev (rs_wm rs) wid (at_depth attr) r geom)
      | _ \<Rightarrow> Some rs)"

definition manage_existing_windows ::
  "manage_env \<Rightarrow> (u32 \<times> manage_replies) list option \<Rightarrow> restore_state \<Rightarrow> restore_state option" where
  "manage_existing_windows ev tree rs =
     (case tree of
        None \<Rightarrow> Some rs
      | Some windows \<Rightarrow> fold (\<lambda>(wid, r) rs. Option.bind rs (manage_window ev wid r True)) windows (Some rs))"

subsection \<open>Swallowing again\<close>

definition placeholder_for_con :: "manage_env \<Rightarrow> wm \<Rightarrow> con_id \<Rightarrow> con_id option option" where
  "placeholder_for_con ev s con =
     (case window (store s con) of
        None \<Rightarrow> None
      | Some w \<Rightarrow>
          if w_swallowed w then Some None
          else map_option (\<lambda>hit.
              case hit of
                None \<Rightarrow> None
              | Some (nc, _) \<Rightarrow>
                  (case window (store s nc) of
                     None \<Rightarrow> None
                   | Some v \<Rightarrow> if nc = con \<or> w_managed_since v > w_managed_since w then None else Some nc))
            (con_for_window (mv_regex ev) s (croot s) w))"

definition remanage_window :: "manage_env \<Rightarrow> con_id \<Rightarrow> restore_state \<Rightarrow> con_id \<times> restore_state" where
  "remanage_window ev con r =
     (case placeholder_for_con ev (rs_wm r) con of
        None \<Rightarrow> (con, crash_rs r)
      | Some None \<Rightarrow>
          (con, on_rs (\<lambda>s. run_assignments (mv_regex ev) (mv_parse_command ev) (window (store s con)) s) r)
      | Some (Some nc) \<Rightarrow>
          (case window (store (rs_wm r) nc) of
             None \<Rightarrow> (nc, crash_rs r)
           | Some v \<Rightarrow>
               (case restore_kill_placeholder (w_id v) r of
                  (killed, r) \<Rightarrow>
                    let r = (if killed then on_rs (upd_con nc (\<lambda>k. k\<lparr>swallow_head := []\<rparr>)) r else r);
                        moved = (con_get_workspace (rs_wm r) nc \<noteq> con_get_workspace (rs_wm r) con);
                        r = on_rs (con_merge_into con nc) r;
                        r = on_rs (\<lambda>s. run_assignments (mv_regex ev) (mv_parse_command ev) (window (store s nc)) s) r;
                        r = (if moved then on_rs (\<lambda>s. case window (store s nc) of
                                 None \<Rightarrow> abort s
                               | Some w \<Rightarrow> update_wm_desktop (startup_sequence_delete_by_window w (mv_leader_id ev) s)) r
                             else r)
                    in (nc, on_rs (upd_con nc (\<lambda>k. k\<lparr>window := map_option (\<lambda>w. w\<lparr>w_swallowed := True\<rparr>) (window k)\<rparr>)) r))))"

text \<open>\<open>restore_geometry\<close>: where each window goes before the program exits, and its size.\<close>

definition restore_geometry :: "wm \<Rightarrow> (u32 \<times> Rect \<times> u32 \<times> u32) list" where
  "restore_geometry s =
     concat (map (\<lambda>c. case window (store s c) of
         None \<Rightarrow> []
       | Some w \<Rightarrow>
           let k = store s c; b = word_of_int (2 * border_width k)
           in [(w_id w, (window_rect k)\<lparr>rect_width := rect_width (window_rect k) + b,
                                        rect_height := rect_height (window_rect k) + b\<rparr>,
                rect_x (rect k), rect_y (rect k))]) (all_cons s))"

end
