(* ===== verification/Json.thy ===== *)
theory Json
  imports I3_Util
begin

text \<open>
  JSON values and the events of the YAJL parser (\<^verbatim>\<open>yajl_callbacks\<close>), between the generator of
  \<^verbatim>\<open>src/ipc.c\<close> and the readers of \<^verbatim>\<open>src/load_layout.c\<close>: YAJL itself is not modelled. \<open>null\<close> has no
  callback in the program.
\<close>

datatype json =
    J_Null
  | J_Bool bool
  | J_Int int
  | J_Double real
  | J_String string
  | J_Array "json list"
  | J_Map "(string \<times> json) list"

datatype json_event =
    E_Null
  | E_Bool bool
  | E_Int int
  | E_Double real
  | E_String string
  | E_Key string
  | E_Start_Map
  | E_End_Map
  | E_Start_Array
  | E_End_Array

primrec events_of :: "json \<Rightarrow> json_event list" where
  "events_of J_Null = [E_Null]"
| "events_of (J_Bool b) = [E_Bool b]"
| "events_of (J_Int i) = [E_Int i]"
| "events_of (J_Double r) = [E_Double r]"
| "events_of (J_String str) = [E_String str]"
| "events_of (J_Array js) = E_Start_Array # concat (map events_of js) @ [E_End_Array]"
| "events_of (J_Map kvs) = E_Start_Map # concat (map (\<lambda>(k, es). E_Key k # es) (map (map_prod id events_of) kvs)) @ [E_End_Map]"

end
