(* ===== verification/Load_Layout.thy ===== *)
theory Load_Layout
  imports Json Restore_Layout Commands_Layout
begin

text \<open>
  Restoring a layout: \<^verbatim>\<open>src/load_layout.c\<close>. The static variables of the file are the record \<open>loader\<close>; the
  callbacks are functions on it that say whether parsing goes on. The parser is a list of events and
  whether it ended without an error. \<open>old_id\<close> is a field of the containers that only this code reads,
  so it is a map here. Numbers that are no value of the enumeration they are stored into are not
  modelled: they set \<open>aborted\<close>.
\<close>

record loader =
  ld_wm :: wm
  ld_key :: "string option"
  ld_incomplete :: int
  ld_node :: "con_id option"
  ld_to_focus :: "con_id option"
  ld_gaps :: bool
  ld_swallows :: bool
  ld_rect :: bool
  ld_actual_deco_rect :: bool
  ld_deco_rect :: bool
  ld_window_rect :: bool
  ld_geometry :: bool
  ld_focus :: bool
  ld_marks :: bool
  ld_swallow_con :: "con_id option"
  ld_swallow_empty :: bool
  ld_pending :: "(string \<times> con_id) list"
  ld_mappings :: "int list"
  ld_old_id :: "con_id \<Rightarrow> int"

definition on_ld :: "(wm \<Rightarrow> wm) \<Rightarrow> loader \<Rightarrow> loader" where
  "on_ld f d = d\<lparr>ld_wm := f (ld_wm d)\<rparr>"

definition on_node :: "(con_id \<Rightarrow> wm \<Rightarrow> wm) \<Rightarrow> loader \<Rightarrow> loader" where
  "on_node f d = on_ld (with_con (ld_node d) f) d"

definition set_node :: "(con \<Rightarrow> con) \<Rightarrow> loader \<Rightarrow> loader" where
  "set_node f = on_node (\<lambda>c. upd_con c f)"

definition key_is :: "loader \<Rightarrow> string \<Rightarrow> bool" where
  "key_is d k \<longleftrightarrow> (case ld_key d of None \<Rightarrow> False | Some l \<Rightarrow> caseless_eq l k)"

definition parsing_rects :: "loader \<Rightarrow> bool" where
  "parsing_rects d \<longleftrightarrow> ld_rect d \<or> ld_actual_deco_rect d \<or> ld_deco_rect d \<or> ld_window_rect d \<or> ld_geometry d \<or> ld_gaps d"

text \<open>The criterion that is being read is the last of its container.\<close>

definition set_swallow :: "(Match \<Rightarrow> Match) \<Rightarrow> loader \<Rightarrow> loader" where
  "set_swallow f d =
     (on_ld (with_con (ld_swallow_con d) (\<lambda>c. upd_con c (\<lambda>k. k\<lparr>swallow_head :=
         (case swallow_head k of [] \<Rightarrow> [] | ms \<Rightarrow> butlast ms @ [f (last ms)])\<rparr>))) d)\<lparr>ld_swallow_empty := False\<rparr>"

subsection \<open>Maps\<close>

definition json_start_map :: "loader \<Rightarrow> loader" where
  "json_start_map d =
     (if ld_swallows d then
        (set_node (\<lambda>k. k\<lparr>swallow_head := swallow_head k @ [match_init\<lparr>ma_dock := M_DONTCHECK\<rparr>]\<rparr>) d)
          \<lparr>ld_swallow_con := ld_node d, ld_swallow_empty := True\<rparr>
      else if parsing_rects d then d
      else
        let up = (if key_is d ''floating_nodes'' then Option.bind (ld_node d) (con_get_workspace (ld_wm d)) else ld_node d)
        in (case con_new_skeleton None None (ld_wm d) of (new, s) \<Rightarrow>
              d\<lparr>ld_wm := upd_con new (\<lambda>k. k\<lparr>cname := [], parent := up\<rparr>) s, ld_node := Some new,
                ld_incomplete := ld_incomplete d + 1\<rparr>))"

text \<open>The name of a restored workspace: the first of \<open>base\<close>, \<open>base_1\<close>, \<open>base_2\<close> that is not taken.\<close>

primrec free_name :: "nat \<Rightarrow> wm \<Rightarrow> string \<Rightarrow> nat \<Rightarrow> string \<Rightarrow> string" where
  "free_name 0 s base cnt name = name"
| "free_name (Suc n) s base cnt name =
     (if get_existing_workspace_by_name s name = None then name
      else free_name n s base (cnt + 1) (base @ ''_'' @ print_nat cnt))"

definition finish_workspace :: "con_id \<Rightarrow> wm \<Rightarrow> wm" where
  "finish_workspace c s =
     (let base = (if cname (store s c) = [] then ''unnamed'' else cname (store s c));
          name = free_name (Suc (length (all_cons s))) s base 1 base
      in upd_con c (\<lambda>k. k\<lparr>cname := name, num := ws_name_to_number name\<rparr>) s)"

definition combine_children :: "con_id \<Rightarrow> wm \<Rightarrow> wm" where
  "combine_children c s =
     (if rect (store s c) \<noteq> zero_rect then s
      else fold (\<lambda>child s. upd_con c (\<lambda>k. k\<lparr>rect := (rect k)\<lparr>
               rect_width := rect_width (rect k) + rect_width (geometry (store s child)),
               rect_height := c_max (rect_height (rect k)) (rect_height (geometry (store s child)))\<rparr>\<rparr>) s)
             (nodes s c) s)"

definition finish_floating :: "Rect \<Rightarrow> con_id \<Rightarrow> wm \<Rightarrow> wm" where
  "finish_floating root_screen c s =
     with_con (parent_of s c) (\<lambda>p s.
       let s = upd_con c (\<lambda>k. k\<lparr>parent := con_get_workspace s p\<rparr>) s
       in floating_check_size root_screen c False (combine_children c s)) s"

text \<open>A floating node whose parent is no floating container is made floating.\<close>

definition repair_floating :: "Rect \<Rightarrow> con_id \<Rightarrow> wm \<Rightarrow> wm" where
  "repair_floating root_screen c s =
     (let mode = floating (store s c)
      in if mode \<ge> FLOATING_AUTO_ON then
           with_con (parent_of s c) (\<lambda>p s.
             if kind s p = CT_FLOATING_CON then s
             else upd_con c (\<lambda>k. k\<lparr>floating := mode\<rparr>)
                    (snd (floating_enable root_screen c False (upd_con c (\<lambda>k. k\<lparr>floating := FLOATING_AUTO_OFF\<rparr>) s)))) s
         else s)"

definition finish_node :: "Rect \<Rightarrow> con_id \<Rightarrow> (string \<times> con_id) list \<Rightarrow> wm \<Rightarrow> wm" where
  "finish_node root_screen c pending s =
     (let s = upd_con c (\<lambda>k. k\<lparr>layout := (if layout k = L_DEFAULT then L_SPLITH else layout k)\<rparr>) s;
          s = (if con_is_split s c then upd_con c (\<lambda>k. k\<lparr>swallow_head := []\<rparr>) s else s);
          s = (if kind s c = CT_WORKSPACE then finish_workspace c s else s);
          s = (if kind s c = CT_FLOATING_CON then finish_floating root_screen c s else s);
          s = fold (\<lambda>(m, con). con_mark con m MM_ADD) pending s
      in with_con (parent_of s c) (\<lambda>p s. repair_floating root_screen c (con_attach c p True s)) s)"

definition json_end_map :: "Rect \<Rightarrow> loader \<Rightarrow> bool \<times> loader" where
  "json_end_map root_screen d =
     (let d = (if ld_swallows d \<or> parsing_rects d then d
               else case ld_node d of
                   None \<Rightarrow> on_ld abort d
                 | Some c \<Rightarrow>
                     let s = finish_node root_screen c (ld_pending d) (ld_wm d)
                     in d\<lparr>ld_wm := s, ld_pending := [], ld_node := parent_of s c, ld_incomplete := ld_incomplete d - 1\<rparr>)
      in if ld_swallows d \<and> ld_swallow_empty d then (False, d)
         else (True, d\<lparr>ld_gaps := False, ld_rect := False, ld_actual_deco_rect := False, ld_deco_rect := False,
                       ld_window_rect := False, ld_geometry := False\<rparr>))"

subsection \<open>Arrays\<close>

text \<open>Reordering the focus stack: from the last remembered id to the first, the container that had it
  goes to the front.\<close>

definition focus_restored :: "(con_id \<Rightarrow> int) \<Rightarrow> int \<Rightarrow> con_id list \<Rightarrow> con_id list" where
  "focus_restored old_id i xs =
     (case find (\<lambda>c. old_id c = i) xs of None \<Rightarrow> xs | Some c \<Rightarrow> c # remove1 c xs)"

definition restore_focus_order :: "(con_id \<Rightarrow> int) \<Rightarrow> int list \<Rightarrow> con_id list \<Rightarrow> con_id list" where
  "restore_focus_order old_id mappings xs = foldr (focus_restored old_id) mappings xs"

definition json_end_array :: "loader \<Rightarrow> loader" where
  "json_end_array d =
     (let d = (if ld_swallows d \<or> ld_focus d \<or> ld_marks d then d else on_node con_fix_percent d);
          d = d\<lparr>ld_swallows := False, ld_marks := False\<rparr>
      in if ld_focus d
         then (set_node (\<lambda>k. k\<lparr>focus_head := restore_focus_order (ld_old_id d) (ld_mappings d) (focus_head k)\<rparr>) d)
                \<lparr>ld_mappings := [], ld_focus := False\<rparr>
         else d)"

subsection \<open>Keys\<close>

definition json_key :: "string \<Rightarrow> loader \<Rightarrow> loader" where
  "json_key k d =
     (let d = d\<lparr>ld_key := Some k\<rparr>;
          d = (if key_is d ''swallows'' then d\<lparr>ld_swallows := True\<rparr> else d);
          d = (if key_is d ''gaps'' then d\<lparr>ld_gaps := True\<rparr> else d);
          d = (if key_is d ''rect'' then d\<lparr>ld_rect := True\<rparr> else d);
          d = (if key_is d ''actual_deco_rect'' then d\<lparr>ld_actual_deco_rect := True\<rparr> else d);
          d = (if key_is d ''deco_rect'' then d\<lparr>ld_deco_rect := True\<rparr> else d);
          d = (if key_is d ''window_rect'' then d\<lparr>ld_window_rect := True\<rparr> else d);
          d = (if key_is d ''geometry'' then d\<lparr>ld_geometry := True\<rparr> else d);
          d = (if key_is d ''focus'' then d\<lparr>ld_focus := True\<rparr> else d)
      in if key_is d ''marks'' then d\<lparr>ld_pending := [], ld_marks := True\<rparr> else d)"

subsection \<open>Strings\<close>

definition read_as :: "(string \<times> 'a) list \<Rightarrow> string \<Rightarrow> 'a option" where
  "read_as table str = map_option snd (find (\<lambda>(name, _). caseless_eq str name) table)"

definition layout_names :: "(string \<times> layout_t) list" where
  "layout_names = [(''stacked'', L_STACKED), (''tabbed'', L_TABBED), (''scrolling'', L_SCROLLING),
     (''dockarea'', L_DOCKAREA), (''output'', L_OUTPUT), (''splith'', L_SPLITH), (''splitv'', L_SPLITV)]"

definition workspace_layout_names :: "(string \<times> layout_t) list" where
  "workspace_layout_names = [(''default'', L_DEFAULT), (''stacked'', L_STACKED), (''tabbed'', L_TABBED),
     (''scrolling'', L_SCROLLING)]"

definition type_names :: "(string \<times> con_type) list" where
  "type_names = [(''root'', CT_ROOT), (''output'', CT_OUTPUT), (''con'', CT_CON), (''floating_con'', CT_FLOATING_CON),
     (''workspace'', CT_WORKSPACE), (''dockarea'', CT_DOCKAREA)]"

definition floating_names :: "(string \<times> floating_t) list" where
  "floating_names = [(''auto_off'', FLOATING_AUTO_OFF), (''auto_on'', FLOATING_AUTO_ON),
     (''user_off'', FLOATING_USER_OFF), (''user_on'', FLOATING_USER_ON)]"

definition scratchpad_names :: "(string \<times> scratchpad_t) list" where
  "scratchpad_names = [(''none'', SCRATCHPAD_NONE), (''fresh'', SCRATCHPAD_FRESH), (''changed'', SCRATCHPAD_CHANGED)]"

definition split_names :: "(string \<times> layout_t) list" where
  "split_names = [(''splith'', L_SPLITH), (''splitv'', L_SPLITV)]"

definition orientation_names :: "(string \<times> layout_t) list" where
  "orientation_names = [(''none'', L_SPLITH), (''horizontal'', L_SPLITH), (''vertical'', L_SPLITV)]"

definition border_names :: "(string \<times> border_style_t) list" where
  "border_names = [(''none'', BS_NONE), (''1pixel'', BS_PIXEL), (''pixel'', BS_PIXEL), (''normal'', BS_NORMAL)]"

definition set_read :: "(string \<times> 'a) list \<Rightarrow> ('a \<Rightarrow> con \<Rightarrow> con) \<Rightarrow> string \<Rightarrow> loader \<Rightarrow> loader" where
  "set_read table put str d = (case read_as table str of None \<Rightarrow> d | Some v \<Rightarrow> set_node (put v) d)"

definition swallow_string :: "regex_lib \<Rightarrow> string \<Rightarrow> loader \<Rightarrow> loader" where
  "swallow_string rx str d =
     (let re = regex_new rx str
      in if key_is d ''class'' then set_swallow (\<lambda>m. m\<lparr>ma_class := re\<rparr>) d
         else if key_is d ''instance'' then set_swallow (\<lambda>m. m\<lparr>ma_instance := re\<rparr>) d
         else if key_is d ''window_role'' then set_swallow (\<lambda>m. m\<lparr>ma_window_role := re\<rparr>) d
         else if key_is d ''title'' then set_swallow (\<lambda>m. m\<lparr>ma_title := re\<rparr>) d
         else if key_is d ''machine'' then set_swallow (\<lambda>m. m\<lparr>ma_machine := re\<rparr>) d
         else d)"

definition layout_string :: "string \<Rightarrow> loader \<Rightarrow> loader" where
  "layout_string str d =
     (if caseless_eq str ''default'' then set_node (\<lambda>k. k\<lparr>layout := last_split_layout k\<rparr>) d
      else set_read layout_names (\<lambda>v k. k\<lparr>layout := v\<rparr>) str d)"

definition border_string :: "string \<Rightarrow> loader \<Rightarrow> loader" where
  "border_string str d =
     (let d = set_read border_names (\<lambda>v k. k\<lparr>border_style := v, max_user_border_style := v\<rparr>) str d
      in if caseless_eq str ''1pixel'' then set_node (\<lambda>k. k\<lparr>current_border_width := 1\<rparr>) d else d)"

definition json_string :: "regex_lib \<Rightarrow> string \<Rightarrow> loader \<Rightarrow> loader" where
  "json_string rx str d =
     (if ld_swallows d then swallow_string rx str d
      else if ld_marks d then
        (case ld_node d of None \<Rightarrow> on_ld abort d | Some c \<Rightarrow> d\<lparr>ld_pending := ld_pending d @ [(str, c)]\<rparr>)
      else if key_is d ''name'' then set_node (\<lambda>k. k\<lparr>cname := str\<rparr>) d
      else if key_is d ''title_format'' then set_node (\<lambda>k. k\<lparr>title_format := Some str\<rparr>) d
      else if key_is d ''sticky_group'' then set_node (\<lambda>k. k\<lparr>sticky_group := Some str\<rparr>) d
      else if key_is d ''orientation'' then set_read orientation_names (\<lambda>v k. k\<lparr>last_split_layout := v\<rparr>) str d
      else if key_is d ''border'' then border_string str d
      else if key_is d ''type'' then set_read type_names (\<lambda>v k. k\<lparr>ctype := v\<rparr>) str d
      else if key_is d ''layout'' then layout_string str d
      else if key_is d ''workspace_layout'' then set_read workspace_layout_names (\<lambda>v k. k\<lparr>workspace_layout := v\<rparr>) str d
      else if key_is d ''last_split_layout'' then set_read split_names (\<lambda>v k. k\<lparr>last_split_layout := v\<rparr>) str d
      else if key_is d ''mark'' then on_node (\<lambda>c. con_mark c str MM_REPLACE) d
      else if key_is d ''floating'' then set_read floating_names (\<lambda>v k. k\<lparr>floating := v\<rparr>) str d
      else if key_is d ''scratchpad_state'' then set_read scratchpad_names (\<lambda>v k. k\<lparr>scratchpad_state := v\<rparr>) str d
      else if key_is d ''previous_workspace_name'' then on_ld (\<lambda>s. s\<lparr>previous_workspace_name := Some str\<rparr>) d
      else d)"

subsection \<open>Numbers\<close>

definition numbered :: "int \<Rightarrow> 'a list \<Rightarrow> int \<Rightarrow> 'a option" where
  "numbered base vs i = (if base \<le> i \<and> i < base + int (length vs) then Some (vs ! nat (i - base)) else None)"

definition set_number :: "'a option \<Rightarrow> ('a \<Rightarrow> loader \<Rightarrow> loader) \<Rightarrow> loader \<Rightarrow> loader" where
  "set_number v put d = (case v of None \<Rightarrow> on_ld abort d | Some x \<Rightarrow> put x d)"

definition type_of_number :: "int \<Rightarrow> con_type option" where
  "type_of_number = numbered 0 [CT_ROOT, CT_OUTPUT, CT_CON, CT_FLOATING_CON, CT_WORKSPACE, CT_DOCKAREA]"

definition fullscreen_of_number :: "int \<Rightarrow> fullscreen_mode_t option" where
  "fullscreen_of_number = numbered 0 [CF_NONE, CF_OUTPUT, CF_GLOBAL]"

definition dock_of_number :: "int \<Rightarrow> match_dock_t option" where
  "dock_of_number = numbered (- 1) [M_DONTCHECK, M_NODOCK, M_DOCK_ANY, M_DOCK_TOP, M_DOCK_BOTTOM]"

definition insert_where_of_number :: "int \<Rightarrow> insert_where_t option" where
  "insert_where_of_number = numbered 0 [M_HERE, M_ASSIGN_WS, M_BELOW]"

definition node_int :: "int \<Rightarrow> loader \<Rightarrow> loader" where
  "node_int v d =
     (if key_is d ''type'' then set_number (type_of_number v) (\<lambda>x. set_node (\<lambda>k. k\<lparr>ctype := x\<rparr>)) d
      else if key_is d ''fullscreen_mode''
      then set_number (fullscreen_of_number v) (\<lambda>x. set_node (\<lambda>k. k\<lparr>fullscreen_mode := x\<rparr>)) d
      else if key_is d ''num'' then set_node (\<lambda>k. k\<lparr>num := c_int v\<rparr>) d
      else if key_is d ''current_border_width'' then set_node (\<lambda>k. k\<lparr>current_border_width := c_int v\<rparr>) d
      else if key_is d ''window_icon_padding'' then set_node (\<lambda>k. k\<lparr>window_icon_padding := c_int v\<rparr>) d
      else if \<not> ld_swallows d \<and> key_is d ''id''
      then (case ld_node d of None \<Rightarrow> on_ld abort d | Some c \<Rightarrow> d\<lparr>ld_old_id := (ld_old_id d)(c := c_int v)\<rparr>)
      else d)"

definition rect_int :: "int \<Rightarrow> loader \<Rightarrow> loader" where
  "rect_int v d =
     (let put = (\<lambda>f. if ld_rect d then set_node (\<lambda>k. k\<lparr>rect := f (rect k)\<rparr>) d
                     else if ld_window_rect d then set_node (\<lambda>k. k\<lparr>window_rect := f (window_rect k)\<rparr>) d
                     else if ld_geometry d then set_node (\<lambda>k. k\<lparr>geometry := f (geometry k)\<rparr>) d else d)
      in if key_is d ''x'' then put (\<lambda>r. r\<lparr>rect_x := word_of_int v\<rparr>)
         else if key_is d ''y'' then put (\<lambda>r. r\<lparr>rect_y := word_of_int v\<rparr>)
         else if key_is d ''width'' then put (\<lambda>r. r\<lparr>rect_width := word_of_int v\<rparr>)
         else if key_is d ''height'' then put (\<lambda>r. r\<lparr>rect_height := word_of_int v\<rparr>)
         else d)"

definition swallow_int :: "int \<Rightarrow> loader \<Rightarrow> loader" where
  "swallow_int v d =
     (if \<not> ld_swallows d then d
      else if key_is d ''id'' then set_swallow (\<lambda>m. m\<lparr>ma_id := word_of_int v\<rparr>) d
      else if key_is d ''dock'' then set_number (dock_of_number v) (\<lambda>x. set_swallow (\<lambda>m. m\<lparr>ma_dock := x\<rparr>)) d
      else if key_is d ''insert_where''
      then set_number (insert_where_of_number v) (\<lambda>x. set_swallow (\<lambda>m. m\<lparr>ma_insert_where := x\<rparr>)) d
      else d)"

definition gaps_int :: "int \<Rightarrow> loader \<Rightarrow> loader" where
  "gaps_int v d =
     (let put = (\<lambda>f. set_node (\<lambda>k. k\<lparr>gaps := f (gaps k)\<rparr>) d)
      in if \<not> ld_gaps d then d
         else if key_is d ''inner'' then put (\<lambda>g. g\<lparr>g_inner := c_int v\<rparr>)
         else if key_is d ''top'' then put (\<lambda>g. g\<lparr>g_top := c_int v\<rparr>)
         else if key_is d ''right'' then put (\<lambda>g. g\<lparr>g_right := c_int v\<rparr>)
         else if key_is d ''bottom'' then put (\<lambda>g. g\<lparr>g_bottom := c_int v\<rparr>)
         else if key_is d ''left'' then put (\<lambda>g. g\<lparr>g_left := c_int v\<rparr>)
         else d)"

definition json_int :: "int \<Rightarrow> loader \<Rightarrow> loader" where
  "json_int v d =
     (if ld_key d = None then on_ld abort d
      else
        let d = node_int v d;
            d = (if ld_focus d then d\<lparr>ld_mappings := ld_mappings d @ [c_int v]\<rparr> else d)
        in gaps_int v (swallow_int v (rect_int v d)))"

definition json_bool :: "bool \<Rightarrow> loader \<Rightarrow> loader" where
  "json_bool v d =
     (let d = (if key_is d ''focused'' \<and> v then d\<lparr>ld_to_focus := ld_node d\<rparr> else d);
          d = (if key_is d ''sticky'' then set_node (\<lambda>k. k\<lparr>sticky := v\<rparr>) d else d)
      in if ld_swallows d \<and> key_is d ''restart_mode'' then set_swallow (\<lambda>m. m\<lparr>ma_restart_mode := v\<rparr>) d else d)"

definition json_double :: "real \<Rightarrow> loader \<Rightarrow> loader" where
  "json_double v d = (if key_is d ''percent'' then set_node (\<lambda>k. k\<lparr>percent := v\<rparr>) d else d)"

subsection \<open>Loading\<close>

definition json_event_step :: "regex_lib \<Rightarrow> Rect \<Rightarrow> json_event \<Rightarrow> loader \<Rightarrow> bool \<times> loader" where
  "json_event_step rx root_screen e d =
     (case e of
        E_Null \<Rightarrow> (True, d)
      | E_Bool b \<Rightarrow> (True, json_bool b d)
      | E_Int i \<Rightarrow> (True, json_int i d)
      | E_Double r \<Rightarrow> (True, json_double r d)
      | E_String str \<Rightarrow> (True, json_string rx str d)
      | E_Key k \<Rightarrow> (True, json_key k d)
      | E_Start_Map \<Rightarrow> (True, json_start_map d)
      | E_End_Map \<Rightarrow> json_end_map root_screen d
      | E_Start_Array \<Rightarrow> (True, d)
      | E_End_Array \<Rightarrow> (True, json_end_array d))"

primrec json_run :: "regex_lib \<Rightarrow> Rect \<Rightarrow> json_event list \<Rightarrow> loader \<Rightarrow> bool \<times> loader" where
  "json_run rx root_screen [] d = (True, d)"
| "json_run rx root_screen (e # es) d =
     (case json_event_step rx root_screen e d of
        (False, d) \<Rightarrow> (False, d)
      | (True, d) \<Rightarrow> json_run rx root_screen es d)"

primrec free_incomplete :: "nat \<Rightarrow> loader \<Rightarrow> loader" where
  "free_incomplete 0 d = d"
| "free_incomplete (Suc n) d =
     (case ld_node d of
        None \<Rightarrow> on_ld abort d
      | Some c \<Rightarrow>
          let up = parent_of (ld_wm d) c;
              d = (if ld_to_focus d = Some c then d\<lparr>ld_to_focus := None\<rparr> else d)
          in free_incomplete n ((on_ld (con_free c) d)\<lparr>ld_node := up\<rparr>))"

text \<open>The variables that are not reset keep what an earlier call left; here they are as at the start of
  the program.\<close>

definition start_loading :: "con_id \<Rightarrow> wm \<Rightarrow> loader" where
  "start_loading con s =
     \<lparr>ld_wm = s, ld_key = None, ld_incomplete = 0, ld_node = Some con, ld_to_focus = None, ld_gaps = False,
      ld_swallows = False, ld_rect = False, ld_actual_deco_rect = False, ld_deco_rect = False,
      ld_window_rect = False, ld_geometry = False, ld_focus = False, ld_marks = False, ld_swallow_con = None,
      ld_swallow_empty = False, ld_pending = [], ld_mappings = [], ld_old_id = (\<lambda>_. 0)\<rparr>"

text \<open>\<open>parsed\<close>: the parser met no error in the text.\<close>

definition tree_append_json :: "regex_lib \<Rightarrow> Rect \<Rightarrow> con_id \<Rightarrow> json_event list \<Rightarrow> bool \<Rightarrow> wm \<Rightarrow> bool \<times> wm" where
  "tree_append_json rx root_screen con es parsed s =
     (case json_run rx root_screen es (start_loading con s) of
        (went_on, d) \<Rightarrow>
          let ok = (went_on \<and> parsed);
              d = (if ok then d else free_incomplete (nat (ld_incomplete d)) d);
              s = con_fix_percent con (ld_wm d)
          in (ok, case ld_to_focus d of None \<Rightarrow> s | Some c \<Rightarrow> con_activate c s))"

subsection \<open>What a layout file holds\<close>

datatype json_content_t = JSON_CONTENT_CON | JSON_CONTENT_WORKSPACE

text \<open>\<open>strncasecmp\<close> with the length of the value, so that a prefix is accepted.\<close>

fun determine_content :: "json_event list \<Rightarrow> string option \<Rightarrow> int \<Rightarrow> json_content_t" where
  "determine_content [] key level = JSON_CONTENT_CON"
| "determine_content (e # es) key level =
     (case e of
        E_Key k \<Rightarrow> determine_content es (Some k) level
      | E_Start_Map \<Rightarrow> determine_content es key (level + 1)
      | E_Start_Array \<Rightarrow> determine_content es key (level + 1)
      | E_End_Map \<Rightarrow> determine_content es key (level - 1)
      | E_End_Array \<Rightarrow> determine_content es key (level - 1)
      | E_String str \<Rightarrow>
          if (case key of None \<Rightarrow> True | Some k \<Rightarrow> \<not> caseless_eq k ''type'') \<or> level > 1
          then determine_content es key level
          else if caseless_prefix ''workspace'' str then JSON_CONTENT_WORKSPACE else JSON_CONTENT_CON
      | _ \<Rightarrow> determine_content es key level)"

definition json_determine_content :: "json_event list \<Rightarrow> json_content_t" where
  "json_determine_content es = determine_content es None 0"

subsection \<open>The order of the focus stack comes back\<close>

lemma find_by_id:
  assumes "inj_on old_id (set xs)" and "y \<in> set xs" and "set xs \<subseteq> A" and "inj_on old_id A"
  shows "find (\<lambda>c. old_id c = old_id y) xs = Some y"
proof -
  have "\<exists>c. find (\<lambda>c. old_id c = old_id y) xs = Some c"
    using assms(2) by (cases "find (\<lambda>c. old_id c = old_id y) xs") (auto simp: find_None_iff)
  then obtain c where c: "find (\<lambda>c. old_id c = old_id y) xs = Some c" by blast
  then have "c \<in> set xs" "old_id c = old_id y" by (auto simp: find_Some_iff)
  then have "c = y" using assms(1,2) by (auto dest: inj_onD)
  with c show ?thesis by simp
qed

lemma focus_order_prefix:
  assumes "inj_on old_id (set xs)" and "distinct ys" and "set ys \<subseteq> set xs" and "distinct xs"
  shows "restore_focus_order old_id (map old_id ys) xs = ys @ filter (\<lambda>x. x \<notin> set ys) xs"
  using assms(2,3)
proof (induction ys)
  case Nil
  then show ?case by (simp add: restore_focus_order_def)
next
  case (Cons y ys)
  let ?now = "ys @ filter (\<lambda>x. x \<notin> set ys) xs"
  have now: "restore_focus_order old_id (map old_id ys) xs = ?now" using Cons by simp
  have sets: "set ?now = set xs" using Cons.prems by auto
  have "find (\<lambda>c. old_id c = old_id y) ?now = Some y"
    by (rule find_by_id [where A = "set xs"]) (use assms(1) Cons.prems sets in auto)
  then have step: "restore_focus_order old_id (map old_id (y # ys)) xs = y # remove1 y ?now"
    using now by (simp add: restore_focus_order_def focus_restored_def)
  have "y \<notin> set ys" using Cons.prems by simp
  then have "remove1 y ?now = ys @ remove1 y (filter (\<lambda>x. x \<notin> set ys) xs)" by (simp add: remove1_append)
  also have "remove1 y (filter (\<lambda>x. x \<notin> set ys) xs) = filter (\<lambda>x. x \<notin> set (y # ys)) xs"
    using assms(4) by (subst distinct_remove1_removeAll) (auto simp: removeAll_filter_not_eq intro: filter_cong)
  finally show ?case using step by simp
qed

text \<open>A focus list that was dumped is restored exactly.\<close>

lemma focus_order_restored:
  assumes "inj_on old_id (set xs)" and "distinct xs" and "distinct ys" and "set ys = set xs"
  shows "restore_focus_order old_id (map old_id ys) xs = ys"
  using focus_order_prefix [OF assms(1,3) _ assms(2)] assms(4) by auto

subsection \<open>What is rejected or lost\<close>

text \<open>A criterion without any key that is read makes the file invalid.\<close>

lemma empty_swallow_rejected:
  assumes "ld_swallows d" and "ld_node d = Some c"
  shows "fst (json_run rx scr [E_Start_Map, E_End_Map] d) = False"
  using assms by (simp add: json_event_step_def json_start_map_def json_end_map_def set_node_def on_node_def on_ld_def Let_def)

lemma json_key_nodes: "json_key ''nodes'' d = d\<lparr>ld_key := Some ''nodes''\<rparr>"
  by (simp add: json_key_def key_is_def caseless_eq_def c_tolower_def)

lemma json_key_marks: "json_key ''marks'' d = d\<lparr>ld_key := Some ''marks'', ld_pending := [], ld_marks := True\<rparr>"
  by (simp add: json_key_def key_is_def caseless_eq_def c_tolower_def)

text \<open>The marks of a container whose child has the key \<open>marks\<close> are forgotten before they are set: the
  list of pending marks is started anew.\<close>

lemma parent_marks_lost:
  assumes "ld_marks d" and "\<not> ld_swallows d" and "\<not> ld_focus d" and "\<not> parsing_rects d" and "ld_node d = Some c"
    and "c \<noteq> next_id (ld_wm d)"
  shows "\<exists>d'. json_run rx scr [E_String m, E_End_Array, E_Key ''nodes'', E_Start_Array, E_Start_Map, E_Key ''marks''] d = (True, d') \<and>
     ld_pending d' = [] \<and> marks_head (store (ld_wm d') c) = marks_head (store (ld_wm d) c)"
  using assms
  by (simp add: json_event_step_def json_string_def json_end_array_def json_key_nodes json_key_marks json_start_map_def
      con_new_skeleton_def con_new_detached_def parsing_rects_def Let_def)

end
