(* ===== verification/Ipc_Dump.thy ===== *)
theory Ipc_Dump
  imports Json Commands_Layout
begin

text \<open>
  The replies and events of the IPC interface as JSON values: the \<open>dump_\<close> functions of \<^verbatim>\<open>src/ipc.c\<close>, which
  also write the layout that an inplace restart reads back. A container's address is its number. The
  value is \<^const>\<open>None\<close> where an \<open>assert\<close> fails or NULL is dereferenced. The depth of a frame, a field
  that only X11 code uses, is left out. \<open>atom\<close> gives the numbers of atoms.
\<close>

definition j_u32 :: "u32 \<Rightarrow> json" where
  "j_u32 w = J_Int (uint w)"

definition j_list :: "('a \<Rightarrow> json) \<Rightarrow> 'a list \<Rightarrow> json" where
  "j_list f xs = J_Array (map f xs)"

definition j_or_null :: "('a \<Rightarrow> json) \<Rightarrow> 'a option \<Rightarrow> json" where
  "j_or_null f x = (case x of None \<Rightarrow> J_Null | Some v \<Rightarrow> f v)"

definition j_if_set :: "string \<Rightarrow> string option \<Rightarrow> (string \<times> json) list" where
  "j_if_set k v = (case v of None \<Rightarrow> [] | Some str \<Rightarrow> [(k, J_String str)])"

definition dump_rect :: "string \<Rightarrow> Rect \<Rightarrow> string \<times> json" where
  "dump_rect name r =
     (name, J_Map [(''x'', J_Int (sint (rect_x r))), (''y'', J_Int (sint (rect_y r))),
                   (''width'', j_u32 (rect_width r)), (''height'', j_u32 (rect_height r))])"

definition dump_gaps :: "string \<Rightarrow> gaps_t \<Rightarrow> string \<times> json" where
  "dump_gaps name g =
     (name, J_Map [(''inner'', J_Int (g_inner g)), (''outer'', J_Int (g_top g)), (''top'', J_Int (g_top g)),
                   (''right'', J_Int (g_right g)), (''bottom'', J_Int (g_bottom g)), (''left'', J_Int (g_left g))])"

subsection \<open>Names of values\<close>

definition type_name :: "con_type \<Rightarrow> string" where
  "type_name t = (case t of CT_ROOT \<Rightarrow> ''root'' | CT_OUTPUT \<Rightarrow> ''output'' | CT_CON \<Rightarrow> ''con''
     | CT_FLOATING_CON \<Rightarrow> ''floating_con'' | CT_WORKSPACE \<Rightarrow> ''workspace'' | CT_DOCKAREA \<Rightarrow> ''dockarea'')"

definition scratchpad_name :: "scratchpad_t \<Rightarrow> string" where
  "scratchpad_name t = (case t of SCRATCHPAD_NONE \<Rightarrow> ''none'' | SCRATCHPAD_FRESH \<Rightarrow> ''fresh'' | SCRATCHPAD_CHANGED \<Rightarrow> ''changed'')"

definition layout_name :: "layout_t \<Rightarrow> string option" where
  "layout_name l = (case l of L_DEFAULT \<Rightarrow> None | L_SPLITV \<Rightarrow> Some ''splitv'' | L_SPLITH \<Rightarrow> Some ''splith''
     | L_STACKED \<Rightarrow> Some ''stacked'' | L_TABBED \<Rightarrow> Some ''tabbed'' | L_DOCKAREA \<Rightarrow> Some ''dockarea''
     | L_OUTPUT \<Rightarrow> Some ''output'' | L_SCROLLING \<Rightarrow> Some ''scrolling'')"

definition workspace_layout_name :: "layout_t \<Rightarrow> string option" where
  "workspace_layout_name l = (case l of L_DEFAULT \<Rightarrow> Some ''default'' | L_STACKED \<Rightarrow> Some ''stacked''
     | L_TABBED \<Rightarrow> Some ''tabbed'' | L_SCROLLING \<Rightarrow> Some ''scrolling'' | _ \<Rightarrow> None)"

definition border_name :: "border_style_t \<Rightarrow> string" where
  "border_name b = (case b of BS_NORMAL \<Rightarrow> ''normal'' | BS_NONE \<Rightarrow> ''none'' | BS_PIXEL \<Rightarrow> ''pixel'')"

definition floating_name :: "floating_t \<Rightarrow> string" where
  "floating_name f = (case f of FLOATING_AUTO_OFF \<Rightarrow> ''auto_off'' | FLOATING_AUTO_ON \<Rightarrow> ''auto_on''
     | FLOATING_USER_OFF \<Rightarrow> ''user_off'' | FLOATING_USER_ON \<Rightarrow> ''user_on'')"

definition fullscreen_number :: "fullscreen_mode_t \<Rightarrow> int" where
  "fullscreen_number m = (case m of CF_NONE \<Rightarrow> 0 | CF_OUTPUT \<Rightarrow> 1 | CF_GLOBAL \<Rightarrow> 2)"

definition dock_number :: "match_dock_t \<Rightarrow> int" where
  "dock_number m = (case m of M_DONTCHECK \<Rightarrow> - 1 | M_NODOCK \<Rightarrow> 0 | M_DOCK_ANY \<Rightarrow> 1 | M_DOCK_TOP \<Rightarrow> 2 | M_DOCK_BOTTOM \<Rightarrow> 3)"

definition insert_where_number :: "insert_where_t \<Rightarrow> int" where
  "insert_where_number m = (case m of M_HERE \<Rightarrow> 0 | M_ASSIGN_WS \<Rightarrow> 1 | M_BELOW \<Rightarrow> 2)"

text \<open>\<open>window_type\<close>, tried in the order of the code.\<close>

definition window_type_name :: "(string \<Rightarrow> u32) \<Rightarrow> u32 \<Rightarrow> string" where
  "window_type_name atom t =
     (case find (\<lambda>(name, _). t = atom (''_NET_WM_WINDOW_TYPE_'' @ name))
             [(''NORMAL'', ''normal''), (''DOCK'', ''dock''), (''DIALOG'', ''dialog''), (''UTILITY'', ''utility''),
              (''TOOLBAR'', ''toolbar''), (''SPLASH'', ''splash''), (''MENU'', ''menu''),
              (''DROPDOWN_MENU'', ''dropdown_menu''), (''POPUP_MENU'', ''popup_menu''),
              (''TOOLTIP'', ''tooltip''), (''NOTIFICATION'', ''notification'')] of
        None \<Rightarrow> ''unknown'' | Some (_, name) \<Rightarrow> name)"

subsection \<open>A container\<close>

definition node_identity :: "wm \<Rightarrow> con_id \<Rightarrow> (string \<times> json) list" where
  "node_identity s c =
     (let k = store s c
      in [(''id'', J_Int (int c)), (''type'', J_String (type_name (ctype k))),
          (''orientation'', J_String (if \<not> con_is_split s c then ''none''
             else if con_orientation s c = Some HORIZ then ''horizontal'' else ''vertical'')),
          (''scratchpad_state'', J_String (scratchpad_name (scratchpad_state k))),
          (''percent'', if percent k = 0 then J_Null else J_Double (percent k)),
          (''urgent'', J_Bool (urgent k)), (''marks'', j_list J_String (marks_head k)),
          (''focused'', J_Bool (focused s = Some c))])"

definition node_output :: "wm \<Rightarrow> con_id \<Rightarrow> (string \<times> json) list option" where
  "node_output s c =
     (if kind s c = CT_ROOT \<or> kind s c = CT_OUTPUT then Some []
      else map_option (\<lambda>out. [(''output'', J_String (cname (store s out)))]) (con_get_output s c))"

text \<open>The key \<open>last_split_layout\<close> is computed from \<open>layout\<close>.\<close>

definition node_layout :: "con \<Rightarrow> (string \<times> json) list option" where
  "node_layout k =
     Option.bind (layout_name (layout k)) (\<lambda>lay.
     map_option (\<lambda>ws_lay.
         [(''layout'', J_String lay), (''workspace_layout'', J_String ws_lay),
          (''last_split_layout'', J_String (if layout k = L_SPLITV then ''splitv'' else ''splith'')),
          (''border'', J_String (border_name (border_style k))),
          (''current_border_width'', J_Int (current_border_width k))])
       (workspace_layout_name (workspace_layout k)))"

definition node_rects :: "wm \<Rightarrow> con_id \<Rightarrow> (string \<times> json) list option" where
  "node_rects s c =
     (let k = store s c;
          others = [dump_rect ''window_rect'' (window_rect k), dump_rect ''geometry'' (geometry k)]
      in if con_draw_decoration_into_frame s c then
           map_option (\<lambda>p.
               dump_rect ''rect'' (rect k) #
               dump_rect ''deco_rect'' ((deco_rect k)\<lparr>rect_x := rect_x (rect k) - rect_x (rect (store s p)),
                                                    rect_y := rect_y (rect k) - rect_y (rect (store s p))\<rparr>) #
               dump_rect ''actual_deco_rect'' (deco_rect k) # others) (parent_of s c)
         else Some (dump_rect ''rect'' (rect k) # dump_rect ''deco_rect'' (deco_rect k) # others))"

definition window_properties :: "i3Window \<Rightarrow> json" where
  "window_properties w =
     J_Map (j_if_set ''class'' (w_class_class w) @ j_if_set ''instance'' (w_class_instance w) @
            j_if_set ''window_role'' (w_role w) @ j_if_set ''machine'' (w_machine w) @
            j_if_set ''title'' (w_name w) @
            [(''transient_for'', if w_transient_for w = 0 then J_Null else j_u32 (w_transient_for w))])"

definition node_window :: "(string \<Rightarrow> u32) \<Rightarrow> bool \<Rightarrow> con \<Rightarrow> (string \<times> json) list" where
  "node_window atom inplace_restart k =
     [(''name'', J_String (case Option.bind (window k) w_name of Some n \<Rightarrow> n | None \<Rightarrow> cname k))] @
     j_if_set ''title_format'' (title_format k) @
     [(''window_icon_padding'', J_Int (window_icon_padding k))] @
     (if ctype k = CT_WORKSPACE then [(''num'', J_Int (num k)), dump_gaps ''gaps'' (gaps k)] else []) @
     [(''window'', j_or_null (\<lambda>w. j_u32 (w_id w)) (window k)),
      (''window_type'', j_or_null (\<lambda>w. J_String (window_type_name atom (w_window_type w))) (window k))] @
     (case window k of
        Some w \<Rightarrow> if inplace_restart then [] else [(''window_properties'', window_properties w)]
      | None \<Rightarrow> [])"

definition dump_match :: "Match \<Rightarrow> json" where
  "dump_match m =
     J_Map ((if ma_dock m \<noteq> M_DONTCHECK
             then [(''dock'', J_Int (dock_number (ma_dock m))), (''insert_where'', J_Int (insert_where_number (ma_insert_where m)))]
             else []) @
            j_if_set ''class'' (map_option pattern (ma_class m)) @
            j_if_set ''instance'' (map_option pattern (ma_instance m)) @
            j_if_set ''window_role'' (map_option pattern (ma_window_role m)) @
            j_if_set ''title'' (map_option pattern (ma_title m)) @
            j_if_set ''machine'' (map_option pattern (ma_machine m)))"

definition node_swallows :: "bool \<Rightarrow> con \<Rightarrow> json" where
  "node_swallows inplace_restart k =
     J_Array (map dump_match (filter (\<lambda>m. \<not> ma_restart_mode m) (swallow_head k)) @
              (case window k of
                 Some w \<Rightarrow> if inplace_restart then [J_Map [(''id'', j_u32 (w_id w)), (''restart_mode'', J_Bool True)]] else []
               | None \<Rightarrow> []))"

definition node_rest :: "wm \<Rightarrow> bool \<Rightarrow> con_id \<Rightarrow> (string \<times> json) list" where
  "node_rest s inplace_restart c =
     (let k = store s c
      in [(''focus'', j_list (\<lambda>f. J_Int (int f)) (focus_head k)),
          (''fullscreen_mode'', J_Int (fullscreen_number (fullscreen_mode k))), (''sticky'', J_Bool (sticky k)),
          (''floating'', J_String (floating_name (floating k))), (''swallows'', node_swallows inplace_restart k)] @
         (if inplace_restart \<and> ctype k = CT_ROOT then j_if_set ''previous_workspace_name'' (previous_workspace_name s) else []))"

definition dump_node_with ::
  "(con_id \<Rightarrow> json option) \<Rightarrow> (string \<Rightarrow> u32) \<Rightarrow> bool \<Rightarrow> wm \<Rightarrow> con_id \<Rightarrow> json option" where
  "dump_node_with dump atom inplace_restart s c =
     Option.bind (node_output s c) (\<lambda>out.
     Option.bind (node_layout (store s c)) (\<lambda>lay.
     Option.bind (node_rects s c) (\<lambda>rects.
     Option.bind (those (map dump (if kind s c = CT_DOCKAREA \<and> inplace_restart then [] else nodes s c))) (\<lambda>ns.
     map_option (\<lambda>fs.
         J_Map (node_identity s c @ out @ lay @ rects @ node_window atom inplace_restart (store s c) @
                [(''nodes'', J_Array ns), (''floating_nodes'', J_Array fs)] @ node_rest s inplace_restart c))
       (those (map dump (floats s c)))))))"

primrec dump_below :: "nat \<Rightarrow> (string \<Rightarrow> u32) \<Rightarrow> bool \<Rightarrow> wm \<Rightarrow> con_id \<Rightarrow> json option" where
  "dump_below 0 atom inplace_restart s c = None"
| "dump_below (Suc n) atom inplace_restart s c =
     dump_node_with (dump_below n atom inplace_restart s) atom inplace_restart s c"

definition dump_node :: "(string \<Rightarrow> u32) \<Rightarrow> bool \<Rightarrow> wm \<Rightarrow> con_id \<Rightarrow> json option" where
  "dump_node atom inplace_restart s c = dump_below (length (all_cons s)) atom inplace_restart s c"

interpretation dump_rec: fuel_recursion children all_cons tree_ok "\<lambda>n. dump_below n atom inplace_restart"
    "\<lambda>s dump c. dump_node_with dump atom inplace_restart s c"
  for atom inplace_restart
proof unfold_locales
  fix s :: wm and c and g h :: "con_id \<Rightarrow> json option"
  assume same: "\<And>d. d \<in> set (children s c) \<Longrightarrow> g d = h d"
  have "map g (nodes s c) = map h (nodes s c)" and "map g (floats s c) = map h (floats s c)"
    using same by simp_all
  then show "dump_node_with g atom inplace_restart s c = dump_node_with h atom inplace_restart s c"
    by (simp only: dump_node_with_def if_distrib [of "map g"] if_distrib [of "map h"] list.map)
qed simp

lemmas dump_node_unfold = dump_rec.unfold [folded dump_node_def]

subsection \<open>Bindings and bars\<close>

definition mask_names :: "(nat \<times> string) list" where
  "mask_names = [(0, ''shift''), (1, ''lock''), (2, ''ctrl''), (3, ''Mod1''), (4, ''Mod2''), (5, ''Mod3''), (6, ''Mod4''),
     (7, ''Mod5''), (8, ''Button1''), (9, ''Button2''), (10, ''Button3''), (11, ''Button4''), (12, ''Button5''),
     (16, ''Group1''), (17, ''Group2''), (18, ''Group3''), (19, ''Group4'')]"

definition dump_event_state_mask :: "Binding \<Rightarrow> json" where
  "dump_event_state_mask b =
     j_list (\<lambda>(i, name). J_String name) (filter (\<lambda>(i, name). bit (bd_event_state_mask b) i) mask_names)"

definition dump_binding :: "Binding \<Rightarrow> json" where
  "dump_binding b =
     J_Map [(''input_code'', j_u32 (bd_keycode b)),
            (''input_type'', J_String (if bd_input_type b = B_KEYBOARD then ''keyboard'' else ''mouse'')),
            (''symbol'', j_or_null J_String (bd_symbol b)), (''command'', J_String (bd_command b)),
            (''mods'', dump_event_state_mask b), (''event_state_mask'', dump_event_state_mask b)]"

text \<open>The field \<open>release\<close> of a bar binding is compared with \<open>B_UPON_KEYRELEASE\<close>; here it is that flag.\<close>

definition dump_bar_bindings :: "barconfig \<Rightarrow> (string \<times> json) list" where
  "dump_bar_bindings bc =
     (if bc_bar_bindings bc = [] then []
      else [(''bindings'', j_list (\<lambda>b. J_Map [(''input_code'', J_Int (bb_input_code b)),
               (''command'', J_String (bb_command b)), (''release'', J_Bool (bb_release b))]) (bc_bar_bindings bc))])"

definition canonicalize_output_name :: "wm \<Rightarrow> string \<Rightarrow> string" where
  "canonicalize_output_name s name =
     (if caseless_eq name ''primary'' \<or> caseless_eq name ''nonprimary'' then name
      else (case get_output_by_name s name False of None \<Rightarrow> name | Some out \<Rightarrow> output_primary_name out))"

definition bar_color_names :: "string list" where
  "bar_color_names =
     [''background'', ''statusline'', ''separator'', ''focused_background'', ''focused_statusline'',
      ''focused_separator'', ''focused_workspace_border'', ''focused_workspace_bg'', ''focused_workspace_text'',
      ''active_workspace_border'', ''active_workspace_bg'', ''active_workspace_text'',
      ''inactive_workspace_border'', ''inactive_workspace_bg'', ''inactive_workspace_text'',
      ''urgent_workspace_border'', ''urgent_workspace_bg'', ''urgent_workspace_text'',
      ''binding_mode_border'', ''binding_mode_bg'', ''binding_mode_text'']"

definition dump_bar_config :: "wm \<Rightarrow> barconfig \<Rightarrow> json" where
  "dump_bar_config s bc =
     J_Map ([(''id'', J_String (bc_id bc))] @
       (if bc_outputs bc = [] then [] else [(''outputs'', j_list (\<lambda>n. J_String (canonicalize_output_name s n)) (bc_outputs bc))]) @
       (if bc_tray_outputs bc = [] then []
        else [(''tray_outputs'', j_list (\<lambda>n. J_String (canonicalize_output_name s n)) (bc_tray_outputs bc))]) @
       [(''tray_padding'', J_Int (bc_tray_padding bc))] @ j_if_set ''socket_path'' (bc_socket_path bc) @
       [(''mode'', J_String (case bc_mode bc of M_HIDE \<Rightarrow> ''hide'' | M_INVISIBLE \<Rightarrow> ''invisible'' | M_DOCK \<Rightarrow> ''dock'')),
        (''hidden_state'', J_String (case bc_hidden_state bc of S_SHOW \<Rightarrow> ''show'' | S_HIDE \<Rightarrow> ''hide'')),
        (''modifier'', j_u32 (bc_modifier bc))] @
       dump_bar_bindings bc @
       [(''position'', J_String (if bc_position bc = P_BOTTOM then ''bottom'' else ''top''))] @
       j_if_set ''status_command'' (bc_status_command bc) @ j_if_set ''workspace_command'' (bc_workspace_command bc) @
       j_if_set ''font'' (bc_font bc) @
       (if bc_bar_height bc = 0 then [] else [(''bar_height'', j_u32 (bc_bar_height bc))]) @
       [dump_rect ''padding'' (bc_padding bc)] @ j_if_set ''separator_symbol'' (bc_separator_symbol bc) @
       [(''workspace_buttons'', J_Bool (\<not> bc_hide_workspace_buttons bc)),
        (''workspace_min_width'', J_Int (bc_workspace_min_width bc)),
        (''strip_workspace_numbers'', J_Bool (bc_strip_workspace_numbers bc)),
        (''strip_workspace_name'', J_Bool (bc_strip_workspace_name bc)),
        (''binding_mode_indicator'', J_Bool (\<not> bc_hide_binding_mode_indicator bc)),
        (''verbose'', J_Bool (bc_verbose bc)),
        (''colors'', J_Map (concat (map (\<lambda>n. j_if_set n (bc_colors bc n)) bar_color_names)))])"

subsection \<open>Replies\<close>

definition plain_rect :: "Rect \<Rightarrow> json" where
  "plain_rect r = J_Map [(''x'', j_u32 (rect_x r)), (''y'', j_u32 (rect_y r)),
                         (''width'', j_u32 (rect_width r)), (''height'', j_u32 (rect_height r))]"

definition workspace_reply :: "wm \<Rightarrow> con_id \<Rightarrow> con_id \<Rightarrow> json option" where
  "workspace_reply s out ws =
     (if kind s ws \<noteq> CT_WORKSPACE then None
      else map_option (\<lambda>visible.
          J_Map [(''id'', J_Int (int ws)), (''num'', J_Int (num (store s ws))), (''name'', J_String (cname (store s ws))),
                 (''visible'', J_Bool visible),
                 (''focused'', J_Bool (Option.bind (focused s) (con_get_workspace s) = Some ws)),
                 (''rect'', plain_rect (rect (store s ws))), (''output'', J_String (cname (store s out))),
                 (''urgent'', J_Bool (urgent (store s ws)))]) (workspace_is_visible s ws))"

definition get_workspaces :: "wm \<Rightarrow> json option" where
  "get_workspaces s =
     map_option (\<lambda>js. J_Array (concat js))
       (those (map (\<lambda>out. Option.bind (output_get_content s out) (\<lambda>content.
                 those (map (workspace_reply s out) (nodes s content))))
          (filter (\<lambda>out. \<not> con_is_internal s out) (nodes s (croot s)))))"

definition get_outputs :: "wm \<Rightarrow> json" where
  "get_outputs s =
     j_list (\<lambda>out. J_Map [(''name'', J_String (output_primary_name out)), (''active'', J_Bool (o_active out)),
         (''primary'', J_Bool (o_primary out)), (''rect'', plain_rect (o_rect out)),
         (''current_workspace'', j_or_null (\<lambda>ws. J_String (cname (store s ws)))
            (if o_has_con out then con_get_fullscreen_con s (o_con out) CF_OUTPUT else None))]) (outputs s)"

definition get_marks :: "wm \<Rightarrow> json" where
  "get_marks s = J_Array (concat (map (\<lambda>c. map J_String (marks_head (store s c))) (all_cons s)))"

definition get_bar_config :: "wm \<Rightarrow> string \<Rightarrow> json" where
  "get_bar_config s message =
     (if message = [] then j_list (\<lambda>bc. J_String (bc_id bc)) (barconfigs s)
      else (case find (\<lambda>bc. bc_id bc = message) (barconfigs s) of
          None \<Rightarrow> J_Map [(''id'', J_Null)]
        | Some bc \<Rightarrow> dump_bar_config s bc))"

definition get_binding_modes :: "wm \<Rightarrow> json" where
  "get_binding_modes s = j_list (\<lambda>m. J_String (md_name m)) (modes s)"

definition get_binding_state :: "wm \<Rightarrow> json" where
  "get_binding_state s = J_Map [(''name'', J_String (current_binding_mode s))]"

text \<open>\<open>files\<close>: the paths of the files that were loaded, the main one first.\<close>

definition get_version :: "int \<times> int \<times> int \<Rightarrow> string \<Rightarrow> string \<Rightarrow> string list \<Rightarrow> json" where
  "get_version version human_readable configpath files =
     J_Map [(''major'', J_Int (fst version)), (''minor'', J_Int (fst (snd version))), (''patch'', J_Int (snd (snd version))),
            (''human_readable'', J_String human_readable), (''loaded_config_file_name'', J_String configpath),
            (''included_config_file_names'', j_list J_String (drop 1 files))]"

text \<open>Path, contents, and contents with the variables replaced. \<^const>\<open>None\<close>: no file is loaded, and
  the first one is read.\<close>

definition get_config :: "(string \<times> string \<times> string) list \<Rightarrow> json option" where
  "get_config files =
     (case files of
        [] \<Rightarrow> None
      | (_, raw, _) # _ \<Rightarrow>
          Some (J_Map [(''config'', J_String raw),
            (''included_configs'', j_list (\<lambda>(path, raw, replaced). J_Map [(''path'', J_String path),
               (''raw_contents'', J_String raw), (''variable_replaced_contents'', J_String replaced)]) files)]))"

subsection \<open>Events\<close>

definition ipc_marshal_workspace_event :: "(string \<Rightarrow> u32) \<Rightarrow> wm \<Rightarrow> string \<Rightarrow> con_id option \<Rightarrow> con_id option \<Rightarrow> json option" where
  "ipc_marshal_workspace_event atom s change current old =
     (let dumped = (\<lambda>c. case c of None \<Rightarrow> Some J_Null | Some c \<Rightarrow> dump_node atom False s c)
      in Option.bind (dumped current) (\<lambda>cur.
         map_option (\<lambda>old. J_Map [(''change'', J_String change), (''current'', cur), (''old'', old)]) (dumped old)))"

definition window_event :: "(string \<Rightarrow> u32) \<Rightarrow> wm \<Rightarrow> string \<Rightarrow> con_id \<Rightarrow> json option" where
  "window_event atom s change con =
     map_option (\<lambda>c. J_Map [(''change'', J_String change), (''container'', c)]) (dump_node atom False s con)"

definition binding_event :: "string \<Rightarrow> Binding \<Rightarrow> string option \<Rightarrow> json" where
  "binding_event change b modename =
     J_Map [(''change'', J_String change),
            (''mode'', J_String (case modename of None \<Rightarrow> ''default'' | Some m \<Rightarrow> m)), (''binding'', dump_binding b)]"

definition tick_event :: "bool \<Rightarrow> string \<Rightarrow> json" where
  "tick_event first payload = J_Map [(''first'', J_Bool first), (''payload'', J_String payload)]"

definition shutdown_event :: "bool \<Rightarrow> json" where
  "shutdown_event restart = J_Map [(''change'', J_String (if restart then ''restart'' else ''exit''))]"

end
