(* ===== verification/Ipc.thy ===== *)
theory Ipc
  imports Ipc_Dump
begin

text \<open>
  The IPC connections: messages, buffers and subscriptions of \<^verbatim>\<open>src/ipc.c\<close>, \<open>writeall_nonblock\<close> of
  \<^verbatim>\<open>libi3/safewrappers.c\<close> and \<open>ipc_recv_message\<close> of \<^verbatim>\<open>libi3/ipc_recv_message.c\<close>. What the kernel answers
  to the calls of \<open>write\<close> and \<open>read\<close> is a list of values; bytes are characters, and the byte order of
  the machine is little-endian. JSON texts come from a parameter \<open>print_json\<close> that stands for the
  generator of YAJL.
\<close>

subsection \<open>Messages\<close>

definition u32_bytes :: "u32 \<Rightarrow> string" where
  "u32_bytes w = map (\<lambda>i. char_of (unat w div 256 ^ i mod 256)) [0, 1, 2, 3]"

definition bytes_u32 :: "string \<Rightarrow> u32" where
  "bytes_u32 str = of_nat (foldr (\<lambda>c n. of_char c + 256 * n) str 0)"

definition ipc_magic :: string where
  "ipc_magic = ''i3-ipc''"

definition ipc_message :: "u32 \<Rightarrow> string \<Rightarrow> string" where
  "ipc_message message_type payload = ipc_magic @ u32_bytes (of_nat (length payload)) @ u32_bytes message_type @ payload"

definition ipc_event_type :: "nat \<Rightarrow> u32" where
  "ipc_event_type n = or (push_bit 31 1) (of_nat n)"

subsection \<open>Writing\<close>

text \<open>\<open>n\<close> bytes taken, \<open>EAGAIN\<close>, \<open>EINTR\<close>, another error. When the list ends the kernel takes no more.\<close>

datatype write_answer = Wrote nat | Write_Again | Write_Interrupted | Write_Failed

primrec writeall_nonblock :: "write_answer list \<Rightarrow> nat \<Rightarrow> nat \<Rightarrow> nat option" where
  "writeall_nonblock [] written want = Some written"
| "writeall_nonblock (a # answers) written want =
     (if written \<ge> want then Some written
      else case a of
          Wrote n \<Rightarrow> writeall_nonblock answers (written + min n (want - written)) want
        | Write_Again \<Rightarrow> Some written
        | Write_Interrupted \<Rightarrow> writeall_nonblock answers written want
        | Write_Failed \<Rightarrow> None)"

text \<open>\<open>ic_received\<close> is what the other side has got: it is not part of the program. The two flags say
  whether the timer exists and whether the write callback is active.\<close>

record ipc_client =
  ic_fd :: int
  ic_events :: "string list"
  ic_first_tick_sent :: bool
  ic_timeout :: bool
  ic_write_active :: bool
  ic_buffer :: string
  ic_received :: string

definition ipc_push_pending :: "write_answer list \<Rightarrow> ipc_client \<Rightarrow> ipc_client" where
  "ipc_push_pending answers c =
     (case writeall_nonblock answers 0 (length (ic_buffer c)) of
        None \<Rightarrow> c
      | Some n \<Rightarrow>
          let c = c\<lparr>ic_received := ic_received c @ take n (ic_buffer c)\<rparr>
          in if n = length (ic_buffer c) then c\<lparr>ic_buffer := [], ic_timeout := False, ic_write_active := False\<rparr>
             else c\<lparr>ic_buffer := drop n (ic_buffer c), ic_timeout := True, ic_write_active := True\<rparr>)"

definition ipc_send_client_message :: "write_answer list \<Rightarrow> u32 \<Rightarrow> string \<Rightarrow> ipc_client \<Rightarrow> ipc_client" where
  "ipc_send_client_message answers message_type payload c =
     (let push_now = (ic_buffer c = []);
          c = c\<lparr>ic_buffer := ic_buffer c @ ipc_message message_type payload\<rparr>
      in if push_now then ipc_push_pending answers c else c)"

text \<open>\<open>ipc_send_event\<close>: a client that subscribed several times gets one message.\<close>

definition ipc_send_event ::
  "(int \<Rightarrow> write_answer list) \<Rightarrow> string \<Rightarrow> u32 \<Rightarrow> string \<Rightarrow> ipc_client list \<Rightarrow> ipc_client list" where
  "ipc_send_event answers event message_type payload clients =
     map (\<lambda>c. if list_ex (\<lambda>e. caseless_eq e event) (ic_events c)
              then ipc_send_client_message (answers (ic_fd c)) message_type payload c else c) clients"

definition free_ipc_client :: "int \<Rightarrow> ipc_client list \<Rightarrow> ipc_client list" where
  "free_ipc_client fd clients = filter (\<lambda>c. ic_fd c \<noteq> fd) clients"

text \<open>The connections that are still open after the shutdown: only the exempt one.\<close>

definition ipc_shutdown :: "(int \<Rightarrow> write_answer list) \<Rightarrow> (json \<Rightarrow> string) \<Rightarrow> bool \<Rightarrow> int \<Rightarrow> ipc_client list \<Rightarrow>
    ipc_client list" where
  "ipc_shutdown answers print_json restart exempt_fd clients =
     filter (\<lambda>c. ic_fd c = exempt_fd)
       (ipc_send_event answers ''shutdown'' (ipc_event_type 6) (print_json (shutdown_event restart)) clients)"

definition ipc_new_client_on_fd :: "int \<Rightarrow> ipc_client list \<Rightarrow> ipc_client list" where
  "ipc_new_client_on_fd fd clients =
     clients @ [\<lparr>ic_fd = fd, ic_events = [], ic_first_tick_sent = False, ic_timeout = False, ic_write_active = False,
                 ic_buffer = [], ic_received = []\<rparr>]"

subsection \<open>Reading\<close>

text \<open>An answer to \<open>read\<close>: at most \<open>n\<close> bytes of what is there, or an error. No bytes is the end of the
  stream.\<close>

datatype read_answer = Read_Up_To nat | Read_Again | Read_Failed

datatype recv_error = Recv_Error | Recv_Eof | Recv_Protocol

text \<open>Reads until \<open>want\<close> bytes are there. The result: the bytes or the error, and the answers and the
  stream that remain. In the header an \<open>EAGAIN\<close> is an error, in the payload it is tried again. When the
  answers end, reading has not returned: \<^const>\<open>None\<close>.\<close>

primrec read_bytes :: "read_answer list \<Rightarrow> bool \<Rightarrow> nat \<Rightarrow> string \<Rightarrow> string \<Rightarrow>
    ((recv_error + string) \<times> read_answer list \<times> string) option" where
  "read_bytes [] header want got stream = (if length got \<ge> want then Some (Inr got, [], stream) else None)"
| "read_bytes (a # answers) header want got stream =
     (if length got \<ge> want then Some (Inr got, a # answers, stream)
      else case a of
          Read_Again \<Rightarrow>
            if header then Some (Inl Recv_Error, answers, stream) else read_bytes answers header want got stream
        | Read_Failed \<Rightarrow> Some (Inl Recv_Error, answers, stream)
        | Read_Up_To n \<Rightarrow>
            let chunk = take (min n (want - length got)) stream
            in if chunk = [] then Some (Inl (if header \<and> got = [] then Recv_Eof else Recv_Protocol), answers, stream)
               else read_bytes answers header want (got @ chunk) (drop (length chunk) stream))"

definition ipc_recv_message ::
  "read_answer list \<Rightarrow> string \<Rightarrow> ((recv_error + u32 \<times> string) \<times> read_answer list \<times> string) option" where
  "ipc_recv_message answers stream =
     Option.bind (read_bytes answers True 14 [] stream) (\<lambda>(r, answers, stream).
       case r of
         Inl e \<Rightarrow> Some (Inl e, answers, stream)
       | Inr head \<Rightarrow>
           if take 6 head \<noteq> ipc_magic then Some (Inl Recv_Protocol, answers, stream)
           else map_option (\<lambda>(r, answers, stream).
               (case r of Inl e \<Rightarrow> Inl e | Inr payload \<Rightarrow> Inr (bytes_u32 (take 4 (drop 10 head)), payload), answers, stream))
             (read_bytes answers False (unat (bytes_u32 (take 4 (drop 6 head)))) [] stream))"

subsection \<open>Subscriptions and commands\<close>

definition add_subscription :: "string \<Rightarrow> ipc_client \<Rightarrow> ipc_client" where
  "add_subscription event c = c\<lparr>ic_events := ic_events c @ [event]\<rparr>"

text \<open>\<open>events\<close>: the strings the parser found; \<open>parsed\<close>: it met no error. The kernel answers with \<open>answers\<close>
  to the reply and with \<open>later\<close> to the first tick.\<close>

definition subscribe :: "write_answer list \<Rightarrow> write_answer list \<Rightarrow> (json \<Rightarrow> string) \<Rightarrow> string list \<Rightarrow> bool \<Rightarrow> ipc_client \<Rightarrow> ipc_client" where
  "subscribe answers later print_json events parsed c =
     (let c = fold add_subscription events c
      in if \<not> parsed then ipc_send_client_message answers 2 ''{\"success\":false}'' c
         else
           let c = ipc_send_client_message answers 2 ''{\"success\":true}'' c
           in if ic_first_tick_sent c \<or> ''tick'' \<notin> set (ic_events c) then c
              else ipc_send_client_message later (ipc_event_type 7) (print_json (tick_event True []))
                     (c\<lparr>ic_first_tick_sent := True\<rparr>))"

definition send_tick :: "(int \<Rightarrow> write_answer list) \<Rightarrow> (json \<Rightarrow> string) \<Rightarrow> string \<Rightarrow> ipc_client list \<Rightarrow> ipc_client list" where
  "send_tick answers print_json payload clients =
     ipc_send_event answers ''tick'' (ipc_event_type 7) (print_json (tick_event False payload)) clients"

text \<open>\<open>parse_command\<close> gives the reply, whether the tree has to be rendered, and the state.\<close>

definition run_command :: "(string \<Rightarrow> wm \<Rightarrow> json \<times> bool \<times> wm) \<Rightarrow> string \<Rightarrow> wm \<Rightarrow> json \<times> wm" where
  "run_command parse_command message s =
     (case parse_command message s of (answer, needs_tree_render, s) \<Rightarrow>
        (answer, if needs_tree_render then tree_render s else s))"

text \<open>The random value and the window of a \<open>SYNC\<close> request, from its keys and numbers.\<close>

fun sync_request :: "json_event list \<Rightarrow> string option \<Rightarrow> u32 \<times> u32 \<Rightarrow> (u32 \<times> u32) option" where
  "sync_request [] key st = Some st"
| "sync_request (e # es) key (rnd, win) =
     (case e of
        E_Key k \<Rightarrow> sync_request es (Some k) (rnd, win)
      | E_Int v \<Rightarrow>
          (case key of
             None \<Rightarrow> None
           | Some k \<Rightarrow>
               if caseless_eq k ''rnd'' then sync_request es key (word_of_int v, win)
               else if caseless_eq k ''window'' then sync_request es key (rnd, word_of_int v)
               else sync_request es key (rnd, win))
      | _ \<Rightarrow> sync_request es key (rnd, win))"

subsection \<open>Nothing is lost or reordered\<close>

lemma writeall_nonblock_le: "written \<le> want \<Longrightarrow> writeall_nonblock answers written want = Some n \<Longrightarrow> n \<le> want"
proof (induction answers arbitrary: written)
  case (Cons a answers)
  show ?case
  proof (cases "written \<ge> want")
    case False
    with Cons show ?thesis
      by (cases a) (auto intro: Cons.IH [rotated])
  qed (use Cons.prems in simp)
qed simp

definition stream_of :: "ipc_client \<Rightarrow> string" where
  "stream_of c = ic_received c @ ic_buffer c"

lemma push_pending_stream [simp]: "stream_of (ipc_push_pending answers c) = stream_of c"
  by (simp add: ipc_push_pending_def stream_of_def Let_def split: option.split)

lemma send_client_message_stream [simp]:
  "stream_of (ipc_send_client_message answers t payload c) = stream_of c @ ipc_message t payload"
proof -
  have "stream_of (c\<lparr>ic_buffer := ic_buffer c @ ipc_message t payload\<rparr>) = stream_of c @ ipc_message t payload"
    by (simp add: stream_of_def)
  then show ?thesis by (simp only: ipc_send_client_message_def Let_def push_pending_stream split: if_split) blast
qed

text \<open>A client is subscribed to an event if one of its subscriptions names it, in any case.\<close>

definition subscribed :: "string \<Rightarrow> ipc_client \<Rightarrow> bool" where
  "subscribed event c \<longleftrightarrow> (\<exists>e \<in> set (ic_events c). caseless_eq e event)"

lemma send_event_streams:
  "map stream_of (ipc_send_event answers event t payload clients) =
     map (\<lambda>c. if subscribed event c then stream_of c @ ipc_message t payload else stream_of c) clients"
  by (simp add: ipc_send_event_def list_ex_iff subscribed_def)

subsection \<open>A message that is sent is received\<close>

lemma length_u32_bytes [simp]: "length (u32_bytes w) = 4"
  by (simp add: u32_bytes_def)

lemma base_256_digits:
  fixes n :: nat
  shows "n mod 256 + 256 * (n div 256 mod 256 + 256 * (n div 256 ^ 2 mod 256 + 256 * (n div 256 ^ 3))) = n"
proof -
  have "n div 256 ^ 2 mod 256 + 256 * (n div 256 ^ 3) = n div 256 ^ 2"
    using mult_div_mod_eq [of 256 "n div 256 ^ 2"] by (simp add: div_mult2_eq [symmetric])
  moreover have "n div 256 mod 256 + 256 * (n div 256 ^ 2) = n div 256"
    using mult_div_mod_eq [of 256 "n div 256"] by (simp add: div_mult2_eq [symmetric])
  ultimately show ?thesis using mult_div_mod_eq [of 256 n] by simp
qed

lemma bytes_u32_bytes [simp]: "bytes_u32 (u32_bytes w) = w"
proof -
  have "unat w < 256 ^ 4" by (rule order_less_le_trans [OF unsigned_less]) simp
  then have top: "unat w div 256 ^ 3 mod 256 = unat w div 256 ^ 3" by simp
  from base_256_digits [of "unat w"] top have "foldr (\<lambda>c n. of_char c + 256 * n) (u32_bytes w) 0 = unat w"
    by (simp add: u32_bytes_def of_char_of)
  then show ?thesis by (simp only: bytes_u32_def of_nat_unat ucast_id)
qed

text \<open>Enough answers that take at least one byte each: the bytes come in any pieces.\<close>

definition flowing :: "nat \<Rightarrow> read_answer list \<Rightarrow> bool" where
  "flowing k answers \<longleftrightarrow> k \<le> length answers \<and> (\<forall>a \<in> set answers. \<exists>n > 0. a = Read_Up_To n)"

lemma read_bytes_gets:
  assumes "length got + length bs = want" and "flowing (length bs + k) answers"
  shows "\<exists>left. read_bytes answers header want got (bs @ rest) = Some (Inr (got @ bs), left, rest) \<and> flowing k left"
  using assms
proof (induction answers arbitrary: got bs)
  case Nil
  then show ?case by (simp add: flowing_def)
next
  case (Cons a as)
  show ?case
  proof (cases "bs = []")
    case True
    then show ?thesis using Cons.prems by simp
  next
    case False
    then have short: "\<not> length got \<ge> want" using Cons.prems(1) by (cases bs) auto
    obtain n where n: "a = Read_Up_To n" "n > 0" using Cons.prems(2) by (auto simp: flowing_def)
    define m where "m = min n (want - length got)"
    have m: "0 < m" "m \<le> length bs" using n short Cons.prems(1) by (auto simp: m_def)
    have chunk: "take m (bs @ rest) = take m bs" using m(2) by simp
    have nonempty: "take m bs \<noteq> []" using m False by simp
    have behind: "drop (length (take m bs)) (bs @ rest) = drop m bs @ rest" using m(2) by simp
    have "\<exists>left. read_bytes as header want (got @ take m bs) (drop m bs @ rest) =
        Some (Inr ((got @ take m bs) @ drop m bs), left, rest) \<and> flowing k left"
      by (rule Cons.IH) (use Cons.prems m in \<open>auto simp: flowing_def\<close>)
    moreover have "read_bytes (a # as) header want got (bs @ rest) =
        read_bytes as header want (got @ take m bs) (drop m bs @ rest)"
      by (simp only: read_bytes.simps short n(1) read_answer.case if_False Let_def m_def [symmetric] chunk nonempty behind)
    ultimately show ?thesis by simp
  qed
qed

lemma message_received:
  assumes "length payload < 2 ^ 32" and "flowing (length payload + 14) answers"
  shows "\<exists>left. ipc_recv_message answers (ipc_message t payload @ rest) = Some (Inr (t, payload), left, rest)"
proof -
  let ?head = "ipc_magic @ u32_bytes (of_nat (length payload)) @ u32_bytes t"
  have msg: "ipc_message t payload @ rest = ?head @ (payload @ rest)" by (simp add: ipc_message_def)
  have magic: "length ipc_magic = 6" by (simp add: ipc_magic_def)
  then have len: "length ?head = 14" by simp
  have "\<exists>left. read_bytes answers True 14 [] (?head @ (payload @ rest)) = Some (Inr ([] @ ?head), left, payload @ rest) \<and>
      flowing (length payload) left"
    by (rule read_bytes_gets) (use len assms(2) in \<open>simp_all add: add.commute\<close>)
  then obtain left where head: "read_bytes answers True 14 [] (?head @ (payload @ rest)) = Some (Inr ?head, left, payload @ rest)"
    and flow: "flowing (length payload + 0) left" by auto
  have size: "unat (of_nat (length payload) :: u32) = length payload"
    using assms(1) by (simp only: unat_of_nat) simp
  have "\<exists>left'. read_bytes left False (length payload) [] (payload @ rest) = Some (Inr ([] @ payload), left', rest) \<and>
      flowing 0 left'"
    by (rule read_bytes_gets [OF _ flow]) simp
  then obtain left' where "read_bytes left False (length payload) [] (payload @ rest) = Some (Inr payload, left', rest)"
    by auto
  then show ?thesis
    unfolding msg ipc_recv_message_def head by (simp add: size magic)
qed

text \<open>In the header a read that would block ends the call, and the bytes that were read are forgotten: the
  next call takes the rest of the header for a new one.\<close>

lemma split_header_lost:
  "\<exists>left stream.
     ipc_recv_message [Read_Up_To 3, Read_Again, Read_Up_To 100] (ipc_message 4 [] @ ipc_message 4 []) =
       Some (Inl Recv_Error, left, stream) \<and>
     (\<exists>left' stream'. ipc_recv_message left stream = Some (Inl Recv_Protocol, left', stream'))"
  by (simp add: ipc_recv_message_def ipc_message_def ipc_magic_def u32_bytes_def Let_def)

end
