(* ===== verification/Ipc_Status.thy ===== *)
theory Ipc_Status
  imports Ipc Config_Directives Curves Scrolling
begin

text \<open>
  The reply to \<open>GET_AIWR_STATUS\<close> of \<^verbatim>\<open>src/ipc.c\<close>. The map of the workspace transition is built by the
  calls of the code one by one: in a map the YAJL generator takes the values in turn as a key and as
  the value of that key, and refuses a key that is not a string.
\<close>

fun pair_calls :: "json list \<Rightarrow> (string \<times> json) list" where
  "pair_calls (J_String k # v # rest) = (k, v) # pair_calls rest"
| "pair_calls (_ # rest) = pair_calls rest"
| "pair_calls [] = []"

definition curve_or_default :: "string option \<Rightarrow> json" where
  "curve_or_default c = J_String (case c of None \<Rightarrow> ''(default)'' | Some n \<Rightarrow> n)"

text \<open>Whether the capture layer is there, whether another compositor runs, whether shapes are supported,
  whether the overview is shown.\<close>

record status_env =
  se_version :: string
  se_config_path :: "string option"
  se_capture_available :: bool
  se_capture_external :: bool
  se_shape_supported :: bool
  se_overview_active :: bool

definition transition_calls :: "workspace_transition_config \<Rightarrow> json list" where
  "transition_calls wt =
     [J_String ''enabled'', J_Bool (wt_enabled wt), J_String ''type'',
      J_String (case wt_kind wt of WT_FADE \<Rightarrow> ''fade'' | WT_ZOOM \<Rightarrow> ''zoom'' | WT_SLIDE \<Rightarrow> ''slide''),
      J_String (case wt_dir wt of WT_VERTICAL \<Rightarrow> ''vertical'' | WT_HORIZONTAL \<Rightarrow> ''horizontal''),
      J_String ''direction'', J_String (case wt_dir wt of WT_VERTICAL \<Rightarrow> ''vertical'' | WT_HORIZONTAL \<Rightarrow> ''horizontal''),
      J_String ''duration_ms'', J_Int (wt_duration_ms wt), J_String ''curve'', curve_or_default (wt_curve wt)]"

definition status_overview :: "bool \<Rightarrow> overview_config \<Rightarrow> json" where
  "status_overview shown ov =
     J_Map [(''enabled'', J_Bool (ov_enabled ov)), (''active'', J_Bool shown), (''live_previews'', J_Bool (ov_live_previews ov)),
            (''thumbnail_scale'', J_Int (ov_thumbnail_scale ov)), (''thumbnail_blur'', J_Int (ov_thumbnail_blur ov)),
            (''fps'', J_Int (ov_fps ov))]"

definition status_scrolling :: "wm \<Rightarrow> json" where
  "status_scrolling s =
     J_Map [(''default_width'', J_Int (cfg_scroll_default_width (cfg s))),
            (''duration_ms'', J_Int (cfg_scroll_duration_ms (cfg s))), (''curve'', curve_or_default (cfg_scroll_curve (cfg s))),
            (''center_focus'', J_Bool (cfg_scroll_center_focus (cfg s))),
            (''workspaces_using_it'', J_Int (int (aiwr_count_scrolling_workspaces s)))]"

definition status_window_animation :: "window_animation_config \<Rightarrow> json" where
  "status_window_animation wn =
     J_Map [(''enabled'', J_Bool (wn_enabled wn)), (''duration_ms'', J_Int (wn_duration_ms wn)),
            (''start_scale'', J_Int (wn_start_scale wn)), (''curve'', curve_or_default (wn_curve wn)),
            (''close_enabled'', J_Bool (wn_close_enabled wn)), (''close_curve'', curve_or_default (wn_close_curve wn)),
            (''opacity'', J_Bool (wn_opacity wn))]"

definition status_decorations :: "options \<Rightarrow> (string \<times> json) list" where
  "status_decorations op =
     (let sw = op_switcher op; rc = op_rounded_corners op; gr = op_gradient op; lr = op_live_resize op
      in [(''switcher'', J_Map [(''enabled'', J_Bool (sw_enabled sw)), (''max_items'', J_Int (sw_max_items sw)),
                               (''preview'', J_Bool (sw_show_preview sw))]),
          (''rounded_corners'', J_Map [(''enabled'', J_Bool (rc_enabled rc)), (''radius'', J_Int (rc_radius rc)),
                               (''floating'', J_Bool (rc_apply_to_floating rc)), (''tiling'', J_Bool (rc_apply_to_tiling rc))]),
          (''gradient_border'', J_Map [(''enabled'', J_Bool (gr_enabled gr)), (''angle'', J_Int (gr_angle gr)),
                               (''speed'', J_Int (gr_speed gr)), (''fps'', J_Int (gr_fps gr)),
                               (''inactive_configured'', J_Bool (gr_inactive_set gr))]),
          (''live_resize'', J_Map [(''enabled'', J_Bool (lr_enabled lr)), (''fps'', J_Int (lr_fps lr))])])"

definition get_aiwr_status :: "status_env \<Rightarrow> options \<Rightarrow> wm \<Rightarrow> json" where
  "get_aiwr_status se op s =
     J_Map [(''version'', J_String (se_version se)),
            (''config_path'', J_String (case se_config_path se of None \<Rightarrow> [] | Some p \<Rightarrow> p)),
            (''compositor'', J_Map [(''capture_available'', J_Bool (se_capture_available se)),
               (''external_compositor'', J_Bool (se_capture_external se)), (''shape_supported'', J_Bool (se_shape_supported se))]),
            (''features'', J_Map ([(''overview'', status_overview (se_overview_active se) (op_overview op)),
               (''scrolling'', status_scrolling s), (''window_animation'', status_window_animation (op_window_animation op)),
               (''workspace_transition'', J_Map (pair_calls (transition_calls (op_transition op))))] @ status_decorations op)),
            (''curves'', j_list (\<lambda>c. J_String (cv_name c)) (curves s))]"

text \<open>The direction is written twice, once as a key without a value: the reply has no key \<open>direction\<close> and
  no \<open>duration_ms\<close>, and the number is refused.\<close>

lemma transition_keys_shifted:
  "pair_calls (transition_calls wt) =
     [(''enabled'', J_Bool (wt_enabled wt)),
      (''type'', J_String (case wt_kind wt of WT_FADE \<Rightarrow> ''fade'' | WT_ZOOM \<Rightarrow> ''zoom'' | WT_SLIDE \<Rightarrow> ''slide'')),
      (case wt_dir wt of WT_VERTICAL \<Rightarrow> ''vertical'' | WT_HORIZONTAL \<Rightarrow> ''horizontal'', J_String ''direction''),
      (case wt_dir wt of WT_VERTICAL \<Rightarrow> ''vertical'' | WT_HORIZONTAL \<Rightarrow> ''horizontal'', J_String ''duration_ms''),
      (''curve'', curve_or_default (wt_curve wt))]"
  by (simp add: transition_calls_def curve_or_default_def)

lemma transition_duration_missing:
  "map_of (pair_calls (transition_calls wt)) ''duration_ms'' = None \<and>
     map_of (pair_calls (transition_calls wt)) ''direction'' = None"
  by (simp add: transition_keys_shifted split: wt_direction.split)

end
