(* ===== verification/X_State.thy ===== *)
theory X_State
  imports Restore_Layout
begin

text \<open>
  What i3 keeps of the X server and what it sends there: \<^verbatim>\<open>src/x.c\<close> without the drawing of decorations
  and without event masks, cursors and flushes. Requests are the list \<open>xs_calls\<close>. The record
  \<open>x_state\<close> holds the state of the window manager, the frame of every container, one \<open>con_state\<close> per
  frame and the three lists of frames; \<open>xs_stack\<close> (\<open>state_head\<close>) and \<open>xs_old_stack\<close> have the topmost
  frame first.
\<close>

record con_state =
  cs_id :: u32
  cs_mapped :: bool
  cs_unmap_now :: bool
  cs_child_mapped :: bool
  cs_is_hidden :: bool
  cs_is_maximized_vert :: bool
  cs_is_maximized_horz :: bool
  cs_con :: "con_id option"
  cs_need_reparent :: bool
  cs_old_frame :: u32
  cs_was_floating :: bool
  cs_rect :: Rect
  cs_window_rect :: Rect
  cs_initial :: bool
  cs_name :: "string option"

datatype x_call =
    Create_Frame u32
  | Destroy_Frame u32
  | Place_Above u32 u32
  | Frame_Name u32 string
  | Reparent u32 u32
  | Window_Rect u32 Rect
  | New_Pixmap u32 int int
  | Frame_Extents u32 Rect
  | Window_State u32 bool
  | Map_Window u32
  | Unmap_Window u32
  | Configure_Notify u32 "16 word \<times> 16 word \<times> 16 word \<times> 16 word" int
  | Set_Atom u32 string bool
  | Shape_Frame u32 bool "(16 word \<times> 16 word \<times> 16 word \<times> 16 word) list"
  | Unshape_Frame u32 bool
  | Active_Window u32
  | Focused_Atom u32 bool
  | Input_Focus u32
  | Take_Focus u32
  | Client_List_Stacking "u32 list"
  | Client_List "u32 list"
  | Warp_Pointer int int
  | Configure_Window u32 "(string \<times> u32) list"
  | Set_Cardinals u32 string "u32 list"
  | Set_Text u32 string string
  | Delete_Window_Property u32 string
  | Sync_Answer u32 u32

record x_state =
  xs_wm :: wm
  xs_frame :: "con_id \<Rightarrow> u32"
  xs_pixmap :: "con_id \<Rightarrow> bool"
  xs_ignore_unmap :: "con_id \<Rightarrow> int"
  xs_state :: "u32 \<Rightarrow> con_state"
  xs_stack :: "u32 list"
  xs_old_stack :: "u32 list"
  xs_mapping_order :: "u32 list"
  xs_focused_id :: u32
  xs_last_focused :: u32
  xs_warp_to :: "Rect option"
  xs_ids :: "nat \<Rightarrow> u32"
  xs_count :: nat
  xs_calls :: "x_call list"

text \<open>The window that has the focus when no other has, whether shapes are supported, whether the option
  \<open>mouse_warping\<close> is set, and where the pointer is.\<close>

record x_env =
  xe_ewmh_window :: u32
  xe_shape_supported :: bool
  xe_mouse_warping :: bool
  xe_pointer :: "(u32 \<times> u32) option"

definition tell :: "x_call \<Rightarrow> x_state \<Rightarrow> x_state" where
  "tell q x = x\<lparr>xs_calls := xs_calls x @ [q]\<rparr>"

definition on_xs :: "(wm \<Rightarrow> wm) \<Rightarrow> x_state \<Rightarrow> x_state" where
  "on_xs f x = x\<lparr>xs_wm := f (xs_wm x)\<rparr>"

text \<open>A frame without a state fails the assertion.\<close>

definition state_for_frame :: "x_state \<Rightarrow> u32 \<Rightarrow> con_state option" where
  "state_for_frame x w = (if w \<in> set (xs_stack x) then Some (xs_state x w) else None)"

definition on_state :: "con_id \<Rightarrow> (con_state \<Rightarrow> con_state) \<Rightarrow> x_state \<Rightarrow> x_state" where
  "on_state c f x =
     (case state_for_frame x (xs_frame x c) of
        None \<Rightarrow> on_xs abort x
      | Some st \<Rightarrow> x\<lparr>xs_state := (xs_state x)(xs_frame x c := f st)\<rparr>)"

definition state_of :: "x_state \<Rightarrow> con_id \<Rightarrow> con_state" where
  "state_of x c = xs_state x (xs_frame x c)"

subsection \<open>Frames\<close>

definition blank_state :: "u32 \<Rightarrow> con_state" where
  "blank_state w =
     \<lparr>cs_id = w, cs_mapped = False, cs_unmap_now = False, cs_child_mapped = False, cs_is_hidden = False,
      cs_is_maximized_vert = False, cs_is_maximized_horz = False, cs_con = None, cs_need_reparent = False,
      cs_old_frame = 0, cs_was_floating = False, cs_rect = zero_rect, cs_window_rect = zero_rect,
      cs_initial = True, cs_name = None\<rparr>"

definition x_con_init :: "con_id \<Rightarrow> x_state \<Rightarrow> x_state" where
  "x_con_init c x =
     (let w = xs_ids x (xs_count x)
      in tell (Create_Frame w)
           (x\<lparr>xs_count := xs_count x + 1, xs_frame := (xs_frame x)(c := w),
              xs_state := (xs_state x)(w := blank_state w), xs_stack := w # xs_stack x,
              xs_old_stack := w # xs_old_stack x, xs_mapping_order := xs_mapping_order x @ [w]\<rparr>))"

definition x_reinit :: "con_id \<Rightarrow> x_state \<Rightarrow> x_state" where
  "x_reinit c = on_state c (\<lambda>st. st\<lparr>cs_initial := True, cs_child_mapped := False, cs_con := Some c,
                                    cs_window_rect := zero_rect\<rparr>)"

definition x_reparent_child :: "con_id \<Rightarrow> con_id \<Rightarrow> x_state \<Rightarrow> x_state" where
  "x_reparent_child c old x = on_state c (\<lambda>st. st\<lparr>cs_need_reparent := True, cs_old_frame := xs_frame x old\<rparr>) x"

definition x_move_win :: "con_id \<Rightarrow> con_id \<Rightarrow> x_state \<Rightarrow> x_state" where
  "x_move_win src dest x =
     (let from_src = state_of x src;
          x = on_state dest (\<lambda>st. st\<lparr>cs_con := cs_con from_src\<rparr>) x;
          x = on_state src (\<lambda>st. st\<lparr>cs_con := None\<rparr>) x
      in if rect_equals (cs_window_rect (state_of x dest)) zero_rect
         then on_state dest (\<lambda>st. st\<lparr>cs_window_rect := cs_window_rect from_src\<rparr>) x else x)"

definition kill_frame :: "con_id \<Rightarrow> x_state \<Rightarrow> x_state" where
  "kill_frame c x =
     (let w = xs_frame x c
      in x\<lparr>xs_pixmap := (xs_pixmap x)(c := False), xs_stack := remove1 w (xs_stack x),
           xs_old_stack := remove1 w (xs_old_stack x), xs_mapping_order := remove1 w (xs_mapping_order x),
           xs_focused_id := (if w = xs_focused_id x then 0 else xs_focused_id x),
           xs_last_focused := (if w = xs_last_focused x then 0 else xs_last_focused x)\<rparr>)"

definition x_con_kill :: "con_id \<Rightarrow> x_state \<Rightarrow> x_state" where
  "x_con_kill c x = tell (Destroy_Frame (xs_frame x c)) (kill_frame c x)"

text \<open>The old frame is not destroyed here: the caller does it, after the tree has been rendered.\<close>

definition x_con_reframe :: "con_id \<Rightarrow> x_state \<Rightarrow> x_state" where
  "x_con_reframe c x = x_con_init c (kill_frame c x)"

definition x_raise_con :: "con_id \<Rightarrow> x_state \<Rightarrow> x_state" where
  "x_raise_con c x =
     (let w = xs_frame x c
      in if w \<in> set (xs_stack x) then x\<lparr>xs_stack := w # remove1 w (xs_stack x)\<rparr> else on_xs abort x)"

definition x_set_name :: "con_id \<Rightarrow> string \<Rightarrow> x_state \<Rightarrow> x_state" where
  "x_set_name c name = on_state c (\<lambda>st. st\<lparr>cs_name := Some name\<rparr>)"

definition x_set_warp_to :: "x_env \<Rightarrow> Rect \<Rightarrow> x_state \<Rightarrow> x_state" where
  "x_set_warp_to xe r x = (if xe_mouse_warping xe then x\<lparr>xs_warp_to := Some r\<rparr> else x)"

subsection \<open>The stacking order\<close>

text \<open>The element above another one, in a list whose lowest element is the first.\<close>

fun above_in :: "'a list \<Rightarrow> 'a \<Rightarrow> 'a option" where
  "above_in (a # b # xs) y = (if a = y then Some b else above_in (b # xs) y)"
| "above_in _ y = None"

text \<open>The requests of the loop over the stack from the bottom to the top: each frame with the one it is
  put above.\<close>

fun restack :: "('a \<Rightarrow> bool) \<Rightarrow> ('a \<Rightarrow> 'a option) \<Rightarrow> bool \<Rightarrow> 'a list \<Rightarrow> ('a \<times> 'a) list" where
  "restack initial old_above changed (a # b # xs) =
     (let changed = (changed \<or> old_above a \<noteq> Some b)
      in (if initial a \<or> changed then [(b, a)] else []) @ restack initial old_above changed (b # xs))"
| "restack initial old_above changed _ = []"

text \<open>The X server, on a list with the lowest window first: the first window goes directly above the
  second one.\<close>

definition place_above :: "'a \<Rightarrow> 'a \<Rightarrow> 'a list \<Rightarrow> 'a list" where
  "place_above w sibling st = tailq_insert_after sibling w (remove1 w st)"

definition place_all :: "('a \<times> 'a) list \<Rightarrow> 'a list \<Rightarrow> 'a list" where
  "place_all = fold (\<lambda>(w, sibling). place_above w sibling)"

lemma place_all_simps [simp]:
  "place_all [] st = st"
  "place_all ((w, sibling) # rs) st = place_all rs (place_above w sibling st)"
  "place_all (rs @ qs) st = place_all qs (place_all rs st)"
  by (simp_all add: place_all_def)

lemma restack_changed: "restack initial old True (a # b # xs) = (b, a) # restack initial old True (b # xs)"
  by simp

lemma tailq_insert_after_append:
  "l \<notin> set xs \<Longrightarrow> tailq_insert_after l e (xs @ l # ys) = xs @ l # e # ys"
  by (induction xs) auto

text \<open>Once the order has changed, what is left goes on top, in its order.\<close>

lemma place_rest:
  assumes "distinct st" and "distinct (a # xs)" and "set xs \<subseteq> set st"
    and "filter (\<lambda>y. y \<notin> set xs) st = us @ a # vs"
  shows "place_all (restack initial old True (a # xs)) st = us @ a # xs @ vs"
  using assms
proof (induction xs arbitrary: a st us)
  case (Cons b xs)
  obtain us1 vs1 where st1: "remove1 b st = us1 @ a # vs1" and fresh: "a \<notin> set us1"
  proof -
    from Cons.prems(4) have "a \<in> set (filter (\<lambda>y. y \<notin> set (b # xs)) st)" by simp
    with Cons.prems(2) have "a \<in> set (remove1 b st)" by simp
    then show thesis using split_list_first that by metis
  qed
  let ?st = "us1 @ a # b # vs1"
  have placed: "place_above b a st = ?st"
    using fresh by (simp add: place_above_def st1 tailq_insert_after_append)
  have d1: "distinct (us1 @ a # vs1)" "b \<notin> set (us1 @ a # vs1)"
    using Cons.prems(1) st1 by (metis distinct_remove1, metis DiffE Cons.prems(1) insertI1 set_remove1_eq)
  have "filter (\<lambda>y. y \<notin> set (b # xs)) st = filter (\<lambda>y. y \<notin> set xs) (remove1 b st)"
    using Cons.prems(1) by (simp add: distinct_remove1_removeAll removeAll_filter_not_eq conj_commute eq_commute [of b])
  with Cons.prems(4) st1
  have split: "filter (\<lambda>y. y \<notin> set xs) us1 @ a # filter (\<lambda>y. y \<notin> set xs) vs1 = us @ a # vs"
    using Cons.prems(2) by simp
  have "a \<notin> set (filter (\<lambda>y. y \<notin> set xs) us1)" and "a \<notin> set (filter (\<lambda>y. y \<notin> set xs) vs1)"
    using fresh d1 by simp_all
  with split have us: "filter (\<lambda>y. y \<notin> set xs) us1 = us" and vs: "filter (\<lambda>y. y \<notin> set xs) vs1 = vs"
    using append_Cons_eq_iff by metis+
  have "set (us1 @ a # vs1) = set st - {b}" using st1 Cons.prems(1) by (metis set_remove1_eq)
  then have "set xs \<subseteq> set ?st" using Cons.prems(3) by auto
  moreover have "filter (\<lambda>y. y \<notin> set xs) ?st = (us @ [a]) @ b # vs"
    using us vs Cons.prems(2) by simp
  ultimately have "place_all (restack initial old True (b # xs)) ?st = (us @ [a]) @ b # xs @ vs"
    using Cons.prems(2) d1 by (intro Cons.IH) auto
  then show ?case by (simp add: placed)
qed simp

lemma place_above_same:
  assumes "distinct (us @ a # b # vs)"
  shows "place_above b a (us @ a # b # vs) = us @ a # b # vs"
  using assms by (simp add: place_above_def remove1_append tailq_insert_after_append)

lemma above_in_append: "distinct (us @ a # vs) \<Longrightarrow> above_in (us @ a # vs) a = (case vs of [] \<Rightarrow> None | b # _ \<Rightarrow> Some b)"
proof (induction us)
  case Nil
  then show ?case by (cases vs) auto
next
  case (Cons u us)
  from Cons.prems have "u \<noteq> a" by simp
  then have "above_in (u # us @ a # vs) a = above_in (us @ a # vs) a"
    by (cases "us @ a # vs") auto
  with Cons show ?case by simp
qed

text \<open>While the order agrees so far, the processed part is a segment of the old stack.\<close>

lemma place_segment:
  assumes "distinct old" and "distinct (seen @ a # xs)" and "set old = set (seen @ a # xs)"
    and "old = us @ seen @ a # vs"
  shows "place_all (restack initial (above_in old) False (a # xs)) old = seen @ a # xs"
  using assms
proof (induction xs arbitrary: seen a vs)
  case Nil
  have "set (us @ vs) \<inter> set (seen @ [a]) = {}" using Nil.prems(1,4) by auto
  moreover have "set (us @ vs) \<subseteq> set (seen @ [a])" using Nil.prems(3,4) by auto
  ultimately have "us @ vs = []" by (metis inf.absorb_iff1 set_empty)
  with Nil.prems show ?case by simp
next
  case (Cons b xs)
  have nxt: "above_in old a = (case vs of [] \<Rightarrow> None | y # _ \<Rightarrow> Some y)"
    using above_in_append [of "us @ seen" a vs] Cons.prems(1,4) by simp
  show ?case
  proof (cases "above_in old a = Some b")
    case True
    with nxt obtain vs' where vs: "vs = b # vs'" by (cases vs) auto
    have "place_above b a old = old"
      using place_above_same [of "us @ seen" a b vs'] Cons.prems(1,4) vs by simp
    moreover have "place_all (restack initial (above_in old) False (b # xs)) old = (seen @ [a]) @ b # xs"
      using Cons.prems vs by (intro Cons.IH [where vs = vs']) auto
    ultimately show ?thesis using True by simp
  next
    case False
    have rest: "filter (\<lambda>y. y \<notin> set (b # xs)) old = seen @ a # []"
    proof -
      have "filter (\<lambda>y. y \<notin> set (b # xs)) us = []" and "filter (\<lambda>y. y \<notin> set (b # xs)) vs = []"
        using Cons.prems unfolding filter_empty_conv by auto
      moreover have "filter (\<lambda>y. y \<notin> set (b # xs)) seen = seen" and "a \<notin> set (b # xs)"
        using Cons.prems(2) by (auto simp: filter_id_conv)
      ultimately show ?thesis using Cons.prems(4) by simp
    qed
    have "place_all (restack initial (above_in old) True (a # b # xs)) old = seen @ a # (b # xs) @ []"
      using Cons.prems by (intro place_rest rest) auto
    with False show ?thesis by simp
  qed
qed

theorem restack_correct:
  assumes "distinct old" and "distinct new" and "set new = set old"
  shows "place_all (restack initial (above_in old) False new) old = new"
proof (cases new)
  case Nil
  with assms(3) show ?thesis by simp
next
  case (Cons a xs)
  with assms(3) have "a \<in> set old" by auto
  then obtain us vs where "old = us @ a # vs" by (auto simp: in_set_conv_decomp)
  with assms Cons place_segment [of old "[]" a xs us vs] show ?thesis by simp
qed

text \<open>Windows that are not frames stay where they are between the frames, or wherever they were: the
  order of the frames does not depend on them.\<close>

lemma filter_place_above:
  assumes "P w" and "P sibling" and "distinct st"
  shows "filter P (place_above w sibling st) = place_above w sibling (filter P st)"
proof -
  have "filter P (tailq_insert_after l e xs) = tailq_insert_after l e (filter P xs)" if "P l" "P e" for l e xs
    using that by (induction xs) auto
  then show ?thesis using assms by (simp add: place_above_def filter_remove1)
qed

lemma distinct_place_above:
  assumes "distinct st" shows "distinct (place_above w sibling st)"
  using assms by (simp add: place_above_def distinct_tailq_insert_after)

lemma filter_place_all:
  assumes "\<forall>(w, sibling) \<in> set rs. P w \<and> P sibling" and "distinct st"
  shows "filter P (place_all rs st) = place_all rs (filter P st)"
  using assms
proof (induction rs arbitrary: st)
  case (Cons r rs)
  then show ?case by (cases r) (simp add: filter_place_above distinct_place_above)
qed simp

lemma restack_members: "(w, sibling) \<in> set (restack initial old changed xs) \<Longrightarrow> w \<in> set xs \<and> sibling \<in> set xs"
  by (induction initial old changed xs rule: restack.induct) (auto simp: Let_def split: if_splits)

subsection \<open>Pushing the stack\<close>

text \<open>The window that the state of a frame stands for, if i3 manages it.\<close>

definition managed_window :: "x_state \<Rightarrow> u32 \<Rightarrow> u32 option" where
  "managed_window x w =
     (case cs_con (xs_state x w) of
        None \<Rightarrow> None
      | Some c \<Rightarrow>
          if con_has_managed_window (xs_wm x) c then map_option w_id (window (store (xs_wm x) c)) else None)"

definition managed_windows :: "x_state \<Rightarrow> u32 list \<Rightarrow> u32 list" where
  "managed_windows x ws = concat (map (\<lambda>w. case managed_window x w of None \<Rightarrow> [] | Some v \<Rightarrow> [v]) ws)"

definition push_stack :: "x_state \<Rightarrow> x_state" where
  "push_stack x =
     (let requests = restack (\<lambda>w. cs_initial (xs_state x w)) (above_in (rev (xs_old_stack x))) False (rev (xs_stack x));
          stacked = managed_windows x (rev (xs_stack x));
          by_mapping = managed_windows x (xs_mapping_order x);
          x = fold (\<lambda>(w, sibling). tell (Place_Above w sibling)) requests x;
          x = x\<lparr>xs_state := (\<lambda>w. if w \<in> set (xs_stack x) then (xs_state x w)\<lparr>cs_initial := False\<rparr> else xs_state x w)\<rparr>
      in if requests = [] then x else tell (Client_List by_mapping) (tell (Client_List_Stacking stacked) x))"

definition push_warp :: "x_env \<Rightarrow> x_state \<Rightarrow> x_state" where
  "push_warp xe x =
     (case xs_warp_to x of
        None \<Rightarrow> x
      | Some r \<Rightarrow>
          let mid_x = sint (rect_x r + rect_width r div 2); mid_y = sint (rect_y r + rect_height r div 2);
              x' = x\<lparr>xs_warp_to := None\<rparr>
          in (case xe_pointer xe of
                None \<Rightarrow> x'
              | Some (px, py) \<Rightarrow>
                  if get_output_containing (xs_wm x) px py
                     \<noteq> get_output_containing (xs_wm x) (word_of_int mid_x) (word_of_int mid_y)
                  then tell (Warp_Pointer mid_x mid_y) x' else x'))"

subsection \<open>Pushing a container\<close>

text \<open>The frame of a stacked or tabbed container without a window is as high as the decorations in it.\<close>

definition deco_step :: "Rect \<Rightarrow> u32 \<times> u32 \<Rightarrow> u32 \<times> u32" where
  "deco_step r m = (if rect_y r \<ge> fst m \<and> rect_height r \<ge> snd m then (rect_y r, rect_height r) else m)"

definition deco_bottom :: "wm \<Rightarrow> con_id \<Rightarrow> u32" where
  "deco_bottom s c =
     (case fold deco_step (map (\<lambda>d. deco_rect (store s d)) (nodes s c)) (0, 0) of (y, h) \<Rightarrow> y + h)"

definition stacks_titles :: "wm \<Rightarrow> con_id \<Rightarrow> bool" where
  "stacks_titles s c \<longleftrightarrow> layout_of s c = L_STACKED \<or> layout_of s c = L_TABBED"

definition frame_rect :: "wm \<Rightarrow> con_id \<Rightarrow> Rect" where
  "frame_rect s c =
     (let r = rect (store s c)
      in if window (store s c) = None \<and> stacks_titles s c then r\<lparr>rect_height := deco_bottom s c\<rparr> else r)"

definition stays_mapped :: "wm \<Rightarrow> con_id \<Rightarrow> bool" where
  "stays_mapped s c \<longleftrightarrow>
     mapped (store s c) \<and>
     (window (store s c) \<noteq> None \<or> stacks_titles s c \<and> rect_height (frame_rect s c) \<noteq> 0)"

definition push_name :: "con_id \<Rightarrow> x_state \<Rightarrow> x_state" where
  "push_name c x =
     (case cs_name (state_of x c) of
        None \<Rightarrow> x
      | Some name \<Rightarrow> on_state c (\<lambda>st. st\<lparr>cs_name := None\<rparr>) (tell (Frame_Name (xs_frame x c) name) x))"

definition push_reparent :: "con_id \<Rightarrow> i3Window \<Rightarrow> x_state \<Rightarrow> x_state" where
  "push_reparent c w x =
     (let x = on_state c (\<lambda>st. st\<lparr>cs_need_reparent := False, cs_old_frame := 0\<rparr>) (tell (Reparent (w_id w) (xs_frame x c)) x)
      in x\<lparr>xs_ignore_unmap := (xs_ignore_unmap x)(c := xs_ignore_unmap x c + 1)\<rparr>)"

text \<open>Rounded corners ask for a new shape only when the size of the frame has changed, which is the first
  condition already.\<close>

definition needs_reshape :: "x_state \<Rightarrow> con_id \<Rightarrow> Rect \<Rightarrow> bool" where
  "needs_reshape x c r \<longleftrightarrow>
     (let st = state_of x c; k = store (xs_wm x) c
      in rect_width (cs_rect st) \<noteq> rect_width r \<or> rect_height (cs_rect st) \<noteq> rect_height r \<or>
         rect_width (cs_window_rect st) \<noteq> rect_width (window_rect k) \<or>
         rect_height (cs_window_rect st) \<noteq> rect_height (window_rect k) \<or>
         con_is_floating (xs_wm x) c \<and> \<not> cs_was_floating st)"

definition needs_pixmap :: "wm \<Rightarrow> con_id \<Rightarrow> bool" where
  "needs_pixmap s c \<longleftrightarrow>
     (con_is_leaf s c \<and> con_border_style s c \<noteq> BS_NONE \<or> stacks_titles s c) \<and>
     kind s c \<noteq> CT_ROOT \<and> kind s c \<noteq> CT_OUTPUT"

text \<open>The first result says whether the client gets a synthetic \<open>ConfigureNotify\<close>.\<close>

definition push_frame_rect :: "con_id \<Rightarrow> Rect \<Rightarrow> x_state \<Rightarrow> bool \<times> x_state" where
  "push_frame_rect c r x =
     (let needed = needs_pixmap (xs_wm x) c; had = xs_pixmap x c; old = cs_rect (state_of x c)
      in if needed \<and> \<not> had \<or> \<not> rect_equals old r \<and> rect_height r > 0 then
           let x = (if needed \<and> (\<not> rect_equals old r \<or> \<not> had)
                    then tell (New_Pixmap (xs_frame x c) (max (sint (rect_width r)) 1) (max (sint (rect_height r)) 1)) x
                    else x);
               x = x\<lparr>xs_pixmap := (xs_pixmap x)(c := needed)\<rparr>
           in (True, on_state c (\<lambda>st. st\<lparr>cs_rect := r\<rparr>) (tell (Window_Rect (xs_frame x c) r) x))
         else (False, x))"

definition push_window_rect :: "con_id \<Rightarrow> x_state \<Rightarrow> bool \<times> x_state" where
  "push_window_rect c x =
     (let k = store (xs_wm x) c
      in case window k of
           None \<Rightarrow> (False, x)
         | Some w \<Rightarrow>
             if rect_equals (cs_window_rect (state_of x c)) (window_rect k) then (False, x)
             else (True, on_state c (\<lambda>st. st\<lparr>cs_window_rect := window_rect k\<rparr>)
                           (tell (Window_Rect (w_id w) (window_rect k)) x)))"

text \<open>The rectangles of the border, in the 16-bit coordinates of the protocol.\<close>

definition x_get_border_rectangles :: "wm \<Rightarrow> con_id \<Rightarrow> (16 word \<times> 16 word \<times> 16 word \<times> 16 word) list" where
  "x_get_border_rectangles s c =
     (let style = con_border_style s c
      in if style = BS_NONE \<or> \<not> con_is_leaf s c then []
         else
           let hide = and (con_adjacent_borders s c) (cfg_hide_edge_borders (cfg s));
               br = con_border_style_rect s c; w = rect_width (rect (store s c)); h = rect_height (rect (store s c));
               right_px = rect_width br + rect_x br; bottom_px = rect_height br + rect_y br
           in (if and hide ADJ_LEFT_SCREEN_EDGE = 0 then [(0, 0, ucast (rect_x br), ucast h)] else []) @
              (if and hide ADJ_RIGHT_SCREEN_EDGE = 0 then [(ucast (w + right_px), 0, ucast (- right_px), ucast h)] else []) @
              (if and hide ADJ_LOWER_SCREEN_EDGE = 0
               then [(ucast (rect_x br), ucast (h + bottom_px), ucast (w + rect_width br), ucast (- bottom_px))] else []) @
              (if style = BS_PIXEL \<and> and hide ADJ_UPPER_SCREEN_EDGE = 0
               then [(ucast (rect_x br), 0, ucast (w + rect_width br), ucast (rect_y br))] else []))"

definition tell_shape :: "con_id \<Rightarrow> bool \<Rightarrow> x_state \<Rightarrow> x_state" where
  "tell_shape c bounding x =
     tell (Shape_Frame (xs_frame x c) bounding (x_get_border_rectangles (xs_wm x) c)) x"

definition tell_unshape :: "con_id \<Rightarrow> bool \<Rightarrow> x_state \<Rightarrow> x_state" where
  "tell_unshape c bounding x = tell (Unshape_Frame (xs_frame x c) bounding) x"

definition set_shape_state :: "x_env \<Rightarrow> con_id \<Rightarrow> bool \<Rightarrow> x_state \<Rightarrow> x_state" where
  "set_shape_state xe c need_reshape x =
     (case window (store (xs_wm x) c) of
        None \<Rightarrow> x
      | Some w \<Rightarrow>
          if \<not> xe_shape_supported xe then x
          else
            let now_floating = con_is_floating (xs_wm x) c;
                x = (if need_reshape \<and> now_floating \<and> w_shaped w then tell_shape c True x else x);
                x = (if need_reshape \<and> now_floating \<and> w_input_shaped w then tell_shape c False x else x);
                ends = (cs_was_floating (state_of x c) \<and> \<not> now_floating);
                x = (if ends \<and> w_shaped w then tell_unshape c True x else x)
            in if ends \<and> w_input_shaped w then tell_unshape c False x else x)"

definition frame_extents :: "con_id \<Rightarrow> x_state \<Rightarrow> x_state" where
  "frame_extents c x =
     (case window (store (xs_wm x) c) of
        None \<Rightarrow> x
      | Some w \<Rightarrow>
          let b = con_border_style_rect (xs_wm x) c
          in tell (Frame_Extents (w_id w)
               \<lparr>rect_x = rect_x b, rect_y = - rect_width b - rect_x b,
                rect_width = rect_y b, rect_height = - rect_height b - rect_y b\<rparr>) x)"

definition push_map :: "con_id \<Rightarrow> x_state \<Rightarrow> x_state" where
  "push_map c x =
     (let k = store (xs_wm x) c; st = state_of x c; new_child = (window k \<noteq> None \<and> \<not> cs_child_mapped st)
      in if (cs_mapped st \<noteq> mapped k \<or> new_child) \<and> mapped k then
           let x = (case window k of None \<Rightarrow> x | Some w \<Rightarrow>
                      let x = tell (Window_State (w_id w) True) x
                      in if new_child then on_state c (\<lambda>st. st\<lparr>cs_child_mapped := True\<rparr>) (tell (Map_Window (w_id w)) x)
                         else x)
           in on_state c (\<lambda>st. st\<lparr>cs_mapped := True\<rparr>) (tell (Map_Window (xs_frame x c)) x)
         else x)"

definition fake_absolute_configure_notify :: "con_id \<Rightarrow> wm \<Rightarrow> x_call list" where
  "fake_absolute_configure_notify c s =
     (let k = store s c
      in case window k of
           None \<Rightarrow> []
         | Some w \<Rightarrow>
             [Configure_Notify (w_id w)
                (ucast (rect_x (rect k) + rect_x (window_rect k)), ucast (rect_y (rect k) + rect_y (window_rect k)),
                 ucast (rect_width (window_rect k)), ucast (rect_height (window_rect k))) (border_width k)])"

definition tell_all :: "x_call list \<Rightarrow> x_state \<Rightarrow> x_state" where
  "tell_all qs x = x\<lparr>xs_calls := xs_calls x @ qs\<rparr>"

definition set_hidden_state :: "con_id \<Rightarrow> x_state \<Rightarrow> x_state" where
  "set_hidden_state c x =
     (let hidden = con_is_hidden (xs_wm x) c
      in case window (store (xs_wm x) c) of
           None \<Rightarrow> x
         | Some w \<Rightarrow>
             if hidden = cs_is_hidden (state_of x c) then x
             else on_state c (\<lambda>st. st\<lparr>cs_is_hidden := hidden\<rparr>)
                    (tell (Set_Atom (w_id w) ''_NET_WM_STATE_HIDDEN'' hidden) x))"

definition set_maximized_state :: "con_id \<Rightarrow> x_state \<Rightarrow> x_state" where
  "set_maximized_state c x =
     (case window (store (xs_wm x) c) of
        None \<Rightarrow> x
      | Some w \<Rightarrow>
          let horz = (con_is_maximized (xs_wm x) c HORIZ = Some True);
              vert = (con_is_maximized (xs_wm x) c VERT = Some True);
              x = (if horz = cs_is_maximized_horz (state_of x c) then x
                   else on_state c (\<lambda>st. st\<lparr>cs_is_maximized_horz := horz\<rparr>)
                          (tell (Set_Atom (w_id w) ''_NET_WM_STATE_MAXIMIZED_HORZ'' horz) x))
          in if vert = cs_is_maximized_vert (state_of x c) then x
             else on_state c (\<lambda>st. st\<lparr>cs_is_maximized_vert := vert\<rparr>)
                    (tell (Set_Atom (w_id w) ''_NET_WM_STATE_MAXIMIZED_VERT'' vert) x))"

definition push_own :: "x_env \<Rightarrow> con_id \<Rightarrow> x_state \<Rightarrow> x_state" where
  "push_own xe c x =
     (let x = push_name c x;
          r = frame_rect (xs_wm x) c; keep = stays_mapped (xs_wm x) c;
          x = on_xs (upd_con c (\<lambda>k. k\<lparr>mapped := keep\<rparr>)) x;
          reparent = (if cs_need_reparent (state_of x c) then window (store (xs_wm x) c) else None);
          x = (case reparent of None \<Rightarrow> x | Some w \<Rightarrow> push_reparent c w x);
          reshape = (reparent \<noteq> None \<or> needs_reshape x c r)
      in case push_frame_rect c r x of
           (moved, x) \<Rightarrow>
             (case push_window_rect c x of
                (moved_window, x) \<Rightarrow>
                  let x = push_map c (frame_extents c (set_shape_state xe c reshape x));
                      x = on_state c (\<lambda>st. st\<lparr>cs_unmap_now := (cs_mapped st \<and> \<not> mapped (store (xs_wm x) c)),
                                              cs_was_floating := con_is_floating (xs_wm x) c\<rparr>) x;
                      x = (if moved \<or> moved_window then tell_all (fake_absolute_configure_notify c (xs_wm x)) x else x)
                  in set_maximized_state c (set_hidden_state c x)))"

text \<open>The recursion follows the focus order; it is at most as deep as there are containers.\<close>

primrec push_below :: "nat \<Rightarrow> x_env \<Rightarrow> con_id \<Rightarrow> x_state \<Rightarrow> x_state" where
  "push_below 0 xe c x = x"
| "push_below (Suc n) xe c x =
     (let x = push_own xe c x in fold (push_below n xe) (foci (xs_wm x) c) x)"

definition x_push_node :: "x_env \<Rightarrow> con_id \<Rightarrow> x_state \<Rightarrow> x_state" where
  "x_push_node xe c x = push_below (length (all_cons (xs_wm x))) xe c x"

definition unmap_own :: "con_id \<Rightarrow> x_state \<Rightarrow> x_state" where
  "unmap_own c x =
     (if \<not> cs_unmap_now (state_of x c) then x
      else
        let x = (case window (store (xs_wm x) c) of
                   None \<Rightarrow> tell (Unmap_Window (xs_frame x c)) x
                 | Some w \<Rightarrow>
                     let x = tell (Unmap_Window (xs_frame x c)) (tell (Window_State (w_id w) False) x)
                     in x\<lparr>xs_ignore_unmap := (xs_ignore_unmap x)(c := xs_ignore_unmap x c + 1)\<rparr>)
        in on_state c (\<lambda>st. st\<lparr>cs_mapped := mapped (store (xs_wm x) c)\<rparr>) x)"

primrec unmap_below :: "nat \<Rightarrow> con_id \<Rightarrow> x_state \<Rightarrow> x_state" where
  "unmap_below 0 c x = x"
| "unmap_below (Suc n) c x =
     (let x = unmap_own c x
      in fold (unmap_below n) (floats (xs_wm x) c) (fold (unmap_below n) (nodes (xs_wm x) c) x))"

definition x_push_node_unmaps :: "con_id \<Rightarrow> x_state \<Rightarrow> x_state" where
  "x_push_node_unmaps c x = unmap_below (length (all_cons (xs_wm x))) c x"

subsection \<open>Pushing the focus\<close>

definition change_ewmh_focus :: "u32 \<Rightarrow> u32 \<Rightarrow> x_call list" where
  "change_ewmh_focus new_focus old_focus =
     (if new_focus = old_focus then []
      else [Active_Window new_focus] @ (if new_focus \<noteq> 0 then [Focused_Atom new_focus True] else []) @
           (if old_focus \<noteq> 0 then [Focused_Atom old_focus False] else []))"

definition is_con_attached :: "wm \<Rightarrow> con_id \<Rightarrow> bool" where
  "is_con_attached s c \<longleftrightarrow> (case parent_of s c of None \<Rightarrow> False | Some p \<Rightarrow> c \<in> set (nodes s p))"

text \<open>Of a container that takes the focus itself only its window counts as managed, and only that sends
  the IPC event.\<close>

definition push_focus_to :: "con_id \<Rightarrow> u32 \<Rightarrow> x_state \<Rightarrow> x_state" where
  "push_focus_to f to_focus x =
     (let s = xs_wm x; k = store s f;
          active = (case window k of None \<Rightarrow> 0 | Some w \<Rightarrow> if con_has_managed_window s f then w_id w else 0);
          takes = (case window k of None \<Rightarrow> False | Some w \<Rightarrow> w_needs_take_focus w \<and> w_doesnt_accept_focus w);
          x = tell (if takes then Take_Focus to_focus else Input_Focus to_focus) x;
          x = tell_all (change_ewmh_focus active (xs_last_focused x)) x;
          announce = (to_focus \<noteq> xs_last_focused x \<and> is_con_attached s f \<and>
                      (takes \<or> to_focus \<noteq> 0 \<and> window k \<noteq> None));
          x = (if announce then on_xs (ipc_send (Window_Event ''focus'' f)) x else x)
      in x\<lparr>xs_focused_id := to_focus, xs_last_focused := to_focus\<rparr>)"

definition push_no_focus :: "x_env \<Rightarrow> x_state \<Rightarrow> x_state" where
  "push_no_focus xe x =
     (tell_all (Input_Focus (xe_ewmh_window xe) # change_ewmh_focus 0 (xs_last_focused x)) x)
       \<lparr>xs_focused_id := xe_ewmh_window xe, xs_last_focused := 0\<rparr>"

definition focus_target :: "x_state \<Rightarrow> con_id \<Rightarrow> u32" where
  "focus_target x f = (case window (store (xs_wm x) f) of None \<Rightarrow> xs_frame x f | Some w \<Rightarrow> w_id w)"

definition push_focus :: "x_env \<Rightarrow> x_state \<Rightarrow> x_state" where
  "push_focus xe x =
     (case focused (xs_wm x) of
        None \<Rightarrow> on_xs abort x
      | Some f \<Rightarrow>
          let to_focus = focus_target x f;
              x = (if xs_focused_id x = to_focus then x
                   else if mapped (store (xs_wm x) f) then push_focus_to f to_focus x
                   else x\<lparr>xs_focused_id := 0\<rparr>)
          in if xs_focused_id x = 0 then push_no_focus xe x else x)"

definition x_push_changes :: "x_env \<Rightarrow> con_id \<Rightarrow> x_state \<Rightarrow> x_state" where
  "x_push_changes xe c x =
     (let x = push_warp xe (x_push_node xe c (push_stack x));
          x = x_push_node_unmaps c (push_focus xe x)
      in x\<lparr>xs_old_stack := xs_stack x\<rparr>)"

text \<open>A client that changes its shape: \<open>Some True\<close> the bounding shape, \<open>Some False\<close> the input shape.\<close>

definition x_set_shape :: "con_id \<Rightarrow> bool option \<Rightarrow> bool \<Rightarrow> x_state \<Rightarrow> x_state" where
  "x_set_shape c kind_of_shape enable x =
     (if state_for_frame x (xs_frame x c) = None then on_xs abort x
      else case kind_of_shape of
          None \<Rightarrow> x
        | Some bounding \<Rightarrow>
            let put = (\<lambda>w. if bounding then w\<lparr>w_shaped := enable\<rparr> else w\<lparr>w_input_shaped := enable\<rparr>);
                x = on_xs (upd_con c (\<lambda>k. k\<lparr>window := map_option put (window k)\<rparr>)) x
            in if \<not> con_is_floating (xs_wm x) c then x
               else if enable then tell_shape c bounding x else tell_unshape c bounding x)"

subsection \<open>The server and its stacking order\<close>

text \<open>The windows of the server from the lowest to the topmost one, under a request. A new window is on
  top.\<close>

definition server_step :: "x_call \<Rightarrow> u32 list \<Rightarrow> u32 list" where
  "server_step q st =
     (case q of
        Create_Frame w \<Rightarrow> st @ [w]
      | Destroy_Frame w \<Rightarrow> remove1 w st
      | Place_Above w sibling \<Rightarrow> place_above w sibling st
      | _ \<Rightarrow> st)"

definition server :: "x_call list \<Rightarrow> u32 list \<Rightarrow> u32 list" where
  "server = fold server_step"

lemma server_simps [simp]:
  "server [] st = st" "server (q # qs) st = server qs (server_step q st)"
  "server (qs @ rs) st = server rs (server qs st)"
  by (simp_all add: server_def)

definition restacks :: "x_call \<Rightarrow> bool" where
  "restacks q \<longleftrightarrow> (case q of Create_Frame _ \<Rightarrow> True | Destroy_Frame _ \<Rightarrow> True | Place_Above _ _ \<Rightarrow> True | _ \<Rightarrow> False)"

lemma server_filter: "server (filter restacks qs) st = server qs st"
proof (induction qs arbitrary: st)
  case (Cons q qs)
  have "server_step q st = st" if "\<not> restacks q" using that by (cases q) (simp_all add: restacks_def server_step_def)
  with Cons show ?case by simp
qed simp

text \<open>What of a state matters for the stacking order.\<close>

record x_view =
  vw_stack :: "u32 list"
  vw_old_stack :: "u32 list"
  vw_ids :: "nat \<Rightarrow> u32"
  vw_count :: nat
  vw_calls :: "x_call list"

definition view :: "x_state \<Rightarrow> x_view" where
  "view x = \<lparr>vw_stack = xs_stack x, vw_old_stack = xs_old_stack x, vw_ids = xs_ids x, vw_count = xs_count x,
             vw_calls = filter restacks (xs_calls x)\<rparr>"

named_theorems same_view

lemma view_updates [same_view]:
  "view (x\<lparr>xs_wm := a\<rparr>) = view x" "view (x\<lparr>xs_state := b\<rparr>) = view x" "view (x\<lparr>xs_pixmap := d\<rparr>) = view x"
  "view (x\<lparr>xs_ignore_unmap := e\<rparr>) = view x" "view (x\<lparr>xs_focused_id := f\<rparr>) = view x"
  "view (x\<lparr>xs_last_focused := f\<rparr>) = view x" "view (x\<lparr>xs_warp_to := g\<rparr>) = view x"
  "view (x\<lparr>xs_focused_id := f, xs_last_focused := f'\<rparr>) = view x"
  by (simp_all add: view_def)

lemma view_tell [same_view]: "\<not> restacks q \<Longrightarrow> view (tell q x) = view x"
  by (simp add: view_def tell_def)

lemma view_tell_all [same_view]: "filter restacks qs = [] \<Longrightarrow> view (tell_all qs x) = view x"
  by (simp add: view_def tell_all_def)

lemma view_on [same_view]: "view (on_xs f x) = view x" "view (on_state c g x) = view x"
  by (simp_all add: on_xs_def on_state_def same_view split: option.split)

lemma view_fold: "(\<And>y z. view (f y z) = view z) \<Longrightarrow> view (fold f ys x) = view x"
  by (induction ys arbitrary: x) simp_all

lemmas quiet_calls = restacks_def fake_absolute_configure_notify_def change_ewmh_focus_def

lemma view_push_own [same_view]: "view (push_own xe c x) = view x"
proof -
  have "view (push_name c x) = view x" for x by (simp add: push_name_def same_view restacks_def split: option.split)
  moreover have "view (push_reparent c w x) = view x" for w x
    by (simp add: push_reparent_def Let_def same_view restacks_def)
  moreover have "view (snd (push_frame_rect c r x)) = view x" for r x
    by (simp add: push_frame_rect_def Let_def same_view restacks_def)
  moreover have "view (snd (push_window_rect c x)) = view x" for x
    by (simp add: push_window_rect_def Let_def same_view restacks_def split: option.split)
  moreover have "view (set_shape_state xe c b x) = view x" for b x
    by (simp add: set_shape_state_def tell_shape_def tell_unshape_def Let_def same_view restacks_def split: option.split)
  moreover have "view (frame_extents c x) = view x" for x
    by (simp add: frame_extents_def Let_def same_view restacks_def split: option.split)
  moreover have "view (push_map c x) = view x" for x
    by (simp add: push_map_def Let_def same_view restacks_def split: option.split)
  moreover have "view (set_hidden_state c x) = view x" and "view (set_maximized_state c x) = view x" for x
    by (simp_all add: set_hidden_state_def set_maximized_state_def Let_def same_view restacks_def split: option.split)
  moreover have "filter restacks (fake_absolute_configure_notify c s) = []" for s
    by (simp add: fake_absolute_configure_notify_def Let_def restacks_def split: option.split)
  ultimately show ?thesis
    by (simp add: push_own_def Let_def same_view case_prod_beta split: option.split)
qed

lemma view_push_node [same_view]: "view (x_push_node xe c x) = view x"
proof -
  have "view (push_below n xe c x) = view x" for n
    by (induction n arbitrary: c x) (simp_all add: Let_def same_view view_fold)
  then show ?thesis by (simp add: x_push_node_def)
qed

lemma view_unmaps [same_view]: "view (x_push_node_unmaps c x) = view x"
proof -
  have "view (unmap_own c x) = view x" for c x
    by (simp add: unmap_own_def Let_def same_view restacks_def split: option.split)
  then have "view (unmap_below n c x) = view x" for n
    by (induction n arbitrary: c x) (simp_all add: Let_def view_fold)
  then show ?thesis by (simp add: x_push_node_unmaps_def)
qed

lemma view_push_focus [same_view]: "view (push_focus xe x) = view x"
proof -
  have quiet: "filter restacks (change_ewmh_focus a b) = []" for a b
    by (simp add: change_ewmh_focus_def restacks_def)
  then have "view (push_focus_to f w x) = view x" for f w x
    by (simp add: push_focus_to_def Let_def same_view restacks_def)
  moreover have "view (push_no_focus xe x) = view x" for x
    using quiet by (simp add: push_no_focus_def same_view restacks_def)
  ultimately show ?thesis by (simp add: push_focus_def Let_def same_view split: option.split)
qed

lemma view_push_warp [same_view]: "view (push_warp xe x) = view x"
  by (simp add: push_warp_def Let_def same_view restacks_def split: option.split)

lemma view_same:
  assumes "view y = view x"
  shows "xs_stack y = xs_stack x \<and> xs_old_stack y = xs_old_stack x \<and> xs_ids y = xs_ids x \<and>
    xs_count y = xs_count x \<and> server (xs_calls y) st = server (xs_calls x) st"
  using assms server_filter by (metis view_def x_view.ext_inject)

lemma push_stack_view:
  "xs_stack (push_stack x) = xs_stack x \<and> xs_old_stack (push_stack x) = xs_old_stack x \<and>
   xs_ids (push_stack x) = xs_ids x \<and> xs_count (push_stack x) = xs_count x \<and>
   server (xs_calls (push_stack x)) st =
     place_all (restack (\<lambda>w. cs_initial (xs_state x w)) (above_in (rev (xs_old_stack x))) False (rev (xs_stack x)))
       (server (xs_calls x) st)"
proof -
  let ?tell = "fold (\<lambda>(w, sibling). tell (Place_Above w sibling))"
  have told: "?tell rs x = x\<lparr>xs_calls := xs_calls x @ map (\<lambda>(w, sibling). Place_Above w sibling) rs\<rparr>" for rs x
    by (induction rs arbitrary: x) (auto simp: tell_def)
  have placed: "server (map (\<lambda>(w, sibling). Place_Above w sibling) rs) st = place_all rs st" for rs st
    by (induction rs arbitrary: st) (auto simp: server_step_def)
  show ?thesis
    by (simp add: push_stack_def Let_def told placed tell_def) (simp add: server_step_def)
qed

definition stack_ok :: "u32 list \<Rightarrow> x_state \<Rightarrow> bool" where
  "stack_ok others x \<longleftrightarrow>
     distinct (xs_stack x) \<and> distinct (xs_old_stack x) \<and> set (xs_old_stack x) = set (xs_stack x) \<and>
     distinct (server (xs_calls x) others) \<and>
     filter (\<lambda>w. w \<in> set (xs_stack x)) (server (xs_calls x) others) = rev (xs_old_stack x)"

lemma stack_ok_view:
  assumes "view y = view x"
  shows "stack_ok others y = stack_ok others x"
proof -
  note v = view_same [OF assms]
  show ?thesis by (simp add: stack_ok_def v)
qed

lemma stack_okD:
  assumes "stack_ok others x"
  shows "distinct (xs_stack x)" and "distinct (xs_old_stack x)" and "set (xs_old_stack x) = set (xs_stack x)"
    and "distinct (server (xs_calls x) others)" and "set (xs_stack x) \<subseteq> set (server (xs_calls x) others)"
    and "filter (\<lambda>w. w \<in> set (xs_stack x)) (server (xs_calls x) others) = rev (xs_old_stack x)"
proof -
  show old: "filter (\<lambda>w. w \<in> set (xs_stack x)) (server (xs_calls x) others) = rev (xs_old_stack x)"
    and same: "set (xs_old_stack x) = set (xs_stack x)"
    and "distinct (xs_stack x)" and "distinct (xs_old_stack x)" and "distinct (server (xs_calls x) others)"
    using assms by (simp_all only: stack_ok_def)
  show "set (xs_stack x) \<subseteq> set (server (xs_calls x) others)"
    using old same by (metis filter_is_subset set_rev)
qed

text \<open>A push brings the frames on the server into the order of the stack, whatever other windows there
  are.\<close>

lemma push_stack_orders:
  assumes "stack_ok others x"
  shows "filter (\<lambda>w. w \<in> set (xs_stack x)) (server (xs_calls (push_stack x)) others) = rev (xs_stack x)"
    and "set (server (xs_calls (push_stack x)) others) = set (server (xs_calls x) others)"
    and "distinct (server (xs_calls (push_stack x)) others)"
proof -
  let ?rs = "restack (\<lambda>w. cs_initial (xs_state x w)) (above_in (rev (xs_old_stack x))) False (rev (xs_stack x))"
  let ?st = "server (xs_calls x) others"
  have members: "w \<in> set (xs_stack x) \<and> v \<in> set (xs_stack x)" if "(w, v) \<in> set ?rs" for w v
    using restack_members [OF that] by simp
  have "filter (\<lambda>w. w \<in> set (xs_stack x)) (place_all ?rs ?st) = place_all ?rs (filter (\<lambda>w. w \<in> set (xs_stack x)) ?st)"
    using assms members by (intro filter_place_all) (auto simp: stack_ok_def)
  also have "\<dots> = rev (xs_stack x)"
    unfolding stack_okD(6) [OF assms] using stack_okD(1-3) [OF assms] by (intro restack_correct) auto
  finally show "filter (\<lambda>w. w \<in> set (xs_stack x)) (server (xs_calls (push_stack x)) others) = rev (xs_stack x)"
    by (simp add: push_stack_view)
  have keeps: "set (place_all rs st) = set st \<and> distinct (place_all rs st)"
    if "distinct st" and "\<forall>(w, v) \<in> set rs. w \<in> set st \<and> v \<in> set st \<and> w \<noteq> v" for rs and st :: "u32 list"
    using that
  proof (induction rs arbitrary: st)
    case (Cons r rs)
    obtain w v where r: "r = (w, v)" by (cases r)
    with Cons.prems have "w \<in> set st" "v \<in> set st" "w \<noteq> v" by auto
    with Cons.prems(1) have "set (place_above w v st) = set st"
      by (auto simp: place_above_def set_tailq_insert_after)
    with Cons r show ?case by (simp add: distinct_place_above)
  qed simp
  have apart: "w \<noteq> v" if "(w, v) \<in> set (restack i ol ch ys)" "distinct ys" for w v i ol ch and ys :: "u32 list"
    using that by (induction i ol ch ys rule: restack.induct) (auto simp: Let_def split: if_splits)
  have "w \<noteq> v" if "(w, v) \<in> set ?rs" for w v using apart [OF that] stack_okD(1) [OF assms] by simp
  then have "\<forall>(w, v) \<in> set ?rs. w \<in> set ?st \<and> v \<in> set ?st \<and> w \<noteq> v"
    using members stack_okD(5) [OF assms] by blast
  with keeps [of ?st ?rs] stack_okD(4) [OF assms]
  show "set (server (xs_calls (push_stack x)) others) = set ?st"
    and "distinct (server (xs_calls (push_stack x)) others)"
    by (simp_all add: push_stack_view)
qed

lemma x_push_changes_stack:
  assumes "stack_ok others x"
  shows "stack_ok others (x_push_changes xe c x)"
    and "xs_stack (x_push_changes xe c x) = xs_stack x"
    and "xs_old_stack (x_push_changes xe c x) = xs_stack x"
proof -
  let ?y = "push_focus xe (push_warp xe (x_push_node xe c (push_stack x)))"
  let ?z = "x_push_node_unmaps c ?y"
  have same: "view ?z = view (push_stack x)" by (simp add: same_view)
  note z = view_same [OF this, of others]
  have y: "x_push_changes xe c x = ?z\<lparr>xs_old_stack := xs_stack ?z\<rparr>"
    by (simp add: x_push_changes_def Let_def)
  then show "xs_stack (x_push_changes xe c x) = xs_stack x" and "xs_old_stack (x_push_changes xe c x) = xs_stack x"
    using z push_stack_view [of x] by simp_all
  show "stack_ok others (x_push_changes xe c x)"
    using stack_okD(1) [OF assms] push_stack_orders [OF assms] by (simp add: stack_ok_def y z push_stack_view)
qed

text \<open>The operations of \<^verbatim>\<open>src/x.c\<close>, and any change of the tree between them. The id of a new frame is none
  that a window of the server has, as the X protocol promises.\<close>

definition fresh_id :: "u32 list \<Rightarrow> x_state \<Rightarrow> bool" where
  "fresh_id others x \<longleftrightarrow> xs_ids x (xs_count x) \<notin> set (server (xs_calls x) others)"

inductive x_step :: "x_env \<Rightarrow> u32 list \<Rightarrow> x_state \<Rightarrow> x_state \<Rightarrow> bool" for xe others where
  step_init: "fresh_id others x \<Longrightarrow> x_step xe others x (x_con_init c x)"
| step_kill: "xs_frame x c \<in> set (xs_stack x) \<Longrightarrow> x_step xe others x (x_con_kill c x)"
| step_reframe: "xs_frame x c \<in> set (xs_stack x) \<Longrightarrow> fresh_id others (kill_frame c x) \<Longrightarrow> x_step xe others x (x_con_reframe c x)"
| step_raise: "x_step xe others x (x_raise_con c x)"
| step_reinit: "x_step xe others x (x_reinit c x)"
| step_reparent: "x_step xe others x (x_reparent_child c d x)"
| step_move: "x_step xe others x (x_move_win c d x)"
| step_name: "x_step xe others x (x_set_name c name x)"
| step_warp: "x_step xe others x (x_set_warp_to xe r x)"
| step_shape: "x_step xe others x (x_set_shape c k b x)"
| step_tree: "x_step xe others x (on_xs f x)"
| step_push: "x_step xe others x (x_push_changes xe c x)"

inductive_cases x_stepE: "x_step xe others x y"

lemma init_stack_ok:
  assumes "stack_ok others x" and "fresh_id others x" shows "stack_ok others (x_con_init c x)"
proof -
  let ?w = "xs_ids x (xs_count x)"
  have "?w \<notin> set (server (xs_calls x) others)" and "?w \<notin> set (xs_stack x)" and "?w \<notin> set (xs_old_stack x)"
    using assms stack_okD [OF assms(1)] by (auto simp: fresh_id_def)
  moreover have "filter (\<lambda>w. w = ?w \<or> w \<in> set (xs_stack x)) (server (xs_calls x) others) =
      filter (\<lambda>w. w \<in> set (xs_stack x)) (server (xs_calls x) others)"
    using calculation by (intro filter_cong) auto
  ultimately show ?thesis
    using assms(1) unfolding stack_ok_def x_con_init_def
    by (auto simp: Let_def tell_def server_step_def)
qed

lemma kill_frame_stack_ok:
  assumes "stack_ok others x" and "xs_frame x c \<in> set (xs_stack x)"
  shows "stack_ok others (kill_frame c x)"
proof -
  let ?w = "xs_frame x c"
  have d: "distinct (xs_stack x)" "distinct (xs_old_stack x)" using assms(1) by (auto simp: stack_ok_def)
  have "filter (\<lambda>v. v \<in> set (xs_stack x) - {?w}) (server (xs_calls x) others) =
      filter (\<lambda>v. v \<noteq> ?w) (filter (\<lambda>v. v \<in> set (xs_stack x)) (server (xs_calls x) others))"
    by (auto intro!: filter_cong)
  also have "\<dots> = rev (remove1 ?w (xs_old_stack x))"
    using assms(1) d by (simp add: stack_ok_def distinct_remove1_removeAll removeAll_filter_not_eq rev_filter [symmetric]
      eq_commute [of ?w])
  finally show ?thesis
    using assms d unfolding stack_ok_def kill_frame_def by (auto simp: Let_def)
qed

lemma raise_stack_ok:
  assumes "stack_ok others x" shows "stack_ok others (x_raise_con c x)"
proof (cases "xs_frame x c \<in> set (xs_stack x)")
  case True
  define y where "y = x_raise_con c x"
  have y: "y = x\<lparr>xs_stack := xs_frame x c # remove1 (xs_frame x c) (xs_stack x)\<rparr>"
    using True by (simp add: y_def x_raise_con_def Let_def)
  then have "xs_old_stack y = xs_old_stack x" "xs_ids y = xs_ids x" "xs_count y = xs_count x" "xs_calls y = xs_calls x"
    by simp_all
  moreover have "set (xs_stack y) = set (xs_stack x)" and "distinct (xs_stack y)"
    using True stack_okD(1) [OF assms] by (auto simp: y)
  ultimately have "stack_ok others y" using assms by (simp add: stack_ok_def)
  then show ?thesis by (simp add: y_def)
next
  case False
  then have "view (x_raise_con c x) = view x" by (simp add: x_raise_con_def Let_def same_view)
  from stack_ok_view [OF this] assms show ?thesis by blast
qed

text \<open>The invariant, by induction over the steps.\<close>

lemma x_step_stack_ok:
  assumes "x_step xe others x y" and "stack_ok others x"
  shows "stack_ok others y"
  using assms
proof (induction rule: x_step.induct)
  case (step_kill x c)
  let ?k = "kill_frame c x"
  have k: "stack_ok others ?k" by (rule kill_frame_stack_ok [OF step_kill(2,1)])
  have "distinct (xs_stack x)" by (rule stack_okD(1) [OF step_kill(2)])
  then have "xs_frame x c \<notin> set (xs_stack ?k)" by (simp add: kill_frame_def Let_def)
  with k show ?case
    by (auto simp: stack_ok_def x_con_kill_def tell_def server_step_def filter_remove1 remove1_idem dest: in_set_remove1 notin_set_remove1)
next
  case (step_reframe x c)
  then show ?case by (simp add: x_con_reframe_def init_stack_ok kill_frame_stack_ok)
next
  case (step_raise x c)
  then show ?case by (rule raise_stack_ok)
next
  case (step_reinit x c)
  then show ?case by (subst stack_ok_view) (simp_all add: x_reinit_def same_view)
next
  case (step_reparent x c d)
  then show ?case by (subst stack_ok_view) (simp_all add: x_reparent_child_def same_view)
next
  case (step_move x c d)
  then show ?case by (subst stack_ok_view) (simp_all add: x_move_win_def Let_def same_view)
next
  case (step_name x c name)
  then show ?case by (subst stack_ok_view) (simp_all add: x_set_name_def same_view)
next
  case (step_warp x r)
  then show ?case by (subst stack_ok_view) (simp_all add: x_set_warp_to_def same_view)
next
  case (step_shape x c k b)
  have "view (x_set_shape c k b x) = view x"
    by (simp add: x_set_shape_def tell_shape_def tell_unshape_def Let_def same_view restacks_def split: option.split)
  with step_shape stack_ok_view show ?case by blast
next
  case (step_tree x f)
  then show ?case by (subst stack_ok_view) (simp_all add: same_view)
qed (simp_all add: init_stack_ok x_push_changes_stack)

definition x_start :: "wm \<Rightarrow> (nat \<Rightarrow> u32) \<Rightarrow> x_state" where
  "x_start s ids =
     \<lparr>xs_wm = s, xs_frame = (\<lambda>_. 0), xs_pixmap = (\<lambda>_. False), xs_ignore_unmap = (\<lambda>_. 0), xs_state = blank_state,
      xs_stack = [], xs_old_stack = [], xs_mapping_order = [], xs_focused_id = 0, xs_last_focused = 0,
      xs_warp_to = None, xs_ids = ids, xs_count = 0, xs_calls = []\<rparr>"

lemma reachable_stack_ok:
  assumes "(x_step xe others)\<^sup>*\<^sup>* (x_start s ids) x" and "distinct others"
  shows "stack_ok others x"
  using assms(1)
proof (induction rule: rtranclp_induct)
  case base
  from assms(2) show ?case by (simp add: stack_ok_def x_start_def)
next
  case (step y z)
  then show ?case by (blast intro: x_step_stack_ok)
qed

end
