(* ===== verification/Handlers.thy ===== *)
theory Handlers
  imports X_State Manage Commands
begin

text \<open>
  The handlers of X11 events: \<^verbatim>\<open>src/handlers.c\<close>. The state adds to that of \<^verbatim>\<open>Restore_Layout\<close> the X11 state of
  \<^verbatim>\<open>X_State\<close> (whose own \<open>xs_wm\<close> is overwritten with the current one before it is used) and the list of
  ignored events. After each rendering only the focus is pushed; the frames of the containers are those
  of \<open>xs_frame\<close>. Pointer drags that a handler starts are recorded and not carried out.
\<close>

record ignore_event =
  ig_sequence :: nat
  ig_response_type :: "nat option"
  ig_added :: int

text \<open>\<open>hs_drags\<close>: the container, whether it is moved (else resized), and the position. \<open>hs_exited\<close>: \<open>exit\<close> has
  been called.\<close>

record handler_state =
  hs_rs :: restore_state
  hs_x :: x_state
  hs_ignored :: "ignore_event list"
  hs_last_timestamp :: u32
  hs_output_events :: nat
  hs_drags :: "(con_id \<times> bool \<times> u32 \<times> u32) list"
  hs_exited :: bool

text \<open>\<open>hv_replies\<close>: the properties of the windows; \<open>hv_root_size\<close>: the geometry of the root window.\<close>

record handler_env =
  hv_manage :: manage_env
  hv_x :: x_env
  hv_root :: u32
  hv_wm_sn :: u32
  hv_replies :: "u32 \<Rightarrow> manage_replies"
  hv_root_size :: "(16 word \<times> 16 word) option"
  hv_randr :: randr_replies
  hv_force_xinerama :: bool

definition hs_wm :: "handler_state \<Rightarrow> wm" where
  "hs_wm h = rs_wm (hs_rs h)"

definition on_hw :: "(wm \<Rightarrow> wm) \<Rightarrow> handler_state \<Rightarrow> handler_state" where
  "on_hw f h = h\<lparr>hs_rs := on_rs f (hs_rs h)\<rparr>"

definition on_hx :: "(x_state \<Rightarrow> x_state) \<Rightarrow> handler_state \<Rightarrow> handler_state" where
  "on_hx f h = (let x = f ((hs_x h)\<lparr>xs_wm := hs_wm h\<rparr>) in on_hw (\<lambda>_. xs_wm x) (h\<lparr>hs_x := x\<rparr>))"

definition hs_tell :: "x_call \<Rightarrow> handler_state \<Rightarrow> handler_state" where
  "hs_tell q = on_hx (tell q)"

text \<open>Of \<open>x_push_changes\<close>: a container without a window is not mapped, unless it shows titles; and the
  focus.\<close>

definition unmap_windowless :: "wm \<Rightarrow> wm" where
  "unmap_windowless s =
     s\<lparr>store := (\<lambda>c. if c \<in> set (all_cons s) then (store s c)\<lparr>mapped := stays_mapped s c\<rparr> else store s c)\<rparr>"

definition push_changes :: "handler_env \<Rightarrow> handler_state \<Rightarrow> handler_state" where
  "push_changes ev h = on_hx (push_focus (hv_x ev)) (on_hw unmap_windowless h)"

definition render :: "handler_env \<Rightarrow> handler_state \<Rightarrow> handler_state" where
  "render ev h = push_changes ev (on_hw tree_render h)"

definition remanage :: "handler_env \<Rightarrow> con_id \<Rightarrow> handler_state \<Rightarrow> con_id \<times> handler_state" where
  "remanage ev con h = (case remanage_window (hv_manage ev) con (hs_rs h) of (con, r) \<Rightarrow> (con, h\<lparr>hs_rs := r\<rparr>))"

definition set_focused_id :: "u32 \<Rightarrow> handler_state \<Rightarrow> handler_state" where
  "set_focused_id w h = h\<lparr>hs_x := (hs_x h)\<lparr>xs_focused_id := w\<rparr>\<rparr>"

definition con_by_frame_id :: "handler_state \<Rightarrow> u32 \<Rightarrow> con_id option" where
  "con_by_frame_id h w = find (\<lambda>c. xs_frame (hs_x h) c = w) (all_cons (hs_wm h))"

definition screen :: "handler_env \<Rightarrow> Rect" where
  "screen ev = mv_root_screen (hv_manage ev)"

subsection \<open>Ignored events\<close>

definition add_ignore_event :: "nat \<Rightarrow> nat option \<Rightarrow> handler_state \<Rightarrow> handler_state" where
  "add_ignore_event seq rtype h =
     h\<lparr>hs_ignored := \<lparr>ig_sequence = seq, ig_response_type = rtype, ig_added = time_now (hs_wm h)\<rparr> # hs_ignored h\<rparr>"

definition ignores :: "nat \<Rightarrow> nat \<Rightarrow> ignore_event \<Rightarrow> bool" where
  "ignores seq rtype e \<longleftrightarrow> ig_sequence e = seq \<and> (ig_response_type e = None \<or> ig_response_type e = Some rtype)"

definition event_is_ignored :: "nat \<Rightarrow> nat \<Rightarrow> handler_state \<Rightarrow> bool \<times> handler_state" where
  "event_is_ignored seq rtype h =
     (let kept = filter (\<lambda>e. \<not> time_now (hs_wm h) - ig_added e > 5) (hs_ignored h)
      in (list_ex (ignores seq rtype) kept, h\<lparr>hs_ignored := kept\<rparr>))"

subsection \<open>The pointer\<close>

definition check_crossing_screen_boundary :: "handler_env \<Rightarrow> u32 \<Rightarrow> u32 \<Rightarrow> handler_state \<Rightarrow> handler_state" where
  "check_crossing_screen_boundary ev x y h =
     (let s = hs_wm h
      in if cfg_disable_focus_follows_mouse (cfg s) then h
         else case get_output_containing s x y of
             None \<Rightarrow> h
           | Some out \<Rightarrow>
               if \<not> o_has_con out then h
               else case output_get_content s (o_con out) of
                   None \<Rightarrow> on_hw abort h
                 | Some content \<Rightarrow>
                     let nxt = con_descend_focused s content;
                         h = on_hw (con_focus nxt) (on_hw (with_con (con_get_workspace s nxt) workspace_show) h)
                     in if focused (hs_wm h) \<noteq> focused s then render ev h else h)"

text \<open>An \<open>EnterNotify\<close> or \<open>MotionNotify\<close> event; \<open>pe_normal\<close> is the mode of the former, \<open>pe_child\<close> the child of the
  latter.\<close>

record pointer_event =
  pe_time :: u32
  pe_window :: u32
  pe_child :: u32
  pe_normal :: bool
  pe_x :: "16 word"
  pe_y :: "16 word"
  pe_root_x :: "16 word"
  pe_root_y :: "16 word"

definition hit :: "wm \<Rightarrow> pointer_event \<Rightarrow> con_id \<Rightarrow> bool" where
  "hit s e c \<longleftrightarrow> rect_contains (deco_rect (store s c)) (scast (pe_x e)) (scast (pe_y e))"

definition hit_child :: "wm \<Rightarrow> pointer_event \<Rightarrow> con_id \<Rightarrow> con_id option" where
  "hit_child s e c = find (hit s e) (rev (nodes s c))"

definition cross :: "handler_env \<Rightarrow> pointer_event \<Rightarrow> handler_state \<Rightarrow> handler_state" where
  "cross ev e = check_crossing_screen_boundary ev (scast (pe_root_x e)) (scast (pe_root_y e))"

definition enter_con :: "handler_env \<Rightarrow> con_id \<Rightarrow> handler_state \<Rightarrow> handler_state" where
  "enter_con ev con h =
     (let s = hs_wm h; ws = con_get_workspace s con
      in if cfg_disable_focus_follows_mouse (cfg s) \<or> focused s = Some con then h
         else
           let h = (if ws \<noteq> Option.bind (focused s) (con_get_workspace s) then on_hw (with_con ws workspace_show) h else h);
               h = on_hw (\<lambda>s. con_focus (con_descend_focused s con) s) (set_focused_id 0 h)
           in render ev h)"

definition handle_enter_notify :: "handler_env \<Rightarrow> pointer_event \<Rightarrow> nat \<Rightarrow> handler_state \<Rightarrow> handler_state" where
  "handle_enter_notify ev e seq h =
     (let h = h\<lparr>hs_last_timestamp := pe_time e\<rparr>
      in if \<not> pe_normal e then h
         else case event_is_ignored seq 7 h of
             (True, h) \<Rightarrow> h
           | (False, h) \<Rightarrow>
               let s = hs_wm h
               in case (case con_by_frame_id h (pe_window e) of
                          Some c \<Rightarrow> Some (c, False)
                        | None \<Rightarrow> map_option (\<lambda>c. (c, True)) (con_by_window_id s (pe_window e))) of
                    None \<Rightarrow> cross ev e h
                  | Some (con, enter_child) \<Rightarrow>
                      (case parent_of s con of
                         None \<Rightarrow> on_hw abort h
                       | Some p \<Rightarrow>
                           if kind s p = CT_DOCKAREA then cross ev e h
                           else
                             let lay = layout_of s (if enter_child then p else con);
                                 con = (if lay = L_DEFAULT
                                        then (case hit_child s e con of None \<Rightarrow> con | Some d \<Rightarrow> d) else con)
                             in enter_con ev con h))"

definition focus_hit :: "handler_env \<Rightarrow> con_id \<Rightarrow> con_id option \<Rightarrow> handler_state \<Rightarrow> handler_state" where
  "focus_hit ev c stack_of h =
     (case stack_of of
        None \<Rightarrow> on_hw abort h
      | Some p \<Rightarrow>
          if tailq_first (foci (hs_wm h) p) = Some c then h
          else push_changes ev (on_hw (con_focus c) h))"

definition handle_motion_notify :: "handler_env \<Rightarrow> pointer_event \<Rightarrow> handler_state \<Rightarrow> handler_state" where
  "handle_motion_notify ev e h =
     (let h = h\<lparr>hs_last_timestamp := pe_time e\<rparr>; s = hs_wm h
      in if pe_child e \<noteq> 0 then h
         else case con_by_frame_id h (pe_window e) of
             None \<Rightarrow> cross ev e h
           | Some con \<Rightarrow>
               if cfg_disable_focus_follows_mouse (cfg s) \<or>
                  layout_of s con \<noteq> L_DEFAULT \<and> layout_of s con \<noteq> L_SPLITV \<and> layout_of s con \<noteq> L_SPLITH then h
               else if window (store s con) \<noteq> None then
                 if hit s e con then focus_hit ev con (parent_of s con) h else h
               else (case hit_child s e con of None \<Rightarrow> h | Some d \<Rightarrow> focus_hit ev d (Some con) h))"

subsection \<open>Windows that appear, move and disappear\<close>

definition handle_map_request :: "handler_env \<Rightarrow> u32 \<Rightarrow> nat \<Rightarrow> handler_state \<Rightarrow> handler_state option" where
  "handle_map_request ev w seq h =
     (let h = add_ignore_event seq None h
      in map_option (\<lambda>r. h\<lparr>hs_rs := r\<rparr>) (manage_window (hv_manage ev) w (hv_replies ev w) False (hs_rs h)))"

text \<open>A value is there if its bit of the mask is set.\<close>

record configure_request =
  cr_window :: u32
  cr_x :: "16 word option"
  cr_y :: "16 word option"
  cr_width :: "16 word option"
  cr_height :: "16 word option"
  cr_border_width :: "16 word option"
  cr_sibling :: "u32 option"
  cr_stack_mode :: "u32 option"

definition asked :: "string \<Rightarrow> 'a option \<Rightarrow> ('a \<Rightarrow> u32) \<Rightarrow> (string \<times> u32) list" where
  "asked name v f = (case v of None \<Rightarrow> [] | Some a \<Rightarrow> [(name, f a)])"

definition as_asked :: "configure_request \<Rightarrow> x_call" where
  "as_asked e = Configure_Window (cr_window e)
     (asked ''x'' (cr_x e) scast @ asked ''y'' (cr_y e) scast @ asked ''width'' (cr_width e) ucast @
      asked ''height'' (cr_height e) ucast @ asked ''border_width'' (cr_border_width e) ucast @
      asked ''sibling'' (cr_sibling e) id @ asked ''stack_mode'' (cr_stack_mode e) id)"

definition requested_rect :: "wm \<Rightarrow> con_id \<Rightarrow> Rect \<Rightarrow> configure_request \<Rightarrow> Rect" where
  "requested_rect s con r e =
     (let bsr = con_border_style_rect s con; b = word_of_int (border_width (store s con)) * 2;
          r = (case cr_x e of None \<Rightarrow> r | Some x \<Rightarrow> r\<lparr>rect_x := scast x - rect_x bsr\<rparr>);
          r = (case cr_y e of None \<Rightarrow> r | Some y \<Rightarrow> r\<lparr>rect_y := scast y - rect_y bsr\<rparr>);
          r = (case cr_width e of None \<Rightarrow> r | Some w \<Rightarrow> r\<lparr>rect_width := ucast w - rect_width bsr + b\<rparr>)
      in case cr_height e of None \<Rightarrow> r | Some w \<Rightarrow> r\<lparr>rect_height := ucast w - rect_height bsr + b\<rparr>)"

definition tell_configure :: "con_id \<Rightarrow> handler_state \<Rightarrow> handler_state" where
  "tell_configure con h = on_hx (tell_all (fake_absolute_configure_notify con (hs_wm h))) h"

text \<open>A dock window that asks for another place goes to the output that is there. A container that is not
  found there is dereferenced.\<close>

definition move_dock :: "handler_env \<Rightarrow> con_id \<Rightarrow> configure_request \<Rightarrow> handler_state \<Rightarrow> handler_state" where
  "move_dock ev con e h =
     (let s = hs_wm h; g = geometry (store s con);
          x = (case cr_x e of None \<Rightarrow> ucast (rect_x g) | Some x \<Rightarrow> x);
          y = (case cr_y e of None \<Rightarrow> ucast (rect_y g) | Some y \<Rightarrow> y)
      in case get_output_containing s (scast x) (scast y) of
           None \<Rightarrow> h
         | Some out \<Rightarrow>
             if o_has_con out \<and> con_get_output s con = Some (o_con out) then h
             else (case (if o_has_con out then window (store s con) else None) of
                 None \<Rightarrow> on_hw abort h
               | Some w \<Rightarrow>
                   (case con_for_window (mv_regex (hv_manage ev)) s (o_con out) w of
                      Some (Some (nc, m)) \<Rightarrow> render ev (on_hw (con_attach con nc False) (on_hw (con_detach con) h))
                    | _ \<Rightarrow> on_hw abort h)))"

definition configure_dock :: "handler_env \<Rightarrow> con_id \<Rightarrow> configure_request \<Rightarrow> handler_state \<Rightarrow> handler_state" where
  "configure_dock ev con e h =
     (let h = (case cr_height e of
                 None \<Rightarrow> h
               | Some v \<Rightarrow> render ev (on_hw (upd_con con (\<lambda>k. k\<lparr>geometry := (geometry k)\<lparr>rect_height := ucast v\<rparr>\<rparr>)) h))
      in if cr_x e = None \<and> cr_y e = None then h else move_dock ev con e h)"

text \<open>A request for attention: the first result says to take the focus, the second to be marked urgent.
  \<^const>\<open>None\<close>: the workspace has no output.\<close>

definition activation :: "wm \<Rightarrow> con_id \<Rightarrow> (bool \<times> bool) option" where
  "activation s ws =
     (case cfg_focus_on_window_activation (cfg s) of
        FOWA_FOCUS \<Rightarrow> Some (True, False)
      | FOWA_URGENT \<Rightarrow> Some (False, True)
      | FOWA_NONE \<Rightarrow> Some (False, False)
      | FOWA_SMART \<Rightarrow> map_option (\<lambda>visible. (visible, \<not> visible)) (workspace_is_visible s ws))"

text \<open>A window put above the others. The result is the container that gets the synthetic event.\<close>

definition configure_stack ::
  "handler_env \<Rightarrow> con_id \<Rightarrow> con_id option \<Rightarrow> bool \<Rightarrow> u32 \<Rightarrow> handler_state \<Rightarrow> con_id \<times> handler_state" where
  "configure_stack ev con workspace covered stack_mode h =
     (let s = hs_wm h
      in if stack_mode \<noteq> 0 \<or> covered \<or> \<not> con_is_leaf s con then (con, h)
         else case workspace of
             None \<Rightarrow> (con, h)
           | Some ws \<Rightarrow>
               (case activation s ws of
                  None \<Rightarrow> (con, on_hw abort h)
                | Some (True, _) \<Rightarrow> (con, render ev (on_hw (con_activate_unblock con) (on_hw (workspace_show ws) h)))
                | Some (False, True) \<Rightarrow>
                    (case remanage ev con (on_hw (con_set_urgency con True) h) of (con, h) \<Rightarrow> (con, render ev h))
                | Some (False, False) \<Rightarrow> (con, h)))"

definition handle_configure_request :: "handler_env \<Rightarrow> configure_request \<Rightarrow> handler_state \<Rightarrow> handler_state" where
  "handle_configure_request ev e h =
     (let s = hs_wm h
      in case con_by_window_id s (cr_window e) of
           None \<Rightarrow> hs_tell (as_asked e) h
         | Some con \<Rightarrow>
             let workspace = con_get_workspace s con;
                 fs = con_get_fullscreen_covering_ws s workspace;
                 p = parent_of s con
             in if (case workspace of None \<Rightarrow> False | Some ws \<Rightarrow> cname (store s ws) = ''__i3_scratch'')
                then tell_configure con h
                else if fs \<noteq> Some con \<and> con_is_floating s con \<and> con_is_leaf s con then
                  (case p of
                     None \<Rightarrow> on_hw abort h
                   | Some f \<Rightarrow> on_hw (\<lambda>s. snd (floating_reposition f (requested_rect s con (rect (store s f)) e) s)) h)
                else if (case p of None \<Rightarrow> False | Some q \<Rightarrow> kind s q = CT_DOCKAREA)
                then tell_configure con (configure_dock ev con e h)
                else (case cr_stack_mode e of
                    None \<Rightarrow> tell_configure con h
                  | Some m \<Rightarrow>
                      (case configure_stack ev con workspace (fs \<noteq> None) m h of
                         (con, h) \<Rightarrow> tell_configure con h)))"

definition output_event :: "handler_state \<Rightarrow> handler_state" where
  "output_event h = h\<lparr>hs_output_events := hs_output_events h + 1\<rparr>"

definition handle_screen_change :: "handler_env \<Rightarrow> handler_state \<Rightarrow> handler_state" where
  "handle_screen_change ev h =
     (case hv_root_size ev of
        None \<Rightarrow> h\<lparr>hs_exited := True\<rparr>
      | Some (width, height) \<Rightarrow>
          let h = on_hw (\<lambda>s. upd_con (croot s) (\<lambda>k. k\<lparr>rect := (rect k)\<lparr>rect_width := ucast width, rect_height := ucast height\<rparr>\<rparr>) s) h;
              h = on_hw (randr_query_outputs (mv_regex (hv_manage ev)) (hv_randr ev)) h
          in output_event (on_hw scratchpad_fix_resolution h))"

definition handle_configure_notify :: "handler_env \<Rightarrow> u32 \<Rightarrow> handler_state \<Rightarrow> handler_state" where
  "handle_configure_notify ev w h =
     (if w \<noteq> hv_root ev \<or> hv_force_xinerama ev then h
      else output_event (on_hw (randr_query_outputs (mv_regex (hv_manage ev)) (hv_randr ev)) h))"

definition ignore_unmap :: "handler_state \<Rightarrow> con_id \<Rightarrow> int" where
  "ignore_unmap h c = xs_ignore_unmap (hs_x h) c"

definition dec_ignore_unmap :: "con_id \<Rightarrow> handler_state \<Rightarrow> handler_state" where
  "dec_ignore_unmap c h =
     (if ignore_unmap h c > 0
      then h\<lparr>hs_x := (hs_x h)\<lparr>xs_ignore_unmap := (xs_ignore_unmap (hs_x h))(c := ignore_unmap h c - 1)\<rparr>\<rparr> else h)"

definition handle_unmap_notify_event :: "handler_env \<Rightarrow> u32 \<Rightarrow> nat \<Rightarrow> handler_state \<Rightarrow> handler_state" where
  "handle_unmap_notify_event ev w seq h =
     (case con_by_window_id (hs_wm h) w of
        None \<Rightarrow>
          (case con_by_frame_id h w of
             None \<Rightarrow> h
           | Some c \<Rightarrow> add_ignore_event seq (Some 7) (dec_ignore_unmap c h))
      | Some c \<Rightarrow>
          let h = (if ignore_unmap h c > 0 then dec_ignore_unmap c h
                   else
                     let h = hs_tell (Delete_Window_Property w ''_NET_WM_STATE'')
                               (hs_tell (Delete_Window_Property w ''_NET_WM_DESKTOP'') h)
                     in render ev (on_hw (\<lambda>s. snd (tree_close_internal c DONT_KILL_WINDOW False s)) h))
          in add_ignore_event seq (Some 7) h)"

definition handle_destroy_notify_event :: "handler_env \<Rightarrow> u32 \<Rightarrow> nat \<Rightarrow> handler_state \<Rightarrow> handler_state" where
  "handle_destroy_notify_event = handle_unmap_notify_event"

subsection \<open>Properties\<close>

definition put_window :: "con_id \<Rightarrow> i3Window \<Rightarrow> handler_state \<Rightarrow> handler_state" where
  "put_window con w = on_hw (upd_con con (\<lambda>k. k\<lparr>window := Some w\<rparr>))"

definition remanage_only :: "handler_env \<Rightarrow> con_id \<Rightarrow> handler_state \<Rightarrow> handler_state" where
  "remanage_only ev con h = snd (remanage ev con h)"

definition window_name_changed :: "string option \<Rightarrow> string option \<Rightarrow> bool" where
  "window_name_changed old new \<longleftrightarrow> old \<noteq> new"

text \<open>Both title handlers, with the result of updating the name.\<close>

definition title_change :: "handler_env \<Rightarrow> con_id \<Rightarrow> i3Window \<Rightarrow> string option \<times> i3Window \<Rightarrow> handler_state \<Rightarrow> handler_state" where
  "title_change ev con w updated h =
     (case updated of
        (title, w') \<Rightarrow>
          let h = put_window con w' h;
              h = (case title of None \<Rightarrow> h | Some t \<Rightarrow> hs_tell (Set_Text (w_id w) ''_NET_WM_VISIBLE_NAME'' t) h)
          in (case remanage ev con h of
                (con, h) \<Rightarrow>
                  let h = push_changes ev h
                  in (case window (store (hs_wm h) con) of
                        None \<Rightarrow> on_hw abort h
                      | Some v \<Rightarrow>
                          if window_name_changed (w_name w) (w_name v)
                          then on_hw (ipc_send (Window_Event ''title'' con)) h else h)))"

definition handle_windowname_change :: "handler_env \<Rightarrow> con_id \<Rightarrow> i3Window \<Rightarrow> string option \<Rightarrow> handler_state \<Rightarrow> handler_state" where
  "handle_windowname_change ev con w prop h =
     title_change ev con w (window_update_name (mv_escape (hv_manage ev)) (hs_wm h) prop w) h"

definition handle_windowname_change_legacy :: "handler_env \<Rightarrow> con_id \<Rightarrow> i3Window \<Rightarrow> string option \<Rightarrow> handler_state \<Rightarrow> handler_state" where
  "handle_windowname_change_legacy ev con w prop h =
     title_change ev con w (window_update_name_legacy (mv_escape (hv_manage ev)) (hs_wm h) prop w) h"

definition handle_windowrole_change :: "handler_env \<Rightarrow> con_id \<Rightarrow> i3Window \<Rightarrow> string option \<Rightarrow> handler_state \<Rightarrow> handler_state" where
  "handle_windowrole_change ev con w prop h = remanage_only ev con (put_window con (window_update_role prop w) h)"

definition handle_class_change :: "handler_env \<Rightarrow> con_id \<Rightarrow> i3Window \<Rightarrow> string option \<Rightarrow> handler_state \<Rightarrow> handler_state" where
  "handle_class_change ev con w prop h = remanage_only ev con (put_window con (window_update_class prop w) h)"

definition handle_machine_change :: "handler_env \<Rightarrow> con_id \<Rightarrow> i3Window \<Rightarrow> string option \<Rightarrow> handler_state \<Rightarrow> handler_state" where
  "handle_machine_change ev con w prop h = remanage_only ev con (put_window con (window_update_machine prop w) h)"

definition handle_window_type :: "handler_env \<Rightarrow> i3Window \<Rightarrow> u32 list option \<Rightarrow> handler_state \<Rightarrow> handler_state" where
  "handle_window_type ev w prop =
     on_hw (window_update_type (mv_regex (hv_manage ev)) (mv_parse_command (hv_manage ev)) (mv_atom (hv_manage ev)) prop w)"

text \<open>The size of the container is checked, not that of the floating container around it.\<close>

definition handle_normal_hints :: "handler_env \<Rightarrow> con_id \<Rightarrow> i3Window \<Rightarrow> size_hints option \<Rightarrow> handler_state \<Rightarrow> handler_state" where
  "handle_normal_hints ev con w hints h =
     (case window_update_normal_hints hints None w of
        (changed, _, w) \<Rightarrow>
          let h = put_window con w h
          in if changed \<and> con_inside_floating (hs_wm h) con \<noteq> None
             then render ev (on_hw (floating_check_size (screen ev) con False) h) else h)"

definition handle_hints :: "handler_env \<Rightarrow> con_id \<Rightarrow> i3Window \<Rightarrow> wm_hints option \<Rightarrow> handler_state \<Rightarrow> handler_state" where
  "handle_hints ev con w hints h =
     (case window_update_hints hints w of
        (urgency, w) \<Rightarrow>
          render ev (remanage_only ev con (on_hw (con_set_urgency con urgency) (put_window con w h))))"

definition handle_transient_for :: "con_id \<Rightarrow> i3Window \<Rightarrow> u32 list option \<Rightarrow> handler_state \<Rightarrow> handler_state" where
  "handle_transient_for con w prop = put_window con (window_update_transient_for prop w)"

definition handle_clientleader_change :: "con_id \<Rightarrow> i3Window \<Rightarrow> u32 list option \<Rightarrow> handler_state \<Rightarrow> handler_state" where
  "handle_clientleader_change con w prop = put_window con (window_update_leader prop w)"

definition handle_motif_hints_change :: "handler_env \<Rightarrow> con_id \<Rightarrow> u32 list option \<Rightarrow> handler_state \<Rightarrow> handler_state" where
  "handle_motif_hints_change ev con prop h =
     (let k = store (hs_wm h) con
      in case window_update_motif_hints prop of
           None \<Rightarrow> on_hw abort h
         | Some None \<Rightarrow> h
         | Some (Some style) \<Rightarrow>
             if style = border_style k then h
             else push_changes ev (on_hw (con_set_border_style con style (current_border_width k)) h))"

text \<open>Here the position is compared as an unsigned number.\<close>

definition strut_position :: "wm \<Rightarrow> con_id \<Rightarrow> con_id \<Rightarrow> i3Window \<Rightarrow> dock_t" where
  "strut_position s search_at con w =
     (let top_px = res_top (w_reserved w); bottom_px = res_bottom (w_reserved w)
      in if top_px > 0 \<and> bottom_px = 0 then W_DOCK_TOP
         else if top_px = 0 \<and> bottom_px > 0 then W_DOCK_BOTTOM
         else if rect_y (geometry (store s con)) < rect_height (rect (store s search_at)) div 2
         then W_DOCK_TOP else W_DOCK_BOTTOM)"

definition handle_strut_partial_change :: "handler_env \<Rightarrow> con_id \<Rightarrow> i3Window \<Rightarrow> u32 list option \<Rightarrow> handler_state \<Rightarrow> handler_state" where
  "handle_strut_partial_change ev con w prop h =
     (case window_update_strut_partial prop w of
        None \<Rightarrow> on_hw abort h
      | Some w \<Rightarrow>
          let h = put_window con w h; s = hs_wm h
          in if (case parent_of s con of None \<Rightarrow> True | Some p \<Rightarrow> kind s p \<noteq> CT_DOCKAREA) then h
             else
               let search_at = (case con_get_output s con of None \<Rightarrow> croot s | Some out \<Rightarrow> out);
                   w = w\<lparr>w_dock := strut_position s search_at con w\<rparr>;
                   h = put_window con w h
               in case con_for_window (mv_regex (hv_manage ev)) (hs_wm h) search_at w of
                    Some (Some (dockarea, _)) \<Rightarrow> render ev (on_hw (con_attach con dockarea True) (on_hw (con_detach con) h))
                  | _ \<Rightarrow> on_hw abort h)"

definition handle_windowicon_change :: "handler_env \<Rightarrow> con_id \<Rightarrow> i3Window \<Rightarrow> u32 list option \<Rightarrow> handler_state \<Rightarrow> handler_state option" where
  "handle_windowicon_change ev con w prop h =
     map_option (\<lambda>(icon, w).
         if icon = Reads_Outside then on_hw abort h else push_changes ev (put_window con w h))
       (window_update_icon (mv_icon_size (hv_manage ev)) prop w)"

text \<open>The table \<open>property_handlers\<close>, in its order; the names are those of the atoms. A deleted property has
  no reply. \<^const>\<open>None\<close>: the handler does not return.\<close>

definition known_properties :: "string list" where
  "known_properties =
     [''_NET_WM_NAME'', ''WM_HINTS'', ''WM_NAME'', ''WM_NORMAL_HINTS'', ''WM_CLIENT_LEADER'', ''WM_TRANSIENT_FOR'',
      ''WM_WINDOW_ROLE'', ''WM_CLASS'', ''_NET_WM_STRUT_PARTIAL'', ''_NET_WM_WINDOW_TYPE'', ''WM_CLIENT_MACHINE'',
      ''_MOTIF_WM_HINTS'', ''_NET_WM_ICON'']"

definition handle_property ::
  "handler_env \<Rightarrow> string \<Rightarrow> bool \<Rightarrow> con_id \<Rightarrow> i3Window \<Rightarrow> handler_state \<Rightarrow> handler_state option" where
  "handle_property ev name deleted con w h =
     (let r = hv_replies ev (w_id w)
      in if name = ''_NET_WM_NAME'' then Some (handle_windowname_change ev con w (if deleted then None else mr_utf8_title r) h)
         else if name = ''WM_HINTS'' then Some (handle_hints ev con w (if deleted then None else mr_hints r) h)
         else if name = ''WM_NAME'' then Some (handle_windowname_change_legacy ev con w (if deleted then None else mr_title r) h)
         else if name = ''WM_NORMAL_HINTS'' then Some (handle_normal_hints ev con w (mr_normal_hints r) h)
         else if name = ''WM_CLIENT_LEADER'' then Some (handle_clientleader_change con w (if deleted then None else mr_leader r) h)
         else if name = ''WM_TRANSIENT_FOR'' then Some (handle_transient_for con w (if deleted then None else mr_transient r) h)
         else if name = ''WM_WINDOW_ROLE'' then Some (handle_windowrole_change ev con w (if deleted then None else mr_role r) h)
         else if name = ''WM_CLASS'' then Some (handle_class_change ev con w (if deleted then None else mr_class r) h)
         else if name = ''_NET_WM_STRUT_PARTIAL''
         then Some (handle_strut_partial_change ev con w (if deleted then None else mr_strut r) h)
         else if name = ''_NET_WM_WINDOW_TYPE'' then Some (handle_window_type ev w (if deleted then None else mr_type r) h)
         else if name = ''WM_CLIENT_MACHINE'' then Some (handle_machine_change ev con w (if deleted then None else mr_machine r) h)
         else if name = ''_MOTIF_WM_HINTS'' then Some (handle_motif_hints_change ev con (if deleted then None else mr_motif r) h)
         else handle_windowicon_change ev con w (if deleted then None else mr_icon r) h)"

definition property_notify :: "handler_env \<Rightarrow> bool \<Rightarrow> u32 \<Rightarrow> u32 \<Rightarrow> handler_state \<Rightarrow> handler_state option" where
  "property_notify ev deleted w atom h =
     (case find (\<lambda>name. mv_atom (hv_manage ev) name = atom) known_properties of
        None \<Rightarrow> Some h
      | Some name \<Rightarrow>
          (case con_by_window_id (hs_wm h) w of
             None \<Rightarrow> Some h
           | Some con \<Rightarrow>
               (case window (store (hs_wm h) con) of
                  None \<Rightarrow> Some h
                | Some win \<Rightarrow> handle_property ev name deleted con win h)))"

subsection \<open>Client messages\<close>

text \<open>\<open>cm_startup\<close>: the startup notification library took the message.\<close>

record client_message =
  cm_startup :: bool
  cm_type :: u32
  cm_format :: nat
  cm_window :: u32
  cm_data :: "u32 list"

definition data32 :: "client_message \<Rightarrow> nat \<Rightarrow> u32" where
  "data32 e i = (if i < length (cm_data e) then cm_data e ! i else 0)"

definition atom_of :: "handler_env \<Rightarrow> string \<Rightarrow> u32" where
  "atom_of ev = mv_atom (hv_manage ev)"

definition sticky_hint :: "u32 \<Rightarrow> bool \<Rightarrow> handler_state \<Rightarrow> handler_state" where
  "sticky_hint w on = hs_tell (Set_Atom w ''_NET_WM_STATE_STICKY'' on)"

text \<open>\<open>change\<close>: 0 removes, 1 adds, 2 toggles.\<close>

definition wanted_flag :: "u32 \<Rightarrow> bool \<Rightarrow> bool option" where
  "wanted_flag change current =
     (if change = 1 then Some True else if change = 0 then Some False else if change = 2 then Some (\<not> current) else None)"

definition make_sticky :: "con_id \<Rightarrow> u32 \<Rightarrow> handler_state \<Rightarrow> handler_state" where
  "make_sticky con change h =
     (let flag = (case wanted_flag change (sticky (store (hs_wm h) con)) of
                    None \<Rightarrow> sticky (store (hs_wm h) con) | Some b \<Rightarrow> b);
          h = on_hw (upd_con con (\<lambda>k. k\<lparr>sticky := flag\<rparr>)) h
      in case window (store (hs_wm h) con) of
           None \<Rightarrow> on_hw abort h
         | Some w \<Rightarrow>
             on_hw (\<lambda>s. update_wm_desktop (output_push_sticky_windows (focused s) s)) (sticky_hint (w_id w) flag h))"

definition handle_net_wm_state_change :: "handler_env \<Rightarrow> con_id \<Rightarrow> u32 \<Rightarrow> u32 \<Rightarrow> handler_state \<Rightarrow> handler_state" where
  "handle_net_wm_state_change ev con change atom h =
     (let k = store (hs_wm h) con
      in if atom = 0 then h
         else if atom = atom_of ev ''_NET_WM_STATE_FULLSCREEN'' then
           let full = (fullscreen_mode k \<noteq> CF_NONE)
           in render ev (if change = 2 \<or> full \<and> change = 0 \<or> \<not> full \<and> change = 1
                         then on_hw (con_toggle_fullscreen con CF_OUTPUT) h else h)
         else if atom = atom_of ev ''_NET_WM_STATE_DEMANDS_ATTENTION'' then
           render ev (case wanted_flag change (urgent k) of
               None \<Rightarrow> h
             | Some b \<Rightarrow> remanage_only ev con (on_hw (con_set_urgency con b) h))
         else if atom = atom_of ev ''_NET_WM_STATE_STICKY'' then render ev (make_sticky con change h)
         else h)"

definition message_wm_state :: "handler_env \<Rightarrow> client_message \<Rightarrow> handler_state \<Rightarrow> handler_state" where
  "message_wm_state ev e h =
     (if cm_format e \<noteq> 32 then h
      else case con_by_window_id (hs_wm h) (cm_window e) of
          None \<Rightarrow> h
        | Some con \<Rightarrow> fold (\<lambda>i. handle_net_wm_state_change ev con (data32 e 0) (data32 e (i + 1))) [0, 1, 2, 3] h)"

definition activate_for_pager :: "handler_env \<Rightarrow> con_id \<Rightarrow> con_id \<Rightarrow> handler_state \<Rightarrow> handler_state" where
  "activate_for_pager ev con ws h =
     (if con_is_internal (hs_wm h) ws then on_hw (\<lambda>s. snd (scratchpad_show (screen ev) (Some con) s)) h
      else on_hw (con_activate_unblock con) (set_focused_id 0 (on_hw (workspace_show ws) h)))"

text \<open>From an application; \<^const>\<open>None\<close>: the request is ignored before the tree is rendered.\<close>

definition activate_for_client :: "handler_env \<Rightarrow> con_id \<Rightarrow> con_id \<Rightarrow> handler_state \<Rightarrow> handler_state option" where
  "activate_for_client ev con ws h =
     (if con_is_internal (hs_wm h) ws then None
      else Some (case activation (hs_wm h) ws of
          None \<Rightarrow> on_hw abort h
        | Some (True, _) \<Rightarrow> on_hw (con_activate_unblock con) h
        | Some (False, True) \<Rightarrow> remanage_only ev con (on_hw (con_set_urgency con True) h)
        | Some (False, False) \<Rightarrow> h))"

text \<open>The test for the scratchpad workspace creates it when it is missing.\<close>

definition message_active_window :: "handler_env \<Rightarrow> client_message \<Rightarrow> handler_state \<Rightarrow> handler_state" where
  "message_active_window ev e h =
     (if cm_format e \<noteq> 32 then h
      else case con_by_window_id (hs_wm h) (cm_window e) of
          None \<Rightarrow> h
        | Some con \<Rightarrow>
            (case con_get_workspace (hs_wm h) con of
               None \<Rightarrow> h
             | Some ws \<Rightarrow>
                 let (scratch, h) = (if con_is_internal (hs_wm h) ws
                                     then (case workspace_get ''__i3_scratch'' (hs_wm h) of
                                             (found, s) \<Rightarrow> (found, on_hw (\<lambda>_. s) h))
                                     else (Some ws, h))
                 in if scratch \<noteq> Some ws then h
                    else if data32 e 0 = 2 then render ev (activate_for_pager ev con ws h)
                    else (case activate_for_client ev con ws h of None \<Rightarrow> h | Some h \<Rightarrow> render ev h)))"

definition message_frame_extents :: "client_message \<Rightarrow> handler_state \<Rightarrow> handler_state" where
  "message_frame_extents e h =
     (let s = hs_wm h; b = word_of_int (cfg_default_border_width (cfg s))
      in hs_tell (Set_Cardinals (cm_window e) ''_NET_FRAME_EXTENTS'' [b, b, word_of_int (render_deco_height s), b]) h)"

definition message_current_desktop :: "handler_env \<Rightarrow> client_message \<Rightarrow> handler_state \<Rightarrow> handler_state" where
  "message_current_desktop ev e h =
     (case ewmh_get_workspace_by_index (hs_wm h) (data32 e 0) of
        None \<Rightarrow> on_hw abort h
      | Some None \<Rightarrow> h
      | Some (Some ws) \<Rightarrow> render ev (on_hw (workspace_show ws) h))"

definition on_every_desktop :: "handler_env \<Rightarrow> con_id \<Rightarrow> handler_state \<Rightarrow> handler_state" where
  "on_every_desktop ev con h =
     (case floating_enable (screen ev) con False (hs_wm h) of
        (False, s) \<Rightarrow> on_hw (\<lambda>_. s) h
      | (True, s) \<Rightarrow>
          let s = upd_con con (\<lambda>k. k\<lparr>floating := FLOATING_AUTO_ON, sticky := True\<rparr>) s; h = on_hw (\<lambda>_. s) h
          in case window (store s con) of
               None \<Rightarrow> on_hw abort h
             | Some w \<Rightarrow>
                 on_hw (\<lambda>s. let s = output_push_sticky_windows (focused s) s
                             in run_assignments (mv_regex (hv_manage ev)) (mv_parse_command (hv_manage ev)) (window (store s con)) s)
                   (sticky_hint (w_id w) True h))"

definition message_wm_desktop :: "handler_env \<Rightarrow> client_message \<Rightarrow> handler_state \<Rightarrow> handler_state" where
  "message_wm_desktop ev e h =
     (let index = data32 e 0; finish = (\<lambda>h. on_hw update_wm_desktop (render ev h))
      in case con_by_window_id (hs_wm h) (cm_window e) of
           None \<Rightarrow> h
         | Some con \<Rightarrow>
             if index = NET_WM_DESKTOP_ALL then finish (on_every_desktop ev con h)
             else (case ewmh_get_workspace_by_index (hs_wm h) index of
                 None \<Rightarrow> on_hw abort h
               | Some None \<Rightarrow> h
               | Some (Some ws) \<Rightarrow> finish (on_hw (con_move_to_workspace con ws True False) h)))"

definition message_close_window :: "handler_env \<Rightarrow> client_message \<Rightarrow> handler_state \<Rightarrow> handler_state" where
  "message_close_window ev e h =
     (case con_by_window_id (hs_wm h) (cm_window e) of
        None \<Rightarrow> h
      | Some con \<Rightarrow>
          let h = (if data32 e 0 \<noteq> 0 then h\<lparr>hs_last_timestamp := data32 e 0\<rparr> else h)
          in render ev (on_hw (\<lambda>s. snd (tree_close_internal con KILL_WINDOW False s)) h))"

definition message_moveresize :: "client_message \<Rightarrow> handler_state \<Rightarrow> handler_state" where
  "message_moveresize e h =
     (case con_by_window_id (hs_wm h) (cm_window e) of
        None \<Rightarrow> h
      | Some con \<Rightarrow>
          if \<not> con_is_floating (hs_wm h) con then h
          else (case parent_of (hs_wm h) con of
              None \<Rightarrow> on_hw abort h
            | Some p \<Rightarrow>
                if data32 e 2 = 8 then h\<lparr>hs_drags := hs_drags h @ [(p, True, data32 e 0, data32 e 1)]\<rparr>
                else if data32 e 2 \<le> 7 then h\<lparr>hs_drags := hs_drags h @ [(p, False, data32 e 0, data32 e 1)]\<rparr>
                else h))"

definition message_moveresize_window :: "handler_env \<Rightarrow> client_message \<Rightarrow> handler_state \<Rightarrow> handler_state" where
  "message_moveresize_window ev e h =
     (let pick = (\<lambda>flag i. if bit (data32 e 0) flag then Some (ucast (data32 e i)) else None)
      in handle_configure_request ev
           \<lparr>cr_window = cm_window e, cr_x = pick 8 1, cr_y = pick 9 2, cr_width = pick 10 3, cr_height = pick 11 4,
            cr_border_width = None, cr_sibling = None, cr_stack_mode = None\<rparr> h)"

text \<open>A request for the iconic state is answered with the normal state.\<close>

definition handle_client_message :: "handler_env \<Rightarrow> client_message \<Rightarrow> handler_state \<Rightarrow> handler_state" where
  "handle_client_message ev e h =
     (let is_atom = (\<lambda>name. cm_type e = atom_of ev name)
      in if cm_startup e then h
         else if is_atom ''_NET_WM_STATE'' then message_wm_state ev e h
         else if is_atom ''_NET_ACTIVE_WINDOW'' then message_active_window ev e h
         else if is_atom ''I3_SYNC'' then hs_tell (Sync_Answer (data32 e 0) (data32 e 1)) h
         else if is_atom ''_NET_REQUEST_FRAME_EXTENTS'' then message_frame_extents e h
         else if is_atom ''WM_CHANGE_STATE'' then
           (if data32 e 0 = 3 then hs_tell (Window_State (cm_window e) True) h else h)
         else if is_atom ''_NET_CURRENT_DESKTOP'' then message_current_desktop ev e h
         else if is_atom ''_NET_WM_DESKTOP'' then message_wm_desktop ev e h
         else if is_atom ''_NET_CLOSE_WINDOW'' then message_close_window ev e h
         else if is_atom ''_NET_WM_MOVERESIZE'' then message_moveresize e h
         else if is_atom ''_NET_MOVERESIZE_WINDOW'' then message_moveresize_window ev e h
         else h)"

subsection \<open>Focus\<close>

text \<open>\<open>fe_grab\<close>: the mode is grab or ungrab; \<open>fe_pointer\<close>: the detail is the pointer.\<close>

record focus_event =
  fe_window :: u32
  fe_grab :: bool
  fe_pointer :: bool

definition refocus_root :: "handler_env \<Rightarrow> handler_state \<Rightarrow> handler_state" where
  "refocus_root ev h =
     push_changes ev (set_focused_id 0 (on_hw (\<lambda>s. with_con (focused s) con_focus s) h))"

definition handle_focus_in :: "handler_env \<Rightarrow> focus_event \<Rightarrow> handler_state \<Rightarrow> handler_state" where
  "handle_focus_in ev e h =
     (let h = (if fe_window e = hv_root ev then refocus_root ev h else h); s = hs_wm h
      in case con_by_window_id s (fe_window e) of
           None \<Rightarrow> h
         | Some con \<Rightarrow>
             if window (store s con) = None \<or> fe_grab e \<or> fe_pointer e \<or>
                xs_focused_id (hs_x h) = fe_window e \<and> con_inside_floating s con = None then h
             else (case parent_of s con of
                 None \<Rightarrow> on_hw abort h
               | Some p \<Rightarrow>
                   if kind s p = CT_DOCKAREA then h
                   else render ev (set_focused_id (fe_window e) (on_hw (con_activate_unblock con) h))))"

subsection \<open>Dispatch\<close>

text \<open>The events with a handler that changes the state; keys and buttons are those of \<^verbatim>\<open>Bindings\<close> and
  \<^verbatim>\<open>src/click.c\<close>. \<open>Ev_Shape\<close>: whether the shape is one that i3 has set itself, the kind of shape, whether it
  is set.\<close>

datatype x_event =
    Ev_Screen_Change
  | Ev_Shape u32 bool "bool option" bool
  | Ev_Map_Request u32 nat
  | Ev_Unmap u32 nat
  | Ev_Destroy u32 nat
  | Ev_Motion pointer_event
  | Ev_Enter pointer_event nat
  | Ev_Client_Message client_message
  | Ev_Configure_Request configure_request
  | Ev_Focus_In focus_event
  | Ev_Property bool u32 u32 u32
  | Ev_Configure_Notify u32
  | Ev_Selection_Clear u32

definition handle_shape_notify :: "u32 \<Rightarrow> bool \<Rightarrow> bool option \<Rightarrow> bool \<Rightarrow> handler_state \<Rightarrow> handler_state" where
  "handle_shape_notify w own kind_of_shape shaped h =
     (if own then h
      else case con_by_window_id (hs_wm h) w of
          None \<Rightarrow> h
        | Some con \<Rightarrow> if kind_of_shape = None then h else on_hx (x_set_shape con kind_of_shape shaped) h)"

definition handle_event :: "handler_env \<Rightarrow> x_event \<Rightarrow> handler_state \<Rightarrow> handler_state option" where
  "handle_event ev e h =
     (case e of
        Ev_Screen_Change \<Rightarrow> Some (handle_screen_change ev h)
      | Ev_Shape w own k shaped \<Rightarrow> Some (handle_shape_notify w own k shaped h)
      | Ev_Map_Request w seq \<Rightarrow> handle_map_request ev w seq h
      | Ev_Unmap w seq \<Rightarrow> Some (handle_unmap_notify_event ev w seq h)
      | Ev_Destroy w seq \<Rightarrow> Some (handle_destroy_notify_event ev w seq h)
      | Ev_Motion p \<Rightarrow> Some (handle_motion_notify ev p h)
      | Ev_Enter p seq \<Rightarrow> Some (handle_enter_notify ev p seq h)
      | Ev_Client_Message m \<Rightarrow> Some (handle_client_message ev m h)
      | Ev_Configure_Request r \<Rightarrow> Some (handle_configure_request ev r h)
      | Ev_Focus_In f \<Rightarrow> Some (handle_focus_in ev f h)
      | Ev_Property deleted t w atom \<Rightarrow> property_notify ev deleted w atom (h\<lparr>hs_last_timestamp := t\<rparr>)
      | Ev_Configure_Notify w \<Rightarrow> Some (handle_configure_notify ev w h)
      | Ev_Selection_Clear sel \<Rightarrow> Some (if sel = hv_wm_sn ev then h\<lparr>hs_exited := True\<rparr> else h))"

subsection \<open>What the handlers leave alone\<close>

lemma hs_wm_simps [simp]:
  "hs_wm (on_hw f h) = f (hs_wm h)" "hs_x (on_hw f h) = hs_x h"
  "hs_wm (h\<lparr>hs_x := x\<rparr>) = hs_wm h" "hs_wm (h\<lparr>hs_ignored := ig\<rparr>) = hs_wm h"
  by (simp_all add: hs_wm_def on_hw_def on_rs_def)

lemma tell_all_hs [simp]:
  "hs_wm (on_hx (tell_all qs) h) = hs_wm h"
  "xs_calls (hs_x (on_hx (tell_all qs) h)) = xs_calls (hs_x h) @ qs"
  by (simp_all add: on_hx_def tell_all_def Let_def)

text \<open>A tiling window, a fullscreen one and one in the scratchpad cannot move or resize themselves: they
  are told where they are.\<close>

lemma tiling_window_stays:
  assumes "con_by_window_id (hs_wm h) (cr_window e) = Some con" and "cr_stack_mode e = None"
    and "\<not> con_is_floating (hs_wm h) con \<or>
         con_get_fullscreen_covering_ws (hs_wm h) (con_get_workspace (hs_wm h) con) = Some con"
    and "\<forall>p. parent_of (hs_wm h) con = Some p \<longrightarrow> kind (hs_wm h) p \<noteq> CT_DOCKAREA"
  shows "hs_wm (handle_configure_request ev e h) = hs_wm h \<and>
    xs_calls (hs_x (handle_configure_request ev e h)) =
      xs_calls (hs_x h) @ fake_absolute_configure_notify con (hs_wm h)"
  using assms
  by (auto simp: handle_configure_request_def Let_def tell_configure_def split: option.splits)

text \<open>The unmapping of a window by i3 itself closes nothing; the counter pays for each of them.\<close>

lemma own_unmap_ignored:
  assumes "con_by_window_id (hs_wm h) w = Some c" and "ignore_unmap h c > 0"
  shows "hs_wm (handle_unmap_notify_event ev w seq h) = hs_wm h \<and>
    ignore_unmap (handle_unmap_notify_event ev w seq h) c = ignore_unmap h c - 1 \<and>
    fst (event_is_ignored seq 7 (handle_unmap_notify_event ev w seq h))"
  using assms
  by (auto simp: handle_unmap_notify_event_def dec_ignore_unmap_def add_ignore_event_def event_is_ignored_def
      ignore_unmap_def ignores_def Let_def hs_wm_def)

lemma ignored_event_exact:
  "fst (event_is_ignored seq rtype h) \<longleftrightarrow>
     (\<exists>e \<in> set (hs_ignored h). ignores seq rtype e \<and> time_now (hs_wm h) - ig_added e \<le> 5)"
  by (auto simp: event_is_ignored_def Let_def list_ex_iff)

text \<open>An \<open>EnterNotify\<close> that follows the unmapping, with its sequence number, changes nothing.\<close>

lemma enter_after_unmap:
  assumes "fst (event_is_ignored seq 7 h)"
  shows "hs_wm (handle_enter_notify ev e seq h) = hs_wm h"
proof -
  have "fst (event_is_ignored seq 7 (h\<lparr>hs_last_timestamp := t\<rparr>))" for t
    using assms by (simp add: event_is_ignored_def Let_def hs_wm_def)
  then show ?thesis
    by (auto simp: handle_enter_notify_def Let_def event_is_ignored_def hs_wm_def split: prod.split bool.split)
qed

end
