(* ===== verification/Drags.thy ===== *)
theory Drags
  imports Commands_Layout
begin

text \<open>
  Dragging with the pointer: \<^verbatim>\<open>src/drag.c\<close>, the drags of \<^verbatim>\<open>src/floating.c\<close> and \<^verbatim>\<open>src/resize.c\<close>, and
  \<^verbatim>\<open>src/tiling_drag.c\<close>. \<open>drag_pointer\<close> runs an event loop of its own; here a drag is the list of the pointer
  positions for which it looks at the pointer, and how it ends. Events of other kinds, which it passes to
  their handlers, and windows drawn during a drag are left out.
\<close>

datatype drag_result_t = DRAG_SUCCESS | DRAG_REVERT | DRAG_ABORT

record drag =
  dr_moves :: "(u32 \<times> u32 \<times> real) list"
  dr_result :: drag_result_t

text \<open>The press that starts a drag: the position on the screen and in the window, the modifiers, whether it
  is the scroll, left or right button. The third part of a position above is the time in milliseconds.\<close>

record button_press =
  bp_window :: u32
  bp_child :: u32
  bp_root_x :: "16 word"
  bp_root_y :: "16 word"
  bp_x :: "16 word"
  bp_y :: "16 word"
  bp_state :: "16 word"
  bp_detail :: nat
  bp_release :: bool
  bp_time :: u32

definition root_x :: "button_press \<Rightarrow> u32" where
  "root_x e = scast (bp_root_x e)"

definition root_y :: "button_press \<Rightarrow> u32" where
  "root_y e = scast (bp_root_y e)"

definition threshold_exceeded :: "real \<Rightarrow> u32 \<Rightarrow> u32 \<Rightarrow> u32 \<Rightarrow> u32 \<Rightarrow> bool" where
  "threshold_exceeded dpi x1 y1 x2 y2 \<longleftrightarrow>
     (let threshold = (word_of_int (logical_px dpi 15) :: u32)
      in (x1 - x2) * (x1 - x2) + (y1 - y2) * (y1 - y2) > threshold * threshold)"

text \<open>\<open>alive\<close>: the dragged container still exists.\<close>

primrec drag_moves ::
  "(u32 \<Rightarrow> u32 \<Rightarrow> real \<Rightarrow> 's \<Rightarrow> 's) \<Rightarrow> ('s \<Rightarrow> bool) \<Rightarrow> (u32 \<Rightarrow> u32 \<Rightarrow> bool) \<Rightarrow> bool \<Rightarrow> (u32 \<times> u32 \<times> real) list \<Rightarrow> 's \<Rightarrow> 's" where
  "drag_moves callback alive exceeded begun [] s = s"
| "drag_moves callback alive exceeded begun (m # ms) s =
     (case m of (x, y, now) \<Rightarrow>
        let begun = (begun \<or> exceeded x y)
        in drag_moves callback alive exceeded begun ms (if begun \<and> alive s then callback x y now s else s))"

definition drag_pointer ::
  "real \<Rightarrow> button_press \<Rightarrow> bool \<Rightarrow> (u32 \<Rightarrow> u32 \<Rightarrow> real \<Rightarrow> 's \<Rightarrow> 's) \<Rightarrow> ('s \<Rightarrow> bool) \<Rightarrow> drag \<Rightarrow> 's \<Rightarrow> 's" where
  "drag_pointer dpi e use_threshold callback alive dr s =
     drag_moves callback alive (\<lambda>x y. threshold_exceeded dpi x y (root_x e) (root_y e)) (\<not> use_threshold) (dr_moves dr) s"

subsection \<open>Floating containers\<close>

definition drag_window_callback :: "con_id \<Rightarrow> Rect \<Rightarrow> button_press \<Rightarrow> u32 \<Rightarrow> u32 \<Rightarrow> wm \<Rightarrow> wm" where
  "drag_window_callback con old_rect e new_x new_y s =
     (let s = upd_con con (\<lambda>k. k\<lparr>rect := (rect k)\<lparr>rect_x := rect_x old_rect + (new_x - root_x e),
                                                rect_y := rect_y old_rect + (new_y - root_y e)\<rparr>\<rparr>) s;
          s = render_con con s
      in case floating_maybe_reassign_ws con s of (moved, s) \<Rightarrow> if moved then tree_render s else s)"

definition floating_drag_window :: "real \<Rightarrow> con_id \<Rightarrow> button_press \<Rightarrow> bool \<Rightarrow> drag \<Rightarrow> wm \<Rightarrow> wm" where
  "floating_drag_window dpi con e use_threshold dr s =
     (let s = tree_render s;
          initial_rect = rect (store s con);
          s = drag_pointer dpi e use_threshold (\<lambda>x y now. drag_window_callback con initial_rect e x y)
                (\<lambda>s. con_exists s con) dr s
      in if \<not> con_exists s con then s
         else if dr_result dr = DRAG_REVERT then snd (floating_reposition con initial_rect s)
         else tree_render (scratchpad_changed con s))"

text \<open>The corner that is nearest to the click: whether it is on the left, whether it is at the top.\<close>

definition resize_corner :: "wm \<Rightarrow> con_id \<Rightarrow> button_press \<Rightarrow> bool \<times> bool" where
  "resize_corner s con e =
     (let r = rect (store s con)
      in (sint (bp_x e) \<le> sint (ucast (rect_width r div 2) :: 16 word),
          sint (bp_y e) \<le> sint (ucast (rect_height r div 2) :: 16 word)))"

definition max_int :: "u32 \<Rightarrow> int \<Rightarrow> u32" where
  "max_int a b = word_of_int (max (sint a) b)"

text \<open>The wanted size. The ratio of a container without a height is an infinity in C; floating containers
  have a minimum height.\<close>

definition dragged_size :: "bool \<times> bool \<Rightarrow> bool \<Rightarrow> Rect \<Rightarrow> button_press \<Rightarrow> u32 \<Rightarrow> u32 \<Rightarrow> u32 \<times> u32" where
  "dragged_size corner proportional old_rect e new_x new_y =
     (let dx = new_x - root_x e; dy = new_y - root_y e;
          w = (if fst corner then rect_width old_rect - dx else rect_width old_rect + dx);
          h = (if snd corner then rect_height old_rect - dy else rect_height old_rect + dy);
          ratio = real (unat (rect_width old_rect)) / real (unat (rect_height old_rect))
      in if proportional then
           let w = max_int w (c_trunc (real (unat h) * ratio))
           in (w, max_int h (c_trunc (real (unat w) / ratio)))
         else (w, h))"

definition resize_window_callback ::
  "Rect \<Rightarrow> con_id \<Rightarrow> bool \<times> bool \<Rightarrow> bool \<Rightarrow> Rect \<Rightarrow> button_press \<Rightarrow> u32 \<Rightarrow> u32 \<Rightarrow> wm \<Rightarrow> wm" where
  "resize_window_callback root_screen con corner proportional old_rect e new_x new_y s =
     (let was = rect (store s con);
          s = (case dragged_size corner proportional old_rect e new_x new_y of
                 (w, h) \<Rightarrow> upd_con con (\<lambda>k. k\<lparr>rect := (rect k)\<lparr>rect_width := w, rect_height := h\<rparr>\<rparr>) s);
          s = floating_check_size root_screen con False s;
          now = rect (store s con);
          x = (if fst corner then rect_x old_rect + (rect_width old_rect - rect_width now) else rect_x was);
          y = (if snd corner then rect_y old_rect + (rect_height old_rect - rect_height now) else rect_y was)
      in render_con con (upd_con con (\<lambda>k. k\<lparr>rect := (rect k)\<lparr>rect_x := x, rect_y := y\<rparr>\<rparr>) s))"

definition floating_resize_window :: "real \<Rightarrow> Rect \<Rightarrow> con_id \<Rightarrow> bool \<Rightarrow> button_press \<Rightarrow> drag \<Rightarrow> wm \<Rightarrow> wm" where
  "floating_resize_window dpi root_screen con proportional e dr s =
     (let s = tree_render s;
          corner = resize_corner s con e;
          initial_rect = rect (store s con);
          s = drag_pointer dpi e False (\<lambda>x y now. resize_window_callback root_screen con corner proportional initial_rect e x y)
                (\<lambda>s. con_exists s con) dr s
      in if \<not> con_exists s con then s
         else scratchpad_changed con
                (if dr_result dr = DRAG_REVERT then snd (floating_reposition con initial_rect s) else s))"

subsection \<open>Tiling containers\<close>

text \<open>Where the border between two containers is, or the dragged edge of one without a neighbour.\<close>

definition initial_position :: "wm \<Rightarrow> con_id \<Rightarrow> con_id option \<Rightarrow> orientation_t \<Rightarrow> button_press \<Rightarrow> direction_t \<Rightarrow> u32" where
  "initial_position s first second ori e d =
     (let place = (\<lambda>c. rect (store s (con_descend_focused s c)));
          pos = (\<lambda>r. if ori = HORIZ then rect_x r else rect_y r);
          len = (\<lambda>r. if ori = HORIZ then rect_width r else rect_height r);
          edge = pos (place first) + len (place first)
      in if (case parent_of s first of None \<Rightarrow> False | Some p \<Rightarrow> layout_of s p = L_SCROLLING)
         then (if ori = HORIZ then root_x e else root_y e)
         else case second of
             Some c \<Rightarrow> pos (place c) - (pos (place c) - edge) div 2
           | None \<Rightarrow> if d = (if ori = HORIZ then D_RIGHT else D_DOWN) then edge else pos (place first))"

text \<open>What the callback keeps: the state, the last position inside the output, the one that has been
  applied, when that was, whether the threshold has been passed.\<close>

record resize_drag =
  rd_wm :: wm
  rd_new :: u32
  rd_applied :: u32
  rd_last_apply :: real
  rd_exceeded :: bool

text \<open>The two containers, or the column of a scrolling container; \<open>rp_live\<close> is the fps of the option
  \<open>live_resize\<close> if it is enabled.\<close>

record resize_params =
  rp_first :: con_id
  rp_second :: "con_id option"
  rp_orientation :: orientation_t
  rp_direction :: direction_t
  rp_live :: "int option"
  rp_output :: con_id

definition scroll_column :: "wm \<Rightarrow> resize_params \<Rightarrow> bool" where
  "scroll_column s p \<longleftrightarrow> (case parent_of s (rp_first p) of None \<Rightarrow> False | Some q \<Rightarrow> layout_of s q = L_SCROLLING)"

definition scroll_px :: "resize_params \<Rightarrow> int \<Rightarrow> int" where
  "scroll_px p delta = (if rp_direction p = D_RIGHT \<or> rp_direction p = D_DOWN then delta else - delta)"

text \<open>Applying a number of pixels: the first result says whether it worked. A column without a neighbour
  is only dragged in a scrolling container.\<close>

definition apply_resize :: "resize_params \<Rightarrow> bool \<Rightarrow> int \<Rightarrow> wm \<Rightarrow> bool \<times> wm" where
  "apply_resize p column delta s =
     (if column then (True, scrolling_resize_column_px (Some (rp_first p)) (scroll_px p delta) s)
      else case rp_second p of
          None \<Rightarrow> (False, abort s)
        | Some c \<Rightarrow> resize_neighboring_cons (rp_first p) c delta 0 s)"

definition inside_output :: "wm \<Rightarrow> resize_params \<Rightarrow> bool \<Rightarrow> u32 \<Rightarrow> bool" where
  "inside_output s p column v \<longleftrightarrow>
     (let r = rect (store s (rp_output p)); edge = (if column then 1 else 25);
          pos = (if rp_orientation p = HORIZ then rect_x r else rect_y r);
          len = (if rp_orientation p = HORIZ then rect_width r else rect_height r)
      in \<not> (v > pos + len - edge \<or> v < pos + edge))"

definition resize_callback :: "resize_params \<Rightarrow> bool \<Rightarrow> u32 \<Rightarrow> u32 \<Rightarrow> real \<Rightarrow> resize_drag \<Rightarrow> resize_drag" where
  "resize_callback p column x y now st =
     (let v = (if rp_orientation p = HORIZ then x else y)
      in if \<not> rd_exceeded st then st\<lparr>rd_exceeded := True\<rparr>
         else if \<not> inside_output (rd_wm st) p column v then st
         else
           let st = st\<lparr>rd_new := v\<rparr>; delta = sint v - sint (rd_applied st)
           in case rp_live p of
                None \<Rightarrow> st
              | Some fps \<Rightarrow>
                  if now - rd_last_apply st < 1000 / real_of_int (min 240 (max 15 fps)) \<or> delta = 0 then st
                  else (case apply_resize p column (c_int delta) (rd_wm st) of
                      (ok, s) \<Rightarrow>
                        if \<not> ok then st\<lparr>rd_wm := s\<rparr>
                        else st\<lparr>rd_wm := (if column then s else tree_render s), rd_applied := v, rd_last_apply := now\<rparr>))"

definition put_percents :: "(con_id \<times> real) list \<Rightarrow> wm \<Rightarrow> wm" where
  "put_percents = fold (\<lambda>(c, v). upd_con c (\<lambda>k. k\<lparr>percent := v\<rparr>))"

text \<open>The end of a drag that was applied while it went on.\<close>

definition finish_live :: "resize_params \<Rightarrow> bool \<Rightarrow> (con_id \<times> real) list \<Rightarrow> drag_result_t \<Rightarrow> resize_drag \<Rightarrow> wm" where
  "finish_live p column before result st =
     (let s = rd_wm st; remaining = c_int (sint (rd_new st) - sint (rd_applied st))
      in if result = DRAG_REVERT then
           let s = put_percents before s
           in tree_render (with_con (parent_of s (rp_first p)) con_fix_percent s)
         else tree_render (if remaining = 0 then s else snd (apply_resize p column remaining s)))"

text \<open>The end of a drag that is applied when it is over. A column of a scrolling container has no second
  container, and nothing is done.\<close>

definition finish_once :: "resize_params \<Rightarrow> u32 \<Rightarrow> drag_result_t \<Rightarrow> resize_drag \<Rightarrow> wm" where
  "finish_once p initial result st =
     (let s = rd_wm st; pixels = sint (rd_new st - initial)
      in if result = DRAG_REVERT \<or> pixels = 0 then s
         else case rp_second p of
             None \<Rightarrow> s
           | Some c \<Rightarrow>
               snd (resize_neighboring_cons (rp_first p) c pixels 0
                 (check (percent (store s (rp_first p)) > 0 \<and> percent (store s c) > 0) s)))"

definition resize_graphical_handler ::
  "real \<Rightarrow> int option \<Rightarrow> con_id \<Rightarrow> con_id option \<Rightarrow> orientation_t \<Rightarrow> button_press \<Rightarrow> bool \<Rightarrow> direction_t \<Rightarrow> drag \<Rightarrow> wm \<Rightarrow> wm" where
  "resize_graphical_handler dpi live first second ori e use_threshold d dr s =
     (case con_get_output s first of
        None \<Rightarrow> abort s
      | Some out \<Rightarrow>
          let p = \<lparr>rp_first = first, rp_second = second, rp_orientation = ori, rp_direction = d, rp_live = live, rp_output = out\<rparr>;
              column = scroll_column s p;
              before = (first, percent (store s first)) # (case second of None \<Rightarrow> [] | Some c \<Rightarrow> [(c, percent (store s c))]);
              initial = initial_position s first second ori e d;
              st = drag_pointer dpi e use_threshold (resize_callback p column) (\<lambda>_. True) dr
                     \<lparr>rd_wm = tree_render s, rd_new = initial, rd_applied = initial, rd_last_apply = 0, rd_exceeded = (\<not> use_threshold)\<rparr>
          in if live \<noteq> None then finish_live p column before (dr_result dr) st
             else finish_once p initial (dr_result dr) st)"

subsection \<open>Dragging a tiling container\<close>

text \<open>\<^const>\<open>None\<close> in the results below stands for a failed assertion of the code.\<close>

definition is_tiling_drop_target :: "wm \<Rightarrow> con_id \<Rightarrow> bool option" where
  "is_tiling_drop_target s con =
     (if \<not> con_has_managed_window s con \<or> con_is_floating s con \<or> con_is_hidden s con then Some False
      else case con_get_workspace s con of
          None \<Rightarrow> None
        | Some ws \<Rightarrow>
            if con_is_internal s ws then Some False
            else map_option (\<lambda>visible. visible \<and>
                     (case con_get_fullscreen_covering_ws s (Some ws) of None \<Rightarrow> True | Some fs \<Rightarrow> fs = con))
                   (workspace_is_visible s ws))"

text \<open>A visible workspace without children is a target too.\<close>

definition empty_visible_workspace :: "wm \<Rightarrow> con_id \<Rightarrow> bool option" where
  "empty_visible_workspace s out =
     (if con_is_internal s out then Some False
      else case output_get_content s out of
          None \<Rightarrow> None
        | Some content \<Rightarrow>
            map_option (\<lambda>found. case found of None \<Rightarrow> False | Some ws \<Rightarrow> con_num_children s ws = 0)
              (grep_first (workspace_is_visible s) (nodes s content)))"

definition has_drop_targets :: "wm \<Rightarrow> bool option" where
  "has_drop_targets s =
     (let found = map (is_tiling_drop_target s) (all_cons s) @ map (empty_visible_workspace s) (foci s (croot s))
      in if None \<in> set found then None else Some (length (filter (\<lambda>v. v = Some True) found) > 1))"

definition find_drop_target :: "wm \<Rightarrow> u32 \<Rightarrow> u32 \<Rightarrow> con_id option option" where
  "find_drop_target s x y =
     (case grep_first (\<lambda>c. if rect_contains (rect (store s c)) x y then is_tiling_drop_target s c else Some False) (all_cons s) of
        None \<Rightarrow> None
      | Some (Some con) \<Rightarrow>
          Some (Some (case con_get_fullscreen_covering_ws s (con_get_workspace s con) of None \<Rightarrow> con | Some fs \<Rightarrow> fs))
      | Some None \<Rightarrow>
          (case get_output_containing s x y of
             None \<Rightarrow> Some None
           | Some out \<Rightarrow>
               if \<not> o_has_con out then None
               else map_option (\<lambda>content. Some (con_descend_tiling_focused s content)) (output_get_content s (o_con out))))"

datatype drop_type_t = DT_SIBLING | DT_CENTER | DT_PARENT

definition reverse_direction :: "direction_t \<Rightarrow> direction_t" where
  "reverse_direction d = (case d of D_LEFT \<Rightarrow> D_RIGHT | D_RIGHT \<Rightarrow> D_LEFT | D_UP \<Rightarrow> D_DOWN | D_DOWN \<Rightarrow> D_UP)"

definition con_on_side_of_parent :: "wm \<Rightarrow> con_id \<Rightarrow> direction_t \<Rightarrow> bool option" where
  "con_on_side_of_parent s con d =
     (case parent_of s con of
        None \<Rightarrow> None
      | Some p \<Rightarrow>
          map_option (\<lambda>ori. ori \<noteq> orientation_from_direction d \<or>
                            layout_of s p = L_STACKED \<or> layout_of s p = L_TABBED \<or>
                            con_descend_direction s p (reverse_direction d) = Some con)
            (con_orientation s p))"

text \<open>The target climbs, along its ancestors, while its parent is at that side of the next one.\<close>

primrec climb_sides :: "direction_t \<Rightarrow> wm \<Rightarrow> con_id list \<Rightarrow> con_id option" where
  "climb_sides d s [] = None"
| "climb_sides d s (t # higher) =
     (case higher of
        [] \<Rightarrow> None
      | p # _ \<Rightarrow>
          if kind s p = CT_WORKSPACE then Some t
          else case con_on_side_of_parent s p d of
              None \<Rightarrow> None
            | Some True \<Rightarrow> climb_sides d s higher
            | Some False \<Rightarrow> Some t)"

record drop =
  dp_target :: con_id
  dp_direction :: direction_t
  dp_type :: drop_type_t

definition min_int :: "u32 \<Rightarrow> u32 \<Rightarrow> u32" where
  "min_int a b = word_of_int (min (sint a) (sint b))"

definition sibling_indicator_size :: "real \<Rightarrow> Rect \<Rightarrow> u32" where
  "sibling_indicator_size dpi r =
     max_int (word_of_int (c_trunc (3 / 10 * real (unat (min_int (rect_width r) (rect_height r)))))) (logical_px dpi 2)"

definition parent_indicator_size :: "real \<Rightarrow> wm \<Rightarrow> Rect \<Rightarrow> u32" where
  "parent_indicator_size dpi s r =
     min_int (word_of_int (render_deco_height s + logical_px dpi 5)) (sibling_indicator_size dpi r - 1)"

text \<open>The nearest edge and its distance.\<close>

definition nearest_edge :: "Rect \<Rightarrow> u32 \<Rightarrow> u32 \<Rightarrow> direction_t \<times> u32" where
  "nearest_edge r x y =
     (let d_left = x - rect_x r; d_top = y - rect_y r;
          d_right = rect_x r + rect_width r - x; d_bottom = rect_y r + rect_height r - y;
          d_min = min_int (min_int d_left d_right) (min_int d_top d_bottom)
      in (if d_left = d_min then D_LEFT else if d_top = d_min then D_UP
          else if d_right = d_min then D_RIGHT else D_DOWN, d_min))"

definition drag_callback :: "real \<Rightarrow> wm \<Rightarrow> con_id \<Rightarrow> u32 \<Rightarrow> u32 \<Rightarrow> drop option option \<Rightarrow> drop option option" where
  "drag_callback dpi s con x y before =
     (case find_drop_target s x y of
        None \<Rightarrow> None
      | Some None \<Rightarrow> before
      | Some (Some target) \<Rightarrow>
          if kind s target = CT_WORKSPACE
          then Some (Some \<lparr>dp_target = target, dp_direction = D_LEFT, dp_type = DT_CENTER\<rparr>)
          else
            let r = rect (store s target); d = fst (nearest_edge r x y); d_min = snd (nearest_edge r x y)
            in case (if d_min < parent_indicator_size dpi s r then con_on_side_of_parent s target d else Some False) of
                 None \<Rightarrow> None
               | Some True \<Rightarrow>
                   map_option (\<lambda>t. Some \<lparr>dp_target = t, dp_direction = d, dp_type = DT_PARENT\<rparr>)
                     (climb_sides d s (ancestors s target))
               | Some False \<Rightarrow>
                   Some (Some \<lparr>dp_target = target, dp_direction = d,
                               dp_type = (if d_min < sibling_indicator_size dpi r then DT_SIBLING else DT_CENTER)\<rparr>))"

subsection \<open>Dropping it\<close>

text \<open>What the code outside these components adds: the options and the assignments of windows.\<close>

record drop_env =
  dv_dpi :: real
  dv_root_screen :: Rect
  dv_swap_modifier :: u32
  dv_run_assignments :: "i3Window option \<Rightarrow> wm \<Rightarrow> wm"

text \<open>The first result says to go on: a swap that fails ends the drag.\<close>

definition drop_center :: "drop_env \<Rightarrow> con_id \<Rightarrow> con_id \<Rightarrow> button_press \<Rightarrow> wm \<Rightarrow> bool \<times> wm" where
  "drop_center ev con target e s =
     (let modifier = dv_swap_modifier ev AND 0xFFFF
      in if modifier \<noteq> 0 \<and> ucast (bp_state e) AND modifier = modifier then con_swap con target s
         else (True, snd (con_move_to_target (dv_root_screen ev) con target s)))"

definition drop_sibling :: "con_id \<Rightarrow> con_id \<Rightarrow> direction_t \<Rightarrow> wm \<Rightarrow> wm" where
  "drop_sibling con target d s =
     (case parent_of s target of
        None \<Rightarrow> abort s
      | Some p \<Rightarrow>
          (case con_orientation s p of
             None \<Rightarrow> abort s
           | Some ori \<Rightarrow>
               let wanted = orientation_from_direction d;
                   s = (if ori = wanted then s
                        else if parent_of s con = Some p \<and> con_num_children s p = 2
                        then upd_con p (\<lambda>k. k\<lparr>layout := (if wanted = VERT then L_SPLITV else L_SPLITH)\<rparr>) s
                        else tree_split target wanted s)
               in ipc_send (Window_Event ''move'' con) (insert_con_into con target (position_from_direction d) s)))"

definition drop_parent :: "drop_env \<Rightarrow> con_id \<Rightarrow> con_id \<Rightarrow> direction_t \<Rightarrow> wm \<Rightarrow> wm" where
  "drop_parent ev con target d s =
     (case parent_of s target of
        None \<Rightarrow> abort s
      | Some p \<Rightarrow>
          let pos = position_from_direction d;
              target = (if layout_of s p = L_TABBED \<or> layout_of s p = L_STACKED
                        then (if pos = BEFORE then tailq_first (nodes s p) else tailq_last (nodes s p)) else Some target)
          in case target of
               None \<Rightarrow> abort s
             | Some t \<Rightarrow>
                 let s = (if con = t then s else insert_con_into con t pos s); old_focus = focused s;
                     s = tree_move (dv_run_assignments ev) con d s
                 in case old_focus of
                      None \<Rightarrow> s
                    | Some f \<Rightarrow> if focused s \<noteq> old_focus \<and> con_exists s f then con_activate f s else s)"

text \<open>A container that was focused or fullscreen is so again, unless another one is fullscreen there.\<close>

definition drop_finish :: "con_id \<Rightarrow> bool \<Rightarrow> bool \<Rightarrow> wm \<Rightarrow> wm" where
  "drop_finish con set_focus set_fs s =
     (let ws = con_get_workspace s con; fs = con_get_fullscreen_covering_ws s ws;
          s = (if (set_focus \<or> set_fs) \<and> fs = Some con then abort s
               else if set_focus \<and> set_fs then (case fs of None \<Rightarrow> s | Some f \<Rightarrow> con_disable_fullscreen f s) else s);
          covered = (fs \<noteq> None \<and> \<not> (set_focus \<and> set_fs));
          focus_it = (if covered then False
                      else set_focus \<or> set_fs \<and> Option.bind (focused s) (con_get_workspace s) = ws);
          s = (if set_fs \<and> \<not> covered then con_enable_fullscreen con CF_OUTPUT s else s);
          s = (if focus_it then con_focus con (with_con (con_get_workspace s con) workspace_show s) else s)
      in tree_render s)"

definition tiling_drop :: "drop_env \<Rightarrow> con_id \<Rightarrow> button_press \<Rightarrow> drop \<Rightarrow> wm \<Rightarrow> bool \<times> wm" where
  "tiling_drop ev con e dp s =
     (case dp_type dp of
        DT_CENTER \<Rightarrow> drop_center ev con (dp_target dp) e s
      | DT_SIBLING \<Rightarrow> (True, drop_sibling con (dp_target dp) (dp_direction dp) s)
      | DT_PARENT \<Rightarrow> (True, drop_parent ev con (dp_target dp) (dp_direction dp) s))"

definition tiling_drag :: "drop_env \<Rightarrow> con_id \<Rightarrow> button_press \<Rightarrow> bool \<Rightarrow> drag \<Rightarrow> wm \<Rightarrow> wm" where
  "tiling_drag ev con e use_threshold dr s =
     (let set_focus = (focused s = Some con); set_fs = (fullscreen_mode (store s con) \<noteq> CF_NONE)
      in case drag_pointer (dv_dpi ev) e use_threshold (\<lambda>x y now. drag_callback (dv_dpi ev) s con x y)
                (\<lambda>_. con_exists s con) dr (Some None) of
           None \<Rightarrow> abort s
         | Some None \<Rightarrow> s
         | Some (Some dp) \<Rightarrow>
             if dr_result dr = DRAG_REVERT \<or> dp_target dp = con \<and> dp_type dp \<noteq> DT_PARENT \<or> \<not> con_exists s (dp_target dp) then s
             else (case tiling_drop ev con e dp (con_disable_fullscreen con s) of
                 (go_on, s) \<Rightarrow> if go_on then drop_finish con set_focus set_fs s else s))"

subsection \<open>What drags do\<close>

text \<open>A drag that is reverted, that never finds a target, or that drops a container on itself changes nothing.\<close>

lemma tiling_drag_reverted:
  assumes "dr_result dr = DRAG_REVERT"
    and "drag_pointer (dv_dpi ev) e use_threshold (\<lambda>x y now. drag_callback (dv_dpi ev) s con x y)
           (\<lambda>_. con_exists s con) dr (Some None) \<noteq> None"
  shows "tiling_drag ev con e use_threshold dr s = s"
  using assms by (auto simp: tiling_drag_def Let_def split: option.splits)

text \<open>A drag below the threshold calls nothing.\<close>

lemma drag_moves_below:
  assumes "\<forall>(x, y, now) \<in> set ms. \<not> exceeded x y"
  shows "drag_moves callback alive exceeded False ms s = s"
  using assms by (induction ms) auto

text \<open>Once over the threshold, the callback sees every position, the one that passes it included.\<close>

lemma drag_moves_begun:
  "drag_moves callback (\<lambda>_. True) exceeded True ms s = fold (\<lambda>(x, y, now). callback x y now) ms s"
  by (induction ms arbitrary: s) auto

lemma drag_moves_split:
  assumes "\<forall>(x, y, now) \<in> set ms. \<not> exceeded x y" and "exceeded x y"
  shows "drag_moves callback (\<lambda>_. True) exceeded False (ms @ (x, y, now) # rest) s =
    fold (\<lambda>(x, y, now). callback x y now) ((x, y, now) # rest) s"
  using assms by (induction ms) (auto simp: drag_moves_begun)

end
