(* ===== verification/Click.thy ===== *)
theory Click
  imports Drags Bindings Config_Directives
begin

text \<open>
  Clicks and keys: \<^verbatim>\<open>src/click.c\<close>, \<^verbatim>\<open>src/key_press.c\<close> and \<open>run_binding\<close> of \<^verbatim>\<open>src/bindings.c\<close>. i3 grabs the
  buttons synchronously: the pointer is frozen until \<open>xcb_allow_events\<close> or a grab of \<open>drag_pointer\<close>. The
  state keeps, beside the tree, what has been done about it. A click starts one drag at most, whose outcome
  is a parameter.
\<close>

datatype pointer_act = Replay_Pointer | Async_Pointer | Drag_Pointer

record click_state =
  ck_wm :: wm
  ck_pointer :: "pointer_act list"
  ck_last_timestamp :: u32

text \<open>\<open>cv_name\<close>: how a container is named in a command; \<open>cv_live\<close>: the option \<open>live_resize\<close>;
  \<open>cv_parse_command\<close>: whether the tree has to be rendered after a command.\<close>

record click_env =
  cv_root :: u32
  cv_frame :: "con_id \<Rightarrow> u32"
  cv_name :: "con_id \<Rightarrow> string"
  cv_tiling_drag :: tiling_drag_t
  cv_floating_modifier :: u32
  cv_live :: "int option"
  cv_drop :: drop_env
  cv_parse_command :: "string \<Rightarrow> wm \<Rightarrow> bool \<times> wm"

datatype click_destination_t = CLICK_BORDER | CLICK_DECORATION | CLICK_INSIDE

datatype border_t = BORDER_LEFT | BORDER_RIGHT | BORDER_TOP | BORDER_BOTTOM

definition on_ck :: "(wm \<Rightarrow> wm) \<Rightarrow> click_state \<Rightarrow> click_state" where
  "on_ck f k = k\<lparr>ck_wm := f (ck_wm k)\<rparr>"

definition act :: "pointer_act \<Rightarrow> click_state \<Rightarrow> click_state" where
  "act a k = k\<lparr>ck_pointer := ck_pointer k @ [a]\<rparr>"

definition allow_replay_pointer :: "click_state \<Rightarrow> click_state" where
  "allow_replay_pointer k = on_ck tree_render (act Replay_Pointer k)"

definition dragging :: "(wm \<Rightarrow> wm) \<Rightarrow> click_state \<Rightarrow> click_state" where
  "dragging f k = on_ck f (act Drag_Pointer k)"

subsection \<open>Running a binding\<close>

text \<open>The event names the command; the bar that shows an error of the command is left out.\<close>

definition run_binding :: "click_env \<Rightarrow> Binding \<Rightarrow> con_id option \<Rightarrow> wm \<Rightarrow> wm" where
  "run_binding ev b con s =
     (let command = (case con of
                       None \<Rightarrow> bd_command b
                     | Some c \<Rightarrow> ''[con_id='' @ [CHR 0x22] @ cv_name ev c @ [CHR 0x22] @ ''] '' @ bd_command b);
          mode = current_binding_mode s
      in case cv_parse_command ev command s of
           (needs_render, s) \<Rightarrow> ipc_send (Binding_Event (bd_command b) mode) (if needs_render then tree_render s else s))"

definition button_kind :: "button_press \<Rightarrow> x_button_event" where
  "button_kind e = (if bp_release e then BUTTON_RELEASE else BUTTON_PRESS)"

definition button_binding :: "button_press \<Rightarrow> wm \<Rightarrow> Binding option \<times> wm" where
  "button_binding e s = get_binding_from_xcb_event (button_kind e) (bp_state e) (of_nat (bp_detail e)) s"

text \<open>A key: its code, the modifiers, whether it is released, and the time.\<close>

definition handle_key_press :: "click_env \<Rightarrow> 16 word \<Rightarrow> 16 word \<Rightarrow> bool \<Rightarrow> u32 \<Rightarrow> click_state \<Rightarrow> click_state" where
  "handle_key_press ev keycode state release time k =
     (let k = k\<lparr>ck_last_timestamp := time\<rparr>
      in case get_binding_from_xcb_event (if release then KEY_RELEASE else KEY_PRESS) state keycode (ck_wm k) of
           (b, s) \<Rightarrow>
             let k = on_ck (\<lambda>_. s) k
             in case b of None \<Rightarrow> k | Some b \<Rightarrow> on_ck (run_binding ev b None) k)"

subsection \<open>Resizing at a border\<close>

definition border_direction :: "border_t \<Rightarrow> direction_t" where
  "border_direction b =
     (case b of BORDER_LEFT \<Rightarrow> D_LEFT | BORDER_RIGHT \<Rightarrow> D_RIGHT | BORDER_TOP \<Rightarrow> D_UP | BORDER_BOTTOM \<Rightarrow> D_DOWN)"

text \<open>The column of a scrolling container that a container is in, along its ancestors.\<close>

primrec column_of :: "wm \<Rightarrow> con_id list \<Rightarrow> con_id option" where
  "column_of s [] = None"
| "column_of s (c # higher) =
     (case higher of
        [] \<Rightarrow> None
      | p # _ \<Rightarrow>
          if kind s c = CT_WORKSPACE \<or> kind s c = CT_FLOATING_CON then None
          else if layout_of s p = L_SCROLLING then Some c else column_of s higher)"

definition graphical ::
  "click_env \<Rightarrow> con_id \<Rightarrow> con_id option \<Rightarrow> orientation_t \<Rightarrow> button_press \<Rightarrow> bool \<Rightarrow> direction_t \<Rightarrow> drag \<Rightarrow> click_state \<Rightarrow> click_state" where
  "graphical ev first second ori e use_threshold d dr k =
     on_ck tree_render (dragging (resize_graphical_handler (dv_dpi (cv_drop ev)) (cv_live ev) first second ori e use_threshold d dr) k)"

text \<open>The result says whether something has been resized.\<close>

definition tiling_resize_for_border ::
  "click_env \<Rightarrow> con_id \<Rightarrow> border_t \<Rightarrow> button_press \<Rightarrow> bool \<Rightarrow> drag \<Rightarrow> click_state \<Rightarrow> bool \<times> click_state" where
  "tiling_resize_for_border ev con border e use_threshold dr k =
     (let s = ck_wm k; d = border_direction border;
          column = (if border = BORDER_LEFT \<or> border = BORDER_RIGHT then column_of s (ancestors s con) else None)
      in case column of
           Some c \<Rightarrow> (True, graphical ev c None HORIZ e use_threshold d dr k)
         | None \<Rightarrow>
             (case resize_find_tiling_participants s (Some con) d False of
                None \<Rightarrow> (False, on_ck abort k)
              | Some (True, Some first, Some second) \<Rightarrow>
                  if fullscreen_mode (store s first) \<noteq> fullscreen_mode (store s second) then (False, k)
                  else
                    let k = on_ck (check (first \<noteq> second \<and> parent_of s first = parent_of s second)) k;
                        ori = (if border = BORDER_LEFT \<or> border = BORDER_RIGHT then HORIZ else VERT)
                    in (True, if d = D_UP \<or> d = D_LEFT then graphical ev second (Some first) ori e use_threshold d dr k
                              else graphical ev first (Some second) ori e use_threshold d dr k)
              | Some _ \<Rightarrow> (False, k)))"

definition strictly_least :: "int \<Rightarrow> int list \<Rightarrow> bool" where
  "strictly_least v others \<longleftrightarrow> list_all (\<lambda>x. v < x) others"

definition floating_mod_on_tiled_client ::
  "click_env \<Rightarrow> con_id \<Rightarrow> button_press \<Rightarrow> drag \<Rightarrow> click_state \<Rightarrow> bool \<times> click_state" where
  "floating_mod_on_tiled_client ev con e dr k =
     (let r = rect (store (ck_wm k) con);
          to_right = sint (rect_width r - scast (bp_x e)); to_left = sint (bp_x e);
          to_top = sint (bp_y e); to_bottom = sint (rect_height r - scast (bp_y e));
          go = (\<lambda>border. tiling_resize_for_border ev con border e False dr k)
      in if strictly_least to_right [to_left, to_top, to_bottom] then go BORDER_RIGHT
         else if strictly_least to_left [to_right, to_top, to_bottom] then go BORDER_LEFT
         else if strictly_least to_top [to_right, to_left, to_bottom] then go BORDER_TOP
         else if strictly_least to_bottom [to_right, to_left, to_top] then go BORDER_BOTTOM
         else (False, k))"

definition tiling_resize ::
  "click_env \<Rightarrow> con_id \<Rightarrow> button_press \<Rightarrow> click_destination_t \<Rightarrow> bool \<Rightarrow> drag \<Rightarrow> click_state \<Rightarrow> bool \<times> click_state" where
  "tiling_resize ev con e dest use_threshold dr k =
     (let s = ck_wm k; bsr = con_border_style_rect s con; r = rect (store s con); wr = window_rect (store s con);
          x = sint (bp_x e); y = sint (bp_y e);
          in_height = (y \<ge> sint (rect_y bsr) \<and> y \<le> sint (rect_height r + rect_height bsr));
          go = (\<lambda>border threshold. tiling_resize_for_border ev con border e threshold dr k)
      in if dest = CLICK_DECORATION then go BORDER_TOP use_threshold
         else if dest = CLICK_BORDER \<and> y \<ge> 0 \<and> y \<le> sint (rect_y bsr) \<and>
                 x \<ge> sint (rect_x bsr) \<and> x \<le> sint (rect_width r + rect_width bsr) then go BORDER_TOP False
         else if x \<ge> 0 \<and> x \<le> sint (rect_x bsr) \<and> in_height then go BORDER_LEFT False
         else if x \<ge> sint (rect_x wr + rect_width wr) \<and> in_height then go BORDER_RIGHT False
         else if y \<ge> sint (rect_y wr + rect_height wr) then go BORDER_BOTTOM False
         else (False, k))"

subsection \<open>Where a click goes\<close>

text \<open>The properties of a click that the steps below use.\<close>

record click =
  cl_event :: button_press
  cl_con :: con_id
  cl_dest :: click_destination_t
  cl_mod_pressed :: bool
  cl_was_focused :: bool
  cl_in_stacked :: bool
  cl_floatingcon :: "con_id option"

definition is_left :: "click \<Rightarrow> bool" where
  "is_left cl \<longleftrightarrow> bp_detail (cl_event cl) = 1"

definition is_right :: "click \<Rightarrow> bool" where
  "is_right cl \<longleftrightarrow> bp_detail (cl_event cl) = 3"

definition is_scroll :: "click \<Rightarrow> bool" where
  "is_scroll cl \<longleftrightarrow> bp_detail (cl_event cl) \<in> {4, 5, 6, 7}"

definition on_edge :: "click \<Rightarrow> bool" where
  "on_edge cl \<longleftrightarrow> cl_dest cl = CLICK_BORDER \<or> cl_dest cl = CLICK_DECORATION"

definition proportional :: "click \<Rightarrow> bool" where
  "proportional cl \<longleftrightarrow> bp_state (cl_event cl) AND 1 = 1"

text \<open>Scrolling on a title shows the neighbour of the focused child.\<close>

definition click_scroll :: "click \<Rightarrow> con_id \<Rightarrow> con_id \<Rightarrow> wm \<Rightarrow> wm" where
  "click_scroll cl p ws s =
     (let s = workspace_show ws s; d = (if bp_detail (cl_event cl) \<in> {4, 6} then BEFORE else AFTER)
      in case tailq_first (foci s p) of
           None \<Rightarrow> abort s
         | Some current \<Rightarrow>
             with_con (get_tree_next_sibling s current d) (\<lambda>nxt s.
               con_activate (con_descend_focused s (case nxt of None \<Rightarrow> current | Some n \<Rightarrow> n)) s) s)"

primrec deepest :: "nat \<Rightarrow> wm \<Rightarrow> con_id \<Rightarrow> con_id" where
  "deepest 0 s c = c"
| "deepest (Suc n) s c = (case tailq_first (foci s c) of None \<Rightarrow> c | Some d \<Rightarrow> deepest n s d)"

definition con_to_focus :: "click \<Rightarrow> wm \<Rightarrow> con_id" where
  "con_to_focus cl s =
     (let con = cl_con cl
      in if cl_in_stacked cl \<and> cl_dest cl = CLICK_DECORATION \<and>
            (cl_was_focused cl \<or> (case focused s of None \<Rightarrow> True | Some f \<Rightarrow> \<not> con_has_parent s f con))
         then deepest (length (all_cons s)) s con else con)"

definition click_focus :: "click \<Rightarrow> con_id \<Rightarrow> wm \<Rightarrow> wm" where
  "click_focus cl ws s =
     (let target = con_to_focus cl s;
          s = (if Some ws \<noteq> Option.bind (focused s) (con_get_workspace s) then workspace_show ws s else s)
      in con_activate target s)"

definition resize_floating :: "click_env \<Rightarrow> click \<Rightarrow> con_id \<Rightarrow> drag \<Rightarrow> click_state \<Rightarrow> click_state" where
  "resize_floating ev cl f dr =
     dragging (floating_resize_window (dv_dpi (cv_drop ev)) (dv_root_screen (cv_drop ev)) f (proportional cl) (cl_event cl) dr)"

definition drag_floating :: "click_env \<Rightarrow> click \<Rightarrow> con_id \<Rightarrow> bool \<Rightarrow> drag \<Rightarrow> click_state \<Rightarrow> click_state" where
  "drag_floating ev cl f use_threshold dr =
     dragging (floating_drag_window (dv_dpi (cv_drop ev)) f (cl_event cl) use_threshold dr)"

definition click_floating :: "click_env \<Rightarrow> click \<Rightarrow> con_id \<Rightarrow> drag \<Rightarrow> click_state \<Rightarrow> click_state" where
  "click_floating ev cl f dr k =
     (if cl_mod_pressed cl \<and> is_left cl then drag_floating ev cl f False dr k
      else if cl_mod_pressed cl \<and> is_right cl then resize_floating ev cl f dr k
      else case (if on_edge cl \<and> (is_left cl \<or> is_right cl)
                 then tiling_resize ev (cl_con cl) (cl_event cl) (cl_dest cl)
                        (cl_dest cl = CLICK_DECORATION \<and> \<not> cl_was_focused cl) dr k
                 else (False, k)) of
          (resized, k) \<Rightarrow>
            if resized then allow_replay_pointer k
            else if cl_dest cl = CLICK_DECORATION \<and> is_right cl then resize_floating ev cl f dr k
            else if cl_dest cl = CLICK_BORDER \<and> (is_left cl \<or> is_right cl) then resize_floating ev cl f dr k
            else if cl_dest cl = CLICK_DECORATION \<and> is_left cl then drag_floating ev cl f (\<not> cl_was_focused cl) dr k
            else allow_replay_pointer k)"

text \<open>The condition for the drag of a tiling container, and whether there is something to drop it on.\<close>

definition drags_tiling :: "click_env \<Rightarrow> click \<Rightarrow> bool" where
  "drags_tiling ev cl \<longleftrightarrow> is_left cl \<and>
     (cv_tiling_drag ev = TILING_DRAG_TITLEBAR \<and> cl_dest cl = CLICK_DECORATION \<or>
      cv_tiling_drag ev = TILING_DRAG_MODIFIER_OR_TITLEBAR \<and> (cl_mod_pressed cl \<or> cl_dest cl = CLICK_DECORATION))"

definition click_tiling :: "click_env \<Rightarrow> click \<Rightarrow> drag \<Rightarrow> click_state \<Rightarrow> click_state" where
  "click_tiling ev cl dr k =
     (case (if drags_tiling ev cl then has_drop_targets (ck_wm k) else Some False) of
        None \<Rightarrow> on_ck abort k
      | Some True \<Rightarrow>
          dragging (tiling_drag (cv_drop ev) (cl_con cl) (cl_event cl) (\<not> cl_mod_pressed cl) dr) (allow_replay_pointer k)
      | Some False \<Rightarrow>
          if cl_dest cl = CLICK_INSIDE \<and> cl_mod_pressed cl \<and> is_right cl
          then (case floating_mod_on_tiled_client ev (cl_con cl) (cl_event cl) dr k of
              (resized, k) \<Rightarrow> if resized then k else act Async_Pointer k)
          else if on_edge cl \<and> (is_left cl \<or> is_right cl)
          then allow_replay_pointer (snd (tiling_resize ev (cl_con cl) (cl_event cl) (cl_dest cl)
                 (cl_dest cl = CLICK_DECORATION \<and> \<not> cl_was_focused cl) dr k))
          else allow_replay_pointer k)"

text \<open>The default behaviour of a button that is pressed: \<open>ws\<close> is the workspace, \<open>p\<close> the parent.\<close>

definition click_default :: "click_env \<Rightarrow> click \<Rightarrow> con_id \<Rightarrow> con_id \<Rightarrow> drag \<Rightarrow> click_state \<Rightarrow> click_state" where
  "click_default ev cl p ws dr k =
     (if cl_in_stacked cl \<and> cl_dest cl = CLICK_DECORATION \<and> is_scroll cl
      then allow_replay_pointer (on_ck (click_scroll cl p ws) k)
      else case (if cl_mod_pressed cl \<and> is_left cl \<and> cl_floatingcon cl = None \<and>
                    (cv_tiling_drag ev = TILING_DRAG_MODIFIER \<or> cv_tiling_drag ev = TILING_DRAG_MODIFIER_OR_TITLEBAR)
                 then has_drop_targets (ck_wm k) else Some False) of
          None \<Rightarrow> on_ck abort k
        | Some True \<Rightarrow>
            allow_replay_pointer (dragging (tiling_drag (cv_drop ev) (cl_con cl) (cl_event cl) False dr) k)
        | Some False \<Rightarrow>
            let k = on_ck (click_focus cl ws) k;
                fs = con_get_fullscreen_covering_ws (ck_wm k) (Some ws)
            in case cl_floatingcon cl of
                 None \<Rightarrow> click_tiling ev cl dr k
               | Some f \<Rightarrow> if fs \<noteq> Some (cl_con cl) then click_floating ev cl f dr k else click_tiling ev cl dr k)"

definition binding_for :: "click_destination_t \<Rightarrow> Binding \<Rightarrow> bool" where
  "binding_for dest b \<longleftrightarrow>
     dest = CLICK_DECORATION \<and> \<not> bd_exclude_titlebar b \<or>
     dest = CLICK_INSIDE \<and> bd_whole_window b \<or>
     dest = CLICK_BORDER \<and> bd_border b"

text \<open>The workspace of a container that is in none is the one that its output shows. The first \<^const>\<open>None\<close>
  is a dereferenced \<open>NULL\<close>.\<close>

definition click_workspace :: "wm \<Rightarrow> con_id \<Rightarrow> con_id option option" where
  "click_workspace s con =
     (case con_get_workspace s con of
        Some ws \<Rightarrow> Some (Some ws)
      | None \<Rightarrow> map_option (\<lambda>content. tailq_first (foci s content))
                  (Option.bind (con_get_output s con) (output_get_content s)))"

definition route_click ::
  "click_env \<Rightarrow> con_id \<Rightarrow> button_press \<Rightarrow> click_destination_t \<Rightarrow> drag \<Rightarrow> click_state \<Rightarrow> click_state" where
  "route_click ev con e dest dr k =
     (case parent_of (ck_wm k) con of
        None \<Rightarrow> on_ck abort k
      | Some p \<Rightarrow>
          if kind (ck_wm k) p = CT_DOCKAREA then allow_replay_pointer k
          else case button_binding e (ck_wm k) of
              (b, s) \<Rightarrow>
                let k = on_ck (\<lambda>_. s) k; modifier = cv_floating_modifier ev AND 0xFFFF
                in case (case b of None \<Rightarrow> None | Some b \<Rightarrow> if binding_for dest b then Some b else None) of
                     Some b \<Rightarrow> act Async_Pointer (on_ck (run_binding ev b (Some con)) k)
                   | None \<Rightarrow>
                       if bp_release e then allow_replay_pointer k
                       else (case click_workspace s con of
                           None \<Rightarrow> on_ck abort k
                         | Some None \<Rightarrow> allow_replay_pointer k
                         | Some (Some ws) \<Rightarrow>
                             click_default ev
                               \<lparr>cl_event = e, cl_con = con, cl_dest = dest,
                                cl_mod_pressed = (modifier \<noteq> 0 \<and> ucast (bp_state e) AND modifier = modifier),
                                cl_was_focused = (focused s = Some con),
                                cl_in_stacked = (layout_of s p = L_STACKED \<or> layout_of s p = L_TABBED),
                                cl_floatingcon = con_inside_floating s con\<rparr> p ws dr k))"

subsection \<open>The handler\<close>

text \<open>A click on the root window shows the workspace of the output that is there.\<close>

definition click_output :: "wm \<Rightarrow> button_press \<Rightarrow> con_id option" where
  "click_output s e =
     find (\<lambda>out. \<not> con_is_internal s out \<and> rect_contains (rect (store s out)) (scast (bp_x e)) (scast (bp_y e)))
       (nodes s (croot s))"

definition show_clicked_output :: "button_press \<Rightarrow> wm \<Rightarrow> wm" where
  "show_clicked_output e s =
     (case click_output s e of
        None \<Rightarrow> s
      | Some out \<Rightarrow>
          (case Option.bind (output_get_content s out) (\<lambda>content. tailq_first (foci s content)) of
             None \<Rightarrow> abort s
           | Some ws \<Rightarrow>
               if Some ws \<noteq> Option.bind (focused s) (con_get_workspace s) then tree_render (workspace_show ws s) else s))"

definition click_root :: "click_env \<Rightarrow> button_press \<Rightarrow> click_state \<Rightarrow> click_state" where
  "click_root ev e k =
     (case button_binding e (ck_wm k) of
        (b, s) \<Rightarrow>
          let s = (case b of None \<Rightarrow> s | Some b \<Rightarrow> if bd_whole_window b then run_binding ev b None s else s)
          in if bp_release e then act Replay_Pointer (on_ck (\<lambda>_. s) k)
             else on_ck (\<lambda>_. show_clicked_output e s) k)"

definition clicked_child :: "wm \<Rightarrow> button_press \<Rightarrow> con_id \<Rightarrow> con_id option" where
  "clicked_child s e con =
     (let hit = (\<lambda>c. rect_contains (deco_rect (store s c)) (scast (bp_x e)) (scast (bp_y e)))
      in if window (store s con) \<noteq> None then (if hit con then Some con else None)
         else find hit (rev (nodes s con)))"

definition handle_button_press :: "click_env \<Rightarrow> button_press \<Rightarrow> drag \<Rightarrow> click_state \<Rightarrow> click_state" where
  "handle_button_press ev e dr k =
     (let k = k\<lparr>ck_last_timestamp := bp_time e\<rparr>; s = ck_wm k
      in case con_by_window_id s (bp_window e) of
           Some con \<Rightarrow> route_click ev con e CLICK_INSIDE dr k
         | None \<Rightarrow>
             (case find (\<lambda>c. cv_frame ev c = bp_window e) (all_cons s) of
                None \<Rightarrow> if bp_window e = cv_root ev then click_root ev e k else act Replay_Pointer k
              | Some con \<Rightarrow>
                  (case clicked_child s e con of
                     Some c \<Rightarrow> route_click ev c e CLICK_DECORATION dr k
                   | None \<Rightarrow> route_click ev con e (if bp_child e \<noteq> 0 then CLICK_INSIDE else CLICK_BORDER) dr k)))"

subsection \<open>The pointer does not stay frozen\<close>

lemma pointer_simps [simp]:
  "ck_pointer (on_ck f k) = ck_pointer k" "ck_pointer (act a k) = ck_pointer k @ [a]"
  "ck_pointer (allow_replay_pointer k) = ck_pointer k @ [Replay_Pointer]"
  "ck_pointer (dragging f k) = ck_pointer k @ [Drag_Pointer]"
  "ck_pointer (k\<lparr>ck_last_timestamp := t\<rparr>) = ck_pointer k"
  by (simp_all add: on_ck_def act_def allow_replay_pointer_def dragging_def)

definition frees_pointer :: "click_state \<Rightarrow> click_state \<Rightarrow> bool" where
  "frees_pointer k k' \<longleftrightarrow> aborted (ck_wm k') \<or>
     ck_pointer k' \<in> (\<lambda>acts. ck_pointer k @ acts) `
       {[Replay_Pointer], [Async_Pointer], [Drag_Pointer], [Drag_Pointer, Replay_Pointer], [Replay_Pointer, Drag_Pointer]}"

lemma graphical_pointer [simp]: "ck_pointer (graphical ev c d ori e th dir dr k) = ck_pointer k @ [Drag_Pointer]"
  by (simp add: graphical_def)

text \<open>A resize that happens grabs the pointer once; one that does not leaves it alone.\<close>

definition resizes :: "click_state \<Rightarrow> bool \<times> click_state \<Rightarrow> bool" where
  "resizes k r \<longleftrightarrow> ck_pointer (snd r) = ck_pointer k @ (if fst r then [Drag_Pointer] else [])"

lemma resizes_simps [simp]:
  "resizes k (False, k)" "resizes k (False, on_ck f k)" "resizes k (True, graphical ev c d ori e th dir dr k)"
  "resizes k (True, graphical ev c d ori e th dir dr (on_ck f k))"
  by (simp_all add: resizes_def)

lemma resizes_if [intro]: "(b \<Longrightarrow> resizes k x) \<Longrightarrow> (\<not> b \<Longrightarrow> resizes k y) \<Longrightarrow> resizes k (if b then x else y)"
  by simp

lemma resizes_cases:
  "(x = None \<Longrightarrow> resizes k a) \<Longrightarrow> (\<And>y. x = Some y \<Longrightarrow> resizes k (f y)) \<Longrightarrow>
     resizes k (case x of None \<Rightarrow> a | Some y \<Rightarrow> f y)"
  "(\<And>u v. p = (u, v) \<Longrightarrow> resizes k (g u v)) \<Longrightarrow> resizes k (case p of (u, v) \<Rightarrow> g u v)"
  "(c \<Longrightarrow> resizes k q) \<Longrightarrow> (\<not> c \<Longrightarrow> resizes k r) \<Longrightarrow> resizes k (case c of True \<Rightarrow> q | False \<Rightarrow> r)"
  "resizes k (c, k1) \<Longrightarrow> resizes k (c, k2) \<Longrightarrow> resizes k (c, if e then k1 else k2)"
  by (cases x; simp) (cases p; cases c; simp)+

lemma resize_for_border_pointer: "resizes k (tiling_resize_for_border ev con b e th dr k)"
  unfolding tiling_resize_for_border_def Let_def
  by (intro resizes_cases resizes_if resizes_simps)

lemma tiling_resize_pointer: "resizes k (tiling_resize ev con e dest th dr k)"
  unfolding tiling_resize_def Let_def
  by (intro resizes_if resize_for_border_pointer resizes_simps(1))

lemma floating_mod_pointer: "resizes k (floating_mod_on_tiled_client ev con e dr k)"
  unfolding floating_mod_on_tiled_client_def Let_def
  by (intro resizes_if resize_for_border_pointer resizes_simps(1))

lemma frees_pointerI:
  "ck_pointer k' = ck_pointer k @ [Replay_Pointer] \<Longrightarrow> frees_pointer k k'"
  "ck_pointer k' = ck_pointer k @ [Async_Pointer] \<Longrightarrow> frees_pointer k k'"
  "ck_pointer k' = ck_pointer k @ [Drag_Pointer] \<Longrightarrow> frees_pointer k k'"
  "ck_pointer k' = ck_pointer k @ [Drag_Pointer, Replay_Pointer] \<Longrightarrow> frees_pointer k k'"
  "ck_pointer k' = ck_pointer k @ [Replay_Pointer, Drag_Pointer] \<Longrightarrow> frees_pointer k k'"
  by (simp_all add: frees_pointer_def)

lemma frees_pointer_abort [simp]: "frees_pointer k (on_ck abort k')"
  by (simp add: frees_pointer_def on_ck_def abort_def)

lemma frees_pointer_cong: "ck_pointer k0 = ck_pointer k \<Longrightarrow> frees_pointer k0 k' = frees_pointer k k'"
  by (simp add: frees_pointer_def)

lemma frees_pointer_if [intro]:
  "(b \<Longrightarrow> frees_pointer k x) \<Longrightarrow> (\<not> b \<Longrightarrow> frees_pointer k y) \<Longrightarrow> frees_pointer k (if b then x else y)"
  by simp

lemma frees_after_resize:
  assumes "resizes k (b, k')"
  shows "b \<Longrightarrow> frees_pointer k (allow_replay_pointer k')" "b \<Longrightarrow> frees_pointer k k'"
    "\<not> b \<Longrightarrow> frees_pointer k k'' = frees_pointer k' k''" "frees_pointer k (allow_replay_pointer k')"
  using assms by (auto simp: resizes_def frees_pointer_def)

lemma frees_pointer_steps [simp]:
  "frees_pointer k (allow_replay_pointer k)" "frees_pointer k (act Async_Pointer k)" "frees_pointer k (dragging f k)"
  "frees_pointer k (allow_replay_pointer (dragging f k))" "frees_pointer k (dragging f (allow_replay_pointer k))"
  "frees_pointer k (allow_replay_pointer (on_ck g k))" "frees_pointer k (act a (on_ck g k))"
  by (cases a; simp add: frees_pointer_def)+

lemma floating_steps [simp]:
  "frees_pointer k (resize_floating ev cl f dr k)" "frees_pointer k (drag_floating ev cl f th dr k)"
  by (simp_all add: resize_floating_def drag_floating_def)

lemma click_floating_frees: "frees_pointer k (click_floating ev cl f dr k)"
proof -
  have tried: "frees_pointer k (case r of (resized, k) \<Rightarrow>
      if resized then allow_replay_pointer k else if b1 then resize_floating ev cl f dr k
      else if b2 then resize_floating ev cl f dr k else if b3 then drag_floating ev cl f th dr k
      else allow_replay_pointer k)" if "resizes k r" for r b1 b2 b3 th
  proof (cases r)
    case (Pair resized k')
    then show ?thesis
      using that frees_after_resize [of k resized k'] by (cases resized) auto
  qed
  have "resizes k (if on_edge cl \<and> (is_left cl \<or> is_right cl)
          then tiling_resize ev (cl_con cl) (cl_event cl) (cl_dest cl) th dr k else (False, k))" for th
    by (intro resizes_if tiling_resize_pointer resizes_simps)
  then show ?thesis
    unfolding click_floating_def by (intro frees_pointer_if floating_steps tried)
qed

lemma click_tiling_frees: "frees_pointer k (click_tiling ev cl dr k)"
proof -
  have "frees_pointer k (allow_replay_pointer (snd (tiling_resize ev con e dest th dr k)))" for con e dest th
    using frees_after_resize(4) [of k "fst (tiling_resize ev con e dest th dr k)" "snd (tiling_resize ev con e dest th dr k)"]
      tiling_resize_pointer [of k ev con e dest th dr] by simp
  moreover have "frees_pointer k (case floating_mod_on_tiled_client ev con e dr k of
      (resized, k) \<Rightarrow> if resized then k else act Async_Pointer k)" for con e
    using floating_mod_pointer [of k ev con e dr]
    by (auto split: prod.split simp: frees_pointer_def resizes_def)
  ultimately show ?thesis
    unfolding click_tiling_def by (simp split: option.split bool.split)
qed

lemma click_default_frees: "frees_pointer k (click_default ev cl p ws dr k)"
  using click_floating_frees [of "on_ck (click_focus cl ws) k"] click_tiling_frees [of "on_ck (click_focus cl ws) k"]
  by (auto simp: click_default_def Let_def frees_pointer_cong [of "on_ck (click_focus cl ws) k" k]
      split: option.split bool.split intro: frees_pointerI)

lemma route_click_frees: "frees_pointer k (route_click ev con e dest dr k)"
proof -
  have "frees_pointer k (click_default ev cl p ws dr (on_ck f k))" for cl p ws f
    using click_default_frees [of "on_ck f k" ev cl p ws dr] by (simp add: frees_pointer_cong [of "on_ck f k" k])
  then show ?thesis
    by (auto simp: route_click_def Let_def split: option.split prod.split intro: frees_pointerI)
qed

lemma button_press_frees:
  assumes "bp_window e \<noteq> cv_root ev"
  shows "frees_pointer k (handle_button_press ev e dr k)"
proof -
  have "frees_pointer k (route_click ev con e dest dr (k\<lparr>ck_last_timestamp := t\<rparr>))" for con dest t
    using route_click_frees [of "k\<lparr>ck_last_timestamp := t\<rparr>" ev con e dest dr]
    by (simp add: frees_pointer_cong [of "k\<lparr>ck_last_timestamp := t\<rparr>" k])
  then show ?thesis
    using assms by (auto simp: handle_button_press_def Let_def split: option.split intro: frees_pointerI)
qed

end
