(* ===== verification/Bar_Data.thy ===== *)
theory Bar_Data
  imports Ipc_Dump
begin

text \<open>
  What i3bar reads from i3: \<^verbatim>\<open>i3bar/src/outputs.c\<close>, \<^verbatim>\<open>workspaces.c\<close>, \<^verbatim>\<open>mode.c\<close> and \<^verbatim>\<open>config.c\<close>. Each reader is
  a set of YAJL callbacks; they run over the events of a document (theory \<^verbatim>\<open>Json\<close>). A callback goes on, cancels the
  parser, or dereferences \<open>NULL\<close>. Events without a callback are skipped.
\<close>

datatype 's cb = Go 's | Cancel 's | Crash

primrec run_callbacks :: "(json_event \<Rightarrow> 's \<Rightarrow> 's cb) \<Rightarrow> json_event list \<Rightarrow> 's \<Rightarrow> 's cb" where
  "run_callbacks f [] s = Go s"
| "run_callbacks f (e # es) s = (case f e s of Go t \<Rightarrow> run_callbacks f es t | Cancel t \<Rightarrow> Cancel t | Crash \<Rightarrow> Crash)"

lemma run_callbacks_append [simp]:
  "run_callbacks f (es @ fs) s =
     (case run_callbacks f es s of Go t \<Rightarrow> run_callbacks f fs t | Cancel t \<Rightarrow> Cancel t | Crash \<Rightarrow> Crash)"
  by (induction es arbitrary: s) (auto split: cb.split)

text \<open>A value list whose elements are read one after the other.\<close>

lemma run_callbacks_concat:
  assumes "\<And>x s. x \<in> set xs \<Longrightarrow> P s \<Longrightarrow> run_callbacks f (g x) s = Go (h x s) \<and> P (h x s)" and "P s"
  shows "run_callbacks f (concat (map g xs)) s = Go (fold h xs s) \<and> P (fold h xs s)"
  using assms
proof (induction xs arbitrary: s)
  case (Cons x xs)
  from Cons.prems(1) [of x s] Cons.prems(2) have "run_callbacks f (g x) s = Go (h x s)" "P (h x s)" by simp_all
  with Cons show ?case by simp
qed simp

subsection \<open>Data\<close>

text \<open>An \<open>i3String\<close>: the text, which is taken to be valid UTF-8, and whether it is Pango markup. \<open>text_width\<close> below is \<open>predict_text_width\<close>.\<close>

record i3String =
  is_text :: string
  is_markup :: bool

definition from_markup :: "string \<Rightarrow> i3String" where
  "from_markup str = \<lparr>is_text = str, is_markup = True\<rparr>"

definition from_utf8 :: "string \<Rightarrow> i3String" where
  "from_utf8 str = \<lparr>is_text = str, is_markup = False\<rparr>"

text \<open>The output of a workspace is its name.\<close>

record i3_ws =
  iw_id :: int
  iw_num :: int
  iw_canonical_name :: "string option"
  iw_name :: "i3String option"
  iw_name_width :: int
  iw_visible :: bool
  iw_focused :: bool
  iw_urgent :: bool
  iw_output :: "string option"

record trayclient =
  tc_win :: u32
  tc_mapped :: bool
  tc_xe_version :: int
  tc_class :: "string option"
  tc_instance :: "string option"

record bar_rect =
  br_x :: int
  br_y :: int
  br_w :: int
  br_h :: int

text \<open>\<open>bo_bar\<close>: the window of the bar, 0 if there is none. The workspaces are keys of a store.\<close>

record i3_output =
  bo_name :: "string option"
  bo_active :: bool
  bo_primary :: bool
  bo_visible :: bool
  bo_ws :: int
  bo_rect :: bar_rect
  bo_statusline_width :: int
  bo_bar :: u32
  bo_workspaces :: "nat list"
  bo_trayclients :: "trayclient list"

record binding_t =
  bi_input_code :: int
  bi_command :: "string option"
  bi_release :: bool

text \<open>\<open>POS_NONE\<close> is the position before a configuration has been read. The colors are a map from the names
  of the fields of \<open>xcb_color_strings_t\<close>.\<close>

datatype bar_pos = POS_NONE | POS_TOP | POS_BOT

record config_t =
  ct_modifier :: u32
  ct_bindings :: "binding_t list"
  ct_position :: bar_pos
  ct_verbose :: bool
  ct_bar_height :: u32
  ct_padding :: Rect
  ct_colors :: "string \<Rightarrow> string option"
  ct_disable_binding_mode_indicator :: bool
  ct_disable_ws :: bool
  ct_ws_min_width :: int
  ct_strip_ws_numbers :: bool
  ct_strip_ws_name :: bool
  ct_bar_id :: "string option"
  ct_command :: "string option"
  ct_workspace_command :: "string option"
  ct_fontname :: "string option"
  ct_separator_symbol :: "i3String option"
  ct_tray_outputs :: "string list"
  ct_tray_padding :: int
  ct_outputs :: "string list"
  ct_hide_on_modifier :: bar_mode_t
  ct_hidden_state :: bar_hidden_state_t

text \<open>The cast to an unsigned 64-bit word.\<close>

definition c_u64 :: "int \<Rightarrow> int" where
  "c_u64 v = v mod 2 ^ 64"

subsection \<open>Outputs\<close>

text \<open>\<^const>\<open>None\<close>: an output without a name is dereferenced.\<close>

definition bar_output_by_name :: "string \<Rightarrow> i3_output list \<Rightarrow> i3_output option option" where
  "bar_output_by_name name outs =
     grep_first (\<lambda>w. if caseless_eq name ''primary'' \<and> bo_primary w then Some True
                     else map_option (\<lambda>n. n = name) (bo_name w)) outs"

record outputs_params =
  od_outputs :: "i3_output list"
  od_walk :: "i3_output option"
  od_key :: "string option"
  od_in_rect :: bool

definition new_output :: i3_output where
  "new_output =
     \<lparr>bo_name = None, bo_active = False, bo_primary = False, bo_visible = False, bo_ws = 0,
      bo_rect = \<lparr>br_x = 0, br_y = 0, br_w = 0, br_h = 0\<rparr>, bo_statusline_width = 0, bo_bar = 0,
      bo_workspaces = [], bo_trayclients = []\<rparr>"

text \<open>A value for the current output and key.\<close>

definition put_output :: "(i3_output \<Rightarrow> i3_output) \<Rightarrow> outputs_params \<Rightarrow> outputs_params cb" where
  "put_output f p =
     (case od_walk p of None \<Rightarrow> Crash | Some w \<Rightarrow> Go (p\<lparr>od_walk := Some (f w), od_key := None\<rparr>))"

definition outputs_boolean_cb :: "bool \<Rightarrow> outputs_params \<Rightarrow> outputs_params cb" where
  "outputs_boolean_cb v p =
     (case od_key p of
        None \<Rightarrow> Crash
      | Some key \<Rightarrow>
          if key = ''active'' then put_output (\<lambda>w. w\<lparr>bo_active := v\<rparr>) p
          else if key = ''primary'' then put_output (\<lambda>w. w\<lparr>bo_primary := v\<rparr>) p
          else Cancel p)"

definition outputs_integer_cb :: "int \<Rightarrow> outputs_params \<Rightarrow> outputs_params cb" where
  "outputs_integer_cb v p =
     (case od_key p of
        None \<Rightarrow> Crash
      | Some key \<Rightarrow>
          if key = ''current_workspace'' then put_output (\<lambda>w. w\<lparr>bo_ws := c_int v\<rparr>) p
          else if key = ''x'' then put_output (\<lambda>w. w\<lparr>bo_rect := (bo_rect w)\<lparr>br_x := c_int v\<rparr>\<rparr>) p
          else if key = ''y'' then put_output (\<lambda>w. w\<lparr>bo_rect := (bo_rect w)\<lparr>br_y := c_int v\<rparr>\<rparr>) p
          else if key = ''width'' then put_output (\<lambda>w. w\<lparr>bo_rect := (bo_rect w)\<lparr>br_w := c_int v\<rparr>\<rparr>) p
          else if key = ''height'' then put_output (\<lambda>w. w\<lparr>bo_rect := (bo_rect w)\<lparr>br_h := c_int v\<rparr>\<rparr>) p
          else Cancel p)"

definition outputs_string_cb :: "string \<Rightarrow> outputs_params \<Rightarrow> outputs_params cb" where
  "outputs_string_cb v p =
     (case od_key p of
        None \<Rightarrow> Crash
      | Some key \<Rightarrow>
          if key = ''current_workspace'' then
            (if strtol_end v = [] then
               (case strtoll_10 v of
                  Some (n, False) \<Rightarrow> put_output (\<lambda>w. w\<lparr>bo_ws := c_int n\<rparr>) p
                | Some (n, True) \<Rightarrow> Go (p\<lparr>od_key := None\<rparr>)
                | None \<Rightarrow> put_output (\<lambda>w. w\<lparr>bo_ws := 0\<rparr>) p)
             else Go (p\<lparr>od_key := None\<rparr>))
          else if key \<noteq> ''name'' then Cancel p
          else put_output (\<lambda>w. w\<lparr>bo_name := Some v\<rparr>) p)"

definition outputs_start_map_cb :: "outputs_params \<Rightarrow> outputs_params cb" where
  "outputs_start_map_cb p =
     Go (case od_key p of
           None \<Rightarrow> p\<lparr>od_walk := Some new_output\<rparr>
         | Some key \<Rightarrow> if key = ''rect'' then p\<lparr>od_in_rect := True\<rparr> else p)"

definition handles_output :: "string list \<Rightarrow> bool \<Rightarrow> string \<Rightarrow> bool" where
  "handles_output configured is_primary name \<longleftrightarrow>
     configured = [] \<or>
     list_ex (\<lambda>c. caseless_eq name c \<or> caseless_eq c ''primary'' \<and> is_primary \<or> caseless_eq c ''nonprimary'' \<and> \<not> is_primary)
       configured"

text \<open>The output that has the name already is updated in its place.\<close>

primrec update_output :: "(i3_output \<Rightarrow> bool) \<Rightarrow> (i3_output \<Rightarrow> i3_output) \<Rightarrow> i3_output list \<Rightarrow> i3_output list" where
  "update_output test f [] = []"
| "update_output test f (w # ws) = (if test w then f w # ws else w # update_output test f ws)"

definition add_output :: "i3_output \<Rightarrow> outputs_params \<Rightarrow> outputs_params cb" where
  "add_output w p =
     (case bo_name w of
        None \<Rightarrow> Go (p\<lparr>od_outputs := w # od_outputs p, od_walk := None\<rparr>)
      | Some name \<Rightarrow>
          (case bar_output_by_name name (od_outputs p) of
             None \<Rightarrow> Crash
           | Some None \<Rightarrow> Go (p\<lparr>od_outputs := w # od_outputs p, od_walk := None\<rparr>)
           | Some (Some target) \<Rightarrow>
               Go (p\<lparr>od_outputs := update_output (\<lambda>v. bo_name v = bo_name target)
                        (\<lambda>v. v\<lparr>bo_active := bo_active w, bo_primary := bo_primary w, bo_ws := bo_ws w, bo_rect := bo_rect w\<rparr>)
                        (od_outputs p), od_walk := None\<rparr>)))"

definition outputs_end_map_cb :: "config_t \<Rightarrow> outputs_params \<Rightarrow> outputs_params cb" where
  "outputs_end_map_cb config p =
     (if od_in_rect p then Go (p\<lparr>od_in_rect := False\<rparr>)
      else case od_walk p of
          None \<Rightarrow> Crash
        | Some w \<Rightarrow>
            if ct_outputs config = [] then add_output w p
            else (case bo_name w of
                None \<Rightarrow> Crash
              | Some name \<Rightarrow>
                  if handles_output (ct_outputs config) (bo_primary w) name then add_output w p
                  else Go (p\<lparr>od_walk := None, od_key := None\<rparr>)))"

definition outputs_event :: "config_t \<Rightarrow> json_event \<Rightarrow> outputs_params \<Rightarrow> outputs_params cb" where
  "outputs_event config e p =
     (case e of
        E_Null \<Rightarrow> Go (p\<lparr>od_key := None\<rparr>)
      | E_Bool v \<Rightarrow> outputs_boolean_cb v p
      | E_Int v \<Rightarrow> outputs_integer_cb v p
      | E_String v \<Rightarrow> outputs_string_cb v p
      | E_Key k \<Rightarrow> Go (p\<lparr>od_key := Some k\<rparr>)
      | E_Start_Map \<Rightarrow> outputs_start_map_cb p
      | E_End_Map \<Rightarrow> outputs_end_map_cb config p
      | _ \<Rightarrow> Go p)"

definition outputs_start :: "i3_output list \<Rightarrow> outputs_params" where
  "outputs_start outs = \<lparr>od_outputs = outs, od_walk = None, od_key = None, od_in_rect = False\<rparr>"

subsection \<open>Workspaces\<close>

text \<open>A workspace is reached through its key, also once it is in the list of its output.\<close>

record ws_params =
  wp_outputs :: "i3_output list"
  wp_ws :: "nat \<Rightarrow> i3_ws"
  wp_next :: nat
  wp_walk :: "nat option"
  wp_key :: "string option"
  wp_need_output :: bool
  wp_parsing_rect :: bool

definition new_ws :: i3_ws where
  "new_ws =
     \<lparr>iw_id = 0, iw_num = - 1, iw_canonical_name = None, iw_name = None, iw_name_width = 0, iw_visible = False,
      iw_focused = False, iw_urgent = False, iw_output = None\<rparr>"

definition put_ws :: "(i3_ws \<Rightarrow> i3_ws) \<Rightarrow> ws_params \<Rightarrow> ws_params cb" where
  "put_ws f p =
     (case wp_walk p of
        None \<Rightarrow> Crash
      | Some k \<Rightarrow> Go (p\<lparr>wp_ws := (wp_ws p)(k := f (wp_ws p k)), wp_key := None\<rparr>))"

definition workspaces_boolean_cb :: "bool \<Rightarrow> ws_params \<Rightarrow> ws_params cb" where
  "workspaces_boolean_cb v p =
     (case wp_key p of
        None \<Rightarrow> Crash
      | Some key \<Rightarrow>
          if key = ''visible'' then put_ws (\<lambda>w. w\<lparr>iw_visible := v\<rparr>) p
          else if key = ''focused'' then put_ws (\<lambda>w. w\<lparr>iw_focused := v\<rparr>) p
          else if key = ''urgent'' then put_ws (\<lambda>w. w\<lparr>iw_urgent := v\<rparr>) p
          else Cancel (p\<lparr>wp_key := None\<rparr>))"

definition workspaces_integer_cb :: "int \<Rightarrow> ws_params \<Rightarrow> ws_params cb" where
  "workspaces_integer_cb v p =
     (case wp_key p of
        None \<Rightarrow> Crash
      | Some key \<Rightarrow>
          if key = ''id'' then put_ws (\<lambda>w. w\<lparr>iw_id := c_u64 v\<rparr>) p
          else if key = ''num'' then put_ws (\<lambda>w. w\<lparr>iw_num := c_int v\<rparr>) p
          else if key \<in> {''x'', ''y'', ''width'', ''height''} then Go (p\<lparr>wp_key := None\<rparr>)
          else Cancel (p\<lparr>wp_key := None\<rparr>))"

text \<open>The part of a name that is shown: \<open>offset\<close> is the length of the prefix made of the digits of the
  number, and of the colon after it.\<close>

definition number_offset :: "int \<Rightarrow> string \<Rightarrow> nat" where
  "number_offset n name =
     (let k = length (takeWhile (\<lambda>c. c \<in> set (print_int n)) name)
      in if k \<noteq> 0 \<and> k < length name \<and> name ! k = CHR '':'' then k + 1 else k)"

definition shown_name :: "config_t \<Rightarrow> int \<Rightarrow> string \<Rightarrow> i3String" where
  "shown_name config n name =
     from_markup
       (if (ct_strip_ws_numbers config \<or> ct_strip_ws_name config) \<and> n \<ge> 0 then
          (if ct_strip_ws_numbers config \<and> number_offset n name < length name then drop (number_offset n name) name
           else print_int n)
        else name)"

definition insert_ws :: "nat \<Rightarrow> i3_output \<Rightarrow> i3_output list \<Rightarrow> i3_output list" where
  "insert_ws k target = update_output (\<lambda>v. bo_name v = bo_name target) (\<lambda>v. v\<lparr>bo_workspaces := bo_workspaces v @ [k]\<rparr>)"

definition place_ws :: "nat \<Rightarrow> i3_output \<Rightarrow> ws_params \<Rightarrow> ws_params" where
  "place_ws k target p =
     p\<lparr>wp_ws := (wp_ws p)(k := (wp_ws p k)\<lparr>iw_output := bo_name target\<rparr>),
       wp_outputs := insert_ws k target (wp_outputs p)\<rparr>"

definition workspaces_string_cb :: "config_t \<Rightarrow> (i3String \<Rightarrow> int) \<Rightarrow> string \<Rightarrow> ws_params \<Rightarrow> ws_params cb" where
  "workspaces_string_cb config text_width v p =
     (case wp_key p of
        None \<Rightarrow> Crash
      | Some key \<Rightarrow>
          if key = ''name'' then
            put_ws (\<lambda>w. let name = shown_name config (iw_num w) v
                        in w\<lparr>iw_canonical_name := Some v, iw_name := Some name, iw_name_width := text_width name\<rparr>) p
          else if key = ''output'' then
            (case bar_output_by_name v (wp_outputs p) of
               None \<Rightarrow> Crash
             | Some None \<Rightarrow> Go (p\<lparr>wp_need_output := False, wp_key := None\<rparr>)
             | Some (Some target) \<Rightarrow>
                 (case wp_walk p of
                    None \<Rightarrow> Crash
                  | Some k \<Rightarrow> Go ((place_ws k target p)\<lparr>wp_need_output := False, wp_key := None\<rparr>)))
          else Cancel p)"

definition workspaces_start_map_cb :: "ws_params \<Rightarrow> ws_params cb" where
  "workspaces_start_map_cb p =
     Go (if wp_key p = None
         then p\<lparr>wp_ws := (wp_ws p)(wp_next p := new_ws), wp_walk := Some (wp_next p), wp_next := wp_next p + 1,
                wp_need_output := True, wp_parsing_rect := False\<rparr>
         else p\<lparr>wp_parsing_rect := True\<rparr>)"

text \<open>A workspace whose output is not given goes to the primary output, or to the first one.\<close>

definition default_output :: "i3_output list \<Rightarrow> i3_output option option" where
  "default_output outs =
     (case bar_output_by_name ''primary'' outs of
        None \<Rightarrow> None
      | Some None \<Rightarrow> Some (case outs of [] \<Rightarrow> None | out # _ \<Rightarrow> Some out)
      | Some found \<Rightarrow> Some found)"

definition workspaces_end_map_cb :: "ws_params \<Rightarrow> ws_params cb" where
  "workspaces_end_map_cb p =
     (if wp_parsing_rect p then Go (p\<lparr>wp_parsing_rect := False\<rparr>)
      else case wp_walk p of
          None \<Rightarrow> Go p
        | Some k \<Rightarrow>
            if iw_output (wp_ws p k) \<noteq> None then Go p
            else if \<not> wp_need_output p \<or> iw_name (wp_ws p k) = None \<or> wp_outputs p = [] then Go (p\<lparr>wp_walk := None\<rparr>)
            else (case default_output (wp_outputs p) of
                Some (Some target) \<Rightarrow> Go (place_ws k target p)
              | _ \<Rightarrow> Crash))"

definition workspaces_event :: "config_t \<Rightarrow> (i3String \<Rightarrow> int) \<Rightarrow> json_event \<Rightarrow> ws_params \<Rightarrow> ws_params cb" where
  "workspaces_event config text_width e p =
     (case e of
        E_Bool v \<Rightarrow> workspaces_boolean_cb v p
      | E_Int v \<Rightarrow> workspaces_integer_cb v p
      | E_String v \<Rightarrow> workspaces_string_cb config text_width v p
      | E_Key k \<Rightarrow> Go (p\<lparr>wp_key := Some k\<rparr>)
      | E_Start_Map \<Rightarrow> workspaces_start_map_cb p
      | E_End_Map \<Rightarrow> workspaces_end_map_cb p
      | _ \<Rightarrow> Go p)"

text \<open>\<open>free_workspaces\<close>: the outputs forget their workspaces.\<close>

definition free_workspaces :: "i3_output list \<Rightarrow> i3_output list" where
  "free_workspaces = map (\<lambda>w. w\<lparr>bo_workspaces := []\<rparr>)"

definition ws_start :: "i3_output list \<Rightarrow> (nat \<Rightarrow> i3_ws) \<Rightarrow> nat \<Rightarrow> ws_params" where
  "ws_start outs ws nxt =
     \<lparr>wp_outputs = free_workspaces outs, wp_ws = ws, wp_next = nxt, wp_walk = None, wp_key = None,
      wp_need_output = False, wp_parsing_rect = False\<rparr>"

subsection \<open>The binding mode\<close>

text \<open>The name and the flag are not initialised before they are read.\<close>

record mode_params =
  mp_key :: "string option"
  mp_name :: "string option"
  mp_markup :: "bool option"
  mp_mode :: "(i3String \<times> int) option"

definition mode_event :: "(i3String \<Rightarrow> int) \<Rightarrow> json_event \<Rightarrow> mode_params \<Rightarrow> mode_params cb" where
  "mode_event text_width e p =
     (case e of
        E_String v \<Rightarrow>
          (case mp_key p of
             None \<Rightarrow> Crash
           | Some key \<Rightarrow> if key = ''change'' then Go (p\<lparr>mp_name := Some v, mp_key := None\<rparr>) else Cancel (p\<lparr>mp_key := None\<rparr>))
      | E_Bool v \<Rightarrow>
          (case mp_key p of
             None \<Rightarrow> Crash
           | Some key \<Rightarrow> if key = ''pango_markup'' then Go (p\<lparr>mp_markup := Some v, mp_key := None\<rparr>) else Cancel (p\<lparr>mp_key := None\<rparr>))
      | E_Key k \<Rightarrow> Go (p\<lparr>mp_key := Some k\<rparr>)
      | E_End_Map \<Rightarrow>
          (case (mp_name p, mp_markup p) of
             (Some name, Some markup) \<Rightarrow>
               let text = \<lparr>is_text = name, is_markup = markup\<rparr>
               in Go (p\<lparr>mp_mode := Some (text, text_width text), mp_key := None\<rparr>)
           | _ \<Rightarrow> Crash)
      | _ \<Rightarrow> Go p)"

text \<open>The mode that is shown: the default mode is not. \<^const>\<open>None\<close>: i3bar exits, or reads what it has not
  written.\<close>

definition parse_mode :: "(i3String \<Rightarrow> int) \<Rightarrow> json_event list \<Rightarrow> (i3String \<times> int) option option" where
  "parse_mode text_width es =
     (case run_callbacks (mode_event text_width) es \<lparr>mp_key = None, mp_name = None, mp_markup = None, mp_mode = None\<rparr> of
        Go p \<Rightarrow> (case mp_mode p of
                   None \<Rightarrow> None
                 | Some (name, w) \<Rightarrow> Some (if is_text name = ''default'' then None else Some (name, w)))
      | _ \<Rightarrow> None)"

end
