(* ===== verification/Bar_Config.thy ===== *)
theory Bar_Config
  imports Bar_Data
begin

text \<open>
  The configuration of a bar as i3bar reads it: \<^verbatim>\<open>i3bar/src/config.c\<close>. The document is what \<open>dump_bar_config\<close> of
  theory \<^verbatim>\<open>Ipc_Dump\<close> writes; i3bar exits when it finds a key that it does not know.
\<close>

text \<open>The state of the reader; its four flags and the key are static variables of the file.\<close>

record config_params =
  cp_config :: config_t
  cp_key :: "string option"
  cp_bindings :: bool
  cp_tray_outputs :: bool
  cp_padding :: bool

definition config_map_key_cb :: "string \<Rightarrow> config_params \<Rightarrow> config_params" where
  "config_map_key_cb key p =
     p\<lparr>cp_key := Some key, cp_bindings := (cp_bindings p \<or> key = ''bindings''),
       cp_tray_outputs := (cp_tray_outputs p \<or> key = ''tray_outputs''),
       cp_padding := (cp_padding p \<or> key = ''padding'')\<rparr>"

definition config_end_array_cb :: "config_params \<Rightarrow> config_params" where
  "config_end_array_cb p = p\<lparr>cp_bindings := False, cp_tray_outputs := False, cp_padding := False\<rparr>"

definition set_config :: "(config_t \<Rightarrow> config_t) \<Rightarrow> config_params \<Rightarrow> config_params cb" where
  "set_config f p = Go (p\<lparr>cp_config := f (cp_config p)\<rparr>)"

text \<open>The last binding is the one that the values are for.\<close>

definition on_last_binding :: "(binding_t \<Rightarrow> binding_t) \<Rightarrow> config_params \<Rightarrow> config_params cb" where
  "on_last_binding f p =
     (let bs = ct_bindings (cp_config p)
      in if bs = [] then Cancel p else set_config (\<lambda>c. c\<lparr>ct_bindings := butlast bs @ [f (last bs)]\<rparr>) p)"

definition binding_command :: "string \<Rightarrow> config_params \<Rightarrow> config_params cb" where
  "binding_command v p =
     (let bs = ct_bindings (cp_config p)
      in if bs = [] \<or> bi_command (last bs) \<noteq> None then Cancel p else on_last_binding (\<lambda>b. b\<lparr>bi_command := Some v\<rparr>) p)"

definition add_binding :: "int \<Rightarrow> string option \<Rightarrow> config_params \<Rightarrow> config_params cb" where
  "add_binding code command =
     set_config (\<lambda>c. c\<lparr>ct_bindings := ct_bindings c @ [\<lparr>bi_input_code = code, bi_command = command, bi_release = False\<rparr>]\<rparr>)"

definition modifier_value :: "string \<Rightarrow> u32" where
  "modifier_value v =
     (if v = ''none'' then 0 else if v = ''shift'' then MOD_SHIFT else if v = ''ctrl'' then MOD_CONTROL
      else if v = ''Mod1'' then MOD_1 else if v = ''Mod2'' then MOD_2 else if v = ''Mod3'' then MOD_3
      else if v = ''Mod5'' then MOD_5 else MOD_4)"

text \<open>The keys of the colors, and the fields they are for.\<close>

definition color_fields :: "(string \<times> string) list" where
  "color_fields =
     [(''statusline'', ''bar_fg''), (''background'', ''bar_bg''), (''separator'', ''sep_fg''),
      (''focused_statusline'', ''focus_bar_fg''), (''focused_background'', ''focus_bar_bg''),
      (''focused_separator'', ''focus_sep_fg''), (''focused_workspace_border'', ''focus_ws_border''),
      (''focused_workspace_bg'', ''focus_ws_bg''), (''focused_workspace_text'', ''focus_ws_fg''),
      (''active_workspace_border'', ''active_ws_border''), (''active_workspace_bg'', ''active_ws_bg''),
      (''active_workspace_text'', ''active_ws_fg''), (''inactive_workspace_border'', ''inactive_ws_border''),
      (''inactive_workspace_bg'', ''inactive_ws_bg''), (''inactive_workspace_text'', ''inactive_ws_fg''),
      (''urgent_workspace_border'', ''urgent_ws_border''), (''urgent_workspace_bg'', ''urgent_ws_bg''),
      (''urgent_workspace_text'', ''urgent_ws_fg''), (''binding_mode_border'', ''binding_mode_border''),
      (''binding_mode_bg'', ''binding_mode_bg''), (''binding_mode_text'', ''binding_mode_fg'')]"

definition config_color :: "string \<Rightarrow> string \<Rightarrow> config_params \<Rightarrow> config_params cb" where
  "config_color key v p =
     (case map_of color_fields key of
        None \<Rightarrow> Cancel p
      | Some field \<Rightarrow> set_config (\<lambda>c. c\<lparr>ct_colors := (ct_colors c)(field \<mapsto> v)\<rparr>) p)"

definition config_string_key :: "string \<Rightarrow> string \<Rightarrow> config_params \<Rightarrow> config_params cb" where
  "config_string_key key v p =
     (if key = ''mode'' then
        set_config (\<lambda>c. c\<lparr>ct_hide_on_modifier :=
          (if v = ''dock'' then M_DOCK else if v = ''hide'' then M_HIDE else M_INVISIBLE)\<rparr>) p
      else if key = ''hidden_state'' then set_config (\<lambda>c. c\<lparr>ct_hidden_state := (if v = ''hide'' then S_HIDE else S_SHOW)\<rparr>) p
      else if key = ''modifier'' then set_config (\<lambda>c. c\<lparr>ct_modifier := modifier_value v\<rparr>) p
      else if key = ''wheel_up_cmd'' then add_binding 4 (Some v) p
      else if key = ''wheel_down_cmd'' then add_binding 5 (Some v) p
      else if key = ''position'' then set_config (\<lambda>c. c\<lparr>ct_position := (if v = ''top'' then POS_TOP else POS_BOT)\<rparr>) p
      else if key = ''status_command'' then set_config (\<lambda>c. c\<lparr>ct_command := Some v\<rparr>) p
      else if key = ''workspace_command'' then set_config (\<lambda>c. c\<lparr>ct_workspace_command := Some v\<rparr>) p
      else if key = ''font'' then set_config (\<lambda>c. c\<lparr>ct_fontname := Some v\<rparr>) p
      else if key = ''separator_symbol'' then set_config (\<lambda>c. c\<lparr>ct_separator_symbol := Some (from_utf8 v)\<rparr>) p
      else if key = ''outputs'' then set_config (\<lambda>c. c\<lparr>ct_outputs := ct_outputs c @ [v]\<rparr>) p
      else if key = ''tray_output'' then set_config (\<lambda>c. c\<lparr>ct_tray_outputs := ct_tray_outputs c @ [v]\<rparr>) p
      else config_color key v p)"

definition config_string_cb :: "string \<Rightarrow> config_params \<Rightarrow> config_params cb" where
  "config_string_cb v p =
     (case cp_key p of
        None \<Rightarrow> Crash
      | Some key \<Rightarrow>
          if key = ''id'' \<or> key = ''socket_path'' then Go p
          else if cp_bindings p then (if key = ''command'' then binding_command v p else Cancel p)
          else if cp_tray_outputs p then set_config (\<lambda>c. c\<lparr>ct_tray_outputs := ct_tray_outputs c @ [v]\<rparr>) p
          else config_string_key key v p)"

definition config_boolean_cb :: "bool \<Rightarrow> config_params \<Rightarrow> config_params cb" where
  "config_boolean_cb v p =
     (case cp_key p of
        None \<Rightarrow> Crash
      | Some key \<Rightarrow>
          if cp_bindings p \<and> key = ''release'' then on_last_binding (\<lambda>b. b\<lparr>bi_release := v\<rparr>) p
          else if key = ''binding_mode_indicator'' then set_config (\<lambda>c. c\<lparr>ct_disable_binding_mode_indicator := \<not> v\<rparr>) p
          else if key = ''workspace_buttons'' then set_config (\<lambda>c. c\<lparr>ct_disable_ws := \<not> v\<rparr>) p
          else if key = ''strip_workspace_numbers'' then set_config (\<lambda>c. c\<lparr>ct_strip_ws_numbers := v\<rparr>) p
          else if key = ''strip_workspace_name'' then set_config (\<lambda>c. c\<lparr>ct_strip_ws_name := v\<rparr>) p
          else if key = ''verbose'' then set_config (\<lambda>c. c\<lparr>ct_verbose := (ct_verbose c \<or> v)\<rparr>) p
          else Cancel p)"

definition padding_field :: "string \<Rightarrow> u32 \<Rightarrow> Rect \<Rightarrow> Rect option" where
  "padding_field key v r =
     (if key = ''x'' then Some (r\<lparr>rect_x := v\<rparr>) else if key = ''y'' then Some (r\<lparr>rect_y := v\<rparr>)
      else if key = ''width'' then Some (r\<lparr>rect_width := v\<rparr>) else if key = ''height'' then Some (r\<lparr>rect_height := v\<rparr>)
      else None)"

definition config_integer_cb :: "int \<Rightarrow> config_params \<Rightarrow> config_params cb" where
  "config_integer_cb v p =
     (case cp_key p of
        None \<Rightarrow> Crash
      | Some key \<Rightarrow>
          if cp_bindings p then (if key = ''input_code'' then add_binding (c_int v) None p else Cancel p)
          else case (if cp_padding p then padding_field key (word_of_int v) (ct_padding (cp_config p)) else None) of
              Some r \<Rightarrow> set_config (\<lambda>c. c\<lparr>ct_padding := r\<rparr>) p
            | None \<Rightarrow>
                if key = ''bar_height'' then set_config (\<lambda>c. c\<lparr>ct_bar_height := word_of_int v\<rparr>) p
                else if key = ''tray_padding'' then set_config (\<lambda>c. c\<lparr>ct_tray_padding := c_int v\<rparr>) p
                else if key = ''modifier'' then set_config (\<lambda>c. c\<lparr>ct_modifier := word_of_int v\<rparr>) p
                else if key = ''workspace_min_width'' then set_config (\<lambda>c. c\<lparr>ct_ws_min_width := c_int v\<rparr>) p
                else Cancel p)"

text \<open>A bar that does not exist has the id \<open>null\<close>; i3bar exits, which is the result of a cancelled parser,
  too.\<close>

definition config_null_cb :: "config_params \<Rightarrow> config_params cb" where
  "config_null_cb p = (case cp_key p of None \<Rightarrow> Crash | Some key \<Rightarrow> if key = ''id'' then Cancel p else Go p)"

definition config_event :: "json_event \<Rightarrow> config_params \<Rightarrow> config_params cb" where
  "config_event e p =
     (case e of
        E_Null \<Rightarrow> config_null_cb p
      | E_Int v \<Rightarrow> config_integer_cb v p
      | E_Bool v \<Rightarrow> config_boolean_cb v p
      | E_String v \<Rightarrow> config_string_cb v p
      | E_End_Array \<Rightarrow> Go (config_end_array_cb p)
      | E_Key k \<Rightarrow> Go (config_map_key_cb k p)
      | _ \<Rightarrow> Go p)"

text \<open>\<^const>\<open>None\<close>: i3bar exits.\<close>

definition parse_config_json :: "json_event list \<Rightarrow> config_params \<Rightarrow> config_params option" where
  "parse_config_json es p =
     (case run_callbacks config_event es (p\<lparr>cp_config := (cp_config p)\<lparr>ct_bindings := [], ct_tray_outputs := []\<rparr>\<rparr>) of
        Go p \<Rightarrow>
          Some (p\<lparr>cp_config := (cp_config p)\<lparr>ct_workspace_command :=
                    (if ct_disable_ws (cp_config p) then None else ct_workspace_command (cp_config p))\<rparr>\<rparr>)
      | _ \<Rightarrow> None)"

text \<open>The id of the first bar in the list of all; the parser is stopped at it.\<close>

definition first_bar_id :: "json_event list \<Rightarrow> string option" where
  "first_bar_id es =
     map_option (\<lambda>e. case e of E_String v \<Rightarrow> v | _ \<Rightarrow> [])
       (find (\<lambda>e. case e of E_String v \<Rightarrow> True | _ \<Rightarrow> False) es)"

definition free_colors :: "config_t \<Rightarrow> config_t" where
  "free_colors c = c\<lparr>ct_colors := (\<lambda>field. None)\<rparr>"

subsection \<open>i3bar reads what i3 writes\<close>

text \<open>The configuration that a bar ends up with.\<close>

definition given :: "'a option \<Rightarrow> 'a option \<Rightarrow> 'a option" where
  "given new old = (case new of None \<Rightarrow> old | Some v \<Rightarrow> Some v)"

definition bar_position :: "bar_position_t \<Rightarrow> bar_pos" where
  "bar_position pos = (if pos = P_BOTTOM then POS_BOT else POS_TOP)"

definition bar_bindings :: "Barbinding list \<Rightarrow> binding_t list" where
  "bar_bindings = map (\<lambda>b. \<lparr>bi_input_code = c_int (bb_input_code b), bi_command = Some (bb_command b), bi_release = bb_release b\<rparr>)"

definition bar_colors :: "(string \<Rightarrow> string option) \<Rightarrow> string list \<Rightarrow> (string \<Rightarrow> string option) \<Rightarrow> string \<Rightarrow> string option" where
  "bar_colors new names =
     fold (\<lambda>n m. case new n of None \<Rightarrow> m | Some v \<Rightarrow> m(the (map_of color_fields n) \<mapsto> v)) names"

text \<open>Reading events leaves the flags of the reader off and changes the configuration by a function. The
  last key may be any.\<close>

definition off :: "config_params \<Rightarrow> bool" where
  "off p \<longleftrightarrow> \<not> cp_bindings p \<and> \<not> cp_tray_outputs p"

definition reads :: "json_event list \<Rightarrow> (config_t \<Rightarrow> config_t) \<Rightarrow> bool" where
  "reads es f \<longleftrightarrow>
     (\<forall>p. off p \<longrightarrow> (\<exists>q. run_callbacks config_event es p = Go q \<and> off q \<and> cp_config q = f (cp_config p)))"

lemma readsD: "reads es f \<Longrightarrow> off p \<Longrightarrow> \<exists>q. run_callbacks config_event es p = Go q \<and> off q \<and> cp_config q = f (cp_config p)"
  by (simp add: reads_def)

lemma reads_append: "reads es f \<Longrightarrow> reads fs g \<Longrightarrow> reads (es @ fs) (\<lambda>c. g (f c))"
  by (fastforce simp: reads_def)

definition pair_events :: "string \<times> json \<Rightarrow> json_event list" where
  "pair_events kv = E_Key (fst kv) # events_of (snd kv)"

definition pairs_events :: "(string \<times> json) list \<Rightarrow> json_event list" where
  "pairs_events kvs = concat (map pair_events kvs)"

lemma events_of_map: "events_of (J_Map kvs) = E_Start_Map # pairs_events kvs @ [E_End_Map]"
proof -
  have "concat (map (\<lambda>(k, es). E_Key k # es) (map (map_prod id events_of) kvs)) = pairs_events kvs"
    by (induction kvs) (auto simp: pairs_events_def pair_events_def)
  then show ?thesis by simp
qed

lemma pairs_events_append: "pairs_events (kvs @ kws) = pairs_events kvs @ pairs_events kws"
  by (simp add: pairs_events_def)

lemma pairs_events_Cons: "pairs_events (kv # kvs) = pair_events kv @ pairs_events kvs" "pairs_events [] = []"
  by (simp_all add: pairs_events_def)

lemmas config_reader =
  reads_def off_def config_event_def config_map_key_cb_def config_string_cb_def config_boolean_cb_def
  config_integer_cb_def config_string_key_def set_config_def padding_field_def pair_events_def

lemma reads_id: "reads [] (\<lambda>c. c)"
  by (simp add: reads_def)

lemma reads_if_set:
  assumes "\<And>v. reads [E_Key k, E_String v] (f v)"
  shows "reads (pairs_events (j_if_set k new)) (\<lambda>c. case new of None \<Rightarrow> c | Some v \<Rightarrow> f v c)"
  using assms by (cases new) (simp_all add: j_if_set_def pairs_events_def pair_events_def reads_id)

lemma reads_bindings_list:
  assumes "cp_bindings p" and "\<not> cp_tray_outputs p"
  shows "\<exists>q. run_callbacks config_event
      (concat (map (\<lambda>b. events_of (J_Map [(''input_code'', J_Int (bb_input_code b)), (''command'', J_String (bb_command b)),
         (''release'', J_Bool (bb_release b))])) bs)) p = Go q \<and> cp_bindings q \<and> \<not> cp_tray_outputs q \<and>
      cp_config q = (cp_config p)\<lparr>ct_bindings := ct_bindings (cp_config p) @ bar_bindings bs\<rparr>"
  using assms
proof (induction bs arbitrary: p)
  case Nil
  then show ?case by (simp add: bar_bindings_def)
next
  case (Cons b bs)
  let ?one = "events_of (J_Map [(''input_code'', J_Int (bb_input_code b)), (''command'', J_String (bb_command b)),
    (''release'', J_Bool (bb_release b))])"
  have "\<exists>q. run_callbacks config_event ?one p = Go q \<and> cp_bindings q \<and> \<not> cp_tray_outputs q \<and>
      cp_config q = (cp_config p)\<lparr>ct_bindings := ct_bindings (cp_config p) @ bar_bindings [b]\<rparr>"
    using Cons.prems
    by (simp add: config_reader add_binding_def binding_command_def on_last_binding_def bar_bindings_def)
  then obtain q where q: "run_callbacks config_event ?one p = Go q" "cp_bindings q" "\<not> cp_tray_outputs q"
    "cp_config q = (cp_config p)\<lparr>ct_bindings := ct_bindings (cp_config p) @ bar_bindings [b]\<rparr>"
    by blast
  obtain r where r: "run_callbacks config_event (concat (map (\<lambda>b. events_of (J_Map [(''input_code'', J_Int (bb_input_code b)),
      (''command'', J_String (bb_command b)), (''release'', J_Bool (bb_release b))])) bs)) q = Go r"
    "cp_bindings r" "\<not> cp_tray_outputs r"
    "cp_config r = (cp_config q)\<lparr>ct_bindings := ct_bindings (cp_config q) @ bar_bindings bs\<rparr>"
    using Cons.IH [OF q(2,3)] by blast
  have "cp_config r = (cp_config p)\<lparr>ct_bindings := ct_bindings (cp_config p) @ bar_bindings (b # bs)\<rparr>"
    using q(4) r(4) by (simp add: bar_bindings_def)
  with r(2,3) show ?case
    by (intro exI [of _ r]) (simp only: list.map concat.simps run_callbacks_append q(1) r(1) cb.case simp_thms)
qed

lemma reads_bindings:
  "reads (pairs_events (dump_bar_bindings bc)) (\<lambda>c. c\<lparr>ct_bindings := ct_bindings c @ bar_bindings (bc_bar_bindings bc)\<rparr>)"
proof (cases "bc_bar_bindings bc = []")
  case True
  then show ?thesis by (simp add: dump_bar_bindings_def pairs_events_def reads_def bar_bindings_def)
next
  case False
  have "\<exists>q. run_callbacks config_event (pairs_events (dump_bar_bindings bc)) p = Go q \<and> off q \<and>
      cp_config q = (cp_config p)\<lparr>ct_bindings := ct_bindings (cp_config p) @ bar_bindings (bc_bar_bindings bc)\<rparr>"
    if "off p" for p
  proof -
    have "cp_bindings (config_map_key_cb ''bindings'' p)" "\<not> cp_tray_outputs (config_map_key_cb ''bindings'' p)"
      "cp_config (config_map_key_cb ''bindings'' p) = cp_config p"
      using that by (simp_all add: off_def config_map_key_cb_def)
    from reads_bindings_list [OF this(1,2), of "bc_bar_bindings bc"] this(3) False show ?thesis
      by (auto simp: dump_bar_bindings_def pairs_events_def pair_events_def j_list_def comp_def config_event_def
          config_end_array_cb_def off_def)
  qed
  then show ?thesis by (simp add: reads_def)
qed

lemma reads_strings:
  assumes "\<And>v p. cp_key p = Some k \<Longrightarrow> on p \<Longrightarrow> config_string_cb v p = Go (p\<lparr>cp_config := f v (cp_config p)\<rparr>)"
    and "\<And>p c. on (p\<lparr>cp_config := c\<rparr>) = on p" and "cp_key p = Some k" and "on p"
  shows "run_callbacks config_event (concat (map (\<lambda>v. events_of (J_String v)) vs)) p = Go (p\<lparr>cp_config := fold f vs (cp_config p)\<rparr>)"
  using assms(3,4)
proof (induction vs arbitrary: p)
  case (Cons v vs)
  then have "config_event (E_String v) p = Go (p\<lparr>cp_config := f v (cp_config p)\<rparr>)"
    using assms(1) by (simp add: config_event_def)
  with Cons assms(2) show ?case by simp
qed simp

lemma fold_outputs: "fold (\<lambda>v c. c\<lparr>ct_outputs := ct_outputs c @ [v]\<rparr>) vs c = c\<lparr>ct_outputs := ct_outputs c @ vs\<rparr>"
  by (induction vs arbitrary: c) simp_all

lemma fold_tray_outputs: "fold (\<lambda>v c. c\<lparr>ct_tray_outputs := ct_tray_outputs c @ [v]\<rparr>) vs c = c\<lparr>ct_tray_outputs := ct_tray_outputs c @ vs\<rparr>"
  by (induction vs arbitrary: c) simp_all

lemma reads_outputs:
  "reads (pairs_events (if vs = [] then [] else [(''outputs'', j_list (\<lambda>n. J_String (g n)) vs)]))
     (\<lambda>c. c\<lparr>ct_outputs := ct_outputs c @ map g vs\<rparr>)"
proof -
  have "run_callbacks config_event (concat (map (\<lambda>v. events_of (J_String v)) us)) p =
      Go (p\<lparr>cp_config := (cp_config p)\<lparr>ct_outputs := ct_outputs (cp_config p) @ us\<rparr>\<rparr>)"
    if "cp_key p = Some ''outputs''" and "off p" for us p
    using reads_strings [where on = off and k = "''outputs''" and f = "\<lambda>v c. c\<lparr>ct_outputs := ct_outputs c @ [v]\<rparr>", OF _ _ that]
    by (simp add: fold_outputs config_string_cb_def config_string_key_def set_config_def off_def)
  from this [of _ "map g vs"] show ?thesis
    by (auto simp: reads_def pairs_events_def pair_events_def j_list_def comp_def config_event_def
        config_map_key_cb_def config_end_array_cb_def off_def)
qed

lemma reads_tray_outputs:
  "reads (pairs_events (if vs = [] then [] else [(''tray_outputs'', j_list (\<lambda>n. J_String (g n)) vs)]))
     (\<lambda>c. c\<lparr>ct_tray_outputs := ct_tray_outputs c @ map g vs\<rparr>)"
proof -
  have "run_callbacks config_event (concat (map (\<lambda>v. events_of (J_String v)) us)) p =
      Go (p\<lparr>cp_config := (cp_config p)\<lparr>ct_tray_outputs := ct_tray_outputs (cp_config p) @ us\<rparr>\<rparr>)"
    if "cp_key p = Some ''tray_outputs''" and "\<not> cp_bindings p \<and> cp_tray_outputs p" for us p
    using reads_strings [where on = "\<lambda>p. \<not> cp_bindings p \<and> cp_tray_outputs p" and k = "''tray_outputs''"
      and f = "\<lambda>v c. c\<lparr>ct_tray_outputs := ct_tray_outputs c @ [v]\<rparr>", OF _ _ that]
    by (simp add: fold_tray_outputs config_string_cb_def set_config_def)
  from this [of _ "map g vs"] show ?thesis
    by (auto simp: reads_def pairs_events_def pair_events_def j_list_def comp_def config_event_def
        config_map_key_cb_def config_end_array_cb_def off_def)
qed

lemma bar_color_known: "n \<in> set bar_color_names \<Longrightarrow> \<exists>field. map_of color_fields n = Some field"
  unfolding bar_color_names_def color_fields_def by (simp only: list.set) (elim insertE emptyE; simp)

lemma config_string_key_color:
  assumes "n \<in> set bar_color_names"
  shows "config_string_key n v p = config_color n v p \<and> n \<noteq> ''id'' \<and> n \<noteq> ''socket_path'' \<and> n \<noteq> ''bindings'' \<and>
    n \<noteq> ''tray_outputs''"
  using assms unfolding bar_color_names_def config_string_key_def
  by (simp only: list.set) (elim insertE emptyE; simp)

lemma reads_color:
  assumes "n \<in> set bar_color_names"
  shows "reads (pairs_events (j_if_set n (new n)))
    (\<lambda>c. c\<lparr>ct_colors := bar_colors new [n] (ct_colors c)\<rparr>)"
proof -
  note n = config_string_key_color [OF assms]
  obtain field where field: "map_of color_fields n = Some field" using bar_color_known [OF assms] by blast
  show ?thesis
  proof (cases "new n")
    case None
    then show ?thesis by (simp add: j_if_set_def pairs_events_def reads_def bar_colors_def)
  next
    case (Some v)
    with n field show ?thesis
      by (simp add: j_if_set_def pairs_events_def pair_events_def reads_def off_def config_event_def config_map_key_cb_def
          config_string_cb_def config_color_def set_config_def bar_colors_def)
  qed
qed

lemma bar_colors_Cons: "bar_colors new ns (bar_colors new [n] m) = bar_colors new (n # ns) m"
  by (simp add: bar_colors_def)

lemma reads_colors:
  assumes "set ns \<subseteq> set bar_color_names"
  shows "reads (pairs_events (concat (map (\<lambda>n. j_if_set n (new n)) ns))) (\<lambda>c. c\<lparr>ct_colors := bar_colors new ns (ct_colors c)\<rparr>)"
  using assms
proof (induction ns)
  case Nil
  then show ?case by (simp add: pairs_events_def reads_def bar_colors_def)
next
  case (Cons n ns)
  then have "reads (pairs_events (j_if_set n (new n)) @ pairs_events (concat (map (\<lambda>n. j_if_set n (new n)) ns)))
      (\<lambda>c. (c\<lparr>ct_colors := bar_colors new [n] (ct_colors c)\<rparr>)
         \<lparr>ct_colors := bar_colors new ns (ct_colors (c\<lparr>ct_colors := bar_colors new [n] (ct_colors c)\<rparr>))\<rparr>)"
    by (intro reads_append reads_color) auto
  then show ?case by (simp add: pairs_events_append bar_colors_Cons)
qed

lemma reads_map: "reads es f \<Longrightarrow> g = f \<Longrightarrow> reads (E_Start_Map # es @ [E_End_Map]) g"
  by (fastforce simp: reads_def config_event_def)

lemma reads_key:
  assumes "reads es f" and "k \<noteq> ''bindings''" and "k \<noteq> ''tray_outputs''"
  shows "reads (E_Key k # es) f"
proof -
  have "\<exists>q. run_callbacks config_event (E_Key k # es) p = Go q \<and> off q \<and> cp_config q = f (cp_config p)" if "off p" for p
    using that assms(2,3) readsD [OF assms(1), of "config_map_key_cb k p"]
    by (simp add: config_event_def config_map_key_cb_def off_def)
  then show ?thesis by (simp add: reads_def)
qed

lemma reads_padding: "reads (pair_events (dump_rect ''padding'' r)) (\<lambda>c. c\<lparr>ct_padding := r\<rparr>)"
  by (simp add: config_reader dump_rect_def j_u32_def)

text \<open>Numbers are stored as the words and integers of i3bar; what i3 does not write keeps its value.\<close>

definition read_bar_config :: "wm \<Rightarrow> barconfig \<Rightarrow> config_t \<Rightarrow> config_t" where
  "read_bar_config s bc c =
     c\<lparr>ct_outputs := ct_outputs c @ map (canonicalize_output_name s) (bc_outputs bc),
       ct_tray_outputs := ct_tray_outputs c @ map (canonicalize_output_name s) (bc_tray_outputs bc),
       ct_tray_padding := c_int (bc_tray_padding bc),
       ct_hide_on_modifier := bc_mode bc, ct_hidden_state := bc_hidden_state bc, ct_modifier := bc_modifier bc,
       ct_bindings := ct_bindings c @ bar_bindings (bc_bar_bindings bc),
       ct_position := bar_position (bc_position bc),
       ct_command := given (bc_status_command bc) (ct_command c),
       ct_workspace_command := given (bc_workspace_command bc) (ct_workspace_command c),
       ct_fontname := given (bc_font bc) (ct_fontname c),
       ct_bar_height := (if bc_bar_height bc = 0 then ct_bar_height c else bc_bar_height bc),
       ct_padding := bc_padding bc,
       ct_separator_symbol := given (map_option from_utf8 (bc_separator_symbol bc)) (ct_separator_symbol c),
       ct_disable_ws := bc_hide_workspace_buttons bc,
       ct_ws_min_width := c_int (bc_workspace_min_width bc),
       ct_strip_ws_numbers := bc_strip_workspace_numbers bc,
       ct_strip_ws_name := bc_strip_workspace_name bc,
       ct_disable_binding_mode_indicator := bc_hide_binding_mode_indicator bc,
       ct_verbose := (ct_verbose c \<or> bc_verbose bc),
       ct_colors := bar_colors (bc_colors bc) bar_color_names (ct_colors c)\<rparr>"

lemma reads_first:
  "reads (pair_events (''id'', J_String v)) (\<lambda>c. c)"
  "reads (pair_events (''tray_padding'', J_Int i)) (\<lambda>c. c\<lparr>ct_tray_padding := c_int i\<rparr>)"
  "reads (pairs_events (j_if_set ''socket_path'' path)) (\<lambda>c. c)"
  "reads (pair_events (''mode'', J_String (case m of M_HIDE \<Rightarrow> ''hide'' | M_INVISIBLE \<Rightarrow> ''invisible'' | M_DOCK \<Rightarrow> ''dock'')))
     (\<lambda>c. c\<lparr>ct_hide_on_modifier := m\<rparr>)"
  "reads (pair_events (''hidden_state'', J_String (case h of S_SHOW \<Rightarrow> ''show'' | S_HIDE \<Rightarrow> ''hide''))) (\<lambda>c. c\<lparr>ct_hidden_state := h\<rparr>)"
  "reads (pair_events (''modifier'', j_u32 w)) (\<lambda>c. c\<lparr>ct_modifier := w\<rparr>)"
  by (auto simp: config_reader j_u32_def j_if_set_def pairs_events_def split: option.split bar_mode_t.split bar_hidden_state_t.split)

lemma reads_middle:
  "reads (pair_events (''position'', J_String (if pos = P_BOTTOM then ''bottom'' else ''top''))) (\<lambda>c. c\<lparr>ct_position := bar_position pos\<rparr>)"
  "reads (pairs_events (j_if_set ''status_command'' new)) (\<lambda>c. c\<lparr>ct_command := given new (ct_command c)\<rparr>)"
  "reads (pairs_events (j_if_set ''workspace_command'' new)) (\<lambda>c. c\<lparr>ct_workspace_command := given new (ct_workspace_command c)\<rparr>)"
  "reads (pairs_events (j_if_set ''font'' new)) (\<lambda>c. c\<lparr>ct_fontname := given new (ct_fontname c)\<rparr>)"
  "reads (pairs_events (if w = 0 then [] else [(''bar_height'', j_u32 w)]))
     (\<lambda>c. c\<lparr>ct_bar_height := (if w = 0 then ct_bar_height c else w)\<rparr>)"
  "reads (pairs_events (j_if_set ''separator_symbol'' new))
     (\<lambda>c. c\<lparr>ct_separator_symbol := given (map_option from_utf8 new) (ct_separator_symbol c)\<rparr>)"
  by (auto simp: config_reader j_u32_def j_if_set_def pairs_events_def bar_position_def given_def split: option.split)

lemma reads_flags:
  "reads (pair_events (''workspace_buttons'', J_Bool b)) (\<lambda>c. c\<lparr>ct_disable_ws := \<not> b\<rparr>)"
  "reads (pair_events (''workspace_min_width'', J_Int i)) (\<lambda>c. c\<lparr>ct_ws_min_width := c_int i\<rparr>)"
  "reads (pair_events (''strip_workspace_numbers'', J_Bool b)) (\<lambda>c. c\<lparr>ct_strip_ws_numbers := b\<rparr>)"
  "reads (pair_events (''strip_workspace_name'', J_Bool b)) (\<lambda>c. c\<lparr>ct_strip_ws_name := b\<rparr>)"
  "reads (pair_events (''binding_mode_indicator'', J_Bool b)) (\<lambda>c. c\<lparr>ct_disable_binding_mode_indicator := \<not> b\<rparr>)"
  "reads (pair_events (''verbose'', J_Bool b)) (\<lambda>c. c\<lparr>ct_verbose := (ct_verbose c \<or> b)\<rparr>)"
  by (simp_all add: config_reader)

lemma reads_colors_map:
  "reads (pair_events (''colors'', J_Map (concat (map (\<lambda>n. j_if_set n (new n)) bar_color_names))))
     (\<lambda>c. c\<lparr>ct_colors := bar_colors new bar_color_names (ct_colors c)\<rparr>)"
  unfolding pair_events_def fst_conv snd_conv events_of_map
  by (rule reads_key, rule reads_map [OF _ refl], rule reads_colors [OF subset_refl]) simp_all

lemma reads_dump: "reads (events_of (dump_bar_config s bc)) (read_bar_config s bc)"
proof -
  note parts = reads_first reads_outputs reads_tray_outputs reads_bindings reads_middle reads_padding reads_flags reads_colors_map
  show ?thesis
    unfolding dump_bar_config_def events_of_map
    apply (rule reads_map)
     apply (unfold pairs_events_append pairs_events_Cons append_Nil2 append_assoc)
     apply ((rule reads_append, rule parts)+)[1]
     apply (rule parts)
    apply (simp add: read_bar_config_def fun_eq_iff)
    done
qed

end
