(* ===== verification/Bar_Workspaces.thy ===== *)
theory Bar_Workspaces
  imports Bar_Config
begin

text \<open>
  i3bar shows the workspaces of i3: the reply \<open>get_workspaces\<close> of theory \<^verbatim>\<open>Ipc_Dump\<close>, read by the callbacks of
  theory \<^verbatim>\<open>Bar_Data\<close>.
\<close>

text \<open>The entry of one workspace, as i3 writes it.\<close>

definition ws_json :: "i3_ws \<Rightarrow> string \<Rightarrow> string \<Rightarrow> Rect \<Rightarrow> json" where
  "ws_json d name out r =
     J_Map [(''id'', J_Int (iw_id d)), (''num'', J_Int (iw_num d)), (''name'', J_String name),
            (''visible'', J_Bool (iw_visible d)), (''focused'', J_Bool (iw_focused d)), (''rect'', plain_rect r),
            (''output'', J_String out), (''urgent'', J_Bool (iw_urgent d))]"

text \<open>What i3bar keeps of it.\<close>

definition read_ws :: "config_t \<Rightarrow> (i3String \<Rightarrow> int) \<Rightarrow> i3_ws \<Rightarrow> string \<Rightarrow> string \<Rightarrow> i3_ws" where
  "read_ws config text_width d name out =
     (let shown = shown_name config (c_int (iw_num d)) name
      in \<lparr>iw_id = c_u64 (iw_id d), iw_num = c_int (iw_num d), iw_canonical_name = Some name, iw_name = Some shown,
          iw_name_width = text_width shown, iw_visible = iw_visible d, iw_focused = iw_focused d,
          iw_urgent = iw_urgent d, iw_output = Some out\<rparr>)"

text \<open>Between two workspaces the reader has no key and is not in a rectangle.\<close>

definition ws_idle :: "ws_params \<Rightarrow> bool" where
  "ws_idle p \<longleftrightarrow> wp_key p = None \<and> \<not> wp_parsing_rect p"

definition after_ws :: "config_t \<Rightarrow> (i3String \<Rightarrow> int) \<Rightarrow> i3_ws \<Rightarrow> string \<Rightarrow> i3_output \<Rightarrow> string \<Rightarrow> ws_params \<Rightarrow> ws_params" where
  "after_ws config text_width d name target out p =
     p\<lparr>wp_ws := (wp_ws p)(wp_next p := read_ws config text_width d name out), wp_walk := Some (wp_next p),
       wp_next := wp_next p + 1, wp_need_output := False,
       wp_outputs := insert_ws (wp_next p) target (wp_outputs p)\<rparr>"

lemmas ws_reader =
  workspaces_event_def workspaces_boolean_cb_def workspaces_integer_cb_def workspaces_string_cb_def
  workspaces_start_map_cb_def workspaces_end_map_cb_def put_ws_def place_ws_def new_ws_def

lemma read_one_ws:
  assumes "ws_idle p" and "bar_output_by_name out (wp_outputs p) = Some (Some target)" and "bo_name target = Some out"
  shows "run_callbacks (workspaces_event config text_width) (events_of (ws_json d name out r)) p =
      Go (after_ws config text_width d name target out p)"
  using assms
  by (simp add: ws_json_def plain_rect_def j_u32_def ws_reader ws_idle_def after_ws_def read_ws_def Let_def)

subsection \<open>The list of all workspaces\<close>

text \<open>Every output has a name of its own, and \<open>out\<close> is one of them that is not mistaken for the primary output.\<close>

definition names_ok :: "i3_output list \<Rightarrow> bool" where
  "names_ok outs \<longleftrightarrow> None \<notin> set (map bo_name outs) \<and> distinct (map bo_name outs)"

definition managed :: "i3_output list \<Rightarrow> string \<Rightarrow> bool" where
  "managed outs out \<longleftrightarrow> Some out \<in> set (map bo_name outs) \<and> \<not> caseless_eq out ''primary''"

lemma grep_first_name:
  assumes "None \<notin> set (map bo_name outs)" and "Some out \<in> set (map bo_name outs)"
  shows "\<exists>target. grep_first (\<lambda>w. map_option (\<lambda>n. n = out) (bo_name w)) outs = Some (Some target) \<and> bo_name target = Some out"
  using assms by (induction outs) (auto split: option.split)

lemma managed_found:
  assumes "names_ok outs" and "managed outs out"
  shows "\<exists>target. bar_output_by_name out outs = Some (Some target) \<and> bo_name target = Some out"
  using assms grep_first_name [of outs out] by (simp add: bar_output_by_name_def names_ok_def managed_def)

lemma insert_ws_names: "map bo_name (insert_ws k target outs) = map bo_name outs"
  unfolding insert_ws_def by (induction outs) auto

text \<open>The workspaces that i3bar shows for an output.\<close>

definition shown :: "ws_params \<Rightarrow> string \<Rightarrow> i3_ws list" where
  "shown p n = concat (map (\<lambda>w. if bo_name w = Some n then map (wp_ws p) (bo_workspaces w) else []) (wp_outputs p))"

definition fresh_keys :: "ws_params \<Rightarrow> bool" where
  "fresh_keys p \<longleftrightarrow> (\<forall>w \<in> set (wp_outputs p). \<forall>k \<in> set (bo_workspaces w). k < wp_next p)"

definition ready :: "ws_params \<Rightarrow> bool" where
  "ready p \<longleftrightarrow> ws_idle p \<and> names_ok (wp_outputs p) \<and> fresh_keys p"

lemma shown_list:
  assumes "distinct (map bo_name outs)" and "Some out \<in> set (map bo_name outs)" and "bo_name target = Some out"
    and "\<forall>w \<in> set outs. \<forall>j \<in> set (bo_workspaces w). j < k"
  shows "concat (map (\<lambda>w. if bo_name w = Some n then map (st(k := v)) (bo_workspaces w) else []) (insert_ws k target outs)) =
    concat (map (\<lambda>w. if bo_name w = Some n then map st (bo_workspaces w) else []) outs) @ (if n = out then [v] else [])"
  using assms
proof (induction outs)
  case (Cons w outs)
  have same: "map (st(k := v)) (bo_workspaces x) = map st (bo_workspaces x)" if "x \<in> set (w # outs)" for x
    using that Cons.prems(4) by auto
  have rest: "concat (map (\<lambda>w. if bo_name w = Some n then map (st(k := v)) (bo_workspaces w) else []) outs) =
      concat (map (\<lambda>w. if bo_name w = Some n then map st (bo_workspaces w) else []) outs)"
    by (intro arg_cong [where f = concat] map_cong if_cong refl same list.set_intros(2))
  show ?case
  proof (cases "bo_name w = Some out")
    case True
    with Cons.prems(1) have "\<forall>x \<in> set outs. bo_name x \<noteq> Some out" by (force simp: image_iff)
    then have none: "concat (map (\<lambda>w. if bo_name w = Some out then map st (bo_workspaces w) else []) outs) = []"
      by (induction outs) auto
    show ?thesis
    proof (cases "n = out")
      case True
      have "concat (map (\<lambda>w. if bo_name w = Some out then map (st(k := v)) (bo_workspaces w) else []) outs) = []"
        using rest [unfolded True] none by (rule trans)
      with True \<open>bo_name w = Some out\<close> Cons.prems(3) none same [of w] show ?thesis
        by (simp add: insert_ws_def del: concat_eq_Nil_conv)
    next
      case False
      with \<open>bo_name w = Some out\<close> Cons.prems(3) rest show ?thesis by (simp add: insert_ws_def)
    qed
  next
    case False
    with Cons.prems have "Some out \<in> set (map bo_name outs)" by auto
    with Cons False same [of w] show ?thesis by (simp add: insert_ws_def)
  qed
qed simp

lemma insert_ws_keys:
  "w \<in> set (insert_ws k target outs) \<Longrightarrow> \<exists>v \<in> set outs. set (bo_workspaces w) \<subseteq> insert k (set (bo_workspaces v))"
  unfolding insert_ws_def by (induction outs) (auto split: if_splits)

lemma read_ready:
  assumes "ready p" and "managed (wp_outputs p) out"
  shows "\<exists>q. run_callbacks (workspaces_event config text_width) (events_of (ws_json d name out r)) p = Go q \<and> ready q \<and>
    map bo_name (wp_outputs q) = map bo_name (wp_outputs p) \<and>
    (\<forall>n. shown q n = shown p n @ (if n = out then [read_ws config text_width d name out] else []))"
proof -
  obtain target where target: "bar_output_by_name out (wp_outputs p) = Some (Some target)" "bo_name target = Some out"
    using assms managed_found by (auto simp: ready_def)
  let ?q = "after_ws config text_width d name target out p"
  have "fresh_keys ?q"
    using assms(1) insert_ws_keys [where k = "wp_next p" and outs = "wp_outputs p" and target = target]
    by (fastforce simp: ready_def fresh_keys_def after_ws_def)
  then have "ready ?q"
    using assms(1) by (simp add: ready_def ws_idle_def names_ok_def after_ws_def insert_ws_names)
  moreover have "shown ?q n = shown p n @ (if n = out then [read_ws config text_width d name out] else [])" for n
  proof -
    have "distinct (map bo_name (wp_outputs p))" "Some out \<in> set (map bo_name (wp_outputs p))"
      "\<forall>w \<in> set (wp_outputs p). \<forall>j \<in> set (bo_workspaces w). j < wp_next p"
      using assms by (auto simp: ready_def names_ok_def managed_def fresh_keys_def)
    from shown_list [OF this(1,2) target(2) this(3), where n = n and st = "wp_ws p" and v = "read_ws config text_width d name out"]
    show ?thesis unfolding shown_def after_ws_def by (simp del: fun_upd_apply cong: if_cong split del: if_split)
  qed
  ultimately show ?thesis
    using read_one_ws [OF _ target] assms(1) by (simp add: ready_def after_ws_def insert_ws_names)
qed

text \<open>A list of entries: the data, the name, the output and the rectangle.\<close>

record ws_entry =
  en_data :: i3_ws
  en_name :: string
  en_output :: string
  en_rect :: Rect

definition entry_json :: "ws_entry \<Rightarrow> json" where
  "entry_json e = ws_json (en_data e) (en_name e) (en_output e) (en_rect e)"

definition read_entry :: "config_t \<Rightarrow> (i3String \<Rightarrow> int) \<Rightarrow> ws_entry \<Rightarrow> i3_ws" where
  "read_entry config text_width e = read_ws config text_width (en_data e) (en_name e) (en_output e)"

lemma read_entries:
  assumes "ready p" and "\<forall>e \<in> set es. managed (wp_outputs p) (en_output e)"
  shows "\<exists>q. run_callbacks (workspaces_event config text_width) (concat (map (\<lambda>e. events_of (entry_json e)) es)) p = Go q \<and>
    ready q \<and> (\<forall>n. shown q n = shown p n @ map (read_entry config text_width) (filter (\<lambda>e. en_output e = n) es))"
  using assms
proof (induction es arbitrary: p)
  case (Cons e es)
  have "managed (wp_outputs p) (en_output e)" using Cons.prems(2) by simp
  from read_ready [OF Cons.prems(1) this, of config text_width "en_data e" "en_name e" "en_rect e"]
  obtain q where q: "run_callbacks (workspaces_event config text_width) (events_of (entry_json e)) p = Go q" "ready q"
    "map bo_name (wp_outputs q) = map bo_name (wp_outputs p)"
    "\<forall>n. shown q n = shown p n @ (if n = en_output e then [read_entry config text_width e] else [])"
    unfolding entry_json_def read_entry_def by blast
  have "\<forall>e \<in> set es. managed (wp_outputs q) (en_output e)"
    using Cons.prems(2) q(3) by (simp add: managed_def)
  from Cons.IH [OF q(2) this] q(4) show ?case
    by (auto simp: q(1) split del: if_split) (auto split: if_splits)
qed simp

lemma ws_start_ready:
  "names_ok outs \<Longrightarrow> ready (ws_start outs ws nxt)"
  "shown (ws_start outs ws nxt) n = []" "map bo_name (wp_outputs (ws_start outs ws nxt)) = map bo_name outs"
  by (auto simp: ready_def ws_idle_def ws_start_def free_workspaces_def names_ok_def fresh_keys_def shown_def comp_def)

subsection \<open>The reply of i3\<close>

text \<open>The entries of \<open>get_workspaces\<close>, output by output and in the order of the workspaces.\<close>

definition workspace_entry :: "wm \<Rightarrow> con_id \<Rightarrow> con_id \<Rightarrow> ws_entry" where
  "workspace_entry s out ws =
     \<lparr>en_data = \<lparr>iw_id = int ws, iw_num = num (store s ws), iw_canonical_name = None, iw_name = None,
                 iw_name_width = 0, iw_visible = (workspace_is_visible s ws = Some True),
                 iw_focused = (Option.bind (focused s) (con_get_workspace s) = Some ws),
                 iw_urgent = urgent (store s ws), iw_output = None\<rparr>,
      en_name = cname (store s ws), en_output = cname (store s out), en_rect = rect (store s ws)\<rparr>"

definition output_entries :: "wm \<Rightarrow> con_id \<Rightarrow> ws_entry list" where
  "output_entries s out =
     (case output_get_content s out of None \<Rightarrow> [] | Some content \<Rightarrow> map (workspace_entry s out) (nodes s content))"

definition shown_outputs :: "wm \<Rightarrow> con_id list" where
  "shown_outputs s = filter (\<lambda>out. \<not> con_is_internal s out) (nodes s (croot s))"

definition workspace_entries :: "wm \<Rightarrow> ws_entry list" where
  "workspace_entries s = concat (map (output_entries s) (shown_outputs s))"

lemma those_map_Some:
  "those (map f xs) = Some ys \<Longrightarrow> (\<And>x y. x \<in> set xs \<Longrightarrow> f x = Some y \<Longrightarrow> y = g x) \<Longrightarrow> ys = map g xs"
  by (induction xs arbitrary: ys) (auto split: option.splits)

lemma workspace_reply_entry:
  "workspace_reply s out ws = Some j \<Longrightarrow> j = entry_json (workspace_entry s out ws)"
  by (auto simp: workspace_reply_def entry_json_def ws_json_def workspace_entry_def split: if_splits)

lemma get_workspaces_entries:
  assumes "get_workspaces s = Some j"
  shows "j = J_Array (map entry_json (workspace_entries s))"
proof -
  let ?f = "\<lambda>out. Option.bind (output_get_content s out) (\<lambda>content. those (map (workspace_reply s out) (nodes s content)))"
  have "y = map entry_json (output_entries s out)" if f: "?f out = Some y" for out y
  proof -
    from f obtain content where c: "output_get_content s out = Some content"
      "those (map (workspace_reply s out) (nodes s content)) = Some y"
      by (auto simp: bind_eq_Some_conv)
    from those_map_Some [OF c(2) workspace_reply_entry] show ?thesis
      by (simp add: output_entries_def c(1))
  qed
  from those_map_Some [where f = ?f and g = "\<lambda>out. map entry_json (output_entries s out)", OF _ this] assms
  show ?thesis by (auto simp: get_workspaces_def workspace_entries_def shown_outputs_def map_concat comp_def)
qed

lemma workspace_entries_output:
  "e \<in> set (workspace_entries s) \<Longrightarrow> \<exists>out \<in> set (shown_outputs s). en_output e = cname (store s out)"
  by (auto simp: workspace_entries_def output_entries_def workspace_entry_def split: option.splits)

lemma read_workspaces:
  assumes "get_workspaces s = Some j" and "names_ok outs"
    and "\<forall>out \<in> set (shown_outputs s). managed outs (cname (store s out))"
  shows "\<exists>q. run_callbacks (workspaces_event config text_width) (events_of j) (ws_start outs ws nxt) = Go q \<and>
    (\<forall>n. shown q n = map (read_entry config text_width) (filter (\<lambda>e. en_output e = n) (workspace_entries s)))"
proof -
  have "\<forall>e \<in> set (workspace_entries s). managed (wp_outputs (ws_start outs ws nxt)) (en_output e)"
    using workspace_entries_output assms(3) by (fastforce simp: managed_def ws_start_ready(3))
  from read_entries [OF ws_start_ready(1) [OF assms(2)] this, of config text_width] obtain q where
    q: "run_callbacks (workspaces_event config text_width) (concat (map (\<lambda>e. events_of (entry_json e)) (workspace_entries s)))
          (ws_start outs ws nxt) = Go q"
    "\<forall>n. shown q n = map (read_entry config text_width) (filter (\<lambda>e. en_output e = n) (workspace_entries s))"
    by (auto simp: ws_start_ready(2))
  moreover have "events_of j = E_Start_Array # concat (map (\<lambda>e. events_of (entry_json e)) (workspace_entries s)) @ [E_End_Array]"
    by (simp add: get_workspaces_entries [OF assms(1)] comp_def)
  ultimately show ?thesis
    by (simp add: workspaces_event_def)
qed

end
