(* ===== verification/Bar_Child.thy ===== *)
theory Bar_Child
  imports Bar_Data
begin

text \<open>
  The child processes of i3bar (\<^verbatim>\<open>i3bar/src/child.c\<close>, \<^verbatim>\<open>i3bar/src/parse_json_header.c\<close>): what is read from
  the status command and the workspace command, the status line they fill, the events that are written
  back and the signals that stop and continue them. The parser \<open>yajl\<close> is a parameter: the tokens of a
  text, and whether it was accepted.
\<close>

record i3bar_child =
  cc_pid :: int
  cc_version :: u32
  cc_stopped :: bool
  cc_stop_signal :: int
  cc_cont_signal :: int
  cc_click_events :: bool
  cc_click_events_init :: bool
  cc_watched :: bool
  cc_pending_line :: "string option"

definition no_child :: i3bar_child where
  "no_child =
     \<lparr>cc_pid = 0, cc_version = 0, cc_stopped = False, cc_stop_signal = 0, cc_cont_signal = 0, cc_click_events = False,
      cc_click_events_init = False, cc_watched = False, cc_pending_line = None\<rparr>"

definition SIGTERM :: int where "SIGTERM = 15"
definition SIGCONT :: int where "SIGCONT = 18"
definition SIGSTOP :: int where "SIGSTOP = 19"

subsection \<open>The header of the protocol\<close>

datatype header_key = KEY_VERSION | KEY_STOP_SIGNAL | KEY_CONT_SIGNAL | KEY_CLICK_EVENTS | NO_KEY

definition header_integer :: "header_key \<Rightarrow> int \<Rightarrow> i3bar_child \<Rightarrow> i3bar_child" where
  "header_integer key v c =
     (case key of
        KEY_VERSION \<Rightarrow> c\<lparr>cc_version := word_of_int v\<rparr>
      | KEY_STOP_SIGNAL \<Rightarrow> c\<lparr>cc_stop_signal := c_int v\<rparr>
      | KEY_CONT_SIGNAL \<Rightarrow> c\<lparr>cc_cont_signal := c_int v\<rparr>
      | _ \<Rightarrow> c)"

definition header_boolean :: "header_key \<Rightarrow> bool \<Rightarrow> i3bar_child \<Rightarrow> i3bar_child" where
  "header_boolean key v c = (if key = KEY_CLICK_EVENTS then c\<lparr>cc_click_events := v\<rparr> else c)"

text \<open>Keys are compared without their case; one that is not known leaves the last one.\<close>

definition header_map_key :: "string \<Rightarrow> header_key \<Rightarrow> header_key" where
  "header_map_key v key =
     (if caseless_eq v ''version'' then KEY_VERSION else if caseless_eq v ''stop_signal'' then KEY_STOP_SIGNAL
      else if caseless_eq v ''cont_signal'' then KEY_CONT_SIGNAL else if caseless_eq v ''click_events'' then KEY_CLICK_EVENTS else key)"

definition child_init :: "i3bar_child \<Rightarrow> i3bar_child" where
  "child_init c = c\<lparr>cc_version := 0, cc_stop_signal := SIGSTOP, cc_cont_signal := SIGCONT\<rparr>"

definition header_event :: "json_event \<Rightarrow> header_key \<times> i3bar_child \<Rightarrow> header_key \<times> i3bar_child" where
  "header_event e kc =
     (case e of
        E_Int v \<Rightarrow> (fst kc, header_integer (fst kc) v (snd kc))
      | E_Bool v \<Rightarrow> (fst kc, header_boolean (fst kc) v (snd kc))
      | E_Key k \<Rightarrow> (header_map_key k (fst kc), snd kc)
      | _ \<Rightarrow> kc)"

text \<open>The tokens of the header, whether it was accepted, and its length. The result: the child and how much
  was consumed.\<close>

definition parse_json_header :: "json_event list \<Rightarrow> bool \<Rightarrow> nat \<Rightarrow> i3bar_child \<Rightarrow> i3bar_child \<times> nat" where
  "parse_json_header es ok consumed c =
     (let c = snd (fold header_event es (NO_KEY, child_init c))
      in if ok then (c, consumed) else (child_init c, 0))"

subsection \<open>The status line\<close>

datatype blockalign_t = BLOCK_ALIGN_LEFT | BLOCK_ALIGN_CENTER | BLOCK_ALIGN_RIGHT

record render_desc =
  rd_width :: u32
  rd_x_offset :: u32
  rd_x_append :: u32

text \<open>\<open>sb_res\<close>: which strings the block points to; a copy of a block shares them.\<close>

record status_block =
  sb_full_text :: "i3String option"
  sb_short_text :: "i3String option"
  sb_use_short :: bool
  sb_render_length :: u32
  sb_color :: "string option"
  sb_background :: "string option"
  sb_border :: "string option"
  sb_min_width :: u32
  sb_min_width_str :: "string option"
  sb_align :: blockalign_t
  sb_urgent :: bool
  sb_no_separator :: bool
  sb_border_top :: u32
  sb_border_right :: u32
  sb_border_bottom :: u32
  sb_border_left :: u32
  sb_pango_markup :: bool
  sb_sep_block_width :: u32
  sb_full_render :: render_desc
  sb_short_render :: render_desc
  sb_name :: "string option"
  sb_instance :: "string option"
  sb_res :: nat

definition zero_desc :: render_desc where
  "zero_desc = \<lparr>rd_width = 0, rd_x_offset = 0, rd_x_append = 0\<rparr>"

definition zero_block :: status_block where
  "zero_block =
     \<lparr>sb_full_text = None, sb_short_text = None, sb_use_short = False, sb_render_length = 0, sb_color = None,
      sb_background = None, sb_border = None, sb_min_width = 0, sb_min_width_str = None, sb_align = BLOCK_ALIGN_LEFT,
      sb_urgent = False, sb_no_separator = False, sb_border_top = 0, sb_border_right = 0, sb_border_bottom = 0,
      sb_border_left = 0, sb_pango_markup = False, sb_sep_block_width = 0, sb_full_render = zero_desc,
      sb_short_render = zero_desc, sb_name = None, sb_instance = None, sb_res = 0\<rparr>"

text \<open>\<open>parser_ctx\<close>, the two lists of blocks, and the memory: which strings were freed. Freeing strings a
  second time is an error.\<close>

record status_lines =
  sl_has_urgent :: bool
  sl_last_map_key :: "string option"
  sl_block :: status_block
  sl_head :: "status_block list"
  sl_buffer :: "status_block list"
  sl_next_res :: nat
  sl_freed :: "nat list"
  sl_crashed :: bool

record bar_env =
  be_dpi :: real
  be_text_width :: "i3String \<Rightarrow> int"
  be_separator_symbol_width :: int
  be_header :: "string \<Rightarrow> json_event list \<times> bool \<times> nat"
  be_feed :: "string \<Rightarrow> string \<Rightarrow> json_event list \<times> string option"
  be_json :: "string \<Rightarrow> json_event list \<times> bool"
  be_cancel_message :: string
  be_write_ok :: "json option \<Rightarrow> bool"

definition clear_head :: "status_lines \<Rightarrow> status_lines" where
  "clear_head sl =
     (let res = map sb_res (sl_head sl)
      in sl\<lparr>sl_head := [], sl_freed := sl_freed sl @ res,
            sl_crashed := (sl_crashed sl \<or> \<not> distinct res \<or> set res \<inter> set (sl_freed sl) \<noteq> {})\<rparr>)"

definition clear_buffer :: "status_lines \<Rightarrow> status_lines" where
  "clear_buffer sl = sl\<lparr>sl_buffer := []\<rparr>"

definition stdin_start_map :: "bar_env \<Rightarrow> config_t \<Rightarrow> status_block" where
  "stdin_start_map env config =
     zero_block\<lparr>
       sb_sep_block_width := word_of_int (if ct_separator_symbol config = None then logical_px (be_dpi env) 9
         else logical_px (be_dpi env) 8 + be_separator_symbol_width env),
       sb_border_top := 1, sb_border_right := 1, sb_border_bottom := 1, sb_border_left := 1\<rparr>"

definition on_block :: "(string \<Rightarrow> status_block \<Rightarrow> status_block) \<Rightarrow> status_lines \<Rightarrow> status_lines cb" where
  "on_block f sl =
     (case sl_last_map_key sl of None \<Rightarrow> Cancel sl | Some key \<Rightarrow> Go (sl\<lparr>sl_block := f key (sl_block sl)\<rparr>))"

definition stdin_boolean :: "bool \<Rightarrow> string \<Rightarrow> status_block \<Rightarrow> status_block" where
  "stdin_boolean v key b =
     (if caseless_eq key ''urgent'' then b\<lparr>sb_urgent := v\<rparr>
      else if caseless_eq key ''separator'' then b\<lparr>sb_no_separator := \<not> v\<rparr>
      else b)"

definition block_align :: "string \<Rightarrow> blockalign_t" where
  "block_align v = (if v = ''center'' then BLOCK_ALIGN_CENTER else if v = ''right'' then BLOCK_ALIGN_RIGHT else BLOCK_ALIGN_LEFT)"

definition stdin_string :: "string \<Rightarrow> string \<Rightarrow> status_block \<Rightarrow> status_block" where
  "stdin_string v key b =
     (if caseless_eq key ''full_text'' then b\<lparr>sb_full_text := Some (from_markup v)\<rparr>
      else if caseless_eq key ''short_text'' then b\<lparr>sb_short_text := Some (from_markup v)\<rparr>
      else if caseless_eq key ''color'' then b\<lparr>sb_color := Some v\<rparr>
      else if caseless_eq key ''background'' then b\<lparr>sb_background := Some v\<rparr>
      else if caseless_eq key ''border'' then b\<lparr>sb_border := Some v\<rparr>
      else if caseless_eq key ''markup'' then b\<lparr>sb_pango_markup := caseless_eq v ''pango''\<rparr>
      else if caseless_eq key ''align'' then b\<lparr>sb_align := block_align v\<rparr>
      else if caseless_eq key ''min_width'' then b\<lparr>sb_min_width_str := Some v\<rparr>
      else if caseless_eq key ''name'' then b\<lparr>sb_name := Some v\<rparr>
      else if caseless_eq key ''instance'' then b\<lparr>sb_instance := Some v\<rparr>
      else b)"

definition stdin_integer :: "int \<Rightarrow> string \<Rightarrow> status_block \<Rightarrow> status_block" where
  "stdin_integer v key b =
     (if caseless_eq key ''min_width'' then b\<lparr>sb_min_width := word_of_int v\<rparr>
      else if caseless_eq key ''separator_block_width'' then b\<lparr>sb_sep_block_width := word_of_int v\<rparr>
      else if caseless_eq key ''border_top'' then b\<lparr>sb_border_top := word_of_int v\<rparr>
      else if caseless_eq key ''border_right'' then b\<lparr>sb_border_right := word_of_int v\<rparr>
      else if caseless_eq key ''border_bottom'' then b\<lparr>sb_border_bottom := word_of_int v\<rparr>
      else if caseless_eq key ''border_left'' then b\<lparr>sb_border_left := word_of_int v\<rparr>
      else b)"

definition with_markup :: "bool \<Rightarrow> i3String \<Rightarrow> i3String" where
  "with_markup m str = str\<lparr>is_markup := m\<rparr>"

definition finished_block :: "bar_env \<Rightarrow> status_block \<Rightarrow> status_block" where
  "finished_block env b =
     (let text = (case sb_full_text b of None \<Rightarrow> from_utf8 ''SPEC VIOLATION: full_text is NULL!'' | Some t \<Rightarrow> t);
          w = (case sb_min_width_str b of None \<Rightarrow> sb_min_width b
               | Some str \<Rightarrow> word_of_int (be_text_width env (with_markup (sb_pango_markup b) (from_utf8 str))))
      in b\<lparr>sb_full_text := Some (with_markup (sb_pango_markup b) text), sb_min_width := w, sb_use_short := False,
           sb_short_text := map_option (with_markup (sb_pango_markup b)) (sb_short_text b)\<rparr>)"

definition stdin_end_map :: "bar_env \<Rightarrow> status_lines \<Rightarrow> status_lines" where
  "stdin_end_map env sl =
     sl\<lparr>sl_buffer := sl_buffer sl @ [(finished_block env (sl_block sl))\<lparr>sb_res := sl_next_res sl\<rparr>],
        sl_has_urgent := (sl_has_urgent sl \<or> sb_urgent (sl_block sl)), sl_next_res := sl_next_res sl + 1\<rparr>"

definition stdin_end_array :: "status_lines \<Rightarrow> status_lines" where
  "stdin_end_array sl = (let sl = clear_head sl in sl\<lparr>sl_head := sl_buffer sl\<rparr>)"

definition stdin_event :: "bar_env \<Rightarrow> config_t \<Rightarrow> json_event \<Rightarrow> status_lines \<Rightarrow> status_lines cb" where
  "stdin_event env config e sl =
     (case e of
        E_Bool v \<Rightarrow> on_block (stdin_boolean v) sl
      | E_Int v \<Rightarrow> on_block (stdin_integer v) sl
      | E_String v \<Rightarrow> on_block (stdin_string v) sl
      | E_Start_Map \<Rightarrow> Go (sl\<lparr>sl_block := stdin_start_map env config\<rparr>)
      | E_Key k \<Rightarrow> Go (sl\<lparr>sl_last_map_key := Some k\<rparr>)
      | E_End_Map \<Rightarrow> Go (stdin_end_map env sl)
      | E_Start_Array \<Rightarrow> Go (clear_buffer sl)
      | E_End_Array \<Rightarrow> Go (stdin_end_array sl)
      | _ \<Rightarrow> Go sl)"

text \<open>The message takes the place of the status line.\<close>

definition set_statusline_error :: "string \<Rightarrow> status_lines \<Rightarrow> status_lines" where
  "set_statusline_error message sl =
     (let sl = clear_head sl;
          red = (\<lambda>text name res. zero_block\<lparr>sb_full_text := Some (from_utf8 text), sb_name := Some name,
                   sb_color := Some ''#ff0000'', sb_no_separator := True, sb_res := res\<rparr>)
      in sl\<lparr>sl_head := [red ''Error: '' ''error'' (sl_next_res sl), red message ''error_message'' (sl_next_res sl + 1)],
            sl_next_res := sl_next_res sl + 2\<rparr>)"

subsection \<open>Reading\<close>

text \<open>An answer to \<open>read\<close>: bytes (none at the end of the input), \<open>EAGAIN\<close>, or another error. More bytes than
  asked for do not come. When the answers end, reading would block.\<close>

datatype read_result = Got string | Would_Block | Read_Error

datatype buffer_result = Buffer string | No_Buffer | Read_Exit

definition finished_buffer :: "string \<Rightarrow> buffer_result" where
  "finished_buffer got = (if got = [] \<or> hd got = CHR 0x00 then No_Buffer else Buffer got)"

primrec get_buffer :: "read_result list \<Rightarrow> nat \<Rightarrow> string \<Rightarrow> buffer_result" where
  "get_buffer [] buffer_len got = finished_buffer got"
| "get_buffer (r # rs) buffer_len got =
     (case r of
        Would_Block \<Rightarrow> finished_buffer got
      | Read_Error \<Rightarrow> Read_Exit
      | Got bytes \<Rightarrow>
          let chunk = take (buffer_len - length got) bytes; got' = got @ chunk
          in if chunk = [] then No_Buffer
             else get_buffer rs (if length got' = buffer_len then buffer_len + 1024 else buffer_len) got')"

text \<open>What a \<open>char *\<close> to the bytes is as a string.\<close>

definition c_string :: "string \<Rightarrow> string" where
  "c_string = takeWhile (\<lambda>c. c \<noteq> CHR 0x00)"

definition flat_text :: "string \<Rightarrow> string" where
  "flat_text buffer =
     c_string (if last buffer \<in> {CHR 0x0A, CHR 0x0D} then butlast buffer else buffer)"

text \<open>The strings of the first block are replaced, in its own memory.\<close>

definition read_flat_input :: "string \<Rightarrow> status_lines \<Rightarrow> status_lines" where
  "read_flat_input buffer sl =
     (case sl_head sl of
        [] \<Rightarrow> sl\<lparr>sl_crashed := True\<rparr>
      | b # bs \<Rightarrow> sl\<lparr>sl_head := b\<lparr>sb_full_text := Some (from_utf8 (flat_text buffer))\<rparr> # bs\<rparr>)"

subsection \<open>The state of the children\<close>

text \<open>\<open>bs_parsed\<close>: what the JSON parser of the status line was given since it was allocated; \<open>bs_ws_read\<close>: the
  lines of the workspace command that were parsed; \<open>bs_signals\<close>: the signals that were sent, to which process group; \<open>bs_written\<close>: what was written to the status command,
  \<^const>\<open>None\<close> is the bracket that opens the array of events; \<open>bs_draws\<close>: the calls of \<open>draw_bars\<close> (theory \<^verbatim>\<open>Bar_View\<close>).\<close>

record bar_state =
  bs_status :: i3bar_child
  bs_ws :: i3bar_child
  bs_lines :: status_lines
  bs_parsed :: string
  bs_parser_failed :: bool
  bs_ws_last_json :: "string option"
  bs_ws_read :: "string list"
  bs_outputs :: "i3_output list"
  bs_wss :: "nat \<Rightarrow> i3_ws"
  bs_next_ws :: nat
  bs_config :: config_t
  bs_signals :: "(int \<times> int) list"
  bs_written :: "json option list"
  bs_draws :: "bool list"
  bs_exited :: bool

datatype which_child = Status_Child | Ws_Child

definition child_of :: "which_child \<Rightarrow> bar_state \<Rightarrow> i3bar_child" where
  "child_of k st = (case k of Status_Child \<Rightarrow> bs_status st | Ws_Child \<Rightarrow> bs_ws st)"

definition on_child :: "which_child \<Rightarrow> (i3bar_child \<Rightarrow> i3bar_child) \<Rightarrow> bar_state \<Rightarrow> bar_state" where
  "on_child k f st =
     (case k of Status_Child \<Rightarrow> st\<lparr>bs_status := f (bs_status st)\<rparr> | Ws_Child \<Rightarrow> st\<lparr>bs_ws := f (bs_ws st)\<rparr>)"

definition on_lines :: "(status_lines \<Rightarrow> status_lines) \<Rightarrow> bar_state \<Rightarrow> bar_state" where
  "on_lines f st = st\<lparr>bs_lines := f (bs_lines st)\<rparr>"

definition killpg :: "int \<Rightarrow> int \<Rightarrow> bar_state \<Rightarrow> bar_state" where
  "killpg pid sig st = st\<lparr>bs_signals := bs_signals st @ [(pid, sig)]\<rparr>"

definition want_draw :: "bool \<Rightarrow> bar_state \<Rightarrow> bar_state" where
  "want_draw unhide st = st\<lparr>bs_draws := bs_draws st @ [unhide]\<rparr>"

definition cleanup :: "which_child \<Rightarrow> bar_state \<Rightarrow> bar_state" where
  "cleanup k = on_child k (\<lambda>c. no_child)"

definition is_alive :: "i3bar_child \<Rightarrow> bool" where
  "is_alive c \<longleftrightarrow> cc_pid c > 0"

definition stop_child :: "which_child \<Rightarrow> bar_state \<Rightarrow> bar_state" where
  "stop_child k st =
     (let c = child_of k st
      in if cc_stop_signal c > 0 \<and> \<not> cc_stopped c
         then killpg (cc_pid c) (cc_stop_signal c) (on_child k (\<lambda>c. c\<lparr>cc_stopped := True\<rparr>) st) else st)"

definition cont_child :: "which_child \<Rightarrow> bar_state \<Rightarrow> bar_state" where
  "cont_child k st =
     (let c = child_of k st
      in if is_alive c \<and> cc_cont_signal c > 0 \<and> cc_stopped c
         then killpg (cc_pid c) (cc_cont_signal c) (on_child k (\<lambda>c. c\<lparr>cc_stopped := False\<rparr>) st) else st)"

definition stop_children :: "bar_state \<Rightarrow> bar_state" where
  "stop_children st = stop_child Ws_Child (stop_child Status_Child st)"

definition cont_children :: "bar_state \<Rightarrow> bar_state" where
  "cont_children st = cont_child Ws_Child (cont_child Status_Child st)"

definition kill_and_wait :: "which_child \<Rightarrow> bar_state \<Rightarrow> bar_state" where
  "kill_and_wait k st =
     (if \<not> is_alive (child_of k st) then st
      else let st = cont_child k st; st = killpg (cc_pid (child_of k st)) SIGTERM st in cleanup k st)"

definition kill_children_at_exit :: "bar_state \<Rightarrow> bar_state" where
  "kill_children_at_exit st =
     (let st = cont_children st;
          st = (if is_alive (bs_status st) then killpg (cc_pid (bs_status st)) SIGTERM st else st)
      in if is_alive (bs_ws st) then killpg (cc_pid (bs_ws st)) SIGTERM st else st)"

subsection \<open>Workspace buttons\<close>

text \<open>\<open>set_workspace_button_error\<close>: every output shows one workspace, which cannot be focused, with the message.\<close>

definition error_ws :: "bar_env \<Rightarrow> string \<Rightarrow> i3_output \<Rightarrow> i3_ws" where
  "error_ws env message out =
     (let name = from_utf8 (''Error: '' @ message)
      in new_ws\<lparr>iw_name := Some name, iw_name_width := be_text_width env name, iw_urgent := True, iw_visible := True,
                iw_output := bo_name out\<rparr>)"

primrec add_error_ws :: "bar_env \<Rightarrow> string \<Rightarrow> i3_output list \<Rightarrow> nat \<Rightarrow> (nat \<Rightarrow> i3_ws) \<Rightarrow> i3_output list \<times> nat \<times> (nat \<Rightarrow> i3_ws)" where
  "add_error_ws env message [] k ws = ([], k, ws)"
| "add_error_ws env message (out # outs) k ws =
     (case add_error_ws env message outs (k + 1) (ws(k := error_ws env message out)) of
        (outs', r) \<Rightarrow> (out\<lparr>bo_workspaces := bo_workspaces out @ [k]\<rparr> # outs', r))"

definition set_workspace_button_error :: "bar_env \<Rightarrow> string \<Rightarrow> bar_state \<Rightarrow> bar_state" where
  "set_workspace_button_error env message st =
     (case add_error_ws env message (free_workspaces (bs_outputs st)) (bs_next_ws st) (bs_wss st) of
        (outs, k, ws) \<Rightarrow> st\<lparr>bs_outputs := outs, bs_next_ws := k, bs_wss := ws\<rparr>)"

definition put_workspaces :: "ws_params \<Rightarrow> bar_state \<Rightarrow> bar_state" where
  "put_workspaces p st = st\<lparr>bs_outputs := wp_outputs p, bs_wss := wp_ws p, bs_next_ws := wp_next p\<rparr>"

definition parse_workspaces_json :: "bar_env \<Rightarrow> string \<Rightarrow> bar_state \<Rightarrow> bar_state" where
  "parse_workspaces_json env json st =
     (let (es, ok) = be_json env json;
          failed = (\<lambda>st. if ct_workspace_command (bs_config st) \<noteq> None
             then set_workspace_button_error env ''Could not parse workspace_command's JSON'' (kill_and_wait Ws_Child st)
             else st\<lparr>bs_exited := True\<rparr>)
      in case run_callbacks (workspaces_event (bs_config st) (be_text_width env)) es
                (ws_start (bs_outputs st) (bs_wss st) (bs_next_ws st)) of
           Go p \<Rightarrow> (if ok then put_workspaces p st else failed (put_workspaces p st))
         | Cancel p \<Rightarrow> failed (put_workspaces p st)
         | Crash \<Rightarrow> on_lines (\<lambda>sl. sl\<lparr>sl_crashed := True\<rparr>) st)"

definition repeat_last_ws_json :: "bar_env \<Rightarrow> bar_state \<Rightarrow> bar_state" where
  "repeat_last_ws_json env st =
     (case bs_ws_last_json st of None \<Rightarrow> st | Some json \<Rightarrow> parse_workspaces_json env json st)"

text \<open>\<open>g_strsplit\<close> at the ends of lines.\<close>

fun split_lines :: "string \<Rightarrow> string list" where
  "split_lines [] = [[]]"
| "split_lines (c # cs) =
     (if c = CHR 0x0A then [] # split_lines cs
      else case split_lines cs of l # ls \<Rightarrow> (c # l) # ls | [] \<Rightarrow> [[c]])"

definition isempty :: "string \<Rightarrow> bool" where
  "isempty str \<longleftrightarrow> list_all c_isspace str"

definition append_string :: "string option \<Rightarrow> string \<Rightarrow> string" where
  "append_string previous str = (case previous of None \<Rightarrow> str | Some p \<Rightarrow> p @ str)"

definition set_pending :: "string option \<Rightarrow> bar_state \<Rightarrow> bar_state" where
  "set_pending l = on_child Ws_Child (\<lambda>c. c\<lparr>cc_pending_line := l\<rparr>)"

primrec read_ws_lines :: "bar_env \<Rightarrow> string list \<Rightarrow> bar_state \<Rightarrow> bar_state" where
  "read_ws_lines env [] st = st"
| "read_ws_lines env (str # strs) st =
     (let pending = cc_pending_line (bs_ws st); whole = append_string pending str
      in read_ws_lines env strs
           (if pending = None \<and> isempty str then st
            else if strs = [] then set_pending (Some whole) st
            else parse_workspaces_json env whole (set_pending None (st\<lparr>bs_ws_last_json := Some whole, bs_ws_read := bs_ws_read st @ [whole]\<rparr>))))"

definition ws_stdin_io_cb :: "bar_env \<Rightarrow> read_result list \<Rightarrow> bar_state \<Rightarrow> bar_state" where
  "ws_stdin_io_cb env answers st =
     (case get_buffer answers 1024 [] of
        Buffer buffer \<Rightarrow> want_draw False (read_ws_lines env (split_lines (c_string buffer)) st)
      | No_Buffer \<Rightarrow> st
      | Read_Exit \<Rightarrow> st\<lparr>bs_exited := True\<rparr>)"

subsection \<open>Input of the status command\<close>

definition read_json_input :: "bar_env \<Rightarrow> string \<Rightarrow> bar_state \<Rightarrow> bool \<times> bar_state" where
  "read_json_input env input st =
     (let (es, err) = be_feed env (bs_parsed st) input;
          fed = st\<lparr>bs_parsed := bs_parsed st @ input\<rparr>;
          bad = (\<lambda>message st. (False,
             want_draw False (on_lines (set_statusline_error (''Could not parse JSON ('' @ message @ '')'')) st)))
      in if bs_parser_failed st then bad (be_cancel_message env) fed
         else case run_callbacks (stdin_event env (bs_config st)) es (bs_lines st) of
             Go sl \<Rightarrow> (case err of
                 None \<Rightarrow> (sl_has_urgent sl, on_lines (\<lambda>_. sl) fed)
               | Some message \<Rightarrow> bad message (on_lines (\<lambda>_. sl) fed))
           | Cancel sl \<Rightarrow> bad (be_cancel_message env) ((on_lines (\<lambda>_. sl) fed)\<lparr>bs_parser_failed := True\<rparr>)
           | Crash \<Rightarrow> (False, on_lines (\<lambda>sl. sl\<lparr>sl_crashed := True\<rparr>) fed))"

definition stdin_io_cb :: "bar_env \<Rightarrow> read_result list \<Rightarrow> bar_state \<Rightarrow> bar_state" where
  "stdin_io_cb env answers st =
     (case get_buffer answers 1024 [] of
        Buffer buffer \<Rightarrow>
          (if cc_version (bs_status st) > 0
           then (case read_json_input env buffer st of (has_urgent, st) \<Rightarrow> want_draw has_urgent st)
           else want_draw False (on_lines (read_flat_input buffer) st))
      | No_Buffer \<Rightarrow> st
      | Read_Exit \<Rightarrow> st\<lparr>bs_exited := True\<rparr>)"

definition add_empty_block :: "status_lines \<Rightarrow> status_lines" where
  "add_empty_block sl =
     sl\<lparr>sl_head := sl_head sl @ [zero_block\<lparr>sb_res := sl_next_res sl\<rparr>], sl_next_res := sl_next_res sl + 1\<rparr>"

definition stdin_io_first_line_cb :: "bar_env \<Rightarrow> read_result list \<Rightarrow> bar_state \<Rightarrow> bar_state" where
  "stdin_io_first_line_cb env answers st =
     (case get_buffer answers 1024 [] of
        Buffer buffer \<Rightarrow>
          (let (es, ok, n) = be_header env buffer;
               (c, consumed) = parse_json_header es ok n (bs_status st);
               st = st\<lparr>bs_status := c\<rparr>
           in if cc_version c > 0
              then (let st = (if ct_hide_on_modifier (bs_config st) \<noteq> M_DOCK then stop_children st else st)
                    in case read_json_input env (drop consumed buffer) st of (has_urgent, st) \<Rightarrow> want_draw has_urgent st)
              else on_lines (read_flat_input buffer \<circ> add_empty_block) st)
      | No_Buffer \<Rightarrow> st
      | Read_Exit \<Rightarrow> st\<lparr>bs_exited := True\<rparr>)"

text \<open>A child that is not watched has no callbacks.\<close>

definition common_stdin_cb :: "bar_env \<Rightarrow> which_child \<Rightarrow> read_result list \<Rightarrow> bar_state \<Rightarrow> bar_state" where
  "common_stdin_cb env k answers st =
     (if \<not> cc_watched (child_of k st) then st
      else case k of
          Status_Child \<Rightarrow> if cc_version (bs_status st) = - 1 then stdin_io_first_line_cb env answers st
                          else stdin_io_cb env answers st
        | Ws_Child \<Rightarrow> ws_stdin_io_cb env answers st)"

subsection \<open>The end of a child, and output to it\<close>

definition exit_message :: "string \<Rightarrow> int \<Rightarrow> string" where
  "exit_message command_type status =
     command_type @
     (if status = 126 then '' is not executable (exit ''
      else if status = 127 then '' not found or is missing a library dependency (exit ''
      else '' process exited unexpectedly (exit '') @ print_int status @ '')''"

definition child_sig_cb :: "bar_env \<Rightarrow> int \<Rightarrow> int \<Rightarrow> bar_state \<Rightarrow> bar_state" where
  "child_sig_cb env pid status st =
     (if pid = cc_pid (bs_status st) then
        want_draw False (cleanup Status_Child (on_lines (set_statusline_error (exit_message ''status_command'' status)) st))
      else if pid = cc_pid (bs_ws st) then
        want_draw False (cleanup Ws_Child (set_workspace_button_error env (exit_message ''workspace_command'' status) st))
      else st)"

definition child_write_output :: "bar_env \<Rightarrow> json option \<Rightarrow> bar_state \<Rightarrow> bar_state" where
  "child_write_output env out st =
     (if \<not> cc_click_events (bs_status st) then st
      else if be_write_ok env out then st\<lparr>bs_written := bs_written st @ [out]\<rparr>
      else want_draw False (on_lines (set_statusline_error ''child_write_output failed'')
             (kill_and_wait Status_Child (on_child Status_Child (\<lambda>c. c\<lparr>cc_click_events := False\<rparr>) st))))"

definition child_click_events_initialize :: "bar_env \<Rightarrow> bar_state \<Rightarrow> bar_state" where
  "child_click_events_initialize env st =
     (if cc_click_events_init (bs_status st) then st
      else on_child Status_Child (\<lambda>c. c\<lparr>cc_click_events_init := True\<rparr>) (child_write_output env None st))"

definition click_modifiers :: "u32 \<Rightarrow> string list" where
  "click_modifiers mods =
     map snd (filter (\<lambda>(m, n). mods AND m \<noteq> 0)
       [(MOD_SHIFT, ''Shift''), (MOD_CONTROL, ''Control''), (MOD_1, ''Mod1''), (MOD_2, ''Mod2''), (MOD_3, ''Mod3''),
        (MOD_4, ''Mod4''), (MOD_5, ''Mod5'')])"

record block_click =
  bk_button :: int
  bk_name :: "string option"
  bk_instance :: "string option"
  bk_x :: int
  bk_y :: int
  bk_x_rel :: int
  bk_y_rel :: int
  bk_out_x :: int
  bk_out_y :: int
  bk_width :: int
  bk_height :: int
  bk_mods :: u32

definition click_json :: "block_click \<Rightarrow> json" where
  "click_json k =
     J_Map (j_if_set ''name'' (bk_name k) @ j_if_set ''instance'' (bk_instance k) @
       [(''button'', J_Int (bk_button k)), (''modifiers'', J_Array (map J_String (click_modifiers (bk_mods k)))),
        (''x'', J_Int (bk_x k)), (''y'', J_Int (bk_y k)), (''relative_x'', J_Int (bk_x_rel k)),
        (''relative_y'', J_Int (bk_y_rel k)), (''output_x'', J_Int (bk_out_x k)), (''output_y'', J_Int (bk_out_y k)),
        (''width'', J_Int (bk_width k)), (''height'', J_Int (bk_height k))])"

definition send_block_clicked :: "bar_env \<Rightarrow> block_click \<Rightarrow> bar_state \<Rightarrow> bar_state" where
  "send_block_clicked env k st =
     (if \<not> cc_click_events (bs_status st) then st
      else child_write_output env (Some (click_json k)) (child_click_events_initialize env st))"

subsection \<open>Starting\<close>

text \<open>\<open>pid\<close> is the result of \<open>fork\<close>.\<close>

definition start_child :: "string option \<Rightarrow> int \<Rightarrow> bar_state \<Rightarrow> bar_state" where
  "start_child command pid st =
     (if command = None then st
      else on_child Status_Child (\<lambda>c. c\<lparr>cc_pid := pid, cc_version := - 1, cc_watched := True\<rparr>)
             (st\<lparr>bs_parsed := [], bs_parser_failed := False\<rparr>))"

definition start_ws_child :: "string option \<Rightarrow> int \<Rightarrow> bar_state \<Rightarrow> bar_state" where
  "start_ws_child command pid st =
     (if command = None then st
      else on_child Ws_Child (\<lambda>c. c\<lparr>cc_stop_signal := SIGSTOP, cc_cont_signal := SIGCONT, cc_pid := pid,
                                    cc_watched := True\<rparr>) st)"

end
