(* ===== verification/Bar_Status.thy ===== *)
theory Bar_Status
  imports Bar_Child
begin

text \<open>
  What the status line of i3bar shows, which lines of the workspace command are read, and where signals
  go: properties of theory \<^verbatim>\<open>Bar_Child\<close>.
\<close>

subsection \<open>The last line is shown\<close>

text \<open>A block as its keys with their values, and the block that i3bar makes of them.\<close>

definition scalar :: "json \<Rightarrow> bool" where
  "scalar j \<longleftrightarrow> (case j of J_Array _ \<Rightarrow> False | J_Map _ \<Rightarrow> False | _ \<Rightarrow> True)"

definition set_field :: "string \<times> json \<Rightarrow> status_block \<Rightarrow> status_block" where
  "set_field kv =
     (case snd kv of
        J_Bool v \<Rightarrow> stdin_boolean v (fst kv)
      | J_Int v \<Rightarrow> stdin_integer v (fst kv)
      | J_String v \<Rightarrow> stdin_string v (fst kv)
      | _ \<Rightarrow> (\<lambda>b. b))"

definition read_block :: "bar_env \<Rightarrow> config_t \<Rightarrow> (string \<times> json) list \<Rightarrow> status_block" where
  "read_block env config kvs = finished_block env (fold set_field kvs (stdin_start_map env config))"

definition block_events :: "(string \<times> json) list \<Rightarrow> json_event list" where
  "block_events kvs = events_of (J_Map kvs)"

definition line_events :: "(string \<times> json) list list \<Rightarrow> json_event list" where
  "line_events blocks = events_of (J_Array (map J_Map blocks))"

text \<open>The strings of the blocks that are shown are allocated, each block has its own.\<close>

definition mem_ok :: "status_lines \<Rightarrow> bool" where
  "mem_ok sl \<longleftrightarrow> \<not> sl_crashed sl \<and> distinct (map sb_res (sl_head sl)) \<and>
     sb_res ` set (sl_head sl) \<inter> set (sl_freed sl) = {} \<and>
     (\<forall>r \<in> sb_res ` set (sl_head sl) \<union> set (sl_freed sl). r < sl_next_res sl)"

lemma run_fields:
  assumes "\<forall>kv \<in> set kvs. scalar (snd kv)"
  shows "\<exists>key. run_callbacks (stdin_event env config) (concat (map (\<lambda>(k, es). E_Key k # es) (map (map_prod id events_of) kvs))) sl =
    Go (sl\<lparr>sl_block := fold set_field kvs (sl_block sl), sl_last_map_key := key\<rparr>)"
  using assms
proof (induction kvs arbitrary: sl)
  case Nil
  show ?case by (intro exI [of _ "sl_last_map_key sl"]) simp
next
  case (Cons kv kvs)
  obtain k j where kv: "kv = (k, j)" by (cases kv)
  let ?sl = "sl\<lparr>sl_last_map_key := Some k, sl_block := set_field kv (sl_block sl)\<rparr>"
  have one: "run_callbacks (stdin_event env config) (E_Key k # events_of j) sl = Go ?sl"
    using Cons.prems by (cases j) (auto simp: kv stdin_event_def on_block_def set_field_def scalar_def)
  have "\<forall>kv \<in> set kvs. scalar (snd kv)" using Cons.prems by simp
  from Cons.IH [OF this, of ?sl] obtain key where
    "run_callbacks (stdin_event env config) (concat (map (\<lambda>(k, es). E_Key k # es) (map (map_prod id events_of) kvs))) ?sl =
      Go (?sl\<lparr>sl_block := fold set_field kvs (sl_block ?sl), sl_last_map_key := key\<rparr>)" by blast
  moreover have all: "concat (map (\<lambda>(k, es). E_Key k # es) (map (map_prod id events_of) (kv # kvs))) =
      (E_Key k # events_of j) @ concat (map (\<lambda>(k, es). E_Key k # es) (map (map_prod id events_of) kvs))"
    by (simp add: kv)
  ultimately show ?case
    unfolding all run_callbacks_append one by (intro exI [of _ key]) simp
qed

primrec number_blocks :: "nat \<Rightarrow> status_block list \<Rightarrow> status_block list" where
  "number_blocks n [] = []"
| "number_blocks n (b # bs) = b\<lparr>sb_res := n\<rparr> # number_blocks (Suc n) bs"

lemma number_blocks_res: "map sb_res (number_blocks n bs) = [n..<n + length bs]"
  by (induction bs arbitrary: n) (simp_all del: upt_Suc add: upt_rec)

lemma run_block:
  assumes "\<forall>kv \<in> set kvs. scalar (snd kv)"
  shows "\<exists>key urg block. run_callbacks (stdin_event env config) (block_events kvs) sl =
    Go (sl\<lparr>sl_block := block, sl_last_map_key := key, sl_has_urgent := urg, sl_next_res := sl_next_res sl + 1,
           sl_buffer := sl_buffer sl @ [(read_block env config kvs)\<lparr>sb_res := sl_next_res sl\<rparr>]\<rparr>)"
proof -
  from run_fields [OF assms, of env config "sl\<lparr>sl_block := stdin_start_map env config\<rparr>"]
  obtain key where "run_callbacks (stdin_event env config)
      (concat (map (\<lambda>(k, es). E_Key k # es) (map (map_prod id events_of) kvs))) (sl\<lparr>sl_block := stdin_start_map env config\<rparr>) =
      Go (sl\<lparr>sl_block := fold set_field kvs (stdin_start_map env config), sl_last_map_key := key\<rparr>)" by auto
  then show ?thesis
    by (intro exI [of _ key] exI [of _ "sl_has_urgent sl \<or> sb_urgent (fold set_field kvs (stdin_start_map env config))"]
        exI [of _ "fold set_field kvs (stdin_start_map env config)"])
      (simp add: block_events_def stdin_event_def [of _ _ E_Start_Map] stdin_event_def [of _ _ E_End_Map]
        stdin_end_map_def read_block_def)
qed

lemma run_blocks:
  assumes "\<forall>kvs \<in> set blocks. \<forall>kv \<in> set kvs. scalar (snd kv)"
  shows "\<exists>key urg block. run_callbacks (stdin_event env config) (concat (map block_events blocks)) sl =
    Go (sl\<lparr>sl_block := block, sl_last_map_key := key, sl_has_urgent := urg, sl_next_res := sl_next_res sl + length blocks,
           sl_buffer := sl_buffer sl @ number_blocks (sl_next_res sl) (map (read_block env config) blocks)\<rparr>)"
  using assms
proof (induction blocks arbitrary: sl)
  case Nil
  show ?case
    by (intro exI [of _ "sl_last_map_key sl"] exI [of _ "sl_has_urgent sl"] exI [of _ "sl_block sl"]) simp
next
  case (Cons kvs blocks)
  have "\<forall>kv \<in> set kvs. scalar (snd kv)" and rest: "\<forall>kvs \<in> set blocks. \<forall>kv \<in> set kvs. scalar (snd kv)"
    using Cons.prems by simp_all
  from run_block [OF this(1), of env config sl] obtain key urg block where one:
    "run_callbacks (stdin_event env config) (block_events kvs) sl =
      Go (sl\<lparr>sl_block := block, sl_last_map_key := key, sl_has_urgent := urg, sl_next_res := sl_next_res sl + 1,
           sl_buffer := sl_buffer sl @ [(read_block env config kvs)\<lparr>sb_res := sl_next_res sl\<rparr>]\<rparr>)" by blast
  let ?sl = "sl\<lparr>sl_block := block, sl_last_map_key := key, sl_has_urgent := urg, sl_next_res := sl_next_res sl + 1,
           sl_buffer := sl_buffer sl @ [(read_block env config kvs)\<lparr>sb_res := sl_next_res sl\<rparr>]\<rparr>"
  from Cons.IH [OF rest, of ?sl] obtain key' urg' block' where
    "run_callbacks (stdin_event env config) (concat (map block_events blocks)) ?sl =
      Go (?sl\<lparr>sl_block := block', sl_last_map_key := key', sl_has_urgent := urg', sl_next_res := sl_next_res ?sl + length blocks,
           sl_buffer := sl_buffer ?sl @ number_blocks (sl_next_res ?sl) (map (read_block env config) blocks)\<rparr>)" by blast
  then show ?case
    by (intro exI [of _ key'] exI [of _ urg'] exI [of _ block']) (simp add: one)
qed

text \<open>One line: it replaces what was shown.\<close>

lemma run_line:
  assumes "\<forall>kvs \<in> set blocks. \<forall>kv \<in> set kvs. scalar (snd kv)" and "mem_ok sl"
  shows "\<exists>sl'. run_callbacks (stdin_event env config) (line_events blocks) sl = Go sl' \<and> mem_ok sl' \<and>
    sl_buffer sl' = sl_head sl' \<and>
    (\<exists>n. sl_head sl' = number_blocks n (map (read_block env config) blocks))"
proof -
  let ?n = "sl_next_res sl"
  let ?bs = "number_blocks ?n (map (read_block env config) blocks)"
  from run_blocks [OF assms(1), of env config "clear_buffer sl"] obtain key urg block where
    blocks: "run_callbacks (stdin_event env config) (concat (map block_events blocks)) (clear_buffer sl) =
      Go ((clear_buffer sl)\<lparr>sl_block := block, sl_last_map_key := key, sl_has_urgent := urg,
           sl_next_res := ?n + length blocks, sl_buffer := ?bs\<rparr>)"
    by (auto simp: clear_buffer_def)
  let ?sl = "(clear_buffer sl)\<lparr>sl_block := block, sl_last_map_key := key, sl_has_urgent := urg,
           sl_next_res := ?n + length blocks, sl_buffer := ?bs\<rparr>"
  let ?fin = "stdin_end_array ?sl"
  have res: "map sb_res ?bs = [?n..<?n + length blocks]" by (simp add: number_blocks_res)
  then have set_res: "sb_res ` set ?bs = {?n..<?n + length blocks}" by (metis set_map set_upt)
  have old: "sb_res ` set (sl_head sl) \<union> set (sl_freed sl) \<subseteq> {..<?n}" using assms(2) by (auto simp: mem_ok_def)
  then have "sb_res ` set ?bs \<inter> (set (sl_freed sl) \<union> sb_res ` set (sl_head sl)) = {}"
    and "\<forall>r \<in> sb_res ` set ?bs \<union> (set (sl_freed sl) \<union> sb_res ` set (sl_head sl)). r < ?n + length blocks"
    unfolding set_res by fastforce+
  moreover have "sl_head ?fin = ?bs" "set (sl_freed ?fin) = set (sl_freed sl) \<union> sb_res ` set (sl_head sl)"
    "sl_next_res ?fin = ?n + length blocks" "\<not> sl_crashed ?fin"
    using assms(2) by (auto simp: mem_ok_def stdin_end_array_def clear_head_def clear_buffer_def Let_def)
  ultimately have "mem_ok ?fin"
    unfolding mem_ok_def using res by (simp only:) simp
  moreover have "run_callbacks (stdin_event env config) (line_events blocks) sl = Go ?fin"
  proof -
    have "line_events blocks = [E_Start_Array] @ concat (map block_events blocks) @ [E_End_Array]"
    proof -
      have "map events_of (map J_Map blocks) = map block_events blocks"
        unfolding map_map by (rule map_cong [OF refl]) (simp only: comp_def block_events_def)
      then show ?thesis by (simp only: line_events_def events_of.simps append_Cons append_Nil)
    qed
    then show ?thesis
      unfolding run_callbacks_append
      by (simp add: blocks stdin_event_def [of _ _ E_Start_Array] stdin_event_def [of _ _ E_End_Array])
  qed
  moreover have "sl_head ?fin = ?bs" "sl_buffer ?fin = ?bs"
    by (simp_all add: stdin_end_array_def clear_head_def Let_def)
  ultimately show ?thesis by metis
qed

lemma run_status_lines:
  assumes "\<forall>blocks \<in> set lines. \<forall>kvs \<in> set blocks. \<forall>kv \<in> set kvs. scalar (snd kv)" and "mem_ok sl" and "lines \<noteq> []"
  shows "\<exists>sl'. run_callbacks (stdin_event env config) (concat (map line_events lines)) sl = Go sl' \<and> mem_ok sl' \<and>
    sl_buffer sl' = sl_head sl' \<and>
    (\<exists>n. sl_head sl' = number_blocks n (map (read_block env config) (last lines)))"
  using assms
proof (induction lines arbitrary: sl)
  case (Cons blocks lines)
  have "\<forall>kvs \<in> set blocks. \<forall>kv \<in> set kvs. scalar (snd kv)" using Cons.prems(1) by simp
  from run_line [OF this Cons.prems(2), of env config] obtain sl' where
    one: "run_callbacks (stdin_event env config) (line_events blocks) sl = Go sl'" and "mem_ok sl'"
    and ends: "sl_buffer sl' = sl_head sl'" "\<exists>n. sl_head sl' = number_blocks n (map (read_block env config) blocks)"
    by blast
  show ?case
  proof (cases "lines = []")
    case True
    with one \<open>mem_ok sl'\<close> ends show ?thesis by simp
  next
    case False
    with Cons.IH [OF _ \<open>mem_ok sl'\<close>] Cons.prems(1) show ?thesis by (simp add: one)
  qed
qed simp

text \<open>The bracket that ends the stream frees the strings of the line that is still shown.\<close>

lemma closing_bracket_dangles:
  assumes "mem_ok sl" and "sl_buffer sl = sl_head sl"
  shows "\<exists>sl'. stdin_event env config E_End_Array sl = Go sl' \<and> sl_head sl' = sl_head sl \<and>
    sb_res ` set (sl_head sl') \<subseteq> set (sl_freed sl')"
  using assms by (simp add: stdin_event_def stdin_end_array_def clear_head_def Let_def)

text \<open>An urgent block leaves its mark for ever.\<close>

lemma has_urgent_stays:
  "run_callbacks (stdin_event env config) es sl \<in> {Go sl', Cancel sl'} \<Longrightarrow> sl_has_urgent sl \<Longrightarrow> sl_has_urgent sl'"
proof (induction es arbitrary: sl)
  case (Cons e es)
  show ?case
  proof (cases "stdin_event env config e sl")
    case (Go t)
    then have "sl_has_urgent t"
      using Cons.prems(2)
      by (cases e) (auto simp: stdin_event_def on_block_def stdin_end_map_def stdin_end_array_def clear_head_def
        clear_buffer_def Let_def split: option.splits)
    with Cons Go show ?thesis by simp
  next
    case (Cancel t)
    then have "sl_has_urgent t"
      using Cons.prems(2) by (cases e) (auto simp: stdin_event_def on_block_def split: option.splits)
    with Cons Cancel show ?thesis by simp
  qed (use Cons in simp)
qed auto

subsection \<open>Lines of the workspace command\<close>

definition trim :: "string \<Rightarrow> string" where
  "trim = dropWhile c_isspace"

lemma isempty_trim: "isempty str \<longleftrightarrow> trim str = []"
  by (simp add: isempty_def trim_def list_all_iff dropWhile_eq_Nil_conv)

lemma trim_append: "trim (u @ v) = (if isempty u then trim v else trim u @ v)"
  by (induction u) (auto simp: trim_def isempty_def)

lemma split_lines_nonempty [simp]: "split_lines str \<noteq> []"
  by (induction str) (auto split: list.split)

lemma split_lines_append:
  "split_lines (u @ v) = butlast (split_lines u) @ (last (split_lines u) @ hd (split_lines v)) # tl (split_lines v)"
proof (induction u)
  case Nil
  show ?case by (cases "split_lines v") (use split_lines_nonempty [of v] in auto)
next
  case (Cons c u)
  obtain l ls where u: "split_lines u = l # ls" using split_lines_nonempty [of u] by (cases "split_lines u") blast+
  show ?case
    using Cons by (cases "ls = []") (auto simp: u)
qed

text \<open>The lines that are complete, and what is kept of the last one.\<close>

primrec ws_lines :: "string list \<Rightarrow> string option \<Rightarrow> string list \<times> string option" where
  "ws_lines [] p = ([], p)"
| "ws_lines (str # strs) p =
     (if p = None \<and> isempty str then ws_lines strs p
      else if strs = [] then ([], Some (append_string p str))
      else (case ws_lines strs None of (ls, q) \<Rightarrow> (append_string p str # ls, q)))"

lemma pending_after_kill:
  "cc_pending_line (bs_ws st) = None \<Longrightarrow> cc_pending_line (bs_ws (kill_and_wait Ws_Child st)) = None"
  "bs_ws_read (kill_and_wait k st) = bs_ws_read st"
  by (auto simp: kill_and_wait_def cont_child_def cleanup_def on_child_def killpg_def child_of_def no_child_def Let_def
      split: which_child.split)

lemma pending_after_parse:
  "cc_pending_line (bs_ws st) = None \<Longrightarrow> cc_pending_line (bs_ws (parse_workspaces_json env json st)) = None"
  "bs_ws_read (parse_workspaces_json env json st) = bs_ws_read st"
  using pending_after_kill
  by (auto simp: parse_workspaces_json_def set_workspace_button_error_def put_workspaces_def on_lines_def Let_def
      split: prod.split cb.split)

lemma read_ws_lines_lines:
  "ws_lines strs (cc_pending_line (bs_ws st)) = (ls, p) \<Longrightarrow>
   bs_ws_read (read_ws_lines env strs st) = bs_ws_read st @ ls \<and> cc_pending_line (bs_ws (read_ws_lines env strs st)) = p"
proof (induction strs arbitrary: st ls p)
  case (Cons str strs)
  let ?p = "cc_pending_line (bs_ws st)" and ?w = "append_string (cc_pending_line (bs_ws st)) str"
  consider "?p = None \<and> isempty str" | "\<not> (?p = None \<and> isempty str)" "strs = []" | "\<not> (?p = None \<and> isempty str)" "strs \<noteq> []"
    by blast
  then show ?case
  proof cases
    case 1
    with Cons show ?thesis by simp
  next
    case 2
    with Cons.prems show ?thesis by (simp add: Let_def set_pending_def on_child_def) (use 2 in auto)
  next
    case 3
    let ?st = "parse_workspaces_json env ?w (set_pending None (st\<lparr>bs_ws_last_json := Some ?w, bs_ws_read := bs_ws_read st @ [?w]\<rparr>))"
    have st: "cc_pending_line (bs_ws ?st) = None" "bs_ws_read ?st = bs_ws_read st @ [?w]"
      by (simp_all add: pending_after_parse set_pending_def on_child_def)
    obtain ls' where ls: "ws_lines strs None = (ls', p)" "ls = ?w # ls'"
      using Cons.prems 3 by (auto split: prod.splits)
    have "read_ws_lines env (str # strs) st = read_ws_lines env strs ?st"
      using 3 by (simp only: read_ws_lines.simps Let_def if_False)
    with Cons.IH [of ?st ls' p] st ls show ?thesis by simp
  qed
qed simp

text \<open>What is kept is the unfinished line \<open>u\<close>, but for leading blanks.\<close>

definition keeps :: "string \<Rightarrow> string option \<Rightarrow> bool" where
  "keeps u p \<longleftrightarrow> (case p of None \<Rightarrow> isempty u | Some w \<Rightarrow> \<not> isempty u \<and> trim w = trim u)"

lemma keeps_append:
  assumes "keeps u p" and "\<not> (p = None \<and> isempty str)"
  shows "\<not> isempty (u @ str) \<and> trim (append_string p str) = trim (u @ str)"
  using assms by (auto simp: keeps_def append_string_def trim_append isempty_trim split: option.splits)

lemma ws_lines_trim:
  assumes "keeps u p" and "ws_lines (str # strs) p = (ls, q)"
  shows "map trim ls = map trim (filter (\<lambda>l. \<not> isempty l) (butlast ((u @ str) # strs))) \<and> keeps (last ((u @ str) # strs)) q"
  using assms
proof (induction strs arbitrary: u p str ls)
  case Nil
  then show ?case using keeps_append [OF Nil(1), of str]
    by (auto simp: keeps_def append_string_def trim_append isempty_trim split: if_splits option.splits)
next
  case (Cons str' strs)
  have empty: "keeps [] None" by (simp add: keeps_def isempty_def)
  show ?case
  proof (cases "p = None \<and> isempty str")
    case True
    with Cons.prems have "ws_lines (str' # strs) None = (ls, q)" by simp
    from Cons.IH [OF empty this] have IH: "map trim ls = map trim (filter (\<lambda>l. \<not> isempty l) (butlast (str' # strs))) \<and>
        keeps (last (str' # strs)) q" by simp
    have "isempty (u @ str)" using True Cons.prems(1) by (simp add: keeps_def isempty_def)
    with IH show ?thesis by simp
  next
    case False
    then obtain ls' where ls: "ws_lines (str' # strs) None = (ls', q)" "ls = append_string p str # ls'"
      using Cons.prems(2) by (auto simp del: ws_lines.simps(2) simp: ws_lines.simps(2) [of str] split: prod.splits)
    from Cons.IH [OF empty ls(1)] have IH: "map trim ls' = map trim (filter (\<lambda>l. \<not> isempty l) (butlast (str' # strs))) \<and>
        keeps (last (str' # strs)) q" by simp
    with keeps_append [OF Cons.prems(1) False] ls(2) show ?thesis by simp
  qed
qed

text \<open>\<open>all\<close> was received, and every complete line of it was parsed.\<close>

definition received :: "string \<Rightarrow> string list \<Rightarrow> bar_state \<Rightarrow> bool" where
  "received all ls st \<longleftrightarrow>
     map trim (bs_ws_read st) = map trim ls @ map trim (filter (\<lambda>l. \<not> isempty l) (butlast (split_lines all))) \<and>
     keeps (last (split_lines all)) (cc_pending_line (bs_ws st))"

lemma received_more:
  assumes "received all ls st" and "get_buffer answers 1024 [] = Buffer b" and "CHR 0x00 \<notin> set b"
  shows "received (all @ b) ls (ws_stdin_io_cb env answers st)"
proof -
  obtain x xs where b: "split_lines b = x # xs" using split_lines_nonempty [of b] by (cases "split_lines b") blast+
  obtain ps q where w: "ws_lines (x # xs) (cc_pending_line (bs_ws st)) = (ps, q)" by fastforce
  let ?st = "read_ws_lines env (split_lines b) st"
  have "c_string b = b" using assms(3) by (induction b) (auto simp: c_string_def)
  then have "ws_stdin_io_cb env answers st = want_draw False ?st"
    using assms(2) by (simp add: ws_stdin_io_cb_def)
  moreover have "bs_ws_read ?st = bs_ws_read st @ ps \<and> cc_pending_line (bs_ws ?st) = q"
    by (rule read_ws_lines_lines) (simp only: b w)
  moreover have "map trim ps = map trim (filter (\<lambda>l. \<not> isempty l) (butlast ((last (split_lines all) @ x) # xs))) \<and>
      keeps (last ((last (split_lines all) @ x) # xs)) q"
    by (rule ws_lines_trim [OF _ w]) (use assms(1) in \<open>simp add: received_def\<close>)
  ultimately show ?thesis
    using assms(1) by (simp add: received_def split_lines_append b want_draw_def butlast_append)
qed

lemma received_all:
  assumes "received all ls st"
    and "list_all2 (\<lambda>answers b. get_buffer answers 1024 [] = Buffer b \<and> CHR 0x00 \<notin> set b) reads chunks"
  shows "received (all @ concat chunks) ls (fold (ws_stdin_io_cb env) reads st)"
  using assms(2,1)
proof (induction reads chunks arbitrary: all st rule: list_all2_induct)
  case (Cons answers reads b chunks)
  from Cons.IH [OF received_more [OF Cons.prems]] Cons.hyps(1) show ?case by simp
qed simp

subsection \<open>Where signals go\<close>

text \<open>A child that was not started gets no signal: process group 0 would be i3bar itself.\<close>

definition child_ok :: "i3bar_child \<Rightarrow> bool" where
  "child_ok c \<longleftrightarrow> cc_pid c \<ge> 0 \<and> (cc_pid c = 0 \<longrightarrow> cc_stop_signal c = 0 \<and> \<not> cc_watched c)"

definition signals_ok :: "bar_state \<Rightarrow> bool" where
  "signals_ok st \<longleftrightarrow> child_ok (bs_status st) \<and> child_ok (bs_ws st) \<and> (\<forall>(pid, sig) \<in> set (bs_signals st). pid > 0)"

text \<open>What happens to i3bar: a child is started, writes, or ends; a click; the bars are shown or hidden.\<close>

inductive bar_step :: "bar_env \<Rightarrow> bar_state \<Rightarrow> bar_state \<Rightarrow> bool" for env where
  bar_start: "pid > 0 \<Longrightarrow> bar_step env st (start_child command pid st)"
| bar_start_ws: "pid > 0 \<Longrightarrow> bar_step env st (start_ws_child command pid st)"
| bar_input: "bar_step env st (common_stdin_cb env k answers st)"
| bar_child_ends: "pid > 0 \<Longrightarrow> bar_step env st (child_sig_cb env pid status st)"
| bar_click: "bar_step env st (send_block_clicked env k st)"
| bar_hide: "bar_step env st (stop_children st)"
| bar_show: "bar_step env st (cont_children st)"
| bar_kill: "bar_step env st (kill_and_wait k st)"
| bar_repeat: "bar_step env st (repeat_last_ws_json env st)"
| bar_exit: "bar_step env st (kill_children_at_exit st)"

lemma signals_simps [simp]:
  "signals_ok (want_draw b st) = signals_ok st" "signals_ok (on_lines f st) = signals_ok st"
  "signals_ok (put_workspaces p st) = signals_ok st" "signals_ok (set_workspace_button_error env m st) = signals_ok st"
  "signals_ok (set_pending l st) = signals_ok st"
  "signals_ok (st\<lparr>bs_exited := b'\<rparr>) = signals_ok st" "signals_ok (st\<lparr>bs_ws_last_json := x\<rparr>) = signals_ok st"
  "signals_ok (st\<lparr>bs_ws_read := ls\<rparr>) = signals_ok st" "signals_ok (st\<lparr>bs_parsed := text\<rparr>) = signals_ok st"
  "signals_ok (st\<lparr>bs_parser_failed := b'\<rparr>) = signals_ok st" "signals_ok (st\<lparr>bs_written := out\<rparr>) = signals_ok st"
  by (auto simp: signals_ok_def want_draw_def on_lines_def put_workspaces_def set_workspace_button_error_def
      set_pending_def on_child_def child_ok_def split: prod.split)

lemma cleanup_ok [simp]: "signals_ok st \<Longrightarrow> signals_ok (cleanup k st)"
  by (cases k) (auto simp: signals_ok_def cleanup_def on_child_def child_ok_def no_child_def)

lemma cont_child_ok [simp]: "signals_ok st \<Longrightarrow> signals_ok (cont_child k st)"
  by (cases k) (auto simp: signals_ok_def cont_child_def on_child_def child_of_def killpg_def child_ok_def is_alive_def Let_def)

lemma stop_child_ok [simp]: "signals_ok st \<Longrightarrow> signals_ok (stop_child k st)"
  by (cases k) (auto simp: signals_ok_def stop_child_def on_child_def child_of_def killpg_def child_ok_def Let_def)

lemma killpg_ok [simp]: "signals_ok st \<Longrightarrow> pid > 0 \<Longrightarrow> signals_ok (killpg pid sig st)"
  by (simp add: signals_ok_def killpg_def)

lemma kill_and_wait_ok [simp]: "signals_ok st \<Longrightarrow> signals_ok (kill_and_wait k st)"
proof -
  assume ok: "signals_ok st"
  show ?thesis
  proof (cases "is_alive (child_of k st)")
    case True
    have "cc_pid (child_of k (cont_child k st)) = cc_pid (child_of k st)"
      by (cases k) (simp_all add: cont_child_def on_child_def child_of_def killpg_def Let_def)
    with True ok show ?thesis by (simp add: kill_and_wait_def Let_def is_alive_def)
  qed (use ok in \<open>simp add: kill_and_wait_def\<close>)
qed

lemma parse_workspaces_ok [simp]: "signals_ok st \<Longrightarrow> signals_ok (parse_workspaces_json env json st)"
  by (auto simp: parse_workspaces_json_def Let_def split: prod.split cb.split)

lemma read_ws_lines_ok [simp]: "signals_ok st \<Longrightarrow> signals_ok (read_ws_lines env strs st)"
  by (induction strs arbitrary: st) (simp_all add: Let_def)

lemma read_json_ok [simp]: "signals_ok st \<Longrightarrow> signals_ok (snd (read_json_input env input st))"
  by (auto simp: read_json_input_def Let_def split: prod.split cb.split option.split)

lemma read_json_pair: "read_json_input env input st = (u, st') \<Longrightarrow> signals_ok st \<Longrightarrow> signals_ok st'"
  using read_json_ok [of st env input] by simp

lemma stdin_io_ok [simp]: "signals_ok st \<Longrightarrow> signals_ok (stdin_io_cb env answers st)"
  by (auto simp: stdin_io_cb_def elim!: read_json_pair split: buffer_result.split prod.split)

lemma header_keeps_pid [simp]:
  "cc_pid (fst (parse_json_header es ok n c)) = cc_pid c" "cc_watched (fst (parse_json_header es ok n c)) = cc_watched c"
proof -
  have "cc_pid (snd (fold header_event es kc)) = cc_pid (snd kc) \<and> cc_watched (snd (fold header_event es kc)) = cc_watched (snd kc)" for kc
    by (induction es arbitrary: kc)
      (auto simp: header_event_def header_integer_def header_boolean_def split: json_event.split header_key.split)
  then show "cc_pid (fst (parse_json_header es ok n c)) = cc_pid c" "cc_watched (fst (parse_json_header es ok n c)) = cc_watched c"
    by (simp_all add: parse_json_header_def child_init_def Let_def)
qed

lemma first_line_ok:
  assumes "signals_ok st" and "cc_watched (bs_status st)"
  shows "signals_ok (stdin_io_first_line_cb env answers st)"
proof -
  have pid: "cc_pid (bs_status st) > 0" using assms by (auto simp: signals_ok_def child_ok_def)
  have "signals_ok (st\<lparr>bs_status := c\<rparr>)" if "parse_json_header es ok n (bs_status st) = (c, consumed)" for es ok n c consumed
    using header_keeps_pid [of es ok n "bs_status st"] pid assms(1) by (auto simp: that signals_ok_def child_ok_def)
  then show ?thesis
    using assms(1)
    by (auto simp: stdin_io_first_line_cb_def stop_children_def Let_def elim!: read_json_pair split: buffer_result.split prod.split)
qed

lemma common_stdin_ok [simp]:
  assumes "signals_ok st" shows "signals_ok (common_stdin_cb env k answers st)"
  using assms first_line_ok [OF assms]
  by (cases k) (auto simp: common_stdin_cb_def child_of_def ws_stdin_io_cb_def split: buffer_result.split)

lemma click_simps [simp]:
  "signals_ok (on_child k (\<lambda>c. c\<lparr>cc_click_events_init := b\<rparr>) st) = signals_ok st"
  "signals_ok (on_child k (\<lambda>c. c\<lparr>cc_click_events := b\<rparr>) st) = signals_ok st"
  by (cases k; simp add: signals_ok_def on_child_def child_ok_def)+

lemma child_write_ok [simp]: "signals_ok st \<Longrightarrow> signals_ok (child_write_output env out st)"
  by (simp add: child_write_output_def)

lemma bar_step_ok: "bar_step env st st' \<Longrightarrow> signals_ok st \<Longrightarrow> signals_ok st'"
proof (induction rule: bar_step.induct)
  case (bar_start pid st command)
  then show ?case by (auto simp: start_child_def signals_ok_def on_child_def child_ok_def)
next
  case (bar_start_ws pid st command)
  then show ?case by (auto simp: start_ws_child_def signals_ok_def on_child_def child_ok_def)
next
  case (bar_exit st)
  then have "signals_ok (cont_children st)" by (simp add: cont_children_def)
  then show ?case by (auto simp: kill_children_at_exit_def is_alive_def Let_def killpg_def signals_ok_def)
qed (simp_all add: child_sig_cb_def stop_children_def cont_children_def repeat_last_ws_json_def
    send_block_clicked_def child_click_events_initialize_def split: option.split)

definition bar_start_state :: "config_t \<Rightarrow> i3_output list \<Rightarrow> (nat \<Rightarrow> i3_ws) \<Rightarrow> bar_state" where
  "bar_start_state config outs ws =
     \<lparr>bs_status = no_child, bs_ws = no_child,
      bs_lines = \<lparr>sl_has_urgent = False, sl_last_map_key = None, sl_block = zero_block, sl_head = [], sl_buffer = [],
        sl_next_res = 0, sl_freed = [], sl_crashed = False\<rparr>,
      bs_parsed = [], bs_parser_failed = False, bs_ws_last_json = None, bs_ws_read = [], bs_outputs = outs, bs_wss = ws,
      bs_next_ws = 0, bs_config = config, bs_signals = [], bs_written = [], bs_draws = [], bs_exited = False\<rparr>"

lemma reachable_signals:
  "(bar_step env)\<^sup>*\<^sup>* (bar_start_state config outs ws) st \<Longrightarrow> signals_ok st"
proof (induction rule: rtranclp_induct)
  case base
  show ?case by (simp add: signals_ok_def bar_start_state_def child_ok_def no_child_def)
qed (blast intro: bar_step_ok)

subsection \<open>What goes wrong\<close>

text \<open>A number behind an unknown key of the header is taken for the value of the last known key.\<close>

lemma unknown_header_key:
  "cc_version (fst (parse_json_header
     (events_of (J_Map [(''version'', J_Int 1), (''delay'', J_Int 0)])) True 26 no_child)) = 0"
  by (simp add: parse_json_header_def header_event_def header_map_key_def header_integer_def Let_def)
    (simp add: caseless_eq_def c_tolower_def)

text \<open>When the first write to a status command fails, the child is gone but the array counts as opened: the next
  child gets its events without the bracket.\<close>

lemma init_survives_failure:
  assumes "cc_click_events (bs_status st)" and "\<not> cc_click_events_init (bs_status st)" and "cc_pid (bs_status st) > 0"
    and "\<not> be_write_ok env None"
  shows "cc_click_events_init (bs_status (start_child (Some command) pid (send_block_clicked env k st)))"
proof -
  have "cc_click_events (bs_status (child_write_output env None st)) = False"
    using assms by (simp add: child_write_output_def want_draw_def on_lines_def kill_and_wait_def child_of_def
        on_child_def is_alive_def cleanup_def cont_child_def killpg_def no_child_def Let_def)
  with assms(1,2) show ?thesis
    by (simp add: send_block_clicked_def child_click_events_initialize_def child_write_output_def [of _ "Some _"]
        start_child_def on_child_def)
qed

end
