(* ===== verification/Bar_View.thy ===== *)
theory Bar_View
  imports Bar_Status Config_Directives Commands_Parser "HOL-Library.Signed_Division"
begin

text \<open>
  The windows of i3bar (\<^verbatim>\<open>i3bar/src/xcb.c\<close>): the widths of the status line, where its blocks and the
  buttons are drawn, what a click on them means, hiding and showing the bars, the tray. Requests to the X
  server, drawing operations and messages to i3 are logged.
\<close>

record view_env =
  ve_bar :: bar_env
  ve_alloc_color :: "(string \<Rightarrow> u32) option"
  ve_font_height :: int
  ve_ids :: "nat \<Rightarrow> u32"

abbreviation bar_px :: "view_env \<Rightarrow> int \<Rightarrow> int" where
  "bar_px v \<equiv> logical_px (be_dpi (ve_bar v))"

text \<open>\<open>logical_px\<close> of an unsigned value, and back.\<close>

abbreviation pxw :: "view_env \<Rightarrow> u32 \<Rightarrow> u32" where
  "pxw v w \<equiv> word_of_int (bar_px v (sint w))"

datatype surface = Surface_Statusline "string option" | Surface_Buffer "string option" | Surface_Bar "string option"

datatype bar_call =
    Draw_Clear surface color_t
  | Draw_Rectangle surface color_t int int int int
  | Draw_Text surface i3String color_t color_t int int int
  | Draw_Copy surface surface int int
  | Create_Bar u32 int int int int bool
  | Configure_Bar u32 int int int int
  | Override_Redirect u32 bool
  | Map_Window u32
  | Unmap_Window u32
  | Destroy_Bar u32
  | Strut_Partial u32 "u32 list"
  | Grab_Keyevents bool
  | Reparent_Client u32 u32 int
  | Resize_Client u32 int
  | Embedded_Notify u32 u32 int
  | Save_Set u32
  | Configure_Client u32 u32
  | Configure_Notify u32 int int
  | Tray_Selection bool
  | Tray_Announce
  | Tray_Colors "u32 list"
  | Send_Msg string string

subsection \<open>The widths of the status line\<close>

definition get_sep_offset :: "status_block \<Rightarrow> u32" where
  "get_sep_offset b =
     (if \<not> sb_no_separator b \<and> sb_sep_block_width b > 0
      then sb_sep_block_width b div 2 + sb_sep_block_width b mod 2 else 0)"

definition get_tray_width :: "view_env \<Rightarrow> config_t \<Rightarrow> int \<Rightarrow> trayclient list \<Rightarrow> int" where
  "get_tray_width v config icon_size clients =
     (let w = int (length (filter tc_mapped clients)) * (icon_size + bar_px v (ct_tray_padding config))
      in if w > 0 then w + bar_px v 2 else w)"

text \<open>The text of a block and how it is rendered: the short one, if it is used.\<close>

definition uses_short :: "status_block \<Rightarrow> bool" where
  "uses_short b \<longleftrightarrow> sb_use_short b \<and> sb_short_text b \<noteq> None"

definition block_text :: "status_block \<Rightarrow> i3String" where
  "block_text b = the (if uses_short b then sb_short_text b else sb_full_text b)"

definition block_render :: "status_block \<Rightarrow> render_desc" where
  "block_render b = (if uses_short b then sb_short_render b else sb_full_render b)"

definition put_render :: "render_desc \<Rightarrow> status_block \<Rightarrow> status_block" where
  "put_render r b = (if uses_short b then b\<lparr>sb_short_render := r\<rparr> else b\<lparr>sb_full_render := r\<rparr>)"

definition render_total :: "render_desc \<Rightarrow> u32" where
  "render_total r = rd_width r + rd_x_offset r + rd_x_append r"

definition align_render :: "status_block \<Rightarrow> render_desc \<Rightarrow> render_desc" where
  "align_render b r =
     (if sb_min_width b \<le> rd_width r then r\<lparr>rd_x_offset := 0, rd_x_append := 0\<rparr>
      else let padding = sb_min_width b - rd_width r
           in case sb_align b of
                BLOCK_ALIGN_LEFT \<Rightarrow> r\<lparr>rd_x_append := padding\<rparr>
              | BLOCK_ALIGN_RIGHT \<Rightarrow> r\<lparr>rd_x_offset := padding\<rparr>
              | BLOCK_ALIGN_CENTER \<Rightarrow> r\<lparr>rd_x_offset := padding div 2, rd_x_append := padding div 2 + padding mod 2\<rparr>)"

definition predict_block_length :: "view_env \<Rightarrow> status_block \<Rightarrow> status_block" where
  "predict_block_length v b =
     (if is_text (block_text b) = [] then b\<lparr>sb_render_length := 0\<rparr>
      else let w = word_of_int (be_text_width (ve_bar v) (block_text b));
               w = (if sb_border b = None then w else w + pxw v (sb_border_left b + sb_border_right b));
               r = align_render b ((block_render b)\<lparr>rd_width := w\<rparr>)
           in (put_render r b)\<lparr>sb_render_length := render_total r\<rparr>)"

text \<open>The separator behind the last block is not counted.\<close>

fun statusline_width :: "status_block list \<Rightarrow> u32" where
  "statusline_width [] = 0"
| "statusline_width (b # bs) =
     (if sb_render_length b = 0 then statusline_width bs
      else sb_render_length b + (if bs = [] then 0 else sb_sep_block_width b) + statusline_width bs)"

definition predict_statusline_length :: "view_env \<Rightarrow> status_block list \<Rightarrow> u32 \<times> status_block list" where
  "predict_statusline_length v bs = (let bs = map (predict_block_length v) bs in (statusline_width bs, bs))"

definition switch_block_to_short :: "view_env \<Rightarrow> status_block \<Rightarrow> u32 \<times> status_block" where
  "switch_block_to_short v b =
     (if sb_short_text b = None \<or> sb_use_short b then (0, b)
      else let b' = predict_block_length v (b\<lparr>sb_use_short := True\<rparr>) in (sb_render_length b - sb_render_length b', b'))"

text \<open>The blocks for which \<open>p\<close> holds are shortened, in their order.\<close>

fun shorten :: "view_env \<Rightarrow> (status_block \<Rightarrow> bool) \<Rightarrow> status_block list \<Rightarrow> u32 \<Rightarrow> u32 \<times> status_block list" where
  "shorten v p [] w = (w, [])"
| "shorten v p (b # bs) w =
     (let (d, b') = (if p b then switch_block_to_short v b else (0, b));
          (w', bs') = shorten v p bs (w - d)
      in (w', b' # bs'))"

definition shorten_from :: "view_env \<Rightarrow> nat \<Rightarrow> status_block list \<Rightarrow> u32 \<Rightarrow> u32 \<times> status_block list" where
  "shorten_from v i bs w =
     (let (d, b') = switch_block_to_short v (bs ! i); bs = bs[i := b']; w = w - d
      in case sb_name b' of
           None \<Rightarrow> (w, bs)
         | Some name \<Rightarrow> shorten v (\<lambda>b. sb_name b = Some name) bs w)"

primrec adjust_loop :: "view_env \<Rightarrow> u32 \<Rightarrow> nat list \<Rightarrow> status_block list \<Rightarrow> u32 \<Rightarrow> u32 \<times> status_block list" where
  "adjust_loop v max_length [] bs w = (w, bs)"
| "adjust_loop v max_length (i # is) bs w =
     (if w < max_length then (w, bs)
      else case shorten_from v i bs w of (w, bs) \<Rightarrow> adjust_loop v max_length is bs w)"

definition adjust_statusline_length :: "view_env \<Rightarrow> u32 \<Rightarrow> status_block list \<Rightarrow> u32 \<times> status_block list" where
  "adjust_statusline_length v max_length bs =
     (case predict_statusline_length v bs of (w, bs) \<Rightarrow> adjust_loop v max_length [0..<length bs] bs w)"

subsection \<open>Colors\<close>

definition default_colors :: "(string \<times> string) list" where
  "default_colors =
     [(''bar_fg'', ''#FFFFFF''), (''bar_bg'', ''#000000''), (''sep_fg'', ''#666666''), (''active_ws_fg'', ''#FFFFFF''),
      (''active_ws_bg'', ''#333333''), (''active_ws_border'', ''#333333''), (''inactive_ws_fg'', ''#888888''),
      (''inactive_ws_bg'', ''#222222''), (''inactive_ws_border'', ''#333333''), (''urgent_ws_fg'', ''#FFFFFF''),
      (''urgent_ws_bg'', ''#900000''), (''urgent_ws_border'', ''#2f343a''), (''focus_ws_fg'', ''#FFFFFF''),
      (''focus_ws_bg'', ''#285577''), (''focus_ws_border'', ''#4c7899'')]"

definition fallback_colors :: "(string \<times> string) list" where
  "fallback_colors =
     [(''binding_mode_fg'', ''urgent_ws_fg''), (''binding_mode_bg'', ''urgent_ws_bg''),
      (''binding_mode_border'', ''urgent_ws_border''), (''focus_bar_fg'', ''bar_fg''), (''focus_bar_bg'', ''bar_bg''),
      (''focus_sep_fg'', ''sep_fg'')]"

definition or_default :: "'a \<Rightarrow> 'a option \<Rightarrow> 'a" where
  "or_default d x = (case x of None \<Rightarrow> d | Some y \<Rightarrow> y)"

definition base_color :: "view_env \<Rightarrow> (string \<Rightarrow> string option) \<Rightarrow> string \<Rightarrow> color_t" where
  "base_color v new name =
     draw_util_hex_to_color (ve_alloc_color v) (or_default (or_default [] (map_of default_colors name)) (new name))"

definition init_colors :: "view_env \<Rightarrow> (string \<Rightarrow> string option) \<Rightarrow> string \<Rightarrow> color_t" where
  "init_colors v new name =
     (case map_of fallback_colors name of
        None \<Rightarrow> base_color v new name
      | Some other \<Rightarrow> (case new name of None \<Rightarrow> base_color v new other
                       | Some c \<Rightarrow> draw_util_hex_to_color (ve_alloc_color v) c))"

subsection \<open>The state of the bars\<close>

text \<open>\<open>bv_mode\<close>: the binding mode that is shown, with its width; \<open>bv_tray_output\<close>: the name of the output that
  holds the tray; \<open>bv_selwin\<close>: whether the selection of the tray is owned; \<open>bv_count\<close>: how many ids were
  generated.\<close>

record bar_view =
  bv_bar :: bar_state
  bv_bar_height :: int
  bv_icon_size :: int
  bv_sep_width :: int
  bv_mod_pressed :: bool
  bv_activated_mode :: bool
  bv_mode :: "(i3String \<times> int) option"
  bv_tray_output :: "string option"
  bv_selwin :: bool
  bv_colors :: "string \<Rightarrow> color_t"
  bv_count :: nat
  bv_calls :: "bar_call list"

definition say :: "bar_call \<Rightarrow> bar_view \<Rightarrow> bar_view" where
  "say q b = b\<lparr>bv_calls := bv_calls b @ [q]\<rparr>"

definition say_all :: "bar_call list \<Rightarrow> bar_view \<Rightarrow> bar_view" where
  "say_all qs b = b\<lparr>bv_calls := bv_calls b @ qs\<rparr>"

definition on_bar_state :: "(bar_state \<Rightarrow> bar_state) \<Rightarrow> bar_view \<Rightarrow> bar_view" where
  "on_bar_state f b = b\<lparr>bv_bar := f (bv_bar b)\<rparr>"

abbreviation bv_config :: "bar_view \<Rightarrow> config_t" where
  "bv_config b \<equiv> bs_config (bv_bar b)"

abbreviation bv_outputs :: "bar_view \<Rightarrow> i3_output list" where
  "bv_outputs b \<equiv> bs_outputs (bv_bar b)"

abbreviation bv_blocks :: "bar_view \<Rightarrow> status_block list" where
  "bv_blocks b \<equiv> sl_head (bs_lines (bv_bar b))"

definition put_outputs :: "i3_output list \<Rightarrow> bar_view \<Rightarrow> bar_view" where
  "put_outputs outs = on_bar_state (\<lambda>st. st\<lparr>bs_outputs := outs\<rparr>)"

definition put_blocks :: "status_block list \<Rightarrow> bar_view \<Rightarrow> bar_view" where
  "put_blocks bs = on_bar_state (on_lines (\<lambda>sl. sl\<lparr>sl_head := bs\<rparr>))"

definition bar_workspace :: "bar_view \<Rightarrow> nat \<Rightarrow> i3_ws" where
  "bar_workspace b k = bs_wss (bv_bar b) k"

subsection \<open>Drawing the status line\<close>

definition text_y :: "view_env \<Rightarrow> bar_view \<Rightarrow> int" where
  "text_y v b = bv_bar_height b sdiv 2 - ve_font_height v sdiv 2"

definition draw_separator :: "view_env \<Rightarrow> bar_view \<Rightarrow> surface \<Rightarrow> bool \<Rightarrow> u32 \<Rightarrow> status_block \<Rightarrow> bool \<Rightarrow> bar_call list" where
  "draw_separator v b surf use_focus x blk is_last =
     (let fg = bv_colors b (if use_focus then ''focus_sep_fg'' else ''sep_fg'');
          bg = bv_colors b (if use_focus then ''focus_bar_bg'' else ''bar_bg'');
          off = get_sep_offset blk; center_x = x - off
      in if is_last \<or> off = 0 then []
         else case ct_separator_symbol (bv_config b) of
             None \<Rightarrow> [Draw_Rectangle surf fg (uint center_x) (bar_px v 4) (bar_px v 1) (bv_bar_height b - 2 * bar_px v 4)]
           | Some symbol \<Rightarrow>
               let sep_x = max (x - sb_sep_block_width blk) (center_x - word_of_int (bv_sep_width b sdiv 2))
               in [Draw_Text surf symbol fg bg (sint sep_x) (text_y v b) (sint (x - sep_x))])"

definition block_color :: "view_env \<Rightarrow> bar_view \<Rightarrow> bool \<Rightarrow> status_block \<Rightarrow> color_t" where
  "block_color v b use_focus blk =
     (if sb_urgent blk then bv_colors b ''urgent_ws_fg''
      else case sb_color blk of
          Some c \<Rightarrow> draw_util_hex_to_color (ve_alloc_color v) c
        | None \<Rightarrow> bv_colors b (if use_focus then ''focus_bar_fg'' else ''bar_fg''))"

definition block_decoration :: "view_env \<Rightarrow> bar_view \<Rightarrow> color_t \<Rightarrow> status_block \<Rightarrow> color_t \<times> color_t" where
  "block_decoration v b bar_color blk =
     (if sb_urgent blk then (bv_colors b ''urgent_ws_border'', bv_colors b ''urgent_ws_bg'')
      else (case sb_border blk of None \<Rightarrow> bar_color | Some c \<Rightarrow> draw_util_hex_to_color (ve_alloc_color v) c,
            case sb_background blk of None \<Rightarrow> bar_color | Some c \<Rightarrow> draw_util_hex_to_color (ve_alloc_color v) c))"

text \<open>The arithmetic is on unsigned words; a rectangle gets its position as an unsigned number, a text as a signed
  one.\<close>

definition draw_block :: "view_env \<Rightarrow> bar_view \<Rightarrow> surface \<Rightarrow> bool \<Rightarrow> u32 \<Rightarrow> status_block \<Rightarrow> bar_call list" where
  "draw_block v b surf use_focus x blk =
     (let bar_color = bv_colors b (if use_focus then ''focus_bar_bg'' else ''bar_bg'');
          r = block_render blk; full = sint (render_total r);
          border = (\<lambda>w. if sb_border blk = None then 0 else bar_px v (sint w));
          sides = border (sb_border_right blk + sb_border_left blk);
          decorated = sb_border blk \<noteq> None \<or> sb_background blk \<noteq> None \<or> sb_urgent blk;
          (border_color, bg_color) = (if decorated then block_decoration v b bar_color blk else (bar_color, bar_color))
      in (if decorated then
            [Draw_Rectangle surf border_color (uint x) (bar_px v 1) full (bv_bar_height b - bar_px v 2),
             Draw_Rectangle surf bg_color (uint (x + word_of_int (border (sb_border_left blk))))
               (bar_px v 1 + border (sb_border_top blk)) (full - sides)
               (bv_bar_height b - border (sb_border_bottom blk + sb_border_top blk) - bar_px v 2)]
          else []) @
         [Draw_Text surf (block_text blk) (block_color v b use_focus blk) bg_color
            (sint (x + rd_x_offset r + word_of_int (border (sb_border_left blk)))) (text_y v b)
            (sint (rd_width r - word_of_int (border (sb_border_left blk + sb_border_right blk))))])"

fun draw_blocks :: "view_env \<Rightarrow> bar_view \<Rightarrow> surface \<Rightarrow> bool \<Rightarrow> u32 \<Rightarrow> status_block list \<Rightarrow> bar_call list" where
  "draw_blocks v b surf use_focus x [] = []"
| "draw_blocks v b surf use_focus x (blk # bs) =
     (if is_text (block_text blk) = [] then draw_blocks v b surf use_focus x bs
      else let x' = x + render_total (block_render blk); x'' = (if bs = [] then x' else x' + sb_sep_block_width blk)
           in draw_block v b surf use_focus x blk @
              (if bs = [] then [] else draw_separator v b surf use_focus x'' blk False) @
              draw_blocks v b surf use_focus x'' bs)"

definition draw_statusline :: "view_env \<Rightarrow> i3_output \<Rightarrow> u32 \<Rightarrow> bool \<Rightarrow> bar_view \<Rightarrow> bar_view" where
  "draw_statusline v out clip_left use_focus b =
     (let surf = Surface_Statusline (bo_name out)
      in say_all (Draw_Clear surf (bv_colors b (if use_focus then ''focus_bar_bg'' else ''bar_bg'')) #
                  draw_blocks v b surf use_focus (0 - clip_left) (bv_blocks b)) b)"

subsection \<open>Hiding and showing\<close>

definition bar_y :: "bar_view \<Rightarrow> i3_output \<Rightarrow> int" where
  "bar_y b out =
     (if ct_position (bv_config b) = POS_TOP then br_y (bo_rect out)
      else br_y (bo_rect out) + br_h (bo_rect out) - bv_bar_height b)"

definition hide_bars :: "bar_view \<Rightarrow> bar_view" where
  "hide_bars b =
     (let c = bv_config b
      in if ct_hide_on_modifier c = M_DOCK \<or> ct_hidden_state c = S_SHOW \<and> ct_hide_on_modifier c = M_HIDE then b
         else on_bar_state stop_children
                (say_all (map (\<lambda>w. Unmap_Window (bo_bar w)) (filter bo_active (bv_outputs b))) b))"

definition unhide_bars :: "bar_view \<Rightarrow> bar_view" where
  "unhide_bars b =
     (if ct_hide_on_modifier (bv_config b) \<noteq> M_HIDE then b
      else let b = on_bar_state cont_children b
           in say_all (concat (map (\<lambda>w. [Configure_Bar (bo_bar w) (br_x (bo_rect w)) (bar_y b w) (br_w (bo_rect w)) (bv_bar_height b),
                                         Map_Window (bo_bar w)])
                  (filter (\<lambda>w. bo_bar w \<noteq> 0) (bv_outputs b)))) b)"

subsection \<open>Clicks\<close>

definition bar_command :: "string \<Rightarrow> bar_view \<Rightarrow> bar_view" where
  "bar_command command = say (Send_Msg ''RUN_COMMAND'' command)"

definition execute_custom_command :: "int \<Rightarrow> bool \<Rightarrow> bar_view \<Rightarrow> bool \<times> bar_view" where
  "execute_custom_command code is_release b =
     (case find (\<lambda>k. bi_input_code k = code \<and> bi_release k = is_release) (ct_bindings (bv_config b)) of
        None \<Rightarrow> (False, b)
      | Some k \<Rightarrow> (True, bar_command (or_default [] (bi_command k)) b))"

text \<open>The button event: the button, whether it is a release, the position in the bar and on the screen, the
  modifiers.\<close>

record bar_button =
  bb_window :: u32
  bb_detail :: int
  bb_release :: bool
  bb_event_x :: int
  bb_event_y :: int
  bb_root_x :: int
  bb_root_y :: int
  bb_state :: u32

text \<open>The block at a position of the status line: its index and the position in it.\<close>

fun block_at :: "u32 \<Rightarrow> u32 \<Rightarrow> status_block list \<Rightarrow> (status_block \<times> u32) option" where
  "block_at x last_x [] = None"
| "block_at x last_x (b # bs) =
     (if is_text (block_text b) = [] then block_at x last_x bs
      else let w = render_total (block_render b); last_x' = last_x + (w + sb_sep_block_width b)
           in if x - last_x \<le> w then Some (b, x - last_x)
              else if last_x' > x then None
              else block_at x last_x' bs)"

definition child_handle_button :: "view_env \<Rightarrow> bar_button \<Rightarrow> i3_output \<Rightarrow> u32 \<Rightarrow> u32 \<Rightarrow> bar_view \<Rightarrow> bar_view" where
  "child_handle_button v e out x y b =
     (if x > word_of_int (bo_statusline_width out) then b
      else case block_at x 0 (bv_blocks b) of
          None \<Rightarrow> b
        | Some (blk, rel) \<Rightarrow>
            on_bar_state (send_block_clicked (ve_bar v)
              \<lparr>bk_button = bb_detail e, bk_name = sb_name blk, bk_instance = sb_instance blk, bk_x = bb_root_x e,
               bk_y = bb_root_y e, bk_x_rel = sint rel, bk_y_rel = bb_event_y e, bk_out_x = bb_event_x e,
               bk_out_y = sint (y + word_of_int (bb_event_y e)), bk_width = sint (render_total (block_render blk)),
               bk_height = bv_bar_height b, bk_mods = bb_state e\<rparr>) b)"

definition predict_button_width :: "view_env \<Rightarrow> config_t \<Rightarrow> int \<Rightarrow> int" where
  "predict_button_width v config name_width =
     max (name_width + 2 * bar_px v 4 + 2 * bar_px v 1) (bar_px v (ct_ws_min_width config))"

definition quote_workspace_name :: "string \<Rightarrow> string" where
  "quote_workspace_name name =
     ''workspace '' @ [CHR 0x22] @
     concat (map (\<lambda>c. if c = CHR 0x22 \<or> c = CHR 0x5C then [CHR 0x5C, c] else [c]) name) @ [CHR 0x22]"

definition focus_workspace :: "i3_ws \<Rightarrow> bar_view \<Rightarrow> bar_view" where
  "focus_workspace ws b =
     (if iw_id ws \<noteq> 0 then bar_command (''[con_id='' @ print_int (iw_id ws) @ ''] focus workspace'') b
      else case iw_canonical_name ws of None \<Rightarrow> b | Some name \<Rightarrow> bar_command (quote_workspace_name name) b)"

text \<open>The buttons: the width of all of them, the one at \<open>x\<close>, the last visible workspace (with their keys).\<close>

fun scan_buttons :: "view_env \<Rightarrow> bar_view \<Rightarrow> int \<Rightarrow> nat list \<Rightarrow> int \<times> nat option \<times> nat option \<Rightarrow> int \<times> nat option \<times> nat option" where
  "scan_buttons v b x [] r = r"
| "scan_buttons v b x (k # ks) (width, clicked, cur) =
     (let ws = bar_workspace b k; w = predict_button_width v (bv_config b) (iw_name_width ws);
          clicked = (if x \<ge> width \<and> x \<le> width + w then Some k else clicked);
          cur = (if iw_visible ws then Some k else cur)
      in scan_buttons v b x ks (width + w + (if ks = [] then 0 else bar_px v 1), clicked, cur))"

definition next_button :: "nat list \<Rightarrow> nat \<Rightarrow> bool \<Rightarrow> nat option" where
  "next_button ks k back =
     (let i = length (takeWhile (\<lambda>j. j \<noteq> k) ks)
      in if back then (if i = 0 then None else Some (ks ! (i - 1)))
         else if i + 1 < length ks then Some (ks ! (i + 1)) else None)"

text \<open>The workspace that a button goes to.\<close>

definition button_target :: "bar_view \<Rightarrow> i3_output \<Rightarrow> int \<Rightarrow> nat option \<Rightarrow> nat \<Rightarrow> nat option" where
  "button_target b out button clicked cur =
     (if button = 4 \<or> button = 6 then next_button (bo_workspaces out) cur True
      else if button = 5 \<or> button = 7 then next_button (bo_workspaces out) cur False
      else if button = 1 then
        (case clicked of
           Some k \<Rightarrow> Some k
         | None \<Rightarrow> find (\<lambda>k. iw_visible (bar_workspace b k) \<and> \<not> iw_focused (bar_workspace b k)) (bo_workspaces out))
      else None)"

definition statusline_offset :: "view_env \<Rightarrow> bar_view \<Rightarrow> i3_output \<Rightarrow> int" where
  "statusline_offset v b out =
     (let tray = get_tray_width v (bv_config b) (bv_icon_size b) (bo_trayclients out)
      in br_w (bo_rect out) - bo_statusline_width out - tray - bar_px v (if tray > 0 then 4 else 0))"

definition handle_button :: "view_env \<Rightarrow> bar_button \<Rightarrow> bar_view \<Rightarrow> bar_view" where
  "handle_button v e b =
     (case find (\<lambda>w. bo_bar w = bb_window e) (bv_outputs b) of
        None \<Rightarrow> b
      | Some out \<Rightarrow>
          let x = max (bb_event_x e) 0 - bar_px v (sint (rect_x (ct_padding (bv_config b))))
          in if x < 0 then b
             else (case scan_buttons v b x (bo_workspaces out) (0, None, None) of (width, clicked, cur) \<Rightarrow>
               let off = statusline_offset v b out
               in if cc_click_events (bs_status (bv_bar b)) \<and> x > width \<and> x \<ge> off then
                    (if bb_release e then b
                     else child_handle_button v e out (word_of_int (x - off))
                            (word_of_int (bb_root_y e - br_y (bo_rect out) - bb_event_y e)) b)
                  else (case execute_custom_command (bb_detail e) (bb_release e) b of (done, b) \<Rightarrow>
                    if done \<or> bb_release e then b
                    else (case cur of
                        None \<Rightarrow> b
                      | Some k \<Rightarrow>
                          (case button_target b out (bb_detail e) clicked k of
                             None \<Rightarrow> b
                           | Some t \<Rightarrow> focus_workspace (bar_workspace b t) b)))))"

definition handle_visibility_notify :: "u32 \<Rightarrow> bool \<Rightarrow> bar_view \<Rightarrow> bar_view" where
  "handle_visibility_notify w visible b =
     (let outs = map (\<lambda>out. if bo_active out \<and> bo_bar out = w then out\<lparr>bo_visible := visible\<rparr> else out) (bv_outputs b);
          b = put_outputs outs b
      in on_bar_state (if list_ex (\<lambda>out. bo_active out \<and> bo_visible out) outs then cont_children else stop_children) b)"

subsection \<open>The tray\<close>

definition reorder_trayclients_cmp :: "trayclient \<Rightarrow> trayclient \<Rightarrow> int" where
  "reorder_trayclients_cmp a b =
     (let result = strcasecmp_nullable (tc_class a) (tc_class b)
      in if result \<noteq> 0 then result else strcasecmp_nullable (tc_instance a) (tc_instance b))"

text \<open>\<open>qsort\<close> as an insertion sort, which keeps the order of equal clients.\<close>

fun insert_client :: "trayclient \<Rightarrow> trayclient list \<Rightarrow> trayclient list" where
  "insert_client a [] = [a]"
| "insert_client a (b # bs) = (if reorder_trayclients_cmp a b \<le> 0 then a # b # bs else b # insert_client a bs)"

definition sort_clients :: "trayclient list \<Rightarrow> trayclient list" where
  "sort_clients cs = foldr insert_client cs []"

text \<open>From the last client to the first, each to the left of the one before.\<close>

fun client_positions :: "u32 \<Rightarrow> u32 \<Rightarrow> trayclient list \<Rightarrow> bar_call list" where
  "client_positions step x [] = []"
| "client_positions step x (c # cs) = Configure_Client (tc_win c) (x - step) # client_positions step (x - step) cs"

definition configure_trayclients :: "view_env \<Rightarrow> bar_view \<Rightarrow> bar_view" where
  "configure_trayclients v b =
     (let step = word_of_int (bv_icon_size b + bar_px v (ct_tray_padding (bv_config b)))
      in say_all (concat (map (\<lambda>out. client_positions step (word_of_int (br_w (bo_rect out)))
                                 (rev (sort_clients (filter tc_mapped (bo_trayclients out)))))
            (filter bo_active (bv_outputs b)))) b)"

definition trayclient_and_output_from_window :: "u32 \<Rightarrow> bar_view \<Rightarrow> (trayclient \<times> i3_output) option" where
  "trayclient_and_output_from_window win b =
     (case find (\<lambda>out. bo_active out \<and> list_ex (\<lambda>c. tc_win c = win) (bo_trayclients out)) (bv_outputs b) of
        None \<Rightarrow> None
      | Some out \<Rightarrow> map_option (\<lambda>c. (c, out)) (find (\<lambda>c. tc_win c = win) (bo_trayclients out)))"

text \<open>The clients of that output are changed.\<close>

definition on_clients :: "i3_output \<Rightarrow> (trayclient list \<Rightarrow> trayclient list) \<Rightarrow> bar_view \<Rightarrow> bar_view" where
  "on_clients out f b =
     put_outputs (update_output (\<lambda>w. bo_name w = bo_name out) (\<lambda>w. w\<lparr>bo_trayclients := f (bo_trayclients w)\<rparr>) (bv_outputs b)) b"

fun on_client_window :: "u32 \<Rightarrow> (trayclient \<Rightarrow> trayclient) \<Rightarrow> trayclient list \<Rightarrow> trayclient list" where
  "on_client_window win f [] = []"
| "on_client_window win f (c # cs) = (if tc_win c = win then f c # cs else c # on_client_window win f cs)"

fun remove_client :: "u32 \<Rightarrow> trayclient list \<Rightarrow> trayclient list" where
  "remove_client win [] = []"
| "remove_client win (c # cs) = (if tc_win c = win then cs else c # remove_client win cs)"

text \<open>The property \<open>WM_CLASS\<close>: two strings, each ended by a zero byte.\<close>

definition trayclient_update_class :: "string option \<Rightarrow> trayclient \<Rightarrow> trayclient" where
  "trayclient_update_class prop c =
     (case prop of
        None \<Rightarrow> c
      | Some p \<Rightarrow>
          if p = [] then c
          else let k = length (c_string p) + 1
               in c\<lparr>tc_instance := Some (c_string p), tc_class := (if k < length p then Some (c_string (drop k p)) else None)\<rparr>)"

definition tray_changed :: "view_env \<Rightarrow> bar_view \<Rightarrow> bar_view" where
  "tray_changed v b = on_bar_state (want_draw False) (configure_trayclients v b)"

definition handle_destroy_notify :: "view_env \<Rightarrow> u32 \<Rightarrow> bar_view \<Rightarrow> bar_view" where
  "handle_destroy_notify v win b =
     (case trayclient_and_output_from_window win b of
        None \<Rightarrow> b
      | Some (c, out) \<Rightarrow> tray_changed v (on_clients out (remove_client win) b))"

definition set_mapped :: "view_env \<Rightarrow> bool \<Rightarrow> u32 \<Rightarrow> bar_view \<Rightarrow> bar_view" where
  "set_mapped v m win b =
     (case trayclient_and_output_from_window win b of
        None \<Rightarrow> b
      | Some (c, out) \<Rightarrow> tray_changed v (on_clients out (on_client_window win (\<lambda>c. c\<lparr>tc_mapped := m\<rparr>)) b))"

definition handle_map_notify :: "view_env \<Rightarrow> u32 \<Rightarrow> bar_view \<Rightarrow> bar_view" where
  "handle_map_notify v = set_mapped v True"

definition handle_unmap_notify :: "view_env \<Rightarrow> u32 \<Rightarrow> bar_view \<Rightarrow> bar_view" where
  "handle_unmap_notify v = set_mapped v False"

text \<open>The property \<open>_XEMBED_INFO\<close> as its words; the second one is read also if there is only one: then what is
  behind it is read, here the error of the model.\<close>

definition xembed_maps :: "u32 list \<Rightarrow> bool option" where
  "xembed_maps ws = (if length ws < 2 then None else Some ((ws ! 1) AND 1 = 1))"

definition overread :: "bar_view \<Rightarrow> bar_view" where
  "overread = on_bar_state (on_lines (\<lambda>sl. sl\<lparr>sl_crashed := True\<rparr>))"

definition handle_xembed_info :: "u32 list option \<Rightarrow> u32 \<Rightarrow> bar_view \<Rightarrow> bar_view" where
  "handle_xembed_info info win b =
     (case trayclient_and_output_from_window win b of
        None \<Rightarrow> b
      | Some (c, out) \<Rightarrow>
          (case info of
             None \<Rightarrow> b
           | Some ws \<Rightarrow>
               if ws = [] then b
               else (case xembed_maps ws of
                   None \<Rightarrow> overread b
                 | Some m \<Rightarrow> if tc_mapped c \<and> \<not> m then say (Unmap_Window win) b
                             else if \<not> tc_mapped c \<and> m then say (Map_Window win) b else b)))"

definition tray_class_change :: "string option \<Rightarrow> u32 \<Rightarrow> bar_view \<Rightarrow> bar_view" where
  "tray_class_change prop win b =
     (case trayclient_and_output_from_window win b of
        None \<Rightarrow> b
      | Some (c, out) \<Rightarrow> on_clients out (on_client_window win (trayclient_update_class prop)) b)"

text \<open>The output that holds the tray, by its name. \<close>

definition get_tray_output :: "bar_view \<Rightarrow> i3_output option" where
  "get_tray_output b =
     (let active = filter bo_active (bv_outputs b);
          serves = (\<lambda>t w. (case bo_name w of None \<Rightarrow> False | Some n \<Rightarrow> caseless_eq n t) \<or> caseless_eq t ''primary'' \<and> bo_primary w)
      in case ct_tray_outputs (bv_config b) of
           [] \<Rightarrow> find (\<lambda>w. True) active
         | t # ts \<Rightarrow>
             if caseless_eq t ''none'' then None
             else case find (\<lambda>t. list_ex (serves t) active) (t # ts) of
                 None \<Rightarrow> None
               | Some t \<Rightarrow> find (serves t) active)"

text \<open>A client asks to be docked: its property \<open>_XEMBED_INFO\<close> (an error, or the words if it is set), whether
  it could be reparented, its class.\<close>

record dock_request =
  dq_client :: u32
  dq_info_error :: bool
  dq_info :: "u32 list option"
  dq_reparented :: bool
  dq_class :: "string option"

definition dock_client :: "view_env \<Rightarrow> dock_request \<Rightarrow> bool \<Rightarrow> int \<Rightarrow> i3_output \<Rightarrow> bar_view \<Rightarrow> bar_view" where
  "dock_client v q map_it xe_version out b =
     (let c = dq_client q; pad = bar_px v (ct_tray_padding (bv_config b));
          b = say (Reparent_Client c (bo_bar out) (br_w (bo_rect out) - bv_icon_size b - pad)) b
      in if \<not> dq_reparented q then b
         else let b = say_all [Resize_Client c (bv_icon_size b), Embedded_Notify c (bo_bar out) xe_version, Save_Set c] b;
                  tc = trayclient_update_class (dq_class q)
                    \<lparr>tc_win = c, tc_mapped = False, tc_xe_version = xe_version, tc_class = None, tc_instance = None\<rparr>;
                  b = on_clients out (\<lambda>cs. cs @ [tc]) b;
                  b = (if map_it then say (Map_Window c) b else b)
              in tray_changed v b)"

definition handle_dock_request :: "view_env \<Rightarrow> dock_request \<Rightarrow> bar_view \<Rightarrow> bar_view" where
  "handle_dock_request v q b =
     (if dq_info_error q then b
      else let words = or_default [] (dq_info q)
           in if length words = 1 then overread b
              else let map_it = (words = [] \<or> (words ! 1) AND 1 = 1);
                       xe_version = (if words = [] then 1 else min (sint (words ! 0)) 1)
                   in case bv_tray_output b of
                        None \<Rightarrow> b
                      | Some name \<Rightarrow>
                          (case find (\<lambda>w. bo_name w = Some name) (bv_outputs b) of
                             None \<Rightarrow> b
                           | Some out \<Rightarrow> dock_client v q map_it xe_version out b))"

definition handle_sync :: "u32 \<Rightarrow> u32 \<Rightarrow> bar_view \<Rightarrow> bar_view" where
  "handle_sync win rnd =
     say (Send_Msg ''SYNC'' (''{'' @ [CHR 0x22] @ ''rnd'' @ [CHR 0x22] @ '':'' @ print_int (sint rnd) @ '', '' @ [CHR 0x22] @
       ''window'' @ [CHR 0x22] @ '':'' @ print_int (sint win) @ ''}''))"

text \<open>The position counts the mapped clients from the last one.\<close>

definition handle_configuration_change :: "view_env \<Rightarrow> u32 \<Rightarrow> bar_view \<Rightarrow> bar_view" where
  "handle_configuration_change v win b =
     (case find (\<lambda>out. bo_active out \<and> list_ex (\<lambda>c. tc_mapped c \<and> tc_win c = win) (bo_trayclients out)) (bv_outputs b) of
        None \<Rightarrow> b
      | Some out \<Rightarrow>
          let mapped = rev (filter tc_mapped (bo_trayclients out));
              n = length (takeWhile (\<lambda>c. tc_win c \<noteq> win) mapped) + 1;
              pad = bar_px v (ct_tray_padding (bv_config b));
              x = sint (word_of_int (br_w (bo_rect out) - int n * (bv_icon_size b + pad)) :: 16 word)
          in say (Configure_Notify win x pad) b)"

subsection \<open>Windows\<close>

definition init_xcb_late :: "view_env \<Rightarrow> bar_view \<Rightarrow> bar_view" where
  "init_xcb_late v b =
     (let c = bv_config b; pad = ct_padding c;
          default_px = ve_font_height v + 2 * bar_px v 3;
          scaled = (if ct_bar_height c > 0 \<and> pad = \<lparr>rect_x = 0, rect_y = 0, rect_width = 0, rect_height = 0\<rparr>
                    then sint (ct_bar_height c) - default_px
                    else bar_px v (sint (rect_y pad)) + bar_px v (sint (rect_height pad)));
          height = default_px + scaled;
          b = b\<lparr>bv_bar_height := height, bv_icon_size := height - 2 * bar_px v (ct_tray_padding c),
                bv_sep_width := (case ct_separator_symbol c of None \<Rightarrow> bv_sep_width b
                                 | Some symbol \<Rightarrow> be_text_width (ve_bar v) symbol)\<rparr>
      in if ct_hide_on_modifier c = M_HIDE then say (Grab_Keyevents True) b else b)"

definition init_tray_colors :: "bar_view \<Rightarrow> bar_view" where
  "init_tray_colors b =
     (let fg = or_default ''#FFFFFF'' (ct_colors (bv_config b) ''bar_fg'');
          part = (\<lambda>i. let n = ucast (word_of_int (hex_group (take 2 (drop i fg))) :: 8 word) :: 16 word
                      in ucast (push_bit 8 n OR n) :: u32)
      in say (Tray_Colors (concat (replicate 4 [part 1, part 3, part 5]))) b)"

definition kick_tray_clients :: "i3_output \<Rightarrow> bar_view \<Rightarrow> bar_view" where
  "kick_tray_clients out b =
     (if bo_trayclients out = [] then b
      else say Tray_Announce
             (on_clients out (\<lambda>cs. [])
               (say_all (concat (map (\<lambda>c. [Unmap_Window (tc_win c), Reparent_Client (tc_win c) 0 0]) (bo_trayclients out))) b)))"

definition update_bar :: "i3_output \<Rightarrow> (i3_output \<Rightarrow> i3_output) \<Rightarrow> bar_view \<Rightarrow> bar_view" where
  "update_bar out f b = put_outputs (update_output (\<lambda>w. bo_name w = bo_name out) f (bv_outputs b)) b"

definition destroy_window :: "i3_output \<Rightarrow> bar_view \<Rightarrow> bar_view" where
  "destroy_window out b =
     (if bo_bar out = 0 then b
      else update_bar out (\<lambda>w. w\<lparr>bo_bar := 0\<rparr>) (say (Destroy_Bar (bo_bar out)) (kick_tray_clients out b)))"

text \<open>left, right, top, bottom, and the start and end of each.\<close>

definition config_strut_partial :: "bar_view \<Rightarrow> i3_output \<Rightarrow> bar_call" where
  "config_strut_partial b out =
     (let h = word_of_int (bv_bar_height b); x = word_of_int (br_x (bo_rect out));
          e = word_of_int (br_x (bo_rect out) + br_w (bo_rect out))
      in Strut_Partial (bo_bar out)
           (case ct_position (bv_config b) of
              POS_NONE \<Rightarrow> replicate 12 0
            | POS_TOP \<Rightarrow> [0, 0, h, 0, 0, 0, 0, 0, x, e, 0, 0]
            | POS_BOT \<Rightarrow> [0, 0, 0, h, 0, 0, 0, 0, 0, 0, x, e]))"

text \<open>A bar is created for an active output that has none; the answers of the X server to the requests are taken
  to be good.\<close>

definition create_bar :: "view_env \<Rightarrow> i3_output \<Rightarrow> bar_view \<Rightarrow> bar_view" where
  "create_bar v out b =
     (let w = ve_ids v (bv_count b); r = bo_rect out; dock = (ct_hide_on_modifier (bv_config b) = M_DOCK);
          b = b\<lparr>bv_count := bv_count b + 1\<rparr>;
          b = say (Create_Bar w (br_x r) (br_y r + br_h r - bv_bar_height b) (br_w r) (bv_bar_height b) dock) b;
          b = update_bar out (\<lambda>o'. o'\<lparr>bo_bar := w, bo_visible := (dock \<or> bo_visible o')\<rparr>) b;
          b = say (config_strut_partial b (out\<lparr>bo_bar := w\<rparr>)) b
      in if dock then say (Map_Window w) b else b)"

definition reconfigure_bar :: "bool \<Rightarrow> i3_output \<Rightarrow> bar_view \<Rightarrow> bar_view" where
  "reconfigure_bar redraw out b =
     (let w = bo_bar out; mode = ct_hide_on_modifier (bv_config b);
          b = say_all [config_strut_partial b out,
                Configure_Bar w (br_x (bo_rect out)) (bar_y b out) (br_w (bo_rect out)) (bv_bar_height b),
                Override_Redirect w (mode \<noteq> M_DOCK)] b
      in if \<not> redraw then b
         else let b = say (Unmap_Window w) b;
                  b = (if mode = M_DOCK then say (Map_Window w) (on_bar_state cont_children b) else on_bar_state stop_children b)
              in say (Grab_Keyevents (mode = M_HIDE)) b)"

definition reconfig_window :: "view_env \<Rightarrow> bool \<Rightarrow> nat \<Rightarrow> bar_view \<Rightarrow> bar_view" where
  "reconfig_window v redraw i b =
     (let out = bv_outputs b ! i
      in if \<not> bo_active out then destroy_window out b
         else if bo_bar out = 0 then create_bar v out b
         else reconfigure_bar redraw out b)"

definition reconfig_windows :: "view_env \<Rightarrow> bool \<Rightarrow> bar_view \<Rightarrow> bar_view" where
  "reconfig_windows v redraw b =
     (let b = fold (reconfig_window v redraw) [0..<length (bv_outputs b)] b;
          tray = get_tray_output b;
          b = b\<lparr>bv_tray_output := Option.bind tray bo_name\<rparr>
      in if tray \<noteq> None \<and> \<not> bv_selwin b then say (Tray_Selection True) (b\<lparr>bv_selwin := True\<rparr>)
         else if tray = None \<and> bv_selwin b then say (Tray_Selection False) (b\<lparr>bv_selwin := False\<rparr>)
         else b)"

subsection \<open>Drawing the bars\<close>

definition draw_button ::
  "view_env \<Rightarrow> bar_view \<Rightarrow> surface \<Rightarrow> color_t \<Rightarrow> color_t \<Rightarrow> color_t \<Rightarrow> int \<Rightarrow> int \<Rightarrow> int \<Rightarrow> i3String \<Rightarrow> bar_call list" where
  "draw_button v b surf fg bg border x w text_w text =
     (let h = bv_bar_height b - 2 * bar_px v 1
      in [Draw_Rectangle surf border x (bar_px v 1) w h,
          Draw_Rectangle surf bg (x + bar_px v 1) (2 * bar_px v 1) (w - 2 * bar_px v 1) (h - 2 * bar_px v 1),
          Draw_Text surf text fg bg (x + (w - text_w) sdiv 2) (text_y v b) text_w])"

text \<open>The prefix of the colors of a workspace's button.\<close>

definition button_class :: "i3_ws \<Rightarrow> string" where
  "button_class ws =
     (if iw_urgent ws then ''urgent_ws'' else if \<not> iw_visible ws then ''inactive_ws''
      else if iw_focused ws then ''focus_ws'' else ''active_ws'')"

fun draw_buttons :: "view_env \<Rightarrow> bar_view \<Rightarrow> surface \<Rightarrow> int \<Rightarrow> nat list \<Rightarrow> int \<times> bar_call list" where
  "draw_buttons v b surf x [] = (x, [])"
| "draw_buttons v b surf x (k # ks) =
     (let ws = bar_workspace b k; c = button_class ws; w = predict_button_width v (bv_config b) (iw_name_width ws);
          (x', calls) = draw_buttons v b surf (x + w + (if ks = [] then 0 else bar_px v 1)) ks
      in (x', draw_button v b surf (bv_colors b (c @ ''_fg'')) (bv_colors b (c @ ''_bg'')) (bv_colors b (c @ ''_border''))
                x w (iw_name_width ws) (or_default (from_utf8 []) (iw_name ws)) @ calls))"

definition output_has_focus :: "bar_view \<Rightarrow> i3_output \<Rightarrow> bool" where
  "output_has_focus b out \<longleftrightarrow> list_ex (\<lambda>k. iw_focused (bar_workspace b k)) (bo_workspaces out)"

definition draw_mode :: "view_env \<Rightarrow> surface \<Rightarrow> int \<times> bool \<times> bar_view \<Rightarrow> int \<times> bool \<times> bar_view" where
  "draw_mode v surf r =
     (case r of (x, unhide, b) \<Rightarrow>
        (case bv_mode b of
           Some (name, name_width) \<Rightarrow>
             if ct_disable_binding_mode_indicator (bv_config b) then r
             else let x = x + bar_px v 1; w = predict_button_width v (bv_config b) name_width
                  in (x + w, True, say_all (draw_button v b surf (bv_colors b ''binding_mode_fg'') (bv_colors b ''binding_mode_bg'')
                                       (bv_colors b ''binding_mode_border'') x w name_width name) b)
         | None \<Rightarrow> r))"

text \<open>How wide the status line may be, what is cut off on its left, how much is visible, and where.\<close>

definition max_statusline :: "view_env \<Rightarrow> bar_view \<Rightarrow> i3_output \<Rightarrow> int \<Rightarrow> u32" where
  "max_statusline v b out ws_width =
     (let tray = get_tray_width v (bv_config b) (bv_icon_size b) (bo_trayclients out);
          hoff = bar_px v (((if ws_width > 0 then 1 else 0) + (if tray > 0 then 1 else 0)) * 4)
      in word_of_int (br_w (bo_rect out) - ws_width - tray) - word_of_int hoff)"

definition visible_statusline :: "u32 \<Rightarrow> u32 \<Rightarrow> int" where
  "visible_statusline w max_w = sint (ucast (min w max_w) :: 16 word)"

definition statusline_x :: "view_env \<Rightarrow> bar_view \<Rightarrow> i3_output \<Rightarrow> int \<Rightarrow> int" where
  "statusline_x v b out visible =
     (let tray = get_tray_width v (bv_config b) (bv_icon_size b) (bo_trayclients out)
      in br_w (bo_rect out) - tray - bar_px v (if tray > 0 then 4 else 0) - visible
         - bar_px v (sint (rect_width (ct_padding (bv_config b)))))"

definition draw_status :: "view_env \<Rightarrow> i3_output \<Rightarrow> bool \<Rightarrow> int \<Rightarrow> bar_view \<Rightarrow> bar_view" where
  "draw_status v out use_focus ws_width b =
     (if bv_blocks b = [] then b
      else let max_w = max_statusline v b out ws_width;
               (w, bs) = adjust_statusline_length v max_w (map (\<lambda>k. k\<lparr>sb_use_short := False\<rparr>) (bv_blocks b));
               clip = (if w > max_w then w - max_w else 0);
               visible = visible_statusline w max_w;
               b = draw_statusline v out clip use_focus (put_blocks bs b);
               b = say (Draw_Copy (Surface_Statusline (bo_name out)) (Surface_Buffer (bo_name out)) (statusline_x v b out visible) visible) b
           in update_bar out (\<lambda>w'. w'\<lparr>bo_statusline_width := sint w\<rparr>) b)"

definition draw_bar :: "view_env \<Rightarrow> nat \<Rightarrow> bool \<times> bar_view \<Rightarrow> bool \<times> bar_view" where
  "draw_bar v i ub =
     (case ub of (unhide, b) \<Rightarrow>
        if \<not> bo_active (bv_outputs b ! i) then (unhide, b)
        else let b = (if bo_bar (bv_outputs b ! i) = 0 then reconfig_windows v False b else b);
                 out = bv_outputs b ! i; surf = Surface_Buffer (bo_name out);
                 use_focus = output_has_focus b out;
                 b = say (Draw_Clear surf (bv_colors b (if use_focus then ''focus_bar_bg'' else ''bar_bg''))) b;
                 x = bar_px v (sint (rect_x (ct_padding (bv_config b))));
                 shows = \<not> ct_disable_ws (bv_config b);
                 (x, calls) = (if shows then draw_buttons v b surf x (bo_workspaces out) else (x, []));
                 unhide = (unhide \<or> shows \<and> list_ex (\<lambda>k. iw_urgent (bar_workspace b k)) (bo_workspaces out));
                 (x, unhide, b) = draw_mode v surf (x, unhide, say_all calls b)
             in (unhide, draw_status v out use_focus x b))"

definition redraw_bars :: "bar_view \<Rightarrow> bar_view" where
  "redraw_bars b =
     say_all (map (\<lambda>out. Draw_Copy (Surface_Buffer (bo_name out)) (Surface_Bar (bo_name out)) 0 (br_w (bo_rect out)))
       (filter bo_active (bv_outputs b))) b"

definition draw_bars :: "view_env \<Rightarrow> bool \<Rightarrow> bar_view \<Rightarrow> bar_view" where
  "draw_bars v unhide b =
     (case fold (draw_bar v) [0..<length (bv_outputs b)] (unhide, b) of (unhide, b) \<Rightarrow>
        redraw_bars
          (if bv_mod_pressed b \<or> ct_hidden_state (bv_config b) = S_SHOW \<or> unhide then unhide_bars b
           else if ct_hide_on_modifier (bv_config b) = M_HIDE then hide_bars b else b))"

definition set_current_mode :: "(i3String \<times> int) option \<Rightarrow> bar_view \<Rightarrow> bar_view" where
  "set_current_mode mode b = b\<lparr>bv_mode := mode, bv_activated_mode := (mode \<noteq> None)\<rparr>"

subsection \<open>Events\<close>

definition handle_xkb_state :: "u32 \<Rightarrow> bool \<Rightarrow> bar_view \<Rightarrow> bar_view" where
  "handle_xkb_state mods is_state_notify b =
     (let modifier = ct_modifier (bv_config b); m = modifier AND 0xFFFF;
          pressed = (m \<noteq> 0 \<and> mods AND m = m)
      in if pressed = bv_mod_pressed b then b
         else let b = b\<lparr>bv_mod_pressed := pressed\<rparr>
              in if \<not> is_state_notify \<or> modifier = 0 then b
                 else if pressed then unhide_bars (b\<lparr>bv_activated_mode := False\<rparr>)
                 else if \<not> bv_activated_mode b then hide_bars b else b)"

datatype bar_event =
    Ev_Xkb u32 bool | Ev_Visibility u32 bool | Ev_Expose | Ev_Button bar_button | Ev_Sync u32 u32 | Ev_Dock dock_request
  | Ev_Destroy u32 | Ev_Map u32 | Ev_Unmap u32 | Ev_Xembed u32 "u32 list option" | Ev_Class u32 "string option"
  | Ev_Configure u32 | Ev_Other

text \<open>The calls of \<open>draw_bars\<close> that the handlers and the children ask for.\<close>

definition perform_draws :: "view_env \<Rightarrow> bar_view \<Rightarrow> bar_view" where
  "perform_draws v b = fold (draw_bars v) (bs_draws (bv_bar b)) (on_bar_state (\<lambda>st. st\<lparr>bs_draws := []\<rparr>) b)"

definition bar_event_step :: "view_env \<Rightarrow> bar_event \<Rightarrow> bar_view \<Rightarrow> bar_view" where
  "bar_event_step v e b =
     perform_draws v (case e of
        Ev_Xkb mods n \<Rightarrow> handle_xkb_state mods n b
      | Ev_Visibility w vis \<Rightarrow> handle_visibility_notify w vis b
      | Ev_Expose \<Rightarrow> redraw_bars b
      | Ev_Button k \<Rightarrow> handle_button v k b
      | Ev_Sync win rnd \<Rightarrow> handle_sync win rnd b
      | Ev_Dock q \<Rightarrow> handle_dock_request v q b
      | Ev_Destroy w \<Rightarrow> handle_destroy_notify v w b
      | Ev_Map w \<Rightarrow> handle_map_notify v w b
      | Ev_Unmap w \<Rightarrow> handle_unmap_notify v w b
      | Ev_Xembed w info \<Rightarrow> handle_xembed_info info w b
      | Ev_Class w prop \<Rightarrow> tray_class_change prop w b
      | Ev_Configure w \<Rightarrow> handle_configuration_change v w b
      | Ev_Other \<Rightarrow> b)"

end
