(* ===== verification/Bar_Clicks.thy ===== *)
theory Bar_Clicks
  imports Bar_View
begin

text \<open>
  Properties of theory \<^verbatim>\<open>Bar_View\<close>: when the status line is shortened, which block a click hits, and what
  i3 makes of the command for a workspace.
\<close>

subsection \<open>The status line is shortened until it fits\<close>

definition short_if_possible :: "status_block \<Rightarrow> bool" where
  "short_if_possible b \<longleftrightarrow> sb_short_text b \<noteq> None \<longrightarrow> sb_use_short b"

text \<open>What shortening keeps of a block.\<close>

definition shortens :: "status_block \<Rightarrow> status_block \<Rightarrow> bool" where
  "shortens b b' \<longleftrightarrow> sb_short_text b' = sb_short_text b \<and> sb_full_text b' = sb_full_text b \<and> sb_name b' = sb_name b \<and>
     (sb_use_short b \<longrightarrow> sb_use_short b') \<and>
     (sb_use_short b' \<and> \<not> sb_use_short b \<longrightarrow> sb_short_text b \<noteq> None)"

lemma shortens_refl [simp]: "shortens b b"
  by (simp add: shortens_def)

lemma shortens_trans: "shortens a b \<Longrightarrow> shortens b c \<Longrightarrow> shortens a c"
  by (auto simp: shortens_def)

lemma shortens_possible: "shortens b b' \<Longrightarrow> short_if_possible b \<Longrightarrow> short_if_possible b'"
  unfolding shortens_def short_if_possible_def by metis

lemma put_render_keeps [simp]:
  "sb_short_text (put_render r b) = sb_short_text b" "sb_full_text (put_render r b) = sb_full_text b"
  "sb_name (put_render r b) = sb_name b" "sb_use_short (put_render r b) = sb_use_short b"
  by (simp_all add: put_render_def)

lemma predict_keeps [simp]:
  "sb_short_text (predict_block_length v b) = sb_short_text b" "sb_full_text (predict_block_length v b) = sb_full_text b"
  "sb_name (predict_block_length v b) = sb_name b" "sb_use_short (predict_block_length v b) = sb_use_short b"
  by (simp_all add: predict_block_length_def Let_def del: split_paired_All)

lemma switch_shortens: "shortens b (snd (switch_block_to_short v b))"
  by (simp add: switch_block_to_short_def shortens_def Let_def)

lemma switch_short: "short_if_possible (snd (switch_block_to_short v b))"
  by (simp add: switch_block_to_short_def short_if_possible_def Let_def)

lemma shorten_shortens: "list_all2 shortens bs (snd (shorten v p bs w))"
proof (induction v p bs w rule: shorten.induct)
  case (2 v p b bs w)
  then show ?case
    using switch_shortens [of b v] by (auto simp: Let_def split: prod.splits if_splits)
qed simp

lemma shorten_all:
  "\<forall>b \<in> set (snd (shorten v p bs w)). (\<exists>b0 \<in> set bs. shortens b0 b \<and> (p b0 \<longrightarrow> short_if_possible b))"
proof (induction v p bs w rule: shorten.induct)
  case (2 v p b bs w)
  then show ?case
    using switch_shortens [of b v] switch_short [of v b]
    by (fastforce simp: Let_def split: prod.splits if_splits)
qed simp

lemma shorten_from_shortens:
  assumes "i < length bs"
  shows "list_all2 shortens bs (snd (shorten_from v i bs w))"
proof -
  obtain d b' where sw: "switch_block_to_short v (bs ! i) = (d, b')" by fastforce
  let ?bs = "bs[i := b']"
  have "shortens (bs ! i) b'" using switch_shortens [of "bs ! i" v] by (simp add: sw)
  then have first: "list_all2 shortens bs ?bs"
    using assms by (auto simp: list_all2_conv_all_nth nth_list_update)
  show ?thesis
  proof (cases "sb_name b'")
    case None
    with first show ?thesis by (simp add: shorten_from_def sw)
  next
    case (Some name)
    have "list_all2 shortens bs (snd (shorten v (\<lambda>b. sb_name b = Some name) ?bs (w - d)))"
      by (rule list_all2_trans [OF _ first shorten_shortens]) (rule shortens_trans)
    with Some show ?thesis by (simp add: shorten_from_def sw)
  qed
qed

lemma shorten_from_short:
  assumes "i < length bs"
  shows "short_if_possible (snd (shorten_from v i bs w) ! i)"
proof -
  obtain d b' where sw: "switch_block_to_short v (bs ! i) = (d, b')" by fastforce
  have short: "short_if_possible b'" using switch_short [of v "bs ! i"] by (simp add: sw)
  show ?thesis
  proof (cases "sb_name b'")
    case None
    with short assms show ?thesis by (simp add: shorten_from_def sw)
  next
    case (Some name)
    let ?r = "snd (shorten v (\<lambda>b. sb_name b = Some name) (bs[i := b']) (w - d))"
    have "list_all2 shortens (bs[i := b']) ?r" by (rule shorten_shortens)
    then have "shortens b' (?r ! i)" using assms by (auto simp: list_all2_conv_all_nth)
    then have "short_if_possible (?r ! i)" using short shortens_possible by blast
    with Some show ?thesis by (simp add: shorten_from_def sw)
  qed
qed

lemma adjust_loop_shortens:
  "\<forall>i \<in> set is. i < length bs \<Longrightarrow> list_all2 shortens bs (snd (adjust_loop v m is bs w))"
proof (induction "is" arbitrary: bs w)
  case (Cons i "is")
  obtain w' bs' where from_i: "shorten_from v i bs w = (w', bs')" by fastforce
  have one: "list_all2 shortens bs bs'" using shorten_from_shortens [of i bs v w] Cons.prems by (simp add: from_i)
  then have "length bs' = length bs" by (simp add: list_all2_lengthD)
  with Cons have "list_all2 shortens bs' (snd (adjust_loop v m is bs' w'))" by simp
  with one show ?case
    by (auto simp: from_i list_all2_refl intro: list_all2_trans [OF shortens_trans])
qed (simp add: list_all2_refl)

lemma adjust_loop_short:
  assumes "\<forall>i \<in> set is. i < length bs" and "adjust_loop v m is bs w = (w', bs')"
  shows "w' < m \<or> (\<forall>i \<in> set is. short_if_possible (bs' ! i))"
  using assms
proof (induction "is" arbitrary: bs w)
  case (Cons i "is")
  obtain v1 bs1 where from_i: "shorten_from v i bs w = (v1, bs1)" by fastforce
  have len: "length bs1 = length bs"
    using shorten_from_shortens [of i bs v w] Cons.prems(1) by (simp add: from_i list_all2_lengthD)
  show ?case
  proof (cases "w < m")
    case False
    then have loop: "adjust_loop v m is bs1 v1 = (w', bs')" using Cons.prems(2) by (simp add: from_i)
    have inside: "\<forall>j \<in> set is. j < length bs1" "i < length bs1" using Cons.prems(1) len by auto
    have "shortens (bs1 ! i) (bs' ! i)"
      using adjust_loop_shortens [OF inside(1), of v m v1] inside(2) by (simp add: loop list_all2_conv_all_nth)
    moreover have "short_if_possible (bs1 ! i)"
      using shorten_from_short [of i bs v w] Cons.prems(1) by (simp add: from_i)
    ultimately have "short_if_possible (bs' ! i)" using shortens_possible by blast
    with Cons.IH [OF inside(1) loop] show ?thesis by simp
  qed (use Cons.prems in simp)
qed simp

lemma adjusted_short:
  assumes "adjust_statusline_length v m bs = (w, bs')"
  shows "w < m \<or> (\<forall>b \<in> set bs'. short_if_possible b)"
proof -
  let ?bs = "map (predict_block_length v) bs"
  have loop: "adjust_loop v m [0..<length bs] ?bs (statusline_width ?bs) = (w, bs')"
    using assms by (simp add: adjust_statusline_length_def predict_statusline_length_def Let_def)
  have inside: "\<forall>i \<in> set [0..<length bs]. i < length ?bs" by simp
  have "length bs' = length bs"
    using list_all2_lengthD [OF adjust_loop_shortens [OF inside, of v m "statusline_width ?bs"]] by (simp add: loop)
  with adjust_loop_short [OF inside loop] show ?thesis by (auto simp: in_set_conv_nth)
qed

subsection \<open>The command for a workspace\<close>

text \<open>The parser of i3 reads the name of the workspace that i3bar asks for.\<close>

lemma quoted_workspace_parsed:
  assumes "name \<noteq> []"
  shows "take 10 (quote_workspace_name name) = ''workspace ''"
    and "parse_string as_word (drop 10 (quote_workspace_name name)) = (Some name, [CHR 0x22])"
proof -
  have "drop 10 (quote_workspace_name name) = CHR 0x22 # escape name @ CHR 0x22 # []"
    by (simp add: quote_workspace_name_def escape_def)
  then show "parse_string as_word (drop 10 (quote_workspace_name name)) = (Some name, [CHR 0x22])"
    using parse_string_quoted [OF assms, of as_word "[]"] by simp
qed (simp add: quote_workspace_name_def)

subsection \<open>A click hits the block that is drawn there\<close>

text \<open>The blocks that are drawn, with their positions.\<close>

fun drawn_at :: "u32 \<Rightarrow> status_block list \<Rightarrow> (status_block \<times> u32) list" where
  "drawn_at x [] = []"
| "drawn_at x (b # bs) =
     (if is_text (block_text b) = [] then drawn_at x bs
      else (b, x) # drawn_at (x + render_total (block_render b) + sb_sep_block_width b) bs)"

lemma drawn_blocks:
  "(blk, x0) \<in> set (drawn_at x bs) \<Longrightarrow> set (draw_block v b surf use_focus x0 blk) \<subseteq> set (draw_blocks v b surf use_focus x bs)"
proof (induction x bs rule: drawn_at.induct)
  case (2 x a bs)
  then show ?case by (cases "bs = []") (auto simp: Let_def split: if_splits)
qed simp

text \<open>The width of all blocks, without wrapping.\<close>

fun total_width :: "status_block list \<Rightarrow> nat" where
  "total_width [] = 0"
| "total_width (b # bs) =
     (if is_text (block_text b) = [] then 0 else unat (render_total (block_render b)) + unat (sb_sep_block_width b)) +
     total_width bs"

lemma unat_plus2:
  fixes x w d :: u32
  assumes "unat x + (unat w + unat d) < 2 ^ 32"
  shows "unat (x + w + d) = unat x + unat w + unat d"
proof -
  have "unat (x + w) = unat x + unat w" using assms by (subst unat_add_lem [symmetric]) simp
  then show ?thesis using assms by (subst unat_add_lem [THEN iffD1]) simp_all
qed

lemma drawn_behind:
  "(blk, x0) \<in> set (drawn_at x bs) \<Longrightarrow> unat x + total_width bs < 2 ^ 32 \<Longrightarrow>
   unat x \<le> unat x0 \<and> unat x0 + unat (render_total (block_render blk)) \<le> unat x + total_width bs"
proof (induction x bs rule: drawn_at.induct)
  case (2 x b bs)
  show ?case
  proof (cases "is_text (block_text b) = [] \<or> (blk, x0) = (b, x)")
    case True
    with 2 show ?thesis by (auto split: if_splits)
  next
    case False
    then have shown_text: "is_text (block_text b) \<noteq> []"
      and later: "(blk, x0) \<in> set (drawn_at (x + render_total (block_render b) + sb_sep_block_width b) bs)"
      using 2(3) by auto
    have "unat (x + render_total (block_render b) + sb_sep_block_width b) =
        unat x + unat (render_total (block_render b)) + unat (sb_sep_block_width b)"
      by (rule unat_plus2) (use 2(4) shown_text in simp)
    with 2(2) [OF shown_text later] 2(4) shown_text show ?thesis by simp
  qed
qed simp

lemma click_hits_drawn:
  assumes "(blk, x0) \<in> set (drawn_at last_x bs)" and "unat last_x + total_width bs < 2 ^ 32"
    and "x0 < x" and "unat x \<le> unat x0 + unat (render_total (block_render blk))"
  shows "block_at x last_x bs = Some (blk, x - x0)"
  using assms(1,2)
proof (induction last_x bs rule: drawn_at.induct)
  case (2 last_x b bs)
  let ?w = "render_total (block_render b)" and ?s = "sb_sep_block_width b"
  show ?case
  proof (cases "is_text (block_text b) = []")
    case True
    with 2 show ?thesis by simp
  next
    case shown_text: False
    have next_x: "unat (last_x + ?w + ?s) = unat last_x + unat ?w + unat ?s"
      by (rule unat_plus2) (use 2(4) shown_text in simp)
    show ?thesis
    proof (cases "(blk, x0) = (b, last_x)")
      case True
      have "last_x \<le> x" using assms(3) True by simp
      then have "unat (x - last_x) = unat x - unat last_x" by (simp add: unat_sub)
      with assms(4) True have "x - last_x \<le> ?w" by (simp add: word_le_nat_alt)
      with shown_text True show ?thesis by (simp add: Let_def)
    next
      case False
      then have later: "(blk, x0) \<in> set (drawn_at (last_x + ?w + ?s) bs)" using 2(3) shown_text by auto
      have fits: "unat (last_x + ?w + ?s) + total_width bs < 2 ^ 32" using 2(4) shown_text by (simp add: next_x)
      have "unat (last_x + ?w + ?s) < unat x"
        using drawn_behind [OF later fits] assms(3) by (simp add: word_less_nat_alt)
      then have above: "unat last_x + unat ?w + unat ?s < unat x" by (simp add: next_x)
      then have "last_x \<le> x" by (simp add: word_le_nat_alt)
      then have "unat (x - last_x) = unat x - unat last_x" by (simp add: unat_sub)
      with above have "\<not> x - last_x \<le> ?w" by (simp add: word_le_nat_alt)
      moreover have "\<not> last_x + (?w + ?s) > x"
        using above next_x by (simp add: word_less_nat_alt add.assoc)
      ultimately have "block_at x last_x (b # bs) = block_at x (last_x + ?w + ?s) bs"
        using shown_text by (simp add: Let_def add.assoc)
      with 2(2) [OF shown_text later fits] shown_text show ?thesis by auto
    qed
  qed
qed simp

end
