(* ===== verification/Spec2Isabelle.thy ===== *)
theory Spec2Isabelle
  imports Sample_Session Config_File Randr Manage Load_Layout Ipc_Status Handlers Click Bar_Workspaces Bar_Clicks
begin

text \<open>
  This library models the core of the i3-aiwr window manager (\<^verbatim>\<open>src/*.c\<close>, \<^verbatim>\<open>include/*.h\<close>): the tree of
  containers, what is computed from it and how the operations change it.

  \<^bold>\<open>The program.\<close> i3 keeps every window in a container (\<open>struct Con\<close>); containers form a tree root,
  output, content, workspace, split containers, windows, with a list of tiling children
  (\<open>nodes_head\<close>), a list of floating children (\<open>floating_head\<close>) and a focus stack over both
  (\<open>focus_head\<close>). Commands and X11 events change the tree, \<open>tree_render\<close> computes all rectangles, and
  \<open>x_push_changes\<close> sends them to the X server. The fork adds a scrolling layout and an animation clock.

  \<^bold>\<open>The model.\<close> A container is a number, NULL is \<^const>\<open>None\<close>, the heap is the function \<open>store\<close> of the
  record \<^typ>\<open>wm\<close> (theory \<^verbatim>\<open>Con_Data\<close>), which also holds \<open>all_cons\<close>, the root, the focus, the outputs,
  the configuration, the animation clock and logs of what is sent to IPC clients and to the X server.
  Every function of the program that changes the state is a function on \<^typ>\<open>wm\<close>; a failed \<open>assert\<close> or
  a NULL dereference sets the flag \<open>aborted\<close>, or is the value \<^const>\<open>None\<close> of a query. 32-bit unsigned
  fields are words, a C \<open>int\<close> is an \<^typ>\<open>int\<close> unless its width matters, a \<open>double\<close> is a \<^typ>\<open>real\<close>.

  \<^bold>\<open>Theories.\<close>
  \<^item> \<^verbatim>\<open>I3_Prelude\<close>: BSD tail queues as lists (\<^verbatim>\<open>include/queue.h\<close>) and the locales \<open>bounded_walk\<close> and
    \<open>fuel_recursion\<close>: a walk over the tree with as much fuel as there are containers is the unlimited
    one. Every recursion of the code over the tree is an interpretation.
  \<^item> \<^verbatim>\<open>Con_Data\<close>, \<^verbatim>\<open>I3_Util\<close>: the structures of \<^verbatim>\<open>include/data.h\<close>; \<^verbatim>\<open>src/util.c\<close>.
  \<^item> \<^verbatim>\<open>Con_Tree\<close>, \<^verbatim>\<open>Con_Attach\<close>, \<^verbatim>\<open>Con_Below\<close>: the tree invariant \<open>tree_ok\<close>, linking, unlinking,
    allocating, freeing (\<^verbatim>\<open>src/con.c\<close>), \<open>con_fix_percent\<close>; what is below a container.
  \<^item> \<^verbatim>\<open>Con_Query\<close>, \<^verbatim>\<open>Con_Marks\<close>, \<^verbatim>\<open>Con_Focus\<close>: the queries, the marks, focus and urgency of \<^verbatim>\<open>src/con.c\<close>.
  \<^item> \<^verbatim>\<open>Geometry\<close>, \<^verbatim>\<open>Scrolling\<close>, \<^verbatim>\<open>Render\<close>: gaps, borders, resizing (\<^verbatim>\<open>src/gaps.c\<close>, \<^verbatim>\<open>src/resize.c\<close>), the
    scrolling layout and the animation clock (\<^verbatim>\<open>src/scrolling.c\<close>, \<^verbatim>\<open>src/aiwr_anim.c\<close>), \<^verbatim>\<open>src/render.c\<close>.
  \<^item> \<^verbatim>\<open>Outputs\<close>, \<^verbatim>\<open>Workspaces\<close>, \<^verbatim>\<open>Floating_Geometry\<close>: the searches of \<^verbatim>\<open>src/randr.c\<close>, \<^verbatim>\<open>src/output.c\<close>
    and \<^verbatim>\<open>src/workspace.c\<close>; sizes and coordinates of \<^verbatim>\<open>src/floating.c\<close>.
  \<^item> \<^verbatim>\<open>Curves\<close>, \<^verbatim>\<open>Scroll_Commands\<close>: the bezier curves of \<^verbatim>\<open>src/aiwr_bezier.c\<close>, the scrolling commands.
  \<^item> \<^verbatim>\<open>Con_Forest\<close>, \<^verbatim>\<open>Tree_Prune\<close>, \<^verbatim>\<open>Tree_Close\<close>, \<^verbatim>\<open>Encapsulate\<close>, \<^verbatim>\<open>Tree_Ops\<close>: the tree as a forest, closing,
    encapsulating, splitting, flattening (\<^verbatim>\<open>src/tree.c\<close>). \<^verbatim>\<open>Con_Move\<close>, \<^verbatim>\<open>Moving\<close>, \<^verbatim>\<open>Con_Swap\<close>: moving and
    swapping (\<^verbatim>\<open>src/move.c\<close>, \<^verbatim>\<open>src/con.c\<close>). \<^verbatim>\<open>Workspace_Show\<close>, \<^verbatim>\<open>Workspace_Ops\<close>: showing and moving
    workspaces, floating windows on them, the scratchpad.
  \<^item> \<^verbatim>\<open>Matching\<close>, \<^verbatim>\<open>Commands_Parser\<close>, \<^verbatim>\<open>Commands\<close>, \<^verbatim>\<open>Commands_Layout\<close>: criteria and assignments, the
    command parser, the commands. The generated tables are parameters of the parsers.
  \<^item> \<^verbatim>\<open>Bindings\<close>, \<^verbatim>\<open>Config_Directives\<close>, \<^verbatim>\<open>Config_Parser\<close>, \<^verbatim>\<open>Config_File\<close>: bindings and modes, the
    configuration from the search for its file to the directives.
  \<^item> \<^verbatim>\<open>Randr\<close>: outputs that appear, change and vanish. \<^verbatim>\<open>Startup\<close>, \<^verbatim>\<open>EWMH\<close>: startup sequences, desktops.
  \<^item> \<^verbatim>\<open>Windows\<close>, \<^verbatim>\<open>Window_Icon\<close>, \<^verbatim>\<open>Restore_Layout\<close>, \<^verbatim>\<open>Manage\<close>: the properties of windows and how windows
    come under control, swallowing placeholders included.
  \<^item> \<^verbatim>\<open>Json\<close>, \<^verbatim>\<open>Load_Layout\<close>, \<^verbatim>\<open>Ipc_Dump\<close>, \<^verbatim>\<open>Ipc\<close>, \<^verbatim>\<open>Ipc_Status\<close>: JSON values and parser events, reading a
    layout, the replies of the IPC interface, its messages, clients and events.
  \<^item> \<^verbatim>\<open>X_State\<close>, \<^verbatim>\<open>Handlers\<close>, \<^verbatim>\<open>Drags\<close>, \<^verbatim>\<open>Click\<close>: what is told to the X server (\<^verbatim>\<open>src/x.c\<close>) as a list of
    requests, the event handlers, drags with the pointer, clicks and key presses.
  \<^item> \<^verbatim>\<open>Bar_Data\<close>, \<^verbatim>\<open>Bar_Config\<close>, \<^verbatim>\<open>Bar_Workspaces\<close>: i3bar's view of outputs, workspaces, mode and
    configuration (\<^verbatim>\<open>i3bar/src\<close>), read from what \<^verbatim>\<open>Ipc_Dump\<close> writes. \<^verbatim>\<open>Bar_Child\<close>, \<^verbatim>\<open>Bar_Status\<close>: its
    child processes, the status line and the signals; \<^verbatim>\<open>Bar_View\<close>, \<^verbatim>\<open>Bar_Clicks\<close>: its windows, what is drawn, the
    tray, and what a click hits.
  \<^item> \<^verbatim>\<open>Sample_Session\<close>: one concrete session; the witnesses below instantiate the properties on it.

  \<^bold>\<open>Loops and fuel.\<close> Walks over the tree carry as much fuel as there are containers, which is enough in a tree
  (locales of \<^verbatim>\<open>I3_Prelude\<close>); the parsers carry twice the length of their input and a constant, which the
  properties show to be enough; a loop that may not end is a partial function and \<^const>\<open>None\<close> then.

  \<^bold>\<open>Not modelled.\<close> Drawing (what i3bar draws is listed, no pixels), sockets, files, the start of processes, the event loop, logging; the overview, the switcher and
  the effects, which draw windows of their own; the tools. Replies of the X server and of libraries (xkbcommon, Pango,
  PCRE, libstartup-notification) are parameters.
\<close>

section \<open>Properties\<close>

subsection \<open>Linking and unlinking containers\<close>

text \<open>C1: attaching keeps the container tree. When \<open>con_attach\<close> (with or without a container to insert
  after) is called with an allocated container that no list holds and a target that is not below it,
  the tree invariant holds afterwards and the container is in a list of the container its parent
  pointer names. That container is the target, except for a window entering a workspace that has a
  layout of its own: then it is a fresh container that \<open>workspace_attach_to\<close> put on the workspace.\<close>
theorem con_attach_keeps_tree:
  assumes "can_attach s c p" and "good_previous s p previous"
  shows "tree_ok (con_attach_at c p previous ignore_focus s) \<and>
    (\<exists>q \<in> set (all_cons (con_attach_at c p previous ignore_focus s)).
       parent_of (con_attach_at c p previous ignore_focus s) c = Some q \<and>
       c \<in> set (children (con_attach_at c p previous ignore_focus s) q) \<and>
       (\<not> redirected s c p \<longrightarrow> q = p) \<and>
       (redirected s c p \<longrightarrow> q \<notin> set (all_cons s) \<and>
          parent_of (con_attach_at c p previous ignore_focus s) q = Some p))"
  using con_attach_at_ok [OF assms refl] by blast

theorem con_attach_keeps_tree_witness:
  "tree_ok (con_attach_at 12 7 None False (con_detach 12 sample)) \<and>
   (\<exists>q \<in> set (all_cons (con_attach_at 12 7 None False (con_detach 12 sample))).
      12 \<in> set (children (con_attach_at 12 7 None False (con_detach 12 sample)) q))"
proof -
  have "tree_ok (con_detach 12 sample)" by (rule con_detach_tree_ok [OF sample_tree_ok]) simp
  moreover have "unlinked (con_detach 12 sample) 12" by (rule con_detach_unlinked [OF sample_tree_ok]) simp
  moreover have "12 \<notin> set (ancestors (con_detach 12 sample) 7)" by code_simp
  moreover have "kind (con_detach 12 sample) 12 \<noteq> CT_FLOATING_CON" by code_simp
  ultimately have "can_attach (con_detach 12 sample) 12 7" by (simp add: can_attach_def)
  from con_attach_keeps_tree [OF this, of None False] show ?thesis by (auto simp: good_previous_def)
qed

text \<open>C2: \<open>con_detach\<close> on an allocated container keeps the tree invariant and leaves the container in no
  list of any container.\<close>
theorem con_detach_keeps_tree:
  assumes "tree_ok s" and "c \<in> set (all_cons s)"
  shows "tree_ok (con_detach c s) \<and> unlinked (con_detach c s) c"
  using con_detach_tree_ok [OF assms] con_detach_unlinked [OF assms] by blast

theorem con_detach_keeps_tree_witness:
  "tree_ok (con_detach 12 sample) \<and> unlinked (con_detach 12 sample) 12"
  using con_detach_keeps_tree [OF sample_tree_ok, of 12] by simp

text \<open>\<open>workspace_attach_to\<close> on a workspace with a layout of its own allocates one container, puts it on
  the workspace's tiling list without children of its own, keeps the tree invariant and moves nothing
  else.\<close>
theorem workspace_attach_to_allocates:
  assumes "tree_ok s" and "ws \<in> set (all_cons s)" and "kind s ws = CT_WORKSPACE"
    and "workspace_layout (store s ws) \<noteq> L_DEFAULT"
  shows "case workspace_attach_to ws s of (n, t) \<Rightarrow>
    tree_ok t \<and> n \<notin> set (all_cons s) \<and> all_cons t = all_cons s @ [n] \<and> n \<in> set (nodes t ws) \<and>
    parent_of t n = Some ws \<and> children t n = [] \<and>
    (\<forall>d \<in> set (all_cons s). parent_of t d = parent_of s d \<and> kind t d = kind s d)"
proof (cases "workspace_attach_to ws s")
  case (Pair n t)
  from workspace_attach_to_new [OF assms Pair] show ?thesis unfolding Pair by simp
qed

theorem workspace_attach_to_allocates_witness:
  "case workspace_attach_to 7 (upd_con 7 (\<lambda>k. k\<lparr>workspace_layout := L_TABBED\<rparr>) sample) of (n, t) \<Rightarrow>
     tree_ok t \<and> n \<in> set (nodes t 7)"
proof -
  let ?s = "upd_con 7 (\<lambda>k. k\<lparr>workspace_layout := L_TABBED\<rparr>) sample"
  have "same_links sample ?s" by (rule same_links_upd) simp
  then have ok: "tree_ok ?s" using same_links_tree_ok sample_tree_ok by blast
  have "7 \<in> set (all_cons ?s)" "workspace_layout (store ?s 7) \<noteq> L_DEFAULT" by simp_all
  moreover have "kind ?s 7 = CT_WORKSPACE" by (simp add: sample_eval)
  ultimately show ?thesis
    using workspace_attach_to_allocates [OF ok, of 7] by (auto split: prod.splits)
qed

text \<open>C4: the workspaces of an output stay in order: inserting one as \<open>con_attach\<close> does into a list where
  the numbered workspaces come first, by increasing number, and the named ones (number -1) last,
  gives such a list again.\<close>
theorem workspaces_stay_ordered:
  assumes "ws_ordered numf xs" and "numf c \<ge> - 1" and "\<forall>x \<in> set xs. numf x \<ge> - 1"
  shows "ws_ordered numf (ws_insert numf c xs) \<and> mset (ws_insert numf c xs) = add_mset c (mset xs)"
  using ws_ordered_insert [OF assms] by (simp add: mset_ws_insert)

theorem workspaces_stay_ordered_witness:
  "ws_ordered (\<lambda>c. num (store sample c)) (ws_insert (\<lambda>c. num (store sample c)) 7 [5, 6, 8])"
  using workspaces_stay_ordered [of "\<lambda>c. num (store sample c)" "[5, 6, 8]" 7] by (simp add: sample_eval)

text \<open>C5: after \<open>con_fix_percent\<close> the shares of a container that has tiling children (and is not laid out
  as scrolling columns) are positive and add up to 1, whatever they were before.\<close>
theorem con_fix_percent_shares:
  assumes "tree_ok s" and "c \<in> set (all_cons s)" and "nodes s c \<noteq> []" and "layout_of s c \<noteq> L_SCROLLING"
  shows "sum_list (map (\<lambda>d. percent (store (con_fix_percent c s) d)) (nodes s c)) = 1 \<and>
    (\<forall>d \<in> set (nodes s c). percent (store (con_fix_percent c s) d) > 0)"
proof -
  let ?ps = "map (\<lambda>d. percent (store s d)) (nodes s c)"
  have eq: "map (\<lambda>d. percent (store (con_fix_percent c s) d)) (nodes s c) = fix_percents ?ps"
    by (rule percents_of_children [OF tree_okD(1) [OF assms(1,2)] assms(4)])
  have "?ps \<noteq> []" using assms(3) by simp
  from fix_percents_correct [OF this] have "sum_list (map (\<lambda>d. percent (store (con_fix_percent c s) d)) (nodes s c)) = 1"
    and "\<forall>q \<in> set (map (\<lambda>d. percent (store (con_fix_percent c s) d)) (nodes s c)). q > 0"
    by (simp_all only: eq)
  then show ?thesis by simp
qed

theorem con_fix_percent_shares_witness:
  "sum_list (map (\<lambda>d. percent (store (con_fix_percent 10 sample) d)) [12, 13]) = 1"
proof -
  have "nodes sample 10 = [12, 13]" "layout_of sample 10 \<noteq> L_SCROLLING" by (simp_all add: sample_eval)
  then show ?thesis using con_fix_percent_shares [OF sample_tree_ok, of 10] by simp
qed

subsection \<open>Focus\<close>

text \<open>C6: focusing a container that hangs in the tree makes it the focused one, moves nothing in the tree
  (the focus stacks are permuted, every other link stays), and from every container above it,
  following the heads of the focus stacks leads to it.\<close>
theorem con_focus_correct:
  assumes "tree_ok s" and "c \<in> set (all_cons s)" and "focusable s c"
  shows "focused (con_focus c s) = Some c \<and> same_tree s (con_focus c s) \<and>
    (\<forall>a \<in> set (ancestors s c). con_descend_focused (con_focus c s) a = c)"
  using con_focus_focused [OF assms(1,2)] con_focus_same_tree [OF assms] con_focus_descend [OF assms] assms(3)
  by (simp add: focusable_def)

theorem con_focus_correct_witness:
  "focused (con_focus 13 sample) = Some 13 \<and> con_descend_focused (con_focus 13 sample) 0 = 13"
proof -
  have anc: "ancestors sample 13 = [13, 10, 5, 3, 1, 0]" by code_simp
  have "focusable sample 13" by (simp add: focusable_def anc sample_eval)
  from con_focus_correct [OF sample_tree_ok _ this] show ?thesis by (simp add: anc)
qed

text \<open>\<open>con_descend_focused\<close> stops at a container of the subtree, and it stops because that container
  has nothing below it in focus order or is the focused container itself.\<close>
theorem con_descend_focused_stops:
  assumes "tree_ok s" and "c \<in> set (all_cons s)"
  shows "con_descend_focused s c \<in> set (subtree s c) \<and>
    (foci s (con_descend_focused s c) = [] \<or> Some (con_descend_focused s c) = focused s)"
  using con_descend_focused_correct [OF assms] by blast

theorem con_descend_focused_stops_witness:
  "con_descend_focused sample 2 \<in> set (subtree sample 2)"
  using con_descend_focused_stops [OF sample_tree_ok, of 2] by simp



text \<open>C9: the fullscreen container that the breadth-first search of \<open>con_get_fullscreen_con\<close> finds is a
  proper descendant with that mode, and when it finds none there is none.\<close>
theorem con_get_fullscreen_con_exact:
  assumes "tree_ok s" and "c \<in> set (all_cons s)"
  shows "case con_get_fullscreen_con s c m of
      None \<Rightarrow> \<forall>x \<in> set (subtree s c). x = c \<or> fullscreen_mode (store s x) \<noteq> m
    | Some x \<Rightarrow> x \<in> set (subtree s c) \<and> x \<noteq> c \<and> fullscreen_mode (store s x) = m"
  by (rule con_get_fullscreen_con_correct [OF assms])

theorem con_get_fullscreen_con_exact_witness:
  "case con_get_fullscreen_con sample 0 CF_OUTPUT of
      None \<Rightarrow> \<forall>x \<in> set (subtree sample 0). x = 0 \<or> fullscreen_mode (store sample x) \<noteq> CF_OUTPUT
    | Some x \<Rightarrow> x \<in> set (subtree sample 0) \<and> x \<noteq> 0 \<and> fullscreen_mode (store sample x) = CF_OUTPUT"
  using con_get_fullscreen_con_exact [OF sample_tree_ok, of 0 CF_OUTPUT] by simp

subsection \<open>Urgency\<close>



subsection \<open>Marks\<close>

text \<open>C11: marks are unique. Marking a container keeps every mark on at most one container and at most
  once, and the mark then names this container.\<close>
theorem con_mark_unique:
  assumes "marks_ok s" and "c \<in> set (all_cons s)"
  shows "marks_ok (con_mark c m mode s) \<and> con_by_mark (con_mark c m mode s) m = Some c"
  using con_mark_marks_ok [OF assms] con_by_mark_con_mark [OF assms] by blast

theorem con_mark_unique_witness:
  "marks_ok (con_mark 9 ''a'' MM_ADD sample) \<and> con_by_mark (con_mark 9 ''a'' MM_ADD sample) ''a'' = Some 9"
proof -
  have "marks_ok sample" by (simp add: marks_ok_def sample_eval)
  then show ?thesis using con_mark_unique [of sample 9 "''a''" MM_ADD] by simp
qed

text \<open>Which marks a container has after \<open>con_mark\<close>: the mark is taken from every other container, and
  the marked container keeps its other marks only in mode \<open>MM_ADD\<close>.\<close>
theorem con_mark_effect:
  assumes "marks_ok s" and "c \<in> set (all_cons s)" and "d \<in> set (all_cons s)"
  shows "marks (con_mark c m mode s) d =
    (if d \<noteq> c then remove1 m (marks s d)
     else (if mode = MM_REPLACE then [] else remove1 m (marks s c)) @ [m])"
  by (rule marks_con_mark [OF assms])

theorem con_mark_effect_witness:
  "marks (con_mark 9 ''a'' MM_REPLACE sample) 12 = [''b'']"
proof -
  have "marks_ok sample" by (simp add: marks_ok_def sample_eval)
  then show ?thesis
    using con_mark_effect [of sample 9 12 "''a''" MM_REPLACE] by (simp add: sample_eval)
qed

subsection \<open>Sizes\<close>

text \<open>C13: a resize that \<open>resize_neighboring_cons\<close> accepts gives the first container exactly the amount it
  takes from the second, changes no sibling, and leaves both at least one pixel.\<close>
theorem resize_conserves:
  assumes "distinct (nodes s p)" and "first \<in> set (nodes s p)" and "second \<in> set (nodes s p)"
    and "first \<noteq> second" and "parent_of s first = Some p" and "layout_of s p \<noteq> L_SCROLLING"
    and "\<forall>c \<in> set (nodes s p). percent (store s c) > 0"
    and "sum_list (map (\<lambda>c. percent (store s c)) (nodes s p)) = 1"
    and "percent_for_1px s first = Some m1" "percent_for_1px s second = Some m2" "m1 > 0" "m2 > 0"
    and "px * ppt = 0" and "resize_neighboring_cons first second px ppt s = (True, t)"
  shows "percent (store t first) - percent (store s first) =
      (if ppt \<noteq> 0 then real_of_int ppt / 100
       else real_of_int px / real (unat (the (con_rect_size_in_orientation s p)))) \<and>
    percent (store t first) + percent (store t second) = percent (store s first) + percent (store s second) \<and>
    m1 \<le> percent (store t first) \<and> m2 \<le> percent (store t second) \<and>
    (\<forall>c \<in> set (nodes s p). c \<noteq> first \<longrightarrow> c \<noteq> second \<longrightarrow> percent (store t c) = percent (store s c))"
  using resize_neighboring_cons_exact [OF assms] by simp

theorem resize_conserves_witness:
  "percent (store (snd (resize_neighboring_cons 9 10 96 0 sample)) 9) = 11 / 20"
proof -
  have n: "nodes sample 5 = [9, 10]" "parent_of sample 9 = Some 5" "layout_of sample 5 \<noteq> L_SCROLLING"
    "percent (store sample 9) = 1 / 2" "percent (store sample 10) = 1 / 2"
    by (simp_all add: sample_eval)
  have size: "con_rect_size_in_orientation sample 5 = Some 1920"
    by (simp add: con_rect_size_in_orientation_def sample_eval mk_rect_def)
  have px: "percent_for_1px sample 9 = Some (1 / 1920)" "percent_for_1px sample 10 = Some (1 / 1920)"
    by (simp_all add: percent_for_1px_def con_rect_size_in_orientation_def sample_eval mk_rect_def)
  have "fst (resize_neighboring_cons 9 10 96 0 sample)"
    unfolding resize_neighboring_cons_def Let_def check_def px size by (simp add: size px n)
  then have "resize_neighboring_cons 9 10 96 0 sample = (True, snd (resize_neighboring_cons 9 10 96 0 sample))"
    by (simp add: prod_eq_iff)
  from resize_conserves [OF _ _ _ _ n(2,3) _ _ px _ _ _ this] show ?thesis by (simp add: n size)
qed

text \<open>C14: the sizes that rendering a split computes. For positive shares that add up to 1 the assertion of
  \<open>precalculate_sizes\<close> holds, the sizes add up to the whole length, and none is further than 1.5
  pixels from its share.\<close>
theorem split_sizes:
  fixes tot :: int
  assumes "ps \<noteq> []" and "\<forall>p \<in> set ps. p > 0" and "sum_list ps = 1"
  shows "sizes_assertion (rounded_sizes ps tot) tot \<and>
    sum_list (corrected_sizes (rounded_sizes ps tot) tot) = tot \<and>
    (\<forall>j < length ps. \<bar>real_of_int (corrected_sizes (rounded_sizes ps tot) tot ! j) - ps ! j * real_of_int tot\<bar> \<le> 3 / 2)"
  using sizes_of_a_split [OF assms] by blast

theorem split_sizes_witness:
  "sum_list (corrected_sizes (rounded_sizes [1 / 4, 1 / 4, 1 / 2] 1081) 1081) = 1081"
  using split_sizes [of "[1 / 4, 1 / 4, 1 / 2]" 1081] by simp




text \<open>C17: changing the border style of a floating window keeps the window's contents where they are and as
  large as they are: the rectangle inside the border is the same before and after, for the window's
  container and for the floating container around it.\<close>
theorem border_change_keeps_contents:
  assumes "con_is_floating s c" and "parent_of s c = Some p" and "c \<noteq> p"
  shows "rect_add (rect (store (con_set_border_style c style width s) c))
        (con_border_style_rect (con_set_border_style c style width s) c) =
      rect_add (rect (store s c)) (con_border_style_rect s c) \<and>
    rect_add (rect (store (con_set_border_style c style width s) p))
        (con_border_style_rect (con_set_border_style c style width s) c) =
      rect_add (rect (store s p)) (con_border_style_rect s c)"
  using con_set_border_style_keeps_window [OF assms refl] by blast

theorem border_change_keeps_contents_witness:
  "rect_add (rect (store (con_set_border_style 14 BS_PIXEL 1 sample) 14))
      (con_border_style_rect (con_set_border_style 14 BS_PIXEL 1 sample) 14) =
    rect_add (rect (store sample 14)) (con_border_style_rect sample 14)"
proof -
  have "con_is_floating sample 14" "parent_of sample 14 = Some 11"
    by (simp_all add: sample_eval con_is_floating_def less_eq_floating_t_def)
  from border_change_keeps_contents [OF this, of BS_PIXEL 1] show ?thesis by simp
qed

subsection \<open>Scrolling layout and its animation\<close>





subsection \<open>Outputs and workspaces\<close>



text \<open>\<open>output_containing_rect\<close> returns the last active output that the rectangle overlaps at all, not the
  one it overlaps most.\<close>
theorem output_containing_rect_is_last:
  "output_containing_rect s r =
     find (\<lambda>out. o_active out \<and> intersection_area r (o_rect out) > 0) (rev (outputs s))"
  by (rule output_containing_rect_last)



text \<open>An assignment of a workspace by its exact name to an active output decides where the workspace
  goes: \<open>get_assigned_output\<close> returns the output of such an assignment.\<close>
theorem assignment_by_name_wins:
  assumes "a \<in> set as" and "wa_name a = n" and "wa_output a = Some out_name"
    and "get_output_by_name s out_name True \<noteq> None"
  shows "\<exists>b \<in> set as. \<exists>on out. wa_name b = n \<and> wa_output b = Some on \<and>
    get_output_by_name s on True = Some out \<and>
    assigned_output s (Some n) k as found = Some (o_con out)"
  by (rule assigned_output_by_name [OF assms])

theorem assignment_by_name_wins_witness:
  "assigned_output sample (Some ''3:mail'') 3 (ws_assignments sample) None = Some 1"
proof -
  have out: "get_output_by_name sample ''eDP-1'' True = Some (hd (outputs sample))" by code_simp
  have con: "o_con (hd (outputs sample)) = 1" by (simp add: sample_def)
  obtain a where a: "ws_assignments sample = [a]" "wa_name a = ''3:mail''" "wa_output a = Some ''eDP-1''"
    by (simp add: sample_def)
  have "\<exists>b \<in> set [a]. \<exists>on out. wa_name b = ''3:mail'' \<and> wa_output b = Some on \<and>
      get_output_by_name sample on True = Some out \<and>
      assigned_output sample (Some ''3:mail'') 3 [a] None = Some (o_con out)"
    by (rule assignment_by_name_wins [where a = a and out_name = "''eDP-1''"]) (simp_all add: a out)
  then show ?thesis using out con a by auto
qed

text \<open>Looking a workspace up by name or number (\<open>get_existing_workspace_by_name\<close>,
  \<open>get_existing_workspace_by_num\<close>) searches every output: what is found has the property, and when
  nothing is found no workspace of any output has it.\<close>
theorem workspace_lookup_exact:
  "case grep_workspace s P of
     None \<Rightarrow> \<forall>out \<in> set (nodes s (croot s)). \<forall>c \<in> set (output_workspaces s out). \<not> P c
   | Some w \<Rightarrow> P w \<and> (\<exists>out \<in> set (nodes s (croot s)). w \<in> set (output_workspaces s out))"
  by (rule grep_workspace_spec)

theorem workspace_lookup_exact_witness:
  "grep_workspace sample (\<lambda>c. num (store sample c) = 2) = Some 7"
proof -
  have l: "output_workspaces sample 1 = [5, 6]" "output_workspaces sample 2 = [7, 8]" by code_simp+
  then show ?thesis
    using workspace_lookup_exact [of sample "\<lambda>c. num (store sample c) = 2"]
    by (auto simp: sample_eval split: option.splits)
qed

subsection \<open>Floating windows and helper functions\<close>

text \<open>After \<open>floating_check_size\<close> the floating container is no wider than the configured maximum (or the
  width of all outputs together), the border apart, unless the maximum is -1, and no narrower than
  the configured minimum (or 75 pixels), unless that is -1 or above the maximum; its position is
  unchanged.\<close>
theorem floating_width_bounds:
  fixes c :: con_id and ph :: bool and rs s
  assumes "cfg_floating_maximum_width (cfg s) \<noteq> - 1"
  defines "hi \<equiv> c_word (if cfg_floating_maximum_width (cfg s) = 0 then sint (rect_width (total_outputs_dimensions s rs))
      else cfg_floating_maximum_width (cfg s))"
    and "lo \<equiv> c_word (if cfg_floating_minimum_width (cfg s) = 0 then 75 else cfg_floating_minimum_width (cfg s))"
    and "new \<equiv> rect (store (floating_check_size rs c ph s) c)"
    and "border \<equiv> fst (border_extra s (con_descend_focused s c))"
  shows "sint (rect_width new - border) \<le> sint hi \<and>
    (cfg_floating_minimum_width (cfg s) \<noteq> - 1 \<and> sint lo \<le> sint hi \<longrightarrow> sint lo \<le> sint (rect_width new - border)) \<and>
    rect_x new = rect_x (rect (store s c)) \<and> rect_y new = rect_y (rect (store s c))"
proof -
  obtain v where v: "rect_width new = configured_range border (cfg_floating_minimum_width (cfg s)) 75
      (cfg_floating_maximum_width (cfg s)) (sint (rect_width (total_outputs_dimensions s rs))) v"
    using floating_check_size_rect(3) [of rs c ph s] unfolding new_def border_def by blast
  have pos: "rect_x new = rect_x (rect (store s c))" "rect_y new = rect_y (rect (store s c))"
    unfolding new_def by (rule floating_check_size_rect)+
  show ?thesis
    using configured_range_bounds [where b = border and v = v
        and cmax = "cfg_floating_maximum_width (cfg s)" and cmin = "cfg_floating_minimum_width (cfg s)"
        and sane_min = 75 and sane_max = "sint (rect_width (total_outputs_dimensions s rs))",
        folded v hi_def lo_def] assms(1) pos by blast
qed

theorem floating_width_bounds_witness:
  "sint (rect_width (rect (store (floating_check_size zero_rect 11 False sample) 11)) -
      fst (border_extra sample (con_descend_focused sample 11))) \<le>
    sint (c_word (sint (rect_width (total_outputs_dimensions sample zero_rect))))"
  using floating_width_bounds [of sample zero_rect 11 False] by (simp add: sample_cfg_def)

text \<open>The size that resize increments allow is the base size plus a whole number of increments, at
  most what was asked for, and less than one increment below it.\<close>
theorem increments_round_down:
  assumes "increment \<noteq> 0" and "c_word increment \<noteq> 0" and "c_word base + border \<le> v"
  shows "(increment_size increment base border v - (c_word base + border)) mod c_word increment = 0 \<and>
    increment_size increment base border v - (c_word base + border) \<le> v - (c_word base + border) \<and>
    (v - (c_word base + border)) - (increment_size increment base border v - (c_word base + border)) < c_word increment"
  using increment_size_correct [OF assms(1,3)] assms(2) by simp

theorem increments_round_down_witness:
  "(increment_size 7 4 10 500 - 14) mod 7 = 0"
  using increments_round_down [of 7 4 10 500] by (simp add: c_word_def)

text \<open>The name of a numbered workspace and its number: the decimal digits of a number below \<open>2 ^ 31\<close>
  are recognised as digits, and \<open>ws_name_to_number\<close> reads that number back.\<close>
theorem workspace_number_roundtrip:
  assumes "n < 2 ^ 31"
  shows "ws_name_to_number (print_nat n) = int n \<and> name_is_digits (print_nat n)"
  using ws_name_to_number_print_nat [OF assms] print_nat_digits by blast

theorem workspace_number_roundtrip_witness: "ws_name_to_number (print_nat 2024) = 2024"
  using workspace_number_roundtrip [of 2024] by simp

text \<open>\<open>add_argument\<close> replaces: adding an option with an argument again drops the old one, so a
  restarted i3 does not collect options, and the words copied never mention the option.\<close>
theorem restart_option_replaced:
  "add_argument (add_argument original opt_char (Some old) opt_name) opt_char (Some new) opt_name =
    add_argument original opt_char (Some new) opt_name"
  by (rule add_argument_replaces [OF refl])

subsection \<open>Closing containers\<close>

text \<open>C29: \<open>tree_close_internal\<close> on a container of the tree (not an output, not a dock client, no
  workspace with floating windows below it) removes a set of containers and every pointer to them:
  what is left is a tree of the program again, the focus is on a container that still exists, only
  containers below the closed one or above it are gone, one that is gone takes everything below it
  along, and the function says true exactly when everything below is gone, which it always is unless
  windows have to be asked to close.\<close>
theorem tree_close_internal_correct:
  assumes "rooted s" and "focus_alive s" and "closable s c"
  shows "case tree_close_internal c kw False s of (killed, t) \<Rightarrow> rooted t \<and> focus_alive t \<and>
    (\<exists>X. pruned s t X \<and> downward s X \<and> X \<subseteq> below s c \<union> set (ancestors s c) \<and>
      (killed \<longleftrightarrow> below s c \<subseteq> X) \<and> (kw = DONT_KILL_WINDOW \<longrightarrow> killed))"
proof (cases "tree_close_internal c kw False s")
  case (Pair killed t)
  show ?thesis
    using tree_close_internal_closes [OF assms, of kw] pruned_rooted [OF assms(1)]
    unfolding closes_up_def Pair by fastforce
qed

theorem tree_close_internal_correct_witness:
  "case tree_close_internal 12 DONT_KILL_WINDOW False sample of (killed, t) \<Rightarrow>
     killed \<and> rooted t \<and> focus_alive t \<and> 12 \<notin> set (all_cons t)"
proof -
  have b: "below sample 12 = {12}" using below_unfold [OF sample_rooted, of 12] by (simp add: sample_eval)
  have "closable sample 12" by (simp add: closable_def b) (simp add: sample_eval)
  from tree_close_internal_correct [OF sample_rooted sample_focus_alive this, of DONT_KILL_WINDOW]
  show ?thesis using b prunedD(2) by (auto split: prod.splits)
qed

subsection \<open>Splits and layouts\<close>

text \<open>C30: \<open>workspace_encapsulate\<close> refines an operation on the forest of the containers: the tiling
  children of the workspace now hang below one new container, which hangs below the workspace, and
  nothing else moves. The new container holds them in the order they had and with the focus order
  they had; the floating containers stay on the workspace, ahead of it in the focus order; no read
  past the saved focus order happens.\<close>
theorem workspace_encapsulate_refines:
  assumes "rooted s" and "workspace_of_tiles s ws" and "nodes s ws \<noteq> []"
  shows "\<exists>n t. workspace_encapsulate ws s = (Some n, t) \<and> tree_ok t \<and> n \<notin> set (all_cons s) \<and>
    hangs t = (\<lambda>c. if c \<in> set (nodes s ws) then Some n else if c = n then Some ws else hangs s c) \<and>
    nodes t ws = [n] \<and> nodes t n = nodes s ws \<and>
    foci t n = filter (\<lambda>x. x \<in> set (nodes s ws)) (foci s ws) \<and>
    foci t ws = filter (\<lambda>x. x \<notin> set (nodes s ws)) (foci s ws) @ [n] \<and>
    floats t ws = floats s ws \<and> aborted t = aborted s"
  using workspace_encapsulate_exact [OF assms] unfolding encapsulated_def by blast

theorem workspace_encapsulate_refines_witness:
  "\<exists>n t. workspace_encapsulate 5 sample = (Some n, t) \<and> tree_ok t \<and> nodes t n = [9, 10] \<and> foci t 5 = [11, n]"
proof -
  have w: "workspace_of_tiles sample 5" by (simp add: workspace_of_tiles_def sample_eval)
  have "nodes sample 5 \<noteq> []" by (simp add: sample_eval)
  from workspace_encapsulate_refines [OF sample_rooted w this] obtain n t where
    "workspace_encapsulate 5 sample = (Some n, t)" "tree_ok t" "nodes t n = nodes sample 5"
    "foci t 5 = filter (\<lambda>x. x \<notin> set (nodes sample 5)) (foci sample 5) @ [n]" by blast
  then show ?thesis by (intro exI [of _ n] exI [of _ t]) (simp add: sample_eval)
qed

text \<open>C31: toggling through a list of layouts is the same as reading off the list, without the names that
  are no layouts, the one after the first occurrence of the current layout, or the first one when
  the current layout is not in it or is its last; with no layout in the list nothing happens.\<close>
theorem con_toggle_layout_next:
  assumes "kind s con \<noteq> CT_WORKSPACE" and "parent_of s con = Some p" and "CHR '' '' \<in> set mode"
  shows "con_toggle_layout con mode s =
    (case next_layout (layout_of s p)
        (List.map_filter (token_layout (layout_of s p) (last_split_layout (store s p))) (tokens [] mode)) of
       None \<Rightarrow> s | Some l \<Rightarrow> con_set_layout con l s)"
proof -
  let ?f = "token_layout (layout_of s p) (last_split_layout (store s p))"
  have "l \<noteq> L_DEFAULT" if "next_layout (layout_of s p) (List.map_filter ?f (tokens [] mode)) = Some l" for l
    using next_layout_in [OF that] token_layout_not_default by (auto simp: in_map_filter)
  then show ?thesis
    using assms toggle_scan_next [of "tokens [] mode" ?f "layout_of s p"] token_layout_not_default
    by (simp add: con_toggle_layout_def Let_def split: option.split)
qed

theorem con_toggle_layout_next_witness:
  "con_toggle_layout 12 ''splitv x tabbed'' sample = con_set_layout 12 L_TABBED sample"
proof -
  have "kind sample 12 \<noteq> CT_WORKSPACE" "parent_of sample 12 = Some 10" "layout_of sample 10 = L_SPLITV"
    "last_split_layout (store sample 10) = L_DEFAULT" by (simp_all add: sample_eval)
  moreover have "next_layout L_SPLITV (List.map_filter (token_layout L_SPLITV L_DEFAULT) (tokens [] ''splitv x tabbed''))
      = Some L_TABBED" by code_simp
  ultimately show ?thesis using con_toggle_layout_next [of sample 12 10 "''splitv x tabbed''"] by simp
qed

subsection \<open>Swapping, new workspaces, the scratchpad\<close>

text \<open>C32: \<open>con_swap\<close> exchanges two containers and nothing else. For two regular containers of the tree,
  neither inside the other and neither in fullscreen mode, it succeeds; in every list of tiling
  children the two names are exchanged and every other position is as before, whether the two are
  neighbours, siblings or far apart; floating lists keep their entries; every container hangs where
  its counterpart hung; the tree invariant holds and the focus is on a container of the tree, namely
  on the one that had it or on one of the two.\<close>
theorem con_swap_exchanges_places:
  assumes "rooted s" and "focus_alive s" and "swappable s a b p1 p2" and "focused s \<noteq> Some (croot s)"
    and "fullscreen_mode (store s a) = CF_NONE" and "fullscreen_mode (store s b) = CF_NONE"
  shows "\<exists>t. con_swap a b s = (True, t) \<and> tree_ok t \<and> focus_alive t \<and> all_cons t = all_cons s \<and>
    (\<forall>q \<in> set (all_cons s). nodes t q = map (exchange a b) (nodes s q)) \<and>
    (\<forall>q. floats t q = floats s q \<and> parent_of t q = parent_of s (exchange a b q)) \<and>
    focused t \<in> {focused s, Some a, Some b}"
proof -
  note E = swap_places_exact [OF assms(1,3)]
  obtain t where t: "con_swap a b s = (True, t)" and st: "same_tree (swap_places a b p1 p2 s) t" and "focus_alive t"
    and f: "focused t = (case swap_restore s a b of None \<Rightarrow> focused s | Some f \<Rightarrow> Some f)"
    and n: "\<forall>q. nodes t q = nodes (swap_places a b p1 p2 s) q \<and> floats t q = floats s q"
    using con_swap_exchanges [OF assms] by blast
  have "tree_ok t"
    using same_tree_tree_ok [OF st] rootedD(1) [OF swap_places_rooted [OF assms(1,3)]] by simp
  moreover have "focused t \<in> {focused s, Some a, Some b}"
    using f by (auto simp: swap_restore_def split: option.splits if_splits)
  ultimately show ?thesis
    using t n \<open>focus_alive t\<close> same_treeD(7,9) [OF st] E(1,5,7) by (intro exI [of _ t]) simp
qed

theorem con_swap_exchanges_places_witness:
  "\<exists>t. con_swap 12 9 sample = (True, t) \<and> tree_ok t \<and> nodes t 10 = [9, 13] \<and> nodes t 5 = [12, 10]"
proof -
  have a: "ancestors sample 0 = [0]" "ancestors sample 1 = 1 # ancestors sample 0"
    "ancestors sample 3 = 3 # ancestors sample 1" "ancestors sample 5 = 5 # ancestors sample 3"
    "ancestors sample 10 = 10 # ancestors sample 5" "ancestors sample 9 = 9 # ancestors sample 5"
    "ancestors sample 12 = 12 # ancestors sample 10"
    by (subst ancestors_unfold [OF sample_tree_ok]; simp add: sample_eval)+
  have w: "swappable sample 12 9 10 5" unfolding swappable_def a by (simp add: sample_eval)
  have "fullscreen_mode (store sample 12) = CF_NONE" "fullscreen_mode (store sample 9) = CF_NONE"
    by (simp_all add: sample_eval)
  from con_swap_exchanges_places [OF sample_rooted sample_focus_alive w _ this]
  show ?thesis by (auto simp: sample_eval exchange_def)
qed

text \<open>C33: the search of \<open>create_workspace_on_output\<close> for an unused workspace number ends: one of the
  first numbers, at most one more than there are workspaces and assignments, is found, it is free
  (no workspace has it and it is not assigned to another output) and it is the smallest such number.\<close>
theorem create_workspace_number_found:
  "\<exists>c. next_free_number s out = Some c \<and> 1 \<le> c \<and> c \<le> number_bound s \<and> free_number s out c \<and>
     (\<forall>d. 1 \<le> d \<and> d < c \<longrightarrow> \<not> free_number s out d)"
proof -
  obtain c where c: "next_free_number s out = Some c" using next_free_number_found by blast
  then obtain i where i: "i < number_bound s" "free_number s out ([1..<Suc (number_bound s)] ! i)"
    "c = [1..<Suc (number_bound s)] ! i" "\<forall>j < i. \<not> free_number s out ([1..<Suc (number_bound s)] ! j)"
    unfolding next_free_number_def find_Some_iff by (auto simp del: upt_Suc)
  have n: "[1..<Suc (number_bound s)] ! j = Suc j" if "j < number_bound s" for j
    using that by (simp del: upt_Suc)
  have "\<not> free_number s out d" if "1 \<le> d" "d < c" for d
    using i(1,3) n [of i] n [of "d - 1"] i(4) [rule_format, of "d - 1"] that by simp
  then show ?thesis using c i(1-3) n [of i] by auto
qed

theorem create_workspace_number_found_witness:
  "next_free_number sample (hd (outputs sample)) \<noteq> None"
  using create_workspace_number_found [of sample] by auto



subsection \<open>Animations\<close>

text \<open>C35: evaluating a bezier solves its equation: for a progress between 0 and 1 and control points with
  abscissas between 0 and 1, which is what \<open>aiwr_curve_define\<close> stores, the value is the ordinate of a
  point of the curve whose abscissa is the progress up to one millionth, whether Newton's iteration
  succeeds or the 24 bisections have to.\<close>
theorem bezier_eval_on_curve:
  assumes "0 \<le> cv_x1 c" and "cv_x1 c \<le> 1" and "0 \<le> cv_x2 c" and "cv_x2 c \<le> 1" and "0 \<le> p" and "p \<le> 1"
  shows "\<exists>t. 0 \<le> t \<and> t \<le> 1 \<and> \<bar>bez (cv_x1 c) (cv_x2 c) t - p\<bar> < 1 / 10 ^ 6 \<and>
    bezier_eval c p = bez (cv_y1 c) (cv_y2 c) t"
  by (rule bezier_eval_solves [OF assms])

theorem bezier_eval_on_curve_witness:
  "\<exists>t. 0 \<le> t \<and> t \<le> 1 \<and> \<bar>bez (1 / 5) 0 t - 1 / 2\<bar> < 1 / 10 ^ 6 \<and>
    bezier_eval ((blank_curve ''md3_standard'')\<lparr>cv_x1 := 1 / 5, cv_y2 := 1\<rparr>) (1 / 2) = bez 0 1 t"
  using bezier_eval_on_curve [of "(blank_curve ''md3_standard'')\<lparr>cv_x1 := 1 / 5, cv_y2 := 1\<rparr>" "1 / 2"]
  by (simp add: blank_curve_def)



subsection \<open>The command parser\<close>





subsection \<open>Gaps\<close>

text \<open>C39: gaps never make windows overlap. After changing a gap of all workspaces, no workspace draws
  that side with a negative distance (the inner gap counted with an outer one), whatever its own gap
  was. After changing the gap of the current workspace it is at most as negative as the workspace's
  own inner gap allows, and neither the configuration nor another container has changed.\<close>
theorem gaps_stay_bounded:
  assumes "update_gaps a scope mode px s = (True, t)"
  shows "(scope = ''all'' \<longrightarrow> (\<forall>wss. all_workspaces s = Some wss \<longrightarrow> (\<forall>ws \<in> set wss. 0 \<le> effective_gap a t ws))) \<and>
    (scope = ''current'' \<longrightarrow> (\<exists>ws. focused_workspace s = Some ws \<and>
      - (if a = Gaps_Inner then 0 else g_inner (gaps (store s ws))) \<le> effective_gap a t ws \<and>
      cfg t = cfg s \<and> (\<forall>c. c \<noteq> ws \<longrightarrow> store t c = store s c)))"
proof (intro conjI impI allI ballI)
  fix wss ws
  assume "scope = ''all''" "all_workspaces s = Some wss" "ws \<in> set wss"
  then show "0 \<le> effective_gap a t ws" using gaps_update_effective assms by blast
next
  assume "scope = ''current''"
  then show "\<exists>ws. focused_workspace s = Some ws \<and>
      - (if a = Gaps_Inner then 0 else g_inner (gaps (store s ws))) \<le> effective_gap a t ws \<and>
      cfg t = cfg s \<and> (\<forall>c. c \<noteq> ws \<longrightarrow> store t c = store s c)"
    using gaps_update_current assms by blast
qed

theorem gaps_stay_bounded_witness:
  "\<exists>t. update_gaps Gaps_Top ''all'' ''minus'' 50 sample = (True, t) \<and> 0 \<le> effective_gap Gaps_Top t 7"
proof -
  obtain t where t: "update_gaps Gaps_Top ''all'' ''minus'' 50 sample = (True, t)"
    by (simp add: update_gaps_def gap_value_def Let_def)
  have "all_workspaces sample = Some [5, 6, 7, 8]" by code_simp
  then show ?thesis using gaps_stay_bounded [OF t] t by simp
qed

subsection \<open>The X server, the configuration and the clients\<close>

text \<open>C3: the X server shows the windows in the order i3 keeps. Whatever frames were created, raised,
  killed and exchanged before, and whatever the trees between these operations were, after
  \<open>x_push_changes\<close> the frames of i3 lie on the server, among all the other windows there, in the order
  of the stack that i3 keeps. The id of a new frame is assumed to be none of an existing window.\<close>
theorem frames_stacked_as_kept:
  assumes "(x_step xe others)\<^sup>*\<^sup>* (x_start s ids) x" and "distinct others"
  shows "filter (\<lambda>w. w \<in> set (xs_stack x)) (server (xs_calls (x_push_changes xe c x)) others) = rev (xs_stack x)"
proof -
  have "stack_ok others x" by (rule reachable_stack_ok [OF assms])
  note pushed = x_push_changes_stack [OF this, of xe c]
  show ?thesis using stack_okD(6) [OF pushed(1)] unfolding pushed(2,3) .
qed

theorem frames_stacked_as_kept_witness:
  "let xe = \<lparr>xe_ewmh_window = 3, xe_shape_supported = False, xe_mouse_warping = True, xe_pointer = None\<rparr>;
       x = x_raise_con 9 (x_con_init 12 (x_con_init 9 (x_start sample (\<lambda>n. of_nat n + 10))))
   in filter (\<lambda>w. w \<in> {10, 11}) (server (xs_calls (x_push_changes xe 9 x)) [1, 3]) = [11, 10]"
proof -
  let ?xe = "\<lparr>xe_ewmh_window = 3, xe_shape_supported = False, xe_mouse_warping = True, xe_pointer = None\<rparr>"
  let ?a = "x_start sample (\<lambda>n. of_nat n + 10)"
  let ?b = "x_con_init 9 ?a" and ?c = "x_con_init 12 (x_con_init 9 ?a)"
  let ?x = "x_raise_con 9 ?c"
  have "fresh_id [1, 3] ?a" "fresh_id [1, 3] ?b"
    by (simp_all add: fresh_id_def x_start_def x_con_init_def tell_def server_step_def Let_def)
  then have "(x_step ?xe [1, 3])\<^sup>*\<^sup>* ?a ?x"
    by (meson step_init step_raise rtranclp.rtrancl_into_rtrancl rtranclp.rtrancl_refl)
  from frames_stacked_as_kept [OF this, of 9] show ?thesis
    by (simp add: Let_def) (simp add: x_raise_con_def x_con_init_def x_start_def tell_def Let_def)
qed

text \<open>C12: a key press runs the most specific binding. Among the bindings of a mode, ordered as the
  configuration leaves them, \<open>get_binding\<close> finds for a press a binding that applies to it and whose
  modifiers are at least those of every other binding that applies; it finds none only if none
  applies. Marks that earlier key events left on the bindings do not matter.\<close>
theorem press_runs_most_specific:
  "case snd (get_binding state False code it (md_bindings (reorder_bindings_of_mode m))) of
     None \<Rightarrow> \<forall>b \<in> set (md_bindings m). \<not> press_binding state code it b
   | Some b \<Rightarrow> b \<in> set (md_bindings m) \<and> press_binding state code it b \<and>
       (\<forall>x \<in> set (md_bindings m). press_binding state code it x \<longrightarrow> bd_event_state_mask x \<le> bd_event_state_mask b)"
proof -
  have "set (md_bindings (reorder_bindings_of_mode m)) = set (md_bindings m)"
    using reorder_mset [of m] by (metis set_mset_mset)
  then show ?thesis
    using find_most_specific [OF reorder_sorted]
    by (auto simp: get_binding_press find_None_iff find_Some_iff split: option.split)
qed

theorem press_runs_most_specific_witness:
  "let b = (\<lambda>mask cmd. \<lparr>bd_input_type = B_KEYBOARD, bd_release = B_UPON_KEYPRESS, bd_border = False,
         bd_whole_window = False, bd_exclude_titlebar = False, bd_keycode = 36, bd_event_state_mask = mask,
         bd_symbol = None, bd_keycodes = [\<lparr>bk_keycode = 36, bk_modifiers = 4\<rparr>], bd_command = cmd\<rparr>)
   in (case snd (get_binding 0x10004 False 36 B_KEYBOARD
              (md_bindings (reorder_bindings_of_mode \<lparr>md_name = ''default'', md_pango_markup = False,
                 md_bindings = [b 4 ''plain'', b 0x10004 ''group'']\<rparr>))) of
         None \<Rightarrow> False | Some r \<Rightarrow> r \<in> {b 4 ''plain'', b 0x10004 ''group''} \<and> 0x10004 \<le> bd_event_state_mask r)"
proof -
  let ?b = "\<lambda>mask cmd. \<lparr>bd_input_type = B_KEYBOARD, bd_release = B_UPON_KEYPRESS, bd_border = False,
         bd_whole_window = False, bd_exclude_titlebar = False, bd_keycode = 36, bd_event_state_mask = mask,
         bd_symbol = None, bd_keycodes = [\<lparr>bk_keycode = 36, bk_modifiers = 4\<rparr>], bd_command = cmd\<rparr>"
  have p: "press_binding 0x10004 36 B_KEYBOARD (?b 0x10004 ''group'')"
    by (simp add: press_binding_def binding_applies_def mods_accepted_def low_half_def high_half_def)
  show ?thesis
    using press_runs_most_specific [where state = "0x10004" and code = 36 and it = B_KEYBOARD and m = "\<lparr>md_name = ''default'', md_pango_markup = False,
                 md_bindings = [?b 4 ''plain'', ?b 0x10004 ''group'']\<rparr>"] p
    by (auto simp: Let_def split: option.splits)
qed

text \<open>C21: after \<open>disable_clones\<close> no two different outputs that stay enabled are at the same position, so
  no screen is shown twice, however many clones RandR reports and in whatever order.\<close>
theorem clones_are_disabled:
  assumes "distinct (output_keys s)" and "k \<in> set (output_keys s)" and "j \<in> set (output_keys s)" and "k \<noteq> j"
    and "output_at (disable_clones s) k = Some a" and "enabled a"
    and "output_at (disable_clones s) j = Some b" and "enabled b"
  shows "(rect_x (o_rect a), rect_y (o_rect a)) \<noteq> (rect_x (o_rect b), rect_y (o_rect b))"
proof -
  obtain us vs where keys: "output_keys s = us @ k # vs" using assms(2) by (metis split_list)
  show ?thesis
  proof (cases "j \<in> set vs")
    case True
    from clones_apart [OF assms(1) keys this assms(5,7,6,8)] show ?thesis by (simp add: same_place_def)
  next
    case False
    with keys assms(3,4) have "j \<in> set us" by simp
    then obtain us' ws where "us = us' @ j # ws" by (metis split_list)
    then have "output_keys s = us' @ j # (ws @ k # vs)" and "k \<in> set (ws @ k # vs)" using keys by simp_all
    from clones_apart [OF assms(1) this assms(7,5,8,6)] show ?thesis by (auto simp: same_place_def)
  qed
qed

theorem clones_are_disabled_witness:
  "case (output_at (disable_clones sample) 0, output_at (disable_clones sample) 1) of
     (Some a, Some b) \<Rightarrow> (rect_x (o_rect a), rect_y (o_rect a)) \<noteq> (rect_x (o_rect b), rect_y (o_rect b))
   | _ \<Rightarrow> False"
proof -
  have "\<exists>a. output_at (disable_clones sample) 0 = Some a \<and> enabled a" and "\<exists>b. output_at (disable_clones sample) 1 = Some b \<and> enabled b"
    by (simp_all add: sample_def disable_clones_def each_output_def check_clone_def output_at_def output_keys_def
        with_output_def enabled_def mk_rect_def Let_def)
  then obtain a b where ab: "output_at (disable_clones sample) 0 = Some a" "enabled a"
      "output_at (disable_clones sample) 1 = Some b" "enabled b" by blast
  moreover have "distinct (output_keys sample)" "0 \<in> set (output_keys sample)" "1 \<in> set (output_keys sample)"
    by (simp_all add: sample_def output_keys_def)
  ultimately show ?thesis using clones_are_disabled [of sample 0 1 a b] by simp
qed



text \<open>C26: what is sent over the IPC socket is what is received. A message whose payload is shorter than
  \<open>2 ^ 32\<close> bytes, written by \<open>ipc_send_message\<close>, is read by \<open>ipc_recv_message\<close> as the same type and
  payload, whatever follows it on the socket and in whatever pieces the kernel delivers the bytes, and
  nothing of what follows is consumed.\<close>
theorem ipc_message_roundtrip:
  assumes "length payload < 2 ^ 32" and "length payload + 14 \<le> length answers"
    and "\<forall>a \<in> set answers. \<exists>n > 0. a = Read_Up_To n"
  shows "\<exists>left. ipc_recv_message answers (ipc_message t payload @ rest) = Some (Inr (t, payload), left, rest)"
  by (rule message_received) (use assms in \<open>simp_all add: flowing_def\<close>)

theorem ipc_message_roundtrip_witness:
  "\<exists>left. ipc_recv_message (replicate 20 (Read_Up_To 3)) (ipc_message 4 ''{}'' @ ''i3-ipc'') =
     Some (Inr (4, ''{}''), left, ''i3-ipc'')"
  by (rule ipc_message_roundtrip) simp_all

text \<open>C28: i3bar shows the workspaces that i3 has. The reply of i3 to \<open>GET_WORKSPACES\<close>, read by the
  callbacks of i3bar, is accepted as a whole; every output of the bar then has exactly the workspaces that i3
  keeps below the output of that name, each once, in the order of the tree, with the number, the name,
  the visibility, the focus and the urgency that i3 sent. The bar's outputs have different names and
  contain the outputs of i3; no output is called \<open>primary\<close>.\<close>
theorem bar_shows_workspaces:
  assumes "get_workspaces s = Some j" and "names_ok outs"
    and "\<forall>out \<in> set (shown_outputs s). managed outs (cname (store s out))"
  shows "\<exists>q. run_callbacks (workspaces_event config text_width) (events_of j) (ws_start outs ws nxt) = Go q \<and>
    (\<forall>n. shown q n = map (read_entry config text_width) (filter (\<lambda>e. en_output e = n) (workspace_entries s)))"
  by (rule read_workspaces [OF assms])

theorem bar_shows_workspaces_witness:
  "let out = (\<lambda>n. \<lparr>bo_name = Some n, bo_active = True, bo_primary = False, bo_visible = True, bo_ws = 0,
         bo_rect = \<lparr>br_x = 0, br_y = 0, br_w = 1920, br_h = 20\<rparr>, bo_statusline_width = 0, bo_bar = 0, bo_workspaces = [],
         bo_trayclients = []\<rparr>);
       config = \<lparr>ct_modifier = 0, ct_bindings = [], ct_position = POS_BOT, ct_verbose = False, ct_bar_height = 0,
         ct_padding = mk_rect 0 0 0 0, ct_colors = (\<lambda>_. None), ct_disable_binding_mode_indicator = False,
         ct_disable_ws = False, ct_ws_min_width = 0, ct_strip_ws_numbers = False, ct_strip_ws_name = False,
         ct_bar_id = None, ct_command = None, ct_workspace_command = None, ct_fontname = None,
         ct_separator_symbol = None, ct_tray_outputs = [], ct_tray_padding = 0, ct_outputs = [],
         ct_hide_on_modifier = M_DOCK, ct_hidden_state = S_SHOW\<rparr>;
       outs = [out ''HDMI-1'', out ''eDP-1'']
   in (\<exists>j q. get_workspaces sample = Some j \<and>
         run_callbacks (workspaces_event config (\<lambda>_. 10)) (events_of j) (ws_start outs (\<lambda>_. read_ws config (\<lambda>_. 10) (en_data (workspace_entry sample 1 5)) [] []) 0) = Go q \<and>
         length (shown q ''eDP-1'') = length (filter (\<lambda>e. en_output e = ''eDP-1'') (workspace_entries sample)))"
proof -
  have "get_workspaces sample \<noteq> None"
    by code_simp
  then obtain j where j: "get_workspaces sample = Some j" by blast
  have outs: "\<forall>out \<in> set (shown_outputs sample). cname (store sample out) \<in> {''eDP-1'', ''HDMI-1''}"
    by code_simp
  have "\<not> caseless_eq ''eDP-1'' ''primary''" "\<not> caseless_eq ''HDMI-1'' ''primary''"
    by code_simp+
  with outs have m: "\<forall>out \<in> set (shown_outputs sample). managed outs (cname (store sample out))"
    if "map bo_name outs = [Some ''HDMI-1'', Some ''eDP-1'']" for outs
    using that by (auto simp: managed_def)
  have n: "names_ok outs" if "map bo_name outs = [Some ''HDMI-1'', Some ''eDP-1'']" for outs
    using that by (simp add: names_ok_def)
  have all: "\<exists>j q. get_workspaces sample = Some j \<and>
      run_callbacks (workspaces_event config w) (events_of j) (ws_start outs ws 0) = Go q \<and>
      length (shown q ''eDP-1'') = length (filter (\<lambda>e. en_output e = ''eDP-1'') (workspace_entries sample))"
    if "map bo_name outs = [Some ''HDMI-1'', Some ''eDP-1'']" for config outs w ws
    using bar_shows_workspaces [OF j n [OF that] m [OF that], of config w ws 0] j by (metis length_map)
  show ?thesis unfolding Let_def by (rule all) simp
qed

text \<open>C40: i3bar understands its configuration. The reply of i3 to \<open>GET_BAR_CONFIG\<close> for any bar, whatever is
  configured, is accepted by the callbacks of i3bar from the first to the last token (none of them fails or ends the
  program), and what i3bar then holds is what i3 was configured with: outputs and tray outputs, bindings, mode, hidden
  state, modifier, position, commands, padding and flags. A workspace command is dropped when the
  buttons are hidden.\<close>
theorem bar_config_understood:
  assumes "\<not> cp_bindings p" and "\<not> cp_tray_outputs p"
  shows "\<exists>q. parse_config_json (events_of (dump_bar_config s bc)) p = Some q \<and>
    ct_outputs (cp_config q) = ct_outputs (cp_config p) @ map (canonicalize_output_name s) (bc_outputs bc) \<and>
    ct_tray_outputs (cp_config q) = map (canonicalize_output_name s) (bc_tray_outputs bc) \<and>
    ct_bindings (cp_config q) = bar_bindings (bc_bar_bindings bc) \<and>
    ct_hide_on_modifier (cp_config q) = bc_mode bc \<and> ct_hidden_state (cp_config q) = bc_hidden_state bc \<and>
    ct_modifier (cp_config q) = bc_modifier bc \<and> ct_position (cp_config q) = bar_position (bc_position bc) \<and>
    ct_command (cp_config q) = given (bc_status_command bc) (ct_command (cp_config p)) \<and>
    ct_workspace_command (cp_config q) =
      (if bc_hide_workspace_buttons bc then None
       else given (bc_workspace_command bc) (ct_workspace_command (cp_config p))) \<and>
    ct_padding (cp_config q) = bc_padding bc \<and> ct_disable_ws (cp_config q) = bc_hide_workspace_buttons bc \<and>
    ct_strip_ws_numbers (cp_config q) = bc_strip_workspace_numbers bc \<and>
    ct_strip_ws_name (cp_config q) = bc_strip_workspace_name bc"
proof -
  let ?p = "p\<lparr>cp_config := (cp_config p)\<lparr>ct_bindings := [], ct_tray_outputs := []\<rparr>\<rparr>"
  have "off ?p" using assms by (simp add: off_def)
  from readsD [OF reads_dump this, of s bc] obtain q where
    "run_callbacks config_event (events_of (dump_bar_config s bc)) ?p = Go q"
    "cp_config q = read_bar_config s bc (cp_config ?p)" by blast
  then show ?thesis by (simp add: parse_config_json_def read_bar_config_def)
qed

theorem bar_config_understood_witness:
  "\<exists>q. parse_config_json (events_of (dump_bar_config sample
       \<lparr>bc_id = ''bar-0'', bc_outputs = [''primary''], bc_tray_outputs = [''eDP-1''], bc_tray_padding = 2, bc_socket_path = None,
        bc_mode = M_HIDE, bc_hidden_state = S_HIDE, bc_modifier = 64,
        bc_bar_bindings = [], bc_position = P_TOP, bc_i3bar_command = None, bc_status_command = Some ''i3status'',
        bc_workspace_command = Some ''ws'', bc_font = Some ''mono'', bc_separator_symbol = Some ''|'',
        bc_hide_workspace_buttons = True, bc_workspace_min_width = 0, bc_strip_workspace_numbers = False,
        bc_strip_workspace_name = True, bc_hide_binding_mode_indicator = False, bc_verbose = False, bc_bar_height = 0,
        bc_padding = mk_rect 1 2 3 4, bc_colors = (\<lambda>_. Some ''#ffffff'')\<rparr>))
      \<lparr>cp_config = \<lparr>ct_modifier = 0, ct_bindings = [], ct_position = POS_NONE, ct_verbose = False, ct_bar_height = 0,
         ct_padding = mk_rect 0 0 0 0, ct_colors = (\<lambda>_. None), ct_disable_binding_mode_indicator = False,
         ct_disable_ws = False, ct_ws_min_width = 0, ct_strip_ws_numbers = False, ct_strip_ws_name = False,
         ct_bar_id = None, ct_command = None, ct_workspace_command = None, ct_fontname = None,
         ct_separator_symbol = None, ct_tray_outputs = [], ct_tray_padding = 0, ct_outputs = [],
         ct_hide_on_modifier = M_DOCK, ct_hidden_state = S_SHOW\<rparr>,
       cp_key = None, cp_bindings = False, cp_tray_outputs = False, cp_padding = False\<rparr> = Some q \<and>
     ct_modifier (cp_config q) = 64 \<and> ct_hide_on_modifier (cp_config q) = M_HIDE \<and>
     ct_position (cp_config q) = POS_TOP \<and> ct_workspace_command (cp_config q) = None"
proof -
  have read: "\<exists>q. parse_config_json (events_of (dump_bar_config s bc)) p = Some q \<and>
      ct_modifier (cp_config q) = 64 \<and> ct_hide_on_modifier (cp_config q) = M_HIDE \<and>
      ct_position (cp_config q) = POS_TOP \<and> ct_workspace_command (cp_config q) = None"
    if "\<not> cp_bindings p" "\<not> cp_tray_outputs p" "bc_modifier bc = 64" "bc_mode bc = M_HIDE" "bc_position bc = P_TOP"
      "bc_hide_workspace_buttons bc" for s bc p
    using bar_config_understood [OF that(1,2), of s bc] that(3-6) by (auto simp: bar_position_def)
  show ?thesis by (rule read) simp_all
qed

text \<open>C25: variables of the configuration are replaced by the longest name that fits. Whatever variables a
  file sets, in whatever order and however often, the occurrence that is replaced next is the nearest one
  of any variable, and among the variables that occur there it is the one with the longest name; the loop
  finds no variable only if none occurs.\<close>
theorem nearest_variable_chosen:
  "case nearest_variable walk (fold (\<lambda>(k, v). upsert_variable k v) defs []) None of
     None \<Rightarrow> \<forall>(k, v) \<in> set (fold (\<lambda>(k, v). upsert_variable k v) defs []). strcasestr walk k = None
   | Some (d, k, v) \<Rightarrow> (k, v) \<in> set (fold (\<lambda>(k, v). upsert_variable k v) defs []) \<and> strcasestr walk k = Some d \<and>
       (\<forall>(k', v') \<in> set (fold (\<lambda>(k, v). upsert_variable k v) defs []). \<forall>d'.
          strcasestr walk k' = Some d' \<longrightarrow> d \<le> d' \<and> (d' = d \<longrightarrow> length k' \<le> length k))"
proof -
  have "longest_first (fold (\<lambda>(k, v). upsert_variable k v) defs vars)" if "longest_first vars" for vars
    using that by (induction defs arbitrary: vars) (auto intro: upsert_variable_sorted)
  then have "longest_first (fold (\<lambda>(k, v). upsert_variable k v) defs [])" by (simp add: longest_first_def)
  from nearest_variable_longest [OF this, of walk] nearest_variable_None [OF this, of walk] show ?thesis
    by (auto simp: best_so_far_def split: option.split)
qed

theorem nearest_variable_chosen_witness:
  "nearest_variable ''exec $x$yzzz'' (fold (\<lambda>(k, v). upsert_variable k v) [(''$x'', ''a''), (''$x$y'', ''b'')] []) None =
     Some (5, ''$x$y'', ''b'')"
proof -
  let ?w = "''exec $x$yzzz''" and ?vars = "fold (\<lambda>(k, v). upsert_variable k v) [(''$x'', ''a''), (''$x$y'', ''b'')] []"
  have vars: "set ?vars = {(''$x'', ''a''), (''$x$y'', ''b'')}" and hit: "strcasestr ?w ''$x$y'' = Some 5"
    by code_simp+
  then have "nearest_variable ?w ?vars None \<noteq> None"
    using nearest_variable_chosen [where walk = ?w and defs = "[(''$x'', ''a''), (''$x$y'', ''b'')]"] by (auto split: option.splits)
  then obtain d k v where found: "nearest_variable ?w ?vars None = Some (d, k, v)" by auto
  then have "(k, v) \<in> set ?vars" "strcasestr ?w k = Some d"
    "\<forall>(k', v') \<in> set ?vars. \<forall>d'. strcasestr ?w k' = Some d' \<longrightarrow> d \<le> d' \<and> (d' = d \<longrightarrow> length k' \<le> length k)"
    using nearest_variable_chosen [where walk = ?w and defs = "[(''$x'', ''a''), (''$x$y'', ''b'')]"] by (auto simp del: fold.simps)
  moreover have "strcasestr ?w ''$x'' = Some 5" by code_simp
  ultimately show ?thesis using hit unfolding vars found by auto
qed

text \<open>C23: a window that offers icons gets a suitable one. From the words of \<open>_NET_WM_ICON\<close>, which
  hold any number of icons of any sizes, \<open>window_update_icon\<close> takes one of them, with the pixels and the
  size that were sent (the colours premultiplied by their alpha); if any icon has exactly the preferred size, it has,
  and if any is at least that large, it is.\<close>
theorem icon_chosen:
  assumes "is \<noteq> []" and "\<forall>i \<in> set is. icon_ok i" and "4 * length (concat (map icon_words is)) < 2 ^ 32"
  shows "\<exists>i \<in> set is.
     window_update_icon pref (Some (concat (map icon_words is))) w =
       Some (Icon (im_width i) (im_height i) (map premultiplied (im_pixels i)), w\<lparr>w_name_x_changed := True\<rparr>) \<and>
     (\<forall>j \<in> set is. (exact_icon pref j \<longrightarrow> exact_icon pref i) \<and> (large_icon pref j \<longrightarrow> large_icon pref i))"
  by (rule window_icon_chosen [OF assms])

theorem icon_chosen_witness:
  "\<exists>px. window_update_icon 2 (Some [1, 1, 0xff000000, 2, 2, 1, 2, 3, 4, 3, 1, 5, 6, 7]) (sample_window 1 ''w'') =
     Some (Icon 2 2 px, (sample_window 1 ''w'')\<lparr>w_name_x_changed := True\<rparr>)"
proof -
  let ?is = "[\<lparr>im_width = 1, im_height = 1, im_pixels = [0xff000000]\<rparr>, \<lparr>im_width = 2, im_height = 2, im_pixels = [1, 2, 3, 4]\<rparr>,
    \<lparr>im_width = 3, im_height = 1, im_pixels = [5, 6, 7]\<rparr>]"
  have "\<forall>i \<in> set ?is. icon_ok i" by (simp add: icon_ok_def)
  from icon_chosen [OF _ this, of 2 "sample_window 1 ''w''"] show ?thesis
    by (auto simp: icon_words_def exact_icon_def)
qed






end
